(* ===== verification/Pwm_Prelude.thy ===== *)
theory Pwm_Prelude
  imports Main "HOL-Library.Word" "HOL-Library.Finite_Map"
begin

text \<open>
  Shared vocabulary of the development: machine integers at the width the Rust code gives
  them, the arithmetic the code calls on them (checked, saturating), fixed-width byte
  encodings, the outcome of a state-mutating call, and sums over finite maps.

  The workspace builds with overflow checks in every profile (src/Cargo.toml,
  \<open>overflow-checks = true\<close>), so an unchecked \<open>+=\<close> that would wrap is a panic; such an
  operation is \<open>checked_add\<close> here with the panic as the \<open>None\<close> branch.
\<close>

unbundle bit_operations_syntax

named_theorems pwm_unat \<open>readings of machine arithmetic as natural numbers\<close>
named_theorems pwm_codec \<open>prefix-freeness of the byte encoders\<close>

section \<open>Machine integers and byte strings\<close>

type_synonym u8 = "8 word"
type_synonym u16 = "16 word"
type_synonym u32 = "32 word"
type_synonym u64 = "64 word"
type_synonym u128 = "128 word"

type_synonym bytes = "u8 list"

text \<open>
  \<open>[u8; 32]\<close> and \<open>[u8; 64]\<close> are the words of 256 and 512 bits whose big-endian bytes they
  are: the length is in the type, and the order of the words is the lexicographic order of
  the arrays, which is the order of the Rust \<open>BTreeMap\<close>s keyed by them.
\<close>

type_synonym bytes32 = "256 word"
type_synonym bytes64 = "512 word"

section \<open>Arithmetic of the Rust integer types\<close>

definition checked_add :: "'a::len word \<Rightarrow> 'a word \<Rightarrow> 'a word option" where
  "checked_add a b = (if unat a + unat b < 2 ^ LENGTH('a) then Some (a + b) else None)"

definition checked_sub :: "'a::len word \<Rightarrow> 'a word \<Rightarrow> 'a word option" where
  "checked_sub a b = (if b \<le> a then Some (a - b) else None)"

definition checked_mul :: "'a::len word \<Rightarrow> 'a word \<Rightarrow> 'a word option" where
  "checked_mul a b = (if unat a * unat b < 2 ^ LENGTH('a) then Some (a * b) else None)"

definition sat_add :: "'a::len word \<Rightarrow> 'a word \<Rightarrow> 'a word" where
  "sat_add a b = (if unat a + unat b < 2 ^ LENGTH('a) then a + b else - 1)"

definition sat_sub :: "'a::len word \<Rightarrow> 'a word \<Rightarrow> 'a word" where
  "sat_sub a b = (if b \<le> a then a - b else 0)"

definition sat_mul :: "'a::len word \<Rightarrow> 'a word \<Rightarrow> 'a word" where
  "sat_mul a b = (if unat a * unat b < 2 ^ LENGTH('a) then a * b else - 1)"

lemma unat_max_word [simp]: "unat (- 1 :: 'a::len word) = 2 ^ LENGTH('a) - 1"
  by (simp add: unsigned_minus_1_eq_mask mask_eq_exp_minus_1)

lemma unat_le_max: "unat (a :: 'a::len word) \<le> 2 ^ LENGTH('a) - 1"
proof -
  have "unat a < 2 ^ LENGTH('a)" by (rule unsigned_less)
  then show ?thesis by linarith
qed

lemma unat_plus_small [pwm_unat]:
  fixes a b :: "'a::len word"
  assumes "unat a + unat b < 2 ^ LENGTH('a)"
  shows "unat (a + b) = unat a + unat b"
  using assms by (simp add: unat_word_ariths)

lemma unat_minus_le [pwm_unat]: "b \<le> a \<Longrightarrow> unat (a - b) = unat a - unat b"
  by (simp add: unat_sub word_le_nat_alt)

lemma checked_add_Some [pwm_unat]:
  "checked_add a b = Some c \<Longrightarrow> unat c = unat a + unat b"
  by (auto simp: checked_add_def pwm_unat split: if_splits)

lemma checked_add_None:
  fixes a :: "'a::len word"
  shows "checked_add a b = None \<longleftrightarrow> 2 ^ LENGTH('a) \<le> unat a + unat b"
  by (auto simp: checked_add_def)

lemma checked_sub_Some [pwm_unat]:
  "checked_sub a b = Some c \<Longrightarrow> unat c = unat a - unat b \<and> unat b \<le> unat a"
  by (auto simp: checked_sub_def pwm_unat word_le_nat_alt split: if_splits)

lemma unat_sat_add [pwm_unat]:
  "unat (sat_add a (b :: 'a::len word)) = min (unat a + unat b) (2 ^ LENGTH('a) - 1)"
  by (auto simp: sat_add_def pwm_unat)

lemma unat_sat_add_le: "unat (sat_add a b) \<le> unat a + unat b"
  by (simp add: unat_sat_add)

lemma sat_add_ge: "unat a \<le> unat (sat_add a b)"
  using unat_le_max [of a] by (simp add: unat_sat_add)

lemma sat_add_0 [simp]: "sat_add a 0 = a"
  by (simp add: sat_add_def)

lemma unat_sat_add_exact:
  fixes a :: "'a::len word"
  assumes "unat a + unat b < 2 ^ LENGTH('a)"
  shows "unat (sat_add a b) = unat a + unat b"
  using assms by (simp add: unat_sat_add)

lemma unat_sat_sub [pwm_unat]: "unat (sat_sub a b) = unat a - unat b"
  by (auto simp: sat_sub_def pwm_unat word_le_nat_alt)

lemma unat_mult_small [pwm_unat]:
  fixes a b :: "'a::len word"
  assumes "unat a * unat b < 2 ^ LENGTH('a)"
  shows "unat (a * b) = unat a * unat b"
  using assms by (simp add: unat_word_ariths)

lemma unat_sat_mul [pwm_unat]:
  "unat (sat_mul a (b :: 'a::len word)) = min (unat a * unat b) (2 ^ LENGTH('a) - 1)"
  by (auto simp: sat_mul_def pwm_unat)

section \<open>Fixed-width byte encodings\<close>

text \<open>
  \<open>to_le_bytes\<close> and \<open>to_be_bytes\<close> of the integer types, with the number of bytes as an
  argument; \<open>be_bytes 32\<close> reads a \<open>[u8; 32]\<close> as its bytes.
\<close>

definition le_bytes :: "nat \<Rightarrow> 'a::len word \<Rightarrow> bytes" where
  "le_bytes n w = map (\<lambda>i. ucast (drop_bit (8 * i) w)) [0..<n]"

definition be_bytes :: "nat \<Rightarrow> 'a::len word \<Rightarrow> bytes" where
  "be_bytes n w = rev (le_bytes n w)"

text \<open>\<open>from_be_bytes\<close>: the first byte is the most significant one.\<close>

definition from_be :: "bytes \<Rightarrow> 'a::len word" where
  "from_be bs = foldl (\<lambda>acc b. push_bit 8 acc OR ucast b) 0 bs"

lemma length_le_bytes [simp]: "length (le_bytes n w) = n"
  by (simp add: le_bytes_def)

lemma length_be_bytes [simp]: "length (be_bytes n w) = n"
  by (simp add: be_bytes_def)

lemma bit_le_bytes:
  assumes "i < n" "j < 8"
  shows "bit (le_bytes n w ! i) j = bit w (8 * i + j)"
  using assms by (simp add: le_bytes_def bit_simps)

lemma le_bytes_inj:
  fixes x y :: "'a::len word"
  assumes eq: "le_bytes n x = le_bytes n y" and len: "LENGTH('a) \<le> 8 * n"
  shows "x = y"
proof (rule bit_word_eqI)
  fix k assume k: "k < LENGTH('a)"
  have i: "k div 8 < n" using k len by simp
  have "bit (le_bytes n x ! (k div 8)) (k mod 8) = bit (le_bytes n y ! (k div 8)) (k mod 8)"
    by (simp add: eq)
  then show "bit x k = bit y k"
    using i by (simp add: bit_le_bytes)
qed

lemma be_bytes_inj:
  fixes x y :: "'a::len word"
  shows "be_bytes n x = be_bytes n y \<Longrightarrow> LENGTH('a) \<le> 8 * n \<Longrightarrow> x = y"
  by (auto simp: be_bytes_def dest: le_bytes_inj)

lemma foldl_be_bit:
  fixes acc :: "'a::len word" and bs :: bytes
  shows "bit (foldl (\<lambda>acc b. push_bit 8 acc OR ucast b) acc bs) n \<longleftrightarrow>
    n < LENGTH('a) \<and> (if n < 8 * length bs then bit (bs ! (length bs - 1 - n div 8)) (n mod 8)
       else bit acc (n - 8 * length bs))"
proof (induction bs arbitrary: n rule: rev_induct)
  case Nil
  then show ?case by (auto dest: bit_imp_le_length)
next
  case (snoc b bs)
  show ?case
  proof (cases "n < 8")
    case True
    then show ?thesis by (auto simp: bit_simps)
  next
    case False
    then have "\<not> bit b n" using bit_imp_le_length [of b n] by auto
    then have "bit (foldl (\<lambda>acc b. push_bit 8 acc OR ucast b) acc (bs @ [b])) n \<longleftrightarrow>
        n < LENGTH('a) \<and> bit (foldl (\<lambda>acc b. push_bit 8 acc OR ucast b) acc bs) (n - 8)"
      using False by (auto simp: bit_simps dest: bit_imp_le_length)
    moreover have "n div 8 = Suc ((n - 8) div 8)" "n mod 8 = (n - 8) mod 8"
      using False by (simp_all add: le_div_geq le_mod_geq)
    moreover have "length bs - 1 - (n - 8) div 8 = length (bs @ [b]) - 1 - n div 8" 
      using calculation(2) by simp
    ultimately show ?thesis
      using False by (auto simp: snoc nth_append)
  qed
qed

lemma from_be_bytes:
  fixes w :: "'a::len word"
  assumes "LENGTH('a) = 8 * n"
  shows "from_be (be_bytes n w) = w"
proof (rule bit_word_eqI)
  fix k assume k: "k < LENGTH('a)"
  then have i: "k div 8 < n" using assms by simp
  have "bit (from_be (be_bytes n w) :: 'a word) k \<longleftrightarrow> bit (be_bytes n w ! (n - 1 - k div 8)) (k mod 8)"
    using k assms by (simp add: from_be_def foldl_be_bit)
  also have "be_bytes n w ! (n - 1 - k div 8) = le_bytes n w ! (k div 8)"
    using i by (simp add: be_bytes_def rev_nth Suc_diff_Suc)
  also have "bit (le_bytes n w ! (k div 8)) (k mod 8) = bit w (8 * (k div 8) + k mod 8)"
    using i by (simp add: bit_le_bytes)
  finally show "bit (from_be (be_bytes n w) :: 'a word) k = bit w k" by simp
qed

lemma be_bytes_nth: "i < n \<Longrightarrow> be_bytes n w ! i = ucast (drop_bit (8 * (n - 1 - i)) w)"
  by (simp add: be_bytes_def le_bytes_def rev_nth)

lemma be_bytes_from_be:
  assumes n: "length bs = n" and len: "LENGTH('a::len) = 8 * n"
  shows "be_bytes n (from_be bs :: 'a word) = bs"
proof (rule nth_equalityI)
  fix i assume "i < length (be_bytes n (from_be bs :: 'a word))"
  then have i: "i < n" by simp
  show "be_bytes n (from_be bs :: 'a word) ! i = bs ! i"
  proof (rule bit_word_eqI)
    fix k assume k: "k < LENGTH(8)"
    let ?j = "8 * (n - 1 - i) + k"
    have j: "?j < 8 * n" "n - 1 - ?j div 8 = i" "?j mod 8 = k" using i k by auto
    have "bit (be_bytes n (from_be bs :: 'a word) ! i) k = bit (from_be bs :: 'a word) ?j"
      using i k by (simp add: be_bytes_nth bit_simps add.commute)
    also have "\<dots> = bit (bs ! i) k" using j n len by (simp add: from_be_def foldl_be_bit)
    finally show "bit (be_bytes n (from_be bs :: 'a word) ! i) k = bit (bs ! i) k" .
  qed
qed (simp add: n)

section \<open>The outcome of a call that mutates a state\<close>

text \<open>
  A method \<open>fn f(&mut self, ..) -> Result<(), E>\<close> leaves a state behind whether it returns
  \<open>Ok\<close> or \<open>Err\<close>; \<open>Panicked\<close> is a panic (overflow check, \<open>expect\<close>, index out of range).
\<close>

datatype ('e, 's) outcome = Done 's | Failed 'e 's | Panicked

fun outcome_state :: "('e, 's) outcome \<Rightarrow> 's option" where
  "outcome_state (Done s) = Some s"
| "outcome_state (Failed e s) = Some s"
| "outcome_state Panicked = None"

text \<open>A sequence of steps stops at the first that does not succeed.\<close>

fun run_steps :: "('x \<Rightarrow> 's \<Rightarrow> ('e, 's) outcome) \<Rightarrow> 'x list \<Rightarrow> 's \<Rightarrow> ('e, 's) outcome" where
  "run_steps f [] s = Done s"
| "run_steps f (x # xs) s =
     (case f x s of Done s' \<Rightarrow> run_steps f xs s' | Failed e s' \<Rightarrow> Failed e s' | Panicked \<Rightarrow> Panicked)"

lemma run_steps_append:
  "run_steps f (xs @ ys) s =
     (case run_steps f xs s of Done s' \<Rightarrow> run_steps f ys s'
      | Failed e s' \<Rightarrow> Failed e s' | Panicked \<Rightarrow> Panicked)"
  by (induction xs arbitrary: s) (auto split: outcome.splits)

text \<open>
  The contract of a step that keeps an invariant and never lowers a measure of the state:
  the two facts a caller that runs many steps needs, proved once for every step relation.
\<close>

locale guarded_steps =
  fixes step :: "'x \<Rightarrow> 's \<Rightarrow> ('e, 's) outcome"
    and inv :: "'s \<Rightarrow> bool"
    and rel :: "'s \<Rightarrow> 's \<Rightarrow> bool"
  assumes step_inv: "inv s \<Longrightarrow> step x s = Done s' \<Longrightarrow> inv s'"
    and step_rel: "inv s \<Longrightarrow> step x s = Done s' \<Longrightarrow> rel s s'"
    and rel_refl: "rel s s"
    and rel_trans: "rel s t \<Longrightarrow> rel t u \<Longrightarrow> rel s u"
begin

lemma run_inv: "inv s \<Longrightarrow> run_steps step xs s = Done s' \<Longrightarrow> inv s'"
  by (induction xs arbitrary: s) (auto intro: step_inv split: outcome.splits)

lemma run_rel: "inv s \<Longrightarrow> run_steps step xs s = Done s' \<Longrightarrow> rel s s'"
proof (induction xs arbitrary: s)
  case Nil
  then show ?case by (simp add: rel_refl)
next
  case (Cons x xs)
  then obtain t where "step x s = Done t" "run_steps step xs t = Done s'"
    by (auto split: outcome.splits)
  with Cons show ?case
    by (meson rel_trans step_inv step_rel)
qed

end

section \<open>Finite maps\<close>

text \<open>The Rust \<open>BTreeMap\<close> is a finite map; \<open>fm_sum\<close> adds a measure of its values.\<close>

definition fm_sum :: "('v \<Rightarrow> nat) \<Rightarrow> ('k, 'v) fmap \<Rightarrow> nat" where
  "fm_sum f m = (\<Sum>k\<in>fmdom' m. f (the (fmlookup m k)))"

lemma fm_sum_empty [simp]: "fm_sum f fmempty = 0"
  by (simp add: fm_sum_def)

lemma fm_sum_upd_new:
  assumes "fmlookup m k = None"
  shows "fm_sum f (fmupd k v m) = f v + fm_sum f m"
proof -
  have k: "k \<notin> fmdom' m" using assms by (auto simp: fmlookup_dom'_iff)
  have "(\<Sum>x\<in>fmdom' m. f (the (fmlookup (fmupd k v m) x))) = fm_sum f m"
    unfolding fm_sum_def using k by (intro sum.cong) auto
  then show ?thesis
    using k by (simp add: fm_sum_def)
qed

lemma fm_sum_remove:
  assumes "fmlookup m k = Some v0"
  shows "fm_sum f m = f v0 + fm_sum f (fmdrop k m)"
proof -
  have k: "k \<in> fmdom' m" using assms by (auto simp: fmlookup_dom'_iff)
  have "fm_sum f m = f v0 + (\<Sum>x\<in>fmdom' m - {k}. f (the (fmlookup m x)))"
    unfolding fm_sum_def using k assms by (simp add: sum.remove)
  also have "(\<Sum>x\<in>fmdom' m - {k}. f (the (fmlookup m x))) = fm_sum f (fmdrop k m)"
    unfolding fm_sum_def by (auto intro: sum.cong)
  finally show ?thesis .
qed

lemma fmupd_drop: "fmupd k v (fmdrop k m) = fmupd k v m"
  by (intro fmap_ext) auto

lemma fm_sum_upd:
  assumes "fmlookup m k = Some v0"
  shows "fm_sum f (fmupd k v m) + f v0 = fm_sum f m + f v"
proof -
  have "fm_sum f (fmupd k v m) = f v + fm_sum f (fmdrop k m)"
    using fm_sum_upd_new [of "fmdrop k m" k f v] by (simp add: fmupd_drop)
  with fm_sum_remove [OF assms, of f] show ?thesis by simp
qed

lemma fm_sum_ge: "fmlookup m k = Some v \<Longrightarrow> f v \<le> fm_sum f m"
  by (simp add: fm_sum_remove [of m k v f])

end
