(* ===== verification/Pwm_Str.thy ===== *)
theory Pwm_Str
  imports Pwm_Prelude
begin

text \<open>
  The string operations of the Rust standard library that the code calls. A Rust
  \<open>String\<close> is a sequence of UTF-8 bytes, and so is the \<open>string\<close> (a list of \<open>char\<close>, each
  one byte) that stands for it here: \<open>as_bytes\<close> is a map, \<open>len\<close> is the list's length, and
  the operations that read code points (\<open>trim\<close>, \<open>chars\<close>) read their UTF-8 encoding.
\<close>

section \<open>Bytes of a string\<close>

definition as_bytes :: "string \<Rightarrow> bytes" where
  "as_bytes s = map of_char s"

lemma length_as_bytes [simp]: "length (as_bytes s) = length s"
  by (simp add: as_bytes_def)

lemma of_char_u8_inj: "(of_char c :: u8) = of_char d \<longleftrightarrow> c = d"
proof
  assume eq: "(of_char c :: u8) = of_char d"
  have conv: "unat (of_char e :: u8) = (of_char e :: nat)" for e
  proof -
    have "(of_char e :: u8) = of_nat (of_char e)" by (simp add: of_nat_of_char)
    moreover have "(of_char e :: nat) < 256" by simp
    ultimately show ?thesis by (simp add: unat_of_nat)
  qed
  have "(of_char c :: nat) = unat (of_char c :: u8)" by (rule conv [symmetric])
  also have "\<dots> = unat (of_char d :: u8)" by (simp only: eq)
  also have "\<dots> = of_char d" by (rule conv)
  finally have "(of_char c :: nat) = of_char d" .
  then show "c = d" by simp
qed simp

lemma as_bytes_inj: "as_bytes s = as_bytes t \<longleftrightarrow> s = t"
proof -
  have "inj (of_char :: char \<Rightarrow> u8)" by (rule injI) (simp add: of_char_u8_inj)
  then show ?thesis by (simp add: as_bytes_def inj_map_eq_map)
qed

section \<open>Prefixes and splitting\<close>

definition strip_prefix :: "string \<Rightarrow> string \<Rightarrow> string option" where
  "strip_prefix p s = (if take (length p) s = p then Some (drop (length p) s) else None)"

definition strip_suffix :: "string \<Rightarrow> string \<Rightarrow> string option" where
  "strip_suffix p s = map_option rev (strip_prefix (rev p) (rev s))"

text \<open>\<open>split_once(pat)\<close>: the parts before and after the first occurrence.\<close>

fun split_once :: "string \<Rightarrow> string \<Rightarrow> (string \<times> string) option" where
  "split_once pat [] = (if pat = [] then Some ([], []) else None)"
| "split_once pat (c # cs) =
     (if take (length pat) (c # cs) = pat then Some ([], drop (length pat) (c # cs))
      else map_option (\<lambda>(a, b). (c # a, b)) (split_once pat cs))"

lemma strip_prefix_append [simp]: "strip_prefix p (p @ s) = Some s"
  by (simp add: strip_prefix_def)

lemma split_once_Some: "split_once pat s = Some (a, b) \<Longrightarrow> s = a @ pat @ b"
proof (induction pat s arbitrary: a b rule: split_once.induct)
  case (2 pat c cs)
  show ?case
  proof (cases "take (length pat) (c # cs) = pat")
    case True
    with "2.prems" show ?thesis by (auto simp del: take_Suc_Cons) (metis append_take_drop_id)
  next
    case False
    with "2.prems" obtain a' where "split_once pat cs = Some (a', b)" "a = c # a'"
      by (auto split: if_splits)
    with "2.IH" False show ?thesis by simp
  qed
qed (auto split: if_splits)

text \<open>
  When the first byte of the pattern does not occur in the head, the first occurrence is
  the expected one.
\<close>

lemma split_once_head:
  "pat \<noteq> [] \<Longrightarrow> hd pat \<notin> set a \<Longrightarrow> split_once pat (a @ pat @ b) = Some (a, b)"
proof (induction a)
  case Nil
  then show ?case by (cases pat) auto
next
  case (Cons c a)
  then have "take (length pat) (c # a @ pat @ b) \<noteq> pat" by (cases pat) auto
  with Cons show ?case by simp
qed

lemma split_once_absent:
  "pat \<noteq> [] \<Longrightarrow> hd pat \<notin> set s \<Longrightarrow> split_once pat s = None"
proof (induction s)
  case (Cons c s)
  then have "take (length pat) (c # s) \<noteq> pat" by (cases pat) auto
  with Cons show ?case by simp
qed simp

section \<open>Trimming\<close>

text \<open>
  \<open>ws_len\<close> is the number of bytes of the white space character (Unicode \<open>White_Space\<close>)
  a byte sequence starts with, 0 when it starts with none; \<open>ws_len_rev\<close> reads the same
  characters from the end of a string, on the reversed bytes.
\<close>

fun ws_len :: "nat list \<Rightarrow> nat" where
  "ws_len (a # b # c # r) =
     (if (9 \<le> a \<and> a \<le> 13) \<or> a = 32 then 1
      else if a = 194 \<and> (b = 133 \<or> b = 160) then 2
      else if a = 225 \<and> b = 154 \<and> c = 128 then 3
      else if a = 226 \<and> b = 128 \<and> ((128 \<le> c \<and> c \<le> 138) \<or> c = 168 \<or> c = 169 \<or> c = 175) then 3
      else if a = 226 \<and> b = 129 \<and> c = 159 then 3
      else if a = 227 \<and> b = 128 \<and> c = 128 then 3
      else 0)"
| "ws_len [a, b] =
     (if (9 \<le> a \<and> a \<le> 13) \<or> a = 32 then 1
      else if a = 194 \<and> (b = 133 \<or> b = 160) then 2 else 0)"
| "ws_len [a] = (if (9 \<le> a \<and> a \<le> 13) \<or> a = 32 then 1 else 0)"
| "ws_len [] = 0"

fun ws_len_rev :: "nat list \<Rightarrow> nat" where
  "ws_len_rev (a # b # c # r) = (if 0 < ws_len [a] then 1 else if 0 < ws_len [b, a] \<and> b = 194 then 2
     else if ws_len [c, b, a] = 3 then 3 else 0)"
| "ws_len_rev [a, b] = (if 0 < ws_len [a] then 1 else if 0 < ws_len [b, a] \<and> b = 194 then 2 else 0)"
| "ws_len_rev [a] = ws_len [a]"
| "ws_len_rev [] = 0"

definition codes :: "string \<Rightarrow> nat list" where
  "codes s = map of_char s"

function drop_ws :: "(nat list \<Rightarrow> nat) \<Rightarrow> string \<Rightarrow> string" where
  "drop_ws len s = (if s = [] \<or> len (codes s) = 0 then s else drop_ws len (drop (len (codes s)) s))"
  by pat_completeness auto
termination
  by (relation "measure (\<lambda>(len, s). length s)") auto

declare drop_ws.simps [simp del]

definition trim_start :: "string \<Rightarrow> string" where
  "trim_start s = drop_ws ws_len s"

definition trim_end :: "string \<Rightarrow> string" where
  "trim_end s = rev (drop_ws ws_len_rev (rev s))"

definition trim :: "string \<Rightarrow> string" where
  "trim s = trim_end (trim_start s)"

lemma drop_ws_stop: "s = [] \<or> len (codes s) = 0 \<Longrightarrow> drop_ws len s = s"
  by (subst drop_ws.simps) simp

lemma drop_ws_done: "drop_ws len s = [] \<or> len (codes (drop_ws len s)) = 0"
proof (induction len s rule: drop_ws.induct)
  case (1 len s)
  show ?case
  proof (cases "s = [] \<or> len (codes s) = 0")
    case True
    then show ?thesis by (auto simp: drop_ws_stop)
  next
    case False
    with 1 show ?thesis by (simp add: drop_ws.simps [of len s])
  qed
qed

lemma drop_ws_suffix: "\<exists>p. s = p @ drop_ws len s"
proof (induction len s rule: drop_ws.induct)
  case (1 len s)
  show ?case
  proof (cases "s = [] \<or> len (codes s) = 0")
    case True
    then show ?thesis by (simp add: drop_ws_stop)
  next
    case False
    then have step: "drop_ws len s = drop_ws len (drop (len (codes s)) s)"
      by (simp add: drop_ws.simps [of len s])
    from 1 False obtain p where "drop (len (codes s)) s = p @ drop_ws len s" unfolding step by auto
    then have "s = (take (len (codes s)) s @ p) @ drop_ws len s"
      by (metis append.assoc append_take_drop_id)
    then show ?thesis by blast
  qed
qed

lemma drop_ws_idem: "drop_ws len (drop_ws len s) = drop_ws len s"
  by (rule drop_ws_stop) (rule drop_ws_done)

lemma ws_len_mono: "0 < ws_len p \<Longrightarrow> 0 < ws_len (p @ s)"
  by (cases p rule: ws_len.cases; cases s rule: ws_len.cases) (auto split: if_splits)

lemma trim_end_prefix: "\<exists>p. s = trim_end s @ p"
proof -
  from drop_ws_suffix [of "rev s" ws_len_rev] obtain p
    where "rev s = p @ drop_ws ws_len_rev (rev s)" by blast
  then have "s = rev (drop_ws ws_len_rev (rev s)) @ rev p"
    by (metis rev_append rev_rev_ident)
  then show ?thesis unfolding trim_end_def by blast
qed

lemma trim_idem: "trim (trim s) = trim s"
proof -
  define u where "u = trim_start s"
  obtain p where p: "u = trim_end u @ p" using trim_end_prefix by blast
  have "u = [] \<or> ws_len (codes u) = 0"
    unfolding u_def trim_start_def by (rule drop_ws_done)
  then have "ws_len (codes (trim_end u)) = 0"
  proof
    assume "u = []"
    with p have "trim_end u = []" by simp
    then show ?thesis by (simp add: codes_def)
  next
    assume "ws_len (codes u) = 0"
    moreover have "codes u = codes (trim_end u) @ codes p"
      by (subst p) (simp add: codes_def)
    ultimately show ?thesis using ws_len_mono by (metis gr0I less_irrefl)
  qed
  then have "trim_start (trim_end u) = trim_end u"
    by (simp add: trim_start_def drop_ws_stop)
  then have "trim (trim s) = trim_end (trim_end u)"
    by (simp add: trim_def u_def)
  then show ?thesis
    by (simp add: trim_def u_def trim_end_def drop_ws_idem)
qed

lemma trim_plain:
  assumes "s = [] \<or> ws_len (codes s) = 0" and "s = [] \<or> ws_len_rev (codes (rev s)) = 0"
  shows "trim s = s"
  using assms by (simp add: trim_def trim_start_def trim_end_def drop_ws_stop)

text \<open>Text that starts and ends with a graphic ASCII character is its own trimming.\<close>

definition graphic :: "char \<Rightarrow> bool" where
  "graphic c = (33 \<le> (of_char c :: nat) \<and> (of_char c :: nat) < 128)"

lemma ws_len_graphic: "33 \<le> a \<Longrightarrow> a < 128 \<Longrightarrow> ws_len (a # r) = 0 \<and> ws_len_rev (a # r) = 0"
proof -
  assume a: "33 \<le> a" "a < 128"
  have "ws_len (a # r) = 0" for r
    using a by (cases r; cases "tl r") auto
  moreover have "\<not> (0 < ws_len [b, a] \<and> b = 194)" "ws_len [c, b, a] \<noteq> 3" for b c
    using a by auto
  ultimately show ?thesis
    using a by (cases r; cases "tl r") auto
qed

lemma trim_graphic:
  assumes "s \<noteq> []" "graphic (hd s)" "graphic (last s)"
  shows "trim s = s"
proof (rule trim_plain)
  show "s = [] \<or> ws_len (codes s) = 0"
    using assms(1,2) by (cases s) (simp_all add: codes_def graphic_def ws_len_graphic)
  show "s = [] \<or> ws_len_rev (codes (rev s)) = 0"
    using assms(1,3) by (cases s rule: rev_cases) (simp_all add: codes_def graphic_def ws_len_graphic)
qed

text \<open>\<open>chars().any(..)\<close> of a control character: U+0000 to U+001F and U+007F to U+009F.\<close>

fun has_control :: "nat list \<Rightarrow> bool" where
  "has_control [] = False"
| "has_control [a] = (a \<le> 31 \<or> a = 127)"
| "has_control (a # b # r) =
     (a \<le> 31 \<or> a = 127 \<or> (a = 194 \<and> 128 \<le> b \<and> b \<le> 159) \<or> has_control (b # r))"

section \<open>ASCII case\<close>

definition ascii_lower :: "char \<Rightarrow> char" where
  "ascii_lower c = (let n = (of_char c :: nat) in if 65 \<le> n \<and> n \<le> 90 then char_of (n + 32) else c)"

definition to_ascii_lowercase :: "string \<Rightarrow> string" where
  "to_ascii_lowercase s = map ascii_lower s"

definition eq_ignore_ascii_case :: "string \<Rightarrow> string \<Rightarrow> bool" where
  "eq_ignore_ascii_case s t = (to_ascii_lowercase s = to_ascii_lowercase t)"

section \<open>Digits and numbers\<close>

definition is_ascii_digit :: "char \<Rightarrow> bool" where
  "is_ascii_digit c = (48 \<le> (of_char c :: nat) \<and> (of_char c :: nat) \<le> 57)"

definition is_ascii_hexdigit :: "char \<Rightarrow> bool" where
  "is_ascii_hexdigit c =
     (let n = (of_char c :: nat) in (48 \<le> n \<and> n \<le> 57) \<or> (65 \<le> n \<and> n \<le> 70) \<or> (97 \<le> n \<and> n \<le> 102))"

text \<open>\<open>char::to_digit(radix)\<close> for radix 10 and 16.\<close>

definition to_digit :: "nat \<Rightarrow> char \<Rightarrow> nat option" where
  "to_digit radix c =
     (let n = (of_char c :: nat);
          d = (if 48 \<le> n \<and> n \<le> 57 then Some (n - 48)
               else if 65 \<le> n \<and> n \<le> 90 then Some (n - 55)
               else if 97 \<le> n \<and> n \<le> 122 then Some (n - 87) else None)
      in case d of Some v \<Rightarrow> if v < radix then Some v else None | None \<Rightarrow> None)"

text \<open>
  \<open>from_str_radix\<close> of an unsigned type below \<open>bound\<close>: an optional plus sign, at least one
  digit, an error on overflow. \<open>str::parse\<close> is the same with radix 10.
\<close>

fun digits_value :: "nat \<Rightarrow> nat \<Rightarrow> nat \<Rightarrow> string \<Rightarrow> nat option" where
  "digits_value radix bound acc [] = Some acc"
| "digits_value radix bound acc (c # cs) =
     (case to_digit radix c of
        None \<Rightarrow> None
      | Some d \<Rightarrow> if acc * radix + d < bound then digits_value radix bound (acc * radix + d) cs
                  else None)"

definition from_str_radix :: "nat \<Rightarrow> nat \<Rightarrow> string \<Rightarrow> nat option" where
  "from_str_radix radix bound s =
     (let body = (if s \<noteq> [] \<and> hd s = CHR ''+'' then tl s else s)
      in if body = [] then None else digits_value radix bound 0 body)"

definition parse_u128 :: "string \<Rightarrow> u128 option" where
  "parse_u128 s = map_option of_nat (from_str_radix 10 (2 ^ 128) s)"

definition parse_u64 :: "string \<Rightarrow> u64 option" where
  "parse_u64 s = map_option of_nat (from_str_radix 10 (2 ^ 64) s)"

text \<open>The digits a formatter writes, upper case for \<open>{:X}\<close>.\<close>

definition digit_char :: "nat \<Rightarrow> char" where
  "digit_char d = char_of (if d < 10 then 48 + d else 55 + d)"

fun show_radix :: "nat \<Rightarrow> nat \<Rightarrow> string" where
  "show_radix radix n =
     (if radix < 2 \<or> n < radix then [digit_char n]
      else show_radix radix (n div radix) @ [digit_char (n mod radix)])"

declare show_radix.simps [simp del]

text \<open>\<open>{:0w}\<close>: zeros on the left up to a width.\<close>

definition pad_zero :: "nat \<Rightarrow> string \<Rightarrow> string" where
  "pad_zero w s = replicate (w - length s) (CHR ''0'') @ s"

lemma of_char_digit [simp]: "d < 36 \<Longrightarrow> (of_char (digit_char d) :: nat) = (if d < 10 then 48 + d else 55 + d)"
  by (simp add: digit_char_def)

lemma to_digit_digit_char: "d < radix \<Longrightarrow> radix \<le> 36 \<Longrightarrow> to_digit radix (digit_char d) = Some d"
  by (simp add: to_digit_def Let_def)

lemma digits_value_append:
  "digits_value r b acc (xs @ ys) =
     (case digits_value r b acc xs of None \<Rightarrow> None | Some a \<Rightarrow> digits_value r b a ys)"
  by (induction xs arbitrary: acc) (auto split: option.splits)

lemma digits_value_show:
  assumes "2 \<le> r" "r \<le> 36" "n < b"
  shows "digits_value r b 0 (show_radix r n) = Some n"
  using assms
proof (induction r n rule: show_radix.induct)
  case (1 r n)
  show ?case
  proof (cases "n < r")
    case True
    with "1.prems" show ?thesis
      by (simp add: show_radix.simps [of r n] to_digit_digit_char)
  next
    case False
    have "n div r < b" using "1.prems" by (meson div_le_dividend le_less_trans)
    with 1 False have "digits_value r b 0 (show_radix r (n div r)) = Some (n div r)" by simp
    moreover have "n mod r < r" using "1.prems" by simp
    moreover have "n div r * r + n mod r = n" by (rule div_mult_mod_eq)
    ultimately show ?thesis
      using False "1.prems"
      by (simp add: show_radix.simps [of r n] digits_value_append to_digit_digit_char)
  qed
qed

lemma show_radix_chars:
  "2 \<le> r \<Longrightarrow> r \<le> 36 \<Longrightarrow> c \<in> set (show_radix r n) \<Longrightarrow> \<exists>d<r. c = digit_char d"
proof (induction r n rule: show_radix.induct)
  case (1 r n)
  show ?case
  proof (cases "n < r")
    case True
    with "1.prems" show ?thesis by (auto simp: show_radix.simps [of r n])
  next
    case False
    with "1.prems" have "c \<in> set (show_radix r (n div r)) \<or> c = digit_char (n mod r)"
      by (auto simp: show_radix.simps [of r n])
    then show ?thesis
    proof
      assume "c \<in> set (show_radix r (n div r))"
      with 1 False show ?thesis by auto
    next
      assume "c = digit_char (n mod r)"
      moreover have "n mod r < r" using "1.prems" by simp
      ultimately show ?thesis by blast
    qed
  qed
qed

lemma show_radix_nonempty [simp]: "show_radix r n \<noteq> []"
  by (subst show_radix.simps) simp

lemma digit_char_neq:
  "d < 36 \<Longrightarrow> of_char c \<notin> {48..57} \<union> {65..90 :: nat} \<Longrightarrow> digit_char d \<noteq> c"
  using of_char_digit [of d] by (auto split: if_splits)

lemma show_radix_plain:
  assumes "2 \<le> r" "r \<le> 36" "of_char c \<notin> {48..57} \<union> {65..90 :: nat}"
  shows "c \<notin> set (show_radix r n)"
proof
  assume "c \<in> set (show_radix r n)"
  then obtain d where "d < r" "c = digit_char d" using show_radix_chars assms by blast
  with digit_char_neq [of d c] assms show False by simp
qed

lemma from_str_radix_show:
  assumes "2 \<le> r" "r \<le> 36" "n < b"
  shows "from_str_radix r b (show_radix r n) = Some n"
proof -
  have "CHR ''+'' \<notin> set (show_radix r n)"
    using assms by (intro show_radix_plain) auto
  then have "hd (show_radix r n) \<noteq> CHR ''+''"
    by (metis hd_in_set show_radix_nonempty)
  with assms show ?thesis
    by (simp add: from_str_radix_def digits_value_show)
qed

lemma digits_value_zeros:
  "0 < r \<Longrightarrow> 0 < b \<Longrightarrow> digits_value r b 0 (replicate k (CHR ''0'') @ s) = digits_value r b 0 s"
  by (induction k) (auto simp: to_digit_def)

lemma from_str_radix_pad:
  assumes "2 \<le> r" "r \<le> 36" "n < b"
  shows "from_str_radix r b (pad_zero w (show_radix r n)) = Some n"
proof (cases "w \<le> length (show_radix r n)")
  case True
  then show ?thesis using assms by (simp add: pad_zero_def from_str_radix_show)
next
  case False
  then obtain k where "w - length (show_radix r n) = Suc k" by (cases "w - length (show_radix r n)") auto
  then show ?thesis
    using assms digits_value_zeros [of r b "Suc k" "show_radix r n"]
    by (simp add: pad_zero_def from_str_radix_def digits_value_show)
qed

text \<open>What a formatter writes: its characters and its length.\<close>

lemma digit_char_kind: "d < 10 \<Longrightarrow> is_ascii_digit (digit_char d)" "d < 16 \<Longrightarrow> is_ascii_hexdigit (digit_char d)"
  "d < 36 \<Longrightarrow> graphic (digit_char d)"
  by (simp_all add: is_ascii_digit_def is_ascii_hexdigit_def graphic_def Let_def)

lemma show_radix_all: "2 \<le> r \<Longrightarrow> r \<le> 36 \<Longrightarrow> (\<And>d. d < r \<Longrightarrow> P (digit_char d)) \<Longrightarrow> list_all P (show_radix r n)"
  using show_radix_chars by (fastforce simp: list_all_iff)

lemma length_show_radix: "2 \<le> r \<Longrightarrow> 0 < k \<Longrightarrow> n < r ^ k \<Longrightarrow> length (show_radix r n) \<le> k"
proof (induction r n arbitrary: k rule: show_radix.induct)
  case (1 r n)
  show ?case
  proof (cases "n < r")
    case True
    with "1.prems" show ?thesis by (simp add: show_radix.simps [of r n])
  next
    case False
    with "1.prems" obtain j where k: "k = Suc j" "0 < j" by (cases k; cases "k = 1") auto
    with "1.prems" have "n div r < r ^ j" by (simp add: less_mult_imp_div_less mult.commute)
    with 1 False k have "length (show_radix r (n div r)) \<le> j" by simp
    with False k show ?thesis using "1.prems" by (simp add: show_radix.simps [of r n])
  qed
qed

lemma length_pad_zero: "length s \<le> w \<Longrightarrow> length (pad_zero w s) = w"
  by (simp add: pad_zero_def)

lemma pad_zero_all: "list_all P s \<Longrightarrow> P (CHR ''0'') \<Longrightarrow> list_all P (pad_zero w s)"
  by (auto simp: pad_zero_def list_all_iff)

end
