(* ===== verification/Pwm_Crypto.thy ===== *)
theory Pwm_Crypto
  imports Pwm_Str
begin

text \<open>
  The cryptographic wrappers (src/crates/pwm-core/src/crypto.rs) and the account identifier
  derivation (src/crates/pwm-core/src/hd.rs).

  BLAKE3, Ed25519 and SLIP-0010 are crates outside the repository: they are the fields of
  \<open>extlib\<close>, an argument of every definition that calls them. What the code relies on is
  named below (\<open>sig_correct\<close>: a signature made with a key verifies under its public key).
\<close>

section \<open>The third-party functions\<close>

record extlib =
  x_blake3 :: "bytes \<Rightarrow> bytes32"
  x_key_ok :: "bytes32 \<Rightarrow> bool"
  x_sig_ok :: "bytes64 \<Rightarrow> bool"
  x_verify :: "bytes32 \<Rightarrow> bytes \<Rightarrow> bytes64 \<Rightarrow> bool"
  x_sign :: "bytes32 \<Rightarrow> bytes \<Rightarrow> bytes64"
  x_pubkey :: "bytes32 \<Rightarrow> bytes32"
  x_slip10 :: "bytes \<Rightarrow> u32 list \<Rightarrow> bytes32"

text \<open>Ed25519: the public key of a secret key is valid and verifies what the key signs.\<close>

definition sig_correct :: "extlib \<Rightarrow> bytes32 \<Rightarrow> bytes \<Rightarrow> bool" where
  "sig_correct ext sk m \<longleftrightarrow>
     x_key_ok ext (x_pubkey ext sk) \<and> x_sig_ok ext (x_sign ext sk m) \<and>
     x_verify ext (x_pubkey ext sk) m (x_sign ext sk m)"

text \<open>
  A concrete library for the examples: a checksum in place of the hash, the identity on
  keys and a signature that binds the key and the checksum of the message. It satisfies the
  hypotheses the development names, and computes.
\<close>

definition toy_hash :: "bytes \<Rightarrow> bytes32" where
  "toy_hash m = foldl (\<lambda>acc b. 257 * acc + ucast b + 1) 7 m"

definition toy_ext :: extlib where
  "toy_ext = \<lparr> x_blake3 = toy_hash, x_key_ok = (\<lambda>_. True), x_sig_ok = (\<lambda>_. True),
     x_verify = (\<lambda>pk m s. s = ucast pk + ucast (toy_hash m)),
     x_sign = (\<lambda>sk m. ucast sk + ucast (toy_hash m)),
     x_pubkey = (\<lambda>sk. sk), x_slip10 = (\<lambda>seed path. toy_hash (seed @ concat (map (be_bytes 4) path))) \<rparr>"

lemma toy_sig_correct: "sig_correct toy_ext sk m"
  by (simp add: sig_correct_def toy_ext_def)

section \<open>crypto.rs\<close>

definition blake3_32 :: "extlib \<Rightarrow> bytes \<Rightarrow> bytes32" where
  "blake3_32 ext data = x_blake3 ext data"

definition sign :: "extlib \<Rightarrow> bytes32 \<Rightarrow> bytes \<Rightarrow> bytes64" where
  "sign ext signing_key message = x_sign ext signing_key message"

definition verify :: "extlib \<Rightarrow> bytes32 \<Rightarrow> bytes \<Rightarrow> bytes64 \<Rightarrow> bool" where
  "verify ext pubkey message sig =
     (if \<not> x_key_ok ext pubkey then False
      else if \<not> x_sig_ok ext sig then False
      else x_verify ext pubkey message sig)"

text \<open>A \<open>Hasher\<close> fed with several updates hashes their concatenation.\<close>

definition hash_header_signing_payload :: "extlib \<Rightarrow> bytes list \<Rightarrow> bytes32" where
  "hash_header_signing_payload ext parts = x_blake3 ext (as_bytes ''PWMv0/BLOCKHDR'' @ concat parts)"

lemma verify_sign: "sig_correct ext sk m \<Longrightarrow> verify ext (x_pubkey ext sk) m (sign ext sk m)"
  by (simp add: verify_def sign_def sig_correct_def)

section \<open>hd.rs: account identifiers\<close>

type_synonym AccountId = bytes32

definition byte_at :: "AccountId \<Rightarrow> nat \<Rightarrow> u8" where
  "byte_at aid i = ucast (drop_bit (8 * (31 - i)) aid)"

definition account_id_from_parts :: "extlib \<Rightarrow> bytes32 \<Rightarrow> u32 \<Rightarrow> AccountId" where
  "account_id_from_parts ext pubkey derivation_index =
     blake3_32 ext (be_bytes 32 pubkey @ le_bytes 4 derivation_index)"

definition domain_of_account_id :: "AccountId \<Rightarrow> u16" where
  "domain_of_account_id aid = from_be [byte_at aid 0, byte_at aid 1]"

text \<open>\<open>u16::to_be_bytes()[0]\<close>, the cluster byte of a domain code.\<close>

definition hi_byte :: "u16 \<Rightarrow> u8" where
  "hi_byte d = be_bytes 2 d ! 0"

text \<open>
  \<open>brute_cluster_address\<close>: the loop over the derivation index, \<open>n\<close> tries left from \<open>i\<close>.
\<close>

fun brute_loop :: "extlib \<Rightarrow> bytes \<Rightarrow> u16 \<Rightarrow> nat \<Rightarrow> nat \<Rightarrow> (bytes32 \<times> bytes32 \<times> u32 \<times> AccountId) option" where
  "brute_loop ext seed domain_code i 0 = None"
| "brute_loop ext seed domain_code i (Suc n) =
     (let sk = x_slip10 ext seed [0, of_nat i];
          pk = x_pubkey ext sk;
          aid = account_id_from_parts ext pk (of_nat i)
      in if domain_of_account_id aid = domain_code then Some (sk, pk, of_nat i, aid)
         else brute_loop ext seed domain_code (Suc i) n)"

definition brute_cluster_address ::
  "extlib \<Rightarrow> bytes \<Rightarrow> u16 \<Rightarrow> u32 \<Rightarrow> (bytes32 \<times> bytes32 \<times> u32 \<times> AccountId) option" where
  "brute_cluster_address ext master_seed domain_code max_tries =
     brute_loop ext master_seed domain_code 0 (unat max_tries)"

text \<open>The identifier the loop computes at one index.\<close>

definition nth_address :: "extlib \<Rightarrow> bytes \<Rightarrow> nat \<Rightarrow> AccountId" where
  "nth_address ext seed i =
     account_id_from_parts ext (x_pubkey ext (x_slip10 ext seed [0, of_nat i])) (of_nat i)"

lemma brute_loop_Some:
  "brute_loop ext seed d i n = Some (sk, pk, idx, aid) \<Longrightarrow>
     \<exists>k<n. idx = of_nat (i + k) \<and> sk = x_slip10 ext seed [0, idx] \<and> pk = x_pubkey ext sk \<and>
       aid = nth_address ext seed (i + k) \<and> domain_of_account_id aid = d \<and>
       (\<forall>j<k. domain_of_account_id (nth_address ext seed (i + j)) \<noteq> d)"
proof (induction n arbitrary: i)
  case (Suc n)
  show ?case
  proof (cases "domain_of_account_id (nth_address ext seed i) = d")
    case True
    with Suc.prems show ?thesis
      by (intro exI [of _ 0]) (auto simp: Let_def nth_address_def)
  next
    case False
    with Suc.prems have "brute_loop ext seed d (Suc i) n = Some (sk, pk, idx, aid)"
      by (auto simp: Let_def nth_address_def)
    then obtain k where k: "k < n" "idx = of_nat (Suc i + k)" "sk = x_slip10 ext seed [0, idx]"
      "pk = x_pubkey ext sk" "aid = nth_address ext seed (Suc i + k)" "domain_of_account_id aid = d"
      "\<forall>j<k. domain_of_account_id (nth_address ext seed (Suc i + j)) \<noteq> d"
      using Suc.IH by blast
    have "\<forall>j<Suc k. domain_of_account_id (nth_address ext seed (i + j)) \<noteq> d"
      using k(7) False by (auto simp: less_Suc_eq_0_disj)
    with k show ?thesis by (intro exI [of _ "Suc k"]) simp
  qed
qed simp

lemma brute_loop_None:
  "brute_loop ext seed d i n = None \<longleftrightarrow> (\<forall>k<n. domain_of_account_id (nth_address ext seed (i + k)) \<noteq> d)"
proof (induction n arbitrary: i)
  case (Suc n)
  have "brute_loop ext seed d i (Suc n) = None \<longleftrightarrow>
      domain_of_account_id (nth_address ext seed (i + 0)) \<noteq> d \<and> brute_loop ext seed d (Suc i) n = None"
    by (simp add: Let_def nth_address_def)
  then show ?case
    by (simp only: Suc.IH All_less_Suc2 add_Suc_right add_Suc)
qed simp

end
