(* ===== verification/Pwm_Tx_Data.thy ===== *)
theory Pwm_Tx_Data
  imports Pwm_Crypto
begin

text \<open>
  The data of transactions (src/crates/pwm-core/src/tx.rs): policies, cosignatures, the
  INIT extension, bodies, the signed envelope and the error values. Constructors and field
  names are the source's; the fields of the small records carry a prefix.
\<close>

definition MIN_IMPORT_FEE_UNITS :: u128 where
  "MIN_IMPORT_FEE_UNITS = 10000"

section \<open>Policies\<close>

datatype ActivationMode = Dormant | Immediately | Deferred (activate_at_height: u64)

datatype PolicyKind =
    RoutingSameDomainOnly | RoutingEmergencyRedirect | SenderFilter | DefaultBehavior | CosignRequired

fun policy_id :: "PolicyKind \<Rightarrow> u8" where
  "policy_id RoutingSameDomainOnly = 0"
| "policy_id RoutingEmergencyRedirect = 1"
| "policy_id SenderFilter = 2"
| "policy_id DefaultBehavior = 3"
| "policy_id CosignRequired = 4"

definition policy_bit :: "PolicyKind \<Rightarrow> u16" where
  "policy_bit p = push_bit (unat (policy_id p)) 1"

definition from_policy_id :: "u8 \<Rightarrow> PolicyKind option" where
  "from_policy_id i =
     (if i = 0 then Some RoutingSameDomainOnly
      else if i = 1 then Some RoutingEmergencyRedirect
      else if i = 2 then Some SenderFilter
      else if i = 3 then Some DefaultBehavior
      else if i = 4 then Some CosignRequired
      else None)"

definition is_reversible :: "PolicyKind \<Rightarrow> bool" where
  "is_reversible p = (p \<noteq> RoutingEmergencyRedirect)"

datatype PolicyAction =
    SetPolicy PolicyKind ActivationMode
  | ActivatePolicy u8 "AccountId option"
  | DeactivatePolicy u8

fun policy_weakens_cosign :: "PolicyAction \<Rightarrow> bool" where
  "policy_weakens_cosign (SetPolicy policy activation) = (policy = CosignRequired \<and> activation \<noteq> Immediately)"
| "policy_weakens_cosign (DeactivatePolicy pid) = (pid = policy_id CosignRequired)"
| "policy_weakens_cosign (ActivatePolicy _ _) = False"

lemma from_policy_id_policy_id [simp]: "from_policy_id (policy_id p) = Some p"
  by (cases p) (simp_all add: from_policy_id_def)

lemma from_policy_id_Some: "from_policy_id i = Some p \<longleftrightarrow> i = policy_id p"
  by (cases p) (auto simp: from_policy_id_def split: if_splits)

lemma policy_id_inj [simp]: "policy_id p = policy_id q \<longleftrightarrow> p = q"
  by (metis from_policy_id_policy_id option.inject)

lemma policy_id_lt: "unat (policy_id p) < 16"
  by (cases p) simp_all

lemma bit_policy_bit: "bit (policy_bit p) n \<longleftrightarrow> n = unat (policy_id p)"
  using policy_id_lt [of p] by (auto simp: policy_bit_def bit_exp_iff)

lemma policy_bit_cases:
  "policy_bit RoutingSameDomainOnly = 1" "policy_bit RoutingEmergencyRedirect = 2"
  "policy_bit SenderFilter = 4" "policy_bit DefaultBehavior = 8" "policy_bit CosignRequired = 16"
  by (simp_all add: policy_bit_def)

section \<open>Cosignatures and the INIT extension\<close>

datatype CosignRole = Rescue | Organization | Witness

record Cosignature =
  cs_signer_pk :: bytes32
  cs_role :: CosignRole
  cs_signature :: bytes64

record InitPolicyEntry =
  ip_policy :: PolicyKind
  ip_activation :: ActivationMode

record CosignPolicy =
  min_signers :: u8

record InitV4Extension =
  ix_owner_kind :: string
  ix_owner_display_name :: string
  ix_owner_country_hint :: string
  ix_company_metadata_commitment :: bytes32
  ix_external_verification_ref :: string
  ix_requested_domain_lo :: u8
  ix_rescue_address :: "AccountId option"
  ix_initial_policies :: "InitPolicyEntry list"
  ix_cosign_policy :: "CosignPolicy option"

definition INIT_OWNER_KIND_MAX :: nat where "INIT_OWNER_KIND_MAX = 32"
definition INIT_OWNER_NAME_MAX :: nat where "INIT_OWNER_NAME_MAX = 64"
definition INIT_OWNER_COUNTRY_MAX :: nat where "INIT_OWNER_COUNTRY_MAX = 8"
definition INIT_EXT_REF_MAX :: nat where "INIT_EXT_REF_MAX = 96"
definition INIT_MAX_POLICIES :: nat where "INIT_MAX_POLICIES = 16"

section \<open>Bodies\<close>

datatype (plugins only: code size) TxBody =
    Init u32 u32
  | Transfer AccountId u128 u128
  | Stake u128
  | Unstake u128
  | BurnMark u32 "AccountId option"
  | ClaimIPv4Batch u8 bytes32 bytes64
  | Export AccountId u16 u128 u128
  | Import AccountId u128 bytes32
  | Policy AccountId PolicyAction u128

text \<open>
  Deserialization goes through \<open>RawTxBody\<close>, which still knows the retired \<open>claim_mark\<close>
  variant in order to refuse it with a message of its own.
\<close>

datatype (plugins only: code size) RawTxBody =
    RawInit u32 u32
  | RawTransfer AccountId u128 u128
  | RawStake u128
  | RawUnstake u128
  | RawBurnMark u32 "AccountId option"
  | RawClaimIpv4Batch u8 bytes32 bytes64
  | RawExport AccountId u16 u128 u128
  | RawImport AccountId u128 bytes32
  | RawPolicy AccountId PolicyAction u128
  | ClaimMarkRetired

fun tx_body_of_raw :: "RawTxBody \<Rightarrow> string + TxBody" where
  "tx_body_of_raw (RawInit index flags) = Inr (Init index flags)"
| "tx_body_of_raw (RawTransfer t amount fee) = Inr (Transfer t amount fee)"
| "tx_body_of_raw (RawStake amount) = Inr (Stake amount)"
| "tx_body_of_raw (RawUnstake amount) = Inr (Unstake amount)"
| "tx_body_of_raw (RawBurnMark mark_amount beneficiary) = Inr (BurnMark mark_amount beneficiary)"
| "tx_body_of_raw (RawClaimIpv4Batch phase batch_root registry_sig) =
     Inr (ClaimIPv4Batch phase batch_root registry_sig)"
| "tx_body_of_raw (RawExport t target_domain amount fee) = Inr (Export t target_domain amount fee)"
| "tx_body_of_raw (RawImport t amount export_id) = Inr (Import t amount export_id)"
| "tx_body_of_raw (RawPolicy target_account action fee) = Inr (Policy target_account action fee)"
| "tx_body_of_raw ClaimMarkRetired = Inl ''tx body variant `claim_mark` is retired in V5''"

fun fee_amount :: "TxBody \<Rightarrow> u128" where
  "fee_amount (Transfer _ _ fee) = fee"
| "fee_amount (Export _ _ _ fee) = fee"
| "fee_amount (Policy _ _ fee) = fee"
| "fee_amount (Init _ _) = 0"
| "fee_amount (Stake _) = 0"
| "fee_amount (Unstake _) = 0"
| "fee_amount (BurnMark _ _) = 0"
| "fee_amount (ClaimIPv4Batch _ _ _) = 0"
| "fee_amount (Import _ _ _) = 0"

fun is_init :: "TxBody \<Rightarrow> bool" where
  "is_init (Init _ _) = True"
| "is_init _ = False"

text \<open>\<open>ExportProvenance\<close> is declared in state.rs; the envelope embeds it.\<close>

record ExportProvenance =
  pv_to :: AccountId
  pv_target_domain :: u16
  pv_amount :: u128

section \<open>The signed envelope\<close>

record SignedTx =
  domain_code :: u16
  signer_pk :: bytes32
  derivation_index :: u32
  tx_nonce :: u64
  body :: TxBody
  burn_purpose :: "string option"
  import_fee :: "u128 option"
  import_provenance :: "ExportProvenance option"
  init_v4 :: "InitV4Extension option"
  cosigns :: "Cosignature list"
  signature :: bytes64

definition computed_account_id :: "extlib \<Rightarrow> SignedTx \<Rightarrow> AccountId" where
  "computed_account_id ext tx = account_id_from_parts ext (signer_pk tx) (derivation_index tx)"

section \<open>Errors\<close>

datatype (plugins only: code) TxError =
    BadSignature | DomainMismatch | NoAccount | NotInitialized | RecipientMissing
  | RecipientNotInitialized | BadNonce | Insufficient | InsufficientMarks | AlreadyInit
  | InvalidTransfer | InvalidExport | InvalidImport | DuplicateImport | ExportLockRefunded
  | InvalidPurposeLength | InvalidPurposeChars | UnsupportedTxKind | ImportFeeTooLow
  | PolicySchemaInvalid | PolicyNotInstalled | PolicyNotActive | PolicyDenied
  | PolicySenderFiltered | PolicyRoutingDenied | PolicyMissingCosign | PolicyRescueRequired
  | PolicyEmergencyCosignRequired | PolicyAccountFinalized | PolicyIrreversible
  | PolicyFlagNonDisableable | ConservationDelayRequired | ConservationPendingExists
  | PolicyActivationFeeMustBeZero | PolicyActivationTargetMismatch
  | PolicyActivationTargetRequired | PolicyActivationTargetNotAllowed | EvidenceDuplicate

end
