(* ===== verification/Pwm_Tx_Sign.thy ===== *)
theory Pwm_Tx_Sign
  imports Pwm_Tx_Data
begin

text \<open>
  The byte string a transaction's signature covers (\<open>SignedTx::signing_message\<close> and its
  helpers in src/crates/pwm-core/src/tx.rs), the hashes derived from it, and the builders
  that sign. The encoders are shown prefix-free through the interface \<open>prefix_codec\<close>, and
  from that the whole message determines every signed field.
\<close>

section \<open>The encoders\<close>

definition normalize_burn_purpose :: "string \<Rightarrow> string" where
  "normalize_burn_purpose value = trim value"

text \<open>\<open>u16::try_from(len).unwrap_or(u16::MAX)\<close>\<close>

definition len_u16 :: "nat \<Rightarrow> u16" where
  "len_u16 n = (if n < 2 ^ 16 then of_nat n else - 1)"

definition push_len_prefixed_bytes :: "bytes \<Rightarrow> bytes" where
  "push_len_prefixed_bytes payload = le_bytes 2 (len_u16 (length payload)) @ payload"

fun push_opt_account_id :: "AccountId option \<Rightarrow> bytes" where
  "push_opt_account_id (Some aid) = 1 # be_bytes 32 aid"
| "push_opt_account_id None = [0]"

fun activation_bytes :: "ActivationMode \<Rightarrow> bytes" where
  "activation_bytes Dormant = [0]"
| "activation_bytes Immediately = [1]"
| "activation_bytes (Deferred h) = 2 # le_bytes 8 h"

fun push_policy_action_signing :: "PolicyAction \<Rightarrow> bytes" where
  "push_policy_action_signing (SetPolicy policy activation) =
     [0, policy_id policy] @ activation_bytes activation"
| "push_policy_action_signing (ActivatePolicy pid activation_target) =
     [1, pid] @ push_opt_account_id activation_target"
| "push_policy_action_signing (DeactivatePolicy pid) = [2, pid]"

definition init_policy_bytes :: "InitPolicyEntry \<Rightarrow> bytes" where
  "init_policy_bytes row = policy_id (ip_policy row) # activation_bytes (ip_activation row)"

text \<open>\<open>u8::try_from(len).unwrap_or(u8::MAX)\<close>, the number of policies that are written.\<close>

definition pol_count :: "InitPolicyEntry list \<Rightarrow> u8" where
  "pol_count rows = (if length rows < 2 ^ 8 then of_nat (length rows) else - 1)"

definition init_v4_bytes :: "InitV4Extension \<Rightarrow> bytes" where
  "init_v4_bytes ix =
     push_len_prefixed_bytes (as_bytes (ix_owner_kind ix)) @
     push_len_prefixed_bytes (as_bytes (ix_owner_display_name ix)) @
     push_len_prefixed_bytes (as_bytes (ix_owner_country_hint ix)) @
     be_bytes 32 (ix_company_metadata_commitment ix) @
     push_len_prefixed_bytes (as_bytes (ix_external_verification_ref ix)) @
     [ix_requested_domain_lo ix] @
     push_opt_account_id (ix_rescue_address ix) @
     [pol_count (ix_initial_policies ix)] @
     concat (map init_policy_bytes
       (take (unat (pol_count (ix_initial_policies ix))) (ix_initial_policies ix))) @
     (case ix_cosign_policy ix of Some c \<Rightarrow> [1, min_signers c] | None \<Rightarrow> [0])"

definition provenance_bytes :: "ExportProvenance option \<Rightarrow> bytes" where
  "provenance_bytes p = (case p of
     Some p \<Rightarrow> 1 # be_bytes 32 (pv_to p) @ le_bytes 2 (pv_target_domain p) @ le_bytes 16 (pv_amount p)
   | None \<Rightarrow> [0])"

text \<open>\<open>purpose.unwrap_or_default()\<close> after normalisation.\<close>

definition purpose_text :: "string option \<Rightarrow> string" where
  "purpose_text p = (case p of Some s \<Rightarrow> normalize_burn_purpose s | None \<Rightarrow> [])"

fun body_bytes :: "SignedTx \<Rightarrow> TxBody \<Rightarrow> bytes" where
  "body_bytes tx (Init index flags) =
     [1] @ le_bytes 4 index @ le_bytes 4 flags @
     (case init_v4 tx of Some ix \<Rightarrow> 1 # init_v4_bytes ix | None \<Rightarrow> [])"
| "body_bytes tx (Transfer t amount fee) =
     [2] @ be_bytes 32 t @ le_bytes 16 amount @ le_bytes 16 fee"
| "body_bytes tx (Stake amount) = [3] @ le_bytes 16 amount"
| "body_bytes tx (Unstake amount) = [4] @ le_bytes 16 amount"
| "body_bytes tx (BurnMark mark_amount beneficiary) =
     [5] @ le_bytes 4 mark_amount @
     push_len_prefixed_bytes (as_bytes (purpose_text (burn_purpose tx))) @
     push_opt_account_id beneficiary"
| "body_bytes tx (ClaimIPv4Batch phase batch_root registry_sig) =
     [8, phase] @ be_bytes 32 batch_root @ be_bytes 64 registry_sig"
| "body_bytes tx (Export t target_domain amount fee) =
     [6] @ be_bytes 32 t @ le_bytes 2 target_domain @ le_bytes 16 amount @ le_bytes 16 fee"
| "body_bytes tx (Import t amount export_id) =
     [7] @ be_bytes 32 t @ le_bytes 16 amount @
     le_bytes 16 (case import_fee tx of Some f \<Rightarrow> f | None \<Rightarrow> 0) @ be_bytes 32 export_id @
     provenance_bytes (import_provenance tx)"
| "body_bytes tx (Policy target_account action fee) =
     [9] @ be_bytes 32 target_account @ push_policy_action_signing action @ le_bytes 16 fee"

definition signing_message :: "SignedTx \<Rightarrow> bytes" where
  "signing_message tx =
     as_bytes ''PWMv0/TX'' @ le_bytes 2 (domain_code tx) @ be_bytes 32 (signer_pk tx) @
     le_bytes 4 (derivation_index tx) @ le_bytes 8 (tx_nonce tx) @ body_bytes tx (body tx)"

section \<open>Hashes, signature check and signing\<close>

definition tx_hash :: "extlib \<Rightarrow> SignedTx \<Rightarrow> bytes32" where
  "tx_hash ext tx = blake3_32 ext (signing_message tx)"

definition verify_sig :: "extlib \<Rightarrow> SignedTx \<Rightarrow> bool" where
  "verify_sig ext tx = verify ext (signer_pk tx) (signing_message tx) (signature tx)"

definition EXPORT_OUTPUT_INDEX :: u32 where
  "EXPORT_OUTPUT_INDEX = 0"

definition export_id :: "extlib \<Rightarrow> SignedTx \<Rightarrow> bytes32 option" where
  "export_id ext tx = (case body tx of
     Export _ _ _ _ \<Rightarrow> Some (blake3_32 ext (le_bytes 2 (domain_code tx) @ be_bytes 32 (tx_hash ext tx) @
       le_bytes 4 EXPORT_OUTPUT_INDEX @ le_bytes 8 (tx_nonce tx)))
   | _ \<Rightarrow> None)"

text \<open>The common tail of the builders: sign the message of the fields as they now are.\<close>

definition resign :: "extlib \<Rightarrow> bytes32 \<Rightarrow> SignedTx \<Rightarrow> SignedTx" where
  "resign ext signing_key tx = tx\<lparr>signature := sign ext signing_key (signing_message tx)\<rparr>"

definition sign_body :: "extlib \<Rightarrow> bytes32 \<Rightarrow> u16 \<Rightarrow> u32 \<Rightarrow> u64 \<Rightarrow> TxBody \<Rightarrow> SignedTx" where
  "sign_body ext signing_key code idx n b =
     resign ext signing_key
       \<lparr> domain_code = code, signer_pk = x_pubkey ext signing_key, derivation_index = idx,
         tx_nonce = n, body = b,
         burn_purpose = (case b of BurnMark _ _ \<Rightarrow> Some ''default'' | _ \<Rightarrow> None),
         import_fee = (case b of Import _ _ _ \<Rightarrow> Some MIN_IMPORT_FEE_UNITS | _ \<Rightarrow> None),
         import_provenance = None, init_v4 = None, cosigns = [], signature = 0 \<rparr>"

definition set_import_provenance_signed ::
  "extlib \<Rightarrow> bytes32 \<Rightarrow> ExportProvenance option \<Rightarrow> SignedTx \<Rightarrow> SignedTx" where
  "set_import_provenance_signed ext sk provenance tx = resign ext sk (tx\<lparr>import_provenance := provenance\<rparr>)"

definition set_burn_purpose_signed :: "extlib \<Rightarrow> bytes32 \<Rightarrow> string \<Rightarrow> SignedTx \<Rightarrow> SignedTx" where
  "set_burn_purpose_signed ext sk purpose tx = resign ext sk (tx\<lparr>burn_purpose := Some purpose\<rparr>)"

definition set_import_fee_signed :: "extlib \<Rightarrow> bytes32 \<Rightarrow> u128 \<Rightarrow> SignedTx \<Rightarrow> SignedTx" where
  "set_import_fee_signed ext sk fee tx = resign ext sk (tx\<lparr>import_fee := Some fee\<rparr>)"

definition set_init_v4_signed ::
  "extlib \<Rightarrow> bytes32 \<Rightarrow> InitV4Extension option \<Rightarrow> SignedTx \<Rightarrow> SignedTx" where
  "set_init_v4_signed ext sk ix tx = resign ext sk (tx\<lparr>init_v4 := ix\<rparr>)"

lemma signing_message_signature [simp]: "signing_message (tx\<lparr>signature := s\<rparr>) = signing_message tx"
  by (cases "body tx") (simp_all add: signing_message_def)

lemma signing_message_cosigns [simp]: "signing_message (tx\<lparr>cosigns := cs\<rparr>) = signing_message tx"
  by (cases "body tx") (simp_all add: signing_message_def)

lemma resign_verifies:
  "sig_correct ext sk (signing_message tx) \<Longrightarrow> signer_pk tx = x_pubkey ext sk \<Longrightarrow>
     verify_sig ext (resign ext sk tx)"
  by (simp add: verify_sig_def resign_def verify_sign)

section \<open>Prefix-free encoders\<close>

text \<open>
  The interface the signing message relies on: an encoder whose output can be read off the
  front of a byte string, on the values \<open>ok\<close> that the code lets through. An encoder of
  constant length that is injective is one.
\<close>

locale prefix_codec =
  fixes enc :: "'a \<Rightarrow> bytes" and ok :: "'a \<Rightarrow> bool"
  assumes prefix_free: "ok x \<Longrightarrow> ok y \<Longrightarrow> enc x @ r = enc y @ s \<Longrightarrow> x = y \<and> r = s"
begin

lemma enc_append_iff: "ok x \<Longrightarrow> ok y \<Longrightarrow> enc x @ r = enc y @ s \<longleftrightarrow> x = y \<and> r = s"
  using prefix_free by blast

lemma enc_iff: "ok x \<Longrightarrow> ok y \<Longrightarrow> enc x = enc y \<longleftrightarrow> x = y"
  using prefix_free [of x y "[]" "[]"] by auto

lemma concat_prefix_free:
  "length xs = length ys \<Longrightarrow> list_all ok xs \<Longrightarrow> list_all ok ys \<Longrightarrow>
     concat (map enc xs) @ r = concat (map enc ys) @ s \<longleftrightarrow> xs = ys \<and> r = s"
  by (induction xs ys arbitrary: r s rule: list_induct2) (auto simp: enc_append_iff)

end

locale fixed_codec =
  fixes enc :: "'a \<Rightarrow> bytes" and n :: nat
  assumes fixed_length: "length (enc x) = n"
    and fixed_inj: "enc x = enc y \<Longrightarrow> x = y"

sublocale fixed_codec \<subseteq> prefix_codec enc "\<lambda>_. True"
  by unfold_locales (auto simp: append_eq_append_conv fixed_length dest: fixed_inj)

interpretation le16: fixed_codec "le_bytes 2 :: u16 \<Rightarrow> bytes" 2
  by unfold_locales (auto dest: le_bytes_inj)

interpretation le32: fixed_codec "le_bytes 4 :: u32 \<Rightarrow> bytes" 4
  by unfold_locales (auto dest: le_bytes_inj)

interpretation le64: fixed_codec "le_bytes 8 :: u64 \<Rightarrow> bytes" 8
  by unfold_locales (auto dest: le_bytes_inj)

interpretation le128: fixed_codec "le_bytes 16 :: u128 \<Rightarrow> bytes" 16
  by unfold_locales (auto dest: le_bytes_inj)

interpretation be32: fixed_codec "be_bytes 32 :: bytes32 \<Rightarrow> bytes" 32
  by unfold_locales (auto dest: be_bytes_inj)

interpretation be64: fixed_codec "be_bytes 64 :: bytes64 \<Rightarrow> bytes" 64
  by unfold_locales (auto dest: be_bytes_inj)

lemmas int_codecs =
  le16.enc_append_iff [OF TrueI TrueI] le32.enc_append_iff [OF TrueI TrueI]
  le64.enc_append_iff [OF TrueI TrueI] le128.enc_append_iff [OF TrueI TrueI]
  be32.enc_append_iff [OF TrueI TrueI] be64.enc_append_iff [OF TrueI TrueI]
  le16.enc_iff [OF TrueI TrueI] le32.enc_iff [OF TrueI TrueI] le64.enc_iff [OF TrueI TrueI]
  le128.enc_iff [OF TrueI TrueI] be32.enc_iff [OF TrueI TrueI] be64.enc_iff [OF TrueI TrueI]

declare int_codecs [pwm_codec]

lemma len_u16_inj: "m < 2 ^ 16 \<Longrightarrow> n < 2 ^ 16 \<Longrightarrow> len_u16 m = len_u16 n \<longleftrightarrow> m = n"
  by (auto simp: len_u16_def word_of_nat_eq_iff take_bit_nat_eq_self)

interpretation str: prefix_codec "\<lambda>s. push_len_prefixed_bytes (as_bytes s)" "\<lambda>s. length s < 2 ^ 16"
proof
  fix x y :: string and r s
  assume len: "length x < 2 ^ 16" "length y < 2 ^ 16"
    and eq: "push_len_prefixed_bytes (as_bytes x) @ r = push_len_prefixed_bytes (as_bytes y) @ s"
  then have hd: "len_u16 (length x) = len_u16 (length y)" and tl: "as_bytes x @ r = as_bytes y @ s"
    by (simp_all add: push_len_prefixed_bytes_def pwm_codec)
  from hd len have "length x = length y" by (simp add: len_u16_inj)
  with tl show "x = y \<and> r = s" by (simp add: append_eq_append_conv as_bytes_inj)
qed

interpretation opt_id: prefix_codec push_opt_account_id "\<lambda>_. True"
proof
  fix x y :: "AccountId option" and r s
  assume "push_opt_account_id x @ r = push_opt_account_id y @ s"
  then show "x = y \<and> r = s" by (cases x; cases y) (auto simp: pwm_codec)
qed

interpretation act_mode: prefix_codec activation_bytes "\<lambda>_. True"
proof
  fix x y :: ActivationMode and r s
  assume "activation_bytes x @ r = activation_bytes y @ s"
  then show "x = y \<and> r = s" by (cases x; cases y) (auto simp: pwm_codec)
qed

interpretation pol_action: prefix_codec push_policy_action_signing "\<lambda>_. True"
proof
  fix x y :: PolicyAction and r s
  assume "push_policy_action_signing x @ r = push_policy_action_signing y @ s"
  then show "x = y \<and> r = s"
    by (cases x; cases y)
       (auto simp: act_mode.enc_append_iff opt_id.enc_append_iff)
qed

interpretation pol_row: prefix_codec init_policy_bytes "\<lambda>_. True"
proof
  fix x y :: InitPolicyEntry and r s
  assume "init_policy_bytes x @ r = init_policy_bytes y @ s"
  then show "x = y \<and> r = s"
    by (auto simp: init_policy_bytes_def act_mode.enc_append_iff)
qed

interpretation prov: prefix_codec provenance_bytes "\<lambda>_. True"
proof
  fix x y :: "ExportProvenance option" and r s
  assume "provenance_bytes x @ r = provenance_bytes y @ s"
  then show "x = y \<and> r = s"
    by (cases x; cases y) (auto simp: provenance_bytes_def pwm_codec)
qed

section \<open>The INIT extension\<close>

definition ext_sizes_ok :: "InitV4Extension \<Rightarrow> bool" where
  "ext_sizes_ok ix \<longleftrightarrow>
     length (ix_owner_kind ix) < 2 ^ 16 \<and> length (ix_owner_display_name ix) < 2 ^ 16 \<and>
     length (ix_owner_country_hint ix) < 2 ^ 16 \<and> length (ix_external_verification_ref ix) < 2 ^ 16 \<and>
     length (ix_initial_policies ix) < 2 ^ 8"

lemma pol_count_inj:
  "length xs < 2 ^ 8 \<Longrightarrow> length ys < 2 ^ 8 \<Longrightarrow> pol_count xs = pol_count ys \<longleftrightarrow> length xs = length ys"
  by (auto simp: pol_count_def word_of_nat_eq_iff take_bit_nat_eq_self)

lemma take_pol_count: "length xs < 2 ^ 8 \<Longrightarrow> take (unat (pol_count xs)) xs = xs"
  by (simp add: pol_count_def unat_of_nat)

interpretation init_v4: prefix_codec init_v4_bytes ext_sizes_ok
proof
  fix x y :: InitV4Extension and r s
  assume ok: "ext_sizes_ok x" "ext_sizes_ok y"
    and eq: "init_v4_bytes x @ r = init_v4_bytes y @ s"
  note sizes = ok [unfolded ext_sizes_ok_def]
  have lens: "length (ix_initial_policies x) = length (ix_initial_policies y)" and
    head: "ix_owner_kind x = ix_owner_kind y" "ix_owner_display_name x = ix_owner_display_name y"
      "ix_owner_country_hint x = ix_owner_country_hint y"
      "ix_company_metadata_commitment x = ix_company_metadata_commitment y"
      "ix_external_verification_ref x = ix_external_verification_ref y"
      "ix_requested_domain_lo x = ix_requested_domain_lo y"
      "ix_rescue_address x = ix_rescue_address y" and
    tail: "concat (map init_policy_bytes (ix_initial_policies x)) @
        (case ix_cosign_policy x of Some c \<Rightarrow> [1, min_signers c] | None \<Rightarrow> [0]) @ r =
      concat (map init_policy_bytes (ix_initial_policies y)) @
        (case ix_cosign_policy y of Some c \<Rightarrow> [1, min_signers c] | None \<Rightarrow> [0]) @ s"
    using eq sizes
    by (auto simp: init_v4_bytes_def str.enc_append_iff opt_id.enc_append_iff pwm_codec
          pol_count_inj take_pol_count)
  from tail lens have "ix_initial_policies x = ix_initial_policies y" and
    cos: "(case ix_cosign_policy x of Some c \<Rightarrow> [1, min_signers c] | None \<Rightarrow> [0 :: u8]) @ r =
      (case ix_cosign_policy y of Some c \<Rightarrow> [1, min_signers c] | None \<Rightarrow> [0]) @ s"
    by (simp_all add: pol_row.concat_prefix_free list_all_iff)
  moreover from cos have "ix_cosign_policy x = ix_cosign_policy y \<and> r = s"
    by (cases "ix_cosign_policy x"; cases "ix_cosign_policy y") auto
  ultimately show "x = y \<and> r = s" using head by simp
qed

section \<open>The message determines the signed fields\<close>

text \<open>
  What the signature covers: the header fields, the body and the side fields that belong
  to the body. The remaining fields (a purpose outside BURN, cosignatures, ..) are not.
\<close>

datatype SignedExtra =
    NoExtra | InitExtra "InitV4Extension option" | BurnExtra string
  | ImportExtra u128 "ExportProvenance option"

definition signed_extra :: "SignedTx \<Rightarrow> SignedExtra" where
  "signed_extra tx = (case body tx of
     Init _ _ \<Rightarrow> InitExtra (init_v4 tx)
   | BurnMark _ _ \<Rightarrow> BurnExtra (purpose_text (burn_purpose tx))
   | Import _ _ _ \<Rightarrow> ImportExtra (case import_fee tx of Some f \<Rightarrow> f | None \<Rightarrow> 0) (import_provenance tx)
   | _ \<Rightarrow> NoExtra)"

definition signed_view ::
  "SignedTx \<Rightarrow> u16 \<times> bytes32 \<times> u32 \<times> u64 \<times> TxBody \<times> SignedExtra" where
  "signed_view tx =
     (domain_code tx, signer_pk tx, derivation_index tx, tx_nonce tx, body tx, signed_extra tx)"

definition msg_sizes_ok :: "SignedTx \<Rightarrow> bool" where
  "msg_sizes_ok tx \<longleftrightarrow> (case body tx of
     Init _ _ \<Rightarrow> (case init_v4 tx of Some ix \<Rightarrow> ext_sizes_ok ix | None \<Rightarrow> True)
   | BurnMark _ _ \<Rightarrow> length (purpose_text (burn_purpose tx)) < 2 ^ 16
   | _ \<Rightarrow> True)"

lemma body_bytes_inj:
  assumes "msg_sizes_ok tx" "msg_sizes_ok tx'"
    and "body_bytes tx (body tx) = body_bytes tx' (body tx')"
  shows "body tx = body tx' \<and> signed_extra tx = signed_extra tx'"
  using assms
  by (cases "body tx"; cases "body tx'")
     (auto simp: pwm_codec signed_extra_def msg_sizes_ok_def str.enc_append_iff opt_id.enc_iff
        pol_action.enc_append_iff pol_action.enc_iff prov.enc_iff init_v4.enc_iff split: option.splits)

lemma signing_message_inj:
  assumes "msg_sizes_ok tx" "msg_sizes_ok tx'" "signing_message tx = signing_message tx'"
  shows "signed_view tx = signed_view tx'"
  using assms body_bytes_inj [of tx tx']
  by (auto simp: signing_message_def signed_view_def pwm_codec)

end
