(* ===== verification/Pwm_Account.thy ===== *)
theory Pwm_Account
  imports Pwm_Tx_Sign
begin

text \<open>
  Accounts and the flags an address carries in its own bytes
  (src/crates/pwm-core/src/types.rs).
\<close>

section \<open>Address flags\<close>

definition COSIGN_NON_DISABLEABLE :: u32 where
  "COSIGN_NON_DISABLEABLE = 1"

definition CONSERVATION :: u32 where
  "CONSERVATION = push_bit 1 1"

definition MARKS_CAP :: u32 where
  "MARKS_CAP = - 1"

definition PWM_RAW_SCALE :: u128 where
  "PWM_RAW_SCALE = 1000000"

definition address_flags :: "AccountId \<Rightarrow> u32" where
  "address_flags aid = from_be [byte_at aid 2, byte_at aid 3, byte_at aid 4, byte_at aid 5]"

definition cosign_non_dis :: "AccountId \<Rightarrow> bool" where
  "cosign_non_dis aid = (address_flags aid AND COSIGN_NON_DISABLEABLE \<noteq> 0)"

definition conservation_flag :: "AccountId \<Rightarrow> bool" where
  "conservation_flag aid = (address_flags aid AND CONSERVATION \<noteq> 0)"

section \<open>Accounts\<close>

record DeferredPolicyEntry =
  dp_policy :: PolicyKind
  dp_activate_at_height :: u64

record Account =
  acc_signing_pubkey :: bytes32
  acc_derivation_index :: u32
  balance_pwm :: u128
  staked_pwm_raw :: u128
  stored_marks :: u32
  marks_last_block :: u64
  initialized :: bool
  acc_index :: u32
  acc_flags :: u32
  nonce :: u64
  rescue_address :: "AccountId option"
  active_policies :: u16
  dormant_policies :: u16
  deferred_policies :: "DeferredPolicyEntry list"
  ipv4_claimed_phase :: "u8 option"
  finalized :: bool
  owner_kind :: string
  owner_display_name :: string
  owner_country_hint :: string
  company_metadata_commitment :: "bytes32 option"
  external_verification_ref :: "string option"
  requested_domain_lo :: "u8 option"

text \<open>\<open>Account::default()\<close> and \<open>Account::genesis_funded\<close>.\<close>

definition account_default :: Account where
  "account_default = \<lparr> acc_signing_pubkey = 0, acc_derivation_index = 0, balance_pwm = 0,
     staked_pwm_raw = 0, stored_marks = 0, marks_last_block = 0, initialized = False,
     acc_index = 0, acc_flags = 0, nonce = 0, rescue_address = None, active_policies = 0,
     dormant_policies = 0, deferred_policies = [], ipv4_claimed_phase = None,
     finalized = False, owner_kind = [], owner_display_name = [], owner_country_hint = [],
     company_metadata_commitment = None, external_verification_ref = None,
     requested_domain_lo = None \<rparr>"

definition genesis_funded :: "bytes32 \<Rightarrow> u32 \<Rightarrow> u128 \<Rightarrow> Account" where
  "genesis_funded pubkey idx balance = \<lparr> acc_signing_pubkey = pubkey,
     acc_derivation_index = idx, balance_pwm = balance,
     staked_pwm_raw = 0, stored_marks = 0, marks_last_block = 0, initialized = True,
     acc_index = 0, acc_flags = 0, nonce = 0, rescue_address = None, active_policies = 0,
     dormant_policies = 0, deferred_policies = [], ipv4_claimed_phase = None,
     finalized = False, owner_kind = [], owner_display_name = [], owner_country_hint = [],
     company_metadata_commitment = None, external_verification_ref = None,
     requested_domain_lo = None \<rparr>"

text \<open>The one-off migration of a marks balance from the old 128-bit field.\<close>

definition migrate_marks_legacy :: "u128 \<Rightarrow> u32" where
  "migrate_marks_legacy raw =
     (if raw \<le> ucast MARKS_CAP then ucast raw
      else ucast (min (raw div PWM_RAW_SCALE) (ucast MARKS_CAP)))"

text \<open>What an account is worth: its liquid and its staked units.\<close>

definition holdings :: "Account \<Rightarrow> nat" where
  "holdings a = unat (balance_pwm a) + unat (staked_pwm_raw a)"

end
