(* ===== verification/Pwm_Gen_Cfg.thy ===== *)
theory Pwm_Gen_Cfg
  imports Pwm_Account
begin

text \<open>The genesis configuration (the data of src/crates/pwm-core/src/genesis.rs).\<close>

definition LEGACY_POLICY_VER :: u32 where "LEGACY_POLICY_VER = 1"
definition DEF_BLOCKS_PER_HOUR :: u64 where "DEF_BLOCKS_PER_HOUR = 3600"
definition DEF_MARKS_HOUR :: u64 where "DEF_MARKS_HOUR = 1"
definition DEF_PWM_STAKE_MIN :: u128 where "DEF_PWM_STAKE_MIN = 100000"
definition DEF_MARKS_STAKE_MIN :: u128 where "DEF_MARKS_STAKE_MIN = PWM_RAW_SCALE"
definition DEF_SEASON_COEFF_PPM :: u64 where "DEF_SEASON_COEFF_PPM = 1000000"
definition DEF_BASE_EMIT :: u128 where "DEF_BASE_EMIT = 100"
definition DEF_EPOCH_LEN_BLOCKS :: u64 where "DEF_EPOCH_LEN_BLOCKS = 10080"
definition DEF_CONSERV_DELAY_BLOCKS :: u64 where "DEF_CONSERV_DELAY_BLOCKS = 86400"
definition DEF_XSHARD_LOCK_TO :: u64 where "DEF_XSHARD_LOCK_TO = 604800"

record ClaimPhaseConfig =
  cp_phase :: u8
  cp_registry_address :: AccountId
  cp_allocation :: u128

record GRow =
  gr_acct :: AccountId
  gr_pubkey :: bytes32
  gr_der_idx :: u32
  gr_bal :: u128

record FundingCfg =
  fc_accounts :: "GRow list"

record VRow =
  vr_acct :: AccountId
  vr_pubkey :: bytes32
  vr_der_idx :: u32

record ValCfg =
  vc_set :: "VRow list"

datatype RewPol = ToProducerAccount

record GenCfg =
  funding :: FundingCfg
  vals :: ValCfg
  rew :: RewPol
  gen_accounts :: "GRow list"
  blocks_per_hour :: u64
  marks_per_hour :: u64
  ipv4_claim_phases :: "ClaimPhaseConfig list"
  block_reward :: u128
  marks_coeff :: u128
  policy_ver :: u32
  base_emission_per_block :: u128
  min_validator_stake :: u128
  epoch_length_blocks :: u64
  conservation_delay_blocks :: u64
  xshard_lock_to_blocks :: u64
  pwm_stake_min :: u128
  marks_stake_min :: u128
  season_enabled :: bool
  season_coeff_ppm :: u64

text \<open>
  The dev factory \<open>dev_net\<close>: one validator whose key is derived from the seed
  \<open>[99; 32]\<close> on the path \<open>[0, 0]\<close>.
\<close>

definition dev_net_sk :: "extlib \<Rightarrow> bytes32" where
  "dev_net_sk ext = x_slip10 ext (replicate 32 99) [0, 0]"

definition dev_net_cfg :: "extlib \<Rightarrow> GenCfg" where
  "dev_net_cfg ext =
     (let pk = x_pubkey ext (dev_net_sk ext);
          aid = account_id_from_parts ext pk 0;
          row = \<lparr> gr_acct = aid, gr_pubkey = pk, gr_der_idx = 0, gr_bal = 1000000 \<rparr>
      in \<lparr> funding = \<lparr> fc_accounts = [row] \<rparr>,
           vals = \<lparr> vc_set = [\<lparr> vr_acct = aid, vr_pubkey = pk, vr_der_idx = 0 \<rparr>] \<rparr>,
           rew = ToProducerAccount, gen_accounts = [row],
           blocks_per_hour = DEF_BLOCKS_PER_HOUR, marks_per_hour = DEF_MARKS_HOUR,
           ipv4_claim_phases = [], block_reward = 100, marks_coeff = 10000,
           policy_ver = LEGACY_POLICY_VER, base_emission_per_block = DEF_BASE_EMIT,
           min_validator_stake = 0, epoch_length_blocks = DEF_EPOCH_LEN_BLOCKS,
           conservation_delay_blocks = DEF_CONSERV_DELAY_BLOCKS,
           xshard_lock_to_blocks = DEF_XSHARD_LOCK_TO, pwm_stake_min = DEF_PWM_STAKE_MIN,
           marks_stake_min = DEF_MARKS_STAKE_MIN, season_enabled = False,
           season_coeff_ppm = DEF_SEASON_COEFF_PPM \<rparr>)"

section \<open>Readings of the configuration\<close>

text \<open>The remainder by an empty validator set panics; the index wraps around the set.\<close>

definition prod_acct :: "GenCfg \<Rightarrow> u32 \<Rightarrow> AccountId option" where
  "prod_acct cfg prod_idx =
     (let n = length (vc_set (vals cfg))
      in if n = 0 then None else Some (vr_acct (vc_set (vals cfg) ! (unat prod_idx mod n))))"

definition prod_pk :: "GenCfg \<Rightarrow> u32 \<Rightarrow> bytes32 option" where
  "prod_pk cfg prod_idx =
     (let n = length (vc_set (vals cfg))
      in if n = 0 then None else Some (vr_pubkey (vc_set (vals cfg) ! (unat prod_idx mod n))))"

definition is_legacy_policy :: "GenCfg \<Rightarrow> bool" where
  "is_legacy_policy cfg = (policy_ver cfg = LEGACY_POLICY_VER)"

definition season_ppm :: "GenCfg \<Rightarrow> u64 \<Rightarrow> u128" where
  "season_ppm cfg block_ts =
     (if season_enabled cfg then ucast (season_coeff_ppm cfg) else ucast DEF_SEASON_COEFF_PPM)"

end
