(* ===== verification/Pwm_Marks.thy ===== *)
theory Pwm_Marks
  imports Pwm_Gen_Cfg
begin

text \<open>
  Lazy marks and the block reward (src/crates/pwm-core/src/marks.rs), all in the machine
  arithmetic of the source; the lemmas read it as the formula it implements.
\<close>

definition PPM_DENOM :: u128 where
  "PPM_DENOM = 1000000"

text \<open>The only caller passes a divisor that is not 0.\<close>

definition ceil_div_u64 :: "u64 \<Rightarrow> u64 \<Rightarrow> u64" where
  "ceil_div_u64 numer denom = (if numer = 0 then 0 else 1 + (numer - 1) div denom)"

text \<open>\<open>u64::try_from(x).unwrap_or(u64::MAX)\<close> of a 128-bit value.\<close>

definition u64_or_max :: "u128 \<Rightarrow> u64" where
  "u64_or_max x = (if unat x < 2 ^ 64 then ucast x else - 1)"

definition compute_lazy_marks :: "Account \<Rightarrow> u64 \<Rightarrow> GenCfg \<Rightarrow> u32" where
  "compute_lazy_marks account current_height gen_cfg =
     (let stored = stored_marks account
      in if stored = MARKS_CAP \<or> current_height \<le> marks_last_block account then stored
      else if blocks_per_hour gen_cfg = 0 then stored
      else let delta_blocks = sat_sub current_height (marks_last_block account);
               delta_hours = delta_blocks div blocks_per_hour gen_cfg
      in if delta_hours = 0 then stored
      else let whole_pwm_staked = staked_pwm_raw account div PWM_RAW_SCALE;
               rate = marks_per_hour gen_cfg
      in if whole_pwm_staked = 0 \<or> rate = 0 then stored
      else let remaining = ucast (MARKS_CAP - stored) :: u64;
               whole = u64_or_max whole_pwm_staked;
               per_hour = sat_mul whole rate
      in if per_hour = 0 then stored
      else let satur_hours = ceil_div_u64 remaining per_hour;
               effective_hours = min delta_hours satur_hours;
               generated = sat_mul per_hour effective_hours
      in ucast (min (sat_add (ucast stored) generated) (ucast MARKS_CAP :: u64)))"

definition compute_block_reward :: "GenCfg \<Rightarrow> u64 \<Rightarrow> u128" where
  "compute_block_reward gen_cfg block_height =
     (if season_coeff_ppm gen_cfg = 0 then block_reward gen_cfg
      else sat_mul (base_emission_per_block gen_cfg) (ucast (season_coeff_ppm gen_cfg)) div PPM_DENOM)"

text \<open>\<open>touch_acct_mrks\<close> of state.rs: bring the stored marks up to date and move the cursor.\<close>

definition touch_acct_mrks :: "Account \<Rightarrow> u64 \<Rightarrow> GenCfg \<Rightarrow> Account" where
  "touch_acct_mrks acc inclusion_height gen_cfg =
     acc\<lparr>stored_marks := compute_lazy_marks acc inclusion_height gen_cfg,
         marks_last_block := inclusion_height\<rparr>"

lemma touch_simps [simp]:
  "balance_pwm (touch_acct_mrks a h cfg) = balance_pwm a"
  "staked_pwm_raw (touch_acct_mrks a h cfg) = staked_pwm_raw a"
  "nonce (touch_acct_mrks a h cfg) = nonce a"
  "initialized (touch_acct_mrks a h cfg) = initialized a"
  "finalized (touch_acct_mrks a h cfg) = finalized a"
  "rescue_address (touch_acct_mrks a h cfg) = rescue_address a"
  "active_policies (touch_acct_mrks a h cfg) = active_policies a"
  "dormant_policies (touch_acct_mrks a h cfg) = dormant_policies a"
  "deferred_policies (touch_acct_mrks a h cfg) = deferred_policies a"
  "ipv4_claimed_phase (touch_acct_mrks a h cfg) = ipv4_claimed_phase a"
  "acc_signing_pubkey (touch_acct_mrks a h cfg) = acc_signing_pubkey a"
  "acc_derivation_index (touch_acct_mrks a h cfg) = acc_derivation_index a"
  "marks_last_block (touch_acct_mrks a h cfg) = h"
  "stored_marks (touch_acct_mrks a h cfg) = compute_lazy_marks a h cfg"
  by (simp_all add: touch_acct_mrks_def)

section \<open>The formula\<close>

text \<open>
  In unbounded arithmetic: every whole hour (in blocks) since the last touch yields the
  whole staked coins times the rate, and the marks stop at the cap.
\<close>

definition marks_formula :: "nat \<Rightarrow> nat \<Rightarrow> nat \<Rightarrow> nat \<Rightarrow> nat \<Rightarrow> nat" where
  "marks_formula stored coins rate blocks bph =
     min (2 ^ 32 - 1) (stored + coins * rate * (blocks div bph))"

lemma unat_ceil_div:
  assumes "0 < unat d"
  shows "unat (ceil_div_u64 n d) = (unat n + unat d - 1) div unat d"
proof (cases "n = 0")
  case True
  with assms show ?thesis by (simp add: ceil_div_u64_def)
next
  case False
  then have n: "0 < unat n" by (simp add: unat_gt_0)
  have le: "1 \<le> n" using False by (simp add: word_le_nat_alt n Suc_leI)
  have m: "unat (n - 1) = unat n - 1" using unat_minus_le [OF le] by simp
  have q: "unat ((n - 1) div d) = (unat n - 1) div unat d"
    by (simp add: unat_div m)
  have "(unat n - 1) div unat d \<le> unat n - 1" by simp
  moreover have "unat n < 2 ^ 64" using unat_le_max [of n] by simp
  ultimately have "1 + (unat n - 1) div unat d < 2 ^ 64" using n by linarith
  then have "unat (1 :: u64) + unat ((n - 1) div d) < 2 ^ LENGTH(64)" by (simp add: q)
  from unat_plus_small [OF this]
  have "unat (ceil_div_u64 n d) = 1 + (unat n - 1) div unat d"
    using False by (simp add: ceil_div_u64_def q)
  also have "\<dots> = (unat n - 1 + unat d) div unat d"
    using assms by simp
  finally show ?thesis using n by simp
qed

lemma unat_u64_or_max: "unat (u64_or_max x) = min (unat x) (2 ^ 64 - 1)"
  by (auto simp: u64_or_max_def unsigned_ucast_eq take_bit_nat_eq_self)

text \<open>The saturation horizon loses nothing: hours beyond it would only pass the cap.\<close>

lemma horizon_exact:
  fixes S P H cap M :: nat
  assumes "1 \<le> P" "S \<le> cap" "cap \<le> M"
  shows "min cap (S + min (P * min H ((cap - S + P - 1) div P)) M) = min cap (S + P * H)"
proof (cases "H \<le> (cap - S + P - 1) div P")
  case True
  with assms show ?thesis by (auto simp: min_def)
next
  case False
  define E where "E = (cap - S + P - 1) div P"
  have "cap - S + P - 1 < P * Suc E"
    using dividend_less_times_div [of P "cap - S + P - 1"] assms(1) by (simp add: E_def)
  then have "cap - S \<le> P * E" by simp
  moreover have "P * E \<le> P * H" using False by (simp add: E_def)
  ultimately have "cap \<le> S + P * E" "cap \<le> S + P * H" using assms(2) by linarith+
  moreover have "min H ((cap - S + P - 1) div P) = E" using False by (simp add: E_def)
  ultimately show ?thesis using assms(3) by (simp add: min_def)
qed

lemma rate_exact:
  fixes C R M S H cap :: nat
  assumes "1 \<le> R" "1 \<le> H" "cap \<le> M"
  shows "min cap (S + min (min C M * R) M * H) = min cap (S + C * R * H)"
proof (cases "C * R \<le> M")
  case True
  have "C * 1 \<le> C * R" using assms(1) by (rule mult_le_mono2)
  with True have "C \<le> M" by linarith
  with True show ?thesis by (simp add: min_def)
next
  case False
  have "M * 1 \<le> M * R" using assms(1) by (rule mult_le_mono2)
  with False have "M \<le> min C M * R" by (auto simp: min_def)
  then have "min (min C M * R) M = M" by simp
  moreover have "cap \<le> M * H"
    using mult_le_mono2 [OF assms(2), of M] assms(3) by linarith
  moreover have "M * 1 \<le> C * R * H"
    using False assms(2) by (metis le_cases mult_le_mono nle_le)
  ultimately have "cap \<le> S + M * H" "cap \<le> S + C * R * H" using assms(3) by linarith+
  with \<open>min (min C M * R) M = M\<close> show ?thesis by (simp only: min.absorb1)
qed

lemma unat_MARKS_CAP: "unat MARKS_CAP = 2 ^ 32 - 1"
  by (simp add: MARKS_CAP_def)

lemma stored_le_cap: "unat (m :: u32) \<le> 2 ^ 32 - 1"
  using unat_le_max [of m] by simp

lemma lazy_marks_generated:
  assumes "0 < unat per_hour" "0 < unat hours"
  shows "unat (ucast (min (sat_add (ucast stored) (sat_mul per_hour
             (min hours (ceil_div_u64 (ucast (MARKS_CAP - stored)) per_hour)))) (ucast MARKS_CAP :: u64)) :: u32) =
         min (2 ^ 32 - 1) (unat stored + unat per_hour * unat hours)"
proof -
  define rem :: u64 where "rem = ucast (MARKS_CAP - stored)"
  define eff where "eff = min hours (ceil_div_u64 rem per_hour)"
  have S: "unat stored \<le> 2 ^ 32 - 1" by (rule stored_le_cap)
  have s64: "unat (ucast stored :: u64) = unat stored"
    using S by (simp add: unsigned_ucast_eq take_bit_nat_eq_self)
  have cap64: "unat (ucast MARKS_CAP :: u64) = 2 ^ 32 - 1"
    by (simp add: unsigned_ucast_eq take_bit_nat_eq_self unat_MARKS_CAP)
  have "stored \<le> MARKS_CAP" using S by (simp add: word_le_nat_alt unat_MARKS_CAP)
  from unat_minus_le [OF this]
  have rem: "unat rem = 2 ^ 32 - 1 - unat stored"
    by (simp add: rem_def unsigned_ucast_eq take_bit_nat_eq_self unat_MARKS_CAP)
  have eff: "unat eff = min (unat hours) ((2 ^ 32 - 1 - unat stored + unat per_hour - 1) div unat per_hour)"
    by (simp add: eff_def unat_ceil_div [OF assms(1)] rem min_def word_le_nat_alt)
  define g where "g = sat_mul per_hour eff"
  have g: "unat g = min (unat per_hour * unat eff) (2 ^ 64 - 1)"
    by (simp add: g_def unat_sat_mul)
  define m where "m = min (sat_add (ucast stored) g) (ucast MARKS_CAP :: u64)"
  have "unat m = min (unat (sat_add (ucast stored) g)) (2 ^ 32 - 1)"
    using cap64 by (auto simp: m_def min_def word_le_nat_alt)
  also have "\<dots> = min (2 ^ 32 - 1) (unat stored + unat g)"
    by (simp add: unat_sat_add s64)
  also have "\<dots> = min (2 ^ 32 - 1) (unat stored + unat per_hour * unat hours)"
    unfolding g eff using assms S by (intro horizon_exact) simp_all
  finally have m: "unat m = min (2 ^ 32 - 1) (unat stored + unat per_hour * unat hours)" .
  then have "unat m < 2 ^ 32" by simp
  then have "unat (ucast m :: u32) = unat m"
    by (simp add: unsigned_ucast_eq take_bit_nat_eq_self)
  then show ?thesis
    using m by (simp only: m_def g_def eff_def rem_def)
qed

lemma lazy_marks_formula:
  "unat (compute_lazy_marks a h cfg) =
     marks_formula (unat (stored_marks a)) (unat (staked_pwm_raw a) div 1000000)
       (unat (marks_per_hour cfg)) (unat h - unat (marks_last_block a)) (unat (blocks_per_hour cfg))"
proof -
  define hours where "hours = sat_sub h (marks_last_block a) div blocks_per_hour cfg"
  define whole where "whole = staked_pwm_raw a div PWM_RAW_SCALE"
  define per_hour where "per_hour = sat_mul (u64_or_max whole) (marks_per_hour cfg)"
  have H: "unat hours = (unat h - unat (marks_last_block a)) div unat (blocks_per_hour cfg)"
    by (simp add: hours_def unat_div unat_sat_sub)
  have W: "unat whole = unat (staked_pwm_raw a) div 1000000"
    by (simp add: whole_def unat_div PWM_RAW_SCALE_def)
  have P: "unat per_hour = min (min (unat whole) (2 ^ 64 - 1) * unat (marks_per_hour cfg)) (2 ^ 64 - 1)"
    by (simp add: per_hour_def unat_sat_mul unat_u64_or_max)
  have S: "unat (stored_marks a) \<le> 2 ^ 32 - 1" by (rule stored_le_cap)
  show ?thesis
  proof (cases "stored_marks a = MARKS_CAP \<or> hours = 0 \<or> whole = 0 \<or> marks_per_hour cfg = 0")
    case True
    have stop: "compute_lazy_marks a h cfg = stored_marks a"
      using True by (auto simp: compute_lazy_marks_def Let_def hours_def whole_def)
    from True have "stored_marks a = MARKS_CAP \<or> unat hours = 0 \<or> unat whole = 0 \<or> unat (marks_per_hour cfg) = 0"
      by auto
    then show ?thesis
      unfolding stop using S H W by (auto simp: marks_formula_def unat_MARKS_CAP)
  next
    case False
    then have pos: "0 < unat hours" "0 < unat whole" "0 < unat (marks_per_hour cfg)"
      by (auto simp: unat_gt_0)
    have "0 < unat (blocks_per_hour cfg)" using pos(1) unfolding H by (metis div_by_0 gr0I less_irrefl)
    moreover have "unat (marks_last_block a) < unat h"
      using pos(1) unfolding H by (metis diff_is_0_eq div_0 less_irrefl not_le)
    ultimately have guards: "blocks_per_hour cfg \<noteq> 0" "\<not> h \<le> marks_last_block a"
      by (auto simp: word_le_nat_alt)
    have ph: "0 < unat per_hour" unfolding P using pos by simp
    then have "per_hour \<noteq> 0" by auto
    with False guards have "compute_lazy_marks a h cfg =
      ucast (min (sat_add (ucast (stored_marks a)) (sat_mul per_hour
         (min hours (ceil_div_u64 (ucast (MARKS_CAP - stored_marks a)) per_hour)))) (ucast MARKS_CAP :: u64))"
      by (simp add: compute_lazy_marks_def Let_def hours_def [symmetric] whole_def [symmetric] per_hour_def [symmetric])
    then have "unat (compute_lazy_marks a h cfg) = min (2 ^ 32 - 1) (unat (stored_marks a) + unat per_hour * unat hours)"
      by (simp only: lazy_marks_generated [OF ph pos(1)])
    also have "\<dots> = min (2 ^ 32 - 1) (unat (stored_marks a) + unat whole * unat (marks_per_hour cfg) * unat hours)"
      unfolding P using pos by (intro rate_exact) simp_all
    finally show ?thesis by (simp add: marks_formula_def H W)
  qed
qed

section \<open>Consequences\<close>

lemma lazy_marks_ge: "unat (stored_marks a) \<le> unat (compute_lazy_marks a h cfg)"
  using stored_le_cap [of "stored_marks a"] by (simp add: lazy_marks_formula marks_formula_def)

lemma marks_formula_mono: "b \<le> b' \<Longrightarrow> marks_formula s c r b p \<le> marks_formula s c r b' p"
  unfolding marks_formula_def by (intro min.mono add_left_mono mult_le_mono div_le_mono) simp_all

lemma lazy_marks_mono:
  "unat h \<le> unat h' \<Longrightarrow> unat (compute_lazy_marks a h cfg) \<le> unat (compute_lazy_marks a h' cfg)"
  unfolding lazy_marks_formula by (rule marks_formula_mono) simp

text \<open>
  A touch within the running hour yields nothing and still moves the cursor, so the blocks
  since the previous touch are not counted again.
\<close>

lemma touch_within_hour:
  assumes "unat h - unat (marks_last_block a) < unat (blocks_per_hour cfg)"
  shows "stored_marks (touch_acct_mrks a h cfg) = stored_marks a"
proof -
  have "unat (compute_lazy_marks a h cfg) = unat (stored_marks a)"
    using stored_le_cap [of "stored_marks a"] assms
    by (simp add: lazy_marks_formula marks_formula_def)
  then show ?thesis by (simp add: word_unat_eq_iff)
qed

end
