(* ===== verification/Pwm_Tx_Shape.thy ===== *)
theory Pwm_Tx_Shape
  imports Pwm_Account
begin

text \<open>
  The structural checks before a transaction touches the state (\<open>validate_tx_shape\<close> and its
  helpers in src/crates/pwm-core/src/tx.rs), and the two routing predicates of EXPORT and
  IMPORT. A check returns \<open>Inr ()\<close> or the error.
\<close>

section \<open>Parts\<close>

definition validate_init_v4_ext :: "InitV4Extension \<Rightarrow> TxError + unit" where
  "validate_init_v4_ext ix =
     (if ix_owner_kind ix = [] \<or> length (as_bytes (ix_owner_kind ix)) > INIT_OWNER_KIND_MAX
      then Inl PolicySchemaInvalid
      else if ix_owner_display_name ix = []
              \<or> length (as_bytes (ix_owner_display_name ix)) > INIT_OWNER_NAME_MAX
      then Inl PolicySchemaInvalid
      else if ix_owner_country_hint ix = []
              \<or> length (as_bytes (ix_owner_country_hint ix)) > INIT_OWNER_COUNTRY_MAX
      then Inl PolicySchemaInvalid
      else if length (as_bytes (ix_external_verification_ref ix)) > INIT_EXT_REF_MAX
      then Inl PolicySchemaInvalid
      else if length (ix_initial_policies ix) > INIT_MAX_POLICIES
      then Inl PolicySchemaInvalid
      else if list_ex (\<lambda>row. 16 \<le> policy_id (ip_policy row)) (ix_initial_policies ix)
      then Inl PolicySchemaInvalid
      else Inr ())"

definition validate_burn_purpose :: "string \<Rightarrow> TxError + unit" where
  "validate_burn_purpose value =
     (let len = length (as_bytes value)
      in if \<not> (1 \<le> len \<and> len \<le> 80) then Inl InvalidPurposeLength
         else if has_control (codes value) then Inl InvalidPurposeChars
         else Inr ())"

fun validate_policy_action :: "PolicyAction \<Rightarrow> u128 \<Rightarrow> TxError + unit" where
  "validate_policy_action (SetPolicy _ _) fee =
     (if fee = 0 then Inl PolicySchemaInvalid else Inr ())"
| "validate_policy_action (ActivatePolicy pid activation_target) fee =
     (case from_policy_id pid of
        None \<Rightarrow> Inl PolicySchemaInvalid
      | Some pol \<Rightarrow>
          if fee \<noteq> 0 \<and> pol \<noteq> RoutingEmergencyRedirect then Inl PolicyActivationFeeMustBeZero
          else if pol = RoutingEmergencyRedirect \<and> activation_target = None
          then Inl PolicyActivationTargetRequired
          else if pol \<noteq> RoutingEmergencyRedirect \<and> activation_target \<noteq> None
          then Inl PolicyActivationTargetNotAllowed
          else Inr ())"
| "validate_policy_action (DeactivatePolicy pid) fee =
     (if fee = 0 then Inl PolicySchemaInvalid
      else if from_policy_id pid = None then Inl PolicySchemaInvalid
      else Inr ())"

section \<open>The check of the whole transaction\<close>

text \<open>
  The match of the source tries its arms in order, with guards between them: the arms of
  INIT, then the guard on a stray INIT extension, BURN, the guard on a stray purpose, CLAIM
  and IMPORT, the guard on stray import fields, POLICY, and the rest.
\<close>

definition shape_body :: "SignedTx \<Rightarrow> AccountId \<Rightarrow> TxError + unit" where
  "shape_body tx aid = (case body tx of
     Init _ _ \<Rightarrow> (case init_v4 tx of Some ix \<Rightarrow> validate_init_v4_ext ix | None \<Rightarrow> Inr ())
   | b \<Rightarrow>
     if init_v4 tx \<noteq> None then Inl PolicySchemaInvalid
     else (case b of
       BurnMark _ _ \<Rightarrow> (case burn_purpose tx of
           None \<Rightarrow> Inl InvalidPurposeLength
         | Some p \<Rightarrow> validate_burn_purpose (normalize_burn_purpose p))
     | b \<Rightarrow>
       if burn_purpose tx \<noteq> None then Inl PolicySchemaInvalid
       else (case b of
         ClaimIPv4Batch _ _ registry_sig \<Rightarrow>
           if list_all (\<lambda>b. b = 0) (be_bytes 64 registry_sig) then Inl PolicySchemaInvalid else Inr ()
       | Import _ _ _ \<Rightarrow>
           if (case import_fee tx of Some f \<Rightarrow> f | None \<Rightarrow> 0) < MIN_IMPORT_FEE_UNITS
           then Inl ImportFeeTooLow else Inr ()
       | b \<Rightarrow>
         if import_fee tx \<noteq> None \<or> import_provenance tx \<noteq> None then Inl PolicySchemaInvalid
         else (case b of
           Policy target_account action fee \<Rightarrow>
             if target_account \<noteq> aid then Inl PolicySchemaInvalid
             else if cosign_non_dis aid \<and> policy_weakens_cosign action then Inl PolicyFlagNonDisableable
             else validate_policy_action action fee
         | _ \<Rightarrow> Inr ()))))"

definition validate_tx_shape_inner :: "extlib \<Rightarrow> SignedTx \<Rightarrow> bool \<Rightarrow> TxError + unit" where
  "validate_tx_shape_inner ext tx check_sig =
     (if check_sig \<and> \<not> verify_sig ext tx then Inl BadSignature
      else let aid = computed_account_id ext tx
      in if domain_of_account_id aid \<noteq> domain_code tx then Inl DomainMismatch
         else if (case body tx of Transfer t _ _ \<Rightarrow> t = aid | _ \<Rightarrow> False) then Inl InvalidTransfer
         else shape_body tx aid)"

definition validate_tx_shape :: "extlib \<Rightarrow> SignedTx \<Rightarrow> TxError + unit" where
  "validate_tx_shape ext tx = validate_tx_shape_inner ext tx True"

definition validate_shape_no_sig :: "extlib \<Rightarrow> SignedTx \<Rightarrow> TxError + unit" where
  "validate_shape_no_sig ext tx = validate_tx_shape_inner ext tx False"

section \<open>Routing predicates\<close>

definition same_hi_domain :: "AccountId \<Rightarrow> AccountId \<Rightarrow> bool" where
  "same_hi_domain src dst = (hi_byte (domain_of_account_id src) = hi_byte (domain_of_account_id dst))"

definition export_context_is_valid :: "SignedTx \<Rightarrow> bool" where
  "export_context_is_valid tx = (case body tx of
     Export t target_domain amount _ \<Rightarrow>
       if amount = 0 then False
       else let src_hi = hi_byte (domain_code tx); dst_hi = hi_byte target_domain
         in if src_hi = dst_hi then False
            else hi_byte (domain_of_account_id t) = dst_hi
   | _ \<Rightarrow> True)"

definition import_context_is_valid :: "SignedTx \<Rightarrow> bool" where
  "import_context_is_valid tx = (case body tx of
     Import t amount _ \<Rightarrow>
       if amount = 0 then False
       else hi_byte (domain_of_account_id t) = hi_byte (domain_code tx)
   | _ \<Rightarrow> True)"

section \<open>What a valid shape gives\<close>

lemma validate_init_v4_ext_ok:
  "validate_init_v4_ext ix = Inr () \<Longrightarrow> ext_sizes_ok ix"
  by (auto simp: validate_init_v4_ext_def ext_sizes_ok_def INIT_OWNER_KIND_MAX_def
      INIT_OWNER_NAME_MAX_def INIT_OWNER_COUNTRY_MAX_def INIT_EXT_REF_MAX_def
      INIT_MAX_POLICIES_def split: if_splits)

lemma shape_body_sizes: "shape_body tx aid = Inr () \<Longrightarrow> msg_sizes_ok tx"
  by (auto simp: shape_body_def msg_sizes_ok_def purpose_text_def validate_burn_purpose_def Let_def
      dest: validate_init_v4_ext_ok split: TxBody.splits option.splits if_splits)

lemma validate_tx_shape_split:
  "validate_tx_shape ext tx = (if verify_sig ext tx then validate_shape_no_sig ext tx else Inl BadSignature)"
  by (simp add: validate_tx_shape_def validate_shape_no_sig_def validate_tx_shape_inner_def)

lemma shape_no_sig_body:
  "validate_shape_no_sig ext tx = Inr () \<Longrightarrow> shape_body tx (computed_account_id ext tx) = Inr ()"
  by (auto simp: validate_shape_no_sig_def validate_tx_shape_inner_def Let_def split: if_splits)

lemma shape_no_sig_domain:
  "validate_shape_no_sig ext tx = Inr () \<Longrightarrow> domain_of_account_id (computed_account_id ext tx) = domain_code tx"
  by (auto simp: validate_shape_no_sig_def validate_tx_shape_inner_def Let_def split: if_splits)

lemma shape_no_sig_transfer:
  "validate_shape_no_sig ext tx = Inr () \<Longrightarrow> body tx = Transfer t amount fee \<Longrightarrow>
     t \<noteq> computed_account_id ext tx"
  by (auto simp: validate_shape_no_sig_def validate_tx_shape_inner_def Let_def split: if_splits)

lemma validate_shape_sizes: "validate_tx_shape ext tx = Inr () \<Longrightarrow> msg_sizes_ok tx"
  by (auto simp: validate_tx_shape_split split: if_splits
      intro: shape_body_sizes [OF shape_no_sig_body])

end
