(* ===== verification/Pwm_State.thy ===== *)
theory Pwm_State
  imports Pwm_Marks Pwm_Tx_Shape
begin

text \<open>
  The ledger state and its plain operations (the first part of
  src/crates/pwm-core/src/state.rs): accounts, fee pool, import and export registries,
  cross-shard locks, evidence log and the queue of delayed (conservation) transfers.

  The \<open>BTreeMap\<close>s are finite maps, the \<open>BTreeSet\<close> a finite set, the \<open>Vec\<close>s lists.
\<close>

section \<open>Data\<close>

datatype PolicyDecision = Allow | Reject TxError | Redirect AccountId

datatype CrossShardLockState = Locked | Released | Refunded

record CrossShardLock =
  lk_export_id :: bytes32
  lk_sender :: AccountId
  lk_amount_pwm :: u128
  lk_target_domain :: u16
  lk_refund_account :: AccountId
  lk_lock_height :: u64
  lk_unlock_height :: u64
  lk_state :: CrossShardLockState

datatype EvidenceType = DuplicateVote | InvalidAttestation | UnavailableProposer | CustomStub u16

record EvidenceRecord =
  ev_record_id :: bytes32
  ev_height :: u64
  ev_offender_validator_idx :: u16
  ev_evidence_type :: EvidenceType
  ev_payload_hash :: bytes32
  ev_reporter :: "AccountId option"

record PendingConservationTransfer =
  pc_sender :: AccountId
  pc_recipient :: AccountId
  pc_amount_pwm :: u128
  pc_fee_pwm :: u64
  pc_nonce :: u64
  pc_enqueue_height :: u64
  pc_execute_at_height :: u64
  pc_tx_hash :: bytes32

record State =
  accounts :: "(AccountId, Account) fmap"
  fee_pool :: u128
  imported_set :: "bytes32 fset"
  exported_registry :: "(bytes32, ExportProvenance) fmap"
  epoch_counter :: u64
  active_validator_indices :: "u16 list"
  cross_shard_locks :: "CrossShardLock list"
  evidence_log :: "EvidenceRecord list"
  pending_conservation :: "PendingConservationTransfer list"

definition state_default :: State where
  "state_default = \<lparr> accounts = fmempty, fee_pool = 0, imported_set = {||},
     exported_registry = fmempty, epoch_counter = 0, active_validator_indices = [],
     cross_shard_locks = [], evidence_log = [], pending_conservation = [] \<rparr>"

text \<open>
  \<open>bincode\<close> is a crate: the encoding of the state and of an evidence type are arguments.
\<close>

definition state_digest :: "extlib \<Rightarrow> (State \<Rightarrow> bytes) \<Rightarrow> State \<Rightarrow> bytes32" where
  "state_digest ext bincode st = x_blake3 ext (bincode st)"

section \<open>IPv4 claims\<close>

definition find_claim_phase :: "GenCfg \<Rightarrow> u8 \<Rightarrow> TxError + ClaimPhaseConfig" where
  "find_claim_phase gen_cfg phase =
     (case find (\<lambda>row. cp_phase row = phase) (ipv4_claim_phases gen_cfg) of
        Some row \<Rightarrow> Inr row | None \<Rightarrow> Inl PolicySchemaInvalid)"

definition claim_ipv4_msg :: "u8 \<Rightarrow> bytes32 \<Rightarrow> AccountId \<Rightarrow> bytes" where
  "claim_ipv4_msg phase batch_root claimant =
     as_bytes ''PWM/IPV4/CLAIM/V1'' @ [phase] @ be_bytes 32 batch_root @ be_bytes 32 claimant"

definition verify_claim_sig ::
  "extlib \<Rightarrow> State \<Rightarrow> AccountId \<Rightarrow> bytes \<Rightarrow> bytes64 \<Rightarrow> TxError + unit" where
  "verify_claim_sig ext st reg_id msg registry_sig =
     (case fmlookup (accounts st) reg_id of
        None \<Rightarrow> Inl PolicySchemaInvalid
      | Some row \<Rightarrow>
          if \<not> initialized row then Inl PolicySchemaInvalid
          else if verify ext (acc_signing_pubkey row) msg registry_sig then Inr ()
          else Inl BadSignature)"

section \<open>Evidence log\<close>

definition evidence_record_id ::
  "extlib \<Rightarrow> (EvidenceType \<Rightarrow> bytes) \<Rightarrow> u64 \<Rightarrow> u16 \<Rightarrow> EvidenceType \<Rightarrow> bytes32 \<Rightarrow> bytes32" where
  "evidence_record_id ext enc height offender_validator_idx evidence_type payload_hash =
     x_blake3 ext (as_bytes ''PWMv6/evidence-record'' @ le_bytes 8 height @
       le_bytes 2 offender_validator_idx @
       le_bytes 4 (of_nat (length (enc evidence_type)) :: u32) @ enc evidence_type @
       be_bytes 32 payload_hash)"

definition append_evidence ::
  "extlib \<Rightarrow> (EvidenceType \<Rightarrow> bytes) \<Rightarrow> u64 \<Rightarrow> u16 \<Rightarrow> EvidenceType \<Rightarrow> bytes32 \<Rightarrow> AccountId option
   \<Rightarrow> State \<Rightarrow> (TxError + bytes32) \<times> State" where
  "append_evidence ext enc height offender evidence_type payload_hash reporter st =
     (let record_id = evidence_record_id ext enc height offender evidence_type payload_hash
      in if list_ex (\<lambda>record. ev_record_id record = record_id) (evidence_log st)
         then (Inl EvidenceDuplicate, st)
         else (Inr record_id, st\<lparr>evidence_log := evidence_log st @
           [\<lparr> ev_record_id = record_id, ev_height = height, ev_offender_validator_idx = offender,
              ev_evidence_type = evidence_type, ev_payload_hash = payload_hash,
              ev_reporter = reporter \<rparr>]\<rparr>))"

lemma append_evidence_distinct:
  "distinct (map ev_record_id (evidence_log st)) \<Longrightarrow>
     distinct (map ev_record_id (evidence_log (snd (append_evidence ext enc h o' t p r st))))"
  by (auto simp: append_evidence_def Let_def list_ex_iff)

lemma append_evidence_again:
  "append_evidence ext enc h o' t p r st = (Inr rid, st') \<Longrightarrow>
     append_evidence ext enc h o' t p r' st' = (Inl EvidenceDuplicate, st')"
  by (auto simp: append_evidence_def Let_def split: if_splits)

section \<open>Readings of the state\<close>

definition require_recipient :: "State \<Rightarrow> AccountId \<Rightarrow> TxError + unit" where
  "require_recipient st aid = (case fmlookup (accounts st) aid of
     None \<Rightarrow> Inl RecipientMissing
   | Some acc \<Rightarrow> if \<not> initialized acc then Inl RecipientNotInitialized else Inr ())"

text \<open>\<open>iter().position(..)\<close>\<close>

fun position :: "('a \<Rightarrow> bool) \<Rightarrow> 'a list \<Rightarrow> nat option" where
  "position p [] = None"
| "position p (x # xs) = (if p x then Some 0 else map_option Suc (position p xs))"

definition lock_idx :: "State \<Rightarrow> bytes32 \<Rightarrow> nat option" where
  "lock_idx st eid = position (\<lambda>row. lk_export_id row = eid) (cross_shard_locks st)"

definition has_pending_conserv :: "State \<Rightarrow> AccountId \<Rightarrow> bool" where
  "has_pending_conserv st sender = list_ex (\<lambda>row. pc_sender row = sender) (pending_conservation st)"

lemma position_Some:
  "position p xs = Some i \<Longrightarrow> i < length xs \<and> p (xs ! i) \<and> (\<forall>j<i. \<not> p (xs ! j))"
proof (induction xs arbitrary: i)
  case (Cons x xs)
  show ?case
  proof (cases "p x")
    case False
    with Cons.prems obtain j where "i = Suc j" "position p xs = Some j" by auto
    with Cons.IH [of j] False show ?thesis by (auto simp: less_Suc_eq_0_disj)
  qed (use Cons.prems in auto)
qed simp

lemma position_None: "position p xs = None \<longleftrightarrow> (\<forall>x\<in>set xs. \<not> p x)"
  by (induction xs) auto

lemma require_recipient_ok:
  "require_recipient st aid = Inr () \<longleftrightarrow>
     (\<exists>acc. fmlookup (accounts st) aid = Some acc \<and> initialized acc)"
  by (auto simp: require_recipient_def split: option.splits)

section \<open>Refund of expired locks\<close>

text \<open>The body of the loop of \<open>refund_exp_locks\<close> for one lock, and the loop.\<close>

definition credit :: "AccountId \<Rightarrow> u128 \<Rightarrow> (AccountId, Account) fmap \<Rightarrow> (AccountId, Account) fmap" where
  "credit aid amount m = (case fmlookup m aid of
     Some acc \<Rightarrow> fmupd aid (acc\<lparr>balance_pwm := sat_add (balance_pwm acc) amount\<rparr>) m
   | None \<Rightarrow> m)"

fun refund_loop :: "u64 \<Rightarrow> CrossShardLock list \<Rightarrow> State \<Rightarrow> State" where
  "refund_loop h [] st = st"
| "refund_loop h (lock # locks) st =
     (if lk_state lock \<noteq> Locked \<or> h < lk_unlock_height lock
      then refund_loop h locks (st\<lparr>cross_shard_locks := cross_shard_locks st @ [lock]\<rparr>)
      else refund_loop h locks
        (st\<lparr>accounts := credit (lk_refund_account lock) (lk_amount_pwm lock) (accounts st),
            cross_shard_locks := cross_shard_locks st @ [lock\<lparr>lk_state := Refunded\<rparr>],
            imported_set := finsert (lk_export_id lock) (imported_set st)\<rparr>))"

definition refund_exp_locks :: "u64 \<Rightarrow> State \<Rightarrow> State" where
  "refund_exp_locks current_height st =
     refund_loop current_height (cross_shard_locks st) (st\<lparr>cross_shard_locks := []\<rparr>)"

section \<open>Rewards and eager accrual\<close>

definition as_marks_u32 :: "u128 \<Rightarrow> u32" where
  "as_marks_u32 value = ucast (min value (ucast MARKS_CAP))"

definition accrue_marks :: "u128 \<Rightarrow> State \<Rightarrow> State" where
  "accrue_marks coeff st = st\<lparr>accounts := fmmap (\<lambda>a.
     if \<not> initialized a then a
     else let add = as_marks_u32 (sat_mul (staked_pwm_raw a) coeff div PPM_DENOM)
          in a\<lparr>stored_marks := sat_add (stored_marks a) add\<rparr>) (accounts st)\<rparr>"

definition accrue_marks_v2 :: "u128 \<Rightarrow> u128 \<Rightarrow> u128 \<Rightarrow> State \<Rightarrow> State" where
  "accrue_marks_v2 coeff stake_min sppm st = st\<lparr>accounts := fmmap (\<lambda>a.
     if \<not> initialized a \<or> staked_pwm_raw a < stake_min then a
     else let base = sat_mul (staked_pwm_raw a) coeff div PPM_DENOM;
              add = as_marks_u32 (sat_mul base sppm div PPM_DENOM)
          in a\<lparr>stored_marks := sat_add (stored_marks a) add\<rparr>) (accounts st)\<rparr>"

definition reward_producer :: "AccountId \<Rightarrow> u128 \<Rightarrow> State \<Rightarrow> State" where
  "reward_producer producer reward st = st\<lparr>accounts := credit producer reward (accounts st)\<rparr>"

definition reward_producer_v2 :: "AccountId \<Rightarrow> u128 \<Rightarrow> u128 \<Rightarrow> u128 \<Rightarrow> State \<Rightarrow> State" where
  "reward_producer_v2 producer reward stake_min sppm st =
     (case fmlookup (accounts st) producer of
        None \<Rightarrow> st
      | Some a \<Rightarrow>
          if staked_pwm_raw a < stake_min then st
          else let add = sat_mul reward sppm div PPM_DENOM
            in st\<lparr>accounts := fmupd producer (a\<lparr>balance_pwm := sat_add (balance_pwm a) add\<rparr>)
                               (accounts st)\<rparr>)"

end
