(* ===== verification/Pwm_Policy.thy ===== *)
theory Pwm_Policy
  imports Pwm_State
begin

text \<open>
  The policy engine of src/crates/pwm-core/src/state.rs: what a policy set, activated or
  deactivated does to an account, when a policy is active, cosignatures, the pure evaluator
  \<open>evaluate_policy\<close> and the emergency redirect.
\<close>

section \<open>Predicates on bodies and actions\<close>

fun pending_pol_allowed :: "PolicyAction \<Rightarrow> bool" where
  "pending_pol_allowed (ActivatePolicy pid _) = (pid = policy_id RoutingEmergencyRedirect)"
| "pending_pol_allowed _ = False"

fun pending_tx_conflict :: "TxBody \<Rightarrow> bool" where
  "pending_tx_conflict (Transfer _ _ _) = False"
| "pending_tx_conflict (Policy _ action _) = (\<not> pending_pol_allowed action)"
| "pending_tx_conflict _ = True"

fun finalized_policy_allowed :: "Account \<Rightarrow> PolicyAction \<Rightarrow> bool" where
  "finalized_policy_allowed acc (ActivatePolicy pid _) =
     (if pid \<noteq> policy_id RoutingEmergencyRedirect then False
      else let b = policy_bit RoutingEmergencyRedirect
        in active_policies acc AND b = 0 \<and> dormant_policies acc AND b \<noteq> 0)"
| "finalized_policy_allowed acc (SetPolicy _ _) = False"
| "finalized_policy_allowed acc (DeactivatePolicy _) = False"

fun is_finalized_blocked :: "TxBody \<Rightarrow> Account \<Rightarrow> bool" where
  "is_finalized_blocked (Policy _ action _) acc = (\<not> finalized_policy_allowed acc action)"
| "is_finalized_blocked (Init _ _) acc = False"
| "is_finalized_blocked _ acc = True"

fun cosign_prot_body :: "TxBody \<Rightarrow> bool" where
  "cosign_prot_body (Transfer _ _ _) = True"
| "cosign_prot_body (Policy _ _ _) = True"
| "cosign_prot_body _ = False"

fun emergency_act_target :: "PolicyAction \<Rightarrow> AccountId option" where
  "emergency_act_target (ActivatePolicy pid activation_target) =
     (if pid = policy_id RoutingEmergencyRedirect then activation_target else None)"
| "emergency_act_target _ = None"

section \<open>Policy sets of an account\<close>

definition policy_is_active_at :: "Account \<Rightarrow> PolicyKind \<Rightarrow> u64 \<Rightarrow> bool" where
  "policy_is_active_at acc policy chain_tip_height =
     (active_policies acc AND policy_bit policy \<noteq> 0 \<or>
      list_ex (\<lambda>row. dp_policy row = policy \<and> dp_activate_at_height row \<le> chain_tip_height)
        (deferred_policies acc))"

definition set_pol_mode :: "Account \<Rightarrow> PolicyKind \<Rightarrow> ActivationMode \<Rightarrow> u64 \<Rightarrow> Account" where
  "set_pol_mode acc policy activation incl_h =
     (let b = policy_bit policy;
          acc = acc\<lparr>active_policies := active_policies acc AND NOT b,
                    dormant_policies := dormant_policies acc AND NOT b,
                    deferred_policies := filter (\<lambda>row. dp_policy row \<noteq> policy) (deferred_policies acc)\<rparr>
      in case activation of
           Dormant \<Rightarrow> acc\<lparr>dormant_policies := dormant_policies acc OR b\<rparr>
         | Immediately \<Rightarrow> acc\<lparr>active_policies := active_policies acc OR b\<rparr>
         | Deferred h \<Rightarrow>
             let acc = acc\<lparr>deferred_policies := deferred_policies acc @
                   [\<lparr> dp_policy = policy, dp_activate_at_height = h \<rparr>]\<rparr>
             in if h \<le> incl_h then acc\<lparr>active_policies := active_policies acc OR b\<rparr> else acc)"

text \<open>\<open>Vec::remove\<close>\<close>

definition remove_nth :: "nat \<Rightarrow> 'a list \<Rightarrow> 'a list" where
  "remove_nth i xs = take i xs @ drop (Suc i) xs"

fun apply_policy_action :: "Account \<Rightarrow> PolicyAction \<Rightarrow> u64 \<Rightarrow> TxError + Account" where
  "apply_policy_action acc (SetPolicy policy activation) inclusion_height =
     Inr (set_pol_mode acc policy activation inclusion_height)"
| "apply_policy_action acc (ActivatePolicy pid _) inclusion_height =
     (case from_policy_id pid of
        None \<Rightarrow> Inl PolicySchemaInvalid
      | Some policy \<Rightarrow>
          (case find (\<lambda>row. dp_policy row = policy) (deferred_policies acc) of
             Some row \<Rightarrow>
               if inclusion_height < dp_activate_at_height row then Inl PolicyNotActive
               else Inl PolicyDenied
           | None \<Rightarrow>
               let b = policy_bit policy
               in if active_policies acc AND b \<noteq> 0 then Inr acc
                  else if dormant_policies acc AND b = 0 then Inl PolicyNotInstalled
                  else let acc = acc\<lparr>dormant_policies := dormant_policies acc AND NOT b,
                                     active_policies := active_policies acc OR b\<rparr>
                    in Inr (if policy = RoutingEmergencyRedirect then acc\<lparr>finalized := True\<rparr> else acc)))"
| "apply_policy_action acc (DeactivatePolicy pid) inclusion_height =
     (case from_policy_id pid of
        None \<Rightarrow> Inl PolicySchemaInvalid
      | Some policy \<Rightarrow>
          if \<not> is_reversible policy then Inl PolicyIrreversible
          else (case position (\<lambda>row. dp_policy row = policy \<and> inclusion_height < dp_activate_at_height row)
                       (deferred_policies acc) of
             Some idx \<Rightarrow> Inr (acc\<lparr>deferred_policies := remove_nth idx (deferred_policies acc)\<rparr>)
           | None \<Rightarrow>
               let b = policy_bit policy
               in if active_policies acc AND b = 0 then Inl PolicyNotActive
                  else Inr (acc\<lparr>active_policies := active_policies acc AND NOT b,
                                dormant_policies := dormant_policies acc OR b\<rparr>)))"

section \<open>Cosignatures\<close>

definition has_valid_cosign :: "extlib \<Rightarrow> SignedTx \<Rightarrow> bool" where
  "has_valid_cosign ext tx =
     (if cosigns tx = [] then False
      else let msg = signing_message tx
        in list_ex (\<lambda>row. verify ext (cs_signer_pk row) msg (cs_signature row)) (cosigns tx))"

definition has_role_cosign :: "extlib \<Rightarrow> SignedTx \<Rightarrow> CosignRole \<Rightarrow> bytes32 \<Rightarrow> bool" where
  "has_role_cosign ext tx role pk =
     (if cosigns tx = [] then False
      else let msg = signing_message tx
        in list_ex (\<lambda>row. cs_role row = role \<and> cs_signer_pk row = pk \<and>
              verify ext (cs_signer_pk row) msg (cs_signature row)) (cosigns tx))"

section \<open>Routing\<close>

definition eval_emerg_redirect :: "State \<Rightarrow> AccountId \<Rightarrow> Account \<Rightarrow> PolicyDecision" where
  "eval_emerg_redirect st sender_id acc = (case rescue_address acc of
     None \<Rightarrow> Reject PolicyRescueRequired
   | Some rescue_id \<Rightarrow> (case fmlookup (accounts st) rescue_id of
       None \<Rightarrow> Reject RecipientMissing
     | Some rescue_acc \<Rightarrow>
         if \<not> initialized rescue_acc then Reject RecipientNotInitialized
         else if \<not> same_hi_domain sender_id rescue_id then Reject PolicyRoutingDenied
         else Redirect rescue_id))"

definition conservation_recipient_dst :: "State \<Rightarrow> AccountId \<Rightarrow> AccountId \<Rightarrow> u64 \<Rightarrow> TxError + AccountId" where
  "conservation_recipient_dst st sender_id recipient_id chain_tip_height =
     (case fmlookup (accounts st) recipient_id of
        None \<Rightarrow> Inl RecipientNotInitialized
      | Some recipient_acc \<Rightarrow>
          if \<not> initialized recipient_acc then Inl RecipientNotInitialized
          else if finalized recipient_acc
             \<and> policy_is_active_at recipient_acc RoutingEmergencyRedirect chain_tip_height
          then (case eval_emerg_redirect st sender_id recipient_acc of
                  Redirect t \<Rightarrow> Inr t | Reject err \<Rightarrow> Inl err | Allow \<Rightarrow> Inr recipient_id)
          else if policy_is_active_at recipient_acc RoutingSameDomainOnly chain_tip_height
             \<and> \<not> same_hi_domain sender_id recipient_id
          then Inl PolicyRoutingDenied
          else if policy_is_active_at recipient_acc SenderFilter chain_tip_height
             \<and> sender_id \<noteq> recipient_id
          then Inl PolicySenderFiltered
          else if policy_is_active_at recipient_acc DefaultBehavior chain_tip_height
          then Inl PolicyDenied
          else Inr recipient_id)"

definition validate_pol_action ::
  "extlib \<Rightarrow> State \<Rightarrow> Account \<Rightarrow> PolicyAction \<Rightarrow> SignedTx \<Rightarrow> TxError + unit" where
  "validate_pol_action ext st acc action tx =
     (if cosign_non_dis (computed_account_id ext tx) \<and> policy_weakens_cosign action
      then Inl PolicyFlagNonDisableable
      else case action of
        ActivatePolicy pid activation_target \<Rightarrow>
          (case from_policy_id pid of
             None \<Rightarrow> Inl PolicySchemaInvalid
           | Some policy \<Rightarrow>
               if policy \<noteq> RoutingEmergencyRedirect then Inr ()
               else (case rescue_address acc of
                 None \<Rightarrow> Inl PolicyRescueRequired
               | Some rescue_id \<Rightarrow> (case activation_target of
                   None \<Rightarrow> Inl PolicyActivationTargetRequired
                 | Some target \<Rightarrow>
                     if target \<noteq> rescue_id then Inl PolicyActivationTargetMismatch
                     else if \<not> same_hi_domain (computed_account_id ext tx) target
                     then Inl PolicyRoutingDenied
                     else (case fmlookup (accounts st) rescue_id of
                       None \<Rightarrow> Inl PolicyEmergencyCosignRequired
                     | Some row \<Rightarrow>
                         if \<not> initialized row then Inl PolicyEmergencyCosignRequired
                         else if has_role_cosign ext tx Rescue (acc_signing_pubkey row) then Inr ()
                         else Inl PolicyEmergencyCosignRequired))))
      | _ \<Rightarrow> Inr ())"

section \<open>The evaluator\<close>

text \<open>The recipient's side of a transfer, when the recipient is initialized.\<close>

definition eval_recipient :: "State \<Rightarrow> AccountId \<Rightarrow> AccountId \<Rightarrow> u64 \<Rightarrow> PolicyDecision" where
  "eval_recipient st sender_id t chain_tip_height = (case fmlookup (accounts st) t of
     None \<Rightarrow> Allow
   | Some recipient_acc \<Rightarrow>
       if \<not> initialized recipient_acc then Allow
       else if finalized recipient_acc
          \<and> policy_is_active_at recipient_acc RoutingEmergencyRedirect chain_tip_height
       then eval_emerg_redirect st sender_id recipient_acc
       else if policy_is_active_at recipient_acc RoutingSameDomainOnly chain_tip_height
          \<and> \<not> same_hi_domain sender_id t
       then Reject PolicyRoutingDenied
       else if policy_is_active_at recipient_acc SenderFilter chain_tip_height \<and> sender_id \<noteq> t
       then Reject PolicySenderFiltered
       else if policy_is_active_at recipient_acc DefaultBehavior chain_tip_height
       then Reject PolicyDenied
       else Allow)"

definition evaluate_policy :: "extlib \<Rightarrow> State \<Rightarrow> SignedTx \<Rightarrow> u64 \<Rightarrow> PolicyDecision" where
  "evaluate_policy ext st tx chain_tip_height =
     (let sender_id = computed_account_id ext tx
      in case fmlookup (accounts st) sender_id of
        None \<Rightarrow> Reject NoAccount
      | Some sender_acc \<Rightarrow>
          if finalized sender_acc \<and> is_finalized_blocked (body tx) sender_acc
          then Reject PolicyAccountFinalized
          else if cosign_non_dis sender_id \<and> cosign_prot_body (body tx) \<and> \<not> has_valid_cosign ext tx
          then Reject PolicyMissingCosign
          else (case body tx of
            Transfer t _ _ \<Rightarrow> eval_recipient st sender_id t chain_tip_height
          | Policy target_account _ _ \<Rightarrow>
              (case fmlookup (accounts st) target_account of
                 None \<Rightarrow> Allow
               | Some target_acc \<Rightarrow>
                   if (policy_is_active_at target_acc CosignRequired chain_tip_height
                       \<or> cosign_non_dis target_account) \<and> \<not> has_valid_cosign ext tx
                   then Reject PolicyMissingCosign else Allow)
          | _ \<Rightarrow> Allow))"

end
