(* ===== verification/Pwm_Apply.thy ===== *)
theory Pwm_Apply
  imports Pwm_Policy
begin

text \<open>
  The state transition (\<open>apply_tx_impl\<close> and its callers in
  src/crates/pwm-core/src/state.rs), one definition per arm of the match on the body, and
  the delayed transfers that a block drains. Every arm is a call on \<open>&mut self\<close>: the state it
  leaves behind is part of the outcome, in the error branches too.
\<close>

section \<open>Small steps\<close>

text \<open>\<open>nonce += 1\<close>, a panic at the top of the range.\<close>

definition bump_nonce :: "Account \<Rightarrow> Account option" where
  "bump_nonce a = map_option (\<lambda>n. a\<lparr>nonce := n\<rparr>) (checked_add (nonce a) 1)"

definition put_acc :: "AccountId \<Rightarrow> Account \<Rightarrow> State \<Rightarrow> State" where
  "put_acc aid a st = st\<lparr>accounts := fmupd aid a (accounts st)\<rparr>"

definition add_fee :: "u128 \<Rightarrow> State \<Rightarrow> State" where
  "add_fee fee st = st\<lparr>fee_pool := sat_add (fee_pool st) fee\<rparr>"

text \<open>Bump the nonce of the account and store it, or panic.\<close>

definition commit_acc :: "AccountId \<Rightarrow> Account \<Rightarrow> State \<Rightarrow> (TxError, State) outcome" where
  "commit_acc aid a st = (case bump_nonce a of None \<Rightarrow> Panicked | Some a' \<Rightarrow> Done (put_acc aid a' st))"

section \<open>INIT\<close>

definition init_account :: "SignedTx \<Rightarrow> u64 \<Rightarrow> u32 \<Rightarrow> u32 \<Rightarrow> Account \<Rightarrow> Account" where
  "init_account tx h index flags acc =
     (let a = acc\<lparr>initialized := True, acc_index := index, acc_flags := flags\<rparr>;
          a = (case init_v4 tx of
             None \<Rightarrow> a
           | Some ix \<Rightarrow>
               fold (\<lambda>row a. set_pol_mode a (ip_policy row) (ip_activation row) h) (ix_initial_policies ix)
                 (a\<lparr>owner_kind := ix_owner_kind ix,
                    owner_display_name := ix_owner_display_name ix,
                    owner_country_hint := ix_owner_country_hint ix,
                    company_metadata_commitment := Some (ix_company_metadata_commitment ix),
                    external_verification_ref := Some (ix_external_verification_ref ix),
                    requested_domain_lo := Some (ix_requested_domain_lo ix),
                    rescue_address := ix_rescue_address ix\<rparr>))
      in a\<lparr>marks_last_block := h\<rparr>)"

definition apply_init ::
  "SignedTx \<Rightarrow> u64 \<Rightarrow> AccountId \<Rightarrow> Account \<Rightarrow> u32 \<Rightarrow> u32 \<Rightarrow> State \<Rightarrow> (TxError, State) outcome" where
  "apply_init tx h aid acc index flags st =
     (if initialized acc then Failed AlreadyInit st
      else commit_acc aid (init_account tx h index flags acc) st)"

section \<open>TRANSFER\<close>

definition apply_transfer ::
  "extlib \<Rightarrow> GenCfg \<Rightarrow> SignedTx \<Rightarrow> u64 \<Rightarrow> AccountId \<Rightarrow> Account \<Rightarrow> AccountId option \<Rightarrow>
   AccountId \<Rightarrow> u128 \<Rightarrow> u128 \<Rightarrow> State \<Rightarrow> (TxError, State) outcome" where
  "apply_transfer ext cfg tx h aid acc redir_to t amount fee st =
     (if \<not> initialized acc then Failed NotInitialized st
      else let dst = (case redir_to of Some r \<Rightarrow> r | None \<Rightarrow> t)
      in case (if dst \<noteq> aid then require_recipient st dst else Inr ()) of
        Inl e \<Rightarrow> Failed e st
      | Inr _ \<Rightarrow> (case checked_add amount fee of
          None \<Rightarrow> Failed Insufficient st
        | Some tot \<Rightarrow>
            if balance_pwm acc < tot then Failed Insufficient st
            else if conservation_flag aid then
              (if list_ex (\<lambda>row. pc_sender row = aid) (pending_conservation st)
               then Failed ConservationPendingExists st
               else if \<not> unat fee < 2 ^ 64 then Failed PolicySchemaInvalid st
               else Done (st\<lparr>pending_conservation := pending_conservation st @
                 [\<lparr> pc_sender = aid, pc_recipient = dst, pc_amount_pwm = amount,
                    pc_fee_pwm = ucast fee, pc_nonce = tx_nonce tx, pc_enqueue_height = h,
                    pc_execute_at_height = sat_add h (conservation_delay_blocks cfg),
                    pc_tx_hash = x_blake3 ext (signing_message tx) \<rparr>]\<rparr>))
            else (case bump_nonce ((touch_acct_mrks acc h cfg)\<lparr>balance_pwm := balance_pwm acc - tot\<rparr>) of
              None \<Rightarrow> Panicked
            | Some src \<Rightarrow>
                let st = add_fee (fee_amount (body tx)) st
                in if dst = aid
                   then Done (put_acc aid (src\<lparr>balance_pwm := sat_add (balance_pwm src) amount\<rparr>) st)
                   else (case fmlookup (accounts st) dst of
                     None \<Rightarrow> Panicked
                   | Some to0 \<Rightarrow>
                       let to_acc = touch_acct_mrks to0 h cfg;
                           to_acc = to_acc\<lparr>balance_pwm := sat_add (balance_pwm to_acc) amount\<rparr>
                       in Done (put_acc dst to_acc (put_acc aid src st))))))"

section \<open>STAKE, UNSTAKE, BURN, CLAIM\<close>

definition apply_stake ::
  "GenCfg \<Rightarrow> u64 \<Rightarrow> AccountId \<Rightarrow> Account \<Rightarrow> u128 \<Rightarrow> State \<Rightarrow> (TxError, State) outcome" where
  "apply_stake cfg h aid acc amount st =
     (if \<not> initialized acc then Failed NotInitialized st
      else if balance_pwm acc < amount then Failed Insufficient st
      else let a = touch_acct_mrks acc h cfg
      in case checked_add (staked_pwm_raw a) amount of
           None \<Rightarrow> Panicked
         | Some s \<Rightarrow> commit_acc aid (a\<lparr>balance_pwm := balance_pwm a - amount, staked_pwm_raw := s\<rparr>) st)"

definition apply_unstake ::
  "GenCfg \<Rightarrow> u64 \<Rightarrow> AccountId \<Rightarrow> Account \<Rightarrow> u128 \<Rightarrow> State \<Rightarrow> (TxError, State) outcome" where
  "apply_unstake cfg h aid acc amount st =
     (if \<not> initialized acc then Failed NotInitialized st
      else if staked_pwm_raw acc < amount then Failed Insufficient st
      else let a = touch_acct_mrks acc h cfg
      in case checked_add (balance_pwm a) amount of
           None \<Rightarrow> Panicked
         | Some b \<Rightarrow> commit_acc aid (a\<lparr>staked_pwm_raw := staked_pwm_raw a - amount, balance_pwm := b\<rparr>) st)"

definition apply_burn ::
  "GenCfg \<Rightarrow> u64 \<Rightarrow> AccountId \<Rightarrow> Account \<Rightarrow> u32 \<Rightarrow> State \<Rightarrow> (TxError, State) outcome" where
  "apply_burn cfg h aid acc mark_amount st =
     (if \<not> initialized acc then Failed NotInitialized st
      else let a = touch_acct_mrks acc h cfg
      in if stored_marks a < mark_amount then Failed InsufficientMarks st
         else commit_acc aid (a\<lparr>stored_marks := stored_marks a - mark_amount\<rparr>) st)"

definition apply_claim ::
  "extlib \<Rightarrow> GenCfg \<Rightarrow> AccountId \<Rightarrow> Account \<Rightarrow> u8 \<Rightarrow> bytes32 \<Rightarrow> bytes64 \<Rightarrow> State \<Rightarrow> (TxError, State) outcome" where
  "apply_claim ext cfg aid acc phase batch_root registry_sig st =
     (if \<not> initialized acc then Failed NotInitialized st
      else if ipv4_claimed_phase acc \<noteq> None then Failed PolicyDenied st
      else case find_claim_phase cfg phase of
        Inl e \<Rightarrow> Failed e st
      | Inr phase_row \<Rightarrow>
          (case verify_claim_sig ext st (cp_registry_address phase_row)
                  (claim_ipv4_msg phase batch_root aid) registry_sig of
             Inl e \<Rightarrow> Failed e st
           | Inr _ \<Rightarrow> commit_acc aid (acc\<lparr>balance_pwm := sat_add (balance_pwm acc) (cp_allocation phase_row),
                                          ipv4_claimed_phase := Some phase\<rparr>) st))"

section \<open>EXPORT and IMPORT\<close>

definition apply_export ::
  "extlib \<Rightarrow> GenCfg \<Rightarrow> SignedTx \<Rightarrow> u64 \<Rightarrow> AccountId \<Rightarrow> Account \<Rightarrow> AccountId \<Rightarrow> u16 \<Rightarrow> u128 \<Rightarrow> u128 \<Rightarrow>
   State \<Rightarrow> (TxError, State) outcome" where
  "apply_export ext cfg tx h aid acc t target_domain amount fee st =
     (if \<not> initialized acc then Failed NotInitialized st
      else if \<not> export_context_is_valid tx then Failed InvalidExport st
      else case checked_add amount fee of
        None \<Rightarrow> Failed Insufficient st
      | Some tot \<Rightarrow>
          if balance_pwm acc < tot then Failed Insufficient st
          else (case bump_nonce (acc\<lparr>balance_pwm := balance_pwm acc - tot\<rparr>) of
            None \<Rightarrow> Panicked
          | Some src \<Rightarrow>
              let st = add_fee (fee_amount (body tx)) st
              in case export_id ext tx of
                None \<Rightarrow> Failed InvalidExport st
              | Some eid \<Rightarrow>
                  let st = (if fmlookup (exported_registry st) eid = None
                            then st\<lparr>exported_registry := fmupd eid
                              \<lparr> pv_to = t, pv_target_domain = target_domain, pv_amount = amount \<rparr>
                              (exported_registry st)\<rparr>
                            else st);
                      st = (if lock_idx st eid = None
                            then st\<lparr>cross_shard_locks := cross_shard_locks st @
                              [\<lparr> lk_export_id = eid, lk_sender = aid, lk_amount_pwm = amount,
                                 lk_target_domain = target_domain, lk_refund_account = aid,
                                 lk_lock_height = h,
                                 lk_unlock_height = sat_add h (xshard_lock_to_blocks cfg),
                                 lk_state = Locked \<rparr>]\<rparr>
                            else st)
                  in Done (put_acc aid src st)))"

text \<open>The provenance an IMPORT is checked against, and whether it is new to the registry.\<close>

definition expected_export :: "State \<Rightarrow> SignedTx \<Rightarrow> bytes32 \<Rightarrow> TxError + (ExportProvenance \<times> bool)" where
  "expected_export st tx eid = (case fmlookup (exported_registry st) eid of
     Some existing \<Rightarrow>
       (case import_provenance tx of
          Some prov \<Rightarrow> if existing \<noteq> prov then Inl InvalidImport else Inr (existing, False)
        | None \<Rightarrow> Inr (existing, False))
   | None \<Rightarrow>
       (case import_provenance tx of
          Some prov \<Rightarrow> Inr (prov, True)
        | None \<Rightarrow> Inl InvalidImport))"

text \<open>A lock the IMPORT consumes goes from Locked to Released.\<close>

definition release_lock :: "nat option \<Rightarrow> State \<Rightarrow> State" where
  "release_lock idx st = (case idx of
     None \<Rightarrow> st
   | Some i \<Rightarrow>
       if lk_state (cross_shard_locks st ! i) = Locked
       then st\<lparr>cross_shard_locks := (cross_shard_locks st)
                 [i := (cross_shard_locks st ! i)\<lparr>lk_state := Released\<rparr>]\<rparr>
       else st)"

definition apply_import ::
  "extlib \<Rightarrow> SignedTx \<Rightarrow> AccountId \<Rightarrow> Account \<Rightarrow> AccountId \<Rightarrow> u128 \<Rightarrow> bytes32 \<Rightarrow> State \<Rightarrow>
   (TxError, State) outcome" where
  "apply_import ext tx aid acc t amount eid st =
     (if \<not> initialized acc then Failed NotInitialized st
      else if \<not> import_context_is_valid tx then Failed InvalidImport st
      else let idx = lock_idx st eid
      in if map_option (\<lambda>i. lk_state (cross_shard_locks st ! i)) idx = Some Refunded
      then Failed ExportLockRefunded st
      else if eid |\<in>| imported_set st then Failed DuplicateImport st
      else case expected_export st tx eid of
        Inl e \<Rightarrow> Failed e st
      | Inr (expected, fresh) \<Rightarrow>
          if pv_amount expected \<noteq> amount \<or> pv_to expected \<noteq> t
             \<or> hi_byte (pv_target_domain expected) \<noteq> hi_byte (domain_code tx)
          then Failed InvalidImport st
          else (case (if t \<noteq> aid then require_recipient st t else Inr ()) of
            Inl e \<Rightarrow> Failed e st
          | Inr _ \<Rightarrow> (case import_fee tx of
              None \<Rightarrow> Failed ImportFeeTooLow st
            | Some fee \<Rightarrow>
                if fee < MIN_IMPORT_FEE_UNITS then Failed ImportFeeTooLow st
                else if balance_pwm acc < fee then Failed Insufficient st
                else
                  let st = add_fee fee st;
                      st = (if fresh then st\<lparr>exported_registry := fmupd eid expected (exported_registry st)\<rparr>
                            else st)
                  in case bump_nonce (acc\<lparr>balance_pwm := balance_pwm acc - fee\<rparr>) of
                    None \<Rightarrow> Panicked
                  | Some src \<Rightarrow>
                      (case (if t = aid
                             then Some (put_acc aid (src\<lparr>balance_pwm := sat_add (balance_pwm src) amount\<rparr>) st)
                             else map_option (\<lambda>to0.
                               put_acc t (to0\<lparr>balance_pwm := sat_add (balance_pwm to0) amount\<rparr>)
                                 (put_acc aid src st)) (fmlookup (accounts st) t)) of
                         None \<Rightarrow> Panicked
                       | Some st \<Rightarrow>
                           let st = release_lock idx st
                           in Done (st\<lparr>imported_set := finsert eid (imported_set st)\<rparr>)))))"

section \<open>POLICY\<close>

text \<open>
  The evacuation of an emergency activation: the sender's delayed transfers are dropped and
  liquid and staked units go to the rescue account, unless that is the account itself.
\<close>

definition evacuate :: "AccountId \<Rightarrow> Account \<Rightarrow> AccountId \<Rightarrow> State \<Rightarrow> (Account \<times> State) option" where
  "evacuate aid a target st =
     (let st = st\<lparr>pending_conservation := filter (\<lambda>row. pc_sender row \<noteq> aid) (pending_conservation st)\<rparr>;
          amount = balance_pwm a; stake = staked_pwm_raw a
      in if target = aid then Some (a, st)
         else (case fmlookup (accounts st) target of
           None \<Rightarrow> None
         | Some ta \<Rightarrow>
             let ta1 = (if 0 < amount then ta\<lparr>balance_pwm := sat_add (balance_pwm ta) amount\<rparr> else ta);
                 a1 = (if 0 < amount then a\<lparr>balance_pwm := 0\<rparr> else a);
                 ta2 = (if 0 < stake then ta1\<lparr>balance_pwm := sat_add (balance_pwm ta1) stake\<rparr> else ta1);
                 a2 = (if 0 < stake then a1\<lparr>staked_pwm_raw := 0\<rparr> else a1)
             in Some (a2, put_acc target ta2 st)))"

definition apply_policy ::
  "extlib \<Rightarrow> GenCfg \<Rightarrow> SignedTx \<Rightarrow> u64 \<Rightarrow> AccountId \<Rightarrow> Account \<Rightarrow> AccountId \<Rightarrow> PolicyAction \<Rightarrow> u128 \<Rightarrow>
   State \<Rightarrow> (TxError, State) outcome" where
  "apply_policy ext cfg tx h aid acc target_account action fee st =
     (if \<not> initialized acc then Failed NotInitialized st
      else if target_account \<noteq> aid then Failed PolicyDenied st
      else let a = touch_acct_mrks acc h cfg
      in case validate_pol_action ext st a action tx of
        Inl e \<Rightarrow> Failed e st
      | Inr _ \<Rightarrow> (case apply_policy_action a action h of
          Inl e \<Rightarrow> Failed e st
        | Inr a \<Rightarrow> (case checked_sub (balance_pwm a) fee of
            None \<Rightarrow> Failed Insufficient st
          | Some b \<Rightarrow>
              let a = a\<lparr>balance_pwm := b\<rparr>; st = add_fee fee st
              in (case emergency_act_target action of
                    None \<Rightarrow> commit_acc aid a st
                  | Some target \<Rightarrow>
                      (case evacuate aid a target st of
                         None \<Rightarrow> Panicked
                       | Some (a, st) \<Rightarrow> commit_acc aid a st)))))"

section \<open>One transaction\<close>

definition apply_body ::
  "extlib \<Rightarrow> GenCfg \<Rightarrow> SignedTx \<Rightarrow> u64 \<Rightarrow> AccountId \<Rightarrow> Account \<Rightarrow> AccountId option \<Rightarrow> State \<Rightarrow>
   (TxError, State) outcome" where
  "apply_body ext cfg tx h aid acc redir_to st = (case body tx of
     Init index flags \<Rightarrow> apply_init tx h aid acc index flags st
   | Transfer t amount fee \<Rightarrow> apply_transfer ext cfg tx h aid acc redir_to t amount fee st
   | Stake amount \<Rightarrow> apply_stake cfg h aid acc amount st
   | Unstake amount \<Rightarrow> apply_unstake cfg h aid acc amount st
   | BurnMark mark_amount _ \<Rightarrow> apply_burn cfg h aid acc mark_amount st
   | ClaimIPv4Batch phase batch_root registry_sig \<Rightarrow>
       apply_claim ext cfg aid acc phase batch_root registry_sig st
   | Export t target_domain amount fee \<Rightarrow> apply_export ext cfg tx h aid acc t target_domain amount fee st
   | Import t amount eid \<Rightarrow> apply_import ext tx aid acc t amount eid st
   | Policy target_account action fee \<Rightarrow>
       apply_policy ext cfg tx h aid acc target_account action fee st)"

text \<open>An INIT of an unknown account first inserts an empty row for it.\<close>

definition with_stub :: "SignedTx \<Rightarrow> AccountId \<Rightarrow> State \<Rightarrow> State" where
  "with_stub tx aid st =
     (if is_init (body tx) \<and> fmlookup (accounts st) aid = None
      then put_acc aid (account_default\<lparr>acc_signing_pubkey := signer_pk tx,
             acc_derivation_index := derivation_index tx\<rparr>) st
      else st)"

text \<open>The working copy of the sender's row, or the error of the signer and nonce checks.\<close>

definition bind_sender :: "SignedTx \<Rightarrow> Account \<Rightarrow> TxError + Account" where
  "bind_sender tx acc =
     (if initialized acc \<and> (acc_signing_pubkey acc \<noteq> signer_pk tx
           \<or> acc_derivation_index acc \<noteq> derivation_index tx)
      then Inl BadSignature
      else let acc = (if initialized acc then acc
                      else acc\<lparr>acc_signing_pubkey := signer_pk tx,
                               acc_derivation_index := derivation_index tx\<rparr>)
        in if nonce acc \<noteq> tx_nonce tx then Inl BadNonce else Inr acc)"

definition apply_tx_impl ::
  "extlib \<Rightarrow> GenCfg \<Rightarrow> SignedTx \<Rightarrow> u64 \<Rightarrow> u64 \<Rightarrow> bool \<Rightarrow> State \<Rightarrow> (TxError, State) outcome" where
  "apply_tx_impl ext cfg tx inclusion_height block_unix_time skip_policy st =
     (case (if skip_policy then validate_shape_no_sig ext tx else validate_tx_shape ext tx) of
        Inl e \<Rightarrow> Failed e st
      | Inr _ \<Rightarrow>
          let aid = computed_account_id ext tx;
              st = with_stub tx aid st
          in case fmlookup (accounts st) aid of
            None \<Rightarrow> Failed NoAccount st
          | Some row \<Rightarrow> (case bind_sender tx row of
              Inl e \<Rightarrow> Failed e st
            | Inr acc \<Rightarrow>
                (case (if skip_policy then Allow else evaluate_policy ext st tx inclusion_height) of
                   Reject err \<Rightarrow> Failed err st
                 | decision \<Rightarrow>
                     if has_pending_conserv st aid \<and> pending_tx_conflict (body tx)
                     then Failed ConservationPendingExists st
                     else apply_body ext cfg tx inclusion_height aid acc
                       (case decision of Redirect t \<Rightarrow> Some t | _ \<Rightarrow> None) st)))"

definition apply_tx_with_ctx ::
  "extlib \<Rightarrow> GenCfg \<Rightarrow> SignedTx \<Rightarrow> u64 \<Rightarrow> u64 \<Rightarrow> State \<Rightarrow> (TxError, State) outcome" where
  "apply_tx_with_ctx ext cfg tx inclusion_height block_unix_time st =
     apply_tx_impl ext cfg tx inclusion_height block_unix_time False st"

definition apply_prechecked_tx ::
  "extlib \<Rightarrow> GenCfg \<Rightarrow> SignedTx \<Rightarrow> u64 \<Rightarrow> u64 \<Rightarrow> State \<Rightarrow> (TxError, State) outcome" where
  "apply_prechecked_tx ext cfg tx inclusion_height block_unix_time st =
     apply_tx_impl ext cfg tx inclusion_height block_unix_time True st"

text \<open>\<open>apply_tx\<close> reads the system clock (\<open>None\<close>: before the epoch) and the dev configuration.\<close>

definition apply_tx :: "extlib \<Rightarrow> u64 option \<Rightarrow> SignedTx \<Rightarrow> State \<Rightarrow> (TxError, State) outcome" where
  "apply_tx ext clock tx st = (case clock of
     None \<Rightarrow> Failed PolicySchemaInvalid st
   | Some now \<Rightarrow> apply_tx_with_ctx ext (dev_net_cfg ext) tx 0 now st)"

text \<open>A dry run on a clone: only the verdict is kept.\<close>

datatype verdict = Accepted | Refused TxError | DryRunPanic

definition precheck_apply_with_ctx ::
  "extlib \<Rightarrow> GenCfg \<Rightarrow> State \<Rightarrow> SignedTx \<Rightarrow> u64 \<Rightarrow> u64 \<Rightarrow> verdict" where
  "precheck_apply_with_ctx ext cfg st tx inclusion_height block_unix_time =
     (case apply_tx_with_ctx ext cfg tx inclusion_height block_unix_time st of
        Done _ \<Rightarrow> Accepted | Failed e _ \<Rightarrow> Refused e | Panicked \<Rightarrow> DryRunPanic)"

definition precheck_apply_tip :: "extlib \<Rightarrow> GenCfg \<Rightarrow> State \<Rightarrow> SignedTx \<Rightarrow> u64 \<Rightarrow> u64 \<Rightarrow> verdict" where
  "precheck_apply_tip ext cfg st tx tip_height block_unix_time =
     precheck_apply_with_ctx ext cfg st tx (sat_add tip_height 1) block_unix_time"

section \<open>Delayed transfers\<close>

definition apply_due_conservation ::
  "GenCfg \<Rightarrow> PendingConservationTransfer \<Rightarrow> u64 \<Rightarrow> State \<Rightarrow> (TxError, State) outcome" where
  "apply_due_conservation cfg row h st = (case fmlookup (accounts st) (pc_sender row) of
     None \<Rightarrow> Failed NoAccount st
   | Some sender_acc \<Rightarrow>
       if \<not> initialized sender_acc then Failed NotInitialized st
       else if nonce sender_acc \<noteq> pc_nonce row then Failed BadNonce st
       else if finalized sender_acc
          \<and> is_finalized_blocked (Transfer (pc_recipient row) (pc_amount_pwm row) (ucast (pc_fee_pwm row))) sender_acc
       then Failed PolicyAccountFinalized st
       else (case conservation_recipient_dst st (pc_sender row) (pc_recipient row) h of
         Inl e \<Rightarrow> Failed e st
       | Inr dst \<Rightarrow> (case require_recipient st dst of
           Inl e \<Rightarrow> Failed e st
         | Inr _ \<Rightarrow>
             let fee = ucast (pc_fee_pwm row) :: u128
             in case checked_add (pc_amount_pwm row) fee of
               None \<Rightarrow> Failed Insufficient st
             | Some tot \<Rightarrow>
                 if balance_pwm sender_acc < tot then Failed Insufficient st
                 else (case bump_nonce ((touch_acct_mrks sender_acc h cfg)
                                          \<lparr>balance_pwm := balance_pwm sender_acc - tot\<rparr>) of
                   None \<Rightarrow> Panicked
                 | Some src \<Rightarrow>
                     let st = add_fee fee st
                     in case fmlookup (accounts st) dst of
                       None \<Rightarrow> Panicked
                     | Some to0 \<Rightarrow>
                         let to_acc = touch_acct_mrks to0 h cfg;
                             to_acc = to_acc\<lparr>balance_pwm := sat_add (balance_pwm to_acc) (pc_amount_pwm row)\<rparr>
                         in Done (put_acc dst to_acc (put_acc (pc_sender row) src st))))))"

text \<open>
  \<open>drain_conservation_at_height\<close>: the loop over the rows taken out of the state, with the
  rows that stay in \<open>remaining\<close>. A row that is not due or fails is kept for the next block.
\<close>

fun drain_loop ::
  "GenCfg \<Rightarrow> u64 \<Rightarrow> PendingConservationTransfer list \<Rightarrow> PendingConservationTransfer list \<Rightarrow> State \<Rightarrow>
   (TxError, State) outcome" where
  "drain_loop cfg h [] remaining st = Done (st\<lparr>pending_conservation := remaining\<rparr>)"
| "drain_loop cfg h (row # rows) remaining st =
     (if h < pc_execute_at_height row then drain_loop cfg h rows (remaining @ [row]) st
      else (case apply_due_conservation cfg row h st of
        Done st' \<Rightarrow> drain_loop cfg h rows remaining st'
      | Failed e st' \<Rightarrow> drain_loop cfg h rows (remaining @ [row]) st'
      | Panicked \<Rightarrow> Panicked))"

definition drain_conservation_at_height :: "GenCfg \<Rightarrow> u64 \<Rightarrow> State \<Rightarrow> (TxError, State) outcome" where
  "drain_conservation_at_height cfg h st =
     drain_loop cfg h (pending_conservation st) [] (st\<lparr>pending_conservation := []\<rparr>)"

end
