(* ===== verification/Pwm_Apply_Rules.thy ===== *)
theory Pwm_Apply_Rules
  imports Pwm_Apply
begin

text \<open>
  What a successful arm of the transition did, as elimination rules: each names the working
  values (the debited row, the total, the credited row) and the state it left. The
  invariants and the supply argument rest on these rules and not on the definitions.
\<close>

section \<open>Elimination rules of the arms\<close>

lemma bump_nonce_Some:
  "bump_nonce a = Some a' \<longleftrightarrow> unat (nonce a) + 1 < 2 ^ 64 \<and> a' = a\<lparr>nonce := nonce a + 1\<rparr>"
  by (auto simp: bump_nonce_def checked_add_def)

lemma unat_Suc_nonce [pwm_unat]: "unat (n :: u64) + 1 < 2 ^ 64 \<Longrightarrow> unat (n + 1) = Suc (unat n)"
  using unat_plus_small [of n 1] by simp

lemma put_acc_simps [simp]:
  "accounts (put_acc aid a st) = fmupd aid a (accounts st)"
  "fee_pool (put_acc aid a st) = fee_pool st"
  "imported_set (put_acc aid a st) = imported_set st"
  "exported_registry (put_acc aid a st) = exported_registry st"
  "epoch_counter (put_acc aid a st) = epoch_counter st"
  "active_validator_indices (put_acc aid a st) = active_validator_indices st"
  "cross_shard_locks (put_acc aid a st) = cross_shard_locks st"
  "evidence_log (put_acc aid a st) = evidence_log st"
  "pending_conservation (put_acc aid a st) = pending_conservation st"
  by (simp_all add: put_acc_def)

lemma add_fee_simps [simp]:
  "accounts (add_fee f st) = accounts st"
  "fee_pool (add_fee f st) = sat_add (fee_pool st) f"
  "imported_set (add_fee f st) = imported_set st"
  "exported_registry (add_fee f st) = exported_registry st"
  "epoch_counter (add_fee f st) = epoch_counter st"
  "active_validator_indices (add_fee f st) = active_validator_indices st"
  "cross_shard_locks (add_fee f st) = cross_shard_locks st"
  "evidence_log (add_fee f st) = evidence_log st"
  "pending_conservation (add_fee f st) = pending_conservation st"
  by (simp_all add: add_fee_def)

lemma commit_acc_Done:
  "commit_acc aid a st = Done st' \<longleftrightarrow> (\<exists>a'. bump_nonce a = Some a' \<and> st' = put_acc aid a' st)"
  by (auto simp: commit_acc_def split: option.splits)

lemma apply_init_Done:
  assumes "apply_init tx h aid acc index flags st = Done st'"
  obtains a where "\<not> initialized acc" "bump_nonce (init_account tx h index flags acc) = Some a"
    "st' = put_acc aid a st"
  using assms by (auto simp: apply_init_def commit_acc_Done split: if_splits)

lemma apply_transfer_Done:
  assumes "apply_transfer ext cfg tx h aid acc redir_to t amount fee st = Done st'"
  obtains
    (pending) dst row where "initialized acc" "conservation_flag aid"
      "dst = (case redir_to of Some r \<Rightarrow> r | None \<Rightarrow> t)"
      "\<not> list_ex (\<lambda>row. pc_sender row = aid) (pending_conservation st)"
      "unat fee < 2 ^ 64" "unat amount + unat fee \<le> unat (balance_pwm acc)"
      "row = \<lparr> pc_sender = aid, pc_recipient = dst, pc_amount_pwm = amount,
         pc_fee_pwm = ucast fee, pc_nonce = tx_nonce tx, pc_enqueue_height = h,
         pc_execute_at_height = sat_add h (conservation_delay_blocks cfg),
         pc_tx_hash = x_blake3 ext (signing_message tx) \<rparr>"
      "st' = st\<lparr>pending_conservation := pending_conservation st @ [row]\<rparr>"
  | (own) src tot where "initialized acc" "\<not> conservation_flag aid"
      "(case redir_to of Some r \<Rightarrow> r | None \<Rightarrow> t) = aid"
      "unat tot = unat amount + unat fee" "unat tot \<le> unat (balance_pwm acc)"
      "bump_nonce ((touch_acct_mrks acc h cfg)\<lparr>balance_pwm := balance_pwm acc - tot\<rparr>) = Some src"
      "st' = put_acc aid (src\<lparr>balance_pwm := sat_add (balance_pwm src) amount\<rparr>)
               (add_fee (fee_amount (body tx)) st)"
  | (other) dst src tot to0 where "initialized acc" "\<not> conservation_flag aid"
      "dst = (case redir_to of Some r \<Rightarrow> r | None \<Rightarrow> t)" "dst \<noteq> aid"
      "unat tot = unat amount + unat fee" "unat tot \<le> unat (balance_pwm acc)"
      "bump_nonce ((touch_acct_mrks acc h cfg)\<lparr>balance_pwm := balance_pwm acc - tot\<rparr>) = Some src"
      "fmlookup (accounts st) dst = Some to0" "initialized to0"
      "st' = put_acc dst ((touch_acct_mrks to0 h cfg)\<lparr>balance_pwm := sat_add (balance_pwm to0) amount\<rparr>)
               (put_acc aid src (add_fee (fee_amount (body tx)) st))"
proof -
  define dst where "dst = (case redir_to of Some r \<Rightarrow> r | None \<Rightarrow> t)"
  from assms obtain tot where tot: "checked_add amount fee = Some tot" "tot \<le> balance_pwm acc"
    and init: "initialized acc"
    by (auto simp: apply_transfer_def Let_def split: if_splits sum.splits option.splits)
  have u: "unat tot = unat amount + unat fee" "unat tot \<le> unat (balance_pwm acc)"
    using tot checked_add_Some by (auto simp: word_le_nat_alt)
  show thesis
  proof (cases "conservation_flag aid")
    case True
    with assms tot init show thesis
      by (intro pending [OF init True dst_def, OF _ _ _ refl])
         (auto simp: apply_transfer_def dst_def u(1) [symmetric] word_le_nat_alt not_less
            split: if_splits sum.splits option.splits)
  next
    case False
    from assms tot init False obtain src where src:
      "bump_nonce ((touch_acct_mrks acc h cfg)\<lparr>balance_pwm := balance_pwm acc - tot\<rparr>) = Some src"
      by (auto simp: apply_transfer_def Let_def split: if_splits sum.splits option.splits)
    show thesis
    proof (cases "dst = aid")
      case True
      show thesis
        using assms tot init False src True
        by (intro own [OF init False _ u src])
           (auto simp: apply_transfer_def Let_def dst_def split: if_splits sum.splits option.splits)
    next
      case dst: False
      have "require_recipient st dst = Inr ()"
        using assms init dst by (auto simp: apply_transfer_def Let_def dst_def split: if_splits sum.splits)
      then obtain to0 where to0: "fmlookup (accounts st) dst = Some to0" "initialized to0"
        by (auto simp: require_recipient_ok)
      show thesis
        using assms tot init False src dst to0
        by (intro other [OF init False dst_def dst u src to0])
           (auto simp: apply_transfer_def Let_def dst_def [symmetric] require_recipient_def split: if_splits)
    qed
  qed
qed

lemma apply_stake_Done:
  assumes "apply_stake cfg h aid acc amount st = Done st'"
  obtains s a where "initialized acc" "unat amount \<le> unat (balance_pwm acc)"
    "unat s = unat (staked_pwm_raw acc) + unat amount"
    "bump_nonce ((touch_acct_mrks acc h cfg)\<lparr>balance_pwm := balance_pwm acc - amount, staked_pwm_raw := s\<rparr>) = Some a"
    "st' = put_acc aid a st"
  using assms checked_add_Some
  by (fastforce simp: apply_stake_def Let_def commit_acc_Done word_le_nat_alt not_less
      split: if_splits option.splits)

lemma apply_unstake_Done:
  assumes "apply_unstake cfg h aid acc amount st = Done st'"
  obtains b a where "initialized acc" "unat amount \<le> unat (staked_pwm_raw acc)"
    "unat b = unat (balance_pwm acc) + unat amount"
    "bump_nonce ((touch_acct_mrks acc h cfg)\<lparr>staked_pwm_raw := staked_pwm_raw acc - amount, balance_pwm := b\<rparr>) = Some a"
    "st' = put_acc aid a st"
  using assms checked_add_Some
  by (fastforce simp: apply_unstake_def Let_def commit_acc_Done word_le_nat_alt not_less
      split: if_splits option.splits)

lemma apply_burn_Done:
  assumes "apply_burn cfg h aid acc mark_amount st = Done st'"
  obtains a where "initialized acc" "mark_amount \<le> stored_marks (touch_acct_mrks acc h cfg)"
    "bump_nonce ((touch_acct_mrks acc h cfg)
       \<lparr>stored_marks := stored_marks (touch_acct_mrks acc h cfg) - mark_amount\<rparr>) = Some a"
    "st' = put_acc aid a st"
  using assms by (auto simp: apply_burn_def Let_def commit_acc_Done not_less split: if_splits)

lemma apply_claim_Done:
  assumes "apply_claim ext cfg aid acc phase batch_root registry_sig st = Done st'"
  obtains row a where "initialized acc" "ipv4_claimed_phase acc = None"
    "find_claim_phase cfg phase = Inr row"
    "verify_claim_sig ext st (cp_registry_address row) (claim_ipv4_msg phase batch_root aid) registry_sig = Inr ()"
    "bump_nonce (acc\<lparr>balance_pwm := sat_add (balance_pwm acc) (cp_allocation row),
                     ipv4_claimed_phase := Some phase\<rparr>) = Some a"
    "st' = put_acc aid a st"
  using assms
  by (auto simp: apply_claim_def Let_def commit_acc_Done split: if_splits sum.splits)

text \<open>The registry row and the lock an EXPORT adds.\<close>

definition register_export :: "bytes32 \<Rightarrow> ExportProvenance \<Rightarrow> CrossShardLock \<Rightarrow> State \<Rightarrow> State" where
  "register_export eid pv lk st =
     (let st = (if fmlookup (exported_registry st) eid = None
                then st\<lparr>exported_registry := fmupd eid pv (exported_registry st)\<rparr> else st)
      in if lock_idx st eid = None
         then st\<lparr>cross_shard_locks := cross_shard_locks st @ [lk]\<rparr> else st)"

lemma apply_export_Done:
  assumes "apply_export ext cfg tx h aid acc t dmn amount fee st = Done st'"
  obtains tot src eid pv lk where "initialized acc" "export_context_is_valid tx"
    "unat tot = unat amount + unat fee" "unat tot \<le> unat (balance_pwm acc)"
    "bump_nonce (acc\<lparr>balance_pwm := balance_pwm acc - tot\<rparr>) = Some src"
    "export_id ext tx = Some eid"
    "pv = \<lparr> pv_to = t, pv_target_domain = dmn, pv_amount = amount \<rparr>"
    "lk = \<lparr> lk_export_id = eid, lk_sender = aid, lk_amount_pwm = amount,
            lk_target_domain = dmn, lk_refund_account = aid, lk_lock_height = h,
            lk_unlock_height = sat_add h (xshard_lock_to_blocks cfg), lk_state = Locked \<rparr>"
    "st' = put_acc aid src (register_export eid pv lk (add_fee (fee_amount (body tx)) st))"
proof -
  from assms obtain tot src eid where *: "initialized acc" "export_context_is_valid tx"
    "checked_add amount fee = Some tot" "\<not> balance_pwm acc < tot"
    "bump_nonce (acc\<lparr>balance_pwm := balance_pwm acc - tot\<rparr>) = Some src"
    "export_id ext tx = Some eid"
    by (auto simp: apply_export_def Let_def split: if_splits option.splits)
  show thesis
    using assms * checked_add_Some [OF *(3)]
    by (intro that [OF *(1,2) _ _ *(5,6) refl refl])
       (auto simp: apply_export_def Let_def register_export_def word_le_nat_alt not_less)
qed


lemma release_lock_simps [simp]:
  "accounts (release_lock i st) = accounts st"
  "fee_pool (release_lock i st) = fee_pool st"
  "imported_set (release_lock i st) = imported_set st"
  "exported_registry (release_lock i st) = exported_registry st"
  "evidence_log (release_lock i st) = evidence_log st"
  "pending_conservation (release_lock i st) = pending_conservation st"
  by (auto simp: release_lock_def split: option.splits)

lemma register_export_simps [simp]:
  "accounts (register_export e pv lk st) = accounts st"
  "fee_pool (register_export e pv lk st) = fee_pool st"
  "imported_set (register_export e pv lk st) = imported_set st"
  "evidence_log (register_export e pv lk st) = evidence_log st"
  "pending_conservation (register_export e pv lk st) = pending_conservation st"
  by (auto simp: register_export_def Let_def)

text \<open>The state of an IMPORT between the fee and the credit of the recipient.\<close>

definition note_import :: "bytes32 \<Rightarrow> ExportProvenance option \<Rightarrow> u128 \<Rightarrow> State \<Rightarrow> State" where
  "note_import eid fresh fee st =
     (let st = add_fee fee st
      in case fresh of None \<Rightarrow> st
         | Some pv \<Rightarrow> st\<lparr>exported_registry := fmupd eid pv (exported_registry st)\<rparr>)"

lemma note_import_simps [simp]:
  "accounts (note_import e pv f st) = accounts st"
  "fee_pool (note_import e pv f st) = sat_add (fee_pool st) f"
  "imported_set (note_import e pv f st) = imported_set st"
  "cross_shard_locks (note_import e pv f st) = cross_shard_locks st"
  "evidence_log (note_import e pv f st) = evidence_log st"
  "pending_conservation (note_import e pv f st) = pending_conservation st"
  by (auto simp: note_import_def Let_def split: option.splits)

lemma apply_import_Done:
  assumes "apply_import ext tx aid acc t amount eid st = Done st'"
  obtains pv fresh fee src st1 where
    "initialized acc" "import_context_is_valid tx"
    "map_option (\<lambda>i. lk_state (cross_shard_locks st ! i)) (lock_idx st eid) \<noteq> Some Refunded"
    "eid |\<notin>| imported_set st" "expected_export st tx eid = Inr (pv, fresh)"
    "pv_amount pv = amount" "pv_to pv = t"
    "import_fee tx = Some fee" "MIN_IMPORT_FEE_UNITS \<le> fee" "unat fee \<le> unat (balance_pwm acc)"
    "bump_nonce (acc\<lparr>balance_pwm := balance_pwm acc - fee\<rparr>) = Some src"
    "t = aid \<and> st1 = put_acc aid (src\<lparr>balance_pwm := sat_add (balance_pwm src) amount\<rparr>)
                         (note_import eid (if fresh then Some pv else None) fee st)
     \<or> t \<noteq> aid \<and> (\<exists>to0. fmlookup (accounts st) t = Some to0 \<and> initialized to0 \<and>
         st1 = put_acc t (to0\<lparr>balance_pwm := sat_add (balance_pwm to0) amount\<rparr>)
                 (put_acc aid src (note_import eid (if fresh then Some pv else None) fee st)))"
    "st' = (release_lock (lock_idx st eid) st1)\<lparr>imported_set := finsert eid (imported_set st)\<rparr>"
proof -
  from assms have 1: "initialized acc" "import_context_is_valid tx"
    "map_option (\<lambda>i. lk_state (cross_shard_locks st ! i)) (lock_idx st eid) \<noteq> Some Refunded"
    "eid |\<notin>| imported_set st"
    by (auto simp: apply_import_def Let_def split: if_splits)
  with assms obtain pv fresh fee where 2: "expected_export st tx eid = Inr (pv, fresh)"
    "pv_amount pv = amount" "pv_to pv = t" "hi_byte (pv_target_domain pv) = hi_byte (domain_code tx)"
    "(if t \<noteq> aid then require_recipient st t else Inr ()) = Inr ()"
    "import_fee tx = Some fee" "\<not> fee < MIN_IMPORT_FEE_UNITS" "\<not> balance_pwm acc < fee"
    by (cases "expected_export st tx eid") (auto simp: apply_import_def Let_def split: if_splits sum.splits option.splits)
  then have b: "unat fee \<le> unat (balance_pwm acc)" "MIN_IMPORT_FEE_UNITS \<le> fee"
    by (auto simp: word_le_nat_alt not_less)
  define st0 where "st0 = note_import eid (if fresh then Some pv else None) fee st"
  have st0: "(if fresh then (add_fee fee st)\<lparr>exported_registry := fmupd eid pv (exported_registry (add_fee fee st))\<rparr>
              else add_fee fee st) = st0"
    by (simp add: st0_def note_import_def)
  define fin where "fin = (\<lambda>s1. (release_lock (lock_idx st eid) s1)\<lparr>imported_set :=
            finsert eid (imported_set (release_lock (lock_idx st eid) s1))\<rparr>)"
  have run: "(case bump_nonce (acc\<lparr>balance_pwm := balance_pwm acc - fee\<rparr>) of
       None \<Rightarrow> Panicked
     | Some src \<Rightarrow> (case (if t = aid
                then Some (put_acc aid (src\<lparr>balance_pwm := sat_add (balance_pwm src) amount\<rparr>) st0)
                else map_option (\<lambda>to0. put_acc t (to0\<lparr>balance_pwm := sat_add (balance_pwm to0) amount\<rparr>)
                       (put_acc aid src st0)) (fmlookup (accounts st0) t)) of
           None \<Rightarrow> Panicked | Some s1 \<Rightarrow> Done (fin s1)))
       = (Done st' :: (TxError, State) outcome)"
    using assms 1 2 unfolding st0 [symmetric] fin_def apply_import_def Let_def
    by (simp del: add_fee_simps map_option_eq_Some split del: if_split)
  then obtain src s1 where 3: "bump_nonce (acc\<lparr>balance_pwm := balance_pwm acc - fee\<rparr>) = Some src"
    "(if t = aid then Some (put_acc aid (src\<lparr>balance_pwm := sat_add (balance_pwm src) amount\<rparr>) st0)
      else map_option (\<lambda>to0. put_acc t (to0\<lparr>balance_pwm := sat_add (balance_pwm to0) amount\<rparr>)
             (put_acc aid src st0)) (fmlookup (accounts st0) t)) = Some s1" "st' = fin s1"
    by (auto split: option.splits)
  show thesis
  proof (rule that [OF 1 2(1-3) 2(6) b(2,1) 3(1)])
    show "t = aid \<and> s1 = put_acc aid (src\<lparr>balance_pwm := sat_add (balance_pwm src) amount\<rparr>)
                         (note_import eid (if fresh then Some pv else None) fee st)
     \<or> t \<noteq> aid \<and> (\<exists>to0. fmlookup (accounts st) t = Some to0 \<and> initialized to0 \<and>
         s1 = put_acc t (to0\<lparr>balance_pwm := sat_add (balance_pwm to0) amount\<rparr>)
                 (put_acc aid src (note_import eid (if fresh then Some pv else None) fee st)))"
      using 3(2) 2(5) by (auto simp: st0_def require_recipient_ok split: if_splits)
    show "st' = (release_lock (lock_idx st eid) s1)\<lparr>imported_set := finsert eid (imported_set st)\<rparr>"
      using 3(2) by (auto simp: 3(3) fin_def st0_def split: if_splits)
  qed
qed

lemma evacuate_Some:
  assumes "evacuate aid a target st = Some (a', st')"
  obtains (own) "target = aid" "a' = a"
      "st' = st\<lparr>pending_conservation := filter (\<lambda>row. pc_sender row \<noteq> aid) (pending_conservation st)\<rparr>"
  | (rescue) ta where "target \<noteq> aid" "fmlookup (accounts st) target = Some ta"
      "a' = a\<lparr>balance_pwm := 0, staked_pwm_raw := 0\<rparr>"
      "st' = put_acc target (ta\<lparr>balance_pwm := sat_add (sat_add (balance_pwm ta) (balance_pwm a)) (staked_pwm_raw a)\<rparr>)
         (st\<lparr>pending_conservation := filter (\<lambda>row. pc_sender row \<noteq> aid) (pending_conservation st)\<rparr>)"
proof (cases "target = aid")
  case True
  with assms show thesis by (intro own) (auto simp: evacuate_def Let_def)
next
  case False
  with assms obtain ta where ta: "fmlookup (accounts st) target = Some ta"
    by (auto simp: evacuate_def Let_def split: option.splits)
  have z: "\<not> 0 < x \<longleftrightarrow> x = 0" for x :: u128 by (simp add: word_neq_0_conv [symmetric])
  show thesis
    using assms False ta
    by (intro rescue [OF False ta])
      (cases "balance_pwm a = 0"; cases "staked_pwm_raw a = 0";
       auto simp: evacuate_def Let_def word_gt_0; fail)+
qed

lemma apply_policy_Done:
  assumes "apply_policy ext cfg tx h aid acc target_account action fee st = Done st'"
  obtains a b st1 where "initialized acc" "target_account = aid"
    "validate_pol_action ext st (touch_acct_mrks acc h cfg) action tx = Inr ()"
    "apply_policy_action (touch_acct_mrks acc h cfg) action h = Inr a"
    "unat fee \<le> unat (balance_pwm a)"
    "emergency_act_target action = None \<and> b = a\<lparr>balance_pwm := balance_pwm a - fee\<rparr> \<and> st1 = add_fee fee st
     \<or> (\<exists>target. emergency_act_target action = Some target \<and>
          evacuate aid (a\<lparr>balance_pwm := balance_pwm a - fee\<rparr>) target (add_fee fee st) = Some (b, st1))"
    "unat (nonce b) + 1 < 2 ^ 64" "st' = put_acc aid (b\<lparr>nonce := nonce b + 1\<rparr>) st1"
proof -
  from assms have 1: "initialized acc" "target_account = aid"
    "validate_pol_action ext st (touch_acct_mrks acc h cfg) action tx = Inr ()"
    by (auto simp: apply_policy_def Let_def split: if_splits sum.splits)
  with assms obtain a c where 2: "apply_policy_action (touch_acct_mrks acc h cfg) action h = Inr a"
    "checked_sub (balance_pwm a) fee = Some c"
    by (auto simp: apply_policy_def Let_def split: sum.splits option.splits)
  then have c: "c = balance_pwm a - fee" "unat fee \<le> unat (balance_pwm a)"
    by (auto simp: checked_sub_def word_le_nat_alt split: if_splits)
  show thesis
  proof (cases "emergency_act_target action")
    case None
    then show thesis
      using assms 1 2 that [OF 1 2(1) c(2)]
      by (auto simp: apply_policy_def Let_def commit_acc_Done bump_nonce_Some c)
  next
    case (Some target)
    then show thesis
      using assms 1 2 that [OF 1 2(1) c(2)]
      by (auto simp: apply_policy_def Let_def commit_acc_Done bump_nonce_Some c split: option.splits)
  qed
qed

lemma apply_due_Done:
  assumes "apply_due_conservation cfg row h st = Done st'"
  obtains sender dst src tot to0 where
    "fmlookup (accounts st) (pc_sender row) = Some sender" "initialized sender" "nonce sender = pc_nonce row"
    "conservation_recipient_dst st (pc_sender row) (pc_recipient row) h = Inr dst"
    "unat tot = unat (pc_amount_pwm row) + unat (pc_fee_pwm row)" "unat tot \<le> unat (balance_pwm sender)"
    "bump_nonce ((touch_acct_mrks sender h cfg)\<lparr>balance_pwm := balance_pwm sender - tot\<rparr>) = Some src"
    "fmlookup (accounts st) dst = Some to0" "initialized to0"
    "st' = put_acc dst ((touch_acct_mrks to0 h cfg)\<lparr>balance_pwm := sat_add (balance_pwm to0) (pc_amount_pwm row)\<rparr>)
             (put_acc (pc_sender row) src (add_fee (ucast (pc_fee_pwm row)) st))"
proof -
  from assms obtain sender dst tot src where 1: "fmlookup (accounts st) (pc_sender row) = Some sender"
    "initialized sender" "nonce sender = pc_nonce row"
    "conservation_recipient_dst st (pc_sender row) (pc_recipient row) h = Inr dst"
    "require_recipient st dst = Inr ()"
    "checked_add (pc_amount_pwm row) (ucast (pc_fee_pwm row)) = Some tot" "\<not> balance_pwm sender < tot"
    "bump_nonce ((touch_acct_mrks sender h cfg)\<lparr>balance_pwm := balance_pwm sender - tot\<rparr>) = Some src"
    by (auto simp: apply_due_conservation_def Let_def split: if_splits sum.splits option.splits)
  then obtain to0 where to0: "fmlookup (accounts st) dst = Some to0" "initialized to0"
    by (auto simp: require_recipient_ok)
  have fee: "unat (ucast (pc_fee_pwm row) :: u128) = unat (pc_fee_pwm row)"
    by (simp add: unsigned_ucast_eq take_bit_nat_eq_self order_less_le_trans [OF unsigned_less])
  show thesis
    using assms 1 to0 checked_add_Some [OF 1(6)]
    by (intro that [OF 1(1-4) _ _ 1(8) to0])
       (auto simp: apply_due_conservation_def Let_def fee word_le_nat_alt not_less split: if_splits)
qed

end
