(* ===== verification/Pwm_Supply.thy ===== *)
theory Pwm_Supply
  imports Pwm_Apply_Rules
begin

text \<open>
  The money of a ledger state and what every step does to it: liquid and staked units of all
  accounts, the fee pool, and the amounts held by cross-shard locks.
\<close>

section \<open>The money of a state\<close>

definition locked_units :: "CrossShardLock list \<Rightarrow> nat" where
  "locked_units locks = sum_list (map (\<lambda>l. if lk_state l = Locked then unat (lk_amount_pwm l) else 0) locks)"

definition total_units :: "State \<Rightarrow> nat" where
  "total_units st = fm_sum holdings (accounts st) + unat (fee_pool st) + locked_units (cross_shard_locks st)"

lemma locked_units_simps [simp]:
  "locked_units [] = 0"
  "locked_units (l # ls) = (if lk_state l = Locked then unat (lk_amount_pwm l) else 0) + locked_units ls"
  "locked_units (xs @ ys) = locked_units xs + locked_units ys"
  by (simp_all add: locked_units_def)

lemma locked_units_upd:
  assumes "i < length ls" "lk_state (ls ! i) = Locked" "lk_state l \<noteq> Locked"
  shows "locked_units (ls[i := l]) + unat (lk_amount_pwm (ls ! i)) = locked_units ls"
proof -
  have "ls = take i ls @ ls ! i # drop (Suc i) ls" using assms(1) by (rule id_take_nth_drop)
  then have "locked_units ls = locked_units (take i ls @ ls ! i # drop (Suc i) ls)" by simp
  moreover have "ls[i := l] = take i ls @ l # drop (Suc i) ls"
    using assms(1) by (rule upd_conv_take_nth_drop)
  ultimately show ?thesis using assms by simp
qed

lemma holdings_simps [simp]:
  "holdings (a\<lparr>nonce := n\<rparr>) = holdings a"
  "holdings (a\<lparr>stored_marks := m\<rparr>) = holdings a"
  "holdings (touch_acct_mrks a h cfg) = holdings a"
  "holdings (a\<lparr>ipv4_claimed_phase := p\<rparr>) = holdings a"
  by (simp_all add: holdings_def)

lemma holdings_bal [simp]:
  "holdings (a\<lparr>balance_pwm := b\<rparr>) = unat b + unat (staked_pwm_raw a)"
  by (simp add: holdings_def)

lemma holdings_bump: "bump_nonce a = Some a' \<Longrightarrow> holdings a' = holdings a"
  by (auto simp: bump_nonce_Some)

text \<open>A credit: exact unless the sum saturates, which the total_units bound of a real chain excludes.\<close>

lemma unat_sat_add_128: "unat (a :: u128) + unat b < 2 ^ 128 \<Longrightarrow> unat (sat_add a b) = unat a + unat b"
  by (simp add: unat_sat_add_exact)

text \<open>
  What a balance sheet says of a step: nothing is created beyond \<open>minted\<close>, and nothing is
  lost while the books stay below the range of a balance.
\<close>

definition balanced :: "nat \<Rightarrow> State \<Rightarrow> State \<Rightarrow> bool" where
  "balanced minted st st' \<longleftrightarrow> total_units st' \<le> total_units st + minted \<and>
     (total_units st + minted < 2 ^ 128 \<longrightarrow> total_units st' = total_units st + minted)"

text \<open>One row, the fee pool and the locks change.\<close>

lemma balanced_row:
  assumes row: "fmlookup (accounts st) aid = Some row"
    and acc: "accounts st' = fmupd aid a (accounts st)"
    and le: "holdings a + unat (fee_pool st') + locked_units (cross_shard_locks st')
              \<le> holdings row + unat (fee_pool st) + locked_units (cross_shard_locks st) + minted"
    and eq: "total_units st + minted < 2 ^ 128 \<Longrightarrow>
              holdings a + unat (fee_pool st') + locked_units (cross_shard_locks st')
              = holdings row + unat (fee_pool st) + locked_units (cross_shard_locks st) + minted"
  shows "balanced minted st st'"
  using fm_sum_upd [OF row, of holdings a] le eq
  unfolding balanced_def total_units_def acc by auto

lemma balanced_two_rows:
  assumes row: "fmlookup (accounts st) aid = Some row"
    and row2: "fmlookup (accounts st) dst = Some row2" and ne: "dst \<noteq> aid"
    and acc: "accounts st' = fmupd dst a2 (fmupd aid a (accounts st))"
    and le: "holdings a + holdings a2 + unat (fee_pool st') + locked_units (cross_shard_locks st')
              \<le> holdings row + holdings row2 + unat (fee_pool st) + locked_units (cross_shard_locks st) + minted"
    and eq: "total_units st + minted < 2 ^ 128 \<Longrightarrow>
              holdings a + holdings a2 + unat (fee_pool st') + locked_units (cross_shard_locks st')
              = holdings row + holdings row2 + unat (fee_pool st) + locked_units (cross_shard_locks st) + minted"
  shows "balanced minted st st'"
proof -
  have row2': "fmlookup (fmupd aid a (accounts st)) dst = Some row2" using row2 ne by simp
  show ?thesis
    using fm_sum_upd [OF row, of holdings a] fm_sum_upd [OF row2', of holdings a2] le eq
    unfolding balanced_def total_units_def acc by auto
qed

lemma total_units_ge_row:
  assumes "fmlookup (accounts st) aid = Some row"
  shows "holdings row + unat (fee_pool st) + locked_units (cross_shard_locks st) \<le> total_units st"
  using fm_sum_ge [OF assms, of holdings] by (simp add: total_units_def)

lemma total_units_ge_two_rows:
  assumes "fmlookup (accounts st) aid = Some row" "fmlookup (accounts st) dst = Some row2" "dst \<noteq> aid"
  shows "holdings row + holdings row2 + unat (fee_pool st) + locked_units (cross_shard_locks st) \<le> total_units st"
proof -
  have "fmlookup (fmdrop aid (accounts st)) dst = Some row2" using assms by simp
  from fm_sum_ge [OF this, of holdings] fm_sum_remove [OF assms(1), of holdings]
  show ?thesis by (simp add: total_units_def)
qed


section \<open>The arms\<close>

text \<open>The working copy of the sender differs from its row in the signer fields only.\<close>

definition same_funds :: "Account \<Rightarrow> Account \<Rightarrow> bool" where
  "same_funds acc row \<longleftrightarrow> balance_pwm acc = balance_pwm row \<and> staked_pwm_raw acc = staked_pwm_raw row"

lemma same_funds_holdings: "same_funds acc row \<Longrightarrow> holdings acc = holdings row"
  by (simp add: same_funds_def holdings_def)

lemma set_pol_mode_funds [simp]:
  "balance_pwm (set_pol_mode a p m h) = balance_pwm a"
  "staked_pwm_raw (set_pol_mode a p m h) = staked_pwm_raw a"
  "nonce (set_pol_mode a p m h) = nonce a"
  "initialized (set_pol_mode a p m h) = initialized a"
  "finalized (set_pol_mode a p m h) = finalized a"
  "acc_signing_pubkey (set_pol_mode a p m h) = acc_signing_pubkey a"
  "acc_derivation_index (set_pol_mode a p m h) = acc_derivation_index a"
  by (simp_all add: set_pol_mode_def Let_def split: ActivationMode.split)

lemma fold_pol_mode_funds [simp]:
  "balance_pwm (fold (\<lambda>row a. set_pol_mode a (ip_policy row) (ip_activation row) h) rows a) = balance_pwm a"
  "staked_pwm_raw (fold (\<lambda>row a. set_pol_mode a (ip_policy row) (ip_activation row) h) rows a) = staked_pwm_raw a"
  "nonce (fold (\<lambda>row a. set_pol_mode a (ip_policy row) (ip_activation row) h) rows a) = nonce a"
  "initialized (fold (\<lambda>row a. set_pol_mode a (ip_policy row) (ip_activation row) h) rows a) = initialized a"
  "finalized (fold (\<lambda>row a. set_pol_mode a (ip_policy row) (ip_activation row) h) rows a) = finalized a"
  "acc_signing_pubkey (fold (\<lambda>row a. set_pol_mode a (ip_policy row) (ip_activation row) h) rows a) = acc_signing_pubkey a"
  by (induction rows arbitrary: a) simp_all

lemma init_account_simps [simp]:
  "balance_pwm (init_account tx h i f a) = balance_pwm a"
  "staked_pwm_raw (init_account tx h i f a) = staked_pwm_raw a"
  "nonce (init_account tx h i f a) = nonce a"
  "initialized (init_account tx h i f a)"
  by (simp_all add: init_account_def Let_def split: option.split)

lemma apply_policy_action_funds:
  "apply_policy_action a action h = Inr a' \<Longrightarrow>
     balance_pwm a' = balance_pwm a \<and> staked_pwm_raw a' = staked_pwm_raw a \<and> nonce a' = nonce a \<and>
     initialized a' = initialized a \<and> acc_signing_pubkey a' = acc_signing_pubkey a"
  by (cases action) (auto simp: Let_def split: option.splits if_splits)

lemma balanced_init:
  assumes "apply_init tx h aid acc index flags st = Done st'"
    and "fmlookup (accounts st) aid = Some row" "same_funds acc row"
  shows "balanced 0 st st'"
  using assms(1)
proof (cases rule: apply_init_Done)
  case (1 a)
  have "holdings a = holdings row"
    using 1(2) assms(3) by (simp add: bump_nonce_Some holdings_def same_funds_def)
  then show ?thesis
    using assms(2) by (intro balanced_row [where a = a]) (simp_all add: 1(3))
qed

lemma balanced_transfer:
  assumes run: "apply_transfer ext cfg tx h aid acc redir_to t amount (fee_amount (body tx)) st = Done st'"
    and row: "fmlookup (accounts st) aid = Some row" "same_funds acc row"
  shows "balanced 0 st st'"
  using run
proof (cases rule: apply_transfer_Done)
  case pending
  then show ?thesis by (simp add: balanced_def total_units_def)
next
  case (own src tot)
  let ?fee = "fee_amount (body tx)"
  have h: "unat (balance_pwm src) + unat tot = unat (balance_pwm row)" "staked_pwm_raw src = staked_pwm_raw row"
    using own(5,6) row(2) by (auto simp: bump_nonce_Some same_funds_def unat_minus_le word_le_nat_alt)
  then show ?thesis
    using own(4) unat_sat_add_le [of "balance_pwm src" amount] unat_sat_add_le [of "fee_pool st" ?fee]
      total_units_ge_row [OF row(1)] unat_sat_add_128 [of "balance_pwm src" amount]
      unat_sat_add_128 [of "fee_pool st" ?fee]
    by (intro balanced_row [OF row(1)]) (auto simp: own(7) holdings_def)
next
  case (other dst src tot to0)
  let ?fee = "fee_amount (body tx)"
  have h: "unat (balance_pwm src) + unat tot = unat (balance_pwm row)" "staked_pwm_raw src = staked_pwm_raw row"
    using other(6,7) row(2) by (auto simp: bump_nonce_Some same_funds_def unat_minus_le word_le_nat_alt)
  then show ?thesis
    using other(5) unat_sat_add_le [of "balance_pwm to0" amount] unat_sat_add_le [of "fee_pool st" ?fee]
      total_units_ge_two_rows [OF row(1) other(8,4)] unat_sat_add_128 [of "balance_pwm to0" amount]
      unat_sat_add_128 [of "fee_pool st" ?fee]
    by (intro balanced_two_rows [OF row(1) other(8,4)]) (auto simp: other(10) holdings_def)
qed

lemma balanced_stake:
  assumes run: "apply_stake cfg h aid acc amount st = Done st'"
    and row: "fmlookup (accounts st) aid = Some row" "same_funds acc row"
  shows "balanced 0 st st'"
  using run
proof (cases rule: apply_stake_Done)
  case (1 s a)
  have "holdings a = holdings row"
    using 1(2,3,4) row(2) by (auto simp: bump_nonce_Some same_funds_def holdings_def unat_minus_le word_le_nat_alt)
  then show ?thesis by (intro balanced_row [OF row(1), where a = a]) (auto simp: 1(5))
qed

lemma balanced_unstake:
  assumes run: "apply_unstake cfg h aid acc amount st = Done st'"
    and row: "fmlookup (accounts st) aid = Some row" "same_funds acc row"
  shows "balanced 0 st st'"
  using run
proof (cases rule: apply_unstake_Done)
  case (1 b a)
  have "holdings a = holdings row"
    using 1(2,3,4) row(2) by (auto simp: bump_nonce_Some same_funds_def holdings_def unat_minus_le word_le_nat_alt)
  then show ?thesis by (intro balanced_row [OF row(1), where a = a]) (auto simp: 1(5))
qed

lemma balanced_burn:
  assumes run: "apply_burn cfg h aid acc mark_amount st = Done st'"
    and row: "fmlookup (accounts st) aid = Some row" "same_funds acc row"
  shows "balanced 0 st st'"
  using run
proof (cases rule: apply_burn_Done)
  case (1 a)
  have "holdings a = holdings row"
    using 1(3) row(2) by (auto simp: bump_nonce_Some same_funds_def holdings_def)
  then show ?thesis by (intro balanced_row [OF row(1), where a = a]) (auto simp: 1(4))
qed

text \<open>The allocation of the phase a claim names.\<close>

definition claim_allocation :: "GenCfg \<Rightarrow> u8 \<Rightarrow> nat" where
  "claim_allocation cfg phase = (case find_claim_phase cfg phase of
     Inr row \<Rightarrow> unat (cp_allocation row) | Inl _ \<Rightarrow> 0)"

lemma balanced_claim:
  assumes run: "apply_claim ext cfg aid acc phase batch_root registry_sig st = Done st'"
    and row: "fmlookup (accounts st) aid = Some row" "same_funds acc row"
  shows "balanced (claim_allocation cfg phase) st st'"
  using run
proof (cases rule: apply_claim_Done)
  case (1 pr a)
  let ?b = "sat_add (balance_pwm row) (cp_allocation pr)"
  have "holdings a = unat ?b + unat (staked_pwm_raw row)"
    using 1(5) row(2) by (auto simp: bump_nonce_Some same_funds_def holdings_def)
  then show ?thesis
    using unat_sat_add_le [of "balance_pwm row" "cp_allocation pr"] total_units_ge_row [OF row(1)]
      unat_sat_add_128 [of "balance_pwm row" "cp_allocation pr"]
    by (intro balanced_row [OF row(1)]) (auto simp: 1(6) claim_allocation_def 1(3) holdings_def)
qed


section \<open>EXPORT, IMPORT and POLICY\<close>

lemma register_export_locks:
  "locked_units (cross_shard_locks (register_export eid pv lk st)) \<le>
     locked_units (cross_shard_locks st) + unat (lk_amount_pwm lk)"
  "lock_idx st eid = None \<Longrightarrow> lk_state lk = Locked \<Longrightarrow>
     locked_units (cross_shard_locks (register_export eid pv lk st)) =
     locked_units (cross_shard_locks st) + unat (lk_amount_pwm lk)"
  by (auto simp: register_export_def Let_def lock_idx_def)

lemma export_units:
  assumes run: "apply_export ext cfg tx h aid acc t dmn amount (fee_amount (body tx)) st = Done st'"
    and row: "fmlookup (accounts st) aid = Some row" "same_funds acc row"
  shows "total_units st' \<le> total_units st"
    and "(\<And>eid. export_id ext tx = Some eid \<Longrightarrow> lock_idx st eid = None) \<Longrightarrow> balanced 0 st st'"
proof -
  show "total_units st' \<le> total_units st"
    using run
  proof (cases rule: apply_export_Done)
    case (1 tot src eid pv lk)
    let ?st = "add_fee (fee_amount (body tx)) st"
    have h: "unat (balance_pwm src) + unat tot = unat (balance_pwm row)" "staked_pwm_raw src = staked_pwm_raw row"
      using 1(4,5) row(2) by (auto simp: bump_nonce_Some same_funds_def unat_minus_le word_le_nat_alt)
    have "locked_units (cross_shard_locks st') \<le> locked_units (cross_shard_locks st) + unat amount"
      using register_export_locks(1) [of eid pv lk ?st] 1(8) by (simp add: 1(9))
    then show ?thesis
      using h 1(3) unat_sat_add_le [of "fee_pool st" "fee_amount (body tx)"] fm_sum_upd [OF row(1), of holdings src]
      by (simp add: total_units_def 1(9) holdings_def)
  qed
  assume fresh: "\<And>eid. export_id ext tx = Some eid \<Longrightarrow> lock_idx st eid = None"
  show "balanced 0 st st'"
    using run
  proof (cases rule: apply_export_Done)
    case (1 tot src eid pv lk)
    let ?st = "add_fee (fee_amount (body tx)) st"
    have h: "unat (balance_pwm src) + unat tot = unat (balance_pwm row)" "staked_pwm_raw src = staked_pwm_raw row"
      using 1(4,5) row(2) by (auto simp: bump_nonce_Some same_funds_def unat_minus_le word_le_nat_alt)
    have "locked_units (cross_shard_locks st') = locked_units (cross_shard_locks st) + unat amount"
      using register_export_locks(2) [of ?st eid lk pv] 1(8) fresh [OF 1(6)]
      by (simp add: 1(9) lock_idx_def)
    then show ?thesis
      using h 1(3) unat_sat_add_le [of "fee_pool st" "fee_amount (body tx)"] total_units_ge_row [OF row(1)]
        unat_sat_add_128 [of "fee_pool st" "fee_amount (body tx)"]
      by (intro balanced_row [OF row(1), where a = src]) (auto simp: 1(9) holdings_def)
  qed
qed

text \<open>
  What an IMPORT adds to the shard: its amount, unless it consumes a lock of this shard, whose
  units were still counted.
\<close>

definition import_minted :: "State \<Rightarrow> bytes32 \<Rightarrow> u128 \<Rightarrow> nat" where
  "import_minted st eid amount = (case lock_idx st eid of
     Some i \<Rightarrow> if lk_state (cross_shard_locks st ! i) = Locked then 0 else unat amount
   | None \<Rightarrow> unat amount)"

definition lock_amount_ok :: "State \<Rightarrow> bytes32 \<Rightarrow> u128 \<Rightarrow> bool" where
  "lock_amount_ok st eid amount = (case lock_idx st eid of
     Some i \<Rightarrow> lk_state (cross_shard_locks st ! i) = Locked \<longrightarrow> lk_amount_pwm (cross_shard_locks st ! i) = amount
   | None \<Rightarrow> True)"

lemma release_lock_units:
  assumes "lock_amount_ok st eid amount" "cross_shard_locks st1 = cross_shard_locks st"
  shows "locked_units (cross_shard_locks (release_lock (lock_idx st eid) st1)) + unat amount =
    locked_units (cross_shard_locks st) + import_minted st eid amount"
proof (cases "lock_idx st eid")
  case (Some i)
  then have i: "i < length (cross_shard_locks st)" by (simp add: lock_idx_def position_Some)
  show ?thesis
  proof (cases "lk_state (cross_shard_locks st ! i) = Locked")
    case True
    then show ?thesis
      using locked_units_upd [OF i True, of "(cross_shard_locks st ! i)\<lparr>lk_state := Released\<rparr>"] assms Some
      by (simp add: release_lock_def lock_amount_ok_def import_minted_def)
  qed (use Some assms in \<open>simp add: release_lock_def import_minted_def\<close>)
qed (use assms in \<open>simp add: release_lock_def import_minted_def\<close>)

lemma balanced_import:
  assumes run: "apply_import ext tx aid acc t amount eid st = Done st'"
    and row: "fmlookup (accounts st) aid = Some row" "same_funds acc row"
    and lk: "lock_amount_ok st eid amount"
  shows "balanced (import_minted st eid amount) st st'"
  using run
proof (cases rule: apply_import_Done)
  case (1 pv fresh fee src st1)
  have h: "unat (balance_pwm src) + unat fee = unat (balance_pwm row)" "staked_pwm_raw src = staked_pwm_raw row"
    using 1(10,11) row(2) by (auto simp: bump_nonce_Some same_funds_def unat_minus_le word_le_nat_alt)
  have l1: "cross_shard_locks st1 = cross_shard_locks st" using 1(12) by auto
  note rel = release_lock_units [OF lk l1]
  from 1(12) show ?thesis
  proof (elim disjE conjE exE)
    assume own: "t = aid" "st1 = put_acc aid (src\<lparr>balance_pwm := sat_add (balance_pwm src) amount\<rparr>)
      (note_import eid (if fresh then Some pv else None) fee st)"
    show ?thesis
      using h rel unat_sat_add_le [of "balance_pwm src" amount] unat_sat_add_le [of "fee_pool st" fee]
        total_units_ge_row [OF row(1)] unat_sat_add_128 [of "balance_pwm src" amount]
        unat_sat_add_128 [of "fee_pool st" fee]
      by (intro balanced_row [OF row(1), where a = "src\<lparr>balance_pwm := sat_add (balance_pwm src) amount\<rparr>"])
        (auto simp: 1(13) own(2) holdings_def)
  next
    fix to0 assume other: "t \<noteq> aid" "fmlookup (accounts st) t = Some to0"
      "st1 = put_acc t (to0\<lparr>balance_pwm := sat_add (balance_pwm to0) amount\<rparr>)
         (put_acc aid src (note_import eid (if fresh then Some pv else None) fee st))"
    show ?thesis
      using h rel unat_sat_add_le [of "balance_pwm to0" amount] unat_sat_add_le [of "fee_pool st" fee]
        total_units_ge_two_rows [OF row(1) other(2,1)] unat_sat_add_128 [of "balance_pwm to0" amount]
        unat_sat_add_128 [of "fee_pool st" fee]
      by (intro balanced_two_rows [OF row(1) other(2,1),
            where a = src and ?a2.0 = "to0\<lparr>balance_pwm := sat_add (balance_pwm to0) amount\<rparr>"])
        (auto simp: 1(13) other(3) holdings_def)
  qed
qed

lemma balanced_policy:
  assumes run: "apply_policy ext cfg tx h aid acc target_account action fee st = Done st'"
    and row: "fmlookup (accounts st) aid = Some row" "same_funds acc row"
  shows "balanced 0 st st'"
  using run
proof (cases rule: apply_policy_Done)
  case (1 a b st1)
  have a: "balance_pwm a = balance_pwm row" "staked_pwm_raw a = staked_pwm_raw row"
    using apply_policy_action_funds [OF 1(4)] row(2) by (simp_all add: same_funds_def)
  let ?a = "a\<lparr>balance_pwm := balance_pwm a - fee\<rparr>"
  have h: "unat (balance_pwm ?a) + unat fee = unat (balance_pwm row)" "staked_pwm_raw ?a = staked_pwm_raw row"
    using 1(5) by (auto simp: a unat_minus_le word_le_nat_alt)
  have keep: ?thesis if "b = ?a" "cross_shard_locks st1 = cross_shard_locks st" "accounts st1 = accounts st"
    "fee_pool st1 = sat_add (fee_pool st) fee"
    using h that unat_sat_add_le [of "fee_pool st" fee] total_units_ge_row [OF row(1)]
      unat_sat_add_128 [of "fee_pool st" fee]
    by (intro balanced_row [OF row(1), where a = "?a\<lparr>nonce := nonce ?a + 1\<rparr>"]) (auto simp: 1(8) holdings_def)
  from 1(6) show ?thesis
  proof (elim disjE conjE exE)
    fix target
    assume "evacuate aid ?a target (add_fee fee st) = Some (b, st1)"
    then show ?thesis
    proof (cases rule: evacuate_Some)
      case (rescue ta)
      let ?ta = "ta\<lparr>balance_pwm := sat_add (sat_add (balance_pwm ta) (balance_pwm ?a)) (staked_pwm_raw ?a)\<rparr>"
      have lk: "fmlookup (accounts st) target = Some ta" using rescue(2) by simp
      have swap: "fmupd aid x (fmupd target y m) = fmupd target y (fmupd aid x m)" for x y and m :: "(AccountId, Account) fmap"
        using rescue(1) by (intro fmap_ext) auto
      have "unat (sat_add (sat_add (balance_pwm ta) (balance_pwm ?a)) (staked_pwm_raw ?a)) \<le>
          unat (balance_pwm ta) + unat (balance_pwm ?a) + unat (staked_pwm_raw ?a)"
        using unat_sat_add_le [of "balance_pwm ta" "balance_pwm ?a"]
          unat_sat_add_le [of "sat_add (balance_pwm ta) (balance_pwm ?a)" "staked_pwm_raw ?a"] by linarith
      moreover have "unat (sat_add (sat_add (balance_pwm ta) (balance_pwm ?a)) (staked_pwm_raw ?a)) =
          unat (balance_pwm ta) + unat (balance_pwm ?a) + unat (staked_pwm_raw ?a)"
        if "unat (balance_pwm ta) + unat (balance_pwm ?a) + unat (staked_pwm_raw ?a) < 2 ^ 128"
        using that unat_sat_add_128 [of "balance_pwm ta" "balance_pwm ?a"]
          unat_sat_add_128 [of "sat_add (balance_pwm ta) (balance_pwm ?a)" "staked_pwm_raw ?a"] by linarith
      ultimately show ?thesis
        using h unat_sat_add_le [of "fee_pool st" fee] total_units_ge_two_rows [OF row(1) lk rescue(1)]
          unat_sat_add_128 [of "fee_pool st" fee]
        by (intro balanced_two_rows [OF row(1) lk rescue(1),
            where a = "b\<lparr>nonce := nonce b + 1\<rparr>" and ?a2.0 = ?ta])
          (auto simp: 1(8) rescue(3,4) swap holdings_def)
    qed (simp add: keep)
  qed (simp add: keep)
qed

section \<open>One transaction\<close>

lemma bind_sender_ok:
  assumes "bind_sender tx row = Inr acc"
  shows "nonce row = tx_nonce tx" "same_funds acc row" "initialized acc = initialized row"
    "nonce acc = nonce row" "acc_signing_pubkey acc = signer_pk tx"
    "acc_derivation_index acc = derivation_index tx" "stored_marks acc = stored_marks row"
    "initialized row \<Longrightarrow> acc = row" "finalized acc = finalized row"
  using assms by (auto simp: bind_sender_def Let_def same_funds_def split: if_splits)

lemma apply_tx_impl_Done:
  assumes "apply_tx_impl ext cfg tx h ts skip st = Done st'"
  obtains aid st1 row acc redir where
    "validate_shape_no_sig ext tx = Inr ()" "\<not> skip \<Longrightarrow> verify_sig ext tx"
    "aid = computed_account_id ext tx" "st1 = with_stub tx aid st"
    "fmlookup (accounts st1) aid = Some row" "bind_sender tx row = Inr acc"
    "redir \<noteq> None \<Longrightarrow> \<not> skip \<and> evaluate_policy ext st1 tx h = Redirect (the redir)"
    "redir = None \<Longrightarrow> skip \<or> evaluate_policy ext st1 tx h = Allow"
    "\<not> (has_pending_conserv st1 aid \<and> pending_tx_conflict (body tx))"
    "apply_body ext cfg tx h aid acc redir st1 = Done st'"
proof -
  define aid where "aid = computed_account_id ext tx"
  define st1 where "st1 = with_stub tx aid st"
  define dec where "dec = (if skip then Allow else evaluate_policy ext st1 tx h)"
  have shape: "validate_shape_no_sig ext tx = Inr ()" "\<not> skip \<Longrightarrow> verify_sig ext tx"
    using assms by (auto simp: apply_tx_impl_def validate_tx_shape_split split: if_splits sum.splits)
  then have sh: "(if skip then validate_shape_no_sig ext tx else validate_tx_shape ext tx) = Inr ()"
    by (simp add: validate_tx_shape_split)
  from assms obtain row where row: "fmlookup (accounts st1) aid = Some row"
    by (cases "fmlookup (accounts st1) aid")
       (auto simp: apply_tx_impl_def sh Let_def aid_def [symmetric] st1_def [symmetric])
  from assms row obtain acc where acc: "bind_sender tx row = Inr acc"
    by (cases "bind_sender tx row")
       (auto simp: apply_tx_impl_def sh Let_def aid_def [symmetric] st1_def [symmetric])
  have run: "(case dec of Reject err \<Rightarrow> Failed err st1
     | decision \<Rightarrow> if has_pending_conserv st1 aid \<and> pending_tx_conflict (body tx)
         then Failed ConservationPendingExists st1
         else apply_body ext cfg tx h aid acc (case decision of Redirect t \<Rightarrow> Some t | _ \<Rightarrow> None) st1) = Done st'"
    using assms row acc
    unfolding apply_tx_impl_def sh Let_def aid_def [symmetric] st1_def [symmetric] dec_def [symmetric]
    by simp
  show thesis
  proof (cases dec)
    case Allow
    show thesis
      by (rule that [OF shape aid_def st1_def row acc, of None])
        (use run Allow in \<open>auto simp: dec_def split: if_splits\<close>)
  next
    case (Reject e)
    with run show thesis by simp
  next
    case (Redirect t)
    show thesis
      by (rule that [OF shape aid_def st1_def row acc, of "Some t"])
        (use run Redirect in \<open>auto simp: dec_def split: if_splits\<close>)
  qed
qed

definition tx_minted :: "GenCfg \<Rightarrow> State \<Rightarrow> SignedTx \<Rightarrow> nat" where
  "tx_minted cfg st tx = (case body tx of
     ClaimIPv4Batch phase _ _ \<Rightarrow> claim_allocation cfg phase
   | Import _ amount eid \<Rightarrow> import_minted st eid amount
   | _ \<Rightarrow> 0)"

lemma with_stub_simps [simp]:
  "fee_pool (with_stub tx aid st) = fee_pool st"
  "imported_set (with_stub tx aid st) = imported_set st"
  "exported_registry (with_stub tx aid st) = exported_registry st"
  "epoch_counter (with_stub tx aid st) = epoch_counter st"
  "active_validator_indices (with_stub tx aid st) = active_validator_indices st"
  "cross_shard_locks (with_stub tx aid st) = cross_shard_locks st"
  "evidence_log (with_stub tx aid st) = evidence_log st"
  "pending_conservation (with_stub tx aid st) = pending_conservation st"
  by (simp_all add: with_stub_def)

lemma with_stub_units [simp]: "total_units (with_stub tx aid st) = total_units st"
  by (auto simp: with_stub_def total_units_def fm_sum_upd_new holdings_def account_default_def)

lemma lock_idx_stub [simp]: "lock_idx (with_stub tx aid st) eid = lock_idx st eid"
  by (simp add: lock_idx_def)

text \<open>The arms of the transition together: the amounts of the books never grow by more than is minted.\<close>

lemma balanced_apply_tx:
  assumes run: "apply_tx_impl ext cfg tx h ts skip st = Done st'"
    and lk: "\<And>t amount eid. body tx = Import t amount eid \<Longrightarrow> lock_amount_ok st eid amount"
  shows "total_units st' \<le> total_units st + tx_minted cfg st tx"
    and "(\<And>t d amount fee eid. body tx = Export t d amount fee \<Longrightarrow> export_id ext tx = Some eid \<Longrightarrow> lock_idx st eid = None)
      \<Longrightarrow> balanced (tx_minted cfg st tx) st st'"
proof -
  from run obtain aid st1 row acc redir where 1: "st1 = with_stub tx aid st"
    "fmlookup (accounts st1) aid = Some row" "bind_sender tx row = Inr acc"
    "apply_body ext cfg tx h aid acc redir st1 = Done st'"
    by (rule apply_tx_impl_Done)
  note f = bind_sender_ok(2) [OF 1(3)]
  have stub: "balanced n st s \<longleftrightarrow> balanced n st1 s" for n s by (simp add: balanced_def 1(1))
  have lk1: "lock_amount_ok st1 eid amount = lock_amount_ok st eid amount"
    "import_minted st1 eid amount = import_minted st eid amount" for eid amount
    by (simp_all add: lock_amount_ok_def import_minted_def 1(1) split: option.split)
  have transfer: "balanced 0 st1 st'"
    if "apply_transfer ext cfg tx h aid acc redir t amount fee st1 = Done st'" "body tx = Transfer t amount fee"
    for t amount fee
    using that balanced_transfer [OF _ 1(2) f, of ext cfg tx h redir t amount st'] by simp
  have bal: "balanced (tx_minted cfg st tx) st st'" if "\<not> (\<exists>t d amount fee. body tx = Export t d amount fee)"
    using 1(4) that lk
    by (cases "body tx")
       (auto simp: apply_body_def tx_minted_def stub lk1 [symmetric]
          intro: balanced_init [OF _ 1(2) f] transfer balanced_stake [OF _ 1(2) f]
            balanced_unstake [OF _ 1(2) f] balanced_burn [OF _ 1(2) f] balanced_claim [OF _ 1(2) f]
            balanced_import [OF _ 1(2) f] balanced_policy [OF _ 1(2) f])
  show "total_units st' \<le> total_units st + tx_minted cfg st tx"
  proof (cases "\<exists>t d amount fee. body tx = Export t d amount fee")
    case True
    then obtain t d amount fee where b: "body tx = Export t d amount fee" by blast
    then have "apply_export ext cfg tx h aid acc t d amount (fee_amount (body tx)) st1 = Done st'"
      using 1(4) by (simp add: apply_body_def)
    from export_units(1) [OF this 1(2) f] show ?thesis by (simp add: 1(1))
  qed (use bal in \<open>auto simp: balanced_def\<close>)
  assume fresh: "\<And>t d amount fee eid. body tx = Export t d amount fee \<Longrightarrow> export_id ext tx = Some eid \<Longrightarrow> lock_idx st eid = None"
  show "balanced (tx_minted cfg st tx) st st'"
  proof (cases "\<exists>t d amount fee. body tx = Export t d amount fee")
    case True
    then obtain t d amount fee where b: "body tx = Export t d amount fee" by blast
    then have "apply_export ext cfg tx h aid acc t d amount (fee_amount (body tx)) st1 = Done st'"
      using 1(4) by (simp add: apply_body_def)
    from export_units(2) [OF this 1(2) f] fresh [OF b] show ?thesis
      by (simp add: 1(1) stub b tx_minted_def)
  qed (use bal in auto)
qed

section \<open>Delayed transfers, refunds and rewards\<close>

lemma balanced_refl: "balanced 0 st st"
  by (simp add: balanced_def)

lemma balanced_trans:
  "balanced m st st1 \<Longrightarrow> balanced n st1 st2 \<Longrightarrow> balanced (m + n) st st2"
  by (auto simp: balanced_def)

text \<open>
  A due row whose destination is its own sender: the credited copy of the sender's row is the
  one read before the debit and is stored last, so the debit is lost.
\<close>

definition self_minted :: "u64 \<Rightarrow> State \<Rightarrow> PendingConservationTransfer \<Rightarrow> nat" where
  "self_minted h st row =
     (if conservation_recipient_dst st (pc_sender row) (pc_recipient row) h = Inr (pc_sender row)
      then unat (pc_amount_pwm row) + unat (pc_fee_pwm row) else 0)"

lemma unat_fee_u128: "unat (ucast (f :: u64) :: u128) = unat f"
  by (simp add: unsigned_ucast_eq take_bit_nat_eq_self order_less_le_trans [OF unsigned_less])

lemma due_balanced:
  assumes "apply_due_conservation cfg row h st = Done st'"
  shows "balanced (self_minted h st row) st st'"
  using assms
proof (cases rule: apply_due_Done)
  case (1 sender dst src tot to0)
  let ?fee = "ucast (pc_fee_pwm row) :: u128" and ?amt = "pc_amount_pwm row"
  have h: "unat (balance_pwm src) + unat tot = unat (balance_pwm sender)" "staked_pwm_raw src = staked_pwm_raw sender"
    using 1(6,7) by (auto simp: bump_nonce_Some unat_minus_le word_le_nat_alt)
  note sat = unat_sat_add_le [of "balance_pwm to0" ?amt] unat_sat_add_le [of "fee_pool st" ?fee]
    unat_sat_add_128 [of "balance_pwm to0" ?amt] unat_sat_add_128 [of "fee_pool st" ?fee]
  show ?thesis
  proof (cases "dst = pc_sender row")
    case True
    then have to0: "to0 = sender" using 1(1,8) by simp
    show ?thesis
      using sat 1(4) total_units_ge_row [OF 1(1)] True
      by (intro balanced_row [OF 1(1), where a = "(touch_acct_mrks to0 h cfg)\<lparr>balance_pwm := sat_add (balance_pwm to0) ?amt\<rparr>"])
        (auto simp: 1(10) holdings_def self_minted_def to0 unat_fee_u128 fmap_ext)
  next
    case ne: False
    then have "self_minted h st row = 0" using 1(4) by (simp add: self_minted_def)
    then show ?thesis
      using h sat 1(5) total_units_ge_two_rows [OF 1(1) 1(8) ne]
      by (intro balanced_two_rows [OF 1(1) 1(8) ne, where a = src
            and ?a2.0 = "(touch_acct_mrks to0 h cfg)\<lparr>balance_pwm := sat_add (balance_pwm to0) ?amt\<rparr>"])
        (auto simp: 1(10) holdings_def unat_fee_u128)
  qed
qed

text \<open>Where a delayed transfer goes depends on the policy fields of the accounts only.\<close>

definition policy_view :: "State \<Rightarrow> AccountId \<Rightarrow> (bool \<times> bool \<times> u16 \<times> DeferredPolicyEntry list \<times> AccountId option) option" where
  "policy_view st aid = map_option (\<lambda>a. (initialized a, finalized a, active_policies a, deferred_policies a, rescue_address a))
     (fmlookup (accounts st) aid)"

lemma recipient_dst_view:
  assumes "policy_view st' = policy_view st"
  shows "conservation_recipient_dst st' s r h = conservation_recipient_dst st s r h"
proof -
  have v: "policy_view st' x = policy_view st x" for x by (simp add: assms)
  have redir: "eval_emerg_redirect st' s acc = eval_emerg_redirect st s acc" for acc
  proof (cases "rescue_address acc")
    case (Some rid)
    then show ?thesis
      using v [of rid]
      by (cases "fmlookup (accounts st) rid"; cases "fmlookup (accounts st') rid")
         (auto simp: eval_emerg_redirect_def policy_view_def)
  qed (simp add: eval_emerg_redirect_def)
  have redir': "rescue_address a = rescue_address b \<Longrightarrow> eval_emerg_redirect st s a = eval_emerg_redirect st s b" for a b
    by (simp add: eval_emerg_redirect_def)
  have act: "active_policies a = active_policies b \<Longrightarrow> deferred_policies a = deferred_policies b \<Longrightarrow>
      policy_is_active_at a p h = policy_is_active_at b p h" for a b p
    by (simp add: policy_is_active_at_def)
  show ?thesis
  proof (cases "fmlookup (accounts st) r")
    case None
    then have "fmlookup (accounts st') r = None" using v [of r] by (simp add: policy_view_def)
    with None show ?thesis by (simp add: conservation_recipient_dst_def)
  next
    case (Some a)
    with v [of r] obtain b where b: "fmlookup (accounts st') r = Some b" "initialized b = initialized a"
      "finalized b = finalized a" "active_policies b = active_policies a"
      "deferred_policies b = deferred_policies a" "rescue_address b = rescue_address a"
      by (auto simp: policy_view_def)
    show ?thesis
      using act [OF b(4,5)] redir' [OF b(6)] by (simp add: conservation_recipient_dst_def Some b redir)
  qed
qed

lemma due_view:
  assumes "apply_due_conservation cfg row h st = Done st'"
  shows "policy_view st' = policy_view st"
  using assms
proof (cases rule: apply_due_Done)
  case (1 sender dst src tot to0)
  have src: "initialized src = initialized sender" "finalized src = finalized sender"
    "active_policies src = active_policies sender" "deferred_policies src = deferred_policies sender"
    "rescue_address src = rescue_address sender"
    using 1(7) by (simp_all add: bump_nonce_Some touch_acct_mrks_def)
  have view: "policy_view (put_acc x b s) = policy_view s"
    if "policy_view s x = Some (initialized b, finalized b, active_policies b, deferred_policies b, rescue_address b)"
    for x b s
    using that by (auto simp: policy_view_def fun_eq_iff)
  have "policy_view (put_acc (pc_sender row) src (add_fee (ucast (pc_fee_pwm row)) st)) =
      policy_view (add_fee (ucast (pc_fee_pwm row)) st)"
    by (rule view) (simp add: policy_view_def 1(1) src)
  also have "\<dots> = policy_view st" by (simp add: policy_view_def fun_eq_iff)
  finally have p: "policy_view (put_acc (pc_sender row) src (add_fee (ucast (pc_fee_pwm row)) st)) = policy_view st" .
  have "policy_view st dst = Some (initialized to0, finalized to0, active_policies to0, deferred_policies to0, rescue_address to0)"
    by (simp add: policy_view_def 1(8))
  then show ?thesis
    unfolding 1(10) by (subst view) (simp_all add: p touch_acct_mrks_def)
qed

lemma self_minted_cong:
  assumes "policy_view st' = policy_view st"
  shows "self_minted h st' row = self_minted h st row"
  unfolding self_minted_def recipient_dst_view [OF assms] ..

lemma due_Failed_state: "apply_due_conservation cfg row h st = Failed e st' \<Longrightarrow> st' = st"
  by (auto simp: apply_due_conservation_def Let_def split: option.splits sum.splits if_splits)

lemma total_units_pending [simp]: "total_units (st\<lparr>pending_conservation := p\<rparr>) = total_units st"
  by (simp add: total_units_def)

lemma policy_view_pending [simp]: "policy_view (st\<lparr>pending_conservation := p\<rparr>) = policy_view st"
  by (simp add: policy_view_def fun_eq_iff)

lemma drain_loop_units:
  "drain_loop cfg h rows remaining st = Done st' \<Longrightarrow>
     total_units st' \<le> total_units st +
       sum_list (map (self_minted h st) (filter (\<lambda>row. pc_execute_at_height row \<le> h) rows))"
proof (induction cfg h rows remaining st rule: drain_loop.induct)
  case (2 cfg h row rows remaining st)
  show ?case
  proof (cases "h < pc_execute_at_height row")
    case True
    then show ?thesis using 2 by (simp add: linorder_not_le [symmetric])
  next
    case due: False
    show ?thesis
    proof (cases "apply_due_conservation cfg row h st")
      case (Done st1)
      then have "total_units st1 \<le> total_units st + self_minted h st row"
        using due_balanced by (simp add: balanced_def)
      moreover have "self_minted h st1 = self_minted h st"
        by (intro ext self_minted_cong [OF due_view [OF Done]])
      ultimately show ?thesis
        using 2(2) [OF due Done] 2(4) due by (simp add: Done not_less)
    next
      case (Failed e st1)
      then have "st1 = st" by (rule due_Failed_state)
      then show ?thesis using 2(3) [OF due Failed] 2(4) due by (simp add: Failed not_less)
    next
      case Panicked
      then show ?thesis using 2(4) due by simp
    qed
  qed
qed auto

lemma drain_units:
  assumes "drain_conservation_at_height cfg h st = Done st'"
  shows "total_units st' \<le> total_units st +
    sum_list (map (self_minted h st) (filter (\<lambda>row. pc_execute_at_height row \<le> h) (pending_conservation st)))"
proof -
  have c: "self_minted h (st\<lparr>pending_conservation := []\<rparr>) = self_minted h st"
    by (intro ext self_minted_cong) simp
  from drain_loop_units [OF assms [unfolded drain_conservation_at_height_def]] show ?thesis by (simp add: c)
qed

lemma credit_sum: "fm_sum holdings (credit aid amount m) \<le> fm_sum holdings m + unat amount"
proof (cases "fmlookup m aid")
  case (Some acc)
  from fm_sum_upd [OF Some, of holdings "acc\<lparr>balance_pwm := sat_add (balance_pwm acc) amount\<rparr>"]
  show ?thesis
    using unat_sat_add_le [of "balance_pwm acc" amount] by (simp add: credit_def Some holdings_def)
qed (simp add: credit_def)

lemma refund_loop_units:
  "total_units (refund_loop h locks st) \<le> total_units st + locked_units locks"
proof (induction h locks st rule: refund_loop.induct)
  case (2 h lock locks st)
  show ?case
  proof (cases "lk_state lock \<noteq> Locked \<or> h < lk_unlock_height lock")
    case True
    then show ?thesis using 2(1) [OF True] by (auto simp: total_units_def)
  next
    case False
    then show ?thesis
      using 2(2) [OF False] credit_sum [of "lk_refund_account lock" "lk_amount_pwm lock" "accounts st"]
      by (auto simp: total_units_def)
  qed
qed simp

lemma refund_units: "total_units (refund_exp_locks h st) \<le> total_units st"
  using refund_loop_units [of h "cross_shard_locks st" "st\<lparr>cross_shard_locks := []\<rparr>"]
  by (simp add: refund_exp_locks_def total_units_def)

lemma reward_units: "total_units (reward_producer p r st) \<le> total_units st + unat r"
  using credit_sum [of p r "accounts st"] by (simp add: reward_producer_def total_units_def)

lemma reward_v2_as_credit:
  "reward_producer_v2 p r m sppm st = st \<or>
   reward_producer_v2 p r m sppm st = reward_producer p (sat_mul r sppm div PPM_DENOM) st"
  by (auto simp: reward_producer_v2_def reward_producer_def credit_def Let_def split: option.splits)

lemma reward_v2_units: "total_units (reward_producer_v2 p r m 1000000 st) \<le> total_units st + unat r"
proof -
  have "unat (sat_mul r 1000000 div PPM_DENOM) = min (unat r * 1000000) (2 ^ 128 - 1) div 1000000"
    by (simp add: unat_div unat_sat_mul PPM_DENOM_def)
  also have "\<dots> \<le> (unat r * 1000000) div 1000000" by (intro div_le_mono) simp
  finally have le: "unat (sat_mul r 1000000 div PPM_DENOM) \<le> unat r" by simp
  from reward_v2_as_credit [of p r m 1000000 st] show ?thesis
    using reward_units [of p "sat_mul r 1000000 div PPM_DENOM" st] le by auto
qed

end
