(* ===== verification/Pwm_Epoch.thy ===== *)
theory Pwm_Epoch
  imports Pwm_State
begin

text \<open>
  Epochs and the rotation of block producers (the first part of
  src/crates/pwm-core/src/chain.rs): a validator is active when its account holds the
  minimum stake, and the producer of a height is read off the list of active indices.
\<close>

definition recompute_active_idxs :: "GenCfg \<Rightarrow> State \<Rightarrow> u16 list" where
  "recompute_active_idxs cfg st =
     List.map_filter (\<lambda>(idx, row). case fmlookup (accounts st) (vr_acct row) of
         None \<Rightarrow> None
       | Some acc \<Rightarrow> if min_validator_stake cfg \<le> staked_pwm_raw acc then Some (of_nat idx) else None)
       (enumerate 0 (vc_set (vals cfg)))"

definition pick_prod_idx :: "u64 \<Rightarrow> u16 list \<Rightarrow> string + u32" where
  "pick_prod_idx height active_idxs =
     (if active_idxs = [] then Inl ''no active validators for current epoch''
      else Inr (ucast (active_idxs ! (unat height mod length active_idxs))))"

definition is_epoch_boundary :: "u64 \<Rightarrow> GenCfg \<Rightarrow> bool" where
  "is_epoch_boundary height cfg =
     (0 < epoch_length_blocks cfg \<and> height mod epoch_length_blocks cfg = 0)"

definition roll_epoch_if_needed :: "GenCfg \<Rightarrow> u64 \<Rightarrow> State \<Rightarrow> State" where
  "roll_epoch_if_needed cfg height st =
     (if is_epoch_boundary height cfg
      then st\<lparr>epoch_counter := sat_add (epoch_counter st) 1,
              active_validator_indices := recompute_active_idxs cfg st\<rparr>
      else st)"

text \<open>The active indices are the positions of the funded rows, in the order of the set.\<close>

lemma recompute_sorted_aux:
  "List.map_filter (\<lambda>(i, row). if P row then Some (f i) else None) (enumerate n rows) =
     map f (filter (\<lambda>i. P (rows ! (i - n))) [n..<n + length rows])"
proof (induction rows arbitrary: n)
  case (Cons r rows)
  have "filter (\<lambda>i. P ((r # rows) ! (i - n))) [n..<n + length (r # rows)] =
      (if P r then [n] else []) @ filter (\<lambda>i. P ((r # rows) ! (i - n))) [Suc n..<Suc n + length rows]"
    using upt_conv_Cons [of n "n + length (r # rows)"] by simp
  also have "filter (\<lambda>i. P ((r # rows) ! (i - n))) [Suc n..<Suc n + length rows] =
      filter (\<lambda>i. P (rows ! (i - Suc n))) [Suc n..<Suc n + length rows]"
    by (rule filter_cong) (auto simp: nth_Cons')
  finally show ?case
    using Cons.IH [of "Suc n"] by (simp add: map_filter_simps)
qed (simp add: map_filter_simps)

definition staked_validator :: "GenCfg \<Rightarrow> State \<Rightarrow> VRow \<Rightarrow> bool" where
  "staked_validator cfg st row = (case fmlookup (accounts st) (vr_acct row) of
     None \<Rightarrow> False | Some acc \<Rightarrow> min_validator_stake cfg \<le> staked_pwm_raw acc)"

lemma recompute_active_idxs_filter:
  "recompute_active_idxs cfg st =
     map of_nat (filter (\<lambda>i. staked_validator cfg st (vc_set (vals cfg) ! i)) [0..<length (vc_set (vals cfg))])"
proof -
  have "(\<lambda>(idx, row). case fmlookup (accounts st) (vr_acct row) of
         None \<Rightarrow> None
       | Some acc \<Rightarrow> if min_validator_stake cfg \<le> staked_pwm_raw acc then Some (of_nat idx) else None) =
      (\<lambda>(i, row). if staked_validator cfg st row then Some (of_nat i :: u16) else None)"
    by (auto simp: fun_eq_iff staked_validator_def split: option.splits)
  then show ?thesis
    unfolding recompute_active_idxs_def
    using recompute_sorted_aux [of "staked_validator cfg st" of_nat 0 "vc_set (vals cfg)"] by simp
qed

text \<open>Within the index range of a u16 no index is truncated: the producer is a staked validator.\<close>

lemma active_idx_staked:
  assumes "length (vc_set (vals cfg)) \<le> 2 ^ 16" "i \<in> set (recompute_active_idxs cfg st)"
  shows "unat i < length (vc_set (vals cfg))" "staked_validator cfg st (vc_set (vals cfg) ! unat i)"
proof -
  from assms(2) obtain k where k: "k < length (vc_set (vals cfg))" "i = of_nat k"
    "staked_validator cfg st (vc_set (vals cfg) ! k)"
    by (auto simp: recompute_active_idxs_filter)
  then have "unat i = k" using assms(1) by (simp add: unat_of_nat)
  with k show "unat i < length (vc_set (vals cfg))" "staked_validator cfg st (vc_set (vals cfg) ! unat i)"
    by simp_all
qed

lemma pick_prod_idx_mem:
  "pick_prod_idx h idxs = Inr p \<Longrightarrow> \<exists>i\<in>set idxs. p = ucast i"
  by (auto simp: pick_prod_idx_def split: if_splits)

lemma pick_prod_idx_total: "idxs \<noteq> [] \<Longrightarrow> \<exists>p. pick_prod_idx h idxs = Inr p"
  by (simp add: pick_prod_idx_def)

end
