(* ===== verification/Pwm_Ledger.thy ===== *)
theory Pwm_Ledger
  imports Pwm_Supply Pwm_Epoch
begin

text \<open>
  The ledger as a machine: the operations a block performs on the state
  (src/crates/pwm-core/src/chain.rs calls them in this order), the invariant of the delayed
  transfers, the growth of nonces, and what that gives against replays.
\<close>

section \<open>The effect of one transaction on nonces and pending rows\<close>

definition nonce_of :: "State \<Rightarrow> AccountId \<Rightarrow> u64 option" where
  "nonce_of st aid = map_option nonce (fmlookup (accounts st) aid)"

definition inited :: "State \<Rightarrow> AccountId \<Rightarrow> bool" where
  "inited st aid = (case fmlookup (accounts st) aid of Some a \<Rightarrow> initialized a | None \<Rightarrow> False)"

definition without_sender :: "AccountId \<Rightarrow> PendingConservationTransfer list \<Rightarrow> PendingConservationTransfer list" where
  "without_sender aid rows = filter (\<lambda>row. pc_sender row \<noteq> aid) rows"

lemma without_sender_id: "\<forall>row\<in>set rows. pc_sender row \<noteq> aid \<Longrightarrow> without_sender aid rows = rows"
  by (simp add: without_sender_def)

text \<open>
  What a step by \<open>aid\<close> with nonce \<open>n\<close> leaves: everybody else keeps nonce and
  initialization, and \<open>aid\<close> either moved to the next nonce, or queued one row under \<open>n\<close>.
\<close>

definition others_kept :: "AccountId \<Rightarrow> State \<Rightarrow> State \<Rightarrow> bool" where
  "others_kept aid st st' \<longleftrightarrow>
     (\<forall>x. x \<noteq> aid \<longrightarrow> nonce_of st' x = nonce_of st x \<and> inited st' x = inited st x)"

definition moved_on :: "AccountId \<Rightarrow> u64 \<Rightarrow> State \<Rightarrow> bool" where
  "moved_on aid n st \<longleftrightarrow> unat n + 1 < 2 ^ 64 \<and> nonce_of st aid = Some (n + 1) \<and> inited st aid"

definition queued :: "AccountId \<Rightarrow> u64 \<Rightarrow> State \<Rightarrow> State \<Rightarrow> bool" where
  "queued aid n st st' \<longleftrightarrow> conservation_flag aid \<and> \<not> has_pending_conserv st aid \<and>
     accounts st' = accounts st \<and> nonce_of st aid = Some n \<and> inited st aid \<and>
     (\<exists>row. pc_sender row = aid \<and> pc_nonce row = n \<and>
        pending_conservation st' = pending_conservation st @ [row])"

definition settled :: "AccountId \<Rightarrow> State \<Rightarrow> State \<Rightarrow> bool" where
  "settled aid st st' \<longleftrightarrow> (pending_conservation st' = pending_conservation st \<or>
     pending_conservation st' = without_sender aid (pending_conservation st))"

lemma nonce_of_upd [simp]:
  "nonce_of (put_acc x a st) y = (if y = x then Some (nonce a) else nonce_of st y)"
  "inited (put_acc x a st) y = (if y = x then initialized a else inited st y)"
  by (simp_all add: nonce_of_def inited_def)

lemma nonce_of_cong:
  "accounts st' = accounts st \<Longrightarrow> nonce_of st' = nonce_of st"
  "accounts st' = accounts st \<Longrightarrow> inited st' = inited st"
  by (simp_all add: nonce_of_def inited_def fun_eq_iff)

text \<open>The shapes the arms leave: the sender's row alone, or one credited row besides.\<close>

lemma moved_one:
  assumes "st' = put_acc aid a st1" "accounts st1 = accounts st"
    "pending_conservation st1 = pending_conservation st"
    "initialized a" "nonce a = n + 1" "unat n + 1 < 2 ^ 64"
  shows "others_kept aid st st' \<and> moved_on aid n st' \<and> pending_conservation st' = pending_conservation st"
  using assms nonce_of_cong [OF assms(2)] by (simp add: others_kept_def moved_on_def)

lemma moved_two:
  assumes "st' = put_acc dst b (put_acc aid a st1)" "accounts st1 = accounts st"
    "pending_conservation st1 = pending_conservation st" "dst \<noteq> aid"
    "initialized a" "nonce a = n + 1" "unat n + 1 < 2 ^ 64"
    "fmlookup (accounts st) dst = Some b0" "nonce b = nonce b0" "initialized b = initialized b0"
  shows "others_kept aid st st' \<and> moved_on aid n st' \<and> pending_conservation st' = pending_conservation st"
proof -
  have "nonce_of st dst = Some (nonce b)" "inited st dst = initialized b"
    using assms(8-10) by (simp_all add: nonce_of_def inited_def)
  then show ?thesis
    using assms nonce_of_cong [OF assms(2)] by (simp add: others_kept_def moved_on_def)
qed

lemma bump_fields:
  assumes "bump_nonce a = Some b"
  shows "nonce b = nonce a + 1" "unat (nonce a) + 1 < 2 ^ 64" "initialized b = initialized a"
  using assms by (auto simp: bump_nonce_Some)

definition tx_effect :: "AccountId \<Rightarrow> TxBody \<Rightarrow> u64 \<Rightarrow> State \<Rightarrow> State \<Rightarrow> bool" where
  "tx_effect aid b n st st' \<longleftrightarrow>
     (queued aid n st st' \<and> (\<exists>t amount fee. b = Transfer t amount fee))
     \<or> (others_kept aid st st' \<and> moved_on aid n st' \<and>
        pending_conservation st' = pending_conservation st \<and>
        (\<forall>t amount fee. b = Transfer t amount fee \<longrightarrow> \<not> conservation_flag aid) \<and>
        (\<forall>t target fee. b \<noteq> Policy t (ActivatePolicy 1 target) fee))
     \<or> (others_kept aid st st' \<and> moved_on aid n st' \<and>
        pending_conservation st' = without_sender aid (pending_conservation st) \<and>
        (\<exists>t target fee. b = Policy t (ActivatePolicy 1 target) fee))"

lemma validate_emergency_target:
  "validate_pol_action ext st acc (ActivatePolicy 1 target) tx = Inr () \<Longrightarrow> target \<noteq> None"
  by (auto simp: validate_pol_action_def from_policy_id_def split: if_splits option.splits)

lemma policy_effect:
  assumes run: "apply_policy ext cfg tx h aid acc t action fee st = Done st'"
    and n: "nonce acc = n" and i: "initialized acc" and b: "body tx = Policy t action fee"
  shows "tx_effect aid (body tx) n st st'"
  using run
proof (cases rule: apply_policy_Done)
  case (1 a b st1)
  have a: "nonce a = n" "initialized a"
    using apply_policy_action_funds [OF 1(4)] n i by simp_all
  show ?thesis
  proof (cases "\<exists>target. action = ActivatePolicy 1 target")
    case False
    then have "emergency_act_target action = None" by (cases action) auto
    with 1(6) have st1: "b = a\<lparr>balance_pwm := balance_pwm a - fee\<rparr>" "st1 = add_fee fee st" by auto
    have "others_kept aid st st' \<and> moved_on aid n st' \<and> pending_conservation st' = pending_conservation st"
      by (rule moved_one [OF 1(8)]) (use a 1(7) in \<open>auto simp: st1\<close>)
    with False show ?thesis by (auto simp: tx_effect_def assms(4))
  next
    case True
    then obtain t0 where act: "action = ActivatePolicy 1 t0" by blast
    with validate_emergency_target 1(3) obtain target where "t0 = Some target" by blast
    then have e: "emergency_act_target action = Some target" by (simp add: act)
    with 1(6) have ev: "evacuate aid (a\<lparr>balance_pwm := balance_pwm a - fee\<rparr>) target (add_fee fee st) = Some (b, st1)"
      by simp
    have "others_kept aid st st' \<and> moved_on aid n st' \<and>
        pending_conservation st' = without_sender aid (pending_conservation st)"
      using ev
    proof (cases rule: evacuate_Some)
      case own
      have "nonce_of st1 = nonce_of st" "inited st1 = inited st"
        by (rule nonce_of_cong, simp add: own)+
      then show ?thesis
        using a 1(7) by (simp add: 1(8) own others_kept_def moved_on_def without_sender_def)
    next
      case (rescue ta)
      have x: "nonce_of st target = Some (nonce ta)" "inited st target = initialized ta"
        using rescue(2) by (simp_all add: nonce_of_def inited_def)
      let ?s = "add_fee fee st\<lparr>pending_conservation := filter (\<lambda>row. pc_sender row \<noteq> aid) (pending_conservation (add_fee fee st))\<rparr>"
      have "nonce_of ?s = nonce_of st" "inited ?s = inited st"
        by (rule nonce_of_cong, simp)+
      then show ?thesis
        using a 1(7) x rescue(1) by (simp add: 1(8) rescue others_kept_def moved_on_def without_sender_def)
    qed
    then show ?thesis by (auto simp: tx_effect_def assms(4) act)
  qed
qed

lemma has_pending_iff: "has_pending_conserv st aid \<longleftrightarrow> list_ex (\<lambda>row. pc_sender row = aid) (pending_conservation st)"
  by (simp add: has_pending_conserv_def)

text \<open>The moves that keep the pending rows: the shared shape of the remaining arms.\<close>

lemma moved_effect:
  assumes "others_kept aid st st' \<and> moved_on aid n st' \<and> pending_conservation st' = pending_conservation st"
    "\<And>t amount fee. b = Transfer t amount fee \<Longrightarrow> \<not> conservation_flag aid"
    "\<And>t action fee. b \<noteq> Policy t action fee"
  shows "tx_effect aid b n st st'"
  using assms by (auto simp: tx_effect_def)

lemma transfer_effect:
  assumes run: "apply_transfer ext cfg tx h aid acc redir t amount fee st = Done st'"
    and b: "body tx = Transfer t amount fee" and n: "nonce acc = tx_nonce tx"
    and row: "fmlookup (accounts st) aid = Some row" "nonce row = nonce acc" "initialized row = initialized acc"
  shows "tx_effect aid (body tx) (tx_nonce tx) st st'"
  using run
proof (cases rule: apply_transfer_Done)
  case (pending dst r)
  then have "queued aid (tx_nonce tx) st st'"
    using n row by (auto simp: queued_def has_pending_conserv_def nonce_of_def inited_def)
  then show ?thesis by (auto simp: tx_effect_def b)
next
  case (own src tot)
  note f = bump_fields [OF own(6)]
  show ?thesis
    by (rule moved_effect, rule moved_one [OF own(7)]) (use own f n in \<open>auto simp: b\<close>)
next
  case (other dst src tot to0)
  note f = bump_fields [OF other(7)]
  show ?thesis
    by (rule moved_effect, rule moved_two [OF other(10), where ?b0.0 = to0]) (use other f n in \<open>auto simp: b\<close>)
qed

lemma import_effect:
  assumes run: "apply_import ext tx aid acc t amount eid st = Done st'"
    and b: "body tx = Import t amount eid" and n: "nonce acc = n"
  shows "tx_effect aid (body tx) n st st'"
  using run
proof (cases rule: apply_import_Done)
  case (1 pv fresh fee src st1)
  note f = bump_fields [OF 1(11)]
  let ?s0 = "note_import eid (if fresh then Some pv else None) fee st"
  have st1: "others_kept aid st st1 \<and> moved_on aid n st1 \<and> pending_conservation st1 = pending_conservation st"
    using 1(12)
  proof (elim disjE conjE exE)
    assume "st1 = put_acc aid (src\<lparr>balance_pwm := sat_add (balance_pwm src) amount\<rparr>) ?s0"
    then show ?thesis by (rule moved_one) (use f n 1(1) in auto)
  next
    fix to0
    assume o: "t \<noteq> aid" "fmlookup (accounts st) t = Some to0" "initialized to0"
      "st1 = put_acc t (to0\<lparr>balance_pwm := sat_add (balance_pwm to0) amount\<rparr>) (put_acc aid src ?s0)"
    show ?thesis by (rule moved_two [OF o(4), where ?b0.0 = to0]) (use f n 1(1) o in auto)
  qed
  have acc: "accounts st' = accounts st1" by (simp add: 1(13))
  have "pending_conservation st' = pending_conservation st1" by (simp add: 1(13))
  with st1 nonce_of_cong [OF acc] show ?thesis
    by (intro moved_effect) (auto simp: b others_kept_def moved_on_def)
qed


lemma tx_effect_body:
  assumes run: "apply_body ext cfg tx h aid acc redir st = Done st'"
    and row: "fmlookup (accounts st) aid = Some row" and bind: "bind_sender tx row = Inr acc"
  shows "tx_effect aid (body tx) (tx_nonce tx) st st'"
proof -
  have n: "nonce acc = tx_nonce tx" "nonce row = nonce acc" "initialized row = initialized acc"
    using bind_sender_ok [OF bind] by simp_all
  show ?thesis
  proof (cases "body tx")
    case (Init i f)
    with run have "apply_init tx h aid acc i f st = Done st'" by (simp add: apply_body_def)
    then show ?thesis
    proof (cases rule: apply_init_Done)
      case (1 a)
      note f = bump_fields [OF 1(2)]
      show ?thesis
        by (rule moved_effect, rule moved_one [OF 1(3)]) (use f n Init in auto)
    qed
  next
    case (Transfer t amount fee)
    with run have "apply_transfer ext cfg tx h aid acc redir t amount fee st = Done st'"
      by (simp add: apply_body_def)
    from transfer_effect [OF this Transfer n(1) row n(2,3)] show ?thesis .
  next
    case (Stake amount)
    with run have "apply_stake cfg h aid acc amount st = Done st'" by (simp add: apply_body_def)
    then show ?thesis
    proof (cases rule: apply_stake_Done)
      case (1 s a)
      note f = bump_fields [OF 1(4)]
      show ?thesis
        by (rule moved_effect, rule moved_one [OF 1(5)]) (use f n 1(1) Stake in auto)
    qed
  next
    case (Unstake amount)
    with run have "apply_unstake cfg h aid acc amount st = Done st'" by (simp add: apply_body_def)
    then show ?thesis
    proof (cases rule: apply_unstake_Done)
      case (1 s a)
      note f = bump_fields [OF 1(4)]
      show ?thesis
        by (rule moved_effect, rule moved_one [OF 1(5)]) (use f n 1(1) Unstake in auto)
    qed
  next
    case (BurnMark m x)
    with run have "apply_burn cfg h aid acc m st = Done st'" by (simp add: apply_body_def)
    then show ?thesis
    proof (cases rule: apply_burn_Done)
      case (1 a)
      note f = bump_fields [OF 1(3)]
      show ?thesis
        by (rule moved_effect, rule moved_one [OF 1(4)]) (use f n 1(1) BurnMark in auto)
    qed
  next
    case (ClaimIPv4Batch p r s)
    with run have "apply_claim ext cfg aid acc p r s st = Done st'" by (simp add: apply_body_def)
    then show ?thesis
    proof (cases rule: apply_claim_Done)
      case (1 pr a)
      note f = bump_fields [OF 1(5)]
      show ?thesis
        by (rule moved_effect, rule moved_one [OF 1(6)]) (use f n 1(1) ClaimIPv4Batch in auto)
    qed
  next
    case (Export t d amount fee)
    with run have "apply_export ext cfg tx h aid acc t d amount fee st = Done st'" by (simp add: apply_body_def)
    then show ?thesis
    proof (cases rule: apply_export_Done)
      case (1 tot src eid pv lk)
      note f = bump_fields [OF 1(5)]
      show ?thesis
        by (rule moved_effect, rule moved_one [OF 1(9)]) (use f n 1(1) Export in auto)
    qed
  next
    case (Import t amount eid)
    with run have "apply_import ext tx aid acc t amount eid st = Done st'" by (simp add: apply_body_def)
    from import_effect [OF this Import n(1)] show ?thesis .
  next
    case (Policy t action fee)
    with run have p: "apply_policy ext cfg tx h aid acc t action fee st = Done st'" by (simp add: apply_body_def)
    then have "initialized acc" by (auto simp: apply_policy_def split: if_splits)
    from policy_effect [OF p n(1) this Policy] show ?thesis .
  qed
qed

lemma stub_view:
  "x \<noteq> aid \<Longrightarrow> nonce_of (with_stub tx aid st) x = nonce_of st x"
  "inited (with_stub tx aid st) x = inited st x"
  "has_pending_conserv (with_stub tx aid st) x = has_pending_conserv st x"
  by (auto simp: with_stub_def has_pending_conserv_def account_default_def inited_def)

lemma tx_effect_stub: "tx_effect aid b n (with_stub tx aid st) st' \<Longrightarrow> body tx = b \<Longrightarrow> tx_effect aid b n st st'"
proof -
  assume e: "tx_effect aid b n (with_stub tx aid st) st'" and b: "body tx = b"
  have "others_kept aid (with_stub tx aid st) st' = others_kept aid st st'"
    by (auto simp: others_kept_def stub_view)
  moreover have "with_stub tx aid st = st" if "b = Transfer t amount fee" for t amount fee
    using that b by (simp add: with_stub_def)
  ultimately show ?thesis using e by (auto simp: tx_effect_def)
qed

lemma tx_effect_apply:
  assumes "apply_tx_impl ext cfg tx h ts skip st = Done st'"
  shows "tx_effect (computed_account_id ext tx) (body tx) (tx_nonce tx) st st'"
  using assms
proof (cases rule: apply_tx_impl_Done)
  case (1 aid st1 row acc redir)
  have "tx_effect aid (body tx) (tx_nonce tx) st1 st'"
    by (rule tx_effect_body [OF 1(10,5,6)])
  then show ?thesis using tx_effect_stub 1(3,4) by blast
qed

text \<open>A transaction needs the current nonce of its sender, and no conflicting row of it.\<close>

lemma apply_needs:
  assumes "apply_tx_impl ext cfg tx h ts skip st = Done st'"
  shows "nonce_of st (computed_account_id ext tx) = Some (tx_nonce tx) \<or>
      nonce_of st (computed_account_id ext tx) = None \<and> is_init (body tx)"
    and "has_pending_conserv st (computed_account_id ext tx) \<Longrightarrow> \<not> pending_tx_conflict (body tx)"
    and "has_pending_conserv st (computed_account_id ext tx) \<Longrightarrow> body tx = Transfer t amount fee \<Longrightarrow>
      \<not> conservation_flag (computed_account_id ext tx)"
proof -
  note run = apply_tx_impl_Done [OF assms]
  show "nonce_of st (computed_account_id ext tx) = Some (tx_nonce tx) \<or>
      nonce_of st (computed_account_id ext tx) = None \<and> is_init (body tx)"
  proof (rule run)
    fix aid st1 row acc redir
    assume *: "aid = computed_account_id ext tx" "st1 = with_stub tx aid st"
      "fmlookup (accounts st1) aid = Some row" "bind_sender tx row = Inr acc"
    from bind_sender_ok(1) [OF *(4)] *(3) have "nonce_of st1 aid = Some (tx_nonce tx)"
      by (simp add: nonce_of_def)
    then show ?thesis
      using *(1,2) by (cases "fmlookup (accounts st) aid") (auto simp: with_stub_def nonce_of_def split: if_splits)
  qed
  show "\<not> pending_tx_conflict (body tx)" if "has_pending_conserv st (computed_account_id ext tx)"
    by (rule run) (use that in \<open>auto simp: stub_view\<close>)
  show "\<not> conservation_flag (computed_account_id ext tx)"
    if p: "has_pending_conserv st (computed_account_id ext tx)" and b: "body tx = Transfer t amount fee"
  proof (rule run)
    fix aid st1 row acc redir
    assume *: "aid = computed_account_id ext tx" "st1 = with_stub tx aid st"
      "apply_body ext cfg tx h aid acc redir st1 = Done st'"
    from *(3) b have "apply_transfer ext cfg tx h aid acc redir t amount fee st1 = Done st'"
      by (simp add: apply_body_def)
    then show ?thesis
      using p *(1,2) by (cases rule: apply_transfer_Done) (auto simp: has_pending_conserv_def)
  qed
qed

section \<open>Operations of a block\<close>

datatype LedgerOp =
    OpTx SignedTx u64 u64 bool
  | OpRefund u64
  | OpDrain u64
  | OpReward AccountId u128
  | OpRewardV2 AccountId u128 u128 u128
  | OpRoll u64

fun ledger_op :: "extlib \<Rightarrow> GenCfg \<Rightarrow> LedgerOp \<Rightarrow> State \<Rightarrow> (TxError, State) outcome" where
  "ledger_op ext cfg (OpTx tx h ts skip) st = apply_tx_impl ext cfg tx h ts skip st"
| "ledger_op ext cfg (OpRefund h) st = Done (refund_exp_locks h st)"
| "ledger_op ext cfg (OpDrain h) st = drain_conservation_at_height cfg h st"
| "ledger_op ext cfg (OpReward p r) st = Done (reward_producer p r st)"
| "ledger_op ext cfg (OpRewardV2 p r m s) st = Done (reward_producer_v2 p r m s st)"
| "ledger_op ext cfg (OpRoll h) st = Done (roll_epoch_if_needed cfg h st)"

section \<open>Invariant of the delayed transfers\<close>

text \<open>
  Every queued row belongs to another sender, whose account is initialized, carries the
  conservation flag in its address, and still has the nonce the row was signed with.
\<close>

definition pending_row_ok :: "State \<Rightarrow> PendingConservationTransfer \<Rightarrow> bool" where
  "pending_row_ok st row \<longleftrightarrow> conservation_flag (pc_sender row) \<and>
     nonce_of st (pc_sender row) = Some (pc_nonce row) \<and> inited st (pc_sender row)"

definition pending_inv :: "State \<Rightarrow> bool" where
  "pending_inv st \<longleftrightarrow> distinct (map pc_sender (pending_conservation st)) \<and>
     (\<forall>row\<in>set (pending_conservation st). pending_row_ok st row)"

definition nonces_grow :: "State \<Rightarrow> State \<Rightarrow> bool" where
  "nonces_grow st st' \<longleftrightarrow> (\<forall>x n. nonce_of st x = Some n \<longrightarrow>
     (\<exists>n'. nonce_of st' x = Some n' \<and> unat n \<le> unat n')) \<and> (\<forall>x. inited st x \<longrightarrow> inited st' x)"

lemma nonces_grow_refl: "nonces_grow st st"
  by (simp add: nonces_grow_def)

lemma nonces_grow_trans: "nonces_grow s t \<Longrightarrow> nonces_grow t u \<Longrightarrow> nonces_grow s u"
  unfolding nonces_grow_def by (meson order_trans)

lemma nonces_grow_accounts: "accounts st' = accounts st \<Longrightarrow> nonces_grow st st'"
  using nonce_of_cong [of st' st] by (simp add: nonces_grow_def)

lemma credit_view:
  assumes "accounts st' = credit p r (accounts st)"
  shows "nonce_of st' = nonce_of st" "inited st' = inited st"
  by (auto simp: fun_eq_iff nonce_of_def inited_def credit_def assms split: option.splits)

lemma refund_loop_view:
  "nonce_of (refund_loop h ls st) = nonce_of st \<and> inited (refund_loop h ls st) = inited st \<and>
   pending_conservation (refund_loop h ls st) = pending_conservation st"
proof (induction h ls st rule: refund_loop.induct)
  case (2 h l ls st)
  show ?case
  proof (cases "lk_state l \<noteq> Locked \<or> h < lk_unlock_height l")
    case True
    have "nonce_of (st\<lparr>cross_shard_locks := cross_shard_locks st @ [l]\<rparr>) = nonce_of st"
      "inited (st\<lparr>cross_shard_locks := cross_shard_locks st @ [l]\<rparr>) = inited st"
      by (rule nonce_of_cong, simp)+
    with 2(1) [OF True] True show ?thesis by simp
  next
    case False
    let ?s = "st\<lparr>accounts := credit (lk_refund_account l) (lk_amount_pwm l) (accounts st),
        cross_shard_locks := cross_shard_locks st @ [l\<lparr>lk_state := Refunded\<rparr>],
        imported_set := finsert (lk_export_id l) (imported_set st)\<rparr>"
    have "accounts ?s = credit (lk_refund_account l) (lk_amount_pwm l) (accounts st)" by simp
    from credit_view [OF this] 2(2) [OF False] False show ?thesis by simp
  qed
qed simp

lemma refund_view:
  "nonce_of (refund_exp_locks h st) = nonce_of st" "inited (refund_exp_locks h st) = inited st"
  "pending_conservation (refund_exp_locks h st) = pending_conservation st"
proof -
  let ?s = "st\<lparr>cross_shard_locks := []\<rparr>"
  have "nonce_of ?s = nonce_of st" "inited ?s = inited st" by (rule nonce_of_cong, simp)+
  then show "nonce_of (refund_exp_locks h st) = nonce_of st" "inited (refund_exp_locks h st) = inited st"
    "pending_conservation (refund_exp_locks h st) = pending_conservation st"
    using refund_loop_view [of h "cross_shard_locks st" ?s] by (simp_all add: refund_exp_locks_def)
qed

lemma reward_view:
  "nonce_of (reward_producer p r st) = nonce_of st" "inited (reward_producer p r st) = inited st"
  "pending_conservation (reward_producer p r st) = pending_conservation st"
  using credit_view [of "reward_producer p r st" p r st] by (simp_all add: reward_producer_def)

lemma reward_v2_view:
  "nonce_of (reward_producer_v2 p r m s st) = nonce_of st" "inited (reward_producer_v2 p r m s st) = inited st"
  "pending_conservation (reward_producer_v2 p r m s st) = pending_conservation st"
  using reward_v2_as_credit [of p r m s st] by (auto simp: reward_view)

lemma roll_view:
  "accounts (roll_epoch_if_needed cfg h st) = accounts st"
  "pending_conservation (roll_epoch_if_needed cfg h st) = pending_conservation st"
  by (simp_all add: roll_epoch_if_needed_def)

lemma pending_inv_view:
  "nonce_of st' = nonce_of st \<Longrightarrow> inited st' = inited st \<Longrightarrow>
     pending_conservation st' = pending_conservation st \<Longrightarrow> pending_inv st' = pending_inv st"
  by (simp add: pending_inv_def pending_row_ok_def)

lemma pending_row_others:
  "others_kept aid st st' \<Longrightarrow> pc_sender row \<noteq> aid \<Longrightarrow> pending_row_ok st row \<Longrightarrow> pending_row_ok st' row"
  by (simp add: others_kept_def pending_row_ok_def)

lemma nonces_grow_others:
  assumes "others_kept aid st st'" "inited st' aid"
    "\<And>n. nonce_of st aid = Some n \<Longrightarrow> \<exists>n'. nonce_of st' aid = Some n' \<and> unat n \<le> unat n'"
  shows "nonces_grow st st'"
  unfolding nonces_grow_def
proof (intro conjI allI impI)
  fix x n assume "nonce_of st x = Some n"
  then show "\<exists>n'. nonce_of st' x = Some n' \<and> unat n \<le> unat n'"
    using assms(1,3) by (cases "x = aid") (auto simp: others_kept_def)
next
  fix x assume "inited st x"
  then show "inited st' x" using assms(1,2) by (cases "x = aid") (auto simp: others_kept_def)
qed

lemma tx_nonces_grow:
  assumes run: "apply_tx_impl ext cfg tx h ts skip st = Done st'"
  shows "nonces_grow st st'"
proof -
  define aid where "aid = computed_account_id ext tx"
  have eff: "tx_effect aid (body tx) (tx_nonce tx) st st'"
    unfolding aid_def by (rule tx_effect_apply [OF run])
  have before: "n = tx_nonce tx" if "nonce_of st aid = Some n" for n
    using apply_needs(1) [OF run] that by (simp add: aid_def)
  from eff consider "queued aid (tx_nonce tx) st st'" | "others_kept aid st st'" "moved_on aid (tx_nonce tx) st'"
    by (auto simp: tx_effect_def)
  then show ?thesis
  proof cases
    case 1
    then have "accounts st' = accounts st" by (simp add: queued_def)
    from nonce_of_cong [OF this] show ?thesis by (simp add: nonces_grow_def)
  next
    case 2
    show ?thesis
      by (rule nonces_grow_others [OF 2(1)]) (use 2(2) before in \<open>auto simp: moved_on_def unat_Suc_nonce\<close>)
  qed
qed

lemma distinct_without_sender: "distinct (map pc_sender rows) \<Longrightarrow> distinct (map pc_sender (without_sender aid rows))"
  by (simp add: without_sender_def distinct_map_filter)

lemma tx_pending_inv:
  assumes inv: "pending_inv st" and run: "apply_tx_impl ext cfg tx h ts skip st = Done st'"
  shows "pending_inv st'"
proof -
  define aid where "aid = computed_account_id ext tx"
  have eff: "tx_effect aid (body tx) (tx_nonce tx) st st'"
    unfolding aid_def by (rule tx_effect_apply [OF run])
  from eff consider
    (queue) "queued aid (tx_nonce tx) st st'"
  | (moved) "others_kept aid st st'" "pending_conservation st' = pending_conservation st"
      "\<forall>t amount fee. body tx = Transfer t amount fee \<longrightarrow> \<not> conservation_flag aid"
      "\<forall>t target fee. body tx \<noteq> Policy t (ActivatePolicy 1 target) fee"
  | (evac) "others_kept aid st st'" "pending_conservation st' = without_sender aid (pending_conservation st)"
    by (auto simp: tx_effect_def)
  then show ?thesis
  proof cases
    case queue
    then obtain row where row: "accounts st' = accounts st" "pc_sender row = aid" "pc_nonce row = tx_nonce tx"
      "pending_conservation st' = pending_conservation st @ [row]"
      "conservation_flag aid" "nonce_of st aid = Some (tx_nonce tx)" "inited st aid"
      "\<forall>r\<in>set (pending_conservation st). pc_sender r \<noteq> aid"
      by (auto simp: queued_def has_pending_conserv_def list_ex_iff)
    then show ?thesis
      using inv nonce_of_cong [OF row(1)] by (auto simp: pending_inv_def pending_row_ok_def)
  next
    case moved
    have "pc_sender row \<noteq> aid" if "row \<in> set (pending_conservation st)" for row
    proof
      assume s: "pc_sender row = aid"
      with that have p: "has_pending_conserv st aid" by (auto simp: has_pending_conserv_def list_ex_iff)
      have c: "conservation_flag aid" using inv that s by (auto simp: pending_inv_def pending_row_ok_def)
      from apply_needs(2) [OF run] p have "\<not> pending_tx_conflict (body tx)" by (simp add: aid_def)
      with moved(3,4) c show False
        by (cases "body tx" rule: pending_tx_conflict.cases)
           (auto elim!: pending_pol_allowed.elims)
    qed
    then show ?thesis
      using inv moved(1,2) pending_row_others by (auto simp: pending_inv_def)
  next
    case evac
    then show ?thesis
      using inv pending_row_others distinct_without_sender
      by (auto simp: pending_inv_def without_sender_def)
  qed
qed


section \<open>The drain\<close>

lemma due_effect:
  assumes "apply_due_conservation cfg row h st = Done st'"
  shows "others_kept (pc_sender row) st st'" "inited st' (pc_sender row)"
    "pending_conservation st' = pending_conservation st"
    "nonce_of st (pc_sender row) = Some (pc_nonce row)"
    "conservation_recipient_dst st (pc_sender row) (pc_recipient row) h = Inr (pc_sender row) \<and>
       nonce_of st' (pc_sender row) = Some (pc_nonce row)
     \<or> conservation_recipient_dst st (pc_sender row) (pc_recipient row) h \<noteq> Inr (pc_sender row) \<and>
       moved_on (pc_sender row) (pc_nonce row) st'"
proof -
  from assms have "others_kept (pc_sender row) st st' \<and> inited st' (pc_sender row) \<and>
    pending_conservation st' = pending_conservation st \<and> nonce_of st (pc_sender row) = Some (pc_nonce row) \<and>
    (conservation_recipient_dst st (pc_sender row) (pc_recipient row) h = Inr (pc_sender row) \<and>
       nonce_of st' (pc_sender row) = Some (pc_nonce row)
     \<or> conservation_recipient_dst st (pc_sender row) (pc_recipient row) h \<noteq> Inr (pc_sender row) \<and>
       moved_on (pc_sender row) (pc_nonce row) st')"
  proof (cases rule: apply_due_Done)
    case (1 sender dst src tot to0)
    note f = bump_fields [OF 1(7)]
    let ?s0 = "add_fee (ucast (pc_fee_pwm row)) st"
    have s0: "nonce_of ?s0 = nonce_of st" "inited ?s0 = inited st"
      by (rule nonce_of_cong, simp)+
    have d: "nonce_of st dst = Some (nonce to0)" "inited st dst"
      using 1(8,9) by (simp_all add: nonce_of_def inited_def)
    have s: "nonce_of st (pc_sender row) = Some (pc_nonce row)"
      using 1(1,3) by (simp add: nonce_of_def)
    show ?thesis
    proof (cases "dst = pc_sender row")
      case True
      then show ?thesis using 1(4,9) d s s0 by (simp add: 1(10) others_kept_def)
    next
      case False
      then show ?thesis
        using 1(2,3,4,9) d s s0 f by (simp add: 1(10) others_kept_def moved_on_def)
    qed
  qed
  then show "others_kept (pc_sender row) st st'" "inited st' (pc_sender row)"
    "pending_conservation st' = pending_conservation st"
    "nonce_of st (pc_sender row) = Some (pc_nonce row)"
    "conservation_recipient_dst st (pc_sender row) (pc_recipient row) h = Inr (pc_sender row) \<and>
       nonce_of st' (pc_sender row) = Some (pc_nonce row)
     \<or> conservation_recipient_dst st (pc_sender row) (pc_recipient row) h \<noteq> Inr (pc_sender row) \<and>
       moved_on (pc_sender row) (pc_nonce row) st'" by blast+
qed

lemma due_nonces_grow:
  assumes "apply_due_conservation cfg row h st = Done st'"
  shows "nonces_grow st st'"
proof (rule nonces_grow_others [OF due_effect(1,2) [OF assms]])
  note e = due_effect(4,5) [OF assms]
  fix n assume "nonce_of st (pc_sender row) = Some n"
  with e(1) have n: "n = pc_nonce row" by simp
  from e(2) show "\<exists>n'. nonce_of st' (pc_sender row) = Some n' \<and> unat n \<le> unat n'"
  proof
    assume "conservation_recipient_dst st (pc_sender row) (pc_recipient row) h \<noteq> Inr (pc_sender row) \<and>
      moved_on (pc_sender row) (pc_nonce row) st'"
    then show ?thesis by (simp add: n moved_on_def unat_Suc_nonce)
  qed (simp add: n)
qed

lemma drain_loop_pending_inv:
  "drain_loop cfg h rows remaining st = Done st' \<Longrightarrow>
     distinct (map pc_sender (remaining @ rows)) \<Longrightarrow>
     \<forall>row\<in>set (remaining @ rows). pending_row_ok st row \<Longrightarrow> pending_inv st'"
proof (induction cfg h rows remaining st rule: drain_loop.induct)
  case (1 cfg h remaining st)
  have "nonce_of (st\<lparr>pending_conservation := remaining\<rparr>) = nonce_of st"
    "inited (st\<lparr>pending_conservation := remaining\<rparr>) = inited st"
    by (rule nonce_of_cong, simp)+
  with 1 show ?case by (auto simp: pending_inv_def pending_row_ok_def)
next
  case (2 cfg h row rows remaining st)
  show ?case
  proof (cases "h < pc_execute_at_height row")
    case True
    show ?thesis using 2(1) [OF True] 2(4-6) True by simp
  next
    case due: False
    show ?thesis
    proof (cases "apply_due_conservation cfg row h st")
      case (Done st1)
      have "\<forall>r\<in>set (remaining @ rows). pending_row_ok st1 r"
      proof
        fix r assume r: "r \<in> set (remaining @ rows)"
        then have "pc_sender r \<noteq> pc_sender row" "pending_row_ok st r"
          using 2(5,6) by (auto simp: rev_image_eqI)
        then show "pending_row_ok st1 r" by (rule pending_row_others [OF due_effect(1) [OF Done]])
      qed
      then show ?thesis using 2(2) [OF due Done] 2(4,5) due Done by simp
    next
      case (Failed e st1)
      then have "st1 = st" by (rule due_Failed_state)
      then show ?thesis using 2(3) [OF due Failed] 2(4-6) due Failed by simp
    next
      case Panicked
      then show ?thesis using 2(4) due by simp
    qed
  qed
qed

lemma pending_row_ok_pending [simp]:
  "pending_row_ok (st\<lparr>pending_conservation := p\<rparr>) row = pending_row_ok st row"
  by (simp add: pending_row_ok_def nonce_of_def inited_def)

lemma drain_pending_inv:
  "pending_inv st \<Longrightarrow> drain_conservation_at_height cfg h st = Done st' \<Longrightarrow> pending_inv st'"
  unfolding drain_conservation_at_height_def
  by (erule drain_loop_pending_inv) (simp_all add: pending_inv_def)

lemma drain_loop_nonces_grow:
  "drain_loop cfg h rows remaining st = Done st' \<Longrightarrow> nonces_grow st st'"
proof (induction cfg h rows remaining st rule: drain_loop.induct)
  case (1 cfg h remaining st)
  then show ?case by (auto simp: nonces_grow_def nonce_of_def inited_def)
next
  case (2 cfg h row rows remaining st)
  show ?case
  proof (cases "h < pc_execute_at_height row")
    case True
    then show ?thesis using 2 by simp
  next
    case due: False
    show ?thesis
    proof (cases "apply_due_conservation cfg row h st")
      case (Done st1)
      with 2 due nonces_grow_trans [OF due_nonces_grow [OF Done]] show ?thesis by simp
    next
      case (Failed e st1)
      with 2 due due_Failed_state [OF Failed] show ?thesis by simp
    next
      case Panicked
      then show ?thesis using 2(4) due by simp
    qed
  qed
qed

lemma drain_nonces_grow:
  assumes "drain_conservation_at_height cfg h st = Done st'"
  shows "nonces_grow st st'"
proof -
  have "nonces_grow st (st\<lparr>pending_conservation := []\<rparr>)"
    by (rule nonces_grow_accounts) simp
  from nonces_grow_trans [OF this drain_loop_nonces_grow [OF assms [unfolded drain_conservation_at_height_def]]]
  show ?thesis .
qed

lemma nonces_grow_view: "nonce_of st' = nonce_of st \<Longrightarrow> inited st' = inited st \<Longrightarrow> nonces_grow st st'"
  by (simp add: nonces_grow_def)

section \<open>Any sequence of operations\<close>

lemma ledger_op_inv:
  assumes "pending_inv st" "ledger_op ext cfg op st = Done st'"
  shows "pending_inv st'"
proof (cases op)
  case (OpTx tx h ts skip)
  with assms show ?thesis using tx_pending_inv by simp
next
  case (OpDrain h)
  with assms show ?thesis using drain_pending_inv by simp
next
  case (OpRoll h)
  with assms have "st' = roll_epoch_if_needed cfg h st" by simp
  with assms(1) show ?thesis
    using pending_inv_view [OF nonce_of_cong [OF roll_view(1)] roll_view(2)] by simp
qed (use assms pending_inv_view [OF refund_view] pending_inv_view [OF reward_view]
      pending_inv_view [OF reward_v2_view] in auto)

lemma ledger_op_grow:
  assumes "ledger_op ext cfg op st = Done st'"
  shows "nonces_grow st st'"
proof (cases op)
  case (OpTx tx h ts skip)
  with assms show ?thesis using tx_nonces_grow by simp
next
  case (OpDrain h)
  with assms show ?thesis using drain_nonces_grow by simp
next
  case (OpRoll h)
  with assms show ?thesis by (auto intro: nonces_grow_accounts simp: roll_view)
qed (use assms in \<open>auto intro: nonces_grow_view simp: refund_view reward_view reward_v2_view\<close>)

interpretation ledger: guarded_steps "ledger_op ext cfg" pending_inv nonces_grow
  by unfold_locales (use ledger_op_inv ledger_op_grow nonces_grow_refl nonces_grow_trans in blast)+

section \<open>Replays\<close>

text \<open>A transaction is spent when its nonce is behind, or a row of its sender holds that nonce.\<close>

definition spent :: "extlib \<Rightarrow> SignedTx \<Rightarrow> State \<Rightarrow> bool" where
  "spent ext tx st \<longleftrightarrow> (let aid = computed_account_id ext tx in
     case nonce_of st aid of
       None \<Rightarrow> False
     | Some n \<Rightarrow> unat (tx_nonce tx) < unat n \<or>
         n = tx_nonce tx \<and> has_pending_conserv st aid \<and> conservation_flag aid
         \<and> (\<exists>t amount fee. body tx = Transfer t amount fee))"

lemma spent_not_done: "spent ext tx st \<Longrightarrow> apply_tx_impl ext cfg tx h ts skip st \<noteq> Done st'"
  using apply_needs(1,3) [of ext cfg tx h ts skip st st']
  by (auto simp: spent_def Let_def split: option.splits)

text \<open>The delayed transfers of a state that would come back to their own sender.\<close>

definition no_self_route :: "u64 \<Rightarrow> State \<Rightarrow> bool" where
  "no_self_route h st \<longleftrightarrow> list_all (\<lambda>row. pc_execute_at_height row \<le> h \<longrightarrow>
     conservation_recipient_dst st (pc_sender row) (pc_recipient row) h \<noteq> Inr (pc_sender row))
     (pending_conservation st)"

lemma done_spent:
  assumes run: "apply_tx_impl ext cfg tx h ts skip st = Done st'"
  shows "spent ext tx st'"
proof -
  define aid where "aid = computed_account_id ext tx"
  have "tx_effect aid (body tx) (tx_nonce tx) st st'"
    unfolding aid_def by (rule tx_effect_apply [OF run])
  then show ?thesis
  proof (unfold tx_effect_def, elim disjE conjE)
    assume q: "queued aid (tx_nonce tx) st st'" and b: "\<exists>t amount fee. body tx = Transfer t amount fee"
    from q have "accounts st' = accounts st" by (simp add: queued_def)
    from q b nonce_of_cong [OF this] show ?thesis
      by (auto simp: spent_def queued_def aid_def [symmetric] has_pending_conserv_def)
  qed (auto simp: spent_def aid_def [symmetric] moved_on_def unat_Suc_nonce)
qed


text \<open>A clean run: no drain executes a row that comes back to its own sender.\<close>

inductive clean_run :: "extlib \<Rightarrow> GenCfg \<Rightarrow> State \<Rightarrow> LedgerOp list \<Rightarrow> State \<Rightarrow> bool"
  for ext :: extlib and cfg :: GenCfg where
  clean_nil: "clean_run ext cfg st [] st"
| clean_cons: "\<lbrakk>ledger_op ext cfg op st = Done st1;
    case op of OpDrain h \<Rightarrow> no_self_route h st | _ \<Rightarrow> True;
    clean_run ext cfg st1 ops st2\<rbrakk> \<Longrightarrow> clean_run ext cfg st (op # ops) st2"

inductive_cases clean_consE: "clean_run ext cfg st (op # ops) st2"
inductive_simps clean_nil_iff: "clean_run ext cfg st [] st2"

lemma clean_run_steps: "clean_run ext cfg st ops st' \<Longrightarrow> run_steps (ledger_op ext cfg) ops st = Done st'"
  by (induction rule: clean_run.induct) simp_all

text \<open>Spending survives what keeps the sender's row or moves its nonce on.\<close>

lemma spent_grow_pending:
  assumes "spent ext tx st" "nonces_grow st st'"
    and "nonce_of st' (computed_account_id ext tx) = nonce_of st (computed_account_id ext tx) \<Longrightarrow>
      has_pending_conserv st (computed_account_id ext tx) \<Longrightarrow>
      has_pending_conserv st' (computed_account_id ext tx)"
  shows "spent ext tx st'"
proof -
  define aid where "aid = computed_account_id ext tx"
  from assms(1) obtain n where n: "nonce_of st aid = Some n"
    and c: "unat (tx_nonce tx) < unat n \<or> n = tx_nonce tx \<and> has_pending_conserv st aid \<and> conservation_flag aid
         \<and> (\<exists>t amount fee. body tx = Transfer t amount fee)"
    by (auto simp: spent_def Let_def aid_def split: option.splits)
  from assms(2) n obtain n' where n': "nonce_of st' aid = Some n'" "unat n \<le> unat n'"
    unfolding nonces_grow_def by blast
  show ?thesis
  proof (cases "n' = n")
    case True
    then show ?thesis using assms(3) n n' c by (auto simp: spent_def Let_def aid_def)
  next
    case False
    then have "unat n < unat n'" using n'(2) by (simp add: order_less_le word_unat_eq_iff)
    then show ?thesis using n' c by (auto simp: spent_def Let_def aid_def)
  qed
qed

lemma tx_keeps_pending:
  assumes run: "apply_tx_impl ext cfg tx h ts skip st = Done st'"
    and same: "nonce_of st' x = nonce_of st x" and p: "has_pending_conserv st x"
  shows "has_pending_conserv st' x"
proof -
  define aid where "aid = computed_account_id ext tx"
  have eff: "tx_effect aid (body tx) (tx_nonce tx) st st'"
    unfolding aid_def by (rule tx_effect_apply [OF run])
  have moved: "x \<noteq> aid" if "moved_on aid (tx_nonce tx) st'"
  proof
    assume "x = aid"
    with that same have "nonce_of st aid = Some (tx_nonce tx + 1)" "unat (tx_nonce tx) + 1 < 2 ^ 64"
      by (simp_all add: moved_on_def)
    with apply_needs(1) [OF run] have "unat (tx_nonce tx + 1) = unat (tx_nonce tx)"
      by (auto simp: aid_def)
    then show False using \<open>unat (tx_nonce tx) + 1 < 2 ^ 64\<close> by (simp add: unat_Suc_nonce)
  qed
  from eff show ?thesis
    using p moved by (auto simp: tx_effect_def queued_def has_pending_conserv_def without_sender_def list_ex_iff)
qed

text \<open>The drain keeps a sender's row, or executes it and moves the nonce on.\<close>

lemma drain_loop_spends:
  "drain_loop cfg h rows remaining st = Done st' \<Longrightarrow>
     \<forall>row\<in>set rows. pc_execute_at_height row \<le> h \<longrightarrow>
       conservation_recipient_dst st (pc_sender row) (pc_recipient row) h \<noteq> Inr (pc_sender row) \<Longrightarrow>
     x \<in> pc_sender ` set (remaining @ rows) \<Longrightarrow>
     x \<in> pc_sender ` set (pending_conservation st') \<or>
     (\<exists>n n'. nonce_of st x = Some n \<and> nonce_of st' x = Some n' \<and> unat n < unat n')"
proof (induction cfg h rows remaining st rule: drain_loop.induct)
  case (2 cfg h row rows remaining st)
  show ?case
  proof (cases "h < pc_execute_at_height row")
    case True
    then show ?thesis using 2 by auto
  next
    case due: False
    show ?thesis
    proof (cases "apply_due_conservation cfg row h st")
      case (Done st1)
      note e = due_effect [OF Done]
      have run: "drain_loop cfg h rows remaining st1 = Done st'" using 2(4) due Done by simp
      have routes: "\<forall>r\<in>set rows. pc_execute_at_height r \<le> h \<longrightarrow>
          conservation_recipient_dst st1 (pc_sender r) (pc_recipient r) h \<noteq> Inr (pc_sender r)"
        using 2(5) unfolding recipient_dst_view [OF due_view [OF Done]] by simp
      show ?thesis
      proof (cases "x = pc_sender row")
        case True
        have "moved_on (pc_sender row) (pc_nonce row) st1"
          using e(5) 2(5) due by (auto simp: not_less)
        then have m: "nonce_of st1 x = Some (pc_nonce row + 1)" "unat (pc_nonce row + 1) = Suc (unat (pc_nonce row))"
          by (auto simp: moved_on_def True unat_Suc_nonce)
        with drain_loop_nonces_grow [OF run] obtain n' where "nonce_of st' x = Some n'"
          "Suc (unat (pc_nonce row)) \<le> unat n'"
          unfolding nonces_grow_def by metis
        with e(4) True show ?thesis by auto
      next
        case False
        with e(1) have same: "nonce_of st1 x = nonce_of st x" by (simp add: others_kept_def)
        from False 2(6) have "x \<in> pc_sender ` set (remaining @ rows)" by auto
        from 2(2) [OF due Done run routes this] show ?thesis by (simp only: same)
      qed
    next
      case (Failed e st1)
      then have "st1 = st" by (rule due_Failed_state)
      then show ?thesis using 2(3) [OF due Failed] 2(4-6) due Failed by auto
    next
      case Panicked
      then show ?thesis using 2(4) due by simp
    qed
  qed
qed auto

lemma spent_op:
  assumes sp: "spent ext tx st" and run: "ledger_op ext cfg op st = Done st'"
    and clean: "case op of OpDrain h \<Rightarrow> no_self_route h st | _ \<Rightarrow> True"
  shows "spent ext tx st'"
proof (rule spent_grow_pending [OF sp ledger_op_grow [OF run]])
  assume same: "nonce_of st' (computed_account_id ext tx) = nonce_of st (computed_account_id ext tx)"
    and p: "has_pending_conserv st (computed_account_id ext tx)"
  show "has_pending_conserv st' (computed_account_id ext tx)"
  proof (cases op)
    case (OpTx tx' h ts skip)
    with run same p show ?thesis using tx_keeps_pending by simp
  next
    case (OpDrain h)
    with run have d: "drain_loop cfg h (pending_conservation st) [] (st\<lparr>pending_conservation := []\<rparr>) = Done st'"
      by (simp add: drain_conservation_at_height_def)
    have v: "conservation_recipient_dst (st\<lparr>pending_conservation := []\<rparr>) = conservation_recipient_dst st"
      by (intro ext recipient_dst_view) simp
    have n: "nonce_of (st\<lparr>pending_conservation := []\<rparr>) = nonce_of st" by (rule nonce_of_cong) simp
    have "\<forall>row\<in>set (pending_conservation st). pc_execute_at_height row \<le> h \<longrightarrow>
       conservation_recipient_dst (st\<lparr>pending_conservation := []\<rparr>) (pc_sender row) (pc_recipient row) h
         \<noteq> Inr (pc_sender row)"
      using clean OpDrain unfolding v by (simp add: no_self_route_def list_all_iff)
    moreover from p have "computed_account_id ext tx \<in> pc_sender ` set ([] @ pending_conservation st)"
      by (auto simp: has_pending_conserv_def list_ex_iff intro!: rev_image_eqI)
    ultimately have "computed_account_id ext tx \<in> pc_sender ` set (pending_conservation st')"
      using drain_loop_spends [OF d] same unfolding n by fastforce
    then show ?thesis by (auto simp: has_pending_conserv_def list_ex_iff)
  qed (use run p in \<open>auto simp: has_pending_conserv_def refund_view reward_view reward_v2_view roll_view\<close>)
qed

lemma spent_clean_run: "clean_run ext cfg st ops st' \<Longrightarrow> spent ext tx st \<Longrightarrow> spent ext tx st'"
  by (induction rule: clean_run.induct) (auto intro: spent_op)

text \<open>Without the side condition: bodies that are not delayed transfers.\<close>

definition delayed_body :: "extlib \<Rightarrow> SignedTx \<Rightarrow> bool" where
  "delayed_body ext tx \<longleftrightarrow> (\<exists>t amount fee. body tx = Transfer t amount fee)
     \<and> conservation_flag (computed_account_id ext tx)"

lemma spent_run:
  assumes body: "\<not> delayed_body ext tx" and sp: "spent ext tx st" and inv: "pending_inv st"
    and run: "run_steps (ledger_op ext cfg) ops st = Done st'"
  shows "spent ext tx st'"
proof -
  from body sp obtain n where n: "nonce_of st (computed_account_id ext tx) = Some n" "unat (tx_nonce tx) < unat n"
    by (auto simp: spent_def delayed_body_def Let_def split: option.splits)
  from ledger.run_rel [OF inv run] n(1) obtain n' where
    "nonce_of st' (computed_account_id ext tx) = Some n'" "unat n \<le> unat n'"
    unfolding nonces_grow_def by blast
  with n(2) show ?thesis by (simp add: spent_def)
qed

end
