(* ===== verification/Pwm_Xshard.thy ===== *)
theory Pwm_Xshard
  imports Pwm_Ledger
begin

text \<open>
  Cross-shard locks: what the refund at a height does to the whole list, the invariant that
  ties locks, registry and the set of consumed export ids, and what follows for IMPORT.
\<close>

section \<open>The refund as one map over the locks\<close>

definition lock_due :: "u64 \<Rightarrow> CrossShardLock \<Rightarrow> bool" where
  "lock_due h l \<longleftrightarrow> lk_state l = Locked \<and> lk_unlock_height l \<le> h"

definition mark_refunded :: "u64 \<Rightarrow> CrossShardLock \<Rightarrow> CrossShardLock" where
  "mark_refunded h l = (if lock_due h l then l\<lparr>lk_state := Refunded\<rparr> else l)"

lemma mark_refunded_simps [simp]:
  "lk_export_id (mark_refunded h l) = lk_export_id l"
  "lk_amount_pwm (mark_refunded h l) = lk_amount_pwm l"
  by (simp_all add: mark_refunded_def)

lemma refund_loop_spec:
  "refund_loop h ls st = st\<lparr>
     accounts := fold (\<lambda>l. credit (lk_refund_account l) (lk_amount_pwm l)) (filter (lock_due h) ls) (accounts st),
     cross_shard_locks := cross_shard_locks st @ map (mark_refunded h) ls,
     imported_set := imported_set st |\<union>| fset_of_list (map lk_export_id (filter (lock_due h) ls))\<rparr>"
proof (induction h ls st rule: refund_loop.induct)
  case (2 h l ls st)
  show ?case
  proof (cases "lk_state l \<noteq> Locked \<or> h < lk_unlock_height l")
    case True
    then have "\<not> lock_due h l" by (auto simp: lock_due_def not_le)
    with 2(1) [OF True] True show ?thesis by (simp add: mark_refunded_def)
  next
    case False
    then have "lock_due h l" by (auto simp: lock_due_def not_less)
    with 2(2) [OF False] False show ?thesis by (simp add: mark_refunded_def)
  qed
qed simp

lemma refund_exp_locks_spec:
  "refund_exp_locks h st = st\<lparr>
     accounts := fold (\<lambda>l. credit (lk_refund_account l) (lk_amount_pwm l))
       (filter (lock_due h) (cross_shard_locks st)) (accounts st),
     cross_shard_locks := map (mark_refunded h) (cross_shard_locks st),
     imported_set := imported_set st |\<union>|
       fset_of_list (map lk_export_id (filter (lock_due h) (cross_shard_locks st)))\<rparr>"
  by (simp add: refund_exp_locks_def refund_loop_spec)

section \<open>The invariant\<close>

definition lock_ids :: "State \<Rightarrow> bytes32 list" where
  "lock_ids st = map lk_export_id (cross_shard_locks st)"

definition lock_ok :: "State \<Rightarrow> CrossShardLock \<Rightarrow> bool" where
  "lock_ok st l \<longleftrightarrow> (if lk_state l = Locked
     then lk_export_id l |\<in>| imported_set st \<or>
       (\<exists>pv. fmlookup (exported_registry st) (lk_export_id l) = Some pv \<and> pv_amount pv = lk_amount_pwm l)
     else lk_export_id l |\<in>| imported_set st)"

definition xshard_inv :: "State \<Rightarrow> bool" where
  "xshard_inv st \<longleftrightarrow> distinct (lock_ids st) \<and> (\<forall>l\<in>set (cross_shard_locks st). lock_ok st l) \<and>
     (\<forall>eid. fmlookup (exported_registry st) eid \<noteq> None \<longrightarrow>
        eid |\<in>| imported_set st \<or> eid \<in> set (lock_ids st))"

lemma lock_idx_Some:
  "lock_idx st eid = Some i \<Longrightarrow> i < length (cross_shard_locks st) \<and> lk_export_id (cross_shard_locks st ! i) = eid"
  by (auto simp: lock_idx_def dest: position_Some)

lemma lock_idx_None: "lock_idx st eid = None \<longleftrightarrow> eid \<notin> set (lock_ids st)"
  by (auto simp: lock_idx_def position_None lock_ids_def)

text \<open>A step that leaves locks, registry and consumed ids alone.\<close>

lemma xshard_inv_frame:
  "cross_shard_locks st' = cross_shard_locks st \<Longrightarrow> exported_registry st' = exported_registry st \<Longrightarrow>
   imported_set st' = imported_set st \<Longrightarrow> xshard_inv st' = xshard_inv st"
  by (simp add: xshard_inv_def lock_ok_def lock_ids_def)

lemma xshard_keep:
  "xshard_inv st \<Longrightarrow> cross_shard_locks st' = cross_shard_locks st \<Longrightarrow>
   exported_registry st' = exported_registry st \<Longrightarrow> imported_set st' = imported_set st \<Longrightarrow> xshard_inv st'"
  using xshard_inv_frame [of st' st] by simp

lemma xshard_inv_refund:
  assumes "xshard_inv st"
  shows "xshard_inv (refund_exp_locks h st)"
proof -
  let ?st = "refund_exp_locks h st"
  have ids: "lock_ids ?st = lock_ids st"
    by (simp add: refund_exp_locks_spec lock_ids_def comp_def)
  have imp: "eid |\<in>| imported_set ?st" if "eid |\<in>| imported_set st" for eid
    using that by (simp add: refund_exp_locks_spec)
  have "lock_ok ?st (mark_refunded h l)" if l: "l \<in> set (cross_shard_locks st)" for l
  proof (cases "lock_due h l")
    case True
    then have "lk_export_id l |\<in>| imported_set ?st"
      using l by (auto simp: refund_exp_locks_spec fset_of_list.rep_eq)
    then show ?thesis using True by (simp add: lock_ok_def mark_refunded_def)
  next
    case False
    then show ?thesis
      using assms l imp by (auto simp: lock_ok_def mark_refunded_def xshard_inv_def refund_exp_locks_spec split: if_splits)
  qed
  then show ?thesis
    using assms imp unfolding xshard_inv_def ids by (auto simp: refund_exp_locks_spec)
qed

lemma xshard_inv_export:
  assumes inv: "xshard_inv st" and lk: "lk_export_id lk = eid" "lk_state lk = Locked" "lk_amount_pwm lk = pv_amount pv"
  shows "xshard_inv (register_export eid pv lk st)"
proof (cases "lock_idx st eid")
  case (Some i)
  then have eid: "eid \<in> set (lock_ids st)" using lock_idx_None [of st eid] by auto
  show ?thesis
  proof (cases "fmlookup (exported_registry st) eid")
    case None
    then show ?thesis
      using inv eid Some by (auto simp: register_export_def xshard_inv_def lock_ok_def lock_ids_def lock_idx_def)
  next
    case (Some pv0)
    with \<open>lock_idx st eid = Some i\<close> have "register_export eid pv lk st = st"
      by (simp add: register_export_def)
    with inv show ?thesis by simp
  qed
next
  case None
  then have new: "eid \<notin> set (lock_ids st)" by (simp add: lock_idx_None)
  show ?thesis
  proof (cases "fmlookup (exported_registry st) eid")
    case None
    with \<open>lock_idx st eid = None\<close> have "register_export eid pv lk st =
      st\<lparr>exported_registry := fmupd eid pv (exported_registry st), cross_shard_locks := cross_shard_locks st @ [lk]\<rparr>"
      by (simp add: register_export_def lock_idx_def)
    then show ?thesis
      using inv new lk by (auto simp: xshard_inv_def lock_ok_def lock_ids_def)
  next
    case (Some pv0)
    with \<open>lock_idx st eid = None\<close> have r: "register_export eid pv lk st = st\<lparr>cross_shard_locks := cross_shard_locks st @ [lk]\<rparr>"
      by (simp add: register_export_def lock_idx_def)
    have "eid |\<in>| imported_set st" using inv new Some by (auto simp: xshard_inv_def)
    then show ?thesis
      using inv new lk unfolding r by (auto simp: xshard_inv_def lock_ok_def lock_ids_def)
  qed
qed

text \<open>The amount of an IMPORT that finds a local lock is the amount of that lock.\<close>

lemma import_lock_amount:
  assumes inv: "xshard_inv st" and new: "eid |\<notin>| imported_set st"
    and exp: "expected_export st tx eid = Inr (pv, fresh)" and amt: "pv_amount pv = amount"
  shows "lock_amount_ok st eid amount"
    and "fresh \<longleftrightarrow> lock_idx st eid = None"
    and "lock_idx st eid = Some i \<Longrightarrow> lk_state (cross_shard_locks st ! i) = Locked"
proof -
  have lock: "lk_state (cross_shard_locks st ! i) = Locked \<and>
      (\<exists>pv. fmlookup (exported_registry st) eid = Some pv \<and> pv_amount pv = lk_amount_pwm (cross_shard_locks st ! i))"
    if "lock_idx st eid = Some i" for i
  proof -
    from lock_idx_Some [OF that] have "cross_shard_locks st ! i \<in> set (cross_shard_locks st)"
      "lk_export_id (cross_shard_locks st ! i) = eid" by auto
    with inv new show ?thesis by (auto simp: xshard_inv_def lock_ok_def split: if_splits)
  qed
  show "lock_amount_ok st eid amount"
    using exp amt lock by (auto simp: lock_amount_ok_def expected_export_def split: option.splits if_splits)
  show "fresh \<longleftrightarrow> lock_idx st eid = None"
  proof (cases "lock_idx st eid")
    case None
    then have "fmlookup (exported_registry st) eid = None"
      using inv new lock_idx_None by (auto simp: xshard_inv_def)
    with None exp show ?thesis by (auto simp: expected_export_def split: option.splits)
  next
    case (Some i)
    with lock exp show ?thesis by (auto simp: expected_export_def split: option.splits if_splits)
  qed
  show "lk_state (cross_shard_locks st ! i) = Locked" if "lock_idx st eid = Some i"
    using lock [OF that] by simp
qed


lemma xshard_inv_consume:
  assumes inv: "xshard_inv st" and new: "eid |\<notin>| imported_set st"
    and exp: "expected_export st tx eid = Inr (pv, fresh)"
    and st1: "cross_shard_locks st1 = cross_shard_locks st" "imported_set st1 = imported_set st"
      "exported_registry st1 = (if fresh then fmupd eid pv (exported_registry st) else exported_registry st)"
  shows "xshard_inv ((release_lock (lock_idx st eid) st1)\<lparr>imported_set := finsert eid (imported_set st)\<rparr>)"
proof -
  let ?st = "(release_lock (lock_idx st eid) st1)\<lparr>imported_set := finsert eid (imported_set st)\<rparr>"
  have locks: "cross_shard_locks ?st = (case lock_idx st eid of None \<Rightarrow> cross_shard_locks st
     | Some i \<Rightarrow> (cross_shard_locks st)[i := (cross_shard_locks st ! i)\<lparr>lk_state := Released\<rparr>])"
    using import_lock_amount(3) [OF inv new exp refl]
    by (auto simp: release_lock_def st1 split: option.splits)
  have ids: "lock_ids ?st = lock_ids st"
    unfolding lock_ids_def locks
    by (auto simp: map_update list_update_same_conv dest!: lock_idx_Some split: option.splits)
  have ok: "lock_ok ?st l" if l: "l \<in> set (cross_shard_locks st)" "lk_export_id l \<noteq> eid" for l
    using inv l st1(3) by (auto simp: xshard_inv_def lock_ok_def split: if_splits)
  have "lock_ok ?st l" if l: "l \<in> set (cross_shard_locks ?st)" for l
  proof (cases "lk_export_id l = eid")
    case True
    then show ?thesis by (simp add: lock_ok_def)
  next
    case False
    have "l \<in> set (cross_shard_locks st)"
    proof (cases "lock_idx st eid")
      case None
      then show ?thesis using l unfolding locks by simp
    next
      case (Some i)
      then have "l \<in> insert ((cross_shard_locks st ! i)\<lparr>lk_state := Released\<rparr>) (set (cross_shard_locks st))"
        using l unfolding locks by (auto dest!: set_update_subset_insert [THEN subsetD])
      then show ?thesis using False lock_idx_Some [OF Some] by auto
    qed
    then show ?thesis using False by (rule ok)
  qed
  then show ?thesis
    using inv unfolding xshard_inv_def ids by (auto simp: st1 split: if_splits)
qed

lemma note_import_registry:
  "exported_registry (note_import eid fresh fee st) =
     (case fresh of None \<Rightarrow> exported_registry st | Some pv \<Rightarrow> fmupd eid pv (exported_registry st))"
  by (simp add: note_import_def Let_def split: option.split)

lemma xshard_inv_body:
  assumes inv: "xshard_inv st" and run: "apply_body ext cfg tx h aid acc redir st = Done st'"
  shows "xshard_inv st'"
proof (cases "body tx")
  case (Export t d amount fee)
  with run have "apply_export ext cfg tx h aid acc t d amount fee st = Done st'" by (simp add: apply_body_def)
  then show ?thesis
  proof (cases rule: apply_export_Done)
    case (1 tot src eid pv lk)
    have "xshard_inv (add_fee (fee_amount (body tx)) st)" by (rule xshard_keep [OF inv]) simp_all
    then have "xshard_inv (register_export eid pv lk (add_fee (fee_amount (body tx)) st))"
      by (rule xshard_inv_export) (simp_all add: 1(7,8))
    then show ?thesis by (rule xshard_keep) (simp_all add: 1(9))
  qed
next
  case (Import t amount eid)
  with run have "apply_import ext tx aid acc t amount eid st = Done st'" by (simp add: apply_body_def)
  then show ?thesis
  proof (cases rule: apply_import_Done)
    case (1 pv fresh fee src st1)
    have "cross_shard_locks st1 = cross_shard_locks st" "imported_set st1 = imported_set st"
      "exported_registry st1 = (if fresh then fmupd eid pv (exported_registry st) else exported_registry st)"
      using 1(12) by (auto simp: note_import_registry)
    from xshard_inv_consume [OF inv 1(4,5) this] show ?thesis by (simp only: 1(13))
  qed
next
  case (Init i f)
  with run have "apply_init tx h aid acc i f st = Done st'" by (simp add: apply_body_def)
  then show ?thesis by (cases rule: apply_init_Done) (rule xshard_keep [OF inv]; simp)
next
  case (Transfer t amount fee)
  with run have "apply_transfer ext cfg tx h aid acc redir t amount fee st = Done st'" by (simp add: apply_body_def)
  then show ?thesis by (cases rule: apply_transfer_Done) (rule xshard_keep [OF inv]; simp)+
next
  case (Stake amount)
  with run have "apply_stake cfg h aid acc amount st = Done st'" by (simp add: apply_body_def)
  then show ?thesis by (cases rule: apply_stake_Done) (rule xshard_keep [OF inv]; simp)
next
  case (Unstake amount)
  with run have "apply_unstake cfg h aid acc amount st = Done st'" by (simp add: apply_body_def)
  then show ?thesis by (cases rule: apply_unstake_Done) (rule xshard_keep [OF inv]; simp)
next
  case (BurnMark m x)
  with run have "apply_burn cfg h aid acc m st = Done st'" by (simp add: apply_body_def)
  then show ?thesis by (cases rule: apply_burn_Done) (rule xshard_keep [OF inv]; simp)
next
  case (ClaimIPv4Batch p r s)
  with run have "apply_claim ext cfg aid acc p r s st = Done st'" by (simp add: apply_body_def)
  then show ?thesis by (cases rule: apply_claim_Done) (rule xshard_keep [OF inv]; simp)
next
  case (Policy t action fee)
  with run have "apply_policy ext cfg tx h aid acc t action fee st = Done st'" by (simp add: apply_body_def)
  then show ?thesis
  proof (cases rule: apply_policy_Done)
    case (1 a b st1)
    have "xshard_inv st1"
      by (rule xshard_keep [OF inv]) (use 1(6) in \<open>auto elim!: evacuate_Some\<close>)
    then show ?thesis by (rule xshard_keep) (simp_all add: 1(8))
  qed
qed

lemma xshard_inv_tx:
  assumes "xshard_inv st" "apply_tx_impl ext cfg tx h ts skip st = Done st'"
  shows "xshard_inv st'"
proof (rule apply_tx_impl_Done [OF assms(2)])
  fix aid st1 row acc redir
  assume "st1 = with_stub tx aid st" "apply_body ext cfg tx h aid acc redir st1 = Done st'"
  then show "xshard_inv st'"
    using xshard_keep [OF assms(1), of "with_stub tx aid st"] xshard_inv_body by simp
qed

lemma due_xshard:
  assumes "apply_due_conservation cfg row h st = Done st'"
  shows "cross_shard_locks st' = cross_shard_locks st" "exported_registry st' = exported_registry st"
    "imported_set st' = imported_set st" "evidence_log st' = evidence_log st"
  using assms by (auto elim!: apply_due_Done)

lemma drain_loop_xshard:
  "drain_loop cfg h rows remaining st = Done st' \<Longrightarrow>
     cross_shard_locks st' = cross_shard_locks st \<and> exported_registry st' = exported_registry st \<and>
     imported_set st' = imported_set st \<and> evidence_log st' = evidence_log st"
proof (induction cfg h rows remaining st rule: drain_loop.induct)
  case (2 cfg h row rows remaining st)
  then show ?case
    by (cases "apply_due_conservation cfg row h st")
       (auto dest: due_Failed_state simp: due_xshard split: if_splits)
qed auto

lemma drain_xshard:
  "drain_conservation_at_height cfg h st = Done st' \<Longrightarrow>
     cross_shard_locks st' = cross_shard_locks st \<and> exported_registry st' = exported_registry st \<and>
     imported_set st' = imported_set st \<and> evidence_log st' = evidence_log st"
  unfolding drain_conservation_at_height_def by (drule drain_loop_xshard) simp

lemma reward_xshard:
  "cross_shard_locks (reward_producer p r st) = cross_shard_locks st"
  "exported_registry (reward_producer p r st) = exported_registry st"
  "imported_set (reward_producer p r st) = imported_set st"
  "cross_shard_locks (reward_producer_v2 p r m s st) = cross_shard_locks st"
  "exported_registry (reward_producer_v2 p r m s st) = exported_registry st"
  "imported_set (reward_producer_v2 p r m s st) = imported_set st"
  "evidence_log (reward_producer p r st) = evidence_log st"
  "evidence_log (reward_producer_v2 p r m s st) = evidence_log st"
  using reward_v2_as_credit [of p r m s st] by (auto simp: reward_producer_def)

lemma roll_xshard:
  "cross_shard_locks (roll_epoch_if_needed cfg h st) = cross_shard_locks st"
  "exported_registry (roll_epoch_if_needed cfg h st) = exported_registry st"
  "imported_set (roll_epoch_if_needed cfg h st) = imported_set st"
  "evidence_log (roll_epoch_if_needed cfg h st) = evidence_log st"
  by (simp_all add: roll_epoch_if_needed_def)

lemma ledger_op_xshard_inv:
  assumes inv: "xshard_inv st" and run: "ledger_op ext cfg op st = Done st'"
  shows "xshard_inv st'"
proof (cases op)
  case (OpTx tx h ts skip)
  with assms show ?thesis using xshard_inv_tx by simp
next
  case (OpRefund h)
  with assms show ?thesis using xshard_inv_refund by auto
next
  case (OpDrain h)
  with run have "drain_conservation_at_height cfg h st = Done st'" by simp
  from drain_xshard [OF this] show ?thesis by (intro xshard_keep [OF inv]) simp_all
qed (rule xshard_keep [OF inv]; use run in \<open>auto simp: reward_xshard roll_xshard\<close>)+

section \<open>Consumed export ids\<close>

definition consumed_grow :: "State \<Rightarrow> State \<Rightarrow> bool" where
  "consumed_grow st st' \<longleftrightarrow> imported_set st |\<subseteq>| imported_set st' \<and> evidence_log st' = evidence_log st"

lemma body_evidence:
  assumes "apply_body ext cfg tx h aid acc redir st = Done st'"
  shows "evidence_log st' = evidence_log st"
  using assms
  by (cases "body tx")
     (auto simp: apply_body_def elim!: apply_init_Done apply_transfer_Done apply_stake_Done apply_unstake_Done
        apply_burn_Done apply_claim_Done apply_export_Done apply_import_Done apply_policy_Done evacuate_Some)

lemma tx_evidence:
  assumes "apply_tx_impl ext cfg tx h ts skip st = Done st'"
  shows "evidence_log st' = evidence_log st"
proof (rule apply_tx_impl_Done [OF assms])
  fix aid st1 row acc redir
  assume st1: "st1 = with_stub tx aid st" and run: "apply_body ext cfg tx h aid acc redir st1 = Done st'"
  from st1 have "evidence_log st1 = evidence_log st" by simp
  with body_evidence [OF run] show ?thesis by simp
qed

lemma body_consumed:
  assumes "apply_body ext cfg tx h aid acc redir st = Done st'"
  shows "imported_set st' = (case body tx of Import _ _ eid \<Rightarrow> finsert eid (imported_set st) | _ \<Rightarrow> imported_set st)"
  using assms
  by (cases "body tx")
     (auto simp: apply_body_def elim!: apply_init_Done apply_transfer_Done apply_stake_Done apply_unstake_Done
        apply_burn_Done apply_claim_Done apply_export_Done apply_import_Done apply_policy_Done evacuate_Some)

lemma tx_consumed:
  assumes "apply_tx_impl ext cfg tx h ts skip st = Done st'"
  shows "imported_set st' = (case body tx of Import _ _ eid \<Rightarrow> finsert eid (imported_set st) | _ \<Rightarrow> imported_set st)"
proof (rule apply_tx_impl_Done [OF assms])
  fix aid st1 row acc redir
  assume st1: "st1 = with_stub tx aid st" and run: "apply_body ext cfg tx h aid acc redir st1 = Done st'"
  from st1 have "imported_set st1 = imported_set st" by simp
  with body_consumed [OF run] show ?thesis by (simp cong: TxBody.case_cong)
qed

lemma ledger_op_consumed: "ledger_op ext cfg op st = Done st' \<Longrightarrow> consumed_grow st st'"
  by (cases op) (auto simp: consumed_grow_def tx_evidence tx_consumed refund_exp_locks_spec reward_xshard roll_xshard
      dest: drain_xshard split: TxBody.splits)

interpretation xledger: guarded_steps "ledger_op ext cfg" xshard_inv consumed_grow
proof
  show "consumed_grow s s" for s by (simp add: consumed_grow_def)
  show "consumed_grow s t \<Longrightarrow> consumed_grow t u \<Longrightarrow> consumed_grow s u" for s t u
    by (auto simp: consumed_grow_def)
qed (use ledger_op_xshard_inv ledger_op_consumed in blast)+

text \<open>A consumed id is refused by every later IMPORT.\<close>

lemma consumed_not_imported:
  assumes "eid |\<in>| imported_set st" "body tx = Import t amount eid"
  shows "apply_tx_impl ext cfg tx h ts skip st \<noteq> Done st'"
proof
  assume "apply_tx_impl ext cfg tx h ts skip st = Done st'"
  then show False
  proof (cases rule: apply_tx_impl_Done)
    case (1 aid st1 row acc redir)
    then have "apply_import ext tx aid acc t amount eid st1 = Done st'"
      using assms(2) by (simp add: apply_body_def)
    then show False using assms(1) 1(4) by (cases rule: apply_import_Done) simp
  qed
qed

text \<open>With the invariant the side condition of the balance sheet holds by itself.\<close>

lemma import_amount_inv:
  assumes inv: "xshard_inv st" and run: "apply_tx_impl ext cfg tx h ts skip st = Done st'"
    and b: "body tx = Import t amount eid"
  shows "lock_amount_ok st eid amount"
  using run
proof (cases rule: apply_tx_impl_Done)
  case (1 aid st1 row acc redir)
  have "apply_import ext tx aid acc t amount eid st1 = Done st'"
    using 1 b by (simp add: apply_body_def)
  then show ?thesis
  proof (cases rule: apply_import_Done)
    case i: (1 pv fresh fee src st2)
    have "xshard_inv st1" by (rule xshard_keep [OF inv]) (simp_all add: 1(4))
    from import_lock_amount(1) [OF this i(4,5,6)] show ?thesis
      by (simp add: lock_amount_ok_def 1(4) split: option.splits)
  qed
qed

end
