(* ===== verification/Pwm_Outcome.thy ===== *)
theory Pwm_Outcome
  imports Pwm_Xshard
begin

text \<open>
  Outcomes of one transaction: what an error leaves behind, the prechecked path against the
  full one, who can be debited, who can authorize, and what a finalized account can still do.
\<close>

section \<open>Errors leave the state alone\<close>

lemma export_id_export: "body tx = Export t d amount fee \<Longrightarrow> export_id ext tx \<noteq> None"
  by (simp add: export_id_def)

lemma commit_not_failed [simp]: "commit_acc aid a st \<noteq> Failed e st'"
  by (simp add: commit_acc_def split: option.split)

lemma body_Failed_state:
  assumes "apply_body ext cfg tx h aid acc redir st = Failed e st'"
  shows "st' = st"
proof (cases "body tx")
  case (Export t d amount fee)
  from export_id_export [OF Export, of ext] assms show ?thesis
    by (auto simp: apply_body_def Export apply_export_def Let_def split: if_splits option.splits)
next
  case (Transfer t amount fee)
  with assms show ?thesis
    by (auto simp: apply_body_def apply_transfer_def Let_def split: if_splits option.splits sum.splits)
next
  case (Import t amount eid)
  with assms show ?thesis
    by (auto simp: apply_body_def apply_import_def Let_def split: if_splits option.splits sum.splits prod.splits)
next
  case (Policy t action fee)
  with assms show ?thesis
    by (auto simp: apply_body_def apply_policy_def Let_def split: if_splits option.splits sum.splits)
next
  case (Init i f)
  with assms show ?thesis by (auto simp: apply_body_def apply_init_def split: if_splits)
next
  case (Stake amount)
  with assms show ?thesis by (auto simp: apply_body_def apply_stake_def Let_def split: if_splits option.splits)
next
  case (Unstake amount)
  with assms show ?thesis by (auto simp: apply_body_def apply_unstake_def Let_def split: if_splits option.splits)
next
  case (BurnMark m b)
  with assms show ?thesis by (auto simp: apply_body_def apply_burn_def Let_def split: if_splits)
next
  case (ClaimIPv4Batch p r s)
  with assms show ?thesis by (auto simp: apply_body_def apply_claim_def split: if_splits sum.splits)
qed

lemma tx_Failed_state:
  assumes "apply_tx_impl ext cfg tx h ts skip st = Failed e st'"
  shows "st' = st \<or> st' = with_stub tx (computed_account_id ext tx) st"
  using assms
  by (auto simp: apply_tx_impl_def Let_def dest: body_Failed_state
      split: sum.splits option.splits PolicyDecision.splits if_splits)

section \<open>The prechecked path\<close>

text \<open>
  \<open>apply_prechecked_tx\<close> skips the signature and the policy evaluation: with a valid signature
  and an allowing policy it is the full path, state for state and error for error.
\<close>

lemma prechecked_same:
  assumes "verify_sig ext tx"
    and "evaluate_policy ext (with_stub tx (computed_account_id ext tx) st) tx h = Allow"
  shows "apply_prechecked_tx ext cfg tx h ts st = apply_tx_with_ctx ext cfg tx h ts st"
  using assms
  unfolding apply_prechecked_tx_def apply_tx_with_ctx_def apply_tx_impl_def Let_def validate_tx_shape_split
  by (simp split: sum.split option.split)

section \<open>Nobody else is debited\<close>

text \<open>The row of an account after a step of somebody else: no unit less, same keys.\<close>

definition not_debited :: "Account \<Rightarrow> Account \<Rightarrow> bool" where
  "not_debited a a' \<longleftrightarrow> balance_pwm a \<le> balance_pwm a' \<and> staked_pwm_raw a' = staked_pwm_raw a \<and>
     stored_marks a \<le> stored_marks a' \<and> acc_signing_pubkey a' = acc_signing_pubkey a \<and>
     acc_derivation_index a' = acc_derivation_index a \<and> active_policies a' = active_policies a \<and>
     dormant_policies a' = dormant_policies a \<and> deferred_policies a' = deferred_policies a \<and>
     rescue_address a' = rescue_address a \<and> finalized a' = finalized a"

definition others_not_debited :: "AccountId \<Rightarrow> State \<Rightarrow> State \<Rightarrow> bool" where
  "others_not_debited aid st st' \<longleftrightarrow> (\<forall>x a. x \<noteq> aid \<longrightarrow> fmlookup (accounts st) x = Some a \<longrightarrow>
     (\<exists>a'. fmlookup (accounts st') x = Some a' \<and> not_debited a a'))"

lemma not_debited_refl: "not_debited a a"
  by (simp add: not_debited_def)

lemma sat_add_mono: "a \<le> sat_add a b"
  by (simp add: word_le_nat_alt sat_add_ge)

lemma not_debited_credit:
  "not_debited a (a\<lparr>balance_pwm := sat_add (balance_pwm a) x\<rparr>)"
  "not_debited a (a\<lparr>balance_pwm := sat_add (sat_add (balance_pwm a) x) y\<rparr>)"
  "not_debited a ((touch_acct_mrks a h cfg)\<lparr>balance_pwm := sat_add (balance_pwm a) x\<rparr>)"
  using lazy_marks_ge [of a h cfg] order_trans [OF sat_add_mono sat_add_mono]
  by (simp_all add: not_debited_def sat_add_mono touch_acct_mrks_def word_le_nat_alt sat_add_ge)

lemma others_one:
  assumes "accounts st' = fmupd aid a (accounts st)"
  shows "others_not_debited aid st st'"
  using assms by (simp add: others_not_debited_def not_debited_refl)

lemma others_two:
  assumes "x \<noteq> aid" "fmlookup (accounts st) x = Some b0" "not_debited b0 b"
  shows "accounts st' = fmupd x b (fmupd aid a (accounts st)) \<Longrightarrow> others_not_debited aid st st'"
    and "accounts st' = fmupd aid a (fmupd x b (accounts st)) \<Longrightarrow> others_not_debited aid st st'"
  using assms by (auto simp: others_not_debited_def not_debited_refl)

lemma others_not_debited_body:
  assumes run: "apply_body ext cfg tx h aid acc redir st = Done st'"
  shows "others_not_debited aid st st'"
proof (cases "body tx")
  case (Init i f)
  with run have "apply_init tx h aid acc i f st = Done st'" by (simp add: apply_body_def)
  then show ?thesis by (cases rule: apply_init_Done) (simp add: others_one)
next
  case (Transfer t amount fee)
  with run have "apply_transfer ext cfg tx h aid acc redir t amount fee st = Done st'" by (simp add: apply_body_def)
  then show ?thesis
  proof (cases rule: apply_transfer_Done)
    case pending
    then show ?thesis by (simp add: others_not_debited_def not_debited_refl)
  next
    case own
    then show ?thesis by (simp add: others_one)
  next
    case (other dst src tot to0)
    show ?thesis
      by (rule others_two(1) [OF other(4,8) not_debited_credit(3), where a = src]) (simp add: other(10))
  qed
next
  case (Stake amount)
  with run have "apply_stake cfg h aid acc amount st = Done st'" by (simp add: apply_body_def)
  then show ?thesis by (cases rule: apply_stake_Done) (simp add: others_one)
next
  case (Unstake amount)
  with run have "apply_unstake cfg h aid acc amount st = Done st'" by (simp add: apply_body_def)
  then show ?thesis by (cases rule: apply_unstake_Done) (simp add: others_one)
next
  case (BurnMark m x)
  with run have "apply_burn cfg h aid acc m st = Done st'" by (simp add: apply_body_def)
  then show ?thesis by (cases rule: apply_burn_Done) (simp add: others_one)
next
  case (ClaimIPv4Batch p r s)
  with run have "apply_claim ext cfg aid acc p r s st = Done st'" by (simp add: apply_body_def)
  then show ?thesis by (cases rule: apply_claim_Done) (simp add: others_one)
next
  case (Export t d amount fee)
  with run have "apply_export ext cfg tx h aid acc t d amount fee st = Done st'" by (simp add: apply_body_def)
  then show ?thesis by (cases rule: apply_export_Done) (simp add: others_one)
next
  case (Import t amount eid)
  with run have "apply_import ext tx aid acc t amount eid st = Done st'" by (simp add: apply_body_def)
  then show ?thesis
  proof (cases rule: apply_import_Done)
    case (1 pv fresh fee src st1)
    from 1(12) show ?thesis
    proof (elim disjE conjE exE)
      fix to0
      assume o: "t \<noteq> aid" "fmlookup (accounts st) t = Some to0"
        "st1 = put_acc t (to0\<lparr>balance_pwm := sat_add (balance_pwm to0) amount\<rparr>)
          (put_acc aid src (note_import eid (if fresh then Some pv else None) fee st))"
      show ?thesis
        by (rule others_two(1) [OF o(1,2) not_debited_credit(1), where a = src]) (simp add: 1(13) o(3))
    qed (simp add: 1(13) others_one)
  qed
next
  case (Policy t action fee)
  with run have "apply_policy ext cfg tx h aid acc t action fee st = Done st'" by (simp add: apply_body_def)
  then show ?thesis
  proof (cases rule: apply_policy_Done)
    case (1 a b st1)
    from 1(6) show ?thesis
    proof (elim disjE conjE exE)
      fix target
      assume "evacuate aid (a\<lparr>balance_pwm := balance_pwm a - fee\<rparr>) target (add_fee fee st) = Some (b, st1)"
      then show ?thesis
      proof (cases rule: evacuate_Some)
        case (rescue ta)
        have ta: "fmlookup (accounts st) target = Some ta" using rescue(2) by simp
        show ?thesis
          by (rule others_two(2) [OF rescue(1) ta not_debited_credit(2), where a = "b\<lparr>nonce := nonce b + 1\<rparr>"]) (simp add: 1(8) rescue(4))
      qed (simp add: 1(8) others_one)
    qed (simp add: 1(8) others_one)
  qed
qed

lemma others_not_debited_tx:
  assumes "apply_tx_impl ext cfg tx h ts skip st = Done st'"
  shows "others_not_debited (computed_account_id ext tx) st st'"
proof (rule apply_tx_impl_Done [OF assms])
  fix aid st1 row acc redir
  assume *: "aid = computed_account_id ext tx" "st1 = with_stub tx aid st"
    "apply_body ext cfg tx h aid acc redir st1 = Done st'"
  have "fmlookup (accounts st1) x = fmlookup (accounts st) x" if "x \<noteq> aid" for x
    using that by (simp add: *(2) with_stub_def)
  then show ?thesis
    using others_not_debited_body [OF *(3)] by (simp add: others_not_debited_def *(1))
qed

text \<open>Who may move an initialized account: the key it was bound to, with a valid signature.\<close>

lemma sender_authorized:
  assumes run: "apply_tx_impl ext cfg tx h ts False st = Done st'"
    and row: "fmlookup (accounts st) (computed_account_id ext tx) = Some a" "initialized a"
  shows "verify_sig ext tx \<and> acc_signing_pubkey a = signer_pk tx \<and> acc_derivation_index a = derivation_index tx
    \<and> nonce a = tx_nonce tx"
proof (rule apply_tx_impl_Done [OF run])
  fix aid st1 acc redir r
  assume *: "\<not> False \<Longrightarrow> verify_sig ext tx" "aid = computed_account_id ext tx" "st1 = with_stub tx aid st"
    "fmlookup (accounts st1) aid = Some r" "bind_sender tx r = Inr acc"
  have "r = a" using * row by (simp add: with_stub_def)
  then show ?thesis
    using *(1,5) row(2) by (auto simp: bind_sender_def Let_def split: if_splits)
qed

section \<open>Finalized accounts\<close>

text \<open>
  After an emergency activation the account is finalized: through the full path its only
  remaining move is a second activation of a dormant emergency policy.
\<close>

lemma finalized_blocked:
  assumes row: "fmlookup (accounts st) (computed_account_id ext tx) = Some a" "finalized a"
    and run: "apply_tx_with_ctx ext cfg tx h ts st = Done st'"
  shows "\<not> is_finalized_blocked (body tx) a"
proof
  assume b: "is_finalized_blocked (body tx) a"
  then have ni: "\<not> is_init (body tx)" by (cases "body tx") auto
  from run have run': "apply_tx_impl ext cfg tx h ts False st = Done st'" by (simp add: apply_tx_with_ctx_def)
  show False
  proof (rule apply_tx_impl_Done [OF run'])
    fix aid st1 r acc redir
    assume *: "aid = computed_account_id ext tx" "st1 = with_stub tx aid st"
      "redir \<noteq> None \<Longrightarrow> \<not> False \<and> evaluate_policy ext st1 tx h = Redirect (the redir)"
      "redir = None \<Longrightarrow> False \<or> evaluate_policy ext st1 tx h = Allow"
    have "evaluate_policy ext st1 tx h = Reject PolicyAccountFinalized"
      using row b ni by (simp add: *(1,2) with_stub_def evaluate_policy_def Let_def)
    with *(3,4) show False by (cases redir) auto
  qed
qed

end
