(* ===== verification/Pwm_Block.thy ===== *)
theory Pwm_Block
  imports Pwm_Tx_Sign
begin

text \<open>
  Block headers and the Merkle root of a block's transactions
  (src/crates/pwm-core/src/block.rs). The header hash goes through \<open>bincode\<close>, a crate: its
  encoding of a header is an argument.
\<close>

section \<open>Headers\<close>

record BlockHdr =
  bh_height :: u64
  bh_prev_hash :: bytes32
  bh_ts :: u64
  bh_prod_idx :: u32
  bh_tx_root :: bytes32
  bh_state_root :: bytes32
  bh_sig :: bytes64

record Block =
  hdr :: BlockHdr
  txs :: "SignedTx list"

definition sign_preimage :: "extlib \<Rightarrow> BlockHdr \<Rightarrow> bytes32" where
  "sign_preimage ext h = hash_header_signing_payload ext
     [le_bytes 8 (bh_height h), be_bytes 32 (bh_prev_hash h), le_bytes 8 (bh_ts h),
      le_bytes 4 (bh_prod_idx h), be_bytes 32 (bh_tx_root h), be_bytes 32 (bh_state_root h)]"

definition hdr_verify_sig :: "extlib \<Rightarrow> BlockHdr \<Rightarrow> bytes32 \<Rightarrow> bool" where
  "hdr_verify_sig ext h prod_pk = verify ext prod_pk (be_bytes 32 (sign_preimage ext h)) (bh_sig h)"

definition hdr_sign :: "extlib \<Rightarrow> bytes32 \<Rightarrow> BlockHdr \<Rightarrow> BlockHdr" where
  "hdr_sign ext sk h = h\<lparr>bh_sig := sign ext sk (be_bytes 32 (sign_preimage ext h))\<rparr>"

definition hdr_hash :: "extlib \<Rightarrow> (BlockHdr \<Rightarrow> bytes) \<Rightarrow> BlockHdr \<Rightarrow> bytes32" where
  "hdr_hash ext bincode h = x_blake3 ext (bincode h)"

lemma sign_preimage_sig [simp]: "sign_preimage ext (h\<lparr>bh_sig := s\<rparr>) = sign_preimage ext h"
  by (simp add: sign_preimage_def)

lemma hdr_sign_verifies:
  "sig_correct ext sk (be_bytes 32 (sign_preimage ext h)) \<Longrightarrow>
     hdr_verify_sig ext (hdr_sign ext sk h) (x_pubkey ext sk)"
  by (simp add: hdr_verify_sig_def hdr_sign_def verify_sign)

text \<open>The bytes a header is signed over determine every field but the signature.\<close>

definition hdr_payload :: "BlockHdr \<Rightarrow> bytes" where
  "hdr_payload h = le_bytes 8 (bh_height h) @ be_bytes 32 (bh_prev_hash h) @ le_bytes 8 (bh_ts h) @
     le_bytes 4 (bh_prod_idx h) @ be_bytes 32 (bh_tx_root h) @ be_bytes 32 (bh_state_root h)"

lemma sign_preimage_payload: "sign_preimage ext h = x_blake3 ext (as_bytes ''PWMv0/BLOCKHDR'' @ hdr_payload h)"
  by (simp add: sign_preimage_def hash_header_signing_payload_def hdr_payload_def)

lemma hdr_payload_inj:
  assumes "hdr_payload h = hdr_payload h'"
  shows "h' = h\<lparr>bh_sig := bh_sig h'\<rparr>"
proof -
  from assms have "le_bytes 8 (bh_height h) = le_bytes 8 (bh_height h')"
    "be_bytes 32 (bh_prev_hash h) = be_bytes 32 (bh_prev_hash h')"
    "le_bytes 8 (bh_ts h) = le_bytes 8 (bh_ts h')"
    "le_bytes 4 (bh_prod_idx h) = le_bytes 4 (bh_prod_idx h')"
    "be_bytes 32 (bh_tx_root h) = be_bytes 32 (bh_tx_root h')"
    "be_bytes 32 (bh_state_root h) = be_bytes 32 (bh_state_root h')"
    by (simp_all add: hdr_payload_def)
  then have "bh_height h = bh_height h'" "bh_prev_hash h = bh_prev_hash h'" "bh_ts h = bh_ts h'"
    "bh_prod_idx h = bh_prod_idx h'" "bh_tx_root h = bh_tx_root h'" "bh_state_root h = bh_state_root h'"
    by (auto dest: le_bytes_inj be_bytes_inj)
  then show ?thesis by simp
qed

section \<open>The transaction root\<close>

definition merkle_node :: "extlib \<Rightarrow> bytes32 \<Rightarrow> bytes32 \<Rightarrow> bytes32" where
  "merkle_node ext l r = x_blake3 ext (as_bytes ''PWMv0/TXNODE'' @ be_bytes 32 l @ be_bytes 32 r)"

text \<open>One pass over \<open>chunks(2)\<close>: the odd node at the end is paired with itself.\<close>

fun merkle_level :: "extlib \<Rightarrow> bytes32 list \<Rightarrow> bytes32 list" where
  "merkle_level ext [] = []"
| "merkle_level ext [a] = [merkle_node ext a a]"
| "merkle_level ext (a # b # rest) = merkle_node ext a b # merkle_level ext rest"

lemma length_merkle_level: "length (merkle_level ext xs) = (length xs + 1) div 2"
  by (induction ext xs rule: merkle_level.induct) simp_all

function merkle_reduce :: "extlib \<Rightarrow> bytes32 list \<Rightarrow> bytes32 list" where
  "merkle_reduce ext leaves =
     (if 1 < length leaves then merkle_reduce ext (merkle_level ext leaves) else leaves)"
  by auto
termination by (relation "measure (\<lambda>(ext, xs). length xs)") (auto simp: length_merkle_level)

declare merkle_reduce.simps [simp del]

definition empty_tx_root :: "extlib \<Rightarrow> bytes32" where
  "empty_tx_root ext = x_blake3 ext (as_bytes ''PWMv0/EMPTYTX'')"

definition txs_root :: "extlib \<Rightarrow> SignedTx list \<Rightarrow> bytes32" where
  "txs_root ext block_txs =
     (let leaves = map (tx_hash ext) block_txs
      in if leaves = [] then empty_tx_root ext else merkle_reduce ext leaves ! 0)"

lemma length_merkle_reduce: "xs \<noteq> [] \<Longrightarrow> length (merkle_reduce ext xs) = 1"
proof (induction ext xs rule: merkle_reduce.induct)
  case (1 ext leaves)
  show ?case
  proof (cases "1 < length leaves")
    case True
    then have "merkle_level ext leaves \<noteq> []" using length_merkle_level [of ext leaves] by auto
    then show ?thesis using True by (subst merkle_reduce.simps) (simp add: 1)
  next
    case False
    with 1(2) show ?thesis by (subst merkle_reduce.simps) (cases leaves; auto)
  qed
qed

text \<open>The inputs the hash is applied to in one level, and in the whole tree.\<close>

fun level_inputs :: "bytes32 list \<Rightarrow> bytes list" where
  "level_inputs [] = []"
| "level_inputs [a] = [as_bytes ''PWMv0/TXNODE'' @ be_bytes 32 a @ be_bytes 32 a]"
| "level_inputs (a # b # rest) = (as_bytes ''PWMv0/TXNODE'' @ be_bytes 32 a @ be_bytes 32 b) # level_inputs rest"

lemma merkle_level_inputs: "merkle_level ext xs = map (x_blake3 ext) (level_inputs xs)"
  by (induction xs rule: level_inputs.induct) (simp_all add: merkle_node_def)

function tree_inputs :: "extlib \<Rightarrow> bytes32 list \<Rightarrow> bytes list" where
  "tree_inputs ext leaves =
     (if 1 < length leaves then level_inputs leaves @ tree_inputs ext (merkle_level ext leaves) else [])"
  by auto
termination by (relation "measure (\<lambda>(ext, xs). length xs)") (auto simp: length_merkle_level)

declare tree_inputs.simps [simp del]

lemma level_inputs_inj:
  "length xs = length ys \<Longrightarrow> level_inputs xs = level_inputs ys \<Longrightarrow> xs = ys"
proof (induction xs arbitrary: ys rule: level_inputs.induct)
  case (2 a)
  then obtain b where "ys = [b]" by (cases ys) auto
  with 2 show ?case by (auto dest: be_bytes_inj)
next
  case (3 a b rest)
  then obtain c d rest' where "ys = c # d # rest'" by (cases ys; cases "tl ys"; auto)
  with 3 show ?case by (auto dest!: be_bytes_inj)
qed simp

text \<open>Two lists of the same length with one root are equal, or the hash collides within the two trees.\<close>

lemma merkle_reduce_inj:
  assumes "length xs = length ys" "merkle_reduce ext xs = merkle_reduce ext ys"
    and "inj_on (x_blake3 ext) (set (tree_inputs ext xs) \<union> set (tree_inputs ext ys))"
  shows "xs = ys"
  using assms
proof (induction ext xs arbitrary: ys rule: merkle_reduce.induct)
  case (1 ext xs)
  show ?case
  proof (cases "1 < length xs")
    case False
    with 1(2,3) show ?thesis by (simp add: merkle_reduce.simps [of ext xs] merkle_reduce.simps [of ext ys])
  next
    case True
    then have ti: "tree_inputs ext xs = level_inputs xs @ tree_inputs ext (merkle_level ext xs)"
      "tree_inputs ext ys = level_inputs ys @ tree_inputs ext (merkle_level ext ys)"
      using 1(2) by (simp_all add: tree_inputs.simps [of ext xs] tree_inputs.simps [of ext ys])
    have "merkle_level ext xs = merkle_level ext ys"
    proof (rule 1(1) [OF True])
      show "length (merkle_level ext xs) = length (merkle_level ext ys)"
        using 1(2) by (simp add: length_merkle_level)
      show "merkle_reduce ext (merkle_level ext xs) = merkle_reduce ext (merkle_level ext ys)"
        using 1(2,3) True by (simp add: merkle_reduce.simps [of ext xs] merkle_reduce.simps [of ext ys])
      show "inj_on (x_blake3 ext) (set (tree_inputs ext (merkle_level ext xs)) \<union> set (tree_inputs ext (merkle_level ext ys)))"
        using 1(4) by (rule inj_on_subset) (auto simp: ti)
    qed
    then have "map (x_blake3 ext) (level_inputs xs) = map (x_blake3 ext) (level_inputs ys)"
      by (simp add: merkle_level_inputs)
    moreover have "inj_on (x_blake3 ext) (set (level_inputs xs) \<union> set (level_inputs ys))"
      using 1(4) by (rule inj_on_subset) (auto simp: ti)
    ultimately have "level_inputs xs = level_inputs ys" by (rule inj_on_map_eq_map [THEN iffD1, rotated])
    then show ?thesis by (rule level_inputs_inj [OF 1(2)])
  qed
qed

text \<open>
  The pairing of an odd node with itself: repeating the last leaf of an odd list does not
  change the level above it.
\<close>

lemma merkle_level_repeat_last:
  "odd (length xs) \<Longrightarrow> merkle_level ext (xs @ [last xs]) = merkle_level ext xs"
  by (induction ext xs rule: merkle_level.induct) auto

lemma merkle_reduce_repeat_last:
  assumes "odd (length xs)" "1 < length xs"
  shows "merkle_reduce ext (xs @ [last xs]) = merkle_reduce ext xs"
  using assms
  by (subst (1 2) merkle_reduce.simps) (auto simp: merkle_level_repeat_last)

end
