(* ===== verification/Pwm_Chain.thy ===== *)
theory Pwm_Chain
  imports Pwm_Outcome Pwm_Block
begin

text \<open>
  The chain (src/crates/pwm-core/src/chain.rs) on top of the ledger: boot, the apply
  context, sealing a block from raw and prevalidated entries, and the retained tail.

  \<open>VecDeque<Block>\<close> is a list with the newest block last. The encodings of \<open>bincode\<close>
  (header, state) are the fields of \<open>codecs\<close>; the wall clock is an argument (\<open>None\<close> is the
  error of a clock before the epoch).
\<close>

record codecs =
  enc_hdr :: "BlockHdr \<Rightarrow> bytes"
  enc_state :: "State \<Rightarrow> bytes"

section \<open>Genesis state\<close>

text \<open>\<open>GenCfg::state0\<close>: one insert per funding row, in order; the last row of an account wins.\<close>

definition genesis_row :: "GRow \<Rightarrow> Account" where
  "genesis_row r = (genesis_funded (gr_pubkey r) (gr_der_idx r) (gr_bal r))
     \<lparr>stored_marks := ucast (min (gr_bal r div PWM_RAW_SCALE) (ucast MARKS_CAP))\<rparr>"

definition state0 :: "GenCfg \<Rightarrow> State" where
  "state0 cfg = fold (\<lambda>r st. st\<lparr>accounts := fmupd (gr_acct r) (genesis_row r) (accounts st)\<rparr>)
     (fc_accounts (funding cfg)) state_default"

section \<open>Data\<close>

datatype SealEntry = Raw SignedTx | PreValidated SignedTx u64

fun entry_tx :: "SealEntry \<Rightarrow> SignedTx" where
  "entry_tx (Raw tx) = tx"
| "entry_tx (PreValidated tx _) = tx"

definition TAIL_BLOCK_CAP :: nat where
  "TAIL_BLOCK_CAP = 1000"

definition prev_gen :: "extlib \<Rightarrow> bytes32" where
  "prev_gen ext = x_blake3 ext (as_bytes ''PWMv0/GENESIS'')"

datatype SealTimeMode = WallClock | DeterministicHeight

definition DET_SEAL_TS_BASE :: u64 where
  "DET_SEAL_TS_BASE = 1700000000"

record Chain =
  ch_cfg :: GenCfg
  val_sks :: "bytes32 list"
  blocks :: "Block list"
  canonical_h :: u64
  ch_st :: State
  seal_time_mode :: SealTimeMode

section \<open>Boot and accessors\<close>

text \<open>\<open>Chain::boot\<close>; every \<open>assert\<close> that fails is a panic, the \<open>None\<close> here.\<close>

definition boot :: "GenCfg \<Rightarrow> bytes32 list \<Rightarrow> Chain option" where
  "boot cfg sks =
     (if length (vc_set (vals cfg)) \<noteq> length sks then None
      else if vc_set (vals cfg) = [] then None
      else if gen_accounts cfg \<noteq> fc_accounts (funding cfg) then None
      else let st = state0 cfg;
               st = st\<lparr>active_validator_indices := recompute_active_idxs cfg st\<rparr>
        in if \<not> list_all (\<lambda>v. fmlookup (accounts st) (vr_acct v) \<noteq> None) (vc_set (vals cfg)) then None
           else Some \<lparr> ch_cfg = cfg, val_sks = sks, blocks = [], canonical_h = 0, ch_st = st,
                       seal_time_mode = WallClock \<rparr>)"

definition tip_h :: "Chain \<Rightarrow> u64" where
  "tip_h c = canonical_h c"

definition tip_hash :: "extlib \<Rightarrow> codecs \<Rightarrow> Chain \<Rightarrow> bytes32" where
  "tip_hash ext enc c =
     (if blocks c = [] then prev_gen ext else hdr_hash ext (enc_hdr enc) (hdr (last (blocks c))))"

definition set_canon_h :: "u64 \<Rightarrow> Chain \<Rightarrow> Chain" where
  "set_canon_h h c = c\<lparr>canonical_h := h\<rparr>"

definition sync_canon_h :: "Chain \<Rightarrow> Chain" where
  "sync_canon_h c = c\<lparr>canonical_h := (if blocks c = [] then 0 else bh_height (hdr (last (blocks c))))\<rparr>"

definition set_seal_time_mode :: "SealTimeMode \<Rightarrow> Chain \<Rightarrow> Chain" where
  "set_seal_time_mode m c = c\<lparr>seal_time_mode := m\<rparr>"

definition append_unavailable_proposer_evidence ::
  "extlib \<Rightarrow> (EvidenceType \<Rightarrow> bytes) \<Rightarrow> u64 \<Rightarrow> u16 \<Rightarrow> bytes32 \<Rightarrow> Chain \<Rightarrow> (TxError + bytes32) \<times> Chain" where
  "append_unavailable_proposer_evidence ext enc height offender payload_hash c =
     (let (r, st) = append_evidence ext enc height offender UnavailableProposer payload_hash None (ch_st c)
      in (r, c\<lparr>ch_st := st\<rparr>))"

text \<open>
  \<open>next_apply_ctx\<close>: \<open>tip_h() + 1\<close> panics at the top of the range; an error of the clock is
  the inner \<open>Inl\<close>.
\<close>

definition next_apply_ctx :: "u64 option \<Rightarrow> Chain \<Rightarrow> (string + u64 \<times> u64) option" where
  "next_apply_ctx clock c = (case checked_add (tip_h c) 1 of
     None \<Rightarrow> None
   | Some height \<Rightarrow> Some (case seal_time_mode c of
       WallClock \<Rightarrow> (case clock of
           None \<Rightarrow> Inl ''second time provided was later than self''
         | Some now \<Rightarrow> Inr (height, now))
     | DeterministicHeight \<Rightarrow> Inr (height, sat_add DET_SEAL_TS_BASE height)))"

section \<open>Sealing\<close>

datatype SealError =
    SealClock string
  | SealNoValidators string
  | SealTx TxError
  | SealProducerMissing AccountId

text \<open>One entry: a prevalidated one skips the checks only at the height it was checked for.\<close>

definition apply_entry :: "extlib \<Rightarrow> GenCfg \<Rightarrow> u64 \<Rightarrow> u64 \<Rightarrow> u64 \<Rightarrow> SealEntry \<Rightarrow> State \<Rightarrow> (TxError, State) outcome" where
  "apply_entry ext cfg tip_before height ts entry st = (case entry of
     Raw tx \<Rightarrow> apply_tx_with_ctx ext cfg tx height ts st
   | PreValidated tx at_height \<Rightarrow>
       if at_height = tip_before then apply_prechecked_tx ext cfg tx height ts st
       else apply_tx_with_ctx ext cfg tx height ts st)"

definition pay_producer :: "GenCfg \<Rightarrow> u64 \<Rightarrow> AccountId \<Rightarrow> State \<Rightarrow> State" where
  "pay_producer cfg height producer st =
     (if is_legacy_policy cfg then reward_producer producer (block_reward cfg) st
      else reward_producer_v2 producer (compute_block_reward cfg height) (pwm_stake_min cfg) 1000000 st)"

text \<open>The state part of a seal: what the block does to the ledger and who produces it.\<close>

definition seal_state ::
  "extlib \<Rightarrow> GenCfg \<Rightarrow> u64 \<Rightarrow> u64 \<Rightarrow> u64 \<Rightarrow> SealEntry list \<Rightarrow> State \<Rightarrow> (SealError, State \<times> u32) outcome" where
  "seal_state ext cfg tip_before height ts entries st0 =
     (let st = roll_epoch_if_needed cfg height st0
      in case pick_prod_idx height (active_validator_indices st) of
        Inl e \<Rightarrow> Failed (SealNoValidators e) (st0, 0)
      | Inr prod_idx \<Rightarrow>
          (case run_steps (apply_entry ext cfg tip_before height ts) entries (refund_exp_locks height st) of
             Panicked \<Rightarrow> Panicked
           | Failed e _ \<Rightarrow> Failed (SealTx e) (st0, 0)
           | Done st \<Rightarrow>
               (case drain_conservation_at_height cfg height (refund_exp_locks height st) of
                  Panicked \<Rightarrow> Panicked
                | Failed e _ \<Rightarrow> Panicked
                | Done st \<Rightarrow>
                    (case prod_acct cfg prod_idx of
                       None \<Rightarrow> Panicked
                     | Some producer \<Rightarrow>
                         if fmlookup (accounts st) producer = None
                         then Failed (SealProducerMissing producer) (st0, 0)
                         else Done (pay_producer cfg height producer st, prod_idx)))))"

text \<open>Dropping from the front while the tail is over the cap.\<close>

function pop_tail :: "Block list \<Rightarrow> Block list" where
  "pop_tail bs = (if TAIL_BLOCK_CAP < length bs then pop_tail (tl bs) else bs)"
  by auto
termination by (relation "measure length") (auto simp: TAIL_BLOCK_CAP_def)

declare pop_tail.simps [simp del]

definition seal_entries ::
  "extlib \<Rightarrow> codecs \<Rightarrow> u64 option \<Rightarrow> SealEntry list \<Rightarrow> Chain \<Rightarrow> (SealError \<times> SignedTx list, Chain) outcome" where
  "seal_entries ext enc clock entries c =
     (let block_txs = map entry_tx entries; tip_before = tip_h c
      in case next_apply_ctx clock c of
        None \<Rightarrow> Panicked
      | Some (Inl e) \<Rightarrow> Failed (SealClock e, block_txs) c
      | Some (Inr (height, ts)) \<Rightarrow>
          (case seal_state ext (ch_cfg c) tip_before height ts entries (ch_st c) of
             Panicked \<Rightarrow> Panicked
           | Failed e _ \<Rightarrow> Failed (e, block_txs) c
           | Done (st, prod_idx) \<Rightarrow>
               let h = \<lparr> bh_height = height, bh_prev_hash = tip_hash ext enc c, bh_ts = ts,
                         bh_prod_idx = prod_idx, bh_tx_root = txs_root ext block_txs,
                         bh_state_root = state_digest ext (enc_state enc) st, bh_sig = 0 \<rparr>
               in if unat prod_idx < length (val_sks c)
                  then let blk = \<lparr> hdr = hdr_sign ext (val_sks c ! unat prod_idx) h, txs = block_txs \<rparr>
                    in Done (c\<lparr>ch_st := st, blocks := pop_tail (blocks c @ [blk]), canonical_h := height\<rparr>)
                  else Panicked))"

definition seal ::
  "extlib \<Rightarrow> codecs \<Rightarrow> u64 option \<Rightarrow> SignedTx list \<Rightarrow> Chain \<Rightarrow> (SealError \<times> SignedTx list, Chain) outcome" where
  "seal ext enc clock block_txs c = seal_entries ext enc clock (map Raw block_txs) c"

definition absorb_blocks_tail :: "Block list \<Rightarrow> Block list" where
  "absorb_blocks_tail bs = pop_tail bs"

section \<open>The tail\<close>

lemma pop_tail_drop: "pop_tail bs = drop (length bs - TAIL_BLOCK_CAP) bs"
proof (induction bs rule: pop_tail.induct)
  case (1 bs)
  show ?case
  proof (cases "TAIL_BLOCK_CAP < length bs")
    case True
    then have "length bs - TAIL_BLOCK_CAP = Suc (length bs - Suc TAIL_BLOCK_CAP)" by simp
    with 1 [OF True] True show ?thesis
      by (subst pop_tail.simps) (simp add: drop_Suc)
  qed (subst pop_tail.simps, simp)
qed

lemma length_pop_tail: "length (pop_tail bs) = min (length bs) TAIL_BLOCK_CAP"
  by (auto simp: pop_tail_drop)

lemma last_pop_tail: "bs \<noteq> [] \<Longrightarrow> pop_tail bs \<noteq> [] \<and> last (pop_tail bs) = last bs"
proof -
  assume "bs \<noteq> []"
  then have "length bs - TAIL_BLOCK_CAP < length bs" by (simp add: TAIL_BLOCK_CAP_def)
  then show ?thesis by (simp add: pop_tail_drop)
qed

section \<open>A seal as a run of ledger operations\<close>

text \<open>The operations one block performs on the state, in the order the code calls them.\<close>

fun entry_op :: "u64 \<Rightarrow> u64 \<Rightarrow> u64 \<Rightarrow> SealEntry \<Rightarrow> LedgerOp" where
  "entry_op tip_before height ts (Raw tx) = OpTx tx height ts False"
| "entry_op tip_before height ts (PreValidated tx at_height) = OpTx tx height ts (at_height = tip_before)"

definition reward_op :: "GenCfg \<Rightarrow> u64 \<Rightarrow> AccountId \<Rightarrow> LedgerOp" where
  "reward_op cfg height producer =
     (if is_legacy_policy cfg then OpReward producer (block_reward cfg)
      else OpRewardV2 producer (compute_block_reward cfg height) (pwm_stake_min cfg) 1000000)"

definition block_ops :: "GenCfg \<Rightarrow> u64 \<Rightarrow> u64 \<Rightarrow> u64 \<Rightarrow> SealEntry list \<Rightarrow> AccountId \<Rightarrow> LedgerOp list" where
  "block_ops cfg tip_before height ts entries producer =
     [OpRoll height, OpRefund height] @ map (entry_op tip_before height ts) entries @
     [OpRefund height, OpDrain height, reward_op cfg height producer]"

lemma apply_entry_op: "apply_entry ext cfg tip height ts e st = ledger_op ext cfg (entry_op tip height ts e) st"
  by (cases e) (simp_all add: apply_entry_def apply_tx_with_ctx_def apply_prechecked_tx_def)

lemma run_entries: "run_steps (apply_entry ext cfg tip height ts) es st =
    run_steps (ledger_op ext cfg) (map (entry_op tip height ts) es) st"
  by (induction es arbitrary: st) (simp_all add: apply_entry_op split: outcome.split)

lemma pay_producer_op: "ledger_op ext cfg (reward_op cfg h p) st = Done (pay_producer cfg h p st)"
  by (simp add: reward_op_def pay_producer_def)

lemma seal_state_ops:
  assumes "seal_state ext cfg tip height ts entries st0 = Done (st, prod_idx)"
  obtains producer where "prod_acct cfg prod_idx = Some producer"
    "pick_prod_idx height (active_validator_indices (roll_epoch_if_needed cfg height st0)) = Inr prod_idx"
    "run_steps (ledger_op ext cfg) (block_ops cfg tip height ts entries producer) st0 = Done st"
proof -
  define st1 where "st1 = refund_exp_locks height (roll_epoch_if_needed cfg height st0)"
  from assms obtain st2 st3 producer where
    1: "pick_prod_idx height (active_validator_indices (roll_epoch_if_needed cfg height st0)) = Inr prod_idx"
    "run_steps (apply_entry ext cfg tip height ts) entries st1 = Done st2"
    "drain_conservation_at_height cfg height (refund_exp_locks height st2) = Done st3"
    "prod_acct cfg prod_idx = Some producer" "st = pay_producer cfg height producer st3"
    by (auto simp: seal_state_def Let_def st1_def split: sum.splits outcome.splits option.splits if_splits)
  have "run_steps (ledger_op ext cfg) (block_ops cfg tip height ts entries producer) st0 = Done st"
    using 1(2,3) by (simp add: block_ops_def run_steps_append run_entries st1_def [symmetric] pay_producer_op 1(5))
  with 1 that show thesis by blast
qed

lemma seal_Done:
  assumes "seal_entries ext enc clock entries c = Done c'"
  obtains height ts st prod_idx h where
    "next_apply_ctx clock c = Some (Inr (height, ts))"
    "seal_state ext (ch_cfg c) (tip_h c) height ts entries (ch_st c) = Done (st, prod_idx)"
    "h = \<lparr> bh_height = height, bh_prev_hash = tip_hash ext enc c, bh_ts = ts,
           bh_prod_idx = prod_idx, bh_tx_root = txs_root ext (map entry_tx entries),
           bh_state_root = state_digest ext (enc_state enc) st, bh_sig = 0 \<rparr>"
    "unat prod_idx < length (val_sks c)"
    "c' = c\<lparr>ch_st := st, blocks := pop_tail (blocks c @
        [\<lparr> hdr = hdr_sign ext (val_sks c ! unat prod_idx) h, txs = map entry_tx entries \<rparr>]), canonical_h := height\<rparr>"
  using assms
  by (auto simp: seal_entries_def Let_def split: option.splits sum.splits outcome.splits prod.splits if_splits)

lemma next_apply_ctx_height:
  "next_apply_ctx clock c = Some (Inr (height, ts)) \<Longrightarrow>
     unat height = Suc (unat (canonical_h c)) \<and> height = canonical_h c + 1"
  by (auto simp: next_apply_ctx_def tip_h_def checked_add_def unat_Suc_nonce
      split: option.splits SealTimeMode.splits if_splits)

section \<open>Reachable chains\<close>

inductive chain_step :: "extlib \<Rightarrow> codecs \<Rightarrow> Chain \<Rightarrow> Chain \<Rightarrow> bool"
  for ext :: extlib and enc :: codecs where
  step_seal: "seal_entries ext enc clock entries c = Done c' \<Longrightarrow> chain_step ext enc c c'"
| step_evidence: "append_unavailable_proposer_evidence ext evc h off ph c = (r, c') \<Longrightarrow> chain_step ext enc c c'"
| step_mode: "chain_step ext enc c (set_seal_time_mode m c)"

inductive chain_reach :: "extlib \<Rightarrow> codecs \<Rightarrow> GenCfg \<Rightarrow> bytes32 list \<Rightarrow> Chain \<Rightarrow> bool"
  for ext :: extlib and enc :: codecs and cfg :: GenCfg and sks :: "bytes32 list" where
  reach_boot: "boot cfg sks = Some c \<Longrightarrow> chain_reach ext enc cfg sks c"
| reach_step: "chain_reach ext enc cfg sks c \<Longrightarrow> chain_step ext enc c c' \<Longrightarrow> chain_reach ext enc cfg sks c'"

inductive_cases chain_stepE: "chain_step ext enc c c'"

text \<open>The links of the retained tail: consecutive heights, each block names its parent's hash.\<close>

fun linked :: "extlib \<Rightarrow> codecs \<Rightarrow> Block list \<Rightarrow> bool" where
  "linked ext enc [] = True"
| "linked ext enc [b] = True"
| "linked ext enc (a # b # rest) \<longleftrightarrow>
     unat (bh_height (hdr b)) = Suc (unat (bh_height (hdr a))) \<and>
     bh_prev_hash (hdr b) = hdr_hash ext (enc_hdr enc) (hdr a) \<and> linked ext enc (b # rest)"

definition tail_ok :: "extlib \<Rightarrow> codecs \<Rightarrow> Chain \<Rightarrow> bool" where
  "tail_ok ext enc c \<longleftrightarrow> linked ext enc (blocks c) \<and> length (blocks c) \<le> TAIL_BLOCK_CAP \<and>
     (blocks c = [] \<longrightarrow> canonical_h c = 0) \<and>
     (blocks c \<noteq> [] \<longrightarrow> bh_height (hdr (last (blocks c))) = canonical_h c)"

lemma linked_append:
  "linked ext enc (bs @ [b]) \<longleftrightarrow> linked ext enc bs \<and> (bs \<noteq> [] \<longrightarrow>
     unat (bh_height (hdr b)) = Suc (unat (bh_height (hdr (last bs)))) \<and>
     bh_prev_hash (hdr b) = hdr_hash ext (enc_hdr enc) (hdr (last bs)))"
proof (induction bs)
  case (Cons a bs)
  then show ?case by (cases bs) auto
qed simp

lemma linked_tl: "linked ext enc bs \<Longrightarrow> linked ext enc (tl bs)"
  by (cases bs; cases "tl bs") auto

lemma linked_drop: "linked ext enc bs \<Longrightarrow> linked ext enc (drop n bs)"
  by (induction n arbitrary: bs) (simp_all add: drop_Suc linked_tl)

lemma hdr_sign_fields [simp]:
  "bh_height (hdr_sign ext sk h) = bh_height h" "bh_prev_hash (hdr_sign ext sk h) = bh_prev_hash h"
  "bh_prod_idx (hdr_sign ext sk h) = bh_prod_idx h" "bh_ts (hdr_sign ext sk h) = bh_ts h"
  "bh_tx_root (hdr_sign ext sk h) = bh_tx_root h" "bh_state_root (hdr_sign ext sk h) = bh_state_root h"
  by (simp_all add: hdr_sign_def)

lemma seal_tail_ok:
  assumes inv: "tail_ok ext enc c" and run: "seal_entries ext enc clock entries c = Done c'"
  shows "tail_ok ext enc c'"
  using run
proof (cases rule: seal_Done)
  case (1 height ts st prod_idx h)
  let ?b = "\<lparr> hdr = hdr_sign ext (val_sks c ! unat prod_idx) h, txs = map entry_tx entries \<rparr>"
  have "linked ext enc (blocks c @ [?b])"
    using inv next_apply_ctx_height [OF 1(1)]
    by (auto simp: linked_append tail_ok_def 1(3) tip_hash_def)
  then have "linked ext enc (pop_tail (blocks c @ [?b]))" unfolding pop_tail_drop by (rule linked_drop)
  then have "linked ext enc (blocks c')" by (simp add: 1(5))
  moreover have "length (blocks c') \<le> TAIL_BLOCK_CAP" by (simp add: 1(5) length_pop_tail)
  moreover have "blocks c' \<noteq> []" "last (blocks c') = ?b"
    using last_pop_tail [of "blocks c @ [?b]"] by (simp_all add: 1(5))
  ultimately show ?thesis by (simp add: tail_ok_def 1(5) 1(3))
qed

lemma boot_Some:
  assumes "boot cfg sks = Some c"
  shows "blocks c = []" "canonical_h c = 0" "ch_cfg c = cfg" "val_sks c = sks" "length sks = length (vc_set (vals cfg))"
    "accounts (ch_st c) = accounts (state0 cfg)" "pending_conservation (ch_st c) = pending_conservation (state0 cfg)"
    "cross_shard_locks (ch_st c) = cross_shard_locks (state0 cfg)"
    "exported_registry (ch_st c) = exported_registry (state0 cfg)" "evidence_log (ch_st c) = evidence_log (state0 cfg)"
    "active_validator_indices (ch_st c) = recompute_active_idxs cfg (state0 cfg)"
  using assms by (auto simp: boot_def Let_def split: if_splits)

lemma state0_eq:
  "state0 cfg = state_default\<lparr>accounts :=
     fold (\<lambda>r. fmupd (gr_acct r) (genesis_row r)) (fc_accounts (funding cfg)) fmempty\<rparr>"
proof -
  have "fold (\<lambda>r st. st\<lparr>accounts := fmupd (gr_acct r) (genesis_row r) (accounts st)\<rparr>) rows st =
      st\<lparr>accounts := fold (\<lambda>r. fmupd (gr_acct r) (genesis_row r)) rows (accounts st)\<rparr>"
    for rows and st :: State
    by (induction rows arbitrary: st) simp_all
  then show ?thesis by (simp add: state0_def state_default_def)
qed

lemma state0_rest:
  "pending_conservation (state0 cfg) = []" "cross_shard_locks (state0 cfg) = []"
  "exported_registry (state0 cfg) = fmempty" "evidence_log (state0 cfg) = []" "fee_pool (state0 cfg) = 0"
  by (simp_all add: state0_eq state_default_def)

text \<open>Everything the ledger promises holds in every reachable chain.\<close>

definition chain_inv :: "extlib \<Rightarrow> codecs \<Rightarrow> GenCfg \<Rightarrow> bytes32 list \<Rightarrow> Chain \<Rightarrow> bool" where
  "chain_inv ext enc cfg sks c \<longleftrightarrow> tail_ok ext enc c \<and> ch_cfg c = cfg \<and> val_sks c = sks \<and>
     pending_inv (ch_st c) \<and> xshard_inv (ch_st c) \<and> distinct (map ev_record_id (evidence_log (ch_st c)))"


lemma boot_inv:
  assumes "boot cfg sks = Some c"
  shows "chain_inv ext enc cfg sks c"
  using boot_Some [OF assms]
  by (simp add: chain_inv_def tail_ok_def pending_inv_def xshard_inv_def lock_ids_def state0_rest)

text \<open>What the ledger guarantees along the operations of a block.\<close>

lemma block_ops_inv:
  assumes "pending_inv st0" "xshard_inv st0" "run_steps (ledger_op ext cfg) ops st0 = Done st"
  shows "pending_inv st" "xshard_inv st" "evidence_log st = evidence_log st0" "nonces_grow st0 st"
  using ledger.run_inv [OF assms(1,3)] xledger.run_inv [OF assms(2,3)] xledger.run_rel [OF assms(2,3)]
    ledger.run_rel [OF assms(1,3)] by (simp_all add: consumed_grow_def)

lemma seal_inv:
  assumes inv: "chain_inv ext enc cfg sks c" and run: "seal_entries ext enc clock entries c = Done c'"
  shows "chain_inv ext enc cfg sks c'"
proof -
  have tail: "tail_ok ext enc c'" using inv seal_tail_ok [OF _ run] by (simp add: chain_inv_def)
  from run show ?thesis
  proof (cases rule: seal_Done)
    case (1 height ts st prod_idx h)
    from 1(2) obtain ops where "run_steps (ledger_op ext (ch_cfg c)) ops (ch_st c) = Done st"
      by (rule seal_state_ops)
    from block_ops_inv [OF _ _ this] inv tail show ?thesis by (simp add: chain_inv_def 1(5))
  qed
qed

lemma evidence_inv:
  assumes inv: "chain_inv ext enc cfg sks c"
    and run: "append_unavailable_proposer_evidence ext evc h off ph c = (r, c')"
  shows "chain_inv ext enc cfg sks c'"
proof -
  define res where "res = append_evidence ext evc h off UnavailableProposer ph None (ch_st c)"
  have c': "c' = c\<lparr>ch_st := snd res\<rparr>"
    using run by (auto simp: append_unavailable_proposer_evidence_def res_def split: prod.splits)
  have st: "snd res = ch_st c \<or> (\<exists>log. snd res = ch_st c\<lparr>evidence_log := log\<rparr>)"
    by (auto simp: res_def append_evidence_def Let_def)
  have "pending_inv (snd res) \<and> xshard_inv (snd res)"
    using st
  proof
    assume "\<exists>log. snd res = ch_st c\<lparr>evidence_log := log\<rparr>"
    then obtain log where l: "snd res = ch_st c\<lparr>evidence_log := log\<rparr>" ..
    have "accounts (snd res) = accounts (ch_st c)" by (simp add: l)
    from pending_inv_view [OF nonce_of_cong [OF this]] inv xshard_keep [of "ch_st c" "snd res"]
    show ?thesis by (simp add: l chain_inv_def)
  qed (use inv in \<open>simp add: chain_inv_def\<close>)
  moreover have "distinct (map ev_record_id (evidence_log (snd res)))"
    using inv unfolding res_def chain_inv_def by (intro append_evidence_distinct) simp
  ultimately show ?thesis using inv by (simp add: chain_inv_def c' tail_ok_def)
qed

lemma step_inv:
  assumes "chain_inv ext enc cfg sks c" "chain_step ext enc c c'"
  shows "chain_inv ext enc cfg sks c'"
proof (rule chain_stepE [OF assms(2)])
  fix m assume "c' = set_seal_time_mode m c"
  with assms(1) show ?thesis by (simp add: chain_inv_def tail_ok_def set_seal_time_mode_def)
qed (use assms(1) seal_inv evidence_inv in blast)+

lemma reach_inv: "chain_reach ext enc cfg sks c \<Longrightarrow> chain_inv ext enc cfg sks c"
  by (induction rule: chain_reach.induct) (auto intro: boot_inv step_inv)

section \<open>Active validators\<close>

text \<open>The active indices always point into the validator set.\<close>

definition active_ok :: "GenCfg \<Rightarrow> State \<Rightarrow> bool" where
  "active_ok cfg st \<longleftrightarrow>
     list_all (\<lambda>i. unat i < length (vc_set (vals cfg))) (active_validator_indices st)"

lemma body_active:
  assumes "apply_body ext cfg tx h aid acc redir st = Done st'"
  shows "active_validator_indices st' = active_validator_indices st"
proof -
  have rel: "active_validator_indices (release_lock i s) = active_validator_indices s" for i s
    by (simp add: release_lock_def split: option.split)
  have reg: "active_validator_indices (register_export e pv lk s) = active_validator_indices s" for e pv lk s
    by (simp add: register_export_def Let_def)
  have imp: "active_validator_indices (note_import e pv f s) = active_validator_indices s" for e pv f s
    by (simp add: note_import_def Let_def split: option.split)
  show ?thesis
    using assms
    by (cases "body tx")
       (auto simp: apply_body_def rel reg imp elim!: apply_init_Done apply_transfer_Done apply_stake_Done
          apply_unstake_Done apply_burn_Done apply_claim_Done apply_export_Done apply_import_Done
          apply_policy_Done evacuate_Some)
qed

lemma tx_active:
  assumes "apply_tx_impl ext cfg tx h ts skip st = Done st'"
  shows "active_validator_indices st' = active_validator_indices st"
proof (rule apply_tx_impl_Done [OF assms])
  fix aid st1 row acc redir
  assume st1: "st1 = with_stub tx aid st" and run: "apply_body ext cfg tx h aid acc redir st1 = Done st'"
  from st1 have "active_validator_indices st1 = active_validator_indices st" by simp
  with body_active [OF run] show ?thesis by simp
qed

lemma drain_loop_active:
  "drain_loop cfg h rows remaining st = Done st' \<Longrightarrow> active_validator_indices st' = active_validator_indices st"
proof (induction cfg h rows remaining st rule: drain_loop.induct)
  case (2 cfg h row rows remaining st)
  then show ?case
    by (cases "apply_due_conservation cfg row h st")
       (auto dest: due_Failed_state elim!: apply_due_Done split: if_splits)
qed auto

lemma drain_active:
  "drain_conservation_at_height cfg h st = Done st' \<Longrightarrow> active_validator_indices st' = active_validator_indices st"
  unfolding drain_conservation_at_height_def by (drule drain_loop_active) simp

lemma recompute_active_ok:
  "length (vc_set (vals cfg)) \<le> 2 ^ 16 \<Longrightarrow> active_validator_indices st' = recompute_active_idxs cfg st \<Longrightarrow> active_ok cfg st'"
  using active_idx_staked(1) [of cfg _ st] by (auto simp: active_ok_def list_all_iff)

lemma roll_active_ok:
  "length (vc_set (vals cfg)) \<le> 2 ^ 16 \<Longrightarrow> active_ok cfg st \<Longrightarrow> active_ok cfg (roll_epoch_if_needed cfg h st)"
  using recompute_active_ok [of cfg "roll_epoch_if_needed cfg h st" st]
  by (auto simp: roll_epoch_if_needed_def)

lemma active_ok_cong:
  assumes "active_ok cfg st" "active_validator_indices st' = active_validator_indices st"
  shows "active_ok cfg st'"
  using assms unfolding active_ok_def by argo

lemma ledger_op_active_ok:
  assumes small: "length (vc_set (vals cfg)) \<le> 2 ^ 16" and ok: "active_ok cfg st"
    and run: "ledger_op ext cfg op st = Done st'"
  shows "active_ok cfg st'"
proof (cases op)
  case (OpRoll h)
  with run roll_active_ok [OF small ok] show ?thesis by auto
next
  case (OpTx tx h ts skip)
  with run show ?thesis by (intro active_ok_cong [OF ok] tx_active) simp
next
  case (OpDrain h)
  with run show ?thesis by (intro active_ok_cong [OF ok] drain_active) simp
next
  case (OpRewardV2 p r m s)
  with run reward_v2_as_credit [of p r m s st] show ?thesis
    by (intro active_ok_cong [OF ok]) (auto simp: reward_producer_def)
qed (use run in \<open>auto intro!: active_ok_cong [OF ok] simp: reward_producer_def refund_exp_locks_spec\<close>)

definition active_inv :: "GenCfg \<Rightarrow> State \<Rightarrow> bool" where
  "active_inv cfg st \<longleftrightarrow> (length (vc_set (vals cfg)) \<le> 2 ^ 16 \<longrightarrow> active_ok cfg st)"

interpretation active_ledger: guarded_steps "ledger_op ext cfg" "active_inv cfg" "\<lambda>_ _. True"
  by unfold_locales (use ledger_op_active_ok in \<open>auto simp: active_inv_def\<close>)

lemma boot_active: "boot cfg sks = Some c \<Longrightarrow> active_inv cfg (ch_st c)"
  using boot_Some(11) recompute_active_ok by (simp add: active_inv_def)

lemma step_active:
  assumes cfg: "ch_cfg c = cfg" and ok: "active_inv cfg (ch_st c)" and run: "chain_step ext enc c c'"
  shows "active_inv cfg (ch_st c')"
proof (rule chain_stepE [OF run])
  fix clock entries
  assume "seal_entries ext enc clock entries c = Done c'"
  then show ?thesis
  proof (cases rule: seal_Done)
    case (1 height ts st prod_idx h)
    from 1(2) obtain ops where "run_steps (ledger_op ext cfg) ops (ch_st c) = Done st"
      unfolding cfg by (rule seal_state_ops)
    from active_ledger.run_inv [OF ok this] show ?thesis by (simp add: 1(5))
  qed
next
  fix evc h off ph r
  assume run: "append_unavailable_proposer_evidence ext evc h off ph c = (r, c')"
  have "active_validator_indices (ch_st c') = active_validator_indices (ch_st c)"
    using run by (auto simp: append_unavailable_proposer_evidence_def append_evidence_def Let_def split: if_splits)
  with ok show ?thesis by (auto simp: active_inv_def intro: active_ok_cong)
next
  fix m assume "c' = set_seal_time_mode m c"
  with ok show ?thesis by (simp add: set_seal_time_mode_def)
qed

lemma reach_active: "chain_reach ext enc cfg sks c \<Longrightarrow> active_inv cfg (ch_st c)"
proof (induction rule: chain_reach.induct)
  case (reach_step c c')
  have "ch_cfg c = cfg" using reach_inv [OF reach_step(1)] by (simp add: chain_inv_def)
  from step_active [OF this reach_step(3,2)] show ?case .
qed (rule boot_active)

text \<open>The producer of a sealed block: in range, and staked when the epoch begins with this block.\<close>

lemma seal_producer:
  assumes small: "length (vc_set (vals (ch_cfg c))) \<le> 2 ^ 16" and ok: "active_inv (ch_cfg c) (ch_st c)"
    and run: "seal_state ext (ch_cfg c) tip height ts entries (ch_st c) = Done (st, prod_idx)"
  shows "unat prod_idx < length (vc_set (vals (ch_cfg c)))"
    and "is_epoch_boundary height (ch_cfg c) \<Longrightarrow>
      staked_validator (ch_cfg c) (ch_st c) (vc_set (vals (ch_cfg c)) ! unat prod_idx)"
proof -
  let ?st = "roll_epoch_if_needed (ch_cfg c) height (ch_st c)"
  from run have "pick_prod_idx height (active_validator_indices ?st) = Inr prod_idx"
    by (rule seal_state_ops)
  from pick_prod_idx_mem [OF this] obtain i where i: "i \<in> set (active_validator_indices ?st)" "prod_idx = ucast i" by blast
  have u: "unat prod_idx = unat i"
    by (simp add: i(2) unsigned_ucast_eq take_bit_nat_eq_self order_less_le_trans [OF unsigned_less])
  have "active_ok (ch_cfg c) ?st" using roll_active_ok [OF small] ok small by (simp add: active_inv_def)
  with i(1) show "unat prod_idx < length (vc_set (vals (ch_cfg c)))" by (simp add: active_ok_def list_all_iff u)
  show "staked_validator (ch_cfg c) (ch_st c) (vc_set (vals (ch_cfg c)) ! unat prod_idx)"
    if "is_epoch_boundary height (ch_cfg c)"
    using active_idx_staked(2) [OF small, of i] i(1) that by (simp add: roll_epoch_if_needed_def u)
qed

end
