(* ===== verification/Pwm_Demo.thy ===== *)
theory Pwm_Demo
  imports Pwm_Chain
begin

text \<open>
  Concrete states and transactions for the examples that accompany the theorems. In
  \<open>demo_ext\<close> an address is its own key (the hash keeps the first 32 bytes of its input) and
  every signature verifies, so that a whole step evaluates by simplification.
\<close>

section \<open>A library in which addresses are keys\<close>

definition demo_ext :: extlib where
  "demo_ext = toy_ext\<lparr>x_blake3 := (\<lambda>m. from_be (take 32 m)), x_verify := (\<lambda>_ _ _. True)\<rparr>"

lemma demo_address [simp]: "account_id_from_parts demo_ext pk i = pk"
  by (simp add: account_id_from_parts_def blake3_32_def demo_ext_def from_be_bytes)

lemma demo_computed [simp]: "computed_account_id demo_ext tx = signer_pk tx"
  by (simp add: computed_account_id_def)

lemma demo_verify [simp]: "verify demo_ext pk m s"
  by (simp add: verify_def demo_ext_def toy_ext_def)

lemma demo_verify_sig [simp]: "verify_sig demo_ext tx"
  by (simp add: verify_sig_def)

lemma demo_sig_correct: "sig_correct demo_ext sk m"
  by (simp add: sig_correct_def demo_ext_def toy_ext_def)

section \<open>Accounts\<close>

text \<open>\<open>demo_A\<close> and \<open>demo_B\<close> are plain addresses, \<open>demo_S\<close> carries the conservation flag.\<close>

abbreviation demo_A :: AccountId where "demo_A \<equiv> 1"
abbreviation demo_B :: AccountId where "demo_B \<equiv> 2"
abbreviation demo_S :: AccountId where
  "demo_S \<equiv> 822752278660603021077484591278675252491367932816789931674304512"

lemmas address_defs = domain_of_account_id_def byte_at_def from_be_def conservation_flag_def
  cosign_non_dis_def address_flags_def CONSERVATION_def COSIGN_NON_DISABLEABLE_def same_hi_domain_def
  hi_byte_def be_bytes_def le_bytes_def

lemma demo_address_facts [simp]:
  "domain_of_account_id demo_A = 0" "domain_of_account_id demo_B = 0" "domain_of_account_id demo_S = 0"
  "\<not> conservation_flag demo_A" "\<not> conservation_flag demo_B" "conservation_flag demo_S"
  "\<not> cosign_non_dis demo_A" "\<not> cosign_non_dis demo_B" "\<not> cosign_non_dis demo_S"
  by (simp_all add: address_defs)

lemma same_hi_domain_refl: "domain_of_account_id a = domain_of_account_id b \<Longrightarrow> same_hi_domain a b"
  by (simp add: same_hi_domain_def)

lemma demo_same_domain [simp]:
  "same_hi_domain demo_S demo_B" "same_hi_domain demo_S demo_S" "same_hi_domain demo_B demo_S"
  "same_hi_domain demo_A demo_B" "same_hi_domain demo_A demo_S"
  by (rule same_hi_domain_refl, simp)+

definition demo_cfg :: GenCfg where
  "demo_cfg = (let rows = [\<lparr> gr_acct = demo_A, gr_pubkey = demo_A, gr_der_idx = 0, gr_bal = 1000 \<rparr>,
       \<lparr> gr_acct = demo_B, gr_pubkey = demo_B, gr_der_idx = 0, gr_bal = 50 \<rparr>,
       \<lparr> gr_acct = demo_S, gr_pubkey = demo_S, gr_der_idx = 0, gr_bal = 300 \<rparr>]
     in (dev_net_cfg demo_ext)\<lparr>funding := \<lparr> fc_accounts = rows \<rparr>, gen_accounts := rows,
       vals := \<lparr> vc_set = [\<lparr> vr_acct = demo_A, vr_pubkey = demo_A, vr_der_idx = 0 \<rparr>] \<rparr>,
       conservation_delay_blocks := 5, blocks_per_hour := 10\<rparr>)"

definition demo_tx :: "AccountId \<Rightarrow> u64 \<Rightarrow> TxBody \<Rightarrow> SignedTx" where
  "demo_tx aid n b = \<lparr> domain_code = domain_of_account_id aid, signer_pk = aid, derivation_index = 0,
     tx_nonce = n, body = b, burn_purpose = None, import_fee = None, import_provenance = None,
     init_v4 = None, cosigns = [], signature = 0 \<rparr>"

text \<open>Three funded accounts, and the chain booted on them.\<close>

definition demo_st :: State where
  "demo_st = state_default\<lparr>accounts := fmupd demo_S (genesis_funded demo_S 0 300)
     (fmupd demo_B (genesis_funded demo_B 0 50) (fmupd demo_A (genesis_funded demo_A 0 1000) fmempty))\<rparr>"

definition demo_chain :: Chain where
  "demo_chain = \<lparr> ch_cfg = demo_cfg, val_sks = [demo_A], blocks = [], canonical_h = 0,
     ch_st = demo_st\<lparr>active_validator_indices := [0]\<rparr>, seal_time_mode = DeterministicHeight \<rparr>"

definition demo_codecs :: codecs where
  "demo_codecs = \<lparr> enc_hdr = hdr_payload, enc_state = (\<lambda>st. le_bytes 16 (fee_pool st)) \<rparr>"

lemmas shape_eval = validate_tx_shape_split validate_shape_no_sig_def validate_tx_shape_inner_def shape_body_def

lemmas tx_eval = apply_tx_with_ctx_def apply_prechecked_tx_def apply_tx_impl_def shape_eval with_stub_def bind_sender_def
  evaluate_policy_def eval_recipient_def policy_is_active_at_def has_pending_conserv_def apply_body_def
  apply_transfer_def apply_stake_def apply_unstake_def apply_init_def commit_acc_def require_recipient_def
  checked_add_def checked_sub_def bump_nonce_def put_acc_def add_fee_def sat_add_def

lemmas demo_eval = demo_tx_def demo_st_def genesis_funded_def state_default_def account_default_def


lemma demo_cfg_simps [simp]:
  "epoch_length_blocks demo_cfg = 10080" "conservation_delay_blocks demo_cfg = 5" "policy_ver demo_cfg = 1"
  "block_reward demo_cfg = 100" "blocks_per_hour demo_cfg = 10" "xshard_lock_to_blocks demo_cfg = 604800"
  "vc_set (vals demo_cfg) = [\<lparr> vr_acct = demo_A, vr_pubkey = demo_A, vr_der_idx = 0 \<rparr>]"
  "rew demo_cfg = ToProducerAccount" "min_validator_stake demo_cfg = 0" "marks_per_hour demo_cfg = 1"
  by (simp_all add: demo_cfg_def dev_net_cfg_def Let_def DEF_EPOCH_LEN_BLOCKS_def LEGACY_POLICY_VER_def
      DEF_XSHARD_LOCK_TO_def DEF_MARKS_HOUR_def)

lemma demo_state0: "state0 demo_cfg = demo_st"
proof -
  have "genesis_row r = genesis_funded (gr_pubkey r) (gr_der_idx r) (gr_bal r)" if "gr_bal r < 1000000" for r
  proof -
    have "gr_bal r div 1000000 = 0"
      using that by (simp add: div_word_less)
    then show ?thesis by (simp add: genesis_row_def PWM_RAW_SCALE_def genesis_funded_def)
  qed
  then show ?thesis
    by (simp add: state0_eq demo_st_def demo_cfg_def Let_def)
qed

lemma demo_reach: "chain_reach ext enc demo_cfg [demo_A] demo_chain"
proof -
  have "boot demo_cfg [demo_A] = Some (demo_chain\<lparr>seal_time_mode := WallClock\<rparr>)"
    by (simp add: boot_def demo_state0 demo_chain_def recompute_active_idxs_filter staked_validator_def Let_def)
      (simp add: demo_st_def demo_cfg_def dev_net_cfg_def Let_def genesis_funded_def)
  from reach_step [OF reach_boot [OF this] step_mode, of ext enc DeterministicHeight] show ?thesis
    by (simp add: set_seal_time_mode_def demo_chain_def)
qed

lemma demo_xshard_inv: "xshard_inv demo_st"
  by (simp add: xshard_inv_def lock_ids_def demo_st_def state_default_def)

lemma demo_pending_inv: "pending_inv demo_st"
  by (simp add: pending_inv_def demo_st_def state_default_def)

lemma demo_total_units: "total_units demo_st = 1350"
  by (simp add: total_units_def fm_sum_upd_new holdings_def genesis_funded_def demo_st_def state_default_def)

lemmas seal_eval = seal_entries_def next_apply_ctx_def seal_state_def roll_epoch_if_needed_def
  is_epoch_boundary_def pick_prod_idx_def refund_exp_locks_def apply_entry_def
  drain_conservation_at_height_def prod_acct_def pay_producer_def is_legacy_policy_def
  LEGACY_POLICY_VER_def reward_producer_def credit_def tip_h_def demo_chain_def Let_def

text \<open>An empty block seals.\<close>

lemma demo_seal_empty:
  "\<exists>c'. seal_entries demo_ext demo_codecs None [] demo_chain = Done c' \<and> canonical_h c' = 1"
  by (simp add: seal_eval checked_add_def demo_eval)

end
