(* ===== verification/Pwm_Books.thy ===== *)
theory Pwm_Books
  imports Pwm_Chain
begin

text \<open>
  The books over whole runs and blocks: how many units each ledger operation is entitled to
  create, and that a run whose drains execute no self-routed row creates no more.
\<close>

section \<open>Entitlements\<close>

definition tx_mint_cap :: "GenCfg \<Rightarrow> SignedTx \<Rightarrow> nat" where
  "tx_mint_cap cfg tx = (case body tx of
     ClaimIPv4Batch phase _ _ \<Rightarrow> claim_allocation cfg phase
   | Import _ amount _ \<Rightarrow> unat amount
   | _ \<Rightarrow> 0)"

fun op_mint_cap :: "GenCfg \<Rightarrow> LedgerOp \<Rightarrow> nat" where
  "op_mint_cap cfg (OpTx tx _ _ _) = tx_mint_cap cfg tx"
| "op_mint_cap cfg (OpReward _ r) = unat r"
| "op_mint_cap cfg (OpRewardV2 _ r _ sppm) = unat (sat_mul r sppm div PPM_DENOM)"
| "op_mint_cap cfg (OpRefund _) = 0"
| "op_mint_cap cfg (OpDrain _) = 0"
| "op_mint_cap cfg (OpRoll _) = 0"

lemma tx_minted_cap: "tx_minted cfg st tx \<le> tx_mint_cap cfg tx"
  by (simp add: tx_minted_def tx_mint_cap_def import_minted_def split: TxBody.split option.split)

section \<open>Clean runs\<close>

lemma self_minted_clean:
  assumes "no_self_route h st"
  shows "sum_list (map (self_minted h st) (filter (\<lambda>row. pc_execute_at_height row \<le> h) (pending_conservation st))) = 0"
  using assms by (auto simp: no_self_route_def list_all_iff self_minted_def)

lemma clean_op_units:
  assumes inv: "xshard_inv st" and run: "ledger_op ext cfg op st = Done st'"
    and clean: "case op of OpDrain h \<Rightarrow> no_self_route h st | _ \<Rightarrow> True"
  shows "total_units st' \<le> total_units st + op_mint_cap cfg op"
proof (cases op)
  case (OpTx tx h ts skip)
  with run have tx: "apply_tx_impl ext cfg tx h ts skip st = Done st'" by simp
  have "total_units st' \<le> total_units st + tx_minted cfg st tx"
    using balanced_apply_tx(1) [OF tx] import_amount_inv [OF inv tx] by blast
  with tx_minted_cap [of cfg st tx] OpTx show ?thesis by simp
next
  case (OpRefund h)
  with run refund_units [of h st] show ?thesis by auto
next
  case (OpDrain h)
  with run clean drain_units [of cfg h st st'] self_minted_clean [of h st] show ?thesis by simp
next
  case (OpReward p r)
  with run reward_units [of p r st] show ?thesis by auto
next
  case (OpRewardV2 p r m s)
  with run reward_v2_as_credit [of p r m s st] reward_units [of p "sat_mul r s div PPM_DENOM" st]
  show ?thesis by auto
next
  case (OpRoll h)
  with run show ?thesis by (auto simp: total_units_def roll_epoch_if_needed_def)
qed

lemma clean_run_units:
  "clean_run ext cfg st ops st' \<Longrightarrow> xshard_inv st \<Longrightarrow>
     total_units st' \<le> total_units st + sum_list (map (op_mint_cap cfg) ops)"
proof (induction rule: clean_run.induct)
  case (clean_cons op st st1 ops st2)
  have "xshard_inv st1" by (rule ledger_op_xshard_inv [OF clean_cons(5,1)])
  with clean_cons(4) have "total_units st2 \<le> total_units st1 + sum_list (map (op_mint_cap cfg) ops)" by simp
  with clean_op_units [OF clean_cons(5,1,2)] show ?case by simp
qed simp

section \<open>Blocks\<close>

text \<open>The state in which a block runs its drain.\<close>

definition drain_state ::
  "extlib \<Rightarrow> GenCfg \<Rightarrow> u64 \<Rightarrow> u64 \<Rightarrow> u64 \<Rightarrow> SealEntry list \<Rightarrow> State \<Rightarrow> State option" where
  "drain_state ext cfg tip height ts entries st0 =
     (case run_steps (apply_entry ext cfg tip height ts) entries
             (refund_exp_locks height (roll_epoch_if_needed cfg height st0)) of
        Done st \<Rightarrow> Some (refund_exp_locks height st) | _ \<Rightarrow> None)"

lemma clean_run_append:
  "clean_run ext cfg st ops st1 \<Longrightarrow> clean_run ext cfg st1 ops' st2 \<Longrightarrow> clean_run ext cfg st (ops @ ops') st2"
  by (induction rule: clean_run.induct) (auto intro: clean_run.intros)

lemma clean_run_no_drain:
  "run_steps (ledger_op ext cfg) ops st = Done st' \<Longrightarrow> \<forall>h. OpDrain h \<notin> set ops \<Longrightarrow> clean_run ext cfg st ops st'"
  by (induction ops arbitrary: st)
     (auto intro!: clean_run.intros split: outcome.splits LedgerOp.splits)

lemma block_clean_run:
  assumes run: "run_steps (ledger_op ext cfg) (block_ops cfg tip height ts entries producer) st0 = Done st"
    and drain: "drain_state ext cfg tip height ts entries st0 = Some st1" "no_self_route height st1"
  shows "clean_run ext cfg st0 (block_ops cfg tip height ts entries producer) st"
proof -
  let ?pre = "[OpRoll height, OpRefund height] @ map (entry_op tip height ts) entries @ [OpRefund height]"
  have ops: "block_ops cfg tip height ts entries producer = ?pre @ [OpDrain height, reward_op cfg height producer]"
    by (simp add: block_ops_def)
  have nd: "\<forall>h. OpDrain h \<notin> set ?pre"
    by (auto elim!: entry_op.elims [OF sym])
  have pre: "run_steps (ledger_op ext cfg) ?pre st0 = Done st1"
    using drain(1) by (auto simp: drain_state_def run_steps_append run_entries split: outcome.splits)
  from run have "run_steps (ledger_op ext cfg) [OpDrain height, reward_op cfg height producer] st1 = Done st"
    unfolding ops run_steps_append [of _ ?pre] pre by simp
  then obtain st2 where st2: "ledger_op ext cfg (OpDrain height) st1 = Done st2"
    "ledger_op ext cfg (reward_op cfg height producer) st2 = Done st"
    by (auto split: outcome.splits)
  have "clean_run ext cfg st1 [OpDrain height, reward_op cfg height producer] st"
    using drain(2) by (intro clean_cons [OF st2(1) _ clean_cons [OF st2(2) _ clean_nil]]) (auto simp: reward_op_def)
  with clean_run_no_drain [OF pre nd] show ?thesis unfolding ops by (rule clean_run_append)
qed

definition block_reward_cap :: "GenCfg \<Rightarrow> u64 \<Rightarrow> nat" where
  "block_reward_cap cfg height =
     (if is_legacy_policy cfg then unat (block_reward cfg) else unat (compute_block_reward cfg height))"

lemma reward_op_cap: "op_mint_cap cfg (reward_op cfg height p) \<le> block_reward_cap cfg height"
proof -
  have "unat (sat_mul r 1000000 div PPM_DENOM) \<le> unat r" for r
  proof -
    have "unat (sat_mul r 1000000 div PPM_DENOM) = min (unat r * 1000000) (2 ^ 128 - 1) div 1000000"
      by (simp add: unat_div unat_sat_mul PPM_DENOM_def)
    also have "\<dots> \<le> (unat r * 1000000) div 1000000" by (intro div_le_mono) simp
    finally show ?thesis by simp
  qed
  then show ?thesis by (simp add: reward_op_def block_reward_cap_def)
qed

lemma block_ops_cap:
  "sum_list (map (op_mint_cap cfg) (block_ops cfg tip height ts entries p)) \<le>
     sum_list (map (tx_mint_cap cfg \<circ> entry_tx) entries) + block_reward_cap cfg height"
proof -
  have e: "(\<lambda>x. op_mint_cap cfg (entry_op tip height ts x)) = (\<lambda>x. tx_mint_cap cfg (entry_tx x))"
  proof
    show "op_mint_cap cfg (entry_op tip height ts x) = tx_mint_cap cfg (entry_tx x)" for x
      by (cases x) simp_all
  qed
  show ?thesis
    using reward_op_cap [of cfg height p] by (simp add: block_ops_def comp_def e)
qed

lemma seal_units:
  assumes inv: "xshard_inv (ch_st c)" and run: "seal_entries ext enc clock entries c = Done c'"
    and drain: "drain_state ext (ch_cfg c) (tip_h c) (canonical_h c') (bh_ts (hdr (last (blocks c')))) entries (ch_st c) = Some st1"
      "no_self_route (canonical_h c') st1"
  shows "total_units (ch_st c') \<le> total_units (ch_st c) +
    sum_list (map (tx_mint_cap (ch_cfg c) \<circ> entry_tx) entries) + block_reward_cap (ch_cfg c) (canonical_h c')"
  using run
proof (cases rule: seal_Done)
  case (1 height ts st prod_idx h)
  let ?b = "\<lparr> hdr = hdr_sign ext (val_sks c ! unat prod_idx) h, txs = map entry_tx entries \<rparr>"
  have b: "last (blocks c') = ?b" "canonical_h c' = height" "ch_st c' = st"
    using last_pop_tail [of "blocks c @ [?b]"] by (simp_all add: 1(5))
  then have ts: "bh_ts (hdr (last (blocks c'))) = ts" by (simp add: 1(3))
  note dr = drain [unfolded ts b(2)]
  from 1(2) show ?thesis
  proof (cases rule: seal_state_ops)
    case ops: (1 producer)
    from clean_run_units [OF block_clean_run [OF ops(3) dr] inv]
      block_ops_cap [of "ch_cfg c" "tip_h c" height ts entries producer]
    show ?thesis by (simp add: b)
  qed
qed

end
