(* ===== verification/Pwm_Core_Props.thy ===== *)
theory Pwm_Core_Props
  imports Pwm_Demo
begin

text \<open>
  What the single components of pwm-core promise: address search, signing messages, lazy
  marks, policy sets, the emergency activation, the Merkle root. Each theorem rests on the
  lemmas of its component; the examples run on \<open>demo_ext\<close>.
\<close>

section \<open>Addresses\<close>

text \<open>The brute force search for an address in a domain is the first hit: it returns the keys of
  the least derivation index below the bound whose address lies in the domain, and nothing exactly
  when there is none.\<close>

theorem brute_is_first_hit:
  "brute_cluster_address ext seed d max_tries =
     map_option (\<lambda>k. (x_slip10 ext seed [0, of_nat k], x_pubkey ext (x_slip10 ext seed [0, of_nat k]),
         of_nat k, nth_address ext seed k))
       (find (\<lambda>k. domain_of_account_id (nth_address ext seed k) = d) [0..<unat max_tries])"
proof -
  have "brute_loop ext seed d i n =
     map_option (\<lambda>k. (x_slip10 ext seed [0, of_nat k], x_pubkey ext (x_slip10 ext seed [0, of_nat k]),
         of_nat k, nth_address ext seed k))
       (find (\<lambda>k. domain_of_account_id (nth_address ext seed k) = d) [i..<i + n])" for i n
  proof (induction n arbitrary: i)
    case (Suc n)
    have "[i..<i + Suc n] = i # [Suc i..<Suc i + n]"
      using upt_conv_Cons [of i "i + Suc n"] by simp
    with Suc [of "Suc i"] show ?case by (simp add: Let_def nth_address_def)
  qed simp
  from this [of 0 "unat max_tries"] show ?thesis by (simp add: brute_cluster_address_def)
qed

section \<open>Signing messages\<close>

text \<open>C13: The bytes a signature covers are unambiguous. Two transactions that pass the shape check and
  have the same signing message agree on domain, signer, index, nonce, body and on every side field
  that belongs to the body (INIT extension, normalised burn purpose, import fee and provenance).\<close>

theorem signing_message_unambiguous:
  assumes "validate_tx_shape ext tx = Inr ()" "validate_tx_shape ext tx' = Inr ()"
    and "signing_message tx = signing_message tx'"
  shows "signed_view tx = signed_view tx'"
  by (rule signing_message_inj [OF validate_shape_sizes [OF assms(1)] validate_shape_sizes [OF assms(2)] assms(3)])

theorem signing_message_unambiguous_witness:
  "signed_view (demo_tx demo_A 0 (Stake 7)) = signed_view ((demo_tx demo_A 0 (Stake 7))\<lparr>signature := 9\<rparr>)"
proof (rule signing_message_unambiguous [of demo_ext])
  show "validate_tx_shape demo_ext (demo_tx demo_A 0 (Stake 7)) = Inr ()"
    "validate_tx_shape demo_ext ((demo_tx demo_A 0 (Stake 7))\<lparr>signature := 9\<rparr>) = Inr ()"
    by (simp_all add: shape_eval demo_tx_def)
  show "signing_message (demo_tx demo_A 0 (Stake 7)) = signing_message ((demo_tx demo_A 0 (Stake 7))\<lparr>signature := 9\<rparr>)"
    by (simp add: signing_message_def demo_tx_def)
qed

text \<open>Every builder leaves a transaction that verifies: the body builder, and each of the four
  setters that change a signed side field and sign again.\<close>

theorem builders_sign:
  assumes "\<And>m. sig_correct ext sk m"
  shows "verify_sig ext (sign_body ext sk code idx n b) \<and>
    (signer_pk tx = x_pubkey ext sk \<longrightarrow>
       verify_sig ext (set_import_provenance_signed ext sk prov tx) \<and>
       verify_sig ext (set_burn_purpose_signed ext sk purpose tx) \<and>
       verify_sig ext (set_import_fee_signed ext sk fee tx) \<and>
       verify_sig ext (set_init_v4_signed ext sk ix tx))"
proof -
  have "verify_sig ext (resign ext sk t)" if "signer_pk t = x_pubkey ext sk" for t
    using resign_verifies that assms by blast
  then show ?thesis
    by (simp add: sign_body_def set_import_provenance_signed_def set_burn_purpose_signed_def
        set_import_fee_signed_def set_init_v4_signed_def)
qed

theorem builders_sign_witness:
  "verify_sig toy_ext (sign_body toy_ext 5 0 0 0 (Stake 7)) \<and>
   verify_sig toy_ext (set_import_fee_signed toy_ext 5 12000 (sign_body toy_ext 5 0 0 0 (Import 1 2 3)))"
proof -
  have pk: "signer_pk (sign_body toy_ext 5 0 0 0 (Import 1 2 3)) = x_pubkey toy_ext 5"
    by (simp add: sign_body_def resign_def)
  show ?thesis
    using builders_sign [OF toy_sig_correct, of 5 0 0 0 "Stake 7"]
      builders_sign [OF toy_sig_correct, of 5 _ _ _ _ "sign_body toy_ext 5 0 0 0 (Import 1 2 3)"] pk by blast
qed

text \<open>A cosignature requirement without a role is met by the sender alone: adding a row with the
  sender's own key and its own signature passes the check, because the rows are not part of the
  signed bytes and any valid key is accepted.\<close>

theorem own_signature_is_cosignature:
  assumes "verify_sig ext tx"
  shows "has_valid_cosign ext (tx\<lparr>cosigns := [\<lparr> cs_signer_pk = signer_pk tx, cs_role = role, cs_signature = signature tx \<rparr>]\<rparr>)
    \<and> verify_sig ext (tx\<lparr>cosigns := [\<lparr> cs_signer_pk = signer_pk tx, cs_role = role, cs_signature = signature tx \<rparr>]\<rparr>)"
proof -
  have "body_bytes (tx\<lparr>cosigns := cs\<rparr>) b = body_bytes tx b" for cs b
    by (cases b) simp_all
  then have "signing_message (tx\<lparr>cosigns := cs\<rparr>) = signing_message tx" for cs
    by (simp add: signing_message_def)
  with assms show ?thesis by (simp add: has_valid_cosign_def verify_sig_def Let_def)
qed

theorem own_signature_is_cosignature_witness:
  "has_valid_cosign demo_ext ((demo_tx demo_A 0 (Transfer demo_B 1 1))
     \<lparr>cosigns := [\<lparr> cs_signer_pk = demo_A, cs_role = Witness, cs_signature = 0 \<rparr>]\<rparr>)"
  using own_signature_is_cosignature [of demo_ext "demo_tx demo_A 0 (Transfer demo_B 1 1)" Witness]
  by (simp add: demo_tx_def)

section \<open>Lazy marks\<close>

text \<open>The saturating 64-bit computation of lazy marks is exact: for every account, height and
  configuration it yields the stored marks plus (whole staked coins) * (rate) * (full hours since the
  last touch), capped at the largest u32. No intermediate saturation and no cut of the hours ever
  changes the result.\<close>

theorem lazy_marks_exact:
  "unat (compute_lazy_marks a h cfg) = min (2 ^ 32 - 1)
     (unat (stored_marks a) + (unat (staked_pwm_raw a) div 1000000) * unat (marks_per_hour cfg) *
        ((unat h - unat (marks_last_block a)) div unat (blocks_per_hour cfg)))"
  unfolding lazy_marks_formula marks_formula_def ..

lemma split_hours:
  fixes b c p :: nat
  shows "b div p + c div p \<le> (b + c) div p" "0 < p \<Longrightarrow> (b + c) div p \<le> b div p + c div p + 1"
proof -
  have eq: "(b + c) div p = b div p + c div p + (b mod p + c mod p) div p" by (rule div_add1_eq)
  then show "b div p + c div p \<le> (b + c) div p" by simp
  assume p: "0 < p"
  then have "b mod p < p" "c mod p < p" by simp_all
  with eq show "(b + c) div p \<le> b div p + c div p + 1"
    using less_mult_imp_div_less [of "b mod p + c mod p" 2 p] by linarith
qed

lemma marks_split:
  fixes s r x y z cap :: nat
  assumes "x + y \<le> z" "z \<le> x + y + 1"
  shows "min cap (min cap (s + r * x) + r * y) \<le> min cap (s + r * z)"
    and "min cap (s + r * z) \<le> min cap (min cap (s + r * x) + r * y) + r"
proof -
  have "r * x + r * y \<le> r * z" "r * z \<le> r * x + r * y + r"
    using mult_le_mono2 [OF assms(1), of r] mult_le_mono2 [OF assms(2), of r] by (simp_all add: algebra_simps)
  then show "min cap (min cap (s + r * x) + r * y) \<le> min cap (s + r * z)"
    "min cap (s + r * z) \<le> min cap (min cap (s + r * x) + r * y) + r"
    by linarith+
qed

text \<open>Touching an account early never gains marks and can lose them. Settling at height h1 and reading at
  h2 yields at most what reading at h2 alone yields, and at most one hour's marks less: the part
  of the hour that has run at h1 is forgotten (so any transfer to an account can cost it marks).\<close>

theorem early_touch_loses_at_most_an_hour:
  assumes "unat (marks_last_block a) \<le> unat h1" "unat h1 \<le> unat h2" "0 < unat (blocks_per_hour cfg)"
  shows "unat (compute_lazy_marks (touch_acct_mrks a h1 cfg) h2 cfg) \<le> unat (compute_lazy_marks a h2 cfg) \<and>
    unat (compute_lazy_marks a h2 cfg) \<le> unat (compute_lazy_marks (touch_acct_mrks a h1 cfg) h2 cfg) +
      (unat (staked_pwm_raw a) div 1000000) * unat (marks_per_hour cfg)"
proof -
  define p b c where "p = unat (blocks_per_hour cfg)" and "b = unat h1 - unat (marks_last_block a)"
    and "c = unat h2 - unat h1"
  define r where "r = (unat (staked_pwm_raw a) div 1000000) * unat (marks_per_hour cfg)"
  have bc: "unat h2 - unat (marks_last_block a) = b + c" using assms(1,2) by (simp add: b_def c_def)
  have once: "unat (compute_lazy_marks a h2 cfg) = min (2 ^ 32 - 1) (unat (stored_marks a) + r * ((b + c) div p))"
    unfolding lazy_marks_formula marks_formula_def bc r_def p_def ..
  have fields: "unat (stored_marks (touch_acct_mrks a h1 cfg)) = min (2 ^ 32 - 1) (unat (stored_marks a) + r * (b div p))"
    "staked_pwm_raw (touch_acct_mrks a h1 cfg) = staked_pwm_raw a" "marks_last_block (touch_acct_mrks a h1 cfg) = h1"
    unfolding r_def b_def p_def lazy_marks_formula [unfolded marks_formula_def, symmetric]
    by (simp_all add: touch_acct_mrks_def)
  have twice: "unat (compute_lazy_marks (touch_acct_mrks a h1 cfg) h2 cfg) =
      min (2 ^ 32 - 1) (min (2 ^ 32 - 1) (unat (stored_marks a) + r * (b div p)) + r * (c div p))"
    unfolding lazy_marks_formula [of "touch_acct_mrks a h1 cfg"] marks_formula_def fields r_def [symmetric]
      p_def [symmetric] c_def [symmetric] ..
  have "0 < p" using assms(3) by (simp add: p_def)
  from marks_split [OF split_hours(1) split_hours(2) [OF this]]
  show ?thesis unfolding once twice r_def [symmetric] by blast
qed

text \<open>The demo account with one whole staked coin.\<close>

definition demo_staker :: Account where
  "demo_staker = (genesis_funded demo_A 0 1000)\<lparr>staked_pwm_raw := 1000000\<rparr>"

theorem early_touch_loses_at_most_an_hour_witness:
  "unat (compute_lazy_marks demo_staker 10 demo_cfg) \<le>
     unat (compute_lazy_marks (touch_acct_mrks demo_staker 5 demo_cfg) 10 demo_cfg) + 1"
  using early_touch_loses_at_most_an_hour [of demo_staker 5 10 demo_cfg]
  by (simp add: demo_staker_def genesis_funded_def)

section \<open>Policy sets\<close>

lemma and_policy_bit: "m AND policy_bit p = 0 \<longleftrightarrow> \<not> bit m (unat (policy_id p))"
  by (simp add: policy_bit_def push_bit_eq_mult and_exp_eq_0_iff_not_bit)

lemma unat_policy_id [simp]: "unat (policy_id p) = unat (policy_id q) \<longleftrightarrow> p = q"
  by (simp add: word_unat_eq_iff [symmetric])

lemma policy_bit_ops:
  "(m OR policy_bit p) AND policy_bit q = 0 \<longleftrightarrow> m AND policy_bit q = 0 \<and> p \<noteq> q"
  "(m AND NOT (policy_bit p)) AND policy_bit q = 0 \<longleftrightarrow> m AND policy_bit q = 0 \<or> p = q"
  "policy_bit p \<noteq> 0"
proof -
  show "(m OR policy_bit p) AND policy_bit q = 0 \<longleftrightarrow> m AND policy_bit q = 0 \<and> p \<noteq> q"
    "(m AND NOT (policy_bit p)) AND policy_bit q = 0 \<longleftrightarrow> m AND policy_bit q = 0 \<or> p = q"
    using policy_id_lt [of q]
    by (auto simp: and_policy_bit bit_or_iff bit_and_iff bit_not_iff bit_policy_bit)
  show "policy_bit p \<noteq> 0" by (cases p) (simp_all add: policy_bit_def)
qed

text \<open>Setting a policy is exact. The policy's own rows and bits become those of the chosen mode
  (dormant: only the dormant bit; immediately: only the active bit; deferred: one row with the height,
  active at once when the height has been reached), and every other policy keeps its bits and rows.\<close>

theorem set_policy_exact:
  "let a' = set_pol_mode a p mode h in
     (active_policies a' AND policy_bit p \<noteq> 0 \<longleftrightarrow>
        mode = Immediately \<or> (\<exists>k. mode = Deferred k \<and> k \<le> h)) \<and>
     (dormant_policies a' AND policy_bit p \<noteq> 0 \<longleftrightarrow> mode = Dormant) \<and>
     filter (\<lambda>r. dp_policy r = p) (deferred_policies a') =
       (case mode of Deferred k \<Rightarrow> [\<lparr> dp_policy = p, dp_activate_at_height = k \<rparr>] | _ \<Rightarrow> []) \<and>
     (q = p \<or> (active_policies a' AND policy_bit q \<noteq> 0) = (active_policies a AND policy_bit q \<noteq> 0) \<and>
       (dormant_policies a' AND policy_bit q \<noteq> 0) = (dormant_policies a AND policy_bit q \<noteq> 0) \<and>
       filter (\<lambda>r. dp_policy r = q) (deferred_policies a') = filter (\<lambda>r. dp_policy r = q) (deferred_policies a))"
proof -
  have f: "filter (\<lambda>r. dp_policy r = q) (filter (\<lambda>r. dp_policy r \<noteq> p) xs) =
      (if q = p then [] else filter (\<lambda>r. dp_policy r = q) xs)" for q xs
    by (induction xs) auto
  show ?thesis
    unfolding Let_def
    by (cases mode) (auto simp: set_pol_mode_def Let_def policy_bit_ops f simp del: filter_filter)
qed

text \<open>A policy set at a height is active there exactly as asked: a dormant one is not, an immediate
  one is, a deferred one is from its height on.\<close>

theorem set_policy_activity:
  "policy_is_active_at (set_pol_mode a p mode h) p h' \<longleftrightarrow>
     (case mode of Dormant \<Rightarrow> False | Immediately \<Rightarrow> True | Deferred k \<Rightarrow> k \<le> h \<or> k \<le> h')"
proof -
  have rows: "\<not> list_ex (\<lambda>r. dp_policy r = p \<and> dp_activate_at_height r \<le> h') (filter (\<lambda>r. dp_policy r \<noteq> p) xs)" for xs
    by (auto simp: list_ex_iff)
  show ?thesis
    by (cases mode) (auto simp: policy_is_active_at_def set_pol_mode_def Let_def policy_bit_ops rows)
qed

section \<open>The emergency activation\<close>

lemma apply_emergency:
  assumes run: "apply_tx_impl ext cfg tx h ts skip st = Done st'"
    and b: "body tx = Policy t (ActivatePolicy 1 (Some target)) fee"
    and row: "fmlookup (accounts st) aid = Some a" and aid: "aid = computed_account_id ext tx"
  obtains a1 a2 st1 where "initialized a"
    "validate_pol_action ext st (touch_acct_mrks a h cfg) (ActivatePolicy 1 (Some target)) tx = Inr ()"
    "apply_policy_action (touch_acct_mrks a h cfg) (ActivatePolicy 1 (Some target)) h = Inr a1"
    "evacuate aid (a1\<lparr>balance_pwm := balance_pwm a1 - fee\<rparr>) target (add_fee fee st) = Some (a2, st1)"
    "st' = put_acc aid (a2\<lparr>nonce := nonce a2 + 1\<rparr>) st1" "balance_pwm a1 = balance_pwm a" "staked_pwm_raw a1 = staked_pwm_raw a"
proof (rule apply_tx_impl_Done [OF run])
  fix aid' st0 r acc redir
  assume *: "aid' = computed_account_id ext tx" "st0 = with_stub tx aid' st" "fmlookup (accounts st0) aid' = Some r"
    "bind_sender tx r = Inr acc" "apply_body ext cfg tx h aid' acc redir st0 = Done st'"
  have st0: "st0 = st" by (simp add: *(2) with_stub_def b)
  have r: "r = a" using *(1,3) row aid by (simp add: st0)
  have p: "apply_policy ext cfg tx h aid acc t (ActivatePolicy 1 (Some target)) fee st = Done st'"
    using *(1,5) aid by (simp add: apply_body_def b st0)
  then show thesis
  proof (cases rule: apply_policy_Done)
    case (1 a1 b1 st1)
    have init: "initialized a" using 1(1) bind_sender_ok(3) [OF *(4)] r by simp
    have acc: "acc = a" using bind_sender_ok(8) [OF *(4)] init r by simp
    show thesis
      using that [OF init] 1 apply_policy_action_funds [OF 1(4)] by (auto simp: acc)
  qed
qed

lemma apply_activate_emergency:
  assumes "apply_policy_action a (ActivatePolicy 1 target) h = Inr a1"
  shows "active_policies a1 AND 2 \<noteq> 0 \<and> finalized a1 = (finalized a \<or> active_policies a AND 2 = 0)"
  using assms policy_bit_ops(1) [of "active_policies a" RoutingEmergencyRedirect RoutingEmergencyRedirect]
  by (auto simp: from_policy_id_def policy_bit_cases Let_def split: option.splits if_splits)

text \<open>What an emergency activation does. The target is the account's rescue address, which is
  another initialized account whose key cosigned; the sender's delayed transfers are dropped; liquid
  and staked units (less the fee) go to the rescue account and the sender keeps none; the policy is
  active afterwards, and the account is finalized unless the policy was already active before.\<close>

theorem emergency_activation_evacuates:
  assumes "apply_tx_impl ext cfg tx h ts skip st = Done st'"
    and "body tx = Policy t (ActivatePolicy 1 (Some target)) fee"
    and "fmlookup (accounts st) (computed_account_id ext tx) = Some a"
    and "target \<noteq> computed_account_id ext tx"
  shows "\<exists>a' ta. rescue_address a = Some target \<and> fmlookup (accounts st) target = Some ta \<and> initialized ta \<and>
    has_role_cosign ext tx Rescue (acc_signing_pubkey ta) \<and>
    fmlookup (accounts st') (computed_account_id ext tx) = Some a' \<and> holdings a' = 0 \<and>
    active_policies a' AND 2 \<noteq> 0 \<and> finalized a' = (finalized a \<or> active_policies a AND 2 = 0) \<and>
    map_option balance_pwm (fmlookup (accounts st') target) =
      Some (sat_add (sat_add (balance_pwm ta) (balance_pwm a - fee)) (staked_pwm_raw a)) \<and>
    pending_conservation st' = without_sender (computed_account_id ext tx) (pending_conservation st)"
proof (rule apply_emergency [OF assms(1-3) refl])
  fix a1 a2 st1
  assume *: "validate_pol_action ext st (touch_acct_mrks a h cfg) (ActivatePolicy 1 (Some target)) tx = Inr ()"
    "apply_policy_action (touch_acct_mrks a h cfg) (ActivatePolicy 1 (Some target)) h = Inr a1"
    "evacuate (computed_account_id ext tx) (a1\<lparr>balance_pwm := balance_pwm a1 - fee\<rparr>) target (add_fee fee st) = Some (a2, st1)"
    "st' = put_acc (computed_account_id ext tx) (a2\<lparr>nonce := nonce a2 + 1\<rparr>) st1"
    "balance_pwm a1 = balance_pwm a" "staked_pwm_raw a1 = staked_pwm_raw a"
  from *(1) obtain ta where ta: "rescue_address a = Some target" "fmlookup (accounts st) target = Some ta"
    "initialized ta" "has_role_cosign ext tx Rescue (acc_signing_pubkey ta)"
    by (auto simp: validate_pol_action_def from_policy_id_def touch_acct_mrks_def split: if_splits option.splits)
  have act: "active_policies a1 AND 2 \<noteq> 0 \<and> finalized a1 = (finalized a \<or> active_policies a AND 2 = 0)"
    using apply_activate_emergency [OF *(2)] by (simp add: touch_acct_mrks_def)
  from *(3) show ?thesis
  proof (cases rule: evacuate_Some)
    case own
    with assms(4) show ?thesis by simp
  next
    case (rescue tb)
    have tb: "tb = ta" using rescue(2) ta(2) by simp
    let ?b = "a2\<lparr>nonce := nonce a2 + 1\<rparr>"
    have own: "fmlookup (accounts st') (computed_account_id ext tx) = Some ?b" by (simp add: *(4))
    have none: "holdings ?b = 0" by (simp add: rescue(3) holdings_def)
    have flags: "active_policies ?b = active_policies a1" "finalized ?b = finalized a1" by (simp_all add: rescue(3))
    have to: "map_option balance_pwm (fmlookup (accounts st') target) =
        Some (sat_add (sat_add (balance_pwm ta) (balance_pwm a - fee)) (staked_pwm_raw a))"
      using assms(4) by (simp add: *(4,5,6) rescue(4) tb)
    have rows: "pending_conservation st' = without_sender (computed_account_id ext tx) (pending_conservation st)"
      by (simp add: *(4) rescue(4) without_sender_def)
    show ?thesis
      by (rule exI [of _ ?b], rule exI [of _ ta]) (simp only: ta own none flags act to rows simp_thms)
  qed
qed

lemma demo_emergency_done:
  "\<exists>st'. apply_tx_impl demo_ext demo_cfg ((demo_tx demo_B 0 (Policy demo_B (ActivatePolicy 1 (Some demo_S)) 0))
     \<lparr>cosigns := [\<lparr> cs_signer_pk = demo_S, cs_role = Rescue, cs_signature = 0 \<rparr>]\<rparr>) 9 0 False
     (put_acc demo_B ((genesis_funded demo_B 0 50)\<lparr>dormant_policies := 2, rescue_address := Some demo_S\<rparr>) demo_st) = Done st'"
  by (simp add: tx_eval demo_eval policy_bit_cases apply_policy_def Let_def
      validate_pol_action_def from_policy_id_def has_role_cosign_def has_valid_cosign_def evacuate_def touch_acct_mrks_def)

theorem emergency_activation_evacuates_witness:
  "\<exists>st' a'. apply_tx_impl demo_ext demo_cfg ((demo_tx demo_B 0 (Policy demo_B (ActivatePolicy 1 (Some demo_S)) 0))
     \<lparr>cosigns := [\<lparr> cs_signer_pk = demo_S, cs_role = Rescue, cs_signature = 0 \<rparr>]\<rparr>) 9 0 False
     (put_acc demo_B ((genesis_funded demo_B 0 50)\<lparr>dormant_policies := 2, rescue_address := Some demo_S\<rparr>) demo_st) = Done st'
     \<and> fmlookup (accounts st') demo_B = Some a' \<and> holdings a' = 0 \<and> finalized a'"
proof -
  let ?tx = "(demo_tx demo_B 0 (Policy demo_B (ActivatePolicy 1 (Some demo_S)) 0))
     \<lparr>cosigns := [\<lparr> cs_signer_pk = demo_S, cs_role = Rescue, cs_signature = 0 \<rparr>]\<rparr>"
  let ?a = "(genesis_funded demo_B 0 50)\<lparr>dormant_policies := 2, rescue_address := Some demo_S\<rparr>"
  obtain st' where run: "apply_tx_impl demo_ext demo_cfg ?tx 9 0 False (put_acc demo_B ?a demo_st) = Done st'"
    using demo_emergency_done by blast
  from emergency_activation_evacuates [OF run, of demo_B demo_S 0 ?a] run show ?thesis
    by (auto simp: demo_tx_def genesis_funded_def)
qed

section \<open>The transaction root\<close>

text \<open>The root of a block binds its transactions: two lists of the same length with one root have
  the same transaction hashes in the same order, unless the hash collides on the nodes of the two trees.\<close>

theorem txs_root_binds:
  assumes "length ts = length ts'" "txs_root ext ts = txs_root ext ts'"
    and "inj_on (x_blake3 ext) (set (tree_inputs ext (map (tx_hash ext) ts)) \<union> set (tree_inputs ext (map (tx_hash ext) ts')))"
  shows "map (tx_hash ext) ts = map (tx_hash ext) ts'"
proof (cases "ts = []")
  case False
  with assms(1) have ne: "map (tx_hash ext) ts \<noteq> []" "map (tx_hash ext) ts' \<noteq> []" by auto
  from assms(2) ne have "merkle_reduce ext (map (tx_hash ext) ts) ! 0 = merkle_reduce ext (map (tx_hash ext) ts') ! 0"
    by (simp add: txs_root_def Let_def)
  then have "merkle_reduce ext (map (tx_hash ext) ts) = merkle_reduce ext (map (tx_hash ext) ts')"
    using length_merkle_reduce [OF ne(1), of ext] length_merkle_reduce [OF ne(2), of ext]
    by (intro nth_equalityI) auto
  moreover have "length (map (tx_hash ext) ts) = length (map (tx_hash ext) ts')" using assms(1) by simp
  ultimately show ?thesis using assms(3) by (metis merkle_reduce_inj)
qed (use assms(1) in simp)

theorem txs_root_binds_witness:
  "tx_hash toy_ext (demo_tx demo_A 0 (Stake 7)) = tx_hash toy_ext ((demo_tx demo_A 0 (Stake 7))\<lparr>signature := 9\<rparr>)"
proof -
  have "signing_message (demo_tx demo_A 0 (Stake 7)) = signing_message ((demo_tx demo_A 0 (Stake 7))\<lparr>signature := 9\<rparr>)"
    by (simp add: signing_message_def demo_tx_def)
  then have root: "txs_root toy_ext [demo_tx demo_A 0 (Stake 7)] = txs_root toy_ext [(demo_tx demo_A 0 (Stake 7))\<lparr>signature := 9\<rparr>]"
    by (simp add: txs_root_def tx_hash_def)
  have "tree_inputs toy_ext [x] = []" for x by (simp add: tree_inputs.simps)
  with txs_root_binds [OF _ root] show ?thesis by simp
qed

text \<open>The root does not bind the number of transactions: repeating the last transaction of a list
  of odd length (more than one) leaves the root as it is.\<close>

theorem txs_root_repeat_last:
  assumes "odd (length ts)" "1 < length ts"
  shows "txs_root ext (ts @ [last ts]) = txs_root ext ts"
proof -
  let ?l = "map (tx_hash ext) ts"
  have ne: "ts \<noteq> []" using assms(2) by auto
  then have "map (tx_hash ext) (ts @ [last ts]) = ?l @ [last ?l]" by (simp add: last_map)
  then show ?thesis
    using merkle_reduce_repeat_last [of ?l ext] assms ne by (simp add: txs_root_def Let_def)
qed

theorem txs_root_repeat_last_witness:
  "\<forall>a b c. txs_root toy_ext [a, b, c, c] = txs_root toy_ext [a, b, c]"
  using txs_root_repeat_last [of "[_, _, _]" toy_ext] by simp

end
