(* ===== verification/Pwm_Domain_Index.thy ===== *)
theory Pwm_Domain_Index
  imports Pwm_Str
begin

text \<open>
  The domain index (src/crates/pwm-core/src/domain_index.rs): the tables of known domains,
  the lookups by number and by label, and the ranges that give a number its category. The
  table of regulatory domains is written in parts.
\<close>

named_theorems domain_tables \<open>the tables of the index\<close>

section \<open>Entries and ranges\<close>

datatype DomainCategory = Regulatory | Sector | Reserve | WitnessDomain

record DomainEntry =
  de_raw :: u32
  de_label :: string
  de_category :: DomainCategory

definition DOMAIN_MAX_20BIT :: u32 where
  "DOMAIN_MAX_20BIT = 0x0FFFFF"

text \<open>An inclusive range, as its two ends.\<close>

definition in_range :: "u32 \<times> u32 \<Rightarrow> u32 \<Rightarrow> bool" where
  "in_range r x = (fst r \<le> x \<and> x \<le> snd r)"

definition COUNTRY_RANGE :: "u32 \<times> u32" where
  "COUNTRY_RANGE = (0x0300, 0xC5FF)"

definition SECTOR_RANGE :: "u32 \<times> u32" where
  "SECTOR_RANGE = (0xD000, 0xDFFF)"

definition RESERVE_RANGE :: "u32 \<times> u32" where
  "RESERVE_RANGE = (0xE000, 0xEFFF)"

definition WITNESS_RANGE :: "u32 \<times> u32" where
  "WITNESS_RANGE = (0xF000, 0xFFFF)"

section \<open>The tables\<close>

definition REGULATORY_1 :: "DomainEntry list" where
  [domain_tables]: "REGULATORY_1 = [
     \<lparr> de_raw = 0x0300, de_label = ''AD'', de_category = Regulatory \<rparr>,
     \<lparr> de_raw = 0x0400, de_label = ''AE'', de_category = Regulatory \<rparr>,
     \<lparr> de_raw = 0x0500, de_label = ''AF'', de_category = Regulatory \<rparr>,
     \<lparr> de_raw = 0x0600, de_label = ''AG'', de_category = Regulatory \<rparr>,
     \<lparr> de_raw = 0x0700, de_label = ''AL'', de_category = Regulatory \<rparr>,
     \<lparr> de_raw = 0x0800, de_label = ''AM'', de_category = Regulatory \<rparr>,
     \<lparr> de_raw = 0x0900, de_label = ''AO'', de_category = Regulatory \<rparr>,
     \<lparr> de_raw = 0x0A00, de_label = ''AR'', de_category = Regulatory \<rparr>,
     \<lparr> de_raw = 0x0B00, de_label = ''AT'', de_category = Regulatory \<rparr>,
     \<lparr> de_raw = 0x0C00, de_label = ''AU'', de_category = Regulatory \<rparr>,
     \<lparr> de_raw = 0x0D00, de_label = ''AZ'', de_category = Regulatory \<rparr>,
     \<lparr> de_raw = 0x0E00, de_label = ''BA'', de_category = Regulatory \<rparr>,
     \<lparr> de_raw = 0x0F00, de_label = ''BB'', de_category = Regulatory \<rparr>,
     \<lparr> de_raw = 0x1000, de_label = ''BD'', de_category = Regulatory \<rparr>,
     \<lparr> de_raw = 0x1100, de_label = ''BE'', de_category = Regulatory \<rparr>,
     \<lparr> de_raw = 0x1200, de_label = ''BF'', de_category = Regulatory \<rparr>,
     \<lparr> de_raw = 0x1300, de_label = ''BG'', de_category = Regulatory \<rparr>,
     \<lparr> de_raw = 0x1400, de_label = ''BH'', de_category = Regulatory \<rparr>,
     \<lparr> de_raw = 0x1500, de_label = ''BI'', de_category = Regulatory \<rparr>,
     \<lparr> de_raw = 0x1600, de_label = ''BJ'', de_category = Regulatory \<rparr>,
     \<lparr> de_raw = 0x1700, de_label = ''BN'', de_category = Regulatory \<rparr>,
     \<lparr> de_raw = 0x1800, de_label = ''BO'', de_category = Regulatory \<rparr>,
     \<lparr> de_raw = 0x1900, de_label = ''BR'', de_category = Regulatory \<rparr>,
     \<lparr> de_raw = 0x1A00, de_label = ''BS'', de_category = Regulatory \<rparr>,
     \<lparr> de_raw = 0x1B00, de_label = ''BT'', de_category = Regulatory \<rparr>,
     \<lparr> de_raw = 0x1C00, de_label = ''BW'', de_category = Regulatory \<rparr>,
     \<lparr> de_raw = 0x1D00, de_label = ''BY'', de_category = Regulatory \<rparr>,
     \<lparr> de_raw = 0x1E00, de_label = ''BZ'', de_category = Regulatory \<rparr>]"

definition REGULATORY_2 :: "DomainEntry list" where
  [domain_tables]: "REGULATORY_2 = [
     \<lparr> de_raw = 0x1F00, de_label = ''CA'', de_category = Regulatory \<rparr>,
     \<lparr> de_raw = 0x2000, de_label = ''CD'', de_category = Regulatory \<rparr>,
     \<lparr> de_raw = 0x2100, de_label = ''CF'', de_category = Regulatory \<rparr>,
     \<lparr> de_raw = 0x2200, de_label = ''CG'', de_category = Regulatory \<rparr>,
     \<lparr> de_raw = 0x2300, de_label = ''CH'', de_category = Regulatory \<rparr>,
     \<lparr> de_raw = 0x2400, de_label = ''CI'', de_category = Regulatory \<rparr>,
     \<lparr> de_raw = 0x2500, de_label = ''CL'', de_category = Regulatory \<rparr>,
     \<lparr> de_raw = 0x2600, de_label = ''CM'', de_category = Regulatory \<rparr>,
     \<lparr> de_raw = 0x2700, de_label = ''CN'', de_category = Regulatory \<rparr>,
     \<lparr> de_raw = 0x2800, de_label = ''CO'', de_category = Regulatory \<rparr>,
     \<lparr> de_raw = 0x2900, de_label = ''CR'', de_category = Regulatory \<rparr>,
     \<lparr> de_raw = 0x2A00, de_label = ''CU'', de_category = Regulatory \<rparr>,
     \<lparr> de_raw = 0x2B00, de_label = ''CV'', de_category = Regulatory \<rparr>,
     \<lparr> de_raw = 0x2C00, de_label = ''CY'', de_category = Regulatory \<rparr>,
     \<lparr> de_raw = 0x2D00, de_label = ''CZ'', de_category = Regulatory \<rparr>,
     \<lparr> de_raw = 0x2E00, de_label = ''DE'', de_category = Regulatory \<rparr>,
     \<lparr> de_raw = 0x2F00, de_label = ''DJ'', de_category = Regulatory \<rparr>,
     \<lparr> de_raw = 0x3000, de_label = ''DK'', de_category = Regulatory \<rparr>,
     \<lparr> de_raw = 0x3100, de_label = ''DM'', de_category = Regulatory \<rparr>,
     \<lparr> de_raw = 0x3200, de_label = ''DO'', de_category = Regulatory \<rparr>,
     \<lparr> de_raw = 0x3300, de_label = ''DZ'', de_category = Regulatory \<rparr>,
     \<lparr> de_raw = 0x3400, de_label = ''EC'', de_category = Regulatory \<rparr>,
     \<lparr> de_raw = 0x3500, de_label = ''EE'', de_category = Regulatory \<rparr>,
     \<lparr> de_raw = 0x3600, de_label = ''EG'', de_category = Regulatory \<rparr>,
     \<lparr> de_raw = 0x3700, de_label = ''ER'', de_category = Regulatory \<rparr>,
     \<lparr> de_raw = 0x3800, de_label = ''ES'', de_category = Regulatory \<rparr>,
     \<lparr> de_raw = 0x3900, de_label = ''ET'', de_category = Regulatory \<rparr>,
     \<lparr> de_raw = 0x3A00, de_label = ''FI'', de_category = Regulatory \<rparr>]"

definition REGULATORY_3 :: "DomainEntry list" where
  [domain_tables]: "REGULATORY_3 = [
     \<lparr> de_raw = 0x3B00, de_label = ''FJ'', de_category = Regulatory \<rparr>,
     \<lparr> de_raw = 0x3C00, de_label = ''FM'', de_category = Regulatory \<rparr>,
     \<lparr> de_raw = 0x3D00, de_label = ''FR'', de_category = Regulatory \<rparr>,
     \<lparr> de_raw = 0x3E00, de_label = ''GA'', de_category = Regulatory \<rparr>,
     \<lparr> de_raw = 0x3F00, de_label = ''GB'', de_category = Regulatory \<rparr>,
     \<lparr> de_raw = 0x4000, de_label = ''GD'', de_category = Regulatory \<rparr>,
     \<lparr> de_raw = 0x4100, de_label = ''GE'', de_category = Regulatory \<rparr>,
     \<lparr> de_raw = 0x4200, de_label = ''GH'', de_category = Regulatory \<rparr>,
     \<lparr> de_raw = 0x4300, de_label = ''GM'', de_category = Regulatory \<rparr>,
     \<lparr> de_raw = 0x4400, de_label = ''GN'', de_category = Regulatory \<rparr>,
     \<lparr> de_raw = 0x4500, de_label = ''GQ'', de_category = Regulatory \<rparr>,
     \<lparr> de_raw = 0x4600, de_label = ''GR'', de_category = Regulatory \<rparr>,
     \<lparr> de_raw = 0x4700, de_label = ''GT'', de_category = Regulatory \<rparr>,
     \<lparr> de_raw = 0x4800, de_label = ''GW'', de_category = Regulatory \<rparr>,
     \<lparr> de_raw = 0x4900, de_label = ''GY'', de_category = Regulatory \<rparr>,
     \<lparr> de_raw = 0x4A00, de_label = ''HN'', de_category = Regulatory \<rparr>,
     \<lparr> de_raw = 0x4B00, de_label = ''HR'', de_category = Regulatory \<rparr>,
     \<lparr> de_raw = 0x4C00, de_label = ''HT'', de_category = Regulatory \<rparr>,
     \<lparr> de_raw = 0x4D00, de_label = ''HU'', de_category = Regulatory \<rparr>,
     \<lparr> de_raw = 0x4E00, de_label = ''ID'', de_category = Regulatory \<rparr>,
     \<lparr> de_raw = 0x4F00, de_label = ''IE'', de_category = Regulatory \<rparr>,
     \<lparr> de_raw = 0x5000, de_label = ''IL'', de_category = Regulatory \<rparr>,
     \<lparr> de_raw = 0x5100, de_label = ''IN'', de_category = Regulatory \<rparr>,
     \<lparr> de_raw = 0x5200, de_label = ''IQ'', de_category = Regulatory \<rparr>,
     \<lparr> de_raw = 0x5300, de_label = ''IR'', de_category = Regulatory \<rparr>,
     \<lparr> de_raw = 0x5400, de_label = ''IS'', de_category = Regulatory \<rparr>,
     \<lparr> de_raw = 0x5500, de_label = ''IT'', de_category = Regulatory \<rparr>,
     \<lparr> de_raw = 0x5600, de_label = ''JM'', de_category = Regulatory \<rparr>]"

definition REGULATORY_4 :: "DomainEntry list" where
  [domain_tables]: "REGULATORY_4 = [
     \<lparr> de_raw = 0x5700, de_label = ''JO'', de_category = Regulatory \<rparr>,
     \<lparr> de_raw = 0x5800, de_label = ''JP'', de_category = Regulatory \<rparr>,
     \<lparr> de_raw = 0x5900, de_label = ''KE'', de_category = Regulatory \<rparr>,
     \<lparr> de_raw = 0x5A00, de_label = ''KG'', de_category = Regulatory \<rparr>,
     \<lparr> de_raw = 0x5B00, de_label = ''KH'', de_category = Regulatory \<rparr>,
     \<lparr> de_raw = 0x5C00, de_label = ''KI'', de_category = Regulatory \<rparr>,
     \<lparr> de_raw = 0x5D00, de_label = ''KM'', de_category = Regulatory \<rparr>,
     \<lparr> de_raw = 0x5E00, de_label = ''KN'', de_category = Regulatory \<rparr>,
     \<lparr> de_raw = 0x5F00, de_label = ''KP'', de_category = Regulatory \<rparr>,
     \<lparr> de_raw = 0x6000, de_label = ''KR'', de_category = Regulatory \<rparr>,
     \<lparr> de_raw = 0x6100, de_label = ''KW'', de_category = Regulatory \<rparr>,
     \<lparr> de_raw = 0x6200, de_label = ''KZ'', de_category = Regulatory \<rparr>,
     \<lparr> de_raw = 0x6300, de_label = ''LA'', de_category = Regulatory \<rparr>,
     \<lparr> de_raw = 0x6400, de_label = ''LB'', de_category = Regulatory \<rparr>,
     \<lparr> de_raw = 0x6500, de_label = ''LC'', de_category = Regulatory \<rparr>,
     \<lparr> de_raw = 0x6600, de_label = ''LI'', de_category = Regulatory \<rparr>,
     \<lparr> de_raw = 0x6700, de_label = ''LK'', de_category = Regulatory \<rparr>,
     \<lparr> de_raw = 0x6800, de_label = ''LR'', de_category = Regulatory \<rparr>,
     \<lparr> de_raw = 0x6900, de_label = ''LS'', de_category = Regulatory \<rparr>,
     \<lparr> de_raw = 0x6A00, de_label = ''LT'', de_category = Regulatory \<rparr>,
     \<lparr> de_raw = 0x6B00, de_label = ''LU'', de_category = Regulatory \<rparr>,
     \<lparr> de_raw = 0x6C00, de_label = ''LV'', de_category = Regulatory \<rparr>,
     \<lparr> de_raw = 0x6D00, de_label = ''LY'', de_category = Regulatory \<rparr>,
     \<lparr> de_raw = 0x6E00, de_label = ''MA'', de_category = Regulatory \<rparr>,
     \<lparr> de_raw = 0x6F00, de_label = ''MC'', de_category = Regulatory \<rparr>,
     \<lparr> de_raw = 0x7000, de_label = ''MD'', de_category = Regulatory \<rparr>,
     \<lparr> de_raw = 0x7100, de_label = ''ME'', de_category = Regulatory \<rparr>,
     \<lparr> de_raw = 0x7200, de_label = ''MG'', de_category = Regulatory \<rparr>]"

definition REGULATORY_5 :: "DomainEntry list" where
  [domain_tables]: "REGULATORY_5 = [
     \<lparr> de_raw = 0x7300, de_label = ''MH'', de_category = Regulatory \<rparr>,
     \<lparr> de_raw = 0x7400, de_label = ''MK'', de_category = Regulatory \<rparr>,
     \<lparr> de_raw = 0x7500, de_label = ''ML'', de_category = Regulatory \<rparr>,
     \<lparr> de_raw = 0x7600, de_label = ''MM'', de_category = Regulatory \<rparr>,
     \<lparr> de_raw = 0x7700, de_label = ''MN'', de_category = Regulatory \<rparr>,
     \<lparr> de_raw = 0x7800, de_label = ''MR'', de_category = Regulatory \<rparr>,
     \<lparr> de_raw = 0x7900, de_label = ''MT'', de_category = Regulatory \<rparr>,
     \<lparr> de_raw = 0x7A00, de_label = ''MU'', de_category = Regulatory \<rparr>,
     \<lparr> de_raw = 0x7B00, de_label = ''MV'', de_category = Regulatory \<rparr>,
     \<lparr> de_raw = 0x7C00, de_label = ''MW'', de_category = Regulatory \<rparr>,
     \<lparr> de_raw = 0x7D00, de_label = ''MX'', de_category = Regulatory \<rparr>,
     \<lparr> de_raw = 0x7E00, de_label = ''MY'', de_category = Regulatory \<rparr>,
     \<lparr> de_raw = 0x7F00, de_label = ''MZ'', de_category = Regulatory \<rparr>,
     \<lparr> de_raw = 0x8000, de_label = ''NA'', de_category = Regulatory \<rparr>,
     \<lparr> de_raw = 0x8100, de_label = ''NE'', de_category = Regulatory \<rparr>,
     \<lparr> de_raw = 0x8200, de_label = ''NG'', de_category = Regulatory \<rparr>,
     \<lparr> de_raw = 0x8300, de_label = ''NI'', de_category = Regulatory \<rparr>,
     \<lparr> de_raw = 0x8400, de_label = ''NL'', de_category = Regulatory \<rparr>,
     \<lparr> de_raw = 0x8500, de_label = ''NO'', de_category = Regulatory \<rparr>,
     \<lparr> de_raw = 0x8600, de_label = ''NP'', de_category = Regulatory \<rparr>,
     \<lparr> de_raw = 0x8700, de_label = ''NR'', de_category = Regulatory \<rparr>,
     \<lparr> de_raw = 0x8800, de_label = ''NZ'', de_category = Regulatory \<rparr>,
     \<lparr> de_raw = 0x8900, de_label = ''OM'', de_category = Regulatory \<rparr>,
     \<lparr> de_raw = 0x8A00, de_label = ''PA'', de_category = Regulatory \<rparr>,
     \<lparr> de_raw = 0x8B00, de_label = ''PE'', de_category = Regulatory \<rparr>,
     \<lparr> de_raw = 0x8C00, de_label = ''PG'', de_category = Regulatory \<rparr>,
     \<lparr> de_raw = 0x8D00, de_label = ''PH'', de_category = Regulatory \<rparr>,
     \<lparr> de_raw = 0x8E00, de_label = ''PK'', de_category = Regulatory \<rparr>]"

definition REGULATORY_6 :: "DomainEntry list" where
  [domain_tables]: "REGULATORY_6 = [
     \<lparr> de_raw = 0x8F00, de_label = ''PL'', de_category = Regulatory \<rparr>,
     \<lparr> de_raw = 0x9000, de_label = ''PS'', de_category = Regulatory \<rparr>,
     \<lparr> de_raw = 0x9100, de_label = ''PT'', de_category = Regulatory \<rparr>,
     \<lparr> de_raw = 0x9200, de_label = ''PW'', de_category = Regulatory \<rparr>,
     \<lparr> de_raw = 0x9300, de_label = ''PY'', de_category = Regulatory \<rparr>,
     \<lparr> de_raw = 0x9400, de_label = ''QA'', de_category = Regulatory \<rparr>,
     \<lparr> de_raw = 0x9500, de_label = ''RO'', de_category = Regulatory \<rparr>,
     \<lparr> de_raw = 0x9600, de_label = ''RS'', de_category = Regulatory \<rparr>,
     \<lparr> de_raw = 0x9700, de_label = ''RU'', de_category = Regulatory \<rparr>,
     \<lparr> de_raw = 0x9800, de_label = ''RW'', de_category = Regulatory \<rparr>,
     \<lparr> de_raw = 0x9900, de_label = ''SA'', de_category = Regulatory \<rparr>,
     \<lparr> de_raw = 0x9A00, de_label = ''SB'', de_category = Regulatory \<rparr>,
     \<lparr> de_raw = 0x9B00, de_label = ''SC'', de_category = Regulatory \<rparr>,
     \<lparr> de_raw = 0x9C00, de_label = ''SD'', de_category = Regulatory \<rparr>,
     \<lparr> de_raw = 0x9D00, de_label = ''SE'', de_category = Regulatory \<rparr>,
     \<lparr> de_raw = 0x9E00, de_label = ''SG'', de_category = Regulatory \<rparr>,
     \<lparr> de_raw = 0x9F00, de_label = ''SI'', de_category = Regulatory \<rparr>,
     \<lparr> de_raw = 0xA000, de_label = ''SK'', de_category = Regulatory \<rparr>,
     \<lparr> de_raw = 0xA100, de_label = ''SL'', de_category = Regulatory \<rparr>,
     \<lparr> de_raw = 0xA200, de_label = ''SM'', de_category = Regulatory \<rparr>,
     \<lparr> de_raw = 0xA300, de_label = ''SN'', de_category = Regulatory \<rparr>,
     \<lparr> de_raw = 0xA400, de_label = ''SO'', de_category = Regulatory \<rparr>,
     \<lparr> de_raw = 0xA500, de_label = ''SR'', de_category = Regulatory \<rparr>,
     \<lparr> de_raw = 0xA600, de_label = ''SS'', de_category = Regulatory \<rparr>,
     \<lparr> de_raw = 0xA700, de_label = ''ST'', de_category = Regulatory \<rparr>,
     \<lparr> de_raw = 0xA800, de_label = ''SV'', de_category = Regulatory \<rparr>,
     \<lparr> de_raw = 0xA900, de_label = ''SY'', de_category = Regulatory \<rparr>,
     \<lparr> de_raw = 0xAA00, de_label = ''SZ'', de_category = Regulatory \<rparr>]"

definition REGULATORY_7 :: "DomainEntry list" where
  [domain_tables]: "REGULATORY_7 = [
     \<lparr> de_raw = 0xAB00, de_label = ''TD'', de_category = Regulatory \<rparr>,
     \<lparr> de_raw = 0xAC00, de_label = ''TG'', de_category = Regulatory \<rparr>,
     \<lparr> de_raw = 0xAD00, de_label = ''TH'', de_category = Regulatory \<rparr>,
     \<lparr> de_raw = 0xAE00, de_label = ''TJ'', de_category = Regulatory \<rparr>,
     \<lparr> de_raw = 0xAF00, de_label = ''TL'', de_category = Regulatory \<rparr>,
     \<lparr> de_raw = 0xB000, de_label = ''TM'', de_category = Regulatory \<rparr>,
     \<lparr> de_raw = 0xB100, de_label = ''TN'', de_category = Regulatory \<rparr>,
     \<lparr> de_raw = 0xB200, de_label = ''TO'', de_category = Regulatory \<rparr>,
     \<lparr> de_raw = 0xB300, de_label = ''TR'', de_category = Regulatory \<rparr>,
     \<lparr> de_raw = 0xB400, de_label = ''TT'', de_category = Regulatory \<rparr>,
     \<lparr> de_raw = 0xB500, de_label = ''TV'', de_category = Regulatory \<rparr>,
     \<lparr> de_raw = 0xB600, de_label = ''TZ'', de_category = Regulatory \<rparr>,
     \<lparr> de_raw = 0xB700, de_label = ''UA'', de_category = Regulatory \<rparr>,
     \<lparr> de_raw = 0xB800, de_label = ''UG'', de_category = Regulatory \<rparr>,
     \<lparr> de_raw = 0xB900, de_label = ''US'', de_category = Regulatory \<rparr>,
     \<lparr> de_raw = 0xBA00, de_label = ''UY'', de_category = Regulatory \<rparr>,
     \<lparr> de_raw = 0xBB00, de_label = ''UZ'', de_category = Regulatory \<rparr>,
     \<lparr> de_raw = 0xBC00, de_label = ''VA'', de_category = Regulatory \<rparr>,
     \<lparr> de_raw = 0xBD00, de_label = ''VC'', de_category = Regulatory \<rparr>,
     \<lparr> de_raw = 0xBE00, de_label = ''VE'', de_category = Regulatory \<rparr>,
     \<lparr> de_raw = 0xBF00, de_label = ''VN'', de_category = Regulatory \<rparr>,
     \<lparr> de_raw = 0xC000, de_label = ''VU'', de_category = Regulatory \<rparr>,
     \<lparr> de_raw = 0xC100, de_label = ''WS'', de_category = Regulatory \<rparr>,
     \<lparr> de_raw = 0xC200, de_label = ''YE'', de_category = Regulatory \<rparr>,
     \<lparr> de_raw = 0xC300, de_label = ''ZA'', de_category = Regulatory \<rparr>,
     \<lparr> de_raw = 0xC400, de_label = ''ZM'', de_category = Regulatory \<rparr>,
     \<lparr> de_raw = 0xC500, de_label = ''ZW'', de_category = Regulatory \<rparr>]"

definition REGULATORY :: "DomainEntry list" where
  [domain_tables]: "REGULATORY = REGULATORY_1 @ REGULATORY_2 @ REGULATORY_3 @ REGULATORY_4 @ REGULATORY_5 @ REGULATORY_6 @ REGULATORY_7"

definition SECTORS :: "DomainEntry list" where
  [domain_tables]: "SECTORS = [
     \<lparr> de_raw = 0xD003, de_label = ''CDS'', de_category = Sector \<rparr>,
     \<lparr> de_raw = 0xD006, de_label = ''CST'', de_category = Sector \<rparr>,
     \<lparr> de_raw = 0xD009, de_label = ''ENG'', de_category = Sector \<rparr>,
     \<lparr> de_raw = 0xD00C, de_label = ''FIN'', de_category = Sector \<rparr>,
     \<lparr> de_raw = 0xD00F, de_label = ''HLC'', de_category = Sector \<rparr>,
     \<lparr> de_raw = 0xD012, de_label = ''IND'', de_category = Sector \<rparr>,
     \<lparr> de_raw = 0xD015, de_label = ''ITC'', de_category = Sector \<rparr>,
     \<lparr> de_raw = 0xD018, de_label = ''MAT'', de_category = Sector \<rparr>,
     \<lparr> de_raw = 0xD01B, de_label = ''REA'', de_category = Sector \<rparr>,
     \<lparr> de_raw = 0xD01E, de_label = ''TLS'', de_category = Sector \<rparr>,
     \<lparr> de_raw = 0xD021, de_label = ''UTL'', de_category = Sector \<rparr>]"

definition WITNESS :: "DomainEntry list" where
  [domain_tables]: "WITNESS = [
     \<lparr> de_raw = 0xF003, de_label = ''Witness Fast'', de_category = WitnessDomain \<rparr>,
     \<lparr> de_raw = 0xF006, de_label = ''Witness Mobile'', de_category = WitnessDomain \<rparr>,
     \<lparr> de_raw = 0xF009, de_label = ''Witness Secure'', de_category = WitnessDomain \<rparr>]"

section \<open>Lookups\<close>

definition all_entries :: "DomainEntry list" where
  "all_entries = REGULATORY @ SECTORS @ WITNESS"

definition lookup_by_raw :: "u32 \<Rightarrow> DomainEntry option" where
  "lookup_by_raw raw = find (\<lambda>entry. de_raw entry = raw) all_entries"

definition lookup_regulatory_by_hi :: "u8 \<Rightarrow> DomainEntry option" where
  "lookup_regulatory_by_hi domain_hi = find (\<lambda>entry. ucast (drop_bit 8 (de_raw entry)) = domain_hi) REGULATORY"

definition category_for_raw :: "u32 \<Rightarrow> DomainCategory option" where
  "category_for_raw raw =
     (if in_range COUNTRY_RANGE raw then Some Regulatory
      else if in_range SECTOR_RANGE raw then Some Sector
      else if in_range RESERVE_RANGE raw then Some Reserve
      else if in_range WITNESS_RANGE raw then Some WitnessDomain
      else None)"

definition lookup_for_display :: "u32 \<Rightarrow> DomainEntry option" where
  "lookup_for_display raw =
     (case lookup_by_raw raw of
        Some entry \<Rightarrow> Some entry
      | None \<Rightarrow> (case category_for_raw raw of
           Some Regulatory \<Rightarrow> lookup_regulatory_by_hi (ucast (drop_bit 8 raw))
         | _ \<Rightarrow> None))"

text \<open>The match on a legacy country name, as the list of its arms.\<close>

definition legacy_labels :: "(string \<times> u32) list" where
  [domain_tables]: "legacy_labels = [
     (''argentina'', 0x0A00),
     (''australia'', 0x0C00),
     (''austria'', 0x0B00),
     (''belgium'', 0x1100),
     (''brazil'', 0x1900),
     (''canada'', 0x1F00),
     (''chile'', 0x2500),
     (''china'', 0x2700),
     (''colombia'', 0x2800),
     (''cyprus'', 0x2C00),
     (''czech republic'', 0x2D00),
     (''denmark'', 0x3000),
     (''egypt'', 0x3600),
     (''estonia'', 0x3500),
     (''finland'', 0x3A00),
     (''france'', 0x3D00),
     (''germany'', 0x2E00),
     (''india'', 0x5100),
     (''indonesia'', 0x4E00),
     (''ireland'', 0x4F00),
     (''israel'', 0x5000),
     (''italy'', 0x5500),
     (''japan'', 0x5800),
     (''mexico'', 0x7D00),
     (''netherlands'', 0x8400),
     (''new zealand'', 0x8800),
     (''nigeria'', 0x8200),
     (''norway'', 0x8500),
     (''poland'', 0x8F00),
     (''portugal'', 0x9100),
     (''saudi arabia'', 0x9900),
     (''singapore'', 0x9E00),
     (''south africa'', 0xC300),
     (''south korea'', 0x6000),
     (''spain'', 0x3800),
     (''sweden'', 0x9D00),
     (''switzerland'', 0x2300),
     (''turkey'', 0xB300),
     (''ukraine'', 0xB700),
     (''united arab emirates'', 0x0400),
     (''united kingdom'', 0x3F00),
     (''united states'', 0xB900),
     (''vietnam'', 0xBF00)]"

definition lookup_legacy_label_raw :: "string \<Rightarrow> u32 option" where
  "lookup_legacy_label_raw label = map_of legacy_labels (to_ascii_lowercase (trim label))"

definition lookup_by_label :: "string \<Rightarrow> DomainEntry option" where
  "lookup_by_label label =
     (let normalized = trim label
      in case find (\<lambda>entry. eq_ignore_ascii_case (de_label entry) normalized) all_entries of
           Some entry \<Rightarrow> Some entry
         | None \<Rightarrow> (case lookup_legacy_label_raw normalized of
              None \<Rightarrow> None | Some raw \<Rightarrow> lookup_by_raw raw))"

definition is_structurally_valid :: "u32 \<Rightarrow> bool" where
  "is_structurally_valid raw = (raw \<le> DOMAIN_MAX_20BIT \<and> category_for_raw raw \<noteq> None)"

section \<open>What the tables satisfy\<close>

text \<open>
  Both keys of the table increase from row to row: the number, and the label read as a number
  without regard to case. So a lookup by either key finds the one row that has it.
\<close>

definition label_key :: "string \<Rightarrow> nat" where
  "label_key s = foldl (\<lambda>a c. 256 * a + of_char c) 0 (to_ascii_lowercase s)"

lemmas label_eval = label_key_def to_ascii_lowercase_def ascii_lower_def

lemma regulatory_raws: "map de_raw REGULATORY = map (\<lambda>i. of_nat (256 * i)) [3..<198]"
  by (simp add: domain_tables)

lemma regulatory_category: "list_all (\<lambda>e. de_category e = Regulatory) REGULATORY"
  by (simp add: domain_tables)

lemma sector_category: "list_all (\<lambda>e. de_category e = Sector) SECTORS"
  by (simp add: domain_tables)

lemma witness_category: "list_all (\<lambda>e. de_category e = WitnessDomain) WITNESS"
  by (simp add: domain_tables)

lemma other_category: "list_all (\<lambda>e. de_category e \<noteq> Regulatory) (SECTORS @ WITNESS)"
  by (simp add: domain_tables)

lemma raws_increase: "successively (<) (map de_raw all_entries)"
  by (simp add: domain_tables all_entries_def)

lemma keys_increase: "successively (<) (map (label_key \<circ> de_label) all_entries)"
  by (simp add: domain_tables all_entries_def label_eval)

lemma labels_trimmed: "list_all (\<lambda>e. trim (de_label e) = de_label e) all_entries"
  by (simp add: domain_tables all_entries_def trim_plain codes_def)

lemma labels_plain: "list_all (\<lambda>e. list_all (\<lambda>c. c \<notin> {CHR ''-'', CHR ''/'', CHR ''$''}) (de_label e)) all_entries"
  by (simp add: domain_tables all_entries_def)

lemma legacy_plain: "list_all (\<lambda>(l, r). CHR ''$'' \<notin> set l) legacy_labels"
  by (simp add: domain_tables)

lemma categories: "list_all (\<lambda>e. category_for_raw (de_raw e) = Some (de_category e)) all_entries"
  by (simp add: domain_tables all_entries_def category_for_raw_def in_range_def COUNTRY_RANGE_def SECTOR_RANGE_def
      RESERVE_RANGE_def WITNESS_RANGE_def)

lemma distinct_of_increasing:
  fixes xs :: "'a::linorder list"
  shows "successively (<) xs \<Longrightarrow> distinct xs"
  using strict_sorted_iff [of xs] successively_conv_sorted_wrt [of "(<)" xs] by auto

lemma find_only:
  assumes "x \<in> set xs" "P x" and only: "\<And>y. y \<in> set xs \<Longrightarrow> P y \<Longrightarrow> y = x"
  shows "find P xs = Some x"
proof (cases "find P xs")
  case None
  with assms(1,2) show ?thesis by (auto simp: find_None_iff)
next
  case (Some y)
  then have "y \<in> set xs" "P y" by (auto simp: find_Some_iff)
  then show ?thesis using only Some by blast
qed

lemma find_key:
  assumes "distinct (map f xs)" "x \<in> set xs" "P x" "\<And>y. P y \<Longrightarrow> f y = f x"
  shows "find P xs = Some x"
proof (rule find_only [where P = P, OF assms(2,3)])
  fix y assume "y \<in> set xs" "P y"
  then show "y = x" using assms(1,2,4) by (meson distinct_map inj_onD)
qed

lemma lookup_by_raw_entry: "e \<in> set all_entries \<Longrightarrow> lookup_by_raw (de_raw e) = Some e"
  unfolding lookup_by_raw_def by (rule find_key [OF distinct_of_increasing [OF raws_increase]]) auto

lemma lookup_by_label_entry:
  assumes "e \<in> set all_entries"
  shows "lookup_by_label (de_label e) = Some e"
proof -
  have "trim (de_label e) = de_label e" using labels_trimmed assms by (auto simp: list_all_iff)
  moreover have "find (\<lambda>x. eq_ignore_ascii_case (de_label x) (de_label e)) all_entries = Some e"
    by (rule find_key [OF distinct_of_increasing [OF keys_increase] assms])
      (auto simp: eq_ignore_ascii_case_def label_key_def)
  ultimately show ?thesis by (simp add: lookup_by_label_def Let_def)
qed

lemma lookup_by_raw_Some: "lookup_by_raw raw = Some e \<Longrightarrow> e \<in> set all_entries \<and> de_raw e = raw"
  by (auto simp: lookup_by_raw_def find_Some_iff)

section \<open>Regulatory domains\<close>

text \<open>The regulatory table is indexed by the high byte: row i holds the high byte 3 + i.\<close>

lemma regulatory_length: "length REGULATORY = 195"
  using arg_cong [OF regulatory_raws, of length] by simp

lemma nth_of_map_upt: "map f xs = map g [a..<b] \<Longrightarrow> n < b - a \<Longrightarrow> f (xs ! n) = g (a + n)"
  by (metis length_map length_upt nth_map nth_upt less_diff_conv add.commute)

lemma regulatory_nth:
  assumes "n < 195"
  shows "unat (de_raw (REGULATORY ! n)) = 256 * (3 + n)"
proof -
  have "de_raw (REGULATORY ! n) = of_nat (256 * (3 + n))"
    using assms by (intro nth_of_map_upt [OF regulatory_raws]) simp
  then show ?thesis using assms by (simp only: unat_of_nat) simp
qed

lemma unat_hi_byte: "unat (ucast (drop_bit 8 (w :: u32)) :: u8) = unat w div 256 mod 256"
  using unsigned_less [of w, where ?'a = nat]
  by (simp add: unsigned_ucast_eq unsigned_drop_bit_eq drop_bit_eq_div [where ?'a = nat] take_bit_eq_mod [where ?'a = nat])

lemma unat_hi_part:
  fixes raw :: u32
  assumes "unat raw < 65536"
  shows "unat (raw AND 0xFF00) = unat raw div 256 * 256"
proof -
  have m: "(0xFF00 :: u32) = push_bit 8 (mask 8)" by (simp add: mask_numeral push_bit_eq_mult)
  have "raw AND 0xFF00 = push_bit 8 (take_bit 8 (drop_bit 8 raw))"
    unfolding m by (rule bit_word_eqI) (auto simp: bit_simps)
  also have "unat \<dots> = unat raw div 256 * 256"
  proof -
    have "unat raw div 256 < 256" using assms by (simp add: less_mult_imp_div_less)
    then show ?thesis
      by (simp add: unsigned_push_bit_eq unsigned_take_bit_eq unsigned_drop_bit_eq
          drop_bit_eq_div [where ?'a = nat] take_bit_eq_mod [where ?'a = nat] push_bit_eq_mult [where ?'a = nat])
  qed
  finally show ?thesis .
qed

lemma country_range: "category_for_raw raw = Some Regulatory \<longleftrightarrow> 768 \<le> unat raw \<and> unat raw \<le> 50687"
  by (auto simp: category_for_raw_def in_range_def COUNTRY_RANGE_def word_le_nat_alt split: if_splits)

lemma lookup_regulatory:
  assumes "category_for_raw raw = Some Regulatory"
  obtains e where "e \<in> set REGULATORY" "lookup_regulatory_by_hi (ucast (drop_bit 8 raw)) = Some e" "de_raw e = raw AND 0xFF00"
proof -
  define n where "n = unat raw div 256"
  have r: "768 \<le> unat raw" "unat raw \<le> 50687" using assms by (simp_all add: country_range)
  have n: "3 \<le> n" "n \<le> 197" using div_le_mono [OF r(1), of 256] div_le_mono [OF r(2), of 256] by (simp_all add: n_def)
  let ?e = "REGULATORY ! (n - 3)"
  have i: "n - 3 < 195" using n by simp
  have raw: "unat (de_raw (REGULATORY ! k)) = 256 * (3 + k)" if "k < 195" for k
    by (rule regulatory_nth [OF that])
  have mem: "?e \<in> set REGULATORY" using i by (simp add: regulatory_length)
  have "find (\<lambda>entry. (ucast (drop_bit 8 (de_raw entry)) :: u8) = ucast (drop_bit 8 raw)) REGULATORY = Some ?e"
  proof (rule find_only [OF mem])
    show "(ucast (drop_bit 8 (de_raw ?e)) :: u8) = ucast (drop_bit 8 raw)"
      using raw [OF i] n by (simp add: word_unat_eq_iff unat_hi_byte n_def)
  next
    fix y assume y: "y \<in> set REGULATORY" "(ucast (drop_bit 8 (de_raw y)) :: u8) = ucast (drop_bit 8 raw)"
    then obtain k where k: "k < 195" "y = REGULATORY ! k" by (auto simp: in_set_conv_nth regulatory_length)
    from y(2) have "(3 + k) mod 256 = n mod 256" using raw [OF k(1)] k(2) by (simp add: word_unat_eq_iff unat_hi_byte n_def)
    then have "k = n - 3" using k(1) n by simp
    then show "y = ?e" using k(2) by simp
  qed
  moreover have "de_raw ?e = raw AND 0xFF00"
    using raw [OF i] n r(2) by (simp add: word_unat_eq_iff unat_hi_part n_def)
  ultimately show thesis using that mem by (simp add: lookup_regulatory_by_hi_def)
qed

text \<open>What is shown for a number: a listed domain itself, or the country of its high byte.\<close>

lemma lookup_for_display_Some:
  assumes "lookup_for_display raw = Some e"
  shows "e \<in> set all_entries \<and> (de_raw e = raw \<or> category_for_raw raw = Some Regulatory \<and> de_raw e = raw AND 0xFF00)"
proof (cases "lookup_by_raw raw")
  case None
  with assms have c: "category_for_raw raw = Some Regulatory" "lookup_regulatory_by_hi (ucast (drop_bit 8 raw)) = Some e"
    by (auto simp: lookup_for_display_def split: option.splits DomainCategory.splits)
  from lookup_regulatory [OF c(1)] c(2) show ?thesis by (auto simp: all_entries_def c(1))
next
  case (Some e')
  with assms lookup_by_raw_Some [OF Some] show ?thesis by (simp add: lookup_for_display_def)
qed

lemma lookup_for_display_regulatory:
  assumes "category_for_raw raw = Some Regulatory"
  obtains e where "lookup_for_display raw = Some e" "e \<in> set all_entries" "de_raw e = raw AND 0xFF00"
proof -
  obtain e where e: "e \<in> set REGULATORY" "lookup_regulatory_by_hi (ucast (drop_bit 8 raw)) = Some e" "de_raw e = raw AND 0xFF00"
    using lookup_regulatory [OF assms] by blast
  show thesis
  proof (cases "lookup_by_raw raw")
    case None
    with e assms show thesis using that [of e] by (simp add: lookup_for_display_def all_entries_def)
  next
    case (Some x)
    then have x: "x \<in> set all_entries" "de_raw x = raw" using lookup_by_raw_Some by blast+
    have le: "unat raw < 65536" using assms by (simp add: country_range)
    have "x \<in> set REGULATORY"
      using x assms categories other_category by (auto simp: all_entries_def list_all_iff)
    then obtain k where k: "k < 195" "x = REGULATORY ! k" by (auto simp: in_set_conv_nth regulatory_length)
    then have "unat raw = 256 * (3 + k)" using x(2) regulatory_nth [OF k(1)] by simp
    then have "de_raw x = raw AND 0xFF00" using x(2) le by (simp add: word_unat_eq_iff unat_hi_part)
    with Some x show thesis using that [of x] by (simp add: lookup_for_display_def)
  qed
qed

end
