(* ===== verification/Pwm_Addr.thy ===== *)
theory Pwm_Addr
  imports Pwm_Account Pwm_Domain_Index
begin

text \<open>
  Account identifiers as text (src/crates/pwm-core/src/types.rs): the bech32dx form, the
  pretty form \<open>pwm1-LABEL/LO-fFLAGS-tTAIL\<close>, the legacy hexadecimal form, and the parsers that
  accept them. The crates bech32 and hex are the fields of \<open>addrlib\<close>; what the code relies
  on is \<open>addr_laws\<close>. Error texts are those of the code; a text that a crate makes is the
  error of the parameter.
\<close>

section \<open>The third-party codecs\<close>

datatype Variant = Bech32 | Bech32m

record addrlib =
  x_to_base32 :: "bytes \<Rightarrow> 5 word list"
  x_from_base32 :: "5 word list \<Rightarrow> string + bytes"
  x_b32_encode :: "string \<Rightarrow> 5 word list \<Rightarrow> Variant \<Rightarrow> string option"
  x_b32_decode :: "string \<Rightarrow> string + (string \<times> 5 word list \<times> Variant)"
  x_hex_encode :: "bytes \<Rightarrow> string"
  x_hex_decode :: "string \<Rightarrow> string + bytes"

text \<open>
  The documented behaviour: regrouping bits and back is the identity; an encoding with a
  lower case prefix decodes to its parts and is lower case text; a string that decodes is, in
  lower case, the prefix, the separator and characters of the bech32 alphabet, which has no
  hyphen; hexadecimal text has two digits per byte and decodes to the bytes.
\<close>

definition b32_laws :: "addrlib \<Rightarrow> bool" where
  "b32_laws lib \<longleftrightarrow>
     (\<forall>b. x_from_base32 lib (x_to_base32 lib b) = Inr b) \<and>
     (\<forall>d v. \<exists>t. x_b32_encode lib ''pwm'' d v = Some (''pwm1'' @ t) \<and> t \<noteq> [] \<and> list_all graphic t \<and> CHR ''-'' \<notin> set t \<and>
        x_b32_decode lib (''pwm1'' @ t) = Inr (''pwm'', d, v)) \<and>
     (\<forall>s h d v. x_b32_decode lib s = Inr (h, d, v) \<longrightarrow>
        (\<exists>t. to_ascii_lowercase s = h @ ''1'' @ t \<and> CHR ''-'' \<notin> set t))"

definition hex_laws :: "addrlib \<Rightarrow> bool" where
  "hex_laws lib \<longleftrightarrow>
     (\<forall>b. x_hex_decode lib (x_hex_encode lib b) = Inr b \<and> length (x_hex_encode lib b) = 2 * length b \<and>
        list_all is_ascii_hexdigit (x_hex_encode lib b))"

section \<open>bech32dx\<close>

definition LEGACY_HUMAN_ACCOUNT_PREFIX :: string where
  "LEGACY_HUMAN_ACCOUNT_PREFIX = ''PWMv0-''"

definition BECH32DX_HRP :: string where
  "BECH32DX_HRP = ''pwm''"

definition BECH32DX_VERSION :: u8 where
  "BECH32DX_VERSION = 1"

definition BECH32DX_PAYLOAD_LEN :: nat where
  "BECH32DX_PAYLOAD_LEN = 38"

definition dom_raw_from_acct :: "AccountId \<Rightarrow> u32" where
  "dom_raw_from_acct aid = (push_bit 8 (ucast (byte_at aid 0)) OR ucast (byte_at aid 1))"

text \<open>\<open>None\<close> is the panic of \<open>expect\<close>.\<close>

definition encode_bech32dx :: "addrlib \<Rightarrow> u8 \<Rightarrow> u8 \<Rightarrow> u32 \<Rightarrow> AccountId \<Rightarrow> string option" where
  "encode_bech32dx lib version flags domain_raw aid =
     x_b32_encode lib BECH32DX_HRP
       (x_to_base32 lib ([version, flags] @ be_bytes 4 domain_raw @ be_bytes 32 aid)) Bech32m"

definition account_id_to_bech32dx :: "addrlib \<Rightarrow> AccountId \<Rightarrow> string option" where
  "account_id_to_bech32dx lib aid = encode_bech32dx lib BECH32DX_VERSION 0 (dom_raw_from_acct aid) aid"

record Bech32DxDecoded =
  bd_version :: u8
  bd_flags :: u8
  bd_domain_raw :: u32
  bd_account_id :: AccountId

definition decode_bech32dx :: "addrlib \<Rightarrow> string \<Rightarrow> string + Bech32DxDecoded" where
  "decode_bech32dx lib s =
     (case x_b32_decode lib s of
        Inl e \<Rightarrow> Inl e
      | Inr (hrp, data, variant) \<Rightarrow>
          if hrp \<noteq> BECH32DX_HRP then Inl ''wrong bech32dx hrp''
          else if variant \<noteq> Bech32m then Inl ''wrong bech32dx variant''
          else (case x_from_base32 lib data of
              Inl e \<Rightarrow> Inl e
            | Inr payload \<Rightarrow>
                if length payload \<noteq> BECH32DX_PAYLOAD_LEN then Inl ''wrong bech32dx payload length''
                else if payload ! 0 \<noteq> BECH32DX_VERSION then Inl ''unsupported bech32dx version''
                else Inr \<lparr> bd_version = payload ! 0, bd_flags = payload ! 1,
                    bd_domain_raw = from_be [payload ! 2, payload ! 3, payload ! 4, payload ! 5],
                    bd_account_id = from_be (drop 6 payload) \<rparr>))"

definition parse_bech32dx_account_id :: "addrlib \<Rightarrow> string \<Rightarrow> string + AccountId" where
  "parse_bech32dx_account_id lib s =
     (case decode_bech32dx lib s of Inl e \<Rightarrow> Inl e | Inr d \<Rightarrow> Inr (bd_account_id d))"

section \<open>Pretty addresses\<close>

definition fmt_dom_pascal_hex :: "u32 \<Rightarrow> nat \<Rightarrow> string" where
  "fmt_dom_pascal_hex domain_raw width = ''$'' @ pad_zero width (show_radix 16 (unat domain_raw))"

definition format_domain_pascal_hex :: "u32 \<Rightarrow> string" where
  "format_domain_pascal_hex domain_raw = fmt_dom_pascal_hex domain_raw (if domain_raw \<le> 0xFFFF then 4 else 5)"

definition format_domain_for_display :: "u32 \<Rightarrow> string \<times> bool" where
  "format_domain_for_display domain_raw =
     (case lookup_for_display domain_raw of
        Some entry \<Rightarrow> (de_label entry, True)
      | None \<Rightarrow> (format_domain_pascal_hex domain_raw, False))"

definition render_acct_id_ui :: "addrlib \<Rightarrow> AccountId \<Rightarrow> string" where
  "render_acct_id_ui lib aid =
     (let domain_raw = dom_raw_from_acct aid;
          (domain_display, known_for_display) = format_domain_for_display domain_raw;
          known_domain_with_lo =
            (if known_for_display \<and> category_for_raw domain_raw = Some Regulatory
             then domain_display @ ''/'' @ pad_zero 2 (show_radix 16 (unat (byte_at aid 1)))
             else domain_display);
          flags = address_flags aid;
          tail = x_hex_encode lib (drop 6 (be_bytes 32 aid));
          domain_hint = (if known_for_display then known_domain_with_lo else known_domain_with_lo @ ''!'')
      in ''pwm1-'' @ domain_hint @ ''-f'' @ pad_zero 8 (show_radix 16 (unat flags)) @ ''-t'' @ tail)"

definition account_id_to_human :: "addrlib \<Rightarrow> AccountId \<Rightarrow> string" where
  "account_id_to_human lib aid = render_acct_id_ui lib aid"

definition parse_u32_hex :: "string \<Rightarrow> string + u32" where
  "parse_u32_hex s = (case from_str_radix 16 (2 ^ 32) s of
     None \<Rightarrow> Inl ''invalid digit found in string'' | Some n \<Rightarrow> Inr (of_nat n))"

definition parse_pretty_domain :: "string \<Rightarrow> string + u32" where
  "parse_pretty_domain domain_part =
     (case split_once ''/'' domain_part of
        Some (label, lo_hex) \<Rightarrow>
          if length lo_hex \<noteq> 2 \<or> \<not> list_all is_ascii_hexdigit lo_hex then Inl ''invalid pretty domain lo-byte''
          else (case lookup_by_label label of
              None \<Rightarrow> Inl ''invalid pretty domain label''
            | Some entry \<Rightarrow> (case from_str_radix 16 (2 ^ 8) lo_hex of
                None \<Rightarrow> Inl ''invalid digit found in string''
              | Some lo \<Rightarrow> Inr ((de_raw entry AND 0xFF00) OR of_nat lo)))
      | None \<Rightarrow>
          (case lookup_by_label domain_part of
             Some entry \<Rightarrow> Inr (de_raw entry)
           | None \<Rightarrow>
               (case strip_prefix ''$'' (case strip_suffix ''!'' domain_part of Some s \<Rightarrow> s | None \<Rightarrow> domain_part) of
                  None \<Rightarrow> Inl ''invalid pretty domain''
                | Some hex \<Rightarrow>
                    if \<not> (length hex = 4 \<or> length hex = 5) \<or> \<not> list_all is_ascii_hexdigit hex
                    then Inl ''invalid pretty domain'' else parse_u32_hex hex)))"

text \<open>
  Hexadecimal text of 52 digits decodes to 26 bytes, so the copy into the tail of the
  identifier has the length it needs.
\<close>

definition parse_pretty_account_id :: "addrlib \<Rightarrow> string \<Rightarrow> string + AccountId" where
  "parse_pretty_account_id lib s =
     (case strip_prefix ''pwm1-'' s of
        None \<Rightarrow> Inl ''missing pretty prefix''
      | Some rest \<Rightarrow> (case split_once ''-f'' rest of
          None \<Rightarrow> Inl ''missing pretty flags separator''
        | Some (domain_part, after_domain) \<Rightarrow> (case split_once ''-t'' after_domain of
            None \<Rightarrow> Inl ''missing pretty tail separator''
          | Some (flags_hex, tail_part) \<Rightarrow>
              if length flags_hex \<noteq> 8 \<or> \<not> list_all is_ascii_hexdigit flags_hex then Inl ''invalid pretty flags''
              else if length tail_part \<noteq> 52 \<or> \<not> list_all is_ascii_hexdigit tail_part then Inl ''invalid pretty tail''
              else (case parse_pretty_domain domain_part of
                  Inl e \<Rightarrow> Inl e
                | Inr domain_raw \<Rightarrow>
                    if domain_raw > 0xFFFF then Inl ''pretty domain does not fit u16''
                    else (case parse_u32_hex flags_hex of
                        Inl e \<Rightarrow> Inl e
                      | Inr flags \<Rightarrow> (case x_hex_decode lib tail_part of
                          Inl e \<Rightarrow> Inl e
                        | Inr tail \<Rightarrow> Inr (from_be (be_bytes 2 (ucast domain_raw :: u16) @ be_bytes 4 flags @ tail))))))))"

section \<open>Parsing any form\<close>

definition parse_account_id :: "addrlib \<Rightarrow> string \<Rightarrow> string + AccountId" where
  "parse_account_id lib input =
     (let s = trim input
      in case parse_bech32dx_account_id lib s of
           Inr aid \<Rightarrow> Inr aid
         | Inl _ \<Rightarrow> (case parse_pretty_account_id lib s of
             Inr aid \<Rightarrow> Inr aid
           | Inl e \<Rightarrow>
               if strip_prefix ''pwm1-'' s \<noteq> None then Inl e
               else let legacy_bech32_part = (case split_once ''$'' s of Some (head, _) \<Rightarrow> head | None \<Rightarrow> s)
                    in case parse_bech32dx_account_id lib legacy_bech32_part of
                         Inr aid \<Rightarrow> Inr aid
                       | Inl _ \<Rightarrow>
                           (let hex_part = (case strip_prefix LEGACY_HUMAN_ACCOUNT_PREFIX legacy_bech32_part of
                                  Some rest \<Rightarrow> rest | None \<Rightarrow> legacy_bech32_part)
                            in case x_hex_decode lib hex_part of
                                 Inl e \<Rightarrow> Inl e
                               | Inr bs \<Rightarrow> if length bs \<noteq> 32 then Inl ''need 32 bytes hex account id''
                                   else Inr (from_be bs))))"

definition pretty_domain_part :: "string \<Rightarrow> string option" where
  "pretty_domain_part s =
     (case strip_prefix ''pwm1-'' s of
        None \<Rightarrow> None
      | Some rest \<Rightarrow> (case split_once ''-f'' rest of None \<Rightarrow> None | Some (domain_part, _) \<Rightarrow> Some domain_part))"

definition quoted :: "string \<Rightarrow> string" where
  "quoted s = [CHR 0x27] @ s @ [CHR 0x27]"

definition reject_ambig_dom :: "string \<Rightarrow> bool \<Rightarrow> string + unit" where
  "reject_ambig_dom domain_part runtime_user_input =
     (if CHR ''/'' \<in> set domain_part then Inr ()
      else case lookup_by_label domain_part of
        None \<Rightarrow> Inr ()
      | Some entry \<Rightarrow>
          if category_for_raw (de_raw entry) = Some Regulatory
          then Inl (''ambiguous legacy pretty domain '' @ quoted domain_part @ '': missing '' @ quoted ''/LO'' @
            (if runtime_user_input
             then '' suffix; use strict pretty '' @ quoted ''pwm1-LABEL/XX-f...-t...'' @
                  '' or canonical bech32dx '' @ quoted ''pwm1...''
             else '' suffix; use canonical/bech32dx, account_id_hex, or strict pretty LABEL/LO''))
          else Inr ())"

definition parse_acct_id_checked :: "bool \<Rightarrow> addrlib \<Rightarrow> string \<Rightarrow> string + AccountId" where
  "parse_acct_id_checked runtime lib input =
     (let s = trim input
      in case pretty_domain_part s of
           None \<Rightarrow> parse_account_id lib s
         | Some domain_part \<Rightarrow> (case reject_ambig_dom domain_part runtime of
             Inl e \<Rightarrow> Inl e | Inr _ \<Rightarrow> parse_account_id lib s))"

definition parse_acct_id_ui :: "addrlib \<Rightarrow> string \<Rightarrow> string + AccountId" where
  "parse_acct_id_ui lib input = parse_acct_id_checked True lib input"

definition parse_acct_id_mig :: "addrlib \<Rightarrow> string \<Rightarrow> string + AccountId" where
  "parse_acct_id_mig lib input = parse_acct_id_checked False lib input"

section \<open>The bytes of an identifier\<close>

lemma byte_at_nth: "i < 32 \<Longrightarrow> byte_at aid i = be_bytes 32 aid ! i"
  by (simp add: byte_at_def be_bytes_nth)

lemma acct_bytes: "be_bytes 32 aid =
    [byte_at aid 0, byte_at aid 1] @ [byte_at aid 2, byte_at aid 3, byte_at aid 4, byte_at aid 5] @ drop 6 (be_bytes 32 aid)"
proof -
  let ?b = "be_bytes 32 aid"
  have "map (\<lambda>i. ?b ! i) [0..<32] = ?b" using map_nth [of ?b] by simp
  moreover have "take 6 (map (\<lambda>i. ?b ! i) [0..<32]) = map (\<lambda>i. ?b ! i) [0..<6]" 
    by (subst take_map, subst take_upt) simp_all
  ultimately have "take 6 ?b = map (\<lambda>i. ?b ! i) [0..<6]" by metis
  also have "\<dots> = [byte_at aid 0, byte_at aid 1, byte_at aid 2, byte_at aid 3, byte_at aid 4, byte_at aid 5]"
    by (simp add: byte_at_nth upt_rec) (simp add: numeral_eq_Suc)
  finally show ?thesis by (metis append_take_drop_id append_Cons append_Nil)
qed

lemma flags_bytes: "be_bytes 4 (address_flags aid) = [byte_at aid 2, byte_at aid 3, byte_at aid 4, byte_at aid 5]"
  using be_bytes_from_be [where ?'a = 32, of "[byte_at aid 2, byte_at aid 3, byte_at aid 4, byte_at aid 5]" 4]
  by (simp add: address_flags_def)

lemma dom_raw_bound: "unat (dom_raw_from_acct aid) < 65536"
proof -
  have "dom_raw_from_acct aid = take_bit 16 (dom_raw_from_acct aid)"
    unfolding dom_raw_from_acct_def by (rule bit_word_eqI) (auto simp: bit_simps dest: bit_imp_le_length)
  then have "unat (dom_raw_from_acct aid) = take_bit 16 (unat (dom_raw_from_acct aid))" by (metis unsigned_take_bit_eq)
  then show ?thesis using take_bit_nat_less_exp [of 16 "unat (dom_raw_from_acct aid)"] by simp
qed

lemma dom_raw_bytes: "be_bytes 2 (ucast (dom_raw_from_acct aid) :: u16) = [byte_at aid 0, byte_at aid 1]"
proof -
  have "ucast (dom_raw_from_acct aid) = (from_be [byte_at aid 0, byte_at aid 1] :: u16)"
    unfolding from_be_def dom_raw_from_acct_def by (rule bit_word_eqI) (auto simp: bit_simps)
  then show ?thesis using be_bytes_from_be [where ?'a = 16, of "[byte_at aid 0, byte_at aid 1]" 2] by simp
qed

lemma dom_raw_lo: "((dom_raw_from_acct aid AND 0xFF00) AND 0xFF00) OR ucast (byte_at aid 1) = dom_raw_from_acct aid"
proof -
  have m: "(0xFF00 :: u32) = push_bit 8 (mask 8)" by (simp add: mask_numeral push_bit_eq_mult)
  show ?thesis
    unfolding m dom_raw_from_acct_def
    by (rule bit_word_eqI) (auto simp: bit_simps dest: bit_imp_le_length)
qed

lemma acct_from_parts:
  "from_be (be_bytes 2 (ucast (dom_raw_from_acct aid) :: u16) @ be_bytes 4 (address_flags aid) @ drop 6 (be_bytes 32 aid)) = aid"
  unfolding dom_raw_bytes flags_bytes acct_bytes [symmetric] by (rule from_be_bytes) simp

section \<open>Parsing inverts rendering\<close>

lemma ascii_lower_keep: "\<not> (97 \<le> (of_char d :: nat) \<and> (of_char d :: nat) \<le> 122) \<Longrightarrow> ascii_lower c = d \<Longrightarrow> c = d"
  by (auto simp: ascii_lower_def Let_def split: if_splits)

lemma lookup_by_label_dollar:
  assumes "trim s = s" "CHR ''$'' \<in> set s"
  shows "lookup_by_label s = None"
proof -
  have low: "CHR ''$'' \<in> set (to_ascii_lowercase s)"
    using assms(2) by (force simp: to_ascii_lowercase_def ascii_lower_def image_iff)
  have "\<not> eq_ignore_ascii_case (de_label e) s" if "e \<in> set all_entries" for e
  proof
    assume "eq_ignore_ascii_case (de_label e) s"
    with low have "CHR ''$'' \<in> set (to_ascii_lowercase (de_label e))" by (simp add: eq_ignore_ascii_case_def)
    then obtain c where "c \<in> set (de_label e)" "ascii_lower c = CHR ''$''" by (auto simp: to_ascii_lowercase_def)
    moreover from ascii_lower_keep [OF _ this(2)] have "c = CHR ''$''" by simp
    ultimately have "CHR ''$'' \<in> set (de_label e)" by simp
    with labels_plain that show False by (auto simp: list_all_iff)
  qed
  then have "find (\<lambda>entry. eq_ignore_ascii_case (de_label entry) s) all_entries = None" by (simp add: find_None_iff)
  moreover have "map_of legacy_labels (to_ascii_lowercase s) = None"
    using legacy_plain low by (auto simp: map_of_eq_None_iff list_all_iff)
  ultimately show ?thesis
    by (simp add: lookup_by_label_def Let_def assms(1) lookup_legacy_label_raw_def)
qed

lemma hex_text:
  shows "list_all is_ascii_hexdigit (pad_zero w (show_radix 16 n))"
    and "n < 16 ^ w \<Longrightarrow> 0 < w \<Longrightarrow> length (pad_zero w (show_radix 16 n)) = w"
    and "n < b \<Longrightarrow> from_str_radix 16 b (pad_zero w (show_radix 16 n)) = Some n"
proof -
  show "list_all is_ascii_hexdigit (pad_zero w (show_radix 16 n))"
    by (intro pad_zero_all show_radix_all) (simp_all add: digit_char_kind is_ascii_hexdigit_def)
  show "n < 16 ^ w \<Longrightarrow> 0 < w \<Longrightarrow> length (pad_zero w (show_radix 16 n)) = w"
    by (intro length_pad_zero length_show_radix) simp_all
  show "n < b \<Longrightarrow> from_str_radix 16 b (pad_zero w (show_radix 16 n)) = Some n"
    by (intro from_str_radix_pad) simp_all
qed

lemma hex_chars: "list_all is_ascii_hexdigit s \<Longrightarrow> c \<in> set s \<Longrightarrow> graphic c \<and> c \<notin> {CHR ''-'', CHR ''/'', CHR ''$'', CHR ''!''}"
  by (auto simp: list_all_iff is_ascii_hexdigit_def graphic_def Let_def)

text \<open>The domain part of a rendered identifier, and what it parses to.\<close>

definition domain_hint :: "AccountId \<Rightarrow> string" where
  "domain_hint aid =
     (case lookup_for_display (dom_raw_from_acct aid) of
        Some e \<Rightarrow> if category_for_raw (dom_raw_from_acct aid) = Some Regulatory
          then de_label e @ ''/'' @ pad_zero 2 (show_radix 16 (unat (byte_at aid 1))) else de_label e
      | None \<Rightarrow> ''$'' @ pad_zero 4 (show_radix 16 (unat (dom_raw_from_acct aid))) @ ''!'')"

lemma render_parts:
  "render_acct_id_ui lib aid = ''pwm1-'' @ domain_hint aid @ ''-f'' @
     pad_zero 8 (show_radix 16 (unat (address_flags aid))) @ ''-t'' @ x_hex_encode lib (drop 6 (be_bytes 32 aid))"
proof -
  have "dom_raw_from_acct aid \<le> 0xFFFF" using dom_raw_bound [of aid] by (simp add: word_le_nat_alt)
  then show ?thesis
    by (auto simp: render_acct_id_ui_def domain_hint_def format_domain_for_display_def format_domain_pascal_hex_def
        fmt_dom_pascal_hex_def Let_def split: option.splits)
qed

lemma unat_byte_less: "unat (b :: u8) < 256"
  using unsigned_less [of b, where ?'a = nat] by simp

lemma domain_hint_regulatory:
  assumes "category_for_raw (dom_raw_from_acct aid) = Some Regulatory"
  shows "parse_pretty_domain (domain_hint aid) = Inr (dom_raw_from_acct aid) \<and> CHR ''-'' \<notin> set (domain_hint aid) \<and>
    reject_ambig_dom (domain_hint aid) rt = Inr ()"
proof -
  let ?lo = "pad_zero 2 (show_radix 16 (unat (byte_at aid 1)))"
  obtain e where e: "lookup_for_display (dom_raw_from_acct aid) = Some e" "e \<in> set all_entries"
    "de_raw e = dom_raw_from_acct aid AND 0xFF00"
    using lookup_for_display_regulatory [OF assms] by blast
  have hint: "domain_hint aid = de_label e @ ''/'' @ ?lo" using e assms by (simp add: domain_hint_def)
  have plain: "c \<notin> set (de_label e)" if "c \<in> {CHR ''-'', CHR ''/'', CHR ''$''}" for c
    using labels_plain e(2) that by (auto simp: list_all_iff)
  have lo: "length ?lo = 2" "list_all is_ascii_hexdigit ?lo" "from_str_radix 16 (2 ^ 8) ?lo = Some (unat (byte_at aid 1))"
    using hex_text(2) [of _ 2] hex_text(1,3) unat_byte_less [of "byte_at aid 1"] by simp_all
  have "split_once ''/'' (domain_hint aid) = Some (de_label e, ?lo)"
    unfolding hint using plain by (intro split_once_head) auto
  then have "parse_pretty_domain (domain_hint aid) = Inr ((de_raw e AND 0xFF00) OR of_nat (unat (byte_at aid 1)))"
    using lo lookup_by_label_entry [OF e(2)] by (simp add: parse_pretty_domain_def)
  also have "(de_raw e AND 0xFF00) OR of_nat (unat (byte_at aid 1)) = dom_raw_from_acct aid"
    unfolding e(3) using dom_raw_lo [of aid] by simp
  finally have "parse_pretty_domain (domain_hint aid) = Inr (dom_raw_from_acct aid)" .
  moreover have "CHR ''-'' \<notin> set (domain_hint aid)" using plain hex_chars [OF lo(2)] by (auto simp: hint)
  moreover have "reject_ambig_dom (domain_hint aid) rt = Inr ()" by (simp add: reject_ambig_dom_def hint)
  ultimately show ?thesis by blast
qed

lemma domain_hint_listed:
  assumes "category_for_raw (dom_raw_from_acct aid) \<noteq> Some Regulatory"
    and "lookup_for_display (dom_raw_from_acct aid) = Some e"
  shows "parse_pretty_domain (domain_hint aid) = Inr (dom_raw_from_acct aid) \<and> CHR ''-'' \<notin> set (domain_hint aid) \<and>
    reject_ambig_dom (domain_hint aid) rt = Inr ()"
proof -
  have e: "e \<in> set all_entries" "de_raw e = dom_raw_from_acct aid"
    using lookup_for_display_Some [OF assms(2)] assms(1) by auto
  have hint: "domain_hint aid = de_label e" using assms by (simp add: domain_hint_def)
  have plain: "c \<notin> set (de_label e)" if "c \<in> {CHR ''-'', CHR ''/'', CHR ''$''}" for c
    using labels_plain e(1) that by (auto simp: list_all_iff)
  have "split_once ''/'' (de_label e) = None" using plain by (intro split_once_absent) auto
  then show ?thesis
    using plain assms(1) e by (simp add: hint parse_pretty_domain_def lookup_by_label_entry [OF e(1)] reject_ambig_dom_def)
qed

lemma domain_hint_unknown:
  assumes "lookup_for_display (dom_raw_from_acct aid) = None"
  shows "parse_pretty_domain (domain_hint aid) = Inr (dom_raw_from_acct aid) \<and> CHR ''-'' \<notin> set (domain_hint aid) \<and>
    reject_ambig_dom (domain_hint aid) rt = Inr ()"
proof -
  let ?h = "pad_zero 4 (show_radix 16 (unat (dom_raw_from_acct aid)))"
  have hint: "domain_hint aid = CHR ''$'' # ?h @ ''!''" using assms by (simp add: domain_hint_def)
  have h: "list_all is_ascii_hexdigit ?h" "length ?h = 4" "from_str_radix 16 (2 ^ 32) ?h = Some (unat (dom_raw_from_acct aid))"
    using hex_text(1) hex_text(2) [of _ 4] hex_text(3) dom_raw_bound [of aid] by simp_all
  have chars: "c \<notin> set (domain_hint aid)" if "c \<in> {CHR ''-'', CHR ''/''}" for c
    using hex_chars [OF h(1)] that by (auto simp: hint)
  have "trim (domain_hint aid) = domain_hint aid"
    by (rule trim_graphic) (simp_all add: hint graphic_def)
  then have none: "lookup_by_label (domain_hint aid) = None"
    by (rule lookup_by_label_dollar) (simp add: hint)
  have "split_once ''/'' (domain_hint aid) = None" using chars by (intro split_once_absent) auto
  moreover have "strip_suffix ''!'' (domain_hint aid) = Some (CHR ''$'' # ?h)"
    by (simp add: hint strip_suffix_def strip_prefix_def)
  moreover have "strip_prefix ''$'' (CHR ''$'' # ?h) = Some ?h" by (simp add: strip_prefix_def)
  ultimately have "parse_pretty_domain (domain_hint aid) = Inr (dom_raw_from_acct aid)"
    using none h by (simp add: parse_pretty_domain_def parse_u32_hex_def)
  then show ?thesis using none chars by (simp add: reject_ambig_dom_def)
qed

lemma domain_hint_ok:
  "parse_pretty_domain (domain_hint aid) = Inr (dom_raw_from_acct aid) \<and> CHR ''-'' \<notin> set (domain_hint aid) \<and>
    reject_ambig_dom (domain_hint aid) rt = Inr ()"
  using domain_hint_regulatory domain_hint_listed domain_hint_unknown
  by (cases "lookup_for_display (dom_raw_from_acct aid)") blast+

lemma parse_pretty_render:
  assumes "hex_laws lib"
  shows "parse_pretty_account_id lib (render_acct_id_ui lib aid) = Inr aid"
    and "pretty_domain_part (render_acct_id_ui lib aid) = Some (domain_hint aid)"
proof -
  let ?F = "pad_zero 8 (show_radix 16 (unat (address_flags aid)))"
  let ?b = "drop 6 (be_bytes 32 aid)"
  let ?T = "x_hex_encode lib ?b"
  let ?rest = "domain_hint aid @ ''-f'' @ ?F @ ''-t'' @ ?T"
  have hex: "x_hex_decode lib ?T = Inr ?b" "length ?T = 52" "list_all is_ascii_hexdigit ?T"
    using assms by (simp_all add: hex_laws_def)
  have fl: "unat (address_flags aid) < 2 ^ 32" using unsigned_less [of "address_flags aid", where ?'a = nat] by simp
  have F: "length ?F = 8" "list_all is_ascii_hexdigit ?F" "parse_u32_hex ?F = Inr (address_flags aid)"
    using hex_text(1) hex_text(2) [of _ 8] hex_text(3) [OF fl] fl by (simp_all add: parse_u32_hex_def)
  have strip: "strip_prefix ''pwm1-'' (render_acct_id_ui lib aid) = Some ?rest"
    unfolding render_parts by (rule strip_prefix_append)
  have first: "split_once ''-f'' ?rest = Some (domain_hint aid, ?F @ ''-t'' @ ?T)"
    using domain_hint_ok [of aid] by (intro split_once_head) auto
  have second: "split_once ''-t'' (?F @ ''-t'' @ ?T) = Some (?F, ?T)"
    using hex_chars [OF F(2)] by (intro split_once_head) auto
  have "\<not> dom_raw_from_acct aid > 0xFFFF" using dom_raw_bound [of aid] by (simp add: word_less_nat_alt)
  then show "parse_pretty_account_id lib (render_acct_id_ui lib aid) = Inr aid"
    using hex F domain_hint_ok [of aid]
    unfolding parse_pretty_account_id_def strip option.case first prod.case second by (simp add: acct_from_parts)
  show "pretty_domain_part (render_acct_id_ui lib aid) = Some (domain_hint aid)"
    unfolding pretty_domain_part_def strip option.case first prod.case ..
qed

lemma trim_render: "hex_laws lib \<Longrightarrow> trim (render_acct_id_ui lib aid) = render_acct_id_ui lib aid"
proof (rule trim_graphic)
  let ?T = "x_hex_encode lib (drop 6 (be_bytes 32 aid))"
  assume "hex_laws lib"
  then have T: "length ?T = 52" "list_all is_ascii_hexdigit ?T" by (simp_all add: hex_laws_def)
  moreover have "?T \<noteq> []" using T(1) by auto
  ultimately have "last (render_acct_id_ui lib aid) = last ?T" "last ?T \<in> set ?T" by (simp_all add: render_parts)
  with hex_chars [OF T(2)] show "graphic (last (render_acct_id_ui lib aid))" by simp
qed (simp_all add: render_parts graphic_def)

lemma b32_decode_law:
  "b32_laws lib \<Longrightarrow> x_b32_decode lib s = Inr (h, d, v) \<Longrightarrow>
     \<exists>t. to_ascii_lowercase s = h @ ''1'' @ t \<and> CHR ''-'' \<notin> set t"
  unfolding b32_laws_def by blast

text \<open>A pretty text is no bech32dx text: after the prefix and the separator comes a hyphen.\<close>

lemma pretty_not_bech32:
  assumes "b32_laws lib"
  shows "\<exists>e. parse_bech32dx_account_id lib (''pwm1-'' @ t) = Inl e"
proof (cases "x_b32_decode lib (''pwm1-'' @ t)")
  case (Inl e)
  then show ?thesis by (simp add: parse_bech32dx_account_id_def decode_bech32dx_def)
next
  case (Inr p)
  obtain h d v where p: "p = (h, d, v)" by (cases p)
  with Inr assms obtain u where u: "to_ascii_lowercase (''pwm1-'' @ t) = h @ ''1'' @ u" "CHR ''-'' \<notin> set u"
    using b32_decode_law by blast
  have "h \<noteq> BECH32DX_HRP"
  proof
    assume "h = BECH32DX_HRP"
    with u show False by (auto simp: BECH32DX_HRP_def to_ascii_lowercase_def ascii_lower_def)
  qed
  with Inr p show ?thesis by (simp add: parse_bech32dx_account_id_def decode_bech32dx_def)
qed

lemma parse_render:
  assumes "b32_laws lib" "hex_laws lib"
  shows "parse_account_id lib (render_acct_id_ui lib aid) = Inr aid"
proof -
  obtain e where "parse_bech32dx_account_id lib (render_acct_id_ui lib aid) = Inl e"
    using pretty_not_bech32 [OF assms(1)] unfolding render_parts by fastforce
  then show ?thesis
    using assms(2) by (simp add: parse_account_id_def Let_def trim_render parse_pretty_render)
qed

lemma parse_checked_render:
  assumes "b32_laws lib" "hex_laws lib"
  shows "parse_acct_id_checked rt lib (render_acct_id_ui lib aid) = Inr aid"
  using assms domain_hint_ok [of aid rt]
  by (simp add: parse_acct_id_checked_def Let_def trim_render parse_pretty_render parse_render)

text \<open>The bech32dx text: every field comes back, whatever domain and flags were written.\<close>

lemma length4: "length xs = 4 \<Longrightarrow> \<exists>a b c d. xs = [a, b, c, d]"
  by (auto simp: numeral_eq_Suc length_Suc_conv)

lemma bech32dx_roundtrip:
  assumes "b32_laws lib"
  obtains s where "encode_bech32dx lib 1 fl draw aid = Some s" "trim s = s"
    "decode_bech32dx lib s = Inr \<lparr> bd_version = 1, bd_flags = fl, bd_domain_raw = draw, bd_account_id = aid \<rparr>"
    "pretty_domain_part s = None"
proof -
  let ?p = "[1, fl] @ be_bytes 4 draw @ be_bytes 32 aid"
  obtain t where t: "x_b32_encode lib ''pwm'' (x_to_base32 lib ?p) Bech32m = Some (''pwm1'' @ t)" "t \<noteq> []" "list_all graphic t"
      "CHR ''-'' \<notin> set t" "x_b32_decode lib (''pwm1'' @ t) = Inr (''pwm'', x_to_base32 lib ?p, Bech32m)"
      "x_from_base32 lib (x_to_base32 lib ?p) = Inr ?p"
    using assms unfolding b32_laws_def by blast
  obtain a b c d where abcd: "be_bytes 4 draw = [a, b, c, d]"
    using length4 [of "be_bytes 4 draw"] by auto
  have dr: "from_be [a, b, c, d] = draw" using from_be_bytes [of 4 draw] by (simp add: abcd)
  have "decode_bech32dx lib (''pwm1'' @ t) = Inr \<lparr> bd_version = 1, bd_flags = fl, bd_domain_raw = draw, bd_account_id = aid \<rparr>"
    using t(5,6) by (simp add: decode_bech32dx_def BECH32DX_HRP_def BECH32DX_PAYLOAD_LEN_def BECH32DX_VERSION_def
        abcd dr from_be_bytes)
  moreover have "encode_bech32dx lib 1 fl draw aid = Some (''pwm1'' @ t)"
    using t(1) by (simp add: encode_bech32dx_def BECH32DX_HRP_def)
  moreover have "trim (''pwm1'' @ t) = ''pwm1'' @ t"
  proof (rule trim_graphic)
    have "last t \<in> set t" using t(2) by simp
    then show "graphic (last (''pwm1'' @ t))" using t(2,3) by (simp add: list_all_iff)
  qed (simp_all add: graphic_def)
  moreover have "pretty_domain_part (''pwm1'' @ t) = None"
    using t(2,4) by (cases t) (auto simp: pretty_domain_part_def strip_prefix_def)
  ultimately show thesis using that by blast
qed

lemma bech32dx_reads:
  assumes "b32_laws lib"
  obtains s where "encode_bech32dx lib 1 fl draw aid = Some s" "trim s = s"
    "decode_bech32dx lib s = Inr \<lparr> bd_version = 1, bd_flags = fl, bd_domain_raw = draw, bd_account_id = aid \<rparr>"
    "\<And>rt. parse_acct_id_checked rt lib s = Inr aid"
proof (rule bech32dx_roundtrip [OF assms, of fl draw aid])
  fix s
  assume s: "encode_bech32dx lib 1 fl draw aid = Some s" "trim s = s" "pretty_domain_part s = None"
    "decode_bech32dx lib s = Inr \<lparr> bd_version = 1, bd_flags = fl, bd_domain_raw = draw, bd_account_id = aid \<rparr>"
  then have "parse_acct_id_checked rt lib s = Inr aid" for rt
    by (simp add: parse_acct_id_checked_def Let_def parse_account_id_def parse_bech32dx_account_id_def)
  then show thesis using s that by blast
qed

lemma canonical_text:
  assumes "b32_laws lib"
  obtains s where "account_id_to_bech32dx lib aid = Some s" "trim s = s" "\<And>rt. parse_acct_id_checked rt lib s = Inr aid"
  using bech32dx_reads [OF assms, of 0 "dom_raw_from_acct aid" aid] that
  unfolding account_id_to_bech32dx_def BECH32DX_VERSION_def by blast

section \<open>A concrete library for the examples\<close>

definition toy_alphabet :: string where
  "toy_alphabet = ''qpzry9x8gf2tvdw0s3jn54khce6mua7l''"

definition toy_char :: "5 word \<Rightarrow> char" where
  "toy_char w = toy_alphabet ! unat w"

definition toy_index :: "char \<Rightarrow> 5 word" where
  "toy_index c = of_nat (length (takeWhile (\<lambda>x. x \<noteq> c) toy_alphabet))"

text \<open>A byte is its low five bits and its high three; the variant is the last character.\<close>

fun toy_from5 :: "5 word list \<Rightarrow> string + bytes" where
  "toy_from5 [] = Inr []"
| "toy_from5 [x] = Inl ''length''"
| "toy_from5 (x # y # r) = (case toy_from5 r of Inl e \<Rightarrow> Inl e | Inr bs \<Rightarrow> Inr ((ucast x OR push_bit 5 (ucast y)) # bs))"

definition toy_decode :: "string \<Rightarrow> string + (string \<times> 5 word list \<times> Variant)" where
  "toy_decode s = (case strip_prefix ''pwm1'' s of
     None \<Rightarrow> Inl ''prefix''
   | Some t \<Rightarrow> if t = [] \<or> CHR ''-'' \<in> set t then Inl ''data''
       else Inr (''pwm'', map toy_index (butlast t), if last t = CHR ''m'' then Bech32m else Bech32))"

fun toy_unhex :: "string \<Rightarrow> string + bytes" where
  "toy_unhex [] = Inr []"
| "toy_unhex [a] = Inl ''Odd number of digits''"
| "toy_unhex (a # b # r) =
     (case (to_digit 16 a, to_digit 16 b, toy_unhex r) of
        (Some x, Some y, Inr bs) \<Rightarrow> Inr (of_nat (16 * x + y) # bs)
      | _ \<Rightarrow> Inl ''Invalid character'')"

definition toy_addr :: addrlib where
  "toy_addr = \<lparr> x_to_base32 = (\<lambda>bs. concat (map (\<lambda>b. [ucast b, ucast (drop_bit 5 b)]) bs)), x_from_base32 = toy_from5,
     x_b32_encode = (\<lambda>h d v. if h = ''pwm'' then Some (''pwm1'' @ map toy_char d @ (if v = Bech32m then ''m'' else ''q'')) else None),
     x_b32_decode = toy_decode,
     x_hex_encode = (\<lambda>bs. concat (map (\<lambda>b. [digit_char (unat b div 16), digit_char (unat b mod 16)]) bs)),
     x_hex_decode = toy_unhex \<rparr>"

lemma toy_index_char: "toy_index (toy_char w) = w"
proof -
  have "list_all (\<lambda>n. length (takeWhile (\<lambda>x. x \<noteq> toy_alphabet ! n) toy_alphabet) = n) [0..<32]" by code_simp
  moreover have "unat w < 32" using unsigned_less [of w, where ?'a = nat] by simp
  ultimately show ?thesis by (simp add: toy_index_def toy_char_def list_all_iff)
qed

lemma toy_char_plain: "graphic (toy_char w) \<and> toy_char w \<noteq> CHR ''-''"
proof -
  have "list_all (\<lambda>c. graphic c \<and> c \<noteq> CHR ''-'') toy_alphabet" by code_simp
  moreover have "unat w < length toy_alphabet" using unsigned_less [of w, where ?'a = nat] by (simp add: toy_alphabet_def)
  ultimately show ?thesis by (simp add: toy_char_def list_all_length)
qed

lemma toy_from5_to5: "toy_from5 (concat (map (\<lambda>b. [ucast b, ucast (drop_bit 5 b)]) bs)) = Inr bs"
proof (induction bs)
  case (Cons b bs)
  have "(ucast (ucast b :: 5 word) OR push_bit 5 (ucast (ucast (drop_bit 5 b) :: 5 word)) :: u8) = b"
    by (rule bit_word_eqI) (auto simp: bit_simps)
  with Cons show ?case by simp
qed simp

lemma toy_b32: "b32_laws toy_addr"
  unfolding b32_laws_def
proof (intro conjI allI impI)
  fix d v
  let ?t = "map toy_char d @ (if v = Bech32m then ''m'' else ''q'')"
  have "CHR ''-'' \<notin> set ?t" using toy_char_plain by (auto simp: image_iff) metis
  moreover have "list_all graphic ?t" using toy_char_plain by (auto simp: list_all_iff graphic_def)
  moreover have "map toy_index (map toy_char d) = d" by (simp add: toy_index_char comp_def)
  ultimately show "\<exists>t. x_b32_encode toy_addr ''pwm'' d v = Some (''pwm1'' @ t) \<and> t \<noteq> [] \<and> list_all graphic t \<and>
      CHR ''-'' \<notin> set t \<and> x_b32_decode toy_addr (''pwm1'' @ t) = Inr (''pwm'', d, v)"
    by (intro exI [of _ ?t]) (cases v; simp add: toy_addr_def toy_decode_def strip_prefix_def)
next
  fix s h d v
  assume "x_b32_decode toy_addr s = Inr (h, d, v)"
  then obtain t where t: "strip_prefix ''pwm1'' s = Some t" "CHR ''-'' \<notin> set t" "h = ''pwm''"
    by (auto simp: toy_addr_def toy_decode_def split: option.splits if_splits)
  then have "s = ''pwm1'' @ t" by (auto simp: strip_prefix_def split: if_splits) (metis append_take_drop_id append_Cons append_Nil)
  then have "to_ascii_lowercase s = ''pwm'' @ ''1'' @ map ascii_lower t"
    by (simp add: to_ascii_lowercase_def ascii_lower_def)
  moreover have "CHR ''-'' \<notin> set (map ascii_lower t)" 
  proof
    assume "CHR ''-'' \<in> set (map ascii_lower t)"
    then obtain c where "c \<in> set t" "ascii_lower c = CHR ''-''" by auto
    moreover from ascii_lower_keep [OF _ this(2)] have "c = CHR ''-''" by simp
    ultimately show False using t(2) by simp
  qed
  ultimately show "\<exists>t. to_ascii_lowercase s = h @ ''1'' @ t \<and> CHR ''-'' \<notin> set t" using t(3) by blast
qed (simp add: toy_addr_def toy_from5_to5)

lemma toy_hex: "hex_laws toy_addr"
  unfolding hex_laws_def
proof (intro allI)
  fix bs
  show "x_hex_decode toy_addr (x_hex_encode toy_addr bs) = Inr bs \<and> length (x_hex_encode toy_addr bs) = 2 * length bs \<and>
      list_all is_ascii_hexdigit (x_hex_encode toy_addr bs)"
  proof (induction bs)
    case (Cons b bs)
    have d: "unat b div 16 < 16" "unat b mod 16 < 16" using unat_byte_less [of b] by (simp_all add: less_mult_imp_div_less)
    then have "to_digit 16 (digit_char (unat b div 16)) = Some (unat b div 16)"
      "to_digit 16 (digit_char (unat b mod 16)) = Some (unat b mod 16)" by (simp_all add: to_digit_digit_char)
    moreover have "is_ascii_hexdigit (digit_char (unat b div 16))" "is_ascii_hexdigit (digit_char (unat b mod 16))"
      using d digit_char_kind(2) by blast+
    moreover have "of_nat (16 * (unat b div 16) + unat b mod 16) = b" by (simp only: mult_div_mod_eq) simp
    ultimately show ?case using Cons by (simp add: toy_addr_def del: of_nat_add of_nat_mult)
  qed (simp add: toy_addr_def)
qed

end
