(* ===== verification/Pwm_Wire.thy ===== *)
theory Pwm_Wire
  imports Pwm_Addr
begin

text \<open>
  The serde helpers of pwm-core (src/crates/pwm-core/src/ser_bin.rs and ser_json_u128.rs): byte
  arrays as hexadecimal text, 128-bit amounts as decimal text, and the older forms the readers
  still accept. The JSON reader (crate serde) calls one visitor method per value; \<open>json_in\<close> is
  that value, and a method the visitor does not define is an error.
\<close>

section \<open>What the reader hands to a visitor\<close>

datatype json_in =
    VNull
  | VStr string
  | VSeq "(string + u8) list"
  | VInt int
  | VOther

section \<open>Hexadecimal arrays\<close>

definition hex32_text :: "string \<Rightarrow> string" where
  "hex32_text s = trim (case strip_prefix ''0x'' (trim s) of Some t \<Rightarrow> t | None \<Rightarrow> s)"

definition parse_hex32 :: "addrlib \<Rightarrow> string \<Rightarrow> string + bytes32" where
  "parse_hex32 lib s =
     (let t = hex32_text s
      in if length t \<noteq> 64 \<or> \<not> list_all is_ascii_hexdigit t then Inl ''hex32: expected 64 hex digits''
         else (case x_hex_decode lib t of Inl e \<Rightarrow> Inl (''hex32 decode: '' @ e) | Inr v \<Rightarrow> Inr (from_be v)))"

text \<open>The loop over a legacy array.\<close>

fun hex32_seq :: "bytes \<Rightarrow> (string + u8) list \<Rightarrow> string + bytes32" where
  "hex32_seq v [] = (if length v \<noteq> 32 then Inl ''hex32 legacy array: need 32 u8 elements'' else Inr (from_be v))"
| "hex32_seq v (Inl e # xs) = Inl e"
| "hex32_seq v (Inr b # xs) =
     (if length (v @ [b]) > 32 then Inl ''hex32 legacy array: more than 32 elements'' else hex32_seq (v @ [b]) xs)"

definition hex32_serialize :: "addrlib \<Rightarrow> bytes32 \<Rightarrow> string" where
  "hex32_serialize lib w = x_hex_encode lib (be_bytes 32 w)"

definition hex32_deserialize :: "addrlib \<Rightarrow> json_in \<Rightarrow> string + bytes32" where
  "hex32_deserialize lib j =
     (case j of VStr s \<Rightarrow> parse_hex32 lib s | VSeq xs \<Rightarrow> hex32_seq [] xs | _ \<Rightarrow> Inl ''invalid type'')"

definition opt_hex32_serialize :: "addrlib \<Rightarrow> bytes32 option \<Rightarrow> json_in" where
  "opt_hex32_serialize lib w = (case w of Some b \<Rightarrow> VStr (x_hex_encode lib (be_bytes 32 b)) | None \<Rightarrow> VNull)"

definition opt_hex32_deserialize :: "addrlib \<Rightarrow> json_in \<Rightarrow> string + bytes32 option" where
  "opt_hex32_deserialize lib j =
     (case j of VNull \<Rightarrow> Inr None
      | _ \<Rightarrow> (case hex32_deserialize lib j of Inl e \<Rightarrow> Inl e | Inr w \<Rightarrow> Inr (Some w)))"

section \<open>Signatures\<close>

definition parse_sig64 :: "addrlib \<Rightarrow> string \<Rightarrow> string + bytes64" where
  "parse_sig64 lib s =
     (let trimmed = trim s; text = (case strip_prefix ''0x'' trimmed of Some t \<Rightarrow> t | None \<Rightarrow> trimmed)
      in if length text \<noteq> 128 \<or> \<not> list_all is_ascii_hexdigit text then Inl ''sig64: expected 128 hex digits''
         else (case x_hex_decode lib text of Inl e \<Rightarrow> Inl (''sig64 decode: '' @ e) | Inr v \<Rightarrow> Inr (from_be v)))"

text \<open>The loop that fills the array, with the number of slots left.\<close>

fun sig64_fill :: "nat \<Rightarrow> bytes \<Rightarrow> (string + u8) list \<Rightarrow> string + (bytes \<times> (string + u8) list)" where
  "sig64_fill 0 out xs = Inr (out, xs)"
| "sig64_fill (Suc n) out [] = Inl ''sig64 legacy array: need 64 u8 elements''"
| "sig64_fill (Suc n) out (Inl e # xs) = Inl e"
| "sig64_fill (Suc n) out (Inr b # xs) = sig64_fill n (out @ [b]) xs"

definition sig64_seq :: "(string + u8) list \<Rightarrow> string + bytes64" where
  "sig64_seq xs = (case sig64_fill 64 [] xs of
     Inl e \<Rightarrow> Inl e
   | Inr (out, r) \<Rightarrow> if r \<noteq> [] then Inl ''sig64 legacy array: more than 64 elements'' else Inr (from_be out))"

definition sig64_serialize :: "addrlib \<Rightarrow> bytes64 \<Rightarrow> string" where
  "sig64_serialize lib w = x_hex_encode lib (be_bytes 64 w)"

definition sig64_deserialize :: "addrlib \<Rightarrow> json_in \<Rightarrow> string + bytes64" where
  "sig64_deserialize lib j =
     (case j of VStr s \<Rightarrow> parse_sig64 lib s | VSeq xs \<Rightarrow> sig64_seq xs | _ \<Rightarrow> Inl ''invalid type'')"

section \<open>Amounts\<close>

definition u128_serialize :: "u128 \<Rightarrow> string" where
  "u128_serialize v = show_radix 10 (unat v)"

text \<open>\<open>visit_u64\<close>, \<open>visit_i64\<close>, \<open>visit_u128\<close> and \<open>visit_i128\<close> are one case of the integer read.\<close>

definition u128_deserialize :: "json_in \<Rightarrow> string + u128" where
  "u128_deserialize j =
     (case j of
        VStr s \<Rightarrow> (case parse_u128 s of None \<Rightarrow> Inl ''invalid decimal string for u128'' | Some v \<Rightarrow> Inr v)
      | VInt i \<Rightarrow> if i < 0 then Inl ''negative integer is invalid for u128''
          else if 2 ^ 128 \<le> i then Inl ''invalid type'' else Inr (of_int i)
      | _ \<Rightarrow> Inl ''invalid type'')"

definition opt_u128_serialize :: "u128 option \<Rightarrow> json_in" where
  "opt_u128_serialize v = (case v of Some inner \<Rightarrow> VStr (u128_serialize inner) | None \<Rightarrow> VNull)"

definition opt_u128_deserialize :: "json_in \<Rightarrow> string + u128 option" where
  "opt_u128_deserialize j =
     (case j of VNull \<Rightarrow> Inr None
      | _ \<Rightarrow> (case u128_deserialize j of Inl e \<Rightarrow> Inl e | Inr v \<Rightarrow> Inr (Some v)))"

section \<open>Reading inverts writing\<close>

lemma hex_plain:
  assumes "s \<noteq> []" "list_all is_ascii_hexdigit s"
  shows "trim s = s" "strip_prefix ''0x'' s = None"
proof -
  have "hd s \<in> set s" "last s \<in> set s" using assms(1) by simp_all
  then show "trim s = s" using hex_chars [OF assms(2)] assms(1) by (intro trim_graphic) blast+
  have "CHR ''x'' \<notin> set s" using assms(2) by (auto simp: list_all_iff is_ascii_hexdigit_def Let_def)
  then have "take 2 s \<noteq> ''0x''" by (metis in_set_takeD list.set_intros)
  then show "strip_prefix ''0x'' s = None" by (simp add: strip_prefix_def numeral_2_eq_2)
qed

lemma hex_text_of:
  assumes "hex_laws lib" "0 < n"
  shows "length (x_hex_encode lib (be_bytes n w)) = 2 * n" "list_all is_ascii_hexdigit (x_hex_encode lib (be_bytes n w))"
    "x_hex_encode lib (be_bytes n w) \<noteq> []" "x_hex_decode lib (x_hex_encode lib (be_bytes n w)) = Inr (be_bytes n w)"
proof -
  from assms show l: "length (x_hex_encode lib (be_bytes n w)) = 2 * n"
    "list_all is_ascii_hexdigit (x_hex_encode lib (be_bytes n w))"
    "x_hex_decode lib (x_hex_encode lib (be_bytes n w)) = Inr (be_bytes n w)"
    by (simp_all add: hex_laws_def)
  then show "x_hex_encode lib (be_bytes n w) \<noteq> []" using assms(2) by auto
qed

lemma hex32_roundtrip: "hex_laws lib \<Longrightarrow> hex32_deserialize lib (VStr (hex32_serialize lib w)) = Inr w"
  using hex_text_of [of lib 32 w] hex_plain [of "x_hex_encode lib (be_bytes 32 w)"]
  by (simp add: hex32_deserialize_def hex32_serialize_def parse_hex32_def hex32_text_def from_be_bytes)

lemma sig64_roundtrip: "hex_laws lib \<Longrightarrow> sig64_deserialize lib (VStr (sig64_serialize lib w)) = Inr w"
  using hex_text_of [of lib 64 w] hex_plain [of "x_hex_encode lib (be_bytes 64 w)"]
  by (simp add: sig64_deserialize_def sig64_serialize_def parse_sig64_def from_be_bytes)

lemma opt_hex32_roundtrip: "hex_laws lib \<Longrightarrow> opt_hex32_deserialize lib (opt_hex32_serialize lib w) = Inr w"
  using hex32_roundtrip [of lib]
  by (cases w) (simp_all add: opt_hex32_deserialize_def opt_hex32_serialize_def hex32_serialize_def)

lemma hex32_seq_eq:
  "length v \<le> 32 \<Longrightarrow> hex32_seq v (map Inr bs) =
     (if length (v @ bs) = 32 then Inr (from_be (v @ bs))
      else if length (v @ bs) < 32 then Inl ''hex32 legacy array: need 32 u8 elements''
      else Inl ''hex32 legacy array: more than 32 elements'')"
  by (induction bs arbitrary: v) auto

lemma sig64_fill_eq:
  "sig64_fill n out (map Inr bs) =
     (if length bs < n then Inl ''sig64 legacy array: need 64 u8 elements'' else Inr (out @ take n bs, map Inr (drop n bs)))"
proof (induction n arbitrary: out bs)
  case (Suc n)
  then show ?case by (cases bs) auto
qed simp

text \<open>A legacy array of the right length reads as the text of the same bytes.\<close>

lemma legacy_arrays:
  "hex32_deserialize lib (VSeq (map Inr (be_bytes 32 w))) = Inr w"
  "sig64_deserialize lib (VSeq (map Inr (be_bytes 64 s))) = Inr s"
  by (simp_all add: hex32_deserialize_def hex32_seq_eq sig64_deserialize_def sig64_seq_def sig64_fill_eq from_be_bytes)

lemma u128_roundtrip: "u128_deserialize (VStr (u128_serialize v)) = Inr v"
  using unsigned_less [of v, where ?'a = nat]
  by (simp add: u128_deserialize_def u128_serialize_def parse_u128_def from_str_radix_show)

lemma opt_u128_roundtrip: "opt_u128_deserialize (opt_u128_serialize v) = Inr v"
  using u128_roundtrip by (cases v) (simp_all add: opt_u128_deserialize_def opt_u128_serialize_def)

end
