(* ===== verification/Pwm_Address_Book.thy ===== *)
theory Pwm_Address_Book
  imports Pwm_Addr
begin

text \<open>
  The address book of a wallet (src/crates/pwm-core/src/address_book.rs): its entries, the
  domains a recipient may lie in, and the append to the YAML document, from the parsed
  document to the one that is written (reading and writing the file is not modelled).
  \<open>yaml\<close> is the document type of the crate serde_yaml; a number is kept as its text.
\<close>

section \<open>Entries\<close>

datatype AddressBookEntry = AddressOnly string | WithLabel string "string option"

fun address_str :: "AddressBookEntry \<Rightarrow> string" where
  "address_str (AddressOnly s) = s"
| "address_str (WithLabel address _) = address"

fun entry_label :: "AddressBookEntry \<Rightarrow> string option" where
  "entry_label (AddressOnly _) = None"
| "entry_label (WithLabel _ label) = label"

definition entry_account_id :: "addrlib \<Rightarrow> AddressBookEntry \<Rightarrow> string + AccountId" where
  "entry_account_id lib e = parse_acct_id_mig lib (trim (address_str e))"

definition address_book_contains :: "addrlib \<Rightarrow> AddressBookEntry list \<Rightarrow> AccountId \<Rightarrow> bool" where
  "address_book_contains lib entries dest = list_ex (\<lambda>e. entry_account_id lib e = Inr dest) entries"

section \<open>Domains a recipient may lie in\<close>

definition field_error :: "string option \<Rightarrow> string \<Rightarrow> string \<Rightarrow> string \<Rightarrow> string" where
  "field_error cli_field domain_display long short =
     (case cli_field of
        Some field \<Rightarrow> ''Invalid value for '' @ field @ '': domain '' @ quoted domain_display @ long
      | None \<Rightarrow> ''recipient domain '' @ quoted domain_display @ short)"

definition validate_recipient_domain_policy :: "AccountId \<Rightarrow> string option \<Rightarrow> string + unit" where
  "validate_recipient_domain_policy recipient cli_field =
     (let domain_raw = ucast (domain_of_account_id recipient);
          domain_display = fst (format_domain_for_display domain_raw);
          unknown = field_error cli_field domain_display '' is not recognized by domain index.'' '' is not recognized.''
      in case category_for_raw domain_raw of
           Some Reserve \<Rightarrow> Inl (field_error cli_field domain_display
             '' is reserve and cannot be used as transaction recipient.'' '' is reserve and cannot be used.'')
         | Some WitnessDomain \<Rightarrow> Inl (field_error cli_field domain_display
             '' is witness-only and cannot receive funds in regular user flow.'' '' is witness-only.'')
         | Some _ \<Rightarrow> if lookup_for_display domain_raw = None then Inl unknown else Inr ()
         | None \<Rightarrow> Inl unknown)"

definition validate_recipient_address_policy :: "AccountId \<Rightarrow> string + unit" where
  "validate_recipient_address_policy recipient = validate_recipient_domain_policy recipient None"

section \<open>The YAML document\<close>

datatype yaml =
    YNull
  | YBool bool
  | YNumber string
  | YString string
  | YSequence "yaml list"
  | YMapping "(yaml \<times> yaml) list"
  | YTagged string yaml

text \<open>\<open>as_str\<close> and the other accessors look through tags.\<close>

fun as_str :: "yaml \<Rightarrow> string option" where
  "as_str (YString s) = Some s"
| "as_str (YTagged _ v) = as_str v"
| "as_str _ = None"

definition parse_ok :: "addrlib \<Rightarrow> string \<Rightarrow> AccountId option" where
  "parse_ok lib s = (case parse_acct_id_mig lib (trim s) of Inr aid \<Rightarrow> Some aid | Inl _ \<Rightarrow> None)"

definition yaml_item_account_id :: "addrlib \<Rightarrow> yaml \<Rightarrow> AccountId option" where
  "yaml_item_account_id lib item =
     (case item of
        YString s \<Rightarrow> parse_ok lib s
      | YMapping entries \<Rightarrow> Option.bind (Option.bind (map_of entries (YString ''address'')) as_str) (parse_ok lib)
      | _ \<Rightarrow> None)"

definition new_item :: "string \<Rightarrow> string option \<Rightarrow> yaml" where
  "new_item canonical label =
     (case label of
        Some l \<Rightarrow> if trim l = [] then YString canonical
          else YMapping [(YString ''address'', YString canonical), (YString ''label'', YString (trim l))]
      | None \<Rightarrow> YString canonical)"

text \<open>The change of the sequence under \<open>address_book\<close>; \<open>as_sequence_mut\<close> looks through tags too.\<close>

fun append_to_book :: "addrlib \<Rightarrow> AccountId \<Rightarrow> yaml \<Rightarrow> yaml \<Rightarrow> string + yaml" where
  "append_to_book lib aid item (YSequence items) =
     (if list_ex (\<lambda>i. yaml_item_account_id lib i = Some aid) items
      then Inl ''address is already in address_book'' else Inr (YSequence (items @ [item])))"
| "append_to_book lib aid item (YTagged t v) = map_sum id (YTagged t) (append_to_book lib aid item v)"
| "append_to_book lib aid item _ = Inl ''address_book must be a YAML sequence''"

text \<open>\<open>entry(key).or_insert_with\<close>: the value of the key, or an empty sequence appended under it.\<close>

fun book_entry :: "(yaml \<Rightarrow> string + yaml) \<Rightarrow> (yaml \<times> yaml) list \<Rightarrow> string + (yaml \<times> yaml) list" where
  "book_entry f [] = map_sum id (\<lambda>v. [(YString ''address_book'', v)]) (f (YSequence []))"
| "book_entry f ((k, v) # r) =
     (if k = YString ''address_book'' then map_sum id (\<lambda>v'. (k, v') # r) (f v)
      else map_sum id (\<lambda>r'. (k, v) # r') (book_entry f r))"

fun append_to_root :: "(yaml \<Rightarrow> string + yaml) \<Rightarrow> yaml \<Rightarrow> string + yaml" where
  "append_to_root f (YMapping m) = map_sum id YMapping (book_entry f m)"
| "append_to_root f (YTagged t v) = map_sum id (YTagged t) (append_to_root f v)"
| "append_to_root f _ = Inl ''wallet YAML root must be a mapping''"

text \<open>\<open>None\<close> is the panic of the bech32 encoder.\<close>

definition append_addr_book :: "addrlib \<Rightarrow> yaml \<Rightarrow> string \<Rightarrow> string option \<Rightarrow> (string + yaml) option" where
  "append_addr_book lib root address_input label =
     (case parse_acct_id_mig lib (trim address_input) of
        Inl e \<Rightarrow> Some (Inl e)
      | Inr aid \<Rightarrow> (case validate_recipient_address_policy aid of
          Inl e \<Rightarrow> Some (Inl e)
        | Inr _ \<Rightarrow> (case account_id_to_bech32dx lib aid of
            None \<Rightarrow> None
          | Some canonical \<Rightarrow> Some (append_to_root (append_to_book lib aid (new_item canonical label)) root))))"

section \<open>What an append does\<close>

text \<open>The items of the book of a document.\<close>

fun book_items :: "yaml \<Rightarrow> yaml list" where
  "book_items (YSequence items) = items"
| "book_items (YTagged t v) = book_items v"
| "book_items _ = []"

fun root_book :: "yaml \<Rightarrow> yaml list" where
  "root_book (YMapping m) = (case map_of m (YString ''address_book'') of Some v \<Rightarrow> book_items v | None \<Rightarrow> [])"
| "root_book (YTagged t v) = root_book v"
| "root_book _ = []"

lemma append_to_book_items:
  "append_to_book lib aid item v = Inr v' \<Longrightarrow>
     book_items v' = book_items v @ [item] \<and> \<not> list_ex (\<lambda>i. yaml_item_account_id lib i = Some aid) (book_items v)"
  by (induction v arbitrary: v') (auto split: if_splits simp: map_sum_def split: sum.splits)

lemma append_to_book_dup:
  "list_ex (\<lambda>i. yaml_item_account_id lib i = Some aid) (book_items v) \<Longrightarrow>
     append_to_book lib aid item v = Inl ''address is already in address_book''"
  by (induction v) auto

lemma book_entry_lookup:
  assumes "book_entry f m = Inr m'"
  shows "\<exists>v'. f (case map_of m (YString ''address_book'') of Some v \<Rightarrow> v | None \<Rightarrow> YSequence []) = Inr v' \<and>
    map_of m' (YString ''address_book'') = Some v' \<and> (\<forall>k. k \<noteq> YString ''address_book'' \<longrightarrow> map_of m' k = map_of m k)"
  using assms
proof (induction m arbitrary: m')
  case Nil
  then show ?case by (cases "f (YSequence [])") auto
next
  case (Cons kv m)
  obtain k v where kv: "kv = (k, v)" by fastforce
  show ?case
  proof (cases "k = YString ''address_book''")
    case True
    with Cons.prems kv show ?thesis by (cases "f v") auto
  next
    case False
    with Cons.prems kv obtain r where "book_entry f m = Inr r" "m' = (k, v) # r" by (cases "book_entry f m") auto
    with Cons.IH [of r] kv False show ?thesis by auto
  qed
qed

lemma new_item_id:
  assumes "parse_acct_id_mig lib canonical = Inr aid" "trim canonical = canonical"
  shows "yaml_item_account_id lib (new_item canonical label) = Some aid"
  using assms by (auto simp: new_item_def yaml_item_account_id_def parse_ok_def split: option.splits)

text \<open>An append adds one item at the end of the book, whose address reads back, to a book that did not
  hold the account; appending the same account again is refused.\<close>

lemma append_root:
  assumes "append_to_root (append_to_book lib aid item) root = Inr root'"
  shows "root_book root' = root_book root @ [item] \<and> \<not> list_ex (\<lambda>i. yaml_item_account_id lib i = Some aid) (root_book root)"
  using assms
proof (induction root arbitrary: root')
  case (YMapping m)
  then obtain m' where m: "book_entry (append_to_book lib aid item) m = Inr m'" "root' = YMapping m'"
    by (cases "book_entry (append_to_book lib aid item) m") auto
  from book_entry_lookup [OF m(1)] obtain v' where v:
    "append_to_book lib aid item (case map_of m (YString ''address_book'') of Some v \<Rightarrow> v | None \<Rightarrow> YSequence []) = Inr v'"
    "map_of m' (YString ''address_book'') = Some v'" by blast
  from append_to_book_items [OF v(1)] v(2) m(2) show ?case by (auto split: option.splits)
next
  case (YTagged t v)
  then show ?case by (cases "append_to_root (append_to_book lib aid item) v") auto
qed auto

lemma append_root_again:
  assumes "list_ex (\<lambda>i. yaml_item_account_id lib i = Some aid) (root_book root)"
  shows "append_to_root (append_to_book lib aid item) root = Inl ''address is already in address_book''"
  using assms
proof (induction root)
  case (YMapping m)
  have "book_entry (append_to_book lib aid item) m = Inl ''address is already in address_book''"
    if "map_of m (YString ''address_book'') = Some v" "list_ex (\<lambda>i. yaml_item_account_id lib i = Some aid) (book_items v)" for v
    using that by (induction m) (auto simp: append_to_book_dup split: if_splits)
  with YMapping show ?case by (auto split: option.splits)
qed auto

lemma domain_of_account: "ucast (domain_of_account_id aid) = dom_raw_from_acct aid"
  unfolding domain_of_account_id_def dom_raw_from_acct_def from_be_def
  by (rule bit_word_eqI) (auto simp: bit_simps dest: bit_imp_le_length)

text \<open>Who may be a recipient.\<close>

lemma valid_recipient:
  "validate_recipient_address_policy aid = Inr () \<longleftrightarrow>
     category_for_raw (dom_raw_from_acct aid) = Some Regulatory \<or> dom_raw_from_acct aid \<in> set (map de_raw SECTORS)"
proof -
  let ?r = "dom_raw_from_acct aid"
  have sector: "lookup_for_display ?r \<noteq> None \<longleftrightarrow> ?r \<in> set (map de_raw SECTORS)" if c: "category_for_raw ?r = Some Sector"
  proof
    assume "lookup_for_display ?r \<noteq> None"
    then obtain e where "lookup_for_display ?r = Some e" by blast
    from lookup_for_display_Some [OF this] c have e: "e \<in> set all_entries" "de_raw e = ?r" by auto
    then have "de_category e = Sector" using categories c by (auto simp: list_all_iff)
    then have "e \<in> set SECTORS" using e(1) regulatory_category witness_category by (auto simp: all_entries_def list_all_iff)
    then show "?r \<in> set (map de_raw SECTORS)" using e(2) by (metis image_eqI list.set_map)
  next
    assume "?r \<in> set (map de_raw SECTORS)"
    then obtain e where "e \<in> set SECTORS" "de_raw e = ?r" by auto
    then have "lookup_by_raw ?r = Some e" using lookup_by_raw_entry [of e] by (auto simp: all_entries_def)
    then show "lookup_for_display ?r \<noteq> None" by (simp add: lookup_for_display_def)
  qed
  have listed: "category_for_raw ?r = Some Sector" if s: "?r \<in> set (map de_raw SECTORS)"
  proof -
    from s obtain e where e: "e \<in> set SECTORS" "de_raw e = ?r" by auto
    then have "e \<in> set all_entries" by (simp add: all_entries_def)
    then have "category_for_raw (de_raw e) = Some (de_category e)" using categories by (simp add: list_all_iff)
    moreover have "de_category e = Sector" using sector_category e(1) by (simp add: list_all_iff)
    ultimately show ?thesis by (simp add: e(2))
  qed
  show ?thesis
  proof (cases "category_for_raw ?r")
    case None
    then show ?thesis using listed
      by (auto simp: validate_recipient_address_policy_def validate_recipient_domain_policy_def Let_def domain_of_account)
  next
    case (Some c)
    show ?thesis
    proof (cases c)
      case Regulatory
      then show ?thesis using Some lookup_for_display_regulatory [of ?r]
        by (auto simp: validate_recipient_address_policy_def validate_recipient_domain_policy_def Let_def domain_of_account)
    next
      case Sector
      then have "(lookup_for_display ?r = None) = (?r \<notin> set (map de_raw SECTORS))" using Some sector by blast
      then show ?thesis using Some Sector
        by (simp add: validate_recipient_address_policy_def validate_recipient_domain_policy_def Let_def domain_of_account)
    qed (use Some listed in \<open>auto simp: validate_recipient_address_policy_def validate_recipient_domain_policy_def Let_def
      domain_of_account\<close>)
  qed
qed

end
