(* ===== verification/Pwm_Display.thy ===== *)
theory Pwm_Display
  imports Pwm_Account
begin

text \<open>
  Amounts as text (src/crates/pwm-core/src/display.rs): one coin is a million raw units, at
  most six decimals. The lemmas show that parsing inverts formatting for every amount.
\<close>

section \<open>Formatting\<close>

text \<open>The loop that pops trailing zeros.\<close>

fun pop_zeros :: "string \<Rightarrow> string" where
  "pop_zeros s = rev (dropWhile (\<lambda>c. c = CHR ''0'') (rev s))"

definition format_pwm :: "u128 \<Rightarrow> string" where
  "format_pwm raw =
     (let whole = raw div PWM_RAW_SCALE; frac = raw mod PWM_RAW_SCALE
      in if frac = 0 then show_radix 10 (unat whole) @ '' PWM''
         else let frac_text = pop_zeros (pad_zero 6 (show_radix 10 (unat frac)))
              in show_radix 10 (unat whole) @ ''.'' @ frac_text @ '' PWM'')"

section \<open>Parsing\<close>

definition frac_units :: "string \<Rightarrow> string + u128" where
  "frac_units frac_raw =
     (if frac_raw = [] \<or> \<not> list_all is_ascii_digit frac_raw then Inl ''must be a decimal number like 12.34''
      else if length frac_raw > 6 then Inl ''supports up to 6 decimal places (scale 1 PWM = 1_000_000 base units)''
      else case parse_u128 (frac_raw @ replicate (6 - length frac_raw) (CHR ''0'')) of
             None \<Rightarrow> Inl ''numeric overflow'' | Some v \<Rightarrow> Inr v)"

definition parse_decimal_pwm_units :: "string \<Rightarrow> string + u128" where
  "parse_decimal_pwm_units raw =
     (let s = trim raw
      in if s = [] then Inl ''value is required''
         else if take 1 s = ''-'' then Inl ''negative values are not allowed''
         else let (whole, frac) = (case split_once ''.'' s of Some (w, f) \<Rightarrow> (w, Some f) | None \<Rightarrow> (s, None))
              in if whole = [] \<or> \<not> list_all is_ascii_digit whole then Inl ''must be a decimal number like 12.34''
                 else case parse_u128 whole of
                   None \<Rightarrow> Inl ''numeric overflow''
                 | Some w \<Rightarrow> (case checked_mul w PWM_RAW_SCALE of
                     None \<Rightarrow> Inl ''numeric overflow''
                   | Some whole_units \<Rightarrow>
                       (case (case frac of Some frac_raw \<Rightarrow> frac_units frac_raw | None \<Rightarrow> Inr 0) of
                          Inl e \<Rightarrow> Inl e
                        | Inr fu \<Rightarrow> (case checked_add whole_units fu of
                            None \<Rightarrow> Inl ''numeric overflow'' | Some v \<Rightarrow> Inr v))))"

section \<open>Parsing inverts formatting\<close>

lemma pop_zeros_pad: "\<exists>k. s = pop_zeros s @ replicate k (CHR ''0'')"
proof -
  let ?P = "\<lambda>c. c = CHR ''0''"
  have "takeWhile ?P (rev s) = replicate (length (takeWhile ?P (rev s))) (CHR ''0'')"
    by (rule replicate_length_same [symmetric]) (auto dest: set_takeWhileD)
  moreover have "s = pop_zeros s @ rev (takeWhile ?P (rev s))"
    by (metis pop_zeros.simps rev_append rev_rev_ident takeWhile_dropWhile_id)
  ultimately show ?thesis by (metis rev_replicate)
qed

lemma frac_units_format:
  assumes "0 < n" "n < 1000000"
  shows "frac_units (pop_zeros (pad_zero 6 (show_radix 10 n))) = Inr (of_nat n)"
    and "pop_zeros (pad_zero 6 (show_radix 10 n)) \<noteq> []"
    and "list_all is_ascii_digit (pop_zeros (pad_zero 6 (show_radix 10 n)))"
proof -
  let ?t = "pad_zero 6 (show_radix 10 n)"
  have len: "length ?t = 6"
    using assms length_show_radix [of 10 6 n] by (intro length_pad_zero) simp
  have digits: "list_all is_ascii_digit ?t"
    by (intro pad_zero_all show_radix_all) (simp_all add: digit_char_kind is_ascii_digit_def)
  obtain k where k: "?t = pop_zeros ?t @ replicate k (CHR ''0'')" using pop_zeros_pad by blast
  have val: "from_str_radix 10 (2 ^ 128) ?t = Some n"
    using assms by (intro from_str_radix_pad) simp_all
  show digs: "list_all is_ascii_digit (pop_zeros ?t)"
    using digits k by (metis list_all_append)
  show ne: "pop_zeros ?t \<noteq> []"
  proof
    assume "pop_zeros ?t = []"
    with k len have "?t = replicate 6 (CHR ''0'')" by (metis append_Nil length_replicate)
    moreover have "pad_zero 6 (show_radix 10 0) = replicate 6 (CHR ''0'')"
      by code_simp
    with from_str_radix_pad [of 10 0 "2 ^ 128" 6] have "from_str_radix 10 (2 ^ 128) (replicate 6 (CHR ''0'')) = Some 0" by simp
    ultimately show False using val assms by simp
  qed
  have l: "length (pop_zeros ?t) + k = 6" by (metis k len length_append length_replicate)
  then have "k = 6 - length (pop_zeros ?t)" by linarith
  then have padded: "pop_zeros ?t @ replicate (6 - length (pop_zeros ?t)) (CHR ''0'') = ?t" using k by metis
  have "length (pop_zeros ?t) \<le> 6" using l by linarith
  with val ne digs show "frac_units (pop_zeros ?t) = Inr (of_nat n)"
    unfolding frac_units_def padded parse_u128_def by (simp del: pop_zeros.simps)
qed

lemma raw_split:
  fixes raw :: u128
  shows "checked_mul (raw div PWM_RAW_SCALE) PWM_RAW_SCALE = Some (raw div PWM_RAW_SCALE * PWM_RAW_SCALE)"
    "checked_add (raw div PWM_RAW_SCALE * PWM_RAW_SCALE) (raw mod PWM_RAW_SCALE) = Some raw"
proof -
  let ?w = "raw div PWM_RAW_SCALE"
  have s: "unat PWM_RAW_SCALE = 1000000" by (simp add: PWM_RAW_SCALE_def)
  have w: "unat ?w = unat raw div 1000000" by (simp add: unat_div_distrib s)
  have m: "unat (raw mod PWM_RAW_SCALE) = unat raw mod 1000000" by (simp add: unat_mod_distrib s)
  have b: "unat raw < 2 ^ 128" using unsigned_less [of raw, where ?'a = nat] by simp
  have le: "unat raw div 1000000 * 1000000 < 2 ^ 128" using b div_times_less_eq_dividend [of "unat raw" 1000000] by linarith
  show "checked_mul ?w PWM_RAW_SCALE = Some (?w * PWM_RAW_SCALE)"
    using le by (simp add: checked_mul_def s w)
  have p: "unat (?w * PWM_RAW_SCALE) = unat raw div 1000000 * 1000000"
    using le by (subst unat_mult_small) (simp_all add: s w)
  have "?w * PWM_RAW_SCALE + raw mod PWM_RAW_SCALE = raw" by (rule div_mult_mod_eq)
  then show "checked_add (?w * PWM_RAW_SCALE) (raw mod PWM_RAW_SCALE) = Some raw"
    using b by (simp add: checked_add_def p m)
qed

lemma digits_graphic: "list_all is_ascii_digit s \<Longrightarrow> c \<in> set s \<Longrightarrow> graphic c \<and> c \<noteq> CHR ''.'' \<and> c \<noteq> CHR ''-''"
  by (auto simp: list_all_iff is_ascii_digit_def graphic_def)

lemma show_digits: "list_all is_ascii_digit (show_radix 10 n)"
  by (intro show_radix_all) (simp_all add: digit_char_kind)

lemma parse_format:
  obtains t where "format_pwm raw = t @ '' PWM''" "parse_decimal_pwm_units t = Inr raw"
proof -
  let ?w = "show_radix 10 (unat (raw div PWM_RAW_SCALE))"
  let ?n = "unat (raw mod PWM_RAW_SCALE)"
  let ?f = "pop_zeros (pad_zero 6 (show_radix 10 ?n))"
  note w = show_digits [of "unat (raw div PWM_RAW_SCALE)"]
  have pw: "parse_u128 ?w = Some (raw div PWM_RAW_SCALE)"
    using unsigned_less [of "raw div PWM_RAW_SCALE", where ?'a = nat] by (simp add: parse_u128_def from_str_radix_show)
  have start: "hd ?w \<in> set ?w" "last ?w \<in> set ?w" by simp_all
  show thesis
  proof (cases "raw mod PWM_RAW_SCALE = 0")
    case True
    have "trim ?w = ?w" using digits_graphic [OF w] start by (intro trim_graphic) auto
    moreover have "split_once ''.'' ?w = None" using digits_graphic [OF w] by (intro split_once_absent) auto
    moreover have "take 1 ?w \<noteq> ''-''" using digits_graphic [OF w start(1)] by (cases ?w) auto
    ultimately have "parse_decimal_pwm_units ?w = Inr raw"
      using raw_split [of raw] True w pw by (simp add: parse_decimal_pwm_units_def Let_def)
    with True show thesis using that by (simp add: format_pwm_def)
  next
    case False
    let ?t = "?w @ ''.'' @ ?f"
    have "?n < 1000000" by (simp add: unat_mod_distrib PWM_RAW_SCALE_def)
    moreover have "0 < ?n" using False by (simp add: unat_gt_0)
    ultimately have f: "frac_units ?f = Inr (raw mod PWM_RAW_SCALE)" "?f \<noteq> []" "list_all is_ascii_digit ?f"
      using frac_units_format [of ?n] by (simp_all del: pop_zeros.simps)
    have "trim ?t = ?t"
      using digits_graphic [OF w] digits_graphic [OF f(3)] start f(2) by (intro trim_graphic) (simp_all del: pop_zeros.simps)
    moreover have "split_once ''.'' ?t = Some (?w, ?f)" using digits_graphic [OF w] by (intro split_once_head) auto
    moreover have "take 1 ?t \<noteq> ''-''" using digits_graphic [OF w start(1)] by (cases ?w) auto
    ultimately have "parse_decimal_pwm_units ?t = Inr raw"
      using raw_split [of raw] f(1) w pw by (simp add: parse_decimal_pwm_units_def Let_def del: pop_zeros.simps)
    moreover have "format_pwm raw = ?t @ '' PWM''" using False by (simp add: format_pwm_def Let_def)
    ultimately show thesis using that by blast
  qed
qed

end
