(* ===== verification/Pwm_Mempool.thy ===== *)
theory Pwm_Mempool
  imports Pwm_Tx_Data
begin

text \<open>
  The transaction pool (src/crates/pwm-core/src/mempool.rs). The locale \<open>fifo_pool\<close> states
  what a block producer relies on, over the list of a pool's contents; what follows from it,
  for any mix of pushes, sealed blocks and failed seals, is proved inside and holds of \<open>Mpool\<close>
  by the interpretation below.
\<close>

section \<open>The pool\<close>

record Mpool =
  mp_cap :: nat
  mp_q :: "SignedTx list"

definition mpool_new :: "nat \<Rightarrow> Mpool" where
  "mpool_new cap = \<lparr> mp_cap = cap, mp_q = [] \<rparr>"

definition mpool_len :: "Mpool \<Rightarrow> nat" where
  "mpool_len p = length (mp_q p)"

definition mpool_push :: "SignedTx \<Rightarrow> Mpool \<Rightarrow> (string, Mpool) outcome" where
  "mpool_push tx p =
     (if length (mp_q p) \<ge> mp_cap p then Failed ''pool full'' p else Done (p\<lparr>mp_q := mp_q p @ [tx]\<rparr>))"

text \<open>The loop of \<open>take\<close>: what it has put out, and the queue that is left.\<close>

fun take_loop :: "nat \<Rightarrow> SignedTx list \<Rightarrow> SignedTx list \<Rightarrow> SignedTx list \<times> SignedTx list" where
  "take_loop mx out [] = (out, [])"
| "take_loop mx out (t # q) = (if length out < mx then take_loop mx (out @ [t]) q else (out, t # q))"

definition mpool_take :: "nat \<Rightarrow> Mpool \<Rightarrow> SignedTx list \<times> Mpool" where
  "mpool_take mx p = (let (out, q) = take_loop mx [] (mp_q p) in (out, p\<lparr>mp_q := q\<rparr>))"

definition mpool_snapshot :: "nat \<Rightarrow> Mpool \<Rightarrow> SignedTx list" where
  "mpool_snapshot mx p = take mx (mp_q p)"

definition mpool_prepend_block :: "SignedTx list \<Rightarrow> Mpool \<Rightarrow> Mpool" where
  "mpool_prepend_block ts p = p\<lparr>mp_q := foldl (\<lambda>q tx. tx # q) (mp_q p) (rev ts)\<rparr>"

section \<open>The contract of a pool\<close>

text \<open>What a producer does with a pool: it accepts transactions, takes a block and seals it, or
  takes a block whose seal fails and puts it back.\<close>

datatype 'x pool_op = Push 'x | Sealed nat | Undone nat

text \<open>The transactions accepted, the transactions sealed and the pool after a run.\<close>

fun pool_run :: "('x \<Rightarrow> 'p \<Rightarrow> ('e, 'p) outcome) \<Rightarrow> (nat \<Rightarrow> 'p \<Rightarrow> 'x list \<times> 'p) \<Rightarrow> ('x list \<Rightarrow> 'p \<Rightarrow> 'p) \<Rightarrow>
    'x pool_op list \<Rightarrow> 'p \<Rightarrow> 'x list \<times> 'x list \<times> 'p" where
  "pool_run push tk prep [] p = ([], [], p)"
| "pool_run push tk prep (Push x # ops) p =
     (case push x p of
        Done p' \<Rightarrow> (let (acc, sealed, q) = pool_run push tk prep ops p' in (x # acc, sealed, q))
      | Failed e p' \<Rightarrow> pool_run push tk prep ops p'
      | Panicked \<Rightarrow> ([], [], p))"
| "pool_run push tk prep (Sealed n # ops) p =
     (let (blk, p') = tk n p; (acc, sealed, q) = pool_run push tk prep ops p' in (acc, blk @ sealed, q))"
| "pool_run push tk prep (Undone n # ops) p = (let (blk, p') = tk n p in pool_run push tk prep ops (prep blk p'))"

locale fifo_pool =
  fixes contents :: "'p \<Rightarrow> 'x list"
    and cap :: "'p \<Rightarrow> nat"
    and push :: "'x \<Rightarrow> 'p \<Rightarrow> ('e, 'p) outcome"
    and take_block :: "nat \<Rightarrow> 'p \<Rightarrow> 'x list \<times> 'p"
    and prepend :: "'x list \<Rightarrow> 'p \<Rightarrow> 'p"
  assumes push_room: "length (contents p) < cap p \<Longrightarrow> \<exists>p'. push x p = Done p' \<and> contents p' = contents p @ [x] \<and> cap p' = cap p"
    and push_full: "cap p \<le> length (contents p) \<Longrightarrow> \<exists>e. push x p = Failed e p"
    and take_fst: "fst (take_block n p) = take n (contents p)"
    and take_snd: "contents (snd (take_block n p)) = drop n (contents p)" "cap (snd (take_block n p)) = cap p"
    and prepend_contents: "contents (prepend xs p) = xs @ contents p" "cap (prepend xs p) = cap p"
begin

lemma undo_take: "contents (prepend (fst (take_block n p)) (snd (take_block n p))) = contents p"
  by (simp add: prepend_contents take_fst take_snd)

lemma run_fifo:
  "pool_run push take_block prepend ops p = (acc, sealed, q) \<Longrightarrow> contents p @ acc = sealed @ contents q"
proof (induction ops arbitrary: p acc sealed q)
  case (Cons op ops)
  show ?case
  proof (cases op)
    case (Push x)
    show ?thesis
    proof (cases "length (contents p) < cap p")
      case True
      from push_room [OF this, of x] obtain p' where p': "push x p = Done p'" "contents p' = contents p @ [x]" by blast
      with Cons.prems Push obtain acc' where "pool_run push take_block prepend ops p' = (acc', sealed, q)" "acc = x # acc'"
        by (auto split: prod.splits)
      with Cons.IH [of p' acc' sealed q] p'(2) show ?thesis by simp
    next
      case False
      then obtain e where "push x p = Failed e p" using push_full [of p x] by auto
      with Cons Push show ?thesis by simp
    qed
  next
    case (Sealed n)
    obtain blk p' where t: "take_block n p = (blk, p')" by fastforce
    with Cons.prems Sealed obtain s' where "pool_run push take_block prepend ops p' = (acc, s', q)" "sealed = blk @ s'"
      by (auto split: prod.splits)
    with Cons.IH [of p' acc s' q] take_fst [of n p] take_snd(1) [of n p] t show ?thesis
      by (metis append.assoc append_take_drop_id fst_conv snd_conv)
  next
    case (Undone n)
    then have "pool_run push take_block prepend ops (prepend (fst (take_block n p)) (snd (take_block n p))) = (acc, sealed, q)"
      using Cons.prems by (simp split: prod.splits)
    from Cons.IH [OF this] show ?thesis by (simp add: undo_take)
  qed
qed simp

lemma run_bounded:
  "pool_run push take_block prepend ops p = (acc, sealed, q) \<Longrightarrow> length (contents p) \<le> cap p \<Longrightarrow> length (contents q) \<le> cap q \<and> cap q = cap p"
proof (induction ops arbitrary: p acc sealed q)
  case (Cons op ops)
  show ?case
  proof (cases op)
    case (Push x)
    show ?thesis
    proof (cases "length (contents p) < cap p")
      case True
      from push_room [OF this, of x] obtain p' where p': "push x p = Done p'" "contents p' = contents p @ [x]" "cap p' = cap p" by blast
      with Cons.prems Push obtain acc' where "pool_run push take_block prepend ops p' = (acc', sealed, q)" by (auto split: prod.splits)
      with Cons.IH [of p' acc' sealed q] p' True show ?thesis by simp
    next
      case False
      then obtain e where "push x p = Failed e p" using push_full [of p x] by auto
      then have "pool_run push take_block prepend ops p = (acc, sealed, q)" using Cons.prems(1) Push by simp
      from Cons.IH [OF this Cons.prems(2)] show ?thesis .
    qed
  next
    case (Sealed n)
    obtain blk p' where t: "take_block n p = (blk, p')" by fastforce
    with Cons.prems Sealed obtain s' where r: "pool_run push take_block prepend ops p' = (acc, s', q)" by (auto split: prod.splits)
    have "contents p' = drop n (contents p)" "cap p' = cap p" using take_snd [of n p] t by simp_all
    then have "length (contents p') \<le> cap p'" using Cons.prems(2) by simp
    from Cons.IH [OF r this] \<open>cap p' = cap p\<close> show ?thesis by simp
  next
    case (Undone n)
    let ?p = "prepend (fst (take_block n p)) (snd (take_block n p))"
    have "pool_run push take_block prepend ops ?p = (acc, sealed, q)" using Cons.prems(1) Undone by (simp split: prod.splits)
    moreover have "cap ?p = cap p" by (simp add: prepend_contents take_snd)
    moreover have "length (contents ?p) \<le> cap ?p" using Cons.prems(2) by (simp add: prepend_contents take_fst take_snd)
    ultimately show ?thesis using Cons.IH [of ?p acc sealed q] by metis
  qed
qed simp

end

section \<open>The pool satisfies it\<close>

lemma take_loop_eq: "length out \<le> n \<Longrightarrow> take_loop n out q = (out @ take (n - length out) q, drop (n - length out) q)"
proof (induction q arbitrary: out)
  case (Cons t q)
  show ?case
  proof (cases "length out < n")
    case True
    then obtain m where "n - length out = Suc m" "n - Suc (length out) = m" by (cases "n - length out") auto
    with Cons.IH [of "out @ [t]"] True show ?thesis by simp
  next
    case False
    with Cons.prems show ?thesis by simp
  qed
qed simp

lemma prepend_fold: "foldl (\<lambda>q tx. tx # q) q (rev ts) = ts @ q"
  by (induction ts arbitrary: q) auto

interpretation mpool: fifo_pool mp_q mp_cap mpool_push mpool_take mpool_prepend_block
  by unfold_locales
    (auto simp: mpool_push_def mpool_take_def take_loop_eq mpool_prepend_block_def prepend_fold)

lemma snapshot_is_next_block: "mpool_snapshot n p = fst (mpool_take n p)"
  by (simp add: mpool_snapshot_def mpool.take_fst)

end
