(* ===== verification/Pwm_Reject_Wire.thy ===== *)
theory Pwm_Reject_Wire
  imports Pwm_Tx_Data
begin

text \<open>
  The mapping of transaction errors to the reject code and class of the HTTP interface
  (src/crates/pwm-core/src/reject_wire.rs).
\<close>

definition tx_err_wire :: "TxError \<Rightarrow> string \<Rightarrow> string \<times> string" where
  "tx_err_wire e tx_kind =
     (if e \<in> {InvalidPurposeLength, InvalidPurposeChars} \<and> tx_kind = ''burn'' then (''E_BURN_SCHEMA_INVALID'', ''VALIDATION_ERROR'')
      else if e = InsufficientMarks \<and> tx_kind = ''burn'' then (''E_BURN_OVER_BALANCE'', ''STATE_CONFLICT'')
      else if e = DomainMismatch \<and> tx_kind = ''burn'' then (''E_BURN_POLICY_REJECT'', ''POLICY_REJECT'')
      else (case e of
          ImportFeeTooLow \<Rightarrow> (''E_IMPORT_FEE_TOO_LOW'', ''POLICY_REJECT'')
        | ExportLockRefunded \<Rightarrow> (''E_EXPORT_LOCK_REFUNDED'', ''STATE_CONFLICT'')
        | PolicySchemaInvalid \<Rightarrow> (''E_POLICY_SCHEMA_INVALID'', ''VALIDATION_ERROR'')
        | PolicyNotInstalled \<Rightarrow> (''E_POLICY_NOT_INSTALLED'', ''POLICY_REJECT'')
        | PolicyNotActive \<Rightarrow> (''E_POLICY_NOT_ACTIVE'', ''POLICY_REJECT'')
        | PolicyDenied \<Rightarrow> (''E_POLICY_DENIED'', ''POLICY_REJECT'')
        | PolicySenderFiltered \<Rightarrow> (''E_POLICY_SENDER_FILTERED'', ''POLICY_REJECT'')
        | PolicyRoutingDenied \<Rightarrow> (''E_POLICY_ROUTING_DENIED'', ''POLICY_REJECT'')
        | PolicyMissingCosign \<Rightarrow> (''E_POLICY_MISSING_COSIGN'', ''POLICY_REJECT'')
        | PolicyRescueRequired \<Rightarrow> (''E_POLICY_RESCUE_REQUIRED'', ''POLICY_REJECT'')
        | PolicyEmergencyCosignRequired \<Rightarrow> (''E_POLICY_EMERGENCY_COSIGN_REQUIRED'', ''POLICY_REJECT'')
        | PolicyAccountFinalized \<Rightarrow> (''E_POLICY_ACCOUNT_FINALIZED'', ''POLICY_REJECT'')
        | PolicyIrreversible \<Rightarrow> (''E_POLICY_IRREVERSIBLE'', ''POLICY_REJECT'')
        | PolicyFlagNonDisableable \<Rightarrow> (''E_POLICY_FLAG_NON_DISABLEABLE'', ''POLICY_REJECT'')
        | ConservationDelayRequired \<Rightarrow> (''E_CONSERVATION_DELAY_REQUIRED'', ''POLICY_REJECT'')
        | ConservationPendingExists \<Rightarrow> (''E_CONSERVATION_PENDING_EXISTS'', ''POLICY_REJECT'')
        | PolicyActivationFeeMustBeZero \<Rightarrow> (''E_POLICY_ACTIVATION_FEE_MUST_BE_ZERO'', ''POLICY_REJECT'')
        | PolicyActivationTargetMismatch \<Rightarrow> (''E_POLICY_ACTIVATION_TARGET_MISMATCH'', ''POLICY_REJECT'')
        | PolicyActivationTargetRequired \<Rightarrow> (''E_POLICY_ACTIVATION_TARGET_REQUIRED'', ''POLICY_REJECT'')
        | PolicyActivationTargetNotAllowed \<Rightarrow> (''E_POLICY_ACTIVATION_TARGET_NOT_ALLOWED'', ''VALIDATION_ERROR'')
        | DuplicateImport \<Rightarrow> (''E_EVIDENCE_DUPLICATE'', ''STATE_CONFLICT'')
        | EvidenceDuplicate \<Rightarrow> (''E_EVIDENCE_DUPLICATE'', ''STATE_CONFLICT'')
        | _ \<Rightarrow> (''E_SCHEMA_INVALID'', ''VALIDATION_ERROR'')))"

text \<open>The class a code belongs to.\<close>

definition code_class :: "string \<Rightarrow> string" where
  "code_class c =
     (if c \<in> {''E_BURN_OVER_BALANCE'', ''E_EXPORT_LOCK_REFUNDED'', ''E_EVIDENCE_DUPLICATE''} then ''STATE_CONFLICT''
      else if c \<in> {''E_BURN_SCHEMA_INVALID'', ''E_POLICY_SCHEMA_INVALID'', ''E_POLICY_ACTIVATION_TARGET_NOT_ALLOWED'', ''E_SCHEMA_INVALID''}
      then ''VALIDATION_ERROR'' else ''POLICY_REJECT'')"

lemma tx_err_wire_class: "snd (tx_err_wire e k) = code_class (fst (tx_err_wire e k))"
  by (cases e) (simp_all add: tx_err_wire_def code_class_def)

end
