(* ===== verification/Pwm_Wire_Props.thy ===== *)
theory Pwm_Wire_Props
  imports Pwm_Wire Pwm_Address_Book Pwm_Display Pwm_Mempool Pwm_Reject_Wire
begin

text \<open>
  What the outer components of pwm-core promise: addresses, amounts and byte arrays as text,
  the domain index, the address book, the transaction pool. The examples run on \<open>toy_addr\<close>.
\<close>

section \<open>Text\<close>

text \<open>C14: Every account identifier survives its human-readable form: what is shown to a user parses
  back to the same identifier, for regulatory, sector, witness, reserve and unknown domains alike, and
  the stricter parsers for user input and for migration never reject it as ambiguous.\<close>

theorem address_text_roundtrip:
  assumes "b32_laws lib" "hex_laws lib"
  shows "parse_account_id lib (account_id_to_human lib aid) = Inr aid \<and>
    parse_acct_id_ui lib (account_id_to_human lib aid) = Inr aid \<and>
    parse_acct_id_mig lib (account_id_to_human lib aid) = Inr aid"
  using parse_render [OF assms] parse_checked_render [OF assms]
  by (simp add: account_id_to_human_def parse_acct_id_ui_def parse_acct_id_mig_def)

theorem address_text_roundtrip_witness:
  "\<forall>aid. parse_acct_id_ui toy_addr (account_id_to_human toy_addr aid) = Inr aid"
  using address_text_roundtrip [OF toy_b32 toy_hex] by blast

text \<open>The bech32dx form decodes to exactly the fields it was made of, and the parsers read the
  account from it whatever the domain and flag fields hold: these two are not checked against the
  account, so one account has many accepted texts.\<close>

theorem bech32dx_text_roundtrip:
  assumes "b32_laws lib"
  shows "\<exists>s. encode_bech32dx lib 1 fl draw aid = Some s \<and>
    decode_bech32dx lib s = Inr \<lparr> bd_version = 1, bd_flags = fl, bd_domain_raw = draw, bd_account_id = aid \<rparr> \<and>
    parse_acct_id_ui lib s = Inr aid"
  using bech32dx_reads [OF assms, of fl draw aid] unfolding parse_acct_id_ui_def by blast

theorem bech32dx_text_roundtrip_witness:
  "\<exists>s. encode_bech32dx toy_addr 1 7 0xE000 5 = Some s \<and> parse_acct_id_ui toy_addr s = Inr 5"
  using bech32dx_text_roundtrip [OF toy_b32, of 7 "0xE000" 5] by blast

text \<open>The text of an amount, less its unit, parses back to the amount, for all 128-bit amounts.\<close>

theorem amount_text_roundtrip:
  "\<exists>t. format_pwm raw = t @ '' PWM'' \<and> parse_decimal_pwm_units t = Inr raw"
  using parse_format [of raw] by blast

text \<open>Byte arrays and amounts written to JSON are read back unchanged, and so are the older array
  forms of identifiers and signatures.\<close>

theorem json_roundtrip:
  assumes "hex_laws lib"
  shows "opt_hex32_deserialize lib (opt_hex32_serialize lib ow) = Inr ow \<and>
    hex32_deserialize lib (VStr (hex32_serialize lib w)) = Inr w \<and>
    hex32_deserialize lib (VSeq (map Inr (be_bytes 32 w))) = Inr w \<and>
    sig64_deserialize lib (VStr (sig64_serialize lib s)) = Inr s \<and>
    sig64_deserialize lib (VSeq (map Inr (be_bytes 64 s))) = Inr s \<and>
    opt_u128_deserialize (opt_u128_serialize v) = Inr v"
  using opt_hex32_roundtrip [OF assms] hex32_roundtrip [OF assms] sig64_roundtrip [OF assms] legacy_arrays opt_u128_roundtrip
  by blast

theorem json_roundtrip_witness:
  "sig64_deserialize toy_addr (VStr (sig64_serialize toy_addr 77)) = Inr 77"
  using json_roundtrip [OF toy_hex] by blast

section \<open>Domains\<close>

text \<open>Who may be a recipient: exactly the accounts whose domain is in the country range or is a
  listed sector. A country domain needs no table row of its own, since every high byte of the range has
  its row; reserve, witness and unlisted domains are refused.\<close>

theorem recipient_domains:
  "validate_recipient_address_policy aid = Inr () \<longleftrightarrow>
     category_for_raw (dom_raw_from_acct aid) = Some Regulatory \<or> dom_raw_from_acct aid \<in> set (map de_raw SECTORS)"
  by (rule valid_recipient)

text \<open>An append to the address book adds one item at its end, in whatever document, which reads back
  as the account; the account was not there before, and appending it again is refused.\<close>

theorem address_book_append:
  assumes "b32_laws lib" "append_addr_book lib root input label = Some (Inr root')"
  shows "\<exists>aid item. parse_acct_id_mig lib (trim input) = Inr aid \<and> root_book root' = root_book root @ [item] \<and>
    yaml_item_account_id lib item = Some aid \<and> (\<forall>i\<in>set (root_book root). yaml_item_account_id lib i \<noteq> Some aid) \<and>
    append_addr_book lib root' input label2 = Some (Inl ''address is already in address_book'')"
proof -
  from assms(2) obtain aid canonical where p: "parse_acct_id_mig lib (trim input) = Inr aid"
      "validate_recipient_address_policy aid = Inr ()" "account_id_to_bech32dx lib aid = Some canonical"
      "append_to_root (append_to_book lib aid (new_item canonical label)) root = Inr root'"
    by (auto simp: append_addr_book_def split: sum.splits option.splits)
  from canonical_text [OF assms(1), of aid] p(3)
  have c: "trim canonical = canonical" "parse_acct_id_mig lib canonical = Inr aid"
    unfolding parse_acct_id_mig_def by (metis option.inject)+
  note item = new_item_id [OF c(2,1), of label]
  note grown = append_root [OF p(4)]
  have "append_to_root (append_to_book lib aid it) root' = Inl ''address is already in address_book''" for it
    using grown item by (intro append_root_again) simp
  then have "append_addr_book lib root' input label2 = Some (Inl ''address is already in address_book'')"
    using p by (simp add: append_addr_book_def)
  moreover have "\<forall>i\<in>set (root_book root). yaml_item_account_id lib i \<noteq> Some aid" using grown by (auto simp: list_ex_iff)
  ultimately show ?thesis using p(1) grown item by blast
qed

theorem address_book_append_witness:
  "\<exists>root'. append_addr_book toy_addr (YMapping []) (account_id_to_human toy_addr (push_bit 240 0x0300)) None = Some (Inr root') \<and>
     append_addr_book toy_addr root' (account_id_to_human toy_addr (push_bit 240 0x0300)) None =
       Some (Inl ''address is already in address_book'')"
proof -
  let ?aid = "push_bit 240 0x0300 :: AccountId"
  let ?s = "account_id_to_human toy_addr ?aid"
  have parse: "parse_acct_id_mig toy_addr (trim ?s) = Inr ?aid"
    using address_text_roundtrip [OF toy_b32 toy_hex, of ?aid] trim_render [OF toy_hex, of ?aid]
    by (simp add: account_id_to_human_def)
  have "dom_raw_from_acct ?aid = 0x0300" by (simp add: dom_raw_from_acct_def byte_at_def)
  then have valid: "validate_recipient_address_policy ?aid = Inr ()"
    by (simp add: valid_recipient country_range)
  obtain s where "account_id_to_bech32dx toy_addr ?aid = Some s"
    using canonical_text [OF toy_b32] by blast
  with parse valid have "\<exists>root'. append_addr_book toy_addr (YMapping []) ?s None = Some (Inr root')"
    by (simp add: append_addr_book_def)
  with address_book_append [OF toy_b32, of "YMapping []" ?s None] show ?thesis by blast
qed

section \<open>The pool\<close>

text \<open>C15: The pool is first in, first out, and loses nothing: over any sequence of pushes, sealed blocks
  and blocks whose seal failed and that were put back, what was in the pool followed by what was accepted
  is what was sealed followed by what is left, in that order; and a pool within its capacity stays so.\<close>

theorem mempool_delivers_in_order:
  assumes "pool_run mpool_push mpool_take mpool_prepend_block ops p = (acc, sealed, q)"
    and "length (mp_q p) \<le> mp_cap p"
  shows "mp_q p @ acc = sealed @ mp_q q \<and> length (mp_q q) \<le> mp_cap q \<and> mp_cap q = mp_cap p"
  using mpool.run_fifo [OF assms(1)] mpool.run_bounded [OF assms] by blast

theorem mempool_delivers_in_order_witness:
  "\<forall>a b c. fst (snd (pool_run mpool_push mpool_take mpool_prepend_block
     [Push a, Push b, Push c, Undone 2, Sealed 1] (mpool_new 2))) = [a]"
proof (intro allI)
  fix a b c
  obtain acc sealed q where r: "pool_run mpool_push mpool_take mpool_prepend_block
      [Push a, Push b, Push c, Undone 2, Sealed 1] (mpool_new 2) = (acc, sealed, q)" by (metis prod_cases3)
  moreover from r have "acc = [a, b]" "mp_q q = [b]"
    by (auto simp: mpool_new_def mpool_push_def mpool_take_def mpool_prepend_block_def)
  ultimately show "fst (snd (pool_run mpool_push mpool_take mpool_prepend_block
      [Push a, Push b, Push c, Undone 2, Sealed 1] (mpool_new 2))) = [a]"
    using mempool_delivers_in_order [OF r] by (simp add: mpool_new_def)
qed

end
