(* ===== verification/Pwm_Lease.thy ===== *)
theory Pwm_Lease
  imports Pwm_Str
begin

text \<open>
  The sealing lease of a validator that runs on several nodes (src/crates/pwmd/src/lease.rs and
  lease_backend.rs): the record in a shared store, the two stores (a table in the process, a
  file per validator) and the state machine a node steps before it seals.

  The Rust trait \<open>LeaseBackend\<close> is the record \<open>lease_backend\<close> of its operations over a store
  state; what a node relies on is the locale \<open>lease_store\<close>, which both stores interpret.
\<close>

section \<open>Records and requests\<close>

record LeaseRec =
  lr_owner_id :: string
  lr_validator_identity_hash :: string
  lr_term :: u64
  lr_fence :: u64
  lr_expiry :: u64
  lr_last_tip :: u64
  lr_updated_at :: u64

record LeaseGrant =
  lg_vh :: string
  lg_owner :: string
  lg_now_ms :: u64
  lg_tip_h :: u64
  lg_ttl_ms :: u64

record LeaseKeep =
  lk_vh :: string
  lk_owner :: string
  lk_exp_term :: u64
  lk_exp_fence :: u64
  lk_now_ms :: u64
  lk_tip_h :: u64
  lk_ttl_ms :: u64

record LeaseTake =
  lt_vh :: string
  lt_owner :: string
  lt_exp_term :: u64
  lt_exp_fence :: u64
  lt_exp_expiry :: u64
  lt_now_ms :: u64
  lt_tip_h :: u64
  lt_ttl_ms :: u64

record LeaseDrop =
  ld_vh :: string
  ld_owner :: string
  ld_exp_term :: u64
  ld_exp_fence :: u64

datatype AcquireRes = Acquired LeaseRec | Held LeaseRec
datatype RenewRes = Renewed LeaseRec | Lost "LeaseRec option"
datatype TakeRes = Taken LeaseRec | CasMiss LeaseRec | Missing
datatype ReleaseRes = Released | NotOwner

text \<open>The operations of a store with state \<open>'s\<close>; an \<open>Err\<close> is \<open>Inl\<close>.\<close>

record 's lease_backend =
  be_acquire :: "LeaseGrant \<Rightarrow> 's \<Rightarrow> (string + AcquireRes) \<times> 's"
  be_renew :: "LeaseKeep \<Rightarrow> 's \<Rightarrow> (string + RenewRes) \<times> 's"
  be_release :: "LeaseDrop \<Rightarrow> 's \<Rightarrow> (string + ReleaseRes) \<times> 's"
  be_takeover :: "LeaseTake \<Rightarrow> 's \<Rightarrow> (string + TakeRes) \<times> 's"

definition mk_rec :: "string \<Rightarrow> string \<Rightarrow> u64 \<Rightarrow> u64 \<Rightarrow> u64 \<Rightarrow> u64 \<Rightarrow> u64 \<Rightarrow> LeaseRec" where
  "mk_rec vh owner now_ms tip_h ttl_ms trm fence = \<lparr> lr_owner_id = owner, lr_validator_identity_hash = vh,
     lr_term = trm, lr_fence = fence, lr_expiry = sat_add now_ms ttl_ms, lr_last_tip = tip_h, lr_updated_at = now_ms \<rparr>"

section \<open>The decisions both stores share\<close>

text \<open>
  The bodies of the operations of the two stores are the same decision on the record they
  read; each returns the answer and, when there is one, the record to write.
\<close>

definition acquire_rec :: "LeaseGrant \<Rightarrow> LeaseRec option \<Rightarrow> AcquireRes \<times> LeaseRec option" where
  "acquire_rec req cur =
     (case cur of
        None \<Rightarrow> (let rc = mk_rec (lg_vh req) (lg_owner req) (lg_now_ms req) (lg_tip_h req) (lg_ttl_ms req) 1 1
                 in (Acquired rc, Some rc))
      | Some rc \<Rightarrow> (Held rc, None))"

definition renew_rec :: "LeaseKeep \<Rightarrow> LeaseRec option \<Rightarrow> RenewRes \<times> LeaseRec option" where
  "renew_rec req cur =
     (case cur of
        None \<Rightarrow> (Lost None, None)
      | Some c \<Rightarrow>
          if lr_owner_id c \<noteq> lk_owner req \<or> lr_term c \<noteq> lk_exp_term req \<or> lr_fence c \<noteq> lk_exp_fence req
             \<or> lk_now_ms req > lr_expiry c
          then (Lost (Some c), None)
          else let nxt = c\<lparr>lr_expiry := sat_add (lk_now_ms req) (lk_ttl_ms req), lr_last_tip := lk_tip_h req,
                           lr_updated_at := lk_now_ms req\<rparr>
               in (Renewed nxt, Some nxt))"

definition takeover_rec :: "LeaseTake \<Rightarrow> LeaseRec option \<Rightarrow> TakeRes \<times> LeaseRec option" where
  "takeover_rec req cur =
     (case cur of
        None \<Rightarrow> (Missing, None)
      | Some c \<Rightarrow>
          if lr_term c \<noteq> lt_exp_term req \<or> lr_fence c \<noteq> lt_exp_fence req \<or> lr_expiry c \<noteq> lt_exp_expiry req
          then (CasMiss c, None)
          else let rc = mk_rec (lt_vh req) (lt_owner req) (lt_now_ms req) (lt_tip_h req) (lt_ttl_ms req)
                          (sat_add (lr_term c) 1) (sat_add (lr_fence c) 1)
               in (Taken rc, Some rc))"

text \<open>Whether the record is to be deleted.\<close>

definition release_rec :: "LeaseDrop \<Rightarrow> LeaseRec option \<Rightarrow> ReleaseRes \<times> bool" where
  "release_rec req cur =
     (case cur of
        None \<Rightarrow> (NotOwner, False)
      | Some c \<Rightarrow>
          if lr_owner_id c \<noteq> ld_owner req \<or> lr_term c \<noteq> ld_exp_term req \<or> lr_fence c \<noteq> ld_exp_fence req
          then (NotOwner, False) else (Released, True))"

section \<open>The store in the process\<close>

text \<open>The table behind the mutex; a poisoned mutex refuses every operation.\<close>

record ProcStore =
  ps_by_key :: "(string, LeaseRec) fmap"
  ps_poisoned :: bool

definition proc_op :: "('r \<times> LeaseRec option) \<Rightarrow> string \<Rightarrow> ProcStore \<Rightarrow> (string + 'r) \<times> ProcStore" where
  "proc_op d vh s =
     (if ps_poisoned s then (Inl ''lease_store_poisoned'', s)
      else (Inr (fst d), case snd d of None \<Rightarrow> s | Some rc \<Rightarrow> s\<lparr>ps_by_key := fmupd vh rc (ps_by_key s)\<rparr>))"

definition proc_acquire :: "LeaseGrant \<Rightarrow> ProcStore \<Rightarrow> (string + AcquireRes) \<times> ProcStore" where
  "proc_acquire req s = proc_op (acquire_rec req (fmlookup (ps_by_key s) (lg_vh req))) (lg_vh req) s"

definition proc_renew :: "LeaseKeep \<Rightarrow> ProcStore \<Rightarrow> (string + RenewRes) \<times> ProcStore" where
  "proc_renew req s = proc_op (renew_rec req (fmlookup (ps_by_key s) (lk_vh req))) (lk_vh req) s"

definition proc_takeover :: "LeaseTake \<Rightarrow> ProcStore \<Rightarrow> (string + TakeRes) \<times> ProcStore" where
  "proc_takeover req s = proc_op (takeover_rec req (fmlookup (ps_by_key s) (lt_vh req))) (lt_vh req) s"

definition proc_release :: "LeaseDrop \<Rightarrow> ProcStore \<Rightarrow> (string + ReleaseRes) \<times> ProcStore" where
  "proc_release req s =
     (if ps_poisoned s then (Inl ''lease_store_poisoned'', s)
      else let (res, del) = release_rec req (fmlookup (ps_by_key s) (ld_vh req))
           in (Inr res, if del then s\<lparr>ps_by_key := fmdrop (ld_vh req) (ps_by_key s)\<rparr> else s))"

definition proc_backend :: "ProcStore lease_backend" where
  "proc_backend = \<lparr> be_acquire = proc_acquire, be_renew = proc_renew, be_release = proc_release, be_takeover = proc_takeover \<rparr>"

section \<open>The store in files\<close>

text \<open>
  One file per validator, under a lock file. A file holds a record or bytes that do not decode
  (then the error of the JSON crate). The file system may refuse any call: \<open>fs_fault\<close> lists,
  for the operations to come, the call that fails and its error; when the list has run out
  nothing fails. The paths in the error texts are left out. The write goes to a temporary file, removes the target and renames, so a
  failing rename leaves no record behind.
\<close>

datatype io_fault =
    NoFault
  | LockFault string
  | ReadFault string
  | WriteFault string
  | RenameFault string
  | DeleteFault string

datatype lease_file = Decoded LeaseRec | Corrupt string

record FileStore =
  fs_files :: "(string, lease_file) fmap"
  fs_fault :: "io_fault list"

definition next_fault :: "FileStore \<Rightarrow> io_fault" where
  "next_fault s = (case fs_fault s of [] \<Rightarrow> NoFault | f # _ \<Rightarrow> f)"

definition after_fault :: "FileStore \<Rightarrow> FileStore" where
  "after_fault s = s\<lparr>fs_fault := tl (fs_fault s)\<rparr>"

definition read_checked :: "io_fault \<Rightarrow> string \<Rightarrow> FileStore \<Rightarrow> string + LeaseRec option" where
  "read_checked f vh s =
     (case fmlookup (fs_files s) vh of
        None \<Rightarrow> Inr None
      | Some c \<Rightarrow> (case f of
          ReadFault e \<Rightarrow> Inl (''lease_backend_read_failed'' @ e)
        | _ \<Rightarrow> (case c of
            Corrupt e \<Rightarrow> Inl (''lease_backend_corrupt_record'' @ e)
          | Decoded rc \<Rightarrow>
              if lr_validator_identity_hash rc \<noteq> vh then Inl ''lease_backend_validator_mismatch''
              else Inr (Some rc))))"

definition write_rec :: "io_fault \<Rightarrow> string \<Rightarrow> LeaseRec \<Rightarrow> FileStore \<Rightarrow> (string + unit) \<times> FileStore" where
  "write_rec f vh rc s =
     (case f of
        WriteFault e \<Rightarrow> (Inl (''lease_backend_tmp_write_failed'' @ e), s)
      | RenameFault e \<Rightarrow> (Inl (''lease_backend_atomic_rename_failed'' @ e), s\<lparr>fs_files := fmdrop vh (fs_files s)\<rparr>)
      | _ \<Rightarrow> (Inr (), s\<lparr>fs_files := fmupd vh (Decoded rc) (fs_files s)\<rparr>))"

definition file_op :: "(LeaseRec option \<Rightarrow> 'r \<times> LeaseRec option) \<Rightarrow> string \<Rightarrow> FileStore \<Rightarrow> (string + 'r) \<times> FileStore" where
  "file_op d vh s0 =
     (let f = next_fault s0; s = after_fault s0
      in case f of
           LockFault e \<Rightarrow> (Inl (''lease_backend_lock_acquire_failed'' @ e), s)
         | _ \<Rightarrow> (case read_checked f vh s of
             Inl e \<Rightarrow> (Inl e, s)
           | Inr cur \<Rightarrow> (case d cur of
               (res, None) \<Rightarrow> (Inr res, s)
             | (res, Some rc) \<Rightarrow> (case write_rec f vh rc s of
                 (Inl e, s') \<Rightarrow> (Inl e, s') | (Inr _, s') \<Rightarrow> (Inr res, s')))))"

definition file_acquire :: "LeaseGrant \<Rightarrow> FileStore \<Rightarrow> (string + AcquireRes) \<times> FileStore" where
  "file_acquire req s = file_op (acquire_rec req) (lg_vh req) s"

definition file_renew :: "LeaseKeep \<Rightarrow> FileStore \<Rightarrow> (string + RenewRes) \<times> FileStore" where
  "file_renew req s = file_op (renew_rec req) (lk_vh req) s"

definition file_takeover :: "LeaseTake \<Rightarrow> FileStore \<Rightarrow> (string + TakeRes) \<times> FileStore" where
  "file_takeover req s = file_op (takeover_rec req) (lt_vh req) s"

definition file_release :: "LeaseDrop \<Rightarrow> FileStore \<Rightarrow> (string + ReleaseRes) \<times> FileStore" where
  "file_release req s0 =
     (let f = next_fault s0; s = after_fault s0
      in case f of
           LockFault e \<Rightarrow> (Inl (''lease_backend_lock_acquire_failed'' @ e), s)
         | _ \<Rightarrow> (case read_checked f (ld_vh req) s of
             Inl e \<Rightarrow> (Inl e, s)
           | Inr cur \<Rightarrow> (case release_rec req cur of
               (res, False) \<Rightarrow> (Inr res, s)
             | (res, True) \<Rightarrow> (case f of
                 DeleteFault e \<Rightarrow> (Inl (''lease_backend_delete_failed'' @ e), s)
               | _ \<Rightarrow> (Inr res, s\<lparr>fs_files := fmdrop (ld_vh req) (fs_files s)\<rparr>)))))"

definition file_backend :: "FileStore lease_backend" where
  "file_backend = \<lparr> be_acquire = file_acquire, be_renew = file_renew, be_release = file_release, be_takeover = file_takeover \<rparr>"

section \<open>The state machine of a node\<close>

datatype LeaseState = ActiveSealing | StandbySyncing | SuspectActiveLost | FencedStandby

record LeaseCfg =
  ttl_ms :: u64
  takeover_ms :: u64
  max_tip_lag :: u64

definition lease_cfg_default :: LeaseCfg where
  "lease_cfg_default = \<lparr> ttl_ms = 10000, takeover_ms = 8000, max_tip_lag = 1 \<rparr>"

record LeaseRuntime =
  rt_owner_id :: string
  rt_term :: u64
  rt_expires_at_ms :: u64
  rt_last_tip :: u64
  rt_fence :: u64
  rt_allow_seal :: bool
  rt_state :: LeaseState
  rt_last_reason :: string

definition lease_runtime_new :: "string \<Rightarrow> LeaseRuntime" where
  "lease_runtime_new owner = \<lparr> rt_owner_id = owner, rt_term = 0, rt_expires_at_ms = 0, rt_last_tip = 0, rt_fence = 0,
     rt_allow_seal = False, rt_state = StandbySyncing, rt_last_reason = ''lease_not_acquired'' \<rparr>"

datatype LeaseEvent = EvAcquire | EvRenew | EvTakeover | EvLoss | EvReject

record LeaseStep =
  st_allow_seal :: bool
  st_event :: "LeaseEvent option"

definition show_u64 :: "u64 \<Rightarrow> string" where
  "show_u64 v = show_radix 10 (unat v)"

definition loss_label :: "LeaseRec \<Rightarrow> string" where
  "loss_label rc = ''owner='' @ lr_owner_id rc @ '' term='' @ show_u64 (lr_term rc) @ '' fence='' @ show_u64 (lr_fence rc)
     @ '' expiry='' @ show_u64 (lr_expiry rc)"

definition apply_rt :: "LeaseRec \<Rightarrow> bool \<Rightarrow> LeaseRuntime \<Rightarrow> LeaseRuntime" where
  "apply_rt rc allow rt = rt\<lparr>rt_owner_id := lr_owner_id rc, rt_term := lr_term rc, rt_expires_at_ms := lr_expiry rc,
     rt_last_tip := lr_last_tip rc, rt_fence := lr_fence rc, rt_allow_seal := allow\<rparr>"

text \<open>The assignments that end every branch.\<close>

definition deny :: "LeaseState \<Rightarrow> string \<Rightarrow> LeaseRuntime \<Rightarrow> LeaseRuntime" where
  "deny stt why rt = rt\<lparr>rt_allow_seal := False, rt_state := stt, rt_last_reason := why\<rparr>"

definition grant :: "LeaseRec \<Rightarrow> string \<Rightarrow> LeaseRuntime \<Rightarrow> LeaseRuntime" where
  "grant rc why rt = (apply_rt rc True rt)\<lparr>rt_state := ActiveSealing, rt_last_reason := why\<rparr>"

definition loss_or_reject :: "bool \<Rightarrow> LeaseEvent" where
  "loss_or_reject prev_allow = (if prev_allow then EvLoss else EvReject)"

definition take_req :: "string \<Rightarrow> string \<Rightarrow> u64 \<Rightarrow> u64 \<Rightarrow> LeaseCfg \<Rightarrow> LeaseRec \<Rightarrow> LeaseTake" where
  "take_req vh node_id now_ms tip_h cfg rc = \<lparr> lt_vh = vh, lt_owner = node_id, lt_exp_term = lr_term rc,
     lt_exp_fence = lr_fence rc, lt_exp_expiry = lr_expiry rc, lt_now_ms = now_ms, lt_tip_h = tip_h, lt_ttl_ms = ttl_ms cfg \<rparr>"

definition step_standby ::
  "'s lease_backend \<Rightarrow> string \<Rightarrow> string \<Rightarrow> u64 \<Rightarrow> u64 \<Rightarrow> LeaseCfg \<Rightarrow> bool \<Rightarrow> LeaseRec \<Rightarrow> LeaseRuntime \<Rightarrow> 's
     \<Rightarrow> LeaseEvent option \<times> LeaseRuntime \<times> 's" where
  "step_standby be vh node_id now_ms tip_h cfg prev_allow rc rt s =
     (let take_at = sat_add (lr_expiry rc) (takeover_ms cfg)
      in if now_ms < lr_expiry rc then
           (Some (loss_or_reject prev_allow),
            deny StandbySyncing (''lease_held_by_peer owner='' @ lr_owner_id rc @ '' term='' @ show_u64 (lr_term rc)
              @ '' expires_at_ms='' @ show_u64 (lr_expiry rc)) rt, s)
         else if now_ms < take_at then
           (Some (loss_or_reject prev_allow),
            deny SuspectActiveLost (''takeover_wait owner='' @ lr_owner_id rc @ '' takeover_at_ms='' @ show_u64 take_at) rt, s)
         else if sat_add tip_h (max_tip_lag cfg) < lr_last_tip rc then
           (Some (loss_or_reject prev_allow),
            deny StandbySyncing (''takeover_reject_stale_tip local_tip='' @ show_u64 tip_h @ '' required_tip=''
              @ show_u64 (lr_last_tip rc)) rt, s)
         else (case be_takeover be (take_req vh node_id now_ms tip_h cfg rc) s of
             (Inl e, s') \<Rightarrow> (Some EvReject, deny FencedStandby (''lease_backend_error '' @ e) rt, s')
           | (Inr (Taken nxt), s') \<Rightarrow> (Some EvTakeover, grant nxt ''lease_takeover_committed'' rt, s')
           | (Inr (CasMiss cur), s') \<Rightarrow>
               (Some (loss_or_reject prev_allow), deny StandbySyncing (''lease_takeover_cas_miss '' @ loss_label cur) rt, s')
           | (Inr Missing, s') \<Rightarrow>
               (Some (loss_or_reject prev_allow), deny StandbySyncing ''lease_takeover_missing'' rt, s')))"

definition renew_lost :: "bool \<Rightarrow> LeaseRec option \<Rightarrow> LeaseRuntime \<Rightarrow> LeaseEvent option \<times> LeaseRuntime" where
  "renew_lost prev_allow obs rt =
     (Some (loss_or_reject prev_allow),
      deny StandbySyncing (''lease_renew_cas_miss '' @ (case obs of Some rc \<Rightarrow> loss_label rc | None \<Rightarrow> ''lease_renew_missing'')) rt)"

definition step_owner ::
  "'s lease_backend \<Rightarrow> string \<Rightarrow> string \<Rightarrow> u64 \<Rightarrow> u64 \<Rightarrow> LeaseCfg \<Rightarrow> bool \<Rightarrow> LeaseRec \<Rightarrow> LeaseRuntime \<Rightarrow> 's
     \<Rightarrow> LeaseEvent option \<times> LeaseRuntime \<times> 's" where
  "step_owner be vh node_id now_ms tip_h cfg prev_allow rc rt s =
     (case be_renew be \<lparr> lk_vh = vh, lk_owner = node_id, lk_exp_term = lr_term rc, lk_exp_fence = lr_fence rc,
                         lk_now_ms = now_ms, lk_tip_h = tip_h, lk_ttl_ms = ttl_ms cfg \<rparr> s of
        (Inl e, s') \<Rightarrow> (Some EvReject, deny FencedStandby (''lease_backend_error '' @ e) rt, s')
      | (Inr (Renewed nxt), s') \<Rightarrow>
          (Some (if prev_allow then EvRenew else EvAcquire), grant nxt ''lease_renewed'' rt, s')
      | (Inr (Lost obs), s') \<Rightarrow>
          (case obs of
             Some o_rec \<Rightarrow>
               if lr_owner_id o_rec = node_id \<and> now_ms > lr_expiry o_rec
               then (case be_takeover be (take_req vh node_id now_ms tip_h cfg o_rec) s' of
                   (Inl e, s'') \<Rightarrow> (Some EvReject, deny FencedStandby (''lease_backend_error '' @ e) rt, s'')
                 | (Inr (Taken nxt), s'') \<Rightarrow> (Some EvTakeover, grant nxt ''lease_self_takeover_after_expiry'' rt, s'')
                 | (Inr _, s'') \<Rightarrow> (let (ev, rt') = renew_lost prev_allow obs rt in (ev, rt', s'')))
               else (let (ev, rt') = renew_lost prev_allow obs rt in (ev, rt', s'))
           | None \<Rightarrow> (let (ev, rt') = renew_lost prev_allow obs rt in (ev, rt', s'))))"

definition step_lease ::
  "'s lease_backend \<Rightarrow> string \<Rightarrow> string \<Rightarrow> u64 \<Rightarrow> u64 \<Rightarrow> LeaseCfg \<Rightarrow> LeaseRuntime \<Rightarrow> 's \<Rightarrow> LeaseStep \<times> LeaseRuntime \<times> 's" where
  "step_lease be vh node_id now_ms tip_h cfg rt s =
     (let prev_allow = rt_allow_seal rt;
          (event, rt', s') =
            (case be_acquire be \<lparr> lg_vh = vh, lg_owner = node_id, lg_now_ms = now_ms, lg_tip_h = tip_h, lg_ttl_ms = ttl_ms cfg \<rparr> s of
               (Inl e, s1) \<Rightarrow> (Some EvReject, deny FencedStandby (''lease_backend_error '' @ e) rt, s1)
             | (Inr (Acquired nxt), s1) \<Rightarrow> (Some EvAcquire, grant nxt ''lease_acquired_boot'' rt, s1)
             | (Inr (Held rc), s1) \<Rightarrow>
                 if lr_owner_id rc = node_id then step_owner be vh node_id now_ms tip_h cfg prev_allow rc rt s1
                 else step_standby be vh node_id now_ms tip_h cfg prev_allow rc rt s1)
      in (\<lparr> st_allow_seal = rt_allow_seal rt', st_event = event \<rparr>, rt', s'))"

section \<open>Counters\<close>

record LeaseStats =
  acquire_ok :: u64
  renew_ok :: u64
  loss_total :: u64
  reject_total :: u64
  takeover_ok :: u64

fun on_event :: "LeaseEvent \<Rightarrow> LeaseStats \<Rightarrow> LeaseStats" where
  "on_event EvAcquire c = c\<lparr>acquire_ok := acquire_ok c + 1\<rparr>"
| "on_event EvRenew c = c\<lparr>renew_ok := renew_ok c + 1\<rparr>"
| "on_event EvTakeover c = c\<lparr>takeover_ok := takeover_ok c + 1\<rparr>"
| "on_event EvLoss c = c\<lparr>loss_total := loss_total c + 1\<rparr>"
| "on_event EvReject c = c\<lparr>reject_total := reject_total c + 1\<rparr>"

end
