(* ===== verification/Pwm_Lease_Safety.thy ===== *)
theory Pwm_Lease_Safety
  imports Pwm_Lease
begin

text \<open>
  What the lease guarantees: at most one node is entitled to seal at a time, with clocks that
  differ by at most half the takeover delay; a change of owner raises the fence; a standby
  takes over when the owner is silent. Proved for any store that satisfies \<open>lease_store\<close>.
\<close>

section \<open>The contract of a store\<close>

text \<open>What an operation that decides by \<open>d\<close> does to the record of \<open>vh\<close>, whose stored value is
  \<open>current\<close>: it answers and writes what \<open>d\<close> says, or it fails and leaves the record as it was,
  or, when it was to write, without a record.\<close>

definition op_law :: "('s \<Rightarrow> string \<Rightarrow> LeaseRec option) \<Rightarrow> (LeaseRec option \<Rightarrow> 'r \<times> LeaseRec option) \<Rightarrow> string \<Rightarrow> 's \<Rightarrow>
    (string + 'r) \<times> 's \<Rightarrow> bool" where
  "op_law current d vh s out \<longleftrightarrow>
     (case fst out of
        Inr r \<Rightarrow> r = fst (d (current s vh)) \<and>
          current (snd out) vh = (case snd (d (current s vh)) of None \<Rightarrow> current s vh | Some rc \<Rightarrow> Some rc)
      | Inl e \<Rightarrow> current (snd out) vh = current s vh \<or>
          current (snd out) vh = None \<and> snd (d (current s vh)) \<noteq> None)"

locale lease_store =
  fixes be :: "'s lease_backend"
    and current :: "'s \<Rightarrow> string \<Rightarrow> LeaseRec option"
    and healthy :: "string \<Rightarrow> 's \<Rightarrow> bool"
  assumes acquire: "op_law current (acquire_rec g) (lg_vh g) s (be_acquire be g s)"
    and renew: "op_law current (renew_rec k) (lk_vh k) s (be_renew be k s)"
    and takeover: "op_law current (takeover_rec t) (lt_vh t) s (be_takeover be t s)"
    and healthy_acquire: "healthy (lg_vh g) s \<Longrightarrow> \<not> isl (fst (be_acquire be g s)) \<and> healthy (lg_vh g) (snd (be_acquire be g s))"
    and healthy_renew: "healthy (lk_vh k) s \<Longrightarrow> \<not> isl (fst (be_renew be k s)) \<and> healthy (lk_vh k) (snd (be_renew be k s))"
    and healthy_takeover: "healthy (lt_vh t) s \<Longrightarrow> \<not> isl (fst (be_takeover be t s)) \<and> healthy (lt_vh t) (snd (be_takeover be t s))"
begin

text \<open>When a node may touch the record: there is none, it owns it, or the takeover delay has passed.\<close>

definition free_for :: "string \<Rightarrow> u64 \<Rightarrow> LeaseCfg \<Rightarrow> LeaseRec option \<Rightarrow> bool" where
  "free_for m now cfg cur = (case cur of None \<Rightarrow> True
     | Some r \<Rightarrow> lr_owner_id r = m \<or> sat_add (lr_expiry r) (takeover_ms cfg) \<le> now)"

text \<open>What is left of a denied and of a granted step.\<close>

definition denied :: "string \<Rightarrow> string \<Rightarrow> u64 \<Rightarrow> LeaseCfg \<Rightarrow> 's \<Rightarrow> LeaseRuntime \<Rightarrow> 's \<Rightarrow> bool" where
  "denied vh m now cfg s rt' s' \<longleftrightarrow> \<not> rt_allow_seal rt' \<and>
     (current s' vh = current s vh \<or> current s' vh = None \<and> free_for m now cfg (current s vh))"

definition granted :: "string \<Rightarrow> string \<Rightarrow> u64 \<Rightarrow> LeaseCfg \<Rightarrow> 's \<Rightarrow> LeaseRuntime \<Rightarrow> 's \<Rightarrow> bool" where
  "granted vh m now cfg s rt' s' \<longleftrightarrow> rt_allow_seal rt' \<and> free_for m now cfg (current s vh) \<and>
     (\<exists>nxt. current s' vh = Some nxt \<and> lr_owner_id nxt = m \<and> lr_expiry nxt = sat_add now (ttl_ms cfg) \<and>
        rt_expires_at_ms rt' = lr_expiry nxt \<and> rt_term rt' = lr_term nxt \<and> rt_fence rt' = lr_fence nxt \<and>
        (\<forall>r. current s vh = Some r \<longrightarrow> lr_fence nxt = sat_add (lr_fence r) 1 \<or>
           lr_owner_id r = m \<and> lr_fence nxt = lr_fence r))"

lemma deny_simps [simp]: "\<not> rt_allow_seal (deny stt why rt)"
  by (simp add: deny_def)

lemma grant_simps [simp]: "rt_allow_seal (grant rc why rt)" "rt_expires_at_ms (grant rc why rt) = lr_expiry rc"
  "rt_term (grant rc why rt) = lr_term rc" "rt_fence (grant rc why rt) = lr_fence rc"
  by (simp_all add: grant_def apply_rt_def)

lemma denied_same: "\<not> rt_allow_seal rt' \<Longrightarrow> current s' vh = current s vh \<Longrightarrow> denied vh m now cfg s rt' s'"
  by (simp add: denied_def)

text \<open>A takeover of the stored record \<open>r\<close> by a node that may touch it.\<close>

lemma takeover_step:
  assumes cur: "current s vh = Some r" and free: "free_for m now cfg (Some r)"
    and out: "be_takeover be (take_req vh m now tip cfg r) s = (res, s')"
  shows "(\<exists>e. res = Inl e) \<and> (current s' vh = Some r \<or> current s' vh = None) \<or>
    (\<exists>nxt. res = Inr (Taken nxt) \<and> (\<forall>rt why. granted vh m now cfg s (grant nxt why rt) s'))"
proof -
  have v: "lt_vh (take_req vh m now tip cfg r) = vh" by (simp add: take_req_def)
  have law: "op_law current (takeover_rec (take_req vh m now tip cfg r)) vh s (res, s')"
    using takeover [of "take_req vh m now tip cfg r" s] by (simp add: out v)
  show ?thesis
  proof (cases res)
    case (Inl e)
    with law show ?thesis by (auto simp: op_law_def cur)
  next
    case (Inr t)
    with law show ?thesis using free
      by (auto simp: op_law_def cur takeover_rec_def take_req_def Let_def mk_rec_def granted_def)
  qed
qed

lemma standby_step:
  assumes cur: "current s vh = Some r"
    and out: "step_standby be vh m now tip cfg pa r rt s = (ev, rt', s')"
  shows "denied vh m now cfg s rt' s' \<or> granted vh m now cfg s rt' s'"
proof (cases "now < lr_expiry r \<or> now < sat_add (lr_expiry r) (takeover_ms cfg) \<or> sat_add tip (max_tip_lag cfg) < lr_last_tip r")
  case True
  then have "s' = s \<and> \<not> rt_allow_seal rt'" using out by (auto simp: step_standby_def Let_def split: if_splits)
  then show ?thesis by (simp add: denied_same)
next
  case False
  then have free: "free_for m now cfg (Some r)" by (simp add: free_for_def not_less)
  obtain res s1 where t: "be_takeover be (take_req vh m now tip cfg r) s = (res, s1)" by fastforce
  from takeover_step [OF cur free t] show ?thesis
  proof (elim disjE exE conjE)
    fix e assume "res = Inl e" "current s1 vh = Some r"
    then show ?thesis using out False t cur by (auto simp: step_standby_def Let_def denied_def)
  next
    fix e assume "res = Inl e" "current s1 vh = None"
    then show ?thesis using out False t cur free by (auto simp: step_standby_def Let_def denied_def)
  next
    fix nxt assume "res = Inr (Taken nxt)" "\<forall>rt why. granted vh m now cfg s (grant nxt why rt) s1"
    then show ?thesis using out False t by (auto simp: step_standby_def Let_def)
  qed
qed

lemma owner_step:
  assumes cur: "current s vh = Some r" and own: "lr_owner_id r = m"
    and out: "step_owner be vh m now tip cfg pa r rt s = (ev, rt', s')"
  shows "denied vh m now cfg s rt' s' \<or> granted vh m now cfg s rt' s'"
proof -
  let ?k = "\<lparr> lk_vh = vh, lk_owner = m, lk_exp_term = lr_term r, lk_exp_fence = lr_fence r, lk_now_ms = now,
    lk_tip_h = tip, lk_ttl_ms = ttl_ms cfg \<rparr>"
  have free: "free_for m now cfg (Some r)" using own by (simp add: free_for_def)
  obtain res s1 where k: "be_renew be ?k s = (res, s1)" by fastforce
  have law: "op_law current (renew_rec ?k) vh s (res, s1)" using renew [of ?k s] by (simp add: k)
  show ?thesis
  proof (cases res)
    case (Inl e)
    with law out k cur free show ?thesis by (auto simp: op_law_def step_owner_def denied_def)
  next
    case (Inr a)
    show ?thesis
    proof (cases "now > lr_expiry r")
      case False
      with law Inr own show ?thesis using out k free
        by (auto simp: op_law_def cur renew_rec_def Let_def step_owner_def granted_def)
    next
      case True
      with law Inr own have a: "a = Lost (Some r)" "current s1 vh = Some r" by (simp_all add: op_law_def cur renew_rec_def)
      obtain res2 s2 where t: "be_takeover be (take_req vh m now tip cfg r) s1 = (res2, s2)" by fastforce
      from takeover_step [OF a(2) free t] show ?thesis
      proof (elim disjE exE conjE)
        fix e assume "res2 = Inl e" "current s2 vh = Some r"
        then show ?thesis using out Inr a k t own True cur by (auto simp: step_owner_def denied_def)
      next
        fix e assume "res2 = Inl e" "current s2 vh = None"
        then show ?thesis using out Inr a k t own True cur free by (auto simp: step_owner_def denied_def)
      next
        fix nxt assume g: "res2 = Inr (Taken nxt)" "\<forall>rt why. granted vh m now cfg s1 (grant nxt why rt) s2"
        then have "granted vh m now cfg s (grant nxt why rt) s2" for why rt
          using a(2) cur by (simp add: granted_def)
        then show ?thesis using out Inr a(1) k t own True g(1) by (auto simp: step_owner_def)
      qed
    qed
  qed
qed

text \<open>Every step of a node is denied or granted.\<close>

lemma step_outcome:
  assumes out: "step_lease be vh m now tip cfg rt s = (st, rt', s')"
  shows "st_allow_seal st = rt_allow_seal rt' \<and> (denied vh m now cfg s rt' s' \<or> granted vh m now cfg s rt' s')"
proof
  show "st_allow_seal st = rt_allow_seal rt'" using out by (auto simp: step_lease_def Let_def split: prod.splits)
  let ?g = "\<lparr> lg_vh = vh, lg_owner = m, lg_now_ms = now, lg_tip_h = tip, lg_ttl_ms = ttl_ms cfg \<rparr>"
  obtain res s1 where a: "be_acquire be ?g s = (res, s1)" by fastforce
  have law: "op_law current (acquire_rec ?g) vh s (res, s1)" using acquire [of ?g s] by (simp add: a)
  show "denied vh m now cfg s rt' s' \<or> granted vh m now cfg s rt' s'"
  proof (cases "current s vh")
    case None
    with law a out show ?thesis
      by (cases res) (auto simp: op_law_def acquire_rec_def Let_def step_lease_def denied_def granted_def free_for_def mk_rec_def)
  next
    case (Some r)
    show ?thesis
    proof (cases res)
      case (Inl e)
      with law a out Some show ?thesis by (auto simp: op_law_def acquire_rec_def step_lease_def Let_def denied_def)
    next
      case (Inr h)
      with law Some have h: "h = Held r" "current s1 vh = Some r" by (simp_all add: op_law_def acquire_rec_def)
      have same: "denied vh m now cfg s1 x y = denied vh m now cfg s x y" "granted vh m now cfg s1 x y = granted vh m now cfg s x y" for x y
        using h(2) Some by (simp_all add: denied_def granted_def)
      show ?thesis
      proof (cases "lr_owner_id r = m")
        case True
        with out a Inr h obtain ev where "step_owner be vh m now tip cfg (rt_allow_seal rt) r rt s1 = (ev, rt', s')"
          by (auto simp: step_lease_def Let_def split: prod.splits)
        from owner_step [OF h(2) True this] show ?thesis by (simp add: same)
      next
        case False
        with out a Inr h obtain ev where "step_standby be vh m now tip cfg (rt_allow_seal rt) r rt s1 = (ev, rt', s')"
          by (auto simp: step_lease_def Let_def split: prod.splits)
        from standby_step [OF h(2) this] show ?thesis by (simp add: same)
      qed
    qed
  qed
qed

text \<open>A healthy store answers the deciding call of a step; what a step does then.\<close>

lemma healthy_takeover_step:
  assumes "current s vh = Some r" "healthy vh s"
  obtains nxt s' where "be_takeover be (take_req vh m now tip cfg r) s = (Inr (Taken nxt), s')" "lr_owner_id nxt = m"
    "lr_expiry nxt = sat_add now (ttl_ms cfg)" "current s' vh = Some nxt"
proof -
  let ?t = "take_req vh m now tip cfg r"
  obtain res s' where t: "be_takeover be ?t s = (res, s')" by fastforce
  have v: "lt_vh ?t = vh" by (simp add: take_req_def)
  from healthy_takeover [of ?t s] assms(2) obtain x where x: "res = Inr x" by (cases res) (auto simp: v t)
  let ?n = "mk_rec vh m now tip (ttl_ms cfg) (sat_add (lr_term r) 1) (sat_add (lr_fence r) 1)"
  have "op_law current (takeover_rec ?t) vh s (Inr x, s')" using takeover [of ?t s] by (simp add: v t x)
  then have "x = Taken ?n" "current s' vh = Some ?n"
    using assms(1) by (simp_all add: op_law_def takeover_rec_def take_req_def Let_def)
  then show thesis using that [of ?n s'] t x by (simp add: mk_rec_def)
qed

lemma healthy_held:
  assumes "current s vh = Some r" "healthy vh s"
  obtains s1 where "be_acquire be \<lparr> lg_vh = vh, lg_owner = m, lg_now_ms = now, lg_tip_h = tip, lg_ttl_ms = ttl \<rparr> s = (Inr (Held r), s1)"
    "current s1 vh = Some r" "healthy vh s1"
proof -
  let ?g = "\<lparr> lg_vh = vh, lg_owner = m, lg_now_ms = now, lg_tip_h = tip, lg_ttl_ms = ttl \<rparr>"
  obtain res s1 where a: "be_acquire be ?g s = (res, s1)" by fastforce
  from healthy_acquire [of ?g s] assms(2) obtain x where x: "res = Inr x" "healthy vh s1" by (cases res) (auto simp: a)
  have "op_law current (acquire_rec ?g) vh s (Inr x, s1)" using acquire [of ?g s] by (simp add: a x)
  then show thesis using that [of s1] a x assms(1) by (auto simp: op_law_def acquire_rec_def)
qed

lemma standby_takes:
  assumes "current s vh = Some r" "healthy vh s" "lr_owner_id r \<noteq> m"
    and "sat_add (lr_expiry r) (takeover_ms cfg) \<le> now" "lr_last_tip r \<le> sat_add tip (max_tip_lag cfg)"
  obtains st rt' s' where "step_lease be vh m now tip cfg rt s = (st, rt', s')" "st_allow_seal st" "st_event st = Some EvTakeover"
    "\<exists>nxt. current s' vh = Some nxt \<and> lr_owner_id nxt = m \<and> lr_expiry nxt = sat_add now (ttl_ms cfg)"
proof -
  obtain s1 where a: "be_acquire be \<lparr> lg_vh = vh, lg_owner = m, lg_now_ms = now, lg_tip_h = tip, lg_ttl_ms = ttl_ms cfg \<rparr> s = (Inr (Held r), s1)"
    "current s1 vh = Some r" "healthy vh s1" using healthy_held [OF assms(1,2)] by blast
  obtain nxt s' where t: "be_takeover be (take_req vh m now tip cfg r) s1 = (Inr (Taken nxt), s')" "lr_owner_id nxt = m"
    "lr_expiry nxt = sat_add now (ttl_ms cfg)" "current s' vh = Some nxt"
    using healthy_takeover_step [OF a(2,3)] by blast
  have "lr_expiry r \<le> now"
    using assms(4) sat_add_ge [of "lr_expiry r" "takeover_ms cfg"] by (simp add: word_le_nat_alt)
  then have "step_lease be vh m now tip cfg rt s =
      (\<lparr> st_allow_seal = True, st_event = Some EvTakeover \<rparr>, grant nxt ''lease_takeover_committed'' rt, s')"
    using assms(3-5) a(1) t(1) by (simp add: step_lease_def Let_def step_standby_def linorder_not_less [symmetric])
  from that [OF this] show thesis using t by simp
qed

lemma owner_renews:
  assumes "current s vh = Some r" "healthy vh s" "lr_owner_id r = m"
  obtains st rt' s' where "step_lease be vh m now tip cfg rt s = (st, rt', s')" "st_allow_seal st"
    "\<exists>nxt. current s' vh = Some nxt \<and> lr_owner_id nxt = m \<and> lr_expiry nxt = sat_add now (ttl_ms cfg)"
proof -
  let ?k = "\<lparr> lk_vh = vh, lk_owner = m, lk_exp_term = lr_term r, lk_exp_fence = lr_fence r, lk_now_ms = now,
    lk_tip_h = tip, lk_ttl_ms = ttl_ms cfg \<rparr>"
  obtain s1 where a: "be_acquire be \<lparr> lg_vh = vh, lg_owner = m, lg_now_ms = now, lg_tip_h = tip, lg_ttl_ms = ttl_ms cfg \<rparr> s = (Inr (Held r), s1)"
    "current s1 vh = Some r" "healthy vh s1" using healthy_held [OF assms(1,2)] by blast
  obtain res s2 where k: "be_renew be ?k s1 = (res, s2)" by fastforce
  from healthy_renew [of ?k s1] a(3) obtain x where x: "res = Inr x" "healthy vh s2" by (cases res) (auto simp: k)
  have law: "op_law current (renew_rec ?k) vh s1 (Inr x, s2)" using renew [of ?k s1] by (simp add: k x)
  show thesis
  proof (cases "lr_expiry r < now")
    case False
    with law a(2) assms(3) have "x = Renewed (r\<lparr>lr_expiry := sat_add now (ttl_ms cfg), lr_last_tip := tip, lr_updated_at := now\<rparr>)"
      "current s2 vh = Some (r\<lparr>lr_expiry := sat_add now (ttl_ms cfg), lr_last_tip := tip, lr_updated_at := now\<rparr>)"
      by (auto simp: op_law_def renew_rec_def Let_def)
    then show thesis using that [of _ _ s2] assms(3) a(1) k x(1) by (simp add: step_lease_def Let_def step_owner_def)
  next
    case True
    with law a(2) assms(3) have l: "x = Lost (Some r)" "current s2 vh = Some r" by (auto simp: op_law_def renew_rec_def)
    obtain nxt s' where t: "be_takeover be (take_req vh m now tip cfg r) s2 = (Inr (Taken nxt), s')" "lr_owner_id nxt = m"
      "lr_expiry nxt = sat_add now (ttl_ms cfg)" "current s' vh = Some nxt"
      using healthy_takeover_step [OF l(2) x(2)] by blast
    then show thesis using that [of _ _ s'] assms(3) a(1) k x(1) l(1) True by (simp add: step_lease_def Let_def step_owner_def)
  qed
qed

text \<open>On a healthy store the record is never lost, and the fence grows with every change of owner.\<close>

lemma healthy_record_stays:
  assumes "current s vh = Some r" "healthy vh s" "step_lease be vh m now tip cfg rt s = (st, rt', s')"
  shows "current s' vh \<noteq> None"
proof (cases "lr_owner_id r = m")
  case True
  then show ?thesis using owner_renews [OF assms(1,2), of m now tip cfg rt] assms(3) by auto
next
  case False
  obtain s1 where a: "be_acquire be \<lparr> lg_vh = vh, lg_owner = m, lg_now_ms = now, lg_tip_h = tip, lg_ttl_ms = ttl_ms cfg \<rparr> s = (Inr (Held r), s1)"
    "current s1 vh = Some r" using healthy_held [OF assms(1,2)] by blast
  show ?thesis
  proof (cases "sat_add (lr_expiry r) (takeover_ms cfg) \<le> now \<and> lr_last_tip r \<le> sat_add tip (max_tip_lag cfg)")
    case True
    then show ?thesis using standby_takes [OF assms(1,2) False, of cfg now tip rt] assms(3) by auto
  next
    case no: False
    then have "s' = s1" using assms(3) a(1) False
      by (auto simp: step_lease_def step_standby_def Let_def split: if_splits)
    then show ?thesis using a(2) by simp
  qed
qed

lemma healthy_fence:
  assumes "current s vh = Some r" "healthy vh s" "step_lease be vh m now tip cfg rt s = (st, rt', s')"
  shows "\<exists>r'. current s' vh = Some r' \<and> lr_fence r \<le> lr_fence r' \<and>
    (lr_owner_id r' \<noteq> lr_owner_id r \<longrightarrow> lr_fence r' = sat_add (lr_fence r) 1)"
proof -
  have up: "lr_fence r \<le> sat_add (lr_fence r) 1" using sat_add_ge by (simp add: word_le_nat_alt)
  from step_outcome [OF assms(3)] consider "denied vh m now cfg s rt' s'" | "granted vh m now cfg s rt' s'" by blast
  then show ?thesis
  proof cases
    case 1
    then have "current s' vh = Some r" using healthy_record_stays [OF assms] assms(1) by (auto simp: denied_def)
    then show ?thesis by simp
  next
    case 2
    then show ?thesis using assms(1) up by (auto simp: granted_def)
  qed
qed

end

section \<open>A cluster of nodes on one store\<close>

text \<open>
  Nodes are named by their ids. A step is one call of the gate by one node, at a real time
  that does not run back, with a clock that is off by at most \<open>skew\<close>.
\<close>

record 's cluster =
  cl_store :: 's
  cl_rt :: "string \<Rightarrow> LeaseRuntime"
  cl_time :: nat

definition cluster_step :: "'s lease_backend \<Rightarrow> string \<Rightarrow> LeaseCfg \<Rightarrow> string \<Rightarrow> nat \<Rightarrow> u64 \<Rightarrow> u64 \<Rightarrow> 's cluster \<Rightarrow> 's cluster" where
  "cluster_step be vh cfg n time now tip c =
     (let (st, rt', s') = step_lease be vh n now tip cfg (cl_rt c n) (cl_store c)
      in c\<lparr>cl_store := s', cl_rt := (cl_rt c)(n := rt'), cl_time := time\<rparr>)"

inductive cluster_reach :: "'s lease_backend \<Rightarrow> string \<Rightarrow> LeaseCfg \<Rightarrow> nat \<Rightarrow> 's \<Rightarrow> 's cluster \<Rightarrow> bool"
  for be vh cfg skew s0 where
  start: "cluster_reach be vh cfg skew s0 \<lparr> cl_store = s0, cl_rt = lease_runtime_new, cl_time = 0 \<rparr>"
| step: "cluster_reach be vh cfg skew s0 c \<Longrightarrow> cl_time c \<le> time \<Longrightarrow> unat now \<le> time + skew \<Longrightarrow> time \<le> unat now + skew \<Longrightarrow>
    now \<noteq> - 1 \<Longrightarrow> cluster_reach be vh cfg skew s0 (cluster_step be vh cfg n time now tip c)"

inductive_cases cluster_reachE: "cluster_reach be vh cfg skew s0 c"

text \<open>A node is entitled while it was granted and some clock within the skew has not reached the expiry.\<close>

definition entitled :: "nat \<Rightarrow> 's cluster \<Rightarrow> string \<Rightarrow> bool" where
  "entitled skew c n \<longleftrightarrow> rt_allow_seal (cl_rt c n) \<and> cl_time c < unat (rt_expires_at_ms (cl_rt c n)) + skew"

context lease_store begin

definition lease_inv :: "string \<Rightarrow> nat \<Rightarrow> 's cluster \<Rightarrow> bool" where
  "lease_inv vh skew c \<longleftrightarrow> (\<forall>n. rt_allow_seal (cl_rt c n) \<longrightarrow>
     (\<exists>r. current (cl_store c) vh = Some r \<and> lr_owner_id r = n \<and> lr_expiry r = rt_expires_at_ms (cl_rt c n)) \<or>
     unat (rt_expires_at_ms (cl_rt c n)) + skew \<le> cl_time c)"

text \<open>When the record may be touched by \<open>m\<close>, every other granted node has expired.\<close>

lemma others_expired:
  assumes inv: "lease_inv vh skew c" and free: "free_for m now cfg (current (cl_store c) vh)"
    and "2 * skew \<le> unat (takeover_ms cfg)" "cl_time c \<le> time" "unat now \<le> time + skew" "now \<noteq> - 1"
    and n: "n \<noteq> m" "rt_allow_seal (cl_rt c n)"
  shows "unat (rt_expires_at_ms (cl_rt c n)) + skew \<le> time"
proof -
  from inv n(2) consider (own) r where "current (cl_store c) vh = Some r" "lr_owner_id r = n" "lr_expiry r = rt_expires_at_ms (cl_rt c n)"
    | (past) "unat (rt_expires_at_ms (cl_rt c n)) + skew \<le> cl_time c"
    by (auto simp: lease_inv_def)
  then show ?thesis
  proof cases
    case own
    with free n(1) have "sat_add (lr_expiry r) (takeover_ms cfg) \<le> now" by (simp add: free_for_def)
    then have le: "unat (sat_add (lr_expiry r) (takeover_ms cfg)) \<le> unat now" by (simp add: word_le_nat_alt)
    have "unat now \<noteq> 2 ^ 64 - 1" using assms(6) by (simp add: word_unat_eq_iff)
    moreover have "unat now < 2 ^ 64" using unsigned_less [of now, where ?'a = nat] by simp
    ultimately have "unat (lr_expiry r) + unat (takeover_ms cfg) \<le> unat now" using le by (simp add: unat_sat_add)
    then show ?thesis using own(3) assms(3,5) by simp
  next
    case past
    then show ?thesis using assms(4) by simp
  qed
qed

lemma step_lease_inv:
  assumes inv: "lease_inv vh skew c" and adm: "2 * skew \<le> unat (takeover_ms cfg)" "cl_time c \<le> time" "unat now \<le> time + skew" "now \<noteq> - 1"
  shows "lease_inv vh skew (cluster_step be vh cfg m time now tip c)"
proof -
  obtain st rt' s' where out: "step_lease be vh m now tip cfg (cl_rt c m) (cl_store c) = (st, rt', s')" by (metis prod_cases3)
  note others = others_expired [OF inv _ adm]
  have keep: "unat (rt_expires_at_ms (cl_rt c n)) + skew \<le> time"
    if "rt_allow_seal (cl_rt c n)" "\<nexists>r. current (cl_store c) vh = Some r \<and> lr_owner_id r = n \<and> lr_expiry r = rt_expires_at_ms (cl_rt c n)" for n
    using inv that adm(2) unfolding lease_inv_def by (meson le_trans)
  from step_outcome [OF out] show ?thesis
  proof (elim conjE disjE)
    assume d: "denied vh m now cfg (cl_store c) rt' s'"
    have "(\<exists>r. current s' vh = Some r \<and> lr_owner_id r = n \<and> lr_expiry r = rt_expires_at_ms (cl_rt c n)) \<or>
        unat (rt_expires_at_ms (cl_rt c n)) + skew \<le> time" if "n \<noteq> m" "rt_allow_seal (cl_rt c n)" for n
      using d keep [OF that(2)] others [OF _ that] unfolding denied_def by metis
    then show ?thesis using d by (auto simp: lease_inv_def cluster_step_def out denied_def)
  next
    assume g: "granted vh m now cfg (cl_store c) rt' s'"
    then have free: "free_for m now cfg (current (cl_store c) vh)" by (simp add: granted_def)
    from g obtain nxt where "current s' vh = Some nxt" "lr_owner_id nxt = m" "rt_expires_at_ms rt' = lr_expiry nxt"
      by (auto simp: granted_def)
    then show ?thesis using others [OF free] by (auto simp: lease_inv_def cluster_step_def out)
  qed
qed

lemma reach_lease_inv:
  assumes "cluster_reach be vh cfg skew s0 c" "2 * skew \<le> unat (takeover_ms cfg)"
  shows "lease_inv vh skew c"
  using assms(1)
proof induction
  case start
  show ?case by (simp add: lease_inv_def lease_runtime_new_def)
next
  case (step c time now n tip)
  with assms(2) show ?case by (intro step_lease_inv)
qed

lemma one_sealer:
  assumes "cluster_reach be vh cfg skew s0 c" "2 * skew \<le> unat (takeover_ms cfg)" "entitled skew c n" "entitled skew c m"
  shows "n = m"
proof -
  have "\<exists>r. current (cl_store c) vh = Some r \<and> lr_owner_id r = k" if "entitled skew c k" for k
    using reach_lease_inv [OF assms(1,2)] that unfolding lease_inv_def entitled_def by (meson linorder_not_le)
  from this [OF assms(3)] this [OF assms(4)] show ?thesis by auto
qed

end

section \<open>Both stores satisfy the contract\<close>

lemma proc_op_law: "op_law (\<lambda>s. fmlookup (ps_by_key s)) d vh s (proc_op (d (fmlookup (ps_by_key s) vh)) vh s)"
  by (auto simp: op_law_def proc_op_def split: option.splits)

interpretation proc_lease: lease_store proc_backend "\<lambda>s. fmlookup (ps_by_key s)" "\<lambda>vh s. \<not> ps_poisoned s"
proof unfold_locales
  fix g :: LeaseGrant and k :: LeaseKeep and t :: LeaseTake and s :: ProcStore
  show "op_law (\<lambda>s. fmlookup (ps_by_key s)) (acquire_rec g) (lg_vh g) s (be_acquire proc_backend g s)"
    "op_law (\<lambda>s. fmlookup (ps_by_key s)) (renew_rec k) (lk_vh k) s (be_renew proc_backend k s)"
    "op_law (\<lambda>s. fmlookup (ps_by_key s)) (takeover_rec t) (lt_vh t) s (be_takeover proc_backend t s)"
    by (simp_all add: proc_backend_def proc_acquire_def proc_renew_def proc_takeover_def proc_op_law)
qed (auto simp: proc_backend_def proc_acquire_def proc_renew_def proc_takeover_def proc_op_def split: option.splits)

text \<open>The record a file stands for, and a file system in which the operations on \<open>vh\<close> will not fail.\<close>

definition file_current :: "FileStore \<Rightarrow> string \<Rightarrow> LeaseRec option" where
  "file_current s vh = (case fmlookup (fs_files s) vh of
     Some (Decoded rc) \<Rightarrow> if lr_validator_identity_hash rc = vh then Some rc else None | _ \<Rightarrow> None)"

definition file_healthy :: "string \<Rightarrow> FileStore \<Rightarrow> bool" where
  "file_healthy vh s \<longleftrightarrow> fs_fault s = [] \<and>
     (\<forall>c. fmlookup (fs_files s) vh = Some c \<longrightarrow> (\<exists>rc. c = Decoded rc \<and> lr_validator_identity_hash rc = vh))"

text \<open>What a decision writes is a record of the validator it was asked about.\<close>

definition writes_own :: "(LeaseRec option \<Rightarrow> 'r \<times> LeaseRec option) \<Rightarrow> string \<Rightarrow> bool" where
  "writes_own d vh \<longleftrightarrow> (\<forall>cur rc. (\<forall>c. cur = Some c \<longrightarrow> lr_validator_identity_hash c = vh) \<longrightarrow> snd (d cur) = Some rc \<longrightarrow>
     lr_validator_identity_hash rc = vh)"

lemma writes_own_recs: "writes_own (acquire_rec g) (lg_vh g)" "writes_own (renew_rec k) (lk_vh k)" "writes_own (takeover_rec t) (lt_vh t)"
  by (auto simp: writes_own_def acquire_rec_def renew_rec_def takeover_rec_def mk_rec_def Let_def split: option.splits if_splits)

lemma read_checked_ok:
  "read_checked f vh s = Inr cur \<Longrightarrow> cur = file_current s vh \<and> (\<forall>c. cur = Some c \<longrightarrow> lr_validator_identity_hash c = vh)"
  by (auto simp: read_checked_def file_current_def split: option.splits io_fault.splits lease_file.splits if_splits)

lemma write_rec_result:
  assumes "lr_validator_identity_hash rc = vh" "write_rec f vh rc s = (out, s')"
  shows "case out of Inr _ \<Rightarrow> file_current s' vh = Some rc
    | Inl _ \<Rightarrow> file_current s' vh = file_current s vh \<or> file_current s' vh = None"
  using assms by (auto simp: write_rec_def file_current_def split: io_fault.splits)

lemma file_op_law:
  assumes "writes_own d vh"
  shows "op_law file_current d vh s (file_op d vh s)"
proof -
  define ff where "ff = next_fault s"
  let ?f = ff and ?s = "after_fault s"
  have cur: "file_current ?s vh = file_current s vh" by (simp add: after_fault_def file_current_def)
  consider (lock) e where "?f = LockFault e" | (go) "\<forall>e. ?f \<noteq> LockFault e" by blast
  then show ?thesis
  proof cases
    case lock
    then show ?thesis by (simp add: op_law_def file_op_def Let_def cur ff_def)
  next
    case go
    then have op: "file_op d vh s = (case read_checked ?f vh ?s of
         Inl e \<Rightarrow> (Inl e, ?s)
       | Inr cur \<Rightarrow> (case d cur of (res, None) \<Rightarrow> (Inr res, ?s)
           | (res, Some rc) \<Rightarrow> (case write_rec ?f vh rc ?s of (Inl e, s') \<Rightarrow> (Inl e, s') | (Inr _, s') \<Rightarrow> (Inr res, s'))))"
      unfolding file_op_def Let_def ff_def [symmetric] by (cases ff) auto
    show ?thesis
    proof (cases "read_checked ?f vh ?s")
      case (Inl e)
      then show ?thesis by (simp add: op op_law_def cur)
    next
      case (Inr c)
      from read_checked_ok [OF Inr] have c: "c = file_current s vh" "\<forall>x. c = Some x \<longrightarrow> lr_validator_identity_hash x = vh" by (simp_all add: cur)
      obtain res w where d: "d c = (res, w)" by fastforce
      show ?thesis
      proof (cases w)
        case None
        then show ?thesis using Inr d c by (simp add: op op_law_def cur)
      next
        case (Some rc)
        then have own: "lr_validator_identity_hash rc = vh" using assms c(2) d by (metis snd_conv writes_own_def)
        obtain out s' where w: "write_rec ?f vh rc ?s = (out, s')" by fastforce
        from write_rec_result [OF own w] show ?thesis
          using Inr d c Some w by (cases out) (auto simp: op op_law_def cur)
      qed
    qed
  qed
qed

lemma file_op_healthy:
  assumes "writes_own d vh" "file_healthy vh s"
  shows "\<not> isl (fst (file_op d vh s)) \<and> file_healthy vh (snd (file_op d vh s))"
proof -
  have f: "next_fault s = NoFault" "fs_fault (after_fault s) = []" "fs_files (after_fault s) = fs_files s"
    using assms(2) by (simp_all add: file_healthy_def next_fault_def after_fault_def)
  obtain c where c: "read_checked NoFault vh (after_fault s) = Inr c"
    using assms(2) by (cases "fmlookup (fs_files s) vh") (auto simp: read_checked_def f file_healthy_def)
  obtain res w where d: "d c = (res, w)" by fastforce
  show ?thesis
  proof (cases w)
    case None
    then show ?thesis using c d assms(2) by (simp add: file_op_def Let_def f file_healthy_def)
  next
    case (Some rc)
    then have "lr_validator_identity_hash rc = vh" using assms(1) read_checked_ok [OF c] d by (metis snd_conv writes_own_def)
    then show ?thesis using c d Some by (simp add: file_op_def Let_def f write_rec_def file_healthy_def)
  qed
qed

interpretation file_lease: lease_store file_backend file_current file_healthy
  by unfold_locales
    (simp_all add: file_backend_def file_acquire_def file_renew_def file_takeover_def file_op_law file_op_healthy writes_own_recs)

end
