(* ===== verification/Pwm_Roaming.thy ===== *)
theory Pwm_Roaming
  imports Pwm_State
begin

text \<open>
  The roaming pool of a node (src/crates/pwmd/src/roaming.rs): intents to export, the lock an
  open intent holds on its source account, and the one-shot readiness tickets.
\<close>

section \<open>Data\<close>

definition DEFAULT_INTENT_TTL_BLOCKS :: u64 where
  "DEFAULT_INTENT_TTL_BLOCKS = 12"

definition ACTIVE_LOCK_ERR_TEXT :: string where
  "ACTIVE_LOCK_ERR_TEXT = ''roaming intent lock active: competing tx for source funds is blocked''"

datatype ReadinessCode = MissingPreflight | StalePreflight | BindingMismatch | NonceMismatch | HeightMismatch

fun readiness_code_str :: "ReadinessCode \<Rightarrow> string" where
  "readiness_code_str MissingPreflight = ''missing_preflight''"
| "readiness_code_str StalePreflight = ''stale_preflight''"
| "readiness_code_str BindingMismatch = ''binding_mismatch''"
| "readiness_code_str NonceMismatch = ''nonce_mismatch''"
| "readiness_code_str HeightMismatch = ''height_mismatch''"

record ExportReadiness =
  er_export_id :: bytes32
  er_source :: AccountId
  er_to :: AccountId
  er_target_domain :: u16
  er_amount :: u128
  er_source_nonce_hint :: u64
  er_source_height_hint :: u64
  er_checked_at_unix_ms :: u64
  er_expires_at_unix_ms :: u64

datatype IntentStatus = IQueued | IExported | IRelayed | IImported | IExpired | IFailed

fun intent_status_str :: "IntentStatus \<Rightarrow> string" where
  "intent_status_str IQueued = ''queued''"
| "intent_status_str IExported = ''exported''"
| "intent_status_str IRelayed = ''relayed''"
| "intent_status_str IImported = ''imported''"
| "intent_status_str IExpired = ''expired''"
| "intent_status_str IFailed = ''failed''"

definition is_terminal :: "IntentStatus \<Rightarrow> bool" where
  "is_terminal s = (s \<in> {IImported, IExpired, IFailed})"

definition is_locking :: "IntentStatus \<Rightarrow> bool" where
  "is_locking s = (s \<in> {IQueued, IExported, IRelayed})"

record RoamingIntent =
  ri_intent_id :: bytes32
  ri_export_id :: bytes32
  ri_source :: AccountId
  ri_to :: AccountId
  ri_target_domain :: u16
  ri_amount :: u128
  ri_fee :: u128
  ri_status :: IntentStatus
  ri_created_height :: u64
  ri_expires_at_height :: u64
  ri_last_error :: "string option"

record RoamingPool =
  rp_intents :: "(bytes32, RoamingIntent) fmap"
  rp_export_to_intent :: "(bytes32, bytes32) fmap"
  rp_active_locks :: "(AccountId, bytes32) fmap"
  rp_readiness :: "(bytes32, ExportReadiness) fmap"

definition roaming_default :: RoamingPool where
  "roaming_default = \<lparr> rp_intents = fmempty, rp_export_to_intent = fmempty, rp_active_locks = fmempty, rp_readiness = fmempty \<rparr>"

text \<open>The keys of a \<open>BTreeMap\<close>, in its order.\<close>

definition fm_keys :: "('k::linorder, 'v) fmap \<Rightarrow> 'k list" where
  "fm_keys m = sorted_list_of_fset (fmdom m)"

section \<open>Intents\<close>

definition set_status :: "bytes32 \<Rightarrow> IntentStatus \<Rightarrow> string option \<Rightarrow> RoamingPool \<Rightarrow> RoamingPool" where
  "set_status iid status err p =
     (case fmlookup (rp_intents p) iid of
        None \<Rightarrow> p
      | Some i \<Rightarrow>
          let i' = i\<lparr>ri_status := status, ri_last_error := (if err \<noteq> None then err else ri_last_error i)\<rparr>
          in p\<lparr>rp_intents := fmupd iid i' (rp_intents p),
               rp_active_locks := (if is_locking status then fmupd (ri_source i) iid (rp_active_locks p)
                                   else fmdrop (ri_source i) (rp_active_locks p))\<rparr>)"

definition roam_register_export ::
  "extlib \<Rightarrow> SignedTx \<Rightarrow> u64 \<Rightarrow> u64 \<Rightarrow> RoamingPool \<Rightarrow> (string + (bytes32 \<times> bool)) \<times> RoamingPool" where
  "roam_register_export ext tx now_height ttl_blocks p =
     (case body tx of
        Export dst target_domain amount fee \<Rightarrow>
          (let source = computed_account_id ext tx
           in case export_id ext tx of
                None \<Rightarrow> (Inl ''roaming intent requires deterministic export id'', p)
              | Some eid \<Rightarrow>
                  (case fmlookup (rp_export_to_intent p) eid of
                     Some existing \<Rightarrow> (Inr (existing, True), p)
                   | None \<Rightarrow>
                       if fmlookup (rp_active_locks p) source \<noteq> None then (Inl ACTIVE_LOCK_ERR_TEXT, p)
                       else let i = \<lparr> ri_intent_id = eid, ri_export_id = eid, ri_source = source, ri_to = dst,
                                      ri_target_domain = target_domain, ri_amount = amount, ri_fee = fee,
                                      ri_status = IQueued, ri_created_height = now_height,
                                      ri_expires_at_height = sat_add now_height (max ttl_blocks 1), ri_last_error = None \<rparr>
                            in (Inr (eid, False),
                                p\<lparr>rp_export_to_intent := fmupd eid eid (rp_export_to_intent p),
                                  rp_active_locks := fmupd source eid (rp_active_locks p),
                                  rp_intents := fmupd eid i (rp_intents p)\<rparr>)))
      | _ \<Rightarrow> (Inl ''roaming intent requires export tx body'', p))"

definition mark_exported :: "bytes32 \<Rightarrow> RoamingPool \<Rightarrow> RoamingPool" where
  "mark_exported iid p = set_status iid IExported None p"

definition mark_relayed :: "bytes32 \<Rightarrow> RoamingPool \<Rightarrow> RoamingPool" where
  "mark_relayed iid p = set_status iid IRelayed None p"

definition mark_relay_error :: "bytes32 \<Rightarrow> string \<Rightarrow> RoamingPool \<Rightarrow> RoamingPool" where
  "mark_relay_error iid err p =
     (case fmlookup (rp_intents p) iid of
        None \<Rightarrow> p
      | Some i \<Rightarrow> p\<lparr>rp_intents := fmupd iid (i\<lparr>ri_last_error := Some err\<rparr>) (rp_intents p)\<rparr>)"

definition mark_relayed_by_export :: "bytes32 \<Rightarrow> RoamingPool \<Rightarrow> RoamingPool" where
  "mark_relayed_by_export eid p =
     (case fmlookup (rp_export_to_intent p) eid of None \<Rightarrow> p | Some iid \<Rightarrow> set_status iid IRelayed None p)"

definition mark_import_by_export :: "bytes32 \<Rightarrow> RoamingPool \<Rightarrow> RoamingPool" where
  "mark_import_by_export eid p =
     (case fmlookup (rp_export_to_intent p) eid of None \<Rightarrow> p | Some iid \<Rightarrow> set_status iid IImported None p)"

definition mark_failed :: "bytes32 \<Rightarrow> string \<Rightarrow> RoamingPool \<Rightarrow> RoamingPool" where
  "mark_failed iid err p = set_status iid IFailed (Some err) p"

definition lock_conflict_for :: "extlib \<Rightarrow> SignedTx \<Rightarrow> RoamingPool \<Rightarrow> bytes32 option" where
  "lock_conflict_for ext tx p =
     (case body tx of Import _ _ _ \<Rightarrow> None | _ \<Rightarrow> fmlookup (rp_active_locks p) (computed_account_id ext tx))"

definition expired_at :: "u64 \<Rightarrow> RoamingIntent \<Rightarrow> bool" where
  "expired_at now_height i = (\<not> is_terminal (ri_status i) \<and> now_height > ri_expires_at_height i)"

definition expire_by_height :: "u64 \<Rightarrow> RoamingPool \<Rightarrow> nat \<times> RoamingPool" where
  "expire_by_height now_height p =
     (let ids = filter (\<lambda>iid. case fmlookup (rp_intents p) iid of Some i \<Rightarrow> expired_at now_height i | None \<Rightarrow> False)
                  (fm_keys (rp_intents p))
      in (length ids, foldl (\<lambda>q iid. set_status iid IExpired (Some ''intent ttl exceeded at current height'') q) p ids))"

definition get_by_export_id :: "bytes32 \<Rightarrow> RoamingPool \<Rightarrow> RoamingIntent option" where
  "get_by_export_id eid p =
     (case fmlookup (rp_export_to_intent p) eid of None \<Rightarrow> None | Some iid \<Rightarrow> fmlookup (rp_intents p) iid)"

section \<open>Readiness\<close>

definition register_readiness ::
  "extlib \<Rightarrow> SignedTx \<Rightarrow> u64 \<Rightarrow> u64 \<Rightarrow> u64 \<Rightarrow> u64 \<Rightarrow> RoamingPool \<Rightarrow> (string + ExportReadiness) \<times> RoamingPool" where
  "register_readiness ext tx now_ms ttl_sec nonce_hint height_hint p =
     (case body tx of
        Export dst target_domain amount fee \<Rightarrow>
          (case export_id ext tx of
             None \<Rightarrow> (Inl ''export readiness requires deterministic export id'', p)
           | Some eid \<Rightarrow>
               if (case get_by_export_id eid p of Some i \<Rightarrow> is_terminal (ri_status i) | None \<Rightarrow> False)
               then (Inl ''export readiness rejected: intent is terminal'', p)
               else let row = \<lparr> er_export_id = eid, er_source = computed_account_id ext tx, er_to = dst,
                          er_target_domain = target_domain, er_amount = amount, er_source_nonce_hint = nonce_hint,
                          er_source_height_hint = height_hint, er_checked_at_unix_ms = now_ms,
                          er_expires_at_unix_ms = sat_add now_ms (sat_mul (max ttl_sec 1) 1000) \<rparr>
                    in (Inr row, p\<lparr>rp_readiness := fmupd eid row (rp_readiness p)\<rparr>))
      | _ \<Rightarrow> (Inl ''export readiness requires export tx body'', p))"

definition consume_readiness ::
  "extlib \<Rightarrow> SignedTx \<Rightarrow> u64 \<Rightarrow> u64 \<Rightarrow> u64 \<Rightarrow> RoamingPool \<Rightarrow> (ReadinessCode + unit) \<times> RoamingPool" where
  "consume_readiness ext tx now_ms source_nonce source_height p =
     (case body tx of
        Export dst target_domain amount fee \<Rightarrow>
          (case export_id ext tx of
             None \<Rightarrow> (Inl BindingMismatch, p)
           | Some eid \<Rightarrow>
               (case fmlookup (rp_readiness p) eid of
                  None \<Rightarrow> (Inl MissingPreflight, p)
                | Some row \<Rightarrow>
                    let p' = p\<lparr>rp_readiness := fmdrop eid (rp_readiness p)\<rparr>
                    in if now_ms > er_expires_at_unix_ms row then (Inl StalePreflight, p')
                       else if er_source row \<noteq> computed_account_id ext tx \<or> er_to row \<noteq> dst
                            \<or> er_target_domain row \<noteq> target_domain \<or> er_amount row \<noteq> amount then (Inl BindingMismatch, p')
                       else if er_source_nonce_hint row \<noteq> source_nonce then (Inl NonceMismatch, p')
                       else if source_height < er_source_height_hint row then (Inl HeightMismatch, p')
                       else (Inr (), p')))
      | _ \<Rightarrow> (Inr (), p))"

section \<open>Snapshots\<close>

text \<open>The locks recomputed from the statuses, in the order of the intents.\<close>

definition rebuild_locks_from_status :: "RoamingPool \<Rightarrow> RoamingPool" where
  "rebuild_locks_from_status p = p\<lparr>rp_active_locks :=
     foldl (\<lambda>m iid. case fmlookup (rp_intents p) iid of
         Some i \<Rightarrow> if is_locking (ri_status i) then fmupd (ri_source i) (ri_intent_id i) m else m | None \<Rightarrow> m)
       fmempty (fm_keys (rp_intents p))\<rparr>"

fun restore_intents :: "RoamingIntent list \<Rightarrow> RoamingPool \<Rightarrow> string + RoamingPool" where
  "restore_intents [] p = Inr p"
| "restore_intents (i # rest) p =
     (if fmlookup (rp_intents p) (ri_intent_id i) \<noteq> None
      then Inl ''snapshot roaming intent contract error: duplicate intent_id''
      else if fmlookup (rp_export_to_intent p) (ri_export_id i) \<noteq> None
      then Inl ''snapshot roaming intent contract error: duplicate export_id''
      else restore_intents rest (p\<lparr>rp_intents := fmupd (ri_intent_id i) i (rp_intents p),
             rp_export_to_intent := fmupd (ri_export_id i) (ri_intent_id i) (rp_export_to_intent p)\<rparr>))"

fun restore_locks :: "(AccountId \<times> bytes32) list \<Rightarrow> RoamingPool \<Rightarrow> string + RoamingPool" where
  "restore_locks [] p = Inr p"
| "restore_locks ((source, iid) # rest) p =
     (if fmlookup (rp_active_locks p) source \<noteq> None
      then Inl ''snapshot roaming intent contract error: duplicate source lock''
      else restore_locks rest (p\<lparr>rp_active_locks := fmupd source iid (rp_active_locks p)\<rparr>))"

definition restore_from_snapshot :: "RoamingIntent list \<Rightarrow> (AccountId \<times> bytes32) list \<Rightarrow> string + RoamingPool" where
  "restore_from_snapshot intents lock_rows =
     (case restore_intents intents roaming_default of
        Inl e \<Rightarrow> Inl e
      | Inr p \<Rightarrow> (case restore_locks lock_rows p of
          Inl e \<Rightarrow> Inl e | Inr p' \<Rightarrow> Inr (rebuild_locks_from_status p')))"

definition intents_snapshot :: "RoamingPool \<Rightarrow> RoamingIntent list" where
  "intents_snapshot p = map (\<lambda>iid. the (fmlookup (rp_intents p) iid)) (fm_keys (rp_intents p))"

definition active_locks_snapshot :: "RoamingPool \<Rightarrow> (AccountId \<times> bytes32) list" where
  "active_locks_snapshot p = map (\<lambda>a. (a, the (fmlookup (rp_active_locks p) a))) (fm_keys (rp_active_locks p))"

end
