(* ===== verification/Pwm_Facts.thy ===== *)
theory Pwm_Facts
  imports Pwm_Roaming
begin

text \<open>
  The ledger of cross-shard facts of a node (src/crates/pwmd/src/ledger.rs) and the merge of the
  facts a peer sends (\<open>merge_cross_shard_facts\<close> of src/crates/pwmd/src/state.rs).

  The eviction loop runs until the ledger fits. It is \<open>partial_function (option)\<close>: \<open>None\<close> is a
  loop that does not end, which is shown not to happen on a well-formed ledger.
\<close>

section \<open>Facts\<close>

definition FACT_CAP :: nat where
  "FACT_CAP = 4096"

datatype CrossShardStatus = FExported | FRegistered | FImported

datatype CrossShardOrigin = OLocal | OTrustedPeer

record CrossShardFact =
  cf_export_id :: bytes32
  cf_source_domain_hi :: u8
  cf_target_domain_hi :: u8
  cf_amount :: u128
  cf_status :: CrossShardStatus
  cf_first_height :: u64
  cf_last_height :: u64
  cf_source :: "AccountId option"
  cf_to :: AccountId
  cf_intent_id :: "bytes32 option"
  cf_origin :: CrossShardOrigin

type_synonym CrossShardLedger = "(bytes32, CrossShardFact) fmap"

fun status_rank :: "CrossShardStatus \<Rightarrow> nat" where
  "status_rank FExported = 1"
| "status_rank FRegistered = 2"
| "status_rank FImported = 3"

definition fact_values :: "CrossShardLedger \<Rightarrow> CrossShardFact list" where
  "fact_values l = map (\<lambda>k. the (fmlookup l k)) (fm_keys l)"

definition facts_for_target :: "u8 \<Rightarrow> u64 \<Rightarrow> nat \<Rightarrow> CrossShardLedger \<Rightarrow> CrossShardFact list" where
  "facts_for_target target_domain_hi from_height limit l =
     (let capped = min (max limit 1) FACT_CAP;
          rows = filter (\<lambda>f. cf_target_domain_hi f = target_domain_hi \<and> cf_last_height f \<ge> from_height) (fact_values l)
      in take capped (sort_key cf_last_height (sort_key cf_export_id rows)))"

section \<open>Insertion\<close>

text \<open>\<open>min_by_key\<close>: the first of the least.\<close>

definition fact_key_less :: "CrossShardFact \<Rightarrow> CrossShardFact \<Rightarrow> bool" where
  "fact_key_less f g = (cf_last_height f < cf_last_height g \<or>
     cf_last_height f = cf_last_height g \<and> cf_export_id f < cf_export_id g)"

fun oldest_fact :: "CrossShardFact list \<Rightarrow> CrossShardFact option" where
  "oldest_fact [] = None"
| "oldest_fact (f # fs) = (case oldest_fact fs of None \<Rightarrow> Some f | Some g \<Rightarrow> if fact_key_less g f then Some g else Some f)"

partial_function (option) evict :: "CrossShardLedger \<Rightarrow> CrossShardLedger option" where
  "evict l =
     (if fcard (fmdom l) > FACT_CAP
      then (case oldest_fact (fact_values l) of Some f \<Rightarrow> evict (fmdrop (cf_export_id f) l) | None \<Rightarrow> Some l)
      else Some l)"

definition merged_fact :: "CrossShardFact \<Rightarrow> CrossShardFact \<Rightarrow> CrossShardFact" where
  "merged_fact existing cf = cf\<lparr>
     cf_origin := (if cf_origin existing = OLocal \<and> cf_origin cf = OTrustedPeer then OLocal else cf_origin cf),
     cf_first_height := min (cf_first_height existing) (cf_first_height cf),
     cf_source := (if cf_source cf = None then cf_source existing else cf_source cf),
     cf_intent_id := (if cf_intent_id cf = None then cf_intent_id existing else cf_intent_id cf)\<rparr>"

definition upsert :: "CrossShardFact \<Rightarrow> CrossShardLedger \<Rightarrow> (bool \<times> CrossShardLedger) option" where
  "upsert cf l =
     (case fmlookup l (cf_export_id cf) of
        Some existing \<Rightarrow>
          if status_rank (cf_status cf) < status_rank (cf_status existing) then Some (False, l)
          else let cf2 = merged_fact existing cf
               in map_option (\<lambda>l'. (existing \<noteq> cf2, l')) (evict (fmupd (cf_export_id cf) cf2 l))
      | None \<Rightarrow> map_option (\<lambda>l'. (True, l')) (evict (fmupd (cf_export_id cf) cf l)))"

definition insert_fact :: "CrossShardFact \<Rightarrow> CrossShardLedger \<Rightarrow> (bool \<times> CrossShardLedger) option" where
  "insert_fact cf l = upsert cf l"

definition insert_peer_fact :: "CrossShardFact \<Rightarrow> CrossShardLedger \<Rightarrow> (bool \<times> CrossShardLedger) option" where
  "insert_peer_fact cf l = upsert (cf\<lparr>cf_origin := OTrustedPeer\<rparr>) l"

definition dom_hi :: "u16 \<Rightarrow> u8" where
  "dom_hi d = ucast (drop_bit 8 d)"

definition record_export :: "extlib \<Rightarrow> SignedTx \<Rightarrow> u64 \<Rightarrow> bytes32 option \<Rightarrow> CrossShardLedger \<Rightarrow> CrossShardLedger option" where
  "record_export ext tx height intent l =
     (case body tx of
        Export dst target_domain amount fee \<Rightarrow>
          (case export_id ext tx of
             None \<Rightarrow> Some l
           | Some eid \<Rightarrow> map_option snd (upsert \<lparr> cf_export_id = eid, cf_source_domain_hi = dom_hi (domain_code tx),
               cf_target_domain_hi = dom_hi target_domain, cf_amount = amount, cf_status = FExported,
               cf_first_height = height, cf_last_height = height, cf_source = Some (computed_account_id ext tx), cf_to = dst,
               cf_intent_id = intent, cf_origin = OLocal \<rparr> l))
      | _ \<Rightarrow> Some l)"

definition record_handoff ::
  "bytes32 \<Rightarrow> u8 \<Rightarrow> AccountId \<Rightarrow> AccountId \<Rightarrow> u16 \<Rightarrow> u128 \<Rightarrow> u64 \<Rightarrow> bytes32 option \<Rightarrow> CrossShardLedger \<Rightarrow> CrossShardLedger option" where
  "record_handoff eid source_domain_hi source dst target_domain amount height intent l =
     map_option snd (upsert \<lparr> cf_export_id = eid, cf_source_domain_hi = source_domain_hi,
       cf_target_domain_hi = dom_hi target_domain, cf_amount = amount, cf_status = FRegistered,
       cf_first_height = height, cf_last_height = height, cf_source = Some source, cf_to = dst,
       cf_intent_id = intent, cf_origin = OLocal \<rparr> l)"

definition record_import :: "extlib \<Rightarrow> SignedTx \<Rightarrow> u64 \<Rightarrow> ExportProvenance option \<Rightarrow> CrossShardLedger \<Rightarrow> CrossShardLedger option" where
  "record_import ext tx height provenance l =
     (case body tx of
        Import dst amount eid \<Rightarrow>
          let (known_source_hi, known_amount, known_to) =
                (case fmlookup l eid of
                   Some f \<Rightarrow> (cf_source_domain_hi f, cf_amount f, cf_to f)
                 | None \<Rightarrow> (case provenance of
                     Some p \<Rightarrow> (dom_hi (domain_of_account_id (computed_account_id ext tx)), pv_amount p, pv_to p)
                   | None \<Rightarrow> (0, amount, dst)))
          in map_option snd (upsert \<lparr> cf_export_id = eid, cf_source_domain_hi = known_source_hi,
               cf_target_domain_hi = dom_hi (domain_code tx), cf_amount = known_amount, cf_status = FImported,
               cf_first_height = height, cf_last_height = height, cf_source = Option.bind (fmlookup l eid) cf_source,
               cf_to = known_to, cf_intent_id = Option.bind (fmlookup l eid) cf_intent_id, cf_origin = OLocal \<rparr> l)
      | _ \<Rightarrow> Some l)"

section \<open>The merge of peer facts\<close>

text \<open>The two parts of the node state the merge works on.\<close>

record XNode =
  xn_cross_shard :: CrossShardLedger
  xn_roaming_pool :: RoamingPool

fun merge_cross_shard_facts :: "CrossShardFact list \<Rightarrow> nat \<Rightarrow> XNode \<Rightarrow> (nat \<times> XNode) option" where
  "merge_cross_shard_facts [] changed n = Some (changed, n)"
| "merge_cross_shard_facts (cf # cfs) changed n =
     (case insert_peer_fact cf (xn_cross_shard n) of
        None \<Rightarrow> None
      | Some (ch, l) \<Rightarrow>
          merge_cross_shard_facts cfs (if ch then changed + 1 else changed)
            (n\<lparr>xn_cross_shard := l,
               xn_roaming_pool := (if cf_status cf = FImported then mark_import_by_export (cf_export_id cf) (xn_roaming_pool n)
                                   else xn_roaming_pool n)\<rparr>))"

section \<open>The summary\<close>

record CrossShardDomainSummary =
  ds_domain_hi :: u8
  ds_exported_count :: u64
  ds_exported_amount :: u128
  ds_imported_count :: u64
  ds_imported_amount :: u128
  ds_pending_count :: u64
  ds_trusted_peer_observed_count :: u64

definition domain_summary_default :: CrossShardDomainSummary where
  "domain_summary_default = \<lparr> ds_domain_hi = 0, ds_exported_count = 0, ds_exported_amount = 0, ds_imported_count = 0,
     ds_imported_amount = 0, ds_pending_count = 0, ds_trusted_peer_observed_count = 0 \<rparr>"

record CrossShardSummary =
  cs_total_exported_count :: u64
  cs_total_exported_amount :: u128
  cs_total_imported_count :: u64
  cs_total_imported_amount :: u128
  cs_pending_count :: u64
  cs_trusted_peer_observed_count :: u64
  cs_by_domain :: "(u8, CrossShardDomainSummary) fmap"

text \<open>\<open>entry(d).or_default()\<close> and an update of the row, which also records its domain.\<close>

definition upd_row :: "u8 \<Rightarrow> (CrossShardDomainSummary \<Rightarrow> CrossShardDomainSummary) \<Rightarrow> (u8, CrossShardDomainSummary) fmap \<Rightarrow>
    (u8, CrossShardDomainSummary) fmap" where
  "upd_row d f m = fmupd d (f ((case fmlookup m d of Some r \<Rightarrow> r | None \<Rightarrow> domain_summary_default)\<lparr>ds_domain_hi := d\<rparr>)) m"

definition summary_exported :: "CrossShardFact \<Rightarrow> CrossShardSummary \<Rightarrow> CrossShardSummary" where
  "summary_exported f out =
     (let peer = (cf_origin f = OTrustedPeer)
      in out\<lparr>cs_by_domain := upd_row (cf_target_domain_hi f) (\<lambda>r. r\<lparr>
               ds_trusted_peer_observed_count := (if peer then sat_add (ds_trusted_peer_observed_count r) 1 else ds_trusted_peer_observed_count r),
               ds_exported_count := sat_add (ds_exported_count r) 1,
               ds_exported_amount := sat_add (ds_exported_amount r) (cf_amount f)\<rparr>) (cs_by_domain out),
             cs_trusted_peer_observed_count :=
               (if peer then sat_add (cs_trusted_peer_observed_count out) 1 else cs_trusted_peer_observed_count out),
             cs_total_exported_count := sat_add (cs_total_exported_count out) 1,
             cs_total_exported_amount := sat_add (cs_total_exported_amount out) (cf_amount f)\<rparr>)"

definition summary_imported :: "CrossShardFact \<Rightarrow> CrossShardSummary \<Rightarrow> CrossShardSummary" where
  "summary_imported f out =
     out\<lparr>cs_by_domain := upd_row (cf_source_domain_hi f) (\<lambda>r. r\<lparr>
           ds_trusted_peer_observed_count :=
             (if cf_origin f = OTrustedPeer \<and> cf_source_domain_hi f \<noteq> cf_target_domain_hi f
              then sat_add (ds_trusted_peer_observed_count r) 1 else ds_trusted_peer_observed_count r),
           ds_imported_count := sat_add (ds_imported_count r) 1,
           ds_imported_amount := sat_add (ds_imported_amount r) (cf_amount f)\<rparr>) (cs_by_domain out),
         cs_total_imported_count := sat_add (cs_total_imported_count out) 1,
         cs_total_imported_amount := sat_add (cs_total_imported_amount out) (cf_amount f)\<rparr>"

definition summary_pending :: "CrossShardFact \<Rightarrow> CrossShardSummary \<Rightarrow> CrossShardSummary" where
  "summary_pending f out =
     out\<lparr>cs_by_domain := upd_row (cf_target_domain_hi f) (\<lambda>r. r\<lparr>ds_pending_count := sat_add (ds_pending_count r) 1\<rparr>) (cs_by_domain out),
         cs_pending_count := sat_add (cs_pending_count out) 1\<rparr>"

definition summary_fact :: "CrossShardFact \<Rightarrow> CrossShardSummary \<Rightarrow> CrossShardSummary" where
  "summary_fact f out =
     (if cf_status f = FImported then summary_imported f (summary_exported f out) else summary_pending f (summary_exported f out))"

definition cross_shard_summary :: "CrossShardLedger \<Rightarrow> CrossShardSummary" where
  "cross_shard_summary l = foldl (\<lambda>out f. summary_fact f out)
     \<lparr> cs_total_exported_count = 0, cs_total_exported_amount = 0, cs_total_imported_count = 0, cs_total_imported_amount = 0,
       cs_pending_count = 0, cs_trusted_peer_observed_count = 0, cs_by_domain = fmempty \<rparr> (fact_values l)"

end
