(* ===== verification/Pwm_Roaming_Inv.thy ===== *)
theory Pwm_Roaming_Inv
  imports Pwm_Roaming
begin

text \<open>
  What every state of the roaming pool keeps: the two indices agree and a lock names a live intent of
  its account. That every live intent also holds the lock of its account needs one condition on the
  callers: no operation marks an intent that is already terminal.
\<close>

section \<open>The invariants\<close>

definition live_intent :: "RoamingPool \<Rightarrow> bytes32 \<Rightarrow> AccountId \<Rightarrow> bool" where
  "live_intent p k a = (case fmlookup (rp_intents p) k of Some i \<Rightarrow> is_locking (ri_status i) \<and> ri_source i = a | None \<Rightarrow> False)"

definition index_ok :: "RoamingPool \<Rightarrow> bool" where
  "index_ok p \<longleftrightarrow> (\<forall>k i. fmlookup (rp_intents p) k = Some i \<longrightarrow> ri_intent_id i = k \<and> ri_export_id i = k) \<and>
     (\<forall>k v. fmlookup (rp_export_to_intent p) k = Some v \<longleftrightarrow> v = k \<and> fmlookup (rp_intents p) k \<noteq> None)"

definition locks_sound :: "RoamingPool \<Rightarrow> bool" where
  "locks_sound p \<longleftrightarrow> (\<forall>a k. fmlookup (rp_active_locks p) a = Some k \<longrightarrow> live_intent p k a)"

definition locks_exact :: "RoamingPool \<Rightarrow> bool" where
  "locks_exact p \<longleftrightarrow> (\<forall>a k. fmlookup (rp_active_locks p) a = Some k \<longleftrightarrow> live_intent p k a)"

lemma locking_iff: "is_locking s \<longleftrightarrow> \<not> is_terminal s"
  by (cases s) (simp_all add: is_locking_def is_terminal_def)

lemma locking_simps [simp]: "is_locking IQueued" "is_locking IExported" "is_locking IRelayed"
  "\<not> is_locking IImported" "\<not> is_locking IExpired" "\<not> is_locking IFailed"
  by (simp_all add: is_locking_def)

lemma exact_sound: "locks_exact p \<Longrightarrow> locks_sound p"
  by (simp add: locks_exact_def locks_sound_def)

lemma default_ok: "index_ok roaming_default" "locks_exact roaming_default"
  by (simp_all add: index_ok_def locks_exact_def roaming_default_def live_intent_def)

section \<open>One change of status\<close>

lemma set_status_intents:
  "fmlookup (rp_intents (set_status k s e p)) j =
     (if j = k then map_option (\<lambda>i. i\<lparr>ri_status := s, ri_last_error := (if e \<noteq> None then e else ri_last_error i)\<rparr>) (fmlookup (rp_intents p) k)
      else fmlookup (rp_intents p) j)"
  by (simp add: set_status_def Let_def split: option.splits)

lemma set_status_index [simp]: "rp_export_to_intent (set_status k s e p) = rp_export_to_intent p"
  by (simp add: set_status_def Let_def split: option.splits)

lemma set_status_readiness [simp]: "rp_readiness (set_status k s e p) = rp_readiness p"
  by (simp add: set_status_def Let_def split: option.splits)

lemma set_status_locks:
  "fmlookup (rp_intents p) k = Some i \<Longrightarrow>
   fmlookup (rp_active_locks (set_status k s e p)) a =
     (if a = ri_source i then (if is_locking s then Some k else None) else fmlookup (rp_active_locks p) a)"
  by (simp add: set_status_def)

lemma set_status_missing: "fmlookup (rp_intents p) k = None \<Longrightarrow> set_status k s e p = p"
  by (simp add: set_status_def)

lemma live_set_status:
  "live_intent (set_status k s e p) j a \<longleftrightarrow>
     (if j = k then is_locking s \<and> (\<exists>i. fmlookup (rp_intents p) k = Some i \<and> ri_source i = a) else live_intent p j a)"
  by (auto simp: live_intent_def set_status_intents split: option.splits)

lemma live_source: "live_intent p k a \<Longrightarrow> fmlookup (rp_intents p) k = Some i \<Longrightarrow> ri_source i = a \<and> is_locking (ri_status i)"
  by (simp add: live_intent_def)

lemma set_status_index_ok: "index_ok p \<Longrightarrow> index_ok (set_status k s e p)"
  by (auto simp: index_ok_def set_status_intents)

lemma set_status_sound: "locks_sound p \<Longrightarrow> locks_sound (set_status k s e p)"
proof (cases "fmlookup (rp_intents p) k")
  case (Some i)
  assume "locks_sound p"
  then have "fmlookup (rp_active_locks p) a = Some j \<Longrightarrow> live_intent p j a" for a j by (simp add: locks_sound_def)
  then show ?thesis using Some live_source [OF _ Some]
    by (fastforce simp: locks_sound_def set_status_locks live_set_status split: if_splits)
qed (simp add: set_status_missing)

lemma set_status_exact:
  assumes "locks_exact p" and live: "\<And>i. fmlookup (rp_intents p) k = Some i \<Longrightarrow> is_locking (ri_status i)"
  shows "locks_exact (set_status k s e p)"
proof (cases "fmlookup (rp_intents p) k")
  case (Some i)
  have lk: "fmlookup (rp_active_locks p) (ri_source i) = Some k"
    using assms Some by (simp add: locks_exact_def live_intent_def)
  have iff: "fmlookup (rp_active_locks p) a = Some j \<longleftrightarrow> live_intent p j a" for a j
    using assms(1) by (simp add: locks_exact_def)
  have other: "fmlookup (rp_active_locks p) a \<noteq> Some k" if "a \<noteq> ri_source i" for a
    using iff [of a k] live_source [of p k a, OF _ Some] that by metis
  have alone: "\<not> live_intent p j (ri_source i)" if "j \<noteq> k" for j
    using iff [of "ri_source i" j] lk that by simp
  show ?thesis unfolding locks_exact_def
  proof (intro allI)
    fix a j
    show "(fmlookup (rp_active_locks (set_status k s e p)) a = Some j) = live_intent (set_status k s e p) j a"
    proof (cases "j = k")
      case True
      then show ?thesis using other [of a] Some by (auto simp: set_status_locks [OF Some] live_set_status)
    next
      case False
      then show ?thesis using alone [OF False] iff [of a j]
        by (simp add: set_status_locks [OF Some] live_set_status)
    qed
  qed
qed (simp add: set_status_missing assms)

section \<open>The operations\<close>

datatype roam_op =
    RegisterExport SignedTx u64 u64
  | MarkExported bytes32
  | MarkRelayed bytes32
  | MarkRelayError bytes32 string
  | MarkRelayedByExport bytes32
  | MarkImportByExport bytes32
  | MarkFailed bytes32 string
  | ExpireByHeight u64
  | RegisterReadiness SignedTx u64 u64 u64 u64
  | ConsumeReadiness SignedTx u64 u64 u64

fun roam_apply :: "extlib \<Rightarrow> roam_op \<Rightarrow> RoamingPool \<Rightarrow> RoamingPool" where
  "roam_apply ext (RegisterExport tx now_h ttl) p = snd (roam_register_export ext tx now_h ttl p)"
| "roam_apply ext (MarkExported k) p = mark_exported k p"
| "roam_apply ext (MarkRelayed k) p = mark_relayed k p"
| "roam_apply ext (MarkRelayError k e) p = mark_relay_error k e p"
| "roam_apply ext (MarkRelayedByExport k) p = mark_relayed_by_export k p"
| "roam_apply ext (MarkImportByExport k) p = mark_import_by_export k p"
| "roam_apply ext (MarkFailed k e) p = mark_failed k e p"
| "roam_apply ext (ExpireByHeight h) p = snd (expire_by_height h p)"
| "roam_apply ext (RegisterReadiness tx now_ms ttl n h) p = snd (register_readiness ext tx now_ms ttl n h p)"
| "roam_apply ext (ConsumeReadiness tx now_ms n h) p = snd (consume_readiness ext tx now_ms n h p)"

text \<open>The intent an operation marks.\<close>

fun roam_target :: "roam_op \<Rightarrow> bytes32 option" where
  "roam_target (MarkExported k) = Some k"
| "roam_target (MarkRelayed k) = Some k"
| "roam_target (MarkRelayedByExport k) = Some k"
| "roam_target (MarkImportByExport k) = Some k"
| "roam_target (MarkFailed k e) = Some k"
| "roam_target _ = None"

definition calm :: "roam_op \<Rightarrow> RoamingPool \<Rightarrow> bool" where
  "calm opr p \<longleftrightarrow> (\<forall>k i. roam_target opr = Some k \<longrightarrow> fmlookup (rp_intents p) k = Some i \<longrightarrow> \<not> is_terminal (ri_status i))"

inductive roam_reach :: "extlib \<Rightarrow> bool \<Rightarrow> RoamingPool \<Rightarrow> bool" for ext only_calm where
  start: "roam_reach ext only_calm roaming_default"
| step: "roam_reach ext only_calm p \<Longrightarrow> (only_calm \<Longrightarrow> calm opr p) \<Longrightarrow> roam_reach ext only_calm (roam_apply ext opr p)"

lemma register_export_index_ok:
  assumes "index_ok p"
  shows "index_ok (snd (roam_register_export ext tx h ttl p))"
proof -
  have "k' = k" if "fmlookup (rp_export_to_intent p) k = Some k'" for k k' using that assms by (simp add: index_ok_def)
  then show ?thesis using assms
    by (auto simp: index_ok_def roam_register_export_def Let_def split: TxBody.splits option.splits)
qed

lemma register_export_new:
  assumes "index_ok p"
  shows "snd (roam_register_export ext tx h ttl p) = p \<or>
    (\<exists>k a. fmlookup (rp_active_locks p) a = None \<and> (\<forall>b. \<not> live_intent p k b) \<and>
       rp_active_locks (snd (roam_register_export ext tx h ttl p)) = fmupd a k (rp_active_locks p) \<and>
       (\<forall>j b. live_intent (snd (roam_register_export ext tx h ttl p)) j b \<longleftrightarrow> (if j = k then b = a else live_intent p j b)))"
proof (cases "snd (roam_register_export ext tx h ttl p) = p")
  case False
  let ?a = "computed_account_id ext tx"
  obtain dst td am fee k where r: "body tx = Export dst td am fee" "export_id ext tx = Some k"
      "fmlookup (rp_export_to_intent p) k = None" "fmlookup (rp_active_locks p) ?a = None"
    using False by (auto simp: roam_register_export_def Let_def split: TxBody.splits option.splits if_splits)
  have fresh: "fmlookup (rp_intents p) k = None"
  proof (rule ccontr)
    assume "fmlookup (rp_intents p) k \<noteq> None"
    then have "fmlookup (rp_export_to_intent p) k = Some k" using assms unfolding index_ok_def by blast
    then show False using r(3) by simp
  qed
  have "live_intent (snd (roam_register_export ext tx h ttl p)) j b \<longleftrightarrow> (if j = k then b = ?a else live_intent p j b)" for j b
    using r by (auto simp: roam_register_export_def Let_def live_intent_def)
  moreover have "rp_active_locks (snd (roam_register_export ext tx h ttl p)) = fmupd ?a k (rp_active_locks p)"
    using r by (simp add: roam_register_export_def Let_def)
  moreover have "\<not> live_intent p k b" for b using fresh by (simp add: live_intent_def)
  ultimately show ?thesis using r(4) by blast
qed simp

lemma register_export_exact:
  assumes "index_ok p" "locks_exact p"
  shows "locks_exact (snd (roam_register_export ext tx h ttl p))"
  using register_export_new [OF assms(1), of ext tx h ttl]
proof (elim disjE exE conjE)
  fix k a
  let ?q = "snd (roam_register_export ext tx h ttl p)"
  assume n: "fmlookup (rp_active_locks p) a = None" "\<forall>b. \<not> live_intent p k b" "rp_active_locks ?q = fmupd a k (rp_active_locks p)"
    "\<forall>j b. live_intent ?q j b \<longleftrightarrow> (if j = k then b = a else live_intent p j b)"
  have iff: "fmlookup (rp_active_locks p) b = Some j \<longleftrightarrow> live_intent p j b" for b j
    using assms(2) by (simp add: locks_exact_def)
  have "\<not> live_intent p j a" for j using n(1) iff [of a j] by simp
  then show ?thesis unfolding locks_exact_def using n by (simp add: iff)
qed (simp add: assms)

lemma register_export_sound:
  assumes "index_ok p" "locks_sound p"
  shows "locks_sound (snd (roam_register_export ext tx h ttl p))"
  using register_export_new [OF assms(1), of ext tx h ttl]
proof (elim disjE exE conjE)
  fix k a
  let ?q = "snd (roam_register_export ext tx h ttl p)"
  assume n: "\<forall>b. \<not> live_intent p k b" "rp_active_locks ?q = fmupd a k (rp_active_locks p)"
    "\<forall>j b. live_intent ?q j b \<longleftrightarrow> (if j = k then b = a else live_intent p j b)"
  have "live_intent p j b" if "fmlookup (rp_active_locks p) b = Some j" for b j
    using assms(2) that by (simp add: locks_sound_def)
  then show ?thesis unfolding locks_sound_def using n by (metis fmupd_lookup option.inject)
qed (simp add: assms)

lemma relay_error_simps:
  "live_intent (mark_relay_error k e p) j a = live_intent p j a"
  "rp_active_locks (mark_relay_error k e p) = rp_active_locks p" "index_ok p \<Longrightarrow> index_ok (mark_relay_error k e p)"
  by (auto simp: mark_relay_error_def live_intent_def index_ok_def split: option.splits)

lemma readiness_only:
  "rp_intents (snd (register_readiness ext tx now_ms ttl n h p)) = rp_intents p"
  "rp_export_to_intent (snd (register_readiness ext tx now_ms ttl n h p)) = rp_export_to_intent p"
  "rp_active_locks (snd (register_readiness ext tx now_ms ttl n h p)) = rp_active_locks p"
  "rp_intents (snd (consume_readiness ext tx now_ms n h p)) = rp_intents p"
  "rp_export_to_intent (snd (consume_readiness ext tx now_ms n h p)) = rp_export_to_intent p"
  "rp_active_locks (snd (consume_readiness ext tx now_ms n h p)) = rp_active_locks p"
  by (simp_all add: register_readiness_def consume_readiness_def Let_def split: TxBody.splits option.splits)

lemma same_pool:
  assumes "rp_intents q = rp_intents p" "rp_export_to_intent q = rp_export_to_intent p" "rp_active_locks q = rp_active_locks p"
  shows "index_ok q = index_ok p" "locks_sound q = locks_sound p" "locks_exact q = locks_exact p"
  using assms by (simp_all add: index_ok_def locks_sound_def locks_exact_def live_intent_def)

lemma fm_keys [simp]: "set (fm_keys m) = fmdom' m" "distinct (fm_keys m)"
  by (simp_all add: fm_keys_def fmdom'_alt_def sorted_list_of_fset.rep_eq)

definition expire_ids :: "bytes32 list \<Rightarrow> RoamingPool \<Rightarrow> RoamingPool" where
  "expire_ids ids p = foldl (\<lambda>q iid. set_status iid IExpired (Some ''intent ttl exceeded at current height'') q) p ids"

lemma expire_ids_simps [simp]: "expire_ids [] p = p"
  "expire_ids (k # ks) p = expire_ids ks (set_status k IExpired (Some ''intent ttl exceeded at current height'') p)"
  by (simp_all add: expire_ids_def)

lemma expire_ids_keeps: "index_ok p \<Longrightarrow> index_ok (expire_ids ids p)" "locks_sound p \<Longrightarrow> locks_sound (expire_ids ids p)"
  by (induction ids arbitrary: p) (simp_all add: set_status_index_ok set_status_sound)

lemma expire_ids_exact:
  assumes "locks_exact p" "distinct ids" "\<And>k i. k \<in> set ids \<Longrightarrow> fmlookup (rp_intents p) k = Some i \<Longrightarrow> is_locking (ri_status i)"
  shows "locks_exact (expire_ids ids p)"
  using assms
proof (induction ids arbitrary: p)
  case (Cons k ks)
  let ?q = "set_status k IExpired (Some ''intent ttl exceeded at current height'') p"
  have "locks_exact ?q" using Cons.prems by (intro set_status_exact) auto
  moreover have "is_locking (ri_status i)" if "j \<in> set ks" "fmlookup (rp_intents ?q) j = Some i" for j i
  proof -
    have "j \<noteq> k" using that(1) Cons.prems(2) by auto
    then show ?thesis using that Cons.prems(3) [of j i] by (simp add: set_status_intents)
  qed
  ultimately show ?case using Cons.IH [of ?q] Cons.prems(2) by simp
qed simp

lemma expire_alt: "\<exists>ids. snd (expire_by_height h p) = expire_ids ids p \<and> distinct ids \<and>
    fst (expire_by_height h p) = length ids \<and>
    set ids = {k. \<exists>i. fmlookup (rp_intents p) k = Some i \<and> expired_at h i}"
proof -
  let ?ids = "filter (\<lambda>iid. case fmlookup (rp_intents p) iid of Some i \<Rightarrow> expired_at h i | None \<Rightarrow> False) (fm_keys (rp_intents p))"
  have "set ?ids = {k. \<exists>i. fmlookup (rp_intents p) k = Some i \<and> expired_at h i}"
    by (auto simp: fmlookup_dom'_iff split: option.splits)
  then show ?thesis by (intro exI [of _ ?ids]) (simp add: expire_by_height_def expire_ids_def Let_def)
qed

lemma by_export_simps:
  assumes "index_ok p"
  shows "mark_relayed_by_export k p = set_status k IRelayed None p" "mark_import_by_export k p = set_status k IImported None p"
proof -
  have "fmlookup (rp_export_to_intent p) k = (if fmlookup (rp_intents p) k = None then None else Some k)"
    using assms unfolding index_ok_def by (metis not_None_eq option.exhaust)
  then show "mark_relayed_by_export k p = set_status k IRelayed None p" "mark_import_by_export k p = set_status k IImported None p"
    by (auto simp: mark_relayed_by_export_def mark_import_by_export_def set_status_missing)
qed

lemmas marks_def = mark_exported_def mark_relayed_def mark_failed_def

lemma roam_apply_sound:
  assumes "index_ok p" "locks_sound p"
  shows "index_ok (roam_apply ext opr p) \<and> locks_sound (roam_apply ext opr p)"
proof (cases opr)
  case (ExpireByHeight h)
  obtain ids where "snd (expire_by_height h p) = expire_ids ids p" using expire_alt by blast
  then show ?thesis using assms ExpireByHeight by (simp add: expire_ids_keeps)
next
  case (RegisterReadiness tx a b c d)
  then show ?thesis using assms by (simp add: same_pool [OF readiness_only(1-3)])
next
  case (ConsumeReadiness tx a b c)
  then show ?thesis using assms by (simp add: same_pool [OF readiness_only(4-6)])
next
  case (MarkRelayError k e)
  then show ?thesis using assms by (simp add: relay_error_simps locks_sound_def)
qed (simp_all add: assms register_export_index_ok register_export_sound marks_def by_export_simps set_status_index_ok set_status_sound)

lemma roam_apply_exact:
  assumes "index_ok p" "locks_exact p" "calm opr p"
  shows "locks_exact (roam_apply ext opr p)"
proof (cases opr)
  case (ExpireByHeight h)
  obtain ids where ids: "snd (expire_by_height h p) = expire_ids ids p" "distinct ids"
    "set ids = {k. \<exists>i. fmlookup (rp_intents p) k = Some i \<and> expired_at h i}" using expire_alt by blast
  have "locks_exact (expire_ids ids p)"
    using assms(2) ids(2) by (rule expire_ids_exact) (auto simp: ids(3) expired_at_def locking_iff)
  then show ?thesis using ids(1) ExpireByHeight by simp
next
  case (RegisterReadiness tx a b c d)
  then show ?thesis using assms by (simp add: same_pool [OF readiness_only(1-3)])
next
  case (ConsumeReadiness tx a b c)
  then show ?thesis using assms by (simp add: same_pool [OF readiness_only(4-6)])
next
  case (MarkRelayError k e)
  then show ?thesis using assms by (simp add: relay_error_simps locks_exact_def)
qed (use assms in \<open>auto simp: register_export_exact marks_def by_export_simps calm_def locking_iff intro!: set_status_exact\<close>)

lemma roam_reach_sound: "roam_reach ext b p \<Longrightarrow> index_ok p \<and> locks_sound p"
  by (induction rule: roam_reach.induct) (use default_ok exact_sound roam_apply_sound in blast)+

lemma roam_reach_exact:
  assumes "roam_reach ext True p"
  shows "locks_exact p"
  using assms
proof (induction rule: roam_reach.induct)
  case (step p opr)
  then show ?case using roam_apply_exact roam_reach_sound by blast
qed (rule default_ok)

section \<open>The snapshot\<close>

lemma restore_intents_all:
  assumes "distinct (map ri_intent_id xs)" "distinct (map ri_export_id xs)"
    and "\<And>i. i \<in> set xs \<Longrightarrow> fmlookup (rp_intents p) (ri_intent_id i) = None \<and> fmlookup (rp_export_to_intent p) (ri_export_id i) = None"
  shows "restore_intents xs p = Inr (p\<lparr>rp_intents := foldl (\<lambda>m i. fmupd (ri_intent_id i) i m) (rp_intents p) xs,
    rp_export_to_intent := foldl (\<lambda>m i. fmupd (ri_export_id i) (ri_intent_id i) m) (rp_export_to_intent p) xs\<rparr>)"
  using assms
proof (induction xs arbitrary: p)
  case (Cons x xs)
  have h: "fmlookup (rp_intents p) (ri_intent_id x) = None" "fmlookup (rp_export_to_intent p) (ri_export_id x) = None"
    using Cons.prems(3) by auto
  let ?q = "p\<lparr>rp_intents := fmupd (ri_intent_id x) x (rp_intents p),
    rp_export_to_intent := fmupd (ri_export_id x) (ri_intent_id x) (rp_export_to_intent p)\<rparr>"
  have "fmlookup (rp_intents ?q) (ri_intent_id i) = None \<and> fmlookup (rp_export_to_intent ?q) (ri_export_id i) = None" if "i \<in> set xs" for i
  proof -
    have "ri_intent_id i \<noteq> ri_intent_id x" "ri_export_id i \<noteq> ri_export_id x" using Cons.prems(1,2) that by (auto simp: image_iff)
    then show ?thesis using Cons.prems(3) [of i] that by simp
  qed
  then show ?case using Cons.IH [of ?q] Cons.prems(1,2) h by simp
qed simp

lemma fold_upd_lookup:
  assumes "distinct (map f xs)"
  shows "fmlookup (foldl (\<lambda>m x. fmupd (f x) (g x) m) m0 xs) k =
    (case find (\<lambda>x. f x = k) xs of Some x \<Rightarrow> Some (g x) | None \<Rightarrow> fmlookup m0 k)"
  using assms
proof (induction xs arbitrary: m0)
  case (Cons x xs)
  have "find (\<lambda>x. f x = k) xs = None" if "f x = k" using Cons.prems that by (auto simp: find_None_iff image_iff)
  then show ?case using Cons by (auto split: option.splits)
qed simp

lemma restore_locks_all:
  assumes "distinct (map fst rows)" "\<And>a. a \<in> set (map fst rows) \<Longrightarrow> fmlookup (rp_active_locks p) a = None"
  shows "\<exists>m. restore_locks rows p = Inr (p\<lparr>rp_active_locks := m\<rparr>)"
  using assms
proof (induction rows arbitrary: p)
  case Nil
  then show ?case by (auto intro: exI [of _ "rp_active_locks p"])
next
  case (Cons r rows)
  obtain a k where r: "r = (a, k)" by (cases r)
  let ?q = "p\<lparr>rp_active_locks := fmupd a k (rp_active_locks p)\<rparr>"
  have "fmlookup (rp_active_locks ?q) b = None" if "b \<in> set (map fst rows)" for b
    using Cons.prems that r by auto
  then obtain m where "restore_locks rows ?q = Inr (?q\<lparr>rp_active_locks := m\<rparr>)" using Cons.IH [of ?q] Cons.prems(1) by auto
  then show ?case using Cons.prems(2) [of a] r by auto
qed

lemma rebuild_lookup:
  assumes "index_ok p" "locks_exact p"
  shows "fmlookup (foldl (\<lambda>m iid. case fmlookup (rp_intents p) iid of
      Some i \<Rightarrow> if is_locking (ri_status i) then fmupd (ri_source i) (ri_intent_id i) m else m | None \<Rightarrow> m) fmempty ks) a =
    (case fmlookup (rp_active_locks p) a of Some k \<Rightarrow> if k \<in> set ks then Some k else None | None \<Rightarrow> None)"
proof (induction ks rule: rev_induct)
  case Nil
  then show ?case by (simp split: option.splits)
next
  case (snoc k ks)
  have iff: "fmlookup (rp_active_locks p) b = Some j \<longleftrightarrow> live_intent p j b" for b j using assms(2) by (simp add: locks_exact_def)
  show ?case
  proof (cases "live_intent p k a")
    case True
    then obtain i where i: "fmlookup (rp_intents p) k = Some i" "is_locking (ri_status i)" "ri_source i = a"
      by (auto simp: live_intent_def split: option.splits)
    moreover have "ri_intent_id i = k" using assms(1) i(1) by (simp add: index_ok_def)
    moreover have "fmlookup (rp_active_locks p) a = Some k" using iff True by simp
    ultimately show ?thesis by simp
  next
    case False
    then have no: "\<not> (is_locking (ri_status i) \<and> ri_source i = a)" if "fmlookup (rp_intents p) k = Some i" for i
      using that by (simp add: live_intent_def)
    have "fmlookup (rp_active_locks p) a \<noteq> Some k" using iff False by simp
    then show ?thesis using snoc no by (auto split: option.splits)
  qed
qed

lemma rebuild_same:
  assumes "index_ok p" "locks_exact p" "rp_intents q = rp_intents p"
  shows "rebuild_locks_from_status q = q\<lparr>rp_active_locks := rp_active_locks p\<rparr>"
proof -
  have iff: "fmlookup (rp_active_locks p) b = Some j \<Longrightarrow> j \<in> fmdom' (rp_intents p)" for b j
    using assms(2) by (auto simp: locks_exact_def live_intent_def fmlookup_dom'_iff split: option.splits)
  have "foldl (\<lambda>m iid. case fmlookup (rp_intents p) iid of
      Some i \<Rightarrow> if is_locking (ri_status i) then fmupd (ri_source i) (ri_intent_id i) m else m | None \<Rightarrow> m)
      fmempty (fm_keys (rp_intents p)) = rp_active_locks p"
    by (rule fmap_ext) (use iff in \<open>auto simp: rebuild_lookup [OF assms(1,2)] split: option.splits\<close>)
  then show ?thesis by (simp add: rebuild_locks_from_status_def assms(3))
qed

lemma find_by_key:
  "(\<And>k. k \<in> set ks \<Longrightarrow> f (h k) = k) \<Longrightarrow> find (\<lambda>x. f x = k) (map h ks) = (if k \<in> set ks then Some (h k) else None)"
  by (induction ks) auto

lemma snapshot_lookup:
  assumes "distinct ks" "set ks = fmdom' m" "\<And>k. k \<in> set ks \<Longrightarrow> f (the (fmlookup m k)) = k"
  shows "foldl (\<lambda>n x. fmupd (f x) (g x) n) fmempty (map (\<lambda>k. the (fmlookup m k)) ks) = fmmap g m"
proof (rule fmap_ext)
  fix k
  let ?xs = "map (\<lambda>k. the (fmlookup m k)) ks"
  have m: "map f ?xs = ks" using assms(3) by (induction ks) simp_all
  have "find (\<lambda>x. f x = k) ?xs = fmlookup m k"
    using find_by_key [of ks f "\<lambda>k. the (fmlookup m k)" k] assms(2,3) by (auto simp: fmlookup_dom'_iff)
  moreover have "distinct (map f ?xs)" unfolding m by (rule assms(1))
  ultimately show "fmlookup (foldl (\<lambda>n x. fmupd (f x) (g x) n) fmempty ?xs) k = fmlookup (fmmap g m) k"
    by (simp add: fold_upd_lookup split: option.splits)
qed

lemma restore_snapshot:
  assumes ok: "index_ok p" and ex: "locks_exact p"
  shows "restore_from_snapshot (intents_snapshot p) (active_locks_snapshot p) = Inr (p\<lparr>rp_readiness := fmempty\<rparr>)"
proof -
  let ?xs = "intents_snapshot p"
  have ids: "ri_intent_id (the (fmlookup (rp_intents p) k)) = k \<and> ri_export_id (the (fmlookup (rp_intents p) k)) = k"
    if "k \<in> set (fm_keys (rp_intents p))" for k
    using ok that by (auto simp: index_ok_def fmlookup_dom'_iff)
  have maps: "map ri_intent_id ?xs = fm_keys (rp_intents p)" "map ri_export_id ?xs = fm_keys (rp_intents p)"
    unfolding intents_snapshot_def map_map o_def by (intro map_idI; use ids in blast)+
  have i: "foldl (\<lambda>m i. fmupd (ri_intent_id i) i m) fmempty ?xs = rp_intents p"
    unfolding intents_snapshot_def
    by (subst snapshot_lookup [where f = ri_intent_id and g = "\<lambda>i. i"]) (use ids in \<open>auto simp: fmap.map_ident\<close>)
  have e: "foldl (\<lambda>m i. fmupd (ri_export_id i) (ri_intent_id i) m) fmempty ?xs = rp_export_to_intent p"
  proof -
    have "fmmap ri_intent_id (rp_intents p) = rp_export_to_intent p"
    proof (rule fmap_ext)
      fix k
      show "fmlookup (fmmap ri_intent_id (rp_intents p)) k = fmlookup (rp_export_to_intent p) k"
      proof (cases "fmlookup (rp_intents p) k")
        case None
        then have "fmlookup (rp_export_to_intent p) k \<noteq> Some v" for v using ok by (simp add: index_ok_def)
        then have "fmlookup (rp_export_to_intent p) k = None" by (cases "fmlookup (rp_export_to_intent p) k") auto
        then show ?thesis using None by simp
      next
        case (Some i)
        then have "fmlookup (rp_export_to_intent p) k = Some k" "ri_intent_id i = k" using ok by (simp_all add: index_ok_def)
        then show ?thesis using Some by simp
      qed
    qed
    moreover have "foldl (\<lambda>m i. fmupd (ri_export_id i) (ri_intent_id i) m) fmempty ?xs = fmmap ri_intent_id (rp_intents p)"
      unfolding intents_snapshot_def by (rule snapshot_lookup) (use ids in auto)
    ultimately show ?thesis by simp
  qed
  have "restore_intents ?xs roaming_default = Inr (roaming_default\<lparr>rp_intents := rp_intents p, rp_export_to_intent := rp_export_to_intent p\<rparr>)"
    (is "_ = Inr ?q")
    by (subst restore_intents_all) (simp_all add: maps i e roaming_default_def)
  moreover obtain m where "restore_locks (active_locks_snapshot p) ?q = Inr (?q\<lparr>rp_active_locks := m\<rparr>)"
    using restore_locks_all [of "active_locks_snapshot p" ?q] by (auto simp: active_locks_snapshot_def roaming_default_def o_def)
  ultimately show ?thesis
    by (simp add: restore_from_snapshot_def rebuild_same [OF ok ex] roaming_default_def)
qed

section \<open>A late import\<close>

text \<open>A mark of a terminal intent removes the lock of its account, whoever holds it.\<close>

lemma late_mark_drops_lock:
  assumes "fmlookup (rp_intents p) k = Some i" "live_intent p j (ri_source i)" "j \<noteq> k"
  shows "live_intent (set_status k IImported e p) j (ri_source i) \<and>
    fmlookup (rp_active_locks (set_status k IImported e p)) (ri_source i) = None"
  using assms by (simp add: live_set_status set_status_locks)

end
