(* ===== verification/Pwm_Facts_Inv.thy ===== *)
theory Pwm_Facts_Inv
  imports Pwm_Facts Pwm_Roaming_Inv
begin

text \<open>
  What the ledger of cross-shard facts keeps: the eviction loop ends, it keeps the newest facts and
  at most 4096 of them, the status of a fact never goes back, and the summary counts every fact once.
\<close>

section \<open>Eviction\<close>

definition ledger_keyed :: "CrossShardLedger \<Rightarrow> bool" where
  "ledger_keyed l \<longleftrightarrow> (\<forall>k f. fmlookup l k = Some f \<longrightarrow> cf_export_id f = k)"

lemma ledger_keyed_empty [simp]: "ledger_keyed fmempty"
  by (simp add: ledger_keyed_def)

lemma ledger_keyed_upd: "ledger_keyed l \<Longrightarrow> cf_export_id f = k \<Longrightarrow> ledger_keyed (fmupd k f l)"
  by (simp add: ledger_keyed_def)

lemma ledger_keyed_drop: "ledger_keyed l \<Longrightarrow> ledger_keyed (fmdrop k l)"
  by (simp add: ledger_keyed_def)

lemma fact_values: "set (fact_values l) = {f. \<exists>k. fmlookup l k = Some f}"
  by (force simp: fact_values_def fmlookup_dom'_iff image_iff)

lemma fact_key_trans: "fact_key_less f g \<Longrightarrow> fact_key_less g h \<Longrightarrow> fact_key_less f h"
  by (auto simp: fact_key_less_def)

lemma fact_key_total: "cf_export_id f \<noteq> cf_export_id g \<Longrightarrow> fact_key_less f g \<or> fact_key_less g f"
  by (auto simp: fact_key_less_def)

lemma fact_key_irrefl: "\<not> fact_key_less f f"
  by (simp add: fact_key_less_def)

lemma fact_key_linear: "fact_key_less g f \<Longrightarrow> \<not> fact_key_less g h \<Longrightarrow> fact_key_less h f"
  by (auto simp: fact_key_less_def not_less not_le dest: order.antisym)

lemma oldest_fact_least: "oldest_fact fs = Some f \<Longrightarrow> f \<in> set fs \<and> (\<forall>g\<in>set fs. \<not> fact_key_less g f)"
proof (induction fs arbitrary: f)
  case (Cons x fs)
  show ?case
  proof (cases "oldest_fact fs")
    case None
    then have "fs = []" by (cases fs) (auto split: option.splits if_splits)
    then show ?thesis using Cons.prems by (simp add: fact_key_irrefl)
  next
    case (Some g)
    note g = Cons.IH [OF Some]
    show ?thesis
    proof (cases "fact_key_less g x")
      case True
      then have "\<not> fact_key_less x g" using fact_key_trans fact_key_irrefl by blast
      then show ?thesis using Cons.prems Some True g by auto
    next
      case False
      then have "\<not> fact_key_less h x" if "h \<in> set fs" for h using g that fact_key_linear by blast
      then show ?thesis using Cons.prems Some False by (auto simp: fact_key_irrefl)
    qed
  qed
qed simp

lemma oldest_fact_None: "oldest_fact fs = None \<longleftrightarrow> fs = []"
  by (cases fs) (simp_all split: option.splits)

lemma fcard_drop: "fmlookup l k \<noteq> None \<Longrightarrow> fcard (fmdom (fmdrop k l)) = fcard (fmdom l) - 1"
  proof -
  assume "fmlookup l k \<noteq> None"
  then have "k |\<in>| fmdom l" by (auto intro: fmdomI)
  then show ?thesis by (simp add: fcard.rep_eq)
qed

text \<open>What is kept is part of the ledger, and whatever was dropped is older than everything kept.\<close>

definition keeps_newest :: "CrossShardLedger \<Rightarrow> CrossShardLedger \<Rightarrow> bool" where
  "keeps_newest l l' \<longleftrightarrow> (\<forall>k f. fmlookup l' k = Some f \<longrightarrow> fmlookup l k = Some f) \<and>
     (\<forall>k f j g. fmlookup l k = Some f \<longrightarrow> fmlookup l' k = None \<longrightarrow> fmlookup l' j = Some g \<longrightarrow> fact_key_less f g)"

lemma evict_ends:
  assumes "ledger_keyed l"
  shows "\<exists>l'. evict l = Some l' \<and> ledger_keyed l' \<and> fcard (fmdom l') = min (fcard (fmdom l)) FACT_CAP \<and> keeps_newest l l'"
  using assms
proof (induction "fcard (fmdom l)" arbitrary: l rule: less_induct)
  case (less l)
  show ?case
  proof (cases "fcard (fmdom l) > FACT_CAP")
    case False
    then have "evict l = Some l" by (subst evict.simps) simp
    then show ?thesis using less.prems False by (auto simp: keeps_newest_def)
  next
    case True
    then have "fact_values l \<noteq> []" 
    proof -
      have "l \<noteq> fmempty" using True by (auto simp: fcard.rep_eq)
      then obtain k f where "fmlookup l k = Some f" by (metis fmap_ext fmempty_lookup not_None_eq)
      then show ?thesis using fact_values [of l] by fastforce
    qed
    then obtain f where f: "oldest_fact (fact_values l) = Some f" using oldest_fact_None by (cases "oldest_fact (fact_values l)") auto
    from oldest_fact_least [OF f] obtain k where k: "fmlookup l k = Some f" by (auto simp: fact_values)
    have key: "cf_export_id f = k" using less.prems k by (simp add: ledger_keyed_def)
    have least: "fact_key_less f g" if "fmlookup l j = Some g" "j \<noteq> k" for j g
    proof -
      have "cf_export_id g = j" using less.prems that(1) by (simp add: ledger_keyed_def)
      moreover have "\<not> fact_key_less g f" using oldest_fact_least [OF f] that(1) by (auto simp: fact_values)
      ultimately show ?thesis using fact_key_total [of f g] key that(2) by auto
    qed
    let ?m = "fmdrop k l"
    have c: "fcard (fmdom ?m) = fcard (fmdom l) - 1" using k by (intro fcard_drop) simp
    then have "fcard (fmdom ?m) < fcard (fmdom l)" using True by (simp add: FACT_CAP_def)
    then obtain l' where l': "evict ?m = Some l'" "ledger_keyed l'" "fcard (fmdom l') = min (fcard (fmdom ?m)) FACT_CAP" "keeps_newest ?m l'"
      using less.hyps [of ?m] ledger_keyed_drop [OF less.prems] by blast
    have "evict l = Some l'" using True f l'(1) key by (subst evict.simps) simp
    moreover have "keeps_newest l l'" unfolding keeps_newest_def
    proof (intro conjI allI impI)
      fix j g assume "fmlookup l' j = Some g"
      then have "fmlookup ?m j = Some g" using l'(4) by (simp add: keeps_newest_def)
      then show "fmlookup l j = Some g" by (simp split: if_splits)
    next
      fix i h j g assume a: "fmlookup l i = Some h" "fmlookup l' i = None" "fmlookup l' j = Some g"
      have g: "fmlookup ?m j = Some g" using l'(4) a(3) by (simp add: keeps_newest_def)
      show "fact_key_less h g"
      proof (cases "i = k")
        case True
        then show ?thesis using a(1) k g least [of j g] by (simp split: if_splits)
      next
        case False
        then have "fmlookup ?m i = Some h" using a(1) by simp
        then show ?thesis using l'(4) a(2,3) unfolding keeps_newest_def by blast
      qed
    qed
    ultimately show ?thesis using l' c True by simp
  qed
qed

section \<open>Insertion\<close>

lemma merged_fact_simps [simp]: "cf_export_id (merged_fact e f) = cf_export_id f" "cf_status (merged_fact e f) = cf_status f"
  "cf_amount (merged_fact e f) = cf_amount f" "cf_to (merged_fact e f) = cf_to f" "cf_last_height (merged_fact e f) = cf_last_height f"
  by (simp_all add: merged_fact_def)

text \<open>The ledger an insertion hands to the eviction.\<close>

definition upsert_row :: "CrossShardFact \<Rightarrow> CrossShardLedger \<Rightarrow> CrossShardLedger" where
  "upsert_row f l = (case fmlookup l (cf_export_id f) of
     Some e \<Rightarrow> if status_rank (cf_status f) < status_rank (cf_status e) then l else fmupd (cf_export_id f) (merged_fact e f) l
   | None \<Rightarrow> fmupd (cf_export_id f) f l)"

definition ledger_ok :: "CrossShardLedger \<Rightarrow> bool" where
  "ledger_ok l \<longleftrightarrow> ledger_keyed l \<and> fcard (fmdom l) \<le> FACT_CAP"

lemma upsert_row_keyed: "ledger_keyed l \<Longrightarrow> ledger_keyed (upsert_row f l)"
  by (auto simp: upsert_row_def ledger_keyed_upd split: option.splits)

lemma evict_small: "fcard (fmdom l) \<le> FACT_CAP \<Longrightarrow> evict l = Some l"
  by (subst evict.simps) simp

lemma upsert_alt:
  assumes "ledger_ok l"
  shows "\<exists>ch l'. upsert f l = Some (ch, l') \<and> evict (upsert_row f l) = Some l' \<and> (\<not> ch \<longrightarrow> l' = l)"
proof -
  have k: "ledger_keyed (upsert_row f l)" using assms by (simp add: ledger_ok_def upsert_row_keyed)
  obtain l' where e: "evict (upsert_row f l) = Some l'" using evict_ends [OF k] by blast
  have self: "evict l = Some l" using assms by (simp add: ledger_ok_def evict_small)
  have "fmupd (cf_export_id f) (merged_fact x f) l = l" if "fmlookup l (cf_export_id f) = Some x" "x = merged_fact x f" for x
    by (rule fmap_ext) (use that in auto)
  then show ?thesis using e self
    by (auto simp: upsert_def upsert_row_def Let_def split: option.splits if_splits)
qed

lemma upsert_keeps:
  assumes "ledger_ok l"
  shows "\<exists>ch l'. upsert f l = Some (ch, l') \<and> ledger_ok l' \<and> keeps_newest (upsert_row f l) l' \<and>
    (\<not> ch \<longrightarrow> l' = l) \<and> fcard (fmdom l') = min (fcard (fmdom (upsert_row f l))) FACT_CAP"
proof -
  have k: "ledger_keyed (upsert_row f l)" using assms by (simp add: ledger_ok_def upsert_row_keyed)
  obtain ch l' where u: "upsert f l = Some (ch, l')" "evict (upsert_row f l) = Some l'" "\<not> ch \<longrightarrow> l' = l" using upsert_alt [OF assms] by blast
  then have "ledger_keyed l'" "fcard (fmdom l') = min (fcard (fmdom (upsert_row f l))) FACT_CAP" "keeps_newest (upsert_row f l) l'"
    using evict_ends [OF k] by auto
  then show ?thesis using u by (auto simp: ledger_ok_def)
qed

lemma upsert_row_rank:
  "fmlookup l k = Some f \<Longrightarrow> fmlookup (upsert_row g l) k = Some f' \<Longrightarrow> status_rank (cf_status f) \<le> status_rank (cf_status f')"
  by (auto simp: upsert_row_def split: option.splits if_splits)

lemma upsert_rank:
  assumes "ledger_ok l" "upsert g l = Some (ch, l')" "fmlookup l k = Some f" "fmlookup l' k = Some f'"
  shows "status_rank (cf_status f) \<le> status_rank (cf_status f')"
proof -
  have "keeps_newest (upsert_row g l) l'" using upsert_keeps [OF assms(1), of g] assms(2) by auto
  then have "fmlookup (upsert_row g l) k = Some f'" using assms(4) by (simp add: keeps_newest_def)
  then show ?thesis using assms(3) by (rule upsert_row_rank [rotated])
qed

text \<open>A fact of a peer with an equal or higher status replaces what this node recorded about the export
  itself, amount and recipient included, and the row still says that its origin is local.\<close>

lemma peer_fact_replaces_local:
  assumes "ledger_ok l" "fmlookup l (cf_export_id f) = Some e" "cf_origin e = OLocal"
    and "status_rank (cf_status e) \<le> status_rank (cf_status f)"
  shows "\<exists>ch l' r. insert_peer_fact f l = Some (ch, l') \<and> fmlookup l' (cf_export_id f) = Some r \<and>
    cf_amount r = cf_amount f \<and> cf_to r = cf_to f \<and> cf_origin r = OLocal"
proof -
  let ?f = "f\<lparr>cf_origin := OTrustedPeer\<rparr>"
  let ?l = "fmupd (cf_export_id f) (merged_fact e ?f) l"
  have "cf_export_id f |\<in>| fmdom l" using assms(2) by (rule fmdomI)
  then have "fmdom ?l = fmdom l" by auto
  then have "evict ?l = Some ?l" using assms(1) by (intro evict_small) (simp add: ledger_ok_def)
  then have "insert_peer_fact f l = Some (e \<noteq> merged_fact e ?f, ?l)"
    using assms(2,4) by (simp add: insert_peer_fact_def upsert_def Let_def)
  moreover have "cf_origin (merged_fact e ?f) = OLocal" using assms(3) by (simp add: merged_fact_def)
  ultimately show ?thesis by simp
qed

section \<open>The merge of a peer batch\<close>

lemma insert_peer_fact_ok:
  "ledger_ok l \<Longrightarrow> \<exists>ch l'. insert_peer_fact f l = Some (ch, l') \<and> ledger_ok l'"
  unfolding insert_peer_fact_def using upsert_keeps by blast

lemma merge_ok:
  assumes "ledger_ok (xn_cross_shard n)" "index_ok (xn_roaming_pool n)" "locks_sound (xn_roaming_pool n)"
  shows "\<exists>ch n'. merge_cross_shard_facts cfs c n = Some (ch, n') \<and> ledger_ok (xn_cross_shard n') \<and>
    index_ok (xn_roaming_pool n') \<and> locks_sound (xn_roaming_pool n')"
  using assms
proof (induction cfs arbitrary: c n)
  case (Cons f cfs)
  obtain ch l where i: "insert_peer_fact f (xn_cross_shard n) = Some (ch, l)" "ledger_ok l"
    using insert_peer_fact_ok [OF Cons.prems(1)] by blast
  let ?n = "n\<lparr>xn_cross_shard := l, xn_roaming_pool := (if cf_status f = FImported
    then mark_import_by_export (cf_export_id f) (xn_roaming_pool n) else xn_roaming_pool n)\<rparr>"
  have "index_ok (xn_roaming_pool ?n)" "locks_sound (xn_roaming_pool ?n)"
    using Cons.prems(2,3) by (simp_all add: by_export_simps set_status_index_ok set_status_sound)
  moreover have "ledger_ok (xn_cross_shard ?n)" using i(2) by simp
  ultimately show ?case
    using Cons.IH [of ?n "if ch then c + 1 else c"] i(1) by simp
qed simp

section \<open>The summary\<close>

text \<open>Every field of the summary is a saturating sum over the facts it is about.\<close>

definition sat_sum :: "('a \<Rightarrow> 'b::len word) \<Rightarrow> 'a list \<Rightarrow> 'b word" where
  "sat_sum f xs = foldl (\<lambda>a x. sat_add a (f x)) 0 xs"

lemma sat_sum_simps [simp]: "sat_sum f [] = 0" "sat_sum f (xs @ [x]) = sat_add (sat_sum f xs) (f x)"
  by (simp_all add: sat_sum_def)

lemma sat_sum_filter [simp]:
  "sat_sum f (filter P (xs @ [x])) = (if P x then sat_add (sat_sum f (filter P xs)) (f x) else sat_sum f (filter P xs))"
  by (simp add: sat_sum_def)

lemma unat_sat_sum:
  fixes f :: "'a \<Rightarrow> 'b::len word"
  shows "unat (sat_sum f xs) = min (\<Sum>x\<leftarrow>xs. unat (f x)) (2 ^ LENGTH('b) - 1)"
  by (induction xs rule: rev_induct) (simp_all add: unat_sat_add)

lemma unat_sat_count:
  "length xs < 2 ^ LENGTH('b::len) \<Longrightarrow> unat (sat_sum (\<lambda>_. 1 :: 'b word) xs) = length xs"
  by (simp add: unat_sat_sum sum_list_triv)

definition row_at :: "u8 \<Rightarrow> CrossShardSummary \<Rightarrow> CrossShardDomainSummary" where
  "row_at d s = (case fmlookup (cs_by_domain s) d of Some r \<Rightarrow> r | None \<Rightarrow> domain_summary_default)"

abbreviation imported :: "CrossShardFact \<Rightarrow> bool" where
  "imported f \<equiv> cf_status f = FImported"

definition summary_start :: CrossShardSummary where
  "summary_start = \<lparr> cs_total_exported_count = 0, cs_total_exported_amount = 0, cs_total_imported_count = 0,
     cs_total_imported_amount = 0, cs_pending_count = 0, cs_trusted_peer_observed_count = 0, cs_by_domain = fmempty \<rparr>"

definition summary_list :: "CrossShardFact list \<Rightarrow> CrossShardSummary" where
  "summary_list fs = foldl (\<lambda>out f. summary_fact f out) summary_start fs"

lemma summary_list_snoc [simp]: "summary_list (fs @ [f]) = summary_fact f (summary_list fs)"
  by (simp add: summary_list_def)

lemmas summary_defs = summary_fact_def summary_exported_def summary_imported_def summary_pending_def Let_def

lemma summary_totals:
  "cs_total_exported_count (summary_list fs) = sat_sum (\<lambda>_. 1) fs \<and>
   cs_total_exported_amount (summary_list fs) = sat_sum cf_amount fs \<and>
   cs_total_imported_count (summary_list fs) = sat_sum (\<lambda>_. 1) (filter imported fs) \<and>
   cs_total_imported_amount (summary_list fs) = sat_sum cf_amount (filter imported fs) \<and>
   cs_pending_count (summary_list fs) = sat_sum (\<lambda>_. 1) (filter (\<lambda>f. \<not> imported f) fs)"
proof (induction fs rule: rev_induct)
  case Nil
  show ?case by (simp add: summary_list_def summary_start_def)
next
  case (snoc f fs)
  then show ?case by (simp add: summary_defs)
qed

lemma upd_row_lookup: "fmlookup (upd_row d g m) e =
  (if e = d then Some (g ((case fmlookup m d of Some r \<Rightarrow> r | None \<Rightarrow> domain_summary_default)\<lparr>ds_domain_hi := d\<rparr>)) else fmlookup m e)"
  by (simp add: upd_row_def)

lemma row_exported:
  "ds_exported_count (row_at d (summary_fact f s)) =
     (if cf_target_domain_hi f = d then sat_add (ds_exported_count (row_at d s)) 1 else ds_exported_count (row_at d s))"
  "ds_exported_amount (row_at d (summary_fact f s)) =
     (if cf_target_domain_hi f = d then sat_add (ds_exported_amount (row_at d s)) (cf_amount f) else ds_exported_amount (row_at d s))"
  by (auto simp: summary_defs row_at_def upd_row_lookup split: option.splits)

lemma row_imported:
  "ds_imported_count (row_at d (summary_fact f s)) = (if imported f \<and> cf_source_domain_hi f = d
     then sat_add (ds_imported_count (row_at d s)) 1 else ds_imported_count (row_at d s))"
  "ds_imported_amount (row_at d (summary_fact f s)) = (if imported f \<and> cf_source_domain_hi f = d
     then sat_add (ds_imported_amount (row_at d s)) (cf_amount f) else ds_imported_amount (row_at d s))"
  "ds_pending_count (row_at d (summary_fact f s)) = (if \<not> imported f \<and> cf_target_domain_hi f = d
     then sat_add (ds_pending_count (row_at d s)) 1 else ds_pending_count (row_at d s))"
  by (auto simp: summary_defs row_at_def upd_row_lookup split: option.splits)

lemma summary_rows:
  "ds_exported_count (row_at d (summary_list fs)) = sat_sum (\<lambda>_. 1) (filter (\<lambda>f. cf_target_domain_hi f = d) fs) \<and>
   ds_exported_amount (row_at d (summary_list fs)) = sat_sum cf_amount (filter (\<lambda>f. cf_target_domain_hi f = d) fs) \<and>
   ds_imported_count (row_at d (summary_list fs)) = sat_sum (\<lambda>_. 1) (filter (\<lambda>f. imported f \<and> cf_source_domain_hi f = d) fs) \<and>
   ds_imported_amount (row_at d (summary_list fs)) = sat_sum cf_amount (filter (\<lambda>f. imported f \<and> cf_source_domain_hi f = d) fs) \<and>
   ds_pending_count (row_at d (summary_list fs)) = sat_sum (\<lambda>_. 1) (filter (\<lambda>f. \<not> imported f \<and> cf_target_domain_hi f = d) fs)"
proof (induction fs rule: rev_induct)
  case Nil
  show ?case by (simp add: summary_list_def summary_start_def row_at_def domain_summary_default_def)
next
  case (snoc f fs)
  then show ?case by (simp add: row_exported row_imported del: filter_append)
qed

lemma summary_of_values: "cross_shard_summary l = summary_list (fact_values l)"
  by (simp add: cross_shard_summary_def summary_list_def summary_start_def)

lemma length_fact_values: "length (fact_values l) = fcard (fmdom l)"
  by (simp add: fact_values_def fm_keys_def fcard.rep_eq sorted_list_of_fset.rep_eq)

lemma length_filter_split: "length (filter P xs) + length (filter (\<lambda>x. \<not> P x) xs) = length xs"
  by (induction xs) simp_all

end
