(* ===== verification/Pwm_Node_Props.thy ===== *)
theory Pwm_Node_Props
  imports Pwm_Lease_Safety Pwm_Facts_Inv Pwm_Demo
begin

text \<open>
  The properties of the node daemon: the proposer lease, the roaming intents and the ledger of
  cross-shard facts.
\<close>

section \<open>The proposer lease\<close>

lemmas file_eval = file_op_def next_fault_def after_fault_def read_checked_def write_rec_def

lemma file_boot:
  assumes "fmlookup (fs_files s) vh = None" "fs_fault s = []"
  shows "step_lease file_backend vh m now tip cfg rt s =
    (\<lparr> st_allow_seal = True, st_event = Some EvAcquire \<rparr>,
     grant (mk_rec vh m now tip (ttl_ms cfg) 1 1) ''lease_acquired_boot'' rt,
     s\<lparr>fs_files := fmupd vh (Decoded (mk_rec vh m now tip (ttl_ms cfg) 1 1)) (fs_files s)\<rparr>)"
proof -
  have "file_acquire \<lparr> lg_vh = vh, lg_owner = m, lg_now_ms = now, lg_tip_h = tip, lg_ttl_ms = ttl_ms cfg \<rparr> s =
    (Inr (Acquired (mk_rec vh m now tip (ttl_ms cfg) 1 1)),
     s\<lparr>fs_files := fmupd vh (Decoded (mk_rec vh m now tip (ttl_ms cfg) 1 1)) (fs_files s)\<rparr>)"
    using assms by (simp add: file_acquire_def acquire_rec_def file_eval Let_def)
  then show ?thesis by (simp add: step_lease_def file_backend_def Let_def)
qed

lemma file_held:
  assumes "fmlookup (fs_files s) vh = Some (Decoded r)" "lr_validator_identity_hash r = vh" "fs_fault s = NoFault # fl"
  shows "file_acquire \<lparr> lg_vh = vh, lg_owner = m, lg_now_ms = now, lg_tip_h = tip, lg_ttl_ms = ttl \<rparr> s =
    (Inr (Held r), s\<lparr>fs_fault := fl\<rparr>)"
  using assms by (simp add: file_acquire_def acquire_rec_def file_eval Let_def)

lemma file_renew_fault:
  assumes "fmlookup (fs_files s) vh = Some (Decoded r)" "lr_validator_identity_hash r = vh" "fs_fault s = RenameFault e # fl"
    and "now \<le> lr_expiry r"
  shows "file_renew \<lparr> lk_vh = vh, lk_owner = lr_owner_id r, lk_exp_term = lr_term r, lk_exp_fence = lr_fence r, lk_now_ms = now,
      lk_tip_h = tip, lk_ttl_ms = ttl \<rparr> s =
    (Inl (''lease_backend_atomic_rename_failed'' @ e), s\<lparr>fs_fault := fl, fs_files := fmdrop vh (fs_files s)\<rparr>)"
  using assms by (simp add: file_renew_def renew_rec_def file_eval Let_def linorder_not_less)



definition demo_files :: FileStore where
  "demo_files = \<lparr> fs_files = fmempty, fs_fault = [] \<rparr>"

definition demo_cluster :: "FileStore cluster" where
  "demo_cluster = cluster_step file_backend ''v'' lease_cfg_default ''n1'' 1000 1000 7
     \<lparr> cl_store = demo_files, cl_rt = lease_runtime_new, cl_time = 0 \<rparr>"

lemma demo_cluster_reach: "cluster_reach file_backend ''v'' lease_cfg_default 4000 demo_files demo_cluster"
  unfolding demo_cluster_def by (rule cluster_reach.step [OF cluster_reach.start]) simp_all

lemma demo_cluster_entitled: "entitled 4000 demo_cluster ''n1''"
proof -
  have "step_lease file_backend ''v'' ''n1'' 1000 7 lease_cfg_default (lease_runtime_new ''n1'') demo_files =
    (\<lparr> st_allow_seal = True, st_event = Some EvAcquire \<rparr>,
     grant (mk_rec ''v'' ''n1'' 1000 7 (ttl_ms lease_cfg_default) 1 1) ''lease_acquired_boot'' (lease_runtime_new ''n1''),
     demo_files\<lparr>fs_files := fmupd ''v'' (Decoded (mk_rec ''v'' ''n1'' 1000 7 (ttl_ms lease_cfg_default) 1 1)) fmempty\<rparr>)"
    by (subst file_boot) (simp_all add: demo_files_def)
  then show ?thesis
    by (simp add: entitled_def demo_cluster_def cluster_step_def mk_rec_def lease_cfg_default_def sat_add_def)
qed


text \<open>A standby takes over. When the record of another node has expired for the takeover delay, the
  local tip lags the recorded one by at most the allowed lag and the files work, one step of the gate
  makes the standby the owner and lets it seal.\<close>

theorem standby_takes_over:
  assumes "file_current s vh = Some r" "file_healthy vh s" "lr_owner_id r \<noteq> m"
    and "sat_add (lr_expiry r) (takeover_ms cfg) \<le> now" "lr_last_tip r \<le> sat_add tip (max_tip_lag cfg)"
  shows "\<exists>st rt' s' nxt. step_lease file_backend vh m now tip cfg rt s = (st, rt', s') \<and> st_allow_seal st \<and>
    st_event st = Some EvTakeover \<and> file_current s' vh = Some nxt \<and> lr_owner_id nxt = m \<and>
    lr_expiry nxt = sat_add now (ttl_ms cfg)"
  by (rule file_lease.standby_takes [OF assms, where rt = rt]) blast

definition demo_rec :: LeaseRec where
  "demo_rec = mk_rec ''v'' ''n1'' 1000 7 10000 1 1"

definition demo_held :: FileStore where
  "demo_held = \<lparr> fs_files = fmupd ''v'' (Decoded demo_rec) fmempty, fs_fault = [] \<rparr>"

lemma demo_held: "file_current demo_held ''v'' = Some demo_rec" "file_healthy ''v'' demo_held"
  by (simp_all add: demo_held_def demo_rec_def file_current_def file_healthy_def mk_rec_def)

theorem standby_takes_over_witness:
  "\<exists>st rt' s'. step_lease file_backend ''v'' ''n2'' 19000 6 lease_cfg_default (lease_runtime_new ''n2'') demo_held = (st, rt', s') \<and>
    st_allow_seal st"
proof -
  have "lr_owner_id demo_rec \<noteq> ''n2''" "sat_add (lr_expiry demo_rec) (takeover_ms lease_cfg_default) \<le> 19000"
    "lr_last_tip demo_rec \<le> sat_add 6 (max_tip_lag lease_cfg_default)"
    by (simp_all add: demo_rec_def mk_rec_def lease_cfg_default_def sat_add_def)
  from standby_takes_over [OF demo_held this] show ?thesis by blast
qed

text \<open>While the files work, the record of a validator is never lost, its fence never goes back, and a
  change of owner raises it by one.\<close>

theorem lease_fence_advances:
  assumes "file_current s vh = Some r" "file_healthy vh s" "step_lease file_backend vh m now tip cfg rt s = (st, rt', s')"
  shows "\<exists>r'. file_current s' vh = Some r' \<and> lr_fence r \<le> lr_fence r' \<and>
    (lr_owner_id r' \<noteq> lr_owner_id r \<longrightarrow> lr_fence r' = sat_add (lr_fence r) 1)"
  using assms by (rule file_lease.healthy_fence)

theorem lease_fence_advances_witness:
  "\<exists>r' st rt' s'. step_lease file_backend ''v'' ''n2'' 19000 6 lease_cfg_default (lease_runtime_new ''n2'') demo_held = (st, rt', s') \<and>
    file_current s' ''v'' = Some r' \<and> lr_fence demo_rec \<le> lr_fence r'"
proof -
  obtain st rt' s' where "step_lease file_backend ''v'' ''n2'' 19000 6 lease_cfg_default (lease_runtime_new ''n2'') demo_held = (st, rt', s')"
    by (metis prod_cases3)
  with lease_fence_advances [OF demo_held this] show ?thesis by blast
qed

text \<open>The write of a record is not atomic: it removes the old file before it renames the new one. If the
  rename fails in the owner's renewal, the record is gone although it had not expired, and the next node
  that asks is granted at once, with a fence that starts at one again.\<close>

theorem failed_rename_frees_lease:
  assumes "fmlookup (fs_files s) vh = Some (Decoded r)" "lr_validator_identity_hash r = vh" "lr_owner_id r = n" "now \<le> lr_expiry r"
    and "fs_fault s = [NoFault, RenameFault e]"
  shows "\<exists>st rt' s1 st2 rt2' s2. step_lease file_backend vh n now tip cfg rt s = (st, rt', s1) \<and> \<not> st_allow_seal st \<and>
    file_current s1 vh = None \<and>
    step_lease file_backend vh m now' tip' cfg rt2 s1 = (st2, rt2', s2) \<and> st_allow_seal st2 \<and> rt_fence rt2' = 1"
proof -
  let ?s1 = "s\<lparr>fs_fault := [], fs_files := fmdrop vh (fs_files s)\<rparr>"
  have a: "file_acquire \<lparr> lg_vh = vh, lg_owner = n, lg_now_ms = now, lg_tip_h = tip, lg_ttl_ms = ttl_ms cfg \<rparr> s =
      (Inr (Held r), s\<lparr>fs_fault := [RenameFault e]\<rparr>)"
    using assms by (intro file_held) auto
  have "file_renew \<lparr> lk_vh = vh, lk_owner = n, lk_exp_term = lr_term r, lk_exp_fence = lr_fence r, lk_now_ms = now,
      lk_tip_h = tip, lk_ttl_ms = ttl_ms cfg \<rparr> (s\<lparr>fs_fault := [RenameFault e]\<rparr>) =
      (Inl (''lease_backend_atomic_rename_failed'' @ e), ?s1)"
    using file_renew_fault [of "s\<lparr>fs_fault := [RenameFault e]\<rparr>" vh r e "[]" now tip "ttl_ms cfg"] assms by simp
  then have "step_lease file_backend vh n now tip cfg rt s =
      (\<lparr> st_allow_seal = False, st_event = Some EvReject \<rparr>,
       deny FencedStandby (''lease_backend_error '' @ ''lease_backend_atomic_rename_failed'' @ e) rt, ?s1)"
    using a assms(3) by (simp add: step_lease_def step_owner_def file_backend_def Let_def)
  moreover have "file_current ?s1 vh = None" by (simp add: file_current_def)
  moreover have "rt_fence (grant (mk_rec vh m now' tip' (ttl_ms cfg) 1 1) ''lease_acquired_boot'' rt2) = 1"
    by (simp add: mk_rec_def)
  ultimately show ?thesis using file_boot [of ?s1 vh m now' tip' cfg rt2] by fastforce
qed

theorem failed_rename_frees_lease_witness:
  "\<exists>s1 st2 rt2' s2. file_current demo_held ''v'' = Some demo_rec \<and> 2001 < lr_expiry demo_rec \<and>
    step_lease file_backend ''v'' ''n2'' 2001 0 lease_cfg_default (lease_runtime_new ''n2'') s1 = (st2, rt2', s2) \<and> rt_fence rt2' = 1"
proof -
  let ?s = "demo_held\<lparr>fs_fault := [NoFault, RenameFault ''EIO'']\<rparr>"
  have r: "fmlookup (fs_files ?s) ''v'' = Some (Decoded demo_rec)" "lr_validator_identity_hash demo_rec = ''v''"
    "lr_owner_id demo_rec = ''n1''" "(2000 :: u64) \<le> lr_expiry demo_rec" "fs_fault ?s = [NoFault, RenameFault ''EIO'']"
    "2001 < lr_expiry demo_rec"
    by (simp_all add: demo_held_def demo_rec_def mk_rec_def sat_add_def)
  show ?thesis
    using failed_rename_frees_lease [OF r(1-5), of 7 lease_cfg_default "lease_runtime_new ''n1''" "''n2''" 2001 0 "lease_runtime_new ''n2''"]
      demo_held(1) r(6) by blast
qed

section \<open>Roaming intents\<close>


definition demo_export :: SignedTx where
  "demo_export = demo_tx demo_A 0 (Export demo_B 256 10 1)"

definition demo_pool :: RoamingPool where
  "demo_pool = roam_apply demo_ext (RegisterExport demo_export 5 3) roaming_default"

lemma demo_pool_reach: "roam_reach demo_ext b demo_pool"
  unfolding demo_pool_def by (rule roam_reach.step [OF roam_reach.start]) (simp add: calm_def)

lemma demo_pool_live: "\<exists>k. live_intent demo_pool k demo_A \<and> lock_conflict_for demo_ext demo_export demo_pool = Some k"
  by (simp add: demo_pool_def demo_export_def demo_tx_def roam_register_export_def export_id_def roaming_default_def
      live_intent_def lock_conflict_for_def)


text \<open>As long as no operation marks an intent that is already terminal, an account has at most one open
  intent, and while it has one every transaction of the account except an IMPORT is refused.\<close>

theorem one_open_intent:
  assumes "roam_reach ext True p" "live_intent p k (computed_account_id ext tx)"
  shows "(live_intent p j (computed_account_id ext tx) \<longrightarrow> j = k) \<and>
    (lock_conflict_for ext tx p = Some k \<or> (\<exists>t a e. body tx = Import t a e))"
proof -
  have "fmlookup (rp_active_locks p) a = Some i \<longleftrightarrow> live_intent p i a" for a i
    using roam_reach_exact [OF assms(1)] by (simp add: locks_exact_def)
  from this [of "computed_account_id ext tx" k] this [of "computed_account_id ext tx" j] assms(2)
  show ?thesis by (cases "body tx") (auto simp: lock_conflict_for_def)
qed

theorem one_open_intent_witness:
  "\<exists>k. {j. live_intent demo_pool j demo_A} = {k}"
proof -
  obtain k where k: "live_intent demo_pool k demo_A" using demo_pool_live by blast
  have "computed_account_id demo_ext demo_export = demo_A" by (simp add: demo_export_def demo_tx_def)
  then show ?thesis using one_open_intent [OF demo_pool_reach, of k demo_export] k by auto
qed

text \<open>An import fact that arrives again for an intent that is already closed, which every peer sync sends,
  removes the lock that a newer open intent of the same account holds: the account has an open intent
  and its other transactions are no longer refused.\<close>

theorem peer_sync_drops_lock:
  assumes "ledger_ok (xn_cross_shard n)" "index_ok (xn_roaming_pool n)"
    and "fmlookup (rp_intents (xn_roaming_pool n)) k = Some i" "is_terminal (ri_status i)"
    and "ri_source i = computed_account_id ext tx" "live_intent (xn_roaming_pool n) j (computed_account_id ext tx)"
    and "cf_export_id f = k" "cf_status f = FImported"
  shows "\<exists>c n'. merge_cross_shard_facts [f] 0 n = Some (c, n') \<and>
    live_intent (xn_roaming_pool n') j (computed_account_id ext tx) \<and> lock_conflict_for ext tx (xn_roaming_pool n') = None"
proof -
  let ?p = "xn_roaming_pool n"
  obtain ch l where l: "insert_peer_fact f (xn_cross_shard n) = Some (ch, l)" using insert_peer_fact_ok [OF assms(1)] by blast
  have "j \<noteq> k" using assms(3,4,6) by (auto simp: live_intent_def locking_iff)
  from late_mark_drops_lock [OF assms(3) _ this, of None] assms(5,6)
  have "live_intent (set_status k IImported None ?p) j (computed_account_id ext tx)"
    "lock_conflict_for ext tx (set_status k IImported None ?p) = None"
    by (simp_all add: lock_conflict_for_def split: TxBody.splits)
  then show ?thesis using l assms(7,8) by (simp add: by_export_simps [OF assms(2)])
qed

definition demo_intent :: "bytes32 \<Rightarrow> IntentStatus \<Rightarrow> RoamingIntent" where
  "demo_intent k s = \<lparr> ri_intent_id = k, ri_export_id = k, ri_source = demo_A, ri_to = demo_B, ri_target_domain = 256,
     ri_amount = 10, ri_fee = 1, ri_status = s, ri_created_height = 5, ri_expires_at_height = 8, ri_last_error = None \<rparr>"

definition demo_fact :: CrossShardFact where
  "demo_fact = \<lparr> cf_export_id = 7, cf_source_domain_hi = 0, cf_target_domain_hi = 1, cf_amount = 10, cf_status = FImported,
     cf_first_height = 6, cf_last_height = 9, cf_source = None, cf_to = demo_B, cf_intent_id = None, cf_origin = OTrustedPeer \<rparr>"

definition demo_xnode :: XNode where
  "demo_xnode = \<lparr> xn_cross_shard = fmempty, xn_roaming_pool = \<lparr>
     rp_intents = fmupd 8 (demo_intent 8 IQueued) (fmupd 7 (demo_intent 7 IExpired) fmempty),
     rp_export_to_intent = fmupd 8 8 (fmupd 7 7 fmempty), rp_active_locks = fmupd demo_A 8 fmempty, rp_readiness = fmempty \<rparr> \<rparr>"

theorem peer_sync_drops_lock_witness:
  "lock_conflict_for demo_ext demo_export (xn_roaming_pool demo_xnode) = Some 8 \<and>
   (\<exists>c n'. merge_cross_shard_facts [demo_fact] 0 demo_xnode = Some (c, n') \<and>
      lock_conflict_for demo_ext demo_export (xn_roaming_pool n') = None)"
proof -
  have a: "computed_account_id demo_ext demo_export = demo_A" "body demo_export = Export demo_B 256 10 1"
    by (simp_all add: demo_export_def demo_tx_def)
  have "ledger_ok (xn_cross_shard demo_xnode)" by (simp add: demo_xnode_def ledger_ok_def fcard.rep_eq)
  moreover have "index_ok (xn_roaming_pool demo_xnode)"
    by (auto simp: demo_xnode_def index_ok_def demo_intent_def split: if_splits)
  moreover have "fmlookup (rp_intents (xn_roaming_pool demo_xnode)) 7 = Some (demo_intent 7 IExpired)"
    by (simp add: demo_xnode_def)
  moreover have "live_intent (xn_roaming_pool demo_xnode) 8 demo_A"
    by (simp add: demo_xnode_def live_intent_def demo_intent_def)
  moreover have "is_terminal (ri_status (demo_intent 7 IExpired))" "ri_source (demo_intent 7 IExpired) = demo_A"
    by (simp_all add: demo_intent_def is_terminal_def)
  moreover have "cf_export_id demo_fact = 7" "cf_status demo_fact = FImported" by (simp_all add: demo_fact_def)
  ultimately have "\<exists>c n'. merge_cross_shard_facts [demo_fact] 0 demo_xnode = Some (c, n') \<and>
      lock_conflict_for demo_ext demo_export (xn_roaming_pool n') = None"
    using peer_sync_drops_lock [of demo_xnode 7 "demo_intent 7 IExpired" demo_ext demo_export 8 demo_fact] a(1) by metis
  moreover have "lock_conflict_for demo_ext demo_export (xn_roaming_pool demo_xnode) = Some 8"
    using a by (simp add: lock_conflict_for_def demo_xnode_def)
  ultimately show ?thesis by blast
qed

text \<open>A snapshot keeps the roaming pool: restoring the intents and the locks it lists gives the same pool,
  without the readiness tickets, which are not part of a snapshot.\<close>

theorem roaming_snapshot_roundtrip:
  assumes "roam_reach ext True p"
  shows "restore_from_snapshot (intents_snapshot p) (active_locks_snapshot p) = Inr (p\<lparr>rp_readiness := fmempty\<rparr>)"
  using roam_reach_sound [OF assms] roam_reach_exact [OF assms] restore_snapshot by blast

theorem roaming_snapshot_roundtrip_witness:
  "restore_from_snapshot (intents_snapshot demo_pool) (active_locks_snapshot demo_pool) = Inr (demo_pool\<lparr>rp_readiness := fmempty\<rparr>)"
  using roaming_snapshot_roundtrip [OF demo_pool_reach] .

text \<open>A readiness ticket is good for one submission of the export it was issued for: consuming it
  succeeds only for the recorded sender, recipient, domain, amount and nonce, before it expires and on a
  tip that has not gone back, and whether it succeeds or not the next try finds no ticket.\<close>

theorem readiness_one_shot:
  assumes "body tx = Export dst tdom amount fee" "consume_readiness ext tx now n h p = (res, p')"
  shows "(res = Inr () \<longrightarrow> (\<exists>k row. export_id ext tx = Some k \<and> fmlookup (rp_readiness p) k = Some row \<and>
      now \<le> er_expires_at_unix_ms row \<and> er_source row = computed_account_id ext tx \<and> er_to row = dst \<and>
      er_target_domain row = tdom \<and> er_amount row = amount \<and> er_source_nonce_hint row = n \<and> er_source_height_hint row \<le> h)) \<and>
    fst (consume_readiness ext tx now2 n2 h2 p') = Inl MissingPreflight"
proof -
  obtain k where k: "export_id ext tx = Some k" using assms(1) by (simp add: export_id_def)
  show ?thesis
  proof (cases "fmlookup (rp_readiness p) k")
    case None
    then show ?thesis using assms k by (auto simp: consume_readiness_def)
  next
    case (Some row)
    then show ?thesis using assms k
      by (auto simp: consume_readiness_def Let_def not_less split: if_splits)
  qed
qed

theorem readiness_one_shot_witness:
  "fst (consume_readiness demo_ext demo_export 2000 0 6 (snd (consume_readiness demo_ext demo_export 2000 0 6
     (snd (register_readiness demo_ext demo_export 1000 30 0 5 roaming_default))))) = Inl MissingPreflight"
proof -
  have "body demo_export = Export demo_B 256 10 1" by (simp add: demo_export_def demo_tx_def)
  from readiness_one_shot [OF this prod.collapse [symmetric]] show ?thesis by blast
qed

section \<open>Cross-shard facts\<close>

text \<open>C40: Recording a fact ends, although the eviction loop has no counter, and keeps at most 4096 facts: what is
  dropped is older, by last height and then id, than everything that is kept, and a known fact never
  goes back to a lower status.\<close>

theorem fact_insertion_ends:
  assumes "ledger_ok l"
  shows "\<exists>ch l'. upsert f l = Some (ch, l') \<and> ledger_ok l' \<and> keeps_newest (upsert_row f l) l' \<and> (\<not> ch \<longrightarrow> l' = l) \<and>
    (\<forall>k g g'. fmlookup l k = Some g \<longrightarrow> fmlookup l' k = Some g' \<longrightarrow> status_rank (cf_status g) \<le> status_rank (cf_status g'))"
  using upsert_keeps [OF assms, of f] upsert_rank [OF assms, of f] by blast

theorem fact_insertion_ends_witness:
  "\<exists>ch l'. upsert demo_fact fmempty = Some (ch, l') \<and> ledger_ok l'"
  using fact_insertion_ends [of fmempty demo_fact] by (auto simp: ledger_ok_def fcard.rep_eq)

text \<open>The summary counts every fact once: in total and per domain the counts are the numbers of facts that
  target the domain, were imported from it or are pending towards it, the amounts are their sums, capped
  at the width of the field, and the exported facts are the imported and the pending ones.\<close>

theorem summary_adds_up:
  assumes "ledger_ok l"
  shows "unat (cs_total_exported_count (cross_shard_summary l)) = fcard (fmdom l) \<and>
    unat (cs_total_exported_count (cross_shard_summary l)) =
      unat (cs_total_imported_count (cross_shard_summary l)) + unat (cs_pending_count (cross_shard_summary l)) \<and>
    unat (cs_total_exported_amount (cross_shard_summary l)) = min (\<Sum>f\<leftarrow>fact_values l. unat (cf_amount f)) (2 ^ 128 - 1) \<and>
    unat (cs_total_imported_amount (cross_shard_summary l)) =
      min (\<Sum>f\<leftarrow>filter imported (fact_values l). unat (cf_amount f)) (2 ^ 128 - 1) \<and>
    unat (ds_exported_count (row_at d (cross_shard_summary l))) = length (filter (\<lambda>f. cf_target_domain_hi f = d) (fact_values l)) \<and>
    unat (ds_imported_count (row_at d (cross_shard_summary l))) =
      length (filter (\<lambda>f. imported f \<and> cf_source_domain_hi f = d) (fact_values l)) \<and>
    unat (ds_pending_count (row_at d (cross_shard_summary l))) =
      length (filter (\<lambda>f. \<not> imported f \<and> cf_target_domain_hi f = d) (fact_values l))"
proof -
  have n: "length (fact_values l) \<le> 4096" using assms by (simp add: length_fact_values ledger_ok_def FACT_CAP_def)
  then have small: "length (fact_values l) < 2 ^ LENGTH(64)" "length (filter P (fact_values l)) < 2 ^ LENGTH(64)" for P
    by (auto intro: le_less_trans [OF length_filter_le])
  have count: "unat (sat_sum (\<lambda>_. 1 :: u64) (filter P (fact_values l))) = length (filter P (fact_values l))" for P
    using small(2) by (rule unat_sat_count)
  have all: "unat (sat_sum (\<lambda>_. 1 :: u64) (fact_values l)) = fcard (fmdom l)"
    using unat_sat_count [OF small(1)] by (simp add: length_fact_values)
  have "fcard (fmdom l) = length (filter imported (fact_values l)) + length (filter (\<lambda>f. \<not> imported f) (fact_values l))"
    by (simp only: length_filter_split length_fact_values)
  moreover have "unat (sat_sum cf_amount fs) = min (\<Sum>f\<leftarrow>fs. unat (cf_amount f)) (2 ^ 128 - 1)" for fs :: "CrossShardFact list"
    using unat_sat_sum [of cf_amount fs] by simp
  ultimately show ?thesis
    by (simp only: summary_of_values summary_totals summary_rows count all)
qed

theorem summary_adds_up_witness:
  "unat (cs_total_exported_count (cross_shard_summary fmempty)) = 0"
  using summary_adds_up [of fmempty 0] by (simp add: ledger_ok_def fcard.rep_eq)

end
