(* ===== verification/Pwm_Pipeline.thy ===== *)
theory Pwm_Pipeline
  imports Pwm_Chain
begin

text \<open>
  The admission pipeline of a node (src/crates/pwmd/src/pipeline): the bounded queues, the index of
  plain accounts, and the worker that checks a submitted transaction before it may be sealed.
  Threads, permits and spans are left out; a worker step takes one job from a queue.
\<close>

section \<open>Bounded queues\<close>

text \<open>A bounded channel with its counters (\<open>BoundedQueue\<close> and its receiver share them).\<close>

record 'a BoundedQueue =
  bq_cap :: nat
  bq_items :: "'a list"
  bq_closed :: bool
  bq_enqueued :: u64
  bq_rejected :: u64
  bq_dequeued :: u64

definition bq_new :: "nat \<Rightarrow> 'a BoundedQueue" where
  "bq_new cap = \<lparr> bq_cap = cap, bq_items = [], bq_closed = False, bq_enqueued = 0, bq_rejected = 0, bq_dequeued = 0 \<rparr>"

definition try_push :: "'a \<Rightarrow> 'a BoundedQueue \<Rightarrow> ('a + unit) \<times> 'a BoundedQueue" where
  "try_push x q =
     (if bq_closed q \<or> bq_cap q \<le> length (bq_items q) then (Inl x, q\<lparr>bq_rejected := bq_rejected q + 1\<rparr>)
      else (Inr (), q\<lparr>bq_items := bq_items q @ [x], bq_enqueued := bq_enqueued q + 1\<rparr>))"

definition try_recv :: "'a BoundedQueue \<Rightarrow> 'a option \<times> 'a BoundedQueue" where
  "try_recv q = (case bq_items q of
     [] \<Rightarrow> (None, q) | x # xs \<Rightarrow> (Some x, q\<lparr>bq_items := xs, bq_dequeued := bq_dequeued q + 1\<rparr>))"

record DispatchQueues =
  dq_client_tx :: "SignedTx BoundedQueue"
  dq_cluster_ready :: "SignedTx list BoundedQueue"
  dq_data_broadcast :: "(string \<times> u8 list) BoundedQueue"

datatype DispatchInput = ClientTx SignedTx | ClusterReady "SignedTx list" | DataBroadcast "string \<times> u8 list"

datatype DispatchError = ClientTxFull | ClusterReadyFull | DataBroadcastFull

definition dispatch :: "DispatchInput \<Rightarrow> DispatchQueues \<Rightarrow> (DispatchError + unit) \<times> DispatchQueues" where
  "dispatch input qs = (case input of
     ClientTx job \<Rightarrow>
       (let (res, q) = try_push job (dq_client_tx qs)
        in (case res of Inl _ \<Rightarrow> Inl ClientTxFull | Inr u \<Rightarrow> Inr u, qs\<lparr>dq_client_tx := q\<rparr>))
   | ClusterReady batch \<Rightarrow>
       (let (res, q) = try_push batch (dq_cluster_ready qs)
        in (case res of Inl _ \<Rightarrow> Inl ClusterReadyFull | Inr u \<Rightarrow> Inr u, qs\<lparr>dq_cluster_ready := q\<rparr>))
   | DataBroadcast job \<Rightarrow>
       (let (res, q) = try_push job (dq_data_broadcast qs)
        in (case res of Inl _ \<Rightarrow> Inl DataBroadcastFull | Inr u \<Rightarrow> Inr u, qs\<lparr>dq_data_broadcast := q\<rparr>)))"

section \<open>Queue metrics\<close>

definition WAIT_BUCKETS :: nat where
  "WAIT_BUCKETS = 64"

text \<open>The number of significant bits of a wait; the last bucket takes the rest.\<close>

fun bit_length :: "nat \<Rightarrow> nat" where
  "bit_length n = (if n = 0 then 0 else Suc (bit_length (n div 2)))"

declare bit_length.simps [simp del]

definition leading_zeros :: "u64 \<Rightarrow> nat" where
  "leading_zeros w = 64 - bit_length (unat w)"

definition wait_bucket :: "u64 \<Rightarrow> nat" where
  "wait_bucket wait_ms = (if wait_ms = 0 then 0 else min (64 - leading_zeros wait_ms) (WAIT_BUCKETS - 1))"

definition wait_bound_ms :: "nat \<Rightarrow> u64" where
  "wait_bound_ms bucket = sat_sub (if bucket < 64 then push_bit bucket 1 else - 1) 1"

record QueueMetrics =
  qm_enqueued :: u64
  qm_dequeued :: u64
  qm_rejected :: u64
  qm_validated :: u64
  qm_stale_validated :: u64
  qm_queue_depth :: u64
  qm_queue_depth_max :: u64
  qm_last_depth_max :: u64
  qm_worker_wait :: "u64 list"

definition queue_metrics_default :: QueueMetrics where
  "queue_metrics_default = \<lparr> qm_enqueued = 0, qm_dequeued = 0, qm_rejected = 0, qm_validated = 0, qm_stale_validated = 0,
     qm_queue_depth = 0, qm_queue_depth_max = 0, qm_last_depth_max = - 1, qm_worker_wait = replicate WAIT_BUCKETS 0 \<rparr>"

text \<open>\<open>fetch_add\<close> wraps; the \<open>+ 1\<close> on its result does not.\<close>

definition start_dispatch :: "QueueMetrics \<Rightarrow> u64 option \<times> QueueMetrics" where
  "start_dispatch m = (checked_add (qm_queue_depth m) 1, m\<lparr>qm_queue_depth := qm_queue_depth m + 1\<rparr>)"

definition commit_dispatch :: "u64 \<Rightarrow> QueueMetrics \<Rightarrow> QueueMetrics" where
  "commit_dispatch depth m = m\<lparr>qm_queue_depth_max := max (qm_queue_depth_max m) depth\<rparr>"

definition dec_queue_depth :: "QueueMetrics \<Rightarrow> QueueMetrics" where
  "dec_queue_depth m = m\<lparr>qm_queue_depth := sat_sub (qm_queue_depth m) 1\<rparr>"

definition cancel_dispatch :: "QueueMetrics \<Rightarrow> QueueMetrics" where
  "cancel_dispatch m = dec_queue_depth m"

definition start_client :: "u64 \<Rightarrow> QueueMetrics \<Rightarrow> QueueMetrics" where
  "start_client wait_ms m =
     (let m' = dec_queue_depth m; b = wait_bucket wait_ms
      in m'\<lparr>qm_worker_wait := (qm_worker_wait m')[b := qm_worker_wait m' ! b + 1]\<rparr>)"

definition finish_block :: "QueueMetrics \<Rightarrow> QueueMetrics" where
  "finish_block m = m\<lparr>qm_last_depth_max := qm_queue_depth_max m, qm_queue_depth_max := qm_queue_depth m\<rparr>"

text \<open>The loop of the median, over the buckets that are left; sums that overflow panic.\<close>

fun p50_loop :: "u64 \<Rightarrow> u64 \<Rightarrow> nat \<Rightarrow> u64 list \<Rightarrow> u64 option" where
  "p50_loop target seen ms [] = Some (wait_bound_ms (WAIT_BUCKETS - 1))"
| "p50_loop target seen ms (b # bs) = (case checked_add seen b of
     None \<Rightarrow> None
   | Some seen' \<Rightarrow> if target \<le> seen' then Some (wait_bound_ms ms) else p50_loop target seen' (Suc ms) bs)"

fun sum_u64 :: "u64 \<Rightarrow> u64 list \<Rightarrow> u64 option" where
  "sum_u64 acc [] = Some acc"
| "sum_u64 acc (b # bs) = (case checked_add acc b of None \<Rightarrow> None | Some a \<Rightarrow> sum_u64 a bs)"

definition div_ceil2 :: "u64 \<Rightarrow> u64" where
  "div_ceil2 n = n div 2 + n mod 2"

definition worker_wait_p50_ms :: "QueueMetrics \<Rightarrow> u64 option" where
  "worker_wait_p50_ms m = (case sum_u64 0 (qm_worker_wait m) of
     None \<Rightarrow> None
   | Some tot \<Rightarrow> if tot = 0 then Some 0 else p50_loop (div_ceil2 tot) 0 0 (qm_worker_wait m))"

section \<open>The index of plain accounts\<close>

record AccountHot =
  ah_balance :: u128
  ah_nonce :: u64
  ah_flags :: u32
  ah_active_policies :: u8
  ah_initialized :: bool

definition account_hot :: "AccountId \<Rightarrow> Account \<Rightarrow> AccountHot" where
  "account_hot aid account =
     (let address_policy = address_flags aid AND (COSIGN_NON_DISABLEABLE OR CONSERVATION);
          policy_sensitive = active_policies account \<noteq> 0 \<or> dormant_policies account \<noteq> 0
            \<or> deferred_policies account \<noteq> [] \<or> finalized account \<or> rescue_address account \<noteq> None
      in \<lparr> ah_balance = balance_pwm account, ah_nonce = nonce account, ah_flags = acc_flags account OR address_policy,
           ah_active_policies = (if policy_sensitive then 1 else 0), ah_initialized = initialized account \<rparr>)"

definition hot_map :: "State \<Rightarrow> (AccountId, AccountHot) fmap" where
  "hot_map st = fmmap_keys account_hot (accounts st)"

section \<open>The worker\<close>

text \<open>\<open>PrecheckFailed\<close> carries the text it was built from or the cause whose text it was.\<close>

datatype precheck_cause = PcText string | PcTx TxError | PcClock

datatype TxRejectReason = ShapeInvalid TxError | WPolicyDenied | PrecheckFailed precheck_cause | StaleDuplicate

record ValidatedTx =
  vt_tx :: SignedTx
  vt_at_height :: u64

record WorkerReads =
  wr_snapshot :: State
  wr_hot_index :: "(AccountId, AccountHot) fmap"
  wr_cfg :: GenCfg
  wr_tip_height :: u64

definition hot_safe :: "AccountHot \<Rightarrow> bool" where
  "hot_safe account = (ah_flags account = 0 \<and> ah_active_policies account = 0)"

definition precheck_msg :: "string \<Rightarrow> TxRejectReason" where
  "precheck_msg reason = PrecheckFailed (PcText reason)"

definition check_hot_transfer :: "u64 \<Rightarrow> u128 \<Rightarrow> u128 \<Rightarrow> AccountHot \<Rightarrow> AccountHot \<Rightarrow> TxRejectReason + unit" where
  "check_hot_transfer n amount fee sender recipient =
     (if \<not> ah_initialized sender then Inl (precheck_msg ''sender account is not initialized'')
      else if \<not> ah_initialized recipient then Inl (precheck_msg ''recipient account is not initialized'')
      else if n \<noteq> ah_nonce sender then Inl StaleDuplicate
      else case checked_add amount fee of
        None \<Rightarrow> Inl (precheck_msg ''transfer amount plus fee overflow'')
      | Some tot \<Rightarrow> if ah_balance sender < tot then Inl (precheck_msg ''insufficient balance'') else Inr ())"

definition precheck_hot :: "extlib \<Rightarrow> SignedTx \<Rightarrow> WorkerReads \<Rightarrow> (TxRejectReason + unit) option" where
  "precheck_hot ext tx w = (case body tx of
     Transfer t amount fee \<Rightarrow>
       (case fmlookup (wr_hot_index w) (computed_account_id ext tx) of
          None \<Rightarrow> None
        | Some sender \<Rightarrow> (case fmlookup (wr_hot_index w) t of
            None \<Rightarrow> None
          | Some recipient \<Rightarrow>
              if \<not> hot_safe sender \<or> \<not> hot_safe recipient then None
              else Some (check_hot_transfer (tx_nonce tx) amount fee sender recipient)))
   | _ \<Rightarrow> None)"

definition precheck_err :: "TxError \<Rightarrow> TxRejectReason" where
  "precheck_err e = (if e \<in> {BadNonce, DuplicateImport, AlreadyInit} then StaleDuplicate else PrecheckFailed (PcTx e))"

text \<open>\<open>None\<close> is a panic of the dry run; \<open>clock\<close> is \<open>None\<close> before the Unix epoch.\<close>

definition precheck_full :: "extlib \<Rightarrow> u64 option \<Rightarrow> SignedTx \<Rightarrow> WorkerReads \<Rightarrow> u64 \<Rightarrow> (TxRejectReason + unit) option" where
  "precheck_full ext clock tx w snapshot_height =
     (if (case body tx of Init _ _ \<Rightarrow> False | _ \<Rightarrow> evaluate_policy ext (wr_snapshot w) tx snapshot_height \<noteq> Allow)
      then Some (Inl WPolicyDenied)
      else case clock of
        None \<Rightarrow> Some (Inl (PrecheckFailed PcClock))
      | Some next_ts \<Rightarrow>
          (case precheck_apply_with_ctx ext (wr_cfg w) (wr_snapshot w) tx (sat_add snapshot_height 1) next_ts of
             Accepted \<Rightarrow> Some (Inr ()) | Refused e \<Rightarrow> Some (Inl (precheck_err e)) | DryRunPanic \<Rightarrow> None))"

definition validated_tx :: "SignedTx \<Rightarrow> u64 \<Rightarrow> ValidatedTx" where
  "validated_tx tx h = \<lparr> vt_tx = tx, vt_at_height = h \<rparr>"

definition precheck_client :: "extlib \<Rightarrow> u64 option \<Rightarrow> SignedTx \<Rightarrow> WorkerReads \<Rightarrow> (TxRejectReason + ValidatedTx) option" where
  "precheck_client ext clock tx w =
     (case validate_tx_shape ext tx of
        Inl e \<Rightarrow> Some (Inl (ShapeInvalid e))
      | Inr _ \<Rightarrow>
          let snapshot_height = wr_tip_height w
          in (case precheck_hot ext tx w of
                Some (Inl e) \<Rightarrow> Some (Inl e)
              | Some (Inr _) \<Rightarrow> Some (Inr (validated_tx tx snapshot_height))
              | None \<Rightarrow> map_option (\<lambda>r. case r of Inl e \<Rightarrow> Inl e | Inr _ \<Rightarrow> Inr (validated_tx tx snapshot_height))
                  (precheck_full ext clock tx w snapshot_height)))"

text \<open>One job: the reply, the queue of validated transactions and the metrics afterwards.\<close>

definition handle_client ::
  "extlib \<Rightarrow> u64 option \<Rightarrow> u64 \<Rightarrow> SignedTx \<Rightarrow> WorkerReads \<Rightarrow> nat \<Rightarrow> ValidatedTx list \<Rightarrow> QueueMetrics
     \<Rightarrow> ((TxRejectReason + unit) \<times> ValidatedTx list \<times> QueueMetrics) option" where
  "handle_client ext clock wait_ms tx w cap validated m0 =
     (let m = start_client wait_ms m0
      in case precheck_client ext clock tx w of
           None \<Rightarrow> None
         | Some (Inl e) \<Rightarrow> Some (Inl e, validated, m\<lparr>qm_rejected := qm_rejected m + 1\<rparr>)
         | Some (Inr v) \<Rightarrow>
             if length validated < cap
             then Some (Inr (), validated @ [v], m\<lparr>qm_validated := qm_validated m + 1\<rparr>)
             else Some (Inl (precheck_msg ''validated tx queue is full''), validated, m\<lparr>qm_rejected := qm_rejected m + 1\<rparr>))"

end
