(* ===== verification/Pwm_Admission.thy ===== *)
theory Pwm_Admission
  imports Pwm_Pipeline Pwm_Outcome
begin

text \<open>
  What the admission pipeline promises: the fast check of a plain transfer decides as the full dry
  run does, and a transaction a worker has validated applies to the state it was validated on, on
  the prechecked path of the next block.
\<close>

section \<open>Plain accounts\<close>

lemma or_zero_iff: "(x :: 'a::len word) OR y = 0 \<longleftrightarrow> x = 0 \<and> y = 0"
  by (rule or_eq_0_iff)

lemma hot_row:
  assumes "fmlookup (hot_map st) x = Some hr" "hot_safe hr"
  obtains a where "fmlookup (accounts st) x = Some a" "hr = account_hot x a" "active_policies a = 0" "dormant_policies a = 0"
    "deferred_policies a = []" "\<not> finalized a" "rescue_address a = None" "\<not> cosign_non_dis x" "\<not> conservation_flag x"
proof -
  from assms(1) obtain a where a: "fmlookup (accounts st) x = Some a" "hr = account_hot x a"
    by (auto simp: hot_map_def)
  have "address_flags x AND (COSIGN_NON_DISABLEABLE OR CONSERVATION) = 0"
    using assms(2) a(2) by (simp add: hot_safe_def account_hot_def Let_def or_zero_iff)
  then have "address_flags x AND COSIGN_NON_DISABLEABLE = 0" "address_flags x AND CONSERVATION = 0"
    by (simp_all add: and.assoc bit.conj_disj_distrib or_zero_iff)
  moreover have "active_policies a = 0 \<and> dormant_policies a = 0 \<and> deferred_policies a = [] \<and> \<not> finalized a \<and> rescue_address a = None"
    using assms(2) a(2) by (auto simp: hot_safe_def account_hot_def Let_def split: if_splits)
  ultimately show thesis using that a by (simp add: cosign_non_dis_def conservation_flag_def)
qed

lemma account_hot_simps [simp]: "ah_balance (account_hot x a) = balance_pwm a" "ah_nonce (account_hot x a) = nonce a"
  "ah_initialized (account_hot x a) = initialized a"
  by (simp_all add: account_hot_def Let_def)

lemma plain_policy_inactive: "active_policies a = 0 \<Longrightarrow> deferred_policies a = [] \<Longrightarrow> \<not> policy_is_active_at a p h"
  by (simp add: policy_is_active_at_def)

lemma plain_allows:
  assumes "body tx = Transfer t am fee" "fmlookup (accounts st) (computed_account_id ext tx) = Some a" "\<not> finalized a"
    and "\<not> cosign_non_dis (computed_account_id ext tx)"
    and "fmlookup (accounts st) t = Some b" "\<not> finalized b" "active_policies b = 0" "deferred_policies b = []"
  shows "evaluate_policy ext st tx h = Allow"
  using assms by (simp add: evaluate_policy_def eval_recipient_def plain_policy_inactive Let_def)

section \<open>The fast check\<close>

lemma transfer_applies:
  assumes "validate_tx_shape ext tx = Inr ()" "body tx = Transfer t am fee"
    and "fmlookup (accounts st) (computed_account_id ext tx) = Some a" "fmlookup (accounts st) t = Some b"
    and "evaluate_policy ext st tx h = Allow" "\<not> conservation_flag (computed_account_id ext tx)"
    and "initialized a \<Longrightarrow> acc_signing_pubkey a = signer_pk tx \<and> acc_derivation_index a = derivation_index tx"
    and "nonce a \<noteq> - 1"
  shows "(\<exists>st'. apply_tx_with_ctx ext cfg tx h ts st = Done st') \<longleftrightarrow>
    initialized a \<and> initialized b \<and> tx_nonce tx = nonce a \<and> (\<exists>tot. checked_add am fee = Some tot \<and> tot \<le> balance_pwm a)"
    "apply_tx_with_ctx ext cfg tx h ts st \<noteq> Panicked"
proof -
  let ?x = "computed_account_id ext tx"
  have stub: "with_stub tx ?x st = st" using assms(2) by (simp add: with_stub_def)
  have bump: "\<exists>c. bump_nonce (x\<lparr>balance_pwm := v\<rparr>) = Some c" if "nonce x = nonce a" for x v
  proof -
    have "unat (nonce a) \<noteq> 2 ^ 64 - 1" using assms(8) unat_max_word [where 'a = 64] by (auto simp: word_unat_eq_iff)
    then have "unat (nonce a) + 1 < 2 ^ 64" using unat_le_max [of "nonce a"] by simp
    then show ?thesis using that by (simp add: bump_nonce_def checked_add_def)
  qed
  have run: "apply_tx_with_ctx ext cfg tx h ts st = (case bind_sender tx a of Inl e \<Rightarrow> Failed e st
      | Inr acc \<Rightarrow> apply_transfer ext cfg tx h ?x acc None t am fee st)"
    using assms(1-5) by (simp add: apply_tx_with_ctx_def apply_tx_impl_def stub Let_def apply_body_def split: sum.splits)
  have ok: "bind_sender tx a = (if initialized a then if nonce a \<noteq> tx_nonce tx then Inl BadNonce else Inr a
      else if nonce a \<noteq> tx_nonce tx then Inl BadNonce
      else Inr (a\<lparr>acc_signing_pubkey := signer_pk tx, acc_derivation_index := derivation_index tx\<rparr>))"
    using assms(7) by (auto simp: bind_sender_def)
  have bump': "\<exists>c. bump_nonce ((touch_acct_mrks a h cfg)\<lparr>balance_pwm := v\<rparr>) = Some c" for v
    by (rule bump) (simp add: touch_acct_mrks_def Let_def)
  let ?ok = "initialized a \<and> initialized b \<and> tx_nonce tx = nonce a \<and> (\<exists>tot. checked_add am fee = Some tot \<and> tot \<le> balance_pwm a)"
  let ?r = "apply_transfer ext cfg tx h ?x a None t am fee st"
  have self: "t = ?x \<Longrightarrow> b = a" using assms(3,4) by simp
  have yes: "\<exists>st'. ?r = Done st'" if ?ok
  proof -
    from that obtain tot where tot: "checked_add am fee = Some tot" "tot \<le> balance_pwm a" by blast
    obtain c where "bump_nonce ((touch_acct_mrks a h cfg)\<lparr>balance_pwm := balance_pwm a - tot\<rparr>) = Some c" using bump' by blast
    then show ?thesis using that tot assms(3,4,6)
      by (simp add: apply_transfer_def require_recipient_def Let_def put_acc_def add_fee_def not_less)
  qed
  have no: "\<exists>e. ?r = Failed e st" if "\<not> ?ok" "initialized a" "tx_nonce tx = nonce a"
    using that assms(4) self
    by (auto simp: apply_transfer_def require_recipient_def Let_def not_le split: option.splits)
  have un: "apply_transfer ext cfg tx h ?x acc None t am fee st = Failed NotInitialized st" if "\<not> initialized acc" for acc
    using that by (simp add: apply_transfer_def)
  have "if ?ok then \<exists>st'. apply_tx_with_ctx ext cfg tx h ts st = Done st' else \<exists>e. apply_tx_with_ctx ext cfg tx h ts st = Failed e st"
    using yes no un by (auto simp: run ok)
  then show "(\<exists>st'. apply_tx_with_ctx ext cfg tx h ts st = Done st') \<longleftrightarrow> ?ok" "apply_tx_with_ctx ext cfg tx h ts st \<noteq> Panicked"
    by (auto split: if_splits)
qed

lemma hot_check_iff:
  "check_hot_transfer n am fee (account_hot x a) (account_hot y b) = Inr () \<longleftrightarrow>
    initialized a \<and> initialized b \<and> n = nonce a \<and> (\<exists>tot. checked_add am fee = Some tot \<and> tot \<le> balance_pwm a)"
  by (auto simp: check_hot_transfer_def not_less split: option.splits)

text \<open>The keys of a row are those its owner signs with.\<close>

definition owner_keys :: "extlib \<Rightarrow> SignedTx \<Rightarrow> State \<Rightarrow> bool" where
  "owner_keys ext tx st \<longleftrightarrow> (\<forall>a. fmlookup (accounts st) (computed_account_id ext tx) = Some a \<longrightarrow> nonce a \<noteq> - 1 \<and>
     (initialized a \<longrightarrow> acc_signing_pubkey a = signer_pk tx \<and> acc_derivation_index a = derivation_index tx))"

lemma hot_is_full:
  assumes "validate_tx_shape ext tx = Inr ()" "wr_hot_index w = hot_map (wr_snapshot w)"
    and "precheck_hot ext tx w = Some v" "owner_keys ext tx (wr_snapshot w)"
  shows "v = Inr () \<longleftrightarrow> precheck_full ext (Some ts) tx w k = Some (Inr ())"
    and "precheck_full ext (Some ts) tx w k \<noteq> None"
proof -
  let ?x = "computed_account_id ext tx" and ?st = "wr_snapshot w"
  obtain t am fee sh rh where h: "body tx = Transfer t am fee" "fmlookup (hot_map ?st) ?x = Some sh" "fmlookup (hot_map ?st) t = Some rh"
    "hot_safe sh" "hot_safe rh" "v = check_hot_transfer (tx_nonce tx) am fee sh rh"
    using assms(2,3) by (auto simp: precheck_hot_def split: TxBody.splits option.splits if_splits)
  obtain a where a: "fmlookup (accounts ?st) ?x = Some a" "sh = account_hot ?x a" "\<not> finalized a" "\<not> cosign_non_dis ?x" "\<not> conservation_flag ?x"
    using hot_row [OF h(2,4)] by blast
  obtain b where b: "fmlookup (accounts ?st) t = Some b" "rh = account_hot t b" "\<not> finalized b" "active_policies b = 0" "deferred_policies b = []"
    using hot_row [OF h(3,5)] by blast
  have allow: "evaluate_policy ext ?st tx j = Allow" for j using plain_allows [OF h(1) a(1,3,4) b(1,3,4,5)] .
  have keys: "initialized a \<Longrightarrow> acc_signing_pubkey a = signer_pk tx \<and> acc_derivation_index a = derivation_index tx" "nonce a \<noteq> - 1"
    using assms(4) a(1) by (auto simp: owner_keys_def)
  note full = transfer_applies [OF assms(1) h(1) a(1) b(1) allow a(5) keys, of "wr_cfg w" "sat_add k 1" ts]
  have "v = Inr () \<longleftrightarrow> (\<exists>st'. apply_tx_with_ctx ext (wr_cfg w) tx (sat_add k 1) ts ?st = Done st')"
    using full(1) h(6) a(2) b(2) hot_check_iff by simp
  then show "v = Inr () \<longleftrightarrow> precheck_full ext (Some ts) tx w k = Some (Inr ())" "precheck_full ext (Some ts) tx w k \<noteq> None"
    using full(2) h(1) allow
    by (auto simp: precheck_full_def precheck_apply_with_ctx_def split: outcome.splits)
qed

section \<open>Validated transactions\<close>

lemma redirect_body:
  assumes "evaluate_policy ext st tx h = Redirect r"
  obtains t am fee b where "body tx = Transfer t am fee" "fmlookup (accounts st) t = Some b" "initialized b"
  using assms
  by (auto simp: evaluate_policy_def eval_recipient_def eval_emerg_redirect_def Let_def
      split: option.splits TxBody.splits if_splits)

text \<open>Dropping a redirect never makes a transfer fail: the redirected recipient is initialized.\<close>

lemma unredirected_applies:
  assumes "apply_transfer ext cfg tx h aid acc (Some r) t am fee st = Done st1"
    and "fmlookup (accounts st) t = Some b" "initialized b"
  shows "\<exists>st2. apply_transfer ext cfg tx h aid acc None t am fee st = Done st2"
proof -
  have rec: "(if t \<noteq> aid then require_recipient st t else Inr ()) = Inr ()" using assms(2,3) by (simp add: require_recipient_def)
  show ?thesis using assms(1,2)
    by (auto simp: apply_transfer_def rec Let_def split: option.splits if_splits sum.splits)
qed

lemma prechecked_accepts:
  assumes "apply_tx_with_ctx ext cfg tx h ts st = Done st1"
  shows "\<exists>st2. apply_prechecked_tx ext cfg tx h ts' st = Done st2"
proof -
  let ?x = "computed_account_id ext tx"
  let ?st = "with_stub tx ?x st"
  have ts: "apply_prechecked_tx ext cfg tx h ts' st = apply_prechecked_tx ext cfg tx h ts st"
    by (simp add: apply_prechecked_tx_def apply_tx_impl_def)
  have shape: "validate_tx_shape ext tx = Inr ()"
    using assms by (simp add: apply_tx_with_ctx_def apply_tx_impl_def split: sum.splits)
  then have sig: "verify_sig ext tx" "validate_shape_no_sig ext tx = Inr ()"
    by (auto simp: validate_tx_shape_split split: if_splits sum.splits)
  show ?thesis
  proof (cases "evaluate_policy ext ?st tx h")
    case Allow
    then show ?thesis using prechecked_same [OF sig(1) Allow] assms ts by auto
  next
    case (Reject e)
    then show ?thesis using assms shape
      by (auto simp: apply_tx_with_ctx_def apply_tx_impl_def Let_def split: option.splits sum.splits)
  next
    case (Redirect r)
    obtain t am fee b where t: "body tx = Transfer t am fee" "fmlookup (accounts ?st) t = Some b" "initialized b"
      by (rule redirect_body [OF Redirect])
    obtain row acc where acc: "fmlookup (accounts ?st) ?x = Some row" "bind_sender tx row = Inr acc"
      "apply_transfer ext cfg tx h ?x acc (Some r) t am fee ?st = Done st1"
      using assms shape Redirect t(1)
      by (auto simp: apply_tx_with_ctx_def apply_tx_impl_def Let_def apply_body_def split: option.splits sum.splits)
    have "apply_prechecked_tx ext cfg tx h ts st = apply_transfer ext cfg tx h ?x acc None t am fee ?st"
      using sig(2) acc(1,2) t(1) by (simp add: apply_prechecked_tx_def apply_tx_impl_def Let_def apply_body_def)
    then show ?thesis using unredirected_applies [OF acc(3) t(2,3)] ts by simp
  qed
qed

lemma unit_sum: "\<forall>e. z \<noteq> Inl e \<Longrightarrow> z \<noteq> Inr () \<Longrightarrow> False"
  by (cases z) auto

lemma worker_accepts:
  assumes "precheck_client ext (Some ts) tx w = Some (Inr v)" "wr_hot_index w = hot_map (wr_snapshot w)"
    and "owner_keys ext tx (wr_snapshot w)"
  shows "v = validated_tx tx (wr_tip_height w) \<and>
    (\<exists>st'. apply_tx_with_ctx ext (wr_cfg w) tx (sat_add (wr_tip_height w) 1) ts (wr_snapshot w) = Done st')"
proof -
  have shape: "validate_tx_shape ext tx = Inr ()"
    using assms(1) by (simp add: precheck_client_def split: sum.splits)
  have v: "v = validated_tx tx (wr_tip_height w)" "precheck_hot ext tx w = Some (Inr ()) \<or>
      precheck_full ext (Some ts) tx w (wr_tip_height w) = Some (Inr ())"
  proof -
    obtain z where z: "(case precheck_hot ext tx w of Some y \<Rightarrow> Some y | None \<Rightarrow> precheck_full ext (Some ts) tx w (wr_tip_height w)) = Some z"
      "(case z of Inl e \<Rightarrow> Inl e | Inr _ \<Rightarrow> Inr (validated_tx tx (wr_tip_height w))) = Inr v"
      using assms(1) shape by (auto simp: precheck_client_def Let_def split: option.splits sum.splits dest: unit_sum)
    then show "v = validated_tx tx (wr_tip_height w)" "precheck_hot ext tx w = Some (Inr ()) \<or>
      precheck_full ext (Some ts) tx w (wr_tip_height w) = Some (Inr ())"
      by (cases z; auto split: option.splits)+
  qed
  then have "precheck_full ext (Some ts) tx w (wr_tip_height w) = Some (Inr ())"
    using hot_is_full(1) [OF shape assms(2) _ assms(3)] by blast
  then show ?thesis using v(1)
    by (auto simp: precheck_full_def precheck_apply_with_ctx_def split: if_splits outcome.splits)
qed

lemma validated_entry_applies:
  assumes "precheck_client ext (Some ts) tx w = Some (Inr v)" "wr_hot_index w = hot_map (wr_snapshot w)"
    and "owner_keys ext tx (wr_snapshot w)"
  shows "\<exists>st'. apply_entry ext (wr_cfg w) (wr_tip_height w) (sat_add (wr_tip_height w) 1) ts'
    (PreValidated (vt_tx v) (vt_at_height v)) (wr_snapshot w) = Done st'"
  using worker_accepts [OF assms] prechecked_accepts by (auto simp: apply_entry_def validated_tx_def)

end
