(* ===== verification/Pwm_Seal_Tick.thy ===== *)
theory Pwm_Seal_Tick
  imports Pwm_Admission Pwm_Mempool Pwm_Facts
begin

text \<open>
  One turn of the sealing loop of a node (\<open>spawn_seal_loop\<close> in src/crates/pwmd/src/lifecycle.rs),
  from the point where the lease and the cluster gate have let it through: collect the entries of a
  block, seal it, and on success record it, on failure find the transaction to drop and put the
  others back. Timing, logs, metrics and the writing of snapshots are left out; the locks of the
  channels are taken to be free.
\<close>

section \<open>Entries\<close>

definition seal_entry_hash :: "extlib \<Rightarrow> SealEntry \<Rightarrow> bytes32" where
  "seal_entry_hash ext entry = tx_hash ext (entry_tx entry)"

text \<open>\<open>retain\<close> with the set of the hashes seen so far.\<close>

fun dedup_loop :: "extlib \<Rightarrow> bytes32 fset \<Rightarrow> SealEntry list \<Rightarrow> SealEntry list" where
  "dedup_loop ext seen [] = []"
| "dedup_loop ext seen (x # xs) =
     (if seal_entry_hash ext x |\<in>| seen then dedup_loop ext seen xs
      else x # dedup_loop ext (finsert (seal_entry_hash ext x) seen) xs)"

definition dedup_seal_entries :: "extlib \<Rightarrow> SealEntry list \<Rightarrow> SealEntry list" where
  "dedup_seal_entries ext entries = dedup_loop ext {||} entries"

definition skip_evicted_entries :: "extlib \<Rightarrow> bytes32 fset \<Rightarrow> SealEntry list \<Rightarrow> SealEntry list" where
  "skip_evicted_entries ext evicted entries = filter (\<lambda>x. seal_entry_hash ext x |\<notin>| evicted) entries"

definition pre_entry :: "ValidatedTx \<Rightarrow> SealEntry" where
  "pre_entry v = PreValidated (vt_tx v) (vt_at_height v)"

definition drain_ingress :: "SignedTx list \<Rightarrow> Mpool \<Rightarrow> Mpool" where
  "drain_ingress ts p = foldl (\<lambda>p tx. case mpool_push tx p of Done p' \<Rightarrow> p' | Failed _ p' \<Rightarrow> p' | Panicked \<Rightarrow> p) p ts"

definition BLOCK_CAP :: nat where
  "BLOCK_CAP = 64"

section \<open>The transaction to drop\<close>

text \<open>The index and the error of the first that does not apply; \<open>None\<close> is a panic.\<close>

fun first_bad_from :: "extlib \<Rightarrow> GenCfg \<Rightarrow> u64 \<Rightarrow> u64 \<Rightarrow> nat \<Rightarrow> SignedTx list \<Rightarrow> State \<Rightarrow> (nat \<times> TxError) option option" where
  "first_bad_from ext cfg h ts i [] sim = Some None"
| "first_bad_from ext cfg h ts i (tx # rest) sim =
     (case apply_tx_with_ctx ext cfg tx h ts sim of
        Done sim' \<Rightarrow> first_bad_from ext cfg h ts (Suc i) rest sim'
      | Failed e _ \<Rightarrow> Some (Some (i, e))
      | Panicked \<Rightarrow> None)"

definition first_bad_tx_ctx :: "extlib \<Rightarrow> State \<Rightarrow> SignedTx list \<Rightarrow> u64 \<Rightarrow> u64 \<Rightarrow> GenCfg \<Rightarrow> (nat \<times> TxError) option option" where
  "first_bad_tx_ctx ext st ts blk_h blk_ts cfg = first_bad_from ext cfg blk_h blk_ts 0 ts st"

definition on_chain_nonce :: "State \<Rightarrow> AccountId \<Rightarrow> u64" where
  "on_chain_nonce st aid = (case fmlookup (accounts st) aid of Some a \<Rightarrow> nonce a | None \<Rightarrow> 0)"

text \<open>The later transactions of the same sender that are dropped with it.\<close>

definition stale_after :: "extlib \<Rightarrow> State \<Rightarrow> SignedTx \<Rightarrow> SignedTx list \<Rightarrow> bytes32 fset" where
  "stale_after ext st bad later =
     fset_of_list (map (tx_hash ext) (filter (\<lambda>tx. computed_account_id ext tx = computed_account_id ext bad \<and>
       tx_nonce tx \<le> on_chain_nonce st (computed_account_id ext bad)) later))"

definition evict_kept :: "extlib \<Rightarrow> State \<Rightarrow> nat \<Rightarrow> SignedTx list \<Rightarrow> SignedTx list" where
  "evict_kept ext st i ts = take i ts @
     filter (\<lambda>tx. tx_hash ext tx |\<notin>| stale_after ext st (ts ! i) (drop (Suc i) ts)) (drop (Suc i) ts)"

definition evict_hashes :: "extlib \<Rightarrow> State \<Rightarrow> nat \<Rightarrow> SignedTx list \<Rightarrow> bytes32 fset" where
  "evict_hashes ext st i ts = finsert (tx_hash ext (ts ! i)) (stale_after ext st (ts ! i) (drop (Suc i) ts))"

section \<open>The turn\<close>

record SealNode =
  sn_chain :: Chain
  sn_pool :: Mpool
  sn_roaming_pool :: RoamingPool
  sn_cross_shard :: CrossShardLedger
  sn_ingress :: "SignedTx list"
  sn_validated :: "ValidatedTx list"
  sn_evicted :: "bytes32 fset"
  sn_evicted_tip :: u64
  sn_snapshot :: State
  sn_hot_index :: "(AccountId, AccountHot) fmap"
  sn_worker_tip :: u64
  sn_sealed :: u64
  sn_rejected :: u64

definition record_cross_shard_tx :: "extlib \<Rightarrow> SignedTx \<Rightarrow> u64 \<Rightarrow> SealNode \<Rightarrow> SealNode option" where
  "record_cross_shard_tx ext tx height n = (case body tx of
     Export _ _ _ _ \<Rightarrow>
       (let intent = Option.bind (export_id ext tx) (\<lambda>eid. map_option ri_intent_id (get_by_export_id eid (sn_roaming_pool n)))
        in map_option (\<lambda>l. n\<lparr>sn_cross_shard := l\<rparr>) (record_export ext tx height intent (sn_cross_shard n)))
   | Import _ _ eid \<Rightarrow>
       (let provenance = (case import_provenance tx of Some p \<Rightarrow> Some p
                          | None \<Rightarrow> fmlookup (exported_registry (ch_st (sn_chain n))) eid)
        in map_option (\<lambda>l. n\<lparr>sn_cross_shard := l\<rparr>) (record_import ext tx height provenance (sn_cross_shard n)))
   | _ \<Rightarrow> Some n)"

fun record_block :: "extlib \<Rightarrow> u64 \<Rightarrow> SignedTx list \<Rightarrow> SealNode \<Rightarrow> SealNode option" where
  "record_block ext h [] n = Some n"
| "record_block ext h (tx # rest) n = Option.bind (record_cross_shard_tx ext tx h n) (record_block ext h rest)"

text \<open>The entries of the next block, and the node without what was taken out of its queues.\<close>

definition collect_entries :: "extlib \<Rightarrow> SealNode \<Rightarrow> SealEntry list \<times> SealNode" where
  "collect_entries ext n0 =
     (let now_h = tip_h (sn_chain n0);
          n = (if now_h \<noteq> sn_evicted_tip n0 then n0\<lparr>sn_evicted := {||}, sn_evicted_tip := now_h\<rparr> else n0);
          roaming = snd (expire_by_height now_h (sn_roaming_pool n));
          pool = drain_ingress (sn_ingress n) (sn_pool n);
          pre = map pre_entry (take BLOCK_CAP (sn_validated n));
          (raw, pool) = mpool_take (BLOCK_CAP - length pre) pool;
          entries = skip_evicted_entries ext (sn_evicted n) (pre @ map Raw raw)
      in (dedup_seal_entries ext entries,
          n\<lparr>sn_roaming_pool := roaming, sn_ingress := [], sn_pool := pool, sn_validated := drop BLOCK_CAP (sn_validated n)\<rparr>))"

definition seal_success :: "extlib \<Rightarrow> Chain \<Rightarrow> SealNode \<Rightarrow> SealNode option" where
  "seal_success ext c n =
     (let h = tip_h c; block_txs = (if blocks c = [] then [] else txs (last (blocks c)))
      in record_block ext h block_txs
           (n\<lparr>sn_chain := c, sn_snapshot := ch_st c, sn_hot_index := hot_map (ch_st c), sn_evicted := {||}, sn_evicted_tip := h,
              sn_worker_tip := h, sn_sealed := sn_sealed n + of_nat (length block_txs)\<rparr>))"

definition put_back :: "SignedTx list \<Rightarrow> SealNode \<Rightarrow> SealNode" where
  "put_back ts n = n\<lparr>sn_pool := mpool_prepend_block ts (sn_pool n)\<rparr>"

definition seal_failure :: "extlib \<Rightarrow> u64 option \<Rightarrow> SealError \<Rightarrow> SignedTx list \<Rightarrow> SealNode \<Rightarrow> SealNode option" where
  "seal_failure ext clock e ts n =
     (let rejected_all = put_back ts (n\<lparr>sn_rejected := sn_rejected n + of_nat (length ts)\<rparr>); st = ch_st (sn_chain n)
      in case e of
           SealTx _ \<Rightarrow> (case next_apply_ctx clock (sn_chain n) of
             None \<Rightarrow> None
           | Some (Inl _) \<Rightarrow> Some (put_back ts n)
           | Some (Inr (blk_h, blk_ts)) \<Rightarrow>
               (case first_bad_tx_ctx ext st ts blk_h blk_ts (ch_cfg (sn_chain n)) of
                  None \<Rightarrow> None
                | Some None \<Rightarrow> Some rejected_all
                | Some (Some (i, _)) \<Rightarrow>
                    Some (put_back (evict_kept ext st i ts)
                      (n\<lparr>sn_evicted := sn_evicted n |\<union>| evict_hashes ext st i ts,
                         sn_rejected := sn_rejected n + 1 + of_nat (fcard (stale_after ext st (ts ! i) (drop (Suc i) ts)))\<rparr>))))
         | _ \<Rightarrow> Some rejected_all)"

definition seal_tick :: "extlib \<Rightarrow> codecs \<Rightarrow> u64 option \<Rightarrow> u64 option \<Rightarrow> SealNode \<Rightarrow> SealNode option" where
  "seal_tick ext enc clock clock' n0 =
     (let (entries, n) = collect_entries ext n0
      in case seal_entries ext enc clock entries (sn_chain n) of
           Panicked \<Rightarrow> None
         | Done c \<Rightarrow> seal_success ext c n
         | Failed (e, ts) c \<Rightarrow> seal_failure ext clock' e ts (n\<lparr>sn_chain := c\<rparr>))"

end
