(* ===== verification/Pwm_Frame.thy ===== *)
theory Pwm_Frame
  imports Pwm_Apply
begin

text \<open>
  The transition does not look at the epoch counter or the active validators: changing them before
  a transaction is the same as changing them after it, in every branch.
\<close>

definition roll_upd :: "u64 \<Rightarrow> u16 list \<Rightarrow> State \<Rightarrow> State" where
  "roll_upd e v st = st\<lparr>epoch_counter := e, active_validator_indices := v\<rparr>"

fun map_outcome :: "('s \<Rightarrow> 's) \<Rightarrow> ('e,'s) outcome \<Rightarrow> ('e,'s) outcome" where
 "map_outcome f (Done s) = Done (f s)" | "map_outcome f (Failed e s) = Failed e (f s)" | "map_outcome f Panicked = Panicked"

lemma roll_upd_sel [simp]: "accounts (roll_upd e v st) = accounts st" "fee_pool (roll_upd e v st) = fee_pool st"
 "imported_set (roll_upd e v st) = imported_set st" "exported_registry (roll_upd e v st) = exported_registry st"
 "cross_shard_locks (roll_upd e v st) = cross_shard_locks st" "evidence_log (roll_upd e v st) = evidence_log st"
 "pending_conservation (roll_upd e v st) = pending_conservation st"
  by (simp_all add: roll_upd_def)

lemma roll_upd_upd [simp]: "(roll_upd e v st)\<lparr>accounts := a\<rparr> = roll_upd e v (st\<lparr>accounts := a\<rparr>)"
 "(roll_upd e v st)\<lparr>fee_pool := b\<rparr> = roll_upd e v (st\<lparr>fee_pool := b\<rparr>)"
 "(roll_upd e v st)\<lparr>imported_set := c\<rparr> = roll_upd e v (st\<lparr>imported_set := c\<rparr>)"
 "(roll_upd e v st)\<lparr>exported_registry := d\<rparr> = roll_upd e v (st\<lparr>exported_registry := d\<rparr>)"
 "(roll_upd e v st)\<lparr>cross_shard_locks := f\<rparr> = roll_upd e v (st\<lparr>cross_shard_locks := f\<rparr>)"
 "(roll_upd e v st)\<lparr>pending_conservation := g\<rparr> = roll_upd e v (st\<lparr>pending_conservation := g\<rparr>)"
  by (simp_all add: roll_upd_def)

lemma roll_put [simp]: "put_acc x a (roll_upd e v st) = roll_upd e v (put_acc x a st)"
  "add_fee y (roll_upd e v st) = roll_upd e v (add_fee y st)"
  by (simp_all add: put_acc_def add_fee_def)

lemma roll_commit [simp]: "commit_acc x a (roll_upd e v st) = map_outcome (roll_upd e v) (commit_acc x a st)"
  by (simp add: commit_acc_def split: option.splits)

lemma roll_reads [simp]: "require_recipient (roll_upd e v st) x = require_recipient st x" "lock_idx (roll_upd e v st) k = lock_idx st k"
 "has_pending_conserv (roll_upd e v st) x = has_pending_conserv st x" "evaluate_policy ext (roll_upd e v st) tx h = evaluate_policy ext st tx h"
proof -
  have r: "eval_recipient (roll_upd e v st) a b h = eval_recipient st a b h" for a b
    by (simp add: eval_recipient_def eval_emerg_redirect_def cong: if_cong option.case_cong)
  show "evaluate_policy ext (roll_upd e v st) tx h = evaluate_policy ext st tx h"
    by (simp add: evaluate_policy_def r Let_def cong: if_cong option.case_cong TxBody.case_cong)
qed (simp_all add: require_recipient_def lock_idx_def has_pending_conserv_def)

lemma map_outcome_if: "map_outcome f (if b then x else y) = (if b then map_outcome f x else map_outcome f y)"
  by simp

lemma map_outcome_option: "map_outcome f (case z of None \<Rightarrow> x | Some w \<Rightarrow> g w) = (case z of None \<Rightarrow> map_outcome f x | Some w \<Rightarrow> map_outcome f (g w))"
  by (cases z) simp_all

lemma map_outcome_sum: "map_outcome f (case z of Inl x \<Rightarrow> h x | Inr w \<Rightarrow> g w) = (case z of Inl x \<Rightarrow> map_outcome f (h x) | Inr w \<Rightarrow> map_outcome f (g w))"
  by (cases z) simp_all

lemma map_outcome_prod: "map_outcome f (case z of (x, y) \<Rightarrow> g x y) = (case z of (x, y) \<Rightarrow> map_outcome f (g x y))"
  by (cases z) simp_all

lemmas map_outcome_case = map_outcome_if map_outcome_option map_outcome_sum map_outcome_prod

lemma roll_reads2 [simp]: "verify_claim_sig ext (roll_upd e v st) x m s = verify_claim_sig ext st x m s"
  "release_lock i (roll_upd e v st) = roll_upd e v (release_lock i st)"
  "expected_export (roll_upd e v st) tx k = expected_export st tx k"
  "validate_pol_action ext (roll_upd e v st) acc ac tx = validate_pol_action ext st acc ac tx"
  by (simp_all add: verify_claim_sig_def release_lock_def expected_export_def split: option.splits)
    (cases ac; simp add: validate_pol_action_def cong: if_cong option.case_cong)

lemma roll_evacuate [simp]: "evacuate aid a t (roll_upd e v st) = map_option (\<lambda>(x, y). (x, roll_upd e v y)) (evacuate aid a t st)"
  by (simp add: evacuate_def Let_def split: option.splits)

lemma roll_init: "apply_init tx h aid acc i fl (roll_upd e v st) = map_outcome (roll_upd e v) (apply_init tx h aid acc i fl st)"
  by (simp add: apply_init_def map_outcome_case cong: if_cong option.case_cong)

lemma roll_transfer: "apply_transfer ext cfg tx h aid acc r t am fee (roll_upd e v st) = map_outcome (roll_upd e v) (apply_transfer ext cfg tx h aid acc r t am fee st)"
  by (simp add: apply_transfer_def Let_def map_outcome_case cong: if_cong option.case_cong sum.case_cong)

lemma roll_stake: "apply_stake cfg h aid acc am (roll_upd e v st) = map_outcome (roll_upd e v) (apply_stake cfg h aid acc am st)"
  by (simp add: apply_stake_def Let_def map_outcome_case cong: if_cong option.case_cong)

lemma roll_unstake: "apply_unstake cfg h aid acc am (roll_upd e v st) = map_outcome (roll_upd e v) (apply_unstake cfg h aid acc am st)"
  by (simp add: apply_unstake_def Let_def map_outcome_case cong: if_cong option.case_cong)

lemma roll_burn: "apply_burn cfg h aid acc am (roll_upd e v st) = map_outcome (roll_upd e v) (apply_burn cfg h aid acc am st)"
  by (simp add: apply_burn_def Let_def map_outcome_case cong: if_cong option.case_cong)

lemma roll_claim: "apply_claim ext cfg aid acc p br rs (roll_upd e v st) = map_outcome (roll_upd e v) (apply_claim ext cfg aid acc p br rs st)"
  by (simp add: apply_claim_def Let_def map_outcome_case cong: if_cong option.case_cong sum.case_cong)

lemma roll_if: "(if c then roll_upd e v x else roll_upd e v y) = roll_upd e v (if c then x else y)"
  by simp

lemma roll_export: "apply_export ext cfg tx h aid acc t td am fee (roll_upd e v st) = map_outcome (roll_upd e v) (apply_export ext cfg tx h aid acc t td am fee st)"
  by (simp add: apply_export_def lock_idx_def Let_def map_outcome_case roll_if cong: if_cong option.case_cong sum.case_cong)

lemma case_if_Some: "(case (if c then Some a else x) of None \<Rightarrow> n | Some w \<Rightarrow> g w) = (if c then g a else case x of None \<Rightarrow> n | Some w \<Rightarrow> g w)"
  by simp

lemma roll_import: "apply_import ext tx aid acc t am k (roll_upd e v st) = map_outcome (roll_upd e v) (apply_import ext tx aid acc t am k st)"
proof -
  define rf where "rf = map_option (\<lambda>i. lk_state (cross_shard_locks st ! i)) (lock_idx st k)"
  define rc where "rc = (if t \<noteq> aid then require_recipient st t else Inr ())"
  define rv where "rv = expected_export st tx k"
  define bad where "bad ex \<longleftrightarrow> pv_amount ex \<noteq> am \<or> pv_to ex \<noteq> t \<or> hi_byte (pv_target_domain ex) \<noteq> hi_byte (domain_code tx)" for ex
  show ?thesis
    unfolding apply_import_def Let_def roll_upd_sel roll_reads roll_reads2 rf_def [symmetric] rc_def [symmetric] rv_def [symmetric] bad_def [symmetric]
    by (simp add: map_outcome_case roll_if option.map_comp o_def case_map_option case_if_Some split_beta cong: if_cong option.case_cong sum.case_cong)
qed

lemma roll_policy: "apply_policy ext cfg tx h aid acc t ac fee (roll_upd e v st) = map_outcome (roll_upd e v) (apply_policy ext cfg tx h aid acc t ac fee st)"
  by (simp add: apply_policy_def Let_def map_outcome_case roll_if case_map_option o_def case_prod_beta cong: if_cong option.case_cong sum.case_cong)

lemma roll_stub: "with_stub tx x (roll_upd e v st) = roll_upd e v (with_stub tx x st)"
  by (simp add: with_stub_def)

lemma roll_body: "apply_body ext cfg tx h aid acc r (roll_upd e v st) = map_outcome (roll_upd e v) (apply_body ext cfg tx h aid acc r st)"
  by (cases "body tx") (simp_all add: apply_body_def roll_init roll_transfer roll_stake roll_unstake roll_burn roll_claim roll_export roll_import roll_policy)

lemma roll_apply_tx: "apply_tx_impl ext cfg tx h ts sk (roll_upd e v st) = map_outcome (roll_upd e v) (apply_tx_impl ext cfg tx h ts sk st)"
proof -
  define d where "d = (if sk then Allow else evaluate_policy ext (with_stub tx (computed_account_id ext tx) st) tx h)"
  show ?thesis
  by (cases d) (simp_all add: apply_tx_impl_def Let_def map_outcome_case roll_stub roll_body d_def [symmetric] cong: if_cong option.case_cong sum.case_cong)
qed
end
