(* ===== verification/Pwm_Seal_Live.thy ===== *)
theory Pwm_Seal_Live
  imports Pwm_Seal_Tick Pwm_Frame Pwm_Demo "HOL-Library.Sublist"
begin

text \<open>
  Progress of the sealing loop of Pwm_Seal_Tick. A turn that fails because of a transaction finds a
  transaction to drop, so the pool shrinks, when no lock is due at the next height; when one is
  due the simulation that looks for the transaction differs from the seal, and a pooled IMPORT of
  the refunded export is never dropped.
\<close>

section \<open>Entries of a turn\<close>

lemma dedup_Cons: "dedup_seal_entries ext (x # xs) = x # dedup_loop ext {|seal_entry_hash ext x|} xs"
  by (simp add: dedup_seal_entries_def)

lemma dedup_loop_sub: "set (dedup_loop ext seen xs) \<subseteq> set xs" "length (dedup_loop ext seen xs) \<le> length xs"
  by (induction ext seen xs rule: dedup_loop.induct) auto

lemma dedup_loop_subseq: "subseq (dedup_loop ext seen xs) xs"
  by (induction ext seen xs rule: dedup_loop.induct) auto

lemma dedup_loop_new: "x \<in> set (dedup_loop ext seen xs) \<Longrightarrow> seal_entry_hash ext x |\<notin>| seen"
proof (induction ext seen xs rule: dedup_loop.induct)
  case (2 ext seen z zs)
  show ?case
  proof (cases "seal_entry_hash ext z |\<in>| seen")
    case True
    with 2(1) [OF True] 2(3) show ?thesis by simp
  next
    case False
    with 2(3) have "x = z \<or> x \<in> set (dedup_loop ext (finsert (seal_entry_hash ext z) seen) zs)" by simp
    with 2(2) [OF False] False show ?thesis by blast
  qed
qed simp

lemma dedup_loop_distinct: "distinct (map (seal_entry_hash ext) (dedup_loop ext seen xs))"
proof (induction ext seen xs rule: dedup_loop.induct)
  case (2 ext seen z zs)
  then show ?case
    using dedup_loop_new [where seen = "finsert (seal_entry_hash ext z) seen" and ext = ext and xs = zs] by force
qed simp

text \<open>What is left of a list of entries has the same hashes.\<close>

lemma dedup_loop_hashes:
  "x \<in> set xs \<Longrightarrow> seal_entry_hash ext x |\<in>| seen \<or> (\<exists>y \<in> set (dedup_loop ext seen xs). seal_entry_hash ext y = seal_entry_hash ext x)"
proof (induction ext seen xs rule: dedup_loop.induct)
  case (2 ext seen z zs)
  show ?case
  proof (cases "x = z")
    case False
    with 2(3) have x: "x \<in> set zs" by simp
    show ?thesis
    proof (cases "seal_entry_hash ext z |\<in>| seen")
      case True
      with 2(1) [OF True x] show ?thesis by simp
    next
      case new: False
      with 2(2) [OF new x] show ?thesis by force
    qed
  qed (cases "seal_entry_hash ext z |\<in>| seen"; simp)
qed simp

lemma drain_ingress_app: "\<exists>rest. mp_q (drain_ingress ts p) = mp_q p @ rest"
proof (induction ts arbitrary: p)
  case (Cons t ts)
  let ?p = "case mpool_push t p of Done p' \<Rightarrow> p' | Failed _ p' \<Rightarrow> p' | Panicked \<Rightarrow> p"
  have "\<exists>r. mp_q ?p = mp_q p @ r" by (simp add: mpool_push_def)
  then obtain r where r: "mp_q ?p = mp_q p @ r" ..
  obtain rest where "mp_q (drain_ingress ts ?p) = mp_q ?p @ rest" using Cons.IH by blast
  with r have "mp_q (drain_ingress (t # ts) p) = mp_q p @ r @ rest" by (simp add: drain_ingress_def)
  then show ?case by blast
qed (simp add: drain_ingress_def)

lemma drain_nothing [simp]: "drain_ingress [] p = p"
  by (simp add: drain_ingress_def)

lemma seal_entry_hash_eq: "seal_entry_hash ext = tx_hash ext \<circ> entry_tx"
  by (simp add: fun_eq_iff seal_entry_hash_def)

text \<open>A turn without validated entries works on raw transactions only.\<close>

definition raw_batch :: "extlib \<Rightarrow> bytes32 fset \<Rightarrow> SignedTx list \<Rightarrow> SignedTx list" where
  "raw_batch ext evicted ts = map entry_tx (dedup_seal_entries ext (map Raw (filter (\<lambda>t. tx_hash ext t |\<notin>| evicted) ts)))"

lemma raws: "set xs \<subseteq> range Raw \<Longrightarrow> map Raw (map entry_tx xs) = xs"
  by (induction xs) auto

lemma raw_batch_entries:
  "dedup_seal_entries ext (skip_evicted_entries ext evicted (map Raw ts)) = map Raw (raw_batch ext evicted ts)"
proof -
  have f: "skip_evicted_entries ext evicted (map Raw ts) = map Raw (filter (\<lambda>t. tx_hash ext t |\<notin>| evicted) ts)"
    by (simp add: skip_evicted_entries_def filter_map seal_entry_hash_eq o_def)
  have "set (dedup_loop ext {||} (map Raw (filter (\<lambda>t. tx_hash ext t |\<notin>| evicted) ts))) \<subseteq> range Raw"
    using dedup_loop_sub(1) by fastforce
  from raws [OF this] show ?thesis by (simp add: f raw_batch_def dedup_seal_entries_def del: map_map)
qed

lemma raw_batch_subseq: "subseq (raw_batch ext evicted ts) ts"
proof -
  have "subseq (map entry_tx (dedup_loop ext {||} (map Raw (filter (\<lambda>t. tx_hash ext t |\<notin>| evicted) ts))))
      (map entry_tx (map Raw (filter (\<lambda>t. tx_hash ext t |\<notin>| evicted) ts)))"
    using dedup_loop_subseq by (rule subseq_map)
  then have "subseq (raw_batch ext evicted ts) (filter (\<lambda>t. tx_hash ext t |\<notin>| evicted) ts)"
    by (simp add: raw_batch_def dedup_seal_entries_def o_def)
  then show ?thesis using subseq_filter_left subseq_order.order_trans by blast
qed

lemma raw_batch_distinct: "distinct (map (tx_hash ext) (raw_batch ext evicted ts))"
  using dedup_loop_distinct [of ext "{||}" "map Raw (filter (\<lambda>t. tx_hash ext t |\<notin>| evicted) ts)"]
  by (simp add: raw_batch_def dedup_seal_entries_def seal_entry_hash_eq)

lemma raw_batch_head:
  "tx_hash ext t |\<notin>| evicted \<Longrightarrow> \<exists>rest. raw_batch ext evicted (t # ts) = t # rest"
  by (simp add: raw_batch_def dedup_Cons)

definition fresh_node :: "SealNode \<Rightarrow> SealNode" where
  "fresh_node n = (if tip_h (sn_chain n) \<noteq> sn_evicted_tip n
     then n\<lparr>sn_evicted := {||}, sn_evicted_tip := tip_h (sn_chain n)\<rparr> else n)"

lemma collect_raw:
  assumes "sn_validated n = []"
  shows "collect_entries ext n = (let p = drain_ingress (sn_ingress n) (sn_pool n); m = fresh_node n in
    (map Raw (raw_batch ext (sn_evicted m) (take BLOCK_CAP (mp_q p))),
     m\<lparr>sn_roaming_pool := snd (expire_by_height (tip_h (sn_chain n)) (sn_roaming_pool n)), sn_ingress := [],
       sn_pool := snd (mpool_take BLOCK_CAP p), sn_validated := []\<rparr>))"
  using assms raw_batch_entries mpool.take_fst
  by (simp add: collect_entries_def fresh_node_def Let_def split_beta)

section \<open>The simulation and the seal\<close>

lemma entries_run:
  "run_steps (apply_entry ext cfg tip h ts) (map Raw xs) st = run_steps (\<lambda>tx. apply_tx_with_ctx ext cfg tx h ts) xs st"
  by (induction xs arbitrary: st) (simp_all add: apply_entry_def split: outcome.splits)

lemma clock_irrelevant: "apply_tx_with_ctx ext cfg tx h ts st = apply_tx_with_ctx ext cfg tx h ts' st"
  by (simp add: apply_tx_with_ctx_def apply_tx_impl_def)

lemma first_bad_run:
  "case run_steps (\<lambda>tx. apply_tx_with_ctx ext cfg tx h ts) xs st of
     Done st' \<Rightarrow> first_bad_from ext cfg h ts' i xs st = Some None
   | Failed e st' \<Rightarrow> (\<exists>j. i \<le> j \<and> j < i + length xs \<and> first_bad_from ext cfg h ts' i xs st = Some (Some (j, e)))
   | Panicked \<Rightarrow> first_bad_from ext cfg h ts' i xs st = None"
proof (induction xs arbitrary: i st)
  case (Cons x xs)
  note c = clock_irrelevant [of ext cfg x h ts' st ts]
  show ?case
  proof (cases "apply_tx_with_ctx ext cfg x h ts st")
    case (Done st1)
    with Cons.IH [of "Suc i" st1] c show ?thesis
      by (auto split: outcome.splits dest: Suc_leD)
  qed (auto simp: c)
qed simp

lemma apply_roll: "apply_tx_with_ctx ext cfg tx h ts (roll_upd e v st) = map_outcome (roll_upd e v) (apply_tx_with_ctx ext cfg tx h ts st)"
  by (simp add: apply_tx_with_ctx_def roll_apply_tx)

lemma run_roll:
  "run_steps (\<lambda>tx. apply_tx_with_ctx ext cfg tx h ts) xs (roll_upd e v st) =
   map_outcome (roll_upd e v) (run_steps (\<lambda>tx. apply_tx_with_ctx ext cfg tx h ts) xs st)"
  by (induction xs arbitrary: st) (simp_all add: apply_roll map_outcome_case split: outcome.splits)

lemma roll_is_upd: "\<exists>e v. roll_epoch_if_needed cfg h st = roll_upd e v st"
proof (cases "is_epoch_boundary h cfg")
  case False
  have "st = roll_upd (epoch_counter st) (active_validator_indices st) st" by (simp add: roll_upd_def)
  with False show ?thesis by (auto simp: roll_epoch_if_needed_def)
qed (auto simp: roll_epoch_if_needed_def roll_upd_def)

definition none_due :: "u64 \<Rightarrow> State \<Rightarrow> bool" where
  "none_due h st = list_all (\<lambda>l. \<not> lock_due h l) (cross_shard_locks st)"

lemma refund_nothing:
  assumes "none_due h st"
  shows "refund_exp_locks h st = st"
proof -
  have "map (mark_refunded h) (cross_shard_locks st) = cross_shard_locks st"
    using assms by (intro map_idI) (simp add: none_due_def list_all_iff mark_refunded_def)
  moreover have "filter (lock_due h) (cross_shard_locks st) = []"
    using assms by (simp add: none_due_def list_all_iff filter_empty_conv)
  ultimately show ?thesis by (simp add: refund_exp_locks_spec)
qed

text \<open>The state the transactions of a block run on is the simulated one up to the epoch data.\<close>

lemma sealed_run:
  assumes "none_due h st"
  obtains e v where "refund_exp_locks h (roll_epoch_if_needed cfg h st) = roll_upd e v st"
proof -
  obtain e v where r: "roll_epoch_if_needed cfg h st = roll_upd e v st" using roll_is_upd by blast
  have "none_due h (roll_upd e v st)" using assms by (simp add: none_due_def)
  then show ?thesis using that r refund_nothing by simp
qed

lemma seal_tx_failure:
  assumes "seal_entries ext enc clock entries c = Failed (SealTx e, ts) c'"
  obtains h now st' where "next_apply_ctx clock c = Some (Inr (h, now))" "ts = map entry_tx entries" "c' = c"
    "run_steps (apply_entry ext (ch_cfg c) (tip_h c) h now) entries
       (refund_exp_locks h (roll_epoch_if_needed (ch_cfg c) h (ch_st c))) = Failed e st'"
  using assms
  by (auto simp: seal_entries_def seal_state_def Let_def split: option.splits sum.splits outcome.splits prod.splits if_splits)

lemma located:
  assumes "seal_entries ext enc clock (map Raw xs) c = Failed (SealTx e, ts) c'" "none_due (tip_h c + 1) (ch_st c)"
    and "next_apply_ctx clock' c = Some (Inr (h, now))"
  obtains i where "first_bad_tx_ctx ext (ch_st c) xs h now (ch_cfg c) = Some (Some (i, e))" "i < length xs" "ts = xs" "c' = c"
proof -
  obtain h1 now1 st' where f: "next_apply_ctx clock c = Some (Inr (h1, now1))" "ts = map entry_tx (map Raw xs)" "c' = c"
    "run_steps (apply_entry ext (ch_cfg c) (tip_h c) h1 now1) (map Raw xs)
       (refund_exp_locks h1 (roll_epoch_if_needed (ch_cfg c) h1 (ch_st c))) = Failed e st'"
    by (rule seal_tx_failure [OF assms(1)])
  have h: "h1 = h" "h = tip_h c + 1"
    using next_apply_ctx_height [OF f(1)] next_apply_ctx_height [OF assms(3)] by (simp_all add: tip_h_def)
  obtain ep v where r: "refund_exp_locks h (roll_epoch_if_needed (ch_cfg c) h (ch_st c)) = roll_upd ep v (ch_st c)"
    using sealed_run assms(2) h(2) by blast
  have "map_outcome (roll_upd ep v) (run_steps (\<lambda>tx. apply_tx_with_ctx ext (ch_cfg c) tx h now1) xs (ch_st c)) = Failed e st'"
    using f(4) by (simp add: entries_run h(1) r run_roll)
  then obtain st2 where "run_steps (\<lambda>tx. apply_tx_with_ctx ext (ch_cfg c) tx h now1) xs (ch_st c) = Failed e st2"
    by (cases "run_steps (\<lambda>tx. apply_tx_with_ctx ext (ch_cfg c) tx h now1) xs (ch_st c)") auto
  then show thesis
    using first_bad_run [where xs = xs and st = "ch_st c" and i = 0 and ts' = now and ts = now1 and h = h and cfg = "ch_cfg c" and ext = ext] f(2,3) that
    by (auto simp: first_bad_tx_ctx_def o_def)
qed

section \<open>Turns\<close>

text \<open>A turn with the clock readings of the seal and of the search, after some transactions have arrived.\<close>

type_synonym turn = "u64 option \<times> u64 option \<times> SignedTx list"

definition seal_turn :: "extlib \<Rightarrow> codecs \<Rightarrow> turn \<Rightarrow> SealNode \<Rightarrow> SealNode option" where
  "seal_turn ext enc t n = (case t of (clock, clock', arrivals) \<Rightarrow>
     seal_tick ext enc clock clock' (n\<lparr>sn_ingress := sn_ingress n @ arrivals\<rparr>))"

fun seal_turns :: "extlib \<Rightarrow> codecs \<Rightarrow> turn list \<Rightarrow> SealNode \<Rightarrow> SealNode option" where
  "seal_turns ext enc [] n = Some n"
| "seal_turns ext enc (t # turns) n = Option.bind (seal_turn ext enc t n) (seal_turns ext enc turns)"

text \<open>The next turn fails because of a transaction.\<close>

definition tx_blocked :: "extlib \<Rightarrow> codecs \<Rightarrow> turn \<Rightarrow> SealNode \<Rightarrow> bool" where
  "tx_blocked ext enc t n = (case t of (clock, clock', arrivals) \<Rightarrow>
     (case seal_entries ext enc clock (fst (collect_entries ext (n\<lparr>sn_ingress := sn_ingress n @ arrivals\<rparr>))) (sn_chain n) of
        Failed (SealTx e, ts) c \<Rightarrow> True | _ \<Rightarrow> False))"

definition quiet :: "SealNode \<Rightarrow> bool" where
  "quiet n = (sn_ingress n = [] \<and> sn_validated n = [])"

abbreviation pool_txs :: "SealNode \<Rightarrow> SignedTx list" where
  "pool_txs n \<equiv> mp_q (sn_pool n)"

lemma evict_kept_subseq:
  assumes "i < length ts"
  shows "subseq (evict_kept ext st i ts) ts" "length (evict_kept ext st i ts) < length ts"
proof -
  let ?r = "filter (\<lambda>tx. tx_hash ext tx |\<notin>| stale_after ext st (ts ! i) (drop (Suc i) ts)) (drop (Suc i) ts)"
  have r: "subseq ?r (drop (Suc i) ts)" by (rule subseq_filter_left)
  have ts: "ts = take i ts @ ts ! i # drop (Suc i) ts" using assms by (rule id_take_nth_drop)
  have "subseq (take i ts @ ?r) (take i ts @ ts ! i # drop (Suc i) ts)" by (rule list_emb_append_mono [OF subseq_order.order_refl list_emb_Cons [OF r]])
  then show "subseq (evict_kept ext st i ts) ts" using ts unfolding evict_kept_def by argo
  have "length ?r \<le> length ts - Suc i" using list_emb_length [OF r] by simp
  then show "length (evict_kept ext st i ts) < length ts" using assms by (simp add: evict_kept_def)
qed

lemma next_apply_ctx_clock:
  "next_apply_ctx (Some a) c = Some (Inr (h, now)) \<Longrightarrow> \<exists>now'. next_apply_ctx (Some b) c = Some (Inr (h, now'))"
  by (auto simp: next_apply_ctx_def split: option.splits SealTimeMode.splits)

lemma fresh_node_simps [simp]:
  "sn_chain (fresh_node n) = sn_chain n" "sn_pool (fresh_node n) = sn_pool n" "sn_validated (fresh_node n) = sn_validated n"
  by (simp_all add: fresh_node_def)

lemma seal_tick_raw:
  assumes "sn_validated n = []" "sn_ingress n = []"
  obtains m where "collect_entries ext n = (map Raw (raw_batch ext (sn_evicted (fresh_node n)) (take BLOCK_CAP (pool_txs n))), m)"
    "sn_chain m = sn_chain n" "pool_txs m = drop BLOCK_CAP (pool_txs n)" "quiet m" "sn_evicted m = sn_evicted (fresh_node n)"
  using that assms by (simp add: collect_raw Let_def quiet_def mpool.take_snd)

lemma blocked_turn:
  assumes "quiet n" "none_due (tip_h (sn_chain n) + 1) (ch_st (sn_chain n))" "tx_blocked ext enc (Some a, Some b, []) n"
  obtains n' where "seal_turn ext enc (Some a, Some b, []) n = Some n'" "sn_chain n' = sn_chain n" "quiet n'"
    "subseq (pool_txs n') (pool_txs n)" "length (pool_txs n') < length (pool_txs n)"
proof -
  let ?c = "sn_chain n" and ?xs = "raw_batch ext (sn_evicted (fresh_node n)) (take BLOCK_CAP (pool_txs n))"
  have q: "sn_validated n = []" "sn_ingress n = []" using assms(1) by (simp_all add: quiet_def)
  obtain m where m: "collect_entries ext n = (map Raw ?xs, m)" "sn_chain m = ?c"
    "pool_txs m = drop BLOCK_CAP (pool_txs n)" "quiet m" by (rule seal_tick_raw [OF q])
  have up: "n\<lparr>sn_ingress := []\<rparr> = n" using q(2) by simp
  obtain e ts c' where f: "seal_entries ext enc (Some a) (map Raw ?xs) ?c = Failed (SealTx e, ts) c'"
    using assms(3) q(2) m(1) up by (auto simp: tx_blocked_def split: outcome.splits SealError.splits prod.splits)
  obtain h now where "next_apply_ctx (Some a) ?c = Some (Inr (h, now))" by (rule seal_tx_failure [OF f])
  then obtain now' where ctx: "next_apply_ctx (Some b) ?c = Some (Inr (h, now'))" using next_apply_ctx_clock by blast
  obtain i where i: "first_bad_tx_ctx ext (ch_st ?c) ?xs h now' (ch_cfg ?c) = Some (Some (i, e))" "i < length ?xs" "ts = ?xs" "c' = ?c"
    by (rule located [OF f assms(2) ctx])
  let ?k = "evict_kept ext (ch_st ?c) i ?xs"
  have mc: "m\<lparr>sn_chain := ?c\<rparr> = m" using m(2) by simp
  obtain n' where n': "seal_failure ext (Some b) (SealTx e) ?xs m = Some n'" "sn_chain n' = ?c" "quiet n'" "pool_txs n' = ?k @ pool_txs m"
    using ctx i(1) m(2,4) by (simp add: seal_failure_def put_back_def mpool.prepend_contents quiet_def Let_def)
  have tick: "seal_turn ext enc (Some a, Some b, []) n = Some n'"
    using n'(1) q(2) by (simp add: seal_turn_def seal_tick_def up m(1,2) f i(3,4) mc)
  have "subseq ?k (take BLOCK_CAP (pool_txs n))"
    using evict_kept_subseq(1) [OF i(2)] raw_batch_subseq subseq_order.order_trans by blast
  then have sub: "subseq (pool_txs n') (take BLOCK_CAP (pool_txs n) @ drop BLOCK_CAP (pool_txs n))"
    unfolding n'(4) m(3) by (rule list_emb_append_mono) simp
  have "length ?k < length (take BLOCK_CAP (pool_txs n))"
    using evict_kept_subseq(2) [OF i(2)] list_emb_length [OF raw_batch_subseq] by (rule less_le_trans)
  then have "length (pool_txs n') < length (pool_txs n)" by (cases "length (pool_txs n) \<le> BLOCK_CAP") (simp_all add: n'(4) m(3))
  with that [OF tick n'(2,3)] sub show thesis by simp
qed

abbreviation quiet_turn :: "u64 \<times> u64 \<Rightarrow> turn" where
  "quiet_turn ab \<equiv> (Some (fst ab), Some (snd ab), [])"

lemma blocked_turns_end:
  assumes "quiet n" "none_due (tip_h (sn_chain n) + 1) (ch_st (sn_chain n))" "length (pool_txs n) < length clocks"
  shows "\<exists>k n'. k \<le> length (pool_txs n) \<and> seal_turns ext enc (map quiet_turn (take k clocks)) n = Some n' \<and>
    sn_chain n' = sn_chain n \<and> subseq (pool_txs n') (pool_txs n) \<and> \<not> tx_blocked ext enc (quiet_turn (clocks ! k)) n'"
  using assms
proof (induction clocks arbitrary: n)
  case (Cons ab clocks)
  show ?case
  proof (cases "tx_blocked ext enc (quiet_turn ab) n")
    case True
    obtain n1 where 1: "seal_turn ext enc (quiet_turn ab) n = Some n1" "sn_chain n1 = sn_chain n" "quiet n1"
      "subseq (pool_txs n1) (pool_txs n)" "length (pool_txs n1) < length (pool_txs n)"
      by (rule blocked_turn [OF Cons.prems(1,2) True])
    have "length (pool_txs n1) < length clocks" using 1(5) Cons.prems(3) by simp
    from Cons.IH [OF 1(3) _ this] Cons.prems(2) obtain k n' where k: "k \<le> length (pool_txs n1)"
      "seal_turns ext enc (map quiet_turn (take k clocks)) n1 = Some n'" "sn_chain n' = sn_chain n1"
      "subseq (pool_txs n') (pool_txs n1)" "\<not> tx_blocked ext enc (quiet_turn (clocks ! k)) n'"
      unfolding 1(2) by blast
    have "subseq (pool_txs n') (pool_txs n)" using k(4) 1(4) by (rule subseq_order.order_trans)
    with k 1 show ?thesis by (intro exI [of _ "Suc k"] exI [of _ n']) simp
  next
    case False
    then show ?thesis by (intro exI [of _ 0] exI [of _ n]) simp
  qed
qed simp

section \<open>A refunded export at the head of the pool\<close>

lemma consumed_import_fails:
  assumes "eid |\<in>| imported_set st" "body tx = Import t amount eid"
  shows "\<exists>e st'. apply_tx_with_ctx ext cfg tx h ts st = Failed e st'"
proof -
  have imp: "\<exists>e st'. apply_import ext tx aid acc t amount eid s = Failed e st'" if "imported_set s = imported_set st" for aid acc s
    using assms(1) that by (auto simp: apply_import_def Let_def)
  have stub: "imported_set (with_stub tx aid st) = imported_set st" for aid by (simp add: with_stub_def)
  show ?thesis
    using imp [OF stub] assms(2)
    by (auto simp: apply_tx_with_ctx_def apply_tx_impl_def Let_def apply_body_def split: sum.splits option.splits PolicyDecision.splits)
qed

text \<open>The first entry imports an export that the refund of the next height returns to its sender,
  while the simulation, which does not run the refund, applies it.\<close>

definition doomed_import :: "extlib \<Rightarrow> Chain \<Rightarrow> SignedTx \<Rightarrow> bool" where
  "doomed_import ext c tx = (case body tx of
     Import t amount eid \<Rightarrow> list_ex (\<lambda>l. lk_export_id l = eid \<and> lock_due (tip_h c + 1) l) (cross_shard_locks (ch_st c)) \<and>
       (case apply_tx_with_ctx ext (ch_cfg c) tx (tip_h c + 1) 0 (ch_st c) of Done st \<Rightarrow> True | _ \<Rightarrow> False)
   | _ \<Rightarrow> False)"

lemma doomed_head_fails:
  assumes "doomed_import ext c tx"
  shows "seal_entries ext enc clock (map Raw (tx # xs)) c = Panicked \<or> (\<exists>e. seal_entries ext enc clock (map Raw (tx # xs)) c = Failed (e, tx # xs) c)"
proof -
  have txs: "map entry_tx (map Raw (tx # xs)) = tx # xs" by (simp add: o_def)
  consider "next_apply_ctx clock c = None" | e where "next_apply_ctx clock c = Some (Inl e)"
    | h now where "next_apply_ctx clock c = Some (Inr (h, now))"
    by (metis option.exhaust sum.exhaust surj_pair)
  then show ?thesis
  proof cases
    case 3
    have h: "h = tip_h c + 1" using next_apply_ctx_height [OF 3] by (simp add: tip_h_def)
    let ?st = "refund_exp_locks h (roll_epoch_if_needed (ch_cfg c) h (ch_st c))"
    obtain t amount eid l where b: "body tx = Import t amount eid" "l \<in> set (cross_shard_locks (ch_st c))"
      "lk_export_id l = eid" "lock_due h l"
      using assms(1) h by (auto simp: doomed_import_def list_ex_iff split: TxBody.splits)
    have "cross_shard_locks (roll_epoch_if_needed (ch_cfg c) h (ch_st c)) = cross_shard_locks (ch_st c)"
      by (simp add: roll_epoch_if_needed_def)
    then have "eid |\<in>| imported_set ?st" using b(2-4) by (auto simp: refund_exp_locks_spec fset_of_list.rep_eq)
    then obtain e st' where "apply_tx_with_ctx ext (ch_cfg c) tx h now ?st = Failed e st'"
      using consumed_import_fails [OF _ b(1)] by blast
    then have "run_steps (apply_entry ext (ch_cfg c) (tip_h c) h now) (map Raw (tx # xs)) ?st = Failed e st'"
      by (simp add: apply_entry_def)
    then show ?thesis using 3 by (simp add: seal_entries_def seal_state_def Let_def txs [simplified] split: sum.split)
  qed (simp_all add: seal_entries_def txs [simplified])
qed

lemma doomed_head_simulates:
  assumes "doomed_import ext c tx"
  shows "first_bad_tx_ctx ext (ch_st c) (tx # xs) (tip_h c + 1) now (ch_cfg c) \<in> {None, Some None} \<or>
    (\<exists>i e. i < length xs \<and> first_bad_tx_ctx ext (ch_st c) (tx # xs) (tip_h c + 1) now (ch_cfg c) = Some (Some (Suc i, e)))"
proof -
  obtain st1 where st1: "apply_tx_with_ctx ext (ch_cfg c) tx (tip_h c + 1) now (ch_st c) = Done st1"
    using assms clock_irrelevant [of ext "ch_cfg c" tx "tip_h c + 1" now "ch_st c" 0]
    by (auto simp: doomed_import_def split: TxBody.splits outcome.splits)
  show ?thesis
    using st1 first_bad_run [where xs = xs and st = st1 and i = "Suc 0" and ts = now and ts' = now and ext = ext and cfg = "ch_cfg c" and h = "tip_h c + 1"]
    by (auto simp: first_bad_tx_ctx_def split: outcome.splits) (metis Suc_le_D Suc_less_eq)
qed

definition stuck :: "extlib \<Rightarrow> SignedTx \<Rightarrow> Chain \<Rightarrow> SealNode \<Rightarrow> bool" where
  "stuck ext tx c n = (sn_chain n = c \<and> sn_validated n = [] \<and> tx_hash ext tx |\<notin>| sn_evicted n \<and>
     (case pool_txs n of [] \<Rightarrow> False | t # q \<Rightarrow> t = tx))"

lemma stuckE:
  assumes "stuck ext tx c n"
  obtains q where "sn_chain n = c" "sn_validated n = []" "tx_hash ext tx |\<notin>| sn_evicted n" "pool_txs n = tx # q"
  using assms by (auto simp: stuck_def split: list.splits)

lemma evict_head:
  assumes "distinct (map (tx_hash ext) (tx # xs))" "i < length xs"
  shows "\<exists>r. evict_kept ext st (Suc i) (tx # xs) = tx # r" "tx_hash ext tx |\<notin>| evict_hashes ext st (Suc i) (tx # xs)"
proof -
  have "set (map (tx_hash ext) (drop (Suc i) xs)) \<subseteq> set (map (tx_hash ext) xs)"
    by (simp add: image_mono set_drop_subset)
  moreover have "fset (stale_after ext st ((tx # xs) ! Suc i) (drop (Suc (Suc i)) (tx # xs))) \<subseteq> set (map (tx_hash ext) (drop (Suc i) xs))"
    by (auto simp: stale_after_def fset_of_list.rep_eq)
  moreover have "tx_hash ext tx \<notin> set (map (tx_hash ext) xs)" "tx_hash ext ((tx # xs) ! Suc i) \<in> set (map (tx_hash ext) xs)"
    using assms by auto
  ultimately show "tx_hash ext tx |\<notin>| evict_hashes ext st (Suc i) (tx # xs)"
    unfolding evict_hashes_def by (auto dest: subsetD)
qed (simp add: evict_kept_def)

text \<open>What a failed turn leaves, for a batch with the doomed import at its head.\<close>

lemma doomed_failure:
  assumes "doomed_import ext c tx" "distinct (map (tx_hash ext) (tx # xs))" "tx_hash ext tx |\<notin>| sn_evicted m"
    and "sn_chain m = c" "sn_validated m = []" "seal_failure ext clock' e (tx # xs) m = Some n'"
  shows "stuck ext tx c n'"
proof -
  have st: "stuck ext tx c (put_back (tx # ys) k)" if "sn_chain k = c" "sn_validated k = []" "tx_hash ext tx |\<notin>| sn_evicted k" for k ys
    using that by (simp add: stuck_def put_back_def mpool.prepend_contents)
  define all where "all = put_back (tx # xs) (m\<lparr>sn_rejected := sn_rejected m + of_nat (length (tx # xs))\<rparr>)"
  have all: "stuck ext tx c all" unfolding all_def using assms(3-5) by (intro st) simp_all
  show ?thesis
  proof (cases "\<exists>te. e = SealTx te")
    case False
    then have "n' = all" using assms(6) by (cases e) (simp_all add: seal_failure_def all_def)
    with all show ?thesis by simp
  next
    case True
    then obtain te where e: "e = SealTx te" ..
    consider "next_apply_ctx clock' c = None" | err where "next_apply_ctx clock' c = Some (Inl err)"
      | h now where "next_apply_ctx clock' c = Some (Inr (h, now))"
      by (metis option.exhaust sum.exhaust surj_pair)
    then show ?thesis
    proof cases
      case 2
      then have "n' = put_back (tx # xs) m" using assms(4,6) e by (simp add: seal_failure_def)
      then show ?thesis using st assms(3-5) by simp
    next
      case (3 h now)
      have h: "h = tip_h c + 1" using next_apply_ctx_height [OF 3] by (simp add: tip_h_def)
      consider "first_bad_tx_ctx ext (ch_st c) (tx # xs) h now (ch_cfg c) = None"
        | "first_bad_tx_ctx ext (ch_st c) (tx # xs) h now (ch_cfg c) = Some None"
        | i te' where "i < length xs" "first_bad_tx_ctx ext (ch_st c) (tx # xs) h now (ch_cfg c) = Some (Some (Suc i, te'))"
        using doomed_head_simulates [OF assms(1), of xs now] h by auto
      then show ?thesis
      proof cases
        case 2
        then have "n' = all" using assms(4,6) 3 e by (simp add: seal_failure_def all_def Let_def)
        with all show ?thesis by simp
      next
        case (3 i te')
        obtain r where r: "evict_kept ext (ch_st c) (Suc i) (tx # xs) = tx # r" using evict_head(1) [OF assms(2) 3(1)] by blast
        have "stuck ext tx c (put_back (tx # r) (m\<lparr>sn_evicted := sn_evicted m |\<union>| evict_hashes ext (ch_st c) (Suc i) (tx # xs), sn_rejected := z\<rparr>))" for z
          using evict_head(2) [OF assms(2) 3(1)] assms(3-5) by (intro st) simp_all
        then show ?thesis
          using assms(4,6) \<open>next_apply_ctx clock' c = Some (Inr (h, now))\<close> e 3(2) r by (auto simp: seal_failure_def Let_def)
      qed (use assms(4,6) 3 e in \<open>simp add: seal_failure_def Let_def\<close>)
    qed (use assms(4,6) e in \<open>simp add: seal_failure_def Let_def\<close>)
  qed
qed

lemma stuck_turn:
  assumes "doomed_import ext c tx" "stuck ext tx c n" "seal_turn ext enc t n = Some n'"
  shows "stuck ext tx c n'"
proof -
  obtain clock clock' arrivals where t: "t = (clock, clock', arrivals)" by (cases t)
  obtain q where n: "sn_chain n = c" "sn_validated n = []" "tx_hash ext tx |\<notin>| sn_evicted n" "pool_txs n = tx # q"
    by (rule stuckE [OF assms(2)])
  define n1 where "n1 = n\<lparr>sn_ingress := sn_ingress n @ arrivals\<rparr>"
  have n1: "sn_chain n1 = c" "sn_validated n1 = []" "sn_pool n1 = sn_pool n" "tx_hash ext tx |\<notin>| sn_evicted (fresh_node n1)"
    using n by (simp_all add: n1_def fresh_node_def)
  obtain r where r: "mp_q (drain_ingress (sn_ingress n1) (sn_pool n1)) = tx # r"
    using drain_ingress_app [of "sn_ingress n1" "sn_pool n1"] n(4) n1(3) by auto
  have "take BLOCK_CAP (tx # r) = tx # take 63 r" by (simp add: BLOCK_CAP_def)
  then obtain xs where xs: "raw_batch ext (sn_evicted (fresh_node n1)) (take BLOCK_CAP (tx # r)) = tx # xs"
    using raw_batch_head [OF n1(4)] by metis
  have dist: "distinct (map (tx_hash ext) (tx # xs))" using raw_batch_distinct xs by metis
  obtain m where m: "collect_entries ext n1 = (map Raw (tx # xs), m)" "sn_chain m = c" "sn_validated m = []"
    "tx_hash ext tx |\<notin>| sn_evicted m"
    using collect_raw [OF n1(2), of ext] n1(1,4) r xs by (simp add: Let_def)
  have mc: "m\<lparr>sn_chain := c\<rparr> = m" using m(2) by simp
  have tick: "seal_tick ext enc clock clock' n1 = Some n'" using assms(3) by (simp add: seal_turn_def t n1_def)
  have "\<exists>e. seal_failure ext clock' e (tx # xs) m = Some n'"
    using doomed_head_fails [OF assms(1), of enc clock xs] tick m(1,2) mc
    by (auto simp: seal_tick_def)
  then show ?thesis using doomed_failure [OF assms(1) dist m(4,2,3)] by blast
qed

lemma stuck_turns:
  assumes "doomed_import ext c tx"
  shows "stuck ext tx c n \<Longrightarrow> seal_turns ext enc turns n = Some n' \<Longrightarrow> stuck ext tx c n'"
  by (induction turns arbitrary: n) (auto simp: Option.bind_eq_Some_conv dest: stuck_turn [OF assms])

end
