(* ===== verification/Pwm_Seal_Props.thy ===== *)
theory Pwm_Seal_Props
  imports Pwm_Seal_Live
begin

text \<open>
  The properties of admission and sealing: the fast check of the workers, validated entries, and
  what the sealing loop does with a transaction that does not apply.
\<close>

section \<open>Admission\<close>

text \<open>The fast check of a plain transfer against the index of balances and nonces decides exactly as the full
  dry run of the transaction on the state behind the index, whenever the fast check gives a verdict.\<close>

theorem hot_precheck_is_full:
  assumes "validate_tx_shape ext tx = Inr ()" "wr_hot_index w = hot_map (wr_snapshot w)"
    and "precheck_hot ext tx w = Some v" "owner_keys ext tx (wr_snapshot w)"
  shows "v = Inr () \<longleftrightarrow> precheck_full ext (Some ts) tx w (wr_tip_height w) = Some (Inr ())"
  using assms by (rule hot_is_full(1))

definition demo_reads :: WorkerReads where
  "demo_reads = \<lparr> wr_snapshot = demo_st, wr_hot_index = hot_map demo_st, wr_cfg = demo_cfg, wr_tip_height = 0 \<rparr>"

lemma demo_hot_rows:
  "fmlookup (hot_map demo_st) demo_A = Some (account_hot demo_A (genesis_funded demo_A 0 1000))"
  "fmlookup (hot_map demo_st) demo_B = Some (account_hot demo_B (genesis_funded demo_B 0 50))"
  by (simp_all add: hot_map_def demo_st_def)

theorem hot_precheck_is_full_witness:
  "precheck_hot demo_ext (demo_tx demo_A 0 (Transfer demo_B 100 3)) demo_reads = Some (Inr ()) \<and>
   precheck_full demo_ext (Some 9) (demo_tx demo_A 0 (Transfer demo_B 100 3)) demo_reads 0 = Some (Inr ())"
proof -
  let ?tx = "demo_tx demo_A 0 (Transfer demo_B 100 3)"
  have shape: "validate_tx_shape demo_ext ?tx = Inr ()" by (simp add: shape_eval demo_eval)
  have hot: "precheck_hot demo_ext ?tx demo_reads = Some (Inr ())"
    by (simp add: precheck_hot_def demo_reads_def demo_tx_def demo_hot_rows hot_safe_def account_hot_def Let_def
        genesis_funded_def account_default_def address_defs check_hot_transfer_def checked_add_def)
  have keys: "owner_keys demo_ext ?tx (wr_snapshot demo_reads)"
    by (simp add: owner_keys_def demo_reads_def demo_eval)
  have index: "wr_hot_index demo_reads = hot_map (wr_snapshot demo_reads)" by (simp add: demo_reads_def)
  show ?thesis using hot hot_precheck_is_full [OF shape index hot keys, of 9] by (simp add: demo_reads_def)
qed



section \<open>Failed seals\<close>

text \<open>C17: Sealing gets past bad transactions. When no lock is due at the next height and nothing arrives, after at most
  as many failed turns as the pool has transactions the loop meets a pool for which the seal no longer
  fails because of a transaction. Until then the chain has not moved and the pool has only lost transactions.\<close>

theorem bad_transactions_run_out:
  assumes "quiet n" "none_due (tip_h (sn_chain n) + 1) (ch_st (sn_chain n))" "length (pool_txs n) < length clocks"
  shows "\<exists>k n'. k \<le> length (pool_txs n) \<and> seal_turns ext enc (map quiet_turn (take k clocks)) n = Some n' \<and>
    sn_chain n' = sn_chain n \<and> subseq (pool_txs n') (pool_txs n) \<and> \<not> tx_blocked ext enc (quiet_turn (clocks ! k)) n'"
  using assms by (rule blocked_turns_end)

definition demo_node :: "Chain \<Rightarrow> SignedTx list \<Rightarrow> SealNode" where
  "demo_node c q = \<lparr> sn_chain = c, sn_pool = \<lparr> mp_cap = 10, mp_q = q \<rparr>, sn_roaming_pool = roaming_default, sn_cross_shard = fmempty,
     sn_ingress = [], sn_validated = [], sn_evicted = {||}, sn_evicted_tip = 0, sn_snapshot = ch_st c, sn_hot_index = fmempty,
     sn_worker_tip = 0, sn_sealed = 0, sn_rejected = 0 \<rparr>"

lemma demo_node_facts: "quiet (demo_node c q)" "sn_chain (demo_node c q) = c" "pool_txs (demo_node c q) = q"
  "sn_validated (demo_node c q) = []" "sn_evicted (demo_node c q) = {||}"
  by (simp_all add: quiet_def demo_node_def)

theorem bad_transactions_run_out_witness:
  "\<exists>k n'. k \<le> 1 \<and> seal_turns demo_ext demo_codecs (map quiet_turn (take k [(1, 2), (3, 4)]))
      (demo_node demo_chain [demo_tx demo_B 0 (Transfer demo_A 5000 3)]) = Some n' \<and> sn_chain n' = demo_chain \<and>
    \<not> tx_blocked demo_ext demo_codecs (quiet_turn ([(1, 2), (3, 4)] ! k)) n'"
proof -
  have "none_due (tip_h demo_chain + 1) (ch_st demo_chain)"
    by (simp add: none_due_def demo_chain_def demo_st_def state_default_def)
  with bad_transactions_run_out [of "demo_node demo_chain [demo_tx demo_B 0 (Transfer demo_A 5000 3)]" "[(1, 2), (3, 4)]" demo_ext demo_codecs]
  show ?thesis by (auto simp: demo_node_facts)
qed

text \<open>A pooled IMPORT whose export is refunded at the next height stops the chain. The seal runs the refund
  first and fails on the import, the search for the bad transaction does not and finds the import good, so
  the loop puts it back: whatever the clocks say and whatever else arrives for the pool, no turn seals a block.\<close>

theorem refunded_import_stops_chain:
  assumes "doomed_import ext c tx" "stuck ext tx c n" "seal_turns ext enc turns n = Some n'"
  shows "sn_chain n' = c \<and> (\<exists>q. pool_txs n' = tx # q)"
  using stuck_turns [OF assms] by (auto elim: stuckE)

definition due_chain :: Chain where
  "due_chain = demo_chain\<lparr>ch_st := (put_acc demo_B (genesis_funded demo_B 0 20000) (ch_st demo_chain))\<lparr>
     cross_shard_locks := [\<lparr> lk_export_id = 77, lk_sender = demo_A, lk_amount_pwm = 20, lk_target_domain = 512,
       lk_refund_account = demo_A, lk_lock_height = 0, lk_unlock_height = 1, lk_state = Locked \<rparr>],
     exported_registry := fmupd 77 \<lparr> pv_to = demo_B, pv_target_domain = 0, pv_amount = 20 \<rparr> fmempty\<rparr>\<rparr>"

definition due_import :: SignedTx where
  "due_import = (demo_tx demo_B 0 (Import demo_B 20 77))\<lparr>import_fee := Some 10000\<rparr>"

lemma due_is_doomed: "doomed_import demo_ext due_chain due_import"
proof -
  have "\<exists>st'. apply_tx_with_ctx demo_ext demo_cfg due_import 1 0 (ch_st due_chain) = Done st'"
    by (simp add: due_import_def due_chain_def demo_chain_def tx_eval demo_eval apply_import_def Let_def
        lock_idx_def expected_export_def import_context_is_valid_def MIN_IMPORT_FEE_UNITS_def)
  then show ?thesis
    by (auto simp: doomed_import_def due_import_def due_chain_def demo_chain_def demo_tx_def tip_h_def lock_due_def)
qed

lemmas import_eval = apply_import_def lock_idx_def expected_export_def import_context_is_valid_def MIN_IMPORT_FEE_UNITS_def

lemma due_turn: "seal_turn demo_ext demo_codecs (None, None, []) (demo_node due_chain [due_import]) \<noteq> None"
proof -
  let ?n = "demo_node due_chain [due_import]"
  have ctx: "next_apply_ctx None due_chain = Some (Inr (1, 1700000001))"
    by (simp add: next_apply_ctx_def tip_h_def due_chain_def demo_chain_def checked_add_def sat_add_def DET_SEAL_TS_BASE_def)
  have seal: "seal_entries demo_ext demo_codecs None [Raw due_import] due_chain = Failed (SealTx ExportLockRefunded, [due_import]) due_chain"
    by (simp add: seal_entries_def ctx)
      (simp add: seal_eval refund_exp_locks_def credit_def due_chain_def due_import_def tx_eval demo_eval import_eval)
  have sim: "first_bad_tx_ctx demo_ext (ch_st due_chain) [due_import] 1 1700000001 (ch_cfg due_chain) = Some None"
    by (simp add: first_bad_tx_ctx_def due_import_def due_chain_def demo_chain_def tx_eval demo_eval import_eval Let_def)
  obtain m where m: "collect_entries demo_ext ?n = ([Raw due_import], m)" "sn_chain m = due_chain"
    using collect_raw [of ?n demo_ext]
    by (simp add: demo_node_def fresh_node_def due_chain_def demo_chain_def tip_h_def BLOCK_CAP_def raw_batch_def dedup_Cons Let_def)
  have "?n\<lparr>sn_ingress := sn_ingress ?n @ []\<rparr> = ?n" by simp
  then show ?thesis using ctx seal sim m
    by (simp add: seal_turn_def seal_tick_def seal_failure_def Let_def)
qed

theorem refunded_import_stops_chain_witness:
  "\<exists>n'. seal_turns demo_ext demo_codecs [(None, None, [])] (demo_node due_chain [due_import]) = Some n' \<and>
    sn_chain n' = due_chain \<and> (\<exists>q. pool_txs n' = due_import # q)"
proof -
  have st: "stuck demo_ext due_import due_chain (demo_node due_chain [due_import])" by (simp add: stuck_def demo_node_facts)
  obtain n' where n': "seal_turns demo_ext demo_codecs [(None, None, [])] (demo_node due_chain [due_import]) = Some n'"
    using due_turn by auto
  from refunded_import_stops_chain [OF due_is_doomed st n'] n' show ?thesis by blast
qed

lemma applied_nonce:
  assumes "apply_tx_with_ctx ext cfg tx h ts st = Done st'"
  shows "on_chain_nonce st (computed_account_id ext tx) = tx_nonce tx"
  using assms unfolding apply_tx_with_ctx_def
proof (cases rule: apply_tx_impl_Done)
  case (1 aid st1 row acc redir)
  show ?thesis
  proof (cases "fmlookup (accounts st) aid")
    case None
    with 1(3-6) bind_sender_ok(1) [OF 1(6)] show ?thesis
      by (auto simp: on_chain_nonce_def with_stub_def put_acc_def account_default_def split: if_splits)
  next
    case (Some a)
    with 1(3-6) bind_sender_ok(1) [OF 1(6)] show ?thesis by (auto simp: on_chain_nonce_def with_stub_def)
  qed
qed

text \<open>With a transaction that does not apply go all later ones of the same sender that would apply as they
  stand: the cut is at the nonce on the chain and takes the next valid nonce with it. They are not put back
  into the pool and are marked, so that the loop leaves them out until the chain has moved.\<close>

theorem next_valid_evicted:
  assumes "seal_failure ext clock (SealTx e) ts n = Some n'" "next_apply_ctx clock (sn_chain n) = Some (Inr (h, now))"
    and "first_bad_tx_ctx ext (ch_st (sn_chain n)) ts h now (ch_cfg (sn_chain n)) = Some (Some (i, e'))"
    and "i < j" "j < length ts" "computed_account_id ext (ts ! j) = computed_account_id ext (ts ! i)"
    and "apply_tx_with_ctx ext (ch_cfg (sn_chain n)) (ts ! j) h now (ch_st (sn_chain n)) = Done st'"
  shows "tx_hash ext (ts ! j) |\<in>| sn_evicted n' \<and>
    (\<exists>kept. pool_txs n' = take i ts @ kept @ pool_txs n \<and> tx_hash ext (ts ! j) \<notin> tx_hash ext ` set kept)"
proof -
  have "ts ! j \<in> set (drop (Suc i) ts)" using assms(4,5) by (auto simp: in_set_conv_nth intro!: exI [of _ "j - Suc i"])
  moreover have "on_chain_nonce (ch_st (sn_chain n)) (computed_account_id ext (ts ! j)) = tx_nonce (ts ! j)"
    by (rule applied_nonce [OF assms(7)])
  ultimately have st: "tx_hash ext (ts ! j) |\<in>| stale_after ext (ch_st (sn_chain n)) (ts ! i) (drop (Suc i) ts)"
    using assms(6) by (auto simp: stale_after_def fset_of_list.rep_eq)
  have "sn_evicted n' = sn_evicted n |\<union>| evict_hashes ext (ch_st (sn_chain n)) i ts"
    "pool_txs n' = evict_kept ext (ch_st (sn_chain n)) i ts @ pool_txs n"
    using assms(1-3) by (auto simp: seal_failure_def put_back_def mpool.prepend_contents Let_def)
  then show ?thesis using st by (auto simp: evict_hashes_def evict_kept_def)
qed

theorem next_valid_evicted_witness:
  "\<exists>n'. seal_failure demo_ext None (SealTx Insufficient)
      [demo_tx demo_B 0 (Transfer demo_A 5000 3), demo_tx demo_B 0 (Transfer demo_A 1 3)] (demo_node demo_chain []) = Some n' \<and>
    tx_hash demo_ext (demo_tx demo_B 0 (Transfer demo_A 1 3)) |\<in>| sn_evicted n'"
proof -
  let ?ts = "[demo_tx demo_B 0 (Transfer demo_A 5000 3), demo_tx demo_B 0 (Transfer demo_A 1 3)]"
  let ?n = "demo_node demo_chain []"
  have ctx: "next_apply_ctx None (sn_chain ?n) = Some (Inr (1, 1700000001))"
    by (simp add: demo_node_facts next_apply_ctx_def tip_h_def demo_chain_def checked_add_def sat_add_def DET_SEAL_TS_BASE_def)
  have bad: "first_bad_tx_ctx demo_ext (ch_st (sn_chain ?n)) ?ts 1 1700000001 (ch_cfg (sn_chain ?n)) = Some (Some (0, Insufficient))"
    by (simp add: demo_node_facts demo_chain_def first_bad_tx_ctx_def tx_eval demo_eval)
  obtain st' where ok: "apply_tx_with_ctx demo_ext (ch_cfg (sn_chain ?n)) (?ts ! 1) 1 1700000001 (ch_st (sn_chain ?n)) = Done st'"
    by (simp add: demo_node_facts demo_chain_def tx_eval demo_eval Let_def)
  obtain n' where n': "seal_failure demo_ext None (SealTx Insufficient) ?ts ?n = Some n'"
    using ctx bad by (simp add: seal_failure_def Let_def)
  have "computed_account_id demo_ext (?ts ! 1) = computed_account_id demo_ext (?ts ! 0)" by (simp add: demo_tx_def)
  from next_valid_evicted [OF n' ctx bad _ _ this ok] n' show ?thesis by simp
qed

end
