(* ===== verification/Pwm_Http.thy ===== *)
theory Pwm_Http
  imports Pwm_Facts Pwm_Chain
begin

text \<open>
  What the HTTP handlers of the node share (src/crates/pwmd/src/api/common.rs and the init state of
  src/crates/pwmd/src/state.rs): status codes and error bodies, the gates in front of a handler, the
  trace of recent flows, and the copy of the state that a failed commit is rolled back to.

  An error body is the text of the code, or a constructor for the JSON objects the code builds; a text that ends in
  the message of an error holds the error itself (\<open>ETx\<close>, \<open>ESeal\<close>).
\<close>

section \<open>Answers\<close>

datatype StatusCode = NO_CONTENT | OK_ | BAD_REQUEST | FORBIDDEN | NOT_FOUND | CONFLICT | PAYLOAD_TOO_LARGE
  | UNPROCESSABLE_ENTITY | INTERNAL_SERVER_ERROR | SERVICE_UNAVAILABLE | INSUFFICIENT_STORAGE | BAD_GATEWAY

datatype ErrBody = EText string | ETxReject string TxError string | EReadiness ReadinessCode
  | ESeal string SealError | ETx string TxError

type_synonym api_err = "StatusCode \<times> ErrBody"

section \<open>The init state\<close>

datatype InitPhase = Starting | LoadingSnapshot | Ready | ReadyDegraded

record InitState =
  is_phase :: InitPhase
  is_snapshot_file :: "string option"
  is_snapshot_error :: "string option"

fun phase_str :: "InitPhase \<Rightarrow> string" where
  "phase_str Starting = ''starting''"
| "phase_str LoadingSnapshot = ''loading_snapshot''"
| "phase_str Ready = ''ready''"
| "phase_str ReadyDegraded = ''ready_degraded''"

definition init_starting :: "string option \<Rightarrow> InitState" where
  "init_starting f = \<lparr> is_phase = Starting, is_snapshot_file = f, is_snapshot_error = None \<rparr>"

definition init_ready :: "string option \<Rightarrow> InitState" where
  "init_ready f = \<lparr> is_phase = Ready, is_snapshot_file = f, is_snapshot_error = None \<rparr>"

definition init_loading :: "string option \<Rightarrow> InitState" where
  "init_loading f = \<lparr> is_phase = LoadingSnapshot, is_snapshot_file = f, is_snapshot_error = None \<rparr>"

definition init_ready_degraded :: "string option \<Rightarrow> string \<Rightarrow> InitState" where
  "init_ready_degraded f e = \<lparr> is_phase = ReadyDegraded, is_snapshot_file = f, is_snapshot_error = Some e \<rparr>"

definition init_is_ready :: "InitState \<Rightarrow> bool" where
  "init_is_ready s = (is_phase s = Ready \<or> is_phase s = ReadyDegraded)"

definition allows_chain_progress :: "InitState \<Rightarrow> bool" where
  "allows_chain_progress s = (is_phase s = Ready)"

section \<open>Gates\<close>

record Gates =
  gt_init :: InitState
  gt_genesis_blocked :: bool
  gt_bridge_refused :: bool
  gt_refusal_reason :: "string option"

definition ensure_ready :: "Gates \<Rightarrow> api_err + unit" where
  "ensure_ready g =
     (if init_is_ready (gt_init g) then Inr ()
      else Inl (SERVICE_UNAVAILABLE, EText (''node is not ready (phase='' @ phase_str (is_phase (gt_init g)) @ '')'')))"

definition ensure_user_tx_allowed :: "Gates \<Rightarrow> api_err + unit" where
  "ensure_user_tx_allowed g = (case ensure_ready g of
     Inl e \<Rightarrow> Inl e
   | Inr _ \<Rightarrow>
       if is_phase (gt_init g) = ReadyDegraded
       then Inl (SERVICE_UNAVAILABLE, EText (''user tx blocked: snapshot persistence is degraded (save/load failed); fix storage '' @
         ''before submitting txs''))
       else if gt_genesis_blocked g
       then Inl (SERVICE_UNAVAILABLE, EText (''user tx blocked: genesis/hash mismatch detected during shard join; check /v1/status '' @
         ''genesis diagnostics and recover via stop -> fix bundle -> restart verify''))
       else Inr ())"

definition ensure_bridge_federation_ok :: "Gates \<Rightarrow> api_err + unit" where
  "ensure_bridge_federation_ok g =
     (if gt_bridge_refused g
      then Inl (CONFLICT, EText (case gt_refusal_reason g of Some r \<Rightarrow> r | None \<Rightarrow> ''bridge_federation_trust_refused''))
      else Inr ())"

text \<open>Operator endpoints: a loopback connection, or the configured bearer token. \<open>header\<close> is the text of
  the Authorization header, if it is readable.\<close>

definition bearer_token :: "string option \<Rightarrow> string option" where
  "bearer_token header = (case header of
     None \<Rightarrow> None
   | Some raw \<Rightarrow>
       if take 7 raw = ''Bearer ''
       then (let v = trim (drop 7 raw) in if v = [] then None else Some v)
       else None)"

definition ensure_operator_auth :: "string option \<Rightarrow> bool option \<Rightarrow> string option \<Rightarrow> api_err + string" where
  "ensure_operator_auth op_token remote_loopback header =
     (if remote_loopback = Some True then Inr ''loopback''
      else if op_token \<noteq> None \<and> bearer_token header = op_token then Inr ''token''
      else Inl (FORBIDDEN, EText ''operator endpoint requires loopback or valid bearer token''))"

section \<open>The trace of recent flows\<close>

definition RECENT_FLOW_CAP :: nat where
  "RECENT_FLOW_CAP = 256"

text \<open>An id in the trace is the hex text of 32 bytes, or a text as it was received.\<close>

datatype FlowId = IdBytes bytes32 | IdText string

record FlowTraceRow =
  fl_at_height :: u64
  fl_kind :: string
  fl_tx_id :: FlowId
  fl_export_id :: "FlowId option"
  fl_intent_id :: "FlowId option"
  fl_note :: "string option"

function pop_flow :: "FlowTraceRow list \<Rightarrow> FlowTraceRow list" where
  "pop_flow rows = (if RECENT_FLOW_CAP < length rows then pop_flow (tl rows) else rows)"
  by auto
termination by (relation "measure length") (auto simp: RECENT_FLOW_CAP_def)

declare pop_flow.simps [simp del]

definition push_flow :: "FlowTraceRow \<Rightarrow> FlowTraceRow list \<Rightarrow> FlowTraceRow list" where
  "push_flow row rows = pop_flow (rows @ [row])"

fun tx_kind :: "TxBody \<Rightarrow> string" where
  "tx_kind (Init _ _) = ''init''"
| "tx_kind (Transfer _ _ _) = ''transfer''"
| "tx_kind (Stake _) = ''stake''"
| "tx_kind (Unstake _) = ''unstake''"
| "tx_kind (BurnMark _ _) = ''burn_mark''"
| "tx_kind (ClaimIPv4Batch _ _ _) = ''claim_ipv4_batch''"
| "tx_kind (Export _ _ _ _) = ''export''"
| "tx_kind (Import _ _ _) = ''import''"
| "tx_kind (Policy _ _ _) = ''policy''"

definition push_tx_flow :: "extlib \<Rightarrow> SignedTx \<Rightarrow> u64 \<Rightarrow> string \<Rightarrow> string option \<Rightarrow> FlowTraceRow list \<Rightarrow> FlowTraceRow list" where
  "push_tx_flow ext tx at_height kind note_text rows =
     push_flow \<lparr> fl_at_height = at_height, fl_kind = kind @ '':'' @ tx_kind (body tx), fl_tx_id = IdBytes (tx_hash ext tx),
       fl_export_id = map_option IdBytes (export_id ext tx), fl_intent_id = map_option IdBytes (export_id ext tx), fl_note = note_text \<rparr> rows"

lemma pop_flow_drop: "pop_flow rows = drop (length rows - RECENT_FLOW_CAP) rows"
proof (induction rows rule: pop_flow.induct)
  case (1 rows)
  show ?case
  proof (cases "RECENT_FLOW_CAP < length rows")
    case True
    then have "length rows - RECENT_FLOW_CAP = Suc (length rows - Suc RECENT_FLOW_CAP)" by simp
    with 1 [OF True] True show ?thesis by (simp add: pop_flow.simps [of rows] drop_Suc)
  qed (simp add: pop_flow.simps [of rows])
qed

lemma push_flow_bounded: "length (push_flow row rows) \<le> RECENT_FLOW_CAP" "last (push_flow row rows) = row"
  by (simp_all add: push_flow_def pop_flow_drop RECENT_FLOW_CAP_def)

end
