(* ===== verification/Pwm_Guards.thy ===== *)
theory Pwm_Guards
  imports Pwm_Http Pwm_Address_Book
begin

text \<open>
  The checks of a submitted transaction in front of the ledger (src/crates/pwmd/src/tx_policy.rs):
  the lane of an address, the recipient policy, the provenance of an IMPORT, the recipient row and the
  routing of a transaction by its domains. Log lines are left out.
\<close>

section \<open>Lanes\<close>

datatype DevLane = Lane0 | Lane1

fun lane_str :: "DevLane \<Rightarrow> string" where
  "lane_str Lane0 = ''lane0''"
| "lane_str Lane1 = ''lane1''"

definition hex_upper :: "nat \<Rightarrow> nat \<Rightarrow> string" where
  "hex_upper w n = pad_zero w (show_radix 16 n)"

definition shard_for_phase1_account :: "AccountId \<Rightarrow> string + DevLane" where
  "shard_for_phase1_account aid =
     (let raw = domain_of_account_id aid; code = hex_upper 4 (unat raw)
      in case category_for_raw (ucast raw) of
           Some Regulatory \<Rightarrow> Inr Lane0
         | Some Sector \<Rightarrow> Inr Lane1
         | Some Reserve \<Rightarrow> Inl (''account domain 0x'' @ code @ '' is reserve-class and not routable on dev shard map'')
         | Some WitnessDomain \<Rightarrow> Inl (''account domain 0x'' @ code @ '' is witness-class and not routable on dev shard map'')
         | None \<Rightarrow> Inl (''account domain 0x'' @ code @ '' is unknown / not indexed for Phase1 shard map''))"

definition receiver_for_route :: "SignedTx \<Rightarrow> AccountId option" where
  "receiver_for_route tx = (case body tx of
     Transfer t _ _ \<Rightarrow> Some t
   | BurnMark _ (Some t) \<Rightarrow> Some t
   | _ \<Rightarrow> None)"

section \<open>Recipients\<close>

definition bad_request :: "string + 'a \<Rightarrow> api_err + 'a" where
  "bad_request r = (case r of Inl e \<Rightarrow> Inl (BAD_REQUEST, EText e) | Inr x \<Rightarrow> Inr x)"

definition enforce_recipient_prefilter :: "SignedTx \<Rightarrow> api_err + unit" where
  "enforce_recipient_prefilter tx = (case body tx of
     Transfer t _ _ \<Rightarrow> bad_request (validate_recipient_address_policy t)
   | Export t _ _ _ \<Rightarrow> bad_request (validate_recipient_address_policy t)
   | BurnMark _ (Some t) \<Rightarrow> bad_request (validate_recipient_address_policy t)
   | _ \<Rightarrow> Inr ())"

definition enforce_recipient_init_gate :: "extlib \<Rightarrow> SignedTx \<Rightarrow> State \<Rightarrow> api_err + unit" where
  "enforce_recipient_init_gate ext tx st =
     (let sender = computed_account_id ext tx
      in case (case body tx of
                 Transfer t _ _ \<Rightarrow> if same_hi_domain sender t then Some t else None
               | Import t _ _ \<Rightarrow> Some t
               | _ \<Rightarrow> None) of
           None \<Rightarrow> Inr ()
         | Some t \<Rightarrow>
             if t = sender then Inr ()
             else (case fmlookup (accounts st) t of
                None \<Rightarrow> Inl (BAD_REQUEST, EText ''recipient account not found; recipient must run tx-init first'')
              | Some acc \<Rightarrow>
                  if \<not> initialized acc
                  then Inl (BAD_REQUEST, EText ''recipient account not initialized; recipient must run tx-init first'')
                  else Inr ()))"

section \<open>Provenance of an IMPORT\<close>

definition DUPLICATE_IMPORT_ERR_TEXT :: string where
  "DUPLICATE_IMPORT_ERR_TEXT = ''duplicate import: export_id already consumed''"

definition enforce_import_provenance_prefilter :: "SignedTx \<Rightarrow> State \<Rightarrow> CrossShardLedger \<Rightarrow> api_err + unit" where
  "enforce_import_provenance_prefilter tx st cross_shard = (case body tx of
     Import t amount eid \<Rightarrow>
       if (case import_fee tx of Some f \<Rightarrow> f | None \<Rightarrow> 0) < MIN_IMPORT_FEE_UNITS
       then Inl (BAD_REQUEST, ETxReject ''preflight'' ImportFeeTooLow ''import fee is below MIN_IMPORT_FEE_UNITS'')
       else if eid |\<in>| imported_set st then Inl (CONFLICT, EText DUPLICATE_IMPORT_ERR_TEXT)
       else (case import_provenance tx of
          Some prov \<Rightarrow>
            if pv_to prov \<noteq> t \<or> pv_amount prov \<noteq> amount \<or> hi_byte (pv_target_domain prov) \<noteq> hi_byte (domain_code tx)
            then Inl (BAD_REQUEST, EText ''invalid import: embedded provenance mismatch'')
            else (case fmlookup (exported_registry st) eid of
               Some existing \<Rightarrow>
                 if existing \<noteq> prov then Inl (BAD_REQUEST, EText ''invalid import: export provenance conflict'')
                 else Inr ()
             | None \<Rightarrow> (case fmlookup cross_shard eid of
                 None \<Rightarrow> Inl (BAD_REQUEST, EText ''invalid import: export_id is not known and embedded provenance is untrusted'')
               | Some f \<Rightarrow>
                   if \<not> (cf_status f = FRegistered \<or> cf_status f = FImported) \<or> cf_to f \<noteq> pv_to prov
                      \<or> cf_amount f \<noteq> pv_amount prov \<or> cf_target_domain_hi f \<noteq> hi_byte (domain_code tx)
                   then Inl (BAD_REQUEST, EText ''invalid import: embedded provenance mismatch'')
                   else Inr ()))
        | None \<Rightarrow> (case fmlookup (exported_registry st) eid of
            Some expected \<Rightarrow>
              if pv_to expected \<noteq> t \<or> pv_amount expected \<noteq> amount \<or> hi_byte (pv_target_domain expected) \<noteq> hi_byte (domain_code tx)
              then Inl (BAD_REQUEST, EText ''invalid import: export provenance mismatch'')
              else Inr ()
          | None \<Rightarrow> Inl (BAD_REQUEST, EText ''invalid import: export_id is not known and embedded provenance is missing'')))
   | _ \<Rightarrow> Inr ())"

section \<open>Routing\<close>

definition other_shard_text :: "DevLane \<Rightarrow> DevLane \<Rightarrow> string" where
  "other_shard_text sender_shard local_shard = ''tx belongs to process shard '' @ lane_str sender_shard @
     '' by sender Phase1 domain class, but node runs shard '' @ lane_str local_shard"

text \<open>The recipient check in the guard covers EXPORT, IMPORT and a burn with a beneficiary.\<close>

definition guard_recipient :: "SignedTx \<Rightarrow> api_err + unit" where
  "guard_recipient tx = (case body tx of
     Export t _ _ _ \<Rightarrow> bad_request (validate_recipient_address_policy t)
   | Import t _ _ \<Rightarrow> bad_request (validate_recipient_address_policy t)
   | BurnMark _ (Some t) \<Rightarrow> bad_request (validate_recipient_address_policy t)
   | _ \<Rightarrow> Inr ())"

definition enforce_local_tx_guards :: "extlib \<Rightarrow> SignedTx \<Rightarrow> DevLane \<Rightarrow> u8 \<Rightarrow> api_err + unit" where
  "enforce_local_tx_guards ext tx local_shard local_domain_hi =
     (let sender = computed_account_id ext tx; sender_hi = hi_byte (domain_of_account_id sender)
      in if sender_hi \<noteq> local_domain_hi
         then Inl (CONFLICT, EText (''tx sender domain_hi=0x'' @ hex_upper 2 (unat sender_hi) @
                '' does not match node domain_hi=0x'' @ hex_upper 2 (unat local_domain_hi)))
         else case bad_request (shard_for_phase1_account sender) of
           Inl e \<Rightarrow> Inl e
         | Inr sender_shard \<Rightarrow> (case guard_recipient tx of
             Inl e \<Rightarrow> Inl e
           | Inr _ \<Rightarrow>
               if (case body tx of Export _ _ _ _ \<Rightarrow> True | Import _ _ _ \<Rightarrow> True | _ \<Rightarrow> False) then Inr ()
               else if sender_shard \<noteq> local_shard then Inl (CONFLICT, EText (other_shard_text sender_shard local_shard))
               else (case body tx of
                  Transfer t _ _ \<Rightarrow>
                    if hi_byte (domain_of_account_id t) \<noteq> sender_hi
                    then Inl (CONFLICT, EText ''cross-domain transfer is disabled on local tx path; use explicit EXPORT/IMPORT flow'')
                    else Inr ()
                | BurnMark _ (Some t) \<Rightarrow> (case bad_request (shard_for_phase1_account t) of
                    Inl e \<Rightarrow> Inl e
                  | Inr recv_shard \<Rightarrow>
                      if recv_shard \<noteq> sender_shard
                      then Inl (CONFLICT, EText (''cross-shard burn beneficiary is disabled on local tx path; use explicit EXPORT/IMPORT '' @
                        ''flow''))
                      else Inr ())
                | _ \<Rightarrow> Inr ())))"

section \<open>What passes\<close>

text \<open>The provenance a node has for an export: the chain's registry or, for an IMPORT that carries its own, a
  fact that was registered or imported.\<close>

definition known_provenance :: "State \<Rightarrow> CrossShardLedger \<Rightarrow> SignedTx \<Rightarrow> AccountId \<Rightarrow> u128 \<Rightarrow> bytes32 \<Rightarrow> bool" where
  "known_provenance st cross_shard tx t amount eid \<longleftrightarrow>
     (\<exists>pv. fmlookup (exported_registry st) eid = Some pv \<and> pv_to pv = t \<and> pv_amount pv = amount) \<or>
     import_provenance tx \<noteq> None \<and> (\<exists>f. fmlookup cross_shard eid = Some f \<and> cf_status f \<noteq> FExported \<and> cf_to f = t \<and> cf_amount f = amount)"

lemma import_prefilter_known:
  assumes "body tx = Import t amount eid" "enforce_import_provenance_prefilter tx st cross_shard = Inr ()"
  shows "eid |\<notin>| imported_set st" "known_provenance st cross_shard tx t amount eid"
    "MIN_IMPORT_FEE_UNITS \<le> (case import_fee tx of Some f \<Rightarrow> f | None \<Rightarrow> 0)"
  using assms
  by (auto simp: enforce_import_provenance_prefilter_def known_provenance_def not_less split: if_splits option.splits)

text \<open>Under the guards a transfer stays in the node's domain and lane.\<close>

lemma guarded_transfer:
  assumes "body tx = Transfer t amount fee" "enforce_local_tx_guards ext tx lane hi = Inr ()"
  shows "hi_byte (domain_of_account_id (computed_account_id ext tx)) = hi" "hi_byte (domain_of_account_id t) = hi"
    "shard_for_phase1_account (computed_account_id ext tx) = Inr lane"
  using assms
  by (auto simp: enforce_local_tx_guards_def bad_request_def Let_def split: if_splits sum.splits)

lemma guarded_sender: "enforce_local_tx_guards ext tx lane hi = Inr () \<Longrightarrow> hi_byte (domain_of_account_id (computed_account_id ext tx)) = hi"
  by (auto simp: enforce_local_tx_guards_def Let_def split: if_splits)

end
