(* ===== verification/Pwm_Tx_Api.thy ===== *)
theory Pwm_Tx_Api
  imports Pwm_Guards Pwm_Seal_Tick Pwm_Lease
begin

text \<open>
  The handler of POST /v1/tx (src/crates/pwmd/src/api/handlers_tx.rs), with the commit and rollback of
  src/crates/pwmd/src/api/common.rs.

  A handler is one atomic step on the node. What it gets from outside is in \<open>ApiEnv\<close>: the clocks, the
  outcome of writing a snapshot (\<open>None\<close>: no data file) and the outcome of relaying over HTTP to another
  node. \<open>None\<close> of the option is a panic. Log lines are left out.
\<close>

section \<open>The node behind the handlers\<close>

record ApiNode =
  ap_node :: SealNode
  ap_gates :: Gates
  ap_flow :: "FlowTraceRow list"
  ap_shard_enforced :: bool
  ap_domain_hi :: u8
  ap_lane :: DevLane
  ap_queues :: DispatchQueues
  ap_metrics :: QueueMetrics
  ap_incoming :: u64
  ap_lease :: LeaseRuntime

record ApiEnv =
  en_now_ms :: "u64 option"
  en_clock :: "u64 option"
  en_save :: "(string option \<times> (string + unit)) option"
  en_relay :: "api_err + unit"
  en_wait_ms :: u64
  en_validated_cap :: nat

definition clock_err :: api_err where
  "clock_err = (INTERNAL_SERVER_ERROR, EText ''system clock error: second time provided was later than self'')"

record CommitBak =
  bk_blocks :: "Block list"
  bk_canonical_h :: u64
  bk_st :: State
  bk_roaming_pool :: RoamingPool
  bk_cross_shard :: CrossShardLedger
  bk_recent_flow :: "FlowTraceRow list"

definition take_bak :: "ApiNode \<Rightarrow> CommitBak" where
  "take_bak n = \<lparr> bk_blocks = blocks (sn_chain (ap_node n)), bk_canonical_h = tip_h (sn_chain (ap_node n)),
     bk_st = ch_st (sn_chain (ap_node n)), bk_roaming_pool = sn_roaming_pool (ap_node n),
     bk_cross_shard = sn_cross_shard (ap_node n), bk_recent_flow = ap_flow n \<rparr>"

definition rollback_commit :: "CommitBak \<Rightarrow> ApiNode \<Rightarrow> ApiNode" where
  "rollback_commit bak n =
     (let c = set_canon_h (bk_canonical_h bak) ((sn_chain (ap_node n))\<lparr>blocks := bk_blocks bak\<rparr>)
      in n\<lparr>ap_node := (ap_node n)\<lparr>sn_chain := c\<lparr>ch_st := bk_st bak\<rparr>, sn_roaming_pool := bk_roaming_pool bak,
             sn_cross_shard := bk_cross_shard bak\<rparr>,
           ap_flow := bk_recent_flow bak\<rparr>)"

definition acct_view :: "State \<Rightarrow> AccountId \<Rightarrow> u128 \<times> u64" where
  "acct_view st aid = (case fmlookup (accounts st) aid of Some x \<Rightarrow> (balance_pwm x, nonce x) | None \<Rightarrow> (0, 0))"

section \<open>Small steps\<close>

abbreviation api_chain :: "ApiNode \<Rightarrow> Chain" where
  "api_chain n \<equiv> sn_chain (ap_node n)"

definition count_reject :: "api_err \<Rightarrow> ApiNode \<Rightarrow> (api_err + unit) \<times> ApiNode" where
  "count_reject e n = (Inl e, n\<lparr>ap_node := (ap_node n)\<lparr>sn_rejected := sn_rejected (ap_node n) + 1\<rparr>\<rparr>)"

definition api_flow :: "extlib \<Rightarrow> SignedTx \<Rightarrow> u64 \<Rightarrow> string \<Rightarrow> string option \<Rightarrow> ApiNode \<Rightarrow> ApiNode" where
  "api_flow ext tx h kind note_text n = n\<lparr>ap_flow := push_tx_flow ext tx h kind note_text (ap_flow n)\<rparr>"

definition with_pool :: "RoamingPool \<Rightarrow> ApiNode \<Rightarrow> ApiNode" where
  "with_pool p n = n\<lparr>ap_node := (ap_node n)\<lparr>sn_roaming_pool := p\<rparr>\<rparr>"

definition with_chain :: "Chain \<Rightarrow> ApiNode \<Rightarrow> ApiNode" where
  "with_chain c n = n\<lparr>ap_node := (ap_node n)\<lparr>sn_chain := c\<rparr>\<rparr>"

definition with_init :: "InitState \<Rightarrow> ApiNode \<Rightarrow> ApiNode" where
  "with_init s n = n\<lparr>ap_gates := (ap_gates n)\<lparr>gt_init := s\<rparr>\<rparr>"

definition api_record :: "extlib \<Rightarrow> SignedTx \<Rightarrow> u64 \<Rightarrow> ApiNode \<Rightarrow> ApiNode option" where
  "api_record ext tx h n = map_option (\<lambda>m. n\<lparr>ap_node := m\<rparr>) (record_cross_shard_tx ext tx h (ap_node n))"

fun readiness_hint :: "ReadinessCode \<Rightarrow> string" where
  "readiness_hint MissingPreflight = ''Run /v1/export-readiness for this exact EXPORT payload before submit.''"
| "readiness_hint StalePreflight = ''Preflight TTL expired; run /v1/export-readiness again and resubmit.''"
| "readiness_hint BindingMismatch = ''EXPORT payload changed since preflight; run /v1/export-readiness again with final payload.''"
| "readiness_hint NonceMismatch = ''Source nonce changed after preflight; regenerate EXPORT and run /v1/export-readiness again.''"
| "readiness_hint HeightMismatch = ''Source chain tip is below preflight height (inconsistent); reload or retry readiness.''"

definition readiness_flow_note :: "ReadinessCode \<Rightarrow> string" where
  "readiness_flow_note code = ''code='' @ readiness_code_str code @ ''; hint='' @ readiness_hint code"

section \<open>The worker path\<close>

text \<open>The job goes through the queue, a worker takes it and the handler waits for the reply.\<close>

definition worker_reads :: "ApiNode \<Rightarrow> WorkerReads" where
  "worker_reads n = \<lparr> wr_snapshot = sn_snapshot (ap_node n), wr_hot_index = sn_hot_index (ap_node n),
     wr_cfg = ch_cfg (api_chain n), wr_tip_height = sn_worker_tip (ap_node n) \<rparr>"

fun worker_reject_status :: "TxRejectReason \<Rightarrow> StatusCode" where
  "worker_reject_status (ShapeInvalid e) = BAD_REQUEST"
| "worker_reject_status _ = UNPROCESSABLE_ENTITY"

fun worker_reject_msg :: "TxRejectReason \<Rightarrow> ErrBody" where
  "worker_reject_msg (ShapeInvalid e) = ETxReject ''preflight'' e ''tx validation failed''"
| "worker_reject_msg WPolicyDenied = EText ''policy denied''"
| "worker_reject_msg (PrecheckFailed (PcText r)) = EText (''precheck failed: '' @ r)"
| "worker_reject_msg (PrecheckFailed (PcTx e)) = ETx ''precheck failed: '' e"
| "worker_reject_msg (PrecheckFailed PcClock) = EText ''precheck failed: system clock error''"
| "worker_reject_msg StaleDuplicate = EText ''stale duplicate''"

definition serve_job :: "SignedTx BoundedQueue \<Rightarrow> SignedTx BoundedQueue" where
  "serve_job q = q\<lparr>bq_items := butlast (bq_items q), bq_dequeued := bq_dequeued q + 1\<rparr>"

definition run_worker_precheck :: "extlib \<Rightarrow> ApiEnv \<Rightarrow> SignedTx \<Rightarrow> ApiNode \<Rightarrow> ((api_err + unit) \<times> ApiNode) option" where
  "run_worker_precheck ext env tx n =
     (case start_dispatch (ap_metrics n) of
        (None, _) \<Rightarrow> None
      | (Some depth, m) \<Rightarrow> (case dispatch (ClientTx tx) (ap_queues n) of
          (Inl _, qs) \<Rightarrow>
            Some (count_reject (INSUFFICIENT_STORAGE, EText ''tx worker queue is full'') (n\<lparr>ap_metrics := cancel_dispatch m, ap_queues := qs\<rparr>))
        | (Inr _, qs) \<Rightarrow>
            let m = commit_dispatch depth m; m = m\<lparr>qm_enqueued := qm_enqueued m + 1\<rparr>;
                n = n\<lparr>ap_queues := qs\<lparr>dq_client_tx := serve_job (dq_client_tx qs)\<rparr>\<rparr>
            in (case handle_client ext (en_clock env) (en_wait_ms env) tx (worker_reads n) (en_validated_cap env) (sn_validated (ap_node n)) m of
                  None \<Rightarrow> None
                | Some (reply, validated, m) \<Rightarrow>
                    let n = n\<lparr>ap_metrics := m, ap_node := (ap_node n)\<lparr>sn_validated := validated\<rparr>\<rparr>
                    in (case reply of
                          Inr _ \<Rightarrow> Some (Inr (), n)
                        | Inl reason \<Rightarrow> Some (count_reject (worker_reject_status reason, worker_reject_msg reason) n)))))"

section \<open>Sealing in the handler\<close>

text \<open>The bookkeeping after the block of an EXPORT or an IMPORT.\<close>

definition after_seal :: "extlib \<Rightarrow> SignedTx \<Rightarrow> u64 \<Rightarrow> ApiNode \<Rightarrow> ApiNode option" where
  "after_seal ext tx h n = (case body tx of
     Export _ _ _ _ \<Rightarrow> map_option (\<lambda>n.
       let n = api_flow ext tx h ''exported'' (Some ''export registry updated'') n
       in case Option.bind (export_id ext tx) (\<lambda>eid. get_by_export_id eid (sn_roaming_pool (ap_node n))) of
            None \<Rightarrow> n
          | Some i \<Rightarrow> api_flow ext tx (tip_h (api_chain n)) ''roaming_status'' (Some ''intent marked exported'')
              (with_pool (mark_exported (ri_intent_id i) (sn_roaming_pool (ap_node n))) n)) (api_record ext tx h n)
   | Import _ _ eid \<Rightarrow> map_option (\<lambda>n.
       let n = api_flow ext tx h ''imported'' (Some ''import replay guard updated'') n;
           n = with_pool (mark_import_by_export eid (sn_roaming_pool (ap_node n))) n
       in api_flow ext tx (tip_h (api_chain n)) ''roaming_status'' (Some ''intent marked imported'') n) (api_record ext tx h n)
   | _ \<Rightarrow> Some n)"

definition count_sealed :: "ApiNode \<Rightarrow> ApiNode" where
  "count_sealed n = n\<lparr>ap_node := (ap_node n)\<lparr>sn_sealed := sn_sealed (ap_node n) + 1\<rparr>\<rparr>"

definition direct_commit :: "extlib \<Rightarrow> codecs \<Rightarrow> ApiEnv \<Rightarrow> SignedTx \<Rightarrow> ApiNode \<Rightarrow> ((api_err + unit) \<times> ApiNode) option" where
  "direct_commit ext enc env tx n0 =
     (let bak = take_bak n0; n = api_flow ext tx (tip_h (api_chain n0)) ''accepted'' None n0
      in case seal ext enc (en_clock env) [tx] (api_chain n) of
           Panicked \<Rightarrow> None
         | Failed (e, _) c \<Rightarrow> Some (count_reject (INTERNAL_SERVER_ERROR, ESeal ''seal after roaming tx failed: '' e)
             (rollback_commit bak (with_chain c n)))
         | Done c \<Rightarrow>
             let h = tip_h c; n = api_flow ext tx h ''applied'' (Some ''sealed with tx payload'') (with_chain c n)
             in Option.bind (after_seal ext tx h n) (\<lambda>n.
                  let n = with_pool (snd (expire_by_height h (sn_roaming_pool (ap_node n)))) n; n = api_flow ext tx h ''sealed'' None n
                  in case en_save env of
                       Some (_, Inl e) \<Rightarrow> Some (count_reject
                         (INTERNAL_SERVER_ERROR, EText (''tx commit rolled back: snapshot save failed: '' @ e)) (rollback_commit bak n))
                     | Some (path, Inr _) \<Rightarrow> Some (Inr (), with_init (init_ready path) (count_sealed n))
                     | None \<Rightarrow> Some (Inr (), count_sealed n)))"

text \<open>The branch of EXPORT, IMPORT and CLAIM.\<close>

definition direct_tx :: "extlib \<Rightarrow> codecs \<Rightarrow> ApiEnv \<Rightarrow> SignedTx \<Rightarrow> u64 \<Rightarrow> ApiNode \<Rightarrow> ((api_err + unit) \<times> ApiNode) option" where
  "direct_tx ext enc env tx now_h n =
     (let ready = (case body tx of
            Export _ _ _ _ \<Rightarrow> (case en_now_ms env of
              None \<Rightarrow> Inl (clock_err, n)
            | Some now_ms \<Rightarrow>
                (case consume_readiness ext tx now_ms (snd (acct_view (ch_st (api_chain n)) (computed_account_id ext tx))) now_h
                        (sn_roaming_pool (ap_node n)) of
                   (Inl code, p) \<Rightarrow> Inl ((CONFLICT, EReadiness code),
                     api_flow ext tx now_h ''rejected:export_readiness'' (Some (readiness_flow_note code)) (with_pool p n))
                 | (Inr _, p) \<Rightarrow> Inr (with_pool p n)))
          | _ \<Rightarrow> Inr n)
      in case ready of
           Inl (e, n) \<Rightarrow> Some (count_reject e n)
         | Inr n \<Rightarrow> (case validate_tx_shape ext tx of
             Inl err \<Rightarrow> Some (count_reject (BAD_REQUEST, ETxReject ''preflight'' err ''tx validation failed'') n)
           | Inr _ \<Rightarrow> direct_commit ext enc env tx n))"

section \<open>POST /v1/tx\<close>

definition is_foreign_import :: "SignedTx \<Rightarrow> u8 \<Rightarrow> bool" where
  "is_foreign_import tx local_hi = (case body tx of
     Import t _ _ \<Rightarrow> hi_byte (domain_of_account_id t) \<noteq> local_hi | _ \<Rightarrow> False)"

definition direct_sealed :: "TxBody \<Rightarrow> bool" where
  "direct_sealed b = (case b of Export _ _ _ _ \<Rightarrow> True | Import _ _ _ \<Rightarrow> True | ClaimIPv4Batch _ _ _ \<Rightarrow> True | _ \<Rightarrow> False)"

text \<open>The checks before the transaction is committed or queued; \<open>Inr\<close> is a transaction to go on with.\<close>

definition tx_checks :: "extlib \<Rightarrow> SignedTx \<Rightarrow> ApiNode \<Rightarrow> api_err + unit" where
  "tx_checks ext tx n =
     (case (if ap_shard_enforced n then enforce_local_tx_guards ext tx (ap_lane n) (ap_domain_hi n) else Inr ()) of
        Inl e \<Rightarrow> Inl e
      | Inr _ \<Rightarrow> (case enforce_import_provenance_prefilter tx (ch_st (api_chain n)) (sn_cross_shard (ap_node n)) of
          Inl e \<Rightarrow> Inl e
        | Inr _ \<Rightarrow> (case enforce_recipient_init_gate ext tx (ch_st (api_chain n)) of
            Inl e \<Rightarrow> Inl e
          | Inr _ \<Rightarrow>
              if lock_conflict_for ext tx (sn_roaming_pool (ap_node n)) \<noteq> None then Inl (CONFLICT, EText ACTIVE_LOCK_ERR_TEXT)
              else Inr ())))"

definition v1_tx :: "extlib \<Rightarrow> codecs \<Rightarrow> ApiEnv \<Rightarrow> SignedTx \<Rightarrow> ApiNode \<Rightarrow> ((api_err + unit) \<times> ApiNode) option" where
  "v1_tx ext enc env tx n0 =
     (let n = n0\<lparr>ap_incoming := ap_incoming n0 + 1\<rparr>
      in case ensure_user_tx_allowed (ap_gates n) of
           Inl e \<Rightarrow> Some (count_reject e n)
         | Inr _ \<Rightarrow> (case enforce_recipient_prefilter tx of
             Inl e \<Rightarrow> Some (count_reject e n)
           | Inr _ \<Rightarrow>
               if ap_shard_enforced n \<and> is_foreign_import tx (ap_domain_hi n)
               then (case en_relay env of Inr _ \<Rightarrow> Some (Inr (), n) | Inl e \<Rightarrow> Some (count_reject e n))
               else (case tx_checks ext tx n of
                 Inl e \<Rightarrow> Some (count_reject e n)
               | Inr _ \<Rightarrow>
                   if direct_sealed (body tx) then direct_tx ext enc env tx (tip_h (api_chain n)) n
                   else run_worker_precheck ext env tx n)))"

end
