(* ===== verification/Pwm_Api_Facts.thy ===== *)
theory Pwm_Api_Facts
  imports Pwm_Tx_Api Pwm_Facts_Inv
begin

text \<open>
  What a submission leaves behind. A refused one gives back the node it found, except for its own
  counters, the preflight it consumed and the row it traced; an accepted EXPORT, IMPORT or CLAIM is in
  a block of its own.
\<close>

section \<open>What the commit may touch\<close>

text \<open>The parts of the node that \<open>rollback_commit\<close> knows how to restore.\<close>

definition put_commit :: "Chain \<Rightarrow> RoamingPool \<Rightarrow> CrossShardLedger \<Rightarrow> FlowTraceRow list \<Rightarrow> ApiNode \<Rightarrow> ApiNode" where
  "put_commit c p l f n = n\<lparr>ap_node := (ap_node n)\<lparr>sn_chain := c, sn_roaming_pool := p, sn_cross_shard := l\<rparr>, ap_flow := f\<rparr>"

definition touches_commit :: "ApiNode \<Rightarrow> ApiNode \<Rightarrow> bool" where
  "touches_commit n m \<longleftrightarrow> (\<forall>c p l f. put_commit c p l f m = put_commit c p l f n)"

lemma put_commit_steps [simp]:
  "put_commit c p l f (api_flow ext tx h kind note_text m) = put_commit c p l f m"
  "put_commit c p l f (with_pool q m) = put_commit c p l f m"
  "put_commit c p l f (with_chain d m) = put_commit c p l f m"
  by (simp_all add: put_commit_def api_flow_def with_pool_def with_chain_def)

lemma api_chain_steps [simp]:
  "api_chain (api_flow ext tx h kind note_text m) = api_chain m" "api_chain (with_pool q m) = api_chain m" "api_chain (with_chain d m) = d"
  by (simp_all add: api_flow_def with_pool_def with_chain_def)

lemma put_commit_record: "api_record ext tx h m = Some m' \<Longrightarrow> put_commit c p l f m' = put_commit c p l f m \<and> api_chain m' = api_chain m"
  by (auto simp: api_record_def record_cross_shard_tx_def put_commit_def Let_def split: TxBody.splits)

lemma put_commit_after_seal:
  assumes "after_seal ext tx h m = Some m'"
  shows "put_commit c p l f m' = put_commit c p l f m \<and> api_chain m' = api_chain m"
proof -
  show ?thesis
  proof (cases "api_record ext tx h m")
    case None
    with assms show ?thesis by (auto simp: after_seal_def split: TxBody.splits)
  next
    case (Some m1)
    then have "put_commit c p l f m1 = put_commit c p l f m" "api_chain m1 = api_chain m" by (simp_all add: put_commit_record)
    with assms Some show ?thesis by (auto simp: after_seal_def Let_def split: TxBody.splits option.splits)
  qed
qed

lemma put_commit_same: "put_commit (api_chain n) (sn_roaming_pool (ap_node n)) (sn_cross_shard (ap_node n)) (ap_flow n) n = n"
  by (simp add: put_commit_def)

lemma put_commit_keeps:
  assumes "put_commit c p l f m = put_commit c p l f n"
  shows "ap_lease m = ap_lease n" "ap_gates m = ap_gates n" "ap_incoming m = ap_incoming n" "sn_sealed (ap_node m) = sn_sealed (ap_node n)"
    "sn_rejected (ap_node m) = sn_rejected (ap_node n)" "sn_validated (ap_node m) = sn_validated (ap_node n)"
    "sn_pool (ap_node m) = sn_pool (ap_node n)" "sn_snapshot (ap_node m) = sn_snapshot (ap_node n)"
proof -
  have "ap_lease (put_commit c p l f k) = ap_lease k" "ap_gates (put_commit c p l f k) = ap_gates k"
    "ap_incoming (put_commit c p l f k) = ap_incoming k" "sn_sealed (ap_node (put_commit c p l f k)) = sn_sealed (ap_node k)"
    "sn_rejected (ap_node (put_commit c p l f k)) = sn_rejected (ap_node k)"
    "sn_validated (ap_node (put_commit c p l f k)) = sn_validated (ap_node k)"
    "sn_pool (ap_node (put_commit c p l f k)) = sn_pool (ap_node k)"
    "sn_snapshot (ap_node (put_commit c p l f k)) = sn_snapshot (ap_node k)" for k
    by (simp_all add: put_commit_def)
  with assms show "ap_lease m = ap_lease n" "ap_gates m = ap_gates n" "ap_incoming m = ap_incoming n" "sn_sealed (ap_node m) = sn_sealed (ap_node n)"
    "sn_rejected (ap_node m) = sn_rejected (ap_node n)" "sn_validated (ap_node m) = sn_validated (ap_node n)"
    "sn_pool (ap_node m) = sn_pool (ap_node n)" "sn_snapshot (ap_node m) = sn_snapshot (ap_node n)" by metis+
qed

lemma rollback_restores:
  assumes "touches_commit n m" "ch_cfg (api_chain m) = ch_cfg (api_chain n)" "val_sks (api_chain m) = val_sks (api_chain n)"
    "seal_time_mode (api_chain m) = seal_time_mode (api_chain n)"
  shows "rollback_commit (take_bak n) m = n"
proof -
  let ?c = "(api_chain m)\<lparr>blocks := blocks (api_chain n), canonical_h := canonical_h (api_chain n), ch_st := ch_st (api_chain n)\<rparr>"
  have "?c = api_chain n" using assms(2-4) by (intro Chain.equality) simp_all
  moreover have "rollback_commit (take_bak n) m = put_commit ?c (sn_roaming_pool (ap_node n)) (sn_cross_shard (ap_node n)) (ap_flow n) m"
    by (simp add: rollback_commit_def take_bak_def set_canon_h_def tip_h_def put_commit_def Let_def)
  ultimately show ?thesis using assms(1) by (simp add: touches_commit_def put_commit_same)
qed

lemma seal_frame:
  assumes "seal ext enc clock block_txs c = Done c'"
  shows "ch_cfg c' = ch_cfg c" "val_sks c' = val_sks c" "seal_time_mode c' = seal_time_mode c"
  using assms unfolding seal_def by (auto elim!: seal_Done)

lemma seal_Failed: "seal ext enc clock block_txs c = Failed (e, ret) c' \<Longrightarrow> c' = c"
  by (auto simp: seal_def seal_entries_def Let_def split: option.splits sum.splits prod.splits outcome.splits if_splits)

section \<open>The commit of one transaction\<close>

text \<open>The node right before the snapshot is written.\<close>

lemma direct_commit_cases:
  assumes "direct_commit ext enc env tx n = Some (r, n')"
  obtains e ret m where "seal ext enc (en_clock env) [tx] (api_chain n) = Failed (e, ret) (api_chain n)"
      "(r, n') = count_reject (INTERNAL_SERVER_ERROR, ESeal ''seal after roaming tx failed: '' e) n"
  | c m where "seal ext enc (en_clock env) [tx] (api_chain n) = Done c" "touches_commit n m" "api_chain m = c"
      "(r, n') = (case en_save env of
                       Some (_, Inl e) \<Rightarrow> count_reject
                         (INTERNAL_SERVER_ERROR, EText (''tx commit rolled back: snapshot save failed: '' @ e)) n
                     | Some (path, Inr _) \<Rightarrow> (Inr (), with_init (init_ready path) (count_sealed m))
                     | None \<Rightarrow> (Inr (), count_sealed m))"
proof (cases "seal ext enc (en_clock env) [tx] (api_chain n)")
  case Panicked
  with assms show ?thesis by (simp add: direct_commit_def Let_def api_flow_def)
next
  case (Failed er c)
  obtain se ret where er: "er = (se, ret)" by (cases er)
  let ?m = "with_chain c (api_flow ext tx (tip_h (api_chain n)) ''accepted'' None n)"
  have "rollback_commit (take_bak n) ?m = n"
    using seal_Failed [OF Failed [unfolded er]] by (intro rollback_restores) (simp_all add: touches_commit_def)
  with assms Failed er seal_Failed that(1) show ?thesis by (auto simp: direct_commit_def Let_def api_flow_def)
next
  case (Done c)
  let ?n2 = "api_flow ext tx (tip_h c) ''applied'' (Some ''sealed with tx payload'')
    (with_chain c (api_flow ext tx (tip_h (api_chain n)) ''accepted'' None n))"
  have c2: "api_chain ?n2 = c" by (simp add: api_flow_def with_chain_def)
  from Done assms obtain n3 where n3: "after_seal ext tx (tip_h c) ?n2 = Some n3"
    by (auto simp: direct_commit_def Let_def api_flow_def split: Option.bind_splits)
  let ?n4 = "api_flow ext tx (tip_h c) ''sealed'' None (with_pool (snd (expire_by_height (tip_h c) (sn_roaming_pool (ap_node n3)))) n3)"
  have "touches_commit n ?n4" using put_commit_after_seal [OF n3] by (simp add: touches_commit_def)
  then have t: "touches_commit n ?n4" "api_chain ?n4 = c"
    using put_commit_after_seal [OF n3] c2 by (simp_all add: api_flow_def with_pool_def)
  have undo: "rollback_commit (take_bak n) ?n4 = n"
    using seal_frame [OF Done] t by (intro rollback_restores) simp_all
  have eq: "(r, n') = (case en_save env of
                       Some (_, Inl e) \<Rightarrow> count_reject
                         (INTERNAL_SERVER_ERROR, EText (''tx commit rolled back: snapshot save failed: '' @ e)) (rollback_commit (take_bak n) ?n4)
                     | Some (path, Inr _) \<Rightarrow> (Inr (), with_init (init_ready path) (count_sealed ?n4))
                     | None \<Rightarrow> (Inr (), count_sealed ?n4))"
    using assms Done n3 by (simp add: direct_commit_def Let_def split: option.splits sum.splits prod.splits)
  from eq [unfolded undo] show ?thesis by (rule that(2) [OF Done t])
qed

text \<open>The commit comes to an end: only the seal itself can panic.\<close>

lemma upsert_ends: "ledger_ok l \<Longrightarrow> \<exists>z a. upsert f l = Some (a, z)"
  using upsert_keeps [of l f] by auto

lemma api_record_ends: "ledger_ok (sn_cross_shard (ap_node m)) \<Longrightarrow> api_record ext tx h m \<noteq> None"
  by (auto simp: upsert_ends api_record_def record_cross_shard_tx_def record_export_def record_import_def Let_def
      split: TxBody.splits option.splits prod.splits)

lemma direct_commit_ends:
  assumes "ledger_ok (sn_cross_shard (ap_node n))" "seal ext enc (en_clock env) [tx] (api_chain n) = Done c" "en_save env = None"
  shows "\<exists>n'. direct_commit ext enc env tx n = Some (Inr (), n')"
proof -
  let ?m = "api_flow ext tx (tip_h c) ''applied'' (Some ''sealed with tx payload'')
    (with_chain c (api_flow ext tx (tip_h (api_chain n)) ''accepted'' None n))"
  have "sn_cross_shard (ap_node ?m) = sn_cross_shard (ap_node n)" by (simp add: api_flow_def with_chain_def)
  with assms(1) have "api_record ext tx (tip_h c) ?m \<noteq> None" by (intro api_record_ends) simp
  then have "after_seal ext tx (tip_h c) ?m \<noteq> None" by (auto simp: after_seal_def split: TxBody.splits)
  with assms(2,3) show ?thesis by (auto simp: direct_commit_def Let_def)
qed

lemma direct_commit_unsaved:
  assumes "ledger_ok (sn_cross_shard (ap_node n))" "seal ext enc (en_clock env) [tx] (api_chain n) = Done c" "en_save env = Some (p, Inl e)"
  shows "\<exists>er n'. direct_commit ext enc env tx n = Some (Inl er, n')"
proof -
  obtain n' where "direct_commit ext enc (env\<lparr>en_save := None\<rparr>) tx n = Some (Inr (), n')"
    using direct_commit_ends [of n ext enc "env\<lparr>en_save := None\<rparr>" tx c] assms(1,2) by auto
  with assms(2,3) show ?thesis by (auto simp: direct_commit_def Let_def count_reject_def split: Option.bind_splits)
qed

lemma direct_commit_error:
  assumes "direct_commit ext enc env tx n = Some (Inl e, n')"
  shows "n' = n\<lparr>ap_node := (ap_node n)\<lparr>sn_rejected := sn_rejected (ap_node n) + 1\<rparr>\<rparr>"
  using assms by (rule direct_commit_cases) (auto simp: count_reject_def split: option.splits sum.splits)

lemma direct_commit_sealed:
  assumes "direct_commit ext enc env tx n = Some (Inr u, n')"
  obtains c where "seal ext enc (en_clock env) [tx] (api_chain n) = Done c" "api_chain n' = c"
    "sn_sealed (ap_node n') = sn_sealed (ap_node n) + 1" "sn_rejected (ap_node n') = sn_rejected (ap_node n)"
    "ap_lease n' = ap_lease n" "sn_validated (ap_node n') = sn_validated (ap_node n)" "sn_pool (ap_node n') = sn_pool (ap_node n)"
    "sn_snapshot (ap_node n') = sn_snapshot (ap_node n)"
  using assms
proof (cases rule: direct_commit_cases)
  case (2 c m)
  from 2(2) have "put_commit c' p l f m = put_commit c' p l f n" for c' p l f by (simp add: touches_commit_def)
  note keeps = put_commit_keeps [OF this]
  from 2(4) have n': "n' = count_sealed m \<or> (\<exists>g. n' = with_init g (count_sealed m))"
    by (auto simp: count_reject_def split: option.splits sum.splits)
  from n' 2(3) keeps show ?thesis
    by (intro that [OF 2(1)]) (auto simp: count_sealed_def with_init_def)
qed (simp add: count_reject_def)

section \<open>A whole submission\<close>

text \<open>What a refused transaction may not change.\<close>

definition unchanged :: "ApiNode \<Rightarrow> ApiNode \<Rightarrow> bool" where
  "unchanged n m \<longleftrightarrow> api_chain m = api_chain n \<and> sn_cross_shard (ap_node m) = sn_cross_shard (ap_node n) \<and>
     sn_validated (ap_node m) = sn_validated (ap_node n) \<and> sn_pool (ap_node m) = sn_pool (ap_node n) \<and>
     rp_intents (sn_roaming_pool (ap_node m)) = rp_intents (sn_roaming_pool (ap_node n)) \<and>
     rp_active_locks (sn_roaming_pool (ap_node m)) = rp_active_locks (sn_roaming_pool (ap_node n)) \<and>
     ap_gates m = ap_gates n \<and> ap_lease m = ap_lease n \<and> sn_sealed (ap_node m) = sn_sealed (ap_node n)"

lemma unchanged_refl [simp]: "unchanged n n"
  by (simp add: unchanged_def)

lemma unchanged_trans: "unchanged n m \<Longrightarrow> unchanged m k \<Longrightarrow> unchanged n k"
  by (simp add: unchanged_def)

lemma count_reject_unchanged: "unchanged n (snd (count_reject e n)) \<and> fst (count_reject e n) = Inl e \<and>
    sn_rejected (ap_node (snd (count_reject e n))) = sn_rejected (ap_node n) + 1 \<and> ap_incoming (snd (count_reject e n)) = ap_incoming n"
  by (simp add: count_reject_def unchanged_def)

lemma consume_keeps:
  assumes "consume_readiness ext tx now_ms source_nonce source_height p = (r, p')"
  shows "rp_intents p' = rp_intents p" "rp_active_locks p' = rp_active_locks p" "rp_export_to_intent p' = rp_export_to_intent p"
  using assms by (auto simp: consume_readiness_def Let_def split: TxBody.splits option.splits if_splits)

text \<open>The part of the export branch before the commit.\<close>

definition commit_start :: "extlib \<Rightarrow> ApiEnv \<Rightarrow> SignedTx \<Rightarrow> u64 \<Rightarrow> ApiNode \<Rightarrow> ApiNode \<Rightarrow> bool" where
  "commit_start ext env tx now_h n m \<longleftrightarrow> validate_tx_shape ext tx = Inr () \<and>
     (m = n \<or> (\<exists>now_ms p. en_now_ms env = Some now_ms \<and> m = with_pool p n \<and>
        consume_readiness ext tx now_ms (snd (acct_view (ch_st (api_chain n)) (computed_account_id ext tx))) now_h
          (sn_roaming_pool (ap_node n)) = (Inr (), p)))"

lemma commit_start_unchanged:
  "commit_start ext env tx now_h n m \<Longrightarrow> unchanged n m \<and> sn_rejected (ap_node m) = sn_rejected (ap_node n) \<and> ap_incoming m = ap_incoming n"
  by (auto simp: commit_start_def unchanged_def with_pool_def consume_keeps)

lemma direct_tx_cases:
  assumes "direct_tx ext enc env tx now_h n = Some (r, n')"
  obtains e where "r = Inl e" "unchanged n n'" "sn_rejected (ap_node n') = sn_rejected (ap_node n) + 1" "ap_incoming n' = ap_incoming n"
  | m where "commit_start ext env tx now_h n m" "direct_commit ext enc env tx m = Some (r, n')"
proof -
  have flow: "unchanged n (api_flow ext tx h k t (with_pool p n))" "unchanged n (with_pool p n)"
    if "rp_intents p = rp_intents (sn_roaming_pool (ap_node n))" "rp_active_locks p = rp_active_locks (sn_roaming_pool (ap_node n))" for h k t p
    using that by (simp_all add: unchanged_def api_flow_def with_pool_def)
  show thesis
  proof (cases "\<exists>t d a f. body tx = Export t d a f")
    case False
    then have "(case body tx of Export t d a f \<Rightarrow> x | _ \<Rightarrow> y) = y" for x y :: "(api_err \<times> ApiNode) + ApiNode" by (auto split: TxBody.split)
    with assms show thesis
      by (auto simp: direct_tx_def Let_def commit_start_def count_reject_def split: sum.splits
          intro: that(1) that(2) simp: unchanged_def)
  next
    case True
    then obtain t d a f where b: "body tx = Export t d a f" by blast
    show thesis
    proof (cases "en_now_ms env")
      case None
      with assms b show thesis by (auto simp: direct_tx_def count_reject_def unchanged_def intro!: that(1))
    next
      case (Some now_ms)
      obtain q p where q: "consume_readiness ext tx now_ms (snd (acct_view (ch_st (api_chain n)) (computed_account_id ext tx))) now_h
          (sn_roaming_pool (ap_node n)) = (q, p)" by fastforce
      note keep = consume_keeps [OF q]
      show thesis
      proof (cases q)
        case (Inl code)
        with assms b Some q have "(r, n') = count_reject (CONFLICT, EReadiness code)
            (api_flow ext tx now_h ''rejected:export_readiness'' (Some (readiness_flow_note code)) (with_pool p n))"
          by (simp add: direct_tx_def)
        with flow(1) keep show thesis
          by (intro that(1)) (auto simp: count_reject_def unchanged_def api_flow_def with_pool_def)
      next
        case (Inr u)
        show thesis
        proof (cases "validate_tx_shape ext tx")
          case (Inl err)
          with assms b Some q Inr have "(r, n') = count_reject (BAD_REQUEST, ETxReject ''preflight'' err ''tx validation failed'') (with_pool p n)"
            by (simp add: direct_tx_def)
          with keep show thesis by (intro that(1)) (auto simp: count_reject_def unchanged_def with_pool_def)
        next
          case (Inr u')
          with assms b Some q \<open>q = Inr u\<close> that(2) [of "with_pool p n"] show thesis
            by (auto simp: direct_tx_def commit_start_def)
        qed
      qed
    qed
  qed
qed

lemma worker_unchanged:
  assumes "run_worker_precheck ext env tx n = Some (r, n')"
  shows "api_chain n' = api_chain n" "ap_incoming n' = ap_incoming n"
    "case r of Inl e \<Rightarrow> unchanged n n' \<and> sn_rejected (ap_node n') = sn_rejected (ap_node n) + 1
     | Inr _ \<Rightarrow> sn_rejected (ap_node n') = sn_rejected (ap_node n) \<and> (\<exists>v. sn_validated (ap_node n') = sn_validated (ap_node n) @ [v])"
  using assms
  by (auto simp: run_worker_precheck_def handle_client_def Let_def count_reject_def unchanged_def
      split: prod.splits option.splits sum.splits if_splits)

lemma v1_tx_cases:
  assumes "v1_tx ext enc env tx n0 = Some (r, n')"
  obtains e where "r = Inl e" "n' = snd (count_reject e (n0\<lparr>ap_incoming := ap_incoming n0 + 1\<rparr>))"
  | "r = Inr ()" "ap_shard_enforced n0" "is_foreign_import tx (ap_domain_hi n0)" "n' = n0\<lparr>ap_incoming := ap_incoming n0 + 1\<rparr>"
  | "tx_checks ext tx n0 = Inr ()" "direct_sealed (body tx)"
    "direct_tx ext enc env tx (tip_h (api_chain n0)) (n0\<lparr>ap_incoming := ap_incoming n0 + 1\<rparr>) = Some (r, n')"
  | "tx_checks ext tx n0 = Inr ()" "\<not> direct_sealed (body tx)"
    "run_worker_precheck ext env tx (n0\<lparr>ap_incoming := ap_incoming n0 + 1\<rparr>) = Some (r, n')"
proof -
  let ?n = "n0\<lparr>ap_incoming := ap_incoming n0 + 1\<rparr>"
  have same: "tx_checks ext tx ?n = tx_checks ext tx n0" by (simp add: tx_checks_def cong: sum.case_cong if_cong)
  have rej: "Some (r, n') = Some (count_reject e ?n) \<Longrightarrow> thesis" for e
    using that(1) [of e] by (simp add: count_reject_def)
  show thesis
  proof (cases "ensure_user_tx_allowed (ap_gates ?n)")
    case (Inl e)
    with assms show thesis by (intro rej [of e]) (simp add: v1_tx_def)
  next
    case gate: (Inr u)
    show thesis
    proof (cases "enforce_recipient_prefilter tx")
      case (Inl e)
      with assms gate show thesis by (intro rej [of e]) (simp add: v1_tx_def)
    next
      case pre: (Inr u)
      show thesis
      proof (cases "ap_shard_enforced n0 \<and> is_foreign_import tx (ap_domain_hi n0)")
        case True
        show thesis
        proof (cases "en_relay env")
          case (Inl e)
          with assms gate pre True show thesis by (intro rej [of e]) (simp add: v1_tx_def)
        next
          case (Inr u)
          with assms gate pre True that(2) show thesis by (simp add: v1_tx_def)
        qed
      next
        case False
        show thesis
        proof (cases "tx_checks ext tx n0")
          case (Inl e)
          with assms gate pre False same show thesis by (intro rej [of e]) (auto simp: v1_tx_def)
        next
          case (Inr u)
          with assms gate pre False same that(3,4) show thesis by (auto simp: v1_tx_def Let_def split: if_splits)
        qed
      qed
    qed
  qed
qed

end
