(* ===== verification/Pwm_Offchain.thy ===== *)
theory Pwm_Offchain
  imports Pwm_Addr Pwm_Http
begin

text \<open>
  Off-chain batches: the batch root and signature of src/crates/pwm-core/src/offchain.rs, the digest
  of src/crates/pwm-core/src/bridge_commitment.rs, and the batch store with its Merkle proofs of
  src/crates/pwmd/src/offchain.rs and src/crates/pwmd/src/api/handlers_offchain.rs.

  SHA-256 is the argument \<open>sha\<close>, \<open>hex\<close> the fields of \<open>addrlib\<close>. The mutex of the store is taken to be
  free; a poisoned one is a panic of the daemon.
\<close>

section \<open>Pairwise trees\<close>

text \<open>Both modules reduce a list of hashes the same way, each with its own hash of two nodes.\<close>

fun pair_level :: "(bytes32 \<Rightarrow> bytes32 \<Rightarrow> bytes32) \<Rightarrow> bytes32 list \<Rightarrow> bytes32 list" where
  "pair_level node [] = []"
| "pair_level node [a] = [node a a]"
| "pair_level node (a # b # rest) = node a b # pair_level node rest"

lemma length_pair_level: "length (pair_level node xs) = (length xs + 1) div 2"
  by (induction node xs rule: pair_level.induct) simp_all

function pair_reduce :: "(bytes32 \<Rightarrow> bytes32 \<Rightarrow> bytes32) \<Rightarrow> bytes32 list \<Rightarrow> bytes32 list" where
  "pair_reduce node level = (if 1 < length level then pair_reduce node (pair_level node level) else level)"
  by auto
termination by (relation "measure (\<lambda>(node, xs). length xs)") (auto simp: length_pair_level)

declare pair_reduce.simps [simp del]

section \<open>The core batch\<close>

definition batch_preimage :: "u64 \<Rightarrow> bytes32 \<Rightarrow> bytes" where
  "batch_preimage batch_id root = as_bytes ''PWMv0-OFFBATCH'' @ le_bytes 8 batch_id @ be_bytes 32 root"

definition core_off_node :: "extlib \<Rightarrow> bytes32 \<Rightarrow> bytes32 \<Rightarrow> bytes32" where
  "core_off_node ext l r = x_blake3 ext (as_bytes ''PWMv0/OFFNODE'' @ be_bytes 32 l @ be_bytes 32 r)"

definition core_off_root :: "extlib \<Rightarrow> bytes32 list \<Rightarrow> bytes32" where
  "core_off_root ext leaves =
     (if leaves = [] then x_blake3 ext (as_bytes ''PWMv0/OFFEMPTY'') else pair_reduce (core_off_node ext) leaves ! 0)"

definition sign_batch :: "extlib \<Rightarrow> bytes32 \<Rightarrow> u64 \<Rightarrow> bytes32 \<Rightarrow> bytes64" where
  "sign_batch ext sk batch_id root = sign ext sk (batch_preimage batch_id root)"

section \<open>The federation digest\<close>

record BridgeFederationCommitment =
  bc_imported_set :: "bytes32 fset"
  bc_exported_registry :: "(bytes32, ExportProvenance) fmap"

definition commitment_from_state :: "State \<Rightarrow> BridgeFederationCommitment" where
  "commitment_from_state st = \<lparr> bc_imported_set = imported_set st, bc_exported_registry = exported_registry st \<rparr>"

definition digest_hex :: "extlib \<Rightarrow> addrlib \<Rightarrow> (BridgeFederationCommitment \<Rightarrow> bytes) \<Rightarrow> BridgeFederationCommitment \<Rightarrow> string" where
  "digest_hex ext lib enc c = x_hex_encode lib (be_bytes 32 (x_blake3 ext (enc c)))"

section \<open>The batch store\<close>

definition EMPTY_TAG :: bytes where "EMPTY_TAG = as_bytes ''PWMv1/OFFEMPTY''"
definition LEAF_TAG :: bytes where "LEAF_TAG = as_bytes ''PWMv1/OFFLEAF''"
definition NODE_TAG :: bytes where "NODE_TAG = as_bytes ''PWMv1/OFFNODE''"
definition ANCHOR_TAG :: bytes where "ANCHOR_TAG = as_bytes ''PWMv1/OFFANCHOR''"
definition MAX_BATCHES :: nat where "MAX_BATCHES = 1024"
definition MAX_BATCH_ENTRIES :: nat where "MAX_BATCH_ENTRIES = 4096"

record BatchEntry =
  be_account_id :: AccountId
  be_amount :: u128
  be_nonce :: u64

record BatchRecord =
  br_batch_id :: u64
  br_root :: bytes32
  br_anchor_tx_hash :: bytes32
  br_entries :: "BatchEntry list"
  br_leaves :: "bytes32 list"

record ProofStep =
  ps_position :: string
  ps_hash :: string

record OffchainStore =
  os_next_id :: u64
  os_batches :: "(u64, BatchRecord) fmap"

definition off_store_new :: OffchainStore where
  "off_store_new = \<lparr> os_next_id = 1, os_batches = fmempty \<rparr>"

definition leaf_msg :: "BatchEntry \<Rightarrow> bytes" where
  "leaf_msg entry = LEAF_TAG @ be_bytes 32 (be_account_id entry) @ be_bytes 16 (be_amount entry) @ be_bytes 8 (be_nonce entry)"

definition entry_leaf :: "(bytes \<Rightarrow> bytes32) \<Rightarrow> BatchEntry \<Rightarrow> bytes32" where
  "entry_leaf sha entry = sha (leaf_msg entry)"

definition node_msg :: "bytes32 \<Rightarrow> bytes32 \<Rightarrow> bytes" where
  "node_msg left right = NODE_TAG @ be_bytes 32 left @ be_bytes 32 right"

definition node_hash :: "(bytes \<Rightarrow> bytes32) \<Rightarrow> bytes32 \<Rightarrow> bytes32 \<Rightarrow> bytes32" where
  "node_hash sha left right = sha (node_msg left right)"

definition off_merkle_root :: "(bytes \<Rightarrow> bytes32) \<Rightarrow> bytes32 list \<Rightarrow> bytes32" where
  "off_merkle_root sha leaves = (if leaves = [] then sha EMPTY_TAG else pair_reduce (node_hash sha) leaves ! 0)"

definition anchor_hash :: "(bytes \<Rightarrow> bytes32) \<Rightarrow> u64 \<Rightarrow> bytes32 \<Rightarrow> bytes32 \<Rightarrow> u64 \<Rightarrow> bytes32" where
  "anchor_hash sha batch_id root tiph tip_height =
     sha (ANCHOR_TAG @ be_bytes 8 batch_id @ be_bytes 32 root @ be_bytes 32 tiph @ be_bytes 8 tip_height)"

definition drop_oldest :: "(u64, BatchRecord) fmap \<Rightarrow> (u64, BatchRecord) fmap" where
  "drop_oldest m = (if MAX_BATCHES \<le> fcard (fmdom m)
     then (if fmdom m = {||} then m else fmdrop (fMin (fmdom m)) m) else m)"

definition off_insert ::
  "(bytes \<Rightarrow> bytes32) \<Rightarrow> BatchEntry list \<Rightarrow> bytes32 \<Rightarrow> u64 \<Rightarrow> OffchainStore \<Rightarrow> BatchRecord \<times> OffchainStore" where
  "off_insert sha entries tiph tip_height s =
     (let batch_id = os_next_id s;
          leaves = map (entry_leaf sha) entries;
          root = off_merkle_root sha leaves;
          rec = \<lparr> br_batch_id = batch_id, br_root = root, br_anchor_tx_hash = anchor_hash sha batch_id root tiph tip_height,
                  br_entries = entries, br_leaves = leaves \<rparr>
      in (rec, \<lparr> os_next_id = batch_id + 1, os_batches = fmupd batch_id rec (drop_oldest (os_batches s)) \<rparr>))"

definition off_get :: "u64 \<Rightarrow> OffchainStore \<Rightarrow> BatchRecord option" where
  "off_get batch_id s = fmlookup (os_batches s) batch_id"

definition parse_entry :: "addrlib \<Rightarrow> string \<Rightarrow> string \<Rightarrow> u64 \<Rightarrow> string + BatchEntry" where
  "parse_entry lib account_id amount entry_nonce = (case parse_account_id lib account_id of
     Inl e \<Rightarrow> Inl e
   | Inr aid \<Rightarrow> (case parse_u128 amount of
       None \<Rightarrow> Inl ''amount: ''
     | Some am \<Rightarrow> Inr \<lparr> be_account_id = aid, be_amount = am, be_nonce = entry_nonce \<rparr>))"

section \<open>Proofs of inclusion\<close>

function proof_loop :: "addrlib \<Rightarrow> (bytes32 \<Rightarrow> bytes32 \<Rightarrow> bytes32) \<Rightarrow> nat \<Rightarrow> bytes32 list \<Rightarrow> ProofStep list" where
  "proof_loop lib node idx level =
     (if 1 < length level
      then let is_right = (idx mod 2 = 1); sib_idx = (if is_right then idx - 1 else idx + 1);
               sibling = (if sib_idx < length level then level ! sib_idx else level ! idx)
        in \<lparr> ps_position = (if is_right then ''left'' else ''right''), ps_hash = x_hex_encode lib (be_bytes 32 sibling) \<rparr>
             # proof_loop lib node (idx div 2) (pair_level node level)
      else [])"
  by auto
termination by (relation "measure (\<lambda>(lib, node, idx, xs). length xs)") (auto simp: length_pair_level)

declare proof_loop.simps [simp del]

definition merkle_proof :: "addrlib \<Rightarrow> (bytes \<Rightarrow> bytes32) \<Rightarrow> BatchRecord \<Rightarrow> nat \<Rightarrow> ProofStep list option" where
  "merkle_proof lib sha rec index =
     (if index \<ge> length (br_leaves rec) then None else Some (proof_loop lib (node_hash sha) index (br_leaves rec)))"

definition step_sibling :: "addrlib \<Rightarrow> ProofStep \<Rightarrow> bytes32 option" where
  "step_sibling lib step = (case x_hex_decode lib (ps_hash step) of
     Inl _ \<Rightarrow> None
   | Inr raw \<Rightarrow> if length raw = 32 then Some (from_be raw) else None)"

fun verify_proof :: "addrlib \<Rightarrow> (bytes \<Rightarrow> bytes32) \<Rightarrow> bytes32 \<Rightarrow> ProofStep list \<Rightarrow> bytes32 \<Rightarrow> bool" where
  "verify_proof lib sha cur [] root = (cur = root)"
| "verify_proof lib sha cur (step # path) root = (case step_sibling lib step of
     None \<Rightarrow> False
   | Some sibling \<Rightarrow> verify_proof lib sha
       (if ps_position step = ''left'' then node_hash sha sibling cur else node_hash sha cur sibling) path root)"

section \<open>The handlers\<close>

fun parse_entries :: "addrlib \<Rightarrow> (string \<times> string \<times> u64) list \<Rightarrow> string + BatchEntry list" where
  "parse_entries lib [] = Inr []"
| "parse_entries lib ((aid, am, n) # rows) = (case parse_entry lib aid am n of
     Inl e \<Rightarrow> Inl e
   | Inr x \<Rightarrow> (case parse_entries lib rows of Inl e \<Rightarrow> Inl e | Inr xs \<Rightarrow> Inr (x # xs)))"

definition v1_off_batch ::
  "Gates \<Rightarrow> addrlib \<Rightarrow> (bytes \<Rightarrow> bytes32) \<Rightarrow> (string \<times> string \<times> u64) list \<Rightarrow> bytes32 \<Rightarrow> u64 \<Rightarrow> OffchainStore \<Rightarrow>
   (StatusCode + BatchRecord) \<times> OffchainStore" where
  "v1_off_batch gates lib sha entries tiph tip_height s = (case ensure_ready gates of
     Inl (status, _) \<Rightarrow> (Inl status, s)
   | Inr _ \<Rightarrow>
      if entries = [] then (Inl BAD_REQUEST, s)
      else if MAX_BATCH_ENTRIES < length entries then (Inl PAYLOAD_TOO_LARGE, s)
      else case parse_entries lib entries of
        Inl _ \<Rightarrow> (Inl BAD_REQUEST, s)
      | Inr parsed \<Rightarrow> (let (rec, s') = off_insert sha parsed tiph tip_height s in (Inr rec, s')))"

definition v1_off_batch_get :: "u64 \<Rightarrow> OffchainStore \<Rightarrow> StatusCode + BatchRecord" where
  "v1_off_batch_get batch_id s = (case off_get batch_id s of None \<Rightarrow> Inl NOT_FOUND | Some rec \<Rightarrow> Inr rec)"

definition v1_off_proof ::
  "addrlib \<Rightarrow> (bytes \<Rightarrow> bytes32) \<Rightarrow> u64 \<Rightarrow> nat \<Rightarrow> OffchainStore \<Rightarrow> StatusCode + bytes32 \<times> bytes32 \<times> bytes32 \<times> ProofStep list" where
  "v1_off_proof lib sha batch_id entry_index s = (case off_get batch_id s of
     None \<Rightarrow> Inl NOT_FOUND
   | Some rec \<Rightarrow>
       if length (br_entries rec) \<le> entry_index then Inl NOT_FOUND
       else let entry = br_entries rec ! entry_index
         in (case merkle_proof lib sha rec entry_index of
               None \<Rightarrow> Inl NOT_FOUND
             | Some path \<Rightarrow>
                 let leaf = entry_leaf sha entry
                 in if \<not> verify_proof lib sha leaf path (br_root rec) then Inl INTERNAL_SERVER_ERROR
                    else Inr (leaf, br_root rec, br_anchor_tx_hash rec, path)))"

section \<open>Every leaf has a proof\<close>

lemma pair_level_nth:
  "i < length xs \<Longrightarrow> pair_level node xs ! (i div 2) =
     (if i mod 2 = 1 then node (xs ! (i - 1)) (xs ! i) else node (xs ! i) (if i + 1 < length xs then xs ! (i + 1) else xs ! i))"
proof (induction node xs arbitrary: i rule: pair_level.induct)
  case (3 node a b rest)
  show ?case
  proof (cases "i < 2")
    case True
    then have "i = 0 \<or> i = 1" by auto
    then show ?thesis by auto
  next
    case False
    then obtain j where j: "i = j + 2" by (metis add.commute le_Suc_ex not_less)
    with 3 have "j < length rest" by simp
    from 3(1) [OF this] j show ?thesis by (cases j) auto
  qed
qed simp_all

lemma proof_verifies:
  assumes "hex_laws lib" "i < length xs"
  shows "verify_proof lib sha (xs ! i) (proof_loop lib (node_hash sha) i xs) (pair_reduce (node_hash sha) xs ! 0)"
  using assms(2)
proof (induction xs arbitrary: i rule: measure_induct_rule [of length])
  case (less xs)
  show ?case
  proof (cases "1 < length xs")
    case False
    with less(2) have "xs \<noteq> []" "i = 0" by auto
    then show ?thesis using False by (simp add: proof_loop.simps [of _ _ _ xs] pair_reduce.simps [of _ xs])
  next
    case True
    let ?up = "pair_level (node_hash sha) xs"
    have sib: "step_sibling lib \<lparr> ps_position = p, ps_hash = x_hex_encode lib (be_bytes 32 w) \<rparr> = Some w" for p and w :: bytes32
      using assms(1) by (simp add: step_sibling_def hex_laws_def from_be_bytes)
    have "verify_proof lib sha (?up ! (i div 2)) (proof_loop lib (node_hash sha) (i div 2) ?up) (pair_reduce (node_hash sha) ?up ! 0)"
      using True less(2) by (intro less(1)) (simp_all add: length_pair_level)
    moreover have "pair_reduce (node_hash sha) xs = pair_reduce (node_hash sha) ?up"
      using True by (simp add: pair_reduce.simps [of _ xs])
    ultimately show ?thesis using True less(2)
      by (cases "i mod 2 = 1"; cases "i + 1 < length xs") (auto simp: proof_loop.simps [of _ _ _ xs] Let_def sib pair_level_nth less_imp_diff_less)
  qed
qed

section \<open>Nothing else has one\<close>

text \<open>The values of a tree and the messages hashed to build it.\<close>

fun level_msgs :: "bytes32 list \<Rightarrow> bytes list" where
  "level_msgs [] = []"
| "level_msgs [a] = [node_msg a a]"
| "level_msgs (a # b # rest) = node_msg a b # level_msgs rest"

function off_inputs :: "(bytes \<Rightarrow> bytes32) \<Rightarrow> bytes32 list \<Rightarrow> bytes list" where
  "off_inputs sha level = (if 1 < length level then level_msgs level @ off_inputs sha (pair_level (node_hash sha) level) else [])"
  by auto
termination by (relation "measure (\<lambda>(sha, xs). length xs)") (auto simp: length_pair_level)

function off_values :: "(bytes \<Rightarrow> bytes32) \<Rightarrow> bytes32 list \<Rightarrow> bytes32 set" where
  "off_values sha level = set level \<union> (if 1 < length level then off_values sha (pair_level (node_hash sha) level) else {})"
  by auto
termination by (relation "measure (\<lambda>(sha, xs). length xs)") (auto simp: length_pair_level)

declare off_inputs.simps [simp del] off_values.simps [simp del]

text \<open>The messages hashed while a proof is checked.\<close>

fun proof_msgs :: "addrlib \<Rightarrow> (bytes \<Rightarrow> bytes32) \<Rightarrow> bytes32 \<Rightarrow> ProofStep list \<Rightarrow> bytes list" where
  "proof_msgs lib sha cur [] = []"
| "proof_msgs lib sha cur (step # path) = (case step_sibling lib step of
     None \<Rightarrow> []
   | Some sibling \<Rightarrow> (let m = (if ps_position step = ''left'' then node_msg sibling cur else node_msg cur sibling)
       in m # proof_msgs lib sha (sha m) path))"

lemma level_value:
  "v \<in> set (pair_level (node_hash sha) xs) \<Longrightarrow> \<exists>a b. a \<in> set xs \<and> b \<in> set xs \<and> v = sha (node_msg a b) \<and> node_msg a b \<in> set (level_msgs xs)"
  by (induction xs rule: level_msgs.induct) (auto simp: node_hash_def)

lemma off_value_cases:
  "v \<in> off_values sha xs \<Longrightarrow> v \<in> set xs \<or>
     (\<exists>a b. a \<in> off_values sha xs \<and> b \<in> off_values sha xs \<and> v = sha (node_msg a b) \<and> node_msg a b \<in> set (off_inputs sha xs))"
proof (induction sha xs arbitrary: v rule: off_values.induct)
  case (1 sha xs)
  let ?up = "pair_level (node_hash sha) xs"
  show ?case
  proof (cases "v \<in> set xs")
    case False
    with 1(2) have t: "1 < length xs" "v \<in> off_values sha ?up" by (auto simp: off_values.simps [of sha xs] split: if_splits)
    have up: "off_values sha ?up \<subseteq> off_values sha xs" "set xs \<subseteq> off_values sha xs" "set (off_inputs sha ?up) \<subseteq> set (off_inputs sha xs)"
      "set (level_msgs xs) \<subseteq> set (off_inputs sha xs)"
      using t(1) by (auto simp: off_values.simps [of sha xs] off_inputs.simps [of sha xs])
    from 1(1) [OF t] show ?thesis
    proof
      assume "v \<in> set ?up"
      from level_value [OF this] up(2,4) show ?thesis by blast
    next
      assume "\<exists>a b. a \<in> off_values sha ?up \<and> b \<in> off_values sha ?up \<and> v = sha (node_msg a b) \<and> node_msg a b \<in> set (off_inputs sha ?up)"
      with up(1,3) show ?thesis by blast
    qed
  qed simp
qed

lemma root_is_value: "xs \<noteq> [] \<Longrightarrow> pair_reduce (node_hash sha) xs ! 0 \<in> off_values sha xs"
proof (induction sha xs rule: off_values.induct)
  case (1 sha xs)
  show ?case
  proof (cases "1 < length xs")
    case True
    have "pair_level (node_hash sha) xs \<noteq> []" using True length_pair_level [of "node_hash sha" xs] by auto
    from 1(1) [OF True this] True show ?thesis by (simp add: pair_reduce.simps [of _ xs] off_values.simps [of sha xs])
  next
    case False
    with 1(2) obtain a where "xs = [a]" by (cases xs) auto
    then show ?thesis by (simp add: pair_reduce.simps [of _ "[a]"] off_values.simps [of sha "[a]"])
  qed
qed

lemma node_msg_inj: "node_msg a b = node_msg c d \<Longrightarrow> a = c \<and> b = d"
  by (auto simp: node_msg_def dest!: be_bytes_inj)

lemma leaf_msg_inj: "leaf_msg x = leaf_msg y \<Longrightarrow> x = y"
  by (auto simp: leaf_msg_def dest!: be_bytes_inj)

lemma node_not_leaf: "node_msg a b \<noteq> leaf_msg e"
proof
  assume "node_msg a b = leaf_msg e"
  then have "take 13 (node_msg a b) = take 13 (leaf_msg e)" by simp
  then show False by (simp add: node_msg_def leaf_msg_def NODE_TAG_def LEAF_TAG_def as_bytes_def)
qed

text \<open>The messages whose hashes have to differ for a proof to mean anything.\<close>

definition off_msgs :: "addrlib \<Rightarrow> (bytes \<Rightarrow> bytes32) \<Rightarrow> BatchEntry list \<Rightarrow> BatchEntry \<Rightarrow> ProofStep list \<Rightarrow> bytes set" where
  "off_msgs lib sha entries entry path = insert (leaf_msg entry) (leaf_msg ` set entries) \<union>
     set (off_inputs sha (map (entry_leaf sha) entries)) \<union> set (proof_msgs lib sha (entry_leaf sha entry) path)"

lemma verified_value:
  assumes "inj_on sha (M \<union> set (proof_msgs lib sha cur path))" "leaf_msg ` set entries \<subseteq> M"
    and "set (off_inputs sha (map (entry_leaf sha) entries)) \<subseteq> M"
    and "verify_proof lib sha cur path root" "root \<in> off_values sha (map (entry_leaf sha) entries)"
  shows "cur \<in> off_values sha (map (entry_leaf sha) entries)"
  using assms(1,4)
proof (induction path arbitrary: cur)
  case Nil
  then show ?case using assms(5) by simp
next
  case (Cons step path)
  obtain sib where sib: "step_sibling lib step = Some sib" using Cons.prems(2) by (auto split: option.splits)
  obtain x y where xy: "cur = x \<or> cur = y" "(if ps_position step = ''left'' then node_msg sib cur else node_msg cur sib) = node_msg x y"
    by (cases "ps_position step = ''left''") auto
  have msgs: "proof_msgs lib sha cur (step # path) = node_msg x y # proof_msgs lib sha (sha (node_msg x y)) path"
    using sib xy(2) by (simp add: Let_def)
  have "(if ps_position step = ''left'' then node_hash sha sib cur else node_hash sha cur sib) = sha (node_msg x y)"
    using xy(2) by (auto simp: node_hash_def split: if_splits)
  then have "verify_proof lib sha (sha (node_msg x y)) path root" using Cons.prems(2) sib by simp
  moreover have "inj_on sha (M \<union> set (proof_msgs lib sha (sha (node_msg x y)) path))"
    using Cons.prems(1) unfolding msgs by (rule inj_on_subset) auto
  ultimately have up: "sha (node_msg x y) \<in> off_values sha (map (entry_leaf sha) entries)" using Cons.IH by blast
  have same: "sha (node_msg x y) = sha m \<Longrightarrow> m \<in> M \<Longrightarrow> node_msg x y = m" for m
    using Cons.prems(1) unfolding msgs by (auto dest: inj_onD)
  from off_value_cases [OF up] show ?case
  proof
    assume "sha (node_msg x y) \<in> set (map (entry_leaf sha) entries)"
    then obtain e where "e \<in> set entries" "sha (node_msg x y) = sha (leaf_msg e)" by (auto simp: entry_leaf_def)
    with same assms(2) node_not_leaf show ?thesis by blast
  next
    assume "\<exists>a b. a \<in> off_values sha (map (entry_leaf sha) entries) \<and> b \<in> off_values sha (map (entry_leaf sha) entries) \<and>
      sha (node_msg x y) = sha (node_msg a b) \<and> node_msg a b \<in> set (off_inputs sha (map (entry_leaf sha) entries))"
    then obtain a b where ab: "a \<in> off_values sha (map (entry_leaf sha) entries)" "b \<in> off_values sha (map (entry_leaf sha) entries)"
      "sha (node_msg x y) = sha (node_msg a b)" "node_msg a b \<in> M" using assms(3) by blast
    with node_msg_inj [OF same [OF ab(3,4)]] xy(1) show ?thesis by auto
  qed
qed

lemma proof_binds_entry:
  assumes "entries \<noteq> []" "verify_proof lib sha (entry_leaf sha entry) path (off_merkle_root sha (map (entry_leaf sha) entries))"
    and "inj_on sha (off_msgs lib sha entries entry path)"
  shows "entry \<in> set entries"
proof -
  let ?M = "insert (leaf_msg entry) (leaf_msg ` set entries) \<union> set (off_inputs sha (map (entry_leaf sha) entries))"
  have "off_merkle_root sha (map (entry_leaf sha) entries) \<in> off_values sha (map (entry_leaf sha) entries)"
    using assms(1) root_is_value [of "map (entry_leaf sha) entries" sha] by (simp add: off_merkle_root_def)
  then have v: "entry_leaf sha entry \<in> off_values sha (map (entry_leaf sha) entries)"
    using verified_value [of sha ?M lib "entry_leaf sha entry" path entries] assms(2,3) by (auto simp: off_msgs_def)
  have same: "sha (leaf_msg entry) = sha m \<Longrightarrow> m \<in> ?M \<Longrightarrow> leaf_msg entry = m" for m
    using assms(3) unfolding off_msgs_def by (auto dest: inj_onD)
  from off_value_cases [OF v] show ?thesis
  proof
    assume "entry_leaf sha entry \<in> set (map (entry_leaf sha) entries)"
    then obtain e where "e \<in> set entries" "sha (leaf_msg entry) = sha (leaf_msg e)" by (auto simp: entry_leaf_def)
    with same leaf_msg_inj show ?thesis by blast
  next
    assume "\<exists>a b. a \<in> off_values sha (map (entry_leaf sha) entries) \<and> b \<in> off_values sha (map (entry_leaf sha) entries) \<and>
      entry_leaf sha entry = sha (node_msg a b) \<and> node_msg a b \<in> set (off_inputs sha (map (entry_leaf sha) entries))"
    then obtain a b where ab: "sha (leaf_msg entry) = sha (node_msg a b)" "node_msg a b \<in> ?M"
      unfolding entry_leaf_def by blast
    from node_not_leaf [of a b entry] same [OF ab] show ?thesis by simp
  qed
qed

section \<open>The store\<close>

text \<open>Every stored record is one the store made: its key, its leaves and its root fit its entries.\<close>

definition off_store_ok :: "(bytes \<Rightarrow> bytes32) \<Rightarrow> OffchainStore \<Rightarrow> bool" where
  "off_store_ok sha s \<longleftrightarrow> fcard (fmdom (os_batches s)) \<le> MAX_BATCHES \<and>
     (\<forall>k rec. fmlookup (os_batches s) k = Some rec \<longrightarrow> br_batch_id rec = k \<and>
        br_leaves rec = map (entry_leaf sha) (br_entries rec) \<and> br_root rec = off_merkle_root sha (br_leaves rec))"

lemma off_store_new_ok: "off_store_ok sha off_store_new"
  by (simp add: off_store_ok_def off_store_new_def fcard.rep_eq)

lemma drop_oldest_small: "fcard (fmdom m) \<le> MAX_BATCHES \<Longrightarrow> fcard (fmdom (drop_oldest m)) < MAX_BATCHES"
proof -
  assume a: "fcard (fmdom m) \<le> MAX_BATCHES"
  show ?thesis
  proof (cases "fmdom m = {||}")
    case False
    have "fMin (fmdom m) |\<in>| fmdom m" using False by simp
    then have "fcard (fmdom m |-| {|fMin (fmdom m)|}) = fcard (fmdom m) - 1" by simp
    moreover have "fcard (fmdom m) \<noteq> 0" using False by simp
    ultimately show ?thesis using a False by (auto simp: drop_oldest_def MAX_BATCHES_def)
  qed (simp add: drop_oldest_def MAX_BATCHES_def fcard.rep_eq)
qed

lemma off_insert_ok:
  assumes "off_store_ok sha s"
  shows "off_store_ok sha (snd (off_insert sha entries tiph h s))"
proof -
  have "fcard (finsert k (fmdom (drop_oldest (os_batches s)))) \<le> MAX_BATCHES" for k
    using drop_oldest_small [of "os_batches s"] assms by (auto simp: off_store_ok_def fcard_finsert_if)
  moreover have "br_batch_id rec = k \<and> br_leaves rec = map (entry_leaf sha) (br_entries rec) \<and> br_root rec = off_merkle_root sha (br_leaves rec)"
    if "fmlookup (drop_oldest (os_batches s)) k = Some rec" for k rec
  proof -
    have "fmlookup (os_batches s) k = Some rec" using that by (auto simp: drop_oldest_def split: if_splits)
    then show ?thesis using assms by (auto simp: off_store_ok_def)
  qed
  ultimately show ?thesis by (auto simp: off_store_ok_def off_insert_def Let_def)
qed

lemma stored_proof:
  assumes "hex_laws lib" "off_store_ok sha s" "off_get k s = Some rec" "i < length (br_entries rec)"
  shows "\<exists>path. v1_off_proof lib sha k i s = Inr (entry_leaf sha (br_entries rec ! i), br_root rec, br_anchor_tx_hash rec, path)"
proof -
  have r: "br_leaves rec = map (entry_leaf sha) (br_entries rec)" "br_root rec = off_merkle_root sha (br_leaves rec)"
    using assms(2,3) by (simp_all add: off_store_ok_def off_get_def)
  have "verify_proof lib sha (br_leaves rec ! i) (proof_loop lib (node_hash sha) i (br_leaves rec)) (br_root rec)"
    using proof_verifies [OF assms(1), of i "br_leaves rec" sha] assms(4) by (auto simp: r off_merkle_root_def)
  then show ?thesis using assms(3,4) by (simp add: v1_off_proof_def merkle_proof_def r(1))
qed

end
