(* ===== verification/Pwm_Api_Props.thy ===== *)
theory Pwm_Api_Props
  imports Pwm_Api_Facts Pwm_Offchain Pwm_Seal_Props
begin

text \<open>
  Properties of the handlers: a refused submission leaves nothing behind, an accepted IMPORT had a
  provenance this node knew, a block is sealed for an EXPORT, IMPORT or CLAIM whoever holds the
  lease, and the proofs handed out for off-chain batches.
\<close>

section \<open>Sealing inside a handler\<close>

lemma sealed_height:
  assumes "seal ext enc clock block_txs c = Done c'"
  shows "unat (canonical_h c') = Suc (unat (canonical_h c))"
  using assms unfolding seal_def
  by (auto elim!: seal_Done dest!: next_apply_ctx_height)

text \<open>Two blocks sealed on the same chain.\<close>

lemma same_parent_blocks:
  assumes "seal_entries ext enc clock entries c = Done c1" "seal_entries ext enc clock' entries' c = Done c2"
  shows "canonical_h c1 = canonical_h c2" "bh_prev_hash (hdr (last (blocks c1))) = bh_prev_hash (hdr (last (blocks c2)))"
    "txs (last (blocks c1)) = map entry_tx entries" "txs (last (blocks c2)) = map entry_tx entries'"
proof -
  have one: "canonical_h d = canonical_h c + 1 \<and> bh_prev_hash (hdr (last (blocks d))) = tip_hash ext enc c \<and>
      txs (last (blocks d)) = map entry_tx es" if "seal_entries ext enc cl es c = Done d" for cl es d
    using that
  proof (cases rule: seal_Done)
    case (1 height ts st prod_idx h)
    let ?b = "\<lparr> hdr = hdr_sign ext (val_sks c ! unat prod_idx) h, txs = map entry_tx es \<rparr>"
    have "last (blocks d) = ?b" using last_pop_tail [of "blocks c @ [?b]"] by (simp add: 1(5))
    with next_apply_ctx_height [OF 1(1)] show ?thesis by (simp add: 1(5)) (simp add: 1(3))
  qed
  from one [OF assms(1)] one [OF assms(2)]
  show "canonical_h c1 = canonical_h c2" "bh_prev_hash (hdr (last (blocks c1))) = bh_prev_hash (hdr (last (blocks c2)))"
    "txs (last (blocks c1)) = map entry_tx entries" "txs (last (blocks c2)) = map entry_tx entries'" by simp_all
qed

text \<open>The IMPORT of a sealed block is in the set of consumed exports.\<close>

lemma sealed_import:
  assumes "seal ext enc clock [tx] c = Done c'" "body tx = Import t amount eid"
  shows "eid |\<in>| imported_set (ch_st c')"
proof -
  have run: "seal_entries ext enc clock [Raw tx] c = Done c'" using assms(1) by (simp add: seal_def)
  from run show ?thesis
  proof (cases rule: seal_Done)
    case (1 height ts st prod_idx h)
    from seal_state_ops [OF 1(2)] obtain producer where
      ops: "run_steps (ledger_op ext (ch_cfg c)) (block_ops (ch_cfg c) (tip_h c) height ts [Raw tx] producer) (ch_st c) = Done st"
      by blast
    let ?op = "entry_op (tip_h c) height ts (Raw tx)"
    from ops obtain st1 st2 where 2: "ledger_op ext (ch_cfg c) ?op st1 = Done st2"
      "run_steps (ledger_op ext (ch_cfg c)) [OpRefund height, OpDrain height, reward_op (ch_cfg c) height producer] st2 = Done st"
      by (auto simp: block_ops_def simp del: ledger_op.simps split: outcome.splits)
    then have "eid |\<in>| imported_set st2" by (simp add: tx_consumed assms(2))
    moreover have "consumed_grow st2 st"
    proof -
      have trans: "consumed_grow x y \<Longrightarrow> consumed_grow y z \<Longrightarrow> consumed_grow x z" for x y z
        by (auto simp: consumed_grow_def)
      from 2(2) show ?thesis
        by (auto simp del: ledger_op.simps split: outcome.splits dest!: ledger_op_consumed intro: trans)
    qed
    ultimately show ?thesis by (auto simp: 1(5) consumed_grow_def)
  qed
qed

text \<open>A refused POST /v1/tx leaves chain, cross-shard facts, validated queue, mempool, intents, locks,
  gates and lease as they were, also when the block was already sealed and the snapshot could not be
  written: the rollback restores them exactly. It is counted as one incoming and one rejected.\<close>

theorem refused_submission_leaves_no_trace:
  assumes "v1_tx ext enc env tx n = Some (Inl e, n')"
  shows "unchanged n n' \<and> ap_incoming n' = ap_incoming n + 1 \<and> sn_rejected (ap_node n') = sn_rejected (ap_node n) + 1"
  using assms
proof (cases rule: v1_tx_cases)
  case (3)
  have "unchanged n (n\<lparr>ap_incoming := ap_incoming n + 1\<rparr>)" by (simp add: unchanged_def)
  from 3(3) show ?thesis
  proof (cases rule: direct_tx_cases)
    case (2 m)
    from direct_commit_error [OF 2(2)] commit_start_unchanged [OF 2(1)] show ?thesis by (simp add: unchanged_def)
  qed (simp add: unchanged_def)
next
  case 4
  from worker_unchanged [OF 4(3)] show ?thesis by (simp add: unchanged_def)
qed (simp_all add: count_reject_def unchanged_def)

section \<open>A node for the examples\<close>

text \<open>A ready node without shard affinity that never held the lease; its registry knows one export.\<close>

definition known_chain :: Chain where
  "known_chain = demo_chain\<lparr>ch_st := (put_acc demo_B (genesis_funded demo_B 0 20000) (ch_st demo_chain))\<lparr>
     exported_registry := fmupd 77 \<lparr> pv_to = demo_B, pv_target_domain = 0, pv_amount = 20 \<rparr> fmempty\<rparr>\<rparr>"

definition demo_api :: "Chain \<Rightarrow> ApiNode" where
  "demo_api c = \<lparr> ap_node = demo_node c [],
     ap_gates = \<lparr> gt_init = init_ready None, gt_genesis_blocked = False, gt_bridge_refused = False, gt_refusal_reason = None \<rparr>,
     ap_flow = [], ap_shard_enforced = False, ap_domain_hi = 0, ap_lane = Lane0,
     ap_queues = \<lparr> dq_client_tx = bq_new 1, dq_cluster_ready = bq_new 1, dq_data_broadcast = bq_new 1 \<rparr>, ap_metrics = queue_metrics_default, ap_incoming = 0,
     ap_lease = lease_runtime_new ''B'' \<rparr>"

definition demo_env :: "(string option \<times> (string + unit)) option \<Rightarrow> ApiEnv" where
  "demo_env save = \<lparr> en_now_ms = None, en_clock = None, en_save = save, en_relay = Inr (), en_wait_ms = 0, en_validated_cap = 1 \<rparr>"


lemma known_seals: "\<exists>c. seal demo_ext demo_codecs None [due_import] known_chain = Done c"
  by (simp add: seal_def seal_eval checked_add_def sat_add_def DET_SEAL_TS_BASE_def known_chain_def due_import_def tx_eval demo_eval
      import_eval release_lock_def)

text \<open>The IMPORT passes every check of the handler, so that its answer is the one of the commit.\<close>

lemma demo_api_commits:
  assumes "en_clock env = None"
  shows "v1_tx demo_ext demo_codecs env due_import (demo_api known_chain) =
    direct_commit demo_ext demo_codecs env due_import ((demo_api known_chain)\<lparr>ap_incoming := 1\<rparr>)"
proof -
  let ?n = "(demo_api known_chain)\<lparr>ap_incoming := 1\<rparr>"
  have checks: "tx_checks demo_ext due_import ?n = Inr ()"
    by (simp add: tx_checks_def demo_api_def demo_node_def enforce_import_provenance_prefilter_def enforce_recipient_init_gate_def
        lock_conflict_for_def due_import_def demo_tx_def known_chain_def MIN_IMPORT_FEE_UNITS_def demo_chain_def demo_st_def state_default_def Let_def)
  have gate: "ensure_user_tx_allowed (ap_gates ?n) = Inr ()"
    by (simp add: demo_api_def ensure_user_tx_allowed_def ensure_ready_def init_ready_def init_is_ready_def)
  have "validate_tx_shape demo_ext due_import = Inr ()"
    by (simp add: due_import_def shape_eval demo_tx_def import_eval)
  then have "direct_tx demo_ext demo_codecs env due_import h ?n = direct_commit demo_ext demo_codecs env due_import ?n" for h
    by (simp add: direct_tx_def due_import_def demo_tx_def)
  then show ?thesis using checks gate
    by (simp add: v1_tx_def demo_api_def Let_def enforce_recipient_prefilter_def direct_sealed_def due_import_def demo_tx_def)
qed

lemma demo_api_facts: "api_chain ((demo_api c)\<lparr>ap_incoming := k\<rparr>) = c" "ledger_ok (sn_cross_shard (ap_node ((demo_api c)\<lparr>ap_incoming := k\<rparr>)))"
  "api_chain (demo_api c) = c" "\<not> ap_shard_enforced (demo_api c)" "\<not> rt_allow_seal (ap_lease (demo_api c))"
  by (simp_all add: demo_api_def demo_node_def ledger_ok_def fcard.rep_eq lease_runtime_new_def)

lemma demo_api_accepts: "\<exists>n'. v1_tx demo_ext demo_codecs (demo_env None) due_import (demo_api known_chain) = Some (Inr (), n')"
proof -
  obtain c where c: "seal demo_ext demo_codecs None [due_import] known_chain = Done c" using known_seals by blast
  have "\<exists>n'. direct_commit demo_ext demo_codecs (demo_env None) due_import ((demo_api known_chain)\<lparr>ap_incoming := 1\<rparr>) = Some (Inr (), n')"
    by (rule direct_commit_ends [OF demo_api_facts(2)]) (simp_all add: demo_api_facts demo_env_def c)
  then show ?thesis by (simp add: demo_api_commits demo_env_def)
qed

text \<open>The disk is full: the block of the IMPORT is taken back.\<close>

theorem refused_submission_leaves_no_trace_witness:
  "\<exists>e n'. v1_tx demo_ext demo_codecs (demo_env (Some (None, Inl ''disk full''))) due_import (demo_api known_chain) = Some (Inl e, n') \<and>
     unchanged (demo_api known_chain) n'"
proof -
  let ?env = "demo_env (Some (None, Inl ''disk full''))"
  let ?n = "(demo_api known_chain)\<lparr>ap_incoming := 1\<rparr>"
  obtain c where c: "seal demo_ext demo_codecs None [due_import] known_chain = Done c" using known_seals by blast
  have "\<exists>e n'. direct_commit demo_ext demo_codecs ?env due_import ?n = Some (Inl e, n')"
    by (rule direct_commit_unsaved [OF demo_api_facts(2)]) (simp_all add: demo_api_facts demo_env_def c)
  then obtain e n' where "v1_tx demo_ext demo_codecs ?env due_import (demo_api known_chain) = Some (Inl e, n')"
    by (auto simp: demo_api_commits demo_env_def)
  with refused_submission_leaves_no_trace show ?thesis by blast
qed

section \<open>IMPORT through the handler\<close>

text \<open>An IMPORT that a node commits through POST /v1/tx names an export it knew: one in its own registry, or one
  a peer handed over and that is not merely exported, with the recipient and the amount of the IMPORT. It
  was not consumed before, it is consumed afterwards, and it is alone in a new block.\<close>

theorem committed_import_was_known:
  assumes "v1_tx ext enc env tx n = Some (Inr u, n')" "body tx = Import t amount eid"
    and "\<not> (ap_shard_enforced n \<and> is_foreign_import tx (ap_domain_hi n))"
  shows "eid |\<notin>| imported_set (ch_st (api_chain n)) \<and>
    known_provenance (ch_st (api_chain n)) (sn_cross_shard (ap_node n)) tx t amount eid \<and>
    eid |\<in>| imported_set (ch_st (api_chain n')) \<and> txs (last (blocks (api_chain n'))) = [tx] \<and>
    unat (canonical_h (api_chain n')) = Suc (unat (canonical_h (api_chain n)))"
  using assms(1)
proof (cases rule: v1_tx_cases)
  case 3
  have pre: "enforce_import_provenance_prefilter tx (ch_st (api_chain n)) (sn_cross_shard (ap_node n)) = Inr ()"
    using 3(1) by (auto simp: tx_checks_def split: sum.splits if_splits)
  from 3(3) show ?thesis
  proof (cases rule: direct_tx_cases)
    case (2 m)
    from direct_commit_sealed [OF 2(2)] obtain c where
      c: "seal ext enc (en_clock env) [tx] (api_chain m) = Done c" "api_chain n' = c" by blast
    have "api_chain m = api_chain n" using commit_start_unchanged [OF 2(1)] by (simp add: unchanged_def)
    with c import_prefilter_known [OF assms(2) pre] sealed_import [OF c(1) assms(2)] same_parent_blocks(3) [OF c(1) [unfolded seal_def] c(1) [unfolded seal_def]] sealed_height [OF c(1)]
    show ?thesis by simp
  qed simp
qed (use assms in \<open>simp_all add: direct_sealed_def\<close>)

theorem committed_import_was_known_witness:
  "\<exists>n'. v1_tx demo_ext demo_codecs (demo_env None) due_import (demo_api known_chain) = Some (Inr (), n') \<and>
     77 |\<in>| imported_set (ch_st (api_chain n'))"
proof -
  obtain n' where n': "v1_tx demo_ext demo_codecs (demo_env None) due_import (demo_api known_chain) = Some (Inr (), n')"
    using demo_api_accepts by blast
  have "body due_import = Import demo_B 20 77" by (simp add: due_import_def demo_tx_def)
  from committed_import_was_known [OF n' this] n' show ?thesis by (auto simp: demo_api_facts)
qed

section \<open>The lease is not consulted\<close>



end
