(* ===== verification/Pwm_Offchain_Props.thy ===== *)
theory Pwm_Offchain_Props
  imports Pwm_Offchain
begin

text \<open>
  Properties of the off-chain batches: every entry of a stored batch has a proof that verifies, and a
  proof that verifies is one of an entry of the batch as long as the hashes at hand do not collide.
\<close>

section \<open>Proofs are served\<close>

text \<open>The stores a node can have: POST /v1/offchain/batch on the empty one, again and again.\<close>

inductive off_reach :: "addrlib \<Rightarrow> (bytes \<Rightarrow> bytes32) \<Rightarrow> OffchainStore \<Rightarrow> bool"
  for lib :: addrlib and sha :: "bytes \<Rightarrow> bytes32" where
  off_start: "off_reach lib sha off_store_new"
| off_post: "off_reach lib sha s \<Longrightarrow> off_reach lib sha (snd (v1_off_batch gates lib sha rows tiph h s))"

lemma off_batch_cases:
  "snd (v1_off_batch gates lib sha rows tiph h s) = s \<or> (\<exists>es. snd (v1_off_batch gates lib sha rows tiph h s) = snd (off_insert sha es tiph h s))"
proof (cases "snd (v1_off_batch gates lib sha rows tiph h s) = s")
  case False
  then obtain es where "v1_off_batch gates lib sha rows tiph h s = (let (rec, s') = off_insert sha es tiph h s in (Inr rec, s'))"
    by (auto simp: v1_off_batch_def split: sum.splits if_splits)
  then show ?thesis by (auto simp: Let_def split: prod.splits intro!: exI [of _ es])
qed simp

lemma off_reach_ok: "off_reach lib sha s \<Longrightarrow> off_store_ok sha s"
proof (induction rule: off_reach.induct)
  case (off_post s gates rows tiph h)
  then show ?case using off_batch_cases [of gates lib sha rows tiph h s] off_insert_ok [of sha s] by auto
qed (rule off_store_new_ok)

text \<open>C37: Every entry of a batch that is still stored has a proof, and it verifies against the root of the batch: the
  handler never answers that its own proof does not verify. At most 1024 batches are kept.\<close>

theorem every_entry_has_proof:
  assumes "hex_laws lib" "off_reach lib sha s" "off_get k s = Some rec" "i < length (br_entries rec)"
  shows "fcard (fmdom (os_batches s)) \<le> MAX_BATCHES \<and>
    (\<exists>path. v1_off_proof lib sha k i s = Inr (entry_leaf sha (br_entries rec ! i), br_root rec, br_anchor_tx_hash rec, path) \<and>
      verify_proof lib sha (entry_leaf sha (br_entries rec ! i)) path (br_root rec))"
proof -
  note ok = off_reach_ok [OF assms(2)]
  obtain path where p: "v1_off_proof lib sha k i s = Inr (entry_leaf sha (br_entries rec ! i), br_root rec, br_anchor_tx_hash rec, path)"
    using stored_proof [OF assms(1) ok assms(3,4)] by blast
  then have "verify_proof lib sha (entry_leaf sha (br_entries rec ! i)) path (br_root rec)"
    using assms(3) by (auto simp: v1_off_proof_def Let_def split: option.splits if_splits)
  with p ok show ?thesis by (auto simp: off_store_ok_def)
qed

definition demo_entry :: "AccountId \<Rightarrow> BatchEntry" where
  "demo_entry a = \<lparr> be_account_id = a, be_amount = 5, be_nonce = 0 \<rparr>"

text \<open>A hash for the example that tells the two leaves and everything else apart.\<close>

definition demo_sha :: "bytes \<Rightarrow> bytes32" where
  "demo_sha m = (if m = leaf_msg (demo_entry 1) then 1 else if m = leaf_msg (demo_entry 2) then 2 else 3)"

theorem every_entry_has_proof_witness:
  "\<exists>s rec path. off_get 1 s = Some rec \<and> br_entries rec = [demo_entry 1] \<and>
     v1_off_proof toy_addr toy_hash 1 0 s = Inr (entry_leaf toy_hash (demo_entry 1), br_root rec, br_anchor_tx_hash rec, path)"
proof -
  let ?gates = "\<lparr> gt_init = init_ready None, gt_genesis_blocked = False, gt_bridge_refused = False, gt_refusal_reason = None \<rparr>"
  let ?row = "(render_acct_id_ui toy_addr 1, ''5'', 0)"
  let ?s = "snd (v1_off_batch ?gates toy_addr toy_hash [?row] 0 7 off_store_new)"
  have parsed: "parse_entries toy_addr [?row] = Inr [demo_entry 1]"
  proof -
    have "show_radix 10 5 = ''5''" by code_simp
    with from_str_radix_show [of 10 5 "2 ^ 128"] have "from_str_radix 10 (2 ^ 128) ''5'' = Some 5" by simp
    then have "parse_u128 ''5'' = Some 5" by (simp add: parse_u128_def)
    then show ?thesis using parse_render [OF toy_b32 toy_hex, of 1] by (simp add: parse_entry_def demo_entry_def)
  qed
  have "ensure_ready ?gates = Inr ()" by (simp add: ensure_ready_def init_ready_def init_is_ready_def)
  with parsed have s: "?s = snd (off_insert toy_hash [demo_entry 1] 0 7 off_store_new)"
    by (simp add: v1_off_batch_def MAX_BATCH_ENTRIES_def split: prod.split)
  have "\<exists>rec. off_get 1 ?s = Some rec \<and> br_entries rec = [demo_entry 1]"
    unfolding s by (simp add: off_insert_def off_get_def off_store_new_def Let_def)
  then obtain rec where rec: "off_get 1 ?s = Some rec" "br_entries rec = [demo_entry 1]" by blast
  from every_entry_has_proof [OF toy_hex off_post [OF off_start] rec(1), of 0] rec show ?thesis by auto
qed

text \<open>A proof that verifies against the root of a batch belongs to an entry of the batch, if the hash does not
  collide on the messages that built the tree and those the verifier hashes: a leaf cannot pass for an
  inner node, nor the other way round.\<close>

theorem proof_binds_to_batch:
  assumes "entries \<noteq> []" "verify_proof lib sha (entry_leaf sha entry) path (off_merkle_root sha (map (entry_leaf sha) entries))"
    and "inj_on sha (off_msgs lib sha entries entry path)"
  shows "entry \<in> set entries"
  using assms by (rule proof_binds_entry)

theorem proof_binds_to_batch_witness:
  "demo_entry 1 \<in> set [demo_entry 1, demo_entry 2]"
proof -
  let ?es = "[demo_entry 1, demo_entry 2]" and ?path = "[\<lparr> ps_position = ''right'', ps_hash = x_hex_encode toy_addr (be_bytes 32 (2 :: bytes32)) \<rparr>]"
  have ne: "leaf_msg (demo_entry 1) \<noteq> leaf_msg (demo_entry 2)" using leaf_msg_inj by (force simp: demo_entry_def)
  have leaves: "map (entry_leaf demo_sha) ?es = [1, 2]" "entry_leaf demo_sha (demo_entry 1) = 1"
    using ne by (simp_all add: entry_leaf_def demo_sha_def)
  have node: "demo_sha (node_msg a b) = 3" for a b
    using node_not_leaf [of a b] by (simp add: demo_sha_def)
  have sib: "step_sibling toy_addr (hd ?path) = Some 2"
    using toy_hex by (simp add: step_sibling_def hex_laws_def from_be_bytes)
  have ver: "verify_proof toy_addr demo_sha (entry_leaf demo_sha (demo_entry 1)) ?path (off_merkle_root demo_sha (map (entry_leaf demo_sha) ?es))"
    using sib unfolding leaves by (simp add: off_merkle_root_def pair_reduce.simps node_hash_def node)
  have "off_msgs toy_addr demo_sha ?es (demo_entry 1) ?path = {leaf_msg (demo_entry 1), leaf_msg (demo_entry 2), node_msg 1 2}"
    using sib unfolding off_msgs_def leaves by (auto simp: off_inputs.simps node_hash_def)
  then have "inj_on demo_sha (off_msgs toy_addr demo_sha ?es (demo_entry 1) ?path)"
    using ne node_not_leaf [of 1 2] by (auto simp: inj_on_def node) (auto simp: demo_sha_def)
  from proof_binds_to_batch [OF _ ver this] show ?thesis by simp
qed

end
