(* ===== verification/Pwm_Follow.thy ===== *)
theory Pwm_Follow
  imports Pwm_Tx_Api Pwm_Books
begin

text \<open>
  Blocks received from peers (\<open>apply_blk\<close> and \<open>apply_blk_batch\<close> of
  src/crates/pwmd/src/transport/peer_session/sync_live.rs) with the checkpoint after a batch
  (src/crates/pwmd/src/lifecycle.rs).

  The error texts are constructors of \<open>BlkErr\<close>; \<open>None\<close> is a panic. Whether the snapshot could be
  written is an argument. Log lines are left out.
\<close>

section \<open>One block\<close>

datatype BlkErr =
    BlkHeight u64 u64
  | BlkPrevHash
  | BlkNoProducer string
  | BlkProdIdx u32 u32
  | BlkProdOor
  | BlkSig
  | BlkTxRoot
  | BlkTx TxError
  | BlkProdAcct
  | BlkStateRoot

text \<open>The ledger after the transactions of the block, before the producer is paid.\<close>

definition run_blk :: "extlib \<Rightarrow> GenCfg \<Rightarrow> Block \<Rightarrow> u64 \<Rightarrow> State \<Rightarrow> (TxError, State) outcome" where
  "run_blk ext cfg blk next_h st =
     (case run_steps (\<lambda>tx. apply_tx_with_ctx ext cfg tx (bh_height (hdr blk)) (bh_ts (hdr blk))) (txs blk) (refund_exp_locks next_h st) of
        Panicked \<Rightarrow> Panicked
      | Failed e s \<Rightarrow> Failed e s
      | Done st \<Rightarrow> (case drain_conservation_at_height cfg next_h (refund_exp_locks next_h st) of
          Done st \<Rightarrow> Done st
        | _ \<Rightarrow> Panicked))"

text \<open>The ledger a block leads to, or why it is refused.\<close>

definition check_blk :: "extlib \<Rightarrow> codecs \<Rightarrow> Block \<Rightarrow> Chain \<Rightarrow> (BlkErr, State) outcome" where
  "check_blk ext enc blk c =
     (let next_h = sat_add (tip_h c) 1; cfg = ch_cfg c; h = hdr blk; st0 = ch_st c
      in if bh_height h \<noteq> next_h then Failed (BlkHeight next_h (bh_height h)) st0
      else if bh_prev_hash h \<noteq> tip_hash ext enc c then Failed BlkPrevHash st0
      else let st = roll_epoch_if_needed cfg next_h st0
      in case pick_prod_idx next_h (active_validator_indices st) of
        Inl e \<Rightarrow> Failed (BlkNoProducer e) st0
      | Inr want_idx \<Rightarrow>
          if bh_prod_idx h \<noteq> want_idx then Failed (BlkProdIdx want_idx (bh_prod_idx h)) st0
          else if length (vc_set (vals cfg)) \<le> unat (bh_prod_idx h) then Failed BlkProdOor st0
          else if \<not> hdr_verify_sig ext h (vr_pubkey (vc_set (vals cfg) ! unat (bh_prod_idx h))) then Failed BlkSig st0
          else if txs_root ext (txs blk) \<noteq> bh_tx_root h then Failed BlkTxRoot st0
          else (case run_blk ext cfg blk next_h st of
            Panicked \<Rightarrow> Panicked
          | Failed e _ \<Rightarrow> Failed (BlkTx e) st0
          | Done st \<Rightarrow> (case prod_acct cfg (bh_prod_idx h) of
              None \<Rightarrow> Panicked
            | Some producer \<Rightarrow>
                if fmlookup (accounts st) producer = None then Failed BlkProdAcct st0
                else let st = pay_producer cfg next_h producer st
                  in if state_digest ext (enc_state enc) st \<noteq> bh_state_root h then Failed BlkStateRoot st0 else Done st)))"

definition append_blk :: "Block \<Rightarrow> State \<Rightarrow> Chain \<Rightarrow> Chain" where
  "append_blk blk st c = set_canon_h (bh_height (hdr blk)) (c\<lparr>ch_st := st, blocks := pop_tail (blocks c @ [blk])\<rparr>)"

definition apply_blk :: "extlib \<Rightarrow> codecs \<Rightarrow> Block \<Rightarrow> SealNode \<Rightarrow> ((BlkErr + unit) \<times> SealNode) option" where
  "apply_blk ext enc blk n = (case check_blk ext enc blk (sn_chain n) of
     Panicked \<Rightarrow> None
   | Failed e _ \<Rightarrow> Some (Inl e, n)
   | Done st \<Rightarrow> map_option (\<lambda>n. (Inr (), n))
       (record_block ext (bh_height (hdr blk)) (txs blk) (n\<lparr>sn_chain := append_blk blk st (sn_chain n)\<rparr>)))"

section \<open>A batch\<close>

definition AUTOSNAPSHOT_BLOCK_INTERVAL :: u64 where "AUTOSNAPSHOT_BLOCK_INTERVAL = 100"
definition STANDBY_SYNC_FLUSH_IV :: u64 where "STANDBY_SYNC_FLUSH_IV = 100"

definition autosnap_hit :: "u64 \<Rightarrow> bool" where
  "autosnap_hit h \<longleftrightarrow> 0 < h \<and> h mod AUTOSNAPSHOT_BLOCK_INTERVAL = 0"

fun apply_blks :: "extlib \<Rightarrow> codecs \<Rightarrow> Block list \<Rightarrow> SealNode \<Rightarrow> ((BlkErr + unit) \<times> SealNode) option" where
  "apply_blks ext enc [] n = Some (Inr (), n)"
| "apply_blks ext enc (blk # rest) n = (case apply_blk ext enc blk n of
     None \<Rightarrow> None
   | Some (Inl e, n) \<Rightarrow> Some (Inl e, n)
   | Some (Inr _, n) \<Rightarrow> apply_blks ext enc rest n)"

text \<open>Heights from \<open>tip_before + 1\<close> to the tip.\<close>

definition new_heights :: "u64 \<Rightarrow> u64 \<Rightarrow> u64 list" where
  "new_heights tip_before h = map of_nat [unat (sat_add tip_before 1) ..< Suc (unat h)]"

definition need_persist :: "bool \<Rightarrow> u64 list \<Rightarrow> bool" where
  "need_persist standby hs \<longleftrightarrow> list_ex autosnap_hit hs \<or> standby \<and> list_ex (\<lambda>h. h = 1 \<or> h mod STANDBY_SYNC_FLUSH_IV = 0) hs"

text \<open>The height of the last checkpoint is the first component of what is returned.\<close>

definition apply_snapshot_init_state :: "string option \<Rightarrow> string + unit \<Rightarrow> u64 \<Rightarrow> u64 \<times> ApiNode \<Rightarrow> u64 \<times> ApiNode" where
  "apply_snapshot_init_state path result h = (\<lambda>(last_snap, n). (case result of
     Inr _ \<Rightarrow> (h, with_init (init_ready path) n)
   | Inl e \<Rightarrow> (last_snap, with_init (init_ready_degraded path e) n)))"

definition periodic_snap_finish ::
  "u64 \<Rightarrow> CommitBak option \<Rightarrow> (string option \<times> (string + unit)) option \<Rightarrow> u64 \<times> ApiNode \<Rightarrow> u64 \<times> ApiNode" where
  "periodic_snap_finish h bak_opt save_result = (\<lambda>(last_snap, n). (case save_result of
     None \<Rightarrow> (last_snap, n)
   | Some (path, Inr _) \<Rightarrow> apply_snapshot_init_state path (Inr ()) h (last_snap, n)
   | Some (path, Inl e) \<Rightarrow> apply_snapshot_init_state path (Inl e) h
       (last_snap, case bak_opt of Some bak \<Rightarrow> rollback_commit bak n | None \<Rightarrow> n)))"

text \<open>\<open>save\<close> is the outcome of writing the snapshot, \<open>None\<close> without a snapshot backend.\<close>

definition apply_blk_batch ::
  "extlib \<Rightarrow> codecs \<Rightarrow> bool \<Rightarrow> (string option \<times> (string + unit)) option \<Rightarrow> Block list \<Rightarrow> u64 \<times> ApiNode
     \<Rightarrow> ((BlkErr + unit) \<times> u64 \<times> ApiNode) option" where
  "apply_blk_batch ext enc standby save blks = (\<lambda>(last_snap, n0).
     let bak = take_bak n0; tip_before = tip_h (api_chain n0)
     in case apply_blks ext enc blks (ap_node n0) of
          None \<Rightarrow> None
        | Some (Inl e, m) \<Rightarrow> Some (Inl e, last_snap, rollback_commit bak (n0\<lparr>ap_node := m\<rparr>))
        | Some (Inr _, m) \<Rightarrow>
            let n = n0\<lparr>ap_node := m\<rparr>; h = tip_h (sn_chain m);
                save_result = (if need_persist standby (new_heights tip_before h) then save else None);
                persist_bak = (if save_result = None then None else Some bak)
            in Some (Inr (), periodic_snap_finish h persist_bak save_result (last_snap, n)))"

section \<open>A block is what a seal makes\<close>

text \<open>The checks on the ledger are those of a seal of the same transactions, all of them unchecked.\<close>

lemma run_raw: "run_steps (apply_entry ext cfg tip h ts) (map Raw xs) st = run_steps (\<lambda>tx. apply_tx_with_ctx ext cfg tx h ts) xs st"
  by (induction xs arbitrary: st) (simp_all add: apply_entry_def split: outcome.split)

lemma sat_next: "unat (tip_h c) + 1 < 2 ^ 64 \<Longrightarrow> checked_add (tip_h c) 1 = Some (sat_add (tip_h c) 1) \<and> sat_add (tip_h c) 1 = tip_h c + 1"
  by (simp add: checked_add_def sat_add_def)

lemma check_blk_seal:
  assumes "check_blk ext enc blk c = Done st"
  shows "bh_height (hdr blk) = sat_add (tip_h c) 1" "bh_prev_hash (hdr blk) = tip_hash ext enc c"
    "seal_state ext (ch_cfg c) tip (bh_height (hdr blk)) (bh_ts (hdr blk)) (map Raw (txs blk)) (ch_st c) = Done (st, bh_prod_idx (hdr blk))"
    "unat (bh_prod_idx (hdr blk)) < length (vc_set (vals (ch_cfg c)))"
    "hdr_verify_sig ext (hdr blk) (vr_pubkey (vc_set (vals (ch_cfg c)) ! unat (bh_prod_idx (hdr blk))))"
    "txs_root ext (txs blk) = bh_tx_root (hdr blk)" "state_digest ext (enc_state enc) st = bh_state_root (hdr blk)"
  using assms
  by (auto simp: check_blk_def run_blk_def seal_state_def run_raw Let_def split: if_splits sum.splits outcome.splits option.splits)

lemma check_blk_accepts:
  assumes "bh_height (hdr blk) = sat_add (tip_h c) 1" "bh_prev_hash (hdr blk) = tip_hash ext enc c"
    and "seal_state ext (ch_cfg c) tip (bh_height (hdr blk)) (bh_ts (hdr blk)) (map Raw (txs blk)) (ch_st c) = Done (st, bh_prod_idx (hdr blk))"
    and "unat (bh_prod_idx (hdr blk)) < length (vc_set (vals (ch_cfg c)))"
    and "hdr_verify_sig ext (hdr blk) (vr_pubkey (vc_set (vals (ch_cfg c)) ! unat (bh_prod_idx (hdr blk))))"
    and "txs_root ext (txs blk) = bh_tx_root (hdr blk)" "state_digest ext (enc_state enc) st = bh_state_root (hdr blk)"
  shows "check_blk ext enc blk c = Done st"
  using assms
  by (auto simp: check_blk_def run_blk_def seal_state_def run_raw Let_def split: if_splits sum.splits outcome.splits option.splits)

lemma check_blk_root:
  assumes "bh_height (hdr blk) = sat_add (tip_h c) 1" "bh_prev_hash (hdr blk) = tip_hash ext enc c"
    and "seal_state ext (ch_cfg c) tip (bh_height (hdr blk)) (bh_ts (hdr blk)) (map Raw (txs blk)) (ch_st c) = Done (st, bh_prod_idx (hdr blk))"
    and "unat (bh_prod_idx (hdr blk)) < length (vc_set (vals (ch_cfg c)))"
    and "hdr_verify_sig ext (hdr blk) (vr_pubkey (vc_set (vals (ch_cfg c)) ! unat (bh_prod_idx (hdr blk))))"
    and "txs_root ext (txs blk) = bh_tx_root (hdr blk)" "state_digest ext (enc_state enc) st \<noteq> bh_state_root (hdr blk)"
  shows "check_blk ext enc blk c = Failed BlkStateRoot (ch_st c)"
  using assms
  by (auto simp: check_blk_def run_blk_def seal_state_def run_raw Let_def split: if_splits sum.splits outcome.splits option.splits)

lemma check_blk_Failed: "check_blk ext enc blk c = Failed e s \<Longrightarrow> s = ch_st c"
  by (auto simp: check_blk_def Let_def split: if_splits sum.splits outcome.splits option.splits)

end
