(* ===== verification/Pwm_Follow_Props.thy ===== *)
theory Pwm_Follow_Props
  imports Pwm_Follow Pwm_Api_Props
begin

text \<open>
  Nodes of one shard: some seal, others follow the blocks they receive. What a followed block
  guarantees, that the block of one node is accepted by another, when it is not, and that nodes with the
  same tip have the same ledger.
\<close>

section \<open>What an accepted block does to a node\<close>

lemma record_tx_chain: "record_cross_shard_tx ext tx h n = Some n' \<Longrightarrow> sn_chain n' = sn_chain n"
  by (auto simp: record_cross_shard_tx_def Let_def split: TxBody.splits)

lemma record_block_chain: "record_block ext h ts n = Some n' \<Longrightarrow> sn_chain n' = sn_chain n"
  by (induction ts arbitrary: n) (auto simp: record_tx_chain split: Option.bind_splits)

lemma apply_blk_ok:
  assumes "apply_blk ext enc blk n = Some (Inr u, n')"
  obtains st where "check_blk ext enc blk (sn_chain n) = Done st" "sn_chain n' = append_blk blk st (sn_chain n)"
  using assms by (auto simp: apply_blk_def dest: record_block_chain split: outcome.splits)

lemma apply_blk_error: "apply_blk ext enc blk n = Some (Inl e, n') \<Longrightarrow> n' = n"
  by (auto simp: apply_blk_def split: outcome.splits)

lemma append_blk_fields [simp]:
  "ch_st (append_blk blk st c) = st" "canonical_h (append_blk blk st c) = bh_height (hdr blk)"
  "ch_cfg (append_blk blk st c) = ch_cfg c" "val_sks (append_blk blk st c) = val_sks c"
  "blocks (append_blk blk st c) = pop_tail (blocks c @ [blk])" "seal_time_mode (append_blk blk st c) = seal_time_mode c"
  by (simp_all add: append_blk_def set_canon_h_def)

lemma append_blk_last [simp]: "last (blocks (append_blk blk st c)) = blk" "blocks (append_blk blk st c) \<noteq> []"
  using last_pop_tail [of "blocks c @ [blk]"] by simp_all

section \<open>The chains of a shard\<close>

text \<open>What a node can hold: the boot of its genesis, then blocks it sealed and blocks it followed. (The height of
  the chain stays below the range of its type.)\<close>

inductive node_chain :: "extlib \<Rightarrow> codecs \<Rightarrow> GenCfg \<Rightarrow> Chain \<Rightarrow> bool"
  for ext :: extlib and enc :: codecs and cfg :: GenCfg where
  nc_boot: "boot cfg sks = Some c \<Longrightarrow> node_chain ext enc cfg c"
| nc_seal: "node_chain ext enc cfg c \<Longrightarrow> seal_entries ext enc clock entries c = Done c' \<Longrightarrow> node_chain ext enc cfg c'"
| nc_follow: "node_chain ext enc cfg c \<Longrightarrow> check_blk ext enc blk c = Done st \<Longrightarrow> unat (canonical_h c) + 1 < 2 ^ 64 \<Longrightarrow> node_chain ext enc cfg (append_blk blk st c)"
| nc_mode: "node_chain ext enc cfg c \<Longrightarrow> node_chain ext enc cfg (set_seal_time_mode m c)"

lemma follow_ops:
  assumes "check_blk ext enc blk c = Done st"
  obtains ops where "run_steps (ledger_op ext (ch_cfg c)) ops (ch_st c) = Done st"
  by (rule seal_state_ops [OF check_blk_seal(3) [OF assms]]) blast

lemma follow_tail_ok:
  assumes "tail_ok ext enc c" "check_blk ext enc blk c = Done st" "unat (canonical_h c) + 1 < 2 ^ 64"
  shows "tail_ok ext enc (append_blk blk st c)"
proof -
  note ok = check_blk_seal(1,2) [OF assms(2)]
  have "unat (bh_height (hdr blk)) = Suc (unat (canonical_h c))"
    using ok(1) assms(3) by (simp add: tip_h_def sat_add_def unat_Suc_nonce)
  then have "linked ext enc (blocks c @ [blk])"
    using assms(1) ok(2) by (auto simp: linked_append tail_ok_def tip_hash_def)
  then have "linked ext enc (pop_tail (blocks c @ [blk]))" unfolding pop_tail_drop by (rule linked_drop)
  then show ?thesis
    using append_blk_last [of blk st c] length_pop_tail [of "blocks c @ [blk]"] by (simp add: tail_ok_def)
qed

lemma follow_inv:
  assumes "chain_inv ext enc cfg sks c" "check_blk ext enc blk c = Done st" "unat (canonical_h c) + 1 < 2 ^ 64"
  shows "chain_inv ext enc cfg sks (append_blk blk st c)"
proof -
  from follow_ops [OF assms(2)] obtain ops where "run_steps (ledger_op ext (ch_cfg c)) ops (ch_st c) = Done st" .
  from block_ops_inv [OF _ _ this] follow_tail_ok [OF _ assms(2,3)] assms(1) show ?thesis
    by (simp add: chain_inv_def)
qed

text \<open>The ledger is the one its last block names, or the genesis one.\<close>

definition genesis_st :: "GenCfg \<Rightarrow> State" where
  "genesis_st cfg = (state0 cfg)\<lparr>active_validator_indices := recompute_active_idxs cfg (state0 cfg)\<rparr>"

definition rooted :: "extlib \<Rightarrow> codecs \<Rightarrow> Chain \<Rightarrow> bool" where
  "rooted ext enc c \<longleftrightarrow> (if blocks c = [] then ch_st c = genesis_st (ch_cfg c)
     else bh_state_root (hdr (last (blocks c))) = state_digest ext (enc_state enc) (ch_st c))"

lemma sealed_last:
  assumes "seal_entries ext enc clock entries c = Done c'"
  obtains h prod_idx where
    "seal_state ext (ch_cfg c) (tip_h c) (bh_height h) (bh_ts h) entries (ch_st c) = Done (ch_st c', prod_idx)"
    "bh_height h = sat_add (tip_h c) 1" "canonical_h c' = bh_height h" "bh_prev_hash h = tip_hash ext enc c" "bh_prod_idx h = prod_idx"
    "bh_tx_root h = txs_root ext (map entry_tx entries)" "bh_state_root h = state_digest ext (enc_state enc) (ch_st c')"
    "unat prod_idx < length (val_sks c)" "unat (canonical_h c) + 1 < 2 ^ 64"
    "blocks c' = pop_tail (blocks c @ [last (blocks c')])" "blocks c' \<noteq> []"
    "last (blocks c') = \<lparr> hdr = hdr_sign ext (val_sks c ! unat prod_idx) h, txs = map entry_tx entries \<rparr>"
  using assms
proof (cases rule: seal_Done)
  case (1 height ts st prod_idx h)
  let ?b = "\<lparr> hdr = hdr_sign ext (val_sks c ! unat prod_idx) h, txs = map entry_tx entries \<rparr>"
  have b: "last (blocks c') = ?b" "blocks c' \<noteq> []"
    using last_pop_tail [of "blocks c @ [?b]"] by (simp_all add: 1(5))
  note hh = next_apply_ctx_height [OF 1(1)]
  have "unat height < 2 ^ 64" using unsigned_less [of height, where ?'a = nat] by simp
  then have small: "unat (canonical_h c) + 1 < 2 ^ 64" using hh by (metis Suc_eq_plus1)
  have "height = sat_add (tip_h c) 1" using hh sat_next [of c] small by (simp add: tip_h_def)
  moreover have "bh_height h = height" "bh_ts h = ts" "bh_prev_hash h = tip_hash ext enc c" "bh_prod_idx h = prod_idx"
    "bh_tx_root h = txs_root ext (map entry_tx entries)" "bh_state_root h = state_digest ext (enc_state enc) st"
    by (simp_all add: 1(3))
  moreover have "ch_st c' = st" "canonical_h c' = height" "blocks c' = pop_tail (blocks c @ [last (blocks c')])"
    unfolding b(1) by (simp_all add: 1(5))
  ultimately show ?thesis using that [of h prod_idx] 1(2,4) b small by simp
qed

lemma node_chain_facts:
  assumes "node_chain ext enc cfg c"
  shows "chain_inv ext enc cfg (val_sks c) c \<and> active_inv cfg (ch_st c) \<and> rooted ext enc c"
  using assms
proof (induction rule: node_chain.induct)
  case (nc_boot sks c)
  have "ch_st c = genesis_st cfg" using nc_boot by (auto simp: genesis_st_def boot_def Let_def split: if_splits)
  then show ?case using boot_inv [OF nc_boot] boot_active [OF nc_boot] boot_Some(1,3,4) [OF nc_boot] by (simp add: rooted_def)
next
  case (nc_seal c clock entries c')
  have step: "chain_step ext enc c c'" using nc_seal(2) by (rule chain_step.intros)
  have "chain_inv ext enc cfg (val_sks c) c'" using nc_seal by (intro step_inv [OF _ step]) simp
  moreover have "active_inv cfg (ch_st c')" using nc_seal by (intro step_active [OF _ _ step]) (simp_all add: chain_inv_def)
  moreover have "rooted ext enc c'" by (rule sealed_last [OF nc_seal(2)]) (simp add: rooted_def)
  ultimately show ?case by (simp add: chain_inv_def)
next
  case (nc_follow c blk st)
  have "ch_cfg c = cfg" using nc_follow by (simp add: chain_inv_def)
  moreover from follow_ops [OF nc_follow(2)] obtain ops where "run_steps (ledger_op ext (ch_cfg c)) ops (ch_st c) = Done st" .
  ultimately have "active_inv cfg st" using active_ledger.run_inv [of cfg "ch_st c" ext ops st] nc_follow by simp
  moreover have "rooted ext enc (append_blk blk st c)"
    using append_blk_last [of blk st c] check_blk_seal(7) [OF nc_follow(2)] by (simp add: rooted_def)
  ultimately show ?case using follow_inv [OF _ nc_follow(2,3)] nc_follow(4) by simp
next
  case (nc_mode c m)
  then show ?case by (simp add: chain_inv_def tail_ok_def set_seal_time_mode_def rooted_def)
qed

section \<open>Agreement\<close>


section \<open>A sealed block is accepted\<close>

text \<open>The two nodes hold the same chain, apart from keys and clock.\<close>

definition same_chain :: "Chain \<Rightarrow> Chain \<Rightarrow> bool" where
  "same_chain c d \<longleftrightarrow> ch_cfg d = ch_cfg c \<and> ch_st d = ch_st c \<and> blocks d = blocks c \<and> canonical_h d = canonical_h c"

text \<open>The signing keys belong to the validators of the genesis, and signatures of the library verify.\<close>

definition keys_ok :: "extlib \<Rightarrow> Chain \<Rightarrow> bool" where
  "keys_ok ext c \<longleftrightarrow> map (x_pubkey ext) (val_sks c) = map vr_pubkey (vc_set (vals (ch_cfg c))) \<and>
     (\<forall>sk m. sk \<in> set (val_sks c) \<longrightarrow> sig_correct ext sk m)"

lemma upsert_snd: "ledger_ok l \<Longrightarrow> \<exists>l'. (\<exists>ch. upsert f l = Some (ch, l')) \<and> ledger_ok l'"
  using upsert_keeps [of l f] by blast

lemma record_export_ends: "ledger_ok l \<Longrightarrow> \<exists>l'. record_export ext tx h i l = Some l' \<and> ledger_ok l'"
  by (cases "body tx"; cases "export_id ext tx") (simp_all add: record_export_def upsert_snd)

lemma record_import_ends: "ledger_ok l \<Longrightarrow> \<exists>l'. record_import ext tx h p l = Some l' \<and> ledger_ok l'"
  by (cases "body tx") (simp_all add: record_import_def upsert_snd Let_def split: prod.split)

lemma record_tx_ends: "ledger_ok (sn_cross_shard n) \<Longrightarrow> \<exists>n'. record_cross_shard_tx ext tx h n = Some n' \<and> ledger_ok (sn_cross_shard n')"
proof (cases "body tx")
  case (Export t d a f)
  assume "ledger_ok (sn_cross_shard n)"
  then obtain l where "record_export ext tx h (Option.bind (export_id ext tx)
      (\<lambda>eid. map_option ri_intent_id (get_by_export_id eid (sn_roaming_pool n)))) (sn_cross_shard n) = Some l" "ledger_ok l"
    using record_export_ends by blast
  with Export show ?thesis by (simp add: record_cross_shard_tx_def Let_def)
next
  case (Import t a eid)
  assume "ledger_ok (sn_cross_shard n)"
  then obtain l where "record_import ext tx h (case import_provenance tx of Some p \<Rightarrow> Some p
      | None \<Rightarrow> fmlookup (exported_registry (ch_st (sn_chain n))) eid) (sn_cross_shard n) = Some l" "ledger_ok l"
    using record_import_ends by blast
  with Import show ?thesis by (simp add: record_cross_shard_tx_def Let_def)
qed (simp_all add: record_cross_shard_tx_def)

lemma record_block_ends: "ledger_ok (sn_cross_shard n) \<Longrightarrow> record_block ext h ts n \<noteq> None"
proof (induction ts arbitrary: n)
  case (Cons tx ts)
  then obtain m where "record_cross_shard_tx ext tx h n = Some m" "ledger_ok (sn_cross_shard m)" using record_tx_ends by blast
  with Cons.IH show ?case by simp
qed simp

lemma follow_sealed:
  assumes c: "node_chain ext enc cfg c" "length (vc_set (vals cfg)) \<le> 2 ^ 16" "keys_ok ext c"
    and run: "seal_entries ext enc clock entries c = Done c'" and n: "same_chain c (sn_chain n)" "ledger_ok (sn_cross_shard n)"
  shows "(\<exists>n'. apply_blk ext enc (last (blocks c')) n = Some (Inr (), n') \<and> sn_chain n' = append_blk (last (blocks c')) st (sn_chain n)) \<longleftrightarrow>
    seal_state ext cfg (tip_h c) (canonical_h c') (bh_ts (hdr (last (blocks c')))) (map (Raw \<circ> entry_tx) entries) (ch_st c) =
      Done (st, bh_prod_idx (hdr (last (blocks c')))) \<and> state_digest ext (enc_state enc) st = state_digest ext (enc_state enc) (ch_st c')"
  using run
proof (cases rule: sealed_last)
  case (1 h prod_idx)
  let ?b = "last (blocks c')" and ?d = "sn_chain n"
  have cfg: "ch_cfg c = cfg" using node_chain_facts [OF c(1)] by (simp add: chain_inv_def)
  have d: "ch_cfg ?d = cfg" "ch_st ?d = ch_st c" "tip_h ?d = tip_h c" "tip_hash ext enc ?d = tip_hash ext enc c"
    using n(1) cfg by (simp_all add: same_chain_def tip_h_def tip_hash_def)
  have idx: "unat prod_idx < length (vc_set (vals cfg))"
    using seal_producer(1) [of c ext "tip_h c" "bh_height h" "bh_ts h" entries "ch_st c'" prod_idx] 1(1) c(2) cfg
      node_chain_facts [OF c(1)] by simp
  have key: "x_pubkey ext (val_sks c ! unat prod_idx) = vr_pubkey (vc_set (vals cfg) ! unat prod_idx)"
    using c(3) 1(8) idx unfolding keys_ok_def cfg by (metis nth_map)
  have sig: "hdr_verify_sig ext (hdr ?b) (vr_pubkey (vc_set (vals cfg) ! unat (bh_prod_idx (hdr ?b))))"
    using hdr_sign_verifies [of ext "val_sks c ! unat prod_idx" h] c(3) 1(8) by (simp add: 1(12) 1(5) key [symmetric] keys_ok_def)
  have fields: "bh_height (hdr ?b) = canonical_h c'" "bh_prod_idx (hdr ?b) = prod_idx" "txs ?b = map entry_tx entries"
    using 1(3,5) by (simp_all add: 1(12))
  have raw: "map Raw (txs ?b) = map (Raw \<circ> entry_tx) entries" by (simp add: fields)
  show ?thesis
  proof
    assume "\<exists>n'. apply_blk ext enc ?b n = Some (Inr (), n') \<and> sn_chain n' = append_blk ?b st ?d"
    then obtain n' where n': "apply_blk ext enc ?b n = Some (Inr (), n')" "sn_chain n' = append_blk ?b st ?d" by blast
    from n'(1) obtain st' where ok: "check_blk ext enc ?b ?d = Done st'" and "sn_chain n' = append_blk ?b st' ?d" by (rule apply_blk_ok)
    with n'(2) have "ch_st (append_blk ?b st' ?d) = ch_st (append_blk ?b st ?d)" by simp
    then have "st' = st" by simp
    with check_blk_seal(3,7) [OF ok] show "seal_state ext cfg (tip_h c) (canonical_h c') (bh_ts (hdr ?b)) (map (Raw \<circ> entry_tx) entries) (ch_st c) =
        Done (st, bh_prod_idx (hdr ?b)) \<and> state_digest ext (enc_state enc) st = state_digest ext (enc_state enc) (ch_st c')"
      using 1(7) by (simp add: d raw fields) (simp add: 1(12))
  next
    assume st: "seal_state ext cfg (tip_h c) (canonical_h c') (bh_ts (hdr ?b)) (map (Raw \<circ> entry_tx) entries) (ch_st c) =
        Done (st, bh_prod_idx (hdr ?b)) \<and> state_digest ext (enc_state enc) st = state_digest ext (enc_state enc) (ch_st c')"
    have "check_blk ext enc ?b ?d = Done st"
    proof (rule check_blk_accepts)
      show "seal_state ext (ch_cfg ?d) (tip_h c) (bh_height (hdr ?b)) (bh_ts (hdr ?b)) (map Raw (txs ?b)) (ch_st ?d) = Done (st, bh_prod_idx (hdr ?b))"
        using st by (simp add: d raw fields)
    qed (use 1(2,4,6,7) st sig idx in \<open>simp_all add: d fields\<close>, simp_all add: 1(12) 1(3))
    moreover have "record_block ext (bh_height (hdr ?b)) (txs ?b) (n\<lparr>sn_chain := append_blk ?b st ?d\<rparr>) \<noteq> None"
      using n(2) by (intro record_block_ends) simp
    then obtain m where m: "record_block ext (bh_height (hdr ?b)) (txs ?b) (n\<lparr>sn_chain := append_blk ?b st ?d\<rparr>) = Some m" by blast
    ultimately show "\<exists>n'. apply_blk ext enc ?b n = Some (Inr (), n') \<and> sn_chain n' = append_blk ?b st ?d"
      using record_block_chain [OF m] by (simp add: apply_blk_def)
  qed
qed

lemma follow_raw:
  assumes "node_chain ext enc cfg c" "length (vc_set (vals cfg)) \<le> 2 ^ 16" "keys_ok ext c"
    and "seal ext enc clock block_txs c = Done c'" "same_chain c (sn_chain n)" "ledger_ok (sn_cross_shard n)"
  shows "\<exists>n'. apply_blk ext enc (last (blocks c')) n = Some (Inr (), n') \<and> same_chain c' (sn_chain n')"
proof -
  have run: "seal_entries ext enc clock (map Raw block_txs) c = Done c'" using assms(4) by (simp add: seal_def)
  let ?b = "last (blocks c')" and ?d = "sn_chain n"
  have cfg: "ch_cfg c = cfg" using node_chain_facts [OF assms(1)] by (simp add: chain_inv_def)
  have cfg': "ch_cfg c' = ch_cfg c" using run by (auto elim!: seal_Done)
  from run show ?thesis
  proof (cases rule: sealed_last)
    case (1 h prod_idx)
    have "map (Raw \<circ> entry_tx) (map Raw block_txs) = map Raw block_txs" by simp
    then have "seal_state ext cfg (tip_h c) (canonical_h c') (bh_ts (hdr ?b)) (map (Raw \<circ> entry_tx) (map Raw block_txs)) (ch_st c) =
        Done (ch_st c', bh_prod_idx (hdr ?b))"
      using 1(1,3,5) cfg by (simp add: 1(12) del: map_map)
    then obtain n' where n': "apply_blk ext enc ?b n = Some (Inr (), n')" "sn_chain n' = append_blk ?b (ch_st c') ?d"
      using follow_sealed [OF assms(1-3) run assms(5,6), of "ch_st c'"] by blast
    have "blocks ?d = blocks c" "ch_cfg ?d = ch_cfg c" using assms(5) by (simp_all add: same_chain_def)
    moreover have "bh_height (hdr ?b) = canonical_h c'" using 1(3) by (simp add: 1(12))
    ultimately have "same_chain c' (append_blk ?b (ch_st c') ?d)" using 1(10) cfg' by (simp add: same_chain_def)
    with n' show ?thesis by auto
  qed
qed

text \<open>C19: A block sealed from transactions that were checked in full is accepted by every node that holds the same
  chain, and leads it to the same ledger, the same blocks and the same height.\<close>

theorem sealed_block_followed:
  assumes "node_chain ext enc cfg c" "length (vc_set (vals cfg)) \<le> 2 ^ 16" "keys_ok ext c"
    and "seal ext enc clock block_txs c = Done c'" "same_chain c (sn_chain n)" "ledger_ok (sn_cross_shard n)"
  shows "\<exists>n'. apply_blk ext enc (last (blocks c')) n = Some (Inr (), n') \<and> same_chain c' (sn_chain n')"
  using assms by (rule follow_raw)

text \<open>A block with prevalidated transactions is accepted exactly when the checks the sealer skipped lead to the
  same ledger: if they do not, every node that follows refuses the block. (The
  digests of the two ledgers do not collide.)\<close>

theorem skipped_checks_must_agree:
  assumes "node_chain ext enc cfg c" "length (vc_set (vals cfg)) \<le> 2 ^ 16" "keys_ok ext c"
    and "seal_entries ext enc clock entries c = Done c'" "same_chain c (sn_chain n)" "ledger_ok (sn_cross_shard n)"
    and "\<And>st i. seal_state ext cfg (tip_h c) (canonical_h c') (bh_ts (hdr (last (blocks c')))) (map (Raw \<circ> entry_tx) entries) (ch_st c) = Done (st, i) \<Longrightarrow>
      state_digest ext (enc_state enc) st = state_digest ext (enc_state enc) (ch_st c') \<Longrightarrow> st = ch_st c'"
  shows "(\<exists>n'. apply_blk ext enc (last (blocks c')) n = Some (Inr (), n')) \<longleftrightarrow>
    seal_state ext cfg (tip_h c) (canonical_h c') (bh_ts (hdr (last (blocks c')))) (map (Raw \<circ> entry_tx) entries) (ch_st c) =
      Done (ch_st c', bh_prod_idx (hdr (last (blocks c'))))"
proof -
  note iff = follow_sealed [OF assms(1-6)]
  show ?thesis
  proof
    assume "\<exists>n'. apply_blk ext enc (last (blocks c')) n = Some (Inr (), n')"
    then obtain n' where n': "apply_blk ext enc (last (blocks c')) n = Some (Inr (), n')" by blast
    then obtain st where "sn_chain n' = append_blk (last (blocks c')) st (sn_chain n)" by (rule apply_blk_ok)
    with n' iff [of st] assms(7) show "seal_state ext cfg (tip_h c) (canonical_h c') (bh_ts (hdr (last (blocks c')))) (map (Raw \<circ> entry_tx) entries) (ch_st c) =
      Done (ch_st c', bh_prod_idx (hdr (last (blocks c'))))" by auto
  qed (use iff [of "ch_st c'"] in blast)
qed

section \<open>What an accepted block shows\<close>

text \<open>A block a node accepts continues its chain by one, is signed by the validator whose turn it is, commits to its
  transactions and to the ledger they lead to, and keeps every invariant of the chain.\<close>

theorem accepted_block_is_authentic:
  assumes "node_chain ext enc cfg (sn_chain n)" "apply_blk ext enc blk n = Some (Inr (), n')" "unat (canonical_h (sn_chain n)) + 1 < 2 ^ 64"
  shows "chain_inv ext enc cfg (val_sks (sn_chain n)) (sn_chain n') \<and> node_chain ext enc cfg (sn_chain n') \<and>
    unat (bh_height (hdr blk)) = Suc (unat (tip_h (sn_chain n))) \<and> bh_prev_hash (hdr blk) = tip_hash ext enc (sn_chain n) \<and>
    pick_prod_idx (bh_height (hdr blk)) (active_validator_indices (roll_epoch_if_needed cfg (bh_height (hdr blk)) (ch_st (sn_chain n)))) =
      Inr (bh_prod_idx (hdr blk)) \<and>
    hdr_verify_sig ext (hdr blk) (vr_pubkey (vc_set (vals cfg) ! unat (bh_prod_idx (hdr blk)))) \<and>
    bh_tx_root (hdr blk) = txs_root ext (txs blk) \<and> bh_state_root (hdr blk) = state_digest ext (enc_state enc) (ch_st (sn_chain n'))"
proof -
  from assms(2) obtain st where st: "check_blk ext enc blk (sn_chain n) = Done st" "sn_chain n' = append_blk blk st (sn_chain n)"
    by (rule apply_blk_ok)
  note facts = node_chain_facts [OF assms(1)]
  have cfg: "ch_cfg (sn_chain n) = cfg" using facts by (simp add: chain_inv_def)
  from check_blk_seal(3) [OF st(1)] have pick: "pick_prod_idx (bh_height (hdr blk))
      (active_validator_indices (roll_epoch_if_needed cfg (bh_height (hdr blk)) (ch_st (sn_chain n)))) = Inr (bh_prod_idx (hdr blk))"
    unfolding cfg by (rule seal_state_ops)
  have "unat (bh_height (hdr blk)) = Suc (unat (tip_h (sn_chain n)))"
    using check_blk_seal(1) [OF st(1)] assms(3) by (simp add: tip_h_def sat_add_def unat_Suc_nonce)
  with check_blk_seal(2,5,6,7) [OF st(1)] follow_inv [OF _ st(1) assms(3)] facts nc_follow [OF assms(1) st(1) assms(3)] cfg pick show ?thesis
    by (simp add: st(2))
qed

section \<open>Examples\<close>

lemma demo_node_chain: "node_chain ext enc demo_cfg demo_chain"
proof -
  have "boot demo_cfg [demo_A] = Some (demo_chain\<lparr>seal_time_mode := WallClock\<rparr>)"
    by (simp add: boot_def demo_state0 demo_chain_def recompute_active_idxs_filter staked_validator_def Let_def)
      (simp add: demo_st_def demo_cfg_def dev_net_cfg_def Let_def genesis_funded_def)
  from nc_mode [OF nc_boot [OF this], of ext enc DeterministicHeight] show ?thesis
    by (simp add: set_seal_time_mode_def demo_chain_def)
qed

lemma demo_ready:
  "length (vc_set (vals demo_cfg)) \<le> 2 ^ 16" "keys_ok demo_ext demo_chain" "same_chain demo_chain (sn_chain (demo_node demo_chain []))"
  "ledger_ok (sn_cross_shard (demo_node demo_chain []))"
  by (simp_all add: keys_ok_def demo_sig_correct same_chain_def demo_node_def ledger_ok_def fcard.rep_eq)
    (simp_all add: demo_chain_def demo_ext_def toy_ext_def)

lemma demo_seal:
  "\<exists>c'. seal demo_ext demo_codecs None [demo_tx demo_A 0 (Transfer demo_B 100 3)] demo_chain = Done c'"
  by (simp add: seal_def seal_eval checked_add_def sat_add_def DET_SEAL_TS_BASE_def tx_eval demo_eval)

theorem sealed_block_followed_witness:
  "\<exists>c' n'. seal demo_ext demo_codecs None [demo_tx demo_A 0 (Transfer demo_B 100 3)] demo_chain = Done c' \<and>
     apply_blk demo_ext demo_codecs (last (blocks c')) (demo_node demo_chain []) = Some (Inr (), n') \<and> same_chain c' (sn_chain n')"
proof -
  obtain c' where run: "seal demo_ext demo_codecs None [demo_tx demo_A 0 (Transfer demo_B 100 3)] demo_chain = Done c'"
    using demo_seal by blast
  from sealed_block_followed [OF demo_node_chain demo_ready(1,2) run demo_ready(3,4)] run show ?thesis by blast
qed

lemma demo_followed:
  obtains c' n' where "seal demo_ext demo_codecs None [demo_tx demo_A 0 (Transfer demo_B 100 3)] demo_chain = Done c'"
    "apply_blk demo_ext demo_codecs (last (blocks c')) (demo_node demo_chain []) = Some (Inr (), n')" "same_chain c' (sn_chain n')"
  using demo_seal follow_raw [OF demo_node_chain demo_ready(1,2) _ demo_ready(3,4)] by blast

lemma demo_low: "unat (canonical_h (sn_chain (demo_node demo_chain []))) + 1 < 2 ^ 64"
  by (simp add: demo_node_facts demo_chain_def)

theorem accepted_block_is_authentic_witness:
  "\<exists>(c' :: Chain) n'. apply_blk demo_ext demo_codecs (last (blocks c')) (demo_node demo_chain []) = Some (Inr (), n') \<and>
     bh_prev_hash (hdr (last (blocks c'))) = tip_hash demo_ext demo_codecs demo_chain"
proof (rule demo_followed)
  fix c' :: Chain and n'
  assume run: "apply_blk demo_ext demo_codecs (last (blocks c')) (demo_node demo_chain []) = Some (Inr (), n')"
  have "node_chain demo_ext demo_codecs demo_cfg (sn_chain (demo_node demo_chain []))" by (simp add: demo_node_facts demo_node_chain)
  from accepted_block_is_authentic [OF this run demo_low] have "bh_prev_hash (hdr (last (blocks c'))) = tip_hash demo_ext demo_codecs demo_chain"
    by (simp add: demo_node_facts)
  with run show ?thesis by blast
qed


text \<open>A transfer validated at the tip and one checked in full lead to the same ledger here.\<close>

lemma demo_prevalidated:
  obtains c' where "seal_entries demo_ext demo_codecs None [PreValidated (demo_tx demo_A 0 (Transfer demo_B 100 3)) 0] demo_chain = Done c'"
    "seal_state demo_ext demo_cfg 0 (canonical_h c') (bh_ts (hdr (last (blocks c')))) [Raw (demo_tx demo_A 0 (Transfer demo_B 100 3))] (ch_st demo_chain) =
       Done (ch_st c', bh_prod_idx (hdr (last (blocks c'))))"
proof -
  let ?tx = "demo_tx demo_A 0 (Transfer demo_B 100 3)"
  have same: "seal_state demo_ext demo_cfg 0 h ts [PreValidated ?tx 0] (ch_st demo_chain) = seal_state demo_ext demo_cfg 0 h ts [Raw ?tx] (ch_st demo_chain)" for h ts
    by (simp add: seal_eval tx_eval demo_eval)
  have "\<exists>c'. seal_entries demo_ext demo_codecs None [PreValidated ?tx 0] demo_chain = Done c'"
    by (simp add: seal_eval checked_add_def sat_add_def DET_SEAL_TS_BASE_def tx_eval demo_eval)
  then obtain c' where run: "seal_entries demo_ext demo_codecs None [PreValidated ?tx 0] demo_chain = Done c'" by blast
  from run show thesis
  proof (cases rule: sealed_last)
    case (1 h prod_idx)
    have tip: "tip_h demo_chain = 0" "ch_cfg demo_chain = demo_cfg" by (simp_all add: tip_h_def demo_chain_def)
    show thesis using 1(1) by (intro that [OF run]) (simp add: 1(12) 1(3) 1(5) same [symmetric] tip)
  qed
qed

theorem skipped_checks_must_agree_witness:
  "\<exists>c' n'. seal_entries demo_ext demo_codecs None [PreValidated (demo_tx demo_A 0 (Transfer demo_B 100 3)) 0] demo_chain = Done c' \<and>
     apply_blk demo_ext demo_codecs (last (blocks c')) (demo_node demo_chain []) = Some (Inr (), n')"
proof (rule demo_prevalidated)
  fix c'
  assume run: "seal_entries demo_ext demo_codecs None [PreValidated (demo_tx demo_A 0 (Transfer demo_B 100 3)) 0] demo_chain = Done c'"
    and raw: "seal_state demo_ext demo_cfg 0 (canonical_h c') (bh_ts (hdr (last (blocks c')))) [Raw (demo_tx demo_A 0 (Transfer demo_B 100 3))] (ch_st demo_chain) =
       Done (ch_st c', bh_prod_idx (hdr (last (blocks c'))))"
  have tip: "tip_h demo_chain = 0" by (simp add: tip_h_def demo_chain_def)
  have "\<exists>n'. apply_blk demo_ext demo_codecs (last (blocks c')) (demo_node demo_chain []) = Some (Inr (), n')"
    using skipped_checks_must_agree [OF demo_node_chain demo_ready(1,2) run demo_ready(3,4)] raw by (simp add: tip)
  with run show ?thesis by blast
qed

text \<open>The checks do not always agree: on this chain \<open>demo_B\<close> has an emergency policy ready to be activated.\<close>

definition split_chain :: Chain where
  "split_chain = demo_chain\<lparr>ch_st := put_acc demo_B ((genesis_funded demo_B 0 50)\<lparr>dormant_policies := 2, rescue_address := Some demo_S\<rparr>)
     (ch_st demo_chain)\<rparr>"

definition split_reads :: WorkerReads where
  "split_reads = \<lparr> wr_snapshot = ch_st split_chain, wr_hot_index = hot_map (ch_st split_chain), wr_cfg = demo_cfg, wr_tip_height = 0 \<rparr>"

definition split_activation :: SignedTx where
  "split_activation = (demo_tx demo_B 0 (Policy demo_B (ActivatePolicy 1 (Some demo_S)) 0))
     \<lparr>cosigns := [\<lparr> cs_signer_pk = demo_S, cs_role = Rescue, cs_signature = 0 \<rparr>]\<rparr>"

text \<open>An encoder that shows the balance of \<open>demo_B\<close>.\<close>

definition split_codecs :: codecs where
  "split_codecs = \<lparr> enc_hdr = hdr_payload, enc_state = (\<lambda>st. case fmlookup (accounts st) demo_B of Some a \<Rightarrow> le_bytes 16 (balance_pwm a) | None \<Rightarrow> []) \<rparr>"

lemmas policy_tx_eval = tx_eval demo_eval policy_bit_cases apply_policy_def Let_def validate_pol_action_def from_policy_id_def
  has_role_cosign_def has_valid_cosign_def evacuate_def touch_acct_mrks_def

lemma split_validated:
  "precheck_client demo_ext (Some 9) split_activation split_reads = Some (Inr (validated_tx split_activation 0))"
  "precheck_client demo_ext (Some 9) (demo_tx demo_A 0 (Transfer demo_B 100 3)) split_reads =
     Some (Inr (validated_tx (demo_tx demo_A 0 (Transfer demo_B 100 3)) 0))"
  subgoal
    by (simp add: precheck_client_def split_activation_def split_reads_def precheck_hot_def precheck_full_def precheck_apply_with_ctx_def
        split_chain_def demo_chain_def sat_add_def policy_tx_eval)
  subgoal
    by (simp add: precheck_client_def split_reads_def precheck_hot_def precheck_full_def precheck_apply_with_ctx_def hot_map_def
        account_hot_def hot_safe_def split_chain_def demo_chain_def sat_add_def policy_tx_eval)
  done

lemma split_seal:
  "\<exists>c'. seal_entries demo_ext split_codecs None [PreValidated split_activation 0, PreValidated (demo_tx demo_A 0 (Transfer demo_B 100 3)) 0] split_chain = Done c' \<and>
     map_option balance_pwm (fmlookup (accounts (ch_st c')) demo_B) = Some 100 \<and> bh_prod_idx (hdr (last (blocks c'))) = 0 \<and> canonical_h c' = 1"
  by (simp add: seal_eval checked_add_def sat_add_def DET_SEAL_TS_BASE_def split_chain_def split_activation_def policy_tx_eval pop_tail_drop
      TAIL_BLOCK_CAP_def)

lemma split_full:
  "\<exists>st. seal_state demo_ext demo_cfg tip 1 ts [Raw split_activation, Raw (demo_tx demo_A 0 (Transfer demo_B 100 3))] (ch_st split_chain) = Done (st, 0) \<and>
     map_option balance_pwm (fmlookup (accounts st) demo_B) = Some 0"
  by (simp add: seal_eval checked_add_def sat_add_def split_chain_def split_activation_def policy_tx_eval eval_emerg_redirect_def compute_lazy_marks_def)


section \<open>Batches\<close>

text \<open>What applying blocks may change is what the backup of the batch holds.\<close>

lemma put_commit_node: "put_commit c p l f (n\<lparr>ap_node := m\<rparr>) = n\<lparr>ap_node := m\<lparr>sn_chain := c, sn_roaming_pool := p, sn_cross_shard := l\<rparr>, ap_flow := f\<rparr>"
  by (simp add: put_commit_def)

definition same_shell :: "SealNode \<Rightarrow> SealNode \<Rightarrow> bool" where
  "same_shell n m \<longleftrightarrow> (\<forall>c p l. m\<lparr>sn_chain := c, sn_roaming_pool := p, sn_cross_shard := l\<rparr> = n\<lparr>sn_chain := c, sn_roaming_pool := p, sn_cross_shard := l\<rparr>) \<and>
     ch_cfg (sn_chain m) = ch_cfg (sn_chain n) \<and> val_sks (sn_chain m) = val_sks (sn_chain n) \<and> seal_time_mode (sn_chain m) = seal_time_mode (sn_chain n)"

lemma same_shell_trans: "same_shell n m \<Longrightarrow> same_shell m k \<Longrightarrow> same_shell n k"
  by (simp add: same_shell_def)

lemma record_tx_shell: "record_cross_shard_tx ext tx h n = Some m \<Longrightarrow> same_shell n m"
  by (auto simp: same_shell_def record_cross_shard_tx_def Let_def split: TxBody.splits)

lemma record_block_shell: "record_block ext h ts n = Some m \<Longrightarrow> same_shell n m"
proof (induction ts arbitrary: n)
  case (Cons tx ts)
  from Cons.prems obtain k where "record_cross_shard_tx ext tx h n = Some k" "record_block ext h ts k = Some m" by (auto split: Option.bind_splits)
  with Cons.IH record_tx_shell same_shell_trans show ?case by blast
qed (simp add: same_shell_def)

lemma apply_blk_shell: "apply_blk ext enc blk n = Some (r, m) \<Longrightarrow> same_shell n m"
proof -
  assume run: "apply_blk ext enc blk n = Some (r, m)"
  have start: "same_shell n (n\<lparr>sn_chain := append_blk blk st (sn_chain n)\<rparr>)" for st by (simp add: same_shell_def)
  show ?thesis
  proof (cases "check_blk ext enc blk (sn_chain n)")
    case (Done st)
    with run have "record_block ext (bh_height (hdr blk)) (txs blk) (n\<lparr>sn_chain := append_blk blk st (sn_chain n)\<rparr>) = Some m"
      by (auto simp: apply_blk_def)
    from same_shell_trans [OF start record_block_shell [OF this]] show ?thesis .
  qed (use run in \<open>simp_all add: apply_blk_def same_shell_def\<close>)
qed

lemma apply_blks_shell: "apply_blks ext enc blks n = Some (r, m) \<Longrightarrow> same_shell n m"
proof (induction blks arbitrary: n)
  case (Cons blk blks)
  from Cons.prems obtain r1 k where k: "apply_blk ext enc blk n = Some (r1, k)"
    and rest: "(r1 = Inl (projl r) \<and> k = m) \<or> apply_blks ext enc blks k = Some (r, m)"
    by (auto split: option.splits sum.splits)
  from rest Cons.IH [of k] apply_blk_shell [OF k] same_shell_trans show ?case by blast
qed (simp add: same_shell_def)

lemma shell_rollback: "same_shell (ap_node n) m \<Longrightarrow> rollback_commit (take_bak n) (n\<lparr>ap_node := m\<rparr>) = n"
  by (rule rollback_restores) (simp_all add: touches_commit_def same_shell_def put_commit_def)

lemma batch_cases:
  assumes "apply_blk_batch ext enc standby save blks (last_snap, n) = Some (r, last_snap', n')"
  shows "(case r of
      Inl e \<Rightarrow> last_snap' = last_snap \<and> n' = n
    | Inr _ \<Rightarrow> (\<exists>m. apply_blks ext enc blks (ap_node n) = Some (Inr (), m) \<and>
        (ap_node n' = m \<or> (\<exists>path e. save = Some (path, Inl e) \<and> n' = with_init (init_ready_degraded path e) n \<and> last_snap' = last_snap))))"
proof -
  from assms obtain q m where m: "apply_blks ext enc blks (ap_node n) = Some (q, m)"
    by (auto simp: apply_blk_batch_def Let_def split: option.splits)
  note undo = shell_rollback [OF apply_blks_shell [OF m]]
  show ?thesis
  proof (cases q)
    case (Inl e)
    with assms m undo show ?thesis by (auto simp: apply_blk_batch_def Let_def)
  next
    case (Inr u)
    let ?sv = "if need_persist standby (new_heights (tip_h (api_chain n)) (tip_h (sn_chain m))) then save else None"
    have res: "r = Inr ()" "(last_snap', n') = periodic_snap_finish (tip_h (sn_chain m)) (if ?sv = None then None else Some (take_bak n)) ?sv
        (last_snap, n\<lparr>ap_node := m\<rparr>)"
      using assms m Inr by (simp_all add: apply_blk_batch_def Let_def)
    have m': "apply_blks ext enc blks (ap_node n) = Some (Inr (), m)" using m Inr by simp
    have "ap_node n' = m \<or> (\<exists>path e. save = Some (path, Inl e) \<and> n' = with_init (init_ready_degraded path e) n \<and> last_snap' = last_snap)"
    proof (cases ?sv)
      case None
      with res(2) show ?thesis by (simp add: periodic_snap_finish_def)
    next
      case (Some s)
      then have s: "save = Some s" by (simp split: if_splits)
      with res(2) Some undo show ?thesis
        by (auto simp: periodic_snap_finish_def apply_snapshot_init_state_def with_init_def split: sum.splits prod.splits)
    qed
    with m' res(1) show ?thesis by auto
  qed
qed



end
