(* ===== verification/Pwm_Sync_State.thy ===== *)
theory Pwm_Sync_State
  imports Pwm_Follow Pwm_Addr
begin

text \<open>
  What a node keeps for block synchronisation with the peers of its shard, and the small steps on it
  (src/crates/pwmd/src/transport/peer_session/sync_live.rs, the frames of peer_session/wire.rs, the state of
  transport/handshake_state.rs, the scores of transport/score.rs and the epochs of snapshot/epoch.rs).

  \<open>SyncNode\<close> is what a handler may change: the state per peer, the counters, the height of the last
  checkpoint, the node behind the HTTP handlers, and the stream to the peer (the frames written, the
  sequence number, and which of the next writes fail). \<open>SyncEnv\<close> is what it only reads; every call
  of the clock inside one handler reads the same time. \<open>se_seed_key\<close> is the seed the session was dialled
  by, or the one whose last node is the peer. Log lines are left out.
\<close>

section \<open>Frames\<close>

record SyncWireHdr =
  sw_shard_id :: u8
  sw_peer_session_id :: string
  sw_seq_no :: u64
  sw_timestamp_ms :: u64

record SyncProfileWire =
  sf_sync_wire_version :: u16
  sf_max_headers_per_msg :: u16
  sf_max_blocks_per_msg :: u16
  sf_max_txs_per_msg :: u16
  sf_supports_epoch_catchup :: bool

record SyncHeaderWire =
  sh_height :: u64
  sh_hash :: string
  sh_prev_hash :: string

record SyncBlockWire =
  sb_height :: u64
  sb_hash :: string
  sb_block :: "Block option"

record SyncCatchupChunkWire =
  cu_epoch_id :: u64
  cu_chunk_index :: u32
  cu_first_prev_hash :: string
  cu_last_hash :: string
  cu_headers :: "SyncHeaderWire list"
  cu_blocks :: "SyncBlockWire list"

text \<open>The synchronisation frames of \<open>PeerWireMsg\<close>.\<close>

datatype PeerWireMsg =
    SyncProfileAnnounce SyncWireHdr SyncProfileWire
  | SyncTipAnnounce SyncWireHdr u64 string u64 "string option"
  | SyncHeadersReq SyncWireHdr u64 u16
  | SyncHeadersBatch SyncWireHdr "SyncHeaderWire list"
  | SyncBlocksReq SyncWireHdr "string list" "u64 list option"
  | SyncBlocksBatch SyncWireHdr "SyncBlockWire list"
  | SyncTxAnnounce SyncWireHdr "string list"
  | SyncTxReq SyncWireHdr "string list"
  | SyncTxBatch SyncWireHdr "SignedTx list"
  | SyncNack SyncWireHdr string u32
  | SyncCatchupReq SyncWireHdr u64 u64 u64 string
  | SyncCatchupChunk SyncWireHdr SyncCatchupChunkWire
  | SyncCatchupDone SyncWireHdr u64 u64 string

section \<open>State\<close>

type_synonym blk_row = "u64 \<times> string"

record SyncPeerState =
  sp_tip_h :: u64
  sp_tip_hash :: "string option"
  sp_div_streak :: u8
  sp_wait_hdr_from :: "u64 option"
  sp_wait_hdr_lim :: u16
  sp_wait_blk :: "blk_row list"
  sp_pend_blk :: "blk_row list"
  sp_in_hdr :: u8
  sp_in_blk :: u8
  sp_live_stall :: u8
  sp_cup_active :: bool
  sp_cup_epoch :: u64
  sp_cup_from :: u64
  sp_cup_to :: u64
  sp_cup_next_h :: u64
  sp_cup_next_ix :: u32
  sp_cup_prev_hash :: string
  sp_cup_target_h :: u64
  sp_cup_try :: u8
  sp_cup_next_ms :: u64
  sp_sync_log_ms :: u64
  sp_sync_log_pct :: "u8 option"
  sp_sync_log_done :: bool
  sp_sync_pct100_goal :: "u64 option"
  sp_sync_stall_ms :: u64
  sp_sync_stall_rem :: u64
  sp_fork_h :: "u64 option"
  sp_fork_tip :: u64
  sp_fork_n :: u8
  sp_fork_local :: string
  sp_fork_prev :: string

definition sync_default :: SyncPeerState where
  "sync_default = \<lparr> sp_tip_h = 0, sp_tip_hash = None, sp_div_streak = 0, sp_wait_hdr_from = None, sp_wait_hdr_lim = 0,
     sp_wait_blk = [], sp_pend_blk = [], sp_in_hdr = 0, sp_in_blk = 0, sp_live_stall = 0, sp_cup_active = False,
     sp_cup_epoch = 0, sp_cup_from = 0, sp_cup_to = 0, sp_cup_next_h = 0, sp_cup_next_ix = 0, sp_cup_prev_hash = [],
     sp_cup_target_h = 0, sp_cup_try = 0, sp_cup_next_ms = 0, sp_sync_log_ms = 0, sp_sync_log_pct = None,
     sp_sync_log_done = False, sp_sync_pct100_goal = None, sp_sync_stall_ms = 0, sp_sync_stall_rem = 0,
     sp_fork_h = None, sp_fork_tip = 0, sp_fork_n = 0, sp_fork_local = [], sp_fork_prev = [] \<rparr>"

text \<open>The counters of the transport snapshot that synchronisation uses, and the ones with a reason.\<close>

datatype SyncCounter = Sync_tip_seen_total | Sync_tip_disconnect_total | Sync_hdr_req_total | Sync_hdr_resp_total | Sync_blk_req_total
  | Sync_blk_resp_total | Sync_fork_conflict_total | Sync_apply_ok_total | Sync_apply_fail_total | Sync_cup_start_total
  | Sync_cup_chunk_total | Sync_cup_done_total | Sync_cup_fail_total | Sync_cup_drop_total | Sync_cup_demote_tail
  | Sync_v1_seen_total | Sync_v1_drop_total | Sync_tx_seen_total | Sync_tx_accept_total | Sync_tx_drop_total

datatype SyncBucket = Sync_cup_fail_reason | Sync_v1_drop_reason | Sync_tx_drop_reason | Mempool_ingress_kind_total
  | Mempool_push_suppressed | Mempool_egress_relay_total

record MempoolGspState =
  mg_tx_seen_ms :: "(string, u64) fmap"
  mg_tx_sent_peer_ms :: "(string, (string, u64) fmap) fmap"

text \<open>The local score of a peer (src/crates/pwmd/src/transport/score.rs).\<close>

datatype PeerScoreEvent = SyncRound | ValidBlocks | Timeout | ForkMismatch | BridgeTrustRefusal

fun score_delta :: "PeerScoreEvent \<Rightarrow> int" where
  "score_delta SyncRound = 1"
| "score_delta ValidBlocks = 1"
| "score_delta Timeout = - 2"
| "score_delta ForkMismatch = - 5"
| "score_delta BridgeTrustRefusal = - 10"

record PeerSyncScore =
  pss_peer_id :: string
  pss_score :: int
  pss_sync_rounds :: u64
  pss_valid_blocks :: u64
  pss_timeouts :: u64
  pss_fork_mismatches :: u64
  pss_bridge_trust_refusals :: u64

definition sat_i64 :: "int \<Rightarrow> int" where
  "sat_i64 x = max (- (2 ^ 63)) (min (2 ^ 63 - 1) x)"

fun score_event :: "PeerScoreEvent \<Rightarrow> PeerSyncScore \<Rightarrow> PeerSyncScore" where
  "score_event SyncRound r = r\<lparr>pss_sync_rounds := sat_add (pss_sync_rounds r) 1\<rparr>"
| "score_event ValidBlocks r = r\<lparr>pss_valid_blocks := sat_add (pss_valid_blocks r) 1\<rparr>"
| "score_event Timeout r = r\<lparr>pss_timeouts := sat_add (pss_timeouts r) 1\<rparr>"
| "score_event ForkMismatch r = r\<lparr>pss_fork_mismatches := sat_add (pss_fork_mismatches r) 1\<rparr>"
| "score_event BridgeTrustRefusal r = r\<lparr>pss_bridge_trust_refusals := sat_add (pss_bridge_trust_refusals r) 1\<rparr>"

definition score_apply :: "string \<Rightarrow> PeerScoreEvent \<Rightarrow> (string, PeerSyncScore) fmap \<Rightarrow> int \<times> (string, PeerSyncScore) fmap" where
  "score_apply peer_id event scores =
     (let row = (case fmlookup scores peer_id of Some r \<Rightarrow> r
            | None \<Rightarrow> \<lparr> pss_peer_id = peer_id, pss_score = 0, pss_sync_rounds = 0, pss_valid_blocks = 0, pss_timeouts = 0,
                pss_fork_mismatches = 0, pss_bridge_trust_refusals = 0 \<rparr>);
          row = score_event event (row\<lparr>pss_score := sat_i64 (pss_score row + score_delta event)\<rparr>)
      in (pss_score row, fmupd peer_id row scores))"

definition score_get :: "string \<Rightarrow> (string, PeerSyncScore) fmap \<Rightarrow> int" where
  "score_get peer_id scores = (case fmlookup scores peer_id of Some r \<Rightarrow> pss_score r | None \<Rightarrow> 0)"

record SyncNode =
  sy_peers :: "(string, SyncPeerState) fmap"
  sy_scores :: "(string, PeerSyncScore) fmap"
  sy_seed_due :: "(string, u64) fmap"
  sy_gsp :: MempoolGspState
  sy_count :: "SyncCounter \<Rightarrow> u64"
  sy_bucket :: "SyncBucket \<Rightarrow> string \<Rightarrow> u64"
  sy_last_snap :: u64
  sy_api :: ApiNode
  sy_seq_no :: u64
  sy_out :: "PeerWireMsg list"
  sy_write_fails :: "bool list"

text \<open>The files a node keeps its blocks in: the block at a height, the blocks with the given hashes, and
  consecutive blocks from a height on.\<close>

record BlockFiles =
  bf_at_height :: "u64 \<Rightarrow> string + Block option"
  bf_hash_scan :: "string list \<Rightarrow> string + Block option list"
  bf_consecutive :: "u64 \<Rightarrow> nat \<Rightarrow> string + Block list"

record SyncEnv =
  se_ext :: extlib
  se_enc :: codecs
  se_lib :: addrlib
  se_domain_hi :: u8
  se_node_id :: string
  se_standby :: bool
  se_heartbeat_ms :: u64
  se_retry_max_ms :: u64
  se_files :: "BlockFiles option"
  se_victim :: "string fset \<Rightarrow> string"
  se_save :: "(string option \<times> (string + unit)) option"
  se_now :: u64
  se_clock :: "u64 option"
  se_cooldown_ms :: u64
  se_seed_key :: "string option"

datatype SyncErr = WireWriteFailed | EpochIdxZero | BlockFileErr string

section \<open>Constants\<close>

definition SYNC_HDR_REQ_CAP :: u16 where "SYNC_HDR_REQ_CAP = 128"
definition SYNC_BLK_REQ_CAP :: u16 where "SYNC_BLK_REQ_CAP = 32"
definition SYNC_INF_CAP :: u8 where "SYNC_INF_CAP = 8"
definition SYNC_PEND_CAP :: nat where "SYNC_PEND_CAP = 512"
definition SYNC_PEER_CAP :: nat where "SYNC_PEER_CAP = 64"
definition SYNC_CUP_LAG_MIN :: u64 where "SYNC_CUP_LAG_MIN = 256"
definition SYNC_CUP_TAIL_MAX :: u64 where "SYNC_CUP_TAIL_MAX = 32"
definition SYNC_CUP_WIN_CAP :: u64 where "SYNC_CUP_WIN_CAP = 4096"
definition SYNC_CUP_CHUNK_CAP :: nat where "SYNC_CUP_CHUNK_CAP = 32"
definition SYNC_PROG_MIN_MS :: u64 where "SYNC_PROG_MIN_MS = 7000"
definition SYNC_PROG_TAIL_MS :: u64 where "SYNC_PROG_TAIL_MS = 60000"
definition SYNC_STALL_LOG_MS :: u64 where "SYNC_STALL_LOG_MS = 10000"
definition SYNC_FORK_BRK_CAP :: u8 where "SYNC_FORK_BRK_CAP = 3"
definition EPOCH_SPAN :: u64 where "EPOCH_SPAN = 1000"

section \<open>Epochs of the block files\<close>

record EpochRange =
  ep_idx :: u64
  ep_first_h :: u64
  ep_last_h :: u64

definition epoch_idx :: "u64 \<Rightarrow> SyncErr + u64" where
  "epoch_idx height = (if height = 0 then Inl EpochIdxZero else Inr ((height - 1) div EPOCH_SPAN))"

definition epoch_range :: "u64 \<Rightarrow> EpochRange" where
  "epoch_range idx =
     (let first_h = sat_add (sat_mul idx EPOCH_SPAN) 1; last_h = sat_add first_h (sat_sub EPOCH_SPAN 1)
      in \<lparr> ep_idx = idx, ep_first_h = first_h, ep_last_h = last_h \<rparr>)"

section \<open>Reading and writing the node\<close>

abbreviation sync_chain :: "SyncNode \<Rightarrow> Chain" where
  "sync_chain n \<equiv> api_chain (sy_api n)"

definition hash_hex :: "SyncEnv \<Rightarrow> bytes32 \<Rightarrow> string" where
  "hash_hex v h = x_hex_encode (se_lib v) (be_bytes 32 h)"

definition blk_hash_hex :: "SyncEnv \<Rightarrow> Block \<Rightarrow> string" where
  "blk_hash_hex v b = hash_hex v (hdr_hash (se_ext v) (enc_hdr (se_enc v)) (hdr b))"

definition tip_hash_hex :: "SyncEnv \<Rightarrow> Chain \<Rightarrow> string" where
  "tip_hash_hex v c = hash_hex v (tip_hash (se_ext v) (se_enc v) c)"

definition chain_hash_at :: "SyncEnv \<Rightarrow> u64 \<Rightarrow> string \<Rightarrow> Block list \<Rightarrow> u64 \<Rightarrow> string option" where
  "chain_hash_at v h hash bs height =
     (if height = h then Some hash
      else map_option (blk_hash_hex v) (List.find (\<lambda>b. bh_height (hdr b) = height) (rev bs)))"

definition has_hash :: "blk_row list \<Rightarrow> string \<Rightarrow> bool" where
  "has_hash rows hash \<longleftrightarrow> list_ex (\<lambda>r. snd r = hash) rows"

definition sy_add :: "SyncCounter \<Rightarrow> u64 \<Rightarrow> SyncNode \<Rightarrow> SyncNode" where
  "sy_add k d n = n\<lparr>sy_count := (sy_count n)(k := sat_add (sy_count n k) d)\<rparr>"

definition sy_note :: "SyncBucket \<Rightarrow> string \<Rightarrow> u64 \<Rightarrow> SyncNode \<Rightarrow> SyncNode" where
  "sy_note k reason d n = n\<lparr>sy_bucket := (sy_bucket n)(k := (sy_bucket n k)(reason := sat_add (sy_bucket n k reason) d))\<rparr>"

text \<open>The entry of a peer; an arbitrary other one is dropped when the table is full.\<close>

definition peer_sync :: "SyncEnv \<Rightarrow> string \<Rightarrow> SyncNode \<Rightarrow> SyncPeerState \<times> SyncNode" where
  "peer_sync v node_id n =
     (let ps = sy_peers n;
          ps = (if fmlookup ps node_id = None \<and> SYNC_PEER_CAP \<le> fcard (fmdom ps) then fmdrop (se_victim v (fmdom ps)) ps else ps);
          st = (case fmlookup ps node_id of Some st \<Rightarrow> st | None \<Rightarrow> sync_default)
      in (st, n\<lparr>sy_peers := fmupd node_id st ps\<rparr>))"

definition put_sync :: "string \<Rightarrow> SyncPeerState \<Rightarrow> SyncNode \<Rightarrow> SyncNode" where
  "put_sync node_id st n = n\<lparr>sy_peers := fmupd node_id st (sy_peers n)\<rparr>"

definition upd_sync :: "SyncEnv \<Rightarrow> string \<Rightarrow> (SyncPeerState \<Rightarrow> SyncPeerState) \<Rightarrow> SyncNode \<Rightarrow> SyncNode" where
  "upd_sync v node_id f n = (let (st, n) = peer_sync v node_id n in put_sync node_id (f st) n)"

text \<open>Writing a frame: the next sequence number, then the stream takes it or fails.\<close>

definition sync_hdr :: "SyncEnv \<Rightarrow> SyncNode \<Rightarrow> SyncWireHdr" where
  "sync_hdr v n = \<lparr> sw_shard_id = se_domain_hi v, sw_peer_session_id = se_node_id v, sw_seq_no = sy_seq_no n, sw_timestamp_ms = se_now v \<rparr>"

definition write_wire :: "SyncEnv \<Rightarrow> (SyncWireHdr \<Rightarrow> PeerWireMsg) \<Rightarrow> SyncNode \<Rightarrow> (SyncErr + unit) \<times> SyncNode" where
  "write_wire v mk n =
     (let n = n\<lparr>sy_seq_no := sat_add (sy_seq_no n) 1\<rparr>;
          (broken, rest) = (case sy_write_fails n of [] \<Rightarrow> (False, []) | b # bs \<Rightarrow> (b, bs));
          n = n\<lparr>sy_write_fails := rest\<rparr>
      in if broken then (Inl WireWriteFailed, n) else (Inr (), n\<lparr>sy_out := sy_out n @ [mk (sync_hdr v n)]\<rparr>))"

section \<open>Progress and stall reports\<close>

record SyncProgSnap =
  pg_goal :: u64
  pg_pct :: u8
  pg_rem :: u64

definition sync_prog_snap :: "u64 \<Rightarrow> u64 \<Rightarrow> u64 \<Rightarrow> SyncProgSnap option" where
  "sync_prog_snap local_h peer_tip_h persisted_h =
     (let goal = (if 0 < peer_tip_h then peer_tip_h else max local_h persisted_h)
      in if goal = 0 then None
         else if goal \<le> local_h then Some \<lparr> pg_goal = goal, pg_pct = 100, pg_rem = 0 \<rparr>
         else let left = sat_sub goal local_h;
                  pct = ucast (min (sat_mul local_h 100 div goal) 100) :: u8;
                  pct = (if 0 < left \<and> pct = 100 then 99 else pct)
              in Some \<lparr> pg_goal = goal, pg_pct = pct, pg_rem = left \<rparr>)"

definition sync_prog_tail_quiet :: "bool \<Rightarrow> u64 \<Rightarrow> u64 \<Rightarrow> bool" where
  "sync_prog_tail_quiet cup_active peer_tip_h local_h \<longleftrightarrow>
     \<not> cup_active \<and> 0 < peer_tip_h \<and> sat_sub peer_tip_h local_h < SYNC_CUP_TAIL_MAX"

definition sync_prog_tick :: "u64 \<Rightarrow> u64 \<Rightarrow> u64 \<Rightarrow> u64 \<Rightarrow> SyncPeerState \<Rightarrow> SyncProgSnap option \<times> SyncPeerState" where
  "sync_prog_tick now local_h peer_tip_h persisted_h st = (case sync_prog_snap local_h peer_tip_h persisted_h of
     None \<Rightarrow> (None, st\<lparr>sp_sync_log_done := False\<rparr>)
   | Some snap \<Rightarrow>
       if pg_rem snap = 0 \<and> pg_pct snap = 100 \<and> sp_sync_pct100_goal st = Some (pg_goal snap) then (None, st)
       else let tail_quiet = sync_prog_tail_quiet (sp_cup_active st) peer_tip_h local_h;
                min_ms = (if tail_quiet then SYNC_PROG_TAIL_MS else SYNC_PROG_MIN_MS);
                time_ok = (sp_sync_log_ms st = 0 \<or> min_ms \<le> sat_sub now (sp_sync_log_ms st));
                pct_ok = (case sp_sync_log_pct st of Some prev \<Rightarrow> 1 \<le> sat_sub (pg_pct snap) prev | None \<Rightarrow> True);
                quiet_goal_bump = (tail_quiet \<and> 0 < pg_rem snap \<and> sp_sync_log_done st \<and>
                  (case sp_sync_pct100_goal st of Some g \<Rightarrow> g < pg_goal snap | None \<Rightarrow> False));
                lag_resume = (0 < pg_rem snap \<and> sp_sync_log_done st \<and> \<not> tail_quiet);
                done_now = (pg_rem snap = 0 \<and> \<not> sp_sync_log_done st);
                rem_progress = (0 < pg_rem snap \<and> time_ok \<and> (pct_ok \<or> lag_resume \<or> quiet_goal_bump))
            in if \<not> (done_now \<or> rem_progress) then (None, st)
               else let st = st\<lparr>sp_sync_log_ms := now, sp_sync_log_pct := Some (pg_pct snap), sp_sync_log_done := (pg_rem snap = 0)\<rparr>
                    in (Some snap, if pg_rem snap = 0 \<and> pg_pct snap = 100 then st\<lparr>sp_sync_pct100_goal := Some (pg_goal snap)\<rparr> else st))"

definition sync_stall_tick :: "u64 \<Rightarrow> u64 \<Rightarrow> SyncPeerState \<Rightarrow> bool \<times> SyncPeerState" where
  "sync_stall_tick now left st =
     (if left = 0 then (False, st\<lparr>sp_sync_stall_rem := 0, sp_sync_stall_ms := 0\<rparr>)
      else if sp_sync_stall_rem st \<noteq> left then (False, st\<lparr>sp_sync_stall_rem := left, sp_sync_stall_ms := now\<rparr>)
      else if sp_sync_stall_ms st = 0 then (False, st\<lparr>sp_sync_stall_ms := now\<rparr>)
      else if sat_sub now (sp_sync_stall_ms st) < SYNC_STALL_LOG_MS then (False, st)
      else (True, st\<lparr>sp_sync_stall_ms := now\<rparr>))"

definition maybe_log_sync_prog :: "SyncEnv \<Rightarrow> string \<Rightarrow> u64 \<Rightarrow> u64 \<Rightarrow> SyncNode \<Rightarrow> SyncNode" where
  "maybe_log_sync_prog v node_id local_h peer_tip_h n =
     upd_sync v node_id (\<lambda>st. snd (sync_prog_tick (se_now v) local_h peer_tip_h (sy_last_snap n) st)) n"

section \<open>Broken continuity\<close>

definition fork_clear :: "SyncPeerState \<Rightarrow> SyncPeerState" where
  "fork_clear st = st\<lparr>sp_fork_h := None, sp_fork_tip := 0, sp_fork_n := 0, sp_fork_local := [], sp_fork_prev := []\<rparr>"

definition fork_mark :: "u64 \<Rightarrow> u64 \<Rightarrow> string \<Rightarrow> string \<Rightarrow> SyncPeerState \<Rightarrow> SyncPeerState" where
  "fork_mark brk_h h local_hash peer_prev st =
     (if sp_fork_h st = Some brk_h \<and> sp_fork_tip st = h then st\<lparr>sp_fork_n := sat_add (sp_fork_n st) 1\<rparr>
      else st\<lparr>sp_fork_h := Some brk_h, sp_fork_tip := h, sp_fork_n := 1, sp_fork_local := local_hash, sp_fork_prev := peer_prev\<rparr>)"

definition fork_locked :: "SyncPeerState \<Rightarrow> u64 \<Rightarrow> bool" where
  "fork_locked st local_h \<longleftrightarrow> sp_fork_h st = Some (sat_add local_h 1) \<and> sp_fork_tip st = local_h \<and> SYNC_FORK_BRK_CAP \<le> sp_fork_n st"

section \<open>Catch-up: back-off, range, end\<close>

definition cup_backoff_ms :: "SyncEnv \<Rightarrow> u8 \<Rightarrow> u64" where
  "cup_backoff_ms v cup_try =
     (let step = max (se_heartbeat_ms v) 200; shift = min (unat cup_try) 6
      in min (sat_mul step (2 ^ shift)) (max (se_retry_max_ms v) step))"

definition cup_req_range :: "u64 \<Rightarrow> u64 \<Rightarrow> SyncErr + (u64 \<times> u64) option" where
  "cup_req_range local_h head_h =
     (if head_h \<le> local_h then Inr None
      else let from_h = sat_add local_h 1; lag = sat_sub head_h local_h;
               lag_span = sat_sub (min lag SYNC_CUP_WIN_CAP) 1; max_to_h = sat_add from_h lag_span
           in (case epoch_idx from_h of
                 Inl e \<Rightarrow> Inl e
               | Inr idx \<Rightarrow> Inr (Some (from_h, min max_to_h (ep_last_h (epoch_range idx))))))"

definition cup_fail :: "string \<Rightarrow> SyncNode \<Rightarrow> SyncNode" where
  "cup_fail reason n = sy_note Sync_cup_fail_reason reason 1 (sy_add Sync_cup_fail_total 1 n)"

definition cup_clear :: "SyncPeerState \<Rightarrow> SyncPeerState" where
  "cup_clear st = fork_clear (st\<lparr>sp_cup_active := False, sp_cup_epoch := 0, sp_cup_from := 0, sp_cup_to := 0, sp_cup_next_h := 0,
     sp_cup_next_ix := 0, sp_cup_prev_hash := []\<rparr>)"

text \<open>The next attempt has to wait.\<close>

definition cup_retry_later :: "SyncEnv \<Rightarrow> SyncPeerState \<Rightarrow> SyncPeerState" where
  "cup_retry_later v st =
     (let st = st\<lparr>sp_cup_try := sat_add (sp_cup_try st) 1\<rparr> in st\<lparr>sp_cup_next_ms := sat_add (se_now v) (cup_backoff_ms v (sp_cup_try st))\<rparr>)"

definition stall_more :: "SyncPeerState \<Rightarrow> SyncPeerState" where
  "stall_more st = st\<lparr>sp_live_stall := sat_add (sp_live_stall st) 1\<rparr>"

definition cup_chunk_fail :: "SyncEnv \<Rightarrow> string \<Rightarrow> string \<Rightarrow> SyncNode \<Rightarrow> SyncNode" where
  "cup_chunk_fail v node_id reason n = upd_sync v node_id (\<lambda>st. cup_clear (cup_retry_later v (stall_more st))) (cup_fail reason n)"

definition try_demote_cup_tail :: "string \<Rightarrow> u64 \<Rightarrow> SyncNode \<Rightarrow> bool \<times> SyncNode" where
  "try_demote_cup_tail node_id tip_lag n =
     (if SYNC_CUP_TAIL_MAX \<le> tip_lag then (False, n)
      else case fmlookup (sy_peers n) node_id of
        None \<Rightarrow> (False, n)
      | Some st \<Rightarrow>
          if \<not> sp_cup_active st then (False, n)
          else (True, put_sync node_id ((cup_clear st)\<lparr>sp_cup_try := 0, sp_cup_next_ms := 0\<rparr>) (sy_add Sync_cup_demote_tail 1 n)))"

text \<open>Rows that were asked for go back to the front, in order.\<close>

fun reinqueue_loop :: "blk_row list \<Rightarrow> blk_row list \<Rightarrow> blk_row list" where
  "reinqueue_loop [] pend = pend"
| "reinqueue_loop (r # rows) pend =
     (if has_hash pend (snd r) then reinqueue_loop rows pend
      else let pend = r # pend in reinqueue_loop rows (if SYNC_PEND_CAP < length pend then butlast pend else pend))"

definition reinqueue :: "blk_row list \<Rightarrow> SyncPeerState \<Rightarrow> SyncPeerState" where
  "reinqueue rows st = st\<lparr>sp_pend_blk := reinqueue_loop (rev rows) (sp_pend_blk st)\<rparr>"

end
