(* ===== verification/Pwm_Sync.thy ===== *)
theory Pwm_Sync
  imports Pwm_Sync_State
begin

text \<open>
  Following a peer (src/crates/pwmd/src/transport/peer_session/sync_live.rs): what a node does with the tip,
  the headers, the blocks, the catch-up chunks and the refusals of a peer. A handler is one step on
  \<open>SyncNode\<close>; it returns what the code returns, and \<open>None\<close> is a panic while a block is applied.
\<close>

section \<open>Requests\<close>

definition ask_hdr :: "SyncEnv \<Rightarrow> string \<Rightarrow> u64 \<Rightarrow> u16 \<Rightarrow> SyncNode \<Rightarrow> (SyncErr + unit) \<times> SyncNode" where
  "ask_hdr v node_id from_h lim n =
     (let req_lim = max (min lim SYNC_HDR_REQ_CAP) 1; (st, n) = peer_sync v node_id n
      in if (sp_wait_hdr_from st = Some from_h \<and> 0 < sp_in_hdr st) \<or> SYNC_INF_CAP \<le> sp_in_hdr st then (Inr (), n)
         else let st = st\<lparr>sp_wait_hdr_from := Some from_h, sp_wait_hdr_lim := req_lim, sp_in_hdr := sat_add (sp_in_hdr st) 1\<rparr>
              in write_wire v (\<lambda>h. SyncHeadersReq h from_h req_lim) (sy_add Sync_hdr_req_total 1 (put_sync node_id st n)))"

definition ask_blk :: "SyncEnv \<Rightarrow> string \<Rightarrow> u16 \<Rightarrow> SyncNode \<Rightarrow> (SyncErr + unit) \<times> SyncNode" where
  "ask_blk v node_id blk_cap n =
     (let lim = unat (max (min blk_cap SYNC_BLK_REQ_CAP) 1); (st, n) = peer_sync v node_id n
      in if SYNC_INF_CAP \<le> sp_in_blk st \<or> sp_wait_blk st \<noteq> [] then (Inr (), n)
         else let want = take lim (sp_pend_blk st)
              in if want = [] then (Inr (), n)
                 else let st = st\<lparr>sp_pend_blk := drop lim (sp_pend_blk st), sp_wait_blk := want, sp_in_blk := sat_add (sp_in_blk st) 1\<rparr>
                      in write_wire v (\<lambda>h. SyncBlocksReq h (map snd want) (Some (map fst want)))
                           (sy_add Sync_blk_req_total 1 (put_sync node_id st n)))"

definition live_tail_pull_hdr :: "SyncEnv \<Rightarrow> string \<Rightarrow> u16 \<Rightarrow> u64 \<Rightarrow> u64 \<Rightarrow> SyncNode \<Rightarrow> (SyncErr + unit) \<times> SyncNode" where
  "live_tail_pull_hdr v node_id hdr_cap local_h peer_h n =
     (let lag = sat_sub peer_h local_h
      in if lag = 0 \<or> SYNC_CUP_TAIL_MAX \<le> lag then (Inr (), n)
         else case fmlookup (sy_peers n) node_id of
           None \<Rightarrow> (Inr (), n)
         | Some st \<Rightarrow>
             if sp_cup_active st \<or> sp_pend_blk st \<noteq> [] \<or> sp_wait_blk st \<noteq> [] \<or> 0 < sp_in_hdr st then (Inr (), n)
             else ask_hdr v node_id (sat_add local_h 1) (max (min hdr_cap SYNC_HDR_REQ_CAP) 1) n)"

definition send_cup_req :: "SyncEnv \<Rightarrow> string \<Rightarrow> u64 \<Rightarrow> u64 \<Rightarrow> SyncNode \<Rightarrow> (SyncErr + unit) \<times> SyncNode" where
  "send_cup_req v node_id from_h to_h n =
     (let local_hash = tip_hash_hex v (sync_chain n)
      in case epoch_idx from_h of
           Inl e \<Rightarrow> (Inl e, n)
         | Inr eid \<Rightarrow>
             let n = upd_sync v node_id (\<lambda>st. st\<lparr>sp_cup_active := True, sp_cup_epoch := eid, sp_cup_from := from_h, sp_cup_to := to_h,
                   sp_cup_next_h := from_h, sp_cup_next_ix := 0, sp_cup_prev_hash := local_hash,
                   sp_cup_target_h := max (sp_tip_h st) to_h, sp_cup_next_ms := 0\<rparr>) n;
                 n = sy_add Sync_cup_start_total 1 n
             in (case write_wire v (\<lambda>h. SyncCatchupReq h from_h to_h eid local_hash) n of
                   (Inr _, n) \<Rightarrow> (Inr (), n)
                 | (Inl e, n) \<Rightarrow> (Inl e, upd_sync v node_id (\<lambda>st. cup_clear (cup_retry_later v (stall_more st))) (cup_fail ''req_write'' n))))"

definition maybe_start_cup :: "SyncEnv \<Rightarrow> string \<Rightarrow> u64 \<Rightarrow> bool \<Rightarrow> SyncNode \<Rightarrow> (SyncErr + bool) \<times> SyncNode" where
  "maybe_start_cup v node_id head_h can_cup n =
     (if \<not> can_cup then (Inr False, cup_fail ''feature_mismatch'' (sy_add Sync_cup_drop_total 1 n))
      else let local_h = tip_h (sync_chain n);
               (next_ms, cup_on, fork_on) = (case fmlookup (sy_peers n) node_id of
                  Some st \<Rightarrow> (sp_cup_next_ms st, sp_cup_active st, fork_locked st local_h) | None \<Rightarrow> (0, False, False))
           in if fork_on \<or> cup_on \<or> se_now v < next_ms \<or> head_h \<le> local_h then (Inr cup_on, n)
              else case cup_req_range local_h head_h of
                Inl e \<Rightarrow> (Inl e, n)
              | Inr None \<Rightarrow> (Inr False, n)
              | Inr (Some (from_h, to_h)) \<Rightarrow> (case send_cup_req v node_id from_h to_h n of
                  (Inl _, n) \<Rightarrow> (Inr False, n)
                | (Inr _, n) \<Rightarrow> (Inr True, n)))"

section \<open>The tip of a peer\<close>

record TipDivergence =
  td_local_h :: u64
  td_local_hash :: string
  td_peer_h :: u64
  td_peer_hash :: string

text \<open>Same height: do the settled blocks agree, or else the tips?\<close>

definition tip_divergence :: "SyncEnv \<Rightarrow> Chain \<Rightarrow> u64 \<Rightarrow> string \<Rightarrow> u64 \<Rightarrow> string option \<Rightarrow> TipDivergence option" where
  "tip_divergence v c head_h head_hash finalized_h finalized_hash =
     (let local_h = tip_h c; local_hash = tip_hash_hex v c; local_finalized_h = sat_sub local_h 1;
          by_tips =
            (if head_hash \<noteq> local_hash then
               (if finalized_hash \<noteq> None \<and> finalized_h < head_h \<and> local_finalized_h < head_h then None
                else Some \<lparr> td_local_h = local_h, td_local_hash = local_hash, td_peer_h = head_h, td_peer_hash = head_hash \<rparr>)
             else None)
      in case finalized_hash of
           None \<Rightarrow> by_tips
         | Some peer_fin_hash \<Rightarrow>
             if 0 < finalized_h \<and> finalized_h \<le> local_h then
               (case chain_hash_at v local_h local_hash (blocks c) finalized_h of
                  Some local_fin_hash \<Rightarrow>
                    if local_fin_hash \<noteq> peer_fin_hash
                    then Some \<lparr> td_local_h = finalized_h, td_local_hash = local_fin_hash, td_peer_h = finalized_h, td_peer_hash = peer_fin_hash \<rparr>
                    else None
                | None \<Rightarrow> by_tips)
             else by_tips)"

definition on_tip :: "SyncEnv \<Rightarrow> string \<Rightarrow> u64 \<Rightarrow> string \<Rightarrow> u64 \<Rightarrow> string option \<Rightarrow> u16 \<Rightarrow> bool \<Rightarrow> SyncNode
    \<Rightarrow> (SyncErr + TipDivergence option) \<times> SyncNode" where
  "on_tip v node_id head_h head_hash finalized_h finalized_hash hdr_cap can_cup n =
     (let local_h = tip_h (sync_chain n);
          (st, n) = peer_sync v node_id (sy_add Sync_tip_seen_total 1 n);
          n = put_sync node_id (st\<lparr>sp_tip_h := max (sp_tip_h st) head_h, sp_tip_hash := Some head_hash\<rparr>) n;
          cup_on = (sp_cup_active st \<and> sp_cup_next_ms st \<le> se_now v)
      in if head_h < local_h then (Inr None, n)
         else let lag = head_h - local_h; n = maybe_log_sync_prog v node_id local_h head_h n;
                  n = snd (try_demote_cup_tail node_id lag n)
         in if lag = 0 then (Inr (tip_divergence v (sync_chain n) head_h head_hash finalized_h finalized_hash), n)
         else let n = upd_sync v node_id (\<lambda>st. snd (sync_stall_tick (se_now v) lag st)) n;
                  cup_req = (cup_on \<or> SYNC_CUP_LAG_MIN \<le> lag)
         in case (if cup_req then maybe_start_cup v node_id head_h can_cup n else (Inr False, n)) of
              (Inl e, n) \<Rightarrow> (Inl e, n)
            | (Inr cup_started, n) \<Rightarrow>
                if cup_started then (Inr None, n)
                else case ask_hdr v node_id (sat_add local_h 1) (max (min hdr_cap SYNC_HDR_REQ_CAP) 1) n of
                  (Inl e, n) \<Rightarrow> (Inl e, n)
                | (Inr _, n) \<Rightarrow> (Inr None, n))"

section \<open>Headers of a peer\<close>

text \<open>The loop over the headers: the one that does not link, with the hash it should link to, or the
  height after the last and the rows of the blocks to ask for.\<close>

fun walk_headers :: "u64 \<Rightarrow> string \<Rightarrow> SyncHeaderWire list \<Rightarrow> (SyncHeaderWire \<times> string) + (u64 \<times> blk_row list)" where
  "walk_headers next_h prev_hash [] = Inr (next_h, [])"
| "walk_headers next_h prev_hash (h # hs) =
     (if sh_height h \<noteq> next_h \<or> sh_prev_hash h \<noteq> prev_hash then Inl (h, prev_hash)
      else case walk_headers (sat_add next_h 1) (sh_hash h) hs of
        Inl x \<Rightarrow> Inl x
      | Inr (last_h, rows) \<Rightarrow> Inr (last_h, (sh_height h, sh_hash h) # rows))"

fun push_pend :: "blk_row list \<Rightarrow> blk_row list \<Rightarrow> blk_row list \<Rightarrow> blk_row list" where
  "push_pend wait [] pend = pend"
| "push_pend wait (r # rows) pend =
     (if has_hash pend (snd r) \<or> has_hash wait (snd r) then push_pend wait rows pend
      else let pend = pend @ [r] in push_pend wait rows (drop (length pend - SYNC_PEND_CAP) pend))"

definition on_hdr_batch :: "SyncEnv \<Rightarrow> string \<Rightarrow> SyncHeaderWire list \<Rightarrow> u16 \<Rightarrow> u16 \<Rightarrow> SyncNode
    \<Rightarrow> (SyncErr + TipDivergence option) \<times> SyncNode" where
  "on_hdr_batch v node_id headers hdr_cap blk_cap n =
     (let hard = unat (max (min hdr_cap SYNC_HDR_REQ_CAP) 1)
      in if headers = [] \<or> hard < length headers then (Inr None, n)
         else if (case fmlookup (sy_peers n) node_id of Some st \<Rightarrow> sp_cup_active st | None \<Rightarrow> False) then (Inr None, n)
         else let (st, n) = peer_sync v node_id (sy_add Sync_hdr_resp_total 1 n);
                  req_lim = max (sp_wait_hdr_lim st) 1; peer_h = sp_tip_h st;
                  n = put_sync node_id (st\<lparr>sp_in_hdr := sat_sub (sp_in_hdr st) 1, sp_wait_hdr_from := None\<rparr>) n
         in case sp_wait_hdr_from st of
              None \<Rightarrow> (Inr None, n)
            | Some exp_h \<Rightarrow>
                if sh_height (hd headers) \<noteq> exp_h \<or> unat req_lim < length headers
                then (Inr None, upd_sync v node_id stall_more (sy_add Sync_fork_conflict_total 1 n))
                else let local_h = tip_h (sync_chain n)
                in if exp_h \<noteq> sat_add local_h 1 then (Inr None, upd_sync v node_id stall_more n)
                else (case walk_headers exp_h (tip_hash_hex v (sync_chain n)) headers of
                  Inl (h, prev_hash) \<Rightarrow>
                    let (st, n) = peer_sync v node_id (sy_add Sync_fork_conflict_total 1 n);
                        st = fork_mark (sh_height h) local_h prev_hash (sh_prev_hash h) (stall_more st)
                    in (if SYNC_FORK_BRK_CAP \<le> sp_fork_n st \<and> sp_fork_tip st = local_h
                        then (Inr (Some \<lparr> td_local_h = local_h, td_local_hash = sp_fork_local st, td_peer_h = sh_height h,
                                td_peer_hash = sp_fork_prev st \<rparr>), put_sync node_id st n)
                        else (Inr None, put_sync node_id st n))
                | Inr (next_h, rows) \<Rightarrow>
                    let n = upd_sync v node_id (\<lambda>st. let st = fork_clear st in st\<lparr>sp_pend_blk := push_pend (sp_wait_blk st) rows (sp_pend_blk st)\<rparr>) n
                    in (case (if next_h \<le> peer_h then ask_hdr v node_id next_h req_lim n else (Inr (), n)) of
                          (Inl e, n) \<Rightarrow> (Inl e, n)
                        | (Inr _, n) \<Rightarrow> (case ask_blk v node_id blk_cap n of
                            (Inl e, n) \<Rightarrow> (Inl e, n)
                          | (Inr _, n) \<Rightarrow> (Inr None, n)))))"

section \<open>Blocks of a peer\<close>

definition sync_apply :: "SyncEnv \<Rightarrow> Block list \<Rightarrow> SyncNode \<Rightarrow> ((BlkErr + unit) \<times> SyncNode) option" where
  "sync_apply v blks n = map_option (\<lambda>(r, last_snap, api). (r, n\<lparr>sy_last_snap := last_snap, sy_api := api\<rparr>))
     (apply_blk_batch (se_ext v) (se_enc v) (se_standby v) (se_save v) blks (sy_last_snap n, sy_api n))"

definition apply_cluster_tail_blocks :: "SyncEnv \<Rightarrow> Block list \<Rightarrow> SyncNode \<Rightarrow> ((BlkErr + u64) \<times> SyncNode) option" where
  "apply_cluster_tail_blocks v blks n =
     (if blks = [] then Some (Inr 0, n)
      else map_option (\<lambda>(r, n'). (case r of Inl e \<Rightarrow> Inl e | Inr _ \<Rightarrow> Inr (sat_sub (tip_h (sync_chain n')) (tip_h (sync_chain n))), n'))
        (sync_apply v blks n))"

text \<open>The loop over the rows: the counter of the mismatch, the row it was at and the rows not reached, or
  the blocks to apply and the rows left.\<close>

fun match_rows :: "SyncEnv \<Rightarrow> blk_row list \<Rightarrow> SyncBlockWire list \<Rightarrow> (SyncCounter \<times> blk_row \<times> blk_row list) + (Block list \<times> blk_row list)" where
  "match_rows v expected [] = Inr ([], expected)"
| "match_rows v [] (row # rows) = Inr ([], [])"
| "match_rows v (want # expected) (row # rows) =
     (if sb_hash row \<noteq> snd want \<or> sb_height row \<noteq> fst want then Inl (Sync_fork_conflict_total, want, expected)
      else case sb_block row of
        None \<Rightarrow> Inl (Sync_apply_fail_total, want, expected)
      | Some blk \<Rightarrow>
          if blk_hash_hex v blk \<noteq> sb_hash row \<or> bh_height (hdr blk) \<noteq> sb_height row \<or> bh_height (hdr blk) \<noteq> fst want
          then Inl (Sync_fork_conflict_total, want, expected)
          else case match_rows v expected rows of
            Inl x \<Rightarrow> Inl x
          | Inr (blks, left) \<Rightarrow> Inr (blk # blks, left))"

definition blk_mismatch :: "SyncEnv \<Rightarrow> string \<Rightarrow> SyncCounter \<Rightarrow> blk_row \<Rightarrow> blk_row list \<Rightarrow> SyncNode \<Rightarrow> SyncNode" where
  "blk_mismatch v node_id counter want left n =
     upd_sync v node_id (\<lambda>st. let st = reinqueue left (stall_more st) in st\<lparr>sp_pend_blk := want # sp_pend_blk st\<rparr>) (sy_add counter 1 n)"

definition blk_applied :: "SyncEnv \<Rightarrow> string \<Rightarrow> u16 \<Rightarrow> u16 \<Rightarrow> nat \<Rightarrow> blk_row list \<Rightarrow> SyncNode \<Rightarrow> (SyncErr + unit) \<times> SyncNode" where
  "blk_applied v node_id hdr_cap blk_cap applied left n =
     (let (st, n) = peer_sync v node_id (sy_add Sync_apply_ok_total (of_nat applied) n);
          n = put_sync node_id (reinqueue left (st\<lparr>sp_live_stall := 0\<rparr>)) n;
          peer_h = sp_tip_h st; local_h = tip_h (sync_chain n);
          n = maybe_log_sync_prog v node_id local_h peer_h n
      in case live_tail_pull_hdr v node_id hdr_cap local_h peer_h n of
           (Inl e, n) \<Rightarrow> (Inl e, n)
         | (Inr _, n) \<Rightarrow> ask_blk v node_id blk_cap n)"

definition on_blk_batch :: "SyncEnv \<Rightarrow> string \<Rightarrow> SyncBlockWire list \<Rightarrow> u16 \<Rightarrow> u16 \<Rightarrow> SyncNode \<Rightarrow> ((SyncErr + unit) \<times> SyncNode) option" where
  "on_blk_batch v node_id rows hdr_cap blk_cap n =
     (let hard = unat (max (min blk_cap SYNC_BLK_REQ_CAP) 1)
      in if rows = [] \<or> hard < length rows then Some (Inr (), n)
         else if (case fmlookup (sy_peers n) node_id of Some st \<Rightarrow> sp_cup_active st | None \<Rightarrow> False) then Some (Inr (), n)
         else let (st, n) = peer_sync v node_id (sy_add Sync_blk_resp_total 1 n); expected = sp_wait_blk st;
                  n = put_sync node_id (st\<lparr>sp_in_blk := sat_sub (sp_in_blk st) 1, sp_wait_blk := []\<rparr>) n
         in if expected = [] then Some (Inr (), n)
         else (case match_rows v expected rows of
           Inl (counter, want, left) \<Rightarrow> Some (Inr (), blk_mismatch v node_id counter want left n)
         | Inr (blks, left) \<Rightarrow> (case sync_apply v blks n of
             None \<Rightarrow> None
           | Some (Inl _, n) \<Rightarrow>
               let n = upd_sync v node_id (\<lambda>st. reinqueue left (stall_more st)) (sy_add Sync_apply_fail_total 1 n)
               in Some (ask_blk v node_id blk_cap n)
           | Some (Inr _, n) \<Rightarrow> Some (blk_applied v node_id hdr_cap blk_cap (length blks) left n))))"

section \<open>Catch-up\<close>

text \<open>The loop over a chunk: the reason it fails, or the next height, the hash of the last header and the blocks.\<close>

fun walk_chunk :: "SyncEnv \<Rightarrow> u64 \<Rightarrow> u64 \<Rightarrow> u64 \<Rightarrow> string \<Rightarrow> (SyncHeaderWire \<times> SyncBlockWire) list \<Rightarrow> string + (u64 \<times> string \<times> Block list)" where
  "walk_chunk v from_h to_h next_h prev_hash [] = Inr (next_h, prev_hash, [])"
| "walk_chunk v from_h to_h next_h prev_hash ((h, row) # rest) =
     (if sh_height h \<noteq> next_h \<or> sh_prev_hash h \<noteq> prev_hash \<or> sb_height row \<noteq> sh_height h \<or> sb_hash row \<noteq> sh_hash h then Inl ''chunk_link''
      else case sb_block row of
        None \<Rightarrow> Inl ''chunk_empty''
      | Some blk \<Rightarrow>
          if blk_hash_hex v blk \<noteq> sh_hash h then Inl ''chunk_hash''
          else if sh_height h < from_h \<or> to_h < sh_height h then Inl ''chunk_range''
          else case walk_chunk v from_h to_h (sat_add next_h 1) (sh_hash h) rest of
            Inl e \<Rightarrow> Inl e
          | Inr (last_h, last_hash, blks) \<Rightarrow> Inr (last_h, last_hash, blk # blks))"

definition on_cup_chunk :: "SyncEnv \<Rightarrow> string \<Rightarrow> SyncCatchupChunkWire \<Rightarrow> SyncNode \<Rightarrow> SyncNode option" where
  "on_cup_chunk v node_id chunk n =
     (if cu_headers chunk = [] \<or> SYNC_CUP_CHUNK_CAP < length (cu_headers chunk) \<or> length (cu_headers chunk) \<noteq> length (cu_blocks chunk)
      then Some (cup_chunk_fail v node_id ''chunk_bounds'' n)
      else case fmlookup (sy_peers n) node_id of
        None \<Rightarrow> Some n
      | Some st \<Rightarrow>
          if \<not> sp_cup_active st then Some n
          else if cu_epoch_id chunk \<noteq> sp_cup_epoch st \<or> cu_chunk_index chunk \<noteq> sp_cup_next_ix st \<or> cu_first_prev_hash chunk \<noteq> sp_cup_prev_hash st
          then Some (cup_chunk_fail v node_id ''chunk_order'' n)
          else (case walk_chunk v (sp_cup_from st) (sp_cup_to st) (sp_cup_next_h st) (sp_cup_prev_hash st) (zip (cu_headers chunk) (cu_blocks chunk)) of
            Inl reason \<Rightarrow> Some (cup_chunk_fail v node_id reason n)
          | Inr (next_h, prev_hash, blks) \<Rightarrow>
              if cu_last_hash chunk \<noteq> prev_hash then Some (cup_chunk_fail v node_id ''chunk_tail'' n)
              else (case sync_apply v blks n of
                None \<Rightarrow> None
              | Some (Inl _, n) \<Rightarrow> Some (cup_chunk_fail v node_id ''chunk_apply'' n)
              | Some (Inr _, n) \<Rightarrow>
                  let (st', n) = peer_sync v node_id (sy_add Sync_cup_chunk_total 1 n);
                      st' = st'\<lparr>sp_cup_prev_hash := prev_hash, sp_cup_next_h := next_h, sp_cup_next_ix := sat_add (sp_cup_next_ix st) 1,
                        sp_live_stall := 0\<rparr>
                  in Some (maybe_log_sync_prog v node_id (sat_sub (sp_cup_next_h st') 1) (max (sp_tip_h st') (sp_cup_target_h st'))
                       (put_sync node_id st' n)))))"

definition on_cup_done :: "SyncEnv \<Rightarrow> string \<Rightarrow> u64 \<Rightarrow> u64 \<Rightarrow> string \<Rightarrow> u16 \<Rightarrow> SyncNode \<Rightarrow> (SyncErr + unit) \<times> SyncNode" where
  "on_cup_done v node_id epoch_id last_h last_hash hdr_cap n =
     (let (st, n) = peer_sync v node_id n
      in if \<not> sp_cup_active st \<or> sp_cup_epoch st \<noteq> epoch_id then (Inr (), n)
         else if sat_sub (sp_cup_next_h st) 1 \<noteq> last_h \<or> sp_cup_prev_hash st \<noteq> last_hash
         then (Inr (), cup_fail ''done_mismatch'' (put_sync node_id (cup_clear (cup_retry_later v st)) n))
         else let n = put_sync node_id (cup_clear (st\<lparr>sp_cup_try := 0, sp_live_stall := 0\<rparr>)) n;
                  n = sy_add Sync_cup_done_total 1 n; peer_h = sp_tip_h st; local_h = tip_h (sync_chain n);
                  n = maybe_log_sync_prog v node_id local_h (max peer_h last_h) n
              in if local_h < peer_h
                 then ask_hdr v node_id (sat_add local_h 1) (max (min hdr_cap SYNC_HDR_REQ_CAP) 1) n
                 else (Inr (), n))"

definition on_nack :: "SyncEnv \<Rightarrow> string \<Rightarrow> string \<Rightarrow> SyncNode \<Rightarrow> SyncNode" where
  "on_nack v node_id reason_code n =
     (let (st, n) = peer_sync v node_id n;
          st = stall_more (st\<lparr>sp_in_hdr := sat_sub (sp_in_hdr st) 1, sp_in_blk := sat_sub (sp_in_blk st) 1\<rparr>);
          wait = sp_wait_blk st;
          st = reinqueue wait (st\<lparr>sp_wait_hdr_from := None, sp_wait_blk := []\<rparr>)
      in if sp_cup_active st
         then let is_epoch_nack = (reason_code = ''catchup_epoch'');
                  st = (if is_epoch_nack then st\<lparr>sp_cup_try := 0, sp_cup_next_ms := 0\<rparr> else cup_retry_later v st)
              in cup_fail (if is_epoch_nack then ''nack:catchup_epoch'' else ''nack'') (put_sync node_id (cup_clear st) n)
         else put_sync node_id st n)"

end
