(* ===== verification/Pwm_Sync_Serve.thy ===== *)
theory Pwm_Sync_Serve
  imports Pwm_Sync
begin

text \<open>
  The other half of block synchronisation: announcing the tip, answering the requests of a peer for
  headers, blocks and a catch-up range (src/crates/pwmd/src/transport/peer_session/sync_live.rs), the transactions
  peers tell each other, and the routing of the frames of a session (peer_session/mod.rs).
\<close>

section \<open>What the hello of a peer promises\<close>

record NodeHelloSyncProfile =
  np_sync_wire_version :: u16
  np_max_headers_per_msg :: u16
  np_max_blocks_per_msg :: u16
  np_max_txs_per_msg :: u16
  np_supports_epoch_catchup :: bool

record SyncRemote =
  rm_node_id :: string
  rm_domain_hi :: u8
  rm_services :: "string list"
  rm_profile :: "NodeHelloSyncProfile option"

definition SYNC_WIRE_V1 :: u16 where "SYNC_WIRE_V1 = 1"
definition SYNC_HDR_MAX :: u16 where "SYNC_HDR_MAX = 512"
definition SYNC_BLK_MAX :: u16 where "SYNC_BLK_MAX = 64"
definition SYNC_TX_MAX :: u16 where "SYNC_TX_MAX = 2048"

definition supports_sync_v1 :: "SyncRemote \<Rightarrow> bool" where
  "supports_sync_v1 r = (case rm_profile r of
     None \<Rightarrow> False
   | Some p \<Rightarrow> list_ex (\<lambda>svc. svc = ''sync'') (rm_services r) \<and> np_sync_wire_version p = SYNC_WIRE_V1 \<and>
       0 < np_max_headers_per_msg p \<and> np_max_headers_per_msg p \<le> SYNC_HDR_MAX \<and>
       0 < np_max_blocks_per_msg p \<and> np_max_blocks_per_msg p \<le> SYNC_BLK_MAX \<and>
       0 < np_max_txs_per_msg p \<and> np_max_txs_per_msg p \<le> SYNC_TX_MAX)"

definition sync_caps :: "SyncRemote \<Rightarrow> u16 \<times> u16" where
  "sync_caps r = (case rm_profile r of Some p \<Rightarrow> (np_max_headers_per_msg p, np_max_blocks_per_msg p) | None \<Rightarrow> (0, 0))"

section \<open>Announcing and refusing\<close>

definition send_sync_tip :: "SyncEnv \<Rightarrow> SyncRemote \<Rightarrow> SyncNode \<Rightarrow> (SyncErr + unit) \<times> SyncNode" where
  "send_sync_tip v r n =
     (if rm_domain_hi r \<noteq> se_domain_hi v then (Inr (), n)
      else if \<not> supports_sync_v1 r then (Inr (), n)
      else let c = sync_chain n; head_h = tip_h c; head_hash = tip_hash_hex v c; finalized_h = sat_sub head_h 1;
               finalized_hash = (if finalized_h = 0 then None else chain_hash_at v head_h head_hash (blocks c) finalized_h)
           in write_wire v (\<lambda>h. SyncTipAnnounce h head_h head_hash finalized_h finalized_hash) n)"

definition send_nack :: "SyncEnv \<Rightarrow> string \<Rightarrow> SyncNode \<Rightarrow> (SyncErr + unit) \<times> SyncNode" where
  "send_nack v reason_code n = write_wire v (\<lambda>h. SyncNack h reason_code (ucast (min (se_heartbeat_ms v) 0xFFFFFFFF))) n"

section \<open>Headers\<close>

definition hdr_wire :: "SyncEnv \<Rightarrow> Block \<Rightarrow> SyncHeaderWire" where
  "hdr_wire v b = \<lparr> sh_height = bh_height (hdr b), sh_hash = blk_hash_hex v b, sh_prev_hash = hash_hex v (bh_prev_hash (hdr b)) \<rparr>"

text \<open>At most \<open>lim\<close> headers with consecutive heights.\<close>

fun run_headers :: "SyncEnv \<Rightarrow> nat \<Rightarrow> u64 option \<Rightarrow> Block list \<Rightarrow> SyncHeaderWire list" where
  "run_headers v lim prev [] = []"
| "run_headers v lim prev (b # bs) =
     (if lim = 0 then []
      else if (case prev of Some prev_h \<Rightarrow> bh_height (hdr b) \<noteq> sat_add prev_h 1 | None \<Rightarrow> False) then []
      else hdr_wire v b # run_headers v (lim - 1) (Some (bh_height (hdr b))) bs)"

definition on_hdr_req :: "SyncEnv \<Rightarrow> u64 \<Rightarrow> u16 \<Rightarrow> u16 \<Rightarrow> SyncNode \<Rightarrow> (SyncErr + unit) \<times> SyncNode" where
  "on_hdr_req v from_h limit hdr_cap n =
     (let hard = max (min hdr_cap SYNC_HDR_REQ_CAP) 1
      in if from_h = 0 \<or> limit = 0 \<or> hard < limit then send_nack v ''headers_limit'' n
         else let req_lim = unat (max (min limit hard) 1);
                  miss = (\<lambda>out. out = [] \<or> sh_height (hd out) \<noteq> from_h);
                  out = run_headers v req_lim None (filter (\<lambda>b. from_h \<le> bh_height (hdr b)) (blocks (sync_chain n)));
                  out = (if miss out then (case se_files v of
                      None \<Rightarrow> out
                    | Some f \<Rightarrow> (case bf_consecutive f from_h req_lim of
                        Inl _ \<Rightarrow> out
                      | Inr rows \<Rightarrow> if rows \<noteq> [] \<and> bh_height (hdr (hd rows)) = from_h then map (hdr_wire v) rows else out)) else out)
              in if miss out then send_nack v ''headers_range'' n
                 else case write_wire v (\<lambda>h. SyncHeadersBatch h out) n of
                   (Inl e, n) \<Rightarrow> (Inl e, n)
                 | (Inr _, n) \<Rightarrow> (Inr (), sy_add Sync_hdr_resp_total 1 n))"

section \<open>Blocks\<close>

definition blk_wire :: "string \<Rightarrow> Block \<Rightarrow> SyncBlockWire" where
  "blk_wire want b = \<lparr> sb_height = bh_height (hdr b), sb_hash = want, sb_block = Some b \<rparr>"

text \<open>A row is the hash asked for and the block of the tail that has it, if any. What is missing comes from
  the files, by height or by a scan; a refusal is the reason of the code.\<close>

fun fill_by_height :: "SyncEnv \<Rightarrow> BlockFiles \<Rightarrow> ((string \<times> Block option) \<times> u64) list \<Rightarrow> SyncErr + (string + SyncBlockWire list)" where
  "fill_by_height v f [] = Inr (Inr [])"
| "fill_by_height v f (((want, Some b), height) # rest) = (case fill_by_height v f rest of
     Inr (Inr rows) \<Rightarrow> Inr (Inr (blk_wire want b # rows)) | r \<Rightarrow> r)"
| "fill_by_height v f (((want, None), height) # rest) = (case bf_at_height f height of
     Inl e \<Rightarrow> Inl (BlockFileErr e)
   | Inr None \<Rightarrow> Inr (Inl ''blocks_range'')
   | Inr (Some b) \<Rightarrow>
       if blk_hash_hex v b \<noteq> want then Inr (Inl ''blocks_hash'')
       else (case fill_by_height v f rest of Inr (Inr rows) \<Rightarrow> Inr (Inr (blk_wire want b # rows)) | r \<Rightarrow> r))"

fun fill_by_scan :: "SyncEnv \<Rightarrow> Block option list \<Rightarrow> (string \<times> Block option) list \<Rightarrow> string + SyncBlockWire list" where
  "fill_by_scan v scan [] = Inr []"
| "fill_by_scan v scan ((want, Some b) # rest) = (case fill_by_scan v scan rest of Inr rows \<Rightarrow> Inr (blk_wire want b # rows) | r \<Rightarrow> r)"
| "fill_by_scan v [] ((want, None) # rest) = Inl ''blocks_range''"
| "fill_by_scan v (blk_opt # scan) ((want, None) # rest) = (case blk_opt of
     None \<Rightarrow> Inl ''blocks_range''
   | Some b \<Rightarrow>
       if blk_hash_hex v b \<noteq> want then Inl ''blocks_hash''
       else (case fill_by_scan v scan rest of Inr rows \<Rightarrow> Inr (blk_wire want b # rows) | r \<Rightarrow> r))"

definition on_blk_req :: "SyncEnv \<Rightarrow> string list \<Rightarrow> u64 list option \<Rightarrow> u16 \<Rightarrow> SyncNode \<Rightarrow> (SyncErr + unit) \<times> SyncNode" where
  "on_blk_req v block_hashes block_heights blk_cap n =
     (let hard = unat (max (min blk_cap SYNC_BLK_REQ_CAP) 1)
      in if block_hashes = [] \<or> hard < length block_hashes then send_nack v ''blocks_limit'' n
         else if (case block_heights of Some hs \<Rightarrow> length hs \<noteq> length block_hashes | None \<Rightarrow> False) then send_nack v ''blocks_range'' n
         else let rows = map (\<lambda>want. (want, List.find (\<lambda>b. blk_hash_hex v b = want) (blocks (sync_chain n)))) block_hashes;
                  misses = map fst (filter (\<lambda>r. snd r = None) rows);
                  filled = (if misses = [] then Inr (fill_by_scan v [] rows)
                    else case se_files v of
                      None \<Rightarrow> Inr (Inl ''blocks_range'')
                    | Some f \<Rightarrow> (case block_heights of
                        Some hs \<Rightarrow> fill_by_height v f (zip rows hs)
                      | None \<Rightarrow> (case bf_hash_scan f misses of
                          Inl e \<Rightarrow> Inl (BlockFileErr e)
                        | Inr scan \<Rightarrow> if length scan \<noteq> length misses then Inr (Inl ''blocks_range'') else Inr (fill_by_scan v scan rows))))
              in case filled of
                   Inl e \<Rightarrow> (Inl e, n)
                 | Inr (Inl reason) \<Rightarrow> send_nack v reason n
                 | Inr (Inr out) \<Rightarrow> (case write_wire v (\<lambda>h. SyncBlocksBatch h out) n of
                     (Inl e, n) \<Rightarrow> (Inl e, n)
                   | (Inr _, n) \<Rightarrow> (Inr (), sy_add Sync_blk_resp_total 1 n)))"

section \<open>A catch-up range\<close>

function chunk_list :: "nat \<Rightarrow> 'a list \<Rightarrow> 'a list list" where
  "chunk_list k xs = (if xs = [] \<or> k = 0 then [] else take k xs # chunk_list k (drop k xs))"
  by auto
termination by (relation "measure (length \<circ> snd)") auto

declare chunk_list.simps [simp del]

definition mk_chunk :: "SyncEnv \<Rightarrow> u64 \<Rightarrow> u32 \<Rightarrow> Block list \<Rightarrow> SyncCatchupChunkWire" where
  "mk_chunk v epoch_id idx rows =
     (let hdrs = map (hdr_wire v) rows
      in \<lparr> cu_epoch_id = epoch_id, cu_chunk_index = idx,
           cu_first_prev_hash = (if hdrs = [] then [] else sh_prev_hash (hd hdrs)),
           cu_last_hash = (if hdrs = [] then [] else sh_hash (last hdrs)),
           cu_headers = hdrs, cu_blocks = map (\<lambda>b. blk_wire (blk_hash_hex v b) b) rows \<rparr>)"

fun send_chunks :: "SyncEnv \<Rightarrow> u64 \<Rightarrow> u32 \<Rightarrow> Block list list \<Rightarrow> SyncNode \<Rightarrow> (SyncErr + unit) \<times> SyncNode" where
  "send_chunks v epoch_id idx [] n = (Inr (), n)"
| "send_chunks v epoch_id idx (rows # rest) n = (case write_wire v (\<lambda>h. SyncCatchupChunk h (mk_chunk v epoch_id idx rows)) n of
     (Inl e, n) \<Rightarrow> (Inl e, n)
   | (Inr _, n) \<Rightarrow> send_chunks v epoch_id (sat_add idx 1) rest n)"

definition cup_rows_miss :: "u64 \<Rightarrow> u64 \<Rightarrow> Block list \<Rightarrow> bool" where
  "cup_rows_miss start_h end_h rows \<longleftrightarrow> rows = [] \<or> bh_height (hdr (hd rows)) \<noteq> start_h \<or> bh_height (hdr (last rows)) \<noteq> end_h"

definition on_cup_req :: "SyncEnv \<Rightarrow> u64 \<Rightarrow> u64 \<Rightarrow> u64 \<Rightarrow> SyncNode \<Rightarrow> (SyncErr + unit) \<times> SyncNode" where
  "on_cup_req v start_h end_h epoch_id n =
     (if start_h = 0 \<or> end_h < start_h \<or> SYNC_CUP_WIN_CAP < sat_add (sat_sub end_h start_h) 1
      then send_nack v ''catchup_range'' n
      else case (epoch_idx start_h, epoch_idx end_h) of
        (Inl e, _) \<Rightarrow> (Inl e, n)
      | (Inr e1, e2) \<Rightarrow>
          if e1 \<noteq> epoch_id then send_nack v ''catchup_epoch'' n
          else (case e2 of
            Inl e \<Rightarrow> (Inl e, n)
          | Inr e2 \<Rightarrow>
              if e2 \<noteq> epoch_id then send_nack v ''catchup_epoch'' n
              else let rows = filter (\<lambda>b. start_h \<le> bh_height (hdr b) \<and> bh_height (hdr b) \<le> end_h) (blocks (sync_chain n));
                       rows = (if cup_rows_miss start_h end_h rows then (case se_files v of
                           None \<Rightarrow> rows
                         | Some f \<Rightarrow> (case bf_consecutive f start_h (unat (sat_add (sat_sub end_h start_h) 1)) of
                             Inl _ \<Rightarrow> rows
                           | Inr disk_rows \<Rightarrow> if cup_rows_miss start_h end_h disk_rows then rows else disk_rows)) else rows)
                   in if cup_rows_miss start_h end_h rows then send_nack v ''catchup_gap'' n
                      else let chunk_sz = max (min (unat (min SYNC_BLK_REQ_CAP SYNC_HDR_REQ_CAP)) SYNC_CUP_CHUNK_CAP) 1
                           in case send_chunks v epoch_id 0 (chunk_list chunk_sz rows) n of
                                (Inl e, n) \<Rightarrow> (Inl e, n)
                              | (Inr _, n) \<Rightarrow> write_wire v (\<lambda>h. SyncCatchupDone h epoch_id end_h (blk_hash_hex v (last rows))) n))"

section \<open>Transactions of peers\<close>

definition SYNC_TX_OUT_CAP :: nat where "SYNC_TX_OUT_CAP = 32"
definition SYNC_TX_IN_CAP :: nat where "SYNC_TX_IN_CAP = 64"
definition SYNC_TX_SCAN_CAP :: nat where "SYNC_TX_SCAN_CAP = 256"
definition SYNC_TX_RECENT_MS :: u64 where "SYNC_TX_RECENT_MS = 30000"
definition SYNC_TIP_COOLDOWN_MS :: u64 where "SYNC_TIP_COOLDOWN_MS = 60000"

definition tx_hash_hex :: "SyncEnv \<Rightarrow> SignedTx \<Rightarrow> string" where
  "tx_hash_hex v tx = hash_hex v (tx_hash (se_ext v) tx)"

definition recent_only :: "u64 \<Rightarrow> (string, u64) fmap \<Rightarrow> (string, u64) fmap" where
  "recent_only now m = fmfilter (\<lambda>k. case fmlookup m k of Some ts \<Rightarrow> sat_sub now ts \<le> SYNC_TX_RECENT_MS | None \<Rightarrow> False) m"

definition prune_mempool_gsp :: "u64 \<Rightarrow> MempoolGspState \<Rightarrow> MempoolGspState" where
  "prune_mempool_gsp now g =
     (let sent = fmmap (recent_only now) (mg_tx_sent_peer_ms g)
      in g\<lparr>mg_tx_seen_ms := recent_only now (mg_tx_seen_ms g),
           mg_tx_sent_peer_ms := fmfilter (\<lambda>k. fmlookup sent k \<noteq> Some fmempty) sent\<rparr>)"

definition add_bucket :: "SyncBucket \<Rightarrow> string \<Rightarrow> u64 \<Rightarrow> SyncNode \<Rightarrow> SyncNode" where
  "add_bucket k key d n = (if d = 0 then n else sy_note k key d n)"

definition add_sync_tx_drop :: "string \<Rightarrow> u64 \<Rightarrow> SyncNode \<Rightarrow> SyncNode" where
  "add_sync_tx_drop reason cnt n = (if cnt = 0 then n else sy_note Sync_tx_drop_reason reason 1 (sy_add Sync_tx_drop_total cnt n))"

definition add_sync_v1_drop :: "string \<Rightarrow> SyncNode \<Rightarrow> SyncNode" where
  "add_sync_v1_drop reason n = sy_note Sync_v1_drop_reason reason 1 (sy_add Sync_v1_drop_total 1 n)"

datatype TxFate = TxAccepted | TxDup | TxInvalid

text \<open>One transaction of a batch; \<open>None\<close> is a panic.\<close>

definition ingest_tx :: "SyncEnv \<Rightarrow> SignedTx \<Rightarrow> SyncNode \<Rightarrow> (TxFate \<times> SyncNode) option" where
  "ingest_tx v tx n =
     (let tx_id = tx_hash_hex v tx; g = prune_mempool_gsp (se_now v) (sy_gsp n)
      in if fmlookup (mg_tx_seen_ms g) tx_id \<noteq> None then Some (TxDup, n\<lparr>sy_gsp := g\<rparr>)
         else let n = n\<lparr>sy_gsp := g\<lparr>mg_tx_seen_ms := fmupd tx_id (se_now v) (mg_tx_seen_ms g)\<rparr>\<rparr>; c = sync_chain n
         in case validate_tx_shape (se_ext v) tx of
              Inl _ \<Rightarrow> Some (TxInvalid, n)
            | Inr _ \<Rightarrow> (case next_apply_ctx (se_clock v) c of
                None \<Rightarrow> None
              | Some (Inl _) \<Rightarrow> Some (TxInvalid, n)
              | Some (Inr (next_h, next_ts)) \<Rightarrow> (case precheck_apply_with_ctx (se_ext v) (ch_cfg c) (ch_st c) tx next_h next_ts of
                  DryRunPanic \<Rightarrow> None
                | Refused _ \<Rightarrow> Some (TxInvalid, n)
                | Accepted \<Rightarrow> (case mpool_push tx (sn_pool (ap_node (sy_api n))) of
                    Done p \<Rightarrow> Some (TxAccepted, n\<lparr>sy_api := (sy_api n)\<lparr>ap_node := (ap_node (sy_api n))\<lparr>sn_pool := p\<rparr>\<rparr>\<rparr>)
                  | _ \<Rightarrow> Some (TxInvalid, n)))))"

fun ingest_txs :: "SyncEnv \<Rightarrow> SignedTx list \<Rightarrow> SyncNode \<Rightarrow> (TxFate list \<times> SyncNode) option" where
  "ingest_txs v [] n = Some ([], n)"
| "ingest_txs v (tx # rest) n = (case ingest_tx v tx n of
     None \<Rightarrow> None
   | Some (fate, n) \<Rightarrow> map_option (\<lambda>(fates, n). (fate # fates, n)) (ingest_txs v rest n))"

definition fates_of :: "TxFate \<Rightarrow> TxFate list \<Rightarrow> u64" where
  "fates_of x fates = of_nat (length (filter (\<lambda>y. y = x) fates))"

definition ingest_sync_tx_batch :: "SyncEnv \<Rightarrow> SignedTx list \<Rightarrow> nat \<Rightarrow> SyncNode \<Rightarrow> SyncNode option" where
  "ingest_sync_tx_batch v ts cap_hint n =
     (let cap = max (min cap_hint SYNC_TX_IN_CAP) 1; seen = of_nat (length ts);
          n = add_bucket Mempool_ingress_kind_total ''p2p'' seen n
      in if cap < length ts then Some (add_sync_tx_drop ''rate_limit'' seen n)
         else map_option (\<lambda>(fates, n).
           let accepted = fates_of TxAccepted fates;
               n = (if 0 < accepted then sy_add Sync_tx_accept_total accepted n else n)
           in add_sync_tx_drop ''invalid'' (fates_of TxInvalid fates) (add_sync_tx_drop ''duplicate'' (fates_of TxDup fates) n))
           (ingest_txs v ts n))"

text \<open>The loop that picks what to send: the transactions and how many were left out as just sent.\<close>

fun pick_txs :: "SyncEnv \<Rightarrow> nat \<Rightarrow> (string, u64) fmap \<Rightarrow> SignedTx list \<Rightarrow> SignedTx list \<times> u64" where
  "pick_txs v room sent [] = ([], 0)"
| "pick_txs v room sent (tx # rest) =
     (if room = 0 then ([], 0)
      else if (case fmlookup sent (tx_hash_hex v tx) of Some ts \<Rightarrow> sat_sub (se_now v) ts \<le> SYNC_TX_RECENT_MS | None \<Rightarrow> False)
      then (let (out, suppressed) = pick_txs v room sent rest in (out, sat_add suppressed 1))
      else (let (out, suppressed) = pick_txs v (room - 1) sent rest in (tx # out, suppressed)))"

definition sent_to :: "string \<Rightarrow> MempoolGspState \<Rightarrow> (string, u64) fmap" where
  "sent_to node_id g = (case fmlookup (mg_tx_sent_peer_ms g) node_id of Some m \<Rightarrow> m | None \<Rightarrow> fmempty)"

definition put_sent :: "string \<Rightarrow> (string, u64) fmap \<Rightarrow> SyncNode \<Rightarrow> SyncNode" where
  "put_sent node_id m n = n\<lparr>sy_gsp := (sy_gsp n)\<lparr>mg_tx_sent_peer_ms := fmupd node_id m (mg_tx_sent_peer_ms (sy_gsp n))\<rparr>\<rparr>"

definition send_sync_tx_batch :: "SyncEnv \<Rightarrow> SyncRemote \<Rightarrow> SyncNode \<Rightarrow> (SyncErr + unit) \<times> SyncNode" where
  "send_sync_tx_batch v r n =
     (if rm_domain_hi r \<noteq> se_domain_hi v then (Inr (), n)
      else if \<not> supports_sync_v1 r then (Inr (), n)
      else let profile_cap = (case rm_profile r of Some p \<Rightarrow> unat (np_max_txs_per_msg p) | None \<Rightarrow> 0)
      in if profile_cap = 0 then (Inr (), n)
      else let cap = min profile_cap SYNC_TX_OUT_CAP; ts = mpool_snapshot SYNC_TX_SCAN_CAP (sn_pool (ap_node (sy_api n)))
      in if ts = [] then (Inr (), n)
      else let g = prune_mempool_gsp (se_now v) (sy_gsp n); sent = sent_to (rm_node_id r) g;
               n = put_sent (rm_node_id r) sent (n\<lparr>sy_gsp := g\<rparr>);
               (out, suppressed) = pick_txs v cap sent ts;
               n = add_bucket Mempool_push_suppressed ''recent_peer_dedup'' suppressed n
      in if out = [] then (Inr (), n)
      else case write_wire v (\<lambda>h. SyncTxBatch h out) n of
        (Inl e, n) \<Rightarrow> (Inl e, n)
      | (Inr _, n) \<Rightarrow>
          let n = put_sent (rm_node_id r) (foldl (\<lambda>m tx. fmupd (tx_hash_hex v tx) (se_now v) m) (sent_to (rm_node_id r) (sy_gsp n)) out) n
          in (Inr (), add_bucket Mempool_egress_relay_total ''same_shard_peer'' (of_nat (length out)) n))"

section \<open>Routing\<close>

fun sync_wire_hdr :: "PeerWireMsg \<Rightarrow> SyncWireHdr" where
  "sync_wire_hdr (SyncProfileAnnounce h _) = h"
| "sync_wire_hdr (SyncTipAnnounce h _ _ _ _) = h"
| "sync_wire_hdr (SyncHeadersReq h _ _) = h"
| "sync_wire_hdr (SyncHeadersBatch h _) = h"
| "sync_wire_hdr (SyncBlocksReq h _ _) = h"
| "sync_wire_hdr (SyncBlocksBatch h _) = h"
| "sync_wire_hdr (SyncTxAnnounce h _) = h"
| "sync_wire_hdr (SyncTxReq h _) = h"
| "sync_wire_hdr (SyncTxBatch h _) = h"
| "sync_wire_hdr (SyncNack h _ _) = h"
| "sync_wire_hdr (SyncCatchupReq h _ _ _ _) = h"
| "sync_wire_hdr (SyncCatchupChunk h _) = h"
| "sync_wire_hdr (SyncCatchupDone h _ _ _) = h"

fun sync_tx_items :: "PeerWireMsg \<Rightarrow> u64" where
  "sync_tx_items (SyncTxAnnounce _ ids) = of_nat (length ids)"
| "sync_tx_items (SyncTxReq _ ids) = of_nat (length ids)"
| "sync_tx_items (SyncTxBatch _ ts) = of_nat (length ts)"
| "sync_tx_items _ = 0"

fun is_sync_tx_msg :: "PeerWireMsg \<Rightarrow> bool" where
  "is_sync_tx_msg (SyncTxAnnounce _ _) = True"
| "is_sync_tx_msg (SyncTxReq _ _) = True"
| "is_sync_tx_msg (SyncTxBatch _ _) = True"
| "is_sync_tx_msg _ = False"

definition sy_score :: "string \<Rightarrow> PeerScoreEvent \<Rightarrow> SyncNode \<Rightarrow> SyncNode" where
  "sy_score node_id event n = n\<lparr>sy_scores := snd (score_apply node_id event (sy_scores n))\<rparr>"

text \<open>A session goes on, or is closed for a tip or a header that diverges.\<close>

datatype SyncRouteOutcome = Continue | DisconnectTip TipDivergence u64 | DisconnectHdr TipDivergence u64

text \<open>Two nodes disagree: the seed of the peer is left alone for a while. (The table entry is there: the
  tip has just been noted.)\<close>

definition tip_diverged :: "SyncEnv \<Rightarrow> string \<Rightarrow> SyncNode \<Rightarrow> SyncNode" where
  "tip_diverged v node_id n =
     (let cooldown_ms = max (se_cooldown_ms v) SYNC_TIP_COOLDOWN_MS;
          n = sy_score node_id ForkMismatch (sy_add Sync_tip_disconnect_total 1 n);
          st = (case fmlookup (sy_peers n) node_id of Some st \<Rightarrow> st | None \<Rightarrow> sync_default);
          n = put_sync node_id (st\<lparr>sp_div_streak := sat_add (sp_div_streak st) 1\<rparr>) n
      in case se_seed_key v of
           Some seed_key \<Rightarrow> n\<lparr>sy_seed_due := fmupd seed_key (sat_add (se_now v) cooldown_ms) (sy_seed_due n)\<rparr>
         | None \<Rightarrow> n)"

text \<open>One frame. The errors of the handlers are logged; \<open>None\<close> is a panic.\<close>

definition route_msg :: "SyncEnv \<Rightarrow> string \<Rightarrow> u16 \<Rightarrow> u16 \<Rightarrow> bool \<Rightarrow> PeerWireMsg \<Rightarrow> SyncNode \<Rightarrow> (SyncRouteOutcome \<times> SyncNode) option" where
  "route_msg v node_id hdr_cap blk_cap can_cup msg n = (case msg of
     SyncTxBatch _ ts \<Rightarrow> map_option (Pair Continue) (ingest_sync_tx_batch v ts SYNC_TX_IN_CAP n)
   | SyncTxAnnounce _ ids \<Rightarrow> Some (Continue, add_sync_tx_drop ''unsupported_msg'' (of_nat (length ids)) n)
   | SyncTxReq _ ids \<Rightarrow> Some (Continue, add_sync_tx_drop ''unsupported_msg'' (of_nat (length ids)) n)
   | SyncTipAnnounce _ head_h head_hash finalized_h finalized_hash \<Rightarrow>
       Some (case on_tip v node_id head_h head_hash finalized_h finalized_hash hdr_cap can_cup n of
         (Inl _, n) \<Rightarrow> (Continue, n)
       | (Inr (Some dv), n) \<Rightarrow> (DisconnectTip dv (max (se_cooldown_ms v) SYNC_TIP_COOLDOWN_MS), tip_diverged v node_id n)
       | (Inr None, n) \<Rightarrow> (Continue, case fmlookup (sy_peers n) node_id of
             Some st \<Rightarrow> put_sync node_id (st\<lparr>sp_div_streak := 0\<rparr>) n | None \<Rightarrow> n))
   | SyncHeadersReq _ from_h limit \<Rightarrow> Some (Continue, snd (on_hdr_req v from_h limit hdr_cap n))
   | SyncHeadersBatch _ headers \<Rightarrow> Some (case on_hdr_batch v node_id headers hdr_cap blk_cap n of
         (Inr (Some dv), n) \<Rightarrow> (DisconnectHdr dv (se_cooldown_ms v), sy_score node_id ForkMismatch n)
       | (_, n) \<Rightarrow> (Continue, n))
   | SyncBlocksReq _ block_hashes block_heights \<Rightarrow> Some (Continue, snd (on_blk_req v block_hashes block_heights blk_cap n))
   | SyncBlocksBatch _ rows \<Rightarrow> map_option (\<lambda>(r, n). (Continue, case r of Inl _ \<Rightarrow> n | Inr _ \<Rightarrow> sy_score node_id ValidBlocks n))
       (on_blk_batch v node_id rows hdr_cap blk_cap n)
   | SyncNack _ reason_code _ \<Rightarrow> Some (Continue, on_nack v node_id reason_code n)
   | SyncCatchupReq _ start_h end_h epoch_id _ \<Rightarrow>
       Some (Continue, if can_cup then snd (on_cup_req v start_h end_h epoch_id n) else sy_add Sync_cup_drop_total 1 n)
   | SyncCatchupChunk _ chunk \<Rightarrow>
       if can_cup then map_option (Pair Continue) (on_cup_chunk v node_id chunk n) else Some (Continue, sy_add Sync_cup_drop_total 1 n)
   | SyncCatchupDone _ epoch_id last_h last_hash \<Rightarrow>
       Some (Continue, if can_cup then snd (on_cup_done v node_id epoch_id last_h last_hash hdr_cap n) else sy_add Sync_cup_drop_total 1 n)
   | SyncProfileAnnounce _ _ \<Rightarrow> Some (Continue, n))"

definition sync_drop :: "string \<Rightarrow> PeerWireMsg \<Rightarrow> SyncNode \<Rightarrow> (SyncRouteOutcome \<times> SyncNode) option" where
  "sync_drop reason msg n =
     (let n = add_sync_v1_drop reason n
      in Some (Continue, if is_sync_tx_msg msg then add_sync_tx_drop reason (max (sync_tx_items msg) 1) n else n))"

definition route_sync_stub :: "SyncEnv \<Rightarrow> string \<Rightarrow> bool \<Rightarrow> bool \<Rightarrow> u16 \<Rightarrow> u16 \<Rightarrow> bool \<Rightarrow> PeerWireMsg \<Rightarrow> SyncNode
    \<Rightarrow> (SyncRouteOutcome \<times> SyncNode) option" where
  "route_sync_stub v node_id full_v1 same_shard hdr_cap blk_cap can_cup msg n =
     (let n = sy_score node_id SyncRound (sy_add Sync_v1_seen_total 1 n);
          n = (if is_sync_tx_msg msg \<and> 0 < sync_tx_items msg then sy_add Sync_tx_seen_total (sync_tx_items msg) n else n)
      in if sw_shard_id (sync_wire_hdr msg) \<noteq> se_domain_hi v then sync_drop ''shard_mismatch'' msg n
         else if \<not> same_shard then sync_drop ''inter_shard_sync_forbidden'' msg n
         else if \<not> full_v1 then sync_drop ''same_shard_profile_mismatch'' msg n
         else route_msg v node_id hdr_cap blk_cap can_cup msg n)"

end
