(* ===== verification/Pwm_Sync_Facts.thy ===== *)
theory Pwm_Sync_Facts
  imports Pwm_Sync_Serve Pwm_Follow_Props
begin

text \<open>
  What the handlers of block synchronisation keep: a law of the peer table is kept by every handler when it is
  kept by the small steps (locales \<open>sync_law\<close> and \<open>batch_law\<close>), and the node behind them changes only by a batch of blocks that
  was checked, or by a transaction that was admitted to the pool.
\<close>

section \<open>The small steps\<close>

lemma sy_add_fields [simp]:
  "sy_peers (sy_add k d n) = sy_peers n" "sy_api (sy_add k d n) = sy_api n" "sy_out (sy_add k d n) = sy_out n"
  "sy_last_snap (sy_add k d n) = sy_last_snap n" "sy_write_fails (sy_add k d n) = sy_write_fails n" "sy_gsp (sy_add k d n) = sy_gsp n"
  by (simp_all add: sy_add_def)

lemma sy_note_fields [simp]:
  "sy_peers (sy_note k r d n) = sy_peers n" "sy_api (sy_note k r d n) = sy_api n" "sy_out (sy_note k r d n) = sy_out n"
  "sy_last_snap (sy_note k r d n) = sy_last_snap n" "sy_write_fails (sy_note k r d n) = sy_write_fails n" "sy_gsp (sy_note k r d n) = sy_gsp n"
  by (simp_all add: sy_note_def)

lemma put_sync_fields [simp]:
  "sy_peers (put_sync node_id st n) = fmupd node_id st (sy_peers n)" "sy_api (put_sync node_id st n) = sy_api n"
  "sy_out (put_sync node_id st n) = sy_out n" "sy_last_snap (put_sync node_id st n) = sy_last_snap n"
  "sy_write_fails (put_sync node_id st n) = sy_write_fails n"
  by (simp_all add: put_sync_def)

lemma cup_fail_fields [simp]:
  "sy_peers (cup_fail r n) = sy_peers n" "sy_api (cup_fail r n) = sy_api n" "sy_out (cup_fail r n) = sy_out n"
  "sy_write_fails (cup_fail r n) = sy_write_fails n"
  by (simp_all add: cup_fail_def)

text \<open>The state of a peer as a handler reads it.\<close>

definition peer_st :: "string \<Rightarrow> SyncNode \<Rightarrow> SyncPeerState" where
  "peer_st node_id n = (case fmlookup (sy_peers n) node_id of Some st \<Rightarrow> st | None \<Rightarrow> sync_default)"

lemma peer_st_put [simp]: "peer_st node_id (put_sync node_id st n) = st"
  by (simp add: peer_st_def)

lemma peer_st_other [simp]:
  "peer_st node_id (sy_add k d n) = peer_st node_id n" "peer_st node_id (sy_note b r d n) = peer_st node_id n"
  "peer_st node_id (cup_fail r n) = peer_st node_id n"
  by (simp_all add: peer_st_def)

lemma peer_sync_fields [simp]:
  "fst (peer_sync v node_id n) = peer_st node_id n" "sy_api (snd (peer_sync v node_id n)) = sy_api n"
  "sy_out (snd (peer_sync v node_id n)) = sy_out n" "sy_last_snap (snd (peer_sync v node_id n)) = sy_last_snap n"
  "sy_write_fails (snd (peer_sync v node_id n)) = sy_write_fails n"
  "fmlookup (sy_peers (snd (peer_sync v node_id n))) node_id = Some (peer_st node_id n)"
  by (auto simp: peer_sync_def peer_st_def Let_def split: option.split)

lemma peer_sync_E:
  assumes "peer_sync v node_id n = (st, n')"
  shows "st = peer_st node_id n" "sy_api n' = sy_api n" "sy_out n' = sy_out n" "sy_last_snap n' = sy_last_snap n"
    "sy_write_fails n' = sy_write_fails n" "fmlookup (sy_peers n') node_id = Some (peer_st node_id n)"
  using peer_sync_fields [of v node_id n] assms by simp_all

lemma upd_sync_fields [simp]:
  "sy_api (upd_sync v node_id f n) = sy_api n" "sy_out (upd_sync v node_id f n) = sy_out n"
  "sy_last_snap (upd_sync v node_id f n) = sy_last_snap n" "sy_write_fails (upd_sync v node_id f n) = sy_write_fails n"
  "fmlookup (sy_peers (upd_sync v node_id f n)) node_id = Some (f (peer_st node_id n))"
  "peer_st node_id (upd_sync v node_id f n) = f (peer_st node_id n)"
  by (simp_all add: upd_sync_def Let_def peer_st_def case_prod_unfold)

lemma maybe_log_fields [simp]:
  "sy_api (maybe_log_sync_prog v node_id l p n) = sy_api n" "sy_out (maybe_log_sync_prog v node_id l p n) = sy_out n"
  "sy_write_fails (maybe_log_sync_prog v node_id l p n) = sy_write_fails n"
  by (simp_all add: maybe_log_sync_prog_def)

lemma write_wire_fields [simp]:
  "sy_peers (snd (write_wire v mk n)) = sy_peers n" "sy_api (snd (write_wire v mk n)) = sy_api n"
  by (auto simp: write_wire_def Let_def split: list.split)

lemma cup_chunk_fail_fields [simp]: "sy_api (cup_chunk_fail v node_id r n) = sy_api n" "sy_out (cup_chunk_fail v node_id r n) = sy_out n"
  by (simp_all add: cup_chunk_fail_def)

lemma try_demote_fields [simp]:
  "sy_api (snd (try_demote_cup_tail node_id lag n)) = sy_api n" "sy_out (snd (try_demote_cup_tail node_id lag n)) = sy_out n"
  by (auto simp: try_demote_cup_tail_def split: option.split)

section \<open>A well-formed entry\<close>

text \<open>At most eight requests of each kind are open, no block is asked for twice, and the queue of blocks to ask
  for holds one row more than its cap at most, and that only while no block is asked for. A catch-up that
  is on has no retry time.\<close>

definition peer_ok :: "SyncPeerState \<Rightarrow> bool" where
  "peer_ok st \<longleftrightarrow> sp_in_hdr st \<le> SYNC_INF_CAP \<and> sp_in_blk st \<le> SYNC_INF_CAP \<and> distinct (map snd (sp_pend_blk st @ sp_wait_blk st)) \<and>
     length (sp_pend_blk st) \<le> Suc SYNC_PEND_CAP \<and> (sp_wait_blk st = [] \<or> length (sp_pend_blk st) \<le> SYNC_PEND_CAP) \<and>
     length (sp_wait_blk st) \<le> 32 \<and> (sp_cup_active st \<longrightarrow> sp_cup_next_ms st = 0)"

lemma peer_ok_default [simp]: "peer_ok sync_default"
  by (simp add: peer_ok_def sync_default_def)

lemma sat_sub_le: "x \<le> (m :: 'a :: len word) \<Longrightarrow> sat_sub x d \<le> m"
  by (simp add: word_le_nat_alt unat_sat_sub)

lemma has_hash_iff: "has_hash rows x \<longleftrightarrow> x \<in> snd ` set rows"
  by (auto simp: has_hash_def list_ex_iff)

lemma reinqueue_loop_keeps:
  assumes "distinct (map snd pend)"
  shows "distinct (map snd (reinqueue_loop rows pend)) \<and> set (reinqueue_loop rows pend) \<subseteq> set rows \<union> set pend \<and>
    length (reinqueue_loop rows pend) \<le> max (length pend) SYNC_PEND_CAP"
  using assms
proof (induction rows pend rule: reinqueue_loop.induct)
  case (2 r rows pend)
  show ?case
  proof (cases "has_hash pend (snd r)")
    case False
    let ?p = "if SYNC_PEND_CAP < length (r # pend) then butlast (r # pend) else r # pend"
    have sub: "set ?p \<subseteq> insert r (set pend)" by (auto dest: in_set_butlastD)
    have all: "distinct (map snd (r # pend))" using False 2(3) by (simp add: has_hash_iff)
    have "distinct (map snd (butlast (r # pend)))" unfolding map_butlast by (rule distinct_butlast [OF all])
    with all have d: "distinct (map snd ?p)" by presburger
    have "length ?p \<le> max (length pend) SYNC_PEND_CAP" by auto
    with False 2(2) [OF False refl d] sub show ?thesis by (auto simp: Let_def simp del: butlast.simps)
  qed (use 2 in auto)
qed simp

lemma reinqueue_fields [simp]:
  "sp_wait_blk (reinqueue rows st) = sp_wait_blk st" "sp_in_hdr (reinqueue rows st) = sp_in_hdr st" "sp_in_blk (reinqueue rows st) = sp_in_blk st"
  "sp_cup_active (reinqueue rows st) = sp_cup_active st" "sp_cup_next_ms (reinqueue rows st) = sp_cup_next_ms st"
  "sp_wait_hdr_from (reinqueue rows st) = sp_wait_hdr_from st" "sp_tip_h (reinqueue rows st) = sp_tip_h st"
  by (simp_all add: reinqueue_def)

lemma peer_ok_reinqueue: "peer_ok st \<Longrightarrow> sp_wait_blk st = [] \<Longrightarrow> peer_ok (reinqueue rows st)"
  using reinqueue_loop_keeps [of "sp_pend_blk st" "rev rows"] by (auto simp: peer_ok_def reinqueue_def SYNC_PEND_CAP_def)

text \<open>Rows that were asked for are put back.\<close>

lemma peer_ok_put_back:
  assumes "peer_ok st" "want \<in> set (sp_wait_blk st)" "set left \<subseteq> set (sp_wait_blk st)" "snd want \<notin> snd ` set left"
  defines "st' \<equiv> reinqueue left (stall_more (st\<lparr>sp_in_blk := sat_sub (sp_in_blk st) 1, sp_wait_blk := []\<rparr>))"
  shows "peer_ok (st'\<lparr>sp_pend_blk := want # sp_pend_blk st'\<rparr>)"
proof -
  have "snd want \<notin> snd ` set (sp_pend_blk st)" using assms(1,2) by (auto simp: peer_ok_def)
  with reinqueue_loop_keeps [of "sp_pend_blk st" "rev left"] assms(1-4) show ?thesis
    by (auto simp: st'_def peer_ok_def reinqueue_def stall_more_def SYNC_PEND_CAP_def sat_sub_le)
qed

lemma push_pend_keeps:
  assumes "distinct (map snd (pend @ wait))"
  shows "distinct (map snd (push_pend wait rows pend @ wait)) \<and> length (push_pend wait rows pend) \<le> max (length pend) SYNC_PEND_CAP"
  using assms
proof (induction wait rows pend rule: push_pend.induct)
  case (2 wait r rows pend)
  show ?case
  proof (cases "has_hash pend (snd r) \<or> has_hash wait (snd r)")
    case False
    let ?p = "drop (length (pend @ [r]) - SYNC_PEND_CAP) (pend @ [r])"
    have "distinct (map snd ((pend @ [r]) @ wait))" using False 2(3) by (auto simp: has_hash_iff)
    moreover have "set ?p \<subseteq> set (pend @ [r])" by (rule set_drop_subset)
    then have "snd ` set ?p \<subseteq> snd ` set (pend @ [r])" by (rule image_mono)
    moreover have "distinct (map snd (pend @ [r])) \<Longrightarrow> distinct (map snd ?p)" by (simp only: drop_map [symmetric] distinct_drop)
    ultimately have d: "distinct (map snd (?p @ wait))" unfolding map_append [of snd _ wait] distinct_append set_map by blast
    have "length ?p \<le> SYNC_PEND_CAP" by simp
    with False 2(2) [OF False refl d] show ?thesis by (auto simp: Let_def simp del: drop_append)
  qed (use 2 in auto)
qed simp

lemma peer_ok_push: "peer_ok st \<Longrightarrow> peer_ok (st\<lparr>sp_pend_blk := push_pend (sp_wait_blk st) rows (sp_pend_blk st)\<rparr>)"
  using push_pend_keeps [of "sp_pend_blk st" "sp_wait_blk st" rows] by (auto simp: peer_ok_def SYNC_PEND_CAP_def)

lemma inf_cap_room: "\<not> SYNC_INF_CAP \<le> x \<Longrightarrow> sat_add x 1 \<le> SYNC_INF_CAP"
  by (simp add: SYNC_INF_CAP_def word_le_nat_alt unat_sat_add)

lemma take_cap: "unat (max (min c SYNC_BLK_REQ_CAP) (1 :: u16)) \<le> 32" "0 < unat (max (min c SYNC_BLK_REQ_CAP) (1 :: u16))"
  by (auto simp: SYNC_BLK_REQ_CAP_def word_le_nat_alt unat_gt_0 max_def min_def split: if_splits)

lemma peer_ok_ask_blk:
  assumes "peer_ok st" "\<not> SYNC_INF_CAP \<le> sp_in_blk st" "sp_wait_blk st = []" "0 < k" "k \<le> 32"
  shows "peer_ok (st\<lparr>sp_pend_blk := drop k (sp_pend_blk st), sp_wait_blk := take k (sp_pend_blk st), sp_in_blk := sat_add (sp_in_blk st) 1\<rparr>)"
proof -
  have "distinct (map snd (take k (sp_pend_blk st) @ drop k (sp_pend_blk st)))" using assms(1,3) by (simp add: peer_ok_def)
  then have "distinct (map snd (drop k (sp_pend_blk st) @ take k (sp_pend_blk st)))" unfolding map_append distinct_append by blast
  with assms show ?thesis by (auto simp: peer_ok_def inf_cap_room)
qed

lemmas peer_ok_steps = peer_ok_def stall_more_def cup_clear_def fork_clear_def cup_retry_later_def fork_mark_def sat_sub_le Let_def

lemma peer_ok_abort:
  "peer_ok st \<Longrightarrow> peer_ok (cup_clear (cup_retry_later v st))" "peer_ok st \<Longrightarrow> peer_ok (cup_clear (st\<lparr>sp_cup_try := a, sp_cup_next_ms := b\<rparr>))"
  by (simp_all add: peer_ok_steps)

lemma peer_ok_headers: "peer_ok st \<Longrightarrow> peer_ok ((fork_clear st)\<lparr>sp_pend_blk := push_pend (sp_wait_blk (fork_clear st)) rows (sp_pend_blk (fork_clear st))\<rparr>)"
  by (rule peer_ok_push) (simp add: peer_ok_steps)

section \<open>Laws of the node\<close>

text \<open>A law of the node that the small steps keep is kept by the handlers. The rules follow the shape of a
  handler: a local value, the entry of the peer, a new node, a test, a call.\<close>

locale sync_law =
  fixes Q :: "SyncNode \<Rightarrow> bool"
  assumes read: "Q n \<Longrightarrow> peer_ok (peer_st node_id n)"
    and enter: "Q n \<Longrightarrow> Q (snd (peer_sync v node_id n))"
    and put: "Q n \<Longrightarrow> peer_ok st \<Longrightarrow> Q (put_sync node_id st n)"
    and add: "Q n \<Longrightarrow> Q (sy_add k d n)"
    and bucket: "Q n \<Longrightarrow> Q (sy_note b reason d n)"
    and wire: "Q n \<Longrightarrow> Q (snd (write_wire v mk n))"
begin

lemma let_peer:
  assumes "Q n" "\<And>st m. st = peer_st node_id n \<Longrightarrow> peer_ok st \<Longrightarrow> Q m \<Longrightarrow> Q (snd (f st m))"
  shows "Q (snd (let (st, m) = peer_sync v node_id n in f st m))"
  using assms(2) [OF refl read [OF assms(1), of node_id] enter [OF assms(1)], of v node_id] by (simp add: Let_def case_prod_unfold)

lemma let_node: "Q m \<Longrightarrow> (\<And>n. Q n \<Longrightarrow> Q (snd (f n))) \<Longrightarrow> Q (snd (let n = m in f n))"
  by (simp add: Let_def)

lemma let_value: "(\<And>x. x = a \<Longrightarrow> Q (snd (f x))) \<Longrightarrow> Q (snd (let x = a in f x))"
  by (simp add: Let_def)

lemma call:
  assumes "Q (snd h)" "\<And>e m. Q m \<Longrightarrow> Q (snd (f e m))" "\<And>x m. Q m \<Longrightarrow> Q (snd (g x m))"
  shows "Q (snd (case h of (r, m) \<Rightarrow> (case r of Inl e \<Rightarrow> f e m | Inr x \<Rightarrow> g x m)))"
  using assms by (cases h; cases "fst h") auto

lemma test: "(c \<Longrightarrow> Q (snd a)) \<Longrightarrow> (\<not> c \<Longrightarrow> Q (snd b)) \<Longrightarrow> Q (snd (if c then a else b))"
  by simp

lemma case_s:
  "(\<And>x. s = Inl x \<Longrightarrow> Q (snd (f x))) \<Longrightarrow> (\<And>y. s = Inr y \<Longrightarrow> Q (snd (g y))) \<Longrightarrow> Q (snd (case s of Inl x \<Rightarrow> f x | Inr y \<Rightarrow> g y))"
  by (cases s) auto

lemma case_o:
  "(s = None \<Longrightarrow> Q (snd a)) \<Longrightarrow> (\<And>y. s = Some y \<Longrightarrow> Q (snd (g y))) \<Longrightarrow> Q (snd (case s of None \<Rightarrow> a | Some y \<Rightarrow> g y))"
  by (cases s) auto

lemma case_p: "(\<And>a b. p = (a, b) \<Longrightarrow> Q (snd (f a b))) \<Longrightarrow> Q (snd (case p of (a, b) \<Rightarrow> f a b))"
  by (cases p) auto

lemma upd_at:
  assumes "Q n" "peer_ok (f (peer_st node_id n))"
  shows "Q (upd_sync v node_id f n)"
  using put [OF enter [OF assms(1), of v node_id] assms(2), of node_id] by (simp add: upd_sync_def case_prod_unfold Let_def)

lemma upd: "Q n \<Longrightarrow> (\<And>st. peer_ok st \<Longrightarrow> peer_ok (f st)) \<Longrightarrow> Q (upd_sync v node_id f n)"
  by (simp add: upd_at read)

lemma stall: "Q n \<Longrightarrow> Q (upd_sync v node_id stall_more n)"
  by (erule upd) (simp add: peer_ok_steps)

lemma fail: "Q n \<Longrightarrow> Q (cup_fail reason n)"
  by (simp add: cup_fail_def add bucket)

lemma log_prog: "Q n \<Longrightarrow> Q (maybe_log_sync_prog v node_id l p n)"
  unfolding maybe_log_sync_prog_def
  by (rule upd) (auto simp: peer_ok_def sync_prog_tick_def Let_def split: option.split)

lemma lookup: "Q n \<Longrightarrow> fmlookup (sy_peers n) node_id = Some st \<Longrightarrow> peer_ok st"
  using read [of n node_id] by (simp add: peer_st_def)

lemma ask_hdr: "Q n \<Longrightarrow> Q (snd (ask_hdr v node_id h l n))"
  unfolding ask_hdr_def
  by (rule let_value, rule let_peer, assumption, rule test, simp, rule let_value)
     (auto intro!: wire add put simp: peer_ok_def inf_cap_room)

lemma ask_blk: "Q n \<Longrightarrow> Q (snd (ask_blk v node_id cap n))"
  unfolding ask_blk_def
  by (rule let_value, rule let_peer, assumption, rule test, simp, rule let_value, rule test, simp, rule let_value)
     (auto intro!: wire add put peer_ok_ask_blk take_cap)

lemma live_tail: "Q n \<Longrightarrow> Q (snd (live_tail_pull_hdr v node_id cap l p n))"
  by (auto simp: live_tail_pull_hdr_def Let_def ask_hdr split: option.split)

lemma demote: "Q n \<Longrightarrow> Q (snd (try_demote_cup_tail node_id lag n))"
  by (auto simp: try_demote_cup_tail_def peer_ok_steps intro!: put add dest: lookup split: option.split)

lemma chunk_fail: "Q n \<Longrightarrow> Q (cup_chunk_fail v node_id reason n)"
  unfolding cup_chunk_fail_def by (intro upd fail) (auto simp: peer_ok_steps)

lemma send_cup: "Q n \<Longrightarrow> Q (snd (send_cup_req v node_id f t n))"
  unfolding send_cup_req_def
  apply (rule let_value, rule case_s, simp, rule let_node, rule upd, assumption, simp add: peer_ok_steps)
  apply (rule let_node, erule add, rule call, erule wire)
   apply (auto intro!: upd fail simp: peer_ok_steps)
  done

lemma start_cup: "Q n \<Longrightarrow> Q (snd (maybe_start_cup v node_id h can n))"
  using send_cup [of n v node_id]
  by (auto simp: maybe_start_cup_def Let_def case_prod_unfold fail add split: sum.split option.split)

lemma tip: "Q n \<Longrightarrow> Q (snd (on_tip v node_id hh hs fh fs cap can n))"
  unfolding on_tip_def
  apply (rule let_value, rule let_peer, erule add, rule let_node, rule put, assumption, simp add: peer_ok_steps)
  apply (rule let_value, rule test, simp, rule let_value, rule let_node, erule log_prog, rule let_node, erule demote, rule test, simp)
  apply (rule let_node, rule upd, assumption, simp add: sync_stall_tick_def peer_ok_steps)
  apply (rule let_value, rule call, rule test, erule start_cup, simp, simp, rule test, simp, rule call, erule ask_hdr)
   apply simp_all
  done

lemma hdr_batch: "Q n \<Longrightarrow> Q (snd (on_hdr_batch v node_id hs hc bc n))"
  unfolding on_hdr_batch_def
  apply (rule let_value, rule test, simp, rule test, simp, rule let_peer, erule add, rule let_value, rule let_value)
  apply (rule let_node, rule put, assumption, simp add: peer_ok_steps)
  apply (rule case_o, simp, rule test)
   apply (simp add: stall add)
  apply (rule let_value, rule test)
   apply (simp add: stall)
  apply (rule case_s, rule case_p, rule let_peer, erule add, rule let_value, rule test)
    apply (simp add: put peer_ok_steps)
   apply (simp add: put peer_ok_steps)
  apply (rule case_p, rule let_node, rule upd, assumption, simp add: Let_def peer_ok_headers)
  apply (rule call, rule test, erule ask_hdr)
     apply simp_all
  apply (rule call, erule ask_blk)
   apply simp_all
  done

lemma cup_done: "Q n \<Longrightarrow> Q (snd (on_cup_done v node_id e h hash cap n))"
  unfolding on_cup_done_def
  apply (rule let_peer, assumption, rule test, simp, rule test)
   apply (simp add: fail put peer_ok_steps)
  apply (rule let_node, rule put, assumption, simp add: peer_ok_steps)
  apply (rule let_node, erule add, rule let_value, rule let_value, rule let_node, erule log_prog, rule test, erule ask_hdr, simp)
  done

lemma nack: "Q n \<Longrightarrow> Q (on_nack v node_id reason n)"
  using read [of n node_id] enter [of n v node_id]
  by (auto simp: on_nack_def Let_def case_prod_unfold intro!: fail put peer_ok_abort peer_ok_reinqueue)
     (simp_all add: peer_ok_steps)

lemma node_wire: "Q n \<Longrightarrow> Q (snd (send_nack v reason n))"
  unfolding send_nack_def by (erule wire)

lemma answer:
  assumes "Q n"
  shows "Q (snd (case write_wire v mk n of (r, m) \<Rightarrow> (case r of Inl e \<Rightarrow> (Inl e, m) | Inr _ \<Rightarrow> (Inr (), sy_add k 1 m))))"
  by (rule call, rule wire [OF assms]) (simp_all add: add)

lemma hdr_req: "Q n \<Longrightarrow> Q (snd (on_hdr_req v h l cap n))"
  unfolding on_hdr_req_def
  by (rule let_value, rule test, erule node_wire, (rule let_value)+, rule test, erule node_wire, erule answer)

lemma blk_req: "Q n \<Longrightarrow> Q (snd (on_blk_req v bs hs cap n))"
  unfolding on_blk_req_def
  by (rule let_value, rule test, erule node_wire, rule test, erule node_wire, (rule let_value)+, rule case_s, simp, rule case_s, erule node_wire,
      erule answer)

lemma chunks: "Q n \<Longrightarrow> Q (snd (send_chunks v e i rows n))"
proof (induction v e i rows n rule: send_chunks.induct)
  case (2 v e i rows rest n)
  have "Q (snd (write_wire v (\<lambda>h. SyncCatchupChunk h (mk_chunk v e i rows)) n))" by (rule wire [OF 2(2)])
  with 2(1) show ?case by (auto split: prod.split sum.split)
qed simp

lemma cup_req: "Q n \<Longrightarrow> Q (snd (on_cup_req v s e i n))"
  unfolding on_cup_req_def
  apply (rule test, erule node_wire, rule case_p, rule case_s, simp, rule test, erule node_wire, rule case_s, simp, rule test, erule node_wire)
  apply ((rule let_value)+, rule test, erule node_wire, rule let_value, rule call, erule chunks, simp, erule wire)
  done

end

text \<open>Two laws, one before and one after a batch of at most 32 blocks.\<close>

lemma match_rows_stop: "match_rows v expected rows = Inl (k, want, left) \<Longrightarrow> \<exists>pre. expected = pre @ want # left"
proof (induction v expected rows rule: match_rows.induct)
  case (3 v w expected row rows)
  show ?case
  proof (cases "w = want \<and> left = expected")
    case False
    with 3(2) obtain blk where "\<not> (sb_hash row \<noteq> snd w \<or> sb_height row \<noteq> fst w)" "sb_block row = Some blk"
      "\<not> (blk_hash_hex v blk \<noteq> sb_hash row \<or> bh_height (hdr blk) \<noteq> sb_height row \<or> bh_height (hdr blk) \<noteq> fst w)"
      "match_rows v expected rows = Inl (k, want, left)"
      by (auto split: if_splits option.splits sum.splits)
    then have "\<exists>pre. expected = pre @ want # left" by (rule 3(1))
    then show ?thesis by (metis append_Cons)
  qed simp
qed simp_all

lemma match_rows_all: "match_rows v expected rows = Inr (blks, left) \<Longrightarrow> set left \<subseteq> set expected \<and> length blks \<le> length rows"
  by (induction v expected rows arbitrary: blks rule: match_rows.induct) (auto split: if_splits option.splits sum.splits)

lemma walk_chunk_length: "walk_chunk v f t h p rows = Inr (h', p', blks) \<Longrightarrow> length blks = length rows"
  by (induction v f t h p rows arbitrary: blks rule: walk_chunk.induct) (auto split: if_splits option.splits sum.splits)

locale batch_law = before: sync_law Q + after: sync_law Q' for Q Q' +
  fixes v :: SyncEnv
  assumes later: "Q n \<Longrightarrow> Q' n"
    and batch: "Q n \<Longrightarrow> length blks \<le> 32 \<Longrightarrow> sync_apply v blks n = Some (r, m) \<Longrightarrow> Q' m"
begin

lemma applied:
  assumes "Q' k" "peer_ok (peer_st node_id k)" "sp_wait_blk (peer_st node_id k) = []"
  shows "Q' (snd (blk_applied v node_id hc bc j left k))"
  unfolding blk_applied_def
  apply (rule after.let_peer, rule after.add, rule assms(1), rule after.let_node, rule after.put, assumption, rule peer_ok_reinqueue)
    apply (simp add: peer_ok_steps)
   apply (simp add: assms(3))
  apply (rule after.let_value, rule after.let_value, rule after.let_node, erule after.log_prog, rule after.call, erule after.live_tail)
   apply (simp_all add: after.ask_blk)
  done

lemma blk_batch:
  assumes Q: "Q n" and run: "on_blk_batch v node_id rows hc bc n = Some (r, m)"
  shows "Q' m"
proof -
  let ?st = "peer_st node_id n"
  obtain n1 where pair: "peer_sync v node_id (sy_add Sync_blk_resp_total 1 n) = (?st, n1)"
    using peer_sync_fields(1) [of v node_id "sy_add Sync_blk_resp_total 1 n"] by (metis peer_st_other(1) prod.collapse)
  let ?n = "put_sync node_id (?st\<lparr>sp_in_blk := sat_sub (sp_in_blk ?st) 1, sp_wait_blk := []\<rparr>) n1"
  have ok: "peer_ok ?st" using Q by (rule before.read)
  have "Q (snd (peer_sync v node_id (sy_add Sync_blk_resp_total 1 n)))" by (intro before.enter before.add Q)
  then have "Q n1" by (simp only: pair snd_conv)
  then have Qn: "Q ?n" using ok by (intro before.put) (simp_all add: peer_ok_steps)
  show ?thesis
  proof (cases "rows = [] \<or> unat (max (min bc SYNC_BLK_REQ_CAP) 1) < length rows \<or>
      (case fmlookup (sy_peers n) node_id of Some st \<Rightarrow> sp_cup_active st | None \<Rightarrow> False)")
    case True
    then have "on_blk_batch v node_id rows hc bc n = Some (Inr (), n)"
      by (elim disjE) (simp_all add: on_blk_batch_def Let_def)
    with run Q show ?thesis by (simp add: later)
  next
    case False
    then have len: "length rows \<le> 32" using take_cap(1) [of bc] by linarith
    have body: "on_blk_batch v node_id rows hc bc n = (if sp_wait_blk ?st = [] then Some (Inr (), ?n)
         else (case match_rows v (sp_wait_blk ?st) rows of
           Inl (counter, want, left) \<Rightarrow> Some (Inr (), blk_mismatch v node_id counter want left ?n)
         | Inr (blks, left) \<Rightarrow> (case sync_apply v blks ?n of
             None \<Rightarrow> None
           | Some (Inl _, n) \<Rightarrow>
               let n = upd_sync v node_id (\<lambda>st. reinqueue left (stall_more st)) (sy_add Sync_apply_fail_total 1 n)
               in Some (ask_blk v node_id bc n)
           | Some (Inr _, n) \<Rightarrow> Some (blk_applied v node_id hc bc (length blks) left n))))"
      using False by (simp add: on_blk_batch_def pair Let_def)
    show ?thesis
    proof (cases "sp_wait_blk ?st = []")
      case False
      note wait = this
      show ?thesis
      proof (cases "match_rows v (sp_wait_blk ?st) rows")
        case (Inl x)
        obtain k want left where x: "x = (k, want, left)" by (cases x)
        obtain pre where pre: "sp_wait_blk ?st = pre @ want # left" using match_rows_stop [of v _ rows k want left] Inl x by blast
        then have "distinct (map snd (pre @ want # left))" using ok by (simp add: peer_ok_def)
        then have "snd want \<notin> snd ` set left" by (simp add: image_def)
        then have "Q (blk_mismatch v node_id k want left ?n)" unfolding blk_mismatch_def
          using peer_ok_put_back [of ?st want left] ok pre by (intro before.upd_at before.add Qn) (auto simp: Let_def)
        with run show ?thesis by (simp add: body wait Inl x later)
      next
        case (Inr x)
        obtain blks left where x: "x = (blks, left)" by (cases x)
        have few: "length blks \<le> 32" using match_rows_all [of v _ rows blks left] Inr x len by fastforce
        obtain q k where k: "sync_apply v blks ?n = Some (q, k)" using run by (auto simp: body wait Inr x split: option.splits)
        have Qk: "Q' k" by (rule batch [OF Qn few k])
        have empty: "sp_wait_blk (peer_st node_id k) = []"
          using k by (auto simp: sync_apply_def peer_st_def)
        have okk: "peer_ok (peer_st node_id k)" using Qk by (rule after.read)
        have "Q' (snd (ask_blk v node_id bc (upd_sync v node_id (\<lambda>st. reinqueue left (stall_more st)) (sy_add Sync_apply_fail_total 1 k))))"
          using okk empty by (intro after.ask_blk after.upd_at after.add Qk peer_ok_reinqueue) (simp_all add: peer_ok_steps)
        moreover have "Q' (snd (blk_applied v node_id hc bc (length blks) left k))"
          using Qk okk empty by (rule applied)
        ultimately show ?thesis using run by (cases q) (auto simp: body wait Inr x k)
      qed
    qed (use run Qn in \<open>simp add: body later\<close>)
  qed
qed

lemma cup_chunk:
  assumes Q: "Q n" and run: "on_cup_chunk v node_id chunk n = Some m"
  shows "Q' m"
proof (cases "cu_headers chunk = [] \<or> SYNC_CUP_CHUNK_CAP < length (cu_headers chunk) \<or> length (cu_headers chunk) \<noteq> length (cu_blocks chunk)")
  case True
  with run Q show ?thesis by (auto simp: on_cup_chunk_def intro: later before.chunk_fail)
next
  case False
  have failed: "Q' (cup_chunk_fail v node_id reason n)" for reason by (rule later, rule before.chunk_fail, rule Q)
  show ?thesis
  proof (cases "fmlookup (sy_peers n) node_id")
    case (Some st)
    let ?w = "walk_chunk v (sp_cup_from st) (sp_cup_to st) (sp_cup_next_h st) (sp_cup_prev_hash st) (zip (cu_headers chunk) (cu_blocks chunk))"
    show ?thesis
    proof (cases "sp_cup_active st \<and> cu_epoch_id chunk = sp_cup_epoch st \<and> cu_chunk_index chunk = sp_cup_next_ix st \<and> cu_first_prev_hash chunk = sp_cup_prev_hash st")
      case go: True
      show ?thesis
      proof (cases ?w)
        case (Inr x)
        obtain next_h prev_hash blks where x: "x = (next_h, prev_hash, blks)" by (cases x)
        have few: "length blks \<le> 32" using walk_chunk_length [of v _ _ _ _ _ next_h prev_hash blks] Inr x False by (simp add: SYNC_CUP_CHUNK_CAP_def)
        show ?thesis
        proof (cases "cu_last_hash chunk = prev_hash")
          case True
          obtain q k where k: "sync_apply v blks n = Some (q, k)"
            using run False Some go Inr x True by (auto simp: on_cup_chunk_def split: option.splits)
          have Qk: "Q' k" by (rule batch [OF Q few k])
          show ?thesis
          proof (cases q)
            case (Inl e)
            with after.chunk_fail [OF Qk, of v node_id "''chunk_apply''"] run False Some go \<open>?w = Inr x\<close> x True k show ?thesis by (simp add: on_cup_chunk_def)
          next
            case (Inr u)
            have ok: "peer_ok ((peer_st node_id k)\<lparr>sp_cup_prev_hash := prev_hash, sp_cup_next_h := next_h,
                sp_cup_next_ix := sat_add (sp_cup_next_ix st) 1, sp_live_stall := 0\<rparr>)"
              using after.read [OF Qk, of node_id] by (simp add: peer_ok_steps)
            from run False Some go \<open>?w = Inr x\<close> x True k Inr
              after.log_prog [OF after.put [OF after.enter [OF after.add [OF Qk]] ok]]
            show ?thesis by (auto simp: on_cup_chunk_def Let_def case_prod_unfold)
          qed
        qed (use run False Some go Inr x failed in \<open>auto simp: on_cup_chunk_def\<close>)
      qed (use run False Some go failed in \<open>auto simp: on_cup_chunk_def\<close>)
    qed (use run False Some Q failed in \<open>auto simp: on_cup_chunk_def later split: if_splits\<close>)
  qed (use run False Q in \<open>simp add: on_cup_chunk_def later\<close>)
qed

end

section \<open>The table of peers, and the node behind the handlers\<close>

definition table_ok :: "SyncNode \<Rightarrow> bool" where
  "table_ok n \<longleftrightarrow> (\<forall>node_id st. fmlookup (sy_peers n) node_id = Some st \<longrightarrow> peer_ok st)"

lemma table_read: "table_ok n \<Longrightarrow> peer_ok (peer_st node_id n)"
  by (auto simp: table_ok_def peer_st_def split: option.split)

lemma table_peers: "sy_peers m = sy_peers n \<Longrightarrow> table_ok m = table_ok n"
  by (simp add: table_ok_def)

lemma table_put: "table_ok n \<Longrightarrow> peer_ok st \<Longrightarrow> table_ok (put_sync node_id st n)"
  by (simp add: table_ok_def)

lemma table_enter: "table_ok n \<Longrightarrow> table_ok (snd (peer_sync v node_id n))"
  by (auto simp: table_ok_def peer_sync_def Let_def split: option.split)

interpretation table: sync_law table_ok
  by unfold_locales (simp_all add: table_read table_put table_enter table_peers [of "sy_add _ _ _"] table_peers [of "sy_note _ _ _ _"]
    table_peers [of "snd (write_wire _ _ _)"])

interpretation node_law: sync_law "\<lambda>n. table_ok n \<and> sy_api n = a" for a
  by unfold_locales (auto simp: table.read table.enter table.put table.add table.bucket table.wire)

text \<open>What a batch of blocks does to the node: the first component of the result of \<open>apply_blk_batch\<close> does not matter here.\<close>

definition batch_from :: "SyncEnv \<Rightarrow> ApiNode \<Rightarrow> ApiNode \<Rightarrow> bool" where
  "batch_from v a b \<longleftrightarrow> b = a \<or> (\<exists>blks r ls ls'. length blks \<le> 32 \<and>
     apply_blk_batch (se_ext v) (se_enc v) (se_standby v) (se_save v) blks (ls, a) = Some (r, ls', b))"

lemma sync_apply_batch:
  assumes "sync_apply v blks n = Some (r, m)"
  shows "sy_peers m = sy_peers n"
    "\<exists>ls'. apply_blk_batch (se_ext v) (se_enc v) (se_standby v) (se_save v) blks (sy_last_snap n, sy_api n) = Some (r, ls', sy_api m)"
  using assms by (auto simp: sync_apply_def)

interpretation batch: batch_law "\<lambda>n. table_ok n \<and> sy_api n = a" "\<lambda>n. table_ok n \<and> batch_from v a (sy_api n)" v for a v
proof unfold_locales
  show "table_ok m \<and> batch_from v a (sy_api m)"
    if Q: "table_ok n \<and> sy_api n = a" and "length blks \<le> 32" and run: "sync_apply v blks n = Some (r, m)" for n blks r m
    using that sync_apply_batch(2) [OF run] table_peers [OF sync_apply_batch(1) [OF run]] by (auto simp: batch_from_def)
qed (auto simp: table.read table.enter table.put table.add table.bucket table.wire batch_from_def)

end
