(* ===== verification/Pwm_Sync_Props.thy ===== *)
theory Pwm_Sync_Props
  imports Pwm_Sync_Facts
begin

text \<open>
  Block synchronisation as a whole: what a node keeps whatever frames its peers send.
\<close>

section \<open>Any frames\<close>

lemma apply_blks_chain:
  assumes "node_chain ext enc cfg (sn_chain n)" "unat (tip_h (sn_chain n)) + length blks < 2 ^ 64" "apply_blks ext enc blks n = Some (r, m)"
  shows "node_chain ext enc cfg (sn_chain m) \<and> unat (tip_h (sn_chain n)) \<le> unat (tip_h (sn_chain m)) \<and>
    unat (tip_h (sn_chain m)) \<le> unat (tip_h (sn_chain n)) + length blks"
  using assms
proof (induction blks arbitrary: n)
  case (Cons blk blks)
  from Cons.prems(3) obtain r1 k where k: "apply_blk ext enc blk n = Some (r1, k)"
    and rest: "(\<exists>e. r1 = Inl e \<and> k = m) \<or> (\<exists>u. r1 = Inr u) \<and> apply_blks ext enc blks k = Some (r, m)"
    by (auto split: option.splits sum.splits)
  show ?case
  proof (cases r1)
    case (Inl e)
    with apply_blk_error [of ext enc blk n e k] k rest Cons.prems(1) show ?thesis by simp
  next
    case (Inr u)
    from k Inr obtain st where st: "check_blk ext enc blk (sn_chain n) = Done st" "sn_chain k = append_blk blk st (sn_chain n)"
      using apply_blk_ok by (metis old.unit.exhaust)
    have small: "unat (canonical_h (sn_chain n)) + 1 < 2 ^ 64" using Cons.prems(2) by (simp add: tip_h_def)
    have chain: "node_chain ext enc cfg (sn_chain k)" unfolding st(2) by (rule nc_follow [OF Cons.prems(1) st(1) small])
    have "unat (tip_h (sn_chain k)) = Suc (unat (tip_h (sn_chain n)))"
      using check_blk_seal(1) [OF st(1)] small by (simp add: st(2) tip_h_def unat_sat_add)
    with Cons.IH [of k] chain rest Inr Cons.prems(2) show ?thesis by auto
  qed
qed simp

lemma batch_chain:
  assumes "node_chain (se_ext v) (se_enc v) cfg (api_chain a)" "unat (tip_h (api_chain a)) + 32 < 2 ^ 64" "batch_from v a b"
  shows "node_chain (se_ext v) (se_enc v) cfg (api_chain b) \<and> unat (tip_h (api_chain a)) \<le> unat (tip_h (api_chain b)) \<and>
    unat (tip_h (api_chain b)) \<le> unat (tip_h (api_chain a)) + 32"
proof (cases "b = a")
  case False
  with assms(3) obtain blks r ls ls' where len: "length blks \<le> 32"
    and run: "apply_blk_batch (se_ext v) (se_enc v) (se_standby v) (se_save v) blks (ls, a) = Some (r, ls', b)"
    by (auto simp: batch_from_def)
  show ?thesis
  proof (cases r)
    case (Inl e)
    with batch_cases [OF run] False show ?thesis by simp
  next
    case (Inr u)
    with batch_cases [OF run] obtain m where m: "apply_blks (se_ext v) (se_enc v) blks (ap_node a) = Some (Inr (), m)"
      "ap_node b = m \<or> (\<exists>path e. b = with_init (init_ready_degraded path e) a)" by auto
    have "unat (tip_h (api_chain a)) + length blks < 2 ^ 64" using assms(2) len by linarith
    from apply_blks_chain [OF assms(1) this m(1)] m(2) assms(1) len show ?thesis by (auto simp: with_init_def)
  qed
qed (use assms in simp)

lemma sy_score_fields [simp]: "sy_peers (sy_score node_id ev n) = sy_peers n" "sy_api (sy_score node_id ev n) = sy_api n" "sy_out (sy_score node_id ev n) = sy_out n"
  by (simp_all add: sy_score_def)

lemma tx_drop_fields [simp]:
  "sy_peers (add_sync_tx_drop r c n) = sy_peers n" "sy_api (add_sync_tx_drop r c n) = sy_api n"
  "sy_peers (add_bucket b r c n) = sy_peers n" "sy_api (add_bucket b r c n) = sy_api n"
  "sy_peers (add_sync_v1_drop r n) = sy_peers n" "sy_api (add_sync_v1_drop r n) = sy_api n"
  by (simp_all add: add_sync_tx_drop_def add_bucket_def add_sync_v1_drop_def)

lemma ingest_tx_keeps: "ingest_tx v tx n = Some (f, m) \<Longrightarrow> sy_peers m = sy_peers n \<and> sync_chain m = sync_chain n"
  by (auto simp: ingest_tx_def Let_def split: if_splits sum.splits option.splits verdict.splits outcome.splits)

lemma ingest_txs_keeps: "ingest_txs v ts n = Some (fs, m) \<Longrightarrow> sy_peers m = sy_peers n \<and> sync_chain m = sync_chain n"
proof (induction v ts n arbitrary: fs rule: ingest_txs.induct)
  case (2 v tx rest n)
  then show ?case by (auto split: option.splits) (metis ingest_tx_keeps)+
qed simp

lemma ingest_keeps: "ingest_sync_tx_batch v ts cap n = Some m \<Longrightarrow> sy_peers m = sy_peers n \<and> sync_chain m = sync_chain n"
  by (auto simp: ingest_sync_tx_batch_def Let_def dest!: ingest_txs_keeps split: if_splits)

definition frame_keeps :: "SyncEnv \<Rightarrow> SyncNode \<Rightarrow> SyncNode \<Rightarrow> bool" where
  "frame_keeps v n m \<longleftrightarrow> table_ok m \<and> (sync_chain m = sync_chain n \<or> batch_from v (sy_api n) (sy_api m))"

lemma keeps_law: "table_ok m \<and> sy_api m = sy_api n \<Longrightarrow> frame_keeps v n m"
  by (simp add: frame_keeps_def)

lemma tip_diverged_keeps:
  assumes "table_ok n"
  shows "table_ok (tip_diverged v node_id n) \<and> sy_api (tip_diverged v node_id n) = sy_api n"
proof -
  let ?n = "sy_score node_id ForkMismatch (sy_add Sync_tip_disconnect_total 1 n)"
  let ?st = "case fmlookup (sy_peers ?n) node_id of Some st \<Rightarrow> st | None \<Rightarrow> sync_default"
  have n: "table_ok ?n" using assms by (simp add: table_ok_def)
  then have "peer_ok ?st" using table_read [OF n, of node_id] by (simp add: peer_st_def)
  then have "peer_ok (?st\<lparr>sp_div_streak := sat_add (sp_div_streak ?st) 1\<rparr>)" by (simp add: peer_ok_def)
  from table_put [OF n this, of node_id] have "table_ok (put_sync node_id (?st\<lparr>sp_div_streak := sat_add (sp_div_streak ?st) 1\<rparr>) ?n)" .
  then show ?thesis by (simp add: tip_diverged_def Let_def table_ok_def split: option.split)
qed

lemma route_msg_keeps:
  assumes ok: "table_ok n" and run: "route_msg v node_id hc bc can msg n = Some (r, m)"
  shows "frame_keeps v n m"
proof -
  have Q: "table_ok n \<and> sy_api n = sy_api n" using ok by simp
  note keep = node_law.tip [OF Q] node_law.hdr_batch [OF Q] node_law.nack [OF Q] node_law.cup_done [OF Q] node_law.hdr_req [OF Q]
    node_law.blk_req [OF Q] node_law.cup_req [OF Q] node_law.add [OF Q]
  show ?thesis
  proof (cases msg)
    case (SyncTipAnnounce h hh hs fh fs)
    let ?r = "on_tip v node_id hh hs fh fs hc can n"
    have k: "table_ok (snd ?r) \<and> sy_api (snd ?r) = sy_api n" by (rule keep)
    obtain q k' where r: "?r = (q, k')" by fastforce
    have k': "table_ok k'" "sy_api k' = sy_api n" using k r by simp_all
    consider "m = k'" | st where "fmlookup (sy_peers k') node_id = Some st" "m = put_sync node_id (st\<lparr>sp_div_streak := 0\<rparr>) k'"
      | "m = tip_diverged v node_id k'"
    proof (cases q)
      case (Inl e)
      with run that(1) show ?thesis by (simp add: route_msg_def SyncTipAnnounce r)
    next
      case (Inr dv)
      show ?thesis
      proof (cases dv)
        case None
        with run Inr have m: "m = (case fmlookup (sy_peers k') node_id of Some st \<Rightarrow> put_sync node_id (st\<lparr>sp_div_streak := 0\<rparr>) k' | None \<Rightarrow> k')"
          by (simp add: route_msg_def SyncTipAnnounce r)
        show ?thesis
        proof (cases "fmlookup (sy_peers k') node_id")
          case None
          with m that(1) show ?thesis by simp
        next
          case (Some st)
          with m that(2) [OF Some] show ?thesis by simp
        qed
      next
        case (Some x)
        with run Inr that(3) show ?thesis by (simp add: route_msg_def SyncTipAnnounce r)
      qed
    qed
    then have "table_ok m \<and> sy_api m = sy_api n"
    proof cases
      case 2
      then have "peer_ok st" using k'(1) by (simp add: table_ok_def)
      then have "peer_ok (st\<lparr>sp_div_streak := 0\<rparr>)" by (simp add: peer_ok_def)
      with 2 k' show ?thesis by (simp add: table_put)
    next
      case 3
      with tip_diverged_keeps [OF k'(1), of v node_id] k'(2) show ?thesis by simp
    qed (use k' in simp)
    then show ?thesis by (rule keeps_law)
  next
    case (SyncHeadersBatch h hs)
    let ?r = "on_hdr_batch v node_id hs hc bc n"
    have "table_ok (snd ?r) \<and> sy_api (snd ?r) = sy_api n" by (rule keep)
    with run SyncHeadersBatch show ?thesis
      by (intro keeps_law) (auto simp: route_msg_def table_ok_def split: prod.splits sum.splits option.splits)
  next
    case (SyncBlocksBatch h rows)
    with run obtain q k where k: "on_blk_batch v node_id rows hc bc n = Some (q, k)"
      and "m = (case q of Inl _ \<Rightarrow> k | Inr _ \<Rightarrow> sy_score node_id ValidBlocks k)" by (auto simp: route_msg_def)
    then have m: "sy_peers m = sy_peers k" "sy_api m = sy_api k" by (cases q; simp)+
    from batch.blk_batch [OF Q k] m show ?thesis by (simp add: frame_keeps_def table_ok_def)
  next
    case (SyncCatchupChunk h chunk)
    with run show ?thesis using batch.cup_chunk [OF Q, of v node_id chunk m] keep(8)
      by (auto simp: route_msg_def frame_keeps_def split: if_splits)
  next
    case (SyncTxBatch h ts)
    with run ingest_keeps [of v ts SYNC_TX_IN_CAP n m] ok show ?thesis
      by (auto simp: route_msg_def frame_keeps_def table_ok_def)
  qed (use run ok keep in \<open>auto simp: route_msg_def frame_keeps_def table_ok_def split: if_splits\<close>)
qed

lemma route_keeps:
  assumes "table_ok n" "route_sync_stub v node_id full_v1 same_shard hc bc can msg n = Some (r, m)"
  shows "frame_keeps v n m"
proof -
  let ?n = "sy_score node_id SyncRound (sy_add Sync_v1_seen_total 1 n)"
  let ?k = "if is_sync_tx_msg msg \<and> 0 < sync_tx_items msg then sy_add Sync_tx_seen_total (sync_tx_items msg) ?n else ?n"
  have same: "sy_peers ?k = sy_peers n" "sy_api ?k = sy_api n" by simp_all
  then have ok: "table_ok ?k" using assms(1) by (simp only: table_ok_def)
  have "route_msg v node_id hc bc can msg ?k = Some (r, m) \<or> (\<exists>s. sync_drop s msg ?k = Some (r, m))"
    using assms(2) unfolding route_sync_stub_def Let_def by metis
  then show ?thesis
  proof
    assume "route_msg v node_id hc bc can msg ?k = Some (r, m)"
    from route_msg_keeps [OF ok this] show ?thesis unfolding frame_keeps_def same .
  next
    assume "\<exists>s. sync_drop s msg ?k = Some (r, m)"
    then have "sy_peers m = sy_peers ?k" "sy_api m = sy_api ?k" by (auto simp: sync_drop_def Let_def split: if_splits)
    with assms(1) show ?thesis unfolding same by (simp add: frame_keeps_def table_ok_def)
  qed
qed

text \<open>A run: each frame with the environment it is handled in, the peer it comes from and what was agreed
  with that peer.\<close>

record Frame =
  fr_env :: SyncEnv
  fr_node_id :: string
  fr_full_v1 :: bool
  fr_same_shard :: bool
  fr_hdr_cap :: u16
  fr_blk_cap :: u16
  fr_can_cup :: bool
  fr_msg :: PeerWireMsg

fun route_all :: "Frame list \<Rightarrow> SyncNode \<Rightarrow> SyncNode option" where
  "route_all [] n = Some n"
| "route_all (f # fs) n = Option.bind (route_sync_stub (fr_env f) (fr_node_id f) (fr_full_v1 f) (fr_same_shard f) (fr_hdr_cap f) (fr_blk_cap f)
     (fr_can_cup f) (fr_msg f) n) (\<lambda>(_, m). route_all fs m)"

lemma route_all_keeps:
  assumes "node_chain ext enc cfg (sync_chain n)" "table_ok n" "\<forall>f \<in> set fs. se_ext (fr_env f) = ext \<and> se_enc (fr_env f) = enc"
    and "unat (tip_h (sync_chain n)) + 32 * length fs < 2 ^ 64" "route_all fs n = Some m"
  shows "node_chain ext enc cfg (sync_chain m) \<and> table_ok m \<and> unat (tip_h (sync_chain n)) \<le> unat (tip_h (sync_chain m))"
  using assms
proof (induction fs arbitrary: n)
  case (Cons f fs)
  from Cons.prems(5) obtain r k where k: "route_sync_stub (fr_env f) (fr_node_id f) (fr_full_v1 f) (fr_same_shard f) (fr_hdr_cap f) (fr_blk_cap f)
     (fr_can_cup f) (fr_msg f) n = Some (r, k)" and rest: "route_all fs k = Some m" by (auto split: Option.bind_splits)
  have env: "se_ext (fr_env f) = ext" "se_enc (fr_env f) = enc" using Cons.prems(3) by simp_all
  have keeps: "frame_keeps (fr_env f) n k" by (rule route_keeps [OF Cons.prems(2) k])
  have small: "unat (tip_h (sync_chain n)) + 32 < 2 ^ 64" using Cons.prems(4) by simp
  have step: "node_chain ext enc cfg (sync_chain k) \<and> unat (tip_h (sync_chain n)) \<le> unat (tip_h (sync_chain k)) \<and>
      unat (tip_h (sync_chain k)) \<le> unat (tip_h (sync_chain n)) + 32"
    using keeps batch_chain [of "fr_env f" cfg "sy_api n" "sy_api k"] Cons.prems(1) small by (auto simp: frame_keeps_def env)
  have "table_ok k" using keeps by (simp add: frame_keeps_def)
  moreover have "\<forall>f \<in> set fs. se_ext (fr_env f) = ext \<and> se_enc (fr_env f) = enc" using Cons.prems(3) by simp
  ultimately have "node_chain ext enc cfg (sync_chain m) \<and> table_ok m \<and> unat (tip_h (sync_chain k)) \<le> unat (tip_h (sync_chain m))"
    using Cons.prems(4) step by (intro Cons.IH [OF _ _ _ _ rest]) simp_all
  with step show ?case by linarith
qed simp


text \<open>C31: Whatever frames the peers send, every entry of the table stays within its bounds: at most eight open
  requests of each kind, no block asked for twice at a time, and a queue of at most 513
  blocks to ask for. (A row that does not match is put back without looking at the cap.)\<close>

theorem peer_tables_bounded:
  assumes "table_ok n" "route_sync_stub v node_id full_v1 same_shard hc bc can msg n = Some (r, m)" "fmlookup (sy_peers m) peer = Some st"
  shows "sp_in_hdr st \<le> SYNC_INF_CAP \<and> sp_in_blk st \<le> SYNC_INF_CAP \<and> length (sp_pend_blk st) \<le> Suc SYNC_PEND_CAP \<and>
    length (sp_wait_blk st) \<le> 32 \<and> distinct (map snd (sp_pend_blk st @ sp_wait_blk st))"
  using route_keeps [OF assms(1,2)] assms(3) by (auto simp: frame_keeps_def table_ok_def peer_ok_def)

section \<open>A node for the examples\<close>

definition demo_sync :: SyncEnv where
  "demo_sync = \<lparr> se_ext = demo_ext, se_enc = demo_codecs, se_lib = toy_addr, se_domain_hi = 0, se_node_id = ''A'', se_standby = True,
     se_heartbeat_ms = 1000, se_retry_max_ms = 30000, se_files = None, se_victim = (\<lambda>_. []), se_save = None, se_now = 5, se_clock = None,
     se_cooldown_ms = 60000, se_seed_key = None \<rparr>"

definition demo_sync_node :: "Chain \<Rightarrow> SyncNode" where
  "demo_sync_node c = \<lparr> sy_peers = fmempty, sy_scores = fmempty, sy_seed_due = fmempty,
     sy_gsp = \<lparr> mg_tx_seen_ms = fmempty, mg_tx_sent_peer_ms = fmempty \<rparr>, sy_count = (\<lambda>_. 0), sy_bucket = (\<lambda>_ _. 0), sy_last_snap = 0,
     sy_api = demo_api c, sy_seq_no = 0, sy_out = [], sy_write_fails = [] \<rparr>"

lemma demo_sync_facts [simp]:
  "se_ext demo_sync = demo_ext" "se_enc demo_sync = demo_codecs" "se_lib demo_sync = toy_addr" "se_save demo_sync = None" "se_now demo_sync = 5"
  "sync_chain (demo_sync_node c) = c" "sy_peers (demo_sync_node c) = fmempty" "sy_out (demo_sync_node c) = []"
  "sy_write_fails (demo_sync_node c) = []" "ap_node (sy_api (demo_sync_node c)) = demo_node c []" "peer_st p (demo_sync_node c) = sync_default"
  by (simp_all add: demo_sync_def demo_sync_node_def demo_api_facts peer_st_def) (simp add: demo_api_def)

lemma demo_table_ok: "table_ok (demo_sync_node c)"
  by (simp add: table_ok_def)

definition demo_hdr :: SyncWireHdr where
  "demo_hdr = \<lparr> sw_shard_id = 0, sw_peer_session_id = ''B'', sw_seq_no = 1, sw_timestamp_ms = 5 \<rparr>"

text \<open>A peer that refuses a request that was never made.\<close>

definition demo_frame :: Frame where
  "demo_frame = \<lparr> fr_env = demo_sync, fr_node_id = ''B'', fr_full_v1 = True, fr_same_shard = True, fr_hdr_cap = 64, fr_blk_cap = 32,
     fr_can_cup = False, fr_msg = SyncNack demo_hdr ''stall'' 0 \<rparr>"

lemma demo_route: "\<exists>m. route_sync_stub demo_sync ''B'' True True 64 32 False (SyncNack demo_hdr ''stall'' 0) (demo_sync_node demo_chain) = Some (Continue, m) \<and>
    fmlookup (sy_peers m) ''B'' \<noteq> None"
  by (simp add: route_sync_stub_def Let_def demo_hdr_def demo_sync_def route_msg_def)
     (simp add: on_nack_def Let_def peer_sync_def demo_sync_node_def sy_score_def sy_add_def put_sync_def sync_default_def)


theorem peer_tables_bounded_witness:
  "\<exists>m st. route_sync_stub demo_sync ''B'' True True 64 32 False (SyncNack demo_hdr ''stall'' 0) (demo_sync_node demo_chain) = Some (Continue, m) \<and>
     fmlookup (sy_peers m) ''B'' = Some st \<and> length (sp_pend_blk st) \<le> 513"
  using demo_route peer_tables_bounded [OF demo_table_ok, of demo_sync "''B''" True True 64 32 False "SyncNack demo_hdr ''stall'' 0" demo_chain Continue]
  by (auto simp: SYNC_PEND_CAP_def)

end
