(* ===== verification/Pwm_Sync_Live.thy ===== *)
theory Pwm_Sync_Live
  imports Pwm_Sync_Props
begin

text \<open>
  Synchronisation makes progress, and when it does not: one exchange with an honest peer closes a short
  tail; an exchange that was cut off is never taken up again.
\<close>

section \<open>Headers and blocks of one chain\<close>

definition blk_row_of :: "SyncEnv \<Rightarrow> Block \<Rightarrow> blk_row" where
  "blk_row_of v b = (bh_height (hdr b), blk_hash_hex v b)"

lemma walk_followed:
  assumes "apply_blks (se_ext v) (se_enc v) bs k0 = Some (Inr (), k)" "unat (tip_h (sn_chain k0)) + length bs < 2 ^ 64"
  shows "walk_headers (sat_add (tip_h (sn_chain k0)) 1) (tip_hash_hex v (sn_chain k0)) (map (hdr_wire v) bs) =
      Inr (sat_add (tip_h (sn_chain k)) 1, map (blk_row_of v) bs) \<and>
    unat (tip_h (sn_chain k)) = unat (tip_h (sn_chain k0)) + length bs \<and>
    (bs \<noteq> [] \<longrightarrow> tip_hash_hex v (sn_chain k) = blk_hash_hex v (last bs) \<and> tip_h (sn_chain k) = bh_height (hdr (last bs)))"
  using assms
proof (induction bs arbitrary: k0)
  case (Cons b bs)
  from Cons.prems(1) obtain r k1 where k1: "apply_blk (se_ext v) (se_enc v) b k0 = Some (r, k1)"
    and rest: "r = Inr () \<and> apply_blks (se_ext v) (se_enc v) bs k1 = Some (Inr (), k)"
    by (auto split: option.splits sum.splits)
  then obtain st where st: "check_blk (se_ext v) (se_enc v) b (sn_chain k0) = Done st" "sn_chain k1 = append_blk b st (sn_chain k0)"
    using apply_blk_ok by (metis old.unit.exhaust)
  note ok = check_blk_seal(1,2) [OF st(1)]
  have tip: "tip_h (sn_chain k1) = bh_height (hdr b)" "tip_hash_hex v (sn_chain k1) = blk_hash_hex v b"
    using last_pop_tail [of "blocks (sn_chain k0) @ [b]"]
    by (simp_all add: st(2) tip_h_def tip_hash_hex_def tip_hash_def blk_hash_hex_def)
  have n: "unat (tip_h (sn_chain k1)) = Suc (unat (tip_h (sn_chain k0)))"
    using ok(1) Cons.prems(2) by (simp add: tip(1) unat_sat_add)
  from Cons.IH [of k1] rest n Cons.prems(2)
  have IH: "walk_headers (sat_add (tip_h (sn_chain k1)) 1) (tip_hash_hex v (sn_chain k1)) (map (hdr_wire v) bs) =
      Inr (sat_add (tip_h (sn_chain k)) 1, map (blk_row_of v) bs)"
    "unat (tip_h (sn_chain k)) = unat (tip_h (sn_chain k1)) + length bs"
    "bs \<noteq> [] \<Longrightarrow> tip_hash_hex v (sn_chain k) = blk_hash_hex v (last bs) \<and> tip_h (sn_chain k) = bh_height (hdr (last bs))" by simp_all
  have "sh_height (hdr_wire v b) = sat_add (tip_h (sn_chain k0)) 1" "sh_prev_hash (hdr_wire v b) = tip_hash_hex v (sn_chain k0)"
    "sh_hash (hdr_wire v b) = blk_hash_hex v b"
    using ok by (simp_all add: hdr_wire_def tip_hash_hex_def)
  moreover have "k = k1" if "bs = []" using rest that by simp
  ultimately show ?case using IH n ok(1) tip by (auto simp: blk_row_of_def)
qed simp

lemma run_headers_walk:
  assumes "walk_headers h p (map (hdr_wire v) bs) = Inr x" "length bs \<le> lim" "case prev of Some q \<Rightarrow> h = sat_add q 1 | None \<Rightarrow> True"
  shows "run_headers w lim prev bs = map (hdr_wire w) bs"
  using assms
proof (induction bs arbitrary: h p lim prev x)
  case (Cons b bs)
  from Cons.prems(1) have h: "bh_height (hdr b) = h" by (auto simp: hdr_wire_def split: if_splits)
  from Cons.prems(1) obtain y where y: "walk_headers (sat_add h 1) (sh_hash (hdr_wire v b)) (map (hdr_wire v) bs) = Inr y"
    by (auto split: if_splits sum.splits)
  from Cons.prems(2) obtain j where j: "lim = Suc j" "length bs \<le> j" by (cases lim) auto
  have "run_headers w j (Some (bh_height (hdr b))) bs = map (hdr_wire w) bs"
    using h by (intro Cons.IH [OF y j(2)]) simp
  with j(1) h Cons.prems(3) show ?case by (cases prev) simp_all
qed simp

lemma walk_ge:
  assumes "walk_headers h p hs = Inr x" "unat h + length hs < 2 ^ 64"
  shows "\<forall>y \<in> set hs. h \<le> sh_height y"
  using assms
proof (induction hs arbitrary: h p x)
  case (Cons a hs)
  from Cons.prems(1) have h: "sh_height a = h" by (auto split: if_splits)
  from Cons.prems(1) obtain y where y: "walk_headers (sat_add h 1) (sh_hash a) hs = Inr y" by (auto split: if_splits sum.splits)
  have n: "unat (sat_add h 1) = Suc (unat h)" using Cons.prems(2) by (simp add: unat_sat_add)
  then have "\<forall>y \<in> set hs. sat_add h 1 \<le> sh_height y" using Cons.prems(2) by (intro Cons.IH [OF y]) simp
  moreover have "h \<le> sat_add h 1" using n by (simp add: word_le_nat_alt)
  ultimately show ?case using h order_trans by auto
qed simp

lemma push_pend_all:
  assumes "distinct (map snd (pend @ rows))" "snd ` set rows \<inter> snd ` set wait = {}" "length pend + length rows \<le> SYNC_PEND_CAP"
  shows "push_pend wait rows pend = pend @ rows"
  using assms
proof (induction wait rows pend rule: push_pend.induct)
  case (2 wait r rows pend)
  have new: "\<not> (has_hash pend (snd r) \<or> has_hash wait (snd r))" using 2(3,4) by (auto simp: has_hash_iff)
  have small: "drop (length (pend @ [r]) - SYNC_PEND_CAP) (pend @ [r]) = pend @ [r]" using 2(5) by simp
  have "push_pend wait rows (pend @ [r]) = (pend @ [r]) @ rows"
    using 2(2) [OF new refl] 2(3-5) unfolding small by simp
  with new small show ?case by (simp add: Let_def del: drop_append)
qed simp

lemma find_own: "distinct (map f xs) \<Longrightarrow> b \<in> set xs \<Longrightarrow> List.find (\<lambda>c. f c = f b) xs = Some b"
proof (induction xs)
  case (Cons a xs)
  then show ?case by (cases "a = b") (auto simp: image_iff)
qed simp

lemma fill_found: "fill_by_scan v [] (map (\<lambda>b. (f b, Some b)) bs) = Inr (map (\<lambda>b. blk_wire (f b) b) bs)"
  by (induction bs) auto

lemma match_own: "match_rows v (map (blk_row_of v) bs) (map (\<lambda>b. blk_wire (blk_hash_hex v b) b) bs) = Inr (bs, [])"
  by (induction bs) (auto simp: blk_row_of_def blk_wire_def)

section \<open>Requests that go out\<close>

lemma write_ok:
  assumes "sy_write_fails n = []"
  obtains h n' where "write_wire v mk n = (Inr (), n')" "sy_out n' = sy_out n @ [mk h]" "sy_peers n' = sy_peers n"
    "sy_write_fails n' = []" "sy_api n' = sy_api n" "sy_last_snap n' = sy_last_snap n"
  by (rule that [of "snd (write_wire v mk n)" "sync_hdr v (n\<lparr>sy_seq_no := sat_add (sy_seq_no n) 1, sy_write_fails := []\<rparr>)"])
     (use assms in \<open>simp_all add: write_wire_def Let_def\<close>)

lemma ask_hdr_sends:
  assumes "sy_write_fails n = []" "sp_in_hdr (peer_st p n) < SYNC_INF_CAP" "sp_wait_hdr_from (peer_st p n) = None"
  obtains n' h where "ask_hdr v p from_h lim n = (Inr (), n')" "sy_out n' = sy_out n @ [SyncHeadersReq h from_h (max (min lim SYNC_HDR_REQ_CAP) 1)]"
    "fmlookup (sy_peers n') p = Some ((peer_st p n)\<lparr>sp_wait_hdr_from := Some from_h, sp_wait_hdr_lim := max (min lim SYNC_HDR_REQ_CAP) 1,
      sp_in_hdr := sat_add (sp_in_hdr (peer_st p n)) 1\<rparr>)"
    "sy_write_fails n' = []" "sy_api n' = sy_api n" "sy_last_snap n' = sy_last_snap n"
proof -
  let ?st = "(peer_st p n)\<lparr>sp_wait_hdr_from := Some from_h, sp_wait_hdr_lim := max (min lim SYNC_HDR_REQ_CAP) 1,
      sp_in_hdr := sat_add (sp_in_hdr (peer_st p n)) 1\<rparr>"
  obtain n1 where n1: "peer_sync v p n = (peer_st p n, n1)" using peer_sync_fields(1) [of v p n] by (metis prod.collapse)
  let ?n = "sy_add Sync_hdr_req_total 1 (put_sync p ?st n1)"
  have f: "sy_write_fails ?n = []" using peer_sync_E(5) [OF n1] assms(1) by simp
  obtain h n' where w: "write_wire v (\<lambda>h. SyncHeadersReq h from_h (max (min lim SYNC_HDR_REQ_CAP) 1)) ?n = (Inr (), n')" "sy_out n' = sy_out ?n @ [SyncHeadersReq h from_h (max (min lim SYNC_HDR_REQ_CAP) 1)]"
    "sy_peers n' = sy_peers ?n" "sy_write_fails n' = []" "sy_api n' = sy_api ?n" "sy_last_snap n' = sy_last_snap ?n"
    by (rule write_ok [OF f])
  have "ask_hdr v p from_h lim n = (Inr (), n')" using assms(2,3) w(1) by (simp add: ask_hdr_def n1 Let_def not_le)
  then show ?thesis by (rule that [where h = h]) (use peer_sync_E [OF n1] w in simp_all)
qed

lemma ask_blk_sends:
  assumes "sy_write_fails n = []" "sp_in_blk (peer_st p n) < SYNC_INF_CAP" "sp_wait_blk (peer_st p n) = []" "sp_pend_blk (peer_st p n) = rows"
    "rows \<noteq> []" "length rows \<le> unat (max (min cap SYNC_BLK_REQ_CAP) 1)"
  obtains n' h where "ask_blk v p cap n = (Inr (), n')" "sy_out n' = sy_out n @ [SyncBlocksReq h (map snd rows) (Some (map fst rows))]"
    "fmlookup (sy_peers n') p = Some ((peer_st p n)\<lparr>sp_pend_blk := [], sp_wait_blk := rows, sp_in_blk := sat_add (sp_in_blk (peer_st p n)) 1\<rparr>)"
    "sy_write_fails n' = []" "sy_api n' = sy_api n" "sy_last_snap n' = sy_last_snap n"
proof -
  let ?st = "(peer_st p n)\<lparr>sp_pend_blk := [], sp_wait_blk := rows, sp_in_blk := sat_add (sp_in_blk (peer_st p n)) 1\<rparr>"
  obtain n1 where n1: "peer_sync v p n = (peer_st p n, n1)" using peer_sync_fields(1) [of v p n] by (metis prod.collapse)
  let ?n = "sy_add Sync_blk_req_total 1 (put_sync p ?st n1)"
  have f: "sy_write_fails ?n = []" using peer_sync_E(5) [OF n1] assms(1) by simp
  obtain h n' where w: "write_wire v (\<lambda>h. SyncBlocksReq h (map snd rows) (Some (map fst rows))) ?n = (Inr (), n')" "sy_out n' = sy_out ?n @ [SyncBlocksReq h (map snd rows) (Some (map fst rows))]"
    "sy_peers n' = sy_peers ?n" "sy_write_fails n' = []" "sy_api n' = sy_api ?n" "sy_last_snap n' = sy_last_snap ?n"
    by (rule write_ok [OF f])
  have "ask_blk v p cap n = (Inr (), n')" using assms(2-6) w(1) by (simp add: ask_blk_def n1 Let_def not_le)
  then show ?thesis by (rule that [where h = h]) (use peer_sync_E [OF n1] w in simp_all)
qed

lemma ask_blk_idle: "sp_pend_blk (peer_st p n) = [] \<Longrightarrow> \<exists>n'. ask_blk v p cap n = (Inr (), n') \<and> sy_api n' = sy_api n"
  by (simp add: ask_blk_def Let_def case_prod_unfold)

section \<open>The handlers of a quiet session\<close>

text \<open>Reports of progress leave what is asked for alone.\<close>

lemma prog_tick_keeps [simp]:
  "sp_wait_hdr_from (snd (sync_prog_tick a b c d st)) = sp_wait_hdr_from st" "sp_in_hdr (snd (sync_prog_tick a b c d st)) = sp_in_hdr st"
  "sp_in_blk (snd (sync_prog_tick a b c d st)) = sp_in_blk st" "sp_wait_blk (snd (sync_prog_tick a b c d st)) = sp_wait_blk st"
  "sp_pend_blk (snd (sync_prog_tick a b c d st)) = sp_pend_blk st" "sp_cup_active (snd (sync_prog_tick a b c d st)) = sp_cup_active st"
  "sp_tip_h (snd (sync_prog_tick a b c d st)) = sp_tip_h st" "sp_cup_next_ms (snd (sync_prog_tick a b c d st)) = sp_cup_next_ms st"
  by (simp_all add: sync_prog_tick_def Let_def split: option.split)

lemma stall_tick_keeps [simp]:
  "sp_wait_hdr_from (snd (sync_stall_tick a b st)) = sp_wait_hdr_from st" "sp_in_hdr (snd (sync_stall_tick a b st)) = sp_in_hdr st"
  "sp_in_blk (snd (sync_stall_tick a b st)) = sp_in_blk st" "sp_wait_blk (snd (sync_stall_tick a b st)) = sp_wait_blk st"
  "sp_pend_blk (snd (sync_stall_tick a b st)) = sp_pend_blk st" "sp_cup_active (snd (sync_stall_tick a b st)) = sp_cup_active st"
  "sp_tip_h (snd (sync_stall_tick a b st)) = sp_tip_h st" "sp_cup_next_ms (snd (sync_stall_tick a b st)) = sp_cup_next_ms st"
  by (simp_all add: sync_stall_tick_def)

lemma demote_st:
  assumes "fmlookup (sy_peers n) p = Some st"
  shows "peer_st p (snd (try_demote_cup_tail p lag n)) =
    (if lag < SYNC_CUP_TAIL_MAX \<and> sp_cup_active st then (cup_clear st)\<lparr>sp_cup_try := 0, sp_cup_next_ms := 0\<rparr> else st)"
  using assms by (auto simp: try_demote_cup_tail_def peer_st_def dest: leD)

text \<open>A tip ahead of the node, as far as the request: the node that asks, with the state of the peer noted.\<close>

lemma on_tip_ahead:
  assumes "tip_h (sync_chain n) < hh"
  obtains k where "sy_api k = sy_api n" "sy_out k = sy_out n" "sy_write_fails k = sy_write_fails n" "sy_last_snap k = sy_last_snap n"
    "sp_tip_h (peer_st p k) = max (sp_tip_h (peer_st p n)) hh" "sp_wait_hdr_from (peer_st p k) = sp_wait_hdr_from (peer_st p n)"
    "sp_in_hdr (peer_st p k) = sp_in_hdr (peer_st p n)" "sp_in_blk (peer_st p k) = sp_in_blk (peer_st p n)"
    "sp_wait_blk (peer_st p k) = sp_wait_blk (peer_st p n)" "sp_pend_blk (peer_st p k) = sp_pend_blk (peer_st p n)"
    "sp_cup_active (peer_st p k) = (sp_cup_active (peer_st p n) \<and> SYNC_CUP_TAIL_MAX \<le> hh - tip_h (sync_chain n))"
    "fmlookup (sy_peers k) p = Some (peer_st p k)"
    "sp_cup_active (peer_st p k) \<Longrightarrow> sp_cup_next_ms (peer_st p k) = sp_cup_next_ms (peer_st p n)"
    "on_tip v p hh hs fh fs cap can n =
       (case (if (sp_cup_active (peer_st p n) \<and> sp_cup_next_ms (peer_st p n) \<le> se_now v) \<or> SYNC_CUP_LAG_MIN \<le> hh - tip_h (sync_chain n)
              then maybe_start_cup v p hh can k else (Inr False, k)) of
          (Inl e, m) \<Rightarrow> (Inl e, m)
        | (Inr cup_started, m) \<Rightarrow>
            if cup_started then (Inr None, m)
            else case ask_hdr v p (sat_add (tip_h (sync_chain n)) 1) (max (min cap SYNC_HDR_REQ_CAP) 1) m of
              (Inl e, m) \<Rightarrow> (Inl e, m)
            | (Inr _, m) \<Rightarrow> (Inr None, m))"
proof -
  let ?st = "peer_st p n" and ?l = "tip_h (sync_chain n)"
  let ?lag = "hh - ?l"
  obtain a where a: "peer_sync v p (sy_add Sync_tip_seen_total 1 n) = (?st, a)"
    using peer_sync_fields(1) [of v p "sy_add Sync_tip_seen_total 1 n"] by (metis peer_st_other(1) prod.collapse)
  let ?s1 = "?st\<lparr>sp_tip_h := max (sp_tip_h ?st) hh, sp_tip_hash := Some hs\<rparr>"
  let ?n2 = "maybe_log_sync_prog v p ?l hh (put_sync p ?s1 a)"
  let ?k = "upd_sync v p (\<lambda>st. snd (sync_stall_tick (se_now v) ?lag st)) (snd (try_demote_cup_tail p ?lag ?n2))"
  note a' = peer_sync_E [OF a]
  obtain x y z where n2: "fmlookup (sy_peers ?n2) p = Some (snd (sync_prog_tick x y z (sy_last_snap a) ?s1))"
    by (simp add: maybe_log_sync_prog_def)
  let ?s2 = "snd (sync_prog_tick x y z (sy_last_snap a) ?s1)"
  have s3: "peer_st p (snd (try_demote_cup_tail p ?lag ?n2)) =
      (if ?lag < SYNC_CUP_TAIL_MAX \<and> sp_cup_active ?st then (cup_clear ?s2)\<lparr>sp_cup_try := 0, sp_cup_next_ms := 0\<rparr> else ?s2)"
    using demote_st [OF n2, of ?lag] by simp
  define k where "k = ?k"
  have sk: "peer_st p k = snd (sync_stall_tick (se_now v) ?lag (if ?lag < SYNC_CUP_TAIL_MAX \<and> sp_cup_active ?st
      then (cup_clear ?s2)\<lparr>sp_cup_try := 0, sp_cup_next_ms := 0\<rparr> else ?s2))"
    by (simp add: k_def s3)
  have ne: "hh \<noteq> ?l" "\<not> hh < ?l" using assms by auto
  have api: "sy_api k = sy_api n" "sy_out k = sy_out n" "sy_write_fails k = sy_write_fails n" "sy_last_snap k = sy_last_snap n"
    using a' by (simp_all add: k_def try_demote_cup_tail_def maybe_log_sync_prog_def split: option.split)
  show thesis
  proof (rule that)
    show "on_tip v p hh hs fh fs cap can n =
       (case (if (sp_cup_active ?st \<and> sp_cup_next_ms ?st \<le> se_now v) \<or> SYNC_CUP_LAG_MIN \<le> ?lag then maybe_start_cup v p hh can k else (Inr False, k)) of
          (Inl e, n) \<Rightarrow> (Inl e, n)
        | (Inr cup_started, n) \<Rightarrow>
            if cup_started then (Inr None, n)
            else case ask_hdr v p (sat_add ?l 1) (max (min cap SYNC_HDR_REQ_CAP) 1) n of
              (Inl e, n) \<Rightarrow> (Inl e, n)
            | (Inr _, n) \<Rightarrow> (Inr None, n))"
      using ne by (simp add: on_tip_def a Let_def k_def)
    show "fmlookup (sy_peers k) p = Some (peer_st p k)" by (simp add: k_def)
  qed (auto simp: api sk cup_clear_def fork_clear_def dest: leD split: if_splits)
qed

section \<open>A short tail\<close>

text \<open>Nothing is open with the peer.\<close>

definition peer_quiet :: "SyncPeerState \<Rightarrow> bool" where
  "peer_quiet st \<longleftrightarrow> sp_wait_hdr_from st = None \<and> sp_in_hdr st < SYNC_INF_CAP \<and> sp_in_blk st < SYNC_INF_CAP \<and>
     sp_wait_blk st = [] \<and> sp_pend_blk st = [] \<and> \<not> sp_cup_active st"

text \<open>The peer has the blocks \<open>bs\<close> after the tip of the node, and they apply.\<close>

definition tail_of :: "SyncEnv \<Rightarrow> Chain \<Rightarrow> SealNode \<Rightarrow> SealNode \<Rightarrow> Block list \<Rightarrow> bool" where
  "tail_of v c n k bs \<longleftrightarrow> (\<exists>old. blocks c = old @ bs \<and> (\<forall>b \<in> set old. bh_height (hdr b) \<le> tip_h (sn_chain n))) \<and>
     distinct (map (blk_hash_hex v) (blocks c)) \<and> bs \<noteq> [] \<and> tip_h c = bh_height (hdr (last bs)) \<and>
     unat (tip_h (sn_chain n)) + length bs + 1 < 2 ^ 64 \<and> apply_blks (se_ext v) (se_enc v) bs n = Some (Inr (), k)"

lemma tail_walk:
  assumes "tail_of v c n k bs"
  shows "walk_headers (sat_add (tip_h (sn_chain n)) 1) (tip_hash_hex v (sn_chain n)) (map (hdr_wire v) bs) =
      Inr (sat_add (tip_h c) 1, map (blk_row_of v) bs)"
    "tip_h (sn_chain k) = tip_h c" "tip_hash_hex v (sn_chain k) = tip_hash_hex v c"
    "unat (tip_h c) = unat (tip_h (sn_chain n)) + length bs"
proof -
  have run: "apply_blks (se_ext v) (se_enc v) bs n = Some (Inr (), k)" "unat (tip_h (sn_chain n)) + length bs < 2 ^ 64" "bs \<noteq> []"
    using assms by (simp_all add: tail_of_def)
  obtain old where old: "blocks c = old @ bs" using assms by (auto simp: tail_of_def)
  note w = walk_followed [OF run(1,2)]
  show k: "tip_h (sn_chain k) = tip_h c" using w run(3) assms by (simp add: tail_of_def)
  show "walk_headers (sat_add (tip_h (sn_chain n)) 1) (tip_hash_hex v (sn_chain n)) (map (hdr_wire v) bs) =
      Inr (sat_add (tip_h c) 1, map (blk_row_of v) bs)" using w by (simp add: k)
  show "unat (tip_h c) = unat (tip_h (sn_chain n)) + length bs" using w by (simp add: k [symmetric])
  show "tip_hash_hex v (sn_chain k) = tip_hash_hex v c"
    using w run(3) by (simp add: tip_hash_hex_def tip_hash_def blk_hash_hex_def old)
qed

lemma tail_filter:
  assumes "tail_of v c n k bs"
  shows "filter (\<lambda>b. sat_add (tip_h (sn_chain n)) 1 \<le> bh_height (hdr b)) (blocks c) = bs"
proof -
  let ?l = "tip_h (sn_chain n)"
  obtain old where old: "blocks c = old @ bs" "\<forall>b \<in> set old. bh_height (hdr b) \<le> ?l" using assms by (auto simp: tail_of_def)
  have n: "unat (sat_add ?l 1) = Suc (unat ?l)" using assms by (simp add: tail_of_def unat_sat_add)
  have "unat (sat_add ?l 1) + length (map (hdr_wire v) bs) < 2 ^ 64" using assms n by (simp add: tail_of_def)
  from walk_ge [OF tail_walk(1) [OF assms] this] have "\<forall>b \<in> set bs. sat_add ?l 1 \<le> bh_height (hdr b)" by (simp add: hdr_wire_def)
  moreover have "\<forall>b \<in> set old. \<not> sat_add ?l 1 \<le> bh_height (hdr b)"
    using old(2) n by (auto simp: word_le_nat_alt)
  ultimately show ?thesis by (simp add: old(1))
qed

lemma tail_headers:
  assumes "tail_of v c (ap_node a) k bs" "sync_chain m = c" "se_ext w = se_ext v" "se_enc w = se_enc v" "se_lib w = se_lib v"
    and "length bs \<le> unat (max (min cap SYNC_HDR_REQ_CAP) 1)" "sy_write_fails m = []"
  obtains m' h where "on_hdr_req w (sat_add (tip_h (api_chain a)) 1) (max (min cap SYNC_HDR_REQ_CAP) 1) cap m = (Inr (), m')"
    "sy_out m' = sy_out m @ [SyncHeadersBatch h (map (hdr_wire v) bs)]" "sy_api m' = sy_api m" "sy_write_fails m' = []"
proof -
  let ?lim = "max (min cap SYNC_HDR_REQ_CAP) 1" and ?from = "sat_add (tip_h (api_chain a)) 1"
  have same: "hdr_wire w = hdr_wire v" using assms(3-5) by (auto simp: hdr_wire_def blk_hash_hex_def hash_hex_def)
  have "unat ?from = Suc (unat (tip_h (api_chain a)))" using assms(1) by (simp add: tail_of_def unat_sat_add)
  then have pos: "?from \<noteq> 0" by (metis nat.distinct(1) unsigned_0)
  have one: "?lim \<noteq> 0" "max (min ?lim ?lim) 1 = ?lim" by (auto simp: max_def)
  have hs: "run_headers w (unat ?lim) None (filter (\<lambda>b. ?from \<le> bh_height (hdr b)) (blocks (sync_chain m))) = map (hdr_wire v) bs"
    using run_headers_walk [OF tail_walk(1) [OF assms(1)] assms(6), of None w] tail_filter [OF assms(1)] by (simp add: assms(2) same)
  have first: "bs \<noteq> []" "sh_height (hd (map (hdr_wire v) bs)) = ?from"
    using assms(1) tail_walk(1) [OF assms(1)] by (cases bs; auto simp: tail_of_def split: if_splits)+
  obtain h n' where w: "write_wire w (\<lambda>h. SyncHeadersBatch h (map (hdr_wire v) bs)) m = (Inr (), n')"
    "sy_out n' = sy_out m @ [SyncHeadersBatch h (map (hdr_wire v) bs)]" "sy_api n' = sy_api m" "sy_write_fails n' = []"
    by (rule write_ok [OF assms(7), of w "\<lambda>h. SyncHeadersBatch h (map (hdr_wire v) bs)"])
  have "on_hdr_req w ?from ?lim cap m = (Inr (), sy_add Sync_hdr_resp_total 1 n')"
    using pos one hs first w(1) by (simp add: on_hdr_req_def Let_def)
  then show thesis by (rule that) (simp_all add: w)
qed

lemma tail_blocks:
  assumes "tail_of v c (ap_node a) k bs" "sync_chain m = c" "se_ext w = se_ext v" "se_enc w = se_enc v" "se_lib w = se_lib v"
    and "length bs \<le> unat (max (min cap SYNC_BLK_REQ_CAP) 1)" "sy_write_fails m = []"
  obtains m' h where "on_blk_req w (map snd (map (blk_row_of v) bs)) (Some (map fst (map (blk_row_of v) bs))) cap m = (Inr (), m')"
    "sy_out m' = sy_out m @ [SyncBlocksBatch h (map (\<lambda>b. blk_wire (blk_hash_hex v b) b) bs)]" "sy_api m' = sy_api m"
proof -
  have same: "blk_hash_hex w = blk_hash_hex v" using assms(3-5) by (auto simp: blk_hash_hex_def hash_hex_def)
  have bs: "bs \<noteq> []" "set bs \<subseteq> set (blocks c)" "distinct (map (blk_hash_hex v) (blocks c))" using assms(1) by (auto simp: tail_of_def)
  have rows: "map (\<lambda>want. (want, List.find (\<lambda>b. blk_hash_hex w b = want) (blocks c))) (map snd (map (blk_row_of v) bs)) =
      map (\<lambda>b. (blk_hash_hex v b, Some b)) bs"
    using bs(2) find_own [OF bs(3)] by (auto simp: blk_row_of_def same)
  have none: "filter (\<lambda>r. snd r = None) (map (\<lambda>b. (blk_hash_hex v b, Some b)) bs) = []" by (simp add: filter_empty_conv)
  obtain h n' where w: "write_wire w (\<lambda>h. SyncBlocksBatch h (map (\<lambda>b. blk_wire (blk_hash_hex v b) b) bs)) m = (Inr (), n')"
    "sy_out n' = sy_out m @ [SyncBlocksBatch h (map (\<lambda>b. blk_wire (blk_hash_hex v b) b) bs)]" "sy_api n' = sy_api m"
    by (rule write_ok [OF assms(7), of w "\<lambda>h. SyncBlocksBatch h (map (\<lambda>b. blk_wire (blk_hash_hex v b) b) bs)"])
  have "on_blk_req w (map snd (map (blk_row_of v) bs)) (Some (map fst (map (blk_row_of v) bs))) cap m = (Inr (), sy_add Sync_blk_resp_total 1 n')"
    using assms(6) bs(1) w(1) unfolding on_blk_req_def assms(2) rows Let_def by (simp add: none fill_found)
  then show thesis by (rule that) (simp_all add: w)
qed

text \<open>The steps of the node that follows.\<close>

lemma peer_st_lookup: "fmlookup (sy_peers n) p = Some st \<Longrightarrow> peer_st p n = st"
  by (simp add: peer_st_def)

lemma tail_tip:
  assumes "peer_quiet (peer_st p n)" "sp_tip_h (peer_st p n) \<le> hh" "tip_h (sync_chain n) < hh" "hh - tip_h (sync_chain n) < SYNC_CUP_TAIL_MAX"
    and "sy_write_fails n = []"
  obtains n1 h where "on_tip v p hh hs fh fs cap can n = (Inr None, n1)"
    "sy_out n1 = sy_out n @ [SyncHeadersReq h (sat_add (tip_h (sync_chain n)) 1) (max (min cap SYNC_HDR_REQ_CAP) 1)]"
    "sy_api n1 = sy_api n" "sy_write_fails n1 = []" "sy_last_snap n1 = sy_last_snap n" "fmlookup (sy_peers n1) p = Some (peer_st p n1)"
    "sp_wait_hdr_from (peer_st p n1) = Some (sat_add (tip_h (sync_chain n)) 1)" "sp_wait_hdr_lim (peer_st p n1) = max (min cap SYNC_HDR_REQ_CAP) 1"
    "sp_tip_h (peer_st p n1) = hh" "sp_in_blk (peer_st p n1) < SYNC_INF_CAP" "sp_wait_blk (peer_st p n1) = []" "sp_pend_blk (peer_st p n1) = []"
    "\<not> sp_cup_active (peer_st p n1)"
proof -
  have deep: "\<not> SYNC_CUP_LAG_MIN \<le> hh - tip_h (sync_chain n)"
    using assms(4) by (auto simp: SYNC_CUP_LAG_MIN_def SYNC_CUP_TAIL_MAX_def word_le_nat_alt word_less_nat_alt)
  obtain k where k: "sy_api k = sy_api n" "sy_out k = sy_out n" "sy_write_fails k = []" "sy_last_snap k = sy_last_snap n"
    "sp_tip_h (peer_st p k) = hh" "sp_wait_hdr_from (peer_st p k) = None" "sp_in_hdr (peer_st p k) < SYNC_INF_CAP"
    "sp_in_blk (peer_st p k) < SYNC_INF_CAP" "sp_wait_blk (peer_st p k) = []" "sp_pend_blk (peer_st p k) = []" "\<not> sp_cup_active (peer_st p k)"
    and on: "on_tip v p hh hs fh fs cap can n = (case ask_hdr v p (sat_add (tip_h (sync_chain n)) 1) (max (min cap SYNC_HDR_REQ_CAP) 1) k of
      (Inl e, m) \<Rightarrow> (Inl e, m) | (Inr _, m) \<Rightarrow> (Inr None, m))"
    by (rule on_tip_ahead [OF assms(3), of p v hs fh fs cap can]) (use assms deep in \<open>auto simp: peer_quiet_def max_def\<close>)
  have one: "max (min (max (min cap SYNC_HDR_REQ_CAP) 1) SYNC_HDR_REQ_CAP) 1 = max (min cap SYNC_HDR_REQ_CAP) 1"
    by (auto simp: max_def min_def SYNC_HDR_REQ_CAP_def word_le_nat_alt)
  obtain n' h where n': "ask_hdr v p (sat_add (tip_h (sync_chain n)) 1) (max (min cap SYNC_HDR_REQ_CAP) 1) k = (Inr (), n')"
    "sy_out n' = sy_out k @ [SyncHeadersReq h (sat_add (tip_h (sync_chain n)) 1) (max (min cap SYNC_HDR_REQ_CAP) 1)]"
    "sy_write_fails n' = []" "sy_api n' = sy_api k" "sy_last_snap n' = sy_last_snap k"
    and look: "fmlookup (sy_peers n') p = Some ((peer_st p k)\<lparr>sp_wait_hdr_from := Some (sat_add (tip_h (sync_chain n)) 1),
      sp_wait_hdr_lim := max (min cap SYNC_HDR_REQ_CAP) 1, sp_in_hdr := sat_add (sp_in_hdr (peer_st p k)) 1\<rparr>)"
    by (rule ask_hdr_sends [OF k(3,7,6), of v "sat_add (tip_h (sync_chain n)) 1" "max (min cap SYNC_HDR_REQ_CAP) 1"]) (simp only: one)
  note st = peer_st_lookup [OF look]
  show thesis
    by (rule that [of n' h]) (simp_all add: n' on k st look)
qed

lemma tail_hdr_batch:
  assumes "tail_of v c (ap_node (sy_api n)) k bs" "length bs \<le> unat (max (min hc SYNC_HDR_REQ_CAP) 1)" "length bs \<le> unat (max (min bc SYNC_BLK_REQ_CAP) 1)"
    and "sp_wait_hdr_from (peer_st p n) = Some (sat_add (tip_h (sync_chain n)) 1)" "sp_wait_hdr_lim (peer_st p n) = max (min hc SYNC_HDR_REQ_CAP) 1"
    and "sp_tip_h (peer_st p n) = tip_h c" "sp_in_blk (peer_st p n) < SYNC_INF_CAP" "sp_wait_blk (peer_st p n) = []" "sp_pend_blk (peer_st p n) = []"
    and "\<not> sp_cup_active (peer_st p n)" "fmlookup (sy_peers n) p = Some (peer_st p n)" "sy_write_fails n = []"
  obtains n2 h where "on_hdr_batch v p (map (hdr_wire v) bs) hc bc n = (Inr None, n2)"
    "sy_out n2 = sy_out n @ [SyncBlocksReq h (map snd (map (blk_row_of v) bs)) (Some (map fst (map (blk_row_of v) bs)))]"
    "sy_api n2 = sy_api n" "sy_last_snap n2 = sy_last_snap n" "fmlookup (sy_peers n2) p = Some (peer_st p n2)"
    "sp_wait_blk (peer_st p n2) = map (blk_row_of v) bs" "sp_pend_blk (peer_st p n2) = []" "\<not> sp_cup_active (peer_st p n2)"
    "sp_tip_h (peer_st p n2) = tip_h c"
proof -
  let ?st = "peer_st p n" and ?rows = "map (blk_row_of v) bs"
  obtain a where a: "peer_sync v p (sy_add Sync_hdr_resp_total 1 n) = (?st, a)"
    using peer_sync_fields(1) [of v p "sy_add Sync_hdr_resp_total 1 n"] by (metis peer_st_other(1) prod.collapse)
  note a' = peer_sync_E [OF a]
  let ?n = "put_sync p (?st\<lparr>sp_in_hdr := sat_sub (sp_in_hdr ?st) 1, sp_wait_hdr_from := None\<rparr>) a"
  let ?f = "\<lambda>st. (let st = fork_clear st in st\<lparr>sp_pend_blk := push_pend (sp_wait_blk st) ?rows (sp_pend_blk st)\<rparr>)"
  define m where "m = upd_sync v p ?f ?n"
  have bs: "bs \<noteq> []" "set bs \<subseteq> set (blocks c)" "distinct (map (blk_hash_hex v) (blocks c))" using assms(1) by (auto simp: tail_of_def)
  have "distinct (map (blk_hash_hex v) bs)" using assms(1) by (auto simp: tail_of_def)
  then have dist: "distinct (map snd ?rows)" by (simp add: blk_row_of_def comp_def)
  have cap: "length bs \<le> SYNC_PEND_CAP" using assms(3) take_cap(1) [of bc] by (simp add: SYNC_PEND_CAP_def)
  have push: "push_pend [] ?rows [] = ?rows" using push_pend_all [of "[]" ?rows "[]"] dist cap by simp
  have st: "peer_st p m = (fork_clear (?st\<lparr>sp_in_hdr := sat_sub (sp_in_hdr ?st) 1, sp_wait_hdr_from := None\<rparr>))\<lparr>sp_pend_blk := ?rows\<rparr>"
    using assms(8,9) by (simp add: m_def fork_clear_def push)
  have m: "sy_api m = sy_api n" "sy_out m = sy_out n" "sy_write_fails m = []" "sy_last_snap m = sy_last_snap n"
    using a' assms(12) by (simp_all add: m_def)
  have chain: "sy_api a = sy_api n" using a'(2) by simp
  have first: "sh_height (hd (map (hdr_wire v) bs)) = sat_add (tip_h (sync_chain n)) 1"
    using bs(1) tail_walk(1) [OF assms(1)] by (cases bs; auto split: if_splits)
  have over: "\<not> sat_add (tip_h c) 1 \<le> tip_h c"
    using tail_walk(4) [OF assms(1)] assms(1) by (simp add: tail_of_def word_le_nat_alt unat_sat_add)
  have one: "max (max (min hc SYNC_HDR_REQ_CAP) 1) 1 = max (min hc SYNC_HDR_REQ_CAP) 1" by simp
  have "on_hdr_batch v p (map (hdr_wire v) bs) hc bc n = (case ask_blk v p bc m of (Inl e, n) \<Rightarrow> (Inl e, n) | (Inr _, n) \<Rightarrow> (Inr None, n))"
    using bs(1) assms(2,4-6,10,11) first over tail_walk(1) [OF assms(1)]
    by (simp add: on_hdr_batch_def a Let_def chain one m_def)
  moreover obtain n' h where "ask_blk v p bc m = (Inr (), n')" "sy_out n' = sy_out m @ [SyncBlocksReq h (map snd ?rows) (Some (map fst ?rows))]"
    "fmlookup (sy_peers n') p = Some ((peer_st p m)\<lparr>sp_pend_blk := [], sp_wait_blk := ?rows, sp_in_blk := sat_add (sp_in_blk (peer_st p m)) 1\<rparr>)"
    "sy_write_fails n' = []" "sy_api n' = sy_api m" "sy_last_snap n' = sy_last_snap m"
    by (rule ask_blk_sends [OF m(3), of p ?rows bc v]) (use assms(3,7,8) bs(1) in \<open>simp_all add: st fork_clear_def\<close>)
  ultimately show thesis using assms(6,10) by (intro that [of n' h]) (simp_all add: m peer_st_def [of p n'], simp_all add: st fork_clear_def)
qed

lemma sync_apply_all:
  assumes "apply_blks (se_ext v) (se_enc v) bs (ap_node (sy_api n)) = Some (Inr (), k)" "se_save v = None"
  obtains n' where "sync_apply v bs n = Some (Inr (), n')" "sync_chain n' = sn_chain k" "sy_peers n' = sy_peers n"
  by (rule that [of "n\<lparr>sy_last_snap := sy_last_snap n, sy_api := (sy_api n)\<lparr>ap_node := k\<rparr>\<rparr>"])
     (use assms in \<open>simp_all add: sync_apply_def apply_blk_batch_def Let_def periodic_snap_finish_def\<close>)

lemma tail_blk_batch:
  assumes "tail_of v c (ap_node (sy_api n)) k bs" "length bs \<le> unat (max (min bc SYNC_BLK_REQ_CAP) 1)" "se_save v = None"
    and "sp_wait_blk (peer_st p n) = map (blk_row_of v) bs" "sp_pend_blk (peer_st p n) = []" "\<not> sp_cup_active (peer_st p n)"
    and "sp_tip_h (peer_st p n) = tip_h c" "fmlookup (sy_peers n) p = Some (peer_st p n)"
  obtains n3 where "on_blk_batch v p (map (\<lambda>b. blk_wire (blk_hash_hex v b) b) bs) hc bc n = Some (Inr (), n3)" "sync_chain n3 = sn_chain k"
proof -
  let ?st = "peer_st p n" and ?rows = "map (\<lambda>b. blk_wire (blk_hash_hex v b) b) bs"
  obtain a where a: "peer_sync v p (sy_add Sync_blk_resp_total 1 n) = (?st, a)"
    using peer_sync_fields(1) [of v p "sy_add Sync_blk_resp_total 1 n"] by (metis peer_st_other(1) prod.collapse)
  note a' = peer_sync_E [OF a]
  let ?n = "put_sync p (?st\<lparr>sp_in_blk := sat_sub (sp_in_blk ?st) 1, sp_wait_blk := []\<rparr>) a"
  have bs: "bs \<noteq> []" and run: "apply_blks (se_ext v) (se_enc v) bs (ap_node (sy_api ?n)) = Some (Inr (), k)"
    using assms(1) a'(2) by (simp_all add: tail_of_def)
  obtain n' where n': "sync_apply v bs ?n = Some (Inr (), n')" "sync_chain n' = sn_chain k" "sy_peers n' = sy_peers ?n"
    by (rule sync_apply_all [OF run assms(3)])
  have st: "peer_st p n' = ?st\<lparr>sp_in_blk := sat_sub (sp_in_blk ?st) 1, sp_wait_blk := []\<rparr>" by (simp add: peer_st_def n'(3))
  have body: "on_blk_batch v p ?rows hc bc n = Some (blk_applied v p hc bc (length bs) [] n')"
    using bs assms(2,4,6,8) n'(1) by (simp add: on_blk_batch_def a Let_def match_own)
  obtain d where d: "peer_sync v p (sy_add Sync_apply_ok_total (of_nat (length bs)) n') = (peer_st p n', d)"
    using peer_sync_fields(1) [of v p "sy_add Sync_apply_ok_total (of_nat (length bs)) n'"] by (metis peer_st_other(1) prod.collapse)
  define e where "e = maybe_log_sync_prog v p (tip_h (sn_chain k)) (tip_h c) (put_sync p (reinqueue [] ((peer_st p n')\<lparr>sp_live_stall := 0\<rparr>)) d)"
  have chain: "sync_chain d = sn_chain k" using peer_sync_E(2) [OF d] n'(2) by simp
  have lag: "sat_sub (tip_h c) (tip_h (sn_chain k)) = 0" using tail_walk(2) [OF assms(1)] by (simp add: sat_sub_def)
  have e: "sync_chain e = sn_chain k" "sp_pend_blk (peer_st p e) = []"
    using assms(5) by (simp_all add: e_def maybe_log_sync_prog_def st chain reinqueue_def)
  have "blk_applied v p hc bc (length bs) [] n' = ask_blk v p bc e"
    using assms(7) lag by (simp add: blk_applied_def d Let_def chain e_def live_tail_pull_hdr_def st)
  moreover obtain n3 where "ask_blk v p bc e = (Inr (), n3)" "sy_api n3 = sy_api e" using ask_blk_idle [OF e(2)] by blast
  ultimately show thesis using e(1) body by (intro that [of n3]) simp_all
qed



section \<open>An answer that never comes\<close>

text \<open>The tips that a peer announces, each at its time, to a node that hears nothing else from it.\<close>

fun hear_tips :: "SyncEnv \<Rightarrow> string \<Rightarrow> u16 \<Rightarrow> bool \<Rightarrow> (u64 \<times> u64 \<times> string \<times> u64 \<times> string option) list \<Rightarrow> SyncNode \<Rightarrow> SyncNode" where
  "hear_tips v p cap can [] n = n"
| "hear_tips v p cap can ((now, hh, hs, fh, fs) # ts) n =
     hear_tips v p cap can ts (snd (on_tip (v\<lparr>se_now := now\<rparr>) p hh hs fh fs cap can n))"

text \<open>An answer is awaited: a catch-up is on, or the headers after the tip were asked for.\<close>

definition awaited :: "bool \<Rightarrow> u64 \<Rightarrow> SyncPeerState \<Rightarrow> bool" where
  "awaited can l st \<longleftrightarrow> (can \<and> sp_cup_active st \<and> sp_cup_next_ms st = 0) \<or>
     (sp_wait_hdr_from st = Some (sat_add l 1) \<and> 0 < sp_in_hdr st)"

lemma ask_hdr_awaited:
  assumes "awaited False (tip_h (sync_chain n)) (peer_st p n)"
  shows "\<exists>n'. ask_hdr v p (sat_add (tip_h (sync_chain n)) 1) lim n = (Inr (), n') \<and> sy_out n' = sy_out n \<and> sy_api n' = sy_api n \<and>
    peer_st p n' = peer_st p n"
  using assms by (simp add: ask_hdr_def Let_def case_prod_unfold awaited_def peer_st_lookup)

lemma start_cup_on:
  assumes "fmlookup (sy_peers n) p = Some st" "sp_cup_active st"
  shows "maybe_start_cup v p hh True n = (Inr True, n)"
  using assms by (simp add: maybe_start_cup_def Let_def)

lemma start_cup_refused: "\<exists>n'. maybe_start_cup v p hh False n = (Inr False, n') \<and> sy_out n' = sy_out n \<and> sy_api n' = sy_api n \<and> peer_st p n' = peer_st p n"
  by (simp add: maybe_start_cup_def)

lemma tip_awaited:
  assumes "awaited can (tip_h (sync_chain n)) (peer_st p n)" "tip_h (sync_chain n) < hh" "SYNC_CUP_TAIL_MAX \<le> hh - tip_h (sync_chain n)"
    "hh - tip_h (sync_chain n) < SYNC_CUP_LAG_MIN"
  shows "\<exists>n'. on_tip v p hh hs fh fs cap can n = (Inr None, n') \<and> sy_out n' = sy_out n \<and> sy_api n' = sy_api n \<and>
    awaited can (tip_h (sync_chain n')) (peer_st p n')"
proof -
  let ?l = "tip_h (sync_chain n)"
  have near: "\<not> SYNC_CUP_LAG_MIN \<le> hh - ?l" "\<not> hh - ?l < SYNC_CUP_TAIL_MAX" using assms(3,4) by auto
  obtain k where k: "sy_api k = sy_api n" "sy_out k = sy_out n" "sp_wait_hdr_from (peer_st p k) = sp_wait_hdr_from (peer_st p n)"
    "sp_in_hdr (peer_st p k) = sp_in_hdr (peer_st p n)" "sp_cup_active (peer_st p k) = sp_cup_active (peer_st p n)"
    "fmlookup (sy_peers k) p = Some (peer_st p k)" "sp_cup_active (peer_st p k) \<Longrightarrow> sp_cup_next_ms (peer_st p k) = sp_cup_next_ms (peer_st p n)"
    and on: "on_tip v p hh hs fh fs cap can n =
       (case (if sp_cup_active (peer_st p n) \<and> sp_cup_next_ms (peer_st p n) \<le> se_now v then maybe_start_cup v p hh can k else (Inr False, k)) of
          (Inl e, m) \<Rightarrow> (Inl e, m)
        | (Inr cup_started, m) \<Rightarrow>
            if cup_started then (Inr None, m)
            else case ask_hdr v p (sat_add ?l 1) (max (min cap SYNC_HDR_REQ_CAP) 1) m of (Inl e, m) \<Rightarrow> (Inl e, m) | (Inr _, m) \<Rightarrow> (Inr None, m))"
    by (rule on_tip_ahead [OF assms(2), of p v hs fh fs cap can]) (use near assms(3) in \<open>simp\<close>)
  have await: "awaited can ?l (peer_st p k)" using assms(1) k by (auto simp: awaited_def)
  show ?thesis
  proof (cases "can \<and> sp_cup_active (peer_st p n) \<and> sp_cup_next_ms (peer_st p n) \<le> se_now v")
    case True
    with start_cup_on [OF k(6), of v hh] k(1,2,5) on await show ?thesis by auto
  next
    case False
    obtain m where m: "(if sp_cup_active (peer_st p n) \<and> sp_cup_next_ms (peer_st p n) \<le> se_now v then maybe_start_cup v p hh can k else (Inr False, k)) = (Inr False, m)"
      "sy_out m = sy_out k" "sy_api m = sy_api k" "peer_st p m = peer_st p k"
    proof (cases "sp_cup_active (peer_st p n) \<and> sp_cup_next_ms (peer_st p n) \<le> se_now v")
      case True
      with False have "\<not> can" by blast
      moreover obtain m where "maybe_start_cup v p hh False k = (Inr False, m)" "sy_out m = sy_out k" "sy_api m = sy_api k" "peer_st p m = peer_st p k"
        using start_cup_refused by blast
      ultimately show thesis using True by (intro that [of m]) simp_all
    next
      case False
      then have "(if sp_cup_active (peer_st p n) \<and> sp_cup_next_ms (peer_st p n) \<le> se_now v then maybe_start_cup v p hh can k else (Inr False, k)) = (Inr False, k)"
        by (rule if_not_P)
      then show thesis by (rule that) (rule refl)+
    qed
    have "awaited False ?l (peer_st p m)" using await False k(5,7) m(4) by (auto simp: awaited_def)
    then obtain n' where "ask_hdr v p (sat_add ?l 1) (max (min cap SYNC_HDR_REQ_CAP) 1) m = (Inr (), n')" "sy_out n' = sy_out m" "sy_api n' = sy_api m"
      "peer_st p n' = peer_st p m"
      using ask_hdr_awaited [of m p v "max (min cap SYNC_HDR_REQ_CAP) 1"] m(3) k(1) by auto
    with on m k(1,2) await show ?thesis by auto
  qed
qed

lemma hear_awaited:
  assumes "awaited can (tip_h (sync_chain n)) (peer_st p n)"
    and "\<forall>(now, hh, hs, fh, fs) \<in> set ts. tip_h (sync_chain n) < hh \<and> SYNC_CUP_TAIL_MAX \<le> hh - tip_h (sync_chain n) \<and> hh - tip_h (sync_chain n) < SYNC_CUP_LAG_MIN"
  shows "sy_out (hear_tips v p cap can ts n) = sy_out n \<and> sy_api (hear_tips v p cap can ts n) = sy_api n"
  using assms
proof (induction ts arbitrary: n)
  case (Cons t ts)
  obtain now hh hs fh fs where t: "t = (now, hh, hs, fh, fs)" by (cases t)
  from tip_awaited [OF Cons.prems(1), of hh "v\<lparr>se_now := now\<rparr>" hs fh fs cap] Cons.prems(2) t
  obtain n' where n': "on_tip (v\<lparr>se_now := now\<rparr>) p hh hs fh fs cap can n = (Inr None, n')" "sy_out n' = sy_out n" "sy_api n' = sy_api n"
    "awaited can (tip_h (sync_chain n')) (peer_st p n')" by auto
  with Cons.IH [OF n'(4)] Cons.prems(2) show ?case by (simp add: t)
qed simp

lemma write_kept:
  assumes "write_wire v mk n = (r, n')"
  shows "sy_peers n' = sy_peers n \<and> sy_api n' = sy_api n \<and> (r = Inr () \<or> sy_out n' = sy_out n)"
  using assms by (auto simp: write_wire_def Let_def case_prod_unfold split: if_splits)

lemma ask_hdr_open:
  assumes "ask_hdr v p from_h lim n = (Inr (), n')" "sy_out n' \<noteq> sy_out n"
  shows "sp_wait_hdr_from (peer_st p n') = Some from_h \<and> 0 < sp_in_hdr (peer_st p n') \<and> sy_api n' = sy_api n"
proof -
  obtain st a where a: "peer_sync v p n = (st, a)" by fastforce
  note a' = peer_sync_E [OF a]
  define s :: SyncPeerState where "s = st\<lparr>sp_wait_hdr_from := Some from_h, sp_wait_hdr_lim := max (min lim SYNC_HDR_REQ_CAP) 1, sp_in_hdr := sat_add (sp_in_hdr st) 1\<rparr>"
  have w: "write_wire v (\<lambda>h. SyncHeadersReq h from_h (max (min lim SYNC_HDR_REQ_CAP) 1)) (sy_add Sync_hdr_req_total 1 (put_sync p s a)) = (Inr (), n')"
    using assms a' by (auto simp: ask_hdr_def a Let_def s_def split: if_splits)
  have "0 < sat_add (sp_in_hdr st) 1" by (simp add: word_less_nat_alt unat_sat_add min_def)
  with write_kept [OF w] a' show ?thesis by (simp add: peer_st_def s_def)
qed

lemma start_cup_open:
  assumes "maybe_start_cup v p hh can n = (Inr started, n')"
  shows "sy_api n' = sy_api n \<and> (sy_out n' \<noteq> sy_out n \<longrightarrow> started \<and> can \<and> sp_cup_active (peer_st p n') \<and> sp_cup_next_ms (peer_st p n') = 0)"
proof (cases "n' = n \<or> \<not> can")
  case False
  have "\<exists>from_h to_h r. send_cup_req v p from_h to_h n = (r, n') \<and> started = (r = Inr ())"
    using assms False by (force simp: maybe_start_cup_def Let_def split: if_splits sum.splits option.splits prod.splits)
  then obtain from_h to_h r where r: "send_cup_req v p from_h to_h n = (r, n')" "started = (r = Inr ())" by blast
  obtain eid where eid: "epoch_idx from_h = Inr eid" using r(1) False by (cases "epoch_idx from_h") (auto simp: send_cup_req_def)
  define f :: "SyncPeerState \<Rightarrow> SyncPeerState" where "f = (\<lambda>st. st\<lparr>sp_cup_active := True, sp_cup_epoch := eid, sp_cup_from := from_h, sp_cup_to := to_h,
                   sp_cup_next_h := from_h, sp_cup_next_ix := 0, sp_cup_prev_hash := tip_hash_hex v (sync_chain n),
                   sp_cup_target_h := max (sp_tip_h st) to_h, sp_cup_next_ms := 0\<rparr>)"
  define k where "k = sy_add Sync_cup_start_total 1 (upd_sync v p f n)"
  obtain w m where w: "write_wire v (\<lambda>h. SyncCatchupReq h from_h to_h eid (tip_hash_hex v (sync_chain n))) k = (w, m)" by fastforce
  note m = write_kept [OF w]
  have k: "sy_api k = sy_api n" "sy_out k = sy_out n" "sp_cup_active (peer_st p k)" "sp_cup_next_ms (peer_st p k) = 0"
    by (simp_all add: k_def f_def)
  have end': "(r, n') = (case (w, m) of (Inr _, n) \<Rightarrow> (Inr (), n)
      | (Inl e, n) \<Rightarrow> (Inl e, upd_sync v p (\<lambda>st. cup_clear (cup_retry_later v (stall_more st))) (cup_fail ''req_write'' n)))"
    using r(1) w by (simp add: send_cup_req_def Let_def eid k_def f_def)
  show ?thesis
  proof (cases w)
    case (Inl e)
    with end' m k show ?thesis by (simp add: cup_fail_def)
  next
    case (Inr u)
    with end' m k r(2) False show ?thesis by (simp add: peer_st_def)
  qed
qed (use assms in \<open>auto simp: maybe_start_cup_def cup_fail_def\<close>)

lemma tip_sends_awaited:
  assumes "on_tip v p hh hs fh fs cap can n = (Inr None, n1)" "sy_out n1 \<noteq> sy_out n"
  shows "awaited can (tip_h (sync_chain n)) (peer_st p n1) \<and> sy_api n1 = sy_api n"
proof -
  let ?l = "tip_h (sync_chain n)"
  have ahead: "?l < hh"
  proof (rule ccontr)
    assume "\<not> ?l < hh"
    then have "hh < ?l \<or> hh - ?l = 0" by auto
    moreover obtain st a where a: "peer_sync v p (sy_add Sync_tip_seen_total 1 n) = (st, a)" by fastforce
    moreover have "sy_out a = sy_out n" using peer_sync_E [OF a] by simp
    ultimately have "sy_out n1 = sy_out n" using assms(1)
      by (auto simp: on_tip_def Let_def maybe_log_sync_prog_def try_demote_cup_tail_def split: if_splits option.splits)
    with assms(2) show False by simp
  qed
  obtain k where k: "sy_api k = sy_api n" "sy_out k = sy_out n"
    and on: "on_tip v p hh hs fh fs cap can n =
       (case (if (sp_cup_active (peer_st p n) \<and> sp_cup_next_ms (peer_st p n) \<le> se_now v) \<or> SYNC_CUP_LAG_MIN \<le> hh - ?l
              then maybe_start_cup v p hh can k else (Inr False, k)) of
          (Inl e, m) \<Rightarrow> (Inl e, m)
        | (Inr cup_started, m) \<Rightarrow>
            if cup_started then (Inr None, m)
            else case ask_hdr v p (sat_add ?l 1) (max (min cap SYNC_HDR_REQ_CAP) 1) m of (Inl e, m) \<Rightarrow> (Inl e, m) | (Inr _, m) \<Rightarrow> (Inr None, m))"
    by (rule on_tip_ahead [OF ahead, of p v hs fh fs cap can]) blast
  obtain started m where m: "(if (sp_cup_active (peer_st p n) \<and> sp_cup_next_ms (peer_st p n) \<le> se_now v) \<or> SYNC_CUP_LAG_MIN \<le> hh - ?l
              then maybe_start_cup v p hh can k else (Inr False, k)) = (Inr started, m)"
    using on assms(1) by (auto split: prod.splits sum.splits)
  have cup: "sy_api m = sy_api n" "sy_out m \<noteq> sy_out n \<Longrightarrow> started \<and> can \<and> sp_cup_active (peer_st p m) \<and> sp_cup_next_ms (peer_st p m) = 0"
    using m k start_cup_open [of v p hh can k started m] by (auto split: if_splits)
  show ?thesis
  proof (cases started)
    case True
    then have "n1 = m" using on m assms(1) by simp
    with cup assms(2) show ?thesis by (simp add: awaited_def)
  next
    case False
    then have "ask_hdr v p (sat_add ?l 1) (max (min cap SYNC_HDR_REQ_CAP) 1) m = (Inr (), n1)" "sy_out m = sy_out n"
      using on m assms(1) cup(2) by (auto split: prod.splits sum.splits)
    with ask_hdr_open [OF this(1)] assms(2) cup(1) show ?thesis by (simp add: awaited_def)
  qed
qed

text \<open>A request that went out and is not answered is the last one: from then on the tips of that peer, 32 to 255
  blocks ahead, make the node ask for nothing, however long it waits.\<close>

theorem lost_answer_stops_sync:
  assumes "on_tip v p hh hs fh fs cap can n = (Inr None, n1)" "sy_out n1 \<noteq> sy_out n"
    and "\<forall>(now, h, _) \<in> set ts. tip_h (sync_chain n) < h \<and> 32 \<le> h - tip_h (sync_chain n) \<and> h - tip_h (sync_chain n) < 256"
  shows "sy_out (hear_tips v p cap can ts n1) = sy_out n1 \<and> sync_chain (hear_tips v p cap can ts n1) = sync_chain n"
proof -
  note a = tip_sends_awaited [OF assms(1,2)]
  have "sy_out (hear_tips v p cap can ts n1) = sy_out n1 \<and> sy_api (hear_tips v p cap can ts n1) = sy_api n1"
    by (rule hear_awaited) (use a assms(3) in \<open>auto simp: SYNC_CUP_TAIL_MAX_def SYNC_CUP_LAG_MIN_def\<close>)
  with a show ?thesis by simp
qed

theorem lost_answer_stops_sync_witness:
  "\<exists>n1 h. on_tip demo_sync ''B'' 20 ''h'' 0 None 64 False (demo_sync_node demo_chain) = (Inr None, n1) \<and>
     sy_out n1 = [SyncHeadersReq h 1 64] \<and>
     sy_out (hear_tips demo_sync ''B'' 64 False [(90000, 101, ''i'', 0, None), (900000, 200, ''j'', 0, None)] n1) = [SyncHeadersReq h 1 64]"
proof -
  let ?n = "demo_sync_node demo_chain"
  have t: "tip_h demo_chain = 0" by (simp add: tip_h_def demo_chain_def)
  have quiet: "peer_quiet (peer_st ''B'' ?n)" "sp_tip_h (peer_st ''B'' ?n) \<le> 20"
    by (simp_all add: peer_quiet_def sync_default_def SYNC_INF_CAP_def)
  obtain n1 h where n1: "on_tip demo_sync ''B'' 20 ''h'' 0 None 64 False ?n = (Inr None, n1)"
    and out: "sy_out n1 = [SyncHeadersReq h 1 64]"
    by (rule tail_tip [OF quiet, of demo_sync "''h''" 0 None 64 False])
       (simp_all add: t demo_node_facts SYNC_CUP_TAIL_MAX_def SYNC_HDR_REQ_CAP_def sat_add_def)
  have "sy_out (hear_tips demo_sync ''B'' 64 False [(90000, 101, ''i'', 0, None), (900000, 200, ''j'', 0, None)] n1) = sy_out n1"
    using lost_answer_stops_sync [OF n1, of "[(90000, 101, ''i'', 0, None), (900000, 200, ''j'', 0, None)]"] by (simp add: t demo_node_facts out)
  with n1 out show ?thesis by auto
qed

end
