(* ===== verification/Pwm_Gossip.thy ===== *)
theory Pwm_Gossip
  imports Pwm_Sync_Live
begin

text \<open>
  Transactions that peers hand over (\<open>SyncTxBatch\<close>): what enters the pool that way and what POST /v1/tx
  would have said of it.
\<close>

section \<open>One transaction of a batch\<close>

lemma ingest_accepted:
  assumes "ingest_tx v tx n = Some (TxAccepted, n1)"
  obtains h ts st' where "validate_tx_shape (se_ext v) tx = Inr ()" "next_apply_ctx (se_clock v) (sync_chain n) = Some (Inr (h, ts))"
    "apply_tx_with_ctx (se_ext v) (ch_cfg (sync_chain n)) tx h ts (ch_st (sync_chain n)) = Done st'"
    "pool_txs (ap_node (sy_api n1)) = pool_txs (ap_node (sy_api n)) @ [tx]" "sync_chain n1 = sync_chain n"
    "tx_hash_hex v tx |\<in>| fmdom (mg_tx_seen_ms (sy_gsp n1))"
proof -
  define m where "m = n\<lparr>sy_gsp := (prune_mempool_gsp (se_now v) (sy_gsp n))\<lparr>mg_tx_seen_ms :=
      fmupd (tx_hash_hex v tx) (se_now v) (mg_tx_seen_ms (prune_mempool_gsp (se_now v) (sy_gsp n)))\<rparr>\<rparr>"
  have m: "sy_api m = sy_api n" "tx_hash_hex v tx |\<in>| fmdom (mg_tx_seen_ms (sy_gsp m))" by (simp_all add: m_def)
  from assms obtain h ts where a: "validate_tx_shape (se_ext v) tx = Inr ()" "next_apply_ctx (se_clock v) (sync_chain n) = Some (Inr (h, ts))"
    "precheck_apply_with_ctx (se_ext v) (ch_cfg (sync_chain n)) (ch_st (sync_chain n)) tx h ts = Accepted"
    and push: "(case mpool_push tx (sn_pool (ap_node (sy_api m))) of
        Done p \<Rightarrow> Some (TxAccepted, m\<lparr>sy_api := (sy_api m)\<lparr>ap_node := (ap_node (sy_api m))\<lparr>sn_pool := p\<rparr>\<rparr>\<rparr>)
      | _ \<Rightarrow> Some (TxInvalid, m)) = Some (TxAccepted, n1)"
    unfolding ingest_tx_def Let_def m_def [symmetric]
    by (auto simp: m(1) split: if_splits sum.splits option.splits verdict.splits)
  from a(3) obtain st' where st': "apply_tx_with_ctx (se_ext v) (ch_cfg (sync_chain n)) tx h ts (ch_st (sync_chain n)) = Done st'"
    by (auto simp: precheck_apply_with_ctx_def split: outcome.splits)
  from push obtain p where p: "mpool_push tx (sn_pool (ap_node (sy_api m))) = Done p"
    "n1 = m\<lparr>sy_api := (sy_api m)\<lparr>ap_node := (ap_node (sy_api m))\<lparr>sn_pool := p\<rparr>\<rparr>\<rparr>"
    by (auto split: outcome.splits)
  have "mp_q p = mp_q (sn_pool (ap_node (sy_api m))) @ [tx]" using p(1) by (auto simp: mpool_push_def split: if_splits)
  then show thesis using a(1,2) st' m by (intro that [of h ts st']) (simp_all add: p(2))
qed

text \<open>An IMPORT with a provenance the node does not know creates what it says it moves.\<close>

lemma unknown_import_mints:
  assumes run: "apply_tx_with_ctx ext cfg tx h ts st = Done st'" and inv: "xshard_inv st"
    and b: "body tx = Import t amount eid" and new: "\<not> known_provenance st cross_shard tx t amount eid"
    and small: "total_units st + unat amount < 2 ^ 128"
  shows "eid |\<notin>| fmdom (exported_registry st)" "total_units st' = total_units st + unat amount"
proof -
  have impl: "apply_tx_impl ext cfg tx h ts False st = Done st'" using run by (simp add: apply_tx_with_ctx_def)
  then obtain aid st1 row acc redir where 1: "st1 = with_stub tx aid st" "apply_body ext cfg tx h aid acc redir st1 = Done st'"
    by (rule apply_tx_impl_Done)
  have "apply_import ext tx aid acc t amount eid st1 = Done st'" using 1(2) b by (simp add: apply_body_def)
  then obtain pv fresh where pv: "expected_export st1 tx eid = Inr (pv, fresh)" "pv_amount pv = amount" "pv_to pv = t"
    "eid |\<notin>| imported_set st1"
    by (rule apply_import_Done) blast
  have reg: "fmlookup (exported_registry st) eid = None"
  proof (rule ccontr)
    assume "fmlookup (exported_registry st) eid \<noteq> None"
    then have "fmlookup (exported_registry st) eid = Some pv" using pv(1) by (auto simp: expected_export_def 1(1) split: option.splits if_splits)
    with new pv(2,3) show False by (simp add: known_provenance_def)
  qed
  then show "eid |\<notin>| fmdom (exported_registry st)" by (simp add: fmlookup_dom_iff)
  have "lock_idx st eid = None"
  proof (cases "lock_idx st eid")
    case (Some i)
    note i = lock_idx_Some [OF Some]
    then have "lock_ok st (cross_shard_locks st ! i)" using inv by (simp add: xshard_inv_def)
    moreover have "eid |\<notin>| imported_set st" using pv(4) by (simp add: 1(1))
    ultimately show ?thesis using i reg by (auto simp: lock_ok_def split: if_splits)
  qed
  then have mint: "tx_minted cfg st tx = unat amount" by (simp add: tx_minted_def b import_minted_def)
  have "balanced (tx_minted cfg st tx) st st'"
    by (rule balanced_apply_tx(2) [OF impl]) (use import_amount_inv [OF inv impl] b in simp_all)
  with small show "total_units st' = total_units st + unat amount" by (simp add: balanced_def mint)
qed


text \<open>\<open>demo_B\<close> credits itself with a million units of an export that nobody made.\<close>

definition rich_chain :: Chain where
  "rich_chain = demo_chain\<lparr>ch_st := put_acc demo_B (genesis_funded demo_B 0 20000) (ch_st demo_chain)\<rparr>"

definition forged_import :: SignedTx where
  "forged_import = (demo_tx demo_B 0 (Import demo_B 1000000 99))\<lparr>import_fee := Some 10000,
     import_provenance := Some \<lparr> pv_to = demo_B, pv_target_domain = 0, pv_amount = 1000000 \<rparr>\<rparr>"

lemma forged_accepted: "\<exists>n1. ingest_tx demo_sync forged_import (demo_sync_node rich_chain) = Some (TxAccepted, n1)"
proof -
  have shape: "validate_tx_shape demo_ext forged_import = Inr ()" by (simp add: forged_import_def shape_eval demo_tx_def import_eval)
  have ctx: "next_apply_ctx None rich_chain = Some (Inr (1, 1700000001))"
    by (simp add: next_apply_ctx_def tip_h_def rich_chain_def demo_chain_def checked_add_def sat_add_def DET_SEAL_TS_BASE_def)
  have pre: "precheck_apply_with_ctx demo_ext (ch_cfg rich_chain) (ch_st rich_chain) forged_import 1 1700000001 = Accepted"
    by (simp add: precheck_apply_with_ctx_def forged_import_def rich_chain_def demo_chain_def tx_eval demo_eval import_eval release_lock_def Let_def)
  have chain: "sync_chain (demo_sync_node rich_chain) = rich_chain" by (simp add: demo_node_facts)
  have gsp: "mg_tx_seen_ms (sy_gsp (demo_sync_node rich_chain)) = fmempty" "se_clock demo_sync = None"
    by (simp_all add: demo_sync_node_def demo_sync_def)
  obtain p where p: "mpool_push forged_import (sn_pool (demo_node rich_chain [])) = Done p"
    by (simp add: demo_node_def fresh_node_def mpool_push_def)
  have seen: "fmlookup (mg_tx_seen_ms (prune_mempool_gsp (se_now demo_sync) (sy_gsp (demo_sync_node rich_chain)))) x = None" for x
    by (simp add: prune_mempool_gsp_def recent_only_def gsp(1))
  show ?thesis unfolding ingest_tx_def Let_def seen by (simp add: gsp(2) shape ctx pre p demo_node_facts)
qed


end
