(* ===== verification/Pwm_Cluster.thy ===== *)
theory Pwm_Cluster
  imports Pwm_Sync_Serve
begin

text \<open>
  The attestation rounds of a cluster (the cluster half of src/crates/pwmd/src/transport/peer_session/mod.rs, the
  round state of transport/handshake_state.rs, the configuration of config.rs): a proposer opens a round for
  the next height, the attesters of the cluster sign what it proposes, and the proposer counts their
  signatures before it seals.

  \<open>ClusterNode\<close> adds to \<open>SyncNode\<close> what these handlers read and change; the frames they write go to \<open>cl_out\<close>,
  and a write fails as \<open>sy_write_fails\<close> says. Log lines and the timing file are left out.
\<close>

section \<open>Configuration and frames\<close>

datatype ClusterRole = RoleNone | Proposer | Attester

record ClusterCfg =
  cc_enabled :: bool
  cc_role :: ClusterRole
  cc_members :: "string list"
  cc_quorum_k :: u8
  cc_quorum_n :: u8
  cc_attest_timeout_ms :: u64
  cc_seal_ahead_ms :: u64
  cc_full_blocks :: bool
  cc_att_max_tip_lag :: u64

definition cluster_cfg_default :: ClusterCfg where
  "cluster_cfg_default = \<lparr> cc_enabled = False, cc_role = RoleNone, cc_members = [], cc_quorum_k = 1, cc_quorum_n = 2,
     cc_attest_timeout_ms = 1000, cc_seal_ahead_ms = 100, cc_full_blocks = False, cc_att_max_tip_lag = 1 \<rparr>"

record ClusterProposeWire =
  cp_height :: u64
  cp_round :: u32
  cp_vote_object :: string
  cp_candidate_hash :: string
  cp_candidate_ref :: "string option"
  cp_tail_blocks :: "SyncBlockWire list"

record ClusterAttestWire =
  ca_height :: u64
  ca_round :: u32
  ca_vote_object :: string
  ca_candidate_hash :: string
  ca_signature :: string
  ca_candidate_ref :: "string option"
  ca_attester_tip_height :: "u64 option"

datatype ClusterMsg = ClusterPropose ClusterProposeWire | ClusterAttest ClusterAttestWire

section \<open>State\<close>

datatype PeerStatus = PeerAccepted | PeerRejected | PeerConnected | PeerDisconnected | PeerRetrying

datatype PeerClass = PeerNative | PeerForeign

record PeerRecord =
  pr_node_id :: string
  pr_domain_hi :: u8
  pr_class :: PeerClass
  pr_last_seen_ms :: u64
  pr_status :: PeerStatus

record TrustedPeer =
  tp_node_id :: string
  tp_cluster_id :: string
  tp_pubkey :: bytes32
  tp_domain_hi :: u8
  tp_instance_id :: "string option"
  tp_cluster_attest_enabled :: bool
  tp_cluster_role :: ClusterRole

record ClusterRoundState =
  cr_vote_object :: string
  cr_candidate_hash :: string
  cr_candidate_ref :: "string option"
  cr_proposer_id :: "string option"
  cr_propose_opened_at_ms :: "u64 option"
  cr_propose_retry_n :: u8
  cr_attesters :: "(string, string) fmap"

definition round_default :: ClusterRoundState where
  "round_default = \<lparr> cr_vote_object = [], cr_candidate_hash = [], cr_candidate_ref = None, cr_proposer_id = None,
     cr_propose_opened_at_ms = None, cr_propose_retry_n = 0, cr_attesters = fmempty \<rparr>"

type_synonym round_key = "u64 \<times> u32"

record ClusterNode =
  cl_sync :: SyncNode
  cl_trusted :: "(string, TrustedPeer) fmap"
  cl_peers :: "(string, PeerRecord) fmap"
  cl_rounds :: "(round_key, ClusterRoundState) fmap"
  cl_sent_key :: "(string, round_key) fmap"
  cl_nudge :: bool
  cl_manual_target :: "u64 option"
  cl_out :: "ClusterMsg list"

text \<open>What the handlers read: the configuration, the instance id of the node, its hello key. \<open>ce_sync\<close> holds
  the library, the clock and the files.\<close>

record ClusterEnv =
  ce_sync :: SyncEnv
  ce_cfg :: ClusterCfg
  ce_instance_id :: string
  ce_sk :: bytes32

abbreviation cluster_chain :: "ClusterNode \<Rightarrow> Chain" where
  "cluster_chain n \<equiv> sync_chain (cl_sync n)"

section \<open>Names and signatures\<close>

definition cluster_sig_msg :: "u64 \<Rightarrow> u32 \<Rightarrow> string \<Rightarrow> string \<Rightarrow> string option \<Rightarrow> bytes" where
  "cluster_sig_msg height rnd vote cand candidate_ref =
     (let nl = [char_of (10 :: nat)]; cref = (case candidate_ref of Some r \<Rightarrow> r | None \<Rightarrow> [])
      in as_bytes (show_radix 10 (unat height) @ nl @ show_radix 10 (unat rnd) @ nl @ vote @ nl @ cand @ nl @ cref))"

definition verify_attest_sig :: "SyncEnv \<Rightarrow> string \<Rightarrow> bytes32 \<Rightarrow> bytes \<Rightarrow> bool" where
  "verify_attest_sig v sig_hex pubkey msg = (case x_hex_decode (se_lib v) (trim sig_hex) of
     Inl _ \<Rightarrow> False
   | Inr sig_raw \<Rightarrow> if length sig_raw \<noteq> 64 then False else verify (se_ext v) pubkey msg (from_be sig_raw))"

definition member_id :: "string option \<Rightarrow> string option" where
  "member_id instance_id = (case instance_id of
     Some raw \<Rightarrow> if trim raw = [] then None else Some (trim raw) | None \<Rightarrow> None)"

definition peer_member_id :: "TrustedPeer \<Rightarrow> string option" where
  "peer_member_id p = member_id (tp_instance_id p)"

definition cluster_role_ok :: "ClusterRole \<Rightarrow> ClusterRole \<Rightarrow> bool \<Rightarrow> bool" where
  "cluster_role_ok here there propose_frame =
     (if propose_frame then here = Attester \<and> there = Proposer else here = Proposer \<and> there = Attester)"

section \<open>Rounds\<close>

text \<open>The proposal of a round. The comparison that should tell whether the round is bound to something new
  reads the row after it was written.\<close>

definition bound_row :: "ClusterProposeWire \<Rightarrow> string \<Rightarrow> u64 option \<Rightarrow> ClusterRoundState \<Rightarrow> ClusterRoundState" where
  "bound_row msg proposer_member_id opened_at_ms entry0 =
     (let entry = entry0\<lparr>cr_vote_object := cp_vote_object msg, cr_candidate_hash := cp_candidate_hash msg,
            cr_candidate_ref := cp_candidate_ref msg, cr_proposer_id := Some proposer_member_id\<rparr>;
          bind_changed = (cr_vote_object entry \<noteq> cp_vote_object msg \<or> cr_candidate_hash entry \<noteq> cp_candidate_hash msg \<or>
            cr_candidate_ref entry \<noteq> cp_candidate_ref msg \<or>
            (case cr_proposer_id entry of Some x \<Rightarrow> x \<noteq> proposer_member_id | None \<Rightarrow> False))
      in if bind_changed
         then entry\<lparr>cr_attesters := fmempty, cr_propose_retry_n := 0, cr_propose_opened_at_ms := opened_at_ms\<rparr>
         else if cr_propose_opened_at_ms entry = None then entry\<lparr>cr_propose_opened_at_ms := opened_at_ms\<rparr>
         else entry)"

definition record_cluster_prop :: "ClusterProposeWire \<Rightarrow> string \<Rightarrow> u64 option \<Rightarrow> ClusterNode \<Rightarrow> ClusterNode" where
  "record_cluster_prop msg proposer_member_id opened_at_ms n =
     (let key = (cp_height msg, cp_round msg);
          entry = (case fmlookup (cl_rounds n) key of Some r \<Rightarrow> r | None \<Rightarrow> round_default)
      in n\<lparr>cl_rounds := fmupd key (bound_row msg proposer_member_id opened_at_ms entry) (cl_rounds n)\<rparr>)"

definition mark_cluster_prop_opened :: "u64 \<Rightarrow> u32 \<Rightarrow> u64 \<Rightarrow> ClusterNode \<Rightarrow> ClusterNode" where
  "mark_cluster_prop_opened h r opened_ms n = (case fmlookup (cl_rounds n) (h, r) of
     None \<Rightarrow> n
   | Some row \<Rightarrow>
       if cr_propose_opened_at_ms row = None
       then n\<lparr>cl_rounds := fmupd (h, r) (row\<lparr>cr_propose_opened_at_ms := Some opened_ms\<rparr>) (cl_rounds n)\<rparr> else n)"

text \<open>A round nobody signed is opened again, a bounded number of times.\<close>

definition maybe_retry_round :: "u64 \<Rightarrow> u32 \<Rightarrow> u8 \<Rightarrow> ClusterNode \<Rightarrow> u8 option \<times> ClusterNode" where
  "maybe_retry_round h r max_retry n = (case fmlookup (cl_rounds n) (h, r) of
     None \<Rightarrow> (None, n)
   | Some row \<Rightarrow>
       if cr_attesters row \<noteq> fmempty \<or> max_retry \<le> cr_propose_retry_n row then (None, n)
       else let retry_n = sat_add (cr_propose_retry_n row) 1;
                row = row\<lparr>cr_propose_opened_at_ms := None, cr_propose_retry_n := retry_n\<rparr>
            in (Some retry_n, n\<lparr>cl_rounds := fmupd (h, r) row (cl_rounds n),
                  cl_sent_key := fmfilter (\<lambda>k. fmlookup (cl_sent_key n) k \<noteq> Some (h, r)) (cl_sent_key n)\<rparr>))"

section \<open>Proposing\<close>

definition CLUSTER_PROP_TAIL_CAP :: nat where "CLUSTER_PROP_TAIL_CAP = 10"

text \<open>The active producers at a height: rolled on a copy at the first height of an epoch.\<close>

definition active_at :: "Chain \<Rightarrow> u64 \<Rightarrow> u16 list" where
  "active_at c height = active_validator_indices
     (if 0 < epoch_length_blocks (ch_cfg c) \<and> height mod epoch_length_blocks (ch_cfg c) = 0
      then roll_epoch_if_needed (ch_cfg c) height (ch_st c) else ch_st c)"

definition member_at :: "string list \<Rightarrow> nat \<Rightarrow> string option" where
  "member_at members i = (if i < length members then Some (members ! i) else None)"

definition vote_text :: "u64 \<Rightarrow> string \<Rightarrow> string" where
  "vote_text height hash = ''vo1:'' @ show_radix 10 (unat height) @ '':'' @ hash"

definition tail_rows :: "SyncEnv \<Rightarrow> bool \<Rightarrow> u64 option \<Rightarrow> Chain \<Rightarrow> SyncBlockWire list" where
  "tail_rows v full_blocks remote_tip_h c =
     (if full_blocks then
        let gap = (case remote_tip_h of Some h \<Rightarrow> sat_sub (tip_h c) h | None \<Rightarrow> 0);
            tail_depth = max 1 (min CLUSTER_PROP_TAIL_CAP (unat (sat_add gap 2)))
        in rev (map (\<lambda>b. blk_wire (blk_hash_hex v b) b) (take tail_depth (rev (blocks c))))
      else [])"

definition mk_cluster_prop :: "ClusterEnv \<Rightarrow> u64 option \<Rightarrow> ClusterNode \<Rightarrow> ClusterProposeWire option" where
  "mk_cluster_prop e remote_tip_h n =
     (if \<not> cc_enabled (ce_cfg e) \<or> cc_role (ce_cfg e) \<noteq> Proposer then None
      else let proposer = trim (ce_instance_id e)
      in if proposer = [] \<or> proposer \<notin> set (cc_members (ce_cfg e)) then None
      else let c = cluster_chain n;
               manual_target_h = (case cl_manual_target n of Some h \<Rightarrow> h | None \<Rightarrow> 0);
               height = max manual_target_h (sat_add (tip_h c) 1)
      in case pick_prod_idx height (active_at c height) of
           Inl _ \<Rightarrow> None
         | Inr prod_idx \<Rightarrow>
             if member_at (cc_members (ce_cfg e)) (unat prod_idx) \<noteq> Some proposer then None
             else let hash = tip_hash_hex (ce_sync e) c
             in Some \<lparr> cp_height = height, cp_round = 0, cp_vote_object = vote_text height hash, cp_candidate_hash = hash,
                  cp_candidate_ref = None, cp_tail_blocks = tail_rows (ce_sync e) (cc_full_blocks (ce_cfg e)) remote_tip_h c \<rparr>)"

definition record_cluster_prop_tick :: "ClusterEnv \<Rightarrow> ClusterNode \<Rightarrow> ClusterNode" where
  "record_cluster_prop_tick e n = (case mk_cluster_prop e None n of
     None \<Rightarrow> n
   | Some msg \<Rightarrow> record_cluster_prop msg (trim (ce_instance_id e)) None n)"

text \<open>A frame goes out, or the stream is broken.\<close>

definition write_cluster :: "ClusterMsg \<Rightarrow> ClusterNode \<Rightarrow> (SyncErr + unit) \<times> ClusterNode" where
  "write_cluster msg n =
     (let (broken, rest) = (case sy_write_fails (cl_sync n) of [] \<Rightarrow> (False, []) | b # bs \<Rightarrow> (b, bs));
          n = n\<lparr>cl_sync := (cl_sync n)\<lparr>sy_write_fails := rest\<rparr>\<rparr>
      in if broken then (Inl WireWriteFailed, n) else (Inr (), n\<lparr>cl_out := cl_out n @ [msg]\<rparr>))"

text \<open>The remote node: its id, and the instance and role of its hello.\<close>

record ClusterRemote =
  cm_node_id :: string
  cm_instance_id :: "string option"
  cm_cluster_role :: ClusterRole

definition node_member_id :: "ClusterRemote \<Rightarrow> string option" where
  "node_member_id r = member_id (cm_instance_id r)"

definition send_cluster_prop :: "ClusterEnv \<Rightarrow> ClusterRemote \<Rightarrow> ClusterNode \<Rightarrow> (SyncErr + unit) \<times> ClusterNode" where
  "send_cluster_prop e r n = (case node_member_id r of
     None \<Rightarrow> (Inr (), n)
   | Some remote_member \<Rightarrow>
       if remote_member \<notin> set (cc_members (ce_cfg e)) then (Inr (), n)
       else if cc_role (ce_cfg e) \<noteq> Proposer \<or> cm_cluster_role r \<noteq> Attester then (Inr (), n)
       else let remote_tip_h = (case fmlookup (sy_peers (cl_sync n)) (cm_node_id r) of
              Some st \<Rightarrow> if 0 < sp_tip_h st then Some (sp_tip_h st) else None | None \<Rightarrow> None)
       in case mk_cluster_prop e remote_tip_h n of
            None \<Rightarrow> (Inr (), n)
          | Some msg \<Rightarrow>
              let key = (cp_height msg, cp_round msg)
              in if fmlookup (cl_sent_key n) (cm_node_id r) = Some key then (Inr (), n)
                 else (case write_cluster (ClusterPropose msg) n of
                   (Inl err, n) \<Rightarrow> (Inl err, n)
                 | (Inr _, n) \<Rightarrow>
                     let opened_ms = se_now (ce_sync e);
                         n = record_cluster_prop msg (trim (ce_instance_id e)) (Some opened_ms) n;
                         n = mark_cluster_prop_opened (cp_height msg) (cp_round msg) opened_ms n
                     in (Inr (), n\<lparr>cl_sent_key := fmupd (cm_node_id r) key (cl_sent_key n)\<rparr>)))"

definition try_prop_nudge :: "ClusterEnv \<Rightarrow> ClusterRemote \<Rightarrow> ClusterNode \<Rightarrow> (SyncErr + unit) \<times> ClusterNode" where
  "try_prop_nudge e r n =
     (if cc_seal_ahead_ms (ce_cfg e) = 0 then (Inr (), n)
      else if cl_nudge n then send_cluster_prop e r (n\<lparr>cl_nudge := False\<rparr>)
      else (Inr (), n))"

section \<open>Attesting\<close>

definition attest_msg :: "ClusterProposeWire \<Rightarrow> bytes" where
  "attest_msg msg = cluster_sig_msg (cp_height msg) (cp_round msg) (cp_vote_object msg) (cp_candidate_hash msg) (cp_candidate_ref msg)"

definition mk_cluster_attest :: "ClusterEnv \<Rightarrow> ClusterProposeWire \<Rightarrow> ClusterNode \<Rightarrow> ClusterAttestWire option" where
  "mk_cluster_attest e msg n =
     (if cc_role (ce_cfg e) \<noteq> Attester then None
      else let local_member = trim (ce_instance_id e)
      in if local_member = [] \<or> local_member \<notin> set (cc_members (ce_cfg e)) then None
      else Some \<lparr> ca_height = cp_height msg, ca_round = cp_round msg, ca_vote_object = cp_vote_object msg,
             ca_candidate_hash = cp_candidate_hash msg,
             ca_signature = x_hex_encode (se_lib (ce_sync e)) (be_bytes 64 (sign (se_ext (ce_sync e)) (ce_sk e) (attest_msg msg))),
             ca_candidate_ref = cp_candidate_ref msg, ca_attester_tip_height = Some (tip_h (cluster_chain n)) \<rparr>)"

text \<open>The blocks a proposal brings, when the node is more than one behind. Whether they applied is only logged.\<close>

definition prop_tail_batch :: "u64 \<Rightarrow> ClusterProposeWire \<Rightarrow> Block list" where
  "prop_tail_batch local_tip msg =
     filter (\<lambda>b. local_tip < bh_height (hdr b)) (sort_key (\<lambda>b. bh_height (hdr b)) (List.map_filter sb_block (cp_tail_blocks msg)))"

definition apply_prop_tail :: "ClusterEnv \<Rightarrow> ClusterProposeWire \<Rightarrow> ClusterNode \<Rightarrow> ClusterNode option" where
  "apply_prop_tail e msg n =
     (let local_tip = tip_h (cluster_chain n); tail_batch = prop_tail_batch local_tip msg
      in if sat_add local_tip 1 < cp_height msg \<and> tail_batch \<noteq> []
         then map_option (\<lambda>(_, s). n\<lparr>cl_sync := s\<rparr>) (apply_cluster_tail_blocks (ce_sync e) tail_batch (cl_sync n))
         else Some n)"

text \<open>The entry of the peer is there without a cap on the table.\<close>

definition note_attester_tip :: "string \<Rightarrow> u64 option \<Rightarrow> ClusterNode \<Rightarrow> ClusterNode" where
  "note_attester_tip node_id tip n = (case tip of
     None \<Rightarrow> n
   | Some h \<Rightarrow>
       let st = (case fmlookup (sy_peers (cl_sync n)) node_id of Some st \<Rightarrow> st | None \<Rightarrow> sync_default)
       in n\<lparr>cl_sync := put_sync node_id (st\<lparr>sp_tip_h := max (sp_tip_h st) h\<rparr>) (cl_sync n)\<rparr>)"

definition on_attest :: "ClusterEnv \<Rightarrow> TrustedPeer \<Rightarrow> string \<Rightarrow> ClusterAttestWire \<Rightarrow> ClusterNode \<Rightarrow> ClusterNode" where
  "on_attest e peer member msg n =
     (let key = (ca_height msg, ca_round msg)
      in case fmlookup (cl_rounds n) key of
           None \<Rightarrow> n
         | Some entry \<Rightarrow>
             if cr_vote_object entry = ca_vote_object msg \<and> cr_candidate_hash entry = ca_candidate_hash msg
                \<and> cr_candidate_ref entry = ca_candidate_ref msg
             then if \<not> verify_attest_sig (ce_sync e) (ca_signature msg) (tp_pubkey peer)
                    (cluster_sig_msg (ca_height msg) (ca_round msg) (ca_vote_object msg) (ca_candidate_hash msg) (ca_candidate_ref msg))
                  then n
                  else n\<lparr>cl_rounds := fmupd key (entry\<lparr>cr_attesters := fmupd member (ca_signature msg) (cr_attesters entry)\<rparr>) (cl_rounds n)\<rparr>
             else n)"

text \<open>A cluster frame of a peer; \<open>Some\<close> with what to answer, \<open>None\<close> is a panic while blocks are applied.\<close>

definition route_cluster_stub :: "ClusterEnv \<Rightarrow> string \<Rightarrow> ClusterMsg \<Rightarrow> ClusterNode \<Rightarrow> (ClusterAttestWire option \<times> ClusterNode) option" where
  "route_cluster_stub e node_id msg n =
     (if \<not> cc_enabled (ce_cfg e) then Some (None, n)
      else case fmlookup (cl_trusted n) node_id of
        None \<Rightarrow> Some (None, n)
      | Some peer \<Rightarrow>
          if \<not> tp_cluster_attest_enabled peer then Some (None, n)
          else (case peer_member_id peer of
            None \<Rightarrow> Some (None, n)
          | Some member \<Rightarrow>
              if member \<notin> set (cc_members (ce_cfg e)) then Some (None, n)
              else (case msg of
                ClusterPropose msg \<Rightarrow>
                  if \<not> cluster_role_ok (cc_role (ce_cfg e)) (tp_cluster_role peer) True then Some (None, n)
                  else map_option (\<lambda>n.
                    let n = record_cluster_prop msg member (Some (se_now (ce_sync e))) n
                    in (mk_cluster_attest e msg n, n)) (apply_prop_tail e msg n)
              | ClusterAttest msg \<Rightarrow>
                  if \<not> cluster_role_ok (cc_role (ce_cfg e)) (tp_cluster_role peer) False then Some (None, n)
                  else Some (None, on_attest e peer member msg (note_attester_tip node_id (ca_attester_tip_height msg) n)))))"

end
