(* ===== verification/Pwm_Seal_Loop.thy ===== *)
theory Pwm_Seal_Loop
  imports Pwm_Cluster
begin

text \<open>
  The sealing loop around a turn (src/crates/pwmd/src/lifecycle.rs): the cadence, the deadline on its grid, the
  attesters that are ready, the gates of the lease and of the cluster, and one pass of the loop from the
  poll to the checkpoint after the block.

  The clock is read once per pass. What is only reported (suppression counts, drift, profiles) is left out,
  except for the integer formulas of the drift.
\<close>

section \<open>Cadence\<close>

definition SEAL_HOUR_MS :: u64 where "SEAL_HOUR_MS = 3600000"
definition CLUSTER_ATTEST_JITTER_MS :: u64 where "CLUSTER_ATTEST_JITTER_MS = 500"
definition SEAL_DRIFT_STEP_PPM :: u64 where "SEAL_DRIFT_STEP_PPM = 10000"
definition SEAL_PPM_DENOM :: u64 where "SEAL_PPM_DENOM = 1000000"
definition SEAL_ENVELOPE_LO_NUM :: u64 where "SEAL_ENVELOPE_LO_NUM = 990"
definition SEAL_ENVELOPE_HI_NUM :: u64 where "SEAL_ENVELOPE_HI_NUM = 1010"
definition SEAL_ENVELOPE_DENOM :: u64 where "SEAL_ENVELOPE_DENOM = 1000"
definition SEAL_DRIFT_DEADBAND_PPM :: u64 where "SEAL_DRIFT_DEADBAND_PPM = 1000"
definition SEAL_POLL_INTERVAL_MS :: u64 where "SEAL_POLL_INTERVAL_MS = 10"
definition ATTESTER_LIVE_WINDOW_MS :: u64 where "ATTESTER_LIVE_WINDOW_MS = 5000"
definition CLUSTER_PROP_RETRY_CAP :: u8 where "CLUSTER_PROP_RETRY_CAP = 2"

definition seal_interval_ms :: "u64 \<Rightarrow> string + u64" where
  "seal_interval_ms bph =
     (if bph = 0 then Inl ''genesis blocks_per_hour must be greater than zero'' else Inr (max (SEAL_HOUR_MS div bph) 1))"

definition cluster_timing_ms :: "u64 \<Rightarrow> u64" where
  "cluster_timing_ms seal_ms =
     (let seal_ms = max seal_ms 1 in max (sat_mul seal_ms 2) (sat_add seal_ms CLUSTER_ATTEST_JITTER_MS))"

definition cluster_prop_ms :: "u64 \<Rightarrow> u64 \<Rightarrow> u64" where
  "cluster_prop_ms seal_ms heartbeat_ms = min (max heartbeat_ms 1) (max seal_ms 1)"

text \<open>The cluster configuration and the heartbeat interval.\<close>

definition apply_cluster_timing :: "ClusterCfg \<Rightarrow> u64 \<Rightarrow> u64 \<Rightarrow> string + (u64 \<times> ClusterCfg \<times> u64)" where
  "apply_cluster_timing cluster heartbeat_ms bph = (case seal_interval_ms bph of
     Inl e \<Rightarrow> Inl e
   | Inr seal_ms \<Rightarrow>
       if cc_enabled cluster
       then Inr (seal_ms, cluster\<lparr>cc_attest_timeout_ms := cluster_timing_ms seal_ms\<rparr>, cluster_prop_ms seal_ms heartbeat_ms)
       else Inr (seal_ms, cluster, heartbeat_ms))"

text \<open>The new interval and the change in millionths, truncated towards zero.\<close>

definition seal_drift_adjust_ms :: "u64 \<Rightarrow> u64 \<Rightarrow> u64 \<Rightarrow> u64 \<times> int" where
  "seal_drift_adjust_ms current_ms actual_ms expected_ms =
     (if current_ms \<le> 1 \<or> expected_ms = 0 \<or> actual_ms = expected_ms then (max current_ms 1, 0)
      else let cap = sat_mul current_ms SEAL_DRIFT_STEP_PPM div SEAL_PPM_DENOM
      in if cap = 0 then (current_ms, 0)
         else let next_ms = (if expected_ms < actual_ms then max (sat_sub current_ms cap) 1 else sat_add current_ms cap);
                  delta = uint next_ms - uint current_ms;
                  ppm = sgn delta * (\<bar>delta\<bar> * uint SEAL_PPM_DENOM div uint current_ms)
              in (next_ms, ppm))"

definition seal_drift_in_deadband :: "u64 \<Rightarrow> u64 \<Rightarrow> bool" where
  "seal_drift_in_deadband actual_ms expected_ms =
     (if expected_ms = 0 then False
      else let diff = max actual_ms expected_ms - min actual_ms expected_ms
           in sat_mul diff SEAL_PPM_DENOM div expected_ms < SEAL_DRIFT_DEADBAND_PPM)"

definition seal_drift_clamp_envelope :: "u64 \<Rightarrow> u64 \<Rightarrow> u64 \<times> bool" where
  "seal_drift_clamp_envelope nominal_ms effective_ms =
     (if nominal_ms = 0 then (max effective_ms 1, False)
      else let lo = sat_mul nominal_ms SEAL_ENVELOPE_LO_NUM div SEAL_ENVELOPE_DENOM;
               hi = sat_mul nominal_ms SEAL_ENVELOPE_HI_NUM div SEAL_ENVELOPE_DENOM;
               lo = max lo 1
           in if effective_ms < lo then (lo, True) else if hi < effective_ms then (hi, True) else (effective_ms, False))"

definition align_next_seal_ms :: "u64 \<Rightarrow> u64 \<Rightarrow> u64" where
  "align_next_seal_ms now_ms nominal_ms =
     (let nominal = max nominal_ms 1; bucket = now_ms div nominal in sat_mul (sat_add bucket 1) nominal)"

definition should_attempt_seal :: "u64 \<Rightarrow> u64 \<Rightarrow> bool" where
  "should_attempt_seal now_ms deadline_ms \<longleftrightarrow> deadline_ms \<le> now_ms"

definition should_fire_seal_ahead :: "u64 \<Rightarrow> u64 \<Rightarrow> u64 \<Rightarrow> u64 option \<Rightarrow> bool" where
  "should_fire_seal_ahead now_ms next_seal_time_ms ahead_ms fired_for_deadline =
     (if ahead_ms = 0 then False
      else if fired_for_deadline = Some next_seal_time_ms then False
      else let trigger_at = sat_sub next_seal_time_ms ahead_ms in trigger_at \<le> now_ms \<and> now_ms < next_seal_time_ms)"

definition poll_sleep_ms :: "u64 \<Rightarrow> u64 \<Rightarrow> u64 \<Rightarrow> u64" where
  "poll_sleep_ms now_ms deadline_ms poll_ms =
     (let poll = max poll_ms 1
      in if deadline_ms \<le> now_ms then poll else max (min (deadline_ms - now_ms) poll) 1)"

definition gate_recheck_needed :: "bool \<Rightarrow> bool \<Rightarrow> bool" where
  "gate_recheck_needed is_prop gate_ok \<longleftrightarrow> is_prop \<and> \<not> gate_ok"

section \<open>Attesters that are ready\<close>

fun is_peer_liveish :: "PeerStatus \<Rightarrow> bool" where
  "is_peer_liveish PeerAccepted = True"
| "is_peer_liveish PeerConnected = True"
| "is_peer_liveish PeerRetrying = True"
| "is_peer_liveish _ = False"

definition attester_alive :: "bool \<Rightarrow> u64 \<Rightarrow> u64 \<Rightarrow> u64 \<Rightarrow> bool" where
  "attester_alive connected last_seen_ms now_ms live_window_ms =
     (if \<not> connected then False
      else if last_seen_ms = 0 then False
      else sat_sub now_ms last_seen_ms \<le> live_window_ms)"

datatype SealPreflight = PreReady | PreWaitingAttester

definition cluster_seal_preflight :: "bool \<Rightarrow> u8 \<Rightarrow> u8 \<Rightarrow> SealPreflight" where
  "cluster_seal_preflight cluster_enabled live_attesters quorum_k =
     (if \<not> cluster_enabled then PreReady else if quorum_k \<le> live_attesters then PreReady else PreWaitingAttester)"

record AttSyncRes =
  as_live_n :: u8
  as_sync_n :: u8
  as_local_h :: u64
  as_peer_tip_max :: u64

definition member_in_cfg :: "string \<Rightarrow> string list \<Rightarrow> bool" where
  "member_in_cfg m members \<longleftrightarrow> list_ex (\<lambda>x. trim x = m) members"

definition counted_attester :: "ClusterNode \<Rightarrow> string list \<Rightarrow> string \<Rightarrow> u64 \<Rightarrow> string \<Rightarrow> TrustedPeer \<Rightarrow> bool" where
  "counted_attester n members local_member_id now_ms node_id trusted \<longleftrightarrow>
     tp_cluster_attest_enabled trusted \<and> tp_cluster_role trusted = Attester \<and>
     (case peer_member_id trusted of
        None \<Rightarrow> False
      | Some m \<Rightarrow> \<not> (local_member_id \<noteq> [] \<and> m = local_member_id) \<and> member_in_cfg m members) \<and>
     (case fmlookup (cl_peers n) node_id of
        None \<Rightarrow> False
      | Some row \<Rightarrow> attester_alive (is_peer_liveish (pr_status row)) (pr_last_seen_ms row) now_ms ATTESTER_LIVE_WINDOW_MS)"

definition att_fork_lock :: "u64 \<Rightarrow> SyncPeerState \<Rightarrow> bool" where
  "att_fork_lock local_h st \<longleftrightarrow> sp_fork_h st = Some (sat_add local_h 1) \<and> 3 \<le> sp_fork_n st"

definition count_u8 :: "'a fset \<Rightarrow> u8" where
  "count_u8 A = of_nat (min (fcard A) 255)"

text \<open>The counters of the loop over the trusted peers saturate.\<close>

definition count_sync_ready_hs :: "ClusterNode \<Rightarrow> string list \<Rightarrow> string \<Rightarrow> u64 \<Rightarrow> u64 \<Rightarrow> AttSyncRes" where
  "count_sync_ready_hs n members local_member_id now_ms local_h =
     (let live = ffilter (\<lambda>k. case fmlookup (cl_trusted n) k of
            Some t \<Rightarrow> counted_attester n members (trim local_member_id) now_ms k t | None \<Rightarrow> False) (fmdom (cl_trusted n));
          synced = ffilter (\<lambda>k. case fmlookup (sy_peers (cl_sync n)) k of Some st \<Rightarrow> \<not> att_fork_lock local_h st | None \<Rightarrow> True) live;
          tips = (\<lambda>k. case fmlookup (sy_peers (cl_sync n)) k of Some st \<Rightarrow> sp_tip_h st | None \<Rightarrow> 0) |`| live
      in \<lparr> as_live_n = count_u8 live, as_sync_n = count_u8 synced, as_local_h = local_h,
           as_peer_tip_max = fMax (finsert 0 tips) \<rparr>)"

definition count_sync_ready_attesters :: "ClusterEnv \<Rightarrow> ClusterNode \<Rightarrow> AttSyncRes" where
  "count_sync_ready_attesters e n =
     count_sync_ready_hs n (cc_members (ce_cfg e)) (trim (ce_instance_id e)) (se_now (ce_sync e)) (tip_h (cluster_chain n))"

section \<open>The gates\<close>

text \<open>The acknowledgements of a round, counted as the code casts them.\<close>

definition ack_set :: "string list \<Rightarrow> ClusterRoundState \<Rightarrow> string fset" where
  "ack_set members row =
     (let proposer = (case cr_proposer_id row of Some p \<Rightarrow> p | None \<Rightarrow> [])
      in ffilter (\<lambda>m. m \<noteq> proposer \<and> m \<in> set members) (fmdom (cr_attesters row)))"

definition ack_n :: "string list \<Rightarrow> ClusterRoundState \<Rightarrow> u8" where
  "ack_n members row = of_nat (fcard (ack_set members row))"

definition run_cluster_gate :: "ClusterEnv \<Rightarrow> ClusterNode \<Rightarrow> bool \<times> ClusterNode" where
  "run_cluster_gate e n =
     (if \<not> cc_enabled (ce_cfg e) then (True, n)
      else let next_h = sat_add (tip_h (cluster_chain n)) 1
      in case fmlookup (cl_rounds n) (next_h, 0) of
           None \<Rightarrow> (False, n)
         | Some row \<Rightarrow>
             if trim (cr_vote_object row) = [] \<or> trim (cr_candidate_hash row) = [] then (False, n)
             else if \<not> (case cr_proposer_id row of Some p \<Rightarrow> p \<in> set (cc_members (ce_cfg e)) | None \<Rightarrow> False) then (False, n)
             else let acks = ack_n (cc_members (ce_cfg e)) row
             in if acks < cc_quorum_k (ce_cfg e)
                then (case cr_propose_opened_at_ms row of
                   Some t0 \<Rightarrow>
                     if cc_attest_timeout_ms (ce_cfg e) < sat_sub (se_now (ce_sync e)) t0 \<and> acks = 0
                     then (case maybe_retry_round next_h 0 CLUSTER_PROP_RETRY_CAP n of
                        (Some _, n) \<Rightarrow> (False, n\<lparr>cl_nudge := True\<rparr>)
                      | (None, n) \<Rightarrow> (False, n))
                     else (False, n)
                 | None \<Rightarrow> (False, n))
                else (True, n))"

datatype DeploymentProfile = SingleSealer | MultiSealerExperimental

text \<open>The lease of a validator: the store, what the node reads, whether its own lock is poisoned.\<close>

record 's LeaseGate =
  lg_backend :: "'s lease_backend"
  lg_profile :: DeploymentProfile
  lg_validator :: string
  lg_cfg :: LeaseCfg
  lg_poisoned :: bool

definition lease_node :: "LeaseRuntime \<Rightarrow> ClusterNode \<Rightarrow> ClusterNode" where
  "lease_node rt n = n\<lparr>cl_sync := (cl_sync n)\<lparr>sy_api := (sy_api (cl_sync n))\<lparr>ap_lease := rt\<rparr>\<rparr>\<rparr>"

definition run_lease_gate :: "'s LeaseGate \<Rightarrow> ClusterEnv \<Rightarrow> ClusterNode \<times> 's \<Rightarrow> bool \<times> ClusterNode \<times> 's" where
  "run_lease_gate g e = (\<lambda>(n, s).
     if lg_profile g \<noteq> SingleSealer then (True, n, s)
     else if lg_poisoned g then (False, n, s)
     else let (step, rt, s) = step_lease (lg_backend g) (lg_validator g) (ce_instance_id e) (se_now (ce_sync e))
                (tip_h (cluster_chain n)) (lg_cfg g) (ap_lease (sy_api (cl_sync n))) s
          in (st_allow_seal step, lease_node rt n, s))"

section \<open>Who seals a height\<close>

definition local_prod_for_h :: "ClusterEnv \<Rightarrow> u64 \<Rightarrow> ClusterNode \<Rightarrow> string + bool" where
  "local_prod_for_h e h n =
     (let local_id = trim (ce_instance_id e)
      in if local_id = [] then Inr False
         else let c = cluster_chain n; st = roll_epoch_if_needed (ch_cfg c) h (ch_st c)
         in case pick_prod_idx h (active_validator_indices st) of
              Inl e \<Rightarrow> Inl e
            | Inr prod_idx \<Rightarrow> Inr (member_at (cc_members (ce_cfg e)) (unat prod_idx) = Some local_id))"

text \<open>A missed height is passed over: the next height counts from it, without a block.\<close>

definition skip_missed_h :: "u64 \<Rightarrow> ApiNode \<Rightarrow> bool \<times> ApiNode" where
  "skip_missed_h h n =
     (if sat_add (tip_h (api_chain n)) 1 \<noteq> h then (False, n) else (True, with_chain (set_canon_h h (api_chain n)) n))"

definition seal_manual_paused :: "ClusterEnv \<Rightarrow> ClusterNode \<Rightarrow> bool" where
  "seal_manual_paused e n \<longleftrightarrow> cc_enabled (ce_cfg e) \<and> cc_role (ce_cfg e) = Proposer \<and> cl_manual_target n \<noteq> None"

section \<open>One attempt\<close>

text \<open>From collecting the entries to the checkpoint. \<open>wrote\<close> is the outcome of handing the block to the writer of the
  block files, \<open>backend\<close> the snapshot backend with the outcome of saving; the copy to roll back to is taken
  after the pool was drained. \<open>None\<close> is a panic, \<open>True\<close> a sealed block.\<close>

definition snap_after_seal :: "string + unit \<Rightarrow> (string option \<times> (string + unit)) option \<Rightarrow> u64 \<Rightarrow> (string option \<times> (string + unit)) option" where
  "snap_after_seal wrote backend h = (case wrote of
     Inr _ \<Rightarrow> (if autosnap_hit h then backend else None)
   | Inl e \<Rightarrow> map_option (\<lambda>(path, _). (path, Inl e)) backend)"

definition seal_attempt ::
  "extlib \<Rightarrow> codecs \<Rightarrow> u64 option \<Rightarrow> u64 option \<Rightarrow> string + unit \<Rightarrow> (string option \<times> (string + unit)) option
     \<Rightarrow> u64 \<times> ApiNode \<Rightarrow> (bool \<times> u64 \<times> ApiNode) option" where
  "seal_attempt ext enc clock clock' wrote backend = (\<lambda>(last_snap, n).
     let (entries, m) = collect_entries ext (ap_node n); n1 = n\<lparr>ap_node := m\<rparr>; now_h = tip_h (sn_chain m)
     in if backend \<noteq> None \<and> checked_add now_h 1 = None then None
        else let bak_opt = (if backend \<noteq> None \<and> autosnap_hit (now_h + 1) then Some (take_bak n1) else None)
        in case seal_entries ext enc clock entries (sn_chain m) of
             Panicked \<Rightarrow> None
           | Done c \<Rightarrow> map_option (\<lambda>m.
               let h = tip_h c
               in (True, periodic_snap_finish h bak_opt (snap_after_seal wrote backend h) (last_snap, n1\<lparr>ap_node := m\<rparr>)))
               (seal_success ext c m)
           | Failed (err, ts) c \<Rightarrow>
               map_option (\<lambda>m. (False, last_snap, n1\<lparr>ap_node := m\<rparr>)) (seal_failure ext clock' err ts (m\<lparr>sn_chain := c\<rparr>)))"

section \<open>One pass of the loop\<close>

record SealLoopState =
  ll_next_seal_time_ms :: u64
  ll_ahead_fired_for :: "u64 option"
  ll_miss_watch_h :: "u64 option"
  ll_miss_watch_at_ms :: u64
  ll_active_deadline_ms :: "u64 option"

record SealPollEnv =
  pv_nominal_ms :: u64
  pv_debug_disable :: bool
  pv_clock :: "u64 option"
  pv_clock_after :: "u64 option"
  pv_append :: "string + unit"
  pv_backend :: "(string option \<times> (string + unit)) option"

datatype PollResult = PollManual | PollEarly | PollInit | PollDisabled | PollAttester | PollWaiting | PollFatal | PollNotPrimary
  | PollLease | PollCluster | PollSealed | PollFailed

definition is_proposer :: "ClusterEnv \<Rightarrow> bool" where
  "is_proposer e \<longleftrightarrow> cc_enabled (ce_cfg e) \<and> cc_role (ce_cfg e) = Proposer"

definition preflight :: "ClusterEnv \<Rightarrow> ClusterNode \<Rightarrow> SealPreflight" where
  "preflight e n = cluster_seal_preflight True (as_sync_n (count_sync_ready_attesters e n)) (cc_quorum_k (ce_cfg e))"

text \<open>The eager proposal before the deadline.\<close>

definition seal_ahead :: "ClusterEnv \<Rightarrow> SealLoopState \<times> ClusterNode \<Rightarrow> SealLoopState \<times> ClusterNode" where
  "seal_ahead e = (\<lambda>(l, n).
     if is_proposer e \<and> 0 < cc_seal_ahead_ms (ce_cfg e) \<and>
        should_fire_seal_ahead (se_now (ce_sync e)) (ll_next_seal_time_ms l) (cc_seal_ahead_ms (ce_cfg e)) (ll_ahead_fired_for l) \<and>
        preflight e n = PreReady
     then (l\<lparr>ll_ahead_fired_for := Some (ll_next_seal_time_ms l)\<rparr>, record_cluster_prop_tick e (n\<lparr>cl_nudge := True\<rparr>))
     else (l, n))"

definition watch_miss :: "u64 \<Rightarrow> u64 \<Rightarrow> SealLoopState \<Rightarrow> SealLoopState" where
  "watch_miss now_ms lead_h l =
     (if ll_miss_watch_h l \<noteq> Some lead_h then l\<lparr>ll_miss_watch_h := Some lead_h, ll_miss_watch_at_ms := now_ms\<rparr> else l)"

definition with_api :: "ApiNode \<Rightarrow> ClusterNode \<Rightarrow> ClusterNode" where
  "with_api a n = n\<lparr>cl_sync := (cl_sync n)\<lparr>sy_api := a\<rparr>\<rparr>"

text \<open>The part of a pass that only a proposer of a cluster runs: \<open>Inr\<close> goes on to the gates.\<close>

definition proposer_turn :: "SealPollEnv \<Rightarrow> ClusterEnv \<Rightarrow> SealLoopState \<times> ClusterNode
    \<Rightarrow> (PollResult \<times> SealLoopState \<times> ClusterNode) + (SealLoopState \<times> ClusterNode)" where
  "proposer_turn p e = (\<lambda>(l, n).
     let now_ms = se_now (ce_sync e)
     in if preflight e n = PreWaitingAttester then Inl (PollWaiting, l, n)
        else let lead_h = sat_add (tip_h (cluster_chain n)) 1
        in case local_prod_for_h e lead_h n of
             Inl _ \<Rightarrow>
               if active_validator_indices (ch_st (cluster_chain n)) = [] then Inl (PollFatal, l, n)
               else Inl (PollNotPrimary, watch_miss now_ms lead_h l, n)
           | Inr False \<Rightarrow>
               let l = watch_miss now_ms lead_h l
               in if pv_nominal_ms p \<le> sat_sub now_ms (ll_miss_watch_at_ms l)
                  then (let (skipped, a) = skip_missed_h lead_h (sy_api (cl_sync n))
                        in if skipped
                           then Inl (PollNotPrimary, l\<lparr>ll_miss_watch_h := None, ll_next_seal_time_ms := align_next_seal_ms now_ms (pv_nominal_ms p)\<rparr>, with_api a n)
                           else Inl (PollNotPrimary, l, n))
                  else Inl (PollNotPrimary, l, n)
           | Inr True \<Rightarrow>
               let l = l\<lparr>ll_miss_watch_h := None\<rparr>
               in if ll_active_deadline_ms l = Some (ll_next_seal_time_ms l) then Inr (l, n)
                  else Inr (l\<lparr>ll_active_deadline_ms := Some (ll_next_seal_time_ms l)\<rparr>, record_cluster_prop_tick e n))"

definition gate_twice :: "ClusterEnv \<Rightarrow> ClusterNode \<Rightarrow> bool \<times> ClusterNode" where
  "gate_twice e n =
     (let (gate_ok, n) = run_cluster_gate e n in if gate_recheck_needed (is_proposer e) gate_ok then run_cluster_gate e n else (gate_ok, n))"

definition attempt_phase :: "SealPollEnv \<Rightarrow> ClusterEnv \<Rightarrow> SealLoopState \<times> ClusterNode \<Rightarrow> (PollResult \<times> SealLoopState \<times> ClusterNode) option" where
  "attempt_phase p e = (\<lambda>(l, n).
     let now_ms = se_now (ce_sync e); scheduled_next = align_next_seal_ms now_ms (pv_nominal_ms p)
     in case seal_attempt (se_ext (ce_sync e)) (se_enc (ce_sync e)) (pv_clock p) (pv_clock_after p) (pv_append p) (pv_backend p)
               (sy_last_snap (cl_sync n), sy_api (cl_sync n)) of
          None \<Rightarrow> None
        | Some (True, last_snap, a) \<Rightarrow>
            let n = n\<lparr>cl_sync := (cl_sync n)\<lparr>sy_last_snap := last_snap, sy_api := a\<rparr>\<rparr>;
                l = l\<lparr>ll_next_seal_time_ms := scheduled_next\<rparr>
            in Some (PollSealed, if is_proposer e then l\<lparr>ll_active_deadline_ms := None\<rparr> else l, n)
        | Some (False, last_snap, a) \<Rightarrow>
            Some (PollFailed, l\<lparr>ll_next_seal_time_ms := sat_add now_ms SEAL_POLL_INTERVAL_MS\<rparr>, with_api a n))"

definition seal_poll :: "'s LeaseGate \<Rightarrow> SealPollEnv \<Rightarrow> ClusterEnv \<Rightarrow> SealLoopState \<times> ClusterNode \<times> 's
    \<Rightarrow> (PollResult \<times> SealLoopState \<times> ClusterNode \<times> 's) option" where
  "seal_poll g p e = (\<lambda>(l, n, s).
     if seal_manual_paused e n then Some (PollManual, l, n, s)
     else let (l, n) = seal_ahead e (l, n)
     in if \<not> should_attempt_seal (se_now (ce_sync e)) (ll_next_seal_time_ms l) then Some (PollEarly, l, n, s)
        else if \<not> allows_chain_progress (gt_init (ap_gates (sy_api (cl_sync n)))) then Some (PollInit, l, n, s)
        else if pv_debug_disable p then Some (PollDisabled, l, n, s)
        else if cc_enabled (ce_cfg e) \<and> cc_role (ce_cfg e) = Attester then Some (PollAttester, l, n, s)
        else case (if is_proposer e then proposer_turn p e (l, n) else Inr (l, n)) of
          Inl (r, l, n) \<Rightarrow> Some (r, l, n, s)
        | Inr (l, n) \<Rightarrow> (case run_lease_gate g e (n, s) of
            (False, n, s) \<Rightarrow> Some (PollLease, l, n, s)
          | (True, n, s) \<Rightarrow> (case gate_twice e n of
              (False, n) \<Rightarrow> Some (PollCluster, l, n, s)
            | (True, n) \<Rightarrow> map_option (\<lambda>(r, l, n). (r, l, n, s)) (attempt_phase p e (l, n)))))"

end
