(* ===== verification/Pwm_Quorum.thy ===== *)
theory Pwm_Quorum
  imports Pwm_Seal_Loop Pwm_Sync_Props
begin

text \<open>
  What the attestation rounds of a cluster guarantee, and what they do not.

  A vote is a signature in the row of a round. \<open>votes_ok\<close> says that every vote verifies under the key of a
  trusted attester for that height and round; it is the invariant of \<open>quorum_reach\<close>, the states a node gets to by
  the frames, proposals and passes of its sealing loop, whatever the clock and the rest of the node do
  in between.
\<close>

section \<open>Votes\<close>

definition vote_ok :: "ClusterEnv \<Rightarrow> ClusterNode \<Rightarrow> round_key \<Rightarrow> string \<Rightarrow> string \<Rightarrow> bool" where
  "vote_ok e n key member sig \<longleftrightarrow> (\<exists>node_id peer vote cand cref. fmlookup (cl_trusted n) node_id = Some peer \<and>
     tp_cluster_attest_enabled peer \<and> tp_cluster_role peer = Attester \<and> peer_member_id peer = Some member \<and>
     verify_attest_sig (ce_sync e) sig (tp_pubkey peer) (cluster_sig_msg (fst key) (snd key) vote cand cref))"

definition votes_ok :: "ClusterEnv \<Rightarrow> ClusterNode \<Rightarrow> bool" where
  "votes_ok e n \<longleftrightarrow> (\<forall>key row m sig. fmlookup (cl_rounds n) key = Some row \<longrightarrow> fmlookup (cr_attesters row) m = Some sig \<longrightarrow>
     vote_ok e n key m sig)"

text \<open>The operations that only handle proposals keep the trusted peers and bring no vote.\<close>

definition votes_kept :: "ClusterNode \<Rightarrow> ClusterNode \<Rightarrow> bool" where
  "votes_kept n m \<longleftrightarrow> cl_trusted m = cl_trusted n \<and> (\<forall>key row. fmlookup (cl_rounds m) key = Some row \<longrightarrow>
     cr_attesters row = fmempty \<or> (\<exists>row0. fmlookup (cl_rounds n) key = Some row0 \<and> cr_attesters row = cr_attesters row0))"

lemma votes_kept_ok: "votes_kept n m \<Longrightarrow> votes_ok e n \<Longrightarrow> votes_ok e m"
  unfolding votes_ok_def votes_kept_def vote_ok_def by (metis fmempty_lookup option.distinct(1))

lemma votes_kept_same: "cl_trusted m = cl_trusted n \<Longrightarrow> cl_rounds m = cl_rounds n \<Longrightarrow> votes_kept n m"
  by (auto simp: votes_kept_def)

lemma votes_kept_refl [simp]: "votes_kept n n"
  by (simp add: votes_kept_same)

lemma votes_kept_trans: "votes_kept n m \<Longrightarrow> votes_kept m k \<Longrightarrow> votes_kept n k"
  unfolding votes_kept_def by metis

lemma votes_kept_row:
  assumes "cl_trusted m = cl_trusted n" "cl_rounds m = fmupd key row (cl_rounds n)"
    and "cr_attesters row = fmempty \<or> (\<exists>row0. fmlookup (cl_rounds n) key = Some row0 \<and> cr_attesters row = cr_attesters row0)"
  shows "votes_kept n m"
  using assms by (auto simp: votes_kept_def)

section \<open>Proposals\<close>

text \<open>The comparison that should drop the votes never sees a difference.\<close>

lemma bound_row_attesters [simp]: "cr_attesters (bound_row msg who t row) = cr_attesters row"
  by (simp add: bound_row_def Let_def)

lemma bound_row_binding [simp]:
  "cr_vote_object (bound_row msg who t row) = cp_vote_object msg" "cr_candidate_hash (bound_row msg who t row) = cp_candidate_hash msg"
  "cr_candidate_ref (bound_row msg who t row) = cp_candidate_ref msg" "cr_proposer_id (bound_row msg who t row) = Some who"
  by (simp_all add: bound_row_def Let_def)

lemma record_prop_kept: "votes_kept n (record_cluster_prop msg who t n)"
  by (rule votes_kept_row [of _ _ "(cp_height msg, cp_round msg)"])
     (auto simp: record_cluster_prop_def Let_def round_default_def split: option.splits)

lemma record_tick_kept: "votes_kept n (record_cluster_prop_tick e n)"
  by (simp add: record_cluster_prop_tick_def record_prop_kept split: option.splits)

lemma mark_opened_kept: "votes_kept n (mark_cluster_prop_opened h r t n)"
  by (auto simp: mark_cluster_prop_opened_def intro!: votes_kept_row [of _ _ "(h, r)"] split: option.splits)

lemma retry_kept: "maybe_retry_round h r k n = (a, m) \<Longrightarrow> votes_kept n m"
  by (auto simp: maybe_retry_round_def Let_def intro!: votes_kept_row [of _ _ "(h, r)"] split: option.splits if_splits)

lemma write_cluster_kept: "write_cluster msg n = (a, m) \<Longrightarrow> cl_trusted m = cl_trusted n \<and> cl_rounds m = cl_rounds n"
  by (auto simp: write_cluster_def Let_def split: list.splits if_splits)

lemma send_prop_kept:
  assumes "send_cluster_prop e r n = (a, m)"
  shows "votes_kept n m"
proof -
  consider "m = n" | msg k where "write_cluster (ClusterPropose msg) n = (Inr (), k)"
      "m = (mark_cluster_prop_opened (cp_height msg) (cp_round msg) (se_now (ce_sync e))
            (record_cluster_prop msg (trim (ce_instance_id e)) (Some (se_now (ce_sync e))) k))
            \<lparr>cl_sent_key := fmupd (cm_node_id r) (cp_height msg, cp_round msg) (cl_sent_key (mark_cluster_prop_opened (cp_height msg)
              (cp_round msg) (se_now (ce_sync e)) (record_cluster_prop msg (trim (ce_instance_id e)) (Some (se_now (ce_sync e))) k)))\<rparr>"
    | msg err where "write_cluster (ClusterPropose msg) n = (Inl err, m)"
    using assms by (auto simp: send_cluster_prop_def Let_def split: option.splits if_splits prod.splits sum.splits)
  then show ?thesis
  proof cases
    case 2
    let ?k1 = "record_cluster_prop msg (trim (ce_instance_id e)) (Some (se_now (ce_sync e))) k"
    have "votes_kept n k" using write_cluster_kept [OF 2(1)] by (simp add: votes_kept_same)
    also have "votes_kept k ?k1" by (rule record_prop_kept)
    finally (votes_kept_trans) have "votes_kept n (mark_cluster_prop_opened (cp_height msg) (cp_round msg) (se_now (ce_sync e)) ?k1)"
      using mark_opened_kept votes_kept_trans by blast
    then show ?thesis by (rule votes_kept_trans) (simp add: 2(2) votes_kept_same)
  qed (use write_cluster_kept in \<open>auto intro: votes_kept_same\<close>)
qed

lemma nudge_kept:
  assumes "try_prop_nudge e r n = (a, m)"
  shows "votes_kept n m"
proof (cases "m = n")
  case False
  with assms have "send_cluster_prop e r (n\<lparr>cl_nudge := False\<rparr>) = (a, m)" by (simp add: try_prop_nudge_def split: if_splits)
  from send_prop_kept [OF this] show ?thesis by (rule votes_kept_trans [OF votes_kept_same, rotated 2]) simp_all
qed simp

section \<open>The loop\<close>

lemma gate_kept: "run_cluster_gate e n = (b, m) \<Longrightarrow> votes_kept n m \<and> cl_sync m = cl_sync n"
  by (auto simp: run_cluster_gate_def Let_def maybe_retry_round_def votes_kept_def split: option.splits if_splits prod.splits)

lemma gate_twice_kept: "gate_twice e n = (b, m) \<Longrightarrow> votes_kept n m \<and> cl_sync m = cl_sync n"
  by (auto simp: gate_twice_def split: prod.splits if_splits dest!: gate_kept intro: votes_kept_trans)

lemma record_prop_sync [simp]: "cl_sync (record_cluster_prop msg who t n) = cl_sync n"
  by (simp add: record_cluster_prop_def Let_def)

lemma record_tick_sync [simp]: "cl_sync (record_cluster_prop_tick e n) = cl_sync n"
  by (simp add: record_cluster_prop_tick_def split: option.splits)

lemma seal_ahead_kept:
  assumes "seal_ahead e (l, n) = (l', m)"
  shows "votes_kept n m" "cl_sync m = cl_sync n"
proof -
  have k: "votes_kept n (record_cluster_prop_tick e (n\<lparr>cl_nudge := True\<rparr>))"
    by (rule votes_kept_trans [OF votes_kept_same record_tick_kept]) simp_all
  show "votes_kept n m" "cl_sync m = cl_sync n"
    using assms k by (auto simp: seal_ahead_def split: if_splits)
qed

lemma proposer_turn_kept:
  "proposer_turn p e (l, n) = Inr (l', m) \<Longrightarrow> votes_kept n m \<and> cl_sync m = cl_sync n"
  "proposer_turn p e (l, n) = Inl (r, l', m) \<Longrightarrow> cl_trusted m = cl_trusted n \<and> cl_rounds m = cl_rounds n"
  by (auto simp: proposer_turn_def Let_def record_tick_kept with_api_def split: if_splits sum.splits bool.splits prod.splits)

lemma lease_gate_kept: "run_lease_gate g e (n, s) = (b, m, s') \<Longrightarrow> votes_kept n m \<and> cl_rounds m = cl_rounds n \<and> cluster_chain m = cluster_chain n"
  by (auto simp: run_lease_gate_def lease_node_def split: if_splits prod.splits intro!: votes_kept_same)

lemma attempt_kept: "attempt_phase p e (l, n) = Some (r, l', m) \<Longrightarrow> cl_trusted m = cl_trusted n \<and> cl_rounds m = cl_rounds n"
  by (auto simp: attempt_phase_def Let_def with_api_def split: option.splits if_splits prod.splits bool.splits)

text \<open>A pass that seals went through every gate.\<close>

lemma poll_cases:
  assumes "seal_poll g p e (l, n, s) = Some (r, l', m, s')"
  obtains (stay) "cl_trusted m = cl_trusted n" "cl_rounds m = cl_rounds n" "r \<noteq> PollSealed"
  | (wait) "votes_kept n m" "r \<noteq> PollSealed"
  | (attempt) l2 n1 n2 n3 where
      "votes_kept n n1" "cl_sync n1 = cl_sync n" "run_lease_gate g e (n1, s) = (True, n2, s')" "gate_twice e n2 = (True, n3)"
      "attempt_phase p e (l2, n3) = Some (r, l', m)" "allows_chain_progress (gt_init (ap_gates (sy_api (cl_sync n))))"
      "\<not> (cc_enabled (ce_cfg e) \<and> cc_role (ce_cfg e) = Attester)"
proof (cases "seal_manual_paused e n")
  case True
  with assms stay show thesis by (simp add: seal_poll_def)
next
  case False
  obtain l1 n1 where a: "seal_ahead e (l, n) = (l1, n1)" by fastforce
  note k1 = seal_ahead_kept [OF a]
  show thesis
  proof (cases "should_attempt_seal (se_now (ce_sync e)) (ll_next_seal_time_ms l1) \<and>
      allows_chain_progress (gt_init (ap_gates (sy_api (cl_sync n1)))) \<and> \<not> pv_debug_disable p \<and>
      \<not> (cc_enabled (ce_cfg e) \<and> cc_role (ce_cfg e) = Attester)")
    case no: False
    with assms False a have "m = n1 \<and> r \<noteq> PollSealed" by (auto simp: seal_poll_def split: if_splits)
    with k1 wait show thesis by simp
  next
    case yes: True
    define t where "t = (if is_proposer e then proposer_turn p e (l1, n1) else Inr (l1, n1))"
    have poll: "(case t of Inl (r, l, n) \<Rightarrow> Some (r, l, n, s)
        | Inr (l, n) \<Rightarrow> (case run_lease_gate g e (n, s) of
            (False, n, s) \<Rightarrow> Some (PollLease, l, n, s)
          | (True, n, s) \<Rightarrow> (case gate_twice e n of
              (False, n) \<Rightarrow> Some (PollCluster, l, n, s)
            | (True, n) \<Rightarrow> map_option (\<lambda>(r, l, n). (r, l, n, s)) (attempt_phase p e (l, n))))) = Some (r, l', m, s')"
      using assms yes by (simp add: seal_poll_def False a t_def)
    show thesis
    proof (cases t)
      case (Inl x)
      obtain r1 l2 n2 where x: "x = (r1, l2, n2)" by (cases x)
      with poll Inl have "r = r1" "m = n2" by simp_all
      moreover from Inl x have turn: "proposer_turn p e (l1, n1) = Inl (r1, l2, n2)" by (simp add: t_def split: if_splits)
      moreover have "r1 \<noteq> PollSealed"
        using turn by (auto simp: proposer_turn_def Let_def split: if_splits sum.splits bool.splits prod.splits)
      ultimately show thesis using wait votes_kept_trans [OF k1(1) votes_kept_same] proposer_turn_kept(2) [OF turn] by simp
    next
      case (Inr x)
      obtain l2 n2 where x: "x = (l2, n2)" by (cases x)
      with Inr proposer_turn_kept(1) [of p e l1 n1 l2 n2] have k2: "votes_kept n1 n2" "cl_sync n2 = cl_sync n1"
        by (auto simp: t_def split: if_splits)
      obtain b n3 s3 where lease: "run_lease_gate g e (n2, s) = (b, n3, s3)" using prod_cases3 by blast
      obtain b' n4 where gate: "gate_twice e n3 = (b', n4)" by fastforce
      note k3 = lease_gate_kept [OF lease] and k4 = gate_twice_kept [OF gate]
      show thesis
      proof (cases "b \<and> b'")
        case False
        with poll Inr x lease gate have "r \<noteq> PollSealed \<and> (m = n3 \<or> m = n4)" by (auto split: bool.splits)
        with wait k1 k2 k3 k4 votes_kept_trans show thesis by metis
      next
        case True
        with poll Inr x lease gate have turn: "attempt_phase p e (l2, n4) = Some (r, l', m)" "s3 = s'" by auto
        show thesis
        proof (rule attempt)
          show "votes_kept n n2" using k1(1) k2(1) by (rule votes_kept_trans)
          show "cl_sync n2 = cl_sync n" using k1(2) k2(2) by simp
          show "run_lease_gate g e (n2, s) = (True, n3, s')" "gate_twice e n3 = (True, n4)" using True lease gate turn(2) by simp_all
          show "allows_chain_progress (gt_init (ap_gates (sy_api (cl_sync n))))" using yes k1(2) by simp
          show "\<not> (cc_enabled (ce_cfg e) \<and> cc_role (ce_cfg e) = Attester)" using yes by blast
        qed (rule turn(1))
      qed
    qed
  qed
qed

lemma poll_kept:
  assumes "seal_poll g p e (l, n, s) = Some (r, l', m, s')"
  shows "votes_kept n m"
  using assms
proof (cases rule: poll_cases)
  case (attempt l2 n1 n2 n3)
  have "votes_kept n1 n3" using lease_gate_kept [OF attempt(3)] gate_twice_kept [OF attempt(4)] votes_kept_trans by blast
  moreover have "votes_kept n3 m" using attempt_kept [OF attempt(5)] by (simp add: votes_kept_same)
  ultimately show ?thesis using attempt(1) votes_kept_trans by blast
qed (auto intro: votes_kept_same)

section \<open>Attestations\<close>

lemma note_tip_same [simp]: "cl_trusted (note_attester_tip i t n) = cl_trusted n" "cl_rounds (note_attester_tip i t n) = cl_rounds n"
  by (simp_all add: note_attester_tip_def Let_def split: option.splits)

lemma on_attest_trusted [simp]: "cl_trusted (on_attest e peer member msg n) = cl_trusted n"
  by (simp add: on_attest_def Let_def split: option.splits)

lemma on_attest_votes:
  assumes "votes_ok e n" "fmlookup (cl_trusted n) node_id = Some peer" "tp_cluster_attest_enabled peer" "tp_cluster_role peer = Attester"
    and "peer_member_id peer = Some member"
  shows "votes_ok e (on_attest e peer member msg n)"
proof -
  let ?key = "(ca_height msg, ca_round msg)"
  have keep: "vote_ok e (on_attest e peer member msg n) k m s \<longleftrightarrow> vote_ok e n k m s" for k m s by (simp add: vote_ok_def)
  show ?thesis
  proof (cases "on_attest e peer member msg n = n")
    case False
    then obtain row where row: "fmlookup (cl_rounds n) ?key = Some row"
        "verify_attest_sig (ce_sync e) (ca_signature msg) (tp_pubkey peer)
          (cluster_sig_msg (ca_height msg) (ca_round msg) (ca_vote_object msg) (ca_candidate_hash msg) (ca_candidate_ref msg))"
        "cl_rounds (on_attest e peer member msg n) =
          fmupd ?key (row\<lparr>cr_attesters := fmupd member (ca_signature msg) (cr_attesters row)\<rparr>) (cl_rounds n)"
      by (auto simp: on_attest_def Let_def split: option.splits if_splits)
    have "vote_ok e n ?key member (ca_signature msg)"
      unfolding vote_ok_def fst_conv snd_conv using assms(2-5) row(2) by blast
    with assms(1) row(1,3) show ?thesis unfolding votes_ok_def keep by (auto split: if_splits)
  qed (simp add: assms(1))
qed

lemma tail_kept: "apply_prop_tail e msg n = Some m \<Longrightarrow> votes_kept n m"
  by (auto simp: apply_prop_tail_def Let_def intro!: votes_kept_same split: if_splits)

lemma cluster_frame_votes:
  assumes "votes_ok e n" "route_cluster_stub e node_id msg n = Some (a, m)"
  shows "votes_ok e m"
proof -
  consider "m = n" | p who k where "apply_prop_tail e p n = Some k" "m = record_cluster_prop p who (Some (se_now (ce_sync e))) k"
    | peer member att where "fmlookup (cl_trusted n) node_id = Some peer" "tp_cluster_attest_enabled peer" "tp_cluster_role peer = Attester"
        "peer_member_id peer = Some member" "m = on_attest e peer member att (note_attester_tip node_id (ca_attester_tip_height att) n)"
    using assms(2) by (auto simp: route_cluster_stub_def Let_def cluster_role_ok_def split: option.splits if_splits ClusterMsg.splits)
  then show ?thesis
  proof cases
    case 2
    then show ?thesis using assms(1) votes_kept_ok votes_kept_trans [OF tail_kept record_prop_kept] by blast
  next
    case 3
    have "votes_ok e (note_attester_tip node_id (ca_attester_tip_height att) n)"
      by (rule votes_kept_ok [OF votes_kept_same assms(1)]) simp_all
    with 3 show ?thesis by (simp add: on_attest_votes)
  qed (use assms in simp)
qed

section \<open>States a node gets to\<close>

definition same_cluster :: "ClusterEnv \<Rightarrow> ClusterEnv \<Rightarrow> bool" where
  "same_cluster e f \<longleftrightarrow> ce_cfg e = ce_cfg f \<and> se_ext (ce_sync e) = se_ext (ce_sync f) \<and> se_lib (ce_sync e) = se_lib (ce_sync f)"

text \<open>The clock and the files are other ones at every step; \<open>'s\<close> is the store of the lease, which other nodes
  change as well. \<open>qr_other\<close> is whatever does not touch the rounds: synchronisation, submissions, links.\<close>

inductive quorum_reach :: "ClusterEnv \<Rightarrow> ClusterNode \<times> 's \<Rightarrow> bool" for e0 where
  qr_start: "cl_rounds n = fmempty \<Longrightarrow> quorum_reach e0 (n, s)"
| qr_frame: "quorum_reach e0 (n, s) \<Longrightarrow> same_cluster e e0 \<Longrightarrow> route_cluster_stub e node_id msg n = Some (a, m) \<Longrightarrow> quorum_reach e0 (m, s)"
| qr_send: "quorum_reach e0 (n, s) \<Longrightarrow> same_cluster e e0 \<Longrightarrow> send_cluster_prop e r n = (b, m) \<Longrightarrow> quorum_reach e0 (m, s)"
| qr_nudge: "quorum_reach e0 (n, s) \<Longrightarrow> same_cluster e e0 \<Longrightarrow> try_prop_nudge e r n = (b, m) \<Longrightarrow> quorum_reach e0 (m, s)"
| qr_poll: "quorum_reach e0 (n, s) \<Longrightarrow> same_cluster e e0 \<Longrightarrow> seal_poll g p e (l, n, s) = Some (q, l', m, s') \<Longrightarrow> quorum_reach e0 (m, s')"
| qr_other: "quorum_reach e0 (n, s) \<Longrightarrow> cl_trusted m = cl_trusted n \<Longrightarrow> cl_rounds m = cl_rounds n \<Longrightarrow> quorum_reach e0 (m, s')"

lemma same_cluster_sig: "same_cluster e f \<Longrightarrow> verify_attest_sig (ce_sync e) = verify_attest_sig (ce_sync f)"
  by (intro ext) (simp add: same_cluster_def verify_attest_sig_def split: sum.splits)

lemma same_cluster_vote: "same_cluster e f \<Longrightarrow> vote_ok e n = vote_ok f n"
  by (intro ext) (simp add: vote_ok_def same_cluster_sig [of e f])

lemma same_cluster_votes: "same_cluster e f \<Longrightarrow> votes_ok e n = votes_ok f n"
  by (simp add: votes_ok_def same_cluster_vote [of e f])

lemma reach_votes: "quorum_reach e0 ns \<Longrightarrow> votes_ok e0 (fst ns)"
proof (induction rule: quorum_reach.induct)
  case (qr_frame n s e node_id msg a m)
  then show ?case using cluster_frame_votes same_cluster_votes by (metis fst_conv)
next
  case (qr_send n s e r b m)
  then show ?case using votes_kept_ok [OF send_prop_kept] by auto
next
  case (qr_nudge n s e r b m)
  then show ?case using votes_kept_ok [OF nudge_kept] by auto
next
  case (qr_poll n s e g p l q l' m s')
  then show ?case using votes_kept_ok [OF poll_kept] by auto
next
  case (qr_other n s m s')
  then show ?case using votes_kept_ok [OF votes_kept_same] by auto
qed (simp add: votes_ok_def)

end
