(* ===== verification/Pwm_Cluster_Props.thy ===== *)
theory Pwm_Cluster_Props
  imports Pwm_Quorum
begin

text \<open>
  The properties of the sealing loop and of the cluster: a sealed block went through every gate and has its
  quorum of verified votes; what a vote does not say; what a missed height and a failed checkpoint do.
\<close>

section \<open>The quorum behind a block\<close>

lemma ack_n_le: "unat (ack_n members row) \<le> fcard (ack_set members row)"
  by (simp add: ack_n_def unat_of_nat)

lemma gate_passed:
  assumes "run_cluster_gate e n = (True, m)" "cc_enabled (ce_cfg e)"
  shows "m = n" "\<exists>row. fmlookup (cl_rounds n) (sat_add (tip_h (cluster_chain n)) 1, 0) = Some row \<and>
    cc_quorum_k (ce_cfg e) \<le> ack_n (cc_members (ce_cfg e)) row"
  using assms by (auto simp: run_cluster_gate_def Let_def split: option.splits if_splits prod.splits)

lemma gate_twice_passed:
  assumes "gate_twice e n = (True, m)" "cc_enabled (ce_cfg e)"
  shows "\<exists>row. fmlookup (cl_rounds m) (sat_add (tip_h (cluster_chain m)) 1, 0) = Some row \<and>
    cc_quorum_k (ce_cfg e) \<le> ack_n (cc_members (ce_cfg e)) row"
proof -
  obtain k where "run_cluster_gate e k = (True, m)" using assms(1) by (auto simp: gate_twice_def split: prod.splits if_splits)
  from gate_passed [OF this assms(2)] show ?thesis by simp
qed

definition quorum :: "ClusterEnv \<Rightarrow> ClusterNode \<Rightarrow> u64 \<Rightarrow> bool" where
  "quorum e n h \<longleftrightarrow> (\<exists>row V. fmlookup (cl_rounds n) (h, 0) = Some row \<and> unat (cc_quorum_k (ce_cfg e)) \<le> fcard V \<and>
     fset V \<subseteq> set (cc_members (ce_cfg e)) \<and> (case cr_proposer_id row of Some p \<Rightarrow> p | None \<Rightarrow> []) |\<notin>| V \<and>
     fset V \<subseteq> {m. \<exists>sig. fmlookup (cr_attesters row) m = Some sig \<and> vote_ok e n (h, 0) m sig})"

lemma ack_quorum:
  assumes "votes_ok e n" "fmlookup (cl_rounds n) (h, 0) = Some row" "cc_quorum_k (ce_cfg e) \<le> ack_n (cc_members (ce_cfg e)) row"
  shows "quorum e n h"
proof -
  let ?V = "ack_set (cc_members (ce_cfg e)) row"
  have "unat (cc_quorum_k (ce_cfg e)) \<le> fcard ?V"
    using assms(3) ack_n_le [of "cc_members (ce_cfg e)" row] by (simp add: word_le_nat_alt)
  moreover have "fset ?V \<subseteq> {m. \<exists>sig. fmlookup (cr_attesters row) m = Some sig \<and> vote_ok e n (h, 0) m sig}"
  proof
    fix m
    assume "m \<in> fset ?V"
    then obtain sig where "fmlookup (cr_attesters row) m = Some sig" by (auto simp: ack_set_def Let_def fmlookup_dom_iff)
    with assms(1,2) show "m \<in> {m. \<exists>sig. fmlookup (cr_attesters row) m = Some sig \<and> vote_ok e n (h, 0) m sig}"
      unfolding votes_ok_def by blast
  qed
  moreover have "fset ?V \<subseteq> set (cc_members (ce_cfg e))" "(case cr_proposer_id row of Some p \<Rightarrow> p | None \<Rightarrow> []) |\<notin>| ?V"
    by (auto simp: ack_set_def Let_def)
  ultimately show ?thesis unfolding quorum_def using assms(2) by blast
qed

lemma lease_gate_reads: "cl_sync n1 = cl_sync n \<Longrightarrow> fst (run_lease_gate g e (n1, s)) = fst (run_lease_gate g e (n, s))"
  by (simp add: run_lease_gate_def lease_node_def split: prod.splits)

lemma sealed_gates:
  fixes g :: "'s LeaseGate"
  assumes "quorum_reach e0 (n, s)" "same_cluster e e0" "seal_poll g p e (l, n, s) = Some (PollSealed, l', n', s')"
    and "cc_enabled (ce_cfg e)"
  shows "allows_chain_progress (gt_init (ap_gates (sy_api (cl_sync n)))) \<and> cc_role (ce_cfg e) \<noteq> Attester \<and>
    fst (run_lease_gate g e (n, s)) \<and> quorum e n' (sat_add (tip_h (cluster_chain n)) 1)"
  using assms(3)
proof (cases rule: poll_cases)
  case (attempt l2 n1 n2 n3)
  have kept: "votes_kept n n3" "cluster_chain n3 = cluster_chain n"
    using attempt(1,2) lease_gate_kept [OF attempt(3)] gate_twice_kept [OF attempt(4)] votes_kept_trans by (blast, metis)
  obtain row where row: "fmlookup (cl_rounds n3) (sat_add (tip_h (cluster_chain n)) 1, 0) = Some row"
      "cc_quorum_k (ce_cfg e) \<le> ack_n (cc_members (ce_cfg e)) row"
    using gate_twice_passed [OF attempt(4) assms(4)] kept(2) by auto
  have "votes_ok e n3" using reach_votes [OF assms(1)] same_cluster_votes [OF assms(2), of n] votes_kept_ok [OF kept(1)] by simp
  then have "votes_ok e n'" using votes_kept_ok [OF votes_kept_same] attempt_kept [OF attempt(5)] by blast
  with row attempt_kept [OF attempt(5)] have "quorum e n' (sat_add (tip_h (cluster_chain n)) 1)" by (auto intro: ack_quorum)
  moreover have "fst (run_lease_gate g e (n, s))" using lease_gate_reads [OF attempt(2), of g e s] attempt(3) by simp
  ultimately show ?thesis using attempt(6,7) assms(4) by simp
qed simp_all


section \<open>What a vote does not say\<close>

lemma rebound_gate:
  assumes "run_cluster_gate e n = (True, m)" "cc_enabled (ce_cfg e)"
    and "fmlookup (cl_rounds n) (cp_height msg, cp_round msg) = Some row"
    and "cp_height msg = sat_add (tip_h (cluster_chain n)) 1" "cp_round msg = 0" "cr_proposer_id row = Some who"
    and "trim (cp_vote_object msg) \<noteq> []" "trim (cp_candidate_hash msg) \<noteq> []"
  shows "fst (run_cluster_gate e (record_cluster_prop msg who t n)) \<and>
    (\<exists>row'. fmlookup (cl_rounds (record_cluster_prop msg who t n)) (cp_height msg, cp_round msg) = Some row' \<and>
      cr_candidate_hash row' = cp_candidate_hash msg \<and> cr_vote_object row' = cp_vote_object msg \<and> cr_attesters row' = cr_attesters row)"
proof -
  have "ack_n (cc_members (ce_cfg e)) (bound_row msg who t row) = ack_n (cc_members (ce_cfg e)) row"
    by (simp add: ack_n_def ack_set_def assms(6))
  with assms show ?thesis
    by (simp add: run_cluster_gate_def record_cluster_prop_def Let_def split: if_splits option.splits prod.splits)
qed

text \<open>A round that has its quorum keeps it whatever it is bound to next: the proposer may replace the candidate of
  the height and the gate still passes, on signatures that were made for the old one.\<close>

theorem rebinding_keeps_votes:
  assumes "run_cluster_gate e n = (True, m)" "cc_enabled (ce_cfg e)"
    and "fmlookup (cl_rounds n) (cp_height msg, cp_round msg) = Some row"
    and "cp_height msg = sat_add (tip_h (cluster_chain n)) 1" "cp_round msg = 0" "cr_proposer_id row = Some who"
    and "trim (cp_vote_object msg) \<noteq> []" "trim (cp_candidate_hash msg) \<noteq> []"
  shows "fst (run_cluster_gate e (record_cluster_prop msg who t n)) \<and>
    (\<exists>row'. fmlookup (cl_rounds (record_cluster_prop msg who t n)) (cp_height msg, cp_round msg) = Some row' \<and>
      cr_candidate_hash row' = cp_candidate_hash msg \<and> cr_vote_object row' = cp_vote_object msg \<and> cr_attesters row' = cr_attesters row)"
  using assms by (rule rebound_gate)

text \<open>An attester that trusts a proposer.\<close>

definition attests_for :: "ClusterEnv \<Rightarrow> string \<Rightarrow> ClusterNode \<Rightarrow> bool" where
  "attests_for e node_id n \<longleftrightarrow> cc_enabled (ce_cfg e) \<and> cc_role (ce_cfg e) = Attester \<and>
     trim (ce_instance_id e) \<noteq> [] \<and> trim (ce_instance_id e) \<in> set (cc_members (ce_cfg e)) \<and>
     (case fmlookup (cl_trusted n) node_id of
        Some peer \<Rightarrow> tp_cluster_attest_enabled peer \<and> tp_cluster_role peer = Proposer \<and>
          (case peer_member_id peer of Some m \<Rightarrow> m \<in> set (cc_members (ce_cfg e)) | None \<Rightarrow> False)
      | None \<Rightarrow> False)"

definition vote_for :: "ClusterEnv \<Rightarrow> ClusterProposeWire \<Rightarrow> ClusterAttestWire \<Rightarrow> bool" where
  "vote_for e msg a \<longleftrightarrow> ca_height a = cp_height msg \<and> ca_round a = cp_round msg \<and> ca_vote_object a = cp_vote_object msg \<and>
     ca_candidate_hash a = cp_candidate_hash msg \<and> ca_candidate_ref a = cp_candidate_ref msg \<and>
     ca_signature a = x_hex_encode (se_lib (ce_sync e)) (be_bytes 64 (sign (se_ext (ce_sync e)) (ce_sk e) (attest_msg msg)))"

lemma attests_any:
  assumes "attests_for e node_id n" "apply_prop_tail e msg n \<noteq> None"
  shows "\<exists>a m. route_cluster_stub e node_id (ClusterPropose msg) n = Some (Some a, m) \<and> vote_for e msg a \<and> attests_for e node_id m"
proof -
  from assms(2) obtain k where k: "apply_prop_tail e msg n = Some k" by blast
  from assms(1) obtain peer member where p: "fmlookup (cl_trusted n) node_id = Some peer" "peer_member_id peer = Some member"
      "member \<in> set (cc_members (ce_cfg e))" "tp_cluster_attest_enabled peer" "tp_cluster_role peer = Proposer"
    by (auto simp: attests_for_def split: option.splits)
  have t: "cl_trusted (record_cluster_prop msg member v k) = cl_trusted n" for v
    using k by (auto simp: record_cluster_prop_def Let_def apply_prop_tail_def split: if_splits)
  have "attests_for e node_id (record_cluster_prop msg member v k)" for v using assms(1) unfolding attests_for_def t .
  with assms(1) p show ?thesis
    by (auto simp: route_cluster_stub_def Let_def k attests_for_def cluster_role_ok_def mk_cluster_attest_def vote_for_def)
qed

text \<open>An attester signs whatever its proposer asks for: it looks neither at its own chain nor at what it signed
  before. Two proposals for one height and round with different candidates are both signed.\<close>

theorem attester_signs_both:
  assumes "attests_for e node_id n" "apply_prop_tail e msg n \<noteq> None" "\<And>m. apply_prop_tail e msg' m \<noteq> None"
    and "cp_height msg' = cp_height msg" "cp_round msg' = cp_round msg" "cp_candidate_hash msg' \<noteq> cp_candidate_hash msg"
  shows "\<exists>a m a' m'. route_cluster_stub e node_id (ClusterPropose msg) n = Some (Some a, m) \<and>
    route_cluster_stub e node_id (ClusterPropose msg') m = Some (Some a', m') \<and> vote_for e msg a \<and> vote_for e msg' a' \<and>
    ca_height a' = ca_height a \<and> ca_round a' = ca_round a \<and> ca_candidate_hash a' \<noteq> ca_candidate_hash a"
proof -
  from attests_any [OF assms(1,2)] obtain a m where
    a: "route_cluster_stub e node_id (ClusterPropose msg) n = Some (Some a, m)" "vote_for e msg a" "attests_for e node_id m" by blast
  from attests_any [OF a(3) assms(3)] obtain a' m' where
    "route_cluster_stub e node_id (ClusterPropose msg') m = Some (Some a', m')" "vote_for e msg' a'" by blast
  with a assms(4-6) show ?thesis by (fastforce simp: vote_for_def)
qed

section \<open>A missed height\<close>

lemma skip_effect:
  assumes "skip_missed_h h n = (True, m)"
  shows "h = sat_add (tip_h (api_chain n)) 1" "api_chain m = set_canon_h h (api_chain n)"
  using assms by (auto simp: skip_missed_h_def with_chain_def split: if_splits)

lemma gap_refused:
  assumes "bh_height (hdr b) \<noteq> sat_add (tip_h (sn_chain k)) 1"
  shows "apply_blk ext enc b k = Some (Inl (BlkHeight (sat_add (tip_h (sn_chain k)) 1) (bh_height (hdr b))), k)"
  using assms by (simp add: apply_blk_def check_blk_def Let_def)

text \<open>The blocks a chain is sealed with, one after the other.\<close>

inductive sealed_after :: "extlib \<Rightarrow> codecs \<Rightarrow> Chain \<Rightarrow> Block list \<Rightarrow> bool" for ext enc where
  sa_none: "sealed_after ext enc c []"
| sa_next: "seal_entries ext enc clock entries c = Done c' \<Longrightarrow> sealed_after ext enc c' bs \<Longrightarrow>
    sealed_after ext enc c (last (blocks c') # bs)"

lemma sealed_at_next: "seal_entries ext enc clock entries c = Done c' \<Longrightarrow>
    unat (tip_h c) + 1 < 2 ^ 64 \<and> bh_height (hdr (last (blocks c'))) = sat_add (tip_h c) 1 \<and> tip_h c' = sat_add (tip_h c) 1"
  by (erule sealed_last) (simp add: hdr_sign_def tip_h_def)

lemma sat_next_unat: "unat (h :: u64) + 1 < 2 ^ 64 \<Longrightarrow> unat (sat_add h 1) = unat h + 1"
  using unat_Suc_nonce [of h] by (simp add: sat_add_def)

lemma sealed_above: "sealed_after ext enc c bs \<Longrightarrow> b \<in> set bs \<Longrightarrow> unat (tip_h c) < unat (bh_height (hdr b))"
proof (induction rule: sealed_after.induct)
  case (sa_next clock entries c c' bs)
  note h = sealed_at_next [OF sa_next(1)]
  from sa_next(3,4) h show ?case using sat_next_unat [of "tip_h c"] by fastforce
qed simp

lemma after_gap:
  assumes "skip_missed_h h n = (True, m)" "sealed_after ext enc (api_chain m) bs" "b \<in> set bs"
    and "tip_h (sn_chain k) = tip_h (api_chain n)"
  shows "unat (bh_height (hdr b)) > unat (sat_add (tip_h (sn_chain k)) 1) \<and>
    apply_blk ext enc b k = Some (Inl (BlkHeight (sat_add (tip_h (sn_chain k)) 1) (bh_height (hdr b))), k)"
proof -
  have "unat (tip_h (api_chain m)) < unat (bh_height (hdr b))" using sealed_above [OF assms(2,3)] .
  then have "unat (sat_add (tip_h (sn_chain k)) 1) < unat (bh_height (hdr b))"
    using skip_effect [OF assms(1)] assms(4) by (simp add: tip_h_def set_canon_h_def)
  then show ?thesis using gap_refused [of b k] by force
qed

text \<open>A proposer that passes over a missed height raises its height and makes no block for it. A node at the old tip,
  which is every attester and follower, refuses each block the chain is sealed with from then on, because it waits
  for the height that has none.\<close>

theorem skipped_height_strands_followers:
  assumes "skip_missed_h h n = (True, m)" "sealed_after ext enc (api_chain m) bs" "b \<in> set bs"
    and "tip_h (sn_chain k) = tip_h (api_chain n)"
  shows "unat (bh_height (hdr b)) > unat (sat_add (tip_h (sn_chain k)) 1) \<and>
    apply_blk ext enc b k = Some (Inl (BlkHeight (sat_add (tip_h (sn_chain k)) 1) (bh_height (hdr b))), k)"
  using assms by (rule after_gap)

section \<open>A failed checkpoint\<close>

lemma same_shell_fields:
  assumes "same_shell n m"
  shows "sn_pool m = sn_pool n" "sn_snapshot m = sn_snapshot n"
proof -
  have "m\<lparr>sn_chain := sn_chain n, sn_roaming_pool := sn_roaming_pool n, sn_cross_shard := sn_cross_shard n\<rparr> =
      n\<lparr>sn_chain := sn_chain n, sn_roaming_pool := sn_roaming_pool n, sn_cross_shard := sn_cross_shard n\<rparr>"
    using assms unfolding same_shell_def by blast
  from arg_cong [OF this, of sn_pool] arg_cong [OF this, of sn_snapshot]
  show "sn_pool m = sn_pool n" "sn_snapshot m = sn_snapshot n" by simp_all
qed

lemma seal_success_fields:
  assumes "seal_success ext c n = Some m"
  shows "sn_chain m = c" "sn_pool m = sn_pool n" "sn_snapshot m = ch_st c"
proof -
  let ?n = "n\<lparr>sn_chain := c, sn_snapshot := ch_st c, sn_hot_index := hot_map (ch_st c), sn_evicted := {||}, sn_evicted_tip := tip_h c,
              sn_worker_tip := tip_h c, sn_sealed := sn_sealed n + of_nat (length (if blocks c = [] then [] else txs (last (blocks c))))\<rparr>"
  have "record_block ext (tip_h c) (if blocks c = [] then [] else txs (last (blocks c))) ?n = Some m"
    using assms by (simp add: seal_success_def Let_def)
  from record_block_chain [OF this] same_shell_fields [OF record_block_shell [OF this]]
  show "sn_chain m = c" "sn_pool m = sn_pool n" "sn_snapshot m = ch_st c" by simp_all
qed

lemma sealed_back:
  assumes "seal_entries ext enc clock entries c = Done c'"
  shows "c'\<lparr>blocks := blocks c, canonical_h := canonical_h c, ch_st := ch_st c\<rparr> = c"
  using assms by (cases rule: seal_Done) simp

lemma checkpoint_undone:
  assumes "quiet (ap_node n)" "autosnap_hit (tip_h (api_chain n) + 1)"
    and "snap_after_seal wrote backend (tip_h (api_chain n) + 1) = Some (path, Inl err)"
    and "seal_attempt ext enc clock clock' wrote backend (last_snap, n) = Some (True, last_snap', m)"
  shows "\<exists>c. seal_entries ext enc clock (map Raw (raw_batch ext (sn_evicted (fresh_node (ap_node n))) (take BLOCK_CAP (pool_txs (ap_node n)))))
      (api_chain n) = Done c \<and> api_chain m = api_chain n \<and> pool_txs (ap_node m) = drop BLOCK_CAP (pool_txs (ap_node n)) \<and>
    sn_snapshot (ap_node m) = ch_st c"
proof -
  let ?n = "ap_node n" and ?xs = "map Raw (raw_batch ext (sn_evicted (fresh_node (ap_node n))) (take BLOCK_CAP (pool_txs (ap_node n))))"
  have q: "sn_validated ?n = []" "sn_ingress ?n = []" using assms(1) by (simp_all add: quiet_def)
  obtain k where k: "collect_entries ext ?n = (?xs, k)" "sn_chain k = sn_chain ?n" "pool_txs k = drop BLOCK_CAP (pool_txs ?n)"
    by (rule seal_tick_raw [OF q])
  have b: "backend \<noteq> None" using assms(3) by (auto simp: snap_after_seal_def split: sum.splits if_splits)
  obtain c where c: "seal_entries ext enc clock ?xs (api_chain n) = Done c"
    using assms(4) by (auto simp: seal_attempt_def k(1,2) Let_def split: if_splits outcome.splits)
  have h: "tip_h c = tip_h (api_chain n) + 1"
    using sealed_at_next [OF c] sat_next [of "api_chain n"] by metis
  obtain k' where k': "seal_success ext c k = Some k'" "m = snd (periodic_snap_finish (tip_h c) (Some (take_bak (n\<lparr>ap_node := k\<rparr>)))
      (snap_after_seal wrote backend (tip_h c)) (last_snap, n\<lparr>ap_node := k'\<rparr>))"
    using assms(2,4) b by (auto simp: seal_attempt_def k(1,2) c Let_def split: if_splits)
  note f = seal_success_fields [OF k'(1)]
  have m: "m = with_init (init_ready_degraded path err) (rollback_commit (take_bak (n\<lparr>ap_node := k\<rparr>)) (n\<lparr>ap_node := k'\<rparr>))"
    using k'(2) assms(3) by (simp add: h periodic_snap_finish_def apply_snapshot_init_state_def)
  have "api_chain m = c\<lparr>blocks := blocks (api_chain n), canonical_h := canonical_h (api_chain n), ch_st := ch_st (api_chain n)\<rparr>"
    by (simp add: m with_init_def rollback_commit_def take_bak_def Let_def set_canon_h_def f(1) k(2) tip_h_def)
  then have "api_chain m = api_chain n" using sealed_back [OF c] by simp
  moreover have "sn_pool (ap_node m) = sn_pool k" "sn_snapshot (ap_node m) = ch_st c"
    by (simp_all add: m with_init_def rollback_commit_def Let_def f(2,3))
  ultimately show ?thesis using c k(3) by auto
qed

text \<open>C23: When the snapshot or the block file of a checkpoint height cannot be written, the block is rolled back, but its
  transactions were taken out of the pool before the copy was made and are not put back: they are lost. The
  ledger that workers and readers are shown stays the one of the block that was undone.\<close>

theorem failed_checkpoint_loses_block:
  assumes "quiet (ap_node n)" "autosnap_hit (tip_h (api_chain n) + 1)"
    and "snap_after_seal wrote backend (tip_h (api_chain n) + 1) = Some (path, Inl err)"
    and "seal_attempt ext enc clock clock' wrote backend (last_snap, n) = Some (True, last_snap', m)"
  shows "\<exists>c. seal_entries ext enc clock (map Raw (raw_batch ext (sn_evicted (fresh_node (ap_node n))) (take BLOCK_CAP (pool_txs (ap_node n)))))
      (api_chain n) = Done c \<and> api_chain m = api_chain n \<and> pool_txs (ap_node m) = drop BLOCK_CAP (pool_txs (ap_node n)) \<and>
    sn_snapshot (ap_node m) = ch_st c"
  using assms by (rule checkpoint_undone)

section \<open>A cluster of two\<close>

text \<open>\<open>P\<close> proposes, \<open>Q\<close> attests; the node of \<open>P\<close> knows \<open>Q\<close> as \<open>B\<close>.\<close>

definition demo_members :: "ClusterRole \<Rightarrow> string \<Rightarrow> ClusterEnv" where
  "demo_members role me = \<lparr> ce_sync = demo_sync, ce_cfg = cluster_cfg_default\<lparr>cc_enabled := True, cc_role := role, cc_members := [''P'', ''Q'']\<rparr>,
     ce_instance_id = me, ce_sk = 0 \<rparr>"

definition demo_peer :: "ClusterRole \<Rightarrow> string \<Rightarrow> TrustedPeer" where
  "demo_peer role who = \<lparr> tp_node_id = ''B'', tp_cluster_id = [], tp_pubkey = 0, tp_domain_hi = 0, tp_instance_id = Some who,
     tp_cluster_attest_enabled = True, tp_cluster_role = role \<rparr>"

definition demo_member :: "ClusterRole \<Rightarrow> string \<Rightarrow> ClusterNode" where
  "demo_member role who = \<lparr> cl_sync = demo_sync_node demo_chain, cl_trusted = fmupd ''B'' (demo_peer role who) fmempty,
     cl_peers = fmupd ''B'' \<lparr> pr_node_id = ''B'', pr_domain_hi = 0, pr_class = PeerNative, pr_last_seen_ms = 5, pr_status = PeerConnected \<rparr> fmempty,
     cl_rounds = fmempty, cl_sent_key = fmempty, cl_nudge = False, cl_manual_target = None, cl_out = [] \<rparr>"

lemma demo_trim [simp]: "trim ''P'' = ''P''" "trim ''Q'' = ''Q''"
  by (simp_all add: trim_graphic graphic_def)

lemma demo_members_simps [simp]:
  "ce_sync (demo_members r me) = demo_sync" "ce_instance_id (demo_members r me) = me" "cc_enabled (ce_cfg (demo_members r me))"
  "cc_role (ce_cfg (demo_members r me)) = r" "cc_members (ce_cfg (demo_members r me)) = [''P'', ''Q'']" "cc_quorum_k (ce_cfg (demo_members r me)) = 1"
  "cc_seal_ahead_ms (ce_cfg (demo_members r me)) = 100" "\<not> cc_full_blocks (ce_cfg (demo_members r me))"
  "peer_member_id (demo_peer r who) = (if trim who = [] then None else Some (trim who))" "tp_cluster_attest_enabled (demo_peer r who)"
  "tp_cluster_role (demo_peer r who) = r" "same_cluster (demo_members r me) (demo_members r me)"
  by (simp_all add: demo_members_def demo_peer_def cluster_cfg_default_def peer_member_id_def member_id_def same_cluster_def)

lemma demo_member_simps [simp]:
  "cl_sync (demo_member r w) = demo_sync_node demo_chain" "cl_trusted (demo_member r w) = fmupd ''B'' (demo_peer r w) fmempty"
  "cl_rounds (demo_member r w) = fmempty" "cl_sent_key (demo_member r w) = fmempty" "cl_manual_target (demo_member r w) = None"
  by (simp_all add: demo_member_def)

lemma demo_node_at [simp]: "sn_chain (demo_node c q) = c"
  by (simp add: demo_node_facts)

lemma demo_tip [simp]: "tip_h demo_chain = 0"
  by (simp add: tip_h_def demo_chain_def)

definition demo_hash :: string where
  "demo_hash = tip_hash_hex demo_sync demo_chain"

lemma hex_trim:
  assumes "bs \<noteq> []"
  shows "trim (x_hex_encode toy_addr bs) = x_hex_encode toy_addr bs" "x_hex_encode toy_addr bs \<noteq> []"
    "graphic (last (x_hex_encode toy_addr bs))"
proof -
  let ?t = "x_hex_encode toy_addr bs"
  have t: "length ?t = 2 * length bs" "list_all is_ascii_hexdigit ?t" using toy_hex by (simp_all add: hex_laws_def)
  with assms show ne: "?t \<noteq> []" by auto
  with hex_chars [OF t(2)] show "trim ?t = ?t" "graphic (last ?t)" by (simp_all add: trim_graphic)
qed

lemma demo_hash_text [simp]: "trim demo_hash = demo_hash" "demo_hash \<noteq> []" "graphic (last demo_hash)"
proof -
  have "be_bytes 32 h \<noteq> []" for h :: bytes32 using length_be_bytes [of 32 h] by fastforce
  from hex_trim [OF this] show "trim demo_hash = demo_hash" "demo_hash \<noteq> []" "graphic (last demo_hash)" by (simp_all add: demo_hash_def tip_hash_hex_def hash_hex_def)
qed

definition demo_prop :: ClusterProposeWire where
  "demo_prop = \<lparr> cp_height = 1, cp_round = 0, cp_vote_object = vote_text 1 demo_hash, cp_candidate_hash = demo_hash, cp_candidate_ref = None,
     cp_tail_blocks = [] \<rparr>"

lemma demo_active: "active_at demo_chain 1 = [0]"
  by (simp add: active_at_def demo_chain_def)

lemma demo_proposes:
  assumes "cluster_chain n = demo_chain" "cl_manual_target n = None"
  shows "mk_cluster_prop (demo_members Proposer ''P'') tip n = Some demo_prop"
  using assms by (simp add: mk_cluster_prop_def Let_def demo_active pick_prod_idx_def member_at_def demo_prop_def demo_hash_def tail_rows_def sat_add_def)

text \<open>The signature of \<open>Q\<close> comes back.\<close>

definition demo_vote :: ClusterAttestWire where
  "demo_vote = the (mk_cluster_attest (demo_members Attester ''Q'') demo_prop (demo_member Proposer ''P''))"

lemma demo_vote_verifies: "verify_attest_sig demo_sync (ca_signature demo_vote) pk m"
proof -
  let ?b = "be_bytes 64 (sign demo_ext 0 (attest_msg demo_prop)) :: bytes"
  have "?b \<noteq> []" using length_be_bytes [of 64 "sign demo_ext 0 (attest_msg demo_prop)"] by fastforce
  moreover have "ca_signature demo_vote = x_hex_encode toy_addr ?b"
    by (simp add: demo_vote_def mk_cluster_attest_def) (simp add: demo_members_def)
  ultimately show ?thesis
    using toy_hex by (simp add: verify_attest_sig_def hex_trim hex_laws_def length_be_bytes)
qed

lemma demo_vote_fields [simp]:
  "ca_height demo_vote = 1" "ca_round demo_vote = 0" "ca_vote_object demo_vote = vote_text 1 demo_hash" "ca_candidate_hash demo_vote = demo_hash"
  "ca_candidate_ref demo_vote = None" "ca_attester_tip_height demo_vote = Some 0"
  by (simp_all add: demo_vote_def mk_cluster_attest_def demo_prop_def)

text \<open>The proposal goes out, the vote comes back, the pass after the deadline seals.\<close>

definition demo_Q :: ClusterRemote where
  "demo_Q = \<lparr> cm_node_id = ''B'', cm_instance_id = Some ''Q'', cm_cluster_role = Attester \<rparr>"

lemma demo_Q_simps [simp]: "cm_node_id demo_Q = ''B''" "cm_cluster_role demo_Q = Attester" "node_member_id demo_Q = Some ''Q''"
  by (simp_all add: demo_Q_def node_member_id_def member_id_def)

definition demo_voted :: "ClusterNode \<Rightarrow> (string, string) fmap \<Rightarrow> bool" where
  "demo_voted n votes \<longleftrightarrow> sy_api (cl_sync n) = demo_api demo_chain \<and> sy_write_fails (cl_sync n) = [] \<and> cl_manual_target n = None \<and>
     cl_trusted n = cl_trusted (demo_member Attester ''Q'') \<and> cl_peers n = cl_peers (demo_member Attester ''Q'') \<and>
     (case fmlookup (sy_peers (cl_sync n)) ''B'' of None \<Rightarrow> True | Some st \<Rightarrow> sp_fork_h st = None) \<and>
     (case fmlookup (cl_rounds n) (1, 0) of None \<Rightarrow> False | Some row \<Rightarrow> cr_vote_object row = vote_text 1 demo_hash \<and>
       cr_candidate_hash row = demo_hash \<and> cr_candidate_ref row = None \<and> cr_proposer_id row = Some ''P'' \<and> cr_attesters row = votes)"

lemma demo_voted_facts:
  assumes "demo_voted n votes"
  shows "cluster_chain n = demo_chain" "sy_api (cl_sync n) = demo_api demo_chain" "cl_manual_target n = None"
    "cl_trusted n = fmupd ''B'' (demo_peer Attester ''Q'') fmempty"
    "fmlookup (cl_peers n) ''B'' = Some \<lparr> pr_node_id = ''B'', pr_domain_hi = 0, pr_class = PeerNative, pr_last_seen_ms = 5, pr_status = PeerConnected \<rparr>"
  using assms by (simp_all add: demo_voted_def demo_api_facts) (simp add: demo_member_def)

lemma demo_sent: "\<exists>n. send_cluster_prop (demo_members Proposer ''P'') demo_Q (demo_member Attester ''Q'') = (Inr (), n) \<and> demo_voted n fmempty"
proof -
  let ?n = "demo_member Attester ''Q''"
  have p: "mk_cluster_prop (demo_members Proposer ''P'') None ?n = Some demo_prop"
    by (rule demo_proposes) (simp_all add: demo_api_facts)
  have w: "write_cluster (ClusterPropose demo_prop) ?n = (Inr (), ?n\<lparr>cl_sync := (cl_sync ?n)\<lparr>sy_write_fails := []\<rparr>, cl_out := cl_out ?n @ [ClusterPropose demo_prop]\<rparr>)"
    by (simp add: write_cluster_def)
  have pf: "cp_height demo_prop = 1" "cp_round demo_prop = 0" "cp_vote_object demo_prop = vote_text 1 demo_hash"
    "cp_candidate_hash demo_prop = demo_hash" "cp_candidate_ref demo_prop = None" by (simp_all add: demo_prop_def)
  show ?thesis
    by (simp add: send_cluster_prop_def p w Let_def demo_voted_def record_cluster_prop_def mark_cluster_prop_opened_def pf)
      (simp add: bound_row_def round_default_def pf Let_def, simp add: demo_sync_node_def)
qed

lemma demo_attested:
  assumes "demo_voted n fmempty"
  shows "\<exists>m. route_cluster_stub (demo_members Proposer ''P'') ''B'' (ClusterAttest demo_vote) n = Some (None, m) \<and>
    demo_voted m (fmupd ''Q'' (ca_signature demo_vote) fmempty)"
proof -
  note f = demo_voted_facts [OF assms]
  have v: "verify_attest_sig demo_sync (ca_signature demo_vote) pk m" for pk m by (rule demo_vote_verifies)
  from assms obtain row where row: "fmlookup (cl_rounds n) (1, 0) = Some row" "cr_vote_object row = vote_text 1 demo_hash"
      "cr_candidate_hash row = demo_hash" "cr_candidate_ref row = None" "cr_proposer_id row = Some ''P''" "cr_attesters row = fmempty"
    by (auto simp: demo_voted_def split: option.splits)
  let ?m = "note_attester_tip ''B'' (Some 0) n"
  have m: "sy_api (cl_sync ?m) = demo_api demo_chain" "sy_write_fails (cl_sync ?m) = []" "cl_manual_target ?m = None"
    "cl_peers ?m = cl_peers n" "fmlookup (sy_peers (cl_sync ?m)) ''B'' \<noteq> None \<and> sp_fork_h (the (fmlookup (sy_peers (cl_sync ?m)) ''B'')) = None"
    using assms by (auto simp: note_attester_tip_def put_sync_def demo_voted_def sync_default_def Let_def split: option.splits)
  have "route_cluster_stub (demo_members Proposer ''P'') ''B'' (ClusterAttest demo_vote) n =
      Some (None, on_attest (demo_members Proposer ''P'') (demo_peer Attester ''Q'') ''Q'' demo_vote ?m)"
    by (simp add: route_cluster_stub_def f(4) cluster_role_ok_def)
  moreover have "demo_voted (on_attest (demo_members Proposer ''P'') (demo_peer Attester ''Q'') ''Q'' demo_vote ?m)
      (fmupd ''Q'' (ca_signature demo_vote) fmempty)"
    using m row assms by (auto simp: on_attest_def Let_def v demo_voted_def)
  ultimately show ?thesis by blast
qed

definition demo_gate :: "ProcStore LeaseGate" where
  "demo_gate = \<lparr> lg_backend = proc_backend, lg_profile = SingleSealer, lg_validator = ''v'', lg_cfg = lease_cfg_default, lg_poisoned = False \<rparr>"

definition demo_store :: ProcStore where
  "demo_store = \<lparr> ps_by_key = fmempty, ps_poisoned = False \<rparr>"

definition demo_poll :: SealPollEnv where
  "demo_poll = \<lparr> pv_nominal_ms = 1000, pv_debug_disable = False, pv_clock = None, pv_clock_after = None, pv_append = Inr (), pv_backend = None \<rparr>"

definition demo_loop :: SealLoopState where
  "demo_loop = \<lparr> ll_next_seal_time_ms = 0, ll_ahead_fired_for = None, ll_miss_watch_h = None, ll_miss_watch_at_ms = 0, ll_active_deadline_ms = None \<rparr>"

lemma filter_single: "ffilter P {|x|} = (if P x then {|x|} else {||})"
  by auto

lemma demo_preflight:
  assumes "demo_voted n votes"
  shows "preflight (demo_members Proposer ''P'') n = PreReady"
proof -
  have c: "counted_attester n [''P'', ''Q''] ''P'' 5 ''B'' (demo_peer Attester ''Q'')"
    by (simp add: counted_attester_def member_in_cfg_def demo_voted_facts [OF assms] attester_alive_def sat_sub_def ATTESTER_LIVE_WINDOW_MS_def)
  have l: "case fmlookup (sy_peers (cl_sync n)) ''B'' of Some st \<Rightarrow> \<not> att_fork_lock 0 st | None \<Rightarrow> True"
    using assms by (auto simp: demo_voted_def att_fork_lock_def split: option.splits)
  have t: "tip_h (api_chain (demo_api demo_chain)) = 0" by (simp add: demo_api_facts)
  show ?thesis
    by (simp add: preflight_def count_sync_ready_attesters_def count_sync_ready_hs_def demo_voted_facts [OF assms] filter_single c Let_def l t
        cluster_seal_preflight_def count_u8_def fcard_finsert_if fcard_fempty)
qed

lemma demo_vote_text: "trim (vote_text 1 demo_hash) \<noteq> []"
proof -
  have "vote_text 1 demo_hash \<noteq> []" "graphic (hd (vote_text 1 demo_hash))" by (simp_all add: vote_text_def graphic_def)
  moreover have "graphic (last (vote_text 1 demo_hash))" by (simp add: vote_text_def)
  ultimately show ?thesis by (simp add: trim_graphic)
qed

lemma demo_tick:
  assumes "demo_voted n votes"
  shows "demo_voted (record_cluster_prop_tick (demo_members Proposer ''P'') n) votes"
proof -
  have p: "mk_cluster_prop (demo_members Proposer ''P'') None n = Some demo_prop"
    by (rule demo_proposes) (simp_all add: demo_voted_facts [OF assms] demo_api_facts)
  have pf: "cp_height demo_prop = 1" "cp_round demo_prop = 0" "cp_vote_object demo_prop = vote_text 1 demo_hash"
    "cp_candidate_hash demo_prop = demo_hash" "cp_candidate_ref demo_prop = None" by (simp_all add: demo_prop_def)
  show ?thesis
    using assms by (auto simp: record_cluster_prop_tick_def p record_cluster_prop_def demo_voted_def pf Let_def split: option.splits)
qed

lemma demo_turn:
  assumes "demo_voted n votes"
  shows "\<exists>l m. proposer_turn demo_poll (demo_members Proposer ''P'') (demo_loop, n) = Inr (l, m) \<and> demo_voted m votes"
proof -
  have c: "cluster_chain n = demo_chain" by (rule demo_voted_facts [OF assms])
  have roll: "roll_epoch_if_needed (ch_cfg demo_chain) 1 (ch_st demo_chain) = ch_st demo_chain"
    by (simp add: roll_epoch_if_needed_def is_epoch_boundary_def demo_chain_def)
  have act: "active_validator_indices (ch_st demo_chain) = [0]" by (simp add: demo_chain_def)
  have "local_prod_for_h (demo_members Proposer ''P'') 1 n = Inr True"
    by (simp only: local_prod_for_h_def c Let_def demo_members_simps demo_trim roll act) (simp add: pick_prod_idx_def member_at_def)
  then have "proposer_turn demo_poll (demo_members Proposer ''P'') (demo_loop, n) =
      Inr (demo_loop\<lparr>ll_miss_watch_h := None, ll_active_deadline_ms := Some 0\<rparr>, record_cluster_prop_tick (demo_members Proposer ''P'') n)"
    unfolding proposer_turn_def using demo_preflight [OF assms] by (simp only: Let_def c prod.case) (simp add: demo_loop_def sat_add_def)
  with demo_tick [OF assms] show ?thesis by blast
qed

lemma demo_lease:
  assumes "demo_voted n votes"
  shows "\<exists>m s. run_lease_gate demo_gate (demo_members Proposer ''P'') (n, demo_store) = (True, m, s) \<and> cl_rounds m = cl_rounds n \<and>
    cluster_chain m = demo_chain \<and> ap_node (sy_api (cl_sync m)) = ap_node (demo_api demo_chain)"
  using demo_voted_facts(1,2) [OF assms]
  by (simp add: run_lease_gate_def demo_gate_def lease_node_def step_lease_def proc_backend_def proc_acquire_def proc_op_def acquire_rec_def
      demo_store_def grant_def apply_rt_def demo_api_facts Let_def)

lemma demo_gate_pass:
  assumes "demo_voted n (fmupd ''Q'' sig fmempty)" "cl_rounds m = cl_rounds n" "cluster_chain m = demo_chain"
  shows "run_cluster_gate (demo_members Proposer ''P'') m = (True, m)" "gate_twice (demo_members Proposer ''P'') m = (True, m)"
proof -
  from assms(1) obtain row where row: "fmlookup (cl_rounds m) (1, 0) = Some row" "cr_vote_object row = vote_text 1 demo_hash"
      "cr_candidate_hash row = demo_hash" "cr_candidate_ref row = None" "cr_proposer_id row = Some ''P''" "cr_attesters row = fmupd ''Q'' sig fmempty"
    by (auto simp: demo_voted_def assms(2) split: option.splits)
  have "ack_n [''P'', ''Q''] row = 1"
    by (simp add: ack_n_def ack_set_def row filter_single fcard_finsert_if fcard_fempty)
  then show g: "run_cluster_gate (demo_members Proposer ''P'') m = (True, m)"
    using assms(3) by (simp only: run_cluster_gate_def Let_def) (simp add: row sat_add_def demo_vote_text)
  show "gate_twice (demo_members Proposer ''P'') m = (True, m)" by (simp add: gate_twice_def g gate_recheck_needed_def)
qed

lemma demo_attempt:
  assumes "cluster_chain m = demo_chain" "ap_node (sy_api (cl_sync m)) = ap_node (demo_api demo_chain)"
  shows "\<exists>l' m'. attempt_phase demo_poll (demo_members Proposer ''P'') (l, m) = Some (PollSealed, l', m')"
proof -
  have node: "ap_node (sy_api (cl_sync m)) = demo_node demo_chain []" using assms(2) by (simp add: demo_api_def)
  have col: "\<exists>k. collect_entries demo_ext (demo_node demo_chain []) = ([], k) \<and> sn_chain k = demo_chain"
    using collect_raw [of "demo_node demo_chain []" demo_ext]
    by (simp add: demo_node_facts Let_def raw_batch_def dedup_seal_entries_def)
      (simp add: demo_node_def raw_batch_def dedup_seal_entries_def)
  then obtain k where k: "collect_entries demo_ext (demo_node demo_chain []) = ([], k)" "sn_chain k = demo_chain" by blast
  obtain c where c: "seal_entries demo_ext demo_codecs None [] demo_chain = Done c" using demo_seal_empty by blast
  have none: "txs (last (blocks c)) = []" by (rule sealed_last [OF c]) simp
  obtain k' where k': "seal_success demo_ext c k = Some k'" by (simp add: seal_success_def Let_def none)
  show ?thesis
    by (simp add: attempt_phase_def seal_attempt_def node k c k' Let_def demo_poll_def snap_after_seal_def periodic_snap_finish_def)
qed

lemma demo_seals:
  assumes "demo_voted n (fmupd ''Q'' sig fmempty)"
  shows "\<exists>l' n' s'. seal_poll demo_gate demo_poll (demo_members Proposer ''P'') (demo_loop, n, demo_store) = Some (PollSealed, l', n', s')"
proof -
  let ?e = "demo_members Proposer ''P''"
  obtain l m where t: "proposer_turn demo_poll ?e (demo_loop, n) = Inr (l, m)" "demo_voted m (fmupd ''Q'' sig fmempty)"
    using demo_turn [OF assms] by blast
  obtain k s where k: "run_lease_gate demo_gate ?e (m, demo_store) = (True, k, s)" "cl_rounds k = cl_rounds m" "cluster_chain k = demo_chain"
      "ap_node (sy_api (cl_sync k)) = ap_node (demo_api demo_chain)"
    using demo_lease [OF t(2)] by blast
  note g = demo_gate_pass(2) [OF t(2) k(2,3)]
  obtain l' m' where a: "attempt_phase demo_poll ?e (l, k) = Some (PollSealed, l', m')" using demo_attempt [OF k(3,4)] by blast
  have e: "is_proposer ?e" "\<not> seal_manual_paused ?e n" "seal_ahead ?e (demo_loop, n) = (demo_loop, n)"
    by (simp_all add: is_proposer_def seal_manual_paused_def demo_voted_facts(3) [OF assms] seal_ahead_def should_fire_seal_ahead_def demo_loop_def
        Let_def)
  have p: "should_attempt_seal 5 (ll_next_seal_time_ms demo_loop)" "\<not> pv_debug_disable demo_poll"
      "allows_chain_progress (gt_init (ap_gates (sy_api (cl_sync n))))"
    by (simp_all add: should_attempt_seal_def demo_loop_def demo_poll_def demo_voted_facts(2) [OF assms])
      (simp add: demo_api_def allows_chain_progress_def init_ready_def)
  show ?thesis by (simp add: seal_poll_def e p t(1) k(1) g a)
qed


definition other_prop :: ClusterProposeWire where
  "other_prop = demo_prop\<lparr>cp_candidate_hash := ''other'', cp_vote_object := ''vo1:1:other''\<rparr>"

lemma other_prop_simps [simp]:
  "cp_height other_prop = 1" "cp_round other_prop = 0" "cp_candidate_hash other_prop = ''other''" "cp_vote_object other_prop = ''vo1:1:other''"
  "cp_tail_blocks other_prop = []" "cp_height demo_prop = 1" "cp_round demo_prop = 0" "cp_tail_blocks demo_prop = []"
  by (simp_all add: other_prop_def demo_prop_def)

theorem rebinding_keeps_votes_witness:
  "\<exists>n. run_cluster_gate (demo_members Proposer ''P'') n = (True, n) \<and>
    demo_voted n (fmupd ''Q'' (ca_signature demo_vote) fmempty) \<and>
    fst (run_cluster_gate (demo_members Proposer ''P'') (record_cluster_prop other_prop ''P'' None n))"
proof -
  obtain n1 where n1: "demo_voted n1 fmempty" using demo_sent by blast
  obtain n where n: "demo_voted n (fmupd ''Q'' (ca_signature demo_vote) fmempty)" using demo_attested [OF n1] by blast
  have g: "run_cluster_gate (demo_members Proposer ''P'') n = (True, n)"
    by (rule demo_gate_pass(1) [OF n refl demo_voted_facts(1) [OF n]])
  from n obtain row where row: "fmlookup (cl_rounds n) (1, 0) = Some row" "cr_proposer_id row = Some ''P''"
    by (auto simp: demo_voted_def split: option.splits)
  have h: "cp_height other_prop = sat_add (tip_h (cluster_chain n)) 1"
    by (simp only: demo_voted_facts(1) [OF n]) (simp add: sat_add_def)
  have t: "trim ''other'' \<noteq> []" "trim ''vo1:1:other'' \<noteq> []" by (simp_all add: trim_graphic graphic_def)
  from rebinding_keeps_votes [OF g _ _ h, of row "''P''" None] row t g n show ?thesis by auto
qed

theorem attester_signs_both_witness:
  "\<exists>a m a' m'. route_cluster_stub (demo_members Attester ''Q'') ''B'' (ClusterPropose demo_prop) (demo_member Proposer ''P'') = Some (Some a, m) \<and>
    route_cluster_stub (demo_members Attester ''Q'') ''B'' (ClusterPropose other_prop) m = Some (Some a', m') \<and>
    ca_height a' = ca_height a \<and> ca_round a' = ca_round a \<and> ca_candidate_hash a' \<noteq> ca_candidate_hash a"
proof -
  have "attests_for (demo_members Attester ''Q'') ''B'' (demo_member Proposer ''P'')" by (simp add: attests_for_def)
  moreover have tail: "apply_prop_tail e demo_prop n \<noteq> None" "apply_prop_tail e other_prop n \<noteq> None" for e n
    by (simp_all add: apply_prop_tail_def prop_tail_batch_def List.map_filter_def)
  moreover have "cp_candidate_hash other_prop \<noteq> cp_candidate_hash demo_prop"
  proof
    assume "cp_candidate_hash other_prop = cp_candidate_hash demo_prop"
    then have "demo_hash = ''other''" by (simp add: demo_prop_def)
    from arg_cong [OF this, of length] have "length demo_hash = 5" by simp
    moreover have "length demo_hash = 64"
      using toy_hex by (simp add: demo_hash_def tip_hash_hex_def hash_hex_def hex_laws_def length_be_bytes)
    ultimately show False by simp
  qed
  ultimately show ?thesis
    using attester_signs_both [of "demo_members Attester ''Q''" "''B''" "demo_member Proposer ''P''" demo_prop other_prop] by auto
qed

section \<open>A chain at a height that has no block\<close>

abbreviation late_chain :: "u64 \<Rightarrow> Chain" where
  "late_chain h \<equiv> set_canon_h h demo_chain"

lemma late_seal: "\<exists>c. seal_entries demo_ext demo_codecs None [] (late_chain 1) = Done c"
  by (simp add: seal_eval checked_add_def demo_eval set_canon_h_def)

theorem skipped_height_strands_followers_witness:
  "\<exists>m c. skip_missed_h 1 (demo_api demo_chain) = (True, m) \<and>
    seal_entries demo_ext demo_codecs None [] (api_chain m) = Done c \<and> bh_height (hdr (last (blocks c))) = 2 \<and>
    apply_blk demo_ext demo_codecs (last (blocks c)) (demo_node demo_chain []) = Some (Inl (BlkHeight 1 2), demo_node demo_chain [])"
proof -
  have t: "api_chain (demo_api demo_chain) = demo_chain" by (simp add: demo_api_facts)
  obtain m where m: "skip_missed_h 1 (demo_api demo_chain) = (True, m)" by (simp add: skip_missed_h_def t sat_add_def)
  from skip_effect(2) [OF m] t have cm: "api_chain m = late_chain 1" by simp
  obtain c where c: "seal_entries demo_ext demo_codecs None [] (api_chain m) = Done c" using late_seal cm by auto
  have h: "bh_height (hdr (last (blocks c))) = 2"
    using sealed_at_next [OF c] by (simp add: cm tip_h_def set_canon_h_def sat_add_def)
  have k: "tip_h (sn_chain (demo_node demo_chain [])) = tip_h (api_chain (demo_api demo_chain))" by (simp add: t)
  from skipped_height_strands_followers [OF m sa_next [OF c sa_none] _ k, of "last (blocks c)"] m c h t show ?thesis
    by (auto simp: sat_add_def)
qed

definition late_tx :: SignedTx where
  "late_tx = demo_tx demo_A 0 (Transfer demo_B 100 3)"

definition late_node :: ApiNode where
  "late_node = (demo_api (late_chain 99))\<lparr>ap_node := demo_node (late_chain 99) [late_tx]\<rparr>"

lemma late_batch: "raw_batch ext (sn_evicted (fresh_node (ap_node late_node))) (take BLOCK_CAP (pool_txs (ap_node late_node))) = [late_tx]"
  by (simp add: late_node_def demo_node_facts fresh_node_def raw_batch_def dedup_Cons BLOCK_CAP_def)

lemma late_tx_seals: "\<exists>c. seal_entries demo_ext demo_codecs None [Raw late_tx] (late_chain 99) = Done c"
  by (simp add: late_tx_def seal_eval checked_add_def sat_add_def DET_SEAL_TS_BASE_def tx_eval demo_eval set_canon_h_def)

theorem failed_checkpoint_loses_block_witness:
  "\<exists>ls m. seal_attempt demo_ext demo_codecs None None (Inr ()) (Some (None, Inl ''disk full'')) (0, late_node) = Some (True, ls, m) \<and>
    pool_txs (ap_node late_node) = [late_tx] \<and> api_chain m = api_chain late_node \<and> pool_txs (ap_node m) = []"
proof -
  let ?b = "Some (None, Inl ''disk full'') :: (string option \<times> (string + unit)) option"
  have q: "quiet (ap_node late_node)" by (simp add: late_node_def demo_node_facts)
  have t: "tip_h (api_chain late_node) = 99" "api_chain late_node = late_chain 99" "pool_txs (ap_node late_node) = [late_tx]"
    by (simp_all add: late_node_def demo_node_facts) (simp add: tip_h_def set_canon_h_def)
  have hit: "autosnap_hit (tip_h (api_chain late_node) + 1)"
    "snap_after_seal (Inr ()) ?b (tip_h (api_chain late_node) + 1) = Some (None, Inl ''disk full'')"
    by (simp_all add: t(1) snap_after_seal_def autosnap_hit_def AUTOSNAPSHOT_BLOCK_INTERVAL_def)
  obtain k where k: "collect_entries demo_ext (ap_node late_node) = ([Raw late_tx], k)" "sn_chain k = late_chain 99"
    by (rule seal_tick_raw [of "ap_node late_node" demo_ext]) (use q late_batch t(2) in \<open>auto simp: quiet_def\<close>)
  obtain c where c: "seal_entries demo_ext demo_codecs None [Raw late_tx] (late_chain 99) = Done c" using late_tx_seals by blast
  have one: "blocks c \<noteq> []" "txs (last (blocks c)) = [late_tx]" by (rule sealed_last [OF c]; simp)+
  obtain k' where k': "seal_success demo_ext c k = Some k'"
    by (simp add: seal_success_def one Let_def record_cross_shard_tx_def late_tx_def demo_tx_def)
  have "\<exists>ls m. seal_attempt demo_ext demo_codecs None None (Inr ()) ?b (0, late_node) = Some (True, ls, m)"
    using t(1) by (simp add: seal_attempt_def k c k' Let_def checked_add_def t(2))
  then obtain ls m where run: "seal_attempt demo_ext demo_codecs None None (Inr ()) ?b (0, late_node) = Some (True, ls, m)" by blast
  from failed_checkpoint_loses_block [OF q hit run] run t(3) show ?thesis by (auto simp: BLOCK_CAP_def)
qed

end
