(* ===== verification/Pwm_Identity.thy ===== *)
theory Pwm_Identity
  imports Pwm_Domain_Index Pwm_Guards
begin

text \<open>
  The identity a node runs under (src/crates/pwmd/src/identity.rs): the four names it is configured with, all or
  none of them, the defaults of the two development lanes and of a neutral relay, and the labels derived from
  them.
\<close>

section \<open>Identity\<close>

datatype RuntimeIdentityMode = Explicit | Neutral

record RuntimeIdentity =
  id_network_id :: string
  id_cluster_domain_hi :: u8
  id_cluster_id :: string
  id_node_id :: string
  id_mode :: RuntimeIdentityMode

definition is_shard_enforced :: "RuntimeIdentityMode \<Rightarrow> bool" where
  "is_shard_enforced m \<longleftrightarrow> m = Explicit"

fun as_runtime_label :: "RuntimeIdentityMode \<Rightarrow> string" where
  "as_runtime_label Explicit = ''shard_enforced''"
| "as_runtime_label Neutral = ''relay_baseline''"

record RuntimeIdentityInput =
  ii_network_id :: "string option"
  ii_cluster_domain_hi :: "u8 option"
  ii_cluster_id :: "string option"
  ii_node_id :: "string option"

definition missing_fields :: "RuntimeIdentityInput \<Rightarrow> string list" where
  "missing_fields inp =
     (if ii_network_id inp = None then [''network_id''] else []) @
     (if ii_cluster_domain_hi inp = None then [''cluster_domain_hi''] else []) @
     (if ii_cluster_id inp = None then [''cluster_id''] else []) @
     (if ii_node_id inp = None then [''node_id''] else [])"

definition has_any :: "RuntimeIdentityInput \<Rightarrow> bool" where
  "has_any inp \<longleftrightarrow> ii_network_id inp \<noteq> None \<or> ii_cluster_domain_hi inp \<noteq> None \<or> ii_cluster_id inp \<noteq> None \<or> ii_node_id inp \<noteq> None"

text \<open>The error text quotes the trimmed input as Rust's debug format does, which is left out.\<close>

definition parse_cluster_domain_hi :: "string \<Rightarrow> string + u8" where
  "parse_cluster_domain_hi raw =
     (let trimmed = trim raw;
          bad = ''invalid --cluster-domain-hi value; expected u8/hex'';
          hex = (case strip_prefix ''0x'' trimmed of Some h \<Rightarrow> Some h | None \<Rightarrow> strip_prefix ''0X'' trimmed);
          v = (case hex of Some h \<Rightarrow> from_str_radix 16 (2 ^ 8) h | None \<Rightarrow> from_str_radix 10 (2 ^ 8) trimmed)
      in case v of Some n \<Rightarrow> Inr (of_nat n) | None \<Rightarrow> Inl bad)"

definition default_dev_lane_identity :: "DevLane \<Rightarrow> RuntimeIdentity" where
  "default_dev_lane_identity dev_lane =
     \<lparr> id_network_id = ''devnet'',
       id_cluster_domain_hi = (case dev_lane of Lane0 \<Rightarrow> 0x10 | Lane1 \<Rightarrow> 0x20),
       id_cluster_id = (case dev_lane of Lane0 \<Rightarrow> ''dev-cluster-0x10'' | Lane1 \<Rightarrow> ''dev-cluster-0x20''),
       id_node_id = (case dev_lane of Lane0 \<Rightarrow> ''dev-node-0x10'' | Lane1 \<Rightarrow> ''dev-node-0x20''),
       id_mode = Explicit \<rparr>"

definition default_runtime_identity_neutral :: RuntimeIdentity where
  "default_runtime_identity_neutral =
     \<lparr> id_network_id = ''devnet'', id_cluster_domain_hi = 0, id_cluster_id = ''relay-neutral'', id_node_id = ''relay-neutral'',
       id_mode = Neutral \<rparr>"

fun join_comma :: "string list \<Rightarrow> string" where
  "join_comma [] = []"
| "join_comma [s] = s"
| "join_comma (s # t # r) = s @ '', '' @ join_comma (t # r)"

definition resolve_runtime_identity :: "DevLane \<Rightarrow> RuntimeIdentityInput \<Rightarrow> string + RuntimeIdentity" where
  "resolve_runtime_identity dev_lane inp =
     (if \<not> has_any inp then Inr (default_dev_lane_identity dev_lane)
      else let missing = missing_fields inp
      in if missing \<noteq> []
         then Inl (''partial identity configuration is not allowed; missing fields: '' @ join_comma missing)
         else Inr \<lparr> id_network_id = the (ii_network_id inp), id_cluster_domain_hi = the (ii_cluster_domain_hi inp),
           id_cluster_id = the (ii_cluster_id inp), id_node_id = the (ii_node_id inp), id_mode = Explicit \<rparr>)"

section \<open>Labels\<close>

definition domain_namespace :: "u8 \<Rightarrow> string" where
  "domain_namespace domain_hi = ''domain-hi-0x'' @ to_ascii_lowercase (hex_upper 2 (unat domain_hi))"

definition storage_namespace :: "RuntimeIdentity \<Rightarrow> string" where
  "storage_namespace identity = (case id_mode identity of
     Explicit \<Rightarrow> domain_namespace (id_cluster_domain_hi identity) | Neutral \<Rightarrow> ''neutral'')"

definition runtime_shard_label :: "RuntimeIdentity \<Rightarrow> DevLane \<Rightarrow> string" where
  "runtime_shard_label identity dev_lane = (case id_mode identity of
     Neutral \<Rightarrow> ''neutral''
   | Explicit \<Rightarrow> (case lookup_regulatory_by_hi (id_cluster_domain_hi identity) of
       Some entry \<Rightarrow> de_label entry
     | None \<Rightarrow> ''0x'' @ hex_upper 2 (unat (id_cluster_domain_hi identity))))"

text \<open>The identity is the given one or a default, never a mixture of both.\<close>

lemma resolved_identity:
  assumes "resolve_runtime_identity lane inp = Inr i"
  shows "id_mode i = Explicit" "\<not> has_any inp \<Longrightarrow> i = default_dev_lane_identity lane"
    and "has_any inp \<Longrightarrow> ii_network_id inp = Some (id_network_id i) \<and> ii_cluster_domain_hi inp = Some (id_cluster_domain_hi i) \<and>
      ii_cluster_id inp = Some (id_cluster_id i) \<and> ii_node_id inp = Some (id_node_id i)"
  using assms by (auto simp: resolve_runtime_identity_def missing_fields_def default_dev_lane_identity_def Let_def split: if_splits)

end
