(* ===== verification/Pwm_Hello.thy ===== *)
theory Pwm_Hello
  imports Pwm_Seal_Loop Pwm_Identity
begin

text \<open>
  The handshake of peers (src/crates/pwmd/src/handshake.rs and, of src/crates/pwmd/src/transport/,
  incoming_hello.rs, policy.rs, health.rs, dial.rs; the handler of POST /v1/peer/hello): the signed hello, its
  validation, what an accepted and a refused one change, and the hello a node makes of itself.

  The JSON text that is signed is made by the crate serde_json: it is the field \<open>he_json\<close> of the environment.
  The counts of hellos and of the policy are natural numbers (in the code they panic or stay put after 2^64 hellos); the text of the
  last peer error is left out, its time is kept; so are log lines.
\<close>

section \<open>The hello\<close>

datatype SealRole = SealActive | SealStandby

datatype SyncMode = FullV1 | LegacyObserve

record NodeHelloCluster =
  nc_domain_hi :: u8
  nc_cluster_id :: string

record NodeHelloNode =
  nn_node_id :: string
  nn_pubkey :: bytes32

record NodeHelloCapabilities =
  na_protocol_version :: string
  na_tx_features :: "string list"
  na_services :: "string list"
  na_sync_profile :: "NodeHelloSyncProfile option"
  na_deployment_profile :: DeploymentProfile
  na_seal_role :: SealRole
  na_validator_identity_hash :: "string option"
  na_node_instance_id :: "string option"
  na_lease_owner_id :: "string option"
  na_lease_term :: "u64 option"
  na_lease_expires_at_ms :: "u64 option"
  na_lease_last_tip :: "u64 option"
  na_lease_fence :: "u64 option"
  na_cluster_attest_enabled :: bool
  na_cluster_role :: ClusterRole
  na_cluster_members :: "string list"
  na_cluster_quorum_k :: "u8 option"
  na_cluster_quorum_n :: "u8 option"

record NodeHello =
  nh_network_id :: string
  nh_genesis_hash :: "string option"
  nh_cluster :: NodeHelloCluster
  nh_node :: NodeHelloNode
  nh_capabilities :: NodeHelloCapabilities
  nh_nonce :: bytes
  nh_timestamp_ms :: u64
  nh_signature :: bytes
  nh_chain_tip_height :: "u64 option"
  nh_federation_shard_id :: "string option"
  nh_bridge_commitment :: "string option"

text \<open>What is signed: everything but the signature.\<close>

record NodeHelloSigned =
  ns_network_id :: string
  ns_genesis_hash :: "string option"
  ns_cluster :: NodeHelloCluster
  ns_node :: NodeHelloNode
  ns_capabilities :: NodeHelloCapabilities
  ns_nonce :: bytes
  ns_timestamp_ms :: u64
  ns_chain_tip_height :: "u64 option"
  ns_federation_shard_id :: "string option"
  ns_bridge_commitment :: "string option"

type_synonym hello_json = "NodeHelloSigned \<Rightarrow> bytes option"

text \<open>The remote a session works with, read off its hello.\<close>

definition hello_remote :: "NodeHello \<Rightarrow> SyncRemote" where
  "hello_remote h = \<lparr> rm_node_id = nn_node_id (nh_node h), rm_domain_hi = nc_domain_hi (nh_cluster h),
     rm_services = na_services (nh_capabilities h), rm_profile = na_sync_profile (nh_capabilities h) \<rparr>"

definition sync_mode :: "NodeHello \<Rightarrow> SyncMode" where
  "sync_mode h = (if supports_sync_v1 (hello_remote h) then FullV1 else LegacyObserve)"

definition validator_hash :: "NodeHelloCapabilities \<Rightarrow> string option" where
  "validator_hash c = member_id (na_validator_identity_hash c)"

definition node_instance_id :: "NodeHelloCapabilities \<Rightarrow> string option" where
  "node_instance_id c = member_id (na_node_instance_id c)"

definition lease_owner_id :: "NodeHelloCapabilities \<Rightarrow> string option" where
  "lease_owner_id c = member_id (na_lease_owner_id c)"

section \<open>Validation\<close>

record HandshakeValidationCtx =
  vx_expected_network_id :: string
  vx_expected_genesis_hash :: "string option"
  vx_skew_window_ms :: u64

datatype HandshakeRejectReason = HsBadSignature | HsReplayNonce | HsNetworkMismatch | HsGenesisMismatch | HsTimestampSkew | HsMalformed
  | HsProtocolVersionMalformed | HsProtocolVersionMajorMismatch

fun hs_label :: "HandshakeRejectReason \<Rightarrow> string" where
  "hs_label HsBadSignature = ''bad_signature''"
| "hs_label HsReplayNonce = ''replay_nonce''"
| "hs_label HsNetworkMismatch = ''network_mismatch''"
| "hs_label HsGenesisMismatch = ''genesis_mismatch''"
| "hs_label HsTimestampSkew = ''timestamp_skew''"
| "hs_label HsMalformed = ''malformed''"
| "hs_label HsProtocolVersionMalformed = ''protocol_version_malformed''"
| "hs_label HsProtocolVersionMajorMismatch = ''protocol_version_major_mismatch''"

definition PWM_PROTOCOL_VERSION :: string where
  "PWM_PROTOCOL_VERSION = ''0.1.0''"

record ProtocolVersion =
  pver_major :: u64
  pver_minor :: u64
  pver_patch :: u64

datatype ProtocolCompat = CompatExact | FractionalMismatch

text \<open>\<open>split(c)\<close> of a text at a character.\<close>

fun split_char :: "char \<Rightarrow> string \<Rightarrow> string list" where
  "split_char c [] = [[]]"
| "split_char c (x # xs) = (if x = c then [] # split_char c xs
     else case split_char c xs of p # ps \<Rightarrow> (x # p) # ps | [] \<Rightarrow> [[x]])"

definition protocol_version_parse :: "string \<Rightarrow> HandshakeRejectReason + ProtocolVersion" where
  "protocol_version_parse raw = (case split_char (CHR ''.'') (trim raw) of
     [major_s, minor_s, patch_s] \<Rightarrow>
       (case (parse_u64 major_s, parse_u64 minor_s, parse_u64 patch_s) of
          (Some major, Some minor, Some patch) \<Rightarrow> Inr \<lparr> pver_major = major, pver_minor = minor, pver_patch = patch \<rparr>
        | _ \<Rightarrow> Inl HsProtocolVersionMalformed)
   | _ \<Rightarrow> Inl HsProtocolVersionMalformed)"

definition protocol_compat :: "string \<Rightarrow> HandshakeRejectReason + ProtocolCompat" where
  "protocol_compat remote_raw = (case protocol_version_parse PWM_PROTOCOL_VERSION of
     Inl r \<Rightarrow> Inl r
   | Inr here \<Rightarrow> (case protocol_version_parse remote_raw of
       Inl r \<Rightarrow> Inl r
     | Inr remote \<Rightarrow>
         if pver_major here \<noteq> pver_major remote then Inl HsProtocolVersionMajorMismatch
         else if pver_minor here \<noteq> pver_minor remote \<or> pver_patch here \<noteq> pver_patch remote then Inr FractionalMismatch
         else Inr CompatExact))"

text \<open>The nonces seen, each with the time it was taken.\<close>

type_synonym ReplayNonceCache = "(bytes, u64) fmap"

definition nonce_prune :: "u64 \<Rightarrow> u64 \<Rightarrow> ReplayNonceCache \<Rightarrow> ReplayNonceCache" where
  "nonce_prune now_ms window_ms seen =
     fmfilter (\<lambda>k. case fmlookup seen k of Some ts \<Rightarrow> sat_sub now_ms ts \<le> window_ms | None \<Rightarrow> False) seen"

definition nonce_check_and_insert :: "bytes \<Rightarrow> u64 \<Rightarrow> u64 \<Rightarrow> ReplayNonceCache \<Rightarrow> bool \<times> ReplayNonceCache" where
  "nonce_check_and_insert bs now_ms window_ms seen =
     (let seen = nonce_prune now_ms window_ms seen
      in if fmlookup seen bs \<noteq> None then (False, seen) else (True, fmupd bs now_ms seen))"

definition blank :: "string \<Rightarrow> bool" where
  "blank s \<longleftrightarrow> trim s = []"

definition validate_mandatory_fields :: "NodeHello \<Rightarrow> HandshakeRejectReason + unit" where
  "validate_mandatory_fields h =
     (let c = nh_capabilities h
      in if blank (nh_network_id h) \<or> blank (nc_cluster_id (nh_cluster h)) \<or> blank (nn_node_id (nh_node h))
            \<or> blank (na_protocol_version c) \<or> nh_nonce h = []
         then Inl HsMalformed
         else if list_ex blank (na_tx_features c) \<or> list_ex blank (na_services c) then Inl HsMalformed
         else if (case na_validator_identity_hash c of Some v \<Rightarrow> blank v | None \<Rightarrow> False)
            \<or> (case na_node_instance_id c of Some v \<Rightarrow> blank v | None \<Rightarrow> False)
            \<or> list_ex blank (na_cluster_members c)
         then Inl HsMalformed
         else Inr ())"

definition signing_payload :: "hello_json \<Rightarrow> NodeHello \<Rightarrow> HandshakeRejectReason + bytes" where
  "signing_payload json h = (case json
       \<lparr> ns_network_id = nh_network_id h, ns_genesis_hash = nh_genesis_hash h, ns_cluster = nh_cluster h, ns_node = nh_node h,
         ns_capabilities = nh_capabilities h, ns_nonce = nh_nonce h, ns_timestamp_ms = nh_timestamp_ms h,
         ns_chain_tip_height = nh_chain_tip_height h, ns_federation_shard_id = nh_federation_shard_id h,
         ns_bridge_commitment = nh_bridge_commitment h \<rparr> of
     Some msg \<Rightarrow> Inr msg | None \<Rightarrow> Inl HsMalformed)"

definition hello_sign :: "extlib \<Rightarrow> hello_json \<Rightarrow> bytes32 \<Rightarrow> NodeHello \<Rightarrow> (HandshakeRejectReason + unit) \<times> NodeHello" where
  "hello_sign ext json signing_key h = (case validate_mandatory_fields h of
     Inl r \<Rightarrow> (Inl r, h)
   | Inr _ \<Rightarrow> (case signing_payload json h of
       Inl r \<Rightarrow> (Inl r, h)
     | Inr msg \<Rightarrow> (Inr (), h\<lparr>nh_signature := be_bytes 64 (x_sign ext signing_key msg)\<rparr>)))"

definition verify_signature :: "extlib \<Rightarrow> hello_json \<Rightarrow> NodeHello \<Rightarrow> HandshakeRejectReason + unit" where
  "verify_signature ext json h =
     (if length (nh_signature h) \<noteq> 64 then Inl HsBadSignature
      else if \<not> x_key_ok ext (nn_pubkey (nh_node h)) then Inl HsBadSignature
      else case signing_payload json h of
        Inl r \<Rightarrow> Inl r
      | Inr msg \<Rightarrow> if x_verify ext (nn_pubkey (nh_node h)) msg (from_be (nh_signature h)) then Inr () else Inl HsBadSignature)"

definition abs_diff :: "u64 \<Rightarrow> u64 \<Rightarrow> u64" where
  "abs_diff a b = (if a \<le> b then b - a else a - b)"

definition validate_node_hello :: "extlib \<Rightarrow> hello_json \<Rightarrow> NodeHello \<Rightarrow> HandshakeValidationCtx \<Rightarrow> u64 \<Rightarrow> ReplayNonceCache
    \<Rightarrow> (HandshakeRejectReason + unit) \<times> ReplayNonceCache" where
  "validate_node_hello ext json h ctx now_ms replay = (case validate_mandatory_fields h of
     Inl r \<Rightarrow> (Inl r, replay)
   | Inr _ \<Rightarrow>
       if nh_network_id h \<noteq> vx_expected_network_id ctx then (Inl HsNetworkMismatch, replay)
       else if vx_expected_genesis_hash ctx \<noteq> None \<and> nh_genesis_hash h \<noteq> vx_expected_genesis_hash ctx then (Inl HsGenesisMismatch, replay)
       else (case verify_signature ext json h of
         Inl r \<Rightarrow> (Inl r, replay)
       | Inr _ \<Rightarrow>
           let skew = abs_diff now_ms (nh_timestamp_ms h)
           in if vx_skew_window_ms ctx < skew then (Inl HsTimestampSkew, replay)
              else (case nonce_check_and_insert (nh_nonce h) now_ms (vx_skew_window_ms ctx) replay of
                (False, replay) \<Rightarrow> (Inl HsReplayNonce, replay)
              | (True, replay) \<Rightarrow> (Inr (), replay))))"


section \<open>What a node keeps about its peers\<close>

record BackoffEnvelope =
  be_base_ms :: u64
  be_max_ms :: u64

record PeerPolicyConfig =
  pk_native_outbound_target :: u32
  pk_foreign_outbound_target :: u32
  pk_native_min_live :: u32
  pk_native_backoff :: BackoffEnvelope
  pk_foreign_backoff :: BackoffEnvelope
  pk_class_weights :: "(string, u32) fmap"

definition peer_policy_default :: PeerPolicyConfig where
  "peer_policy_default = \<lparr> pk_native_outbound_target = 6, pk_foreign_outbound_target = 2, pk_native_min_live = 2,
     pk_native_backoff = \<lparr> be_base_ms = 250, be_max_ms = 4000 \<rparr>, pk_foreign_backoff = \<lparr> be_base_ms = 1000, be_max_ms = 30000 \<rparr>,
     pk_class_weights = fmupd ''foreign'' 10 (fmupd ''native'' 100 fmempty) \<rparr>"

record PeerPolicyCounters =
  po_prioritize_runs :: nat
  po_backoff_select_native :: nat
  po_backoff_select_foreign :: nat
  po_native_degraded_flips :: nat

record PeerPolicySnapshot =
  pp_config :: PeerPolicyConfig
  pp_counters :: PeerPolicyCounters
  pp_native_live :: u32
  pp_native_degraded_state :: bool

record HandshakeMetrics =
  hm_accepted_total :: nat
  hm_rejected_total :: nat
  hm_class_accept_total :: "(string, u64) fmap"
  hm_reject_reason_total :: "(string, u64) fmap"

text \<open>The part of the transport snapshot about native peers.\<close>

record NativeHealth =
  nt_underflow_ticks :: u64
  nt_threshold_ticks :: u64
  nt_degraded_state :: bool
  nt_degraded_transitions :: u64

record GenesisMismatchSnapshot =
  gm_expected_hash :: "string option"
  gm_received_hash :: "string option"
  gm_peer_node_id :: string
  gm_peer_hint :: string
  gm_at_unix_ms :: u64

text \<open>The flags of the genesis guard and of the bridge are those of the gates (\<open>gt_genesis_blocked\<close>,
  \<open>gt_bridge_refused\<close>), the peers and the trusted peers are those of the cluster.\<close>

record HelloNode =
  hn_cluster :: ClusterNode
  hn_replay :: ReplayNonceCache
  hn_metrics :: HandshakeMetrics
  hn_policy :: PeerPolicySnapshot
  hn_health :: NativeHealth
  hn_mismatch_total :: u64
  hn_last_mismatch :: "GenesisMismatchSnapshot option"
  hn_refusal_total :: u64
  hn_peer_error_at_ms :: "u64 option"

text \<open>What the handshake reads and nothing changes.\<close>

record HelloEnv =
  he_ext :: extlib
  he_json :: hello_json
  he_ctx :: HandshakeValidationCtx
  he_domain_hi :: u8
  he_deployment_profile :: DeploymentProfile
  he_seal_role :: SealRole
  he_validator_hash :: "string option"
  he_instance_id :: "string option"

abbreviation hn_api :: "HelloNode \<Rightarrow> ApiNode" where
  "hn_api n \<equiv> sy_api (cl_sync (hn_cluster n))"

definition with_cluster :: "(ClusterNode \<Rightarrow> ClusterNode) \<Rightarrow> HelloNode \<Rightarrow> HelloNode" where
  "with_cluster f n = n\<lparr>hn_cluster := f (hn_cluster n)\<rparr>"

definition with_gates :: "(Gates \<Rightarrow> Gates) \<Rightarrow> ClusterNode \<Rightarrow> ClusterNode" where
  "with_gates f n = n\<lparr>cl_sync := (cl_sync n)\<lparr>sy_api := (sy_api (cl_sync n))\<lparr>ap_gates := f (ap_gates (sy_api (cl_sync n)))\<rparr>\<rparr>\<rparr>"

definition set_peer_error :: "u64 \<Rightarrow> HelloNode \<Rightarrow> HelloNode" where
  "set_peer_error now_ms n = n\<lparr>hn_peer_error_at_ms := Some now_ms\<rparr>"

definition clear_peer_error :: "HelloNode \<Rightarrow> HelloNode" where
  "clear_peer_error n = n\<lparr>hn_peer_error_at_ms := None\<rparr>"

definition add_str_u64_bucket :: "string \<Rightarrow> u64 \<Rightarrow> (string, u64) fmap \<Rightarrow> (string, u64) fmap" where
  "add_str_u64_bucket key delta m =
     (if delta = 0 then m
      else case fmlookup m key of Some v \<Rightarrow> fmupd key (sat_add v delta) m | None \<Rightarrow> fmupd key delta m)"

fun class_label :: "PeerClass \<Rightarrow> string" where
  "class_label PeerNative = ''native''"
| "class_label PeerForeign = ''foreign''"

definition classify_peer :: "u8 \<Rightarrow> u8 \<Rightarrow> PeerClass" where
  "classify_peer local_domain_hi peer_domain_hi = (if peer_domain_hi = local_domain_hi then PeerNative else PeerForeign)"

definition select_backoff_for_class :: "PeerClass \<Rightarrow> PeerPolicySnapshot \<Rightarrow> BackoffEnvelope \<times> PeerPolicySnapshot" where
  "select_backoff_for_class class p =
     (let c = pp_counters p
      in case class of
           PeerNative \<Rightarrow> (pk_native_backoff (pp_config p), p\<lparr>pp_counters := c\<lparr>po_backoff_select_native := po_backoff_select_native c + 1\<rparr>\<rparr>)
         | PeerForeign \<Rightarrow> (pk_foreign_backoff (pp_config p), p\<lparr>pp_counters := c\<lparr>po_backoff_select_foreign := po_backoff_select_foreign c + 1\<rparr>\<rparr>))"

definition refresh_native_degraded_state :: "u32 \<Rightarrow> PeerPolicySnapshot \<Rightarrow> PeerPolicySnapshot" where
  "refresh_native_degraded_state native_live p =
     (let p = p\<lparr>pp_native_live := native_live\<rparr>;
          next_state = (native_live < pk_native_min_live (pp_config p));
          c = pp_counters p
      in if next_state \<noteq> pp_native_degraded_state p
         then p\<lparr>pp_counters := c\<lparr>po_native_degraded_flips := po_native_degraded_flips c + 1\<rparr>, pp_native_degraded_state := next_state\<rparr>
         else p)"

definition count_native_live_peers :: "HelloEnv \<Rightarrow> HelloNode \<Rightarrow> u32" where
  "count_native_live_peers v n =
     (let peers = cl_peers (hn_cluster n)
      in of_nat (fcard (ffilter (\<lambda>k. case fmlookup peers k of
           Some p \<Rightarrow> is_peer_liveish (pr_status p) \<and> pr_domain_hi p = he_domain_hi v | None \<Rightarrow> False) (fmdom peers))))"

definition trusted_relay_count :: "HelloNode \<Rightarrow> u32" where
  "trusted_relay_count n =
     of_nat (fcard (ffilter (\<lambda>k. case fmlookup (cl_peers (hn_cluster n)) k of
       Some p \<Rightarrow> is_peer_liveish (pr_status p) | None \<Rightarrow> False) (fmdom (cl_trusted (hn_cluster n)))))"

definition refresh_health :: "bool \<Rightarrow> NativeHealth \<Rightarrow> NativeHealth" where
  "refresh_health under_native_min s =
     (let s = s\<lparr>nt_underflow_ticks := (if under_native_min then sat_add (nt_underflow_ticks s) 1 else 0)\<rparr>;
          next_degraded = (nt_threshold_ticks s \<le> nt_underflow_ticks s)
      in if nt_degraded_state s \<noteq> next_degraded
         then s\<lparr>nt_degraded_state := next_degraded, nt_degraded_transitions := sat_add (nt_degraded_transitions s) 1\<rparr> else s)"

definition refresh_native_health :: "u32 \<Rightarrow> bool \<Rightarrow> HelloNode \<Rightarrow> HelloNode" where
  "refresh_native_health native_live with_transport_degraded n =
     (let under_native_min = (native_live < pk_native_min_live (pp_config (hn_policy n)));
          n = (if with_transport_degraded then n\<lparr>hn_health := refresh_health under_native_min (hn_health n)\<rparr> else n)
      in n\<lparr>hn_policy := refresh_native_degraded_state native_live (hn_policy n)\<rparr>)"

section \<open>A hello arrives\<close>

text \<open>Another instance of the own validator, both of them sealing.\<close>

definition same_validator_conflict :: "HelloEnv \<Rightarrow> PeerClass \<Rightarrow> NodeHelloCapabilities \<Rightarrow> bool" where
  "same_validator_conflict v class c \<longleftrightarrow> class = PeerNative \<and>
     (case (member_id (he_validator_hash v), validator_hash c) of
        (Some local_hash, Some remote_hash) \<Rightarrow> local_hash = remote_hash \<and>
          \<not> (case (node_instance_id c, member_id (he_instance_id v)) of (Some remote, Some here) \<Rightarrow> remote = here | _ \<Rightarrow> False) \<and>
          he_deployment_profile v = SingleSealer \<and> he_seal_role v = SealActive \<and> na_seal_role c = SealActive
      | _ \<Rightarrow> False)"

definition count_rejected :: "string \<Rightarrow> HelloNode \<Rightarrow> HelloNode" where
  "count_rejected label n = n\<lparr>hn_metrics := (hn_metrics n)\<lparr>hm_rejected_total := hm_rejected_total (hn_metrics n) + 1,
     hm_reject_reason_total := add_str_u64_bucket label 1 (hm_reject_reason_total (hn_metrics n))\<rparr>\<rparr>"

definition refuse_bridge :: "string \<Rightarrow> string \<Rightarrow> u64 \<Rightarrow> HelloNode \<Rightarrow> HelloNode" where
  "refuse_bridge expected got now_ms n =
     (let detail = ''bridge_federation_trust_refused expected_bridge_commitment='' @ expected @ '' received_bridge_commitment='' @ got;
          n = with_cluster (with_gates (\<lambda>g. g\<lparr>gt_bridge_refused := True, gt_refusal_reason := Some detail\<rparr>)) n
      in set_peer_error now_ms (n\<lparr>hn_refusal_total := sat_add (hn_refusal_total n) 1\<rparr>))"

text \<open>The score is lowered when the commitment is missing, not when it is another one.\<close>

definition bridge_check :: "string option \<Rightarrow> NodeHello \<Rightarrow> u64 \<Rightarrow> HelloNode \<Rightarrow> (string + unit) \<times> HelloNode" where
  "bridge_check expected_bridge h now_ms n = (case expected_bridge of
     None \<Rightarrow> (Inr (), n)
   | Some expected \<Rightarrow> (case nh_bridge_commitment h of
       None \<Rightarrow>
         let n = refuse_bridge expected [] now_ms n
         in (Inl ''bridge_federation_trust_refused'', with_cluster (\<lambda>c. c\<lparr>cl_sync := (cl_sync c)\<lparr>sy_scores :=
              snd (score_apply (nn_node_id (nh_node h)) BridgeTrustRefusal (sy_scores (cl_sync c)))\<rparr>\<rparr>) n)
     | Some got \<Rightarrow> if got \<noteq> expected then (Inl ''bridge_federation_trust_refused'', refuse_bridge expected got now_ms n) else (Inr (), n)))"

definition trusted_of_hello :: "NodeHello \<Rightarrow> TrustedPeer" where
  "trusted_of_hello h = \<lparr> tp_node_id = nn_node_id (nh_node h), tp_cluster_id = nc_cluster_id (nh_cluster h), tp_pubkey = nn_pubkey (nh_node h),
     tp_domain_hi = nc_domain_hi (nh_cluster h), tp_instance_id = na_node_instance_id (nh_capabilities h),
     tp_cluster_attest_enabled = na_cluster_attest_enabled (nh_capabilities h), tp_cluster_role = na_cluster_role (nh_capabilities h) \<rparr>"

definition accept_hello :: "HelloEnv \<Rightarrow> NodeHello \<Rightarrow> u64 \<Rightarrow> PeerClass \<Rightarrow> HelloNode \<Rightarrow> HelloNode" where
  "accept_hello v h now_ms class n =
     (let node_id = nn_node_id (nh_node h);
          n = with_cluster (with_gates (\<lambda>g. g\<lparr>gt_bridge_refused := False, gt_refusal_reason := None\<rparr>)) n;
          n = n\<lparr>hn_policy := snd (select_backoff_for_class class (hn_policy n))\<rparr>;
          n = n\<lparr>hn_metrics := (hn_metrics n)\<lparr>hm_accepted_total := hm_accepted_total (hn_metrics n) + 1,
            hm_class_accept_total := add_str_u64_bucket (class_label class) 1 (hm_class_accept_total (hn_metrics n))\<rparr>\<rparr>;
          n = with_cluster (\<lambda>c. c\<lparr>cl_peers := fmupd node_id \<lparr> pr_node_id = node_id, pr_domain_hi = nc_domain_hi (nh_cluster h),
            pr_class = class, pr_last_seen_ms = now_ms, pr_status = PeerConnected \<rparr> (cl_peers c)\<rparr>) n;
          n = with_cluster (\<lambda>c. c\<lparr>cl_trusted := fmupd node_id (trusted_of_hello h) (cl_trusted c)\<rparr>) n
      in refresh_native_health (count_native_live_peers v n) False n)"

text \<open>\<open>provenance_trusted\<close> says whether the node dialled the peer itself; it is not used.\<close>

definition process_incoming_peer_hello :: "HelloEnv \<Rightarrow> NodeHello \<Rightarrow> u64 \<Rightarrow> string \<Rightarrow> bool \<Rightarrow> string option \<Rightarrow> string \<Rightarrow> HelloNode
    \<Rightarrow> (string + PeerClass) \<times> HelloNode" where
  "process_incoming_peer_hello v h now_ms peer_hint provenance_trusted expected_bridge expected_cluster_id n =
     (case validate_node_hello (he_ext v) (he_json v) h (he_ctx v) now_ms (hn_replay n) of
        (Inr _, replay) \<Rightarrow>
          let n = n\<lparr>hn_replay := replay\<rparr>; class = classify_peer (he_domain_hi v) (nc_domain_hi (nh_cluster h))
          in if class = PeerNative \<and> nc_cluster_id (nh_cluster h) \<noteq> expected_cluster_id
             then (Inl ''same_shard_cluster_id_mismatch'', set_peer_error now_ms n)
             else if same_validator_conflict v class (nh_capabilities h)
             then (Inl ''same_validator_active_conflict'', set_peer_error now_ms (count_rejected ''same_validator_active_conflict'' n))
             else (case protocol_compat (na_protocol_version (nh_capabilities h)) of
               Inl reason \<Rightarrow> (Inl (hs_label reason), set_peer_error now_ms (count_rejected (hs_label reason) n))
             | Inr _ \<Rightarrow>
                 if na_sync_profile (nh_capabilities h) \<noteq> None \<and> \<not> supports_sync_v1 (hello_remote h)
                 then (Inl (if class = PeerNative then ''same_shard_sync_profile_incompatible'' else ''inter_shard_sync_profile_incompatible''),
                   set_peer_error now_ms n)
                 else (case (if class = PeerNative then bridge_check expected_bridge h now_ms n else (Inr (), n)) of
                   (Inl label, n) \<Rightarrow> (Inl label, n)
                 | (Inr _, n) \<Rightarrow> (Inr class, accept_hello v h now_ms class n)))
      | (Inl reason, replay) \<Rightarrow>
          let n = count_rejected (hs_label reason) (n\<lparr>hn_replay := replay\<rparr>);
              n = (if reason = HsGenesisMismatch
                   then (with_cluster (with_gates (\<lambda>g. g\<lparr>gt_genesis_blocked := True\<rparr>)) n)
                     \<lparr>hn_mismatch_total := sat_add (hn_mismatch_total n) 1,
                      hn_last_mismatch := Some \<lparr> gm_expected_hash = vx_expected_genesis_hash (he_ctx v), gm_received_hash = nh_genesis_hash h,
                        gm_peer_node_id = nn_node_id (nh_node h), gm_peer_hint = peer_hint, gm_at_unix_ms = now_ms \<rparr>\<rparr>
                   else n)
          in (Inl (hs_label reason), set_peer_error now_ms n))"

text \<open>The operator's way to clear a refusal of the bridge.\<close>

definition v1_bridge_federation_reset :: "string option \<Rightarrow> bool option \<Rightarrow> string option \<Rightarrow> HelloNode \<Rightarrow> (api_err + unit) \<times> HelloNode" where
  "v1_bridge_federation_reset op_token remote_loopback header n = (case ensure_operator_auth op_token remote_loopback header of
     Inl e \<Rightarrow> (Inl e, n)
   | Inr _ \<Rightarrow> (case ensure_ready (ap_gates (hn_api n)) of
       Inl e \<Rightarrow> (Inl e, n)
     | Inr _ \<Rightarrow> (Inr (), with_cluster (with_gates (\<lambda>g. g\<lparr>gt_bridge_refused := False, gt_refusal_reason := None\<rparr>)) n)))"

section \<open>The own hello\<close>

definition TRUST_FAKE_GENESIS_HEX :: string where
  "TRUST_FAKE_GENESIS_HEX = replicate 64 (CHR ''0'')"

text \<open>The signing key is made of the names of the node.\<close>

fun seed_loop :: "nat \<Rightarrow> bytes \<Rightarrow> bytes \<Rightarrow> bytes" where
  "seed_loop i [] seed = seed"
| "seed_loop i (b # bs) seed = seed_loop (Suc i) bs (seed[i mod 32 := word_rotl (i mod 8) (seed ! (i mod 32) + b)])"

definition hello_material :: "string \<Rightarrow> u8 \<Rightarrow> string \<Rightarrow> string \<Rightarrow> string" where
  "hello_material network_id domain_hi cluster_id node_id =
     ''pwmd-local-node-hello|'' @ network_id @ ''|'' @ hex_upper 2 (unat domain_hi) @ ''|'' @ cluster_id @ ''|'' @ node_id"

definition hello_key_of :: "string \<Rightarrow> bytes32" where
  "hello_key_of material = from_be (seed_loop 0 (as_bytes material) (replicate 32 0))"

definition local_hello_signing_key :: "RuntimeIdentity \<Rightarrow> bytes32" where
  "local_hello_signing_key i =
     hello_key_of (hello_material (id_network_id i) (id_cluster_domain_hi i) (id_cluster_id i) (id_node_id i))"

text \<open>What the hello is made of; the runtime of the lease is missing when its lock is poisoned.\<close>

record HelloApp =
  ha_identity :: RuntimeIdentity
  ha_broke_trust_test :: bool
  ha_deployment_profile :: DeploymentProfile
  ha_seal_role :: SealRole
  ha_validator_identity_hash :: string
  ha_node_instance_id :: string
  ha_lease_runtime :: "LeaseRuntime option"
  ha_cluster_cfg :: ClusterCfg
  ha_shard :: DevLane

definition local_capabilities :: "HelloApp \<Rightarrow> NodeHelloCapabilities" where
  "local_capabilities a =
     \<lparr> na_protocol_version = PWM_PROTOCOL_VERSION, na_tx_features = [''local_transfer_v1''], na_services = [''mempool'', ''sync''],
       na_sync_profile = Some \<lparr> np_sync_wire_version = SYNC_WIRE_V1, np_max_headers_per_msg = SYNC_HDR_MAX,
         np_max_blocks_per_msg = SYNC_BLK_MAX, np_max_txs_per_msg = SYNC_TX_MAX, np_supports_epoch_catchup = True \<rparr>,
       na_deployment_profile = ha_deployment_profile a, na_seal_role = ha_seal_role a,
       na_validator_identity_hash = Some (ha_validator_identity_hash a), na_node_instance_id = Some (ha_node_instance_id a),
       na_lease_owner_id = map_option rt_owner_id (ha_lease_runtime a), na_lease_term = map_option rt_term (ha_lease_runtime a),
       na_lease_expires_at_ms = map_option rt_expires_at_ms (ha_lease_runtime a),
       na_lease_last_tip = map_option rt_last_tip (ha_lease_runtime a), na_lease_fence = map_option rt_fence (ha_lease_runtime a),
       na_cluster_attest_enabled = cc_enabled (ha_cluster_cfg a), na_cluster_role = cc_role (ha_cluster_cfg a),
       na_cluster_members = cc_members (ha_cluster_cfg a), na_cluster_quorum_k = Some (cc_quorum_k (ha_cluster_cfg a)),
       na_cluster_quorum_n = Some (cc_quorum_n (ha_cluster_cfg a)) \<rparr>"

text \<open>With the next number for the nonce. That signing failed is ignored.\<close>

definition build_local_node_hello :: "extlib \<Rightarrow> hello_json \<Rightarrow> HelloApp \<Rightarrow> string option \<Rightarrow> string option \<Rightarrow> u64 \<Rightarrow> u64 option \<Rightarrow> u64
    \<Rightarrow> NodeHello \<times> u64" where
  "build_local_node_hello ext json a genesis_hash bridge_commitment now_ms chain_tip_height nonce_seq =
     (let i = ha_identity a; key = local_hello_signing_key i;
          h = \<lparr> nh_network_id = id_network_id i,
                nh_genesis_hash = (if ha_broke_trust_test a then Some TRUST_FAKE_GENESIS_HEX else genesis_hash),
                nh_cluster = \<lparr> nc_domain_hi = id_cluster_domain_hi i, nc_cluster_id = id_cluster_id i \<rparr>,
                nh_node = \<lparr> nn_node_id = id_node_id i, nn_pubkey = x_pubkey ext key \<rparr>,
                nh_capabilities = local_capabilities a,
                nh_nonce = be_bytes 8 nonce_seq @ be_bytes 8 now_ms,
                nh_timestamp_ms = now_ms, nh_signature = [], nh_chain_tip_height = chain_tip_height,
                nh_federation_shard_id = Some (runtime_shard_label i (ha_shard a)), nh_bridge_commitment = bridge_commitment \<rparr>
      in (snd (hello_sign ext json key h), nonce_seq + 1))"

section \<open>POST /v1/peer/hello and the dial of a seed\<close>

record PeerHelloOut =
  ph_accepted :: bool
  ph_reason :: "string option"
  ph_class :: "PeerClass option"
  ph_node_hello :: "NodeHello option"

text \<open>\<open>clock\<close> is the reading of the clock, which may fail; the commitment to the bridge is an argument.\<close>

definition v1_peer_hello :: "HelloEnv \<Rightarrow> HelloApp \<Rightarrow> bool \<Rightarrow> bool \<Rightarrow> api_err + u64 \<Rightarrow> string \<Rightarrow> NodeHello \<Rightarrow> HelloNode \<times> u64
    \<Rightarrow> (api_err + PeerHelloOut) \<times> HelloNode \<times> u64" where
  "v1_peer_hello v a dev_profile transport_enabled clock bridge_commitment h = (\<lambda>(n, nonce_seq).
     case ensure_ready (ap_gates (hn_api n)) of
       Inl e \<Rightarrow> (Inl e, n, nonce_seq)
     | Inr _ \<Rightarrow>
         if \<not> dev_profile \<and> \<not> transport_enabled
         then (Inl (NOT_FOUND, EText ''peer hello endpoint is available only in dev profile or real transport mode''), n, nonce_seq)
         else (case clock of
           Inl e \<Rightarrow> (Inl e, n, nonce_seq)
         | Inr now_ms \<Rightarrow>
             let (local_hello, nonce_seq) = build_local_node_hello (he_ext v) (he_json v) a (vx_expected_genesis_hash (he_ctx v))
                   (Some bridge_commitment) now_ms (Some (tip_h (api_chain (hn_api n)))) nonce_seq
             in (case process_incoming_peer_hello v h now_ms ''http'' False (Some bridge_commitment) (id_cluster_id (ha_identity a)) n of
                  (Inr class, n) \<Rightarrow> (Inr \<lparr> ph_accepted = True, ph_reason = None, ph_class = Some class, ph_node_hello = Some local_hello \<rparr>, n, nonce_seq)
                | (Inl label, n) \<Rightarrow> (Inr \<lparr> ph_accepted = False, ph_reason = Some label, ph_class = None, ph_node_hello = None \<rparr>, n, nonce_seq))))"

datatype DialAttemptResult = DialSuccess | DialRetryableFail

record SeedStatus =
  ss_ready :: bool
  ss_network_id :: "string option"
  ss_node_id :: "string option"
  ss_effective_genesis_hash :: "string option"

type_synonym dial_outcome = "DialAttemptResult \<times> PeerClass option \<times> string option \<times> string option"

definition retryable_connect_outcome :: "string \<Rightarrow> dial_outcome" where
  "retryable_connect_outcome err = (DialRetryableFail, None, None, Some err)"

text \<open>The answers of the seed are arguments: what GET /v1/status and POST /v1/peer/hello return, or the text of
  what went wrong. The merge into the directory of the federation that follows a success is left out.\<close>

definition attempt_seed_connect :: "HelloEnv \<Rightarrow> HelloApp \<Rightarrow> string \<Rightarrow> u64 \<Rightarrow> string \<Rightarrow> (string + SeedStatus) \<Rightarrow> (NodeHello \<Rightarrow> string + PeerHelloOut)
    \<Rightarrow> HelloNode \<times> u64 \<Rightarrow> dial_outcome \<times> HelloNode \<times> u64" where
  "attempt_seed_connect v a seed now_ms bridge_commitment status_answer hello_answer = (\<lambda>(n, nonce_seq).
     let (local_hello, nonce_seq) = build_local_node_hello (he_ext v) (he_json v) a (vx_expected_genesis_hash (he_ctx v))
           (Some bridge_commitment) now_ms (Some (tip_h (api_chain (hn_api n)))) nonce_seq;
         fail = (\<lambda>text. (retryable_connect_outcome (''seed '' @ seed @ '' '' @ text), n, nonce_seq))
     in case status_answer of
          Inl text \<Rightarrow> fail text
        | Inr status \<Rightarrow>
            if \<not> ss_ready status then fail ''not_ready''
            else if (case ss_network_id status of Some net \<Rightarrow> net \<noteq> id_network_id (ha_identity a) | None \<Rightarrow> False)
            then fail (''network_mismatch expected_network_id='' @ id_network_id (ha_identity a) @ '' received_network_id='' @ the (ss_network_id status))
            else if (case (nh_genesis_hash local_hello, ss_effective_genesis_hash status) of (Some expected, Some received) \<Rightarrow> expected \<noteq> received
                     | _ \<Rightarrow> False)
            then let m = (with_cluster (with_gates (\<lambda>g. g\<lparr>gt_genesis_blocked := True\<rparr>)) n)
                       \<lparr>hn_mismatch_total := sat_add (hn_mismatch_total n) 1,
                        hn_last_mismatch := Some \<lparr> gm_expected_hash = nh_genesis_hash local_hello, gm_received_hash = ss_effective_genesis_hash status,
                          gm_peer_node_id = (case ss_node_id status of Some i \<Rightarrow> i | None \<Rightarrow> ''unknown''), gm_peer_hint = seed, gm_at_unix_ms = now_ms \<rparr>\<rparr>
                 in (retryable_connect_outcome (''seed '' @ seed @ '' genesis_mismatch expected_genesis_hash='' @ the (nh_genesis_hash local_hello)
                       @ '' received_genesis_hash='' @ the (ss_effective_genesis_hash status)), set_peer_error now_ms m, nonce_seq)
            else (case hello_answer local_hello of
              Inl text \<Rightarrow> fail text
            | Inr ack \<Rightarrow>
                if \<not> ph_accepted ack
                then fail (''hello_rejected reason='' @ (case ph_reason ack of Some r \<Rightarrow> r | None \<Rightarrow> ''unknown''))
                else (case ph_node_hello ack of
                  None \<Rightarrow> fail ''no_matching_peer_hello''
                | Some remote \<Rightarrow>
                    let node_id = nn_node_id (nh_node remote)
                    in (case process_incoming_peer_hello v remote now_ms seed True (Some bridge_commitment) (id_cluster_id (ha_identity a)) n of
                         (Inr class, n) \<Rightarrow> ((DialSuccess, Some class, Some node_id, None), clear_peer_error n, nonce_seq)
                       | (Inl label, n) \<Rightarrow> ((DialRetryableFail, None, Some node_id, Some (''seed '' @ seed @ '' remote_hello_rejected reason='' @ label)),
                           n, nonce_seq)))))"

end
