(* ===== verification/Pwm_Hello_Facts.thy ===== *)
theory Pwm_Hello_Facts
  imports Pwm_Hello Pwm_Cluster_Props
begin

text \<open>
  What the handshake of peers guarantees: when a hello is valid, how long its nonce protects it, and what an
  accepted or refused hello leaves behind.
\<close>

section \<open>Signing and validating\<close>

lemma payload_unsigned [simp]: "signing_payload json (h\<lparr>nh_signature := s\<rparr>) = signing_payload json h"
  by (simp add: signing_payload_def)

lemma mandatory_unsigned [simp]: "validate_mandatory_fields (h\<lparr>nh_signature := s\<rparr>) = validate_mandatory_fields h"
  by (simp add: validate_mandatory_fields_def)

lemma mandatory_genesis [simp]: "validate_mandatory_fields (h\<lparr>nh_genesis_hash := g\<rparr>) = validate_mandatory_fields h"
  by (simp add: validate_mandatory_fields_def)

lemma payload_total: "(\<And>x. json x \<noteq> None) \<Longrightarrow> \<exists>msg. signing_payload json h = Inr msg"
  unfolding signing_payload_def by (metis option.case_eq_if)

lemma signed_verifies:
  assumes "validate_mandatory_fields h = Inr ()" "signing_payload json h = Inr msg" "sig_correct ext key msg"
    and "nn_pubkey (nh_node h) = x_pubkey ext key"
  shows "snd (hello_sign ext json key h) = h\<lparr>nh_signature := be_bytes 64 (x_sign ext key msg)\<rparr>"
    "verify_signature ext json (snd (hello_sign ext json key h)) = Inr ()"
proof -
  show s: "snd (hello_sign ext json key h) = h\<lparr>nh_signature := be_bytes 64 (x_sign ext key msg)\<rparr>"
    using assms(1,2) by (simp add: hello_sign_def)
  have "from_be (be_bytes 64 (x_sign ext key msg)) = x_sign ext key msg" by (rule from_be_bytes) simp
  with assms(2-4) show "verify_signature ext json (snd (hello_sign ext json key h)) = Inr ()"
    by (simp add: s verify_signature_def sig_correct_def length_be_bytes)
qed

text \<open>What a hello has to meet, apart from its nonce.\<close>

definition hello_valid_at :: "extlib \<Rightarrow> hello_json \<Rightarrow> NodeHello \<Rightarrow> HandshakeValidationCtx \<Rightarrow> u64 \<Rightarrow> bool" where
  "hello_valid_at ext json h ctx now \<longleftrightarrow> validate_mandatory_fields h = Inr () \<and> nh_network_id h = vx_expected_network_id ctx \<and>
     (vx_expected_genesis_hash ctx = None \<or> nh_genesis_hash h = vx_expected_genesis_hash ctx) \<and> verify_signature ext json h = Inr () \<and>
     abs_diff now (nh_timestamp_ms h) \<le> vx_skew_window_ms ctx"

lemma validate_fst:
  "fst (validate_node_hello ext json h ctx now r) = Inr () \<longleftrightarrow>
     hello_valid_at ext json h ctx now \<and> fmlookup (nonce_prune now (vx_skew_window_ms ctx) r) (nh_nonce h) = None"
  by (auto simp: validate_node_hello_def hello_valid_at_def nonce_check_and_insert_def Let_def not_less split: sum.splits)

lemma validate_snd:
  "snd (validate_node_hello ext json h ctx now r) =
     (if hello_valid_at ext json h ctx now
      then (if fmlookup (nonce_prune now (vx_skew_window_ms ctx) r) (nh_nonce h) = None
            then fmupd (nh_nonce h) now (nonce_prune now (vx_skew_window_ms ctx) r) else nonce_prune now (vx_skew_window_ms ctx) r)
      else r)"
  by (auto simp: validate_node_hello_def hello_valid_at_def nonce_check_and_insert_def Let_def not_less split: sum.splits)

lemma validate_ok:
  assumes "hello_valid_at ext json h ctx now" "fmlookup r (nh_nonce h) = None"
  shows "validate_node_hello ext json h ctx now r =
    (Inr (), fmupd (nh_nonce h) now (nonce_prune now (vx_skew_window_ms ctx) r))"
  using assms by (auto intro!: prod_eqI simp: validate_fst validate_snd nonce_prune_def)

section \<open>How long a nonce protects\<close>

fun hello_run :: "extlib \<Rightarrow> hello_json \<Rightarrow> HandshakeValidationCtx \<Rightarrow> (NodeHello \<times> u64) list \<Rightarrow> ReplayNonceCache \<Rightarrow> ReplayNonceCache" where
  "hello_run ext json ctx [] r = r"
| "hello_run ext json ctx ((h, now) # hs) r = hello_run ext json ctx hs (snd (validate_node_hello ext json h ctx now r))"

lemma prune_lookup: "fmlookup (nonce_prune now w r) k = (case fmlookup r k of
    Some ts \<Rightarrow> if sat_sub now ts \<le> w then Some ts else None | None \<Rightarrow> None)"
  by (simp add: nonce_prune_def split: option.splits)

lemma sat_sub_within: "sat_sub (now :: u64) ts \<le> w \<longleftrightarrow> unat now \<le> unat ts + unat w"
  by (simp add: sat_sub_def word_le_nat_alt unat_sub_if_size) arith

lemma pruned_one: "fmlookup r k = Some t0 \<Longrightarrow>
    fmlookup (nonce_prune now w r) k = (if unat now \<le> unat t0 + unat w then Some t0 else None)"
  by (simp add: prune_lookup sat_sub_within)

lemma pruned_none: "fmlookup r k = None \<Longrightarrow> fmlookup (nonce_prune now w r) k = None"
  by (simp add: prune_lookup)

text \<open>Other hellos in between, not later than \<open>t\<close>: the nonce is there, or its time is over.\<close>

lemma run_keeps_nonce:
  assumes "list_all (\<lambda>(h, now). nh_nonce h \<noteq> k \<and> now \<le> t) hs"
    and "fmlookup r k = Some t0 \<or> fmlookup r k = None \<and> unat t0 + unat (vx_skew_window_ms ctx) < unat t"
  shows "fmlookup (hello_run ext json ctx hs r) k = Some t0 \<or>
    fmlookup (hello_run ext json ctx hs r) k = None \<and> unat t0 + unat (vx_skew_window_ms ctx) < unat t"
  using assms
proof (induction hs arbitrary: r)
  case (Cons x hs)
  obtain h now where x: "x = (h, now)" by (cases x)
  with Cons.prems(1) have n: "nh_nonce h \<noteq> k" "unat now \<le> unat t" by (simp_all add: word_le_nat_alt)
  let ?r = "snd (validate_node_hello ext json h ctx now r)"
  have "fmlookup ?r k = Some t0 \<or> fmlookup ?r k = None \<and> unat t0 + unat (vx_skew_window_ms ctx) < unat t"
    using Cons.prems(2) n by (auto simp: validate_snd pruned_one pruned_none split: if_splits)
  with Cons x show ?case by simp
qed simp

lemma abs_diff_late: "unat t0 + unat w < unat t \<Longrightarrow> abs_diff t0 ts \<le> w \<Longrightarrow> abs_diff (t :: u64) ts \<le> w \<longleftrightarrow> unat t \<le> unat ts + unat w"
  by (auto simp: abs_diff_def word_le_nat_alt unat_sub_if_size split: if_splits)

lemma replay_window:
  assumes "validate_node_hello ext json h ctx t0 r = (Inr (), r')"
    and "list_all (\<lambda>(g, now). nh_nonce g \<noteq> nh_nonce h \<and> now \<le> t) hs"
  shows "fst (validate_node_hello ext json h ctx t (hello_run ext json ctx hs r')) = Inr () \<longleftrightarrow>
    unat t0 + unat (vx_skew_window_ms ctx) < unat t \<and> unat t \<le> unat (nh_timestamp_ms h) + unat (vx_skew_window_ms ctx)"
proof -
  let ?w = "vx_skew_window_ms ctx" and ?k = "nh_nonce h"
  have v: "hello_valid_at ext json h ctx t0" and r': "fmlookup r' ?k = Some t0"
    using assms(1) validate_fst [of ext json h ctx t0 r] validate_snd [of ext json h ctx t0 r] by auto
  have seen: "fmlookup (hello_run ext json ctx hs r') ?k = Some t0 \<or>
      fmlookup (hello_run ext json ctx hs r') ?k = None \<and> unat t0 + unat ?w < unat t"
    using run_keeps_nonce [OF assms(2)] r' by blast
  then have "fmlookup (nonce_prune t ?w (hello_run ext json ctx hs r')) ?k = None \<longleftrightarrow> unat t0 + unat ?w < unat t"
    by (auto simp: pruned_one pruned_none split: if_splits)
  moreover have "hello_valid_at ext json h ctx t \<longleftrightarrow> abs_diff t (nh_timestamp_ms h) \<le> ?w" using v by (simp add: hello_valid_at_def)
  moreover have "abs_diff t0 (nh_timestamp_ms h) \<le> ?w" using v by (simp add: hello_valid_at_def)
  ultimately show ?thesis using abs_diff_late [of t0 ?w t "nh_timestamp_ms h"] unfolding validate_fst by blast
qed

section \<open>What an accepted hello leaves behind\<close>

lemma with_gates_same [simp]:
  "cl_trusted (with_gates f n) = cl_trusted n" "cl_peers (with_gates f n) = cl_peers n" "cl_rounds (with_gates f n) = cl_rounds n"
  "sy_peers (cl_sync (with_gates f n)) = sy_peers (cl_sync n)" "ap_node (sy_api (cl_sync (with_gates f n))) = ap_node (sy_api (cl_sync n))"
  "ap_gates (sy_api (cl_sync (with_gates f n))) = f (ap_gates (sy_api (cl_sync n)))"
  by (simp_all add: with_gates_def)

lemma hello_updates [simp]:
  "hn_cluster (with_cluster f n) = f (hn_cluster n)" "hn_replay (with_cluster f n) = hn_replay n"
  "hn_cluster (set_peer_error t n) = hn_cluster n" "hn_replay (set_peer_error t n) = hn_replay n"
  "hn_cluster (clear_peer_error n) = hn_cluster n" "hn_replay (clear_peer_error n) = hn_replay n"
  "hn_cluster (count_rejected l n) = hn_cluster n" "hn_replay (count_rejected l n) = hn_replay n"
  "hn_cluster (refresh_native_health k False n) = hn_cluster n" "hn_replay (refresh_native_health k False n) = hn_replay n"
  by (simp_all add: with_cluster_def set_peer_error_def clear_peer_error_def count_rejected_def refresh_native_health_def)

lemma accept_hello_effect:
  "cl_trusted (hn_cluster (accept_hello v h now class n)) = fmupd (nn_node_id (nh_node h)) (trusted_of_hello h) (cl_trusted (hn_cluster n))"
  "cl_rounds (hn_cluster (accept_hello v h now class n)) = cl_rounds (hn_cluster n)"
  "cluster_chain (hn_cluster (accept_hello v h now class n)) = cluster_chain (hn_cluster n)"
  "sy_peers (cl_sync (hn_cluster (accept_hello v h now class n))) = sy_peers (cl_sync (hn_cluster n))"
  "hn_replay (accept_hello v h now class n) = hn_replay n"
  by (simp_all add: accept_hello_def Let_def)

text \<open>When a node takes a hello, apart from its validity.\<close>

definition hello_fits :: "HelloEnv \<Rightarrow> NodeHello \<Rightarrow> string option \<Rightarrow> string \<Rightarrow> bool" where
  "hello_fits v h bridge cluster_id \<longleftrightarrow>
     (let class = classify_peer (he_domain_hi v) (nc_domain_hi (nh_cluster h)); c = nh_capabilities h
      in (class = PeerNative \<longrightarrow> nc_cluster_id (nh_cluster h) = cluster_id \<and> (bridge = None \<or> nh_bridge_commitment h = bridge)) \<and>
         \<not> same_validator_conflict v class c \<and> (\<exists>k. protocol_compat (na_protocol_version c) = Inr k) \<and>
         (na_sync_profile c = None \<or> supports_sync_v1 (hello_remote h)))"

lemma hello_accepted:
  assumes "hello_valid_at (he_ext v) (he_json v) h (he_ctx v) now" "fmlookup (hn_replay n) (nh_nonce h) = None" "hello_fits v h bridge cluster_id"
  shows "process_incoming_peer_hello v h now hint prov bridge cluster_id n =
    (Inr (classify_peer (he_domain_hi v) (nc_domain_hi (nh_cluster h))),
     accept_hello v h now (classify_peer (he_domain_hi v) (nc_domain_hi (nh_cluster h)))
       (n\<lparr>hn_replay := fmupd (nh_nonce h) now (nonce_prune now (vx_skew_window_ms (he_ctx v)) (hn_replay n))\<rparr>))"
  using assms(3) by (auto simp: process_incoming_peer_hello_def validate_ok [OF assms(1,2)] hello_fits_def Let_def bridge_check_def split: option.splits)

text \<open>And conversely.\<close>

lemma bridge_check_ok: "bridge_check bridge h now n = (Inr u, m) \<Longrightarrow> m = n \<and> (bridge = None \<or> nh_bridge_commitment h = bridge)"
  by (auto simp: bridge_check_def Let_def split: option.splits if_splits)

lemma accepted_valid:
  assumes "process_incoming_peer_hello v h now hint prov bridge cluster_id n = (Inr class, m)"
  shows "hello_valid_at (he_ext v) (he_json v) h (he_ctx v) now" "hello_fits v h bridge cluster_id"
    "class = classify_peer (he_domain_hi v) (nc_domain_hi (nh_cluster h))"
    "fmlookup (cl_trusted (hn_cluster m)) (nn_node_id (nh_node h)) = Some (trusted_of_hello h)"
proof -
  obtain r replay where val: "validate_node_hello (he_ext v) (he_json v) h (he_ctx v) now (hn_replay n) = (r, replay)" by fastforce
  with assms have "r = Inr ()" by (cases r) (auto simp: process_incoming_peer_hello_def Let_def)
  with val validate_fst show "hello_valid_at (he_ext v) (he_json v) h (he_ctx v) now" by (metis fst_conv)
  show "hello_fits v h bridge cluster_id" "class = classify_peer (he_domain_hi v) (nc_domain_hi (nh_cluster h))"
    "fmlookup (cl_trusted (hn_cluster m)) (nn_node_id (nh_node h)) = Some (trusted_of_hello h)"
    using assms val \<open>r = Inr ()\<close>
    by (auto simp: process_incoming_peer_hello_def hello_fits_def Let_def accept_hello_effect dest!: bridge_check_ok
        split: sum.splits if_splits prod.splits)
qed

section \<open>The guard that is never lifted\<close>

lemma wrong_genesis_blocks:
  assumes "validate_mandatory_fields h = Inr ()" "nh_network_id h = vx_expected_network_id (he_ctx v)"
    and "vx_expected_genesis_hash (he_ctx v) = Some g" "nh_genesis_hash h \<noteq> Some g"
  shows "fst (process_incoming_peer_hello v h now hint prov bridge cluster_id n) = Inl ''genesis_mismatch''"
    "gt_genesis_blocked (ap_gates (hn_api (snd (process_incoming_peer_hello v h now hint prov bridge cluster_id n))))"
  using assms by (simp_all add: process_incoming_peer_hello_def validate_node_hello_def Let_def)

lemma refuse_bridge_blocked [simp]:
  "gt_genesis_blocked (ap_gates (hn_api (refuse_bridge x y now n))) = gt_genesis_blocked (ap_gates (hn_api n))"
  by (simp add: refuse_bridge_def Let_def set_peer_error_def)

lemma bridge_check_blocked: "bridge_check bridge h now n = (r, m) \<Longrightarrow>
    gt_genesis_blocked (ap_gates (hn_api m)) = gt_genesis_blocked (ap_gates (hn_api n))"
  by (auto simp: bridge_check_def Let_def split: option.splits if_splits)

lemma accept_hello_blocked: "gt_genesis_blocked (ap_gates (hn_api (accept_hello v h now class n))) = gt_genesis_blocked (ap_gates (hn_api n))"
  by (simp add: accept_hello_def Let_def)

lemma hello_keeps_blocked:
  assumes "process_incoming_peer_hello v h now hint prov bridge cluster_id n = (r, m)" "gt_genesis_blocked (ap_gates (hn_api n))"
  shows "gt_genesis_blocked (ap_gates (hn_api m))"
  using assms
  by (auto simp: process_incoming_peer_hello_def Let_def accept_hello_blocked dest!: bridge_check_blocked split: prod.splits sum.splits if_splits)

lemma dial_keeps_blocked:
  assumes "attempt_seed_connect v a seed now bridge st ha (n, q) = (r, m, q')" "gt_genesis_blocked (ap_gates (hn_api n))"
  shows "gt_genesis_blocked (ap_gates (hn_api m))"
  using assms by (auto simp: attempt_seed_connect_def Let_def dest: hello_keeps_blocked split: prod.splits sum.splits if_splits option.splits)

lemma reset_keeps_blocked:
  assumes "v1_bridge_federation_reset tok loopback auth n = (r, m)" "gt_genesis_blocked (ap_gates (hn_api n))"
  shows "gt_genesis_blocked (ap_gates (hn_api m))"
  using assms by (auto simp: v1_bridge_federation_reset_def split: sum.splits)

definition with_hn_api :: "ApiNode \<Rightarrow> HelloNode \<Rightarrow> HelloNode" where
  "with_hn_api a n = with_cluster (\<lambda>c. c\<lparr>cl_sync := (cl_sync c)\<lparr>sy_api := a\<rparr>\<rparr>) n"

lemma blocked_refuses:
  assumes "gt_genesis_blocked (ap_gates a)"
  shows "\<exists>err. v1_tx ext enc env tx a = Some (Inl (SERVICE_UNAVAILABLE, err),
    a\<lparr>ap_incoming := ap_incoming a + 1, ap_node := (ap_node a)\<lparr>sn_rejected := sn_rejected (ap_node a) + 1\<rparr>\<rparr>)"
  using assms by (auto simp: v1_tx_def Let_def ensure_user_tx_allowed_def ensure_ready_def count_reject_def split: if_splits)

text \<open>What a node goes through later: hellos, dials, the operator's reset, submissions. The rest of the node does not
  write the flag (only \<open>process_incoming_peer_hello\<close> and \<open>attempt_seed_connect\<close> do): \<open>nl_rest\<close>.\<close>

inductive node_later :: "HelloNode \<Rightarrow> HelloNode \<Rightarrow> bool" for n where
  nl_now: "node_later n n"
| nl_hello: "node_later n m \<Longrightarrow> process_incoming_peer_hello v h now hint prov bridge cluster_id m = (r, k) \<Longrightarrow> node_later n k"
| nl_dial: "node_later n m \<Longrightarrow> attempt_seed_connect v a seed now bridge st ha (m, q) = (d, k, q') \<Longrightarrow> node_later n k"
| nl_reset: "node_later n m \<Longrightarrow> v1_bridge_federation_reset tok loopback auth m = (w, k) \<Longrightarrow> node_later n k"
| nl_submit: "node_later n m \<Longrightarrow> v1_tx ext enc env tx (hn_api m) = Some (u, b) \<Longrightarrow> node_later n (with_hn_api b m)"
| nl_rest: "node_later n m \<Longrightarrow> gt_genesis_blocked (ap_gates (hn_api k)) = gt_genesis_blocked (ap_gates (hn_api m)) \<Longrightarrow> node_later n k"

lemma later_blocked: "node_later n m \<Longrightarrow> gt_genesis_blocked (ap_gates (hn_api n)) \<Longrightarrow> gt_genesis_blocked (ap_gates (hn_api m))"
proof (induction rule: node_later.induct)
  case (nl_submit m ext enc env tx u b)
  then show ?case using blocked_refuses [of "hn_api m" ext enc env tx] by (auto simp: with_hn_api_def)
qed (auto dest: hello_keeps_blocked dial_keeps_blocked reset_keeps_blocked)

lemma blocked_for_good:
  assumes "validate_mandatory_fields h = Inr ()" "nh_network_id h = vx_expected_network_id (he_ctx v)"
    and "vx_expected_genesis_hash (he_ctx v) = Some g" "nh_genesis_hash h \<noteq> Some g"
    and "node_later (snd (process_incoming_peer_hello v h now hint prov bridge cluster_id n)) m"
  shows "fst (process_incoming_peer_hello v h now hint prov bridge cluster_id n) = Inl ''genesis_mismatch'' \<and>
    (\<exists>err k. v1_tx ext enc env tx (hn_api m) = Some (Inl (SERVICE_UNAVAILABLE, err), k) \<and> api_chain k = api_chain (hn_api m) \<and>
      pool_txs (ap_node k) = pool_txs (ap_node (hn_api m)))"
proof -
  have "gt_genesis_blocked (ap_gates (hn_api m))"
    using later_blocked [OF assms(5)] wrong_genesis_blocks(2) [OF assms(1-4)] by simp
  from blocked_refuses [OF this, of ext enc env tx] wrong_genesis_blocks(1) [OF assms(1-4)] show ?thesis by auto
qed

section \<open>The own hello at a peer\<close>

lemma hex_sig_text:
  assumes "hex_laws lib" "bs \<noteq> []"
  shows "trim (x_hex_encode lib bs) = x_hex_encode lib bs"
proof -
  have t: "length (x_hex_encode lib bs) = 2 * length bs" "list_all is_ascii_hexdigit (x_hex_encode lib bs)"
    using assms(1) by (simp_all add: hex_laws_def)
  with assms(2) have "x_hex_encode lib bs \<noteq> []" by auto
  with hex_chars [OF t(2)] show ?thesis by (simp add: trim_graphic)
qed

lemma key_vote_verifies:
  assumes "hex_laws (se_lib s)" "\<And>m. sig_correct (se_ext s) sk m"
  shows "verify_attest_sig s (x_hex_encode (se_lib s) (be_bytes 64 (sign (se_ext s) sk msg))) (x_pubkey (se_ext s) sk) msg"
proof -
  let ?b = "be_bytes 64 (sign (se_ext s) sk msg) :: bytes"
  have l: "length ?b = 64" by (simp add: length_be_bytes)
  have "?b \<noteq> []" using length_be_bytes [of 64 "sign (se_ext s) sk msg"] by fastforce
  moreover have "from_be ?b = sign (se_ext s) sk msg" by (rule from_be_bytes) simp
  ultimately show ?thesis
    using assms l hex_sig_text [OF assms(1)] by (simp add: verify_attest_sig_def hex_laws_def verify_sign)
qed

text \<open>The names of a node are not blank.\<close>

definition app_named :: "HelloApp \<Rightarrow> bool" where
  "app_named a \<longleftrightarrow> \<not> blank (id_network_id (ha_identity a)) \<and> \<not> blank (id_cluster_id (ha_identity a)) \<and> \<not> blank (id_node_id (ha_identity a)) \<and>
     \<not> blank (ha_validator_identity_hash a) \<and> \<not> blank (ha_node_instance_id a) \<and> \<not> list_ex blank (cc_members (ha_cluster_cfg a))"

lemma version_ok: "\<not> blank PWM_PROTOCOL_VERSION" "protocol_compat PWM_PROTOCOL_VERSION = Inr CompatExact"
proof -
  have t: "trim PWM_PROTOCOL_VERSION = PWM_PROTOCOL_VERSION" by (simp add: PWM_PROTOCOL_VERSION_def trim_graphic graphic_def)
  then show "\<not> blank PWM_PROTOCOL_VERSION" by (simp add: blank_def PWM_PROTOCOL_VERSION_def)
  have "protocol_version_parse PWM_PROTOCOL_VERSION = Inr \<lparr> pver_major = 0, pver_minor = 1, pver_patch = 0 \<rparr>"
    unfolding protocol_version_parse_def t
    by (simp add: PWM_PROTOCOL_VERSION_def parse_u64_def from_str_radix_def to_digit_def Let_def)
  then show "protocol_compat PWM_PROTOCOL_VERSION = Inr CompatExact" by (simp add: protocol_compat_def)
qed

lemma local_words: "\<not> list_ex blank (na_tx_features (local_capabilities a))" "\<not> list_ex blank (na_services (local_capabilities a))"
  by (simp_all add: local_capabilities_def blank_def trim_graphic graphic_def)

lemma built_hello:
  assumes "build_local_node_hello ext json a genesis bridge ts tip seq = (h, seq')"
    and "app_named a" "\<And>x. json x \<noteq> None" "\<And>m. sig_correct ext (local_hello_signing_key (ha_identity a)) m"
  shows "nh_network_id h = id_network_id (ha_identity a)" "nh_genesis_hash h = (if ha_broke_trust_test a then Some TRUST_FAKE_GENESIS_HEX else genesis)"
    "nh_cluster h = \<lparr> nc_domain_hi = id_cluster_domain_hi (ha_identity a), nc_cluster_id = id_cluster_id (ha_identity a) \<rparr>"
    "nh_node h = \<lparr> nn_node_id = id_node_id (ha_identity a), nn_pubkey = x_pubkey ext (local_hello_signing_key (ha_identity a)) \<rparr>"
    "nh_capabilities h = local_capabilities a" "nh_timestamp_ms h = ts" "nh_nonce h = be_bytes 8 seq @ be_bytes 8 ts"
    "nh_bridge_commitment h = bridge" "validate_mandatory_fields h = Inr ()" "verify_signature ext json h = Inr ()"
proof -
  let ?key = "local_hello_signing_key (ha_identity a)"
  obtain h0 where h0: "h = snd (hello_sign ext json ?key h0)" "nh_network_id h0 = id_network_id (ha_identity a)"
      "nh_genesis_hash h0 = (if ha_broke_trust_test a then Some TRUST_FAKE_GENESIS_HEX else genesis)"
      "nh_cluster h0 = \<lparr> nc_domain_hi = id_cluster_domain_hi (ha_identity a), nc_cluster_id = id_cluster_id (ha_identity a) \<rparr>"
      "nh_node h0 = \<lparr> nn_node_id = id_node_id (ha_identity a), nn_pubkey = x_pubkey ext ?key \<rparr>"
      "nh_capabilities h0 = local_capabilities a" "nh_timestamp_ms h0 = ts" "nh_nonce h0 = be_bytes 8 seq @ be_bytes 8 ts" "nh_bridge_commitment h0 = bridge"
    using assms(1) by (auto simp: build_local_node_hello_def Let_def)
  have "be_bytes 8 seq \<noteq> []" using length_be_bytes [of 8 seq] by fastforce
  then have m: "validate_mandatory_fields h0 = Inr ()"
    using assms(2) version_ok(1) local_words [of a]
    by (simp add: validate_mandatory_fields_def Let_def h0 app_named_def) (simp add: local_capabilities_def)
  obtain msg where p: "signing_payload json h0 = Inr msg" using payload_total [of json h0] assms(3) by blast
  note s = signed_verifies [OF m p assms(4)]
  have h: "h = h0\<lparr>nh_signature := be_bytes 64 (x_sign ext ?key msg)\<rparr>" using s(1) h0 by simp
  show "verify_signature ext json h = Inr ()" using s(2) h0 by simp
  show "validate_mandatory_fields h = Inr ()" using m h by simp
qed (use assms(1) in \<open>auto simp: build_local_node_hello_def Let_def hello_sign_def split: sum.splits\<close>)

lemma local_profile: "supports_sync_v1 (hello_remote h)" if "nh_capabilities h = local_capabilities a"
  using that by (simp add: supports_sync_v1_def hello_remote_def local_capabilities_def SYNC_WIRE_V1_def SYNC_HDR_MAX_def SYNC_BLK_MAX_def SYNC_TX_MAX_def)

text \<open>Anyone who sees a hello can compute this.\<close>

definition key_in_hello :: "NodeHello \<Rightarrow> bytes32" where
  "key_in_hello h = hello_key_of (hello_material (nh_network_id h) (nc_domain_hi (nh_cluster h)) (nc_cluster_id (nh_cluster h)) (nn_node_id (nh_node h)))"

lemma own_hello:
  assumes "build_local_node_hello (he_ext v) (he_json v) a genesis (Some bridge) ts tip seq = (h, seq')" "app_named a" "\<not> ha_broke_trust_test a"
    and "\<And>x. he_json v x \<noteq> None" "\<And>sk m. sig_correct (he_ext v) sk m"
    and "vx_expected_network_id (he_ctx v) = id_network_id (ha_identity a)"
    and "vx_expected_genesis_hash (he_ctx v) = None \<or> vx_expected_genesis_hash (he_ctx v) = genesis"
    and "abs_diff now ts \<le> vx_skew_window_ms (he_ctx v)" "fmlookup (hn_replay n) (be_bytes 8 seq @ be_bytes 8 ts) = None"
    and "id_cluster_domain_hi (ha_identity a) = he_domain_hi v \<Longrightarrow> cluster_id = id_cluster_id (ha_identity a) \<and>
      \<not> same_validator_conflict v PeerNative (local_capabilities a)"
    and "se_ext s = he_ext v" "hex_laws (se_lib s)"
  shows "\<exists>m p. process_incoming_peer_hello v h now hint prov (Some bridge) cluster_id n =
      (Inr (classify_peer (he_domain_hi v) (id_cluster_domain_hi (ha_identity a))), m) \<and>
    fmlookup (cl_trusted (hn_cluster m)) (id_node_id (ha_identity a)) = Some p \<and> peer_member_id p = member_id (Some (ha_node_instance_id a)) \<and>
    verify_attest_sig s (x_hex_encode (se_lib s) (be_bytes 64 (sign (se_ext s) (key_in_hello h) msg))) (tp_pubkey p) msg"
proof -
  note f = built_hello [OF assms(1,2,4,5)]
  have fit: "hello_fits v h (Some bridge) cluster_id"
    using assms(10) local_profile [OF f(5)]
    by (auto simp: hello_fits_def Let_def f classify_peer_def version_ok(2) same_validator_conflict_def local_capabilities_def)
  have valid: "hello_valid_at (he_ext v) (he_json v) h (he_ctx v) now"
    using assms(3,6-8) f by (auto simp: hello_valid_at_def)
  obtain m where run: "process_incoming_peer_hello v h now hint prov (Some bridge) cluster_id n =
      (Inr (classify_peer (he_domain_hi v) (id_cluster_domain_hi (ha_identity a))), m)"
    using hello_accepted [OF valid _ fit, of n] assms(9) f by auto
  have key: "key_in_hello h = local_hello_signing_key (ha_identity a)"
    by (simp add: key_in_hello_def local_hello_signing_key_def f)
  have "fmlookup (cl_trusted (hn_cluster m)) (id_node_id (ha_identity a)) = Some (trusted_of_hello h)"
    using accepted_valid(4) [OF run] f by simp
  moreover have "peer_member_id (trusted_of_hello h) = member_id (Some (ha_node_instance_id a))"
    by (simp add: peer_member_id_def trusted_of_hello_def f local_capabilities_def)
  moreover have "tp_pubkey (trusted_of_hello h) = x_pubkey (se_ext s) (key_in_hello h)"
    by (simp add: trusted_of_hello_def f key assms(11))
  ultimately show ?thesis using run key_vote_verifies [OF assms(12)] assms(5,11) by metis
qed

section \<open>One key, many members\<close>

text \<open>A stranger of another shard says hello as a member of the cluster.\<close>

definition stranger_hello :: "HelloEnv \<Rightarrow> bytes32 \<Rightarrow> u8 \<Rightarrow> string \<Rightarrow> u64 \<Rightarrow> string \<Rightarrow> bytes \<Rightarrow> NodeHello" where
  "stranger_hello v sk domain_hi node_id now member bs =
     snd (hello_sign (he_ext v) (he_json v) sk
       \<lparr> nh_network_id = vx_expected_network_id (he_ctx v), nh_genesis_hash = vx_expected_genesis_hash (he_ctx v),
         nh_cluster = \<lparr> nc_domain_hi = domain_hi, nc_cluster_id = ''x'' \<rparr>,
         nh_node = \<lparr> nn_node_id = node_id, nn_pubkey = x_pubkey (he_ext v) sk \<rparr>,
         nh_capabilities = \<lparr> na_protocol_version = PWM_PROTOCOL_VERSION, na_tx_features = [], na_services = [], na_sync_profile = None,
           na_deployment_profile = SingleSealer, na_seal_role = SealStandby, na_validator_identity_hash = None,
           na_node_instance_id = Some member, na_lease_owner_id = None, na_lease_term = None, na_lease_expires_at_ms = None,
           na_lease_last_tip = None, na_lease_fence = None, na_cluster_attest_enabled = True, na_cluster_role = Attester,
           na_cluster_members = [], na_cluster_quorum_k = None, na_cluster_quorum_n = None \<rparr>,
         nh_nonce = bs, nh_timestamp_ms = now, nh_signature = [], nh_chain_tip_height = None, nh_federation_shard_id = None,
         nh_bridge_commitment = None \<rparr>)"

text \<open>And signs the candidate of a round with the same key.\<close>

definition stranger_vote :: "SyncEnv \<Rightarrow> bytes32 \<Rightarrow> u64 \<Rightarrow> ClusterRoundState \<Rightarrow> ClusterAttestWire" where
  "stranger_vote s sk height row =
     \<lparr> ca_height = height, ca_round = 0, ca_vote_object = cr_vote_object row, ca_candidate_hash = cr_candidate_hash row,
       ca_signature = x_hex_encode (se_lib s) (be_bytes 64 (sign (se_ext s) sk
         (cluster_sig_msg height 0 (cr_vote_object row) (cr_candidate_hash row) (cr_candidate_ref row)))),
       ca_candidate_ref = cr_candidate_ref row, ca_attester_tip_height = None \<rparr>"

text \<open>The node takes a hello and the vote of the session that follows.\<close>

definition hello_and_vote :: "HelloEnv \<Rightarrow> ClusterEnv \<Rightarrow> string \<Rightarrow> string option \<Rightarrow> string \<Rightarrow> NodeHello \<times> ClusterAttestWire \<Rightarrow> HelloNode \<Rightarrow> HelloNode" where
  "hello_and_vote v e hint bridge cluster_id = (\<lambda>(h, a) n.
     case process_incoming_peer_hello v h (se_now (ce_sync e)) hint False bridge cluster_id n of
       (Inl _, m) \<Rightarrow> m
     | (Inr _, m) \<Rightarrow> (case route_cluster_stub e (nn_node_id (nh_node h)) (ClusterAttest a) (hn_cluster m) of
         None \<Rightarrow> m
       | Some (_, c) \<Rightarrow> m\<lparr>hn_cluster := c\<rparr>))"

text \<open>A proposer with attestation that shares the network with the stranger; the rest are laws of the crates.\<close>

definition stranger_setting :: "HelloEnv \<Rightarrow> ClusterEnv \<Rightarrow> u8 \<Rightarrow> string \<Rightarrow> bool" where
  "stranger_setting v e domain_hi node_id \<longleftrightarrow> cc_enabled (ce_cfg e) \<and> cc_role (ce_cfg e) = Proposer \<and> domain_hi \<noteq> he_domain_hi v \<and>
     \<not> blank (vx_expected_network_id (he_ctx v)) \<and> \<not> blank node_id \<and> se_ext (ce_sync e) = he_ext v \<and> hex_laws (se_lib (ce_sync e)) \<and>
     (\<forall>sk m. sig_correct (he_ext v) sk m) \<and> (\<forall>x. he_json v x \<noteq> None)"

lemma stranger_fields:
  fixes sk :: bytes32 and now :: u64
  assumes "stranger_setting v e domain_hi node_id" "bs \<noteq> []" "\<not> blank member"
  defines "h \<equiv> stranger_hello v sk domain_hi node_id now member bs"
  shows "hello_valid_at (he_ext v) (he_json v) h (he_ctx v) now" "hello_fits v h bridge cluster_id" "nh_nonce h = bs"
    "nn_node_id (nh_node h) = node_id" "nn_pubkey (nh_node h) = x_pubkey (he_ext v) sk" "tp_pubkey (trusted_of_hello h) = x_pubkey (he_ext v) sk"
    "tp_cluster_attest_enabled (trusted_of_hello h)" "tp_cluster_role (trusted_of_hello h) = Attester"
    "peer_member_id (trusted_of_hello h) = member_id (Some member)"
proof -
  obtain h0 where h0: "h = snd (hello_sign (he_ext v) (he_json v) sk h0)" "nh_network_id h0 = vx_expected_network_id (he_ctx v)"
      "nh_genesis_hash h0 = vx_expected_genesis_hash (he_ctx v)" "nh_cluster h0 = \<lparr> nc_domain_hi = domain_hi, nc_cluster_id = ''x'' \<rparr>"
      "nh_node h0 = \<lparr> nn_node_id = node_id, nn_pubkey = x_pubkey (he_ext v) sk \<rparr>" "nh_nonce h0 = bs" "nh_timestamp_ms h0 = now"
      "na_protocol_version (nh_capabilities h0) = PWM_PROTOCOL_VERSION" "na_tx_features (nh_capabilities h0) = []"
      "na_services (nh_capabilities h0) = []" "na_sync_profile (nh_capabilities h0) = None"
      "na_validator_identity_hash (nh_capabilities h0) = None" "na_node_instance_id (nh_capabilities h0) = Some member"
      "na_cluster_attest_enabled (nh_capabilities h0)" "na_cluster_role (nh_capabilities h0) = Attester"
      "na_cluster_members (nh_capabilities h0) = []"
    by (auto simp: h_def stranger_hello_def)
  have "\<not> blank ''x''" by (simp add: blank_def trim_graphic graphic_def)
  then have m: "validate_mandatory_fields h0 = Inr ()"
    using assms(1-3) version_ok(1) by (simp add: validate_mandatory_fields_def Let_def h0 stranger_setting_def)
  have total: "\<And>x. he_json v x \<noteq> None" and sig: "\<And>m. sig_correct (he_ext v) sk m" using assms(1) by (simp_all add: stranger_setting_def)
  obtain msg where p: "signing_payload (he_json v) h0 = Inr msg" using payload_total [of "he_json v" h0] total by blast
  note s = signed_verifies [OF m p sig]
  have h: "h = h0\<lparr>nh_signature := be_bytes 64 (x_sign (he_ext v) sk msg)\<rparr>" using s(1) h0 by simp
  show "hello_valid_at (he_ext v) (he_json v) h (he_ctx v) now"
  proof -
    have "validate_mandatory_fields h = Inr ()" "nh_network_id h = vx_expected_network_id (he_ctx v)"
      "nh_genesis_hash h = vx_expected_genesis_hash (he_ctx v)" "nh_timestamp_ms h = now"
      by (simp_all add: h h0(2-) m)
    moreover have "verify_signature (he_ext v) (he_json v) h = Inr ()" using s(2) h0(5) by (simp add: h0(1))
    ultimately show ?thesis by (simp add: hello_valid_at_def abs_diff_def)
  qed
  show "hello_fits v h bridge cluster_id"
    using assms(1) version_ok(2)
    by (simp add: hello_fits_def Let_def h h0(2-) classify_peer_def stranger_setting_def same_validator_conflict_def validator_hash_def member_id_def)
qed (use assms(3) in \<open>simp_all add: h_def stranger_hello_def hello_sign_def trusted_of_hello_def peer_member_id_def split: sum.split\<close>)

definition round_open :: "HelloNode \<Rightarrow> u64 \<Rightarrow> ClusterRoundState \<Rightarrow> bool" where
  "round_open n height row \<longleftrightarrow> fmlookup (cl_rounds (hn_cluster n)) (height, 0) = Some row"

lemma stranger_counts:
  fixes sk :: bytes32 and hint cluster_id :: string and bridge :: "string option"
  assumes set: "stranger_setting v e domain_hi node_id" and bs: "bs \<noteq> []" "fmlookup (hn_replay n) bs = None"
    and member: "member \<in> set (cc_members (ce_cfg e))" "trim member = member" "member \<noteq> []" and row: "round_open n height row"
  defines "m \<equiv> hello_and_vote v e hint bridge cluster_id
      (stranger_hello v sk domain_hi node_id (se_now (ce_sync e)) member bs, stranger_vote (ce_sync e) sk height row) n"
  shows "\<exists>sig. round_open m height (row\<lparr>cr_attesters := fmupd member sig (cr_attesters row)\<rparr>)" "cluster_chain (hn_cluster m) = cluster_chain (hn_cluster n)"
    "\<And>k. k \<noteq> bs \<Longrightarrow> fmlookup (hn_replay n) k = None \<Longrightarrow> fmlookup (hn_replay m) k = None"
proof -
  let ?h = "stranger_hello v sk domain_hi node_id (se_now (ce_sync e)) member bs"
  let ?a = "stranger_vote (ce_sync e) sk height row" and ?cls = "classify_peer (he_domain_hi v) (nc_domain_hi (nh_cluster ?h))"
  have nb: "\<not> blank member" using member by (simp add: blank_def)
  note f = stranger_fields [OF set bs(1) nb, of sk "se_now (ce_sync e)"]
  let ?n1 = "accept_hello v ?h (se_now (ce_sync e)) ?cls
    (n\<lparr>hn_replay := fmupd bs (se_now (ce_sync e)) (nonce_prune (se_now (ce_sync e)) (vx_skew_window_ms (he_ctx v)) (hn_replay n))\<rparr>)"
  have run: "process_incoming_peer_hello v ?h (se_now (ce_sync e)) hint False bridge cluster_id n = (Inr ?cls, ?n1)"
    using hello_accepted [OF f(1) _ f(2)] bs(2) f(3) by simp
  have t: "fmlookup (cl_trusted (hn_cluster ?n1)) node_id = Some (trusted_of_hello ?h)" by (simp add: accept_hello_effect f(4))
  have r: "fmlookup (cl_rounds (hn_cluster ?n1)) (height, 0) = Some row" using row by (simp add: accept_hello_effect round_open_def)
  have mem: "peer_member_id (trusted_of_hello ?h) = Some member" using member by (simp add: f(9) member_id_def)
  have "verify_attest_sig (ce_sync e) (ca_signature ?a) (tp_pubkey (trusted_of_hello ?h))
      (cluster_sig_msg (ca_height ?a) (ca_round ?a) (ca_vote_object ?a) (ca_candidate_hash ?a) (ca_candidate_ref ?a))"
    using key_vote_verifies [of "ce_sync e" sk] set by (simp add: stranger_vote_def f(6) stranger_setting_def)
  then have route: "route_cluster_stub e node_id (ClusterAttest ?a) (hn_cluster ?n1) =
      Some (None, (hn_cluster ?n1)\<lparr>cl_rounds := fmupd (height, 0) (row\<lparr>cr_attesters := fmupd member (ca_signature ?a) (cr_attesters row)\<rparr>)
        (cl_rounds (hn_cluster ?n1))\<rparr>)"
    using set member(1) r
    by (simp add: route_cluster_stub_def t mem f(7,8) cluster_role_ok_def stranger_setting_def note_attester_tip_def on_attest_def Let_def)
      (simp add: stranger_vote_def)
  have m: "m = ?n1\<lparr>hn_cluster := (hn_cluster ?n1)\<lparr>cl_rounds := fmupd (height, 0) (row\<lparr>cr_attesters := fmupd member (ca_signature ?a) (cr_attesters row)\<rparr>)
        (cl_rounds (hn_cluster ?n1))\<rparr>\<rparr>"
    by (simp add: m_def hello_and_vote_def run f(4) route)
  show "\<exists>sig. round_open m height (row\<lparr>cr_attesters := fmupd member sig (cr_attesters row)\<rparr>)" by (auto simp: m round_open_def)
  show "cluster_chain (hn_cluster m) = cluster_chain (hn_cluster n)" by (simp add: m accept_hello_effect)
  show "fmlookup (hn_replay m) k = None" if "k \<noteq> bs" "fmlookup (hn_replay n) k = None" for k
    using that by (simp add: m accept_hello_effect pruned_none)
qed

lemma stranger_vote_row [simp]: "stranger_vote s sk height (row\<lparr>cr_attesters := x\<rparr>) = stranger_vote s sk height row"
  by (simp add: stranger_vote_def)

lemma stranger_all:
  fixes sk :: bytes32
  assumes set: "stranger_setting v e domain_hi node_id"
    and "list_all (\<lambda>(m, bs). m \<in> set (cc_members (ce_cfg e)) \<and> trim m = m \<and> m \<noteq> [] \<and> bs \<noteq> [] \<and> fmlookup (hn_replay n) bs = None) xs"
    and "distinct (map snd xs)" "round_open n height row"
  defines "msg \<equiv> \<lambda>(m, bs). (stranger_hello v sk domain_hi node_id (se_now (ce_sync e)) m bs, stranger_vote (ce_sync e) sk height row)"
  shows "\<exists>att. round_open (fold (hello_and_vote v e hint bridge cluster_id) (map msg xs) n) height (row\<lparr>cr_attesters := att\<rparr>) \<and>
    fmdom att = fmdom (cr_attesters row) |\<union>| fset_of_list (map fst xs) \<and>
    cluster_chain (hn_cluster (fold (hello_and_vote v e hint bridge cluster_id) (map msg xs) n)) = cluster_chain (hn_cluster n)"
  using assms(2-4) unfolding msg_def
proof (induction xs arbitrary: n row)
  case (Cons x xs)
  obtain m bs where x: "x = (m, bs)" by (cases x)
  let ?msg = "\<lambda>row (m, bs). (stranger_hello v sk domain_hi node_id (se_now (ce_sync e)) m bs, stranger_vote (ce_sync e) sk height row)"
  let ?n = "hello_and_vote v e hint bridge cluster_id (?msg row (m, bs)) n"
  from Cons.prems x have one: "m \<in> set (cc_members (ce_cfg e))" "trim m = m" "m \<noteq> []" "bs \<noteq> []" "fmlookup (hn_replay n) bs = None" by auto
  note step = stranger_counts [OF set one(4,5,1-3) Cons.prems(3), where hint = hint and bridge = bridge and cluster_id = cluster_id and sk = sk]
  obtain sig where r: "round_open ?n height (row\<lparr>cr_attesters := fmupd m sig (cr_attesters row)\<rparr>)" using step(1) by auto
  let ?row = "row\<lparr>cr_attesters := fmupd m sig (cr_attesters row)\<rparr>"
  have fresh: "list_all (\<lambda>(m, bs). m \<in> set (cc_members (ce_cfg e)) \<and> trim m = m \<and> m \<noteq> [] \<and> bs \<noteq> [] \<and> fmlookup (hn_replay ?n) bs = None) xs"
    unfolding list_all_iff
  proof
    fix y assume y: "y \<in> set xs"
    obtain a b where ab: "y = (a, b)" by (cases y)
    from Cons.prems(2) x y ab have "b \<noteq> bs" by force
    moreover from Cons.prems(1) y ab have "a \<in> set (cc_members (ce_cfg e)) \<and> trim a = a \<and> a \<noteq> [] \<and> b \<noteq> [] \<and> fmlookup (hn_replay n) b = None"
      by (auto simp: list_all_iff)
    ultimately show "case y of (m, bs) \<Rightarrow> m \<in> set (cc_members (ce_cfg e)) \<and> trim m = m \<and> m \<noteq> [] \<and> bs \<noteq> [] \<and> fmlookup (hn_replay ?n) bs = None"
      using step(3) ab by simp
  qed
  have "distinct (map snd xs)" using Cons.prems(2) by simp
  from Cons.IH [OF fresh this r] obtain att where
    "round_open (fold (hello_and_vote v e hint bridge cluster_id) (map (?msg row) xs) ?n) height (row\<lparr>cr_attesters := att\<rparr>)"
    "fmdom att = fmdom (fmupd m sig (cr_attesters row)) |\<union>| fset_of_list (map fst xs)"
    "cluster_chain (hn_cluster (fold (hello_and_vote v e hint bridge cluster_id) (map (?msg row) xs) ?n)) = cluster_chain (hn_cluster ?n)"
    by auto
  with step(2) x show ?case by (intro exI [of _ att]) (auto simp: fset_eq_iff)
next
  case (Nil n row)
  then show ?case by (intro exI [of _ "cr_attesters row"]) simp
qed

lemma fcard_list: "distinct xs \<Longrightarrow> fcard (fset_of_list xs) = length xs"
  by (simp add: fcard.rep_eq fset_of_list.rep_eq distinct_card)

lemma fresh_nonces: "\<exists>ks :: bytes list. length ks = k \<and> distinct ks \<and> list_all (\<lambda>bs. bs \<noteq> [] \<and> fmlookup (r :: ReplayNonceCache) bs = None) ks"
proof -
  have "infinite (UNIV :: bytes set)" by (rule infinite_UNIV_listI)
  moreover have "finite (insert [] (fset (fmdom r)))" by simp
  ultimately have "infinite (UNIV - insert [] (fset (fmdom r)))" by (rule Diff_infinite_finite [rotated])
  from infinite_arbitrarily_large [OF this] obtain B where B: "finite B" "card B = k" "B \<subseteq> UNIV - insert [] (fset (fmdom r))" by blast
  obtain ks where "set ks = B" "distinct ks" using finite_distinct_list [OF B(1)] by blast
  with B show ?thesis by (intro exI [of _ ks]) (auto simp: list_all_iff distinct_card [symmetric] fmdom_notD)
qed

lemma one_key_quorum:
  fixes sk :: bytes32
  assumes "stranger_setting v e domain_hi node_id" "round_open n (sat_add (tip_h (cluster_chain (hn_cluster n))) 1) row"
    and "cr_attesters row = fmempty" "trim (cr_vote_object row) \<noteq> []" "trim (cr_candidate_hash row) \<noteq> []"
    and "cr_proposer_id row = Some p" "p \<in> set (cc_members (ce_cfg e))"
    and "distinct ms" "list_all (\<lambda>m. m \<in> set (cc_members (ce_cfg e)) \<and> m \<noteq> p \<and> trim m = m \<and> m \<noteq> []) ms"
    and "length ms = unat (cc_quorum_k (ce_cfg e))"
  shows "\<exists>msgs. length msgs = length ms \<and>
    list_all (\<lambda>(h, a). nn_node_id (nh_node h) = node_id \<and> nn_pubkey (nh_node h) = x_pubkey (he_ext v) sk) msgs \<and>
    cluster_chain (hn_cluster (fold (hello_and_vote v e hint bridge cluster_id) msgs n)) = cluster_chain (hn_cluster n) \<and>
    fst (run_cluster_gate e (hn_cluster (fold (hello_and_vote v e hint bridge cluster_id) msgs n)))"
proof -
  let ?h = "sat_add (tip_h (cluster_chain (hn_cluster n))) 1"
  obtain ks where ks: "length ks = length ms" "distinct ks" "list_all (\<lambda>bs. bs \<noteq> [] \<and> fmlookup (hn_replay n) bs = None) ks"
    using fresh_nonces by blast
  let ?xs = "zip ms ks"
  let ?msg = "\<lambda>(m, bs). (stranger_hello v sk domain_hi node_id (se_now (ce_sync e)) m bs, stranger_vote (ce_sync e) sk ?h row)"
  let ?m = "fold (hello_and_vote v e hint bridge cluster_id) (map ?msg ?xs) n"
  have xs: "list_all (\<lambda>(m, bs). m \<in> set (cc_members (ce_cfg e)) \<and> trim m = m \<and> m \<noteq> [] \<and> bs \<noteq> [] \<and> fmlookup (hn_replay n) bs = None) ?xs"
    using assms(9) ks(3) by (auto simp: list_all_iff dest: set_zip_leftD set_zip_rightD)
  have d: "distinct (map snd ?xs)" "map fst ?xs = ms" using ks(1,2) by simp_all
  obtain att where att: "round_open ?m ?h (row\<lparr>cr_attesters := att\<rparr>)" "fmdom att = fset_of_list ms"
      "cluster_chain (hn_cluster ?m) = cluster_chain (hn_cluster n)"
    using stranger_all [OF assms(1) xs d(1) assms(2), where hint = hint and bridge = bridge and cluster_id = cluster_id and sk = sk] d(2) assms(3) by auto
  have "ack_set (cc_members (ce_cfg e)) (row\<lparr>cr_attesters := att\<rparr>) = fset_of_list ms"
    using assms(6,9) att(2) by (auto simp: ack_set_def fset_eq_iff list_all_iff fset_of_list_elem)
  then have "ack_n (cc_members (ce_cfg e)) (row\<lparr>cr_attesters := att\<rparr>) = cc_quorum_k (ce_cfg e)"
    using fcard_list [OF assms(8)] assms(10) by (simp add: ack_n_def)
  with att(1,3) assms(4-7) have "fst (run_cluster_gate e (hn_cluster ?m))"
    by (simp add: run_cluster_gate_def Let_def round_open_def)
  moreover have "list_all (\<lambda>(h, a). nn_node_id (nh_node h) = node_id \<and> nn_pubkey (nh_node h) = x_pubkey (he_ext v) sk) (map ?msg ?xs)"
    by (auto simp: list_all_iff stranger_hello_def hello_sign_def split: sum.split)
  ultimately show ?thesis using att(3) ks(1) by (intro exI [of _ "map ?msg ?xs"]) simp
qed

end
