(* ===== verification/Pwm_Hello_Props.thy ===== *)
theory Pwm_Hello_Props
  imports Pwm_Hello_Facts
begin

text \<open>
  The properties of the handshake of peers: the hello of a node is taken by its peers, and what the checks do not
  see: whose key it is, when it was first taken, whether its sender meant harm.
\<close>

section \<open>The properties\<close>

text \<open>The hello a node makes of itself is accepted by every node of its network and genesis whose clock is within the
  window and that has not seen its nonce; in its own shard the cluster id and the commitment to the bridge have to
  agree as well, and two sealing instances of one validator are kept apart. The peer trusts it from then on. But the
  key it trusts is made of the names in the hello: whoever has seen the hello signs as that node.\<close>

theorem own_hello_accepted:
  assumes "build_local_node_hello (he_ext v) (he_json v) a genesis (Some bridge) ts tip seq = (h, seq')" "app_named a" "\<not> ha_broke_trust_test a"
    and "\<And>x. he_json v x \<noteq> None" "\<And>sk m. sig_correct (he_ext v) sk m"
    and "vx_expected_network_id (he_ctx v) = id_network_id (ha_identity a)"
    and "vx_expected_genesis_hash (he_ctx v) = None \<or> vx_expected_genesis_hash (he_ctx v) = genesis"
    and "abs_diff now ts \<le> vx_skew_window_ms (he_ctx v)" "fmlookup (hn_replay n) (be_bytes 8 seq @ be_bytes 8 ts) = None"
    and "id_cluster_domain_hi (ha_identity a) = he_domain_hi v \<Longrightarrow> cluster_id = id_cluster_id (ha_identity a) \<and>
      \<not> same_validator_conflict v PeerNative (local_capabilities a)"
    and "se_ext s = he_ext v" "hex_laws (se_lib s)"
  shows "\<exists>m p. process_incoming_peer_hello v h now hint prov (Some bridge) cluster_id n =
      (Inr (classify_peer (he_domain_hi v) (id_cluster_domain_hi (ha_identity a))), m) \<and>
    fmlookup (cl_trusted (hn_cluster m)) (id_node_id (ha_identity a)) = Some p \<and> peer_member_id p = member_id (Some (ha_node_instance_id a)) \<and>
    verify_attest_sig s (x_hex_encode (se_lib s) (be_bytes 64 (sign (se_ext s) (key_in_hello h) msg))) (tp_pubkey p) msg"
  using assms by (rule own_hello)

text \<open>A nonce protects a hello for the window after it was taken, while the hello stays valid for the window after its
  own time. A hello that was accepted is accepted again exactly at the times after the first and up to the
  second, whatever other hellos came in between; it never is when its time was not ahead of the clock.\<close>

theorem hello_replay_window:
  assumes "validate_node_hello ext json h ctx t0 r = (Inr (), r')"
    and "list_all (\<lambda>(g, now). nh_nonce g \<noteq> nh_nonce h \<and> now \<le> t) hs"
  shows "fst (validate_node_hello ext json h ctx t (hello_run ext json ctx hs r')) = Inr () \<longleftrightarrow>
    unat t0 + unat (vx_skew_window_ms ctx) < unat t \<and> unat t \<le> unat (nh_timestamp_ms h) + unat (vx_skew_window_ms ctx)"
  using assms by (rule replay_window)

text \<open>C24: The quorum of a cluster can be made with one key by a stranger. A peer of another shard says hello under one node id
  and any key, each time as another member, and signs the candidate of the open round: after as many hellos as
  the quorum asks for, the gate of the proposer opens, although no member has signed.\<close>

theorem one_key_makes_quorum:
  fixes sk :: bytes32
  assumes "stranger_setting v e domain_hi node_id" "round_open n (sat_add (tip_h (cluster_chain (hn_cluster n))) 1) row"
    and "cr_attesters row = fmempty" "trim (cr_vote_object row) \<noteq> []" "trim (cr_candidate_hash row) \<noteq> []"
    and "cr_proposer_id row = Some p" "p \<in> set (cc_members (ce_cfg e))"
    and "distinct ms" "list_all (\<lambda>m. m \<in> set (cc_members (ce_cfg e)) \<and> m \<noteq> p \<and> trim m = m \<and> m \<noteq> []) ms"
    and "length ms = unat (cc_quorum_k (ce_cfg e))"
  shows "\<exists>msgs. length msgs = length ms \<and>
    list_all (\<lambda>(h, a). nn_node_id (nh_node h) = node_id \<and> nn_pubkey (nh_node h) = x_pubkey (he_ext v) sk) msgs \<and>
    cluster_chain (hn_cluster (fold (hello_and_vote v e hint bridge cluster_id) msgs n)) = cluster_chain (hn_cluster n) \<and>
    fst (run_cluster_gate e (hn_cluster (fold (hello_and_vote v e hint bridge cluster_id) msgs n)))"
  using assms by (rule one_key_quorum)

text \<open>C25: One hello stops a node from taking transactions. The genesis is compared before the signature is looked at, so
  anyone who names another genesis sets the guard, and nothing lifts it: whatever hellos, dials, resets and
  submissions follow, every transaction of a user is answered with 503 and leaves chain and pool as they are.\<close>

theorem unsigned_hello_blocks_users:
  assumes "validate_mandatory_fields h = Inr ()" "nh_network_id h = vx_expected_network_id (he_ctx v)"
    and "vx_expected_genesis_hash (he_ctx v) = Some g" "nh_genesis_hash h \<noteq> Some g"
    and "node_later (snd (process_incoming_peer_hello v h now hint prov bridge cluster_id n)) m"
  shows "fst (process_incoming_peer_hello v h now hint prov bridge cluster_id n) = Inl ''genesis_mismatch'' \<and>
    (\<exists>err k. v1_tx ext enc env tx (hn_api m) = Some (Inl (SERVICE_UNAVAILABLE, err), k) \<and> api_chain k = api_chain (hn_api m) \<and>
      pool_txs (ap_node k) = pool_txs (ap_node (hn_api m)))"
  using assms by (rule blocked_for_good)

section \<open>Two nodes\<close>

definition demo_hello_env :: HelloEnv where
  "demo_hello_env = \<lparr> he_ext = demo_ext, he_json = (\<lambda>_. Some []),
     he_ctx = \<lparr> vx_expected_network_id = ''N'', vx_expected_genesis_hash = Some ''G'', vx_skew_window_ms = 100 \<rparr>, he_domain_hi = 0x10,
     he_deployment_profile = SingleSealer, he_seal_role = SealActive, he_validator_hash = Some ''V'', he_instance_id = Some ''P'' \<rparr>"

definition demo_row :: ClusterRoundState where
  "demo_row = round_default\<lparr>cr_vote_object := ''v'', cr_candidate_hash := ''c'', cr_proposer_id := Some ''P''\<rparr>"

definition demo_hello_node :: HelloNode where
  "demo_hello_node = \<lparr> hn_cluster = (demo_member Attester ''Q'')\<lparr>cl_rounds := fmupd (1, 0) demo_row fmempty\<rparr>, hn_replay = fmempty,
     hn_metrics = \<lparr> hm_accepted_total = 0, hm_rejected_total = 0, hm_class_accept_total = fmempty, hm_reject_reason_total = fmempty \<rparr>,
     hn_policy = \<lparr> pp_config = peer_policy_default, pp_counters = \<lparr> po_prioritize_runs = 0, po_backoff_select_native = 0,
       po_backoff_select_foreign = 0, po_native_degraded_flips = 0 \<rparr>, pp_native_live = 0, pp_native_degraded_state = True \<rparr>,
     hn_health = \<lparr> nt_underflow_ticks = 0, nt_threshold_ticks = 3, nt_degraded_state = False, nt_degraded_transitions = 0 \<rparr>,
     hn_mismatch_total = 0, hn_last_mismatch = None, hn_refusal_total = 0, hn_peer_error_at_ms = None \<rparr>"

definition demo_app :: HelloApp where
  "demo_app = \<lparr> ha_identity = \<lparr> id_network_id = ''N'', id_cluster_domain_hi = 0x10, id_cluster_id = ''C'', id_node_id = ''A'', id_mode = Explicit \<rparr>,
     ha_broke_trust_test = False, ha_deployment_profile = SingleSealer, ha_seal_role = SealStandby, ha_validator_identity_hash = ''V'',
     ha_node_instance_id = ''Q'', ha_lease_runtime = None, ha_cluster_cfg = cluster_cfg_default, ha_shard = Lane0 \<rparr>"

lemma demo_env_simps [simp]:
  "he_ext demo_hello_env = demo_ext" "he_json demo_hello_env x = Some []" "he_domain_hi demo_hello_env = 0x10"
  "vx_expected_network_id (he_ctx demo_hello_env) = ''N''" "vx_expected_genesis_hash (he_ctx demo_hello_env) = Some ''G''"
  "vx_skew_window_ms (he_ctx demo_hello_env) = 100" "hn_replay demo_hello_node = fmempty"
  by (simp_all add: demo_hello_env_def demo_hello_node_def)

lemma demo_sig: "sig_correct demo_ext sk m"
  by (simp add: sig_correct_def demo_ext_def toy_ext_def)

lemma letters: "\<not> blank ''N''" "\<not> blank ''C''" "\<not> blank ''A''" "\<not> blank ''V''" "\<not> blank ''Q''" "\<not> blank ''S''" "trim ''v'' = ''v''" "trim ''c'' = ''c''"
  by (simp_all add: blank_def trim_graphic graphic_def)

lemma demo_app_names: "app_named demo_app" "\<not> ha_broke_trust_test demo_app" "id_network_id (ha_identity demo_app) = ''N''"
  "id_cluster_domain_hi (ha_identity demo_app) = 0x10" "id_cluster_id (ha_identity demo_app) = ''C''" "id_node_id (ha_identity demo_app) = ''A''"
  "ha_node_instance_id demo_app = ''Q''" "na_seal_role (local_capabilities demo_app) = SealStandby"
  by (simp_all add: app_named_def demo_app_def cluster_cfg_default_def letters local_capabilities_def)

theorem own_hello_accepted_witness:
  "\<exists>m p. process_incoming_peer_hello demo_hello_env
      (fst (build_local_node_hello (he_ext demo_hello_env) (he_json demo_hello_env) demo_app (Some ''G'') (Some ''b'') 7 None 0))
      5 ''seed'' True (Some ''b'') ''C'' demo_hello_node = (Inr PeerNative, m) \<and>
    fmlookup (cl_trusted (hn_cluster m)) ''A'' = Some p \<and> peer_member_id p = Some ''Q''"
proof -
  obtain h q where b: "build_local_node_hello (he_ext demo_hello_env) (he_json demo_hello_env) demo_app (Some ''G'') (Some ''b'') 7 None 0 = (h, q)"
    by fastforce
  have c: "''C'' = id_cluster_id (ha_identity demo_app) \<and> \<not> same_validator_conflict demo_hello_env PeerNative (local_capabilities demo_app)"
    by (simp add: same_validator_conflict_def demo_app_names split: option.split)
  have w: "abs_diff 5 7 \<le> vx_skew_window_ms (he_ctx demo_hello_env)" by (simp add: abs_diff_def)
  have k: "classify_peer (he_domain_hi demo_hello_env) (id_cluster_domain_hi (ha_identity demo_app)) = PeerNative"
    "member_id (Some (ha_node_instance_id demo_app)) = Some ''Q''"
    by (simp_all add: demo_app_names classify_peer_def member_id_def)
  have h: "\<And>x. he_json demo_hello_env x \<noteq> None" "\<And>sk m. sig_correct (he_ext demo_hello_env) sk m"
    "vx_expected_network_id (he_ctx demo_hello_env) = id_network_id (ha_identity demo_app)"
    "vx_expected_genesis_hash (he_ctx demo_hello_env) = None \<or> vx_expected_genesis_hash (he_ctx demo_hello_env) = Some ''G''"
    "fmlookup (hn_replay demo_hello_node) (be_bytes 8 (0 :: u64) @ be_bytes 8 (7 :: u64)) = None"
    "se_ext demo_sync = he_ext demo_hello_env" "hex_laws (se_lib demo_sync)"
    by (simp_all add: demo_sig toy_hex demo_app_names)
  from own_hello_accepted [OF b demo_app_names(1,2) h(1-4) w h(5) c h(6,7), of "''seed''" True "[]"]
  show ?thesis unfolding k demo_app_names(6) b fst_conv by blast
qed

abbreviation demo_ahead :: NodeHello where
  "demo_ahead \<equiv> stranger_hello demo_hello_env 7 0x20 ''S'' 150 ''Q'' [1]"

lemma demo_ahead_taken: "validate_node_hello demo_ext (\<lambda>_. Some []) demo_ahead (he_ctx demo_hello_env) 100 fmempty = (Inr (), fmupd [1] 100 fmempty)"
proof -
  have j: "he_json demo_hello_env = (\<lambda>_. Some [])" by (simp add: demo_hello_env_def)
  have s: "stranger_setting demo_hello_env (demo_members Proposer ''P'') 0x20 ''S''"
    by (simp add: stranger_setting_def letters toy_hex demo_sig)
  note f = stranger_fields [OF s _ letters(5), of "[1]" 7 150, simplified]
  have "nh_timestamp_ms demo_ahead = 150" by (simp add: stranger_hello_def hello_sign_def split: sum.split)
  with f(1) have "hello_valid_at demo_ext (\<lambda>_. Some []) demo_ahead (he_ctx demo_hello_env) 100" by (simp add: hello_valid_at_def j abs_diff_def)
  from validate_ok [OF this, of fmempty] f(3) show ?thesis by (simp add: nonce_prune_def)
qed

theorem hello_replay_window_witness:
  "fst (validate_node_hello demo_ext (\<lambda>_. Some []) demo_ahead (he_ctx demo_hello_env) 100 fmempty) = Inr () \<and>
   fst (validate_node_hello demo_ext (\<lambda>_. Some []) demo_ahead (he_ctx demo_hello_env) 200 (fmupd [1] 100 fmempty)) \<noteq> Inr () \<and>
   fst (validate_node_hello demo_ext (\<lambda>_. Some []) demo_ahead (he_ctx demo_hello_env) 201 (fmupd [1] 100 fmempty)) = Inr ()"
proof -
  have "nh_timestamp_ms demo_ahead = 150" by (simp add: stranger_hello_def hello_sign_def split: sum.split)
  with hello_replay_window [OF demo_ahead_taken, of 200 "[]"] hello_replay_window [OF demo_ahead_taken, of 201 "[]"] demo_ahead_taken
  show ?thesis by simp
qed

theorem one_key_makes_quorum_witness:
  "\<exists>msgs. length msgs = 1 \<and> list_all (\<lambda>(h, a). nn_node_id (nh_node h) = ''S'' \<and> nn_pubkey (nh_node h) = 7) msgs \<and>
    fst (run_cluster_gate (demo_members Proposer ''P'')
      (hn_cluster (fold (hello_and_vote demo_hello_env (demo_members Proposer ''P'') ''inbound'' None ''C'') msgs demo_hello_node)))"
proof -
  have s: "stranger_setting demo_hello_env (demo_members Proposer ''P'') 0x20 ''S''"
    by (simp add: stranger_setting_def letters toy_hex demo_sig)
  have c: "cluster_chain (hn_cluster demo_hello_node) = demo_chain" by (simp add: demo_hello_node_def demo_api_facts)
  have o: "round_open demo_hello_node (sat_add (tip_h (cluster_chain (hn_cluster demo_hello_node))) 1) demo_row"
    unfolding c by (simp add: round_open_def demo_hello_node_def sat_add_def)
  have "x_pubkey demo_ext 7 = 7" by (simp add: demo_ext_def toy_ext_def)
  moreover have "cr_attesters demo_row = fmempty" "trim (cr_vote_object demo_row) \<noteq> []" "trim (cr_candidate_hash demo_row) \<noteq> []"
      "cr_proposer_id demo_row = Some ''P''"
    by (simp_all add: demo_row_def round_default_def letters)
  ultimately show ?thesis
    using one_key_makes_quorum [OF s o, of "''P''" "[''Q'']" 7 "''inbound''" None "''C''"] by (auto simp: letters)
qed

definition demo_other_genesis :: NodeHello where
  "demo_other_genesis = (stranger_hello demo_hello_env 7 0x20 ''S'' 5 ''Q'' [1])\<lparr>nh_genesis_hash := Some ''H'', nh_signature := []\<rparr>"

theorem unsigned_hello_blocks_users_witness:
  "\<not> gt_genesis_blocked (ap_gates (hn_api demo_hello_node)) \<and> nh_signature demo_other_genesis = [] \<and>
   (\<exists>err k. v1_tx demo_ext demo_codecs (demo_env None) late_tx
      (hn_api (snd (process_incoming_peer_hello demo_hello_env demo_other_genesis 5 ''inbound'' False None ''C'' demo_hello_node))) =
      Some (Inl (SERVICE_UNAVAILABLE, err), k))"
proof -
  have s: "stranger_setting demo_hello_env (demo_members Proposer ''P'') 0x20 ''S''"
    by (simp add: stranger_setting_def letters toy_hex demo_sig)
  note f = stranger_fields [OF s _ letters(5), of "[1]" 7 5, simplified]
  have m: "validate_mandatory_fields demo_other_genesis = Inr ()" "nh_network_id demo_other_genesis = vx_expected_network_id (he_ctx demo_hello_env)"
    using f(1) by (simp_all add: hello_valid_at_def demo_other_genesis_def)
  have g: "vx_expected_genesis_hash (he_ctx demo_hello_env) = Some ''G''" "nh_genesis_hash demo_other_genesis \<noteq> Some ''G''"
    by (simp_all add: demo_other_genesis_def)
  have "\<not> gt_genesis_blocked (ap_gates (hn_api demo_hello_node))" by (simp add: demo_hello_node_def demo_sync_node_def demo_api_def)
  moreover have "nh_signature demo_other_genesis = []" by (simp add: demo_other_genesis_def)
  ultimately show ?thesis
    using unsigned_hello_blocks_users [OF m g nl_now, of 5 "''inbound''" False None "''C''" demo_hello_node demo_ext demo_codecs "demo_env None" late_tx]
    by blast
qed

end
