(* ===== verification/Pwm_Relay.thy ===== *)
theory Pwm_Relay
  imports Pwm_Hello
begin

text \<open>
  Handing an export over to the shard it goes to: the signed hand-off and its checks (\<open>handoff_msg\<close> to
  \<open>ensure_trusted_handoff_source\<close> of src/crates/pwmd/src/api/common.rs), the relay to a peer over HTTP
  (src/crates/pwmd/src/relay.rs), and what the node writes down about the outcome (\<open>mark_relay_ok\<close>,
  \<open>mark_relay_err\<close>, \<open>persist_snap\<close>).

  What other nodes answer is in \<open>RelayWorld\<close>. The lock on the node is not held while the node waits for
  them: \<open>others\<close> is what other tasks make of the node meanwhile. The texts of bodies and of
  the reason in the answer to the hello are those shortened for the log. Log lines, and the values in Rust's debug format in the
  texts of a mismatch, are left out.
\<close>

section \<open>The hand-off\<close>

record ExportHandoff =
  ho_proof_version :: u8
  ho_network_id :: string
  ho_source_domain_hi :: u8
  ho_source_cluster_id :: string
  ho_source_node_id :: string
  ho_source_node_pubkey :: string
  ho_intent_id :: string
  ho_export_id :: string
  ho_source :: string
  ho_to :: string
  ho_target_domain :: u16
  ho_amount :: string
  ho_status :: IntentStatus
  ho_signature :: string

definition hex32 :: "addrlib \<Rightarrow> bytes32 \<Rightarrow> string" where
  "hex32 lib w = x_hex_encode lib (be_bytes 32 w)"

definition handoff_msg :: "string \<Rightarrow> u8 \<Rightarrow> string \<Rightarrow> string \<Rightarrow> string \<Rightarrow> string \<Rightarrow> string \<Rightarrow> string \<Rightarrow> u16 \<Rightarrow> string \<Rightarrow> IntentStatus \<Rightarrow> bytes" where
  "handoff_msg network_id source_domain_hi source_cluster_id source_node_id intent_id eid source dst target_domain amount status =
     as_bytes (''pwm-export-handoff-v1|'' @ network_id @ ''|'' @ hex_upper 2 (unat source_domain_hi) @ ''|'' @ source_cluster_id @ ''|'' @
       source_node_id @ ''|'' @ intent_id @ ''|'' @ eid @ ''|'' @ source @ ''|'' @ dst @ ''|'' @ show_radix 10 (unat target_domain) @ ''|'' @
       amount @ ''|'' @ intent_status_str status)"

definition handoff_bytes :: "ExportHandoff \<Rightarrow> bytes" where
  "handoff_bytes h = handoff_msg (ho_network_id h) (ho_source_domain_hi h) (ho_source_cluster_id h) (ho_source_node_id h) (ho_intent_id h)
     (ho_export_id h) (ho_source h) (ho_to h) (ho_target_domain h) (ho_amount h) (ho_status h)"

definition handoff_from_intent_status :: "extlib \<Rightarrow> addrlib \<Rightarrow> RuntimeIdentity \<Rightarrow> RoamingIntent \<Rightarrow> IntentStatus \<Rightarrow> ExportHandoff" where
  "handoff_from_intent_status ext lib i intent status =
     (let key = local_hello_signing_key i;
          h = \<lparr> ho_proof_version = 1, ho_network_id = id_network_id i, ho_source_domain_hi = id_cluster_domain_hi i,
                ho_source_cluster_id = id_cluster_id i, ho_source_node_id = id_node_id i,
                ho_source_node_pubkey = x_hex_encode lib (be_bytes 32 (x_pubkey ext key)),
                ho_intent_id = hex32 lib (ri_intent_id intent), ho_export_id = hex32 lib (ri_export_id intent),
                ho_source = hex32 lib (ri_source intent), ho_to = hex32 lib (ri_to intent), ho_target_domain = ri_target_domain intent,
                ho_amount = show_radix 10 (unat (ri_amount intent)), ho_status = status, ho_signature = [] \<rparr>
      in h\<lparr>ho_signature := x_hex_encode lib (be_bytes 64 (x_sign ext key (handoff_bytes h)))\<rparr>)"

definition parse_id :: "addrlib \<Rightarrow> string \<Rightarrow> bytes32 option" where
  "parse_id lib s = (case x_hex_decode lib (trim s) of
     Inl _ \<Rightarrow> None | Inr v \<Rightarrow> if length v \<noteq> 32 then None else Some (from_be v))"

definition parse_handoff_id :: "addrlib \<Rightarrow> string \<Rightarrow> string \<Rightarrow> api_err + bytes32" where
  "parse_handoff_id lib field text_value = (case parse_id lib text_value of
     None \<Rightarrow> Inl (BAD_REQUEST, EText (''invalid '' @ field)) | Some w \<Rightarrow> Inr w)"

definition parse_handoff_amount :: "string \<Rightarrow> api_err + u128" where
  "parse_handoff_amount text_value = (case parse_u128 (trim text_value) of
     None \<Rightarrow> Inl (BAD_REQUEST, EText ''invalid handoff amount'') | Some a \<Rightarrow> Inr a)"

definition handoff_pubkey :: "addrlib \<Rightarrow> ExportHandoff \<Rightarrow> api_err + bytes32" where
  "handoff_pubkey lib h = (case x_hex_decode lib (trim (ho_source_node_pubkey h)) of
     Inl _ \<Rightarrow> Inl (BAD_REQUEST, EText ''invalid handoff source_node_pubkey'')
   | Inr v \<Rightarrow> if length v \<noteq> 32 then Inl (BAD_REQUEST, EText ''invalid handoff source_node_pubkey length'') else Inr (from_be v))"

definition verify_handoff :: "extlib \<Rightarrow> addrlib \<Rightarrow> ExportHandoff \<Rightarrow> api_err + unit" where
  "verify_handoff ext lib h =
     (if ho_proof_version h \<noteq> 1 then Inl (BAD_REQUEST, EText ''invalid handoff proof_version'')
      else if ho_status h \<noteq> IRelayed then Inl (BAD_REQUEST, EText ''export handoff must be finalized with status=relayed'')
      else case handoff_pubkey lib h of
        Inl e \<Rightarrow> Inl e
      | Inr pk \<Rightarrow>
          if \<not> x_key_ok ext pk then Inl (BAD_REQUEST, EText ''invalid handoff source_node_pubkey'')
          else (case x_hex_decode lib (trim (ho_signature h)) of
            Inl _ \<Rightarrow> Inl (BAD_REQUEST, EText ''invalid handoff signature'')
          | Inr sig \<Rightarrow>
              if length sig \<noteq> 64 then Inl (BAD_REQUEST, EText ''invalid handoff signature length'')
              else if x_verify ext pk (handoff_bytes h) (from_be sig) then Inr ()
              else Inl (BAD_REQUEST, EText ''invalid handoff signature'')))"

text \<open>The peer that signed has to be trusted under these names and this key, and alive.\<close>

definition ensure_trusted_handoff_source :: "addrlib \<Rightarrow> ExportHandoff \<Rightarrow> ClusterNode \<Rightarrow> api_err + unit" where
  "ensure_trusted_handoff_source lib h n = (case handoff_pubkey lib h of
     Inl e \<Rightarrow> Inl e
   | Inr pk \<Rightarrow> (case fmlookup (cl_trusted n) (ho_source_node_id h) of
       None \<Rightarrow> Inl (FORBIDDEN, EText ''export handoff source peer is not trusted by handshake state'')
     | Some p \<Rightarrow>
         if tp_node_id p \<noteq> ho_source_node_id h \<or> tp_cluster_id p \<noteq> ho_source_cluster_id h \<or> tp_domain_hi p \<noteq> ho_source_domain_hi h
            \<or> tp_pubkey p \<noteq> pk
         then Inl (FORBIDDEN, EText ''export handoff source identity does not match trusted peer state'')
         else (case fmlookup (cl_peers n) (ho_source_node_id h) of
           None \<Rightarrow> Inl (FORBIDDEN, EText ''export handoff source peer is not live'')
         | Some live \<Rightarrow>
             if \<not> is_peer_liveish (pr_status live) then Inl (FORBIDDEN, EText ''export handoff source peer is not live'')
             else Inr ())))"

section \<open>The trace and the snapshot\<close>

definition api_trace :: "u64 \<Rightarrow> string \<Rightarrow> FlowId \<Rightarrow> FlowId option \<Rightarrow> FlowId option \<Rightarrow> string \<Rightarrow> ApiNode \<Rightarrow> ApiNode" where
  "api_trace h kind tx_id eid iid note_text n = n\<lparr>ap_flow := push_flow \<lparr> fl_at_height = h, fl_kind = kind, fl_tx_id = tx_id,
     fl_export_id = eid, fl_intent_id = iid, fl_note = Some note_text \<rparr> (ap_flow n)\<rparr>"

type_synonym save_outcome = "(string option \<times> (string + unit)) option"

definition persist_snap :: "save_outcome \<Rightarrow> ApiNode \<Rightarrow> (api_err + unit) \<times> ApiNode" where
  "persist_snap save n = (case save of
     None \<Rightarrow> (Inr (), n)
   | Some (path, Inl e) \<Rightarrow> (Inl (INTERNAL_SERVER_ERROR, EText (''state persisted in memory but snapshot save failed: '' @ e)),
       with_init (init_ready_degraded path e) n)
   | Some (path, Inr _) \<Rightarrow> (Inr (), with_init (init_ready path) n))"

definition mark_relay_ok :: "save_outcome \<Rightarrow> bytes32 \<Rightarrow> bytes32 \<Rightarrow> ApiNode \<Rightarrow> (api_err + IntentStatus) \<times> ApiNode" where
  "mark_relay_ok save iid eid n =
     (let h = tip_h (api_chain n);
          n = with_pool (mark_relayed iid (sn_roaming_pool (ap_node n))) n;
          n = api_trace h ''finalized:roaming_intent'' (IdBytes eid) (Some (IdBytes eid)) (Some (IdBytes iid))
                ''intent finalized after peer relay delivered provenance to target peer'' n;
          n = api_trace h ''roaming_status:relayed'' (IdBytes eid) (Some (IdBytes eid)) (Some (IdBytes iid))
                ''intent marked relayed after target provenance delivery'' n
      in case fmlookup (rp_intents (sn_roaming_pool (ap_node n))) iid of
           None \<Rightarrow> (Inl (INTERNAL_SERVER_ERROR, EText ''roaming intent disappeared after relay''), n)
         | Some intent \<Rightarrow> (case persist_snap save n of
             (Inl e, n) \<Rightarrow> (Inl e, n) | (Inr _, n) \<Rightarrow> (Inr (ri_status intent), n)))"

definition mark_relay_err :: "save_outcome \<Rightarrow> bytes32 \<Rightarrow> bytes32 \<Rightarrow> string \<Rightarrow> ApiNode \<Rightarrow> (api_err + unit) \<times> ApiNode" where
  "mark_relay_err save iid eid err n =
     (let h = tip_h (api_chain n);
          n = with_pool (mark_relay_error iid err (sn_roaming_pool (ap_node n))) n;
          n = api_trace h ''relay_error:export_provenance'' (IdBytes eid) (Some (IdBytes eid)) (Some (IdBytes iid)) err n
      in persist_snap save n)"

section \<open>Where to relay\<close>

text \<open>The address of a seed: the text of the host and the port.\<close>

record SockAddr =
  sa_host :: string
  sa_port :: u16

definition sock_text :: "SockAddr \<Rightarrow> string" where
  "sock_text a = sa_host a @ '':'' @ show_radix 10 (unat (sa_port a))"

record RelayCfg =
  rc_relay_http_seeds :: "SockAddr list"
  rc_peer_seeds :: "SockAddr list"

definition relay_http_bases :: "RelayCfg \<Rightarrow> SockAddr list" where
  "relay_http_bases cfg =
     (if rc_relay_http_seeds cfg \<noteq> [] then rc_relay_http_seeds cfg
      else map (\<lambda>a. a\<lparr>sa_port := sa_port a - 100\<rparr>) (filter (\<lambda>a. 100 \<le> sa_port a) (rc_peer_seeds cfg)))"

record RelayErr =
  le_status :: StatusCode
  le_message :: string

definition relay_err :: "StatusCode \<Rightarrow> string \<Rightarrow> RelayErr" where
  "relay_err status msg = \<lparr> le_status = status, le_message = msg \<rparr>"

record RelaySeedStatus =
  rs_ready :: bool
  rs_network_id :: "string option"
  rs_cluster_domain_hi :: "u8 option"
  rs_effective_genesis_hash :: "string option"
  rs_genesis_guard :: "string option"
  rs_bridge_federation_trust :: "string option"
  rs_bridge_refusal_reason :: "string option"

definition status_trust_mismatch :: "RelaySeedStatus \<Rightarrow> u8 \<Rightarrow> string \<Rightarrow> string option \<Rightarrow> string option" where
  "status_trust_mismatch s target_hi expected_network_id expected_genesis_hash =
     (if \<not> rs_ready s then Some ''ready=false''
      else if rs_cluster_domain_hi s \<noteq> Some target_hi then Some (''cluster_domain_hi need=0x'' @ hex_upper 2 (unat target_hi))
      else if (case rs_genesis_guard s of Some g \<Rightarrow> g | None \<Rightarrow> ''ok'') \<noteq> ''ok'' then Some ''genesis_guard''
      else if rs_network_id s \<noteq> Some expected_network_id then Some (''network_id expected='' @ expected_network_id)
      else if expected_genesis_hash \<noteq> None \<and> rs_effective_genesis_hash s \<noteq> expected_genesis_hash
      then Some (''effective_genesis_hash expected='' @ the expected_genesis_hash)
      else if rs_bridge_federation_trust s = Some ''bridge_federation_trust_refused''
      then Some (''bridge_federation_trust_refused: '' @ (case rs_bridge_refusal_reason s of Some r \<Rightarrow> r | None \<Rightarrow> ''(no detail)''))
      else None)"

text \<open>An answer over HTTP: the text of a transport error; the status and the start of the body of a failure; a
  success with its body, or the text of what does not decode.\<close>

datatype 'a HttpAnswer = NoAnswer string | HttpFailed string string | HttpOk "string + 'a"

record PeerHelloAck =
  pa_accepted :: bool
  pa_reason :: "string option"

record RelayWorld =
  rw_cfg :: RelayCfg
  rw_client_err :: "string option"
  rw_clock_ok :: bool
  rw_status :: "SockAddr \<Rightarrow> RelaySeedStatus HttpAnswer"
  rw_hello :: "SockAddr \<Rightarrow> PeerHelloAck HttpAnswer"
  rw_post :: "SockAddr \<Rightarrow> unit HttpAnswer"

fun try_seeds :: "RelayWorld \<Rightarrow> u8 \<Rightarrow> string \<Rightarrow> string option \<Rightarrow> SockAddr list \<Rightarrow> string option \<Rightarrow> string option + SockAddr" where
  "try_seeds w target_hi net genesis [] last_err = Inl last_err"
| "try_seeds w target_hi net genesis (seed # seeds) last_err =
     (let bad = (\<lambda>t. try_seeds w target_hi net genesis seeds (Some (''seed '' @ sock_text seed @ t)))
      in case rw_status w seed of
           HttpOk (Inr s) \<Rightarrow> (case status_trust_mismatch s target_hi net genesis of
               Some reason \<Rightarrow> bad ('' trust gate mismatch for domain_hi=0x'' @ hex_upper 2 (unat target_hi) @ '': '' @ reason)
             | None \<Rightarrow> Inr seed)
         | HttpOk (Inl e) \<Rightarrow> bad ('' status decode failed: '' @ e)
         | HttpFailed code snip \<Rightarrow> bad ('' status HTTP '' @ code)
         | NoAnswer e \<Rightarrow> bad ('' status unavailable: '' @ e))"

definition select_target :: "RelayWorld \<Rightarrow> string \<Rightarrow> string option \<Rightarrow> u8 \<Rightarrow> ApiNode \<Rightarrow> RelayErr + SockAddr" where
  "select_target w net genesis target_hi n =
     (if gt_bridge_refused (ap_gates n)
      then Inl (relay_err CONFLICT (case gt_refusal_reason (ap_gates n) of Some r \<Rightarrow> r | None \<Rightarrow> ''bridge_federation_trust_refused''))
      else if relay_http_bases (rw_cfg w) = []
      then Inl (relay_err SERVICE_UNAVAILABLE ''peer relay unavailable: no HTTP relay base configured (peer seeds or explicit relay-http)'')
      else case rw_client_err w of
        Some e \<Rightarrow> Inl (relay_err INTERNAL_SERVER_ERROR (''relay client: '' @ e))
      | None \<Rightarrow> (case try_seeds w target_hi net genesis (relay_http_bases (rw_cfg w)) None of
          Inr seed \<Rightarrow> Inr seed
        | Inl l \<Rightarrow> Inl (relay_err SERVICE_UNAVAILABLE
            (case l of Some t \<Rightarrow> t | None \<Rightarrow> ''no peer seed matched target domain_hi=0x'' @ hex_upper 2 (unat target_hi)))))"

section \<open>Relaying a hand-off\<close>

text \<open>The own hello first, so that the peer knows the key. The number of hellos made is not tracked here.\<close>

definition post_peer_hello :: "RelayWorld \<Rightarrow> SockAddr \<Rightarrow> string option \<Rightarrow> string option \<Rightarrow> RelayErr + unit" where
  "post_peer_hello w seed iid eid =
     (if \<not> rw_clock_ok w
      then Inl (relay_err INTERNAL_SERVER_ERROR
        ''peer relay hello clock failed: system clock error: second time provided was later than self'')
      else case rw_hello w seed of
        NoAnswer e \<Rightarrow> Inl (relay_err SERVICE_UNAVAILABLE (''peer relay hello failed seed='' @ sock_text seed @ '': '' @ e))
      | HttpFailed code snip \<Rightarrow>
          Inl (relay_err BAD_GATEWAY (''peer relay hello rejected seed='' @ sock_text seed @ '' status='' @ code @ '': '' @ snip))
      | HttpOk (Inl e) \<Rightarrow> Inl (relay_err BAD_GATEWAY (''peer relay hello decode failed seed='' @ sock_text seed @ '': '' @ e))
      | HttpOk (Inr ack) \<Rightarrow>
          if \<not> pa_accepted ack
          then Inl (relay_err BAD_GATEWAY (''peer relay hello rejected seed='' @ sock_text seed @ '': '' @
            (case pa_reason ack of Some r \<Rightarrow> r | None \<Rightarrow> ''unknown'') @ '' intent_id='' @ (case iid of Some t \<Rightarrow> t | None \<Rightarrow> ''-'') @
            '' export_id='' @ (case eid of Some t \<Rightarrow> t | None \<Rightarrow> ''-'')))
          else Inr ())"

definition relay_handoff :: "RelayWorld \<Rightarrow> string \<Rightarrow> string option \<Rightarrow> (ApiNode \<Rightarrow> ApiNode) \<Rightarrow> ExportHandoff \<Rightarrow> ApiNode
    \<Rightarrow> (RelayErr + unit) \<times> ApiNode" where
  "relay_handoff w net genesis others h n = (case select_target w net genesis (dom_hi (ho_target_domain h)) n of
     Inl e \<Rightarrow> (Inl e, others n)
   | Inr seed \<Rightarrow> (case post_peer_hello w seed (Some (ho_intent_id h)) (Some (ho_export_id h)) of
       Inl e \<Rightarrow> (Inl e, others n)
     | Inr _ \<Rightarrow>
         let ids = '' intent_id='' @ ho_intent_id h @ '' export_id='' @ ho_export_id h
         in (case rw_post w seed of
              NoAnswer e \<Rightarrow> (Inl (relay_err SERVICE_UNAVAILABLE (''peer relay handoff failed seed='' @ sock_text seed @ '': '' @ e @ ids)), others n)
            | HttpFailed code snip \<Rightarrow>
                (Inl (relay_err BAD_GATEWAY (''peer relay handoff rejected seed='' @ sock_text seed @ '' status='' @ code @ '': '' @ snip @ ids)), others n)
            | HttpOk _ \<Rightarrow>
                let n = others n
                in (Inr (), api_trace (tip_h (api_chain n)) ''relayed:export_provenance'' (IdText (ho_export_id h)) (Some (IdText (ho_export_id h)))
                     (Some (IdText (ho_intent_id h))) (''peer relay delivered handoff to '' @ sock_text seed) n))))"

definition log_relay_absence :: "string \<Rightarrow> RelayErr \<Rightarrow> string option \<Rightarrow> string option \<Rightarrow> ApiNode \<Rightarrow> ApiNode" where
  "log_relay_absence ctx err eid iid n =
     api_trace (tip_h (api_chain n)) ''relay_absent:peer'' (IdText (case eid of Some t \<Rightarrow> t | None \<Rightarrow> ''-'')) (map_option IdText eid)
       (map_option IdText iid) (''peer relay '' @ ctx @ '': '' @ le_message err) n"

section \<open>Relaying an IMPORT\<close>

text \<open>After the delivery the node marks its own intent as relayed and saves; the lock is given up before a failed
  save is rolled back: \<open>others2\<close> runs in between.\<close>

definition relay_import :: "extlib \<Rightarrow> addrlib \<Rightarrow> RelayWorld \<Rightarrow> string \<Rightarrow> string option \<Rightarrow> (ApiNode \<Rightarrow> ApiNode) \<Rightarrow> (ApiNode \<Rightarrow> ApiNode) \<Rightarrow> save_outcome
    \<Rightarrow> SignedTx \<Rightarrow> ApiNode \<Rightarrow> (RelayErr + unit) \<times> ApiNode" where
  "relay_import ext lib w net genesis others others2 save tx n = (case body tx of
     Import t amount eid \<Rightarrow> (case select_target w net genesis (hi_byte (domain_of_account_id t)) n of
       Inl e \<Rightarrow> (Inl e, others n)
     | Inr seed \<Rightarrow> (case rw_post w seed of
         NoAnswer e \<Rightarrow> (Inl (relay_err SERVICE_UNAVAILABLE (''peer relay import failed seed='' @ sock_text seed @ '': '' @ e @ '' export_id='' @ hex32 lib eid)), others n)
       | HttpFailed code snip \<Rightarrow>
           (Inl (relay_err BAD_GATEWAY (''peer relay import rejected seed='' @ sock_text seed @ '' status='' @ code @ '': '' @ snip @ '' export_id='' @ hex32 lib eid)), others n)
       | HttpOk _ \<Rightarrow>
           let n = others n;
               n = api_trace (tip_h (api_chain n)) ''relayed:import'' (IdBytes (tx_hash ext tx)) (Some (IdBytes eid)) None
                     (''peer relay delivered import to '' @ sock_text seed) n;
               bak = take_bak n;
               n = with_pool (mark_relayed_by_export eid (sn_roaming_pool (ap_node n))) n;
               n = api_trace (tip_h (api_chain n)) ''roaming_status:relayed'' (IdBytes eid) (Some (IdBytes eid)) (Some (IdBytes eid))
                     ''source roaming marked relayed after relay_import delivered'' n
           in (case save of
                None \<Rightarrow> (Inr (), n)
              | Some (path, Inr _) \<Rightarrow> (Inr (), with_init (init_ready path) n)
              | Some (path, Inl e) \<Rightarrow> (Inr (), with_init (init_ready_degraded path e) (rollback_commit bak (others2 n))))))
   | _ \<Rightarrow> (Inl (relay_err BAD_REQUEST ''peer relay import requires import tx body''), n))"

end
