(* ===== verification/Pwm_Roam_Api.thy ===== *)
theory Pwm_Roam_Api
  imports Pwm_Relay
begin

text \<open>
  The handlers of the roaming of funds (src/crates/pwmd/src/api/handlers_roaming.rs): the preflight of an EXPORT, the creation of an
  intent, which seals the EXPORT and relays the hand-off, its finalization, its status, and on the
  other side the registration of a hand-off.

  A handler holds the lock on the node up to the write of the snapshot. It gives the lock up before it relays
  (\<open>ro_others\<close> is what other tasks do meanwhile) and, in two handlers, between a failed write and the rollback
  (\<open>ro_others2\<close>). \<open>None\<close> of the option is a panic. Log lines are left out.
\<close>

section \<open>What a handler gets\<close>

definition DEFAULT_READINESS_TTL_SEC :: u64 where "DEFAULT_READINESS_TTL_SEC = 30"
definition MAX_READINESS_TTL_SEC :: u64 where "MAX_READINESS_TTL_SEC = 300"

record RoamEnv =
  ro_ext :: extlib
  ro_codecs :: codecs
  ro_lib :: addrlib
  ro_identity :: RuntimeIdentity
  ro_genesis :: "string option"
  ro_now_ms :: "u64 option"
  ro_clock :: "u64 option"
  ro_save :: save_outcome
  ro_save2 :: save_outcome
  ro_world :: RelayWorld
  ro_others :: "ApiNode \<Rightarrow> ApiNode"
  ro_others2 :: "ApiNode \<Rightarrow> ApiNode"

definition shape_checked :: "extlib \<Rightarrow> SignedTx \<Rightarrow> api_err + unit" where
  "shape_checked ext tx = (case validate_tx_shape ext tx of
     Inl e \<Rightarrow> Inl (BAD_REQUEST, ETx ''tx validation failed: '' e) | Inr _ \<Rightarrow> Inr ())"

definition user_gates :: "ApiNode \<Rightarrow> api_err + unit" where
  "user_gates n = (case ensure_user_tx_allowed (ap_gates n) of
     Inl e \<Rightarrow> Inl e | Inr _ \<Rightarrow> ensure_bridge_federation_ok (ap_gates n))"

definition is_export :: "TxBody \<Rightarrow> bool" where
  "is_export b = (case b of Export _ _ _ _ \<Rightarrow> True | _ \<Rightarrow> False)"

text \<open>The checks the two handlers of an EXPORT begin with; they differ in one text.\<close>

definition export_request_checks :: "extlib \<Rightarrow> string \<Rightarrow> SignedTx \<Rightarrow> ApiNode \<Rightarrow> api_err + unit" where
  "export_request_checks ext what tx n = (case user_gates n of
     Inl e \<Rightarrow> Inl e
   | Inr _ \<Rightarrow>
       if \<not> is_export (body tx) then Inl (BAD_REQUEST, EText (what @ '' requires export tx body''))
       else (case enforce_recipient_prefilter tx of
         Inl e \<Rightarrow> Inl e
       | Inr _ \<Rightarrow> (case (if ap_shard_enforced n then enforce_local_tx_guards ext tx (ap_lane n) (ap_domain_hi n) else Inr ()) of
           Inl e \<Rightarrow> Inl e
         | Inr _ \<Rightarrow> shape_checked ext tx)))"

section \<open>POST /v1/export-readiness\<close>

record ExportReadinessOut =
  xo_ready :: bool
  xo_export_id :: string
  xo_expires_at_unix_ms :: u64
  xo_reason_code :: string
  xo_recovery_hint :: string

definition v1_export_readiness :: "RoamEnv \<Rightarrow> SignedTx \<Rightarrow> u64 option \<Rightarrow> ApiNode \<Rightarrow> (api_err + ExportReadinessOut) \<times> ApiNode" where
  "v1_export_readiness v tx ttl_sec n = (case export_request_checks (ro_ext v) ''export readiness'' tx n of
     Inl e \<Rightarrow> (Inl e, n)
   | Inr _ \<Rightarrow> (case ro_now_ms v of
       None \<Rightarrow> (Inl clock_err, n)
     | Some now_ms \<Rightarrow>
         let now_h = tip_h (api_chain n);
             sender_nonce = snd (acct_view (ch_st (api_chain n)) (computed_account_id (ro_ext v) tx));
             ttl = min (max (case ttl_sec of Some t \<Rightarrow> t | None \<Rightarrow> DEFAULT_READINESS_TTL_SEC) 1) MAX_READINESS_TTL_SEC
         in (case register_readiness (ro_ext v) tx now_ms ttl sender_nonce now_h (sn_roaming_pool (ap_node n)) of
              (Inl e, p) \<Rightarrow> (Inl (CONFLICT, EText e), with_pool p n)
            | (Inr ready, p) \<Rightarrow>
                (Inr \<lparr> xo_ready = True, xo_export_id = hex32 (ro_lib v) (er_export_id ready),
                   xo_expires_at_unix_ms = er_expires_at_unix_ms ready, xo_reason_code = ''ready'',
                   xo_recovery_hint = ''Submit the exact EXPORT payload before TTL expires.'' \<rparr>,
                 api_flow (ro_ext v) tx now_h ''checked:export_readiness'' (Some (''code=ready; hint=submit export before ttl_ms='' @
                   show_radix 10 (unat (sat_sub (er_expires_at_unix_ms ready) now_ms)))) (with_pool p n)))))"

section \<open>POST /v1/roaming-intents\<close>

record CreateRoamingIntentOut =
  co_intent_id :: string
  co_export_id :: string
  co_status :: IntentStatus
  co_created_height :: u64
  co_expires_at_height :: u64
  co_duplicate :: bool

text \<open>The EXPORT of a new intent is sealed and written down.\<close>

definition seal_export :: "RoamEnv \<Rightarrow> CommitBak \<Rightarrow> SignedTx \<Rightarrow> bytes32 \<Rightarrow> ApiNode \<Rightarrow> ((api_err + unit) \<times> ApiNode) option" where
  "seal_export v bak tx iid n = (case seal (ro_ext v) (ro_codecs v) (ro_clock v) [tx] (api_chain n) of
     Panicked \<Rightarrow> None
   | Failed (e, _) c \<Rightarrow> Some (Inl (INTERNAL_SERVER_ERROR, ESeal ''seal after roaming tx failed: '' e), rollback_commit bak (with_chain c n))
   | Done c \<Rightarrow>
       let h = tip_h c; ext = ro_ext v
       in map_option (\<lambda>n.
            let n = api_flow ext tx h ''applied'' (Some ''sealed with tx payload'') n;
                n = with_pool (mark_exported iid (sn_roaming_pool (ap_node n))) n;
                n = api_flow ext tx h ''exported'' (Some ''export registry updated'') n;
                n = api_flow ext tx h ''roaming_status'' (Some ''intent marked exported'') n
            in (Inr (), api_flow ext tx h ''sealed'' None n)) (api_record ext tx h (with_chain c n)))"

text \<open>The part under the lock: the answer and, for a new intent, the hand-off to relay.\<close>

definition create_locked :: "RoamEnv \<Rightarrow> SignedTx \<Rightarrow> u64 option \<Rightarrow> ApiNode
    \<Rightarrow> ((api_err + CreateRoamingIntentOut \<times> ExportHandoff option \<times> bytes32) \<times> ApiNode) option" where
  "create_locked v tx ttl_blocks n =
     (let ext = ro_ext v; now_h = tip_h (api_chain n);
          n = with_pool (snd (expire_by_height now_h (sn_roaming_pool (ap_node n)))) n
      in case ro_now_ms v of
        None \<Rightarrow> Some (Inl clock_err, n)
      | Some now_ms \<Rightarrow> (case consume_readiness ext tx now_ms (snd (acct_view (ch_st (api_chain n)) (computed_account_id ext tx))) now_h
              (sn_roaming_pool (ap_node n)) of
          (Inl code, p) \<Rightarrow> Some (Inl (CONFLICT, EReadiness code),
            api_flow ext tx now_h ''rejected:export_readiness'' (Some (readiness_flow_note code)) (with_pool p n))
        | (Inr _, p) \<Rightarrow>
            let n = with_pool p n; bak = take_bak n; ttl = (case ttl_blocks of Some t \<Rightarrow> t | None \<Rightarrow> DEFAULT_INTENT_TTL_BLOCKS)
            in (case roam_register_export ext tx now_h ttl (sn_roaming_pool (ap_node n)) of
                 (Inl e, p) \<Rightarrow> Some (Inl (CONFLICT, EText e), with_pool p n)
               | (Inr (iid, duplicate), p) \<Rightarrow>
                   Option.bind (if duplicate then Some (Inr (), with_pool p n) else seal_export v bak tx iid (with_pool p n)) (\<lambda>(r, n).
                     case r of
                       Inl e \<Rightarrow> Some (Inl e, n)
                     | Inr _ \<Rightarrow> (case fmlookup (rp_intents (sn_roaming_pool (ap_node n))) iid of
                         None \<Rightarrow> Some (Inl (INTERNAL_SERVER_ERROR, EText ''roaming intent disappeared after create''), n)
                       | Some intent \<Rightarrow>
                           let handoff = (if duplicate then None
                                 else Some (handoff_from_intent_status ext (ro_lib v) (ro_identity v) intent IRelayed));
                               out = \<lparr> co_intent_id = hex32 (ro_lib v) (ri_intent_id intent), co_export_id = hex32 (ro_lib v) (ri_export_id intent),
                                 co_status = ri_status intent, co_created_height = ri_created_height intent,
                                 co_expires_at_height = ri_expires_at_height intent, co_duplicate = duplicate \<rparr>;
                               n = api_flow ext tx (tip_h (api_chain n)) ''accepted'' (Some (if duplicate
                                 then ''duplicate export delivery; existing intent reused'' else ''roaming intent created'')) n
                           in (case ro_save v of
                                Some (path, Inl e) \<Rightarrow> Some (Inl (INTERNAL_SERVER_ERROR,
                                  EText (''tx commit rolled back: snapshot save failed: '' @ e)), rollback_commit bak n)
                              | Some (path, Inr _) \<Rightarrow> Some (Inr (out, handoff, iid), with_init (init_ready path) n)
                              | None \<Rightarrow> Some (Inr (out, handoff, iid), n)))))))"

text \<open>The hand-off is relayed and the outcome is written down: the status of the intent after a success.\<close>

definition relay_and_mark :: "RoamEnv \<Rightarrow> ExportHandoff \<Rightarrow> bytes32 \<Rightarrow> bytes32 \<Rightarrow> ApiNode
    \<Rightarrow> (api_err + (RelayErr + IntentStatus)) \<times> ApiNode" where
  "relay_and_mark v h iid eid n = (case relay_handoff (ro_world v) (id_network_id (ro_identity v)) (ro_genesis v) (ro_others v) h n of
     (Inr _, n) \<Rightarrow> (case mark_relay_ok (ro_save2 v) iid eid n of
        (Inl e, n) \<Rightarrow> (Inl e, n) | (Inr status, n) \<Rightarrow> (Inr (Inr status), n))
   | (Inl e, n) \<Rightarrow> (case mark_relay_err (ro_save2 v) iid eid (le_message e)
          (log_relay_absence ''handoff'' e (Some (ho_export_id h)) (Some (ho_intent_id h)) n) of
        (Inl err, n) \<Rightarrow> (Inl err, n) | (Inr _, n) \<Rightarrow> (Inr (Inl e), n)))"

definition v1_roaming_intent_create :: "RoamEnv \<Rightarrow> SignedTx \<Rightarrow> u64 option \<Rightarrow> ApiNode \<Rightarrow> ((api_err + CreateRoamingIntentOut) \<times> ApiNode) option" where
  "v1_roaming_intent_create v tx ttl_blocks n = (case export_request_checks (ro_ext v) ''roaming intent create'' tx n of
     Inl e \<Rightarrow> Some (Inl e, n)
   | Inr _ \<Rightarrow> map_option (\<lambda>(r, n). case r of
         Inl e \<Rightarrow> (Inl e, n)
       | Inr (out, None, iid) \<Rightarrow> (Inr out, n)
       | Inr (out, Some handoff, iid) \<Rightarrow>
           (case relay_and_mark v handoff iid (case export_id (ro_ext v) tx of Some eid \<Rightarrow> eid | None \<Rightarrow> 0) n of
              (Inl e, n) \<Rightarrow> (Inl e, n)
            | (Inr (Inr status), n) \<Rightarrow> (Inr (out\<lparr>co_status := status\<rparr>), n)
            | (Inr (Inl _), n) \<Rightarrow> (Inr out, n))) (create_locked v tx ttl_blocks n))"

section \<open>POST /v1/roaming-intents/{id}/finalize\<close>

record FinalizeRoamingIntentOut =
  fi_intent_id :: string
  fi_export_id :: string
  fi_status :: IntentStatus
  fi_changed :: bool
  fi_message :: string
  fi_handoff :: ExportHandoff

fun finalize_plan :: "IntentStatus \<Rightarrow> bool \<times> string" where
  "finalize_plan IQueued = (True, ''handoff generated; target provenance registration is pending'')"
| "finalize_plan IExported = (True, ''handoff generated; target provenance registration is pending'')"
| "finalize_plan IRelayed = (False, ''intent already relayed; waiting for IMPORT on target shard'')"
| "finalize_plan IImported = (False, ''intent already imported on target shard; finalize is idempotent'')"
| "finalize_plan IExpired = (False, ''intent expired before finalize; create a new roaming intent'')"
| "finalize_plan IFailed = (False, ''intent is failed; inspect status.last_error before retrying'')"

definition v1_roaming_intent_finalize :: "RoamEnv \<Rightarrow> string \<Rightarrow> ApiNode \<Rightarrow> (api_err + FinalizeRoamingIntentOut) \<times> ApiNode" where
  "v1_roaming_intent_finalize v id_text n = (case user_gates n of
     Inl e \<Rightarrow> (Inl e, n)
   | Inr _ \<Rightarrow> (case parse_id (ro_lib v) id_text of
       None \<Rightarrow> (Inl (BAD_REQUEST, EText ''invalid intent id''), n)
     | Some key \<Rightarrow>
         let h = tip_h (api_chain n); n = with_pool (snd (expire_by_height h (sn_roaming_pool (ap_node n)))) n
         in (case fmlookup (rp_intents (sn_roaming_pool (ap_node n))) key of
              None \<Rightarrow> (Inl (NOT_FOUND, EText ''roaming intent not found''), n)
            | Some intent \<Rightarrow>
                let eid = ri_export_id intent; (should_relay, message) = finalize_plan (ri_status intent);
                    handoff = handoff_from_intent_status (ro_ext v) (ro_lib v) (ro_identity v) intent IRelayed;
                    out = \<lparr> fi_intent_id = hex32 (ro_lib v) key, fi_export_id = hex32 (ro_lib v) eid, fi_status = ri_status intent,
                      fi_changed = False, fi_message = message, fi_handoff = handoff \<rparr>;
                    bak = take_bak n;
                    n = api_trace h ''finalized:roaming_intent'' (IdBytes eid) (Some (IdBytes eid)) (Some (IdBytes key)) message n
                in (case ro_save v of
                     Some (path, Inl e) \<Rightarrow> (Inl (INTERNAL_SERVER_ERROR, EText (''snapshot save failed: '' @ e)),
                       with_init (init_ready_degraded path e) (rollback_commit bak (ro_others2 v n)))
                   | saved \<Rightarrow>
                       let n = (case saved of Some (path, _) \<Rightarrow> with_init (init_ready path) n | None \<Rightarrow> n)
                       in if \<not> should_relay then (Inr out, n)
                          else (case relay_and_mark v handoff key eid n of
                            (Inl e, n) \<Rightarrow> (Inl e, n)
                          | (Inr (Inr status), n) \<Rightarrow> (Inr (out\<lparr>fi_status := status, fi_changed := True,
                              fi_message := ''intent finalized after peer relay delivered provenance to target peer''\<rparr>), n)
                          | (Inr (Inl e), n) \<Rightarrow> (Inr (out\<lparr>fi_message := ''handoff generated; peer relay pending: '' @ le_message e\<rparr>), n))))))"

section \<open>GET /v1/roaming-intents/{id}\<close>

record IntentStatusOut =
  so_intent_id :: string
  so_export_id :: string
  so_source :: string
  so_to :: string
  so_target_domain :: u16
  so_amount :: u128
  so_fee :: u128
  so_status :: IntentStatus
  so_created_height :: u64
  so_expires_at_height :: u64
  so_last_error :: "string option"

definition v1_roaming_intent_status :: "RoamEnv \<Rightarrow> string \<Rightarrow> ApiNode \<Rightarrow> (api_err + IntentStatusOut) \<times> ApiNode" where
  "v1_roaming_intent_status v id_text n = (case ensure_ready (ap_gates n) of
     Inl e \<Rightarrow> (Inl e, n)
   | Inr _ \<Rightarrow> (case parse_id (ro_lib v) id_text of
       None \<Rightarrow> (Inl (BAD_REQUEST, EText ''invalid intent id''), n)
     | Some key \<Rightarrow>
         let (expired, p) = expire_by_height (tip_h (api_chain n)) (sn_roaming_pool (ap_node n)); n = with_pool p n; lib = ro_lib v
         in (case fmlookup (rp_intents p) key of
              None \<Rightarrow> (Inl (NOT_FOUND, EText ''roaming intent not found''), n)
            | Some i \<Rightarrow> (case (if 0 < expired then persist_snap (ro_save v) n else (Inr (), n)) of
                (Inl e, n) \<Rightarrow> (Inl e, n)
              | (Inr _, n) \<Rightarrow> (Inr \<lparr> so_intent_id = hex32 lib (ri_intent_id i), so_export_id = hex32 lib (ri_export_id i),
                  so_source = hex32 lib (ri_source i), so_to = hex32 lib (ri_to i), so_target_domain = ri_target_domain i,
                  so_amount = ri_amount i, so_fee = ri_fee i, so_status = ri_status i, so_created_height = ri_created_height i,
                  so_expires_at_height = ri_expires_at_height i, so_last_error = ri_last_error i \<rparr>, n)))))"

section \<open>POST /v1/export-provenance\<close>

record RegisterHandoffOut =
  rg_export_id :: string
  rg_registered :: bool
  rg_duplicate :: bool
  rg_to :: string
  rg_target_domain :: u16
  rg_amount :: u128

definition handoff_err :: "StatusCode \<Rightarrow> string \<Rightarrow> ExportHandoff \<Rightarrow> api_err" where
  "handoff_err status text_value h =
     (status, EText (text_value @ '' export_id='' @ ho_export_id h @ '' intent_id='' @ ho_intent_id h))"

text \<open>What a hand-off that passes says.\<close>

record HandoffFields =
  hf_export_id :: bytes32
  hf_source :: AccountId
  hf_to :: AccountId
  hf_amount :: u128

definition handoff_fields :: "addrlib \<Rightarrow> ExportHandoff \<Rightarrow> api_err + HandoffFields" where
  "handoff_fields lib h = (case parse_handoff_id lib ''export_id'' (ho_export_id h) of
     Inl e \<Rightarrow> Inl e
   | Inr eid \<Rightarrow> (case parse_handoff_id lib ''source'' (ho_source h) of
       Inl e \<Rightarrow> Inl e
     | Inr source \<Rightarrow> (case parse_handoff_id lib ''to'' (ho_to h) of
         Inl e \<Rightarrow> Inl e
       | Inr dst \<Rightarrow> (case parse_handoff_amount (ho_amount h) of
           Inl e \<Rightarrow> Inl e
         | Inr amount \<Rightarrow> Inr \<lparr> hf_export_id = eid, hf_source = source, hf_to = dst, hf_amount = amount \<rparr>))))"

definition handoff_checks :: "RoamEnv \<Rightarrow> ExportHandoff \<Rightarrow> ClusterNode \<Rightarrow> api_err + HandoffFields" where
  "handoff_checks v h c =
     (let n = sy_api (cl_sync c)
      in case ensure_user_tx_allowed (ap_gates n) of
        Inl e \<Rightarrow> Inl e
      | Inr _ \<Rightarrow>
          if ho_network_id h \<noteq> id_network_id (ro_identity v)
          then Inl (handoff_err BAD_REQUEST ''export handoff network_id does not match target node'' h)
          else (case verify_handoff (ro_ext v) (ro_lib v) h of
            Inl e \<Rightarrow> Inl e
          | Inr _ \<Rightarrow> (case ensure_trusted_handoff_source (ro_lib v) h c of
              Inl e \<Rightarrow> Inl e
            | Inr _ \<Rightarrow> (case handoff_fields (ro_lib v) h of
                Inl e \<Rightarrow> Inl e
              | Inr f \<Rightarrow> (case bad_request (validate_recipient_address_policy (hf_to f)) of
                  Inl e \<Rightarrow> Inl e
                | Inr _ \<Rightarrow>
                    if domain_of_account_id (hf_to f) \<noteq> ho_target_domain h
                    then Inl (handoff_err BAD_REQUEST ''export handoff recipient domain does not match target_domain'' h)
                    else if ap_shard_enforced n \<and> hi_byte (ho_target_domain h) \<noteq> ap_domain_hi n
                    then Inl (handoff_err CONFLICT ''export handoff target_domain does not belong to this target node'' h)
                    else Inr f)))))"

definition with_facts :: "CrossShardLedger \<Rightarrow> ApiNode \<Rightarrow> ApiNode" where
  "with_facts l n = n\<lparr>ap_node := (ap_node n)\<lparr>sn_cross_shard := l\<rparr>\<rparr>"

definition v1_export_handoff_register :: "RoamEnv \<Rightarrow> ExportHandoff \<Rightarrow> ClusterNode \<Rightarrow> ((api_err + RegisterHandoffOut) \<times> ClusterNode) option" where
  "v1_export_handoff_register v h c = (case handoff_checks v h c of
     Inl e \<Rightarrow> Some (Inl e, c)
   | Inr f \<Rightarrow>
       let n = sy_api (cl_sync c); eid = hf_export_id f
       in if eid |\<in>| imported_set (ch_st (api_chain n)) then Some (Inl (handoff_err CONFLICT ''export handoff already imported'' h), c)
          else (case (case find (\<lambda>x. cf_export_id x = eid) (fact_values (sn_cross_shard (ap_node n))) of
                  None \<Rightarrow> Inr False
                | Some x \<Rightarrow>
                    if cf_to x = hf_to f \<and> cf_amount x = hf_amount f \<and> cf_target_domain_hi x = hi_byte (ho_target_domain h)
                       \<and> cf_source x = Some (hf_source f)
                    then Inr True
                    else Inl (handoff_err BAD_REQUEST ''export handoff conflicts with registered provenance'' h)) of
            Inl e \<Rightarrow> Some (Inl e, c)
          | Inr duplicate \<Rightarrow>
              let bak = take_bak n; tip = tip_h (api_chain n)
              in map_option (\<lambda>l.
                let n = with_facts l n;
                    n = api_trace tip ''registered:export_provenance'' (IdText (ho_export_id h)) (Some (IdText (ho_export_id h)))
                          (Some (IdText (ho_intent_id h))) ''operator handoff provenance registered'' n;
                    out = \<lparr> rg_export_id = ho_export_id h, rg_registered = \<not> duplicate, rg_duplicate = duplicate,
                      rg_to = hex32 (ro_lib v) (hf_to f), rg_target_domain = ho_target_domain h, rg_amount = hf_amount f \<rparr>
                in case ro_save v of
                     None \<Rightarrow> (Inr out, with_api n c)
                   | Some (path, Inl e) \<Rightarrow> (Inl (INTERNAL_SERVER_ERROR, EText (''state rolled back; snapshot save failed: '' @ e)),
                       with_api (with_init (init_ready_degraded path e) (rollback_commit bak (ro_others2 v n))) c)
                   | Some (path, Inr _) \<Rightarrow> (Inr out, with_api (with_init (init_ready path) n) c))
                (record_handoff eid (ho_source_domain_hi h) (hf_source f) (hf_to f) (ho_target_domain h) (hf_amount f) tip
                   (parse_id (ro_lib v) (ho_intent_id h)) (sn_cross_shard (ap_node n)))))"

end
