(* ===== verification/Pwm_Roam_Facts.thy ===== *)
theory Pwm_Roam_Facts
  imports Pwm_Roam_Api Pwm_Hello_Facts Pwm_Api_Props Pwm_Roaming_Inv Pwm_Display
begin

text \<open>
  Lemmas about hand-offs and the handlers of roaming: a hand-off reads back as the intent it was made of, a
  registered one lets the IMPORT through, and what a failure leaves behind.
\<close>

section \<open>The texts of a hand-off\<close>

lemma parse_hex32: "hex_laws lib \<Longrightarrow> parse_id lib (hex32 lib w) = Some w"
proof -
  assume h: "hex_laws lib"
  let ?b = "be_bytes 32 w :: bytes"
  have l: "length ?b = 32" by simp
  have "?b \<noteq> []" using l by fastforce
  then have "trim (x_hex_encode lib ?b) = x_hex_encode lib ?b" by (rule hex_sig_text [OF h])
  moreover have "from_be ?b = w" by (rule from_be_bytes) simp
  ultimately show ?thesis using h by (simp add: parse_id_def hex32_def hex_laws_def)
qed

lemma parse_amount_text: "parse_handoff_amount (show_radix 10 (unat a)) = Inr a"
proof -
  let ?t = "show_radix 10 (unat a)"
  have "graphic (hd ?t)" "graphic (last ?t)" using show_digits [of "unat a"] digits_graphic by (auto intro: digits_graphic)
  then have "trim ?t = ?t" by (simp add: trim_graphic)
  moreover have "parse_u128 ?t = Some a"
    using unsigned_less [of a, where ?'a = nat] by (simp add: parse_u128_def from_str_radix_show)
  ultimately show ?thesis by (simp add: parse_handoff_amount_def)
qed

lemma handoff_made [simp]:
  "ho_proof_version (handoff_from_intent_status ext lib i intent st) = 1"
  "ho_network_id (handoff_from_intent_status ext lib i intent st) = id_network_id i"
  "ho_source_domain_hi (handoff_from_intent_status ext lib i intent st) = id_cluster_domain_hi i"
  "ho_source_cluster_id (handoff_from_intent_status ext lib i intent st) = id_cluster_id i"
  "ho_source_node_id (handoff_from_intent_status ext lib i intent st) = id_node_id i"
  "ho_intent_id (handoff_from_intent_status ext lib i intent st) = hex32 lib (ri_intent_id intent)"
  "ho_export_id (handoff_from_intent_status ext lib i intent st) = hex32 lib (ri_export_id intent)"
  "ho_source (handoff_from_intent_status ext lib i intent st) = hex32 lib (ri_source intent)"
  "ho_to (handoff_from_intent_status ext lib i intent st) = hex32 lib (ri_to intent)"
  "ho_target_domain (handoff_from_intent_status ext lib i intent st) = ri_target_domain intent"
  "ho_amount (handoff_from_intent_status ext lib i intent st) = show_radix 10 (unat (ri_amount intent))"
  "ho_status (handoff_from_intent_status ext lib i intent st) = st"
  by (simp_all add: handoff_from_intent_status_def Let_def)

lemma handoff_key:
  assumes "hex_laws lib"
  shows "handoff_pubkey lib (handoff_from_intent_status ext lib i intent st) = Inr (x_pubkey ext (local_hello_signing_key i))"
proof -
  let ?b = "be_bytes 32 (x_pubkey ext (local_hello_signing_key i)) :: bytes"
  have l: "length ?b = 32" by simp
  have "?b \<noteq> []" using l by fastforce
  then have "trim (x_hex_encode lib ?b) = x_hex_encode lib ?b" by (rule hex_sig_text [OF assms])
  moreover have "from_be ?b = x_pubkey ext (local_hello_signing_key i)" by (rule from_be_bytes) simp
  ultimately show ?thesis
    using assms by (simp add: handoff_pubkey_def handoff_from_intent_status_def Let_def hex_laws_def)
qed

lemma handoff_bytes_unsigned [simp]: "handoff_bytes (h\<lparr>ho_signature := s\<rparr>) = handoff_bytes h"
  by (simp add: handoff_bytes_def)

text \<open>A relayed hand-off verifies at every node.\<close>

lemma handoff_verifies:
  assumes "hex_laws lib" "\<And>m. sig_correct ext (local_hello_signing_key i) m"
  shows "verify_handoff ext lib (handoff_from_intent_status ext lib i intent IRelayed) = Inr ()"
proof -
  let ?h = "handoff_from_intent_status ext lib i intent IRelayed"
  let ?sig = "x_sign ext (local_hello_signing_key i) (handoff_bytes ?h)"
  let ?b = "be_bytes 64 ?sig :: bytes"
  have sig: "ho_signature ?h = x_hex_encode lib ?b"
    by (simp add: handoff_from_intent_status_def Let_def handoff_bytes_def)
  have l: "length ?b = 64" by simp
  have "?b \<noteq> []" using l by fastforce
  then have "trim (x_hex_encode lib ?b) = x_hex_encode lib ?b" by (rule hex_sig_text [OF assms(1)])
  moreover have "from_be ?b = ?sig" by (rule from_be_bytes) simp
  moreover have "x_hex_decode lib (x_hex_encode lib ?b) = Inr ?b" using assms(1) by (simp add: hex_laws_def)
  ultimately show ?thesis
    using assms(2) [of "handoff_bytes ?h"] by (simp add: verify_handoff_def handoff_key [OF assms(1)] sig sig_correct_def)
qed

lemma handoff_reads_back:
  assumes "hex_laws lib"
  shows "handoff_fields lib (handoff_from_intent_status ext lib i intent st) =
    Inr \<lparr> hf_export_id = ri_export_id intent, hf_source = ri_source intent, hf_to = ri_to intent, hf_amount = ri_amount intent \<rparr>"
  using assms by (simp add: handoff_fields_def parse_handoff_id_def parse_hex32 parse_amount_text)

section \<open>Registering it\<close>

text \<open>The node knows the other one under these names and its key, and it is alive.\<close>

definition trusts_node :: "extlib \<Rightarrow> RuntimeIdentity \<Rightarrow> ClusterNode \<Rightarrow> bool" where
  "trusts_node ext i c \<longleftrightarrow> (\<exists>p live. fmlookup (cl_trusted c) (id_node_id i) = Some p \<and> tp_node_id p = id_node_id i \<and>
     tp_cluster_id p = id_cluster_id i \<and> tp_domain_hi p = id_cluster_domain_hi i \<and> tp_pubkey p = x_pubkey ext (local_hello_signing_key i) \<and>
     fmlookup (cl_peers c) (id_node_id i) = Some live \<and> is_peer_liveish (pr_status live))"

lemma trusted_source:
  assumes "hex_laws lib" "trusts_node ext i c"
  shows "ensure_trusted_handoff_source lib (handoff_from_intent_status ext lib i intent st) c = Inr ()"
  using assms(2) by (auto simp: trusts_node_def ensure_trusted_handoff_source_def handoff_key [OF assms(1)])

text \<open>Nothing at the target stands against the export.\<close>

definition handoff_welcome :: "bytes32 \<Rightarrow> AccountId \<Rightarrow> u16 \<Rightarrow> ClusterNode \<Rightarrow> bool" where
  "handoff_welcome eid dst target_domain c \<longleftrightarrow> (let n = sy_api (cl_sync c) in
     ensure_user_tx_allowed (ap_gates n) = Inr () \<and> validate_recipient_address_policy dst = Inr () \<and>
     domain_of_account_id dst = target_domain \<and> (ap_shard_enforced n \<longrightarrow> hi_byte target_domain = ap_domain_hi n) \<and>
     eid |\<notin>| imported_set (ch_st (api_chain n)) \<and> eid |\<notin>| fmdom (exported_registry (ch_st (api_chain n))) \<and>
     ledger_ok (sn_cross_shard (ap_node n)) \<and> fmlookup (sn_cross_shard (ap_node n)) eid = None \<and>
     fcard (fmdom (sn_cross_shard (ap_node n))) < FACT_CAP)"

lemma find_fact: "ledger_keyed l \<Longrightarrow> find (\<lambda>x. cf_export_id x = k) (fact_values l) = fmlookup l k"
proof -
  assume k: "ledger_keyed l"
  show ?thesis
  proof (cases "find (\<lambda>x. cf_export_id x = k) (fact_values l)")
    case None
    then have "\<not> (\<exists>f. f \<in> set (fact_values l) \<and> cf_export_id f = k)" by (simp add: find_None_iff)
    then have "fmlookup l k = None" using k by (cases "fmlookup l k") (auto simp: fact_values ledger_keyed_def)
    then show ?thesis using None by simp
  next
    case (Some f)
    then have "f \<in> set (fact_values l)" "cf_export_id f = k" by (auto simp: find_Some_iff)
    then show ?thesis using Some k by (auto simp: fact_values ledger_keyed_def)
  qed
qed

lemma record_handoff_room:
  assumes "ledger_ok l" "fmlookup l eid = None" "fcard (fmdom l) < FACT_CAP"
  shows "record_handoff eid src_hi source dst domain amount h intent l = Some (fmupd eid
    \<lparr> cf_export_id = eid, cf_source_domain_hi = src_hi, cf_target_domain_hi = dom_hi domain, cf_amount = amount, cf_status = FRegistered,
      cf_first_height = h, cf_last_height = h, cf_source = Some source, cf_to = dst, cf_intent_id = intent, cf_origin = OLocal \<rparr> l)"
proof -
  have "fcard (fmdom (fmupd eid f l)) \<le> FACT_CAP" for f using assms(2,3) by (simp add: fcard_finsert_if)
  then show ?thesis using assms(2) by (simp add: record_handoff_def upsert_def evict_small)
qed

definition registered_fact :: "RuntimeIdentity \<Rightarrow> RoamingIntent \<Rightarrow> u64 \<Rightarrow> CrossShardFact" where
  "registered_fact i intent h = \<lparr> cf_export_id = ri_export_id intent, cf_source_domain_hi = id_cluster_domain_hi i,
     cf_target_domain_hi = dom_hi (ri_target_domain intent), cf_amount = ri_amount intent, cf_status = FRegistered, cf_first_height = h,
     cf_last_height = h, cf_source = Some (ri_source intent), cf_to = ri_to intent, cf_intent_id = Some (ri_intent_id intent), cf_origin = OLocal \<rparr>"

lemma handoff_passes:
  assumes "hex_laws (ro_lib v)" "\<And>m. sig_correct (ro_ext v) (local_hello_signing_key i) m" "trusts_node (ro_ext v) i c"
    and "id_network_id i = id_network_id (ro_identity v)" "handoff_welcome (ri_export_id intent) (ri_to intent) (ri_target_domain intent) c"
  shows "handoff_checks v (handoff_from_intent_status (ro_ext v) (ro_lib v) i intent IRelayed) c =
    Inr \<lparr> hf_export_id = ri_export_id intent, hf_source = ri_source intent, hf_to = ri_to intent, hf_amount = ri_amount intent \<rparr>"
  using assms(4,5) handoff_verifies [OF assms(1,2)] trusted_source [OF assms(1,3)] handoff_reads_back [OF assms(1)]
  by (simp add: handoff_checks_def handoff_welcome_def Let_def bad_request_def)

lemma handoff_registers:
  assumes "hex_laws (ro_lib v)" "\<And>m. sig_correct (ro_ext v) (local_hello_signing_key i) m" "trusts_node (ro_ext v) i c"
    and "id_network_id i = id_network_id (ro_identity v)" "handoff_welcome (ri_export_id intent) (ri_to intent) (ri_target_domain intent) c" "ro_save v = None \<or> ro_save v = Some (path, Inr ())"
  shows "\<exists>out c'. v1_export_handoff_register v (handoff_from_intent_status (ro_ext v) (ro_lib v) i intent IRelayed) c = Some (Inr out, c') \<and>
    rg_registered out \<and> rg_amount out = ri_amount intent \<and> api_chain (sy_api (cl_sync c')) = api_chain (sy_api (cl_sync c)) \<and>
    sn_cross_shard (ap_node (sy_api (cl_sync c'))) = fmupd (ri_export_id intent)
      (registered_fact i intent (tip_h (api_chain (sy_api (cl_sync c))))) (sn_cross_shard (ap_node (sy_api (cl_sync c))))"
proof -
  let ?n = "sy_api (cl_sync c)"
  have w: "ri_export_id intent |\<notin>| imported_set (ch_st (api_chain ?n))" "ledger_ok (sn_cross_shard (ap_node ?n))"
    "fmlookup (sn_cross_shard (ap_node ?n)) (ri_export_id intent) = None" "fcard (fmdom (sn_cross_shard (ap_node ?n))) < FACT_CAP"
    using assms(5) by (simp_all add: handoff_welcome_def Let_def)
  have new: "find (\<lambda>x. cf_export_id x = ri_export_id intent) (fact_values (sn_cross_shard (ap_node ?n))) = None"
    using w(2,3) by (simp add: find_fact ledger_ok_def)
  show ?thesis
    using assms(6) w(1) new
    by (auto simp: v1_export_handoff_register_def handoff_passes [OF assms(1-5)] Let_def record_handoff_room [OF w(2-4)]
        parse_hex32 [OF assms(1)] registered_fact_def with_api_def with_facts_def api_trace_def with_init_def)
qed

lemma handoff_unsaved:
  assumes "hex_laws (ro_lib v)" "\<And>m. sig_correct (ro_ext v) (local_hello_signing_key i) m" "trusts_node (ro_ext v) i c"
    and "id_network_id i = id_network_id (ro_identity v)" "handoff_welcome (ri_export_id intent) (ri_to intent) (ri_target_domain intent) c"
    and "ro_save v = Some (path, Inl err)"
  shows "\<exists>c'. v1_export_handoff_register v (handoff_from_intent_status (ro_ext v) (ro_lib v) i intent IRelayed) c =
    Some (Inl (INTERNAL_SERVER_ERROR, EText (''state rolled back; snapshot save failed: '' @ err)), c')"
proof -
  let ?n = "sy_api (cl_sync c)"
  have w: "ri_export_id intent |\<notin>| imported_set (ch_st (api_chain ?n))" "ledger_ok (sn_cross_shard (ap_node ?n))"
    "fmlookup (sn_cross_shard (ap_node ?n)) (ri_export_id intent) = None" "fcard (fmdom (sn_cross_shard (ap_node ?n))) < FACT_CAP"
    using assms(5) by (simp_all add: handoff_welcome_def Let_def)
  have new: "find (\<lambda>x. cf_export_id x = ri_export_id intent) (fact_values (sn_cross_shard (ap_node ?n))) = None"
    using w(2,3) by (simp add: find_fact ledger_ok_def)
  show ?thesis
    using assms(6) w(1) new
    by (simp add: v1_export_handoff_register_def handoff_passes [OF assms(1-5)] Let_def record_handoff_room [OF w(2-4)])
qed

text \<open>The IMPORT of an export, with the provenance written into it.\<close>

definition imports_export :: "bytes32 \<Rightarrow> AccountId \<Rightarrow> u16 \<Rightarrow> u128 \<Rightarrow> SignedTx \<Rightarrow> bool" where
  "imports_export eid dst target_domain amount tx \<longleftrightarrow> body tx = Import dst amount eid \<and>
     import_provenance tx = Some \<lparr> pv_to = dst, pv_target_domain = target_domain, pv_amount = amount \<rparr> \<and>
     hi_byte (domain_code tx) = hi_byte target_domain \<and>
     MIN_IMPORT_FEE_UNITS \<le> (case import_fee tx of Some f \<Rightarrow> f | None \<Rightarrow> 0)"

lemma dom_hi_byte: "dom_hi d = hi_byte d"
  by (simp add: dom_hi_def hi_byte_def be_bytes_def le_bytes_def numeral_2_eq_2)

lemma registered_import_passes:
  assumes "imports_export (ri_export_id intent) (ri_to intent) (ri_target_domain intent) (ri_amount intent) tx" "ri_export_id intent |\<notin>| imported_set st" "ri_export_id intent |\<notin>| fmdom (exported_registry st)"
    and "fmlookup l (ri_export_id intent) = Some (registered_fact i intent h)"
  shows "enforce_import_provenance_prefilter tx st l = Inr ()"
proof -
  have "fmlookup (exported_registry st) (ri_export_id intent) = None" using assms(3) by (simp add: fmdom_notD)
  then show ?thesis using assms(1,2,4)
    by (auto simp: imports_export_def enforce_import_provenance_prefilter_def registered_fact_def dom_hi_byte not_less [symmetric])
qed

section \<open>A hello is enough\<close>

text \<open>The names a hello carries.\<close>

definition identity_in_hello :: "NodeHello \<Rightarrow> RuntimeIdentity" where
  "identity_in_hello h = \<lparr> id_network_id = nh_network_id h, id_cluster_domain_hi = nc_domain_hi (nh_cluster h),
     id_cluster_id = nc_cluster_id (nh_cluster h), id_node_id = nn_node_id (nh_node h), id_mode = Explicit \<rparr>"

lemma hello_key: "local_hello_signing_key (identity_in_hello h) = key_in_hello h"
  by (simp add: local_hello_signing_key_def identity_in_hello_def key_in_hello_def)

lemma accepted_live:
  assumes "process_incoming_peer_hello v h now hint prov bridge cluster_id n = (Inr class, m)"
  shows "\<exists>live. fmlookup (cl_peers (hn_cluster m)) (nn_node_id (nh_node h)) = Some live \<and> is_peer_liveish (pr_status live)"
proof -
  have acc: "\<exists>live. fmlookup (cl_peers (hn_cluster (accept_hello v h now class k))) (nn_node_id (nh_node h)) = Some live \<and>
      is_peer_liveish (pr_status live)" for k
    by (simp add: accept_hello_def Let_def)
  show ?thesis
    using assms acc
    by (auto simp: process_incoming_peer_hello_def Let_def split: sum.splits if_splits prod.splits)
qed

lemma hello_trusts:
  assumes "process_incoming_peer_hello v h now hint prov bridge cluster_id n = (Inr class, m)"
    and "nn_pubkey (nh_node h) = x_pubkey ext (key_in_hello h)"
  shows "trusts_node ext (identity_in_hello h) (hn_cluster m)"
  using accepted_valid(4) [OF assms(1)] accepted_live [OF assms(1)] assms(2)
  by (auto simp: trusts_node_def trusted_of_hello_def hello_key) (simp_all add: identity_in_hello_def)

lemma registered_then_imported:
  assumes "hex_laws (ro_lib v)" "\<And>m. sig_correct (ro_ext v) (local_hello_signing_key i) m" "trusts_node (ro_ext v) i c"
    and "id_network_id i = id_network_id (ro_identity v)" "handoff_welcome (ri_export_id intent) (ri_to intent) (ri_target_domain intent) c" "ro_save v = None \<or> ro_save v = Some (path, Inr ())"
    and "imports_export (ri_export_id intent) (ri_to intent) (ri_target_domain intent) (ri_amount intent) tx"
  shows "\<exists>out c'. v1_export_handoff_register v (handoff_from_intent_status (ro_ext v) (ro_lib v) i intent IRelayed) c = Some (Inr out, c') \<and>
    rg_registered out \<and> rg_amount out = ri_amount intent \<and>
    fmlookup (sn_cross_shard (ap_node (sy_api (cl_sync c')))) (ri_export_id intent) =
      Some (registered_fact i intent (tip_h (api_chain (sy_api (cl_sync c))))) \<and>
    enforce_import_provenance_prefilter tx (ch_st (api_chain (sy_api (cl_sync c')))) (sn_cross_shard (ap_node (sy_api (cl_sync c')))) = Inr ()"
proof -
  obtain out c' where r: "v1_export_handoff_register v (handoff_from_intent_status (ro_ext v) (ro_lib v) i intent IRelayed) c = Some (Inr out, c')"
      "rg_registered out" "rg_amount out = ri_amount intent" "api_chain (sy_api (cl_sync c')) = api_chain (sy_api (cl_sync c))"
      "sn_cross_shard (ap_node (sy_api (cl_sync c'))) = fmupd (ri_export_id intent)
        (registered_fact i intent (tip_h (api_chain (sy_api (cl_sync c))))) (sn_cross_shard (ap_node (sy_api (cl_sync c))))"
    using handoff_registers [OF assms(1-6)] by blast
  have "ri_export_id intent |\<notin>| imported_set (ch_st (api_chain (sy_api (cl_sync c'))))"
    "ri_export_id intent |\<notin>| fmdom (exported_registry (ch_st (api_chain (sy_api (cl_sync c')))))"
    using assms(5) r(4) by (simp_all add: handoff_welcome_def Let_def)
  from registered_import_passes [OF assms(7) this] r show ?thesis by simp
qed

section \<open>A rollback after the lock was given up\<close>

lemma check_statuses:
  "ensure_user_tx_allowed g = Inl e \<Longrightarrow> fst e = SERVICE_UNAVAILABLE"
  "handoff_pubkey lib h = Inl e \<Longrightarrow> fst e = BAD_REQUEST"
  "handoff_fields lib h = Inl e \<Longrightarrow> fst e = BAD_REQUEST"
  "bad_request r = Inl e \<Longrightarrow> fst e = BAD_REQUEST"
  by (auto simp: ensure_user_tx_allowed_def ensure_ready_def split: if_splits)
    (auto simp: handoff_pubkey_def handoff_fields_def parse_handoff_id_def parse_handoff_amount_def bad_request_def
      split: sum.splits option.splits if_splits)

lemma verify_status: "verify_handoff ext lib h = Inl e \<Longrightarrow> fst e = BAD_REQUEST"
  unfolding verify_handoff_def by (auto dest: check_statuses(2) split: sum.splits if_splits)

lemma trusted_status: "ensure_trusted_handoff_source lib h c = Inl e \<Longrightarrow> fst e = BAD_REQUEST \<or> fst e = FORBIDDEN"
  unfolding ensure_trusted_handoff_source_def by (auto dest: check_statuses(2) split: sum.splits option.splits if_splits)

lemma handoff_checks_status:
  assumes "handoff_checks v h c = Inl e"
  shows "fst e \<noteq> INTERNAL_SERVER_ERROR"
proof (cases "ensure_user_tx_allowed (ap_gates (sy_api (cl_sync c)))")
  case (Inl x)
  then show ?thesis using assms check_statuses(1) by (auto simp: handoff_checks_def)
next
  case (Inr u)
  show ?thesis
  proof (cases "ho_network_id h = id_network_id (ro_identity v) \<and> verify_handoff (ro_ext v) (ro_lib v) h = Inr () \<and>
      ensure_trusted_handoff_source (ro_lib v) h c = Inr ()")
    case False
    then show ?thesis using assms Inr verify_status trusted_status
      by (fastforce simp: handoff_checks_def handoff_err_def Let_def split: sum.splits if_splits)
  next
    case True
    show ?thesis
    proof (cases "handoff_fields (ro_lib v) h")
      case (Inl x)
      then show ?thesis using assms Inr True check_statuses(3) [OF Inl] by (simp add: handoff_checks_def)
    next
      case (Inr f)
      then show ?thesis using assms True \<open>ensure_user_tx_allowed _ = _\<close>
        by (auto dest: check_statuses(4) simp: handoff_checks_def handoff_err_def Let_def split: sum.splits if_splits)
    qed
  qed
qed

lemma rollback_chain: "api_chain (rollback_commit (take_bak n) m) =
    (api_chain m)\<lparr>blocks := blocks (api_chain n), canonical_h := canonical_h (api_chain n), ch_st := ch_st (api_chain n)\<rparr>"
  by (simp add: rollback_commit_def take_bak_def set_canon_h_def tip_h_def Let_def)

lemma register_unsaved:
  assumes "v1_export_handoff_register v h c = Some (Inl (INTERNAL_SERVER_ERROR, e), c')"
  obtains path err m where "sy_api (cl_sync c') = with_init (init_ready_degraded path err) (rollback_commit (take_bak (sy_api (cl_sync c))) (ro_others2 v m))"
proof (cases "handoff_checks v h c")
  case (Inl x)
  with assms handoff_checks_status [OF Inl] show thesis by (simp add: v1_export_handoff_register_def)
next
  case (Inr f)
  show thesis
  proof (cases "ro_save v")
    case None
    with Inr assms show thesis by (auto simp: v1_export_handoff_register_def Let_def handoff_err_def split: if_splits option.splits sum.splits)
  next
    case (Some save)
    obtain path r where save: "save = (path, r)" by fastforce
    show thesis
    proof (cases r)
      case (Inl err)
      with \<open>handoff_checks v h c = Inr f\<close> Some save assms obtain m where
        "c' = with_api (with_init (init_ready_degraded path err) (rollback_commit (take_bak (sy_api (cl_sync c))) (ro_others2 v m))) c"
        by (auto simp: v1_export_handoff_register_def Let_def handoff_err_def split: if_splits option.splits sum.splits)
      then show thesis by (intro that [of path err m]) (simp add: with_api_def)
    next
      case (Inr u)
      with \<open>handoff_checks v h c = Inr f\<close> Some save assms show thesis
        by (auto simp: v1_export_handoff_register_def Let_def handoff_err_def split: if_splits option.splits sum.splits)
    qed
  qed
qed

lemma late_rollback:
  assumes "v1_export_handoff_register v h c = Some (Inl (INTERNAL_SERVER_ERROR, e), c')"
    and "seal_entries ext enc clock entries (api_chain (sy_api (cl_sync c))) = Done ch" "\<And>m. api_chain (ro_others2 v m) = ch"
  shows "blocks (api_chain (sy_api (cl_sync c'))) = blocks (api_chain (sy_api (cl_sync c)))"
    "ch_st (api_chain (sy_api (cl_sync c'))) = ch_st (api_chain (sy_api (cl_sync c)))"
    "unat (tip_h ch) = Suc (unat (tip_h (api_chain (sy_api (cl_sync c')))))"
    "\<not> allows_chain_progress (gt_init (ap_gates (sy_api (cl_sync c'))))"
proof -
  obtain path err m where n: "sy_api (cl_sync c') =
      with_init (init_ready_degraded path err) (rollback_commit (take_bak (sy_api (cl_sync c))) (ro_others2 v m))"
    using register_unsaved [OF assms(1)] .
  then show "blocks (api_chain (sy_api (cl_sync c'))) = blocks (api_chain (sy_api (cl_sync c)))"
    "ch_st (api_chain (sy_api (cl_sync c'))) = ch_st (api_chain (sy_api (cl_sync c)))"
    by (simp_all add: with_init_def rollback_chain)
  have "unat (canonical_h ch) = Suc (unat (canonical_h (api_chain (sy_api (cl_sync c)))))"
    using assms(2) by (auto elim!: seal_Done dest!: next_apply_ctx_height)
  then show "unat (tip_h ch) = Suc (unat (tip_h (api_chain (sy_api (cl_sync c')))))"
    by (simp add: n with_init_def rollback_chain tip_h_def)
  show "\<not> allows_chain_progress (gt_init (ap_gates (sy_api (cl_sync c'))))"
    by (simp add: n with_init_def allows_chain_progress_def init_ready_degraded_def)
qed

section \<open>A relay that ends late\<close>

lemma persist_keeps: "sn_roaming_pool (ap_node (snd (persist_snap save n))) = sn_roaming_pool (ap_node n)"
  "api_chain (snd (persist_snap save n)) = api_chain n"
  by (auto simp: persist_snap_def with_init_def split: option.split sum.split)

lemma trace_keeps [simp]: "ap_node (api_trace h kind t e i note_text n) = ap_node n" "ap_gates (api_trace h kind t e i note_text n) = ap_gates n"
  by (simp_all add: api_trace_def)

lemma pool_of [simp]: "sn_roaming_pool (ap_node (with_pool p n)) = p" "ap_gates (with_pool p n) = ap_gates n"
  by (simp_all add: with_pool_def)

lemma mark_relay_ok_effect:
  assumes "fmlookup (rp_intents (sn_roaming_pool (ap_node n))) iid = Some i" "mark_relay_ok save iid eid n = (r, n')"
  shows "sn_roaming_pool (ap_node n') = mark_relayed iid (sn_roaming_pool (ap_node n))" "r = Inr st \<Longrightarrow> st = IRelayed" "save = None \<Longrightarrow> r = Inr IRelayed"
proof -
  obtain j where j: "fmlookup (rp_intents (mark_relayed iid (sn_roaming_pool (ap_node n)))) iid = Some j" "ri_status j = IRelayed"
    using assms(1) by (simp add: mark_relayed_def set_status_intents)
  define k where "k = api_trace (tip_h (api_chain n)) ''roaming_status:relayed'' (IdBytes eid) (Some (IdBytes eid)) (Some (IdBytes iid))
      ''intent marked relayed after target provenance delivery'' (api_trace (tip_h (api_chain n)) ''finalized:roaming_intent'' (IdBytes eid)
      (Some (IdBytes eid)) (Some (IdBytes iid)) ''intent finalized after peer relay delivered provenance to target peer''
      (with_pool (mark_relayed iid (sn_roaming_pool (ap_node n))) n))"
  have p: "sn_roaming_pool (ap_node k) = mark_relayed iid (sn_roaming_pool (ap_node n))" by (simp add: k_def)
  have run: "(case persist_snap save k of (Inl e, n) \<Rightarrow> (Inl e, n) | (Inr _, n) \<Rightarrow> (Inr (ri_status j), n)) = (r, n')"
    using assms(2) j(1) p unfolding mark_relay_ok_def Let_def k_def [symmetric] by simp
  have "n' = snd (persist_snap save k)" using run by (cases "persist_snap save k"; cases "fst (persist_snap save k)") auto
  then show "sn_roaming_pool (ap_node n') = mark_relayed iid (sn_roaming_pool (ap_node n))" using p by (simp add: persist_keeps)
  show "r = Inr st \<Longrightarrow> st = IRelayed" using run j(2) by (auto split: prod.splits sum.splits)
  show "save = None \<Longrightarrow> r = Inr IRelayed" using run j(2) by (auto simp: persist_snap_def)
qed

text \<open>The relay gets through: a seed fits, takes the hello and answers the hand-off.\<close>

definition relay_gets_through :: "RoamEnv \<Rightarrow> ExportHandoff \<Rightarrow> ApiNode \<Rightarrow> bool" where
  "relay_gets_through v h n \<longleftrightarrow> (\<exists>seed r. select_target (ro_world v) (id_network_id (ro_identity v)) (ro_genesis v) (dom_hi (ho_target_domain h)) n = Inr seed \<and>
     post_peer_hello (ro_world v) seed (Some (ho_intent_id h)) (Some (ho_export_id h)) = Inr () \<and> rw_post (ro_world v) seed = HttpOk r)"

lemma relay_runs:
  assumes "relay_gets_through v h n"
  shows "\<exists>m. relay_handoff (ro_world v) (id_network_id (ro_identity v)) (ro_genesis v) (ro_others v) h n = (Inr (), m) \<and>
    sn_roaming_pool (ap_node m) = sn_roaming_pool (ap_node (ro_others v n)) \<and> api_chain m = api_chain (ro_others v n)"
  using assms by (auto simp: relay_gets_through_def relay_handoff_def Let_def)

lemma gets_through_gates: "ap_gates m = ap_gates n \<Longrightarrow> relay_gets_through v h m = relay_gets_through v h n"
  by (simp add: relay_gets_through_def select_target_def)

end
