(* ===== verification/Pwm_Roam_Commit.thy ===== *)
theory Pwm_Roam_Commit
  imports Pwm_Roam_Facts
begin

text \<open>
  The creation and the finalization of an intent: a creation that fails gives back the node it found, one that
  succeeds has sealed the EXPORT, marked the intent and locked the account, and a finalization whose relay ends
  after the IMPORT arrived opens the intent again.
\<close>

section \<open>Creating an intent\<close>

lemma register_new:
  assumes "roam_register_export ext tx now_h ttl p = (Inr (iid, False), q)"
  obtains i where "fmlookup (rp_intents q) iid = Some i" "ri_source i = computed_account_id ext tx"
    "body tx = Export (ri_to i) (ri_target_domain i) (ri_amount i) (ri_fee i)"
    "export_id ext tx = Some iid" "ri_intent_id i = iid" "ri_export_id i = iid"
proof -
  have "\<exists>i. fmlookup (rp_intents q) iid = Some i \<and> ri_source i = computed_account_id ext tx \<and>
    body tx = Export (ri_to i) (ri_target_domain i) (ri_amount i) (ri_fee i) \<and> export_id ext tx = Some iid \<and>
    ri_intent_id i = iid \<and> ri_export_id i = iid"
    using assms by (auto simp: roam_register_export_def Let_def split: TxBody.splits option.splits if_splits)
  then show thesis using that by blast
qed

lemma register_old: "roam_register_export ext tx now_h ttl p = (Inr (iid, True), q) \<Longrightarrow> q = p"
  "roam_register_export ext tx now_h ttl p = (Inl e, q) \<Longrightarrow> q = p"
  by (auto simp: roam_register_export_def Let_def split: TxBody.splits option.splits if_splits)

lemma record_pool: "api_record ext tx h m = Some m' \<Longrightarrow> sn_roaming_pool (ap_node m') = sn_roaming_pool (ap_node m)"
  by (auto simp: api_record_def record_cross_shard_tx_def Let_def split: TxBody.splits)

lemma flow_pool [simp]: "ap_node (api_flow ext tx h kind note_text m) = ap_node m" "sn_roaming_pool (ap_node (with_chain c m)) = sn_roaming_pool (ap_node m)"
  by (simp_all add: api_flow_def with_chain_def)

lemma seal_export_cases:
  assumes "seal_export v (take_bak n) tx iid m = Some (r, k)" "touches_commit n m" "api_chain m = api_chain n"
  obtains e where "r = Inl e" "k = n"
  | c where "r = Inr ()" "seal (ro_ext v) (ro_codecs v) (ro_clock v) [tx] (api_chain n) = Done c" "api_chain k = c" "touches_commit n k"
      "sn_roaming_pool (ap_node k) = mark_exported iid (sn_roaming_pool (ap_node m))"
proof (cases "seal (ro_ext v) (ro_codecs v) (ro_clock v) [tx] (api_chain m)")
  case Panicked
  with assms(1) show thesis by (simp add: seal_export_def)
next
  case (Failed er c)
  obtain se ret where er: "er = (se, ret)" by (cases er)
  have "c = api_chain n" using seal_Failed [OF Failed [unfolded er]] assms(3) by simp
  then have "rollback_commit (take_bak n) (with_chain c m) = n"
    using assms(2) by (intro rollback_restores) (simp_all add: touches_commit_def)
  with assms(1) Failed er that(1) show thesis by (auto simp: seal_export_def)
next
  case (Done c)
  with assms(1) obtain m1 where m1: "api_record (ro_ext v) tx (tip_h c) (with_chain c m) = Some m1"
    and r: "r = Inr ()" and k: "k = api_flow (ro_ext v) tx (tip_h c) ''sealed'' None
      (api_flow (ro_ext v) tx (tip_h c) ''roaming_status'' (Some ''intent marked exported'')
      (api_flow (ro_ext v) tx (tip_h c) ''exported'' (Some ''export registry updated'')
      (with_pool (mark_exported iid (sn_roaming_pool (ap_node m1))) (api_flow (ro_ext v) tx (tip_h c) ''applied'' (Some ''sealed with tx payload'') m1))))"
    by (auto simp: seal_export_def Let_def)
  have "touches_commit n k" "api_chain k = c"
    using put_commit_record [OF m1] assms(2) by (simp_all add: k touches_commit_def)
  moreover have "sn_roaming_pool (ap_node k) = mark_exported iid (sn_roaming_pool (ap_node m))"
    using record_pool [OF m1] by (simp add: k)
  ultimately show thesis using Done assms(3) r by (intro that(2)) simp_all
qed

lemma same_chain_undo:
  assumes "touches_commit n m" "api_chain m = c" "api_chain n = c \<or> seal ext enc clock block_txs (api_chain n) = Done c"
  shows "rollback_commit (take_bak n) m = n"
  using assms seal_frame [of ext enc clock block_txs "api_chain n" c] by (intro rollback_restores) auto

text \<open>The node when the creation starts on it: expired intents are marked.\<close>

definition swept :: "ApiNode \<Rightarrow> ApiNode" where
  "swept n = with_pool (snd (expire_by_height (tip_h (api_chain n)) (sn_roaming_pool (ap_node n)))) n"

text \<open>What the answer means.\<close>

definition create_result :: "RoamEnv \<Rightarrow> SignedTx \<Rightarrow> ApiNode \<Rightarrow> (api_err + CreateRoamingIntentOut \<times> ExportHandoff option \<times> bytes32) \<Rightarrow> ApiNode \<Rightarrow> bool" where
  "create_result v tx n r n' \<longleftrightarrow> (case r of
     Inl e \<Rightarrow> unchanged (swept n) n'
   | Inr (out, None, iid) \<Rightarrow> co_duplicate out \<and> api_chain n' = api_chain n \<and> sn_cross_shard (ap_node n') = sn_cross_shard (ap_node n)
   | Inr (out, Some h, iid) \<Rightarrow> \<not> co_duplicate out \<and> export_id (ro_ext v) tx = Some iid \<and>
       txs (last (blocks (api_chain n'))) = [tx] \<and> unat (tip_h (api_chain n')) = Suc (unat (tip_h (api_chain n))) \<and>
       (\<exists>i. fmlookup (rp_intents (sn_roaming_pool (ap_node n'))) iid = Some i \<and> ri_status i = IExported \<and>
          ri_source i = computed_account_id (ro_ext v) tx \<and> ri_export_id i = iid \<and>
          body tx = Export (ri_to i) (ri_target_domain i) (ri_amount i) (ri_fee i) \<and>
          fmlookup (rp_active_locks (sn_roaming_pool (ap_node n'))) (ri_source i) = Some iid \<and>
          h = handoff_from_intent_status (ro_ext v) (ro_lib v) (ro_identity v) i IRelayed))"

lemma create_new:
  assumes "roam_register_export ext tx now_h ttl p = (Inr (iid, False), q)" "pool' = mark_exported iid q"
  obtains i where "fmlookup (rp_intents pool') iid = Some i" "ri_status i = IExported" "ri_source i = computed_account_id ext tx"
    "ri_export_id i = iid" "body tx = Export (ri_to i) (ri_target_domain i) (ri_amount i) (ri_fee i)"
    "fmlookup (rp_active_locks pool') (ri_source i) = Some iid"
  using assms(1)
proof (rule register_new)
  fix i assume i: "fmlookup (rp_intents q) iid = Some i" "ri_source i = computed_account_id ext tx" "ri_export_id i = iid"
    "body tx = Export (ri_to i) (ri_target_domain i) (ri_amount i) (ri_fee i)"
  show thesis
    by (rule that [of "i\<lparr>ri_status := IExported\<rparr>"])
      (use i set_status_locks [of q iid i IExported None "ri_source i"] in \<open>simp_all add: assms(2) mark_exported_def set_status_intents\<close>)
qed

lemma unchanged_pool:
  assumes "rp_intents p = rp_intents (sn_roaming_pool (ap_node n))" "rp_active_locks p = rp_active_locks (sn_roaming_pool (ap_node n))"
  shows "unchanged n (with_pool p n)" "unchanged n (api_flow ext tx h kind t (with_pool p n))"
  using assms by (simp_all add: unchanged_def with_pool_def api_flow_def)

lemma touches_pool: "touches_commit n (with_pool p n)"
  by (simp add: touches_commit_def)

text \<open>The end of the part under the lock.\<close>

definition create_tail :: "RoamEnv \<Rightarrow> CommitBak \<Rightarrow> SignedTx \<Rightarrow> bool \<Rightarrow> bytes32 \<Rightarrow> RoamingIntent \<Rightarrow> ApiNode
    \<Rightarrow> (api_err + CreateRoamingIntentOut \<times> ExportHandoff option \<times> bytes32) \<times> ApiNode" where
  "create_tail v bak tx duplicate iid intent n =
     (let out = \<lparr> co_intent_id = hex32 (ro_lib v) (ri_intent_id intent), co_export_id = hex32 (ro_lib v) (ri_export_id intent),
            co_status = ri_status intent, co_created_height = ri_created_height intent,
            co_expires_at_height = ri_expires_at_height intent, co_duplicate = duplicate \<rparr>;
          handoff = (if duplicate then None else Some (handoff_from_intent_status (ro_ext v) (ro_lib v) (ro_identity v) intent IRelayed));
          m = api_flow (ro_ext v) tx (tip_h (api_chain n)) ''accepted'' (Some (if duplicate
            then ''duplicate export delivery; existing intent reused'' else ''roaming intent created'')) n
      in case ro_save v of
           Some (path, Inl e) \<Rightarrow> (Inl (INTERNAL_SERVER_ERROR, EText (''tx commit rolled back: snapshot save failed: '' @ e)), rollback_commit bak m)
         | Some (path, Inr _) \<Rightarrow> (Inr (out, handoff, iid), with_init (init_ready path) m)
         | None \<Rightarrow> (Inr (out, handoff, iid), m))"

lemma create_tail_Some: "Some (create_tail v bak tx duplicate iid intent n) =
     (let out = \<lparr> co_intent_id = hex32 (ro_lib v) (ri_intent_id intent), co_export_id = hex32 (ro_lib v) (ri_export_id intent),
            co_status = ri_status intent, co_created_height = ri_created_height intent,
            co_expires_at_height = ri_expires_at_height intent, co_duplicate = duplicate \<rparr>;
          handoff = (if duplicate then None else Some (handoff_from_intent_status (ro_ext v) (ro_lib v) (ro_identity v) intent IRelayed));
          m = api_flow (ro_ext v) tx (tip_h (api_chain n)) ''accepted'' (Some (if duplicate
            then ''duplicate export delivery; existing intent reused'' else ''roaming intent created'')) n
      in case ro_save v of
           Some (path, Inl e) \<Rightarrow> Some (Inl (INTERNAL_SERVER_ERROR, EText (''tx commit rolled back: snapshot save failed: '' @ e)), rollback_commit bak m)
         | Some (path, Inr _) \<Rightarrow> Some (Inr (out, handoff, iid), with_init (init_ready path) m)
         | None \<Rightarrow> Some (Inr (out, handoff, iid), m))"
  unfolding create_tail_def Let_def by (auto split: option.split sum.split)

lemma create_tail_cases:
  assumes "create_tail v bak tx duplicate iid intent n = (r, n')"
  obtains e m where "r = Inl e" "n' = rollback_commit bak m" "ap_node m = ap_node n" "touches_commit n m"
  | out where "r = Inr (out, if duplicate then None else Some (handoff_from_intent_status (ro_ext v) (ro_lib v) (ro_identity v) intent IRelayed), iid)"
      "co_duplicate out = duplicate" "ap_node n' = ap_node n"
proof -
  define m where "m = api_flow (ro_ext v) tx (tip_h (api_chain n)) ''accepted'' (Some (if duplicate
            then ''duplicate export delivery; existing intent reused'' else ''roaming intent created'')) n"
  have m: "ap_node m = ap_node n" "touches_commit n m" by (simp_all add: m_def touches_commit_def)
  show thesis
  proof (cases "ro_save v")
    case None
    with assms m(1) show thesis by (intro that(2)) (auto simp: create_tail_def Let_def m_def [symmetric])
  next
    case (Some save)
    obtain path q where save: "save = (path, q)" by fastforce
    show thesis
    proof (cases q)
      case (Inl e)
      with assms Some save m show thesis by (intro that(1)) (auto simp: create_tail_def Let_def m_def [symmetric])
    next
      case (Inr u)
      with assms Some save m(1) show thesis by (intro that(2)) (auto simp: create_tail_def Let_def m_def [symmetric] with_init_def)
    qed
  qed
qed

text \<open>The branches of the part under the lock.\<close>

lemma create_locked_cases:
  assumes "create_locked v tx ttl_blocks n = Some (r, n')"
  obtains e where "r = Inl e" "unchanged (swept n) n'"
  | p ttl q iid where "rp_intents p = rp_intents (sn_roaming_pool (ap_node (swept n)))"
      "rp_active_locks p = rp_active_locks (sn_roaming_pool (ap_node (swept n)))"
      "roam_register_export (ro_ext v) tx (tip_h (api_chain n)) ttl p = (Inr (iid, True), q)"
      "(case fmlookup (rp_intents q) iid of None \<Rightarrow> (Inl (INTERNAL_SERVER_ERROR, EText ''roaming intent disappeared after create''), with_pool q (with_pool p (swept n)))
        | Some i \<Rightarrow> create_tail v (take_bak (with_pool p (swept n))) tx True iid i (with_pool q (with_pool p (swept n)))) = (r, n')"
  | p ttl q iid s k where "rp_intents p = rp_intents (sn_roaming_pool (ap_node (swept n)))"
      "rp_active_locks p = rp_active_locks (sn_roaming_pool (ap_node (swept n)))"
      "roam_register_export (ro_ext v) tx (tip_h (api_chain n)) ttl p = (Inr (iid, False), q)"
      "seal_export v (take_bak (with_pool p (swept n))) tx iid (with_pool q (with_pool p (swept n))) = Some (s, k)"
      "(case s of Inl e \<Rightarrow> (Inl e, k) | Inr _ \<Rightarrow> (case fmlookup (rp_intents (sn_roaming_pool (ap_node k))) iid of
          None \<Rightarrow> (Inl (INTERNAL_SERVER_ERROR, EText ''roaming intent disappeared after create''), k)
        | Some i \<Rightarrow> create_tail v (take_bak (with_pool p (swept n))) tx False iid i k)) = (r, n')"
proof (cases "ro_now_ms v")
  case None
  with assms show thesis by (intro that(1) [of clock_err]) (auto simp: create_locked_def swept_def Let_def)
next
  case (Some now_ms)
  note run0 = assms [unfolded create_locked_def Let_def swept_def [symmetric]]
  have chain: "api_chain (swept n) = api_chain n" by (simp add: swept_def)
  obtain c p where c: "consume_readiness (ro_ext v) tx now_ms (snd (acct_view (ch_st (api_chain n)) (computed_account_id (ro_ext v) tx)))
      (tip_h (api_chain n)) (sn_roaming_pool (ap_node (swept n))) = (c, p)" by fastforce
  note keeps = consume_keeps(1,2) [OF c]
  show thesis
  proof (cases c)
    case (Inl code)
    with run0 Some c have "r = Inl (CONFLICT, EReadiness code)"
      "n' = api_flow (ro_ext v) tx (tip_h (api_chain n)) ''rejected:export_readiness'' (Some (readiness_flow_note code)) (with_pool p (swept n))"
      by (simp_all add: chain)
    with that(1) unchanged_pool [OF keeps] show thesis by blast
  next
    case (Inr u)
    obtain ttl where ttl: "(case ttl_blocks of Some t \<Rightarrow> t | None \<Rightarrow> DEFAULT_INTENT_TTL_BLOCKS) = ttl" by simp
    obtain g q where g: "roam_register_export (ro_ext v) tx (tip_h (api_chain n)) ttl p = (g, q)" by fastforce
    show thesis
    proof (cases g)
      case (Inl e)
      have "q = p" using register_old(2) g Inl by blast
      with run0 Some c Inr g Inl ttl have "r = Inl (CONFLICT, EText e)" "n' = with_pool p (with_pool p (swept n))"
        by (simp_all add: chain)
      with that(1) keeps show thesis by (simp add: unchanged_def with_pool_def)
    next
      case (Inr w)
      obtain iid dup where w: "w = (iid, dup)" by fastforce
      from run0 Some c \<open>c = Inr u\<close> g Inr w ttl have run:
        "Option.bind (if dup then Some (Inr (), with_pool q (with_pool p (swept n))) else seal_export v (take_bak (with_pool p (swept n))) tx iid (with_pool q (with_pool p (swept n))))
          (\<lambda>(s, k). case s of Inl e \<Rightarrow> Some (Inl e, k) | Inr _ \<Rightarrow> (case fmlookup (rp_intents (sn_roaming_pool (ap_node k))) iid of
             None \<Rightarrow> Some (Inl (INTERNAL_SERVER_ERROR, EText ''roaming intent disappeared after create''), k)
           | Some i \<Rightarrow> Some (create_tail v (take_bak (with_pool p (swept n))) tx dup iid i k))) = Some (r, n')"
        unfolding create_tail_Some Let_def by (simp add: chain)
      show thesis
      proof (cases dup)
        case True
        have g': "roam_register_export (ro_ext v) tx (tip_h (api_chain n)) ttl p = (Inr (iid, True), q)" using g Inr w True by simp
        from run True show thesis by (intro that(2) [OF keeps g']) (auto split: option.splits)
      next
        case False
        from run False obtain s k where sk: "seal_export v (take_bak (with_pool p (swept n))) tx iid (with_pool q (with_pool p (swept n))) = Some (s, k)"
          by (auto split: Option.bind_splits)
        have g': "roam_register_export (ro_ext v) tx (tip_h (api_chain n)) ttl p = (Inr (iid, False), q)" using g Inr w False by simp
        from run False sk show thesis by (intro that(3) [OF keeps g' sk]) (auto split: option.splits sum.splits)
      qed
    qed
  qed
qed

lemma create_all:
  assumes "create_locked v tx ttl_blocks n = Some (r, n')"
  shows "create_result v tx n r n'"
  using assms
proof (cases rule: create_locked_cases)
  case (1 e)
  then show ?thesis by (simp add: create_result_def)
next
  case (2 p ttl q iid)
  let ?n = "with_pool p (swept n)"
  have q: "q = p" using register_old(1) [OF 2(3)] .
  have same: "api_chain ?n = api_chain n" "sn_cross_shard (ap_node ?n) = sn_cross_shard (ap_node n)"
    by (simp_all add: swept_def with_pool_def)
  have pq: "with_pool q ?n = ?n" by (simp add: q with_pool_def)
  have un: "unchanged (swept n) ?n" using unchanged_pool(1) [OF 2(1,2)] .
  show ?thesis
  proof (cases "fmlookup (rp_intents q) iid")
    case None
    with 2(4) un show ?thesis by (auto simp: create_result_def pq)
  next
    case (Some i)
    with 2(4) have t: "create_tail v (take_bak ?n) tx True iid i ?n = (r, n')" by (simp add: pq)
    from t show ?thesis
    proof (cases rule: create_tail_cases)
      case (1 e m)
      have "rollback_commit (take_bak ?n) m = ?n" using 1(3,4) by (intro same_chain_undo [OF _ refl disjI1]) simp_all
      with 1 un show ?thesis by (simp add: create_result_def)
    next
      case (2 out)
      with same show ?thesis by (simp add: create_result_def)
    qed
  qed
next
  case (3 p ttl q iid s k)
  let ?n = "with_pool p (swept n)"
  have same: "api_chain ?n = api_chain n" by (simp add: swept_def)
  have un: "unchanged (swept n) ?n" using unchanged_pool(1) [OF 3(1,2)] .
  have tc: "touches_commit ?n (with_pool q ?n)" "api_chain (with_pool q ?n) = api_chain ?n" by (simp_all add: touches_pool)
  from 3(4) tc show ?thesis
  proof (cases rule: seal_export_cases)
    case (1 e)
    with 3(5) un show ?thesis by (auto simp: create_result_def)
  next
    case (2 c)
    have marked: "sn_roaming_pool (ap_node k) = mark_exported iid q" using 2(5) by simp
    obtain i where i: "fmlookup (rp_intents (sn_roaming_pool (ap_node k))) iid = Some i" "ri_status i = IExported"
        "ri_source i = computed_account_id (ro_ext v) tx" "ri_export_id i = iid"
        "body tx = Export (ri_to i) (ri_target_domain i) (ri_amount i) (ri_fee i)"
        "fmlookup (rp_active_locks (sn_roaming_pool (ap_node k))) (ri_source i) = Some iid"
      by (rule create_new [OF 3(3) marked])
    with 3(5) 2(1) have t: "create_tail v (take_bak ?n) tx False iid i k = (r, n')" by simp
    from t show ?thesis
    proof (cases rule: create_tail_cases)
      case (1 e m)
      have "touches_commit ?n m" using 1(4) 2(4) by (simp add: touches_commit_def)
      moreover have "api_chain m = c" using 1(3) 2(3) by simp
      ultimately have "rollback_commit (take_bak ?n) m = ?n" using 2(2) by (intro same_chain_undo) auto
      with 1 un show ?thesis by (simp add: create_result_def)
    next
      case (2 out)
      have e: "export_id (ro_ext v) tx = Some iid" using 3(3) by (rule register_new)
      have c: "seal (ro_ext v) (ro_codecs v) (ro_clock v) [tx] (api_chain n) = Done c" "api_chain n' = c"
        using \<open>seal _ _ _ _ (api_chain ?n) = Done c\<close> same \<open>api_chain k = c\<close> 2(3) by simp_all
      have "txs (last (blocks c)) = [tx]" using same_parent_blocks(3) [OF c(1) [unfolded seal_def] c(1) [unfolded seal_def]] by simp
      moreover have "unat (tip_h c) = Suc (unat (tip_h (api_chain n)))" using sealed_height [OF c(1)] by (simp add: tip_h_def)
      ultimately show ?thesis using 2 e i c(2) by (simp add: create_result_def)
    qed
  qed
qed

text \<open>From the creation at one node to the IMPORT at the other.\<close>

lemma create_then_register:
  assumes "create_locked v tx ttl_blocks n = Some (Inr (out, Some h, iid), n')" "body tx = Export dst target_domain amount fee"
    and "hex_laws (ro_lib v)" "\<And>m. sig_correct (ro_ext v) (local_hello_signing_key (ro_identity v)) m"
    and "ro_lib w = ro_lib v" "ro_ext w = ro_ext v" "id_network_id (ro_identity w) = id_network_id (ro_identity v)"
    and "trusts_node (ro_ext v) (ro_identity v) c" "handoff_welcome iid dst target_domain c" "ro_save w = None \<or> ro_save w = Some (path, Inr ())"
    and "imports_export iid dst target_domain amount imp"
  shows "\<exists>reg c'. v1_export_handoff_register w h c = Some (Inr reg, c') \<and> rg_registered reg \<and> rg_amount reg = amount \<and>
    enforce_import_provenance_prefilter imp (ch_st (api_chain (sy_api (cl_sync c')))) (sn_cross_shard (ap_node (sy_api (cl_sync c')))) = Inr ()"
proof -
  obtain i where i: "ri_export_id i = iid" "body tx = Export (ri_to i) (ri_target_domain i) (ri_amount i) (ri_fee i)"
      "h = handoff_from_intent_status (ro_ext v) (ro_lib v) (ro_identity v) i IRelayed"
    using create_all [OF assms(1)] by (auto simp: create_result_def)
  have f: "ri_to i = dst" "ri_target_domain i = target_domain" "ri_amount i = amount" using i(2) assms(2) by simp_all
  have "\<exists>out c'. v1_export_handoff_register w (handoff_from_intent_status (ro_ext w) (ro_lib w) (ro_identity v) i IRelayed) c = Some (Inr out, c') \<and>
    rg_registered out \<and> rg_amount out = ri_amount i \<and>
    fmlookup (sn_cross_shard (ap_node (sy_api (cl_sync c')))) (ri_export_id i) =
      Some (registered_fact (ro_identity v) i (tip_h (api_chain (sy_api (cl_sync c))))) \<and>
    enforce_import_provenance_prefilter imp (ch_st (api_chain (sy_api (cl_sync c')))) (sn_cross_shard (ap_node (sy_api (cl_sync c')))) = Inr ()"
    by (rule registered_then_imported [where path = path]) (use assms i f in simp_all)
  then show ?thesis using assms(5,6) i(3) f(3) by auto
qed

text \<open>From a hello to the IMPORT of an export nobody made: the intent is whatever the sender of the hello writes.\<close>

lemma hello_then_register:
  assumes "process_incoming_peer_hello u hello now hint prov bridge cluster_id n = (Inr class, m)"
    and "nn_pubkey (nh_node hello) = x_pubkey (ro_ext w) (key_in_hello hello)" "nh_network_id hello = id_network_id (ro_identity w)"
    and "hex_laws (ro_lib w)" "\<And>msg. sig_correct (ro_ext w) (key_in_hello hello) msg"
    and "handoff_welcome (ri_export_id intent) (ri_to intent) (ri_target_domain intent) (hn_cluster m)"
    and "ro_save w = None \<or> ro_save w = Some (path, Inr ())"
    and "imports_export (ri_export_id intent) (ri_to intent) (ri_target_domain intent) (ri_amount intent) imp"
  shows "\<exists>reg c'. v1_export_handoff_register w (handoff_from_intent_status (ro_ext w) (ro_lib w) (identity_in_hello hello) intent IRelayed) (hn_cluster m) =
      Some (Inr reg, c') \<and> rg_registered reg \<and> rg_amount reg = ri_amount intent \<and>
    enforce_import_provenance_prefilter imp (ch_st (api_chain (sy_api (cl_sync c')))) (sn_cross_shard (ap_node (sy_api (cl_sync c')))) = Inr ()"
proof -
  have k: "\<And>msg. sig_correct (ro_ext w) (local_hello_signing_key (identity_in_hello hello)) msg" using assms(5) by (simp add: hello_key)
  have net: "id_network_id (identity_in_hello hello) = id_network_id (ro_identity w)" using assms(3) by (simp add: identity_in_hello_def)
  show ?thesis
    using registered_then_imported [OF assms(4) k hello_trusts [OF assms(1,2)] net assms(6,7,8)] by blast
qed

section \<open>An IMPORT that arrives before the relay ends\<close>

lemma late_relay:
  assumes "user_gates n = Inr ()" "parse_id (ro_lib v) id_text = Some key"
    and "fmlookup (rp_intents (sn_roaming_pool (ap_node (swept n)))) key = Some i" "ri_status i = IExported"
    and "fmlookup (rp_export_to_intent (sn_roaming_pool (ap_node (swept n)))) (ri_export_id i) = Some key"
    and "ro_save v = None" "ro_save2 v = None"
    and "relay_gets_through v (handoff_from_intent_status (ro_ext v) (ro_lib v) (ro_identity v) i IRelayed) n"
    and "\<And>m. ro_others v m = with_pool (mark_import_by_export (ri_export_id i) (sn_roaming_pool (ap_node m))) m"
  shows "\<exists>out n'. v1_roaming_intent_finalize v id_text n = (Inr out, n') \<and> fi_status out = IRelayed \<and>
    fmlookup (rp_active_locks (sn_roaming_pool (ap_node n'))) (ri_source i) = Some key"
proof -
  let ?p = "sn_roaming_pool (ap_node (swept n))"
  let ?h = "handoff_from_intent_status (ro_ext v) (ro_lib v) (ro_identity v) i IRelayed"
  define m0 where "m0 = api_trace (tip_h (api_chain n)) ''finalized:roaming_intent'' (IdBytes (ri_export_id i)) (Some (IdBytes (ri_export_id i)))
      (Some (IdBytes key)) (snd (finalize_plan IExported)) (swept n)"
  have m0: "sn_roaming_pool (ap_node m0) = ?p" "ap_gates m0 = ap_gates n" by (simp_all add: m0_def swept_def)
  have "relay_gets_through v ?h m0" using assms(8) gets_through_gates [OF m0(2)] by simp
  then obtain m where m: "relay_handoff (ro_world v) (id_network_id (ro_identity v)) (ro_genesis v) (ro_others v) ?h m0 = (Inr (), m)"
      "sn_roaming_pool (ap_node m) = set_status key IImported None ?p"
    using relay_runs [of v ?h m0] assms(5,9) m0(1) by (auto simp: mark_import_by_export_def)
  define j where "j = i\<lparr>ri_status := IImported\<rparr>"
  have j: "fmlookup (rp_intents (sn_roaming_pool (ap_node m))) key = Some j"
    using assms(3) m(2) by (simp add: set_status_intents j_def)
  obtain n' where ok: "mark_relay_ok (ro_save2 v) key (ri_export_id i) m = (Inr IRelayed, n')"
      "sn_roaming_pool (ap_node n') = mark_relayed key (sn_roaming_pool (ap_node m))"
    using mark_relay_ok_effect [OF j, of "ro_save2 v" "ri_export_id i"] assms(7) by (metis prod.exhaust)
  have lock: "fmlookup (rp_active_locks (sn_roaming_pool (ap_node n'))) (ri_source i) = Some key"
    using set_status_locks [OF j, of IRelayed None "ri_source i"] ok(2) by (simp add: mark_relayed_def j_def)
  have run: "relay_and_mark v ?h key (ri_export_id i) m0 = (Inr (Inr IRelayed), n')"
    by (simp add: relay_and_mark_def m(1) ok(1))
  have "\<exists>out. v1_roaming_intent_finalize v id_text n = (Inr out, n') \<and> fi_status out = IRelayed"
    unfolding v1_roaming_intent_finalize_def Let_def swept_def [symmetric] using assms(1-4,6) run by (simp add: m0_def)
  with lock show ?thesis by blast
qed

end
