(* ===== verification/Pwm_Backfill.thy ===== *)
theory Pwm_Backfill
  imports Pwm_Relay "HOL-Library.List_Lexorder" "HOL-Library.Char_ord"
begin

unbundle bit_operations_syntax

text \<open>
  The facts a node hands out and the import backfill an operator starts
  (src/crates/pwmd/src/api/handlers_backfill.rs): pick a peer, ask it for the exports to this shard, register each and
  submit an IMPORT for it, signed by a validator of this node; and the order of peers by score
  (\<open>score_sort\<close> of src/crates/pwmd/src/transport/score.rs).

  The parser of URLs is a crate: it is the field \<open>bv_url\<close>. What peers answer is in the environment too. Each
  submission has its own \<open>ApiEnv\<close>. Log lines, and values in Rust's debug format in texts, are left out.
\<close>

section \<open>GET /v1/cross-shard/facts\<close>

definition FACTS_DEFAULT_LIMIT :: nat where "FACTS_DEFAULT_LIMIT = 256"
definition BACKFILL_DEFAULT_LIMIT :: nat where "BACKFILL_DEFAULT_LIMIT = 256"

record CrossShardFactOut =
  xf_export_id :: string
  xf_source_domain_hi :: u8
  xf_target_domain_hi :: u8
  xf_amount :: u128
  xf_status :: CrossShardStatus
  xf_first_height :: u64
  xf_last_height :: u64
  xf_source :: "string option"
  xf_to :: string
  xf_intent_id :: "string option"

record CrossShardFactsOut =
  xs_target_domain_hi :: u8
  xs_from_height :: u64
  xs_limit :: nat
  xs_total :: nat
  xs_facts :: "CrossShardFactOut list"

definition fact_out :: "addrlib \<Rightarrow> CrossShardFact \<Rightarrow> CrossShardFactOut" where
  "fact_out lib f = \<lparr> xf_export_id = hex32 lib (cf_export_id f), xf_source_domain_hi = cf_source_domain_hi f,
     xf_target_domain_hi = cf_target_domain_hi f, xf_amount = cf_amount f, xf_status = cf_status f, xf_first_height = cf_first_height f,
     xf_last_height = cf_last_height f, xf_source = map_option (hex32 lib) (cf_source f), xf_to = hex32 lib (cf_to f),
     xf_intent_id = map_option (hex32 lib) (cf_intent_id f) \<rparr>"

definition clamp_limit :: "nat option \<Rightarrow> nat \<Rightarrow> nat" where
  "clamp_limit limit dflt = min (max (case limit of Some l \<Rightarrow> l | None \<Rightarrow> dflt) 1) 4096"

definition v1_cross_shard_facts :: "addrlib \<Rightarrow> u8 \<Rightarrow> u64 option \<Rightarrow> nat option \<Rightarrow> ApiNode \<Rightarrow> api_err + CrossShardFactsOut" where
  "v1_cross_shard_facts lib target_domain_hi from_height limit n = (case ensure_ready (ap_gates n) of
     Inl e \<Rightarrow> Inl e
   | Inr _ \<Rightarrow>
       let from_h = (case from_height of Some h \<Rightarrow> h | None \<Rightarrow> 0); limit = clamp_limit limit FACTS_DEFAULT_LIMIT;
           facts = map (fact_out lib) (facts_for_target target_domain_hi from_h limit (sn_cross_shard (ap_node n)))
       in Inr \<lparr> xs_target_domain_hi = target_domain_hi, xs_from_height = from_h, xs_limit = limit, xs_total = length facts, xs_facts = facts \<rparr>)"

section \<open>Peers\<close>

datatype UrlHost = HostIp string bool | HostDomain string

record UrlParts =
  up_scheme :: string
  up_path :: string
  up_query :: "string option"
  up_fragment :: "string option"
  up_host :: "UrlHost option"
  up_port :: "u16 option"

definition bad_peer_base :: "string \<Rightarrow> api_err + 'a" where
  "bad_peer_base msg = Inl (BAD_REQUEST, EText msg)"

text \<open>The text of the host and whether it is loopback.\<close>

definition peer_base_ip :: "UrlParts \<Rightarrow> api_err + string \<times> bool" where
  "peer_base_ip u = (case up_host u of
     Some (HostIp ip loopback) \<Rightarrow> Inr (ip, loopback)
   | Some (HostDomain host) \<Rightarrow>
       if eq_ignore_ascii_case host ''localhost'' then bad_peer_base ''peer_base loopback host is not allowed''
       else bad_peer_base ''peer_base host must be a configured IP relay seed''
   | None \<Rightarrow> bad_peer_base ''peer_base must include a host'')"

definition peer_base_from_input :: "(string \<Rightarrow> string + UrlParts) \<Rightarrow> string \<Rightarrow> SockAddr list \<Rightarrow> api_err + string" where
  "peer_base_from_input url_parse raw allowed = (case url_parse (trim raw) of
     Inl e \<Rightarrow> bad_peer_base (''invalid peer_base URL: '' @ e)
   | Inr u \<Rightarrow>
       if up_scheme u \<noteq> ''http'' \<and> up_scheme u \<noteq> ''https'' then bad_peer_base ''peer_base scheme must be http or https''
       else if up_path u \<noteq> ''/'' \<or> up_query u \<noteq> None \<or> up_fragment u \<noteq> None
       then bad_peer_base ''peer_base must be a bare peer origin URL''
       else (case peer_base_ip u of
         Inl e \<Rightarrow> Inl e
       | Inr (ip, loopback) \<Rightarrow>
           if loopback then bad_peer_base ''peer_base loopback host is not allowed''
           else (case up_port u of
             None \<Rightarrow> bad_peer_base ''peer_base must include a port''
           | Some port \<Rightarrow>
               let addr = \<lparr> sa_host = ip, sa_port = port \<rparr>
               in if addr \<notin> set allowed then bad_peer_base ''peer_base is not in the configured relay peer set''
                  else Inr (up_scheme u @ ''://'' @ sock_text addr))))"

definition backfill_peers :: "(string \<Rightarrow> string + UrlParts) \<Rightarrow> string option \<Rightarrow> RelayCfg \<Rightarrow> api_err + string list" where
  "backfill_peers url_parse peer_base cfg =
     (let bases = relay_http_bases cfg; tidy = (\<lambda>ps. remdups_adj (sort ps))
      in case peer_base of
           Some base \<Rightarrow> (case peer_base_from_input url_parse base bases of Inl e \<Rightarrow> Inl e | Inr p \<Rightarrow> Inr (tidy [p]))
         | None \<Rightarrow> Inr (tidy (map (\<lambda>a. ''http://'' @ sock_text a) bases)))"

definition score_sort :: "(string, PeerSyncScore) fmap \<Rightarrow> string list \<Rightarrow> string list" where
  "score_sort scores peer_ids = sort_key (\<lambda>p. - score_get p scores) (sort peer_ids)"

record PeerStatusOut =
  po_ready :: bool
  po_network_id :: "string option"
  po_effective_genesis_hash :: "string option"
  po_genesis_guard :: "string option"

text \<open>What a peer says of itself.\<close>

definition trust_peer_status :: "PeerStatusOut HttpAnswer \<Rightarrow> string \<Rightarrow> string \<Rightarrow> string option \<Rightarrow> string + unit" where
  "trust_peer_status ans base expected_network_id expected_genesis_hash = (case ans of
     NoAnswer e \<Rightarrow> Inl (''peer status unavailable '' @ base @ '': '' @ e)
   | HttpFailed code snip \<Rightarrow> Inl (''peer status HTTP '' @ code @ '' from '' @ base)
   | HttpOk (Inl e) \<Rightarrow> Inl (''peer status decode failed '' @ base @ '': '' @ e)
   | HttpOk (Inr s) \<Rightarrow>
       if \<not> po_ready s then Inl (''peer '' @ base @ '' not ready'')
       else if (case po_genesis_guard s of Some g \<Rightarrow> g | None \<Rightarrow> ''ok'') \<noteq> ''ok'' then Inl (''peer '' @ base @ '' genesis_guard blocked'')
       else if po_network_id s \<noteq> Some expected_network_id then Inl (''peer '' @ base @ '' network mismatch '' @ expected_network_id)
       else if expected_genesis_hash \<noteq> None \<and> po_effective_genesis_hash s \<noteq> expected_genesis_hash
       then Inl (''peer '' @ base @ '' genesis mismatch '' @ the expected_genesis_hash)
       else Inr ())"

definition fetch_peer_facts :: "CrossShardFactOut list HttpAnswer \<Rightarrow> string \<Rightarrow> string + CrossShardFactOut list" where
  "fetch_peer_facts ans base = (case ans of
     NoAnswer e \<Rightarrow> Inl (''peer facts fetch failed '' @ base @ '': '' @ e)
   | HttpFailed code snip \<Rightarrow> Inl (''peer facts fetch HTTP '' @ code @ '' from '' @ base)
   | HttpOk (Inl e) \<Rightarrow> Inl (''peer facts decode failed '' @ base @ '': '' @ e)
   | HttpOk (Inr facts) \<Rightarrow> Inr facts)"

section \<open>The signer\<close>

record BackfillSigner =
  bs_sk :: bytes32
  bs_sender :: AccountId
  bs_der_idx :: u32
  bs_domain :: u16

fun find_index_from :: "nat \<Rightarrow> ('a \<Rightarrow> bool) \<Rightarrow> 'a list \<Rightarrow> (nat \<times> 'a) option" where
  "find_index_from i P [] = None"
| "find_index_from i P (x # xs) = (if P x then Some (i, x) else find_index_from (Suc i) P xs)"

definition pick_backfill_signer :: "u8 \<Rightarrow> Chain \<Rightarrow> string + BackfillSigner" where
  "pick_backfill_signer local_hi c =
     (let rows = gen_accounts (ch_cfg c);
          pick = (case find_index_from 0 (\<lambda>r. hi_byte (domain_of_account_id (gr_acct r)) = local_hi) rows of
            Some p \<Rightarrow> Some p | None \<Rightarrow> (case rows of [] \<Rightarrow> None | r # _ \<Rightarrow> Some (0, r)))
      in case pick of
           None \<Rightarrow> Inl ''backfill signer account missing''
         | Some (i, row) \<Rightarrow>
             if val_sks c = [] then Inl ''backfill signer key missing''
             else Inr \<lparr> bs_sk = (if i < length (val_sks c) then val_sks c ! i else hd (val_sks c)), bs_sender = gr_acct row,
               bs_der_idx = gr_der_idx row, bs_domain = domain_of_account_id (gr_acct row) \<rparr>)"

definition mk_import_tx :: "extlib \<Rightarrow> BackfillSigner \<Rightarrow> bytes32 \<Rightarrow> AccountId \<Rightarrow> u128 \<Rightarrow> State \<Rightarrow> string + SignedTx" where
  "mk_import_tx ext s eid dst amount st = (case fmlookup (accounts st) (bs_sender s) of
     None \<Rightarrow> Inl ''backfill signer state account missing''
   | Some acc \<Rightarrow> Inr (set_import_provenance_signed ext (bs_sk s)
       (Some \<lparr> pv_to = dst, pv_target_domain = bs_domain s, pv_amount = amount \<rparr>)
       (sign_body ext (bs_sk s) (bs_domain s) (bs_der_idx s) (nonce acc) (Import dst amount eid))))"

section \<open>The facts of a peer\<close>

text \<open>A line of the report: a text, or what POST /v1/tx answered with the rest of the line.\<close>

datatype BackfillDetail = BfText string | BfErr ErrBody string

record BackfillOut =
  bf_peer :: "string option"
  bf_discovered :: u64
  bf_imported :: u64
  bf_skipped_existing :: u64
  bf_rejected :: u64
  bf_untrusted :: u64
  bf_details :: "BackfillDetail list"

definition backfill_out_new :: BackfillOut where
  "backfill_out_new = \<lparr> bf_peer = None, bf_discovered = 0, bf_imported = 0, bf_skipped_existing = 0, bf_rejected = 0, bf_untrusted = 0, bf_details = [] \<rparr>"

definition bf_reject :: "BackfillDetail list \<Rightarrow> BackfillOut \<Rightarrow> BackfillOut" where
  "bf_reject ds out = out\<lparr>bf_rejected := sat_add (bf_rejected out) 1, bf_details := bf_details out @ ds\<rparr>"

record BackfillEnv =
  bv_ext :: extlib
  bv_codecs :: codecs
  bv_lib :: addrlib
  bv_identity :: RuntimeIdentity
  bv_genesis :: "string option"
  bv_op_token :: "string option"
  bv_cfg :: RelayCfg
  bv_client_err :: "string option"
  bv_url :: "string \<Rightarrow> string + UrlParts"
  bv_status :: "string \<Rightarrow> PeerStatusOut HttpAnswer"
  bv_facts :: "string \<Rightarrow> u8 \<Rightarrow> u64 \<Rightarrow> nat \<Rightarrow> CrossShardFactOut list HttpAnswer"
  bv_env :: "nat \<Rightarrow> ApiEnv"

fun select_peer_facts :: "BackfillEnv \<Rightarrow> u8 \<Rightarrow> u64 \<Rightarrow> nat \<Rightarrow> string list \<Rightarrow> BackfillOut \<Rightarrow> (string \<times> CrossShardFactOut list) option \<times> BackfillOut" where
  "select_peer_facts v hi from_h limit [] out = (None, out)"
| "select_peer_facts v hi from_h limit (base # bases) out =
     (case trust_peer_status (bv_status v base) base (id_network_id (bv_identity v)) (bv_genesis v) of
        Inl e \<Rightarrow> select_peer_facts v hi from_h limit bases
          (out\<lparr>bf_untrusted := sat_add (bf_untrusted out) 1, bf_details := bf_details out @ [BfText e]\<rparr>)
      | Inr _ \<Rightarrow> (case fetch_peer_facts (bv_facts v base hi from_h limit) base of
          Inl e \<Rightarrow> select_peer_facts v hi from_h limit bases (bf_reject [BfText e] out)
        | Inr rows \<Rightarrow> (Some (base, rows), out)))"

text \<open>The bodies with status 409 are texts and the refusals of a preflight, which name no import.\<close>

definition says_consumed :: "api_err \<Rightarrow> bool" where
  "says_consumed e = (case e of
     (CONFLICT, EText msg) \<Rightarrow> split_once DUPLICATE_IMPORT_ERR_TEXT msg \<noteq> None \<or> split_once ''already consumed'' msg \<noteq> None
   | _ \<Rightarrow> False)"

definition record_backfill_fact :: "CrossShardFactOut \<Rightarrow> bytes32 \<Rightarrow> AccountId \<Rightarrow> AccountId \<Rightarrow> ApiNode \<Rightarrow> ApiNode option" where
  "record_backfill_fact f eid source dst n =
     map_option (\<lambda>l. n\<lparr>ap_node := (ap_node n)\<lparr>sn_cross_shard := l\<rparr>\<rparr>)
       (record_handoff eid (xf_source_domain_hi f) source dst (push_bit 8 (ucast (xf_target_domain_hi f)) OR 1) (xf_amount f)
          (tip_h (api_chain n)) None (sn_cross_shard (ap_node n)))"

definition submit_import_tx :: "BackfillEnv \<Rightarrow> ApiEnv \<Rightarrow> BackfillSigner \<Rightarrow> CrossShardFactOut \<Rightarrow> bytes32 \<Rightarrow> AccountId \<Rightarrow> BackfillOut \<times> ApiNode
    \<Rightarrow> (BackfillOut \<times> ApiNode) option" where
  "submit_import_tx v env s f eid dst = (\<lambda>(out, n). case mk_import_tx (bv_ext v) s eid dst (xf_amount f) (ch_st (api_chain n)) of
     Inl e \<Rightarrow> Some (bf_reject [BfText e] out, n)
   | Inr tx \<Rightarrow> map_option (\<lambda>(r, n). case r of
         Inr _ \<Rightarrow> (out\<lparr>bf_imported := sat_add (bf_imported out) 1\<rparr>, n)
       | Inl e \<Rightarrow>
           if says_consumed e then (out\<lparr>bf_skipped_existing := sat_add (bf_skipped_existing out) 1\<rparr>, n)
           else (bf_reject [BfErr (snd e) (''; export_id='' @ xf_export_id f @ ''; tx_domain=0x'' @ hex_upper 4 (unat (bs_domain s)) @
             ''; target_hi=0x'' @ hex_upper 2 (unat (xf_target_domain_hi f)) @ ''; to='' @ xf_to f)] out, n))
       (v1_tx (bv_ext v) (bv_codecs v) env tx n))"

fun import_backfill_facts :: "BackfillEnv \<Rightarrow> BackfillSigner \<Rightarrow> u8 \<Rightarrow> nat \<Rightarrow> CrossShardFactOut list \<Rightarrow> BackfillOut \<times> ApiNode
    \<Rightarrow> (BackfillOut \<times> ApiNode) option" where
  "import_backfill_facts v s local_hi k [] (out, n) = Some (out, n)"
| "import_backfill_facts v s local_hi k (f # fs) (out, n) =
     (case (parse_id (bv_lib v) (xf_export_id f), parse_id (bv_lib v) (xf_to f),
            Option.bind (xf_source f) (parse_id (bv_lib v))) of
        (Some eid, Some dst, Some source) \<Rightarrow>
          if xf_target_domain_hi f \<noteq> local_hi then import_backfill_facts v s local_hi (Suc k) fs (bf_reject [] out, n)
          else Option.bind (record_backfill_fact f eid source dst n) (\<lambda>n.
            Option.bind (submit_import_tx v (bv_env v k) s f eid dst (out, n)) (import_backfill_facts v s local_hi (Suc k) fs))
      | _ \<Rightarrow> import_backfill_facts v s local_hi (Suc k) fs (bf_reject [] out, n))"

section \<open>POST /v1/cross-shard/backfill\<close>

definition v1_cross_shard_backfill :: "BackfillEnv \<Rightarrow> (string, PeerSyncScore) fmap \<Rightarrow> bool option \<Rightarrow> string option \<Rightarrow> u64 option \<Rightarrow> nat option
    \<Rightarrow> string option \<Rightarrow> ApiNode \<Rightarrow> ((api_err + BackfillOut) \<times> ApiNode) option" where
  "v1_cross_shard_backfill v scores remote_loopback header from_height limit peer_base n =
     (case ensure_operator_auth (bv_op_token v) remote_loopback header of
        Inl e \<Rightarrow> Some (Inl e, n)
      | Inr _ \<Rightarrow> (case ensure_user_tx_allowed (ap_gates n) of
          Inl e \<Rightarrow> Some (Inl e, n)
        | Inr _ \<Rightarrow> (case ensure_bridge_federation_ok (ap_gates n) of
            Inl e \<Rightarrow> Some (Inl e, n)
          | Inr _ \<Rightarrow> (case pick_backfill_signer (id_cluster_domain_hi (bv_identity v)) (api_chain n) of
              Inl e \<Rightarrow> Some (Inl (INTERNAL_SERVER_ERROR, EText (''backfill signer selection failed: '' @ e)), n)
            | Inr s \<Rightarrow> (case backfill_peers (bv_url v) peer_base (bv_cfg v) of
                Inl e \<Rightarrow> Some (Inl e, n)
              | Inr [] \<Rightarrow> Some (Inr backfill_out_new, n)
              | Inr peers \<Rightarrow> (case bv_client_err v of
                  Some e \<Rightarrow> Some (Inl (INTERNAL_SERVER_ERROR, EText (''backfill client init failed: '' @ e)), n)
                | None \<Rightarrow>
                    let local_hi = hi_byte (bs_domain s); from_h = (case from_height of Some h \<Rightarrow> h | None \<Rightarrow> 0)
                    in (case select_peer_facts v local_hi from_h (clamp_limit limit BACKFILL_DEFAULT_LIMIT) (score_sort scores peers) backfill_out_new of
                         (None, out) \<Rightarrow> Some (Inr out, n)
                       | (Some (peer, facts), out) \<Rightarrow>
                           map_option (\<lambda>(out, n). (Inr out, n)) (import_backfill_facts v s local_hi 0 facts
                             (out\<lparr>bf_peer := Some peer, bf_discovered := of_nat (length facts)\<rparr>, n)))))))))"

end
