(* ===== verification/Pwm_Backfill_Facts.thy ===== *)
theory Pwm_Backfill_Facts
  imports Pwm_Backfill Pwm_Roam_Facts
begin

unbundle bit_operations_syntax

text \<open>What the backfill writes over: the row of a hand-off another node signed.\<close>

lemma backfill_domain: "dom_hi (push_bit 8 (ucast (hi :: u8)) OR 1) = hi"
proof -
  have "bit (dom_hi (push_bit 8 (ucast hi) OR 1)) k = bit hi k" if "k < 8" for k
    using that by (auto simp: dom_hi_def bit_simps bit_1_iff)
  then show ?thesis by (intro bit_word_eqI) simp
qed

lemma import_made:
  assumes "mk_import_tx ext s eid dst amount st = Inr tx"
  shows "body tx = Import dst amount eid" "import_fee tx = Some MIN_IMPORT_FEE_UNITS" "domain_code tx = bs_domain s"
    "import_provenance tx = Some \<lparr> pv_to = dst, pv_target_domain = bs_domain s, pv_amount = amount \<rparr>"
  using assms by (auto simp: mk_import_tx_def set_import_provenance_signed_def sign_body_def resign_def split: option.splits)

lemma backfill_replaces:
  assumes "ledger_ok (sn_cross_shard (ap_node n))" "fmlookup (sn_cross_shard (ap_node n)) eid = Some old" "cf_status old \<noteq> FImported"
    and "cf_amount old \<noteq> xf_amount f"
    and "mk_import_tx ext s eid dst (xf_amount f) st = Inr tx" "hi_byte (bs_domain s) = xf_target_domain_hi f"
    and "eid |\<notin>| imported_set (ch_st (api_chain n))" "eid |\<notin>| fmdom (exported_registry (ch_st (api_chain n)))"
  shows "\<exists>n' new. record_backfill_fact f eid source dst n = Some n' \<and> fmlookup (sn_cross_shard (ap_node n')) eid = Some new \<and>
    cf_amount new = xf_amount f \<and> cf_to new = dst \<and> cf_source new = Some source \<and> cf_origin new = OLocal \<and> cf_intent_id new = cf_intent_id old \<and>
    enforce_import_provenance_prefilter tx (ch_st (api_chain n)) (sn_cross_shard (ap_node n)) \<noteq> Inr () \<and>
    enforce_import_provenance_prefilter tx (ch_st (api_chain n')) (sn_cross_shard (ap_node n')) = Inr ()"
proof -
  let ?l = "sn_cross_shard (ap_node n)" and ?h = "tip_h (api_chain n)"
  let ?cf = "\<lparr> cf_export_id = eid, cf_source_domain_hi = xf_source_domain_hi f, cf_target_domain_hi = xf_target_domain_hi f, cf_amount = xf_amount f,
    cf_status = FRegistered, cf_first_height = ?h, cf_last_height = ?h, cf_source = Some source, cf_to = dst, cf_intent_id = None, cf_origin = OLocal \<rparr>"
  let ?new = "merged_fact old ?cf"
  have "eid |\<in>| fmdom ?l" using assms(2) by (rule fmdomI)
  then have "fmdom (fmupd eid ?new ?l) = fmdom ?l" by auto
  then have "evict (fmupd eid ?new ?l) = Some (fmupd eid ?new ?l)" using assms(1) by (intro evict_small) (simp add: ledger_ok_def)
  moreover have "status_rank (cf_status old) \<le> 2" using assms(3) by (cases "cf_status old") simp_all
  ultimately have run: "record_backfill_fact f eid source dst n = Some (n\<lparr>ap_node := (ap_node n)\<lparr>sn_cross_shard := fmupd eid ?new ?l\<rparr>\<rparr>)"
    using assms(2) by (simp add: record_backfill_fact_def record_handoff_def backfill_domain upsert_def Let_def not_less)
  have unknown: "fmlookup (exported_registry (ch_st (api_chain n))) eid = None" using assms(8) by (simp add: fmdom_notD)
  note tx = import_made [OF assms(5)]
  have "enforce_import_provenance_prefilter tx (ch_st (api_chain n)) ?l \<noteq> Inr ()"
    using assms(2,4,7) unknown by (simp add: enforce_import_provenance_prefilter_def tx)
  moreover have "enforce_import_provenance_prefilter tx (ch_st (api_chain n)) (fmupd eid ?new ?l) = Inr ()"
    using assms(6,7) unknown by (simp add: enforce_import_provenance_prefilter_def tx merged_fact_def)
  ultimately show ?thesis using run by (auto simp: merged_fact_def)
qed

end
