(* ===== verification/Pwm_Federation.thy ===== *)
theory Pwm_Federation
  imports Pwm_Hello "HOL-Library.List_Lexorder" "HOL-Library.Char_ord"
begin

text \<open>
  The directory of shard heights a node keeps (src/crates/pwmd/src/federation.rs): rows from hellos, heartbeats,
  gossip and the own status, their merge, their expiry, the rows handed on to peers and the view over HTTP.

  The table is a hash map; a function whose result depends on the order in which the map hands out its rows gets
  them as a list. Counts of rows and bytes are natural numbers.
\<close>

section \<open>Rows\<close>

definition FEDERATION_TTL_SEC :: u64 where
  "FEDERATION_TTL_SEC = 60"

definition FED_TTL_MS :: u64 where
  "FED_TTL_MS = FEDERATION_TTL_SEC * 1000"

definition GOSSIP_WIRE_MAX_ROWS :: nat where "GOSSIP_WIRE_MAX_ROWS = 32"
definition GOSSIP_WIRE_MAX_BYTES :: nat where "GOSSIP_WIRE_MAX_BYTES = 4096"
definition GOSSIP_INBOUND_MAX_ROWS :: nat where "GOSSIP_INBOUND_MAX_ROWS = 64"
definition GOSSIP_SHARD_ID_MAX :: nat where "GOSSIP_SHARD_ID_MAX = 128"
definition GOSSIP_NODE_ID_MAX :: nat where "GOSSIP_NODE_ID_MAX = 256"

datatype FedRowSource = FedHello | FedHeartbeat | FedStatus | FedGossip

fun fed_source_json :: "FedRowSource \<Rightarrow> string" where
  "fed_source_json FedHello = ''hello''"
| "fed_source_json FedHeartbeat = ''heartbeat''"
| "fed_source_json FedStatus = ''status''"
| "fed_source_json FedGossip = ''gossip''"

record FedShardRow =
  fr_shard_id :: string
  fr_latest_height :: u64
  fr_last_seen_unix_ms :: u64
  fr_source :: FedRowSource
  fr_source_node_id :: string

record FedGossipWireRow =
  fg_shard_id :: string
  fg_latest_height :: u64
  fg_last_seen_unix_ms :: u64
  fg_source_node_id :: string

type_synonym FederationTable = "(string, FedShardRow) fmap"

definition fed_values :: "FederationTable \<Rightarrow> FedShardRow list" where
  "fed_values t = map (\<lambda>k. the (fmlookup t k)) (fm_keys t)"

section \<open>The table\<close>

definition fed_fresh :: "u64 \<Rightarrow> FedShardRow \<Rightarrow> bool" where
  "fed_fresh now_ms r \<longleftrightarrow> now_ms < sat_add (fr_last_seen_unix_ms r) FED_TTL_MS"

definition wire_of_row :: "FedShardRow \<Rightarrow> FedGossipWireRow" where
  "wire_of_row r = \<lparr> fg_shard_id = fr_shard_id r, fg_latest_height = fr_latest_height r,
     fg_last_seen_unix_ms = fr_last_seen_unix_ms r, fg_source_node_id = fr_source_node_id r \<rparr>"

fun pack_rows :: "nat \<Rightarrow> FedGossipWireRow list \<Rightarrow> FedShardRow list \<Rightarrow> FedGossipWireRow list" where
  "pack_rows approx out [] = out"
| "pack_rows approx out (r # rs) =
     (let approx = approx + (length (fr_shard_id r) + length (fr_source_node_id r) + 48)
      in if GOSSIP_WIRE_MAX_BYTES < approx \<and> out \<noteq> [] then out else pack_rows approx (out @ [wire_of_row r]) rs)"

text \<open>\<open>rows\<close> are the rows in the order of the map; the sort is stable, the latest first.\<close>

definition gossip_wire_rows :: "u64 \<Rightarrow> FedShardRow list \<Rightarrow> FedGossipWireRow list" where
  "gossip_wire_rows now_ms rows =
     pack_rows 0 [] (take GOSSIP_WIRE_MAX_ROWS (rev (sort_key fr_last_seen_unix_ms (rev (filter (fed_fresh now_ms) rows)))))"

definition sweep_expired :: "u64 \<Rightarrow> FederationTable \<Rightarrow> FederationTable" where
  "sweep_expired now_ms t = fmfilter (\<lambda>k. case fmlookup t k of Some r \<Rightarrow> fed_fresh now_ms r | None \<Rightarrow> False) t"

definition merge_row :: "FedShardRow \<Rightarrow> FederationTable \<Rightarrow> FederationTable" where
  "merge_row incoming t = (case fmlookup t (fr_shard_id incoming) of
     None \<Rightarrow> fmupd (fr_shard_id incoming) incoming t
   | Some cur \<Rightarrow>
       if fr_latest_height cur < fr_latest_height incoming then fmupd (fr_shard_id incoming) incoming t
       else if fr_latest_height incoming = fr_latest_height cur
       then (if fr_last_seen_unix_ms cur < fr_last_seen_unix_ms incoming
             then fmupd (fr_shard_id incoming) (cur\<lparr>fr_last_seen_unix_ms := fr_last_seen_unix_ms incoming, fr_source := fr_source incoming,
               fr_source_node_id := fr_source_node_id incoming\<rparr>) t
             else t)
       else fmupd (fr_shard_id incoming) (cur\<lparr>fr_last_seen_unix_ms := max (fr_last_seen_unix_ms cur) (fr_last_seen_unix_ms incoming),
         fr_source := fr_source incoming, fr_source_node_id := fr_source_node_id incoming\<rparr>) t)"

section \<open>The view over HTTP\<close>

record FederationShardRowOut =
  fo_shard_id :: string
  fo_latest_height :: u64
  fo_last_seen_unix_ms :: u64
  fo_ttl_sec :: u64
  fo_expires_at_unix_ms :: u64
  fo_source :: string
  fo_source_node_id :: string
  fo_fresh :: bool

record FederationShardsOut =
  fv_generated_at_unix_ms :: u64
  fv_ttl_sec :: u64
  fv_view_health :: string
  fv_expected_shard_count :: "nat option"
  fv_active_shard_count :: nat
  fv_stale_shard_count :: nat
  fv_rows :: "FederationShardRowOut list"

definition view_health_label :: "nat option \<Rightarrow> nat \<Rightarrow> nat \<Rightarrow> string" where
  "view_health_label expected active stale =
     (if 0 < stale then ''stale''
      else case expected of
        Some e \<Rightarrow> if active = e then ''complete'' else ''partial''
      | None \<Rightarrow> if active = 0 then ''partial'' else ''complete'')"

definition row_out :: "u64 \<Rightarrow> FedShardRow \<Rightarrow> FederationShardRowOut" where
  "row_out now_ms r = \<lparr> fo_shard_id = fr_shard_id r, fo_latest_height = fr_latest_height r,
     fo_last_seen_unix_ms = fr_last_seen_unix_ms r, fo_ttl_sec = FEDERATION_TTL_SEC,
     fo_expires_at_unix_ms = sat_add (fr_last_seen_unix_ms r) FED_TTL_MS, fo_source = fed_source_json (fr_source r),
     fo_source_node_id = fr_source_node_id r, fo_fresh = fed_fresh now_ms r \<rparr>"

definition build_http_view :: "u64 \<Rightarrow> nat option \<Rightarrow> FederationTable \<Rightarrow> FederationShardsOut" where
  "build_http_view now_ms expected t =
     (let active = length (filter (fed_fresh now_ms) (fed_values t));
          stale = length (filter (\<lambda>r. \<not> fed_fresh now_ms r) (fed_values t))
      in \<lparr> fv_generated_at_unix_ms = now_ms, fv_ttl_sec = FEDERATION_TTL_SEC, fv_view_health = view_health_label expected active stale,
           fv_expected_shard_count = expected, fv_active_shard_count = active, fv_stale_shard_count = stale,
           fv_rows = sort_key fo_shard_id (map (row_out now_ms) (fed_values t)) \<rparr>)"

section \<open>Where the rows come from\<close>

definition merge_gossip_rows :: "FedGossipWireRow list \<Rightarrow> FederationTable \<Rightarrow> FederationTable" where
  "merge_gossip_rows rows t =
     fold (\<lambda>r t. if fg_shard_id r = [] \<or> GOSSIP_SHARD_ID_MAX < length (fg_shard_id r) \<or> GOSSIP_NODE_ID_MAX < length (fg_source_node_id r)
         then t
         else merge_row \<lparr> fr_shard_id = fg_shard_id r, fr_latest_height = fg_latest_height r, fr_last_seen_unix_ms = fg_last_seen_unix_ms r,
           fr_source = FedGossip, fr_source_node_id = fg_source_node_id r \<rparr> t)
       (take GOSSIP_INBOUND_MAX_ROWS rows) t"

definition fallback_shard_key :: "NodeHello \<Rightarrow> string" where
  "fallback_shard_key h = nc_cluster_id (nh_cluster h) @ '':0x'' @
     to_ascii_lowercase (hex_upper 2 (unat (nc_domain_hi (nh_cluster h))))"

definition merge_remote_hello :: "NodeHello \<Rightarrow> u64 \<Rightarrow> FederationTable \<Rightarrow> FederationTable" where
  "merge_remote_hello h now_ms t = (case nh_chain_tip_height h of
     None \<Rightarrow> t
   | Some height \<Rightarrow> merge_row \<lparr>
       fr_shard_id = (case nh_federation_shard_id h of Some s \<Rightarrow> s | None \<Rightarrow> fallback_shard_key h),
       fr_latest_height = height, fr_last_seen_unix_ms = now_ms, fr_source = FedHello, fr_source_node_id = nn_node_id (nh_node h) \<rparr> t)"

definition merge_remote_hb :: "bool \<Rightarrow> NodeHello \<Rightarrow> string \<Rightarrow> u64 \<Rightarrow> u64 option \<Rightarrow> string option \<Rightarrow> FedGossipWireRow list option
    \<Rightarrow> FederationTable \<Rightarrow> FederationTable" where
  "merge_remote_hb trusted remote_hello remote_node_id observed_ms chain_tip_height federation_shard_id federation_gossip t =
     (if \<not> trusted then t
      else let t = (case federation_gossip of Some rows \<Rightarrow> merge_gossip_rows rows t | None \<Rightarrow> t)
           in case chain_tip_height of
                None \<Rightarrow> t
              | Some height \<Rightarrow> merge_row \<lparr>
                  fr_shard_id = (case federation_shard_id of Some s \<Rightarrow> s | None \<Rightarrow>
                    (case nh_federation_shard_id remote_hello of Some s \<Rightarrow> s | None \<Rightarrow> fallback_shard_key remote_hello)),
                  fr_latest_height = height, fr_last_seen_unix_ms = observed_ms, fr_source = FedHeartbeat,
                  fr_source_node_id = remote_node_id \<rparr> t)"

definition merge_local_status :: "RuntimeIdentity \<Rightarrow> DevLane \<Rightarrow> u64 \<Rightarrow> u64 \<Rightarrow> FederationTable \<Rightarrow> FederationTable" where
  "merge_local_status i lane tip now_ms t = merge_row \<lparr> fr_shard_id = runtime_shard_label i lane, fr_latest_height = tip,
     fr_last_seen_unix_ms = now_ms, fr_source = FedStatus, fr_source_node_id = id_node_id i \<rparr> t"

definition federation_http_snapshot :: "RuntimeIdentity \<Rightarrow> DevLane \<Rightarrow> u64 \<Rightarrow> u64 \<Rightarrow> FederationTable \<Rightarrow> FederationShardsOut \<times> FederationTable" where
  "federation_http_snapshot i lane tip now_ms t =
     (let t = merge_local_status i lane tip now_ms t in (build_http_view now_ms None t, sweep_expired now_ms t))"

text \<open>One tick of the sweep loop; the clock may fail.\<close>

definition federation_sweep_tick :: "bool \<Rightarrow> u64 option \<Rightarrow> FederationTable \<Rightarrow> FederationTable" where
  "federation_sweep_tick ready clock t =
     (if \<not> ready then t else case clock of None \<Rightarrow> t | Some now_ms \<Rightarrow> sweep_expired now_ms t)"

end
