(* ===== verification/Pwm_Federation_Props.thy ===== *)
theory Pwm_Federation_Props
  imports Pwm_Federation
begin

text \<open>
  What the directory of shard heights keeps: the greatest height it was told of each shard, whatever the order; and
  one row that no later row, heartbeat, status or sweep corrects.
\<close>

section \<open>The height of a shard\<close>

definition fed_height :: "FederationTable \<Rightarrow> string \<Rightarrow> u64 option" where
  "fed_height t k = map_option fr_latest_height (fmlookup t k)"

lemma merge_row_other: "k \<noteq> fr_shard_id r \<Longrightarrow> fmlookup (merge_row r t) k = fmlookup t k"
  by (simp add: merge_row_def split: option.split)

lemma merge_row_height:
  "fed_height (merge_row r t) k =
     (if k = fr_shard_id r then Some (case fed_height t k of None \<Rightarrow> fr_latest_height r | Some h \<Rightarrow> max h (fr_latest_height r))
      else fed_height t k)"
  by (auto simp: merge_row_def fed_height_def max_def split: option.split)

definition heights_told :: "string \<Rightarrow> FedShardRow list \<Rightarrow> u64 set" where
  "heights_told k rows = set (map fr_latest_height (filter (\<lambda>r. fr_shard_id r = k) rows))"

lemma heights_told_simps: "heights_told k [] = {}" "heights_told k (rows @ [r]) =
    (if fr_shard_id r = k then insert (fr_latest_height r) (heights_told k rows) else heights_told k rows)"
  by (auto simp: heights_told_def)

text \<open>However the rows came in, the table holds for each shard the greatest height any row told of it.\<close>

theorem federation_height_is_max:
  "fed_height (fold merge_row rows fmempty) k = (if heights_told k rows = {} then None else Some (Max (heights_told k rows)))"
proof (induction rows rule: rev_induct)
  case (snoc r rows)
  have "finite (heights_told k rows)" by (simp add: heights_told_def)
  with snoc show ?case by (auto simp: merge_row_height heights_told_simps max.commute)
qed (simp add: fed_height_def heights_told_simps)

text \<open>A greater height brings its own time along, so that an old row can end a shard that was fresh.\<close>

lemma higher_row_expires_shard:
  assumes "fmlookup t k = Some cur" "fed_fresh now cur" "fr_shard_id r = k" "fr_latest_height cur < fr_latest_height r" "\<not> fed_fresh now r"
  shows "fmlookup (sweep_expired now t) k = Some cur" "fmlookup (sweep_expired now (merge_row r t)) k = None"
  using assms by (simp_all add: sweep_expired_def merge_row_def)

section \<open>What happens to the table\<close>

datatype FedOp = FoHello NodeHello u64
  | FoHeartbeat bool NodeHello string u64 "u64 option" "string option" "FedGossipWireRow list option"
  | FoStatus RuntimeIdentity DevLane u64 u64
  | FoSnapshot RuntimeIdentity DevLane u64 u64
  | FoSweep bool "u64 option"

fun fed_op :: "FedOp \<Rightarrow> FederationTable \<Rightarrow> FederationTable" where
  "fed_op (FoHello h now) t = merge_remote_hello h now t"
| "fed_op (FoHeartbeat trusted h node_id obs tip shard gossip) t = merge_remote_hb trusted h node_id obs tip shard gossip t"
| "fed_op (FoStatus i lane tip now) t = merge_local_status i lane tip now t"
| "fed_op (FoSnapshot i lane tip now) t = snd (federation_http_snapshot i lane tip now t)"
| "fed_op (FoSweep ready clock) t = federation_sweep_tick ready clock t"

text \<open>The clock has not reached the last millisecond of 64 bits.\<close>

fun fed_clock_ok :: "FedOp \<Rightarrow> bool" where
  "fed_clock_ok (FoSnapshot i lane tip now) \<longleftrightarrow> now \<noteq> - 1"
| "fed_clock_ok (FoSweep ready clock) \<longleftrightarrow> clock \<noteq> Some (- 1)"
| "fed_clock_ok _ \<longleftrightarrow> True"

definition stuck_row :: "string \<Rightarrow> FederationTable \<Rightarrow> bool" where
  "stuck_row k t \<longleftrightarrow> (\<exists>r. fmlookup t k = Some r \<and> fr_shard_id r = k \<and> fr_latest_height r = - 1 \<and> fr_last_seen_unix_ms r = - 1)"

lemma word_not_above: "\<not> (- 1 :: 'a::len word) < w" "max (- 1) w = (- 1 :: 'a::len word)"
  by (auto simp: not_less max_def word_order.extremum_unique)

lemma below_last: "w \<noteq> (- 1 :: u64) \<Longrightarrow> w < - 1"
  using word_order.not_eq_extremum by blast

lemma stuck_merge: "stuck_row k t \<Longrightarrow> stuck_row k (merge_row r t)"
  by (cases "fr_shard_id r = k") (auto simp: stuck_row_def merge_row_def word_not_above split: option.split)

lemma stuck_fresh: "now \<noteq> - 1 \<Longrightarrow> fr_last_seen_unix_ms r = - 1 \<Longrightarrow> fed_fresh now r"
proof -
  assume a: "now \<noteq> - 1" "fr_last_seen_unix_ms r = - 1"
  have "unat (- 1 :: u64) \<le> unat (sat_add (- 1 :: u64) FED_TTL_MS)" by (rule sat_add_ge)
  then have "sat_add (- 1 :: u64) FED_TTL_MS = - 1" unfolding word_le_nat_alt [symmetric] word_order.extremum_unique .
  then show "fed_fresh now r" using a below_last by (simp add: fed_fresh_def)
qed

lemma stuck_sweep: "stuck_row k t \<Longrightarrow> now \<noteq> - 1 \<Longrightarrow> stuck_row k (sweep_expired now t)"
  by (auto simp: stuck_row_def sweep_expired_def stuck_fresh)

lemma fold_keeps: "(\<And>g u. P u \<Longrightarrow> P (f g u)) \<Longrightarrow> P t \<Longrightarrow> P (fold f gs t)"
  by (induction gs arbitrary: t) auto

lemma stuck_gossip: "stuck_row k t \<Longrightarrow> stuck_row k (merge_gossip_rows rows t)"
  unfolding merge_gossip_rows_def by (rule fold_keeps) (simp_all add: stuck_merge)

lemma stuck_op: "stuck_row k t \<Longrightarrow> fed_clock_ok op \<Longrightarrow> stuck_row k (fed_op op t)"
  by (cases op) (auto simp: merge_remote_hello_def merge_remote_hb_def merge_local_status_def federation_http_snapshot_def
      federation_sweep_tick_def Let_def stuck_merge stuck_gossip stuck_sweep split: option.split)

lemma stuck_ops: "stuck_row k t \<Longrightarrow> list_all fed_clock_ok ops \<Longrightarrow> stuck_row k (fold fed_op ops t)"
  by (induction ops arbitrary: t) (auto simp: stuck_op)

definition fed_keyed :: "FederationTable \<Rightarrow> bool" where
  "fed_keyed t \<longleftrightarrow> (\<forall>k r. fmlookup t k = Some r \<longrightarrow> fr_shard_id r = k)"

lemma merge_sticks:
  assumes "fed_keyed t" "fr_latest_height r = - 1" "fr_last_seen_unix_ms r = - 1"
  shows "stuck_row (fr_shard_id r) (merge_row r t)"
proof (cases "fmlookup t (fr_shard_id r)")
  case (Some cur)
  then have k: "fr_shard_id cur = fr_shard_id r" using assms(1) by (simp add: fed_keyed_def)
  show ?thesis
  proof (cases "fr_latest_height cur = - 1")
    case True
    then show ?thesis using Some k assms(2,3) below_last [of "fr_last_seen_unix_ms cur"]
      by (cases "fr_last_seen_unix_ms cur = - 1") (simp_all add: stuck_row_def merge_row_def)
  qed (use Some assms(2,3) in \<open>simp add: stuck_row_def merge_row_def below_last\<close>)
qed (use assms in \<open>simp add: stuck_row_def merge_row_def\<close>)

lemma stuck_in_view:
  assumes "stuck_row k t" "now \<noteq> - 1"
  shows "list_ex (\<lambda>x. fo_shard_id x = k \<and> fo_latest_height x = - 1 \<and> fo_fresh x) (fv_rows (build_http_view now expected t))"
proof -
  obtain r where r: "fmlookup t k = Some r" "fr_shard_id r = k" "fr_latest_height r = - 1" "fr_last_seen_unix_ms r = - 1"
    using assms(1) by (auto simp: stuck_row_def)
  have "k |\<in>| fmdom t" using r(1) by (rule fmdomI)
  then have "the (fmlookup t k) \<in> set (fed_values t)" by (auto simp: fed_values_def fm_keys_def)
  then have "r \<in> set (fed_values t)" using r(1) by simp
  then have "row_out now r \<in> set (fv_rows (build_http_view now expected t))" by (simp add: build_http_view_def Let_def)
  moreover have "fo_shard_id (row_out now r) = k \<and> fo_latest_height (row_out now r) = - 1 \<and> fo_fresh (row_out now r)"
    using r assms(2) by (simp add: row_out_def stuck_fresh)
  ultimately show ?thesis by (auto simp: list_ex_iff)
qed

lemma one_gossip_row:
  assumes "fed_keyed t" "fg_shard_id g \<noteq> []" "length (fg_shard_id g) \<le> GOSSIP_SHARD_ID_MAX" "length (fg_source_node_id g) \<le> GOSSIP_NODE_ID_MAX"
    and "fg_latest_height g = - 1" "fg_last_seen_unix_ms g = - 1" "list_all fed_clock_ok ops" "now \<noteq> - 1"
  shows "list_ex (\<lambda>x. fo_shard_id x = fg_shard_id g \<and> fo_latest_height x = - 1 \<and> fo_fresh x)
    (fv_rows (build_http_view now expected (fold fed_op ops (merge_remote_hb True h node_id obs None None (Some [g]) t))))"
proof -
  have "stuck_row (fg_shard_id g) (merge_remote_hb True h node_id obs None None (Some [g]) t)"
    using merge_sticks [OF assms(1), of "\<lparr> fr_shard_id = fg_shard_id g, fr_latest_height = fg_latest_height g,
        fr_last_seen_unix_ms = fg_last_seen_unix_ms g, fr_source = FedGossip, fr_source_node_id = fg_source_node_id g \<rparr>"] assms(2-6)
    by (simp add: merge_remote_hb_def merge_gossip_rows_def GOSSIP_INBOUND_MAX_ROWS_def)
  then show ?thesis using stuck_ops assms(7,8) stuck_in_view by blast
qed

end
