(* ===== verification/Pwm_Roam_Props.thy ===== *)
theory Pwm_Roam_Props
  imports Pwm_Roam_Commit Pwm_Backfill_Facts Pwm_Federation_Props Pwm_Hello_Props
begin

text \<open>
  The properties of roaming between shards: what a creation leaves behind, that its hand-off lets the IMPORT through
  at the target, and where the hand-off, the relay, the rollback, the backfill and the directory of the shards
  can be made to say something else.
\<close>

section \<open>The properties\<close>




text \<open>C27: The registration of a hand-off that cannot be saved is rolled back after the lock on the node was given up: a block
  that another task sealed in between is erased from the chain and from the ledger, and the node stops.\<close>

theorem late_rollback_erases_block:
  assumes "v1_export_handoff_register v h c = Some (Inl (INTERNAL_SERVER_ERROR, e), c')"
    and "seal_entries ext enc clock entries (api_chain (sy_api (cl_sync c))) = Done ch" "\<And>m. api_chain (ro_others2 v m) = ch"
  shows "blocks (api_chain (sy_api (cl_sync c'))) = blocks (api_chain (sy_api (cl_sync c))) \<and>
    ch_st (api_chain (sy_api (cl_sync c'))) = ch_st (api_chain (sy_api (cl_sync c))) \<and>
    unat (tip_h ch) = Suc (unat (tip_h (api_chain (sy_api (cl_sync c'))))) \<and>
    \<not> allows_chain_progress (gt_init (ap_gates (sy_api (cl_sync c'))))"
  using late_rollback [OF assms] by simp

text \<open>When the news of the IMPORT arrives while the relay of the same intent is still under way, the end of the relay opens
  the intent again: it counts as relayed, and the account is locked by an intent that was already imported.\<close>

theorem late_relay_reopens_intent:
  assumes "user_gates n = Inr ()" "parse_id (ro_lib v) id_text = Some key"
    and "fmlookup (rp_intents (sn_roaming_pool (ap_node (swept n)))) key = Some i" "ri_status i = IExported"
    and "fmlookup (rp_export_to_intent (sn_roaming_pool (ap_node (swept n)))) (ri_export_id i) = Some key"
    and "ro_save v = None" "ro_save2 v = None"
    and "relay_gets_through v (handoff_from_intent_status (ro_ext v) (ro_lib v) (ro_identity v) i IRelayed) n"
    and "\<And>m. ro_others v m = with_pool (mark_import_by_export (ri_export_id i) (sn_roaming_pool (ap_node m))) m"
  shows "\<exists>out n'. v1_roaming_intent_finalize v id_text n = (Inr out, n') \<and> fi_status out = IRelayed \<and>
    fmlookup (rp_active_locks (sn_roaming_pool (ap_node n'))) (ri_source i) = Some key"
  using assms by (rule late_relay)

text \<open>C35: One row of gossip stays for ever. A row with the greatest height and the greatest time, sent once by a trusted peer,
  is shown as a fresh shard after any sequence of hellos, heartbeats, own updates, snapshots and sweeps.\<close>

theorem gossip_row_never_leaves:
  assumes "fed_keyed t" "fg_shard_id g \<noteq> []" "length (fg_shard_id g) \<le> GOSSIP_SHARD_ID_MAX" "length (fg_source_node_id g) \<le> GOSSIP_NODE_ID_MAX"
    and "fg_latest_height g = - 1" "fg_last_seen_unix_ms g = - 1" "list_all fed_clock_ok ops" "now \<noteq> - 1"
  shows "list_ex (\<lambda>x. fo_shard_id x = fg_shard_id g \<and> fo_latest_height x = - 1 \<and> fo_fresh x)
    (fv_rows (build_http_view now expected (fold fed_op ops (merge_remote_hb True h node_id obs None None (Some [g]) t))))"
  using assms by (rule one_gossip_row)

text \<open>C34: The backfill writes over what a node signed. The row of a hand-off that was registered takes the amount, recipient
  and source which a peer answered over HTTP; it counts as local, and the IMPORT of the new amount, refused before, passes.\<close>

theorem backfill_overrides_handoff:
  assumes "ledger_ok (sn_cross_shard (ap_node n))" "fmlookup (sn_cross_shard (ap_node n)) eid = Some old" "cf_status old \<noteq> FImported"
    and "cf_amount old \<noteq> xf_amount f"
    and "mk_import_tx ext s eid dst (xf_amount f) st = Inr tx" "hi_byte (bs_domain s) = xf_target_domain_hi f"
    and "eid |\<notin>| imported_set (ch_st (api_chain n))" "eid |\<notin>| fmdom (exported_registry (ch_st (api_chain n)))"
  shows "\<exists>n' new. record_backfill_fact f eid source dst n = Some n' \<and> fmlookup (sn_cross_shard (ap_node n')) eid = Some new \<and>
    cf_amount new = xf_amount f \<and> cf_to new = dst \<and> cf_source new = Some source \<and> cf_origin new = OLocal \<and> cf_intent_id new = cf_intent_id old \<and>
    enforce_import_provenance_prefilter tx (ch_st (api_chain n)) (sn_cross_shard (ap_node n)) \<noteq> Inr () \<and>
    enforce_import_provenance_prefilter tx (ch_st (api_chain n')) (sn_cross_shard (ap_node n')) = Inr ()"
  using assms by (rule backfill_replaces)

section \<open>An EXPORT for the examples\<close>

definition far_account :: AccountId where "far_account = push_bit 240 0x1001"

lemma far_recipient: "validate_recipient_address_policy far_account = Inr ()"
  unfolding valid_recipient
  by (simp add: category_for_raw_def in_range_def COUNTRY_RANGE_def dom_raw_from_acct_def far_account_def byte_at_def be_bytes_def le_bytes_def)


definition far_export :: SignedTx where
  "far_export = demo_tx demo_A 0 (Export far_account (domain_of_account_id far_account) 10 1)"

definition far_eid :: bytes32 where
  "far_eid = the (export_id demo_ext far_export)"

lemma far_id [simp]: "export_id demo_ext (demo_tx demo_A 0 (Export far_account (domain_of_account_id far_account) 10 1)) = Some far_eid"
  by (simp add: far_eid_def far_export_def demo_tx_def export_id_def)

lemma far_domain: "domain_of_account_id far_account = 0x1001"
  by (simp add: far_account_def domain_of_account_id_def byte_at_def from_be_def)

lemma far_context: "export_context_is_valid (demo_tx demo_A 0 (Export far_account (domain_of_account_id far_account) 10 1))"
  by (simp add: export_context_is_valid_def demo_tx_def far_domain dom_hi_byte [symmetric] dom_hi_def)

lemma far_seals: "\<exists>c. seal demo_ext demo_codecs None [far_export] demo_chain = Done c"
  using far_id far_context unfolding far_export_def demo_tx_def
  by (simp add: seal_def seal_eval checked_add_def sat_add_def DET_SEAL_TS_BASE_def tx_eval demo_eval
      apply_export_def lock_idx_def)

definition demo_identity :: RuntimeIdentity where
  "demo_identity = \<lparr> id_network_id = ''N'', id_cluster_domain_hi = 0, id_cluster_id = ''C'', id_node_id = ''A'', id_mode = Explicit \<rparr>"

text \<open>A seed that fits, takes the hello and answers the hand-off.\<close>

definition demo_world :: RelayWorld where
  "demo_world = \<lparr> rw_cfg = \<lparr> rc_relay_http_seeds = [\<lparr> sa_host = ''h'', sa_port = 80 \<rparr>], rc_peer_seeds = [] \<rparr>, rw_client_err = None, rw_clock_ok = True,
     rw_status = (\<lambda>_. HttpOk (Inr \<lparr> rs_ready = True, rs_network_id = Some ''N'', rs_cluster_domain_hi = Some (dom_hi (domain_of_account_id far_account)),
       rs_effective_genesis_hash = None, rs_genesis_guard = None, rs_bridge_federation_trust = None, rs_bridge_refusal_reason = None \<rparr>)),
     rw_hello = (\<lambda>_. HttpOk (Inr \<lparr> pa_accepted = True, pa_reason = None \<rparr>)), rw_post = (\<lambda>_. HttpOk (Inr ())) \<rparr>"

definition demo_roam :: "save_outcome \<Rightarrow> (ApiNode \<Rightarrow> ApiNode) \<Rightarrow> RoamEnv" where
  "demo_roam save others = \<lparr> ro_ext = demo_ext, ro_codecs = demo_codecs, ro_lib = toy_addr, ro_identity = demo_identity, ro_genesis = None,
     ro_now_ms = Some 0, ro_clock = None, ro_save = save, ro_save2 = None, ro_world = demo_world, ro_others = others, ro_others2 = others \<rparr>"

lemma demo_roam_simps [simp]:
  "ro_ext (demo_roam s f) = demo_ext" "ro_codecs (demo_roam s f) = demo_codecs" "ro_lib (demo_roam s f) = toy_addr"
  "ro_identity (demo_roam s f) = demo_identity" "ro_now_ms (demo_roam s f) = Some 0" "ro_clock (demo_roam s f) = None"
  "ro_save (demo_roam s f) = s" "ro_save2 (demo_roam s f) = None" "ro_others (demo_roam s f) = f" "ro_others2 (demo_roam s f) = f"
  "ro_world (demo_roam s f) = demo_world" "ro_genesis (demo_roam s f) = None"
  by (simp_all add: demo_roam_def)

text \<open>The node after the preflight of the EXPORT.\<close>

definition ready_node :: ApiNode where
  "ready_node = with_pool (snd (register_readiness demo_ext far_export 0 30 0 0 roaming_default)) (demo_api demo_chain)"

lemma far_fields: "body far_export = Export far_account (domain_of_account_id far_account) 10 1" "computed_account_id demo_ext far_export = demo_A"
  "export_id demo_ext far_export = Some far_eid" "signer_pk far_export = demo_A"
  by (simp_all add: far_export_def) (simp_all add: demo_tx_def)

lemma expire_nothing: "rp_intents p = fmempty \<Longrightarrow> expire_by_height h p = (0, p)"
  by (simp add: expire_by_height_def fm_keys_def sorted_list_of_fset.rep_eq)

lemma with_same_pool: "with_pool (sn_roaming_pool (ap_node n)) n = n"
  by (simp add: with_pool_def)

lemma ready_facts: "api_chain ready_node = demo_chain" "sn_cross_shard (ap_node ready_node) = fmempty" "rp_intents (sn_roaming_pool (ap_node ready_node)) = fmempty"
  "swept ready_node = ready_node"
proof -
  show i: "rp_intents (sn_roaming_pool (ap_node ready_node)) = fmempty"
    by (simp add: ready_node_def register_readiness_def far_fields get_by_export_id_def roaming_default_def Let_def)
  show "swept ready_node = ready_node" by (simp add: swept_def expire_nothing [OF i] with_same_pool)
qed (simp_all add: ready_node_def with_pool_def demo_api_def demo_node_def)

lemma far_consumed: "\<exists>p. consume_readiness demo_ext far_export 0 0 0 (sn_roaming_pool (ap_node ready_node)) = (Inr (), p) \<and> rp_intents p = fmempty \<and>
    rp_active_locks p = fmempty \<and> rp_export_to_intent p = fmempty"
  by (simp add: ready_node_def register_readiness_def far_fields get_by_export_id_def roaming_default_def consume_readiness_def Let_def)

lemma far_sealed:
  assumes "api_chain m = demo_chain" "sn_cross_shard (ap_node m) = fmempty"
  shows "\<exists>k. seal_export (demo_roam s f) bak far_export iid m = Some (Inr (), k) \<and>
    sn_roaming_pool (ap_node k) = mark_exported iid (sn_roaming_pool (ap_node m))"
proof -
  obtain c where c: "seal demo_ext demo_codecs None [far_export] demo_chain = Done c" using far_seals by blast
  have "\<exists>m1. api_record demo_ext far_export (tip_h c) (with_chain c m) = Some m1"
    using assms(2) evict_small [of "fmupd far_eid _ fmempty"]
    by (simp add: api_record_def record_cross_shard_tx_def far_fields Let_def record_export_def with_chain_def upsert_def fcard.rep_eq FACT_CAP_def)
  then obtain m1 where m1: "api_record demo_ext far_export (tip_h c) (with_chain c m) = Some m1" by blast
  show ?thesis using record_pool [OF m1] c m1 assms(1) by (simp add: seal_export_def Let_def)
qed

lemma creation_runs:
  "\<exists>out h n'. create_locked (demo_roam None f) far_export None ready_node = Some (Inr (out, Some h, far_eid), n')"
proof -
  obtain p where p: "consume_readiness demo_ext far_export 0 0 0 (sn_roaming_pool (ap_node ready_node)) = (Inr (), p)"
      "rp_intents p = fmempty" "rp_active_locks p = fmempty" "rp_export_to_intent p = fmempty"
    using far_consumed by blast
  obtain q where q: "roam_register_export demo_ext far_export 0 DEFAULT_INTENT_TTL_BLOCKS p = (Inr (far_eid, False), q)"
      "fmlookup (rp_intents q) far_eid \<noteq> None"
    using p(2-4) by (simp add: roam_register_export_def far_fields Let_def)
  have m: "api_chain (with_pool q (with_pool p ready_node)) = demo_chain" "sn_cross_shard (ap_node (with_pool q (with_pool p ready_node))) = fmempty"
    by (simp_all add: ready_facts) (simp_all add: ready_facts with_pool_def)
  obtain k where k: "seal_export (demo_roam None f) (take_bak (with_pool p ready_node)) far_export far_eid (with_pool q (with_pool p ready_node)) = Some (Inr (), k)"
      "sn_roaming_pool (ap_node k) = mark_exported far_eid q"
    using far_sealed [OF m] by fastforce
  obtain i where i: "fmlookup (rp_intents (sn_roaming_pool (ap_node k))) far_eid = Some i"
    using q(2) k(2) by (auto simp: mark_exported_def set_status_intents)
  have a: "snd (acct_view (ch_st demo_chain) demo_A) = 0" by (simp add: acct_view_def demo_chain_def demo_st_def genesis_funded_def)
  show ?thesis
    unfolding create_locked_def Let_def swept_def [symmetric] ready_facts(4)
    using p q k i a by (simp add: ready_facts(1) far_fields)
qed


section \<open>A target\<close>

definition demo_source_peer :: TrustedPeer where
  "demo_source_peer = \<lparr> tp_node_id = ''A'', tp_cluster_id = ''C'', tp_pubkey = x_pubkey demo_ext (local_hello_signing_key demo_identity), tp_domain_hi = 0,
     tp_instance_id = None, tp_cluster_attest_enabled = False, tp_cluster_role = Attester \<rparr>"

definition demo_target :: ClusterNode where
  "demo_target = (demo_member Attester ''Q'')\<lparr>cl_trusted := fmupd ''A'' demo_source_peer fmempty,
     cl_peers := fmupd ''A'' \<lparr> pr_node_id = ''A'', pr_domain_hi = 0, pr_class = PeerForeign, pr_last_seen_ms = 5, pr_status = PeerConnected \<rparr> fmempty\<rparr>"

definition far_import :: SignedTx where
  "far_import = (demo_tx demo_B 0 (Import far_account 10 far_eid))\<lparr>domain_code := domain_of_account_id far_account, import_fee := Some MIN_IMPORT_FEE_UNITS,
     import_provenance := Some \<lparr> pv_to = far_account, pv_target_domain = domain_of_account_id far_account, pv_amount = 10 \<rparr>\<rparr>"

lemma far_imports: "imports_export far_eid far_account (domain_of_account_id far_account) 10 far_import"
  by (simp add: imports_export_def far_import_def demo_tx_def)

lemma demo_trusts: "trusts_node demo_ext demo_identity demo_target"
  by (simp add: trusts_node_def demo_target_def demo_source_peer_def demo_identity_def)

lemma demo_welcomes:
  assumes "sy_api (cl_sync c) = demo_api demo_chain"
  shows "handoff_welcome eid far_account (domain_of_account_id far_account) c"
  using assms far_recipient
  by (simp add: handoff_welcome_def Let_def demo_api_def demo_node_def demo_chain_def demo_st_def state_default_def
    ensure_user_tx_allowed_def ensure_ready_def init_ready_def init_is_ready_def ledger_ok_def fcard.rep_eq FACT_CAP_def)

lemma target_api: "sy_api (cl_sync demo_target) = demo_api demo_chain"
  by (simp add: demo_target_def demo_member_def demo_sync_node_def)


section \<open>A stranger\<close>

text \<open>A peer of another shard under names of its choice, and an intent nobody made.\<close>

definition stranger_identity :: RuntimeIdentity where
  "stranger_identity = \<lparr> id_network_id = ''N'', id_cluster_domain_hi = 0x20, id_cluster_id = ''x'', id_node_id = ''S'', id_mode = Explicit \<rparr>"

definition demo_says :: NodeHello where
  "demo_says = stranger_hello demo_hello_env (local_hello_signing_key stranger_identity) 0x20 ''S'' 5 ''Q'' [1]"

definition invented :: RoamingIntent where
  "invented = \<lparr> ri_intent_id = far_eid, ri_export_id = far_eid, ri_source = demo_A, ri_to = far_account, ri_target_domain = domain_of_account_id far_account,
     ri_amount = 10, ri_fee = 1, ri_status = IQueued, ri_created_height = 0, ri_expires_at_height = 9, ri_last_error = None \<rparr>"

lemma says_identity: "identity_in_hello demo_says = stranger_identity"
  by (simp add: identity_in_hello_def demo_says_def stranger_hello_def hello_sign_def stranger_identity_def split: sum.split)

lemma accept_hello_gates: "hn_api (accept_hello v h now class n) = (hn_api n)\<lparr>ap_gates := (ap_gates (hn_api n))\<lparr>gt_bridge_refused := False, gt_refusal_reason := None\<rparr>\<rparr>"
  by (simp add: accept_hello_def Let_def with_gates_def)

lemma hello_node_api: "hn_api demo_hello_node = demo_api demo_chain"
  by (simp add: demo_hello_node_def demo_member_def demo_sync_node_def)

lemma says_accepted:
  "\<exists>class m. process_incoming_peer_hello demo_hello_env demo_says 5 ''inbound'' False None ''C'' demo_hello_node = (Inr class, m) \<and>
    hn_api m = demo_api demo_chain"
proof -
  have s: "stranger_setting demo_hello_env (demo_members Proposer ''P'') 0x20 ''S''"
    by (simp add: stranger_setting_def letters toy_hex demo_sig)
  note f = stranger_fields [OF s _ letters(5), of "[1]" "local_hello_signing_key stranger_identity" 5, folded demo_says_def, simplified]
  have n: "fmlookup (hn_replay demo_hello_node) (nh_nonce demo_says) = None" by simp
  have v: "hello_valid_at (he_ext demo_hello_env) (he_json demo_hello_env) demo_says (he_ctx demo_hello_env) 5" using f(1) by simp
  from hello_accepted [OF v n f(2), of "''inbound''" False None "''C''"] show ?thesis
    by (simp add: accept_hello_gates) (simp add: hello_node_api demo_api_def)
qed


section \<open>Other tasks in between\<close>

theorem late_rollback_erases_block_witness:
  "\<exists>c1 h e c'. seal demo_ext demo_codecs None [far_export] demo_chain = Done c1 \<and> tip_h c1 = 1 \<and>
    v1_export_handoff_register (demo_roam (Some (None, Inl ''disk full'')) (with_chain c1)) h demo_target = Some (Inl (INTERNAL_SERVER_ERROR, e), c') \<and>
    tip_h (api_chain (sy_api (cl_sync c'))) = 0"
proof -
  obtain c1 where c1: "seal demo_ext demo_codecs None [far_export] demo_chain = Done c1" using far_seals by blast
  let ?v = "demo_roam (Some (None, Inl ''disk full'')) (with_chain c1)"
  let ?h = "handoff_from_intent_status (ro_ext ?v) (ro_lib ?v) demo_identity invented IRelayed"
  have "hex_laws (ro_lib ?v)" "\<And>m. sig_correct (ro_ext ?v) (local_hello_signing_key demo_identity) m" "trusts_node (ro_ext ?v) demo_identity demo_target"
    "id_network_id demo_identity = id_network_id (ro_identity ?v)"
    "handoff_welcome (ri_export_id invented) (ri_to invented) (ri_target_domain invented) demo_target" "ro_save ?v = Some (None, Inl ''disk full'')"
    using demo_welcomes [OF target_api] by (simp_all add: toy_hex demo_sig demo_trusts invented_def)
  from handoff_unsaved [OF this] obtain c' where
    r: "v1_export_handoff_register ?v ?h demo_target = Some (Inl (INTERNAL_SERVER_ERROR, EText (''state rolled back; snapshot save failed: '' @ ''disk full'')), c')" by blast
  have t: "api_chain (sy_api (cl_sync demo_target)) = demo_chain" by (simp add: target_api demo_api_def demo_node_def)
  have s: "seal_entries demo_ext demo_codecs None (map Raw [far_export]) (api_chain (sy_api (cl_sync demo_target))) = Done c1"
    using c1 by (simp add: seal_def t)
  have oth: "api_chain (ro_others2 ?v m) = c1" for m by (simp add: with_chain_def)
  from late_rollback_erases_block [OF r s oth] have "blocks (api_chain (sy_api (cl_sync c'))) = blocks demo_chain"
      "unat (tip_h c1) = Suc (unat (tip_h (api_chain (sy_api (cl_sync c')))))" by (simp_all add: t)
  moreover have "unat (tip_h c1) = 1" using sealed_height [OF c1] by (simp add: tip_h_def demo_chain_def)
  ultimately have "tip_h c1 = 1" "tip_h (api_chain (sy_api (cl_sync c'))) = 0" by (auto simp: word_unat_eq_iff)
  with c1 r show ?thesis by blast
qed

lemma nothing_expires: "(\<And>k i. fmlookup (rp_intents p) k = Some i \<Longrightarrow> \<not> expired_at h i) \<Longrightarrow> expire_by_height h p = (0, p)"
  by (auto simp: expire_by_height_def filter_empty_conv split: option.splits)

text \<open>A node with one exported intent, which the target has not answered yet.\<close>

definition open_node :: ApiNode where
  "open_node = with_pool (mark_exported far_eid (snd (roam_register_export demo_ext far_export 0 20 roaming_default))) (demo_api demo_chain)"

definition open_intent :: RoamingIntent where
  "open_intent = invented\<lparr>ri_status := IExported, ri_expires_at_height := 20\<rparr>"

lemma open_pool: "fmlookup (rp_intents (sn_roaming_pool (ap_node open_node))) k = (if k = far_eid then Some open_intent else None)"
  "fmlookup (rp_export_to_intent (sn_roaming_pool (ap_node open_node))) far_eid = Some far_eid"
  by (simp_all add: open_node_def mark_exported_def set_status_intents roam_register_export_def far_fields roaming_default_def Let_def
    open_intent_def invented_def sat_add_def)

lemma open_facts: "swept open_node = open_node" "user_gates open_node = Inr ()" "ap_gates open_node = ap_gates (demo_api demo_chain)"
proof -
  have "api_chain open_node = demo_chain" by (simp add: open_node_def with_pool_def demo_api_def demo_node_def)
  moreover have "expire_by_height (tip_h demo_chain) (sn_roaming_pool (ap_node open_node)) = (0, sn_roaming_pool (ap_node open_node))"
    by (rule nothing_expires) (auto simp: open_pool expired_at_def open_intent_def split: if_splits)
  ultimately show "swept open_node = open_node" by (simp add: swept_def with_same_pool)
  show g: "ap_gates open_node = ap_gates (demo_api demo_chain)" by (simp add: open_node_def with_pool_def)
  show "user_gates open_node = Inr ()"
    unfolding user_gates_def g by (simp add: demo_api_def ensure_user_tx_allowed_def ensure_ready_def init_ready_def init_is_ready_def
      ensure_bridge_federation_ok_def)
qed

lemma open_gates: "\<not> gt_bridge_refused (ap_gates open_node)"
  unfolding open_facts(3) by (simp add: demo_api_def)

lemma demo_gets_through:
  assumes "ho_target_domain h = domain_of_account_id far_account"
  shows "relay_gets_through (demo_roam s f) h open_node"
  using assms
  by (simp add: relay_gets_through_def select_target_def open_gates demo_world_def relay_http_bases_def status_trust_mismatch_def
      post_peer_hello_def demo_identity_def)

theorem late_relay_reopens_intent_witness:
  "\<exists>out n'. v1_roaming_intent_finalize (demo_roam None (\<lambda>m. with_pool (mark_import_by_export far_eid (sn_roaming_pool (ap_node m))) m))
      (hex32 toy_addr far_eid) open_node = (Inr out, n') \<and> fi_status out = IRelayed \<and>
    fmlookup (rp_active_locks (sn_roaming_pool (ap_node n'))) demo_A = Some far_eid"
proof -
  let ?f = "\<lambda>m. with_pool (mark_import_by_export far_eid (sn_roaming_pool (ap_node m))) m"
  let ?v = "demo_roam None ?f"
  have i: "ri_status open_intent = IExported" "ri_export_id open_intent = far_eid" "ri_source open_intent = demo_A"
    "ri_target_domain open_intent = domain_of_account_id far_account"
    by (simp_all add: open_intent_def invented_def)
  have "parse_id (ro_lib ?v) (hex32 toy_addr far_eid) = Some far_eid" using parse_hex32 [OF toy_hex] by simp
  moreover have "fmlookup (rp_intents (sn_roaming_pool (ap_node (swept open_node)))) far_eid = Some open_intent"
    "fmlookup (rp_export_to_intent (sn_roaming_pool (ap_node (swept open_node)))) (ri_export_id open_intent) = Some far_eid"
    by (simp_all add: open_facts open_pool i)
  moreover have "relay_gets_through ?v (handoff_from_intent_status (ro_ext ?v) (ro_lib ?v) (ro_identity ?v) open_intent IRelayed) open_node"
    by (rule demo_gets_through) (simp add: i)
  ultimately show ?thesis
    using late_relay_reopens_intent [OF open_facts(2), of ?v "hex32 toy_addr far_eid" far_eid open_intent] i by simp
qed

section \<open>Rows that are written once\<close>

definition last_row :: FedGossipWireRow where
  "last_row = \<lparr> fg_shard_id = ''X'', fg_latest_height = - 1, fg_last_seen_unix_ms = - 1, fg_source_node_id = ''S'' \<rparr>"

theorem gossip_row_never_leaves_witness:
  "list_ex (\<lambda>x. fo_shard_id x = ''X'' \<and> fo_latest_height x = - 1 \<and> fo_fresh x)
    (fv_rows (build_http_view 2000000000000 (Some 1) (fold fed_op
      [FoSweep True (Some 1900000000000), FoHeartbeat True demo_says ''X'' 1900000000000 (Some 5) (Some ''X'') None, FoSweep True (Some 1950000000000)]
      (merge_remote_hb True demo_says ''S'' 1 None None (Some [last_row]) fmempty))))"
proof -
  have "fed_keyed fmempty" "fg_shard_id last_row \<noteq> []" "length (fg_shard_id last_row) \<le> GOSSIP_SHARD_ID_MAX"
    "length (fg_source_node_id last_row) \<le> GOSSIP_NODE_ID_MAX" "fg_latest_height last_row = - 1" "fg_last_seen_unix_ms last_row = - 1"
    by (simp_all add: fed_keyed_def last_row_def GOSSIP_SHARD_ID_MAX_def GOSSIP_NODE_ID_MAX_def)
  from gossip_row_never_leaves [OF this, of "[FoSweep True (Some 1900000000000), FoHeartbeat True demo_says ''X'' 1900000000000 (Some 5) (Some ''X'') None,
      FoSweep True (Some 1950000000000)]" 2000000000000 "Some 1" demo_says "''S''" 1]
  show ?thesis by (simp add: last_row_def)
qed

text \<open>The row of the hand-off says 10; a peer that was asked over HTTP says 20.\<close>

definition told_fact :: CrossShardFactOut where
  "told_fact = \<lparr> xf_export_id = hex32 toy_addr far_eid, xf_source_domain_hi = 0, xf_target_domain_hi = hi_byte (domain_of_account_id far_account), xf_amount = 20,
     xf_status = FRegistered, xf_first_height = 0, xf_last_height = 0, xf_source = Some (hex32 toy_addr demo_B), xf_to = hex32 toy_addr demo_B, xf_intent_id = None \<rparr>"

definition signed_node :: ApiNode where
  "signed_node = (demo_api demo_chain)\<lparr>ap_node := (ap_node (demo_api demo_chain))\<lparr>sn_cross_shard := fmupd far_eid (registered_fact demo_identity invented 0) fmempty\<rparr>\<rparr>"

definition demo_signer :: BackfillSigner where
  "demo_signer = \<lparr> bs_sk = demo_B, bs_sender = demo_B, bs_der_idx = 0, bs_domain = domain_of_account_id far_account \<rparr>"

theorem backfill_overrides_handoff_witness:
  "\<exists>tx n' new. mk_import_tx demo_ext demo_signer far_eid demo_B 20 demo_st = Inr tx \<and>
    record_backfill_fact told_fact far_eid demo_B demo_B signed_node = Some n' \<and> fmlookup (sn_cross_shard (ap_node signed_node)) far_eid = Some (registered_fact demo_identity invented 0) \<and>
    fmlookup (sn_cross_shard (ap_node n')) far_eid = Some new \<and> cf_amount new = 20 \<and> cf_to new = demo_B \<and>
    enforce_import_provenance_prefilter tx (ch_st (api_chain n')) (sn_cross_shard (ap_node n')) = Inr ()"
proof -
  let ?old = "registered_fact demo_identity invented 0"
  have l: "sn_cross_shard (ap_node signed_node) = fmupd far_eid ?old fmempty" "api_chain signed_node = demo_chain"
    by (simp_all add: signed_node_def demo_api_def demo_node_def)
  have old: "cf_amount ?old = 10" "cf_status ?old \<noteq> FImported" "cf_export_id ?old = far_eid" by (simp_all add: registered_fact_def invented_def)
  have ok: "ledger_ok (sn_cross_shard (ap_node signed_node))"
    by (auto simp: l ledger_ok_def ledger_keyed_def old(3) fcard.rep_eq FACT_CAP_def)
  have told: "xf_amount told_fact = 20" "hi_byte (bs_domain demo_signer) = xf_target_domain_hi told_fact" by (simp_all add: told_fact_def demo_signer_def)
  have st: "far_eid |\<notin>| imported_set (ch_st (api_chain signed_node))" "far_eid |\<notin>| fmdom (exported_registry (ch_st (api_chain signed_node)))"
    by (simp_all add: l demo_chain_def demo_st_def state_default_def)
  obtain tx where tx: "mk_import_tx demo_ext demo_signer far_eid demo_B 20 demo_st = Inr tx"
    by (simp add: mk_import_tx_def demo_signer_def demo_st_def)
  have one: "fmlookup (sn_cross_shard (ap_node signed_node)) far_eid = Some ?old" "cf_amount ?old \<noteq> xf_amount told_fact"
    by (simp_all add: l old(1) told(1))
  from backfill_overrides_handoff [OF ok one(1) old(2) one(2) tx [folded told(1)] told(2) st, of demo_B] tx one(1) show ?thesis
    unfolding told(1) by blast
qed

end
