(* ===== verification/Spec2Isabelle.thy ===== *)
theory Spec2Isabelle
  imports Pwm_Demo Pwm_Books Pwm_Core_Props Pwm_Wire_Props Pwm_Node_Props Pwm_Seal_Props Pwm_Api_Props Pwm_Offchain_Props
    Pwm_Follow_Props Pwm_Gossip Pwm_Cluster_Props Pwm_Hello_Props Pwm_Roam_Props
begin

text \<open>
  A model of the PWM cryptocurrency: the ledger crate \<open>pwm-core\<close> (src/crates/pwm-core) and the parts of
  the node daemon \<open>pwmd\<close> (src/crates/pwmd) that decide what enters the ledger, who seals it and how
  nodes of a shard agree on it.

  \<^bold>\<open>How the program is put together.\<close> The ledger (\<open>State\<close>) is a map of accounts with a fee
  pool, registries of exported and imported cross-shard ids, locks and a queue of delayed transfers. One
  transaction is checked for its shape and signature (tx.rs), then applied under the sender's policies
  (state.rs). A chain (chain.rs) seals lists of transactions into signed blocks, rotates the producer by
  epoch and pays the reward (marks.rs). A node takes transactions over HTTP or from peers, checks them
  in workers (pipeline), keeps them in a pool (mempool.rs) and seals in a loop (lifecycle.rs) that only the holder
  of the lease (lease.rs) should run; EXPORT, IMPORT and CLAIM are sealed in the handler itself. Value
  moves between shards by EXPORT and IMPORT, tied together by facts that nodes exchange (ledger.rs) and by
  intents (roaming.rs): the source shard seals the EXPORT and relays a signed hand-off, the target
  registers it and then takes the IMPORT. The nodes of a shard follow each other's blocks (peer_session).

  \<^bold>\<open>Theories\<close>, in the order of their dependencies.

  \<^item> \<open>Pwm_Prelude\<close>, \<open>Pwm_Str\<close>: machine integers at their width with checked and saturating arithmetic,
    \<open>outcome\<close> (\<open>Done\<close>, \<open>Failed\<close> with the state left behind, \<open>Panicked\<close>), byte encodings, sums over
    finite maps; Rust strings as UTF-8 byte lists.
  \<^item> pwm-core, data: \<open>Pwm_Crypto\<close> (crypto.rs, hd.rs), \<open>Pwm_Tx_Data\<close>, \<open>Pwm_Tx_Sign\<close>, \<open>Pwm_Tx_Shape\<close> (tx.rs),
    \<open>Pwm_Account\<close>, \<open>Pwm_Addr\<close> (types.rs), \<open>Pwm_Gen_Cfg\<close> (genesis.rs), \<open>Pwm_Marks\<close> (marks.rs), \<open>Pwm_Domain_Index\<close>,
    \<open>Pwm_Display\<close>, \<open>Pwm_Address_Book\<close>, \<open>Pwm_Wire\<close> (ser_bin.rs, ser_json_u128.rs), \<open>Pwm_Reject_Wire\<close>, \<open>Pwm_Mempool\<close>.
  \<^item> pwm-core, ledger: \<open>Pwm_State\<close>, \<open>Pwm_Policy\<close>, \<open>Pwm_Apply\<close> (state.rs: one definition per arm of the transition), with
    the elimination rules of the arms (\<open>Pwm_Apply_Rules\<close>), the money (\<open>Pwm_Supply\<close>, \<open>Pwm_Books\<close>), the ledger as a machine
    with nonces and delayed transfers (\<open>Pwm_Ledger\<close>), cross-shard locks (\<open>Pwm_Xshard\<close>), errors, authority and the
    prechecked path (\<open>Pwm_Outcome\<close>), independence of the epoch (\<open>Pwm_Frame\<close>).
  \<^item> pwm-core, chain: \<open>Pwm_Epoch\<close>, \<open>Pwm_Block\<close> (block.rs), \<open>Pwm_Chain\<close> (chain.rs); \<open>Pwm_Demo\<close> has a library in which a
    whole step evaluates and three funded accounts for the examples.
  \<^item> pwmd, admission and sealing: \<open>Pwm_Pipeline\<close> (pipeline), \<open>Pwm_Admission\<close> (what it promises), \<open>Pwm_Seal_Tick\<close> (one turn of
    \<open>spawn_seal_loop\<close>), \<open>Pwm_Seal_Live\<close> (its progress), \<open>Pwm_Lease\<close> and \<open>Pwm_Lease_Safety\<close> (lease.rs, lease_backend.rs),
    \<open>Pwm_Roaming\<close>, \<open>Pwm_Roaming_Inv\<close> (roaming.rs), \<open>Pwm_Facts\<close>, \<open>Pwm_Facts_Inv\<close> (ledger.rs), \<open>Pwm_Http\<close>, \<open>Pwm_Guards\<close>
    (api/common.rs, tx_policy.rs), \<open>Pwm_Tx_Api\<close>, \<open>Pwm_Api_Facts\<close> (POST /v1/tx), \<open>Pwm_Offchain\<close> (offchain.rs,
    bridge_commitment.rs and the batch handlers).
  \<^item> pwmd, agreement: \<open>Pwm_Follow\<close> (\<open>apply_blk\<close>, \<open>apply_blk_batch\<close>), \<open>Pwm_Sync_State\<close>, \<open>Pwm_Sync\<close>, \<open>Pwm_Sync_Serve\<close>
    (sync_live.rs, the routing and the transaction gossip of peer_session/mod.rs), \<open>Pwm_Sync_Facts\<close>, \<open>Pwm_Sync_Live\<close>.
  \<^item> pwmd, who seals: \<open>Pwm_Cluster\<close> (the attestation rounds of peer_session/mod.rs: \<open>send_cluster_prop\<close>,
    \<open>route_cluster_stub\<close>), \<open>Pwm_Seal_Loop\<close> (lifecycle.rs: cadence, ready attesters, lease and cluster gates, \<open>seal_poll\<close> as one pass
    of \<open>spawn_seal_loop\<close> around the turn of \<open>Pwm_Seal_Tick\<close>), \<open>Pwm_Quorum\<close> (votes, and the states a node gets to).
  \<^item> pwmd, who is a peer: \<open>Pwm_Identity\<close> (identity.rs), \<open>Pwm_Hello\<close> (handshake.rs, \<open>process_incoming_peer_hello\<close>, the own hello
    and the dial of a seed), \<open>Pwm_Hello_Facts\<close> (nonces, acceptance, the genesis guard, votes of strangers). \<open>HelloNode\<close> holds a
    \<open>ClusterNode\<close>, which holds a \<open>SyncNode\<close>, which holds the node of the HTTP handlers.
  \<^item> pwmd, between shards: \<open>Pwm_Federation\<close>, \<open>Pwm_Federation_Props\<close> (federation.rs: the directory of the heights of the shards),
    \<open>Pwm_Relay\<close> (hand-offs and their signature in api/common.rs, relay.rs), \<open>Pwm_Roam_Api\<close> (api/handlers_roaming.rs),
    \<open>Pwm_Backfill\<close> (api/handlers_backfill.rs), with the registration of a hand-off and what a failure leaves behind
    (\<open>Pwm_Roam_Facts\<close>), the creation of an intent and its way to the IMPORT (\<open>Pwm_Roam_Commit\<close>), the rows the backfill
    writes over (\<open>Pwm_Backfill_Facts\<close>) and the properties (\<open>Pwm_Roam_Props\<close>).
  \<^item> Properties: this theory (the ledger and the chain) and the theories whose names end in \<open>Props\<close>, with
    \<open>Pwm_Sync_Live\<close> and \<open>Pwm_Gossip\<close>.

  \<^bold>\<open>Correspondence.\<close> A struct is a record, an enum a datatype, an integer a word of its width; a
  \<open>BTreeMap\<close> or \<open>HashMap\<close> is a finite map, a \<open>VecDeque\<close> a list with the front first. Fields of small records
  carry a prefix. The workspace builds with overflow checks, so an unchecked operation that would wrap is
  \<open>Panicked\<close> (or \<open>None\<close> in the node). A \<open>&mut self\<close> call returns the state it leaves, in its error
  branches too. An HTTP handler, a worker job, a frame of a peer and a turn of a loop are each one atomic
  step: the locks they take are not modelled, and two handlers do not interleave inside one. The handlers of
  roaming are the exception: where they give the lock up, what other tasks do is a function in their environment
  (\<open>ro_others\<close>, \<open>ro_others2\<close>).

  \<^bold>\<open>Parameters.\<close> \<open>extlib\<close>: BLAKE3, Ed25519, SLIP-0010. \<open>addrlib\<close>: bech32 and hex. \<open>codecs\<close>: the bincode
  encodings of a header and of the state. SHA-256 is the argument of the off-chain batches. Clocks, the success of
  file operations and of writes to a stream are arguments or lists in the state. What a theorem needs of them
  is a hypothesis (\<open>sig_correct\<close>, \<open>addr_laws\<close>, injectivity of an encoding, no collision among the messages at hand).

  \<^bold>\<open>What the lemmas show.\<close> Money: no transaction and no block creates more than its entitlement, except by
  the self-routed row that is a finding. Replays: a nonce, an export id and a refund are consumed once. Errors: a failed
  transaction leaves at most a stub row; a refused submission and a failed batch leave nothing, with their
  snapshots; a checkpoint of the sealing loop that fails loses the transactions of its block, which is a finding.
  Authority: only the sender is debited, only with its signature. Agreement: a sealed block is accepted by a node with the
  same chain, the same tip means the same ledger, no frame of a peer breaks the ledger, and a short tail is closed by one exchange.
  Lease: one sealer at a time, with clocks that differ by at most half the takeover delay. Cluster: a sealed block has the
  verified votes of its quorum for the height, but a vote binds neither the candidate nor the chain of the
  attester, and a height that is passed over strands the followers. Peers: a node's hello is accepted by its
  network, but the keys of peers are vouched for by nobody, so a stranger can make a quorum, and one unsigned hello stops
  the submissions of users. Between shards: the creation of an intent is all or nothing, and its hand-off lets exactly its IMPORT
  through; but a hello is enough to forge a hand-off, a late rollback erases blocks, the backfill writes over signed rows, and a row
  of gossip can stay for ever. Text and bytes: addresses, amounts
  and signing messages round-trip.

  \<^bold>\<open>Interfaces.\<close> The locales are \<open>prefix_codec\<close> (encoders whose outputs do not run into each other), \<open>fifo_pool\<close>
  (a producer's view of a pool), \<open>lease_store\<close> (what a node relies on in a lease store), and the laws
  of the peer table and of the node under synchronisation (\<open>sync_law\<close>, \<open>batch_law\<close>); \<open>guarded_steps\<close> (a run of steps
  keeps what each step keeps) is interpreted on the operations of the ledger. Each is interpreted on the model
  in the theory that provides it.

  \<^bold>\<open>Bounds.\<close> \<open>FACT_CAP\<close> 4096 facts, \<open>BLOCK_CAP\<close> transactions per block, \<open>TAIL_BLOCK_CAP\<close> blocks in memory,
  \<open>MAX_BATCHES\<close> batches, \<open>RECENT_FLOW_CAP\<close> rows, eight requests per peer, 64 peers and 512 queued blocks
  are the constants of the code. No definition runs on fuel: loops are structural, \<open>function\<close> with a measure, or
  \<open>partial_function (option)\<close> (the eviction of facts, shown to end).

  \<^bold>\<open>Not modelled.\<close> The loops and tasks around the steps (tokio, timers, channels, when to dial and reconnect), log lines and
  metrics that nothing reads, the JSON and bincode of the crates serde and bincode, writing and reading
  snapshots and epoch files (their outcome is an argument), the statistics of the sealing
  loop and sealing on request, the remaining HTTP views, wallet files (argon2, chacha20poly1305) and the command line and
  terminal clients.
\<close>

section \<open>Money\<close>

text \<open>C1: No transaction creates units. After a successful transaction the liquid and staked units
  of all accounts, the fee pool and the amounts held by open cross-shard locks together are at most
  what they were plus what the transaction is entitled to mint: the allocation of the claimed IPv4
  phase, or the amount of an IMPORT that does not consume a lock of this shard.\<close>

theorem apply_tx_no_inflation:
  assumes "xshard_inv st" "apply_tx_impl ext cfg tx h ts skip st = Done st'"
  shows "total_units st' \<le> total_units st + tx_minted cfg st tx"
  using balanced_apply_tx(1) [OF assms(2)] import_amount_inv [OF assms] by blast

theorem apply_tx_no_inflation_witness:
  "\<exists>st'. apply_tx_impl demo_ext demo_cfg (demo_tx demo_A 0 (Transfer demo_B 100 3)) 9 0 False demo_st = Done st' \<and>
     total_units st' \<le> total_units demo_st + tx_minted demo_cfg demo_st (demo_tx demo_A 0 (Transfer demo_B 100 3))"
proof -
  have "\<exists>st'. apply_tx_impl demo_ext demo_cfg (demo_tx demo_A 0 (Transfer demo_B 100 3)) 9 0 False demo_st = Done st'"
    by (simp add: tx_eval demo_eval)
  with apply_tx_no_inflation [OF demo_xshard_inv] show ?thesis by blast
qed


text \<open>C2: Exact conservation. While the books stay below the range of a 128-bit balance, a
  successful transaction leaves exactly the units it found plus what it mints: nothing is lost
  either. (An EXPORT whose export id already has a lock is excluded: ids are hashes.)\<close>

theorem apply_tx_conserves:
  assumes "xshard_inv st" "apply_tx_impl ext cfg tx h ts skip st = Done st'"
    and "total_units st + tx_minted cfg st tx < 2 ^ 128"
    and "\<And>t d amount fee eid. body tx = Export t d amount fee \<Longrightarrow> export_id ext tx = Some eid \<Longrightarrow> lock_idx st eid = None"
  shows "total_units st' = total_units st + tx_minted cfg st tx"
  using balanced_apply_tx(2) [OF assms(2) import_amount_inv [OF assms(1,2)] assms(4)] assms(3)
  by (simp add: balanced_def)

theorem apply_tx_conserves_witness:
  "\<exists>st'. apply_tx_impl demo_ext demo_cfg (demo_tx demo_A 0 (Transfer demo_B 100 3)) 9 0 False demo_st = Done st' \<and>
     total_units st' = 1350"
proof -
  let ?tx = "demo_tx demo_A 0 (Transfer demo_B 100 3)"
  have "\<exists>st'. apply_tx_impl demo_ext demo_cfg ?tx 9 0 False demo_st = Done st'"
    by (simp add: tx_eval demo_eval)
  moreover have "tx_minted demo_cfg demo_st ?tx = 0" by (simp add: tx_minted_def demo_tx_def)
  moreover have "body ?tx = Transfer demo_B 100 3" by (simp add: demo_tx_def)
  ultimately show ?thesis
    using apply_tx_conserves [OF demo_xshard_inv, of demo_ext demo_cfg ?tx 9 0 False] by (auto simp: demo_total_units)
qed

text \<open>C3: A block creates at most its reward and the entitlements of its transactions, as long as
  its drain executes no delayed transfer that is routed back to its own sender.\<close>

theorem seal_no_inflation:
  assumes "xshard_inv (ch_st c)" "seal_entries ext enc clock entries c = Done c'"
    and "drain_state ext (ch_cfg c) (tip_h c) (canonical_h c') (bh_ts (hdr (last (blocks c')))) entries (ch_st c) = Some st1"
    and "no_self_route (canonical_h c') st1"
  shows "total_units (ch_st c') \<le> total_units (ch_st c) +
    sum_list (map (tx_mint_cap (ch_cfg c) \<circ> entry_tx) entries) + block_reward_cap (ch_cfg c) (canonical_h c')"
  using assms by (rule seal_units)

theorem seal_no_inflation_witness:
  "\<exists>c'. seal_entries demo_ext demo_codecs None [] demo_chain = Done c' \<and> total_units (ch_st c') \<le> 1450"
proof -
  obtain c' where run: "seal_entries demo_ext demo_codecs None [] demo_chain = Done c'" and h: "canonical_h c' = 1"
    using demo_seal_empty by blast
  have inv: "xshard_inv (ch_st demo_chain)"
    by (rule xshard_keep [OF demo_xshard_inv]) (simp_all add: demo_chain_def)
  have drain: "drain_state demo_ext (ch_cfg demo_chain) (tip_h demo_chain) (canonical_h c')
      (bh_ts (hdr (last (blocks c')))) [] (ch_st demo_chain) = Some (ch_st demo_chain)"
    by (simp add: h drain_state_def seal_eval demo_eval)
  have route: "no_self_route (canonical_h c') (ch_st demo_chain)"
    by (simp add: no_self_route_def demo_chain_def demo_eval)
  have "total_units (ch_st demo_chain) = 1350"
    using demo_total_units by (simp add: total_units_def demo_chain_def)
  with seal_no_inflation [OF inv run drain route] run show ?thesis
    by (auto simp: h block_reward_cap_def is_legacy_policy_def LEGACY_POLICY_VER_def demo_chain_def)
qed

text \<open>The drain of a delayed transfer that is routed back to its own sender creates units. The
  sender's row is read before the debit and its credited copy is stored last, so the debit and the
  nonce step are lost: the books grow by amount and fee and the sender's nonce stays.\<close>

theorem self_routed_row_mints:
  assumes "apply_due_conservation cfg row h st = Done st'"
    and "conservation_recipient_dst st (pc_sender row) (pc_recipient row) h = Inr (pc_sender row)"
    and "total_units st + unat (pc_amount_pwm row) + unat (pc_fee_pwm row) < 2 ^ 128"
  shows "total_units st' = total_units st + unat (pc_amount_pwm row) + unat (pc_fee_pwm row)
    \<and> nonce_of st' (pc_sender row) = nonce_of st (pc_sender row)"
  using due_balanced [OF assms(1)] assms(2,3) due_effect(4,5) [OF assms(1)]
  by (auto simp: balanced_def self_minted_def)

lemma demo_routed_back:
  "conservation_recipient_dst demo_st demo_S demo_S 14 = Inr demo_S"
  "\<exists>st'. apply_due_conservation demo_cfg
     \<lparr> pc_sender = demo_S, pc_recipient = demo_S, pc_amount_pwm = 100, pc_fee_pwm = 3, pc_nonce = 0,
       pc_enqueue_height = 9, pc_execute_at_height = 14, pc_tx_hash = 0 \<rparr> 14 demo_st = Done st'"
  by (simp_all add: conservation_recipient_dst_def apply_due_conservation_def policy_is_active_at_def
      require_recipient_def checked_add_def bump_nonce_def demo_eval Let_def)

theorem self_routed_row_mints_witness:
  "\<exists>row st'. apply_due_conservation demo_cfg row 14 demo_st = Done st' \<and> total_units st' = 1350 + 103"
proof -
  let ?row = "\<lparr> pc_sender = demo_S, pc_recipient = demo_S, pc_amount_pwm = 100, pc_fee_pwm = 3, pc_nonce = 0,
       pc_enqueue_height = 9, pc_execute_at_height = 14, pc_tx_hash = 0 \<rparr>"
  from demo_routed_back(2) obtain st' where "apply_due_conservation demo_cfg ?row 14 demo_st = Done st'" by blast
  with self_routed_row_mints [OF this] demo_routed_back(1) show ?thesis
    by (intro exI [of _ ?row] exI [of _ st']) (simp add: demo_total_units)
qed

text \<open>A finalized account whose rescue address is the conservation account \<open>demo_S\<close>.\<close>

definition trap_st :: State where
  "trap_st = put_acc demo_B ((genesis_funded demo_B 0 50)\<lparr>active_policies := 2, finalized := True,
     rescue_address := Some demo_S\<rparr>) demo_st"

definition trap_tx :: SignedTx where
  "trap_tx = demo_tx demo_S 0 (Transfer demo_B 100 3)"


section \<open>Replays\<close>

text \<open>C5: A transaction that is not a delayed transfer succeeds at most once. After it has been
  applied, and after any sequence of ledger operations whatever (other transactions through either
  path, refunds, drains, rewards, epoch rolls), applying it again never succeeds.\<close>

theorem no_replay:
  assumes "pending_inv st" "\<not> delayed_body ext tx"
    and "apply_tx_impl ext cfg tx h ts skip st = Done st1"
    and "run_steps (ledger_op ext cfg) ops st1 = Done st2"
  shows "apply_tx_impl ext cfg tx h' ts' skip' st2 \<noteq> Done st3"
proof -
  have "pending_inv st1" by (rule tx_pending_inv [OF assms(1,3)])
  from spent_run [OF assms(2) done_spent [OF assms(3)] this assms(4)] show ?thesis
    by (rule spent_not_done)
qed

theorem no_replay_witness:
  "\<exists>st1. apply_tx_impl demo_ext demo_cfg (demo_tx demo_A 0 (Transfer demo_B 100 3)) 9 0 False demo_st = Done st1 \<and>
     (\<forall>st3. apply_tx_impl demo_ext demo_cfg (demo_tx demo_A 0 (Transfer demo_B 100 3)) 10 0 False
       (reward_producer demo_A 100 st1) \<noteq> Done st3)"
proof -
  let ?tx = "demo_tx demo_A 0 (Transfer demo_B 100 3)"
  obtain st1 where 1: "apply_tx_impl demo_ext demo_cfg ?tx 9 0 False demo_st = Done st1"
    by (simp add: tx_eval demo_eval)
  have nd: "\<not> delayed_body demo_ext ?tx" by (simp add: delayed_body_def demo_tx_def)
  have "run_steps (ledger_op demo_ext demo_cfg) [OpReward demo_A 100] st1 = Done (reward_producer demo_A 100 st1)"
    by simp
  from no_replay [OF demo_pending_inv nd 1 this] 1 show ?thesis by blast
qed

text \<open>A delayed transfer (a TRANSFER of a conservation account) succeeds at most once along every
  run in which no drain executes a row that is routed back to its own sender.\<close>

theorem no_replay_delayed:
  assumes "apply_tx_impl ext cfg tx h ts skip st = Done st1" "clean_run ext cfg st1 ops st2"
  shows "apply_tx_impl ext cfg tx h' ts' skip' st2 \<noteq> Done st3"
  by (rule spent_not_done, rule spent_clean_run [OF assms(2)], rule done_spent [OF assms(1)])

theorem no_replay_delayed_witness:
  "\<exists>st1. apply_tx_impl demo_ext demo_cfg (demo_tx demo_S 0 (Transfer demo_B 100 3)) 9 0 False demo_st = Done st1 \<and>
     (\<forall>st3. apply_tx_impl demo_ext demo_cfg (demo_tx demo_S 0 (Transfer demo_B 100 3)) 10 0 False st1 \<noteq> Done st3)"
proof -
  let ?tx = "demo_tx demo_S 0 (Transfer demo_B 100 3)"
  obtain st1 where 1: "apply_tx_impl demo_ext demo_cfg ?tx 9 0 False demo_st = Done st1"
    by (simp add: tx_eval demo_eval Let_def)
  from no_replay_delayed [OF 1 clean_nil] 1 show ?thesis by blast
qed

section \<open>Cross-shard transfers\<close>

text \<open>C6: An export id is imported at most once. After a successful IMPORT of an id, and any further
  ledger operations, no transaction that imports the same id succeeds.\<close>

theorem import_at_most_once:
  assumes "xshard_inv st" "body tx = Import t amount eid" "body tx' = Import t' amount' eid"
    and "apply_tx_impl ext cfg tx h ts skip st = Done st1"
    and "run_steps (ledger_op ext cfg) ops st1 = Done st2"
  shows "apply_tx_impl ext cfg tx' h' ts' skip' st2 \<noteq> Done st3"
proof -
  have "eid |\<in>| imported_set st1" using tx_consumed [OF assms(4)] by (simp add: assms(2))
  moreover have "consumed_grow st1 st2"
    by (rule xledger.run_rel [OF xshard_inv_tx [OF assms(1,4)] assms(5)])
  ultimately have "eid |\<in>| imported_set st2" by (auto simp: consumed_grow_def)
  from consumed_not_imported [OF this assms(3)] show ?thesis .
qed

text \<open>C7: Units whose lock was refunded are never imported on this shard: once the refund at a height
  has returned an expired lock, no transaction that imports its id succeeds, after any further run.\<close>

theorem refunded_never_imported:
  assumes "xshard_inv st" "l \<in> set (cross_shard_locks st)" "lk_state l = Locked" "lk_unlock_height l \<le> h"
    and "run_steps (ledger_op ext cfg) ops (refund_exp_locks h st) = Done st2"
    and "body tx = Import t amount (lk_export_id l)"
  shows "apply_tx_impl ext cfg tx h' ts' skip' st2 \<noteq> Done st3"
proof -
  have "lk_export_id l |\<in>| imported_set (refund_exp_locks h st)"
    using assms(2-4) by (auto simp: refund_exp_locks_spec fset_of_list.rep_eq lock_due_def)
  moreover have "consumed_grow (refund_exp_locks h st) st2"
    by (rule xledger.run_rel [OF xshard_inv_refund [OF assms(1)] assms(5)])
  ultimately have "lk_export_id l |\<in>| imported_set st2" by (auto simp: consumed_grow_def)
  from consumed_not_imported [OF this assms(6)] show ?thesis .
qed

definition demo_lock :: CrossShardLock where
  "demo_lock = \<lparr> lk_export_id = 77, lk_sender = demo_A, lk_amount_pwm = 20, lk_target_domain = 512,
     lk_refund_account = demo_A, lk_lock_height = 1, lk_unlock_height = 9, lk_state = Locked \<rparr>"

definition demo_locked_st :: State where
  "demo_locked_st = demo_st\<lparr>cross_shard_locks := [demo_lock],
     exported_registry := fmupd 77 \<lparr> pv_to = demo_B, pv_target_domain = 0, pv_amount = 20 \<rparr> fmempty\<rparr>"

lemma demo_locked_inv: "xshard_inv demo_locked_st"
  by (simp add: xshard_inv_def lock_ids_def lock_ok_def demo_locked_st_def demo_lock_def)

theorem refunded_never_imported_witness:
  "\<forall>st3. apply_tx_impl demo_ext demo_cfg (demo_tx demo_A 0 (Import demo_A 20 77)) 10 0 False
     (refund_exp_locks 9 demo_locked_st) \<noteq> Done st3"
  using refunded_never_imported [OF demo_locked_inv, of demo_lock 9 demo_ext demo_cfg "[]" _ "demo_tx demo_A 0 (Import demo_A 20 77)"]
  by (simp add: demo_locked_st_def demo_lock_def demo_tx_def)

definition demo_import :: SignedTx where
  "demo_import = (demo_tx demo_B 0 (Import demo_B 20 77))\<lparr>import_fee := Some 10000\<rparr>"

theorem import_at_most_once_witness:
  "\<exists>st1. apply_tx_impl demo_ext demo_cfg demo_import 8 0 False
       (put_acc demo_B (genesis_funded demo_B 0 20000) demo_locked_st) = Done st1 \<and>
     (\<forall>st3. apply_tx_impl demo_ext demo_cfg (demo_tx demo_A 0 (Import demo_A 20 77)) 10 0 False st1 \<noteq> Done st3)"
proof -
  let ?st = "put_acc demo_B (genesis_funded demo_B 0 20000) demo_locked_st"
  have inv: "xshard_inv ?st" by (rule xshard_keep [OF demo_locked_inv]) simp_all
  obtain st1 where 1: "apply_tx_impl demo_ext demo_cfg demo_import 8 0 False ?st = Done st1"
    by (simp add: demo_import_def demo_locked_st_def demo_lock_def tx_eval demo_eval apply_import_def Let_def
        lock_idx_def expected_export_def import_context_is_valid_def MIN_IMPORT_FEE_UNITS_def)
  show ?thesis
    using import_at_most_once [OF inv _ _ 1, of demo_B 20 77 "demo_tx demo_A 0 (Import demo_A 20 77)" demo_A 20 "[]"] 1
    by (simp add: demo_import_def demo_tx_def)
qed

section \<open>Transactions\<close>

text \<open>C8: A failed transaction leaves the state alone, with one exception: an INIT of an unknown
  account leaves behind the empty row it inserted for it.\<close>

theorem tx_error_atomic:
  assumes "apply_tx_impl ext cfg tx h ts skip st = Failed e st'"
  shows "st' = st \<or> is_init (body tx) \<and> fmlookup (accounts st) (computed_account_id ext tx) = None \<and>
    st' = with_stub tx (computed_account_id ext tx) st"
  using tx_Failed_state [OF assms] by (auto simp: with_stub_def split: if_splits)

theorem tx_error_atomic_witness:
  "\<exists>e st'. apply_tx_impl demo_ext demo_cfg (demo_tx demo_A 0 (Transfer demo_B 5000 3)) 9 0 False demo_st = Failed e st'
     \<and> st' = demo_st"
proof -
  obtain e st' where 1: "apply_tx_impl demo_ext demo_cfg (demo_tx demo_A 0 (Transfer demo_B 5000 3)) 9 0 False demo_st = Failed e st'"
    by (simp add: tx_eval demo_eval)
  from tx_error_atomic [OF 1] 1 show ?thesis by (auto simp: demo_tx_def)
qed

text \<open>C9: The prechecked path of sealing is the full path when the signature is valid and the policy
  evaluation at the inclusion height allows the transaction: same state, same error, same panic.\<close>

theorem prechecked_equals_full:
  assumes "verify_sig ext tx"
    and "evaluate_policy ext (with_stub tx (computed_account_id ext tx) st) tx h = Allow"
  shows "apply_prechecked_tx ext cfg tx h ts st = apply_tx_with_ctx ext cfg tx h ts st"
  using assms by (rule prechecked_same)

theorem prechecked_equals_full_witness:
  "apply_prechecked_tx demo_ext demo_cfg (demo_tx demo_A 0 (Transfer demo_B 100 3)) 9 0 demo_st =
     apply_tx_with_ctx demo_ext demo_cfg (demo_tx demo_A 0 (Transfer demo_B 100 3)) 9 0 demo_st"
  by (rule prechecked_equals_full) (simp_all add: tx_eval demo_eval)

text \<open>Where the policy evaluation redirects a transfer to the rescue account of a finalized
  recipient, the prechecked path drops the redirect: the finalized account itself is credited.\<close>

theorem prechecked_drops_redirect:
  "\<exists>st1 st2. apply_tx_with_ctx demo_ext demo_cfg (demo_tx demo_A 0 (Transfer demo_B 100 3)) 9 0
       (put_acc demo_B ((genesis_funded demo_B 0 50)\<lparr>active_policies := 2, finalized := True,
          rescue_address := Some demo_S\<rparr>) demo_st) = Done st1 \<and>
     apply_prechecked_tx demo_ext demo_cfg (demo_tx demo_A 0 (Transfer demo_B 100 3)) 9 0
       (put_acc demo_B ((genesis_funded demo_B 0 50)\<lparr>active_policies := 2, finalized := True,
          rescue_address := Some demo_S\<rparr>) demo_st) = Done st2 \<and>
     map_option balance_pwm (fmlookup (accounts st1) demo_B) = Some 50 \<and>
     map_option balance_pwm (fmlookup (accounts st1) demo_S) = Some 400 \<and>
     map_option balance_pwm (fmlookup (accounts st2) demo_B) = Some 150 \<and>
     map_option balance_pwm (fmlookup (accounts st2) demo_S) = Some 300"
  by (simp add: tx_eval demo_eval eval_emerg_redirect_def policy_bit_cases touch_acct_mrks_def compute_lazy_marks_def)

text \<open>C10: Only the sender is debited. In a successful transaction every other account keeps its keys,
  its stake and its policies, and loses neither liquid units nor marks.\<close>

theorem only_sender_debited:
  assumes "apply_tx_impl ext cfg tx h ts skip st = Done st'"
    and "x \<noteq> computed_account_id ext tx" "fmlookup (accounts st) x = Some a"
  shows "\<exists>a'. fmlookup (accounts st') x = Some a' \<and> not_debited a a'"
  using others_not_debited_tx [OF assms(1)] assms(2,3) by (simp add: others_not_debited_def)

theorem only_sender_debited_witness:
  "\<exists>st' a'. apply_tx_impl demo_ext demo_cfg (demo_tx demo_A 0 (Transfer demo_B 100 3)) 9 0 False demo_st = Done st' \<and>
     fmlookup (accounts st') demo_B = Some a' \<and> not_debited (genesis_funded demo_B 0 50) a'"
proof -
  obtain st' where 1: "apply_tx_impl demo_ext demo_cfg (demo_tx demo_A 0 (Transfer demo_B 100 3)) 9 0 False demo_st = Done st'"
    by (simp add: tx_eval demo_eval)
  from only_sender_debited [OF 1, of demo_B "genesis_funded demo_B 0 50"] 1 show ?thesis
    by (simp add: demo_tx_def) (simp add: demo_st_def)
qed

text \<open>C11: Only its key moves an account. A transaction of an initialized account that succeeds on the
  full path is validly signed, under the public key and derivation index the account was bound to,
  and carries the account's current nonce.\<close>

theorem sender_must_authorize:
  assumes "apply_tx_with_ctx ext cfg tx h ts st = Done st'"
    and "fmlookup (accounts st) (computed_account_id ext tx) = Some a" "initialized a"
  shows "verify_sig ext tx \<and> acc_signing_pubkey a = signer_pk tx \<and>
    acc_derivation_index a = derivation_index tx \<and> nonce a = tx_nonce tx"
  using assms unfolding apply_tx_with_ctx_def by (rule sender_authorized)

theorem sender_must_authorize_witness:
  "verify_sig demo_ext (demo_tx demo_A 0 (Stake 7))"
proof -
  obtain st' where 1: "apply_tx_with_ctx demo_ext demo_cfg (demo_tx demo_A 0 (Stake 7)) 9 0 demo_st = Done st'"
    by (simp add: tx_eval demo_eval Let_def touch_acct_mrks_def)
  show ?thesis
    using sender_must_authorize [OF 1, of "genesis_funded demo_A 0 1000"]
    by (simp add: demo_eval)
qed

text \<open>A finalized account is frozen on the full path: the only transactions of it that can succeed
  are INIT (which then fails as already initialized) and the activation of an emergency policy that
  is dormant and not yet active.\<close>

theorem finalized_account_frozen:
  assumes "fmlookup (accounts st) (computed_account_id ext tx) = Some a" "finalized a"
    and "apply_tx_with_ctx ext cfg tx h ts st = Done st'"
  shows "is_init (body tx) \<or> (\<exists>t target fee. body tx = Policy t (ActivatePolicy 1 target) fee \<and>
    active_policies a AND 2 = 0 \<and> dormant_policies a AND 2 \<noteq> 0)"
proof -
  have "\<not> is_finalized_blocked (body tx) a" by (rule finalized_blocked [OF assms])
  then show ?thesis
    by (cases "(body tx, a)" rule: is_finalized_blocked.cases)
       (auto simp: policy_bit_cases elim!: finalized_policy_allowed.elims split: if_splits)
qed

text \<open>A finalized account with a dormant emergency policy, and its activation.\<close>

definition demo_frozen :: Account where
  "demo_frozen = (genesis_funded demo_B 0 50)\<lparr>dormant_policies := 2, finalized := True, rescue_address := Some demo_S\<rparr>"

definition demo_activation :: SignedTx where
  "demo_activation = (demo_tx demo_B 0 (Policy demo_B (ActivatePolicy 1 (Some demo_S)) 0))
     \<lparr>cosigns := [\<lparr> cs_signer_pk = demo_S, cs_role = Rescue, cs_signature = 0 \<rparr>]\<rparr>"

lemma demo_activation_done:
  "\<exists>st'. apply_tx_with_ctx demo_ext demo_cfg demo_activation 9 0 (put_acc demo_B demo_frozen demo_st) = Done st'"
  by (simp add: demo_activation_def demo_frozen_def tx_eval demo_eval policy_bit_cases apply_policy_def Let_def
      validate_pol_action_def from_policy_id_def has_role_cosign_def has_valid_cosign_def evacuate_def touch_acct_mrks_def)

theorem finalized_account_frozen_witness:
  "\<exists>t target fee. body demo_activation = Policy t (ActivatePolicy 1 target) fee \<and>
     active_policies demo_frozen AND 2 = 0 \<and> dormant_policies demo_frozen AND 2 \<noteq> 0"
proof -
  obtain st' where 1: "apply_tx_with_ctx demo_ext demo_cfg demo_activation 9 0 (put_acc demo_B demo_frozen demo_st) = Done st'"
    using demo_activation_done by blast
  show ?thesis
    using finalized_account_frozen [OF _ _ 1, of demo_frozen]
    by (simp add: demo_activation_def demo_tx_def) (simp add: demo_frozen_def)
qed

section \<open>Chains\<close>

text \<open>C12: In every chain reachable from boot by seals, evidence and mode changes: the retained tail is
  linked (consecutive heights, each block naming the hash of the one before it) and within its cap,
  the canonical height is that of the last block, queued delayed transfers belong to distinct
  initialized conservation accounts at the nonce they were signed with, locks, registry and consumed
  ids agree, and evidence records are distinct.\<close>

theorem reachable_chain_invariant:
  assumes "chain_reach ext enc cfg sks c"
  shows "chain_inv ext enc cfg sks c"
  using assms by (rule reach_inv)

theorem reachable_chain_invariant_witness:
  "chain_inv demo_ext demo_codecs demo_cfg [demo_A] demo_chain"
  by (rule reachable_chain_invariant [OF demo_reach])

text \<open>What a seal appends: one block at the next height that names the previous tip's hash, carries
  the transactions in order with their Merkle root, commits to the state it leaves behind, and whose
  header verifies under the key of the producer it names.\<close>

theorem seal_appends_signed_block:
  assumes "seal_entries ext enc clock entries c = Done c'"
    and "\<And>sk m. sk \<in> set (val_sks c) \<Longrightarrow> sig_correct ext sk m"
  shows "let b = last (blocks c'); h = hdr b in
    unat (bh_height h) = Suc (unat (canonical_h c)) \<and> canonical_h c' = bh_height h \<and>
    bh_prev_hash h = tip_hash ext enc c \<and> txs b = map entry_tx entries \<and>
    bh_tx_root h = txs_root ext (map entry_tx entries) \<and>
    bh_state_root h = state_digest ext (enc_state enc) (ch_st c') \<and>
    unat (bh_prod_idx h) < length (val_sks c) \<and>
    hdr_verify_sig ext h (x_pubkey ext (val_sks c ! unat (bh_prod_idx h)))"
  using assms(1)
proof (cases rule: seal_Done)
  case (1 height ts st prod_idx h)
  let ?b = "\<lparr> hdr = hdr_sign ext (val_sks c ! unat prod_idx) h, txs = map entry_tx entries \<rparr>"
  have b: "last (blocks c') = ?b"
    using last_pop_tail [of "blocks c @ [?b]"] by (simp add: 1(5))
  have "hdr_verify_sig ext (hdr_sign ext (val_sks c ! unat prod_idx) h) (x_pubkey ext (val_sks c ! unat prod_idx))"
    by (intro hdr_sign_verifies assms(2)) (simp add: 1(4))
  moreover have "canonical_h c' = height" "ch_st c' = st" by (simp_all add: 1(5))
  moreover have "bh_height h = height" "bh_prev_hash h = tip_hash ext enc c" "bh_prod_idx h = prod_idx"
    "bh_tx_root h = txs_root ext (map entry_tx entries)" "bh_state_root h = state_digest ext (enc_state enc) st"
    by (simp_all add: 1(3))
  ultimately show ?thesis
    using next_apply_ctx_height [OF 1(1), THEN conjunct1] 1(4) unfolding Let_def b by simp
qed

theorem seal_appends_signed_block_witness:
  "\<exists>c'. seal_entries demo_ext demo_codecs None [] demo_chain = Done c' \<and>
     bh_prev_hash (hdr (last (blocks c'))) = tip_hash demo_ext demo_codecs demo_chain"
proof -
  obtain c' where run: "seal_entries demo_ext demo_codecs None [] demo_chain = Done c'"
    using demo_seal_empty by blast
  from seal_appends_signed_block [OF run demo_sig_correct] run show ?thesis by (auto simp: Let_def)
qed

text \<open>A seal that fails leaves the chain as it was and hands back every transaction, in order.\<close>

theorem seal_all_or_nothing:
  assumes "seal_entries ext enc clock entries c = Failed (e, ret) c'"
  shows "c' = c \<and> ret = map entry_tx entries"
  using assms
  by (auto simp: seal_entries_def Let_def split: option.splits sum.splits prod.splits outcome.splits if_splits)

theorem seal_all_or_nothing_witness:
  "\<exists>e ret c'. seal_entries demo_ext demo_codecs None [Raw (demo_tx demo_A 7 (Stake 1))] demo_chain = Failed (e, ret) c'
     \<and> c' = demo_chain \<and> ret = [demo_tx demo_A 7 (Stake 1)]"
proof -
  obtain e ret c' where run:
    "seal_entries demo_ext demo_codecs None [Raw (demo_tx demo_A 7 (Stake 1))] demo_chain = Failed (e, ret) c'"
    by (simp add: seal_eval tx_eval demo_eval)
  from seal_all_or_nothing [OF run] run show ?thesis by simp
qed

text \<open>The producer of a block of a reachable chain is a member of the validator set (the index
  into the keys never runs out), and when an epoch begins with the block its account holds the
  minimum stake in the state the block builds on.\<close>

theorem producer_is_validator:
  assumes "chain_reach ext enc cfg sks c" "length (vc_set (vals cfg)) \<le> 2 ^ 16"
    and "seal_state ext cfg (tip_h c) height ts entries (ch_st c) = Done (st, prod_idx)"
  shows "unat prod_idx < length (vc_set (vals cfg)) \<and> (is_epoch_boundary height cfg \<longrightarrow>
    staked_validator cfg (ch_st c) (vc_set (vals cfg) ! unat prod_idx))"
proof -
  have cfg: "ch_cfg c = cfg" using reach_inv [OF assms(1)] by (simp add: chain_inv_def)
  show ?thesis
    using seal_producer [of c] reach_active [OF assms(1)] assms(2,3) unfolding cfg by blast
qed

theorem producer_is_validator_witness:
  "\<exists>st prod_idx. seal_state demo_ext demo_cfg 0 1 5 [] (ch_st demo_chain) = Done (st, prod_idx) \<and> unat prod_idx < 1"
proof -
  obtain st p where run: "seal_state demo_ext demo_cfg (tip_h demo_chain) 1 5 [] (ch_st demo_chain) = Done (st, p)"
    by (simp add: seal_eval demo_eval)
  from producer_is_validator [OF demo_reach _ run] run show ?thesis
    by (simp add: tip_h_def) (simp add: demo_chain_def)
qed

end
